(* ===== verification/SF_Prelude.thy ===== *)
theory SF_Prelude
  imports Main
begin

text \<open>
  Shared vocabulary of the development: the loop shapes the Go code repeats (first error
  of a list, first duplicate of a list, members missing from another list, an index
  built from a list where the last entry wins), and the contract every state machine
  of the development satisfies.  The lemmas about these shapes are collected in
  \<open>loop_simps\<close> and are simplification rules.
\<close>

named_theorems loop_simps \<open>characteristic facts of the shared loop shapes\<close>
named_theorems outcome_simps \<open>facts about error values and results\<close>

section \<open>Fallible steps\<close>

text \<open>
  A call that may fail returns \<open>Inl\<close> the error or \<open>Inr\<close> its result; \<open>and_then\<close> is the
  early return of \<open>if err != nil { return err }\<close>, \<open>require\<close> a guard.
\<close>

definition and_then :: "'e + 'a \<Rightarrow> ('a \<Rightarrow> 'e + 'b) \<Rightarrow> 'e + 'b" where
  "and_then m f = (case m of Inl e \<Rightarrow> Inl e | Inr x \<Rightarrow> f x)"

definition require :: "bool \<Rightarrow> 'e \<Rightarrow> 'e + unit" where
  "require b e = (if b then Inr () else Inl e)"

definition refuse_if :: "'e option \<Rightarrow> 'e + unit" where
  "refuse_if r = (case r of Some e \<Rightarrow> Inl e | None \<Rightarrow> Inr ())"

lemma and_then_simps [simp, outcome_simps]:
  "and_then (Inl e) f = Inl e" "and_then (Inr x) f = f x"
  by (simp_all add: and_then_def)

lemma and_then_Inr [simp, outcome_simps]:
  "and_then m f = Inr y \<longleftrightarrow> (\<exists>x. m = Inr x \<and> f x = Inr y)"
  by (cases m) auto

lemma and_then_Inl:
  "and_then m f = Inl e \<longleftrightarrow> m = Inl e \<or> (\<exists>x. m = Inr x \<and> f x = Inl e)"
  by (cases m) auto

lemma require_iff [simp, outcome_simps]:
  "require b e = Inr u \<longleftrightarrow> b" "require b e = Inl e' \<longleftrightarrow> \<not> b \<and> e' = e"
  by (auto simp: require_def)

lemma refuse_if_iff [simp, outcome_simps]:
  "refuse_if r = Inr u \<longleftrightarrow> r = None" "refuse_if r = Inl e \<longleftrightarrow> r = Some e"
  by (auto simp: refuse_if_def split: option.splits)

section \<open>Loops the code repeats\<close>

text \<open>A loop that returns the first error its body produces.\<close>

fun first_error :: "('a \<Rightarrow> 'e option) \<Rightarrow> 'a list \<Rightarrow> 'e option" where
  "first_error f [] = None"
| "first_error f (x # xs) = (case f x of Some e \<Rightarrow> Some e | None \<Rightarrow> first_error f xs)"

lemma first_error_cong [fundef_cong]:
  "xs = ys \<Longrightarrow> (\<And>x. x \<in> set ys \<Longrightarrow> f x = g x) \<Longrightarrow> first_error f xs = first_error g ys"
proof (induction xs arbitrary: ys)
  case Nil
  then show ?case by simp
next
  case (Cons x xs)
  then have tl: "first_error f xs = first_error g xs" by auto
  have hd: "f x = g x" using Cons.prems by auto
  show ?case using Cons.prems(1) [symmetric] by (simp add: tl hd split: option.split)
qed

lemma first_error_None [simp, loop_simps]:
  "first_error f xs = None \<longleftrightarrow> (\<forall>x \<in> set xs. f x = None)"
  by (induction xs) (auto split: option.splits)

text \<open>The early-return step on its own, as it appears when a literal list of checks unfolds.\<close>

lemma early_return_None [simp, loop_simps]:
  "(case a of None \<Rightarrow> b | Some e \<Rightarrow> Some e) = None \<longleftrightarrow> a = None \<and> b = None"
  by (cases a) auto

lemma first_error_Some:
  "first_error f xs = Some e \<Longrightarrow> \<exists>x \<in> set xs. f x = Some e"
  by (induction xs) (auto split: option.splits)

lemma first_error_append:
  "first_error f (xs @ ys) = (case first_error f xs of Some e \<Rightarrow> Some e | None \<Rightarrow> first_error f ys)"
  by (induction xs) (simp_all del: first_error_None split: option.split)

text \<open>The loop that appends what each element yields, and stops at the first error.\<close>

fun collect_all :: "('a \<Rightarrow> 'e + 'b list) \<Rightarrow> 'a list \<Rightarrow> 'e + 'b list" where
  "collect_all f [] = Inr []"
| "collect_all f (x # xs) =
     (case f x of Inl e \<Rightarrow> Inl e
      | Inr ys \<Rightarrow> (case collect_all f xs of Inl e \<Rightarrow> Inl e | Inr zs \<Rightarrow> Inr (ys @ zs)))"

lemma collect_all_cong [fundef_cong]:
  "xs = ys \<Longrightarrow> (\<And>x. x \<in> set ys \<Longrightarrow> f x = g x) \<Longrightarrow> collect_all f xs = collect_all g ys"
  by (induction xs arbitrary: ys) (auto split: sum.splits)

lemma collect_all_Inr:
  "collect_all f xs = Inr ys \<Longrightarrow>
     (\<forall>x \<in> set xs. \<exists>zs. f x = Inr zs \<and> set zs \<subseteq> set ys) \<and> (\<forall>y \<in> set ys. \<exists>x \<in> set xs. \<exists>zs. f x = Inr zs \<and> y \<in> set zs)"
  by (induction xs arbitrary: ys) (fastforce split: sum.splits)+

lemma collect_all_Inl: "collect_all f xs = Inl e \<Longrightarrow> \<exists>x \<in> set xs. f x = Inl e"
  by (induction xs) (auto split: sum.splits)

text \<open>The same loop over a slice with its index.\<close>

lemma first_error_enumerate:
  "first_error (\<lambda>(i, x). check i x) (enumerate k xs) = None \<longleftrightarrow>
     (\<forall>i < length xs. check (k + i) (xs ! i) = None)"
  by (induction xs arbitrary: k) (auto simp del: first_error_None simp: All_less_Suc2)

lemma first_error_enumerate_None:
  assumes "\<And>i x. x \<in> set xs \<Longrightarrow> check i x = None \<longleftrightarrow> P x"
  shows "first_error (\<lambda>(i, x). check i x) (enumerate 0 xs) = None \<longleftrightarrow> (\<forall>x \<in> set xs. P x)"
  unfolding first_error_enumerate using assms by (auto simp: all_set_conv_all_nth)

text \<open>The members of one list that are absent from another, in the first list's order.\<close>

definition missing_from :: "'a list \<Rightarrow> 'a list \<Rightarrow> 'a list" where
  "missing_from old next = filter (\<lambda>v. v \<notin> set next) old"

lemma missing_from_empty [simp, loop_simps]:
  "missing_from old next = [] \<longleftrightarrow> set old \<subseteq> set next"
  by (auto simp: missing_from_def filter_empty_conv)

lemma set_missing_from [simp, loop_simps]:
  "set (missing_from old next) = set old - set next"
  by (auto simp: missing_from_def)

text \<open>The first element that repeats an earlier one.\<close>

fun first_dup_after :: "'a list \<Rightarrow> 'a list \<Rightarrow> 'a option" where
  "first_dup_after seen [] = None"
| "first_dup_after seen (x # xs) = (if x \<in> set seen then Some x else first_dup_after (x # seen) xs)"

definition first_duplicate :: "'a list \<Rightarrow> 'a option" where
  "first_duplicate xs = first_dup_after [] xs"

lemma first_dup_after_None:
  "first_dup_after seen xs = None \<longleftrightarrow> distinct xs \<and> set xs \<inter> set seen = {}"
  by (induction xs arbitrary: seen) auto

lemma first_duplicate_None [simp, loop_simps]:
  "first_duplicate xs = None \<longleftrightarrow> distinct xs"
  by (simp add: first_duplicate_def first_dup_after_None)

lemma first_dup_after_Some:
  "first_dup_after seen xs = Some x \<Longrightarrow> x \<in> set xs"
  by (induction xs arbitrary: seen) (auto split: if_splits)

text \<open>
  An index built by assigning into a map while walking a list: the last entry of a key wins.
\<close>

definition index_by :: "('a \<Rightarrow> 'k) \<Rightarrow> 'a list \<Rightarrow> 'k \<Rightarrow> 'a option" where
  "index_by key xs k = find (\<lambda>x. key x = k) (rev xs)"

lemma index_by_None [simp, loop_simps]:
  "index_by key xs k = None \<longleftrightarrow> k \<notin> key ` set xs"
  by (auto simp: index_by_def find_None_iff)

lemma index_by_SomeD:
  "index_by key xs k = Some x \<Longrightarrow> x \<in> set xs \<and> key x = k"
  by (auto simp: index_by_def find_Some_iff in_set_conv_nth rev_nth)
    (metis diff_Suc_less length_greater_0_conv less_nat_zero_code list.size(3))

lemma index_by_ex:
  "x \<in> set xs \<Longrightarrow> \<exists>y. index_by key xs (key x) = Some y"
proof -
  assume "x \<in> set xs"
  then have "index_by key xs (key x) \<noteq> None" by auto
  then show ?thesis by (simp only: not_None_eq)
qed

lemma index_by_distinct:
  assumes "distinct (map key xs)" and "x \<in> set xs"
  shows "index_by key xs (key x) = Some x"
proof -
  obtain y where y: "index_by key xs (key x) = Some y"
    using index_by_ex [OF assms(2)] by blast
  then have "y \<in> set xs" and "key y = key x" by (auto dest: index_by_SomeD)
  with assms have "y = x" by (auto simp: distinct_map inj_on_def)
  with y show ?thesis by simp
qed

lemma find_SomeD: "find P xs = Some x \<Longrightarrow> x \<in> set xs \<and> P x"
  by (induction xs) (auto split: if_splits)

section \<open>Rows with a key\<close>

text \<open>Counting rows after the one row of a key was changed or dropped.\<close>

lemma filter_update_key:
  assumes "distinct (map key xs)" and "x \<in> set xs"
  shows "length (filter P (map (\<lambda>y. if key y = key x then f y else y) xs)) =
    length (filter P xs) - (if P x then 1 else 0) + (if P (f x) then 1 else (0::nat))"
  using assms
proof (induction xs)
  case Nil
  then show ?case by simp
next
  case (Cons a xs)
  show ?case
  proof (cases "a = x")
    case True
    then have "\<forall>y \<in> set xs. key y \<noteq> key x" using Cons.prems(1) by (auto simp: image_iff)
    then have "map (\<lambda>y. if key y = key x then f y else y) xs = xs" by (intro map_idI) auto
    with True show ?thesis by simp
  next
    case False
    then have x: "x \<in> set xs" "key a \<noteq> key x" using Cons.prems by (auto simp: image_iff)
    have "P x \<Longrightarrow> 0 < length (filter P xs)" using x(1) by (auto simp: filter_empty_conv)
    with Cons.IH [OF _ x(1)] Cons.prems(1) x(2) show ?thesis by auto
  qed
qed

lemma filter_drop_key:
  assumes "distinct (map key xs)" and "x \<in> set xs"
  shows "length (filter P (filter (\<lambda>y. key y \<noteq> key x) xs)) = length (filter P xs) - (if P x then 1 else (0::nat))"
  using assms
proof (induction xs)
  case Nil
  then show ?case by simp
next
  case (Cons a xs)
  show ?case
  proof (cases "a = x")
    case True
    then have "\<forall>y \<in> set xs. key y \<noteq> key x" using Cons.prems(1) by (auto simp: image_iff)
    then have "filter (\<lambda>y. key y \<noteq> key x) xs = xs" by simp
    with True show ?thesis by simp
  next
    case False
    then have x: "x \<in> set xs" "key a \<noteq> key x" using Cons.prems by (auto simp: image_iff)
    have "P x \<Longrightarrow> 0 < length (filter P xs)" using x(1) by (auto simp: filter_empty_conv)
    with Cons.IH [OF _ x(1)] Cons.prems(1) x(2) show ?thesis by auto
  qed
qed

text \<open>Texts joined by a separator neither first part holds.\<close>

lemma before_colon:
  "c \<notin> set a \<Longrightarrow> c \<notin> set b \<Longrightarrow> a @ c # x = b @ c # y \<longleftrightarrow> a = b \<and> x = y"
proof (induction a arbitrary: b)
  case (Cons d a)
  then show ?case by (cases b) auto
qed (auto simp: Cons_eq_append_conv)

section \<open>State machines\<close>

text \<open>
  The contract of a component with state: its start states, its steps, and an invariant
  that holds at the start and is kept by every step.  Each component interprets it with
  its own step relation, and reads off that the invariant holds in every state a run
  can reach.
\<close>

inductive reachable_from :: "('s \<Rightarrow> bool) \<Rightarrow> ('s \<Rightarrow> 's \<Rightarrow> bool) \<Rightarrow> 's \<Rightarrow> bool"
  for start :: "'s \<Rightarrow> bool" and step :: "'s \<Rightarrow> 's \<Rightarrow> bool" where
  start_reachable: "start s \<Longrightarrow> reachable_from start step s"
| step_reachable: "reachable_from start step s \<Longrightarrow> step s t \<Longrightarrow> reachable_from start step t"

locale machine =
  fixes start :: "'s \<Rightarrow> bool"
    and step :: "'s \<Rightarrow> 's \<Rightarrow> bool"
    and inv :: "'s \<Rightarrow> bool"
  assumes inv_start: "start s \<Longrightarrow> inv s"
    and inv_step: "inv s \<Longrightarrow> step s t \<Longrightarrow> inv t"
begin

lemma reachable_inv:
  "reachable_from start step s \<Longrightarrow> inv s"
  by (induction rule: reachable_from.induct) (auto intro: inv_start inv_step)

lemma run_inv:
  "step\<^sup>*\<^sup>* s t \<Longrightarrow> inv s \<Longrightarrow> inv t"
  by (induction rule: rtranclp_induct) (auto intro: inv_step)

end

end
