(* ===== verification/Go_Text.thy ===== *)
theory Go_Text
  imports SF_Prelude
begin

text \<open>
  The parts of Go's standard library that decide what a stored string means: UTF-8
  decoding as \<open>unicode/utf8\<close> and \<open>range\<close> perform it (a malformed byte is one
  rune of width one), prefix tests and lower-casing from \<open>strings\<close>, decimal
  rendering of a non-negative integer, and the two layouts \<open>time.Parse\<close> is called
  with.  A Go string is a list of bytes, one \<open>char\<close> each.
\<close>

section \<open>UTF-8\<close>

definition byte_in :: "nat \<Rightarrow> nat \<Rightarrow> char \<Rightarrow> bool" where
  "byte_in lo hi c \<longleftrightarrow> lo \<le> (of_char c :: nat) \<and> (of_char c :: nat) \<le> hi"

text \<open>Whether the list starts with bytes in the given ranges.\<close>

fun starts_in :: "(nat \<times> nat) list \<Rightarrow> string \<Rightarrow> bool" where
  "starts_in [] cs = True"
| "starts_in ((lo, hi) # rs) (c # cs) = (byte_in lo hi c \<and> starts_in rs cs)"
| "starts_in (r # rs) [] = False"

text \<open>
  The well-formed sequences of \<open>utf8.DecodeRuneInString\<close>, by the ranges of their bytes.
\<close>

definition utf8_forms :: "(nat \<times> nat) list list" where
  "utf8_forms =
    [[(0, 127)],
     [(194, 223), (128, 191)],
     [(224, 224), (160, 191), (128, 191)],
     [(225, 236), (128, 191), (128, 191)],
     [(237, 237), (128, 159), (128, 191)],
     [(238, 239), (128, 191), (128, 191)],
     [(240, 240), (144, 191), (128, 191), (128, 191)],
     [(241, 243), (128, 191), (128, 191), (128, 191)],
     [(244, 244), (128, 143), (128, 191), (128, 191)]]"

definition rune_form :: "string \<Rightarrow> (nat \<times> nat) list option" where
  "rune_form s = find (\<lambda>f. starts_in f s) utf8_forms"

text \<open>A byte that starts no well-formed sequence is decoded alone, as U+FFFD of width one.\<close>

definition rune_width :: "string \<Rightarrow> nat" where
  "rune_width s = (case rune_form s of Some f \<Rightarrow> length f | None \<Rightarrow> 1)"

lemma starts_in_length: "starts_in f s \<Longrightarrow> length f \<le> length s"
  by (induction f s rule: starts_in.induct) auto

lemma rune_form_length:
  "rune_form s = Some f \<Longrightarrow> 1 \<le> length f \<and> length f \<le> 4 \<and> length f \<le> length s"
  by (auto simp: rune_form_def utf8_forms_def find_Some_iff nth_Cons split: if_splits nat.splits
      dest: starts_in_length)

lemma rune_width_pos [simp]: "0 < rune_width s"
  by (auto simp: rune_width_def dest: rune_form_length split: option.splits)

lemma rune_width_le: "s \<noteq> [] \<Longrightarrow> rune_width s \<le> length s"
  by (auto simp: rune_width_def Suc_le_eq dest: rune_form_length split: option.splits)

text \<open>The runes of a string, each as the bytes it was decoded from.\<close>

function runes :: "string \<Rightarrow> string list" where
  "runes [] = []"
| "runes (c # cs) = take (rune_width (c # cs)) (c # cs) # runes (drop (rune_width (c # cs)) (c # cs))"
  by pat_completeness auto
termination by (relation "measure length") (auto simp: diff_less)

definition RuneCountInString :: "string \<Rightarrow> nat" where
  "RuneCountInString s = length (runes s)"

declare runes.simps(2) [simp del]

lemma runes_step:
  "s \<noteq> [] \<Longrightarrow> runes s = take (rune_width s) s # runes (drop (rune_width s) s)"
  by (cases s) (simp_all add: runes.simps(2))

lemma runes_induct [case_names Nil Cons]:
  "P [] \<Longrightarrow> (\<And>s. s \<noteq> [] \<Longrightarrow> P (drop (rune_width s) s) \<Longrightarrow> P s) \<Longrightarrow> P s"
  by (induction s rule: runes.induct) blast+

lemma concat_runes [simp]: "concat (runes s) = s"
  by (induction s rule: runes_induct) (simp, subst runes_step, simp_all)

lemma runes_nonempty: "r \<in> set (runes s) \<Longrightarrow> r \<noteq> []"
proof (induction s rule: runes_induct)
  case (Cons s)
  have "0 < rune_width s" by simp
  with Cons show ?case by (auto simp: runes_step [OF Cons(1)] simp del: rune_width_pos)
qed simp

lemma RuneCountInString_le: "RuneCountInString s \<le> length s"
proof -
  have "length xs \<le> length (concat xs)" if "\<forall>x \<in> set xs. x \<noteq> []" for xs :: "string list"
    using that by (induction xs) (auto simp: Suc_le_eq add_strict_increasing2 neq_Nil_conv)
  from this [of "runes s"] show ?thesis
    by (auto simp: RuneCountInString_def dest: runes_nonempty)
qed

definition ascii :: "char \<Rightarrow> bool" where
  "ascii c \<longleftrightarrow> (of_char c :: nat) < 128"

lemma rune_width_ascii: "ascii c \<Longrightarrow> rune_width (c # cs) = 1"
  by (simp add: rune_width_def rune_form_def utf8_forms_def ascii_def byte_in_def)

lemma runes_ascii: "list_all ascii s \<Longrightarrow> runes s = map (\<lambda>c. [c]) s"
  by (induction s) (simp_all add: rune_width_ascii runes.simps(2))

lemma RuneCountInString_ascii: "list_all ascii s \<Longrightarrow> RuneCountInString s = length s"
  by (simp add: RuneCountInString_def runes_ascii)

section \<open>The strings package\<close>

definition HasPrefix :: "string \<Rightarrow> string \<Rightarrow> bool" where
  "HasPrefix s p \<longleftrightarrow> take (length p) s = p"

definition ContainsAny :: "string \<Rightarrow> string \<Rightarrow> bool" where
  "ContainsAny s chars \<longleftrightarrow> list_ex (\<lambda>c. c \<in> set chars) s"

definition lower_char :: "char \<Rightarrow> char" where
  "lower_char c = (if 65 \<le> (of_char c :: nat) \<and> (of_char c :: nat) \<le> 90
                   then char_of ((of_char c :: nat) + 32) else c)"

text \<open>
  \<open>strings.ToLower\<close> maps every rune by \<open>unicode.ToLower\<close>.  Exactly two runes outside
  ASCII have an ASCII lower case: U+0130 (\<open>C4 B0\<close>), whose lower case is \<open>i\<close>, and
  the Kelvin sign U+212A (\<open>E2 84 AA\<close>), whose lower case is \<open>k\<close>.  Every other rune
  outside ASCII is left as it is here: the code only compares the result with ASCII
  prefixes, which no such rune can match.
\<close>

definition lower_rune :: "string \<Rightarrow> string" where
  "lower_rune r = (if r = [char_of (196::nat), char_of (176::nat)] then ''i''
                   else if r = [char_of (226::nat), char_of (132::nat), char_of (170::nat)] then ''k''
                   else case r of [c] \<Rightarrow> [lower_char c] | _ \<Rightarrow> r)"

definition ToLower :: "string \<Rightarrow> string" where
  "ToLower s = concat (map lower_rune (runes s))"

text \<open>The runes \<open>unicode.IsSpace\<close> accepts, as their UTF-8 bytes.\<close>

definition space_runes :: "nat list list" where
  "space_runes =
    [[9], [10], [11], [12], [13], [32], [194, 133], [194, 160], [225, 154, 128],
     [226, 128, 128], [226, 128, 129], [226, 128, 130], [226, 128, 131], [226, 128, 132],
     [226, 128, 133], [226, 128, 134], [226, 128, 135], [226, 128, 136], [226, 128, 137],
     [226, 128, 138], [226, 128, 168], [226, 128, 169], [226, 128, 175], [226, 129, 159],
     [227, 128, 128]]"

definition is_space :: "string \<Rightarrow> bool" where
  "is_space r \<longleftrightarrow> map of_char r \<in> set space_runes"

definition TrimSpace :: "string \<Rightarrow> string" where
  "TrimSpace s = concat (rev (dropWhile is_space (rev (dropWhile is_space (runes s)))))"

text \<open>Decimal rendering, the verb \<open>%d\<close> on a non-negative integer.\<close>

fun nat_str :: "nat \<Rightarrow> string" where
  "nat_str n = (if n < 10 then [char_of (48 + n)]
                else nat_str (n div 10) @ [char_of (48 + n mod 10)])"

declare nat_str.simps [simp del]

text \<open>A slice index in an error path, \<open>[%d]\<close>.\<close>

definition idx_str :: "nat \<Rightarrow> string" where
  "idx_str i = ''['' @ nat_str i @ '']''"

section \<open>Dates and times\<close>

definition is_digit :: "char \<Rightarrow> bool" where
  "is_digit c \<longleftrightarrow> byte_in 48 57 c"

definition digit_val :: "char \<Rightarrow> nat" where
  "digit_val c = (of_char c :: nat) - 48"

text \<open>\<open>getnum(s, fixed)\<close>: two digits, or one when the layout allows it.\<close>

fun getnum :: "bool \<Rightarrow> string \<Rightarrow> (nat \<times> string) option" where
  "getnum fixed [] = None"
| "getnum fixed [c] = (if is_digit c \<and> \<not> fixed then Some (digit_val c, []) else None)"
| "getnum fixed (c # d # cs) =
     (if \<not> is_digit c then None
      else if \<not> is_digit d then (if fixed then None else Some (digit_val c, d # cs))
      else Some (digit_val c * 10 + digit_val d, cs))"

fun year4 :: "string \<Rightarrow> (nat \<times> string) option" where
  "year4 (a # b # c # d # cs) =
     (if list_all is_digit [a, b, c, d]
      then Some (digit_val a * 1000 + digit_val b * 100 + digit_val c * 10 + digit_val d, cs)
      else None)"
| "year4 _ = None"

fun skip_char :: "char \<Rightarrow> string \<Rightarrow> string option" where
  "skip_char c (d # cs) = (if c = d then Some cs else None)"
| "skip_char c [] = None"

definition is_leap :: "nat \<Rightarrow> bool" where
  "is_leap y \<longleftrightarrow> y mod 4 = 0 \<and> (y mod 100 \<noteq> 0 \<or> y mod 400 = 0)"

definition days_in :: "nat \<Rightarrow> nat \<Rightarrow> nat" where
  "days_in m y = (if m = 2 then (if is_leap y then 29 else 28)
                  else if m \<in> {4, 6, 9, 11} then 30 else 31)"

text \<open>\<open>2006-01-02\<close>: the date and what follows it.\<close>

definition parse_date_prefix :: "string \<Rightarrow> ((nat \<times> nat \<times> nat) \<times> string) option" where
  "parse_date_prefix s =
     Option.bind (year4 s) (\<lambda>(y, s1).
     Option.bind (skip_char CHR ''-'' s1) (\<lambda>s2.
     Option.bind (getnum True s2) (\<lambda>(m, s3).
     Option.bind (skip_char CHR ''-'' s3) (\<lambda>s4.
     Option.bind (getnum True s4) (\<lambda>(d, s5).
       if 1 \<le> m \<and> m \<le> 12 \<and> 1 \<le> d \<and> d \<le> days_in m y then Some ((y, m, d), s5) else None)))))"

definition valid_date :: "string \<Rightarrow> bool" where
  "valid_date s \<longleftrightarrow> (case parse_date_prefix s of Some (_, rest) \<Rightarrow> rest = [] | None \<Rightarrow> False)"

text \<open>A fraction of a second is accepted after the seconds even though the layout has none.\<close>

fun skip_fraction :: "string \<Rightarrow> string" where
  "skip_fraction (c # d # cs) =
     (if (c = CHR ''.'' \<or> c = CHR '','') \<and> is_digit d then dropWhile is_digit cs else c # d # cs)"
| "skip_fraction s = s"

text \<open>\<open>Z07:00\<close>: \<open>Z\<close>, or a sign, hours up to 24, a colon and minutes up to 60.\<close>

fun parse_zone :: "string \<Rightarrow> string option" where
  "parse_zone [] = None"
| "parse_zone (z # cs) =
     (if z = CHR ''Z'' then Some cs
      else case cs of
        h1 # h2 # c # m1 # m2 # rest \<Rightarrow>
          (if c = CHR '':'' \<and> list_all is_digit [h1, h2, m1, m2]
              \<and> digit_val h1 * 10 + digit_val h2 \<le> 24 \<and> digit_val m1 * 10 + digit_val m2 \<le> 60
              \<and> (z = CHR ''+'' \<or> z = CHR ''-'')
           then Some rest else None)
      | _ \<Rightarrow> None)"

text \<open>
  \<open>time.RFC3339\<close>.  The hour is read by \<open>getnum(value, false)\<close>, so one digit is enough.
  The strict fast path that \<open>Parse\<close> tries first accepts a subset of these strings.
\<close>

definition valid_datetime :: "string \<Rightarrow> bool" where
  "valid_datetime s \<longleftrightarrow>
     (case Option.bind (parse_date_prefix s) (\<lambda>(_, s1).
           Option.bind (skip_char CHR ''T'' s1) (\<lambda>s2.
           Option.bind (getnum False s2) (\<lambda>(hh, s3).
           Option.bind (skip_char CHR '':'' s3) (\<lambda>s4.
           Option.bind (getnum True s4) (\<lambda>(mm, s5).
           Option.bind (skip_char CHR '':'' s5) (\<lambda>s6.
           Option.bind (getnum True s6) (\<lambda>(ss, s7).
             if hh < 24 \<and> mm < 60 \<and> ss < 60 then parse_zone (skip_fraction s7) else None)))))))
      of Some rest \<Rightarrow> rest = [] | None \<Rightarrow> False)"

lemma date_is_not_datetime: "valid_date s \<Longrightarrow> \<not> valid_datetime s"
  by (auto simp: valid_date_def valid_datetime_def split: option.splits)

end
