(* ===== verification/Json_Value.thy ===== *)
theory Json_Value
  imports Complex_Main Go_Text
begin

text \<open>
  Values as \<open>encoding/json\<close> hands them to the program: \<open>any\<close> after \<open>json.Unmarshal\<close>
  is nil, a bool, a float64, a string, a \<open>[]any\<close> or a \<open>map[string]any\<close>.  Also the
  error value every layer returns (\<open>internal/pkg/errors\<close>).
\<close>

section \<open>Numbers\<close>

text \<open>
  A float64 is a rational, an infinity or not a number.  The program only compares,
  truncates and stores floats, all of which are exact, so the rounding of float
  arithmetic never enters.
\<close>

datatype f64 = Fin rat | PInf | NInf | NaN

fun f64_less :: "f64 \<Rightarrow> f64 \<Rightarrow> bool" where
  "f64_less (Fin a) (Fin b) = (a < b)"
| "f64_less NInf (Fin _) = True"
| "f64_less NInf PInf = True"
| "f64_less (Fin _) PInf = True"
| "f64_less _ _ = False"

definition f64_eq :: "f64 \<Rightarrow> f64 \<Rightarrow> bool" where
  "f64_eq a b \<longleftrightarrow> a = b \<and> a \<noteq> NaN"

fun is_finite :: "f64 \<Rightarrow> bool" where
  "is_finite (Fin _) = True"
| "is_finite _ = False"

text \<open>\<open>f == math.Trunc(f)\<close>\<close>

fun is_whole :: "f64 \<Rightarrow> bool" where
  "is_whole (Fin a) = (of_int (floor a) = a)"
| "is_whole PInf = True"
| "is_whole NInf = True"
| "is_whole NaN = False"

abbreviation f64_nat :: "nat \<Rightarrow> f64" where
  "f64_nat n \<equiv> Fin (of_nat n)"

lemma f64_less_irrefl [simp]: "\<not> f64_less a a"
  by (cases a) auto

lemma f64_less_trans: "f64_less a b \<Longrightarrow> f64_less b c \<Longrightarrow> f64_less a c"
  by (cases a; cases b; cases c) auto

lemma f64_less_le_trans:
  "f64_less a b \<Longrightarrow> is_finite b \<Longrightarrow> is_finite c \<Longrightarrow> \<not> f64_less c b \<Longrightarrow> f64_less a c"
  by (cases a; cases b; cases c) auto

lemma f64_eq_refl: "a \<noteq> NaN \<Longrightarrow> f64_eq a a"
  by (simp add: f64_eq_def)

section \<open>Documents\<close>

text \<open>
  An object is an association list: its keys are distinct and the order of the list is the
  order in which \<open>range\<close> happens to visit the Go map.
\<close>

datatype json =
    JNull
  | JBool bool
  | JNum f64
  | JStr string
  | JArr "json list"
  | JObj "(string \<times> json) list"

type_synonym doc = "(string \<times> json) list"

definition wf_doc :: "doc \<Rightarrow> bool" where
  "wf_doc d \<longleftrightarrow> distinct (map fst d)"

text \<open>
  Equality of interface values used as map keys.  Slices and maps are not hashable: using
  one as a key panics.
\<close>

fun hashable :: "json \<Rightarrow> bool" where
  "hashable (JArr _) = False"
| "hashable (JObj _) = False"
| "hashable _ = True"

fun key_eq :: "json \<Rightarrow> json \<Rightarrow> bool" where
  "key_eq (JNum a) (JNum b) = f64_eq a b"
| "key_eq a b = (a = b)"

lemma key_eq_strings [simp]: "key_eq (JStr a) v \<longleftrightarrow> v = JStr a"
  by (cases v) auto

text \<open>\<open>v.(string)\<close> with its zero value when the assertion fails.\<close>

fun str_or_empty :: "json option \<Rightarrow> string" where
  "str_or_empty (Some (JStr s)) = s"
| "str_or_empty _ = []"

fun as_str :: "json \<Rightarrow> string option" where
  "as_str (JStr s) = Some s"
| "as_str _ = None"

fun as_num :: "json \<Rightarrow> f64 option" where
  "as_num (JNum f) = Some f"
| "as_num _ = None"

fun as_arr :: "json \<Rightarrow> json list option" where
  "as_arr (JArr xs) = Some xs"
| "as_arr _ = None"

fun as_obj :: "json \<Rightarrow> doc option" where
  "as_obj (JObj d) = Some d"
| "as_obj _ = None"

fun is_bool :: "json \<Rightarrow> bool" where
  "is_bool (JBool _) = True"
| "is_bool _ = False"

lemma as_str_Some [simp]: "as_str v = Some s \<longleftrightarrow> v = JStr s" by (cases v) auto
lemma as_num_Some [simp]: "as_num v = Some f \<longleftrightarrow> v = JNum f" by (cases v) auto
lemma as_arr_Some [simp]: "as_arr v = Some xs \<longleftrightarrow> v = JArr xs" by (cases v) auto
lemma as_obj_Some [simp]: "as_obj v = Some d \<longleftrightarrow> v = JObj d" by (cases v) auto

lemma str_or_empty_nonempty: "str_or_empty v = s \<Longrightarrow> s \<noteq> [] \<Longrightarrow> v = Some (JStr s)"
  by (cases v rule: str_or_empty.cases) auto

section \<open>Errors as values\<close>

text \<open>
  The values a refusal puts in its details map.  \<open>DFmt f args\<close> is the text
  \<open>fmt.Sprintf(f, args...)\<close>, \<open>DJoin sep parts\<close> is \<open>strings.Join(parts, sep)\<close> and
  \<open>DBound b\<close> is \<open>formatBound(b)\<close>.
\<close>

datatype detail =
    DStr string
  | DNat nat
  | DStrs "string list"
  | DNats "nat list"
  | DPairs "(string \<times> string) list"
  | DJson json
  | DBound f64
  | DFmt string "detail list"
  | DBool bool
  | DJoin string "detail list"

record app_error =
  err_code :: string
  err_status :: nat
  err_details :: "(string \<times> detail) list"

text \<open>A later detail of the same key overrides an earlier one, as the map assignment does.\<close>

definition WithDetail :: "app_error \<Rightarrow> string \<Rightarrow> detail \<Rightarrow> app_error" where
  "WithDetail e k v = e\<lparr>err_details := (k, v) # filter (\<lambda>(k', _). k' \<noteq> k) (err_details e)\<rparr>"

definition WithDetails :: "app_error \<Rightarrow> (string \<times> detail) list \<Rightarrow> app_error" where
  "WithDetails e ds = fold (\<lambda>(k, v) e. WithDetail e k v) ds e"

definition New :: "string \<Rightarrow> nat \<Rightarrow> app_error" where
  "New code status = \<lparr>err_code = code, err_status = status, err_details = []\<rparr>"

text \<open>\<open>errors.Is\<close> matches by code.\<close>

definition err_is :: "app_error \<Rightarrow> app_error \<Rightarrow> bool" where
  "err_is e t \<longleftrightarrow> err_code e = err_code t"

definition ErrNotFound :: app_error where
  "ErrNotFound = New ''NOT_FOUND'' 404"

definition ErrUnauthorized :: app_error where
  "ErrUnauthorized = New ''UNAUTHORIZED'' 401"

definition ErrForbidden :: app_error where
  "ErrForbidden = New ''FORBIDDEN'' 403"

lemma WithDetail_code [simp, outcome_simps]:
  "err_code (WithDetail e k v) = err_code e"
  "err_status (WithDetail e k v) = err_status e"
  by (simp_all add: WithDetail_def)

lemma WithDetails_code [simp, outcome_simps]:
  "err_code (WithDetails e ds) = err_code e"
  "err_status (WithDetails e ds) = err_status e"
proof -
  have "err_code (WithDetails e ds) = err_code e \<and> err_status (WithDetails e ds) = err_status e"
    unfolding WithDetails_def by (induction ds arbitrary: e) auto
  then show "err_code (WithDetails e ds) = err_code e"
    and "err_status (WithDetails e ds) = err_status e" by auto
qed

lemma WithDetail_lookup [simp, outcome_simps]:
  "map_of (err_details (WithDetail e k v)) k' =
     (if k' = k then Some v else map_of (err_details e) k')"
proof -
  have "map_of (filter (\<lambda>(k', _). k' \<noteq> k) xs) k' = (if k' = k then None else map_of xs k')"
    for xs :: "(string \<times> detail) list"
    by (induction xs) auto
  then show ?thesis by (simp add: WithDetail_def)
qed

lemma New_simps [simp, outcome_simps]:
  "err_code (New c s) = c" "err_status (New c s) = s" "err_details (New c s) = []"
  by (simp_all add: New_def)

end
