(* ===== verification/Roles.thy ===== *)
theory Roles
  imports Json_Value "HOL-Library.Char_ord" "HOL-Library.List_Lexorder"
begin

text \<open>
  Tenant roles and the tables over them: \<open>internal/tenant/domain/tenant.go\<close> (who may be
  invited, which roles an agent credential may be minted with) and the two role-list
  readings of the content model (\<open>domain/field_permission.go\<close>,
  \<open>domain/type_permission.go\<close>).
\<close>

definition RoleOwner :: string where "RoleOwner = ''owner''"
definition RoleAdmin :: string where "RoleAdmin = ''admin''"
definition RoleEditor :: string where "RoleEditor = ''editor''"
definition RoleViewer :: string where "RoleViewer = ''viewer''"

lemmas role_defs = RoleOwner_def RoleAdmin_def RoleEditor_def RoleViewer_def

definition ValidRole :: "string \<Rightarrow> bool" where
  "ValidRole role \<longleftrightarrow> role \<in> set [RoleOwner, RoleAdmin, RoleEditor, RoleViewer]"

definition InvitableRole :: "string \<Rightarrow> bool" where
  "InvitableRole role \<longleftrightarrow> role \<in> set [RoleAdmin, RoleEditor, RoleViewer]"

definition mintableAgentRoles :: "string \<Rightarrow> string list" where
  "mintableAgentRoles minter =
     (if minter = RoleOwner then [RoleAdmin, RoleEditor, RoleViewer]
      else if minter = RoleAdmin then [RoleEditor, RoleViewer]
      else [])"

definition CanMintAgentRole :: "string \<Rightarrow> string \<Rightarrow> bool" where
  "CanMintAgentRole minterRole target \<longleftrightarrow> target \<in> set (mintableAgentRoles minterRole)"

definition MintableAgentRoles :: "string \<Rightarrow> string list" where
  "MintableAgentRoles minterRole = mintableAgentRoles minterRole"

text \<open>An empty read or write list restricts nobody.\<close>

definition roleAllowed :: "string list \<Rightarrow> string \<Rightarrow> bool" where
  "roleAllowed roles tenantRole \<longleftrightarrow> roles = [] \<or> tenantRole \<in> set roles"

text \<open>
  \<open>normalizeRoleList\<close> (\<open>service/type_permission.go\<close>): trim, skip blanks, stop at the first
  unknown role or repetition, sort.  The three results are the list, the unknown role and
  the repeated one; the empty string stands for none.
\<close>

fun normalize_roles_from :: "string list \<Rightarrow> string list \<Rightarrow> string list \<times> string \<times> string" where
  "normalize_roles_from out [] = (sort out, [], [])"
| "normalize_roles_from out (raw # rest) =
     (let r = TrimSpace raw in
      if r = [] then normalize_roles_from out rest
      else if \<not> ValidRole r then ([], r, [])
      else if r \<in> set out then ([], [], r)
      else normalize_roles_from (out @ [r]) rest)"

definition normalizeRoleList :: "string list \<Rightarrow> string list \<times> string \<times> string" where
  "normalizeRoleList xs = normalize_roles_from [] xs"

definition named_roles :: "string list \<Rightarrow> string set" where
  "named_roles xs = TrimSpace ` set xs - {[]}"

lemma normalize_roles_from_ok:
  "normalize_roles_from out xs = (ys, [], []) \<Longrightarrow> distinct out \<Longrightarrow>
     ys = sorted_list_of_set (set out \<union> named_roles xs) \<and>
     (\<forall>r \<in> named_roles xs. ValidRole r)"
proof (induction out xs rule: normalize_roles_from.induct)
  case (1 out)
  then show ?case by (auto simp: named_roles_def sorted_list_of_set_sort_remdups distinct_remdups_id)
next
  case (2 out raw rest)
  let ?r = "TrimSpace raw"
  show ?case
  proof (cases "?r = []")
    case True
    with 2 show ?thesis by (auto simp: named_roles_def)
  next
    case False
    with 2(3) have r: "ValidRole ?r" "?r \<notin> set out"
      by (auto simp: Let_def ValidRole_def split: if_splits)
    have n: "named_roles (raw # rest) = insert ?r (named_roles rest)"
      using False by (auto simp: named_roles_def)
    show ?thesis using 2(2) [OF refl False] 2(3,4) r False by (auto simp: n Let_def)
  qed
qed

lemma normalizeRoleList_ok:
  "normalizeRoleList xs = (ys, [], []) \<Longrightarrow>
     ys = sorted_list_of_set (named_roles xs) \<and> (\<forall>r \<in> named_roles xs. ValidRole r)"
  unfolding normalizeRoleList_def using normalize_roles_from_ok [of "[]"] by auto

text \<open>The list is a canonical form of the set it names, so permuted lists compare equal.\<close>

lemma normalizeRoleList_canonical:
  "normalizeRoleList xs = (ys, [], []) \<Longrightarrow> normalizeRoleList xs' = (ys', [], []) \<Longrightarrow>
     (ys = ys') = (named_roles xs = named_roles xs')"
proof -
  assume a: "normalizeRoleList xs = (ys, [], [])" and b: "normalizeRoleList xs' = (ys', [], [])"
  have fin: "finite (named_roles zs)" for zs by (simp add: named_roles_def)
  have ys: "ys = sorted_list_of_set (named_roles xs)" "ys' = sorted_list_of_set (named_roles xs')"
    using normalizeRoleList_ok [OF a] normalizeRoleList_ok [OF b] by auto
  then show ?thesis by (metis fin set_sorted_list_of_set)
qed

lemma mint_strictly_below:
  "CanMintAgentRole minter target \<Longrightarrow> \<not> CanMintAgentRole target minter"
  by (auto simp: CanMintAgentRole_def mintableAgentRoles_def role_defs split: if_splits)

lemma mint_irreflexive: "\<not> CanMintAgentRole r r"
  by (auto simp: CanMintAgentRole_def mintableAgentRoles_def role_defs)

lemma mint_trans:
  "CanMintAgentRole a b \<Longrightarrow> CanMintAgentRole b c \<Longrightarrow> CanMintAgentRole a c"
  by (auto simp: CanMintAgentRole_def mintableAgentRoles_def role_defs split: if_splits)

lemma minted_role_invitable: "CanMintAgentRole minter target \<Longrightarrow> InvitableRole target"
  by (auto simp: CanMintAgentRole_def mintableAgentRoles_def InvitableRole_def split: if_splits)

lemma InvitableRole_ValidRole: "InvitableRole r \<Longrightarrow> ValidRole r \<and> r \<noteq> RoleOwner"
  by (auto simp: InvitableRole_def ValidRole_def role_defs)

section \<open>Properties\<close>

text \<open>Minting goes strictly downwards.  A role can be minted only into a strictly lower one
  that may also be invited, never into owner, itself or upwards, and minting twice in a row
  reaches nothing the first minter could not mint directly.
\<close>

theorem minting_is_strictly_downwards:
  "\<not> CanMintAgentRole r r \<and> \<not> (CanMintAgentRole r s \<and> CanMintAgentRole s r) \<and> \<not> CanMintAgentRole r RoleOwner \<and>
   (CanMintAgentRole r s \<and> CanMintAgentRole s u \<longrightarrow> CanMintAgentRole r u) \<and>
   (CanMintAgentRole r s \<longrightarrow> InvitableRole s)"
proof -
  have "\<not> CanMintAgentRole r RoleOwner" using minted_role_invitable InvitableRole_ValidRole by blast
  then show ?thesis
    using mint_irreflexive mint_strictly_below mint_trans minted_role_invitable by blast
qed

theorem minting_is_strictly_downwards_witness:
  "CanMintAgentRole RoleOwner RoleAdmin \<and> CanMintAgentRole RoleAdmin RoleViewer \<and>
   CanMintAgentRole RoleOwner RoleViewer \<and> InvitableRole RoleAdmin"
proof -
  have a: "CanMintAgentRole RoleOwner RoleAdmin" "CanMintAgentRole RoleAdmin RoleViewer"
    by (simp_all add: CanMintAgentRole_def mintableAgentRoles_def role_defs)
  show ?thesis
    using minting_is_strictly_downwards [of RoleOwner RoleAdmin RoleViewer] a by blast
qed

text \<open>A normalised role list is a canonical form.  Two accepted lists normalise to the same
  list exactly when they name the same roles, in whatever order and with whatever blanks.
\<close>

theorem role_lists_are_canonical:
  assumes "normalizeRoleList xs = (ys, [], [])" and "normalizeRoleList xs' = (ys', [], [])"
  shows "ys = ys' \<longleftrightarrow> TrimSpace ` set xs - {[]} = TrimSpace ` set xs' - {[]}"
  using normalizeRoleList_canonical [OF assms] by (simp add: named_roles_def)

theorem role_lists_are_canonical_witness:
  "fst (normalizeRoleList [''viewer'', ''  '', ''admin'']) = fst (normalizeRoleList [''admin'', '' viewer''])"
proof -
  have a: "normalizeRoleList [''viewer'', ''  '', ''admin''] = ([''admin'', ''viewer''], [], [])"
    and b: "normalizeRoleList [''admin'', '' viewer''] = ([''admin'', ''viewer''], [], [])"
    by code_simp+
  from role_lists_are_canonical [OF a b] a b show ?thesis by simp
qed

end
