(* ===== verification/Field_Model.thy ===== *)
theory Field_Model
  imports Roles
begin

text \<open>
  The content model (\<open>internal/cms/content/domain/content.go\<close>, \<open>component.go\<close>,
  \<open>field_permission.go\<close>, \<open>type_permission.go\<close>): field types, identifiers, fields with
  their constraints, content types and components.  Row identifiers, ordinals and
  timestamps are storage bookkeeping and are left out; the sub-fields the repository
  attaches to a component or dynamic zone field are part of the field, as in the code.
\<close>

section \<open>Field types\<close>

definition FieldTypeString :: string where "FieldTypeString = ''string''"
definition FieldTypeText :: string where "FieldTypeText = ''text''"
definition FieldTypeRichText :: string where "FieldTypeRichText = ''richtext''"
definition FieldTypeNumber :: string where "FieldTypeNumber = ''number''"
definition FieldTypeBoolean :: string where "FieldTypeBoolean = ''boolean''"
definition FieldTypeEnum :: string where "FieldTypeEnum = ''enum''"
definition FieldTypeDate :: string where "FieldTypeDate = ''date''"
definition FieldTypeDateTime :: string where "FieldTypeDateTime = ''datetime''"
definition FieldTypeFile :: string where "FieldTypeFile = ''file''"
definition FieldTypeRelation :: string where "FieldTypeRelation = ''relation''"
definition FieldTypeComponent :: string where "FieldTypeComponent = ''component''"
definition FieldTypeDynamicZone :: string where "FieldTypeDynamicZone = ''dynamiczone''"

lemmas field_type_defs =
  FieldTypeString_def FieldTypeText_def FieldTypeRichText_def FieldTypeNumber_def
  FieldTypeBoolean_def FieldTypeEnum_def FieldTypeDate_def FieldTypeDateTime_def
  FieldTypeFile_def FieldTypeRelation_def FieldTypeComponent_def FieldTypeDynamicZone_def

definition AllowedFieldTypes :: "string list" where
  "AllowedFieldTypes =
    [FieldTypeString, FieldTypeText, FieldTypeRichText, FieldTypeNumber, FieldTypeBoolean,
     FieldTypeEnum, FieldTypeDate, FieldTypeDateTime, FieldTypeFile, FieldTypeRelation,
     FieldTypeComponent, FieldTypeDynamicZone]"

definition ValidFieldType :: "string \<Rightarrow> bool" where
  "ValidFieldType t \<longleftrightarrow> t \<in> set AllowedFieldTypes"

definition MaxMultipleElements :: nat where
  "MaxMultipleElements = 100"

definition AllowedMultipleTypes :: "string list" where
  "AllowedMultipleTypes =
    [FieldTypeString, FieldTypeEnum, FieldTypeRelation, FieldTypeNumber, FieldTypeComponent]"

definition MultipleAllowedFor :: "string \<Rightarrow> bool" where
  "MultipleAllowedFor t \<longleftrightarrow> t \<in> set AllowedMultipleTypes"

definition ZoneDiscriminator :: string where
  "ZoneDiscriminator = ''__component''"

lemma distinct_field_types: "distinct AllowedFieldTypes"
  by (simp add: AllowedFieldTypes_def field_type_defs)

lemma distinct_field_types_rev: "distinct (rev AllowedFieldTypes)"
  by (simp add: distinct_field_types)

text \<open>All pairwise inequalities, in both directions.\<close>

lemmas field_types_differ [simp] =
  distinct_field_types [unfolded AllowedFieldTypes_def, simplified]
  distinct_field_types_rev [unfolded AllowedFieldTypes_def, simplified]

section \<open>Identifiers and locales\<close>

definition ascii_letter :: "char \<Rightarrow> bool" where
  "ascii_letter c \<longleftrightarrow> byte_in 97 122 c \<or> byte_in 65 90 c"

definition ident_char :: "char \<Rightarrow> bool" where
  "ident_char c \<longleftrightarrow> ascii_letter c \<or> is_digit c \<or> c = CHR ''_''"

text \<open>\<open>^[a-zA-Z][a-zA-Z0-9_]*$\<close>\<close>

fun ident_pattern :: "string \<Rightarrow> bool" where
  "ident_pattern [] = False"
| "ident_pattern (c # cs) = (ascii_letter c \<and> list_all ident_char cs)"

definition ValidName :: "string \<Rightarrow> bool" where
  "ValidName s \<longleftrightarrow> ident_pattern s"

definition ValidFieldKey :: "string \<Rightarrow> bool" where
  "ValidFieldKey s \<longleftrightarrow> ident_pattern s"

text \<open>\<open>^[a-zA-Z][a-zA-Z0-9_-]{0,34}$\<close>\<close>

fun ValidLocale :: "string \<Rightarrow> bool" where
  "ValidLocale [] = False"
| "ValidLocale (c # cs) =
     (ascii_letter c \<and> length cs \<le> 34 \<and> list_all (\<lambda>d. ident_char d \<or> d = CHR ''-'') cs)"

definition StatusDraft :: string where "StatusDraft = ''draft''"
definition StatusPublished :: string where "StatusPublished = ''published''"

definition ValidStatus :: "string \<Rightarrow> bool" where
  "ValidStatus s \<longleftrightarrow> s \<in> set [StatusDraft, StatusPublished]"

lemma byte_in_ascii: "byte_in lo hi c \<Longrightarrow> hi < 128 \<Longrightarrow> ascii c"
  by (simp add: byte_in_def ascii_def)

lemma ident_char_ascii: "ident_char c \<Longrightarrow> ascii c"
  by (auto simp: ident_char_def ascii_letter_def is_digit_def ascii_def byte_in_def)

lemma ident_chars:
  "ident_pattern s \<Longrightarrow> c \<in> set s \<Longrightarrow> ident_char c"
  by (cases s) (auto simp: ident_char_def list_all_iff)

text \<open>
  The discriminator of a zone item is no field key, and a key holds no dot, so the paths
  that error reporting builds are unambiguous.
\<close>

lemma discriminator_is_no_key: "\<not> ValidFieldKey ZoneDiscriminator"
  by (simp add: ValidFieldKey_def ZoneDiscriminator_def ascii_letter_def byte_in_def)

lemma key_has_no_dot: "ValidFieldKey s \<Longrightarrow> CHR ''.'' \<notin> set s"
  using ident_chars [of s "CHR ''.''"]
  by (auto simp: ValidFieldKey_def ident_char_def ascii_letter_def is_digit_def byte_in_def)

section \<open>Fields, content types, components\<close>

record constraints =
  c_Unique :: bool
  c_Format :: string
  c_Pattern :: string
  c_Min :: "f64 option"
  c_Max :: "f64 option"

record field_attrs =
  f_Key :: string
  f_Type :: string
  f_Label :: string
  f_Required :: bool
  f_Multiple :: bool
  f_EnumValues :: "string list"
  f_ReadRoles :: "string list"
  f_WriteRoles :: "string list"
  f_RelationEntity :: string
  f_ComponentName :: string
  f_ZoneComponents :: "string list"
  f_Description :: string
  f_Constraints :: constraints

datatype field =
  Field (attrs: field_attrs) (ComponentFields: "field list") (ZoneFields: "(string \<times> field list) list")

abbreviation Key :: "field \<Rightarrow> string" where "Key f \<equiv> f_Key (attrs f)"
abbreviation Type :: "field \<Rightarrow> string" where "Type f \<equiv> f_Type (attrs f)"
abbreviation Required :: "field \<Rightarrow> bool" where "Required f \<equiv> f_Required (attrs f)"
abbreviation Multiple :: "field \<Rightarrow> bool" where "Multiple f \<equiv> f_Multiple (attrs f)"
abbreviation EnumValues :: "field \<Rightarrow> string list" where "EnumValues f \<equiv> f_EnumValues (attrs f)"
abbreviation ReadRoles :: "field \<Rightarrow> string list" where "ReadRoles f \<equiv> f_ReadRoles (attrs f)"
abbreviation WriteRoles :: "field \<Rightarrow> string list" where "WriteRoles f \<equiv> f_WriteRoles (attrs f)"
abbreviation ZoneComponents :: "field \<Rightarrow> string list" where
  "ZoneComponents f \<equiv> f_ZoneComponents (attrs f)"
abbreviation Constraints :: "field \<Rightarrow> constraints" where
  "Constraints f \<equiv> f_Constraints (attrs f)"

text \<open>The zero value of a Go struct.\<close>

definition no_constraints :: constraints where
  "no_constraints = \<lparr>c_Unique = False, c_Format = [], c_Pattern = [], c_Min = None, c_Max = None\<rparr>"

definition zero_attrs :: field_attrs where
  "zero_attrs = \<lparr>f_Key = [], f_Type = [], f_Label = [], f_Required = False, f_Multiple = False,
     f_EnumValues = [], f_ReadRoles = [], f_WriteRoles = [], f_RelationEntity = [],
     f_ComponentName = [], f_ZoneComponents = [], f_Description = [],
     f_Constraints = no_constraints\<rparr>"

definition ZoneAllows :: "field \<Rightarrow> string \<Rightarrow> bool" where
  "ZoneAllows f name \<longleftrightarrow> name \<in> set (ZoneComponents f)"

definition InEnum :: "field \<Rightarrow> string \<Rightarrow> bool" where
  "InEnum f v \<longleftrightarrow> v \<in> set (EnumValues f)"

text \<open>A lookup in the \<open>ZoneFields\<close> map; an absent name has the nil slice.\<close>

definition zone_fields_of :: "field \<Rightarrow> string \<Rightarrow> field list" where
  "zone_fields_of f name = (case map_of (ZoneFields f) name of Some fs \<Rightarrow> fs | None \<Rightarrow> [])"

definition ReadableBy :: "field \<Rightarrow> string \<Rightarrow> bool" where
  "ReadableBy f role = roleAllowed (ReadRoles f) role"

definition WritableBy :: "field \<Rightarrow> string \<Rightarrow> bool" where
  "WritableBy f role = roleAllowed (WriteRoles f) role"

definition Restricted :: "field \<Rightarrow> bool" where
  "Restricted f \<longleftrightarrow> ReadRoles f \<noteq> [] \<or> WriteRoles f \<noteq> []"

record content_type =
  ct_Name :: string
  ct_Label :: string
  ct_Fields :: "field list"
  ct_ReadRoles :: "string list"
  ct_WriteRoles :: "string list"
  ct_OwnOnlyRoles :: "string list"

definition EntriesReadableBy :: "content_type \<Rightarrow> string \<Rightarrow> bool" where
  "EntriesReadableBy ct role = roleAllowed (ct_ReadRoles ct) role"

definition EntriesWritableBy :: "content_type \<Rightarrow> string \<Rightarrow> bool" where
  "EntriesWritableBy ct role = roleAllowed (ct_WriteRoles ct) role"

text \<open>Here an empty list confines nobody: the opposite reading of the two lists above.\<close>

definition ConfinesToOwn :: "content_type \<Rightarrow> string \<Rightarrow> bool" where
  "ConfinesToOwn ct role \<longleftrightarrow> role \<in> set (ct_OwnOnlyRoles ct)"

definition RestrictedData :: "content_type \<Rightarrow> bool" where
  "RestrictedData ct \<longleftrightarrow> ct_ReadRoles ct \<noteq> [] \<or> ct_WriteRoles ct \<noteq> [] \<or> ct_OwnOnlyRoles ct \<noteq> []"

definition FieldByKey :: "field list \<Rightarrow> string \<Rightarrow> field option" where
  "FieldByKey fs key = find (\<lambda>f. Key f = key) fs"

record component =
  cp_Name :: string
  cp_Label :: string
  cp_Fields :: "field list"

definition MaxComponentFields :: nat where "MaxComponentFields = 30"

record subfield_violation =
  sv_Code :: string
  sv_Attribute :: string

definition CheckComponentSubField :: "field \<Rightarrow> subfield_violation option" where
  "CheckComponentSubField f =
     (let refuse = (\<lambda>attr. Some \<lparr>sv_Code = ''CONTENT_COMPONENT_FIELD_ATTRIBUTE_UNSUPPORTED'', sv_Attribute = attr\<rparr>) in
      if Type f = FieldTypeComponent \<or> Type f = FieldTypeDynamicZone
      then Some \<lparr>sv_Code = ''CONTENT_COMPONENT_NESTING_UNSUPPORTED'', sv_Attribute = []\<rparr>
      else if c_Unique (Constraints f) then refuse ''unique''
      else if ReadRoles f \<noteq> [] then refuse ''read_roles''
      else if WriteRoles f \<noteq> [] then refuse ''write_roles''
      else None)"

lemma CheckComponentSubField_None:
  "CheckComponentSubField f = None \<longleftrightarrow>
     Type f \<noteq> FieldTypeComponent \<and> Type f \<noteq> FieldTypeDynamicZone \<and>
     \<not> c_Unique (Constraints f) \<and> \<not> Restricted f"
  by (simp add: CheckComponentSubField_def Restricted_def Let_def)

lemma FieldByKey_Some:
  "FieldByKey fs key = Some f \<Longrightarrow> f \<in> set fs \<and> Key f = key"
  by (auto simp: FieldByKey_def find_Some_iff)

lemma FieldByKey_None: "FieldByKey fs key = None \<longleftrightarrow> key \<notin> Key ` set fs"
  by (auto simp: FieldByKey_def find_None_iff)

lemma FieldByKey_distinct:
  "distinct (map Key fs) \<Longrightarrow> f \<in> set fs \<Longrightarrow> FieldByKey fs (Key f) = Some f"
proof -
  assume d: "distinct (map Key fs)" and f: "f \<in> set fs"
  obtain g where g: "FieldByKey fs (Key f) = Some g"
    using FieldByKey_None [of fs "Key f"] f by auto
  then have "g \<in> set fs" "Key g = Key f" by (auto dest: FieldByKey_Some)
  with d f have "g = f" by (auto simp: distinct_map inj_on_def)
  with g show ?thesis by simp
qed

end
