(* ===== verification/Field_Constraints.thy ===== *)
theory Field_Constraints
  imports Field_Model
begin

text \<open>
  The value-level rules of a field (\<open>internal/cms/content/domain/field_constraints.go\<close>):
  which constraint sets may be stored, which values satisfy one, and when a change of the
  set tightens it.  The regular expression engine (\<open>regexp.Compile\<close> on the anchored
  source, then \<open>MatchString\<close>) and the UUID parser of \<open>github.com/google/uuid\<close> are the
  two outside functions this part calls; they are carried in \<open>env\<close> and every theorem
  holds for any choice of them.
\<close>

text \<open>
  \<open>regexp_compile src\<close> is the compiled expression as the set of strings it matches, or
  \<open>None\<close> when the source does not compile.  \<open>uuid_parse s\<close> is the identifier in canonical
  form, or \<open>None\<close> when \<open>s\<close> is not a UUID.  \<open>json_text v\<close> is the text PostgreSQL's \<open>->>\<close> gives for
  a number or a container.
\<close>

record env =
  regexp_compile :: "string \<Rightarrow> (string \<Rightarrow> bool) option"
  uuid_parse :: "string \<Rightarrow> string option"
  json_text :: "json \<Rightarrow> string"

definition compilePattern :: "env \<Rightarrow> string \<Rightarrow> (string \<Rightarrow> bool) option" where
  "compilePattern E p = regexp_compile E (''^(?:'' @ p @ '')$'')"

section \<open>The slug format\<close>

definition FieldFormatSlug :: string where
  "FieldFormatSlug = ''slug''"

definition slug_char :: "char \<Rightarrow> bool" where
  "slug_char c \<longleftrightarrow> byte_in 97 122 c \<or> is_digit c"

text \<open>
  \<open>^[a-z0-9]+(?:-[a-z0-9]+)*$\<close> as the automaton over its two states: whether the last
  character was a letter or digit.
\<close>

fun slug_from :: "bool \<Rightarrow> string \<Rightarrow> bool" where
  "slug_from inrun [] = inrun"
| "slug_from inrun (c # cs) =
     (if slug_char c then slug_from True cs
      else if c = CHR ''-'' then inrun \<and> slug_from False cs
      else False)"

definition IsSlug :: "string \<Rightarrow> bool" where
  "IsSlug s \<longleftrightarrow> slug_from False s"

text \<open>The language the regular expression denotes: non-empty runs joined by single hyphens.\<close>

fun join_runs :: "string list \<Rightarrow> string" where
  "join_runs [] = []"
| "join_runs [r] = r"
| "join_runs (r # rs) = r @ CHR ''-'' # join_runs rs"

definition slug_runs :: "string list \<Rightarrow> bool" where
  "slug_runs rs \<longleftrightarrow> rs \<noteq> [] \<and> (\<forall>r \<in> set rs. r \<noteq> [] \<and> list_all slug_char r)"

lemma hyphen_no_slug_char [simp]: "\<not> slug_char CHR ''-''"
  by (simp add: slug_char_def is_digit_def byte_in_def)

lemma slug_from_run:
  "list_all slug_char r \<Longrightarrow> slug_from b (r @ s) = (if r = [] then slug_from b s else slug_from True s)"
  by (induction r arbitrary: b) auto

lemma slug_from_join: "slug_runs rs \<Longrightarrow> slug_from b (join_runs rs)"
proof (induction rs arbitrary: b rule: join_runs.induct)
  case (2 r)
  then show ?case using slug_from_run [of r b "[]"] by (auto simp: slug_runs_def)
next
  case (3 r r' rs)
  then show ?case using slug_from_run [of r b "CHR ''-'' # join_runs (r' # rs)"]
    by (auto simp: slug_runs_def)
qed (simp add: slug_runs_def)

lemma slug_from_split:
  "slug_from b s \<Longrightarrow> (if b then s = [] \<or> (\<exists>r rs. list_all slug_char r \<and> (rs = [] \<or> slug_runs rs) \<and>
       s = join_runs (r # rs)) else \<exists>rs. slug_runs rs \<and> s = join_runs rs)"
proof (induction b s rule: slug_from.induct)
  case (1 b)
  then show ?case by auto
next
  case (2 b c cs)
  show ?case
  proof (cases "slug_char c")
    case True
    with 2 have "cs = [] \<or> (\<exists>r rs. list_all slug_char r \<and> (rs = [] \<or> slug_runs rs) \<and>
       cs = join_runs (r # rs))" by auto
    then obtain r rs where r: "list_all slug_char r" "rs = [] \<or> slug_runs rs" "cs = join_runs (r # rs)"
      by (metis join_runs.simps(2) list.pred_inject(1))
    then have j: "c # cs = join_runs ((c # r) # rs)" by (cases rs) auto
    have "list_all slug_char (c # r)" "slug_runs ((c # r) # rs)"
      using r True by (auto simp: slug_runs_def)
    with j r show ?thesis by (metis (full_types))
  next
    case False
    with 2(3) have c: "c = CHR ''-''" "b" "slug_from False cs" by (auto split: if_splits)
    with False 2(2) obtain rs where rs: "slug_runs rs" "cs = join_runs rs" by auto
    then have "c # cs = join_runs ([] # rs)" using c by (cases rs) (auto simp: slug_runs_def)
    with rs c show ?thesis by (metis list.pred_inject(1))
  qed
qed

lemma IsSlug_language: "IsSlug s \<longleftrightarrow> (\<exists>rs. slug_runs rs \<and> s = join_runs rs)"
  using slug_from_split [of False s] slug_from_join by (auto simp: IsSlug_def)

section \<open>Which constraints a type may carry\<close>

definition MaxPatternLength :: nat where "MaxPatternLength = 512"

definition AllowedFieldFormats :: "string list" where
  "AllowedFieldFormats = [FieldFormatSlug]"

definition UniqueAllowedFor :: "string \<Rightarrow> bool" where
  "UniqueAllowedFor t \<longleftrightarrow>
     t \<in> set [FieldTypeString, FieldTypeNumber, FieldTypeDate, FieldTypeDateTime]"

definition FormatAllowedFor :: "string \<Rightarrow> bool" where
  "FormatAllowedFor t \<longleftrightarrow> t = FieldTypeString"

definition PatternAllowedFor :: "string \<Rightarrow> bool" where
  "PatternAllowedFor t \<longleftrightarrow> t = FieldTypeString \<or> t = FieldTypeText"

definition RangeAllowedFor :: "string \<Rightarrow> bool" where
  "RangeAllowedFor t \<longleftrightarrow> t = FieldTypeString \<or> t = FieldTypeText \<or> t = FieldTypeNumber"

definition IsZero :: "constraints \<Rightarrow> bool" where
  "IsZero c \<longleftrightarrow> \<not> c_Unique c \<and> c_Format c = [] \<and> c_Pattern c = [] \<and> c_Min c = None \<and> c_Max c = None"

fun floatPtrEqual :: "f64 option \<Rightarrow> f64 option \<Rightarrow> bool" where
  "floatPtrEqual (Some a) (Some b) = f64_eq a b"
| "floatPtrEqual a b = (a = None \<and> b = None)"

definition Equal :: "constraints \<Rightarrow> constraints \<Rightarrow> bool" where
  "Equal c d \<longleftrightarrow> c_Unique c = c_Unique d \<and> c_Format c = c_Format d \<and> c_Pattern c = c_Pattern d \<and>
     floatPtrEqual (c_Min c) (c_Min d) \<and> floatPtrEqual (c_Max c) (c_Max d)"

record constraint_definition_error =
  cde_Code :: string
  cde_Attr :: string

text \<open>One bound: finite, and on a length a non-negative whole number.\<close>

definition check_bound :: "string \<Rightarrow> string \<Rightarrow> f64 option \<Rightarrow> constraint_definition_error option" where
  "check_bound t attr b =
     (case b of None \<Rightarrow> None
      | Some v \<Rightarrow>
          if \<not> is_finite v \<or> t \<noteq> FieldTypeNumber \<and> (f64_less v (f64_nat 0) \<or> \<not> is_whole v)
          then Some \<lparr>cde_Code = ''CONTENT_FIELD_RANGE_INVALID'', cde_Attr = attr\<rparr>
          else None)"

definition above :: "f64 option \<Rightarrow> f64 option \<Rightarrow> bool" where
  "above a b = (case (a, b) of (Some x, Some y) \<Rightarrow> f64_less y x | _ \<Rightarrow> False)"

text \<open>
  \<open>ValidateFieldConstraints\<close>, branch by branch: each block either refuses or falls through
  to the next.
\<close>

definition check_unique :: "string \<Rightarrow> bool \<Rightarrow> constraints \<Rightarrow> constraint_definition_error option" where
  "check_unique t multiple c =
     (if \<not> c_Unique c then None
      else if \<not> UniqueAllowedFor t then Some \<lparr>cde_Code = ''CONTENT_FIELD_CONSTRAINT_NOT_APPLICABLE'', cde_Attr = ''unique''\<rparr>
      else if multiple then Some \<lparr>cde_Code = ''CONTENT_FIELD_UNIQUE_MULTIPLE'', cde_Attr = ''unique''\<rparr>
      else None)"

definition check_format :: "string \<Rightarrow> constraints \<Rightarrow> constraint_definition_error option" where
  "check_format t c =
     (if c_Format c = [] then None
      else if \<not> FormatAllowedFor t then Some \<lparr>cde_Code = ''CONTENT_FIELD_CONSTRAINT_NOT_APPLICABLE'', cde_Attr = ''format''\<rparr>
      else if c_Format c \<notin> set AllowedFieldFormats then Some \<lparr>cde_Code = ''CONTENT_FIELD_FORMAT_UNKNOWN'', cde_Attr = ''format''\<rparr>
      else None)"

definition check_pattern :: "env \<Rightarrow> string \<Rightarrow> constraints \<Rightarrow> constraint_definition_error option" where
  "check_pattern E t c =
     (if c_Pattern c = [] then None
      else if \<not> PatternAllowedFor t then Some \<lparr>cde_Code = ''CONTENT_FIELD_CONSTRAINT_NOT_APPLICABLE'', cde_Attr = ''pattern''\<rparr>
      else if MaxPatternLength < RuneCountInString (c_Pattern c)
              \<or> compilePattern E (c_Pattern c) = None
           then Some \<lparr>cde_Code = ''CONTENT_FIELD_PATTERN_INVALID'', cde_Attr = ''pattern''\<rparr>
      else None)"

definition check_range :: "string \<Rightarrow> constraints \<Rightarrow> constraint_definition_error option" where
  "check_range t c =
     (if c_Min c = None \<and> c_Max c = None then None
      else if \<not> RangeAllowedFor t
           then Some \<lparr>cde_Code = ''CONTENT_FIELD_CONSTRAINT_NOT_APPLICABLE'',
                      cde_Attr = (if c_Min c \<noteq> None then ''min'' else ''max'')\<rparr>
      else case check_bound t ''min'' (c_Min c) of
             Some e \<Rightarrow> Some e
           | None \<Rightarrow>
               (case check_bound t ''max'' (c_Max c) of
                  Some e \<Rightarrow> Some e
                | None \<Rightarrow> if above (c_Min c) (c_Max c)
                          then Some \<lparr>cde_Code = ''CONTENT_FIELD_RANGE_INVALID'', cde_Attr = ''min''\<rparr>
                          else None))"

definition ValidateFieldConstraints ::
    "env \<Rightarrow> string \<Rightarrow> bool \<Rightarrow> constraints \<Rightarrow> constraint_definition_error option" where
  "ValidateFieldConstraints E t multiple c =
     first_error (\<lambda>check. check)
       [check_unique t multiple c, check_format t c, check_pattern E t c, check_range t c]"

section \<open>Which values satisfy a constraint set\<close>

record violation =
  vio_Attr :: string
  vio_Expected :: detail

definition below_min :: "f64 option \<Rightarrow> f64 \<Rightarrow> bool" where
  "below_min b n = (case b of Some m \<Rightarrow> f64_less n m | None \<Rightarrow> False)"

definition above_max :: "f64 option \<Rightarrow> f64 \<Rightarrow> bool" where
  "above_max b n = (case b of Some m \<Rightarrow> f64_less m n | None \<Rightarrow> False)"

definition violates :: "string \<Rightarrow> detail \<Rightarrow> violation option" where
  "violates attr expected = Some \<lparr>vio_Attr = attr, vio_Expected = expected\<rparr>"

definition pattern_matches :: "env \<Rightarrow> string \<Rightarrow> string \<Rightarrow> bool" where
  "pattern_matches E p s = (case compilePattern E p of None \<Rightarrow> False | Some m \<Rightarrow> m s)"

definition CheckValue :: "env \<Rightarrow> constraints \<Rightarrow> string \<Rightarrow> json \<Rightarrow> violation option" where
  "CheckValue E c t v =
     (if t = FieldTypeString \<or> t = FieldTypeText then
        (case as_str v of None \<Rightarrow> None
         | Some s \<Rightarrow>
             let n = f64_nat (RuneCountInString s) in
             if c_Format c = FieldFormatSlug \<and> \<not> IsSlug s then violates ''format'' (DStr FieldFormatSlug)
             else if c_Pattern c \<noteq> [] \<and> \<not> pattern_matches E (c_Pattern c) s
                  then violates ''pattern'' (DStr (c_Pattern c))
             else if below_min (c_Min c) n then violates ''min'' (DFmt ''%s characters'' [DBound (the (c_Min c))])
             else if above_max (c_Max c) n then violates ''max'' (DFmt ''%s characters'' [DBound (the (c_Max c))])
             else None)
      else if t = FieldTypeNumber then
        (case as_num v of None \<Rightarrow> None
         | Some f \<Rightarrow>
             if below_min (c_Min c) f then violates ''min'' (DBound (the (c_Min c)))
             else if above_max (c_Max c) f then violates ''max'' (DBound (the (c_Max c)))
             else None)
      else None)"

definition raises_min :: "f64 option \<Rightarrow> f64 option \<Rightarrow> bool" where
  "raises_min new old =
     (case new of None \<Rightarrow> False
      | Some m \<Rightarrow> (case old of None \<Rightarrow> True | Some m0 \<Rightarrow> f64_less m0 m))"

definition lowers_max :: "f64 option \<Rightarrow> f64 option \<Rightarrow> bool" where
  "lowers_max new old =
     (case new of None \<Rightarrow> False
      | Some m \<Rightarrow> (case old of None \<Rightarrow> True | Some m0 \<Rightarrow> f64_less m m0))"

text \<open>\<open>c.Tightens(from)\<close>\<close>

definition Tightens :: "constraints \<Rightarrow> constraints \<Rightarrow> bool" where
  "Tightens c from \<longleftrightarrow>
     c_Format c \<noteq> [] \<and> c_Format c \<noteq> c_Format from \<or>
     c_Pattern c \<noteq> [] \<and> c_Pattern c \<noteq> c_Pattern from \<or>
     raises_min (c_Min c) (c_Min from) \<or> lowers_max (c_Max c) (c_Max from)"

section \<open>Facts\<close>

text \<open>What a value must be, without the order in which the code tests it.\<close>

definition in_range :: "constraints \<Rightarrow> f64 \<Rightarrow> bool" where
  "in_range c n \<longleftrightarrow> \<not> below_min (c_Min c) n \<and> \<not> above_max (c_Max c) n"

definition string_satisfies :: "env \<Rightarrow> constraints \<Rightarrow> string \<Rightarrow> bool" where
  "string_satisfies E c s \<longleftrightarrow>
     (c_Format c = FieldFormatSlug \<longrightarrow> IsSlug s) \<and>
     (c_Pattern c \<noteq> [] \<longrightarrow> pattern_matches E (c_Pattern c) s) \<and>
     in_range c (f64_nat (RuneCountInString s))"

definition satisfies :: "env \<Rightarrow> constraints \<Rightarrow> string \<Rightarrow> json \<Rightarrow> bool" where
  "satisfies E c t v \<longleftrightarrow>
     (t = FieldTypeString \<or> t = FieldTypeText \<longrightarrow> (\<forall>s. v = JStr s \<longrightarrow> string_satisfies E c s)) \<and>
     (t = FieldTypeNumber \<longrightarrow> (\<forall>f. v = JNum f \<longrightarrow> in_range c f))"

lemma number_is_no_string: "FieldTypeNumber \<noteq> FieldTypeString" "FieldTypeNumber \<noteq> FieldTypeText"
  by (simp_all add: field_type_defs)

lemma CheckValue_None: "CheckValue E c t v = None \<longleftrightarrow> satisfies E c t v"
proof (cases "t = FieldTypeString \<or> t = FieldTypeText")
  case True
  then have "t \<noteq> FieldTypeNumber" using number_is_no_string by metis
  with True show ?thesis
    by (cases v) (simp_all add: CheckValue_def satisfies_def string_satisfies_def in_range_def
        violates_def Let_def split: if_split)
next
  case False
  then show ?thesis
    by (cases v) (simp_all add: CheckValue_def satisfies_def in_range_def violates_def)
qed

definition finite_bounds :: "constraints \<Rightarrow> bool" where
  "finite_bounds c \<longleftrightarrow>
     pred_option is_finite (c_Min c) \<and> pred_option is_finite (c_Max c)"

lemma ValidateFieldConstraints_finite:
  "ValidateFieldConstraints E t multiple c = None \<Longrightarrow> finite_bounds c"
  by (auto simp: ValidateFieldConstraints_def check_range_def check_bound_def finite_bounds_def
      split: option.splits if_splits)

lemma f64_relax_min: "f64_less n m \<Longrightarrow> \<not> f64_less k m \<Longrightarrow> is_finite m \<Longrightarrow> is_finite k \<Longrightarrow> f64_less n k"
  by (cases n; cases m; cases k) auto

lemma f64_relax_max: "f64_less m n \<Longrightarrow> \<not> f64_less m k \<Longrightarrow> is_finite m \<Longrightarrow> is_finite k \<Longrightarrow> f64_less k n"
  by (cases n; cases m; cases k) auto

lemma raises_min_mono:
  "\<not> raises_min new old \<Longrightarrow> pred_option is_finite old \<Longrightarrow> pred_option is_finite new \<Longrightarrow>
   below_min new n \<Longrightarrow> below_min old n"
  by (cases new; cases old) (auto simp: raises_min_def below_min_def intro: f64_relax_min)

lemma lowers_max_mono:
  "\<not> lowers_max new old \<Longrightarrow> pred_option is_finite old \<Longrightarrow> pred_option is_finite new \<Longrightarrow>
   above_max new n \<Longrightarrow> above_max old n"
  by (cases new; cases old) (auto simp: lowers_max_def above_max_def intro: f64_relax_max)

lemma relaxed_satisfies:
  assumes "finite_bounds from" and "finite_bounds c" and "\<not> Tightens c from" and "satisfies E from t v"
  shows "satisfies E c t v"
proof -
  have rng: "in_range from n \<Longrightarrow> in_range c n" for n
    using assms raises_min_mono [of "c_Min c" "c_Min from" n] lowers_max_mono [of "c_Max c" "c_Max from" n]
    by (auto simp: in_range_def Tightens_def finite_bounds_def)
  have fp: "c_Format c = [] \<or> c_Format c = c_Format from" "c_Pattern c = [] \<or> c_Pattern c = c_Pattern from"
    using assms(3) by (auto simp: Tightens_def)
  then have "string_satisfies E from s \<Longrightarrow> string_satisfies E c s" for s
    using rng by (auto simp: string_satisfies_def FieldFormatSlug_def)
  with rng assms(4) show ?thesis by (auto simp: satisfies_def)
qed

section \<open>A rule set that can be relaxed\<close>

text \<open>
  The interface a schema change relies on: rule sets, the ones that may be stored, the
  values each accepts, and a test that tells which replacements are harmless.  What a
  chain of harmless replacements keeps is proved once, here.
\<close>

locale relaxable =
  fixes stored :: "'r \<Rightarrow> bool"
    and accepts :: "'r \<Rightarrow> 'v \<Rightarrow> bool"
    and tightens :: "'r \<Rightarrow> 'r \<Rightarrow> bool"
  assumes relax: "stored from \<Longrightarrow> stored c \<Longrightarrow> \<not> tightens c from \<Longrightarrow> accepts from v \<Longrightarrow> accepts c v"
begin

lemma relax_chain:
  assumes "\<forall>r \<in> set (r # rs). stored r" and "successively (\<lambda>from c. \<not> tightens c from) (r # rs)"
    and "accepts r v"
  shows "accepts (last (r # rs)) v"
  using assms
proof (induction rs arbitrary: r)
  case (Cons c rs)
  then have "accepts c v" using relax [of r c v] by auto
  with Cons show ?case by auto
qed simp

lemma refused_was_tightened:
  "stored from \<Longrightarrow> stored c \<Longrightarrow> accepts from v \<Longrightarrow> \<not> accepts c v \<Longrightarrow> tightens c from"
  using relax by blast

end

interpretation fc: relaxable
    "\<lambda>c. ValidateFieldConstraints E t multiple c = None"
    "\<lambda>c v. CheckValue E c t v = None" Tightens
  for E t multiple
  by unfold_locales
    (auto simp: CheckValue_None intro: relaxed_satisfies ValidateFieldConstraints_finite)

section \<open>Properties\<close>

text \<open>The slug format accepts exactly non-empty runs of lower-case letters and digits joined
  by single hyphens: no hyphen stands first, last or beside another.
\<close>

theorem slug_format_language:
  "IsSlug s \<longleftrightarrow> (\<exists>rs. rs \<noteq> [] \<and> (\<forall>r \<in> set rs. r \<noteq> [] \<and> list_all slug_char r) \<and> s = join_runs rs)"
  using IsSlug_language [of s] unfolding slug_runs_def by blast

theorem slug_format_language_witness: "IsSlug ''a-1''"
  unfolding slug_format_language
  by (rule exI [of _ "[''a'', ''1'']"]) (simp add: slug_char_def byte_in_def is_digit_def)

text \<open>
  Loosening a constraint set loses no value.  Along any chain of stored constraint sets
  in which no step tightens the one before, a value the first set accepts is accepted by
  the last, whatever the regular expression engine.
\<close>

theorem loosened_constraints_keep_values:
  assumes "\<forall>r \<in> set (c # cs). ValidateFieldConstraints E t multiple r = None"
    and "successively (\<lambda>from next. \<not> Tightens next from) (c # cs)"
    and "CheckValue E c t v = None"
  shows "CheckValue E (last (c # cs)) t v = None"
  using fc.relax_chain [OF assms] .

definition range_rule :: "rat \<Rightarrow> constraints" where
  "range_rule hi = no_constraints\<lparr>c_Max := Some (Fin hi)\<rparr>"

theorem loosened_constraints_keep_values_witness:
  "CheckValue \<lparr>regexp_compile = (\<lambda>_. None), uuid_parse = Some, json_text = (\<lambda>_. [])\<rparr> (last [range_rule 3, range_rule 5, range_rule 9]) FieldTypeNumber (JNum (Fin 2)) = None"
  by (rule loosened_constraints_keep_values [where multiple = False])
    (simp_all add: range_rule_def no_constraints_def Tightens_def raises_min_def lowers_max_def
      ValidateFieldConstraints_def check_unique_def check_format_def check_pattern_def check_range_def
      check_bound_def above_def RangeAllowedFor_def CheckValue_None satisfies_def in_range_def below_min_def
      above_max_def field_type_defs)

end
