(* ===== verification/Rich_Text.thy ===== *)
theory Rich_Text
  imports Field_Constraints
begin

text \<open>
  The block grammar of rich text (\<open>internal/cms/content/domain/richtext.go\<close>): the
  validator that every write of a rich text value goes through, and the collector of the
  media assets a validated value names.  A violation carries its path, as the code builds
  it, and its format string with the arguments it is rendered with.
\<close>

definition AllowedRichTextMarks :: "string list" where
  "AllowedRichTextMarks = [''strong'', ''em'', ''underline'', ''strike'', ''code'']"

definition MaxRichTextBlocks :: nat where "MaxRichTextBlocks = 500"
definition MaxRichTextImageBlocks :: nat where "MaxRichTextImageBlocks = 50"
definition MaxRichTextHrefLen :: nat where "MaxRichTextHrefLen = 2048"
definition MaxRichTextCodeLanguageLen :: nat where "MaxRichTextCodeLanguageLen = 40"
definition MaxRichTextHeadingLevel :: nat where "MaxRichTextHeadingLevel = 6"
definition MaxAltTextLen :: nat where "MaxAltTextLen = 1000"

record rich_text_violation =
  rtv_Path :: string
  rtv_Reason :: detail

definition rtv :: "string \<Rightarrow> string \<Rightarrow> detail list \<Rightarrow> rich_text_violation option" where
  "rtv path fmt args = Some \<lparr>rtv_Path = path, rtv_Reason = DFmt fmt args\<rparr>"

text \<open>The loop shape of the validator: elements with their index, stop at the first violation.\<close>

definition first_violation_at ::
    "(nat \<Rightarrow> 'a \<Rightarrow> rich_text_violation option) \<Rightarrow> 'a list \<Rightarrow> rich_text_violation option" where
  "first_violation_at check xs = first_error (\<lambda>(i, x). check i x) (enumerate 0 xs)"

text \<open>The two loops that refuse keys outside a vocabulary, in map order.\<close>

definition refuse_unknown_keys ::
    "string \<Rightarrow> string list \<Rightarrow> string \<Rightarrow> detail list \<Rightarrow> doc \<Rightarrow> rich_text_violation option" where
  "refuse_unknown_keys path legal fmt args obj =
     first_error (\<lambda>k. if k \<in> set legal then None else rtv (path @ ''.'' @ k) fmt args) (map fst obj)"

section \<open>Spans\<close>

definition legalMark :: "string \<Rightarrow> bool" where
  "legalMark s \<longleftrightarrow> s \<in> set AllowedRichTextMarks"

definition legalHref :: "string \<Rightarrow> bool" where
  "legalHref s \<longleftrightarrow>
     s \<noteq> [] \<and> length s \<le> MaxRichTextHrefLen \<and>
     (HasPrefix s ''/'' \<or> HasPrefix s ''#'' \<or>
      (let lower = ToLower s in
       HasPrefix lower ''http://'' \<or> HasPrefix lower ''https://'' \<or> HasPrefix lower ''mailto:''))"

text \<open>The marks loop, with the set of the marks seen so far.\<close>

fun check_marks :: "string \<Rightarrow> nat \<Rightarrow> string list \<Rightarrow> json list \<Rightarrow> rich_text_violation option" where
  "check_marks path i seen [] = None"
| "check_marks path i seen (m # ms) =
     (case as_str m of
        None \<Rightarrow> rtv (path @ ''.marks'' @ idx_str i) ''unknown mark'' []
      | Some s \<Rightarrow>
          if \<not> legalMark s then rtv (path @ ''.marks'' @ idx_str i) ''unknown mark'' []
          else if s \<in> set seen then rtv (path @ ''.marks'' @ idx_str i) ''duplicate mark %q'' [DStr s]
          else check_marks path (Suc i) (s # seen) ms)"

definition check_span_marks :: "string \<Rightarrow> json option \<Rightarrow> rich_text_violation option" where
  "check_span_marks path v =
     (case v of None \<Rightarrow> None
      | Some m \<Rightarrow> (case as_arr m of None \<Rightarrow> rtv (path @ ''.marks'') ''marks must be an array'' []
                   | Some xs \<Rightarrow> check_marks path 0 [] xs))"

definition check_span_href :: "string \<Rightarrow> json option \<Rightarrow> rich_text_violation option" where
  "check_span_href path v =
     (case v of None \<Rightarrow> None
      | Some h \<Rightarrow>
          if (case as_str h of Some s \<Rightarrow> legalHref s | None \<Rightarrow> False) then None
          else rtv (path @ ''.href'') ''href must be http(s), mailto, or site-relative'' [])"

definition validateSpan :: "string \<Rightarrow> json \<Rightarrow> rich_text_violation option" where
  "validateSpan path v =
     (case as_obj v of
        None \<Rightarrow> rtv path ''span must be an object'' []
      | Some sp \<Rightarrow>
          (case Option.bind (map_of sp ''text'') as_str of
             None \<Rightarrow> rtv (path @ ''.text'') ''span needs a string `text`'' []
           | Some _ \<Rightarrow>
               first_error (\<lambda>check. check)
                 [check_span_marks path (map_of sp ''marks''),
                  check_span_href path (map_of sp ''href''),
                  refuse_unknown_keys path [''text'', ''marks'', ''href''] ''unknown key for span'' [] sp]))"

section \<open>Blocks\<close>

definition allowedKeys :: "string \<Rightarrow> doc \<Rightarrow> string list \<Rightarrow> rich_text_violation option" where
  "allowedKeys path block keys =
     refuse_unknown_keys path (''type'' # keys) ''unknown key for %q block''
       [DStr (str_or_empty (map_of block ''type''))] block"

definition validateChildren :: "string \<Rightarrow> doc \<Rightarrow> rich_text_violation option" where
  "validateChildren path block =
     (case Option.bind (map_of block ''children'') as_arr of
        None \<Rightarrow> rtv (path @ ''.children'') ''block needs an array of spans'' []
      | Some spans \<Rightarrow> first_violation_at (\<lambda>i. validateSpan (path @ ''.children'' @ idx_str i)) spans)"

text \<open>
  \<open>lvl == float64(int(lvl))\<close> and the two bounds.  The conversion to \<open>int\<close> is only
  implementation-defined outside the bounds, where the test fails anyway.
\<close>

definition heading_level :: "json option \<Rightarrow> bool" where
  "heading_level v = (case Option.bind v as_num of
       None \<Rightarrow> False
     | Some lvl \<Rightarrow> is_whole lvl \<and> \<not> f64_less lvl (f64_nat 1)
                    \<and> \<not> f64_less (f64_nat MaxRichTextHeadingLevel) lvl)"

definition code_language :: "json \<Rightarrow> bool" where
  "code_language v = (case as_str v of None \<Rightarrow> False
     | Some s \<Rightarrow> s \<noteq> [] \<and> length s \<le> MaxRichTextCodeLanguageLen \<and> \<not> ContainsAny s [CHR '' '', CHR 0x09, CHR 0x0A])"

definition check_list_item :: "string \<Rightarrow> nat \<Rightarrow> json \<Rightarrow> rich_text_violation option" where
  "check_list_item path j item =
     (case as_arr item of
        None \<Rightarrow> rtv (path @ ''.items'' @ idx_str j) ''list item must be an array of spans'' []
      | Some spans \<Rightarrow>
          first_violation_at (\<lambda>k. validateSpan (path @ ''.items'' @ idx_str j @ idx_str k)) spans)"

definition alt_text :: "json \<Rightarrow> bool" where
  "alt_text v = (case as_str v of None \<Rightarrow> False | Some s \<Rightarrow> length s \<le> MaxAltTextLen)"

definition check_level :: "string \<Rightarrow> doc \<Rightarrow> rich_text_violation option" where
  "check_level path block =
     (if heading_level (map_of block ''level'') then None
      else rtv (path @ ''.level'') ''heading level must be an integer 1..%d'' [DNat MaxRichTextHeadingLevel])"

definition check_code :: "string \<Rightarrow> doc \<Rightarrow> rich_text_violation option" where
  "check_code path block =
     (if Option.bind (map_of block ''code'') as_str = None
      then rtv (path @ ''.code'') ''code block needs a string `code`'' []
      else case map_of block ''language'' of
             None \<Rightarrow> None
           | Some lang \<Rightarrow> if code_language lang then None
                          else rtv (path @ ''.language'') ''language must be a short token'' [])"

definition check_list :: "string \<Rightarrow> doc \<Rightarrow> rich_text_violation option" where
  "check_list path block =
     (if str_or_empty (map_of block ''style'') \<notin> {''bullet'', ''ordered''}
      then rtv (path @ ''.style'') ''list style must be bullet or ordered'' []
      else case Option.bind (map_of block ''items'') as_arr of
             None \<Rightarrow> rtv (path @ ''.items'') ''list needs an array of items'' []
           | Some items \<Rightarrow> first_violation_at (check_list_item path) items)"

definition check_image :: "env \<Rightarrow> string \<Rightarrow> doc \<Rightarrow> rich_text_violation option" where
  "check_image E path block =
     (if uuid_parse E (str_or_empty (map_of block ''media_id'')) = None
      then rtv (path @ ''.media_id'') ''image needs a media asset id'' []
      else case map_of block ''alt'' of
             None \<Rightarrow> None
           | Some alt \<Rightarrow> if alt_text alt then None
                         else rtv (path @ ''.alt'') ''alt must be a string of at most %d chars'' [DNat MaxAltTextLen])"

definition validateBlock :: "env \<Rightarrow> string \<Rightarrow> string \<Rightarrow> doc \<Rightarrow> rich_text_violation option" where
  "validateBlock E path typ block =
     (if typ = ''paragraph'' \<or> typ = ''quote'' then
        first_error (\<lambda>c. c) [validateChildren path block, allowedKeys path block [''children'']]
      else if typ = ''heading'' then
        first_error (\<lambda>c. c) [check_level path block, validateChildren path block,
                              allowedKeys path block [''level'', ''children'']]
      else if typ = ''code'' then
        first_error (\<lambda>c. c) [check_code path block, allowedKeys path block [''code'', ''language'']]
      else if typ = ''list'' then
        first_error (\<lambda>c. c) [check_list path block, allowedKeys path block [''style'', ''items'']]
      else if typ = ''image'' then
        first_error (\<lambda>c. c) [check_image E path block, allowedKeys path block [''media_id'', ''alt'']]
      else if typ = ''divider'' then allowedKeys path block []
      else rtv (path @ ''.type'') ''unknown block type %q'' [DStr typ])"

text \<open>The block loop, with the number of image blocks seen so far.\<close>

fun validate_blocks :: "env \<Rightarrow> nat \<Rightarrow> nat \<Rightarrow> json list \<Rightarrow> rich_text_violation option" where
  "validate_blocks E i images [] = None"
| "validate_blocks E i images (b # bs) =
     (case as_obj b of
        None \<Rightarrow> rtv (idx_str i) ''block must be an object'' []
      | Some block \<Rightarrow>
          let typ = str_or_empty (map_of block ''type'');
              images' = (if typ = ''image'' then Suc images else images) in
          if typ = ''image'' \<and> MaxRichTextImageBlocks < images'
          then rtv (idx_str i) ''too many image blocks: limit %d'' [DNat MaxRichTextImageBlocks]
          else case validateBlock E (idx_str i) typ block of
                 Some v \<Rightarrow> Some v
               | None \<Rightarrow> validate_blocks E (Suc i) images' bs)"

definition ValidateRichText :: "env \<Rightarrow> json \<Rightarrow> rich_text_violation option" where
  "ValidateRichText E v =
     (case as_arr v of
        None \<Rightarrow> rtv [] ''value must be an array of blocks'' []
      | Some blocks \<Rightarrow>
          if MaxRichTextBlocks < length blocks
          then rtv [] ''too many blocks: %d > %d'' [DNat (length blocks), DNat MaxRichTextBlocks]
          else validate_blocks E 0 0 blocks)"

section \<open>The media a value names\<close>

definition image_media_id :: "env \<Rightarrow> json \<Rightarrow> string option" where
  "image_media_id E b =
     (case as_obj b of
        None \<Rightarrow> None
      | Some block \<Rightarrow> if map_of block ''type'' \<noteq> Some (JStr ''image'') then None
                      else uuid_parse E (str_or_empty (map_of block ''media_id'')))"

fun collect_ids :: "env \<Rightarrow> string list \<Rightarrow> json list \<Rightarrow> string list" where
  "collect_ids E ids [] = ids"
| "collect_ids E ids (b # bs) =
     (case image_media_id E b of
        None \<Rightarrow> collect_ids E ids bs
      | Some m \<Rightarrow> if m \<in> set ids then collect_ids E ids bs else collect_ids E (ids @ [m]) bs)"

definition CollectRichTextMediaIDs :: "env \<Rightarrow> json \<Rightarrow> string list" where
  "CollectRichTextMediaIDs E v = (case as_arr v of None \<Rightarrow> [] | Some blocks \<Rightarrow> collect_ids E [] blocks)"

section \<open>The grammar the validator decides\<close>

text \<open>The legal values, stated without paths, order of tests or counters.\<close>

definition marks_ok :: "json \<Rightarrow> bool" where
  "marks_ok m \<longleftrightarrow> (\<exists>ms. m = JArr (map JStr ms) \<and> distinct ms \<and> (\<forall>s \<in> set ms. legalMark s))"

definition span_ok :: "json \<Rightarrow> bool" where
  "span_ok v \<longleftrightarrow>
     (\<exists>sp. v = JObj sp \<and> fst ` set sp \<subseteq> {''text'', ''marks'', ''href''} \<and>
        (\<exists>t. map_of sp ''text'' = Some (JStr t)) \<and>
        pred_option marks_ok (map_of sp ''marks'') \<and>
        pred_option (\<lambda>h. \<exists>s. h = JStr s \<and> legalHref s) (map_of sp ''href''))"

definition spans_ok :: "json option \<Rightarrow> bool" where
  "spans_ok v \<longleftrightarrow> (\<exists>xs. v = Some (JArr xs) \<and> (\<forall>x \<in> set xs. span_ok x))"

definition keys_within :: "doc \<Rightarrow> string list \<Rightarrow> bool" where
  "keys_within block keys \<longleftrightarrow> fst ` set block \<subseteq> insert ''type'' (set keys)"

definition block_body_ok :: "env \<Rightarrow> string \<Rightarrow> doc \<Rightarrow> bool" where
  "block_body_ok E typ block \<longleftrightarrow>
     typ \<in> {''paragraph'', ''quote''} \<and> spans_ok (map_of block ''children'') \<and> keys_within block [''children''] \<or>
     typ = ''heading'' \<and> heading_level (map_of block ''level'') \<and> spans_ok (map_of block ''children'') \<and>
       keys_within block [''level'', ''children''] \<or>
     typ = ''code'' \<and> (\<exists>s. map_of block ''code'' = Some (JStr s)) \<and>
       pred_option code_language (map_of block ''language'') \<and> keys_within block [''code'', ''language''] \<or>
     typ = ''list'' \<and> str_or_empty (map_of block ''style'') \<in> {''bullet'', ''ordered''} \<and>
       (\<exists>items. map_of block ''items'' = Some (JArr items) \<and> (\<forall>it \<in> set items. spans_ok (Some it))) \<and>
       keys_within block [''style'', ''items''] \<or>
     typ = ''image'' \<and> uuid_parse E (str_or_empty (map_of block ''media_id'')) \<noteq> None \<and>
       pred_option alt_text (map_of block ''alt'') \<and> keys_within block [''media_id'', ''alt''] \<or>
     typ = ''divider'' \<and> keys_within block []"

definition block_ok :: "env \<Rightarrow> json \<Rightarrow> bool" where
  "block_ok E b \<longleftrightarrow> (\<exists>block. b = JObj block \<and> block_body_ok E (str_or_empty (map_of block ''type'')) block)"

definition is_image_block :: "json \<Rightarrow> bool" where
  "is_image_block b \<longleftrightarrow> (\<exists>block. b = JObj block \<and> str_or_empty (map_of block ''type'') = ''image'')"

definition rich_text_ok :: "env \<Rightarrow> json \<Rightarrow> bool" where
  "rich_text_ok E v \<longleftrightarrow>
     (\<exists>blocks. v = JArr blocks \<and> length blocks \<le> MaxRichTextBlocks \<and>
        length (filter is_image_block blocks) \<le> MaxRichTextImageBlocks \<and> (\<forall>b \<in> set blocks. block_ok E b))"

lemma rtv_not_None [simp]: "rtv p f a \<noteq> None"
  by (simp add: rtv_def)

lemma first_violation_at_None:
  assumes "\<And>i x. check i x = None \<longleftrightarrow> P x"
  shows "first_violation_at check xs = None \<longleftrightarrow> (\<forall>x \<in> set xs. P x)"
  unfolding first_violation_at_def by (rule first_error_enumerate_None) (rule assms)

lemma Cons_map_JStr:
  "(\<exists>ks. m # ms = map JStr ks \<and> P ks) \<longleftrightarrow> (\<exists>s ks. m = JStr s \<and> ms = map JStr ks \<and> P (s # ks))"
proof
  assume "\<exists>ks. m # ms = map JStr ks \<and> P ks"
  then obtain ks where "m # ms = map JStr ks" "P ks" by (elim exE conjE)
  then show "\<exists>s ks. m = JStr s \<and> ms = map JStr ks \<and> P (s # ks)" by (cases ks) auto
qed force

lemma check_marks_None:
  "check_marks path i seen xs = None \<longleftrightarrow>
     (\<exists>ms. xs = map JStr ms \<and> distinct ms \<and> set ms \<inter> set seen = {} \<and> (\<forall>s \<in> set ms. legalMark s))"
proof (induction path i seen xs rule: check_marks.induct)
  case (2 path i seen m ms)
  show ?case
  proof (cases "as_str m")
    case None
    then show ?thesis by (auto split: option.splits)
  next
    case (Some s)
    then have m: "m = JStr s" by simp
    show ?thesis
    proof (cases "legalMark s \<and> s \<notin> set seen")
      case True
      then have "check_marks path i seen (m # ms) = None \<longleftrightarrow> (\<exists>ks. ms = map JStr ks \<and> distinct ks \<and>
          set ks \<inter> set (s # seen) = {} \<and> (\<forall>s \<in> set ks. legalMark s))"
        using 2 [OF Some] by (simp add: m)
      also have "\<dots> \<longleftrightarrow> (\<exists>ks. m # ms = map JStr ks \<and> distinct ks \<and>
          set ks \<inter> set seen = {} \<and> (\<forall>s \<in> set ks. legalMark s))"
        unfolding Cons_map_JStr using True by (auto simp: m)
      finally show ?thesis .
    next
      case False
      then show ?thesis by (auto simp: m)
    qed
  qed
qed simp

lemma check_span_marks_None:
  "check_span_marks path v = None \<longleftrightarrow> pred_option marks_ok v"
  by (auto simp: check_span_marks_def marks_ok_def check_marks_None split: option.split)

lemma check_span_href_None:
  "check_span_href path v = None \<longleftrightarrow> pred_option (\<lambda>h. \<exists>s. h = JStr s \<and> legalHref s) v"
  by (auto simp: check_span_href_def split: option.split)

lemma bind_as [simp]:
  "(Option.bind v as_str = Some s) = (v = Some (JStr s))"
  "(Option.bind v as_arr = Some xs) = (v = Some (JArr xs))"
  "(Option.bind v as_num = Some f) = (v = Some (JNum f))"
  by (cases v; simp)+

lemma case_bind_None:
  "(case Option.bind v g of None \<Rightarrow> rtv p f a | Some x \<Rightarrow> h x) = None \<longleftrightarrow>
     (\<exists>x. Option.bind v g = Some x \<and> h x = None)"
  by (auto split: option.split)

lemma refuse_unknown_keys_None:
  "refuse_unknown_keys path legal fmt args obj = None \<longleftrightarrow> fst ` set obj \<subseteq> set legal"
  by (auto simp: refuse_unknown_keys_def)

lemma validateSpan_None: "validateSpan path v = None \<longleftrightarrow> span_ok v"
proof (cases "as_obj v")
  case None
  then show ?thesis by (auto simp: validateSpan_def span_ok_def)
next
  case (Some sp)
  then have v: "v = JObj sp" by simp
  show ?thesis
    by (simp add: v validateSpan_def span_ok_def case_bind_None check_span_marks_None
        check_span_href_None refuse_unknown_keys_None) blast
qed

lemma allowedKeys_None: "allowedKeys path block keys = None \<longleftrightarrow> keys_within block keys"
  by (simp add: allowedKeys_def keys_within_def refuse_unknown_keys_None)

lemma spans_None:
  "first_violation_at (\<lambda>i. validateSpan (p i)) xs = None \<longleftrightarrow> (\<forall>x \<in> set xs. span_ok x)"
  by (rule first_violation_at_None) (rule validateSpan_None)

lemma validateChildren_None: "validateChildren path block = None \<longleftrightarrow> spans_ok (map_of block ''children'')"
  by (simp add: validateChildren_def case_bind_None spans_None spans_ok_def)

lemma check_list_item_None: "check_list_item path j item = None \<longleftrightarrow> spans_ok (Some item)"
  by (cases item) (simp_all add: check_list_item_def spans_ok_def spans_None)

lemma check_list_None:
  "check_list path block = None \<longleftrightarrow>
     str_or_empty (map_of block ''style'') \<in> {''bullet'', ''ordered''} \<and>
     (\<exists>items. map_of block ''items'' = Some (JArr items) \<and> (\<forall>it \<in> set items. spans_ok (Some it)))"
  by (simp add: check_list_def case_bind_None first_violation_at_None [OF check_list_item_None])

lemma check_level_None: "check_level path block = None \<longleftrightarrow> heading_level (map_of block ''level'')"
  by (simp add: check_level_def)

lemma check_code_None:
  "check_code path block = None \<longleftrightarrow>
     (\<exists>s. map_of block ''code'' = Some (JStr s)) \<and> pred_option code_language (map_of block ''language'')"
proof -
  have "Option.bind (map_of block ''code'') as_str = None \<longleftrightarrow> \<not> (\<exists>s. map_of block ''code'' = Some (JStr s))"
    by (metis bind_as(1) not_Some_eq)
  then show ?thesis by (auto simp: check_code_def split: option.split)
qed

lemma check_image_None:
  "check_image E path block = None \<longleftrightarrow>
     uuid_parse E (str_or_empty (map_of block ''media_id'')) \<noteq> None \<and> pred_option alt_text (map_of block ''alt'')"
  by (auto simp: check_image_def split: option.split)

lemma validateBlock_None: "validateBlock E path typ block = None \<longleftrightarrow> block_body_ok E typ block"
  by (simp add: validateBlock_def block_body_ok_def validateChildren_None allowedKeys_None
      check_level_None check_code_None check_list_None check_image_None)

lemma validate_blocks_None:
  "validate_blocks E i images bs = None \<longleftrightarrow>
     (\<forall>b \<in> set bs. block_ok E b) \<and>
     (filter is_image_block bs = [] \<or> images + length (filter is_image_block bs) \<le> MaxRichTextImageBlocks)"
proof (induction E i images bs rule: validate_blocks.induct)
  case (2 E i images b bs)
  show ?case
  proof (cases "as_obj b")
    case None
    then show ?thesis by (auto simp: block_ok_def)
  next
    case (Some block)
    then have b: "b = JObj block" by simp
    define bt where "bt = str_or_empty (map_of block ''type'')"
    have ok: "block_ok E b \<longleftrightarrow> validateBlock E (idx_str i) bt block = None"
      by (simp add: b block_ok_def validateBlock_None bt_def)
    have im: "is_image_block b \<longleftrightarrow> bt = ''image''" by (simp add: b is_image_block_def bt_def)
    note ih = 2 [OF Some bt_def refl]
    show ?thesis
    proof (cases "bt = ''image''")
      case True
      with ih ok im show ?thesis
        by (auto simp: b bt_def [symmetric] Let_def split: option.split)
    next
      case False
      with ih ok im show ?thesis
        by (auto simp: b bt_def [symmetric] Let_def split: option.split)
    qed
  qed
qed simp

lemma ValidateRichText_None: "ValidateRichText E v = None \<longleftrightarrow> rich_text_ok E v"
  by (cases v) (auto simp: ValidateRichText_def rich_text_ok_def validate_blocks_None)

section \<open>The collector\<close>

lemma collect_ids_set:
  "set (collect_ids E ids bs) = set ids \<union> {m. \<exists>b \<in> set bs. image_media_id E b = Some m}"
  by (induction E ids bs rule: collect_ids.induct) (auto split: option.splits)

lemma collect_ids_distinct: "distinct ids \<Longrightarrow> distinct (collect_ids E ids bs)"
  by (induction E ids bs rule: collect_ids.induct) (auto split: option.splits)

lemma collect_ids_length:
  "length (collect_ids E ids bs) \<le> length ids + length (filter is_image_block bs)"
proof (induction E ids bs rule: collect_ids.induct)
  case (2 E ids b bs)
  have "image_media_id E b \<noteq> None \<Longrightarrow> is_image_block b"
    by (cases b) (auto simp: image_media_id_def is_image_block_def split: if_splits)
  with 2 show ?case by (auto split: option.splits)
qed simp

section \<open>Properties\<close>

text \<open>
  C15: The rich text validator decides the block grammar.  A value is accepted exactly when it
  is an array of at most the allowed number of blocks, each of a known type with exactly its
  legal keys and well-formed spans, with at most the allowed number of images.
\<close>

theorem rich_text_validator_decides_the_grammar:
  "ValidateRichText E v = None \<longleftrightarrow>
     (\<exists>bs. v = JArr bs \<and> length bs \<le> MaxRichTextBlocks \<and> (\<forall>b \<in> set bs. block_ok E b) \<and>
        length (filter is_image_block bs) \<le> MaxRichTextImageBlocks)"
  unfolding ValidateRichText_None rich_text_ok_def by auto

theorem rich_text_validator_decides_the_grammar_witness:
  "ValidateRichText \<lparr>regexp_compile = (\<lambda>_. None), uuid_parse = Some, json_text = (\<lambda>_. [])\<rparr> (JArr [JObj [(''type'', JStr ''divider'')]]) = None"
  unfolding rich_text_validator_decides_the_grammar
  by (rule exI [of _ "[JObj [(''type'', JStr ''divider'')]]"])
    (simp add: MaxRichTextBlocks_def MaxRichTextImageBlocks_def block_ok_def block_body_ok_def keys_within_def
      is_image_block_def)

text \<open>The media collector returns each image the value names once, and no more than the image
  limit from a value the validator accepts.
\<close>

theorem collected_media_are_the_images:
  assumes "ValidateRichText E v = None"
  shows "distinct (CollectRichTextMediaIDs E v) \<and>
    length (CollectRichTextMediaIDs E v) \<le> MaxRichTextImageBlocks \<and>
    (\<exists>bs. v = JArr bs \<and> set (CollectRichTextMediaIDs E v) = {m. \<exists>b \<in> set bs. image_media_id E b = Some m} \<and>
       (\<forall>b \<in> set bs. is_image_block b \<longrightarrow> image_media_id E b \<noteq> None))"
proof -
  from assms obtain bs where v: "v = JArr bs" and ok: "\<forall>b \<in> set bs. block_ok E b"
    and n: "length (filter is_image_block bs) \<le> MaxRichTextImageBlocks"
    unfolding ValidateRichText_None rich_text_ok_def by auto
  have "image_media_id E b \<noteq> None" if b: "block_ok E b" "is_image_block b" for b
  proof -
    from b obtain block where o: "b = JObj block" and t: "str_or_empty (map_of block ''type'') = ''image''"
      by (auto simp: is_image_block_def)
    with b have "uuid_parse E (str_or_empty (map_of block ''media_id'')) \<noteq> None"
      by (auto simp: block_ok_def block_body_ok_def)
    then show ?thesis using str_or_empty_nonempty [OF t] by (simp add: image_media_id_def o)
  qed
  then show ?thesis
    using ok n collect_ids_set [of E "[]" bs] collect_ids_distinct [of "[]" E bs] collect_ids_length [of E "[]" bs]
    by (simp add: v CollectRichTextMediaIDs_def)
qed

definition image_block :: "string \<Rightarrow> json" where
  "image_block m = JObj [(''type'', JStr ''image''), (''media_id'', JStr m)]"

lemma image_block_ok: "uuid_parse E m = Some m \<Longrightarrow> block_ok E (image_block m) \<and> is_image_block (image_block m) \<and>
    image_media_id E (image_block m) = Some m"
  by (simp add: image_block_def block_ok_def block_body_ok_def keys_within_def is_image_block_def image_media_id_def)

theorem collected_media_are_the_images_witness:
  "set (CollectRichTextMediaIDs \<lparr>regexp_compile = (\<lambda>_. None), uuid_parse = Some, json_text = (\<lambda>_. [])\<rparr>
     (JArr [image_block ''a'', image_block ''b'', image_block ''a''])) = {''a'', ''b''}"
proof -
  let ?E = "\<lparr>regexp_compile = (\<lambda>_. None), uuid_parse = Some, json_text = (\<lambda>_. [])\<rparr>"
  let ?bs = "[image_block ''a'', image_block ''b'', image_block ''a'']"
  have i: "block_ok ?E (image_block m) \<and> is_image_block (image_block m) \<and> image_media_id ?E (image_block m) = Some m" for m
    by (rule image_block_ok) simp
  then have "ValidateRichText ?E (JArr ?bs) = None"
    by (simp add: ValidateRichText_None rich_text_ok_def MaxRichTextBlocks_def MaxRichTextImageBlocks_def)
  from collected_media_are_the_images [OF this] i show ?thesis by auto
qed

text \<open>The ideograph U+4E2D in UTF-8.\<close>

definition cjk :: string where
  "cjk = [CHR 0xE4, CHR 0xB8, CHR 0xAD]"

text \<open>
  The alternative text limit counts bytes.  Three hundred and thirty-four three-byte runes
  are refused although they are far below the thousand characters the message allows.
\<close>

theorem alt_text_limit_counts_bytes:
  "\<exists>s. RuneCountInString s = 334 \<and> RuneCountInString s \<le> MaxAltTextLen \<and> \<not> alt_text (JStr s)"
proof -
  have r: "runes (concat (replicate n cjk)) = replicate n cjk" for n
  proof (induction n)
    case (Suc n)
    have "rune_width (cjk @ s) = 3" for s by (simp add: cjk_def rune_width_def rune_form_def utf8_forms_def byte_in_def)
    then show ?case using Suc by (simp add: runes_step cjk_def)
  qed simp
  have "length (concat (replicate n cjk)) = 3 * n" for n by (induction n) (simp_all add: cjk_def)
  then show ?thesis
    by (intro exI [of _ "concat (replicate 334 cjk)"])
      (simp add: RuneCountInString_def r alt_text_def MaxAltTextLen_def)
qed

end
