(* ===== verification/Payload_Validation.thy ===== *)
theory Payload_Validation
  imports Rich_Text
begin

text \<open>
  The write-time validator (\<open>internal/cms/content/service/validate.go\<close> with the error
  constructors of \<open>service/errors.go\<close>): a payload is checked against the fields of its
  type, component and dynamic zone values recursively against the fields of their
  components under prefixed keys.  The second half states which payloads are legal without
  prefixes, order of tests or errors, and proves that the validator decides exactly that.
\<close>

section \<open>Errors\<close>

definition err422 :: "string \<Rightarrow> (string \<times> detail) list \<Rightarrow> app_error" where
  "err422 code details = WithDetails (New code 422) details"

definition errFieldRequired :: "string \<Rightarrow> app_error" where
  "errFieldRequired key = err422 ''CONTENT_FIELD_REQUIRED'' [(''field'', DStr key)]"

definition errFieldTypeMismatch :: "string \<Rightarrow> string \<Rightarrow> app_error" where
  "errFieldTypeMismatch key expected =
     err422 ''CONTENT_FIELD_TYPE_MISMATCH'' [(''field'', DStr key), (''expected'', DStr expected)]"

definition errFieldEnumInvalid :: "string \<Rightarrow> string list \<Rightarrow> app_error" where
  "errFieldEnumInvalid key allowed =
     err422 ''CONTENT_FIELD_ENUM_INVALID'' [(''field'', DStr key), (''allowed'', DStrs allowed)]"

definition errFieldConstraint :: "string \<Rightarrow> violation \<Rightarrow> app_error" where
  "errFieldConstraint key v =
     err422 ''CONTENT_FIELD_CONSTRAINT_VIOLATED''
       [(''field'', DStr key), (''constraint'', DStr (vio_Attr v)), (''expected'', vio_Expected v)]"

definition errFieldUnknown :: "string \<Rightarrow> app_error" where
  "errFieldUnknown key = err422 ''CONTENT_FIELD_UNKNOWN'' [(''field'', DStr key)]"

definition errFieldTooManyValues :: "string \<Rightarrow> nat \<Rightarrow> nat \<Rightarrow> app_error" where
  "errFieldTooManyValues key got limit =
     err422 ''CONTENT_FIELD_TOO_MANY_VALUES''
       [(''field'', DStr key), (''count'', DNat got), (''limit'', DNat limit)]"

definition errFieldDuplicateValue :: "string \<Rightarrow> nat \<Rightarrow> json \<Rightarrow> app_error" where
  "errFieldDuplicateValue key index v =
     err422 ''CONTENT_FIELD_DUPLICATE_VALUE''
       [(''field'', DStr key), (''index'', DNat index), (''value'', DJson v)]"

definition errRichTextInvalid :: "string \<Rightarrow> rich_text_violation \<Rightarrow> app_error" where
  "errRichTextInvalid key v =
     err422 ''CONTENT_RICHTEXT_INVALID''
       [(''field'', DStr key), (''path'', DStr (rtv_Path v)), (''reason'', rtv_Reason v)]"

definition errZoneComponentMissing :: "string \<Rightarrow> app_error" where
  "errZoneComponentMissing key =
     err422 ''CONTENT_ZONE_COMPONENT_MISSING''
       [(''field'', DStr key), (''discriminator'', DStr ZoneDiscriminator)]"

definition errZoneComponentNotAllowed :: "string \<Rightarrow> string \<Rightarrow> string list \<Rightarrow> app_error" where
  "errZoneComponentNotAllowed key name allowed =
     err422 ''CONTENT_ZONE_COMPONENT_NOT_ALLOWED''
       [(''field'', DStr key), (''component'', DStr name), (''allowed'', DStrs allowed)]"

definition withIndex :: "nat \<Rightarrow> app_error \<Rightarrow> app_error" where
  "withIndex i e = WithDetail e ''index'' (DNat i)"

definition withItem :: "field \<Rightarrow> nat \<Rightarrow> app_error \<Rightarrow> app_error" where
  "withItem f i e =
     (if \<not> Multiple f \<and> Type f \<noteq> FieldTypeDynamicZone then e else WithDetail e ''item'' (DNat i))"

text \<open>
  The one way the validator can fail without an error value: using an unhashable element as
  a key of the \<open>seen\<close> map is a run-time panic.
\<close>

definition go_panic :: app_error where
  "go_panic = New ''runtime error: hash of unhashable type'' 500"

section \<open>Scalars\<close>

definition mismatch_unless :: "field \<Rightarrow> bool \<Rightarrow> app_error option" where
  "mismatch_unless f ok = (if ok then None else Some (errFieldTypeMismatch (Key f) (Type f)))"

definition check_constraints :: "env \<Rightarrow> field \<Rightarrow> json \<Rightarrow> app_error option" where
  "check_constraints E f v =
     map_option (errFieldConstraint (Key f)) (CheckValue E (Constraints f) (Type f) v)"

definition validateScalar :: "env \<Rightarrow> field \<Rightarrow> json \<Rightarrow> app_error option" where
  "validateScalar E f v =
     (if Type f = FieldTypeString \<or> Type f = FieldTypeText \<or> Type f = FieldTypeFile then
        (if as_str v = None then Some (errFieldTypeMismatch (Key f) (Type f)) else check_constraints E f v)
      else if Type f = FieldTypeNumber then
        (if as_num v = None then Some (errFieldTypeMismatch (Key f) (Type f)) else check_constraints E f v)
      else if Type f = FieldTypeBoolean then mismatch_unless f (is_bool v)
      else if Type f = FieldTypeEnum then
        (case as_str v of None \<Rightarrow> Some (errFieldTypeMismatch (Key f) (Type f))
         | Some s \<Rightarrow> if InEnum f s then None else Some (errFieldEnumInvalid (Key f) (EnumValues f)))
      else if Type f = FieldTypeDate then
        mismatch_unless f (case as_str v of Some s \<Rightarrow> valid_date s | None \<Rightarrow> False)
      else if Type f = FieldTypeDateTime then
        mismatch_unless f (case as_str v of Some s \<Rightarrow> valid_datetime s | None \<Rightarrow> False)
      else if Type f = FieldTypeRelation then mismatch_unless f (as_str v \<noteq> None)
      else if Type f = FieldTypeRichText then
        map_option (errRichTextInvalid (Key f)) (ValidateRichText E v)
      else mismatch_unless f False)"

section \<open>Payloads\<close>

definition set_key :: "string \<Rightarrow> field \<Rightarrow> field" where
  "set_key k f = Field ((attrs f)\<lparr>f_Key := k\<rparr>) (ComponentFields f) (ZoneFields f)"

definition under_key :: "string \<Rightarrow> string \<Rightarrow> string" where
  "under_key parent k = parent @ ''.'' @ k"

text \<open>\<open>prefixed\<close>: the sub-fields and the item, both with their keys under the parent's.\<close>

definition prefixed_fields :: "string \<Rightarrow> field list \<Rightarrow> field list" where
  "prefixed_fields parent subs = map (\<lambda>sf. set_key (under_key parent (Key sf)) sf) subs"

definition prefixed_doc :: "string \<Rightarrow> doc \<Rightarrow> doc" where
  "prefixed_doc parent item = map (\<lambda>(k, v). (under_key parent k, v)) item"

definition zoneItemComponent :: "doc \<Rightarrow> string" where
  "zoneItemComponent item = str_or_empty (map_of item ZoneDiscriminator)"

definition zoneItemBody :: "doc \<Rightarrow> doc" where
  "zoneItemBody item = filter (\<lambda>(k, v). k \<noteq> ZoneDiscriminator) item"

text \<open>The element loop of a multi-valued field.\<close>

fun validate_elements :: "env \<Rightarrow> field \<Rightarrow> nat \<Rightarrow> json list \<Rightarrow> json list \<Rightarrow> app_error option" where
  "validate_elements E f i seen [] = None"
| "validate_elements E f i seen (x # xs) =
     (case validateScalar E f x of
        Some e \<Rightarrow> Some (withIndex i e)
      | None \<Rightarrow>
          if \<not> hashable x then Some go_panic
          else if list_ex (\<lambda>y. key_eq y x) seen then Some (errFieldDuplicateValue (Key f) i x)
          else validate_elements E f (Suc i) (x # seen) xs)"

definition cardinality_error :: "field \<Rightarrow> json list \<Rightarrow> app_error option" where
  "cardinality_error f xs =
     (if Required f \<and> xs = [] then Some (errFieldRequired (Key f))
      else if MaxMultipleElements < length xs
           then Some (errFieldTooManyValues (Key f) (length xs) MaxMultipleElements)
      else None)"

text \<open>
  The loop over the fields, given the validator of one value.  \<open>nil\<close> counts as absent.
\<close>

definition check_unknown_keys :: "field list \<Rightarrow> doc \<Rightarrow> app_error option" where
  "check_unknown_keys fs payload =
     first_error (\<lambda>k. if k \<in> Key ` set fs then None else Some (errFieldUnknown k)) (map fst payload)"

definition present :: "doc \<Rightarrow> string \<Rightarrow> json option" where
  "present payload k = (case map_of payload k of Some JNull \<Rightarrow> None | v \<Rightarrow> v)"

text \<open>Measure of the recursion: a component's fields are smaller than the field that refers to it.\<close>

fun field_size :: "field \<Rightarrow> nat" where
  "field_size (Field a subs zones) =
     Suc (sum_list (map field_size subs) + sum_list (map (\<lambda>z. sum_list (map field_size (snd z))) zones))"

definition fields_size :: "field list \<Rightarrow> nat" where
  "fields_size fs = sum_list (map field_size fs)"

lemma field_size_set_key [simp]: "field_size (set_key k f) = field_size f"
  by (cases f) (simp add: set_key_def)

lemma fields_size_prefixed [simp]: "fields_size (prefixed_fields p subs) = fields_size subs"
  by (simp add: fields_size_def prefixed_fields_def comp_def)

lemma field_size_member: "f \<in> set fs \<Longrightarrow> field_size f \<le> fields_size fs"
  by (auto simp: fields_size_def intro: member_le_sum_list)

lemma component_smaller [simp]: "fields_size (ComponentFields f) < field_size f"
  by (cases f) (simp add: fields_size_def)

lemma zone_smaller [simp]: "fields_size (zone_fields_of f name) < field_size f"
proof (cases f)
  case (Field a subs zones)
  have "map_of zones name = Some fs \<Longrightarrow>
      sum_list (map field_size fs) \<le> sum_list (map (\<lambda>z. sum_list (map field_size (snd z))) zones)" for fs
    by (induction zones) (auto split: if_splits)
  then show ?thesis
    by (auto simp: Field fields_size_def zone_fields_of_def less_Suc_eq_le trans_le_add2 split: option.split)
qed

lemma field_size_pos [simp]: "0 < field_size f"
  by (cases f) simp

lemma recursion_measure:
  "f \<in> set fs \<Longrightarrow> 3 * field_size f - Suc 0 < 3 * fields_size fs"
  "3 * field_size f - 2 < 3 * field_size f - Suc 0"
  "3 * fields_size (ComponentFields f) < 3 * field_size f - 2"
  "3 * fields_size (zone_fields_of f name) < 3 * field_size f - 2"
  using field_size_member [of f fs] field_size_pos [of f] component_smaller [of f]
    zone_smaller [of f name]
  by linarith+

function (sequential)
  validatePayload :: "env \<Rightarrow> field list \<Rightarrow> doc \<Rightarrow> app_error option" and
  validateValue :: "env \<Rightarrow> field \<Rightarrow> json \<Rightarrow> app_error option" and
  validateZoneItem :: "env \<Rightarrow> field \<Rightarrow> nat \<Rightarrow> json \<Rightarrow> app_error option" and
  validateComponentItem :: "env \<Rightarrow> field \<Rightarrow> json \<Rightarrow> app_error option" where
  "validatePayload E fs payload =
     (case check_unknown_keys fs payload of
        Some e \<Rightarrow> Some e
      | None \<Rightarrow>
          first_error (\<lambda>f. case present payload (Key f) of
              None \<Rightarrow> if Required f then Some (errFieldRequired (Key f)) else None
            | Some v \<Rightarrow> validateValue E f v) fs)"
| "validateValue E f v =
     (if Type f = FieldTypeComponent then
        (if \<not> Multiple f then validateComponentItem E f v
         else case as_arr v of
             None \<Rightarrow> Some (errFieldTypeMismatch (Key f) ''array of objects'')
           | Some xs \<Rightarrow>
               (case cardinality_error f xs of Some e \<Rightarrow> Some e
                | None \<Rightarrow> first_error (\<lambda>(i, x). map_option (withItem f i) (validateComponentItem E f x))
                            (enumerate 0 xs)))
      else if Type f = FieldTypeDynamicZone then
        (case as_arr v of
             None \<Rightarrow> Some (errFieldTypeMismatch (Key f) ''array of objects'')
           | Some xs \<Rightarrow>
               (case cardinality_error f xs of Some e \<Rightarrow> Some e
                | None \<Rightarrow> first_error (\<lambda>(i, x). validateZoneItem E f i x) (enumerate 0 xs)))
      else if \<not> Multiple f then
        (if Type f = FieldTypeRichText \<and> Required f \<and> v = JArr [] then Some (errFieldRequired (Key f))
         else validateScalar E f v)
      else case as_arr v of
             None \<Rightarrow> Some (errFieldTypeMismatch (Key f) (Type f))
           | Some xs \<Rightarrow>
               (case cardinality_error f xs of Some e \<Rightarrow> Some e
                | None \<Rightarrow> validate_elements E f 0 [] xs))"
| "validateZoneItem E f i x =
     (case as_obj x of
        None \<Rightarrow> Some (withItem f i (errFieldTypeMismatch (Key f) ''object''))
      | Some item \<Rightarrow>
          let name = zoneItemComponent item in
          if name = [] then Some (withItem f i (errZoneComponentMissing (Key f)))
          else if \<not> ZoneAllows f name
               then Some (withItem f i (errZoneComponentNotAllowed (Key f) name (ZoneComponents f)))
          else map_option (withItem f i)
                 (validatePayload E (prefixed_fields (Key f) (zone_fields_of f name))
                                    (prefixed_doc (Key f) (zoneItemBody item))))"
| "validateComponentItem E f x =
     (case as_obj x of
        None \<Rightarrow> Some (errFieldTypeMismatch (Key f) ''object'')
      | Some item \<Rightarrow>
          validatePayload E (prefixed_fields (Key f) (ComponentFields f)) (prefixed_doc (Key f) item))"
  by pat_completeness auto
termination
  by (relation "measure (\<lambda>x. case x of
        Inl (Inl (E, fs, d)) \<Rightarrow> 3 * fields_size fs
      | Inl (Inr (E, f, v)) \<Rightarrow> 3 * field_size f - 1
      | Inr (Inl (E, f, i, x)) \<Rightarrow> 3 * field_size f - 2
      | Inr (Inr (E, f, x)) \<Rightarrow> 3 * field_size f - 2)")
    (auto simp: recursion_measure)

declare validatePayload.simps [simp del] validateValue.simps [simp del]
  validateZoneItem.simps [simp del] validateComponentItem.simps [simp del]

section \<open>The legal payloads\<close>

definition typed_string :: "json \<Rightarrow> (string \<Rightarrow> bool) \<Rightarrow> bool" where
  "typed_string v P \<longleftrightarrow> (case v of JStr s \<Rightarrow> P s | _ \<Rightarrow> False)"

text \<open>Legality of one value depends on the field's type, enum and constraints, not on its key.\<close>

definition scalar_ok :: "env \<Rightarrow> field \<Rightarrow> json \<Rightarrow> bool" where
  "scalar_ok E f v \<longleftrightarrow>
     (Type f \<in> {FieldTypeString, FieldTypeText} \<and> typed_string v (string_satisfies E (Constraints f))) \<or>
     (Type f \<in> {FieldTypeFile, FieldTypeRelation} \<and> typed_string v (\<lambda>_. True)) \<or>
     (Type f = FieldTypeNumber \<and> (case v of JNum n \<Rightarrow> in_range (Constraints f) n | _ \<Rightarrow> False)) \<or>
     (Type f = FieldTypeBoolean \<and> is_bool v) \<or>
     (Type f = FieldTypeEnum \<and> typed_string v (InEnum f)) \<or>
     (Type f = FieldTypeDate \<and> typed_string v valid_date) \<or>
     (Type f = FieldTypeDateTime \<and> typed_string v valid_datetime) \<or>
     (Type f = FieldTypeRichText \<and> rich_text_ok E v)"

definition cardinality_ok :: "field \<Rightarrow> json list \<Rightarrow> bool" where
  "cardinality_ok f xs \<longleftrightarrow> (Required f \<longrightarrow> xs \<noteq> []) \<and> length xs \<le> MaxMultipleElements"

definition no_repeats :: "json list \<Rightarrow> bool" where
  "no_repeats xs \<longleftrightarrow> list_all hashable xs \<and> sorted_wrt (\<lambda>x y. \<not> key_eq x y) xs"

function (sequential)
  payload_ok :: "env \<Rightarrow> field list \<Rightarrow> doc \<Rightarrow> bool" and
  value_ok :: "env \<Rightarrow> field \<Rightarrow> json \<Rightarrow> bool" and
  item_ok :: "env \<Rightarrow> field \<Rightarrow> json \<Rightarrow> bool" where
  "payload_ok E fs d =
     (fst ` set d \<subseteq> Key ` set fs \<and>
      (\<forall>f \<in> set fs. case present d (Key f) of None \<Rightarrow> \<not> Required f | Some v \<Rightarrow> value_ok E f v))"
| "value_ok E f v =
     (if Type f = FieldTypeComponent \<and> \<not> Multiple f then item_ok E f v
      else if Type f = FieldTypeComponent \<or> Type f = FieldTypeDynamicZone then
        (case v of JArr xs \<Rightarrow> cardinality_ok f xs \<and> (\<forall>x \<in> set xs. item_ok E f x) | _ \<Rightarrow> False)
      else if Multiple f then
        (case v of JArr xs \<Rightarrow> cardinality_ok f xs \<and> list_all (scalar_ok E f) xs \<and> no_repeats xs | _ \<Rightarrow> False)
      else scalar_ok E f v \<and> \<not> (Type f = FieldTypeRichText \<and> Required f \<and> v = JArr []))"
| "item_ok E f x =
     (case x of
        JObj item \<Rightarrow>
          if Type f = FieldTypeDynamicZone then
            (let name = zoneItemComponent item in
             name \<noteq> [] \<and> ZoneAllows f name \<and> payload_ok E (zone_fields_of f name) (zoneItemBody item))
          else payload_ok E (ComponentFields f) item
      | _ \<Rightarrow> False)"
  by pat_completeness auto
termination
  by (relation "measure (\<lambda>x. case x of
        Inl (E, fs, d) \<Rightarrow> 3 * fields_size fs
      | Inr (Inl (E, f, v)) \<Rightarrow> 3 * field_size f - 1
      | Inr (Inr (E, f, x)) \<Rightarrow> 3 * field_size f - 2)")
    (auto simp: recursion_measure)

declare payload_ok.simps [simp del] value_ok.simps [simp del] item_ok.simps [simp del]

subsection \<open>Keys do not matter\<close>

lemma set_key_simps [simp]:
  "Key (set_key k f) = k" "Type (set_key k f) = Type f" "Required (set_key k f) = Required f"
  "Multiple (set_key k f) = Multiple f" "EnumValues (set_key k f) = EnumValues f"
  "Constraints (set_key k f) = Constraints f" "ZoneComponents (set_key k f) = ZoneComponents f"
  "ComponentFields (set_key k f) = ComponentFields f" "ZoneFields (set_key k f) = ZoneFields f"
  by (simp_all add: set_key_def)

lemma set_key_lookups [simp]:
  "zone_fields_of (set_key k f) name = zone_fields_of f name"
  "ZoneAllows (set_key k f) name = ZoneAllows f name"
  "InEnum (set_key k f) = InEnum f"
  by (simp_all add: zone_fields_of_def ZoneAllows_def InEnum_def fun_eq_iff)

lemma scalar_ok_set_key [simp]: "scalar_ok E (set_key k f) = scalar_ok E f"
  by (simp add: scalar_ok_def fun_eq_iff split: json.split)

lemma item_ok_set_key [simp]: "item_ok E (set_key k f) x = item_ok E f x"
  by (simp add: item_ok.simps split: json.split)

lemma value_ok_set_key [simp]: "value_ok E (set_key k f) v = value_ok E f v"
  by (simp add: value_ok.simps cardinality_ok_def split: json.split)

lemma under_key_inj [simp]: "under_key p k = under_key p k' \<longleftrightarrow> k = k'"
  by (simp add: under_key_def)

lemma map_of_prefixed [simp]: "map_of (prefixed_doc p d) (under_key p k) = map_of d k"
  by (induction d) (auto simp: prefixed_doc_def)

lemma present_prefixed [simp]: "present (prefixed_doc p d) (under_key p k) = present d k"
  by (simp add: present_def)

lemma keys_prefixed [simp]: "fst ` set (prefixed_doc p d) = under_key p ` fst ` set d"
  by (force simp: prefixed_doc_def)

lemma fields_prefixed [simp]: "Key ` set (prefixed_fields p fs) = under_key p ` Key ` set fs"
  by (force simp: prefixed_fields_def)

lemma payload_ok_prefixed: "payload_ok E (prefixed_fields p fs) (prefixed_doc p d) = payload_ok E fs d"
proof -
  have keys: "fst ` set (prefixed_doc p d) \<subseteq> Key ` set (prefixed_fields p fs) \<longleftrightarrow> fst ` set d \<subseteq> Key ` set fs"
    unfolding keys_prefixed fields_prefixed by (rule inj_image_subset_iff) (simp add: inj_def)
  have vals: "(\<forall>f \<in> set (prefixed_fields p fs). case present (prefixed_doc p d) (Key f) of
        None \<Rightarrow> \<not> Required f | Some v \<Rightarrow> value_ok E f v) \<longleftrightarrow>
      (\<forall>f \<in> set fs. case present d (Key f) of None \<Rightarrow> \<not> Required f | Some v \<Rightarrow> value_ok E f v)"
    by (auto simp: prefixed_fields_def split: option.splits)
  show ?thesis
    unfolding payload_ok.simps [of E "prefixed_fields p fs"] payload_ok.simps [of E fs] keys vals ..
qed

subsection \<open>The validator decides legality\<close>

lemma typed_string_as_str: "typed_string v P \<longleftrightarrow> (\<exists>s. v = JStr s \<and> P s)"
  by (cases v) (auto simp: typed_string_def)

lemma mismatch_unless_None [simp]: "mismatch_unless f ok = None \<longleftrightarrow> ok"
  by (simp add: mismatch_unless_def)

lemma as_str_None: "as_str v = None \<longleftrightarrow> \<not> (\<exists>s. v = JStr s)" by (cases v) auto
lemma as_num_None: "as_num v = None \<longleftrightarrow> \<not> (\<exists>s. v = JNum s)" by (cases v) auto

lemma check_constraints_None: "check_constraints E f v = None \<longleftrightarrow> satisfies E (Constraints f) (Type f) v"
  by (simp add: check_constraints_def CheckValue_None)

lemma satisfies_simps:
  "satisfies E c FieldTypeString (JStr s) = string_satisfies E c s"
  "satisfies E c FieldTypeText (JStr s) = string_satisfies E c s"
  "satisfies E c FieldTypeNumber (JNum n) = in_range c n"
  "satisfies E c FieldTypeFile v"
  by (simp_all add: satisfies_def field_type_defs)

lemma validateScalar_None: "validateScalar E f v = None \<longleftrightarrow> scalar_ok E f v"
  by (cases v)
    (simp_all add: validateScalar_def scalar_ok_def typed_string_def check_constraints_None
      satisfies_simps ValidateRichText_None split: if_split)

lemma validate_elements_None:
  "validate_elements E f i seen xs = None \<longleftrightarrow>
     list_all (scalar_ok E f) xs \<and> no_repeats xs \<and> (\<forall>x \<in> set xs. \<forall>y \<in> set seen. \<not> key_eq y x)"
  by (induction E f i seen xs rule: validate_elements.induct)
    (auto simp: validateScalar_None [symmetric] no_repeats_def list_ex_iff split: option.split)

lemma cardinality_error_None: "cardinality_error f xs = None \<longleftrightarrow> cardinality_ok f xs"
  by (auto simp: cardinality_error_def cardinality_ok_def)

lemma check_unknown_keys_None:
  "check_unknown_keys fs d = None \<longleftrightarrow> fst ` set d \<subseteq> Key ` set fs"
  by (auto simp: check_unknown_keys_def)

lemma validator_decides:
  "validatePayload E fs d = None \<longleftrightarrow> payload_ok E fs d"
  "validateValue E f v = None \<longleftrightarrow> value_ok E f v"
  "Type f = FieldTypeDynamicZone \<Longrightarrow> validateZoneItem E f i x = None \<longleftrightarrow> item_ok E f x"
  "Type f \<noteq> FieldTypeDynamicZone \<Longrightarrow> validateComponentItem E f x = None \<longleftrightarrow> item_ok E f x"
proof (induction E fs d and E f v and E f i x and E f x
    rule: validatePayload_validateValue_validateZoneItem_validateComponentItem.induct)
  case (1 E fs payload)
  show ?case
  proof (cases "check_unknown_keys fs payload")
    case None
    have "(case present payload (Key f) of
              None \<Rightarrow> if Required f then Some (errFieldRequired (Key f)) else None
            | Some v \<Rightarrow> validateValue E f v) = None \<longleftrightarrow>
          (case present payload (Key f) of None \<Rightarrow> \<not> Required f | Some v \<Rightarrow> value_ok E f v)"
      if "f \<in> set fs" for f
      using 1 [OF None that] by (auto split: option.split)
    with None show ?thesis
      by (simp add: validatePayload.simps payload_ok.simps check_unknown_keys_None)
  next
    case (Some e)
    then have "\<not> fst ` set payload \<subseteq> Key ` set fs" by (metis check_unknown_keys_None option.discI)
    with Some show ?thesis by (simp add: validatePayload.simps payload_ok.simps)
  qed
next
  case (2 E f v)
  have card: "cardinality_error f xs = None \<longleftrightarrow> cardinality_ok f xs" for xs
    by (rule cardinality_error_None)
  consider (comp) "Type f = FieldTypeComponent" "\<not> Multiple f"
    | (comps) "Type f = FieldTypeComponent" "Multiple f"
    | (zone) "Type f = FieldTypeDynamicZone"
    | (other) "Type f \<noteq> FieldTypeComponent" "Type f \<noteq> FieldTypeDynamicZone" by blast
  then show ?case
  proof cases
    case comp
    with 2(1) show ?thesis by (simp add: validateValue.simps value_ok.simps)
  next
    case comps
    show ?thesis
    proof (cases v)
      case (JArr xs)
      have "first_error (\<lambda>(i, x). map_option (withItem f i) (validateComponentItem E f x)) (enumerate 0 xs) = None
          \<longleftrightarrow> (\<forall>x \<in> set xs. item_ok E f x)" if "cardinality_error f xs = None"
        unfolding first_error_enumerate
        using 2(2) [of xs] comps JArr that
        by (force simp: all_set_conv_all_nth in_set_enumerate_eq)
      with comps JArr card [of xs] show ?thesis
        by (auto simp: validateValue.simps value_ok.simps simp del: first_error_None split: option.split)
    qed (simp_all add: validateValue.simps value_ok.simps comps)
  next
    case zone
    show ?thesis
    proof (cases v)
      case (JArr xs)
      have "first_error (\<lambda>(i, x). validateZoneItem E f i x) (enumerate 0 xs) = None
          \<longleftrightarrow> (\<forall>x \<in> set xs. item_ok E f x)" if "cardinality_error f xs = None"
        unfolding first_error_enumerate
        using 2(3) [of xs] zone JArr that
        by (force simp: all_set_conv_all_nth in_set_enumerate_eq)
      with zone JArr card [of xs] show ?thesis
        by (auto simp: validateValue.simps value_ok.simps simp del: first_error_None split: option.split)
    qed (simp_all add: validateValue.simps value_ok.simps zone)
  next
    case other
    then show ?thesis
      by (cases v) (auto simp: validateValue.simps value_ok.simps validateScalar_None validate_elements_None
          card split: option.split)
  qed
next
  case (3 E f i x)
  show ?case
  proof (cases x)
    case (JObj item)
    with 3 show ?thesis
      by (auto simp: validateZoneItem.simps item_ok.simps Let_def payload_ok_prefixed)
  qed (simp_all add: validateZoneItem.simps item_ok.simps)
next
  case (4 E f x)
  show ?case
  proof (cases x)
    case (JObj item)
    with 4 show ?thesis
      by (auto simp: validateComponentItem.simps item_ok.simps payload_ok_prefixed)
  qed (simp_all add: validateComponentItem.simps item_ok.simps 4)
qed

section \<open>Every refusal is located\<close>

text \<open>The definition-time rule for cardinality, at every depth.\<close>

fun kind_ok :: "field \<Rightarrow> bool" where
  "kind_ok (Field a subs zones) =
     ((f_Multiple a \<longrightarrow> MultipleAllowedFor (f_Type a)) \<and>
      (\<forall>f \<in> set subs. kind_ok f) \<and> (\<forall>z \<in> set zones. \<forall>f \<in> set (snd z). kind_ok f))"

text \<open>A 422 whose \<open>field\<close> detail is the key itself or a path below it.\<close>

definition fails_at :: "string \<Rightarrow> app_error \<Rightarrow> bool" where
  "fails_at k e \<longleftrightarrow> err_status e = 422 \<and>
     (\<exists>p. map_of (err_details e) ''field'' = Some (DStr p) \<and> (p = k \<or> HasPrefix p (k @ ''.'')))"

lemma err422_simps [simp]:
  "err_status (err422 c ds) = 422" "err_code (err422 c ds) = c"
  by (simp_all add: err422_def)

lemma fails_at_422 [simp]: "fails_at k (err422 c ((''field'', DStr k) # ds))"
  if "''field'' \<notin> fst ` set ds"
proof -
  have keep: "map_of (err_details (fold (\<lambda>(k, v) e. WithDetail e k v) ds e)) ''field'' = map_of (err_details e) ''field''"
    for e using that by (induction ds arbitrary: e) auto
  have "map_of (err_details (err422 c ((''field'', DStr k) # ds))) ''field'' = Some (DStr k)"
    by (simp add: err422_def WithDetails_def keep)
  then show ?thesis by (simp add: fails_at_def)
qed

lemmas located_defs = errFieldRequired_def errFieldTypeMismatch_def errFieldEnumInvalid_def
  errFieldConstraint_def errFieldUnknown_def errFieldTooManyValues_def errFieldDuplicateValue_def
  errRichTextInvalid_def errZoneComponentMissing_def errZoneComponentNotAllowed_def

lemma fails_at_errors [simp]:
  "fails_at k (errFieldRequired k)" "fails_at k (errFieldTypeMismatch k t)"
  "fails_at k (errFieldEnumInvalid k vs)" "fails_at k (errFieldConstraint k vio)"
  "fails_at k (errFieldUnknown k)" "fails_at k (errFieldTooManyValues k m n)"
  "fails_at k (errFieldDuplicateValue k i v)" "fails_at k (errRichTextInvalid k rv)"
  "fails_at k (errZoneComponentMissing k)" "fails_at k (errZoneComponentNotAllowed k name allowed)"
  by (simp_all add: located_defs)

lemma fails_at_withIndex [simp]: "fails_at k (withIndex i e) = fails_at k e"
  by (simp add: fails_at_def withIndex_def)

lemma fails_at_withItem [simp]: "fails_at k (withItem f i e) = fails_at k e"
  by (simp add: fails_at_def withItem_def)

lemma fails_at_up: "fails_at (under_key p k) e \<Longrightarrow> fails_at p e"
proof -
  have "HasPrefix q (p @ ''.'')" if "q = under_key p k \<or> HasPrefix q (under_key p k @ ''.'')" for q
  proof -
    from that obtain r where "q = p @ ''.'' @ r"
      by (auto simp: under_key_def HasPrefix_def) (metis append.assoc append_take_drop_id append_Cons append_Nil)
    then show ?thesis by (simp add: HasPrefix_def)
  qed
  then show "fails_at (under_key p k) e \<Longrightarrow> fails_at p e" by (auto simp: fails_at_def)
qed

lemma validateScalar_located: "validateScalar E f v = Some e \<Longrightarrow> fails_at (Key f) e"
  by (auto simp: validateScalar_def check_constraints_def mismatch_unless_def split: if_splits option.splits)

lemma scalar_hashable:
  "scalar_ok E f v \<Longrightarrow> MultipleAllowedFor (Type f) \<Longrightarrow> Type f \<noteq> FieldTypeComponent \<Longrightarrow> hashable v"
  by (cases v) (auto simp: scalar_ok_def typed_string_def MultipleAllowedFor_def AllowedMultipleTypes_def)

lemma validate_elements_located:
  "validate_elements E f i seen xs = Some e \<Longrightarrow> MultipleAllowedFor (Type f) \<Longrightarrow>
     Type f \<noteq> FieldTypeComponent \<Longrightarrow> fails_at (Key f) e"
  by (induction E f i seen xs rule: validate_elements.induct)
    (auto simp: validateScalar_None dest: validateScalar_located scalar_hashable split: option.splits if_splits)

lemma cardinality_error_located: "cardinality_error f xs = Some e \<Longrightarrow> fails_at (Key f) e"
  by (auto simp: cardinality_error_def split: if_splits)

lemma check_unknown_keys_located:
  "check_unknown_keys fs d = Some e \<Longrightarrow> \<exists>k \<in> fst ` set d. fails_at k e"
  by (auto simp: check_unknown_keys_def dest!: first_error_Some split: if_splits) (metis fails_at_errors(5) fst_conv)

lemma kind_ok_component: "kind_ok f \<Longrightarrow> g \<in> set (ComponentFields f) \<Longrightarrow> kind_ok g"
  by (cases f) auto

lemma kind_ok_zone: "kind_ok f \<Longrightarrow> g \<in> set (zone_fields_of f name) \<Longrightarrow> kind_ok g"
proof -
  assume k: "kind_ok f" and g: "g \<in> set (zone_fields_of f name)"
  then obtain fs where "map_of (ZoneFields f) name = Some fs" "g \<in> set fs"
    by (cases "map_of (ZoneFields f) name") (auto simp: zone_fields_of_def)
  then have "(name, fs) \<in> set (ZoneFields f)" "g \<in> set (snd (name, fs))" by (auto dest: map_of_SomeD)
  with k show "kind_ok g" by (cases f) auto
qed

lemma kind_ok_set_key [simp]: "kind_ok (set_key k f) = kind_ok f"
  by (cases f) (simp add: set_key_def)

lemma kind_ok_prefixed: "(\<forall>f \<in> set (prefixed_fields p fs). kind_ok f) \<longleftrightarrow> (\<forall>f \<in> set fs. kind_ok f)"
  by (auto simp: prefixed_fields_def)

lemma kind_ok_multiple: "kind_ok f \<Longrightarrow> Multiple f \<Longrightarrow> MultipleAllowedFor (Type f)"
  by (cases f) auto

lemma validator_located:
  "validatePayload E fs d = Some e \<Longrightarrow> \<forall>f \<in> set fs. kind_ok f \<Longrightarrow>
     \<exists>k \<in> Key ` set fs \<union> fst ` set d. fails_at k e"
  "validateValue E f v = Some e \<Longrightarrow> kind_ok f \<Longrightarrow> fails_at (Key f) e"
  "validateZoneItem E f i x = Some e \<Longrightarrow> kind_ok f \<Longrightarrow> fails_at (Key f) e"
  "validateComponentItem E f x = Some e \<Longrightarrow> kind_ok f \<Longrightarrow> fails_at (Key f) e"
proof (induction E fs d and E f v and E f i x and E f x arbitrary: e and e and e and e
    rule: validatePayload_validateValue_validateZoneItem_validateComponentItem.induct)
  case (1 E fs payload)
  show ?case
  proof (cases "check_unknown_keys fs payload")
    case (Some e')
    with 1(2) have "e = e'" by (simp add: validatePayload.simps)
    with check_unknown_keys_located [OF Some] show ?thesis by auto
  next
    case None
    with 1(2) obtain f where f: "f \<in> set fs"
      and e: "(case present payload (Key f) of
              None \<Rightarrow> if Required f then Some (errFieldRequired (Key f)) else None
            | Some v \<Rightarrow> validateValue E f v) = Some e"
      by (auto simp: validatePayload.simps dest!: first_error_Some)
    have "fails_at (Key f) e"
      using e 1(1) [OF None f] 1(3) f by (auto split: option.splits if_splits)
    with f show ?thesis by blast
  qed
next
  case (2 E f v)
  consider (comp) "Type f = FieldTypeComponent" "\<not> Multiple f"
    | (comps) "Type f = FieldTypeComponent" "Multiple f"
    | (zone) "Type f = FieldTypeDynamicZone"
    | (other) "Type f \<noteq> FieldTypeComponent" "Type f \<noteq> FieldTypeDynamicZone" by blast
  then show ?case
  proof cases
    case comp
    with 2 show ?thesis by (simp add: validateValue.simps)
  next
    case comps
    with 2 show ?thesis
      by (fastforce simp: validateValue.simps split: option.splits
          dest: cardinality_error_located first_error_Some)
  next
    case zone
    with 2 show ?thesis
      by (fastforce simp: validateValue.simps split: option.splits
          dest: cardinality_error_located first_error_Some)
  next
    case other
    with 2(4) show ?thesis
      using kind_ok_multiple [OF 2(5)]
      by (auto simp: validateValue.simps split: option.splits if_splits
          dest: cardinality_error_located validateScalar_located validate_elements_located)
  qed
next
  case (3 E f i x)
  show ?case
  proof (cases x)
    case (JObj item)
    define name where "name = zoneItemComponent item"
    have kz: "\<forall>g \<in> set (prefixed_fields (Key f) (zone_fields_of f name)). kind_ok g"
      using 3(3) by (auto simp: kind_ok_prefixed dest: kind_ok_zone)
    show ?thesis
    proof (cases "name = [] \<or> \<not> ZoneAllows f name")
      case True
      with 3(2) show ?thesis
        by (auto simp: JObj validateZoneItem.simps Let_def name_def [symmetric] split: if_splits)
    next
      case False
      with 3(2) obtain e' where
        "validatePayload E (prefixed_fields (Key f) (zone_fields_of f name))
           (prefixed_doc (Key f) (zoneItemBody item)) = Some e'" "e = withItem f i e'"
        by (auto simp: JObj validateZoneItem.simps Let_def name_def [symmetric])
      with 3(1) [of item name e'] kz False show ?thesis
        by (auto simp: JObj name_def dest: fails_at_up)
    qed
  qed (use 3 in \<open>auto simp: validateZoneItem.simps\<close>)
next
  case (4 E f x)
  show ?case
  proof (cases x)
    case (JObj item)
    have "\<forall>g \<in> set (prefixed_fields (Key f) (ComponentFields f)). kind_ok g"
      using 4(3) by (auto simp: kind_ok_prefixed dest: kind_ok_component)
    with 4(1) [of item e] 4(2) show ?thesis
      by (auto simp: JObj validateComponentItem.simps dest: fails_at_up)
  qed (use 4 in \<open>auto simp: validateComponentItem.simps\<close>)
qed

section \<open>Drift\<close>

text \<open>
  \<open>pruneUndefined\<close>: the merge base of an update loses the keys the schema no longer
  defines.  A base that is not an object is returned as it is.
\<close>

definition pruneUndefined :: "field list \<Rightarrow> json \<Rightarrow> json" where
  "pruneUndefined fs payload =
     (case payload of JObj d \<Rightarrow> JObj (filter (\<lambda>(k, v). k \<in> Key ` set fs) d) | _ \<Rightarrow> payload)"

text \<open>The item objects of a component or zone value, as the collectors walk them.\<close>

definition objects_of :: "json list \<Rightarrow> doc list" where
  "objects_of xs = List.map_filter as_obj xs"

definition zoneItems :: "json \<Rightarrow> doc list" where
  "zoneItems v = (case v of JArr xs \<Rightarrow> objects_of xs | _ \<Rightarrow> [])"

definition componentItems :: "field \<Rightarrow> json \<Rightarrow> doc list" where
  "componentItems f v =
     (if \<not> Multiple f then (case v of JObj item \<Rightarrow> [item] | _ \<Rightarrow> [])
      else (case v of JArr xs \<Rightarrow> objects_of xs | _ \<Rightarrow> []))"

lemma prune_lookup:
  "k \<in> Key ` set fs \<Longrightarrow> map_of (filter (\<lambda>(k, v). k \<in> Key ` set fs) d) k = map_of d k"
  by (induction d) auto

lemma prune_fixed: "fst ` set d \<subseteq> Key ` set fs \<Longrightarrow> pruneUndefined fs (JObj d) = JObj d"
  by (auto simp: pruneUndefined_def filter_id_conv)

text \<open>Every item of a value the validator accepted is one the collectors see.\<close>

lemma accepted_items_all_objects:
  "value_ok E f v \<Longrightarrow> Type f = FieldTypeDynamicZone \<Longrightarrow> \<exists>xs. v = JArr (map JObj xs) \<and> zoneItems v = xs"
proof -
  assume v: "value_ok E f v" and z: "Type f = FieldTypeDynamicZone"
  then obtain xs where xs: "v = JArr xs" "\<forall>x \<in> set xs. item_ok E f x"
    by (cases v) (auto simp: value_ok.simps)
  have "\<exists>ds. xs = map JObj ds" using xs(2)
  proof (induction xs)
    case (Cons x xs)
    then obtain ds d where "xs = map JObj ds" "x = JObj d"
      by (cases x) (auto simp: item_ok.simps)
    then show ?case by (intro exI [of _ "d # ds"]) simp
  qed simp
  then obtain ds where ds: "xs = map JObj ds" ..
  moreover have "objects_of (map JObj ds) = ds"
    by (induction ds) (auto simp: objects_of_def List.map_filter_simps)
  ultimately show ?thesis using xs(1) by (auto simp: zoneItems_def)
qed

section \<open>Properties\<close>

text \<open>C1: The validator accepts a payload exactly when it is legal: every key is defined, every
  field without a value is optional, and every value has the shape its type, cardinality,
  enum and constraints ask for, at every depth of component and dynamic zone nesting.\<close>

theorem validate_payload_decides:
  "validatePayload E fs d = None \<longleftrightarrow> payload_ok E fs d"
  by (rule validator_decides(1))

definition plain_env :: env where
  "plain_env = \<lparr>regexp_compile = (\<lambda>_. Some (\<lambda>_. True)), uuid_parse = (\<lambda>s. Some s), json_text = (\<lambda>_. [])\<rparr>"

definition string_field :: "string \<Rightarrow> bool \<Rightarrow> field" where
  "string_field k required = Field (zero_attrs\<lparr>f_Key := k, f_Type := FieldTypeString, f_Required := required\<rparr>) [] []"

lemmas string_field_simps = string_field_def zero_attrs_def no_constraints_def

text \<open>Over fields whose cardinality the schema allows, every refusal is a 422 whose
  \<open>field\<close> detail is the key of a field or of the payload, or a dotted path below one; in
  particular the duplicate check never panics on an unhashable element.\<close>

theorem validate_payload_refusal_located:
  assumes "validatePayload E fs d = Some e" and "\<forall>f \<in> set fs. kind_ok f"
  shows "err_status e = 422 \<and> (\<exists>k p. k \<in> Key ` set fs \<union> fst ` set d \<and>
           map_of (err_details e) ''field'' = Some (DStr p) \<and> (p = k \<or> HasPrefix p (k @ ''.'')))"
  using validator_located(1) [OF assms] unfolding fails_at_def by blast

theorem validate_payload_refusal_located_witness:
  "err_status (errFieldRequired ''title'') = 422 \<and>
   (\<exists>k p. k \<in> {''title''} \<and>
      map_of (err_details (errFieldRequired ''title'')) ''field'' = Some (DStr p) \<and>
      (p = k \<or> HasPrefix p (k @ ''.'')))"
proof -
  have e: "validatePayload plain_env [string_field ''title'' True] [] = Some (errFieldRequired ''title'')"
    by (simp add: validatePayload.simps check_unknown_keys_def present_def string_field_simps)
  have k: "\<forall>f \<in> set [string_field ''title'' True]. kind_ok f"
    by (simp add: string_field_simps)
  show ?thesis
    using validate_payload_refusal_located [OF e k] by (simp add: string_field_simps)
qed

text \<open>Pruning a merge base keeps every value of a defined field, removes every other key, and
  changes nothing of a base the validator would accept.\<close>

theorem prune_undefined_spec:
  "(\<exists>d'. pruneUndefined fs (JObj d) = JObj d' \<and> fst ` set d' \<subseteq> Key ` set fs \<and>
      (\<forall>k \<in> Key ` set fs. map_of d' k = map_of d k)) \<and>
   (validatePayload E fs d = None \<longrightarrow> pruneUndefined fs (JObj d) = JObj d)"
proof (intro conjI impI)
  let ?d = "filter (\<lambda>(k, v). k \<in> Key ` set fs) d"
  have "pruneUndefined fs (JObj d) = JObj ?d" by (simp add: pruneUndefined_def)
  moreover have "fst ` set ?d \<subseteq> Key ` set fs" by auto
  ultimately show "\<exists>d'. pruneUndefined fs (JObj d) = JObj d' \<and> fst ` set d' \<subseteq> Key ` set fs \<and>
      (\<forall>k \<in> Key ` set fs. map_of d' k = map_of d k)"
    using prune_lookup by blast
  assume "validatePayload E fs d = None"
  then show "pruneUndefined fs (JObj d) = JObj d"
    by (intro prune_fixed) (simp add: validator_decides payload_ok.simps)
qed

theorem prune_undefined_spec_witness:
  "(\<exists>d'. pruneUndefined [string_field ''title'' False] (JObj [(''title'', JStr ''a'')]) = JObj d' \<and>
      fst ` set d' \<subseteq> {''title''} \<and>
      (\<forall>k \<in> {''title''}. map_of d' k = map_of [(''title'', JStr ''a'')] k)) \<and>
   pruneUndefined [string_field ''title'' False] (JObj [(''title'', JStr ''a'')]) = JObj [(''title'', JStr ''a'')]"
proof -
  have "validatePayload plain_env [string_field ''title'' False] [(''title'', JStr ''a'')] = None"
    by (simp add: validatePayload.simps check_unknown_keys_def present_def string_field_simps
        validateValue.simps validateScalar_def check_constraints_def CheckValue_def Let_def
        FieldFormatSlug_def below_min_def above_max_def)
  moreover have "Key ` set [string_field ''title'' False] = {''title''}"
    by (simp add: string_field_simps)
  ultimately show ?thesis
    using prune_undefined_spec [of "[string_field ''title'' False]" "[(''title'', JStr ''a'')]" plain_env]
    by simp
qed

text \<open>C32: A refusal for an unknown key names the first one \<open>range\<close> visits, so it is not a function
  of the document.\<close>

theorem unknown_key_depends_on_map_order:
  "set [(''a'', JNull), (''b'', JNull)] = set [(''b'', JNull), (''a'', JNull)] \<and>
   validatePayload E [] [(''a'', JNull), (''b'', JNull)] \<noteq>
   validatePayload E [] [(''b'', JNull), (''a'', JNull)]"
  by (auto simp: validatePayload.simps check_unknown_keys_def errFieldUnknown_def err422_def
      WithDetails_def WithDetail_def New_def)

end
