(* ===== verification/Schema_Artifact.thy ===== *)
theory Schema_Artifact
  imports Payload_Validation
begin

text \<open>
  Schema artifacts and their diff (\<open>internal/cms/content/domain/artifact.go\<close>,
  \<open>artifact_diff.go\<close>, \<open>artifact_component.go\<close>): the portable form of a tenant's
  schema, and the graded list of changes that turns one artifact into another.  An
  artifact field has exactly the attributes of a stored field, so both are the record
  \<open>field_attrs\<close>; a nil and an empty list are the same list here, which is what
  \<open>copyIfAny\<close> and the absent JSON keys establish in the code.  In the texts of
  the changes the arrow and the dash are written in ASCII, and the text of a constraint
  refusal, which \<open>ValidateFieldConstraints\<close> words, is represented by the attribute it names.
\<close>

section \<open>Artifacts\<close>

type_synonym artifact_field = field_attrs

record artifact_component =
  ac_Name :: string
  ac_Label :: string
  ac_Fields :: "artifact_field list"

record artifact_type =
  at_Name :: string
  at_Label :: string
  at_ReadRoles :: "string list"
  at_WriteRoles :: "string list"
  at_OwnOnlyRoles :: "string list"
  at_Fields :: "artifact_field list"

record artifact =
  ArtifactVersion :: string
  Kind :: string
  Components :: "artifact_component list"
  Types :: "artifact_type list"

definition ArtifactVersion1 :: string where "ArtifactVersion1 = ''1''"
definition KindContentSchema :: string where "KindContentSchema = ''content-schema''"

definition artifactFieldOf :: "field \<Rightarrow> artifact_field" where
  "artifactFieldOf f = attrs f"

definition artifact_component_of :: "component \<Rightarrow> artifact_component" where
  "artifact_component_of c =
     \<lparr>ac_Name = cp_Name c, ac_Label = cp_Label c, ac_Fields = map artifactFieldOf (cp_Fields c)\<rparr>"

definition artifact_type_of :: "content_type \<Rightarrow> artifact_type" where
  "artifact_type_of ct =
     \<lparr>at_Name = ct_Name ct, at_Label = ct_Label ct, at_ReadRoles = ct_ReadRoles ct,
      at_WriteRoles = ct_WriteRoles ct, at_OwnOnlyRoles = ct_OwnOnlyRoles ct,
      at_Fields = map artifactFieldOf (ct_Fields ct)\<rparr>"

text \<open>
  \<open>sort.Slice\<close> by name.  It is not stable, but the names of one tenant are unique, and then
  every sort by name gives the same list.
\<close>

definition NewSchemaArtifact :: "content_type list \<Rightarrow> component list \<Rightarrow> artifact" where
  "NewSchemaArtifact types components =
     \<lparr>ArtifactVersion = ArtifactVersion1, Kind = KindContentSchema,
      Components = sort_key ac_Name (map artifact_component_of components),
      Types = sort_key at_Name (map artifact_type_of types)\<rparr>"

definition indexTypes :: "artifact \<Rightarrow> string \<Rightarrow> artifact_type option" where
  "indexTypes a = index_by at_Name (Types a)"

definition indexFields :: "artifact_field list \<Rightarrow> string \<Rightarrow> artifact_field option" where
  "indexFields fs = index_by f_Key fs"

definition indexComponents :: "artifact \<Rightarrow> string \<Rightarrow> artifact_component option" where
  "indexComponents a = index_by ac_Name (Components a)"

section \<open>Changes\<close>

datatype grade = Additive | Guarded | Refused

datatype change_op =
    OpCreateType | OpDeleteType | OpUpdateType | OpAddField | OpDeleteField | OpUpdateField
  | OpCreateComponent | OpUpdateComponent | OpDeleteComponent
  | OpAddComponentField | OpUpdateComponentField | OpDeleteComponentField

record change =
  ch_Op :: change_op
  ch_Type :: string
  ch_Field :: string
  ch_Grade :: grade
  ch_Component :: string
  ch_Detail :: detail
  ch_Code :: string
  ch_Hint :: string
  ch_RemovedValues :: "string list"
  ch_Constraints :: "constraints option"
  ch_RemovedComponents :: "string list"

definition change0 :: "change_op \<Rightarrow> grade \<Rightarrow> detail \<Rightarrow> change" where
  "change0 op g d = \<lparr>ch_Op = op, ch_Type = [], ch_Field = [], ch_Grade = g, ch_Component = [],
     ch_Detail = d, ch_Code = [], ch_Hint = [], ch_RemovedValues = [], ch_Constraints = None,
     ch_RemovedComponents = []\<rparr>"

definition type_change :: "change_op \<Rightarrow> string \<Rightarrow> grade \<Rightarrow> detail \<Rightarrow> change" where
  "type_change op t g d = (change0 op g d)\<lparr>ch_Type := t\<rparr>"

definition comp_change :: "change_op \<Rightarrow> string \<Rightarrow> grade \<Rightarrow> detail \<Rightarrow> change" where
  "comp_change op c g d = (change0 op g d)\<lparr>ch_Component := c\<rparr>"

text \<open>The literal of \<open>diffField\<close> and \<open>diffConstraints\<close>.\<close>

definition field_change :: "string \<Rightarrow> string \<Rightarrow> grade \<Rightarrow> detail \<Rightarrow> string \<Rightarrow> change" where
  "field_change t k g d code =
     (type_change OpUpdateField t g d)\<lparr>ch_Field := k, ch_Code := code\<rparr>"

lemma change_simps [simp]:
  "ch_Op (change0 op g d) = op" "ch_Grade (change0 op g d) = g"
  "ch_Type (change0 op g d) = []" "ch_Component (change0 op g d) = []" "ch_Field (change0 op g d) = []"
  "ch_Op (type_change op t g d) = op" "ch_Grade (type_change op t g d) = g"
  "ch_Type (type_change op t g d) = t" "ch_Component (type_change op t g d) = []"
  "ch_Field (type_change op t g d) = []"
  "ch_Op (comp_change op c g d) = op" "ch_Grade (comp_change op c g d) = g"
  "ch_Type (comp_change op c g d) = []" "ch_Component (comp_change op c g d) = c"
  "ch_Field (comp_change op c g d) = []"
  "ch_Op (field_change t k g d code) = OpUpdateField" "ch_Grade (field_change t k g d code) = g"
  "ch_Type (field_change t k g d code) = t" "ch_Component (field_change t k g d code) = []"
  "ch_Field (field_change t k g d code) = k" "ch_Code (field_change t k g d code) = code"
  by (simp_all add: change0_def type_change_def comp_change_def field_change_def)

section \<open>Fields\<close>

definition sameOrder :: "string list \<Rightarrow> string list \<Rightarrow> bool" where
  "sameOrder a b \<longleftrightarrow> a = b"

definition describeRoles :: "string list \<Rightarrow> detail" where
  "describeRoles roles = (if roles = [] then DStr ''unrestricted'' else DFmt ''%v'' [DStrs roles])"

definition describeConfinement :: "string list \<Rightarrow> detail" where
  "describeConfinement roles =
     (if roles = [] then DStr ''nobody confined'' else DFmt ''%v confined to own entries'' [DStrs roles])"

definition constraint_parts :: "constraints \<Rightarrow> detail list" where
  "constraint_parts c =
     (if c_Unique c then [DStr ''unique''] else []) @
     (if c_Format c \<noteq> [] then [DFmt ''format=%s'' [DStr (c_Format c)]] else []) @
     (if c_Pattern c \<noteq> [] then [DFmt ''pattern=%q'' [DStr (c_Pattern c)]] else []) @
     (case c_Min c of Some m \<Rightarrow> [DFmt ''min=%s'' [DBound m]] | None \<Rightarrow> []) @
     (case c_Max c of Some m \<Rightarrow> [DFmt ''max=%s'' [DBound m]] | None \<Rightarrow> [])"

definition Describe :: "constraints \<Rightarrow> detail" where
  "Describe c = DJoin '', '' (constraint_parts c)"

text \<open>
  \<open>addFieldChange\<close>.  Each group of tests either refuses, with a code, or lets the field
  through; the text of the change is rendered from the same case.
\<close>

definition refuse_reference :: "(string \<Rightarrow> bool) \<Rightarrow> artifact_field \<Rightarrow> (string \<times> detail) option" where
  "refuse_reference declared f =
     (if f_Type f = FieldTypeComponent then
        (if f_ComponentName f = [] then Some (''CONTENT_COMPONENT_REQUIRED'', DStr ''a component field must name the component it embeds'')
         else if \<not> declared (f_ComponentName f)
              then Some (''CONTENT_COMPONENT_NOT_FOUND'', DFmt ''component %q is not declared in the artifact'' [DStr (f_ComponentName f)])
         else None)
      else if f_ComponentName f \<noteq> []
           then Some (''CONTENT_COMPONENT_NOT_APPLICABLE'', DFmt ''%s fields do not embed a component'' [DStr (f_Type f)])
      else None)"

definition refuse_zone :: "(string \<Rightarrow> bool) \<Rightarrow> artifact_field \<Rightarrow> (string \<times> detail) option" where
  "refuse_zone declared f =
     (if f_Type f = FieldTypeDynamicZone then
        (if f_ZoneComponents f = [] then Some (''CONTENT_ZONE_COMPONENTS_REQUIRED'', DStr ''a dynamiczone field must name the components it accepts'')
         else case first_duplicate (f_ZoneComponents f) of
           Some dup \<Rightarrow> Some (''CONTENT_ZONE_COMPONENT_DUPLICATE'', DFmt ''component %q is listed twice'' [DStr dup])
         | None \<Rightarrow>
             (case find (\<lambda>n. \<not> declared n) (f_ZoneComponents f) of
                Some n \<Rightarrow> Some (''CONTENT_COMPONENT_NOT_FOUND'', DFmt ''component %q is not declared in the artifact'' [DStr n])
              | None \<Rightarrow> None))
      else if f_ZoneComponents f \<noteq> []
           then Some (''CONTENT_ZONE_COMPONENTS_NOT_APPLICABLE'', DFmt ''%s fields do not declare a component list'' [DStr (f_Type f)])
      else None)"

definition refuse_multiple :: "artifact_field \<Rightarrow> (string \<times> detail) option" where
  "refuse_multiple f =
     (if f_Multiple f \<and> \<not> MultipleAllowedFor (f_Type f)
      then Some (''CONTENT_FIELD_MULTIPLE_UNSUPPORTED'', DFmt ''%s fields cannot be multi-valued'' [DStr (f_Type f)])
      else None)"

definition refuse_constraints :: "env \<Rightarrow> artifact_field \<Rightarrow> (string \<times> detail) option" where
  "refuse_constraints E f =
     map_option (\<lambda>e. (cde_Code e, DFmt ''constraint %s refused'' [DStr (cde_Attr e)]))
       (ValidateFieldConstraints E (f_Type f) (f_Multiple f) (f_Constraints f))"

definition refuse_type :: "artifact_field \<Rightarrow> (string \<times> detail) option" where
  "refuse_type f =
     (if ValidFieldType (f_Type f) then None
      else Some (''CONTENT_FIELD_TYPE_UNSUPPORTED'', DFmt ''unknown field type %q'' [DStr (f_Type f)]))"

definition new_field_text :: "artifact_field \<Rightarrow> detail" where
  "new_field_text f =
     (let base = (if f_Type f = FieldTypeComponent then DFmt ''new component field embedding %q'' [DStr (f_ComponentName f)]
                  else if f_Type f = FieldTypeDynamicZone then DFmt ''new dynamiczone field accepting %v'' [DStrs (f_ZoneComponents f)]
                  else DFmt ''new %s field'' [DStr (f_Type f)]) in
      if IsZero (f_Constraints f) then base else DFmt ''%s (%s)'' [base, Describe (f_Constraints f)])"

definition addFieldChange :: "env \<Rightarrow> string \<Rightarrow> artifact_field \<Rightarrow> (string \<Rightarrow> bool) \<Rightarrow> change" where
  "addFieldChange E typeName f declared =
     (let c = (type_change OpAddField typeName Additive (new_field_text f))\<lparr>ch_Field := f_Key f\<rparr> in
      case first_error (\<lambda>r. r)
             [refuse_type f, refuse_reference declared f, refuse_zone declared f, refuse_multiple f,
              refuse_constraints E f] of
        Some (code, d) \<Rightarrow> c\<lparr>ch_Grade := Refused, ch_Code := code, ch_Detail := d\<rparr>
      | None \<Rightarrow>
          if f_Required f
          then c\<lparr>ch_Grade := Guarded, ch_Code := ''CONTENT_FIELD_REQUIRED_BACKFILL'',
                 ch_Detail := DFmt ''new REQUIRED %s field; existing entries do not carry it'' [DStr (f_Type f)]\<rparr>
          else c)"

definition without_unique :: "constraints \<Rightarrow> constraints" where
  "without_unique c = c\<lparr>c_Unique := False\<rparr>"

definition describe_rules :: "constraints \<Rightarrow> detail" where
  "describe_rules c = (if IsZero c then DStr ''none'' else Describe c)"

definition diffConstraints :: "env \<Rightarrow> string \<Rightarrow> artifact_field \<Rightarrow> artifact_field \<Rightarrow> change list" where
  "diffConstraints E typeName from to =
     (case ValidateFieldConstraints E (f_Type to) (f_Multiple to) (f_Constraints to) of
        Some e \<Rightarrow> [field_change typeName (f_Key to) Refused (DFmt ''constraint %s refused'' [DStr (cde_Attr e)]) (cde_Code e)]
      | None \<Rightarrow>
          (let fu = c_Unique (f_Constraints from); tu = c_Unique (f_Constraints to);
               fr = without_unique (f_Constraints from); tr = without_unique (f_Constraints to);
               text = DFmt ''constraints %s -> %s'' [describe_rules fr, describe_rules tr] in
           (if \<not> fu \<and> tu
            then [(field_change typeName (f_Key to) Guarded
                     (DStr ''unique tightened; entries sharing a value would be blocked'')
                     ''CONTENT_FIELD_UNIQUE_DUPLICATES'')\<lparr>ch_Constraints := Some (f_Constraints to)\<rparr>]
            else if fu \<and> \<not> tu then [field_change typeName (f_Key to) Additive (DStr ''unique relaxed'') []]
            else []) @
           (if Equal fr tr then []
            else if Tightens tr fr
                 then [(field_change typeName (f_Key to) Guarded
                          (DJoin [] [text, DStr ''; entries holding a value that fails would be blocked''])
                          ''CONTENT_FIELD_CONSTRAINT_BACKFILL'')\<lparr>ch_Constraints := Some (f_Constraints to)\<rparr>]
            else [field_change typeName (f_Key to) Additive (DJoin [] [text, DStr '' (relaxed)'']) []])))"

definition immutable_refusal :: "string \<Rightarrow> string \<Rightarrow> string \<Rightarrow> detail \<Rightarrow> change" where
  "immutable_refusal typeName key code d =
     (field_change typeName key Refused d code)\<lparr>ch_Hint :=
        ''add a new field, migrate the content, then delete the old one -- the three steps ADR-007 leaves open''\<rparr>"

definition immutable_changes :: "string \<Rightarrow> artifact_field \<Rightarrow> artifact_field \<Rightarrow> change list" where
  "immutable_changes t from to =
     (if f_Type from \<noteq> f_Type to
      then [immutable_refusal t (f_Key to) ''CONTENT_FIELD_TYPE_IMMUTABLE'' (DFmt ''type %s -> %s'' [DStr (f_Type from), DStr (f_Type to)])] else []) @
     (if f_Multiple from \<noteq> f_Multiple to
      then [immutable_refusal t (f_Key to) ''CONTENT_FIELD_MULTIPLE_IMMUTABLE'' (DFmt ''multiple %t -> %t'' [DBool (f_Multiple from), DBool (f_Multiple to)])] else []) @
     (if f_RelationEntity from \<noteq> f_RelationEntity to
      then [immutable_refusal t (f_Key to) ''CONTENT_FIELD_RELATION_IMMUTABLE'' (DFmt ''relation_entity %q -> %q'' [DStr (f_RelationEntity from), DStr (f_RelationEntity to)])] else []) @
     (if f_ComponentName from \<noteq> f_ComponentName to
      then [immutable_refusal t (f_Key to) ''CONTENT_FIELD_COMPONENT_IMMUTABLE'' (DFmt ''component %q -> %q'' [DStr (f_ComponentName from), DStr (f_ComponentName to)])] else [])"

definition text_change :: "string \<Rightarrow> string \<Rightarrow> string \<Rightarrow> detail \<Rightarrow> detail \<Rightarrow> change" where
  "text_change t k fmt a b = field_change t k Additive (DFmt fmt [a, b]) []"

definition required_changes :: "string \<Rightarrow> artifact_field \<Rightarrow> artifact_field \<Rightarrow> change list" where
  "required_changes t from to =
     (if \<not> f_Required from \<and> f_Required to
      then [field_change t (f_Key to) Guarded (DStr ''required tightened; entries missing this field would be blocked'') ''CONTENT_FIELD_REQUIRED_BACKFILL'']
      else if f_Required from \<and> \<not> f_Required to
      then [field_change t (f_Key to) Additive (DStr ''required relaxed'') []]
      else [])"

definition enum_changes :: "string \<Rightarrow> artifact_field \<Rightarrow> artifact_field \<Rightarrow> change list" where
  "enum_changes t from to =
     (let removed = missing_from (f_EnumValues from) (f_EnumValues to) in
      if removed \<noteq> []
      then [(field_change t (f_Key to) Guarded (DFmt ''enum values removed: %v'' [DStrs removed]) ''CONTENT_ENUM_VALUE_IN_USE'')\<lparr>ch_RemovedValues := removed\<rparr>]
      else if \<not> sameOrder (f_EnumValues from) (f_EnumValues to)
      then [field_change t (f_Key to) Additive (DStr ''enum values added or reordered'') []]
      else [])"

definition zone_changes :: "string \<Rightarrow> artifact_field \<Rightarrow> artifact_field \<Rightarrow> change list" where
  "zone_changes t from to =
     (let removed = missing_from (f_ZoneComponents from) (f_ZoneComponents to) in
      if removed \<noteq> []
      then [(field_change t (f_Key to) Guarded (DFmt ''dynamiczone components removed: %v'' [DStrs removed]) ''CONTENT_ZONE_COMPONENT_IN_USE'')\<lparr>ch_RemovedComponents := removed\<rparr>]
      else if \<not> sameOrder (f_ZoneComponents from) (f_ZoneComponents to)
      then [field_change t (f_Key to) Additive (DStr ''dynamiczone components added or reordered'') []]
      else [])"

definition diffField :: "env \<Rightarrow> string \<Rightarrow> artifact_field \<Rightarrow> artifact_field \<Rightarrow> change list" where
  "diffField E t from to =
     (if immutable_changes t from to \<noteq> [] then immutable_changes t from to
      else
       (if f_Label from \<noteq> f_Label to then [text_change t (f_Key to) ''label %q -> %q'' (DStr (f_Label from)) (DStr (f_Label to))] else []) @
       (if f_Description from \<noteq> f_Description to then [text_change t (f_Key to) ''description %q -> %q'' (DStr (f_Description from)) (DStr (f_Description to))] else []) @
       required_changes t from to @
       (if \<not> sameOrder (f_ReadRoles from) (f_ReadRoles to) then [text_change t (f_Key to) ''read_roles %s -> %s'' (describeRoles (f_ReadRoles from)) (describeRoles (f_ReadRoles to))] else []) @
       (if \<not> sameOrder (f_WriteRoles from) (f_WriteRoles to) then [text_change t (f_Key to) ''write_roles %s -> %s'' (describeRoles (f_WriteRoles from)) (describeRoles (f_WriteRoles to))] else []) @
       enum_changes t from to @ zone_changes t from to @ diffConstraints E t from to)"

section \<open>Types\<close>

definition roles_change :: "string \<Rightarrow> string \<Rightarrow> string list \<Rightarrow> string list \<Rightarrow> change list" where
  "roles_change t fmt from to =
     (if \<not> sameOrder from to
      then [type_change OpUpdateType t Additive (DFmt fmt [describeRoles from, describeRoles to])] else [])"

definition own_only_change :: "string \<Rightarrow> string list \<Rightarrow> string list \<Rightarrow> change list" where
  "own_only_change t from to =
     (if sameOrder from to then []
      else let text = DFmt ''own_only_roles %s -> %s'' [describeConfinement from, describeConfinement to] in
           if missing_from to from \<noteq> []
           then [(type_change OpUpdateType t Guarded (DJoin [] [text, DStr ''; entries with no recorded author would become invisible'']))
                   \<lparr>ch_Code := ''CONTENT_ENTRY_AUTHOR_MISSING''\<rparr>]
           else [type_change OpUpdateType t Additive text])"

definition delete_field_changes :: "string \<Rightarrow> artifact_field list \<Rightarrow> artifact_field list \<Rightarrow> change list" where
  "delete_field_changes t from to =
     List.map_filter (\<lambda>f. if indexFields to (f_Key f) = None
        then Some ((type_change OpDeleteField t Guarded (DStr ''field is absent from the artifact; removed only with prune''))
                     \<lparr>ch_Field := f_Key f, ch_Code := ''CONTENT_FIELD_HAS_DATA''\<rparr>)
        else None) from"

definition diffType :: "env \<Rightarrow> artifact_type \<Rightarrow> artifact_type \<Rightarrow> (string \<Rightarrow> bool) \<Rightarrow> change list" where
  "diffType E from to declared =
     (if at_Label from \<noteq> at_Label to
      then [type_change OpUpdateType (at_Name to) Additive (DFmt ''label %q -> %q'' [DStr (at_Label from), DStr (at_Label to)])] else []) @
     roles_change (at_Name to) ''read_roles %s -> %s'' (at_ReadRoles from) (at_ReadRoles to) @
     roles_change (at_Name to) ''write_roles %s -> %s'' (at_WriteRoles from) (at_WriteRoles to) @
     own_only_change (at_Name to) (at_OwnOnlyRoles from) (at_OwnOnlyRoles to) @
     concat (map (\<lambda>f. case indexFields (at_Fields from) (f_Key f) of
                        None \<Rightarrow> [addFieldChange E (at_Name to) f declared]
                      | Some prev \<Rightarrow> diffField E (at_Name to) prev f) (at_Fields to)) @
     delete_field_changes (at_Name from) (at_Fields from) (at_Fields to)"

section \<open>Components\<close>

definition subFieldOf :: "artifact_field \<Rightarrow> field" where
  "subFieldOf f = Field (zero_attrs\<lparr>f_Key := f_Key f, f_Type := f_Type f, f_ReadRoles := f_ReadRoles f,
     f_WriteRoles := f_WriteRoles f, f_Constraints := f_Constraints f\<rparr>) [] []"

definition subfield_refusal :: "change_op \<Rightarrow> string \<Rightarrow> artifact_field \<Rightarrow> subfield_violation \<Rightarrow> change" where
  "subfield_refusal op cname f v =
     (comp_change op cname Refused
        (if sv_Attribute v = [] then DFmt ''a component cannot contain a %s field'' [DStr (f_Type f)]
         else DFmt ''component sub-fields cannot carry %s'' [DStr (sv_Attribute v)]))
       \<lparr>ch_Field := f_Key f, ch_Code := sv_Code v\<rparr>"

definition addComponentFieldChange :: "env \<Rightarrow> string \<Rightarrow> artifact_field \<Rightarrow> change" where
  "addComponentFieldChange E cname f =
     (case CheckComponentSubField (subFieldOf f) of
        Some v \<Rightarrow> subfield_refusal OpAddComponentField cname f v
      | None \<Rightarrow> (addFieldChange E [] f (\<lambda>_. False))\<lparr>ch_Op := OpAddComponentField, ch_Component := cname\<rparr>)"

definition createComponentChanges :: "env \<Rightarrow> artifact_component \<Rightarrow> change list" where
  "createComponentChanges E c =
     (let hd = comp_change OpCreateComponent (ac_Name c) Additive
                 (DFmt ''new component with %d sub-field(s)'' [DNat (length (ac_Fields c))]) in
      (if \<not> ValidFieldKey (ac_Name c)
       then hd\<lparr>ch_Grade := Refused, ch_Code := ''CONTENT_COMPONENT_NAME_INVALID'',
               ch_Detail := DFmt ''component name %q is not a valid key'' [DStr (ac_Name c)]\<rparr>
       else if ac_Fields c = []
       then hd\<lparr>ch_Grade := Refused, ch_Code := ''CONTENT_COMPONENT_NO_FIELDS'',
               ch_Detail := DStr ''a component needs at least one sub-field''\<rparr>
       else hd) #
      filter (\<lambda>ch. ch_Grade ch = Refused) (map (addComponentFieldChange E (ac_Name c)) (ac_Fields c)))"

definition diffComponent :: "env \<Rightarrow> artifact_component \<Rightarrow> artifact_component \<Rightarrow> change list" where
  "diffComponent E from to =
     (if ac_Label from \<noteq> ac_Label to
      then [comp_change OpUpdateComponent (ac_Name to) Additive (DFmt ''label %q -> %q'' [DStr (ac_Label from), DStr (ac_Label to)])] else []) @
     concat (map (\<lambda>f. case indexFields (ac_Fields from) (f_Key f) of
                        None \<Rightarrow> [addComponentFieldChange E (ac_Name to) f]
                      | Some prev \<Rightarrow>
                          (case CheckComponentSubField (subFieldOf f) of
                             Some v \<Rightarrow> [subfield_refusal OpUpdateComponentField (ac_Name to) f v]
                           | None \<Rightarrow> map (\<lambda>ch. ch\<lparr>ch_Op := OpUpdateComponentField, ch_Component := ac_Name to\<rparr>)
                                       (diffField E [] prev f))) (ac_Fields to)) @
     List.map_filter (\<lambda>f. if indexFields (ac_Fields to) (f_Key f) = None
        then Some ((comp_change OpDeleteComponentField (ac_Name from) Guarded (DStr ''sub-field is absent from the artifact; removed only with prune''))
                     \<lparr>ch_Field := f_Key f, ch_Code := ''CONTENT_FIELD_HAS_DATA''\<rparr>)
        else None) (ac_Fields from)"

section \<open>Schemas\<close>

definition is_add :: "change \<Rightarrow> bool" where
  "is_add c \<longleftrightarrow> ch_Op c = OpAddField \<or> ch_Op c = OpAddComponentField"

definition is_del :: "change \<Rightarrow> bool" where
  "is_del c \<longleftrightarrow> ch_Op c = OpDeleteField \<or> ch_Op c = OpDeleteComponentField"

definition owner :: "change \<Rightarrow> string" where
  "owner c = (if ch_Component c \<noteq> [] then ''component:'' @ ch_Component c else ''type:'' @ ch_Type c)"

definition rename_hint :: string where
  "rename_hint = ''one field added and another dropped on the same type: if this is a RENAME, use the rename verb -- an artifact describes states, and applying this pair would destroy the stored values''"

definition hint_rename :: "string set \<Rightarrow> string set \<Rightarrow> change \<Rightarrow> change" where
  "hint_rename adds dels c =
     (if (is_add c \<or> is_del c) \<and> owner c \<in> adds \<and> owner c \<in> dels then c\<lparr>ch_Hint := rename_hint\<rparr> else c)"

definition withRenameHints :: "change list \<Rightarrow> change list" where
  "withRenameHints changes =
     map (hint_rename (owner ` set (filter is_add changes)) (owner ` set (filter is_del changes))) changes"

lemma hint_rename_simps [simp]:
  "ch_Op (hint_rename a d c) = ch_Op c" "ch_Grade (hint_rename a d c) = ch_Grade c"
  "ch_Type (hint_rename a d c) = ch_Type c" "ch_Component (hint_rename a d c) = ch_Component c"
  "ch_Field (hint_rename a d c) = ch_Field c" "ch_Code (hint_rename a d c) = ch_Code c"
  by (simp_all add: hint_rename_def)

definition component_changes :: "env \<Rightarrow> artifact \<Rightarrow> artifact \<Rightarrow> change list" where
  "component_changes E from to =
     concat (map (\<lambda>c. case indexComponents from (ac_Name c) of
                        None \<Rightarrow> createComponentChanges E c
                      | Some prev \<Rightarrow> diffComponent E prev c) (Components to))"

definition type_changes :: "env \<Rightarrow> artifact \<Rightarrow> artifact \<Rightarrow> change list" where
  "type_changes E from to =
     (let declared = (\<lambda>n. indexComponents to n \<noteq> None) in
      concat (map (\<lambda>t. case indexTypes from (at_Name t) of
          None \<Rightarrow> type_change OpCreateType (at_Name t) Additive (DFmt ''new content type with %d field(s)'' [DNat (length (at_Fields t))])
                  # filter (\<lambda>ch. ch_Grade ch = Refused) (map (\<lambda>f. addFieldChange E (at_Name t) f declared) (at_Fields t))
        | Some prev \<Rightarrow> diffType E prev t declared) (Types to)))"

definition type_deletions :: "artifact \<Rightarrow> artifact \<Rightarrow> change list" where
  "type_deletions from to =
     List.map_filter (\<lambda>t. if indexTypes to (at_Name t) = None
        then Some ((type_change OpDeleteType (at_Name t) Guarded (DStr ''type is absent from the artifact; removed only with prune''))
                     \<lparr>ch_Code := ''CONTENT_TYPE_HAS_ENTRIES|CONTENT_TYPE_REFERENCED''\<rparr>)
        else None) (Types from)"

definition component_deletions :: "artifact \<Rightarrow> artifact \<Rightarrow> change list" where
  "component_deletions from to =
     List.map_filter (\<lambda>c. if indexComponents to (ac_Name c) = None
        then Some ((comp_change OpDeleteComponent (ac_Name c) Guarded
                      (DStr ''component is absent from the artifact; removed only with prune, and only once nothing references it''))
                     \<lparr>ch_Code := ''CONTENT_COMPONENT_IN_USE''\<rparr>)
        else None) (Components from)"

definition DiffSchemas :: "env \<Rightarrow> artifact \<Rightarrow> artifact \<Rightarrow> change list" where
  "DiffSchemas E from to =
     withRenameHints (component_changes E from to @ type_changes E from to @
                      type_deletions from to @ component_deletions from to)"

end
