(* ===== verification/Schema_Safety.thy ===== *)
theory Schema_Safety
  imports Schema_Artifact
begin

text \<open>
  What the grades of a schema diff promise about stored documents.  An artifact is read
  back as the field lists the validator works on, with the sub-fields of components
  attached the way \<open>resolveComponentRefs\<close> attaches them; the theorems then relate the
  changes of \<open>DiffSchemas\<close> to the verdicts of \<open>validatePayload\<close>.
\<close>

section \<open>An artifact as the validator's schema\<close>

definition leaf :: "artifact_field \<Rightarrow> field" where
  "leaf a = Field a [] []"

definition component_fields :: "artifact \<Rightarrow> string \<Rightarrow> field list" where
  "component_fields A n = (case indexComponents A n of None \<Rightarrow> [] | Some c \<Rightarrow> map leaf (ac_Fields c))"

definition attach :: "(string \<Rightarrow> field list) \<Rightarrow> artifact_field \<Rightarrow> field" where
  "attach lookup a =
     Field a (if f_Type a = FieldTypeComponent then lookup (f_ComponentName a) else [])
             (if f_Type a = FieldTypeDynamicZone then map (\<lambda>n. (n, lookup n)) (f_ZoneComponents a) else [])"

definition schema_fields :: "artifact \<Rightarrow> artifact_type \<Rightarrow> field list" where
  "schema_fields A t = map (attach (component_fields A)) (at_Fields t)"

lemma attach_simps [simp]:
  "attrs (attach l a) = a" "attrs (leaf a) = a" "ComponentFields (leaf a) = []" "ZoneFields (leaf a) = []"
  by (simp_all add: attach_def leaf_def)

lemma attach_component: "f_Type a = FieldTypeComponent \<Longrightarrow> ComponentFields (attach l a) = l (f_ComponentName a)"
  by (simp add: attach_def)

lemma attach_zone:
  "f_Type a = FieldTypeDynamicZone \<Longrightarrow> n \<in> set (f_ZoneComponents a) \<Longrightarrow> zone_fields_of (attach l a) n = l n"
proof -
  assume z: "f_Type a = FieldTypeDynamicZone" and n: "n \<in> set (f_ZoneComponents a)"
  have "map_of (map (\<lambda>n. (n, l n)) ns) n = (if n \<in> set ns then Some (l n) else None)" for ns
    by (induction ns) auto
  with z n show ?thesis by (simp add: attach_def zone_fields_of_def)
qed

section \<open>Relaxing a field keeps every value legal\<close>

definition constraints_relaxed :: "env \<Rightarrow> constraints \<Rightarrow> constraints \<Rightarrow> bool" where
  "constraints_relaxed E c d \<longleftrightarrow>
     (\<forall>s. string_satisfies E c s \<longrightarrow> string_satisfies E d s) \<and> (\<forall>n. in_range c n \<longrightarrow> in_range d n)"

definition fields_relaxed :: "env \<Rightarrow> field list \<Rightarrow> field list \<Rightarrow> bool" where
  "fields_relaxed E fs gs \<longleftrightarrow> (\<forall>d. payload_ok E fs d \<longrightarrow> payload_ok E gs d)"

definition field_relaxed :: "env \<Rightarrow> field \<Rightarrow> field \<Rightarrow> bool" where
  "field_relaxed E f g \<longleftrightarrow>
     Type g = Type f \<and> Multiple g = Multiple f \<and> (Required g \<longrightarrow> Required f) \<and>
     set (EnumValues f) \<subseteq> set (EnumValues g) \<and> set (ZoneComponents f) \<subseteq> set (ZoneComponents g) \<and>
     constraints_relaxed E (Constraints f) (Constraints g) \<and>
     (Type f = FieldTypeComponent \<longrightarrow> fields_relaxed E (ComponentFields f) (ComponentFields g)) \<and>
     (Type f = FieldTypeDynamicZone \<longrightarrow>
        (\<forall>n \<in> set (ZoneComponents f). fields_relaxed E (zone_fields_of f n) (zone_fields_of g n)))"

lemma scalar_relaxed: "field_relaxed E f g \<Longrightarrow> scalar_ok E f v \<Longrightarrow> scalar_ok E g v"
proof -
  assume r: "field_relaxed E f g" and ok: "scalar_ok E f v"
  have t: "Type g = Type f"
    and s: "\<And>s. string_satisfies E (Constraints f) s \<Longrightarrow> string_satisfies E (Constraints g) s"
    and n: "\<And>n. in_range (Constraints f) n \<Longrightarrow> in_range (Constraints g) n"
    and e: "\<And>x. InEnum f x \<Longrightarrow> InEnum g x"
    using r by (auto simp: field_relaxed_def constraints_relaxed_def InEnum_def)
  show "scalar_ok E g v"
    using ok unfolding scalar_ok_def t by (cases v) (simp_all add: typed_string_def s n e, auto intro: s n e)
qed

lemma cardinality_relaxed: "field_relaxed E f g \<Longrightarrow> cardinality_ok f xs \<Longrightarrow> cardinality_ok g xs"
  by (auto simp: cardinality_ok_def field_relaxed_def)

lemma item_relaxed: "field_relaxed E f g \<Longrightarrow> Type f \<in> {FieldTypeComponent, FieldTypeDynamicZone} \<Longrightarrow>
    item_ok E f x \<Longrightarrow> item_ok E g x"
  by (cases x) (auto simp: item_ok.simps field_relaxed_def fields_relaxed_def ZoneAllows_def Let_def)

lemma value_relaxed:
  assumes "field_relaxed E f g" and "value_ok E f v"
  shows "value_ok E g v"
proof -
  have t: "Type g = Type f" "Multiple g = Multiple f" "Required g \<longrightarrow> Required f"
    using assms(1) by (auto simp: field_relaxed_def)
  consider (nested) "Type f = FieldTypeComponent \<or> Type f = FieldTypeDynamicZone"
    | (plain) "Type f \<noteq> FieldTypeComponent" "Type f \<noteq> FieldTypeDynamicZone" by blast
  then show ?thesis
  proof cases
    case nested
    then show ?thesis
      using assms(2) t item_relaxed [OF assms(1)] cardinality_relaxed [OF assms(1)]
      by (cases v) (auto simp: value_ok.simps)
  next
    case plain
    then show ?thesis
      using assms(2) t scalar_relaxed [OF assms(1)] cardinality_relaxed [OF assms(1)]
      by (cases v) (auto simp: value_ok.simps list_all_iff)
  qed
qed

lemma payload_relaxed:
  assumes keys: "Key ` set fs \<subseteq> Key ` set gs"
    and each: "\<And>g. g \<in> set gs \<Longrightarrow>
      (Key g \<notin> Key ` set fs \<and> \<not> Required g) \<or> (\<exists>f \<in> set fs. Key f = Key g \<and> field_relaxed E f g)"
  shows "fields_relaxed E fs gs"
proof (unfold fields_relaxed_def, intro allI impI)
  fix d assume ok: "payload_ok E fs d"
  have "case present d (Key g) of None \<Rightarrow> \<not> Required g | Some v \<Rightarrow> value_ok E g v" if g: "g \<in> set gs" for g
    using each [OF g]
  proof
    assume new: "Key g \<notin> Key ` set fs \<and> \<not> Required g"
    have "fst ` set d \<subseteq> Key ` set fs" using ok by (simp add: payload_ok.simps)
    with new have "map_of d (Key g) = None" by (auto simp: map_of_eq_None_iff)
    with new show ?thesis by (simp add: present_def)
  next
    assume "\<exists>f \<in> set fs. Key f = Key g \<and> field_relaxed E f g"
    then obtain f where f: "f \<in> set fs" "Key f = Key g" "field_relaxed E f g" by blast
    have "case present d (Key g) of None \<Rightarrow> \<not> Required f | Some v \<Rightarrow> value_ok E f v"
      using ok f(1,2) by (fastforce simp: payload_ok.simps)
    then show ?thesis
      using f(3) value_relaxed [OF f(3)] by (auto simp: field_relaxed_def split: option.splits)
  qed
  moreover have "fst ` set d \<subseteq> Key ` set gs" using ok keys unfolding payload_ok.simps by blast
  ultimately show "payload_ok E gs d" unfolding payload_ok.simps by blast
qed

section \<open>What a list of additive changes says\<close>

definition all_additive :: "change list \<Rightarrow> bool" where
  "all_additive cs \<longleftrightarrow> (\<forall>c \<in> set cs. ch_Grade c = Additive)"

lemma all_additive_simps [simp]:
  "all_additive []" "all_additive (c # cs) \<longleftrightarrow> ch_Grade c = Additive \<and> all_additive cs"
  "all_additive (xs @ ys) \<longleftrightarrow> all_additive xs \<and> all_additive ys"
  "all_additive (concat css) \<longleftrightarrow> (\<forall>cs \<in> set css. all_additive cs)"
  by (auto simp: all_additive_def)

lemma all_additive_hints [simp]: "all_additive (withRenameHints cs) = all_additive cs"
  by (simp add: all_additive_def withRenameHints_def)

lemma equal_relaxed: "Equal (without_unique c) (without_unique d) \<Longrightarrow> constraints_relaxed E c d"
proof -
  assume e: "Equal (without_unique c) (without_unique d)"
  have "floatPtrEqual a b \<Longrightarrow> a = b" for a b
    by (cases a; cases b) (auto simp: f64_eq_def)
  then have "c_Format c = c_Format d" "c_Pattern c = c_Pattern d" "c_Min c = c_Min d" "c_Max c = c_Max d"
    using e by (simp_all add: Equal_def without_unique_def)
  then show ?thesis by (simp add: constraints_relaxed_def string_satisfies_def in_range_def)
qed

lemma not_tightened_relaxed:
  assumes "finite_bounds c" "finite_bounds d" "\<not> Tightens (without_unique d) (without_unique c)"
  shows "constraints_relaxed E c d"
proof -
  have t: "\<not> Tightens d c" using assms(3) by (simp add: Tightens_def without_unique_def)
  have "satisfies E c u v \<longrightarrow> satisfies E d u v" for u v
    using relaxed_satisfies [OF assms(1,2) t] by blast
  from this [of FieldTypeString] this [of FieldTypeNumber] show ?thesis
    by (simp add: constraints_relaxed_def satisfies_def) blast
qed

text \<open>The stored constraint sets are the ones \<open>ValidateFieldConstraints\<close> let through.\<close>

definition stored_constraints :: "env \<Rightarrow> artifact_field \<Rightarrow> bool" where
  "stored_constraints E f \<longleftrightarrow> ValidateFieldConstraints E (f_Type f) (f_Multiple f) (f_Constraints f) = None"

lemma immutable_unchanged:
  "all_additive (diffField E t from to) \<Longrightarrow>
     f_Type to = f_Type from \<and> f_Multiple to = f_Multiple from \<and> f_ComponentName to = f_ComponentName from"
  by (auto simp: diffField_def immutable_changes_def immutable_refusal_def split: if_splits)

lemma additive_diffField:
  assumes "all_additive (diffField E t from to)" and "stored_constraints E from"
  shows "f_Type to = f_Type from" "f_Multiple to = f_Multiple from" "f_ComponentName to = f_ComponentName from"
    "f_Required to \<longrightarrow> f_Required from" "set (f_EnumValues from) \<subseteq> set (f_EnumValues to)"
    "set (f_ZoneComponents from) \<subseteq> set (f_ZoneComponents to)"
    "constraints_relaxed E (f_Constraints from) (f_Constraints to)"
proof -
  show same: "f_Type to = f_Type from" "f_Multiple to = f_Multiple from" "f_ComponentName to = f_ComponentName from"
    using immutable_unchanged [OF assms(1)] by auto
  have "immutable_changes t from to = []"
    using assms(1) by (auto simp: diffField_def immutable_changes_def immutable_refusal_def split: if_splits)
  then have parts: "all_additive (required_changes t from to)" "all_additive (enum_changes t from to)"
    "all_additive (zone_changes t from to)" "all_additive (diffConstraints E t from to)"
    using assms(1) by (auto simp: diffField_def)
  show "f_Required to \<longrightarrow> f_Required from"
    using parts(1) by (auto simp: required_changes_def split: if_splits)
  show "set (f_EnumValues from) \<subseteq> set (f_EnumValues to)"
    using parts(2) by (auto simp: enum_changes_def Let_def split: if_splits)
  show "set (f_ZoneComponents from) \<subseteq> set (f_ZoneComponents to)"
    using parts(3) by (auto simp: zone_changes_def Let_def split: if_splits)
  show "constraints_relaxed E (f_Constraints from) (f_Constraints to)"
  proof (cases "Equal (without_unique (f_Constraints from)) (without_unique (f_Constraints to))")
    case True
    then show ?thesis by (rule equal_relaxed)
  next
    case False
    with parts(4) have ok: "ValidateFieldConstraints E (f_Type to) (f_Multiple to) (f_Constraints to) = None"
      and nt: "\<not> Tightens (without_unique (f_Constraints to)) (without_unique (f_Constraints from))"
      by (auto simp: diffConstraints_def Let_def split: option.splits if_splits)
    show ?thesis
      using not_tightened_relaxed [OF _ _ nt] ValidateFieldConstraints_finite [OF ok]
        ValidateFieldConstraints_finite assms(2) by (auto simp: stored_constraints_def)
  qed
qed

lemma additive_addFieldChange: "ch_Grade (addFieldChange E t f declared) = Additive \<Longrightarrow> \<not> f_Required f"
  by (auto simp: addFieldChange_def Let_def simp del: first_error.simps split: option.splits if_splits)

lemma additive_addComponentFieldChange:
  "ch_Grade (addComponentFieldChange E t f) = Additive \<Longrightarrow> \<not> f_Required f"
  by (auto simp: addComponentFieldChange_def subfield_refusal_def dest: additive_addFieldChange split: option.splits)

section \<open>Additive changes keep stored documents legal\<close>

text \<open>What a stored schema satisfies: valid constraint sets and no dangling component reference.\<close>

definition stored_field :: "env \<Rightarrow> artifact \<Rightarrow> artifact_field \<Rightarrow> bool" where
  "stored_field E A f \<longleftrightarrow> stored_constraints E f \<and>
     (f_Type f = FieldTypeComponent \<longrightarrow> indexComponents A (f_ComponentName f) \<noteq> None) \<and>
     (f_Type f = FieldTypeDynamicZone \<longrightarrow> (\<forall>n \<in> set (f_ZoneComponents f). indexComponents A n \<noteq> None))"

definition stored_schema :: "env \<Rightarrow> artifact \<Rightarrow> bool" where
  "stored_schema E A \<longleftrightarrow>
     (\<forall>c \<in> set (Components A). \<forall>f \<in> set (ac_Fields c). stored_constraints E f) \<and>
     (\<forall>t \<in> set (Types A). \<forall>f \<in> set (at_Fields t). stored_field E A f)"

lemma indexed_field:
  "indexFields fs k = Some p \<Longrightarrow> p \<in> set fs \<and> f_Key p = k"
  unfolding indexFields_def by (rule index_by_SomeD)

lemma no_deletions_keep:
  assumes "all_additive (List.map_filter (\<lambda>f. if P f then Some (mk f) else None) fs)"
    and "\<And>f. ch_Grade (mk f) \<noteq> Additive"
  shows "\<forall>f \<in> set fs. \<not> P f"
  using assms by (induction fs) (auto simp: List.map_filter_simps split: if_splits)

lemma relaxed_by_index:
  assumes keep: "\<forall>f \<in> set from. \<not> indexFields to (f_Key f) = None"
    and add: "\<And>f. f \<in> set to \<Longrightarrow> indexFields from (f_Key f) = None \<Longrightarrow> \<not> f_Required f"
    and upd: "\<And>f p. f \<in> set to \<Longrightarrow> indexFields from (f_Key f) = Some p \<Longrightarrow> field_relaxed E (mk p) (mk' f)"
    and mk: "\<And>a. attrs (mk a) = a" "\<And>a. attrs (mk' a) = a"
  shows "fields_relaxed E (map mk from) (map mk' to)"
proof (rule payload_relaxed)
  show "Key ` set (map mk from) \<subseteq> Key ` set (map mk' to)"
  proof
    fix k assume "k \<in> Key ` set (map mk from)"
    then obtain f where "f \<in> set from" "k = f_Key f" by (auto simp: mk)
    with keep have "k \<in> f_Key ` set to" by (auto simp: indexFields_def)
    then show "k \<in> Key ` set (map mk' to)" by (force simp: mk)
  qed
  fix g assume "g \<in> set (map mk' to)"
  then obtain f where f: "f \<in> set to" "g = mk' f" by auto
  show "(Key g \<notin> Key ` set (map mk from) \<and> \<not> Required g) \<or>
      (\<exists>h \<in> set (map mk from). Key h = Key g \<and> field_relaxed E h g)"
  proof (cases "indexFields from (f_Key f)")
    case None
    then have "f_Key f \<notin> f_Key ` set from" by (simp add: indexFields_def)
    then show ?thesis using add [OF f(1) None] f(2) by (auto simp: mk image_iff)
  next
    case (Some p)
    then show ?thesis using upd [OF f(1) Some] indexed_field [OF Some] f(2) by (auto simp: mk)
  qed
qed

lemma additive_diffComponent:
  assumes add: "all_additive (diffComponent E from to)" and st: "\<forall>f \<in> set (ac_Fields from). stored_constraints E f"
  shows "fields_relaxed E (map leaf (ac_Fields from)) (map leaf (ac_Fields to))"
proof (rule relaxed_by_index)
  show "\<forall>f \<in> set (ac_Fields from). \<not> indexFields (ac_Fields to) (f_Key f) = None"
    by (rule no_deletions_keep) (use add in \<open>auto simp: diffComponent_def\<close>)
next
  fix f assume f: "f \<in> set (ac_Fields to)" "indexFields (ac_Fields from) (f_Key f) = None"
  have "ch_Grade (addComponentFieldChange E (ac_Name to) f) = Additive"
    using add f by (force simp: diffComponent_def)
  then show "\<not> f_Required f" by (rule additive_addComponentFieldChange)
next
  fix f p assume f: "f \<in> set (ac_Fields to)" "indexFields (ac_Fields from) (f_Key f) = Some p"
  have "all_additive (case CheckComponentSubField (subFieldOf f) of
       Some v \<Rightarrow> [subfield_refusal OpUpdateComponentField (ac_Name to) f v]
     | None \<Rightarrow> map (\<lambda>ch. ch\<lparr>ch_Op := OpUpdateComponentField, ch_Component := ac_Name to\<rparr>) (diffField E [] p f))"
    using add f by (force simp: diffComponent_def)
  then have "all_additive (diffField E [] p f)"
    by (auto simp: all_additive_def subfield_refusal_def split: option.splits)
  from additive_diffField [OF this] st indexed_field [OF f(2)]
  show "field_relaxed E (leaf p) (leaf f)"
    by (auto simp: field_relaxed_def fields_relaxed_def zone_fields_of_def)
qed simp_all

lemma additive_components:
  assumes add: "all_additive (DiffSchemas E from to)" and st: "stored_schema E from"
    and n: "indexComponents from n \<noteq> None"
  shows "fields_relaxed E (component_fields from n) (component_fields to n)"
proof -
  obtain p where p: "indexComponents from n = Some p" using n by blast
  then have pin: "p \<in> set (Components from)" "ac_Name p = n"
    unfolding indexComponents_def by (auto dest: index_by_SomeD)
  have "\<forall>c \<in> set (Components from). \<not> indexComponents to (ac_Name c) = None"
    by (rule no_deletions_keep) (use add in \<open>auto simp: DiffSchemas_def component_deletions_def\<close>)
  then obtain c where c: "indexComponents to n = Some c" using pin by force
  then have cin: "c \<in> set (Components to)" "ac_Name c = n"
    unfolding indexComponents_def by (auto dest: index_by_SomeD)
  have "all_additive (component_changes E from to)" using add by (simp add: DiffSchemas_def)
  then have "all_additive (diffComponent E p c)"
    using cin p by (force simp: component_changes_def)
  from additive_diffComponent [OF this] st pin
  show ?thesis by (simp add: component_fields_def p c stored_schema_def)
qed

lemma additive_diffType:
  assumes add: "all_additive (diffType E p t declared)" and st: "\<forall>f \<in> set (at_Fields p). stored_field E from f"
    and comps: "\<And>n. indexComponents from n \<noteq> None \<Longrightarrow>
        fields_relaxed E (component_fields from n) (component_fields to n)"
  shows "fields_relaxed E (schema_fields from p) (schema_fields to t)"
  unfolding schema_fields_def
proof (rule relaxed_by_index)
  show "\<forall>f \<in> set (at_Fields p). \<not> indexFields (at_Fields t) (f_Key f) = None"
    by (rule no_deletions_keep) (use add in \<open>auto simp: diffType_def delete_field_changes_def\<close>)
next
  fix f assume f: "f \<in> set (at_Fields t)" "indexFields (at_Fields p) (f_Key f) = None"
  have "ch_Grade (addFieldChange E (at_Name t) f declared) = Additive"
    using add f by (force simp: diffType_def)
  then show "\<not> f_Required f" by (rule additive_addFieldChange)
next
  fix f q assume f: "f \<in> set (at_Fields t)" "indexFields (at_Fields p) (f_Key f) = Some q"
  have d: "all_additive (diffField E (at_Name t) q f)"
    using add f by (force simp: diffType_def)
  have q: "stored_field E from q" using st indexed_field [OF f(2)] by auto
  note r = additive_diffField [OF d] q [unfolded stored_field_def]
  have "fields_relaxed E (ComponentFields (attach (component_fields from) q)) (ComponentFields (attach (component_fields to) f))"
    if "f_Type q = FieldTypeComponent"
    using that r comps by (auto simp: attach_component)
  moreover have "fields_relaxed E (zone_fields_of (attach (component_fields from) q) n) (zone_fields_of (attach (component_fields to) f) n)"
    if "f_Type q = FieldTypeDynamicZone" "n \<in> set (f_ZoneComponents q)" for n
    using that r comps [of n] by (auto simp: attach_zone)
  ultimately show "field_relaxed E (attach (component_fields from) q) (attach (component_fields to) f)"
    using r by (auto simp: field_relaxed_def)
qed simp_all

lemma additive_schema:
  assumes add: "all_additive (DiffSchemas E from to)" and st: "stored_schema E from"
    and t: "indexTypes from n = Some p"
  shows "\<exists>t'. indexTypes to n = Some t' \<and> fields_relaxed E (schema_fields from p) (schema_fields to t')"
proof -
  have pin: "p \<in> set (Types from)" "at_Name p = n"
    using t unfolding indexTypes_def by (auto dest: index_by_SomeD)
  have "\<forall>c \<in> set (Types from). \<not> indexTypes to (at_Name c) = None"
    by (rule no_deletions_keep) (use add in \<open>auto simp: DiffSchemas_def type_deletions_def\<close>)
  then obtain t' where t': "indexTypes to n = Some t'" using pin by force
  then have tin: "t' \<in> set (Types to)" "at_Name t' = n"
    unfolding indexTypes_def by (auto dest: index_by_SomeD)
  have "all_additive (type_changes E from to)" using add by (simp add: DiffSchemas_def)
  then have "all_additive (diffType E p t' (\<lambda>n. indexComponents to n \<noteq> None))"
    using tin t by (force simp: type_changes_def Let_def)
  from additive_diffType [OF this _ additive_components [OF add st]] st pin t'
  show ?thesis by (auto simp: stored_schema_def)
qed

section \<open>Properties\<close>

text \<open>
  C3: A plan of additive changes endangers no stored document.  If comparing the stored schema
  with a desired one reports only additive changes, then every type of the stored schema is
  still there, and every document its fields accept, components and zones included, is
  accepted by the fields of the desired one.
\<close>

theorem additive_plans_keep_documents_legal:
  assumes "all_additive (DiffSchemas E from to)" and "stored_schema E from"
    and "indexTypes from name = Some p"
  shows "\<exists>t. indexTypes to name = Some t \<and>
    (\<forall>d. payload_ok E (schema_fields from p) d \<longrightarrow> payload_ok E (schema_fields to t) d)"
  using additive_schema [OF assms] by (simp add: fields_relaxed_def)

definition note_type :: "artifact_field list \<Rightarrow> artifact_type" where
  "note_type fs = \<lparr>at_Name = ''note'', at_Label = [], at_ReadRoles = [], at_WriteRoles = [],
     at_OwnOnlyRoles = [], at_Fields = fs\<rparr>"

definition flag_field :: "string \<Rightarrow> artifact_field" where
  "flag_field k = zero_attrs\<lparr>f_Key := k, f_Type := FieldTypeBoolean\<rparr>"

definition note_schema :: "artifact_field list \<Rightarrow> artifact" where
  "note_schema fs = \<lparr>ArtifactVersion = ArtifactVersion1, Kind = KindContentSchema, Components = [], Types = [note_type fs]\<rparr>"

lemma valid_no_constraints: "ValidateFieldConstraints E t m no_constraints = None"
  by (simp add: ValidateFieldConstraints_def check_unique_def check_format_def check_pattern_def
      check_range_def no_constraints_def)

lemma flag_simps [simp]:
  "f_Key (flag_field k) = k" "f_Type (flag_field k) = FieldTypeBoolean" "f_Required (flag_field k) = False"
  "f_Constraints (flag_field k) = no_constraints" "f_Multiple (flag_field k) = False"
  "f_ReadRoles (flag_field k) = []" "f_WriteRoles (flag_field k) = []" "f_EnumValues (flag_field k) = []"
  "f_ZoneComponents (flag_field k) = []" "f_ComponentName (flag_field k) = []"
  by (simp_all add: flag_field_def zero_attrs_def)

lemma note_simps [simp]:
  "Components (note_schema fs) = []" "Types (note_schema fs) = [note_type fs]"
  "at_Name (note_type fs) = ''note''" "at_Fields (note_type fs) = fs" "at_Label (note_type fs) = []"
  "at_ReadRoles (note_type fs) = []" "at_WriteRoles (note_type fs) = []" "at_OwnOnlyRoles (note_type fs) = []"
  by (simp_all add: note_schema_def note_type_def)

lemma note_index [simp]: "indexTypes (note_schema fs) ''note'' = Some (note_type fs)"
  by (simp add: indexTypes_def index_by_def)

lemma unchanged_flag: "diffField E t (flag_field k) (flag_field k) = []"
proof -
  have "c_Unique no_constraints = False" "Equal (without_unique no_constraints) (without_unique no_constraints)"
    by (simp_all add: no_constraints_def Equal_def without_unique_def)
  then show ?thesis
    by (simp add: diffField_def immutable_changes_def required_changes_def enum_changes_def zone_changes_def
        diffConstraints_def valid_no_constraints sameOrder_def Let_def)
qed

lemma added_flag: "ch_Grade (addFieldChange E t (flag_field k) declared) = Additive"
  by (simp add: addFieldChange_def refuse_type_def refuse_reference_def refuse_zone_def refuse_multiple_def
      refuse_constraints_def valid_no_constraints Let_def AllowedFieldTypes_def ValidFieldType_def
      field_type_defs type_change_def change0_def)

theorem additive_plans_keep_documents_legal_witness:
  "\<exists>t. indexTypes (note_schema [flag_field ''a'', flag_field ''b'']) ''note'' = Some t \<and>
     payload_ok plain_env (schema_fields (note_schema [flag_field ''a'', flag_field ''b'']) t) [(''a'', JBool True)]"
proof -
  let ?from = "note_schema [flag_field ''a'']" and ?to = "note_schema [flag_field ''a'', flag_field ''b'']"
  have "all_additive (DiffSchemas plain_env ?from ?to)"
    by (simp add: DiffSchemas_def component_changes_def type_changes_def type_deletions_def
        component_deletions_def List.map_filter_def Let_def diffType_def roles_change_def own_only_change_def
        delete_field_changes_def indexFields_def index_by_def unchanged_flag added_flag sameOrder_def)
  moreover have "stored_schema plain_env ?from"
    by (simp add: stored_schema_def stored_field_def stored_constraints_def valid_no_constraints field_type_defs)
  moreover have "payload_ok plain_env (schema_fields ?from (note_type [flag_field ''a''])) [(''a'', JBool True)]"
    by (simp add: schema_fields_def attach_def payload_ok.simps value_ok.simps present_def scalar_ok_def
        field_type_defs)
  ultimately show ?thesis
    using additive_plans_keep_documents_legal [of plain_env ?from ?to "''note''"] note_index by fastforce
qed

text \<open>A comparison does not see the order of fields.  Two artifacts that differ only in the
  order in which a type lists its fields produce an empty plan, although the order is part of
  the definition an artifact carries.
\<close>

theorem field_order_is_not_compared:
  "\<exists>from to. from \<noteq> to \<and> DiffSchemas E from to = []"
proof -
  have "DiffSchemas E (note_schema [flag_field ''a'', flag_field ''b'']) (note_schema [flag_field ''b'', flag_field ''a'']) = []"
    by (simp add: DiffSchemas_def component_changes_def type_changes_def type_deletions_def withRenameHints_def
        component_deletions_def List.map_filter_def Let_def diffType_def roles_change_def own_only_change_def
        delete_field_changes_def indexFields_def index_by_def unchanged_flag sameOrder_def)
  moreover have "note_schema [flag_field ''a'', flag_field ''b''] \<noteq> note_schema [flag_field ''b'', flag_field ''a'']"
    by (simp add: note_schema_def note_type_def flag_field_def zero_attrs_def)
  ultimately show ?thesis by blast
qed

end
