(* ===== verification/Schema_Verbs.thy ===== *)
theory Schema_Verbs
  imports Schema_Safety
begin

text \<open>
  The verbs that change a schema (\<open>internal/cms/content/service/content_service.go\<close>:
  \<open>buildField\<close>, \<open>CreateContentType\<close>, \<open>AddField\<close>; \<open>service/schema_mutation.go\<close>:
  \<open>UpdateContentType\<close>, \<open>UpdateField\<close>, \<open>RenameField\<close>, \<open>DeleteField\<close>, \<open>DeleteContentType\<close>, \<open>RenameContentType\<close>)
  over a store of content types with their entries, with the counts the repository answers
  their guards with (\<open>repository/postgres_repository.go\<close>).  One tenant's store is modelled;
  authorization decisions are arguments of the verbs that ask for them, and the verbs that
  need the plan's quota take it as an argument too.
\<close>

section \<open>The store\<close>

record entry =
  e_Payload :: doc
  e_Published :: "doc option"
  e_Status :: string
  e_Version :: nat
  e_PublishedVersion :: nat
  e_CreatedBy :: "string option"
  e_Locale :: string

text \<open>A content type with the entries that refer to it.\<close>

record type_row =
  row_Type :: content_type
  row_Entries :: "entry list"

record store =
  st_Rows :: "type_row list"
  st_Components :: "component list"

definition row_named :: "string \<Rightarrow> type_row \<Rightarrow> bool" where
  "row_named n r \<longleftrightarrow> ct_Name (row_Type r) = n"

definition GetContentTypeByName :: "store \<Rightarrow> string \<Rightarrow> app_error + type_row" where
  "GetContentTypeByName st n = (case find (row_named n) (st_Rows st) of
      None \<Rightarrow> Inl ErrNotFound | Some r \<Rightarrow> Inr r)"

definition GetComponentByName :: "store \<Rightarrow> string \<Rightarrow> component option" where
  "GetComponentByName st n = find (\<lambda>c. cp_Name c = n) (st_Components st)"

definition update_row :: "string \<Rightarrow> (type_row \<Rightarrow> type_row) \<Rightarrow> store \<Rightarrow> store" where
  "update_row n g st = st\<lparr>st_Rows := map (\<lambda>r. if row_named n r then g r else r) (st_Rows st)\<rparr>"

definition set_fields :: "field list \<Rightarrow> type_row \<Rightarrow> type_row" where
  "set_fields fs r = r\<lparr>row_Type := (row_Type r)\<lparr>ct_Fields := fs\<rparr>\<rparr>"

section \<open>Counts\<close>

text \<open>\<open>bothCopies\<close>: the working copy, or the snapshot while it is live.\<close>

definition both_copies :: "(doc \<Rightarrow> bool) \<Rightarrow> entry \<Rightarrow> bool" where
  "both_copies P e \<longleftrightarrow> P (e_Payload e) \<or>
     (e_Status e = StatusPublished \<and> (case e_Published e of Some d \<Rightarrow> P d | None \<Rightarrow> False))"

definition countEntries :: "(entry \<Rightarrow> bool) \<Rightarrow> entry list \<Rightarrow> nat" where
  "countEntries P es = length (filter P es)"

lemma countEntries_0 [simp]: "countEntries P es = 0 \<longleftrightarrow> (\<forall>e \<in> set es. \<not> P e)"
  by (auto simp: countEntries_def filter_empty_conv)

definition CountEntriesForType :: "entry list \<Rightarrow> nat" where
  "CountEntriesForType es = countEntries (\<lambda>_. True) es"

definition CountEntriesWithField :: "entry list \<Rightarrow> string \<Rightarrow> nat" where
  "CountEntriesWithField es key = countEntries (both_copies (\<lambda>d. map_of d key \<noteq> None)) es"

text \<open>Absent or null, in the working copy only.\<close>

definition CountEntriesMissingField :: "entry list \<Rightarrow> string \<Rightarrow> nat" where
  "CountEntriesMissingField es key = countEntries (\<lambda>e. present (e_Payload e) key = None) es"

text \<open>
  The text \<open>->>\<close> renders for a value: a string is its own text, a boolean is its literal, null has
  none, and what a number or a container has is asked of PostgreSQL.  A comparison with no text is
  neither true nor false, so a null is not counted.
\<close>

definition value_text :: "env \<Rightarrow> json \<Rightarrow> string option" where
  "value_text E v =
     (case v of JNull \<Rightarrow> None | JStr s \<Rightarrow> Some s | JBool b \<Rightarrow> Some (if b then ''true'' else ''false'') | _ \<Rightarrow> Some (json_text E v))"

definition text_outside :: "env \<Rightarrow> string list \<Rightarrow> json \<Rightarrow> bool" where
  "text_outside E allowed v \<longleftrightarrow> (case value_text E v of Some s \<Rightarrow> s \<notin> set allowed | None \<Rightarrow> False)"

definition CountEntriesWithValuesOutside :: "env \<Rightarrow> entry list \<Rightarrow> field \<Rightarrow> string list \<Rightarrow> nat" where
  "CountEntriesWithValuesOutside E es f allowed =
     countEntries (both_copies (\<lambda>d.
       if Multiple f
       then (case map_of d (Key f) of Some (JArr xs) \<Rightarrow> list_ex (text_outside E allowed) xs | _ \<Rightarrow> False)
       else (case present d (Key f) of Some v \<Rightarrow> text_outside E allowed v | None \<Rightarrow> False))) es"

text \<open>
  The text of a discriminator.  A component's name starts with a letter, so it is no number's text
  and no container's.
\<close>

fun enum_text :: "json \<Rightarrow> string option" where
  "enum_text (JStr s) = Some s"
| "enum_text (JBool b) = Some (if b then ''true'' else ''false'')"
| "enum_text _ = None"

definition zone_has_component :: "string \<Rightarrow> string \<Rightarrow> doc \<Rightarrow> bool" where
  "zone_has_component key name d =
     (case map_of d key of
        Some (JArr xs) \<Rightarrow> list_ex (\<lambda>x. case x of JObj item \<Rightarrow> Option.bind (map_of item ZoneDiscriminator) enum_text = Some name | _ \<Rightarrow> False) xs
      | _ \<Rightarrow> False)"

definition CountEntriesWithZoneComponent :: "entry list \<Rightarrow> string \<Rightarrow> string \<Rightarrow> nat" where
  "CountEntriesWithZoneComponent es key name = countEntries (both_copies (zone_has_component key name)) es"

definition CountEntriesWithoutAuthor :: "entry list \<Rightarrow> nat" where
  "CountEntriesWithoutAuthor es = countEntries (\<lambda>e. e_CreatedBy e = None) es"

text \<open>
  \<open>reservationsSQL\<close>: the distinct non-empty values an entry holds in its working copy and its
  live snapshot.  Values of the types that may be unique are strings or numbers, and two of
  them have the same text exactly when they are equal.
\<close>

definition unique_value :: "json option \<Rightarrow> json option" where
  "unique_value v = (case v of None \<Rightarrow> None | Some x \<Rightarrow> if x = JNull \<or> x = JStr [] then None else Some x)"

definition reserved_values :: "string \<Rightarrow> entry \<Rightarrow> json list" where
  "reserved_values key e =
     remdups (List.map_filter unique_value
       [map_of (e_Payload e) key,
        (if e_Status e = StatusPublished then Option.bind (e_Published e) (\<lambda>d. map_of d key) else None)])"

definition ListDuplicateFieldValues :: "entry list \<Rightarrow> field \<Rightarrow> (string \<times> json) list" where
  "ListDuplicateFieldValues es f =
     (let held = concat (map (\<lambda>e. map (Pair (e_Locale e)) (reserved_values (Key f) e)) es) in
      take 50 (remdups (filter (\<lambda>p. 1 < count_list held p) held)))"

text \<open>The closure \<open>fails\<close> of \<open>countConstraintViolations\<close>.\<close>

definition value_fails :: "env \<Rightarrow> field \<Rightarrow> json option \<Rightarrow> bool" where
  "value_fails E f v =
     (case v of None \<Rightarrow> False
      | Some x \<Rightarrow>
          if \<not> Multiple f then CheckValue E (Constraints f) (Type f) x \<noteq> None
          else (case x of JArr xs \<Rightarrow> list_ex (\<lambda>y. CheckValue E (Constraints f) (Type f) y \<noteq> None) xs | _ \<Rightarrow> False))"

definition countConstraintViolations :: "env \<Rightarrow> entry list \<Rightarrow> field \<Rightarrow> nat" where
  "countConstraintViolations E es f = countEntries (both_copies (\<lambda>d. value_fails E f (present d (Key f)))) es"

section \<open>Defining a field\<close>

record field_input =
  in_Key :: string
  in_Type :: string
  in_Label :: string
  in_Required :: bool
  in_Multiple :: bool
  in_EnumValues :: "string list"
  in_ReadRoles :: "string list"
  in_WriteRoles :: "string list"
  in_RelationEntity :: string
  in_Component :: string
  in_Components :: "string list"
  in_Description :: string
  in_Constraints :: constraints

definition errFieldRoleUnknown :: "string \<Rightarrow> string \<Rightarrow> app_error" where
  "errFieldRoleUnknown key role = err422 ''CONTENT_FIELD_ROLE_UNKNOWN''
     [(''field'', DStr key), (''role'', DStr role), (''allowed'', DStrs [RoleOwner, RoleAdmin, RoleEditor, RoleViewer])]"

definition errFieldRoleDuplicate :: "string \<Rightarrow> string \<Rightarrow> app_error" where
  "errFieldRoleDuplicate key role = err422 ''CONTENT_FIELD_ROLE_DUPLICATE'' [(''field'', DStr key), (''role'', DStr role)]"

definition normalizeRoles :: "string \<Rightarrow> string list \<Rightarrow> app_error + string list" where
  "normalizeRoles key xs =
     (case normalizeRoleList xs of (out, unknown, dup) \<Rightarrow>
        if unknown \<noteq> [] then Inl (errFieldRoleUnknown key unknown)
        else if dup \<noteq> [] then Inl (errFieldRoleDuplicate key dup)
        else Inr out)"

fun zone_names_from :: "string \<Rightarrow> string list \<Rightarrow> string list \<Rightarrow> app_error + string list" where
  "zone_names_from key names [] = Inr names"
| "zone_names_from key names (raw # rest) =
     (let name = TrimSpace raw in
      if name = [] then zone_names_from key names rest
      else if name \<in> set names
           then Inl (err422 ''CONTENT_ZONE_COMPONENT_DUPLICATE'' [(''field'', DStr key), (''component'', DStr name)])
      else zone_names_from key (names @ [name]) rest)"

definition normalizeZoneComponents :: "string \<Rightarrow> string \<Rightarrow> string list \<Rightarrow> app_error + string list" where
  "normalizeZoneComponents key fieldType xs =
     and_then (zone_names_from key [] xs) (\<lambda>names.
       if fieldType \<noteq> FieldTypeDynamicZone then
         (if names \<noteq> []
          then Inl (err422 ''CONTENT_ZONE_COMPONENTS_NOT_APPLICABLE'' [(''field'', DStr key), (''type'', DStr fieldType)])
          else Inr [])
       else if names = [] then Inl (err422 ''CONTENT_ZONE_COMPONENTS_REQUIRED'' [(''field'', DStr key)])
       else Inr names)"

definition normalizeConstraints :: "constraints \<Rightarrow> constraints" where
  "normalizeConstraints c = c\<lparr>c_Format := TrimSpace (c_Format c), c_Pattern := TrimSpace (c_Pattern c)\<rparr>"

definition errConstraintDefinition :: "string \<Rightarrow> constraint_definition_error \<Rightarrow> app_error" where
  "errConstraintDefinition key e = err422 (cde_Code e) [(''field'', DStr key), (''constraint'', DStr (cde_Attr e))]"

definition buildField :: "env \<Rightarrow> field_input \<Rightarrow> app_error + field" where
  "buildField E i =
     (let key = TrimSpace (in_Key i); component = TrimSpace (in_Component i); c = normalizeConstraints (in_Constraints i) in
      and_then (refuse_if (first_error (\<lambda>(bad, e). if bad then Some e else None)
        [(\<not> ValidFieldKey key, err422 ''CONTENT_FIELD_KEY_INVALID'' [(''field'', DStr (in_Key i))]),
         (\<not> ValidFieldType (in_Type i), err422 ''CONTENT_FIELD_TYPE_UNKNOWN'' [(''field'', DStr key), (''type'', DStr (in_Type i))]),
         (in_Multiple i \<and> \<not> MultipleAllowedFor (in_Type i),
            err422 ''CONTENT_FIELD_MULTIPLE_UNSUPPORTED'' [(''field'', DStr key), (''type'', DStr (in_Type i)), (''allowed'', DStrs AllowedMultipleTypes)]),
         (in_Type i = FieldTypeEnum \<and> in_EnumValues i = [], err422 ''CONTENT_FIELD_ENUM_EMPTY'' [(''field'', DStr key)]),
         (in_Type i = FieldTypeRelation \<and> TrimSpace (in_RelationEntity i) = [], err422 ''CONTENT_FIELD_RELATION_MISSING'' [(''field'', DStr key)]),
         (in_Type i = FieldTypeComponent \<and> component = [], err422 ''CONTENT_COMPONENT_REQUIRED'' [(''field'', DStr key)]),
         (in_Type i \<noteq> FieldTypeComponent \<and> component \<noteq> [],
            err422 ''CONTENT_COMPONENT_NOT_APPLICABLE'' [(''field'', DStr key), (''type'', DStr (in_Type i))])])) (\<lambda>_.
      and_then (normalizeZoneComponents key (in_Type i) (in_Components i)) (\<lambda>zone.
      and_then (refuse_if (map_option (errConstraintDefinition key)
                   (ValidateFieldConstraints E (in_Type i) (in_Multiple i) c))) (\<lambda>_.
      and_then (normalizeRoles key (in_ReadRoles i)) (\<lambda>readRoles.
      and_then (normalizeRoles key (in_WriteRoles i)) (\<lambda>writeRoles.
        Inr (Field \<lparr>f_Key = key, f_Type = in_Type i, f_Label = TrimSpace (in_Label i),
                    f_Required = in_Required i, f_Multiple = in_Multiple i, f_EnumValues = in_EnumValues i,
                    f_ReadRoles = readRoles, f_WriteRoles = writeRoles,
                    f_RelationEntity = TrimSpace (in_RelationEntity i), f_ComponentName = component,
                    f_ZoneComponents = zone, f_Description = TrimSpace (in_Description i),
                    f_Constraints = c\<rparr> [] [])))))))"

text \<open>\<open>resolveComponentRefs\<close> for one field: the sub-fields are attached, or a missing name refused.\<close>

definition errComponentNotFound :: "string \<Rightarrow> string \<Rightarrow> app_error" where
  "errComponentNotFound key name = err422 ''CONTENT_COMPONENT_NOT_FOUND'' [(''field'', DStr key), (''component'', DStr name)]"

fun lookup_components :: "store \<Rightarrow> string \<Rightarrow> string list \<Rightarrow> app_error + (string \<times> field list) list" where
  "lookup_components st key [] = Inr []"
| "lookup_components st key (n # ns) =
     (case GetComponentByName st n of
        None \<Rightarrow> Inl (errComponentNotFound key n)
      | Some c \<Rightarrow> and_then (lookup_components st key ns) (\<lambda>zs. Inr ((n, cp_Fields c) # zs)))"

definition resolve_field :: "store \<Rightarrow> field \<Rightarrow> app_error + field" where
  "resolve_field st f =
     (if Type f = FieldTypeComponent then
        (case GetComponentByName st (f_ComponentName (attrs f)) of
           None \<Rightarrow> Inl (errComponentNotFound (Key f) (f_ComponentName (attrs f)))
         | Some c \<Rightarrow> Inr (Field (attrs f) (cp_Fields c) (ZoneFields f)))
      else if Type f = FieldTypeDynamicZone then
        and_then (lookup_components st (Key f) (ZoneComponents f)) (\<lambda>zs. Inr (Field (attrs f) (ComponentFields f) zs))
      else Inr f)"

fun resolveComponentRefs :: "store \<Rightarrow> field list \<Rightarrow> app_error + field list" where
  "resolveComponentRefs st [] = Inr []"
| "resolveComponentRefs st (f # fs) =
     and_then (resolve_field st f) (\<lambda>f'. and_then (resolveComponentRefs st fs) (\<lambda>fs'. Inr (f' # fs')))"

definition err409 :: "string \<Rightarrow> (string \<times> detail) list \<Rightarrow> app_error" where
  "err409 code details = WithDetails (New code 409) details"

definition ErrQuotaExceeded :: "string \<Rightarrow> nat \<Rightarrow> app_error" where
  "ErrQuotaExceeded resource limit =
     WithDetails (New ''CONTENT_QUOTA_EXCEEDED'' 429) [(''resource'', DStr resource), (''limit'', DNat limit)]"

section \<open>Creating a type, adding a field\<close>

record quota =
  MaxFieldsPerType :: nat
  MaxTypesPerTenant :: nat

record create_type_input =
  cti_Name :: string
  cti_Label :: string
  cti_Fields :: "field_input list"
  cti_ReadRoles :: "string list"
  cti_WriteRoles :: "string list"
  cti_OwnOnlyRoles :: "string list"

definition normalizeTypeRoles :: "string \<Rightarrow> string \<Rightarrow> string list \<Rightarrow> app_error + string list" where
  "normalizeTypeRoles typeName listName xs =
     (case normalizeRoleList xs of (out, unknown, dup) \<Rightarrow>
        if unknown \<noteq> []
        then Inl (err422 ''CONTENT_TYPE_ROLE_UNKNOWN'' [(''type'', DStr typeName), (''list'', DStr listName), (''role'', DStr unknown),
                    (''allowed'', DStrs [RoleOwner, RoleAdmin, RoleEditor, RoleViewer])])
        else if dup \<noteq> []
        then Inl (err422 ''CONTENT_TYPE_ROLE_DUPLICATE'' [(''type'', DStr typeName), (''list'', DStr listName), (''role'', DStr dup)])
        else Inr out)"

text \<open>The loop over the declared fields, with the keys seen so far.\<close>

fun build_fields :: "env \<Rightarrow> string list \<Rightarrow> field_input list \<Rightarrow> app_error + field list" where
  "build_fields E seen [] = Inr []"
| "build_fields E seen (i # rest) =
     and_then (buildField E i) (\<lambda>f.
       if Key f \<in> set seen then Inl (err422 ''CONTENT_FIELD_DUPLICATE'' [(''field'', DStr (Key f))])
       else and_then (build_fields E (Key f # seen) rest) (\<lambda>fs. Inr (f # fs)))"

text \<open>A limit of zero is no limit.\<close>

definition CreateContentType :: "env \<Rightarrow> quota \<Rightarrow> create_type_input \<Rightarrow> store \<Rightarrow> app_error + store" where
  "CreateContentType E q i st =
     (let name = TrimSpace (cti_Name i) in
      and_then (require (ValidName name) (err422 ''CONTENT_TYPE_NAME_INVALID'' [(''name'', DStr (cti_Name i))])) (\<lambda>_.
      and_then (require (cti_Fields i \<noteq> []) (err422 ''CONTENT_TYPE_NO_FIELDS'' [])) (\<lambda>_.
      and_then (require (\<not> (0 < MaxFieldsPerType q \<and> MaxFieldsPerType q < length (cti_Fields i)))
                  (ErrQuotaExceeded ''fields'' (MaxFieldsPerType q))) (\<lambda>_.
      and_then (require (\<not> (0 < MaxTypesPerTenant q \<and> MaxTypesPerTenant q \<le> length (st_Rows st)))
                  (ErrQuotaExceeded ''content_types'' (MaxTypesPerTenant q))) (\<lambda>_.
      and_then (normalizeTypeRoles name ''read_roles'' (cti_ReadRoles i)) (\<lambda>rr.
      and_then (normalizeTypeRoles name ''write_roles'' (cti_WriteRoles i)) (\<lambda>wr.
      and_then (normalizeTypeRoles name ''own_only_roles'' (cti_OwnOnlyRoles i)) (\<lambda>oo.
      and_then (build_fields E [] (cti_Fields i)) (\<lambda>fs.
      and_then (resolveComponentRefs st fs) (\<lambda>fs'.
      and_then (require (find (row_named name) (st_Rows st) = None) (err409 ''CONTENT_TYPE_EXISTS'' [(''name'', DStr name)])) (\<lambda>_.
        Inr (st\<lparr>st_Rows := st_Rows st @
          [\<lparr>row_Type = \<lparr>ct_Name = name, ct_Label = TrimSpace (cti_Label i), ct_Fields = fs',
              ct_ReadRoles = rr, ct_WriteRoles = wr, ct_OwnOnlyRoles = oo\<rparr>, row_Entries = []\<rparr>]\<rparr>))))))))))))"

definition AddField :: "env \<Rightarrow> quota \<Rightarrow> string \<Rightarrow> field_input \<Rightarrow> store \<Rightarrow> app_error + store" where
  "AddField E q typeName i st =
     and_then (GetContentTypeByName st typeName) (\<lambda>row.
     and_then (buildField E i) (\<lambda>f.
     and_then (require (FieldByKey (ct_Fields (row_Type row)) (Key f) = None)
                 (err409 ''CONTENT_FIELD_EXISTS'' [(''field'', DStr (Key f))])) (\<lambda>_.
     and_then (require (\<not> (0 < MaxFieldsPerType q \<and> MaxFieldsPerType q \<le> length (ct_Fields (row_Type row))))
                 (ErrQuotaExceeded ''fields'' (MaxFieldsPerType q))) (\<lambda>_.
     and_then (resolve_field st f) (\<lambda>f'.
       Inr (update_row typeName (set_fields (ct_Fields (row_Type row) @ [f'])) st))))))"

section \<open>Updating a field\<close>

text \<open>\<open>OptionalNumber\<close>: absent, null, or a value.\<close>

type_synonym optional_number = "f64 option option"

record update_field_input =
  uf_Label :: "string option"
  uf_Required :: "bool option"
  uf_EnumValues :: "string list option"
  uf_ReadRoles :: "string list option"
  uf_WriteRoles :: "string list option"
  uf_Type :: "string option"
  uf_Multiple :: "bool option"
  uf_RelationEntity :: "string option"
  uf_Component :: "string option"
  uf_Components :: "string list option"
  uf_Description :: "string option"
  uf_Unique :: "bool option"
  uf_Format :: "string option"
  uf_Pattern :: "string option"
  uf_Min :: optional_number
  uf_Max :: optional_number

definition refuseImmutableFieldProps :: "string \<Rightarrow> update_field_input \<Rightarrow> app_error option" where
  "refuseImmutableFieldProps key i =
     first_error (\<lambda>(sent, code, prop). if sent then Some (err422 code [(''field'', DStr key), (''property'', DStr prop)]) else None)
       [(uf_Type i \<noteq> None, ''CONTENT_FIELD_TYPE_IMMUTABLE'', ''type''),
        (uf_Multiple i \<noteq> None, ''CONTENT_FIELD_MULTIPLE_IMMUTABLE'', ''multiple''),
        (uf_RelationEntity i \<noteq> None, ''CONTENT_FIELD_RELATION_IMMUTABLE'', ''relation_entity''),
        (uf_Component i \<noteq> None, ''CONTENT_FIELD_COMPONENT_IMMUTABLE'', ''component'')]"

definition with_attrs :: "(field_attrs \<Rightarrow> field_attrs) \<Rightarrow> field \<Rightarrow> field" where
  "with_attrs g f = Field (g (attrs f)) (ComponentFields f) (ZoneFields f)"

definition opt_set :: "'a option \<Rightarrow> 'a \<Rightarrow> 'a" where
  "opt_set new old = (case new of Some x \<Rightarrow> x | None \<Rightarrow> old)"

definition update_texts :: "update_field_input \<Rightarrow> field \<Rightarrow> field" where
  "update_texts i f = with_attrs (\<lambda>a. a\<lparr>f_Label := opt_set (map_option TrimSpace (uf_Label i)) (f_Label a),
     f_Description := opt_set (map_option TrimSpace (uf_Description i)) (f_Description a)\<rparr>) f"

definition update_enum :: "env \<Rightarrow> entry list \<Rightarrow> string \<Rightarrow> update_field_input \<Rightarrow> field \<Rightarrow> app_error + field" where
  "update_enum E es key i f =
     (case uf_EnumValues i of None \<Rightarrow> Inr f
      | Some vals \<Rightarrow>
          and_then (require (Type f = FieldTypeEnum)
                      (err422 ''CONTENT_FIELD_ENUM_NOT_APPLICABLE'' [(''field'', DStr key), (''type'', DStr (Type f))])) (\<lambda>_.
          and_then (require (vals \<noteq> []) (err422 ''CONTENT_FIELD_ENUM_EMPTY'' [(''field'', DStr key)])) (\<lambda>_.
          and_then (refuse_if (map_option (\<lambda>dup. err422 ''CONTENT_FIELD_ENUM_DUPLICATE'' [(''field'', DStr key), (''value'', DStr dup)])
                                 (first_duplicate vals))) (\<lambda>_.
          (let removed = missing_from (EnumValues f) vals; n = CountEntriesWithValuesOutside E es f vals in
           and_then (require (removed = [] \<or> n = 0)
             (err409 ''CONTENT_ENUM_VALUE_IN_USE'' [(''field'', DStr key), (''values'', DStrs removed), (''entries'', DNat n)])) (\<lambda>_.
           Inr (with_attrs (\<lambda>a. a\<lparr>f_EnumValues := vals\<rparr>) f)))))))"

definition zone_in_use :: "entry list \<Rightarrow> string \<Rightarrow> string \<Rightarrow> app_error option" where
  "zone_in_use es key name =
     (let n = CountEntriesWithZoneComponent es key name in
      if 0 < n then Some (err409 ''CONTENT_ZONE_COMPONENT_IN_USE'' [(''field'', DStr key), (''component'', DStr name), (''entries'', DNat n)])
      else None)"

definition update_zone :: "store \<Rightarrow> entry list \<Rightarrow> string \<Rightarrow> update_field_input \<Rightarrow> field \<Rightarrow> app_error + field" where
  "update_zone st es key i f =
     (case uf_Components i of None \<Rightarrow> Inr f
      | Some raw \<Rightarrow>
          and_then (normalizeZoneComponents key (Type f) raw) (\<lambda>next.
          and_then (lookup_components st key next) (\<lambda>zoneFields.
          and_then (refuse_if (first_error (zone_in_use es key) (missing_from (ZoneComponents f) next))) (\<lambda>_.
            Inr (Field ((attrs f)\<lparr>f_ZoneComponents := next\<rparr>) (ComponentFields f) zoneFields)))))"

definition update_required :: "entry list \<Rightarrow> string \<Rightarrow> update_field_input \<Rightarrow> field \<Rightarrow> app_error + field" where
  "update_required es key i f =
     (case uf_Required i of None \<Rightarrow> Inr f
      | Some r \<Rightarrow>
          (let n = CountEntriesMissingField es key in
           and_then (require (\<not> (r \<and> \<not> Required f \<and> 0 < n))
             (err409 ''CONTENT_FIELD_REQUIRED_BACKFILL'' [(''field'', DStr key), (''entries'', DNat n)])) (\<lambda>_.
           Inr (with_attrs (\<lambda>a. a\<lparr>f_Required := r\<rparr>) f))))"

definition next_constraints :: "update_field_input \<Rightarrow> constraints \<Rightarrow> constraints" where
  "next_constraints i c = normalizeConstraints
     \<lparr>c_Unique = opt_set (uf_Unique i) (c_Unique c), c_Format = opt_set (uf_Format i) (c_Format c),
      c_Pattern = opt_set (uf_Pattern i) (c_Pattern c), c_Min = opt_set (uf_Min i) (c_Min c),
      c_Max = opt_set (uf_Max i) (c_Max c)\<rparr>"

definition touches_constraints :: "update_field_input \<Rightarrow> bool" where
  "touches_constraints i \<longleftrightarrow> uf_Unique i \<noteq> None \<or> uf_Format i \<noteq> None \<or> uf_Pattern i \<noteq> None \<or>
     uf_Min i \<noteq> None \<or> uf_Max i \<noteq> None"

definition update_constraints :: "env \<Rightarrow> entry list \<Rightarrow> string \<Rightarrow> update_field_input \<Rightarrow> field \<Rightarrow> app_error + field" where
  "update_constraints E es key i f =
     (if \<not> touches_constraints i then Inr f
      else
        (let nxt = next_constraints i (Constraints f); f' = with_attrs (\<lambda>a. a\<lparr>f_Constraints := nxt\<rparr>) f;
             dups = ListDuplicateFieldValues es f; n = countConstraintViolations E es f' in
         and_then (refuse_if (map_option (errConstraintDefinition key) (ValidateFieldConstraints E (Type f) (Multiple f) nxt))) (\<lambda>_.
         and_then (require (\<not> (c_Unique nxt \<and> \<not> c_Unique (Constraints f) \<and> dups \<noteq> []))
           (err409 ''CONTENT_FIELD_UNIQUE_DUPLICATES'' [(''field'', DStr key), (''duplicates'', DNat (length dups))])) (\<lambda>_.
         and_then (require (\<not> (Tightens nxt (Constraints f) \<and> 0 < n))
           (err409 ''CONTENT_FIELD_CONSTRAINT_BACKFILL'' [(''field'', DStr key), (''entries'', DNat n), (''constraints'', Describe nxt)])) (\<lambda>_.
           Inr f')))))"

definition update_roles :: "string \<Rightarrow> update_field_input \<Rightarrow> field \<Rightarrow> app_error + field" where
  "update_roles key i f =
     and_then (case uf_ReadRoles i of None \<Rightarrow> Inr (ReadRoles f) | Some rs \<Rightarrow> normalizeRoles key rs) (\<lambda>rr.
     and_then (case uf_WriteRoles i of None \<Rightarrow> Inr (WriteRoles f) | Some rs \<Rightarrow> normalizeRoles key rs) (\<lambda>wr.
       Inr (with_attrs (\<lambda>a. a\<lparr>f_ReadRoles := rr, f_WriteRoles := wr\<rparr>) f)))"

text \<open>\<open>withFieldAt\<close>: every field of the key is replaced.\<close>

definition withFieldAt :: "string \<Rightarrow> field \<Rightarrow> field list \<Rightarrow> field list" where
  "withFieldAt atKey f fs = map (\<lambda>g. if Key g = atKey then f else g) fs"

text \<open>
  \<open>UpdateField\<close>, given whether the caller may amend schemas and whether it may write them: a
  change of a permission list needs both.
\<close>

definition UpdateField :: "env \<Rightarrow> bool \<Rightarrow> bool \<Rightarrow> string \<Rightarrow> string \<Rightarrow> update_field_input \<Rightarrow> store \<Rightarrow> app_error + store" where
  "UpdateField E mayAmend mayWrite typeName key i st =
     and_then (require mayAmend ErrForbidden) (\<lambda>_.
     and_then (refuse_if (refuseImmutableFieldProps key i)) (\<lambda>_.
     and_then (require (uf_ReadRoles i = None \<and> uf_WriteRoles i = None \<or> mayWrite) ErrForbidden) (\<lambda>_.
     and_then (GetContentTypeByName st typeName) (\<lambda>row.
     and_then (case FieldByKey (ct_Fields (row_Type row)) key of
         None \<Rightarrow> Inl (WithDetails (New ''CONTENT_FIELD_NOT_FOUND'' 404) [(''field'', DStr key)]) | Some f \<Rightarrow> Inr f) (\<lambda>f.
     and_then (update_enum E (row_Entries row) key i (update_texts i f)) (\<lambda>f.
     and_then (update_zone st (row_Entries row) key i f) (\<lambda>f.
     and_then (update_required (row_Entries row) key i f) (\<lambda>f.
     and_then (update_constraints E (row_Entries row) key i f) (\<lambda>f.
     and_then (update_roles key i f) (\<lambda>f.
       Inr (update_row typeName (set_fields (withFieldAt (Key f) f (ct_Fields (row_Type row)))) st)))))))))))"

section \<open>Renaming and deleting\<close>

text \<open>
  The SQL statements rewrite every row that holds the key in either copy and bump the version
  of the copies that did.  \<open>payload - key\<close> drops the key.
\<close>

definition drop_key :: "string \<Rightarrow> doc \<Rightarrow> doc" where
  "drop_key key d = filter (\<lambda>(k, v). k \<noteq> key) d"

definition holds :: "string \<Rightarrow> doc \<Rightarrow> bool" where
  "holds key d \<longleftrightarrow> map_of d key \<noteq> None"

definition move_key :: "string \<Rightarrow> string \<Rightarrow> doc \<Rightarrow> doc" where
  "move_key old new d =
     (case map_of d old of None \<Rightarrow> d | Some v \<Rightarrow> drop_key new (drop_key old d) @ [(new, v)])"

definition holds_published :: "string \<Rightarrow> entry \<Rightarrow> bool" where
  "holds_published key e \<longleftrightarrow> (case e_Published e of Some d \<Rightarrow> holds key d | None \<Rightarrow> False)"

definition rewrite_entry :: "string \<Rightarrow> (doc \<Rightarrow> doc) \<Rightarrow> entry \<Rightarrow> entry" where
  "rewrite_entry key g e =
     (if \<not> both_copies (holds key) e then e
      else e\<lparr>e_Payload := (if holds key (e_Payload e) then g (e_Payload e) else e_Payload e),
             e_Published := (if holds_published key e then map_option g (e_Published e) else e_Published e),
             e_Version := (if holds key (e_Payload e) then Suc (e_Version e) else e_Version e),
             e_PublishedVersion := (if holds_published key e then Suc (e_PublishedVersion e) else e_PublishedVersion e)\<rparr>)"

definition RenameField :: "bool \<Rightarrow> string \<Rightarrow> string \<Rightarrow> string \<Rightarrow> store \<Rightarrow> app_error + store" where
  "RenameField mayWrite typeName key rawKey st =
     (let newKey = TrimSpace rawKey in
      and_then (require mayWrite ErrForbidden) (\<lambda>_.
      and_then (require (ValidFieldKey newKey) (err422 ''CONTENT_FIELD_KEY_INVALID'' [(''field'', DStr rawKey)])) (\<lambda>_.
      and_then (GetContentTypeByName st typeName) (\<lambda>row.
      and_then (case FieldByKey (ct_Fields (row_Type row)) key of
          None \<Rightarrow> Inl (WithDetails (New ''CONTENT_FIELD_NOT_FOUND'' 404) [(''field'', DStr key)]) | Some f \<Rightarrow> Inr f) (\<lambda>f.
        if newKey = key then Inr st
        else
          and_then (require (FieldByKey (ct_Fields (row_Type row)) newKey = None)
                      (err409 ''CONTENT_FIELD_EXISTS'' [(''field'', DStr newKey)])) (\<lambda>_.
            Inr (update_row typeName (\<lambda>r. (set_fields (withFieldAt key (set_key newKey f) (ct_Fields (row_Type row))) r)
              \<lparr>row_Entries := map (rewrite_entry key (move_key key newKey)) (row_Entries r)\<rparr>) st)))))))"

definition DeleteField :: "bool \<Rightarrow> string \<Rightarrow> string \<Rightarrow> bool \<Rightarrow> store \<Rightarrow> app_error + store" where
  "DeleteField mayWrite typeName key force st =
     and_then (require mayWrite ErrForbidden) (\<lambda>_.
     and_then (GetContentTypeByName st typeName) (\<lambda>row.
     and_then (case FieldByKey (ct_Fields (row_Type row)) key of
         None \<Rightarrow> Inl (WithDetails (New ''CONTENT_FIELD_NOT_FOUND'' 404) [(''field'', DStr key)]) | Some f \<Rightarrow> Inr f) (\<lambda>f.
     and_then (require (length (ct_Fields (row_Type row)) \<noteq> 1) (err422 ''CONTENT_TYPE_NO_FIELDS'' [(''type'', DStr typeName)])) (\<lambda>_.
     (let n = CountEntriesWithField (row_Entries row) key in
      and_then (require (force \<or> n = 0) (err409 ''CONTENT_FIELD_HAS_DATA'' [(''field'', DStr key), (''entries'', DNat n)])) (\<lambda>_.
        Inr (update_row typeName (\<lambda>r. (set_fields (filter (\<lambda>g. Key g \<noteq> key) (ct_Fields (row_Type row))) r)
              \<lparr>row_Entries := map (rewrite_entry key (drop_key key)) (row_Entries r)\<rparr>) st)))))))"

definition refers_to :: "string \<Rightarrow> field \<Rightarrow> bool" where
  "refers_to typeName f \<longleftrightarrow> Type f = FieldTypeRelation \<and> f_RelationEntity (attrs f) = typeName"

definition ListRelationReferrers :: "store \<Rightarrow> string \<Rightarrow> (string \<times> string) list" where
  "ListRelationReferrers st typeName =
     concat (map (\<lambda>r. map (\<lambda>f. (ct_Name (row_Type r), Key f)) (filter (refers_to typeName) (ct_Fields (row_Type r)))) (st_Rows st)) @
     concat (map (\<lambda>c. map (\<lambda>f. (cp_Name c, Key f)) (filter (refers_to typeName) (cp_Fields c))) (st_Components st))"

definition DeleteContentType :: "bool \<Rightarrow> string \<Rightarrow> store \<Rightarrow> app_error + store" where
  "DeleteContentType mayWrite typeName st =
     and_then (require mayWrite ErrForbidden) (\<lambda>_.
     and_then (GetContentTypeByName st typeName) (\<lambda>row.
     (let n = CountEntriesForType (row_Entries row); refs = ListRelationReferrers st typeName in
      and_then (require (n = 0) (err409 ''CONTENT_TYPE_HAS_ENTRIES'' [(''type'', DStr typeName), (''entries'', DNat n)])) (\<lambda>_.
      and_then (require (refs = []) (err409 ''CONTENT_TYPE_REFERENCED'' [(''type'', DStr typeName), (''referenced_by'', DPairs refs)])) (\<lambda>_.
        Inr (st\<lparr>st_Rows := filter (\<lambda>r. \<not> row_named typeName r) (st_Rows st)\<rparr>))))))"

section \<open>Updating a type\<close>

record update_type_input =
  ut_Label :: string
  ut_ReadRoles :: "string list option"
  ut_WriteRoles :: "string list option"
  ut_OwnOnlyRoles :: "string list option"

definition touchesPermissions :: "update_type_input \<Rightarrow> bool" where
  "touchesPermissions i \<longleftrightarrow> ut_ReadRoles i \<noteq> None \<or> ut_WriteRoles i \<noteq> None \<or> ut_OwnOnlyRoles i \<noteq> None"

definition next_roles :: "string \<Rightarrow> string \<Rightarrow> string list option \<Rightarrow> string list \<Rightarrow> app_error + string list" where
  "next_roles typeName listName new old =
     (case new of None \<Rightarrow> Inr old | Some rs \<Rightarrow> normalizeTypeRoles typeName listName rs)"

definition UpdateContentType :: "bool \<Rightarrow> bool \<Rightarrow> string \<Rightarrow> update_type_input \<Rightarrow> store \<Rightarrow> app_error + store" where
  "UpdateContentType mayAmend mayWrite typeName i st =
     and_then (require mayAmend ErrForbidden) (\<lambda>_.
     and_then (require (\<not> touchesPermissions i \<or> mayWrite) ErrForbidden) (\<lambda>_.
     and_then (GetContentTypeByName st typeName) (\<lambda>row.
     (let ct = row_Type row in
      and_then (next_roles typeName ''read_roles'' (ut_ReadRoles i) (ct_ReadRoles ct)) (\<lambda>rr.
      and_then (next_roles typeName ''write_roles'' (ut_WriteRoles i) (ct_WriteRoles ct)) (\<lambda>wr.
      and_then (next_roles typeName ''own_only_roles'' (ut_OwnOnlyRoles i) (ct_OwnOnlyRoles ct)) (\<lambda>oo.
      (let added = missing_from oo (ct_OwnOnlyRoles ct); n = CountEntriesWithoutAuthor (row_Entries row) in
       and_then (require (added = [] \<or> n = 0)
         (err409 ''CONTENT_ENTRY_AUTHOR_MISSING'' [(''type'', DStr typeName), (''roles'', DStrs added), (''entries'', DNat n)])) (\<lambda>_.
         Inr (update_row typeName (\<lambda>r. r\<lparr>row_Type := ct\<lparr>ct_Label := TrimSpace (ut_Label i), ct_ReadRoles := rr,
                ct_WriteRoles := wr, ct_OwnOnlyRoles := oo\<rparr>\<rparr>) st))))))))))"

section \<open>Renaming a type\<close>

text \<open>
  \<open>relation_entity\<close> holds the name of the related type, so a rename follows it into the fields
  of every type and every component; the resolved sub-fields are those of the components.
\<close>

primrec retarget :: "string \<Rightarrow> string \<Rightarrow> field \<Rightarrow> field" where
  "retarget old new (Field a cs zs) =
     Field (if f_Type a = FieldTypeRelation \<and> f_RelationEntity a = old then a\<lparr>f_RelationEntity := new\<rparr> else a)
       (map (retarget old new) cs) (map (map_prod (\<lambda>n. n) (map (retarget old new))) zs)"

definition rename_row :: "string \<Rightarrow> string \<Rightarrow> type_row \<Rightarrow> type_row" where
  "rename_row old new r =
     (let ct = row_Type r in
      r\<lparr>row_Type := ct\<lparr>ct_Name := (if ct_Name ct = old then new else ct_Name ct),
                        ct_Fields := map (retarget old new) (ct_Fields ct)\<rparr>\<rparr>)"

definition RenameContentType_repo :: "string \<Rightarrow> string \<Rightarrow> store \<Rightarrow> app_error + store" where
  "RenameContentType_repo old new st =
     and_then (require (\<not> list_ex (row_named new) (st_Rows st)) (err409 ''CONTENT_TYPE_EXISTS'' [(''name'', DStr new)])) (\<lambda>_.
     Inr (st\<lparr>st_Rows := map (rename_row old new) (st_Rows st),
             st_Components := map (\<lambda>c. c\<lparr>cp_Fields := map (retarget old new) (cp_Fields c)\<rparr>) (st_Components st)\<rparr>))"

definition RenameContentType :: "bool \<Rightarrow> string \<Rightarrow> string \<Rightarrow> store \<Rightarrow> app_error + store" where
  "RenameContentType mayWrite typeName raw st =
     and_then (require mayWrite ErrForbidden) (\<lambda>_.
     (let new = TrimSpace raw in
      and_then (require (ValidName new) (err422 ''CONTENT_TYPE_NAME_INVALID'' [(''name'', DStr raw)])) (\<lambda>_.
      and_then (GetContentTypeByName st typeName) (\<lambda>row.
        if new = ct_Name (row_Type row) then Inr st
        else RenameContentType_repo (ct_Name (row_Type row)) new st))))"

end
