(* ===== verification/Schema_Guards.thy ===== *)
theory Schema_Guards
  imports Schema_Verbs
begin

text \<open>
  What the guards of the schema verbs protect: after a successful verb, an entry whose
  working copy was legal for its type is legal for the changed type.  The two places where
  that fails, a required tightening over stored empty lists and a required field added to a
  type that already has entries, are theorems too.
\<close>

section \<open>One field of one document\<close>

definition slot_ok :: "env \<Rightarrow> field \<Rightarrow> doc \<Rightarrow> bool" where
  "slot_ok E f d \<longleftrightarrow> (case present d (Key f) of None \<Rightarrow> \<not> Required f | Some v \<Rightarrow> value_ok E f v)"

lemma payload_ok_slots:
  "payload_ok E fs d \<longleftrightarrow> fst ` set d \<subseteq> Key ` set fs \<and> (\<forall>f \<in> set fs. slot_ok E f d)"
  by (simp add: payload_ok.simps slot_ok_def)

text \<open>A step of an update keeps the identity of the field and every document of a list legal.\<close>

definition keeps :: "env \<Rightarrow> doc list \<Rightarrow> field \<Rightarrow> field \<Rightarrow> bool" where
  "keeps E ds f g \<longleftrightarrow> Key g = Key f \<and> Type g = Type f \<and> Multiple g = Multiple f \<and>
     (\<forall>d \<in> set ds. slot_ok E f d \<longrightarrow> slot_ok E g d)"

lemma keeps_refl [simp]: "keeps E ds f f"
  by (simp add: keeps_def)

lemma keeps_trans: "keeps E ds f g \<Longrightarrow> keeps E ds g h \<Longrightarrow> keeps E ds f h"
  by (auto simp: keeps_def)

lemma relaxed_keeps: "field_relaxed E f g \<Longrightarrow> Key g = Key f \<Longrightarrow> keeps E ds f g"
  using value_relaxed [of E f g]
  by (auto simp: keeps_def slot_ok_def field_relaxed_def split: option.splits)

lemma with_attrs_simps [simp]:
  "attrs (with_attrs g f) = g (attrs f)" "ComponentFields (with_attrs g f) = ComponentFields f"
  "ZoneFields (with_attrs g f) = ZoneFields f" "zone_fields_of (with_attrs g f) n = zone_fields_of f n"
  by (simp_all add: with_attrs_def zone_fields_of_def)

lemma constraints_relaxed_refl [simp]: "constraints_relaxed E c c"
  by (simp add: constraints_relaxed_def)

lemma fields_relaxed_refl [simp]: "fields_relaxed E fs fs"
  by (simp add: fields_relaxed_def)

lemma update_texts_keeps: "keeps E ds f (update_texts i f)"
  by (rule relaxed_keeps) (auto simp: field_relaxed_def update_texts_def)

definition working_copies :: "entry list \<Rightarrow> doc list" where
  "working_copies es = map e_Payload es"

lemma counted_working:
  "countEntries (both_copies P) es = 0 \<Longrightarrow> d \<in> set (working_copies es) \<Longrightarrow> \<not> P d"
  by (auto simp: working_copies_def both_copies_def)

lemma scalar_ok_cong:
  assumes "Type g = Type f" "EnumValues g = EnumValues f" "Constraints g = Constraints f"
  shows "scalar_ok E g v = scalar_ok E f v"
proof -
  have "InEnum g = InEnum f" using assms by (simp add: fun_eq_iff InEnum_def)
  with assms show ?thesis by (cases v) (simp_all add: scalar_ok_def)
qed

section \<open>Enum values\<close>

lemma enum_value_narrowed:
  assumes t: "Type f = FieldTypeEnum" and v: "value_ok E f v"
    and kept: "if Multiple f then (\<forall>xs. v = JArr xs \<longrightarrow> \<not> list_ex (text_outside E vals) xs) else \<not> text_outside E vals v"
  shows "value_ok E (with_attrs (\<lambda>a. a\<lparr>f_EnumValues := vals\<rparr>) f) v"
proof -
  let ?g = "with_attrs (\<lambda>a. a\<lparr>f_EnumValues := vals\<rparr>) f"
  have sc: "scalar_ok E ?g x" if "scalar_ok E f x" "\<not> text_outside E vals x" for x
    using that t by (cases x) (auto simp: scalar_ok_def typed_string_def InEnum_def text_outside_def value_text_def)
  show ?thesis
  proof (cases "Multiple f")
    case True
    with v t obtain xs where xs: "v = JArr xs" "cardinality_ok f xs" "list_all (scalar_ok E f) xs" "no_repeats xs"
      by (cases v) (auto simp: value_ok.simps)
    then have "list_all (scalar_ok E ?g) xs"
      using kept True sc by (auto simp: list_all_iff list_ex_iff)
    with xs t True show ?thesis by (auto simp: value_ok.simps cardinality_ok_def)
  next
    case False
    with v t kept sc show ?thesis by (auto simp: value_ok.simps)
  qed
qed

lemma update_enum_keeps:
  assumes "update_enum E es (Key f) i f = Inr g"
  shows "keeps E (working_copies es) f g"
proof (cases "uf_EnumValues i")
  case None
  with assms show ?thesis by (simp add: update_enum_def)
next
  case (Some vals)
  let ?g = "with_attrs (\<lambda>a. a\<lparr>f_EnumValues := vals\<rparr>) f"
  from assms Some have t: "Type f = FieldTypeEnum" and g: "g = ?g"
    and guard: "missing_from (EnumValues f) vals = [] \<or> CountEntriesWithValuesOutside E es f vals = 0"
    by (auto simp: update_enum_def Let_def)
  show ?thesis
  proof (cases "missing_from (EnumValues f) vals = []")
    case True
    then show ?thesis unfolding g by (intro relaxed_keeps) (auto simp: field_relaxed_def t)
  next
    case False
    with guard have zero: "CountEntriesWithValuesOutside E es f vals = 0" by simp
    have "slot_ok E ?g d" if d: "d \<in> set (working_copies es)" and ok: "slot_ok E f d" for d
    proof (cases "present d (Key f)")
      case None
      with ok show ?thesis by (simp add: slot_ok_def)
    next
      case (Some v)
      have "\<not> (if Multiple f
         then (case map_of d (Key f) of Some (JArr xs) \<Rightarrow> list_ex (text_outside E vals) xs | _ \<Rightarrow> False)
         else (case present d (Key f) of Some v \<Rightarrow> text_outside E vals v | None \<Rightarrow> False))"
        using counted_working [OF zero [unfolded CountEntriesWithValuesOutside_def] d] .
      moreover have "map_of d (Key f) = Some v"
        using Some by (auto simp: present_def split: option.splits json.splits)
      ultimately have "value_ok E ?g v"
        using enum_value_narrowed [OF t, of E v vals] ok Some
        by (cases v) (auto simp: slot_ok_def split: if_splits)
      with Some show ?thesis by (simp add: slot_ok_def)
    qed
    then show ?thesis by (simp add: keeps_def g)
  qed
qed

section \<open>The components of a zone\<close>

definition zone_attached :: "store \<Rightarrow> field \<Rightarrow> bool" where
  "zone_attached st f \<longleftrightarrow> (Type f = FieldTypeDynamicZone \<longrightarrow>
     (\<forall>n \<in> set (ZoneComponents f). \<exists>c. GetComponentByName st n = Some c \<and> zone_fields_of f n = cp_Fields c))"

lemma lookup_components_ok:
  "lookup_components st key ns = Inr zs \<Longrightarrow> n \<in> set ns \<Longrightarrow>
     \<exists>c. GetComponentByName st n = Some c \<and> map_of zs n = Some (cp_Fields c)"
  by (induction ns arbitrary: zs) (auto split: option.splits)

lemma zone_value_narrowed:
  assumes t: "Type f = FieldTypeDynamicZone" and v: "value_ok E f v"
    and att: "zone_attached st f" and look: "lookup_components st key nxt = Inr zs"
    and kept: "\<And>n xs. n \<in> set (ZoneComponents f) \<Longrightarrow> n \<notin> set nxt \<Longrightarrow> v = JArr xs \<Longrightarrow>
       \<not> list_ex (\<lambda>x. case x of JObj item \<Rightarrow> map_of item ZoneDiscriminator = Some (JStr n) | _ \<Rightarrow> False) xs"
  shows "value_ok E (Field ((attrs f)\<lparr>f_ZoneComponents := nxt\<rparr>) (ComponentFields f) zs) v"
proof -
  let ?g = "Field ((attrs f)\<lparr>f_ZoneComponents := nxt\<rparr>) (ComponentFields f) zs"
  obtain xs where xs: "v = JArr xs" "cardinality_ok f xs" "\<forall>x \<in> set xs. item_ok E f x"
    using v t by (cases v) (auto simp: value_ok.simps)
  have "item_ok E ?g x" if x: "x \<in> set xs" for x
  proof -
    obtain item where item: "x = JObj item" using xs(3) x by (cases x) (auto simp: item_ok.simps)
    let ?n = "zoneItemComponent item"
    have n: "?n \<noteq> []" "ZoneAllows f ?n" "payload_ok E (zone_fields_of f ?n) (zoneItemBody item)"
      using xs(3) x item t by (auto simp: item_ok.simps Let_def)
    then have m: "map_of item ZoneDiscriminator = Some (JStr ?n)"
      by (intro str_or_empty_nonempty) (simp_all add: zoneItemComponent_def)
    have "?n \<in> set nxt"
    proof (rule ccontr)
      assume "?n \<notin> set nxt"
      from kept [OF _ this xs(1)] n(2) have "\<forall>y \<in> set xs. \<not> (case y of
          JObj i \<Rightarrow> map_of i ZoneDiscriminator = Some (JStr ?n) | _ \<Rightarrow> False)"
        by (simp add: ZoneAllows_def list_ex_iff)
      from bspec [OF this x] m show False by (simp add: item)
    qed
    then obtain c where "GetComponentByName st ?n = Some c" "map_of zs ?n = Some (cp_Fields c)"
      using lookup_components_ok [OF look] by blast
    moreover from att t n(2) have "\<exists>c. GetComponentByName st ?n = Some c \<and> zone_fields_of f ?n = cp_Fields c"
      by (auto simp: zone_attached_def ZoneAllows_def)
    ultimately have "zone_fields_of ?g ?n = zone_fields_of f ?n" by (auto simp: zone_fields_of_def)
    with n \<open>?n \<in> set nxt\<close> t show ?thesis by (auto simp: item item_ok.simps Let_def ZoneAllows_def)
  qed
  with xs t show ?thesis by (auto simp: value_ok.simps cardinality_ok_def)
qed

lemma zone_name_of_other_type:
  "normalizeZoneComponents key t raw = Inr nxt \<Longrightarrow> t \<noteq> FieldTypeDynamicZone \<Longrightarrow> nxt = []"
  by (auto simp: normalizeZoneComponents_def split: if_splits)

lemma zone_text_string:
  "\<not> list_ex (\<lambda>x. case x of JObj item \<Rightarrow> Option.bind (map_of item ZoneDiscriminator) enum_text = Some n | _ \<Rightarrow> False) xs \<Longrightarrow>
   \<not> list_ex (\<lambda>x. case x of JObj item \<Rightarrow> map_of item ZoneDiscriminator = Some (JStr n) | _ \<Rightarrow> False) xs"
  by (induction xs) (auto split: json.splits)

lemma update_zone_keeps:
  assumes "update_zone st es (Key f) i f = Inr g" and att: "zone_attached st f"
  shows "keeps E (working_copies es) f g"
proof (cases "uf_Components i")
  case None
  with assms show ?thesis by (simp add: update_zone_def)
next
  case (Some raw)
  then obtain nxt zs where n: "normalizeZoneComponents (Key f) (Type f) raw = Inr nxt"
    and look: "lookup_components st (Key f) nxt = Inr zs"
    and guard: "\<forall>n \<in> set (missing_from (ZoneComponents f) nxt). zone_in_use es (Key f) n = None"
    and g: "g = Field ((attrs f)\<lparr>f_ZoneComponents := nxt\<rparr>) (ComponentFields f) zs"
    using assms(1) by (auto simp: update_zone_def)
  show ?thesis
  proof (cases "Type f = FieldTypeDynamicZone")
    case False
    have sc: "scalar_ok E g = scalar_ok E f"
      by (rule ext, rule scalar_ok_cong) (simp_all add: g)
    have ca: "cardinality_ok g = cardinality_ok f" by (simp add: fun_eq_iff cardinality_ok_def g)
    have it: "item_ok E g x = item_ok E f x" for x
      using False by (cases x) (simp_all add: item_ok.simps g)
    have "value_ok E g v = value_ok E f v" for v
      using False by (cases v) (simp_all add: value_ok.simps sc ca it, simp_all add: g)
    moreover have "Key g = Key f" "Type g = Type f" "Multiple g = Multiple f" "Required g = Required f"
      by (simp_all add: g)
    ultimately show ?thesis by (auto simp: keeps_def slot_ok_def split: option.splits)
  next
    case True
    have "value_ok E g v" if d: "d \<in> set (working_copies es)" and v: "present d (Key f) = Some v" "value_ok E f v" for d v
      unfolding g
    proof (rule zone_value_narrowed [OF True v(2) att look])
      fix n xs assume "n \<in> set (ZoneComponents f)" "n \<notin> set nxt" "v = JArr xs"
      then have "zone_in_use es (Key f) n = None" using guard by auto
      then have "CountEntriesWithZoneComponent es (Key f) n = 0" by (auto simp: zone_in_use_def Let_def split: if_splits)
      from counted_working [OF this [unfolded CountEntriesWithZoneComponent_def] d]
      have "\<not> zone_has_component (Key f) n d" .
      moreover have "map_of d (Key f) = Some v"
        using v(1) by (auto simp: present_def split: option.splits json.splits)
      ultimately show "\<not> list_ex (\<lambda>x. case x of JObj item \<Rightarrow> map_of item ZoneDiscriminator = Some (JStr n) | _ \<Rightarrow> False) xs"
        using \<open>v = JArr xs\<close> zone_text_string by (simp add: zone_has_component_def)
    qed
    then show ?thesis by (auto simp: keeps_def slot_ok_def g split: option.splits)
  qed
qed

section \<open>Requiredness and constraints\<close>

text \<open>
  The guard counts entries without a value, where an empty list is a value; the validator
  refuses an empty list on a required field.  With no stored empty list the two agree.
\<close>

definition stored_empty_list :: "string \<Rightarrow> doc \<Rightarrow> bool" where
  "stored_empty_list key d \<longleftrightarrow> map_of d key = Some (JArr [])"

lemma present_Some: "present d k = Some v \<longleftrightarrow> map_of d k = Some v \<and> v \<noteq> JNull"
  by (auto simp: present_def split: option.splits json.splits)

lemma value_ok_required:
  assumes "value_ok E f v" and "v \<noteq> JArr []"
  shows "value_ok E (with_attrs (\<lambda>a. a\<lparr>f_Required := r\<rparr>) f) v"
proof -
  let ?g = "with_attrs (\<lambda>a. a\<lparr>f_Required := r\<rparr>) f"
  have sc: "scalar_ok E ?g x = scalar_ok E f x" for x
    by (rule scalar_ok_cong) simp_all
  have it: "item_ok E ?g x = item_ok E f x" for x
    by (cases x) (simp_all add: item_ok.simps ZoneAllows_def)
  show ?thesis
    using assms by (cases v) (auto simp: value_ok.simps sc it cardinality_ok_def list_all_iff split: if_splits)
qed

lemma update_required_keeps:
  assumes u: "update_required es (Key f) i f = Inr g"
    and no_empty: "\<And>d. uf_Required i = Some True \<Longrightarrow> \<not> Required f \<Longrightarrow> d \<in> set (working_copies es) \<Longrightarrow>
       \<not> stored_empty_list (Key f) d"
  shows "keeps E (working_copies es) f g"
proof (cases "uf_Required i")
  case None
  with u show ?thesis by (simp add: update_required_def)
next
  case (Some r)
  with u have g: "g = with_attrs (\<lambda>a. a\<lparr>f_Required := r\<rparr>) f"
    and guard: "\<not> (r \<and> \<not> Required f \<and> 0 < CountEntriesMissingField es (Key f))"
    by (auto simp: update_required_def Let_def)
  show ?thesis
  proof (cases "r \<longrightarrow> Required f")
    case True
    then show ?thesis unfolding g by (intro relaxed_keeps) (auto simp: field_relaxed_def)
  next
    case False
    with guard have zero: "CountEntriesMissingField es (Key f) = 0" by simp
    have "slot_ok E g d" if d: "d \<in> set (working_copies es)" and ok: "slot_ok E f d" for d
    proof -
      obtain v where v: "present d (Key f) = Some v"
        using zero d by (auto simp: CountEntriesMissingField_def working_copies_def)
      moreover have "v \<noteq> JArr []"
        using no_empty [OF _ _ d] False v Some by (auto simp: stored_empty_list_def present_Some)
      ultimately show ?thesis
        using ok value_ok_required [of E f v r] by (simp add: slot_ok_def g)
    qed
    then show ?thesis by (simp add: keeps_def g)
  qed
qed

lemma constrained_value:
  assumes v: "value_ok E f v" and ok: "\<not> value_fails E g (Some v)"
    and g: "g = with_attrs (\<lambda>a. a\<lparr>f_Constraints := c\<rparr>) f"
  shows "value_ok E g v"
proof -
  have sc: "scalar_ok E g x" if "scalar_ok E f x" "satisfies E c (Type f) x" for x
    using that by (cases x) (auto simp: scalar_ok_def satisfies_simps typed_string_def InEnum_def g)
  have it: "item_ok E g x = item_ok E f x" for x
    by (cases x) (simp_all add: item_ok.simps ZoneAllows_def g)
  have ca: "cardinality_ok g = cardinality_ok f" by (simp add: fun_eq_iff cardinality_ok_def g)
  have a: "Type g = Type f" "Multiple g = Multiple f" "Required g = Required f" "Constraints g = c"
    by (simp_all add: g)
  consider (nested) "Type f = FieldTypeComponent \<or> Type f = FieldTypeDynamicZone"
    | (one) "Type f \<noteq> FieldTypeComponent" "Type f \<noteq> FieldTypeDynamicZone" "\<not> Multiple f"
    | (many) "Type f \<noteq> FieldTypeComponent" "Type f \<noteq> FieldTypeDynamicZone" "Multiple f" by blast
  then show ?thesis
  proof cases
    case nested
    with v show ?thesis by (cases v) (auto simp: value_ok.simps a ca it)
  next
    case one
    with ok have "satisfies E c (Type f) v" by (simp add: value_fails_def a CheckValue_None)
    with one v sc show ?thesis by (auto simp: value_ok.simps a)
  next
    case many
    with v obtain xs where xs: "v = JArr xs" "cardinality_ok f xs" "list_all (scalar_ok E f) xs" "no_repeats xs"
      by (cases v) (auto simp: value_ok.simps)
    with ok many have "\<forall>x \<in> set xs. satisfies E c (Type f) x"
      by (simp add: value_fails_def a CheckValue_None list_ex_iff)
    with xs many sc show ?thesis by (auto simp: value_ok.simps a ca list_all_iff)
  qed
qed

lemma update_constraints_keeps:
  assumes u: "update_constraints E es (Key f) i f = Inr g"
    and st: "ValidateFieldConstraints E (Type f) (Multiple f) (Constraints f) = None"
  shows "keeps E (working_copies es) f g"
proof (cases "touches_constraints i")
  case False
  with u show ?thesis by (simp add: update_constraints_def)
next
  case True
  define c where "c = next_constraints i (Constraints f)"
  from u True have g: "g = with_attrs (\<lambda>a. a\<lparr>f_Constraints := c\<rparr>) f"
    and valid: "ValidateFieldConstraints E (Type f) (Multiple f) c = None"
    and guard: "\<not> Tightens c (Constraints f) \<or> countConstraintViolations E es g = 0"
    by (auto simp: update_constraints_def Let_def c_def)
  show ?thesis
  proof (cases "Tightens c (Constraints f)")
    case False
    then have "constraints_relaxed E (Constraints f) c"
      using not_tightened_relaxed [of "Constraints f" c E] ValidateFieldConstraints_finite [OF st]
        ValidateFieldConstraints_finite [OF valid]
      by (simp add: Tightens_def without_unique_def)
    then show ?thesis unfolding g by (intro relaxed_keeps) (auto simp: field_relaxed_def)
  next
    case True
    with guard have zero: "countConstraintViolations E es g = 0" by simp
    have "slot_ok E g d" if d: "d \<in> set (working_copies es)" and ok: "slot_ok E f d" for d
    proof (cases "present d (Key f)")
      case None
      with ok show ?thesis by (simp add: slot_ok_def g)
    next
      case (Some v)
      have "\<not> value_fails E g (present d (Key g))"
        using counted_working [OF zero [unfolded countConstraintViolations_def] d] .
      with Some have "\<not> value_fails E g (Some v)" by (simp add: g)
      with Some ok constrained_value [OF _ _ g] show ?thesis by (simp add: slot_ok_def) (simp add: g)
    qed
    then show ?thesis by (simp add: keeps_def g)
  qed
qed

lemma update_roles_keeps: "update_roles key i f = Inr g \<Longrightarrow> keeps E ds f g"
  by (rule relaxed_keeps) (auto simp: update_roles_def field_relaxed_def)

section \<open>The verbs\<close>

definition stored_row :: "env \<Rightarrow> store \<Rightarrow> type_row \<Rightarrow> bool" where
  "stored_row E st row \<longleftrightarrow> distinct (map Key (ct_Fields (row_Type row))) \<and>
     (\<forall>f \<in> set (ct_Fields (row_Type row)).
        ValidateFieldConstraints E (Type f) (Multiple f) (Constraints f) = None \<and> zone_attached st f)"

definition entries_legal :: "env \<Rightarrow> type_row \<Rightarrow> bool" where
  "entries_legal E row \<longleftrightarrow> (\<forall>e \<in> set (row_Entries row). payload_ok E (ct_Fields (row_Type row)) (e_Payload e))"

lemma row_after_update:
  assumes "GetContentTypeByName st n = Inr row" and "\<And>r. ct_Name (row_Type (g r)) = ct_Name (row_Type r)"
  shows "GetContentTypeByName (update_row n g st) n = Inr (g row)"
proof -
  have named: "row_named n (if row_named n r then g r else r) = row_named n r" for r
    by (simp add: row_named_def assms(2))
  have "find (row_named n) rs = Some row \<Longrightarrow>
      find (row_named n) (map (\<lambda>r. if row_named n r then g r else r) rs) = Some (g row)" for rs
    by (induction rs) (auto simp: named split: if_splits)
  then show ?thesis
    using assms(1) by (simp add: GetContentTypeByName_def update_row_def split: option.splits)
qed

lemma set_fields_simps [simp]:
  "ct_Fields (row_Type (set_fields fs r)) = fs" "row_Entries (set_fields fs r) = row_Entries r"
  "ct_Name (row_Type (set_fields fs r)) = ct_Name (row_Type r)"
  by (simp_all add: set_fields_def)

lemma withFieldAt_legal:
  assumes "distinct (map Key fs)" and "f \<in> set fs" and "keeps E ds f g" and "d \<in> set ds" and "payload_ok E fs d"
  shows "payload_ok E (withFieldAt (Key f) g fs) d"
proof -
  have kg: "Key g = Key f" using assms(3) by (simp add: keeps_def)
  have "Key ` set (withFieldAt (Key f) g fs) = Key ` set fs"
  proof -
    have "map Key (withFieldAt (Key f) g fs) = map Key fs" by (simp add: withFieldAt_def kg)
    then show ?thesis by (metis set_map)
  qed
  moreover have "slot_ok E h d" if h: "h \<in> set (withFieldAt (Key f) g fs)" for h
  proof -
    obtain h0 where h0: "h0 \<in> set fs" "h = (if Key h0 = Key f then g else h0)"
      using h by (auto simp: withFieldAt_def)
    show ?thesis
    proof (cases "Key h0 = Key f")
      case True
      then have "h0 = f" using assms(1,2) h0(1) by (auto simp: distinct_map inj_on_def)
      then show ?thesis using assms(3,4,5) h0 by (auto simp: keeps_def payload_ok_slots)
    next
      case False
      then show ?thesis using assms(5) h0 by (simp add: payload_ok_slots)
    qed
  qed
  ultimately show ?thesis using assms(5) by (simp add: payload_ok_slots)
qed

lemma update_steps_keep:
  assumes st: "ValidateFieldConstraints E (Type f) (Multiple f) (Constraints f) = None" "zone_attached st f"
    and no_empty: "uf_Required i = Some True \<Longrightarrow> \<forall>d \<in> set (working_copies es). \<not> stored_empty_list (Key f) d"
    and s1: "update_enum E es (Key f) i (update_texts i f) = Inr f1"
    and s2: "update_zone st es (Key f) i f1 = Inr f2"
    and s3: "update_required es (Key f) i f2 = Inr f3"
    and s4: "update_constraints E es (Key f) i f3 = Inr f4"
    and s5: "update_roles (Key f) i f4 = Inr f5"
  shows "keeps E (working_copies es) f f5"
proof -
  let ?k = "keeps E (working_copies es)"
  have k0: "?k f (update_texts i f)" by (rule update_texts_keeps)
  have "Key (update_texts i f) = Key f" by (simp add: update_texts_def)
  then have k1: "?k (update_texts i f) f1" using update_enum_keeps [of E es "update_texts i f" i f1] s1 by simp
  have a1: "zone_attached st f1"
    using s1 st(2) by (auto simp: update_enum_def update_texts_def zone_attached_def Let_def split: option.splits)
  have c1: "Constraints f1 = Constraints f"
    using s1 by (auto simp: update_enum_def update_texts_def Let_def split: option.splits)
  have id1: "Key f1 = Key f" "Type f1 = Type f" "Multiple f1 = Multiple f"
    using k0 k1 by (auto simp: keeps_def)
  have k2: "?k f1 f2" using update_zone_keeps [of st es f1 i f2] s2 a1 id1 by simp
  have c2: "Constraints f2 = Constraints f" using s2 c1 by (auto simp: update_zone_def split: option.splits)
  have id2: "Key f2 = Key f" "Type f2 = Type f" "Multiple f2 = Multiple f"
    using k2 id1 by (auto simp: keeps_def)
  have k3: "?k f2 f3" using update_required_keeps [of es f2 i f3 E] s3 id2 no_empty by auto
  have c3: "Constraints f3 = Constraints f" using s3 c2 by (auto simp: update_required_def Let_def split: option.splits)
  have id3: "Key f3 = Key f" "Type f3 = Type f" "Multiple f3 = Multiple f"
    using k3 id2 by (auto simp: keeps_def)
  have k4: "?k f3 f4" using update_constraints_keeps [of E es f3 i f4] s4 id3 c3 st(1) by simp
  have k5: "?k f4 f5" using s5 by (rule update_roles_keeps)
  show ?thesis using k0 k1 k2 k3 k4 k5 by (blast intro: keeps_trans)
qed

lemma UpdateField_legal:
  assumes u: "UpdateField E a w n key i st = Inr st'"
    and row: "GetContentTypeByName st n = Inr row" "stored_row E st row" "entries_legal E row"
    and no_empty: "uf_Required i = Some True \<Longrightarrow> \<forall>e \<in> set (row_Entries row). \<not> stored_empty_list key (e_Payload e)"
  shows "\<exists>row'. GetContentTypeByName st' n = Inr row' \<and> row_Entries row' = row_Entries row \<and> entries_legal E row'"
proof -
  let ?fs = "ct_Fields (row_Type row)" and ?es = "row_Entries row"
  obtain f f1 f2 f3 f4 f5 where f: "FieldByKey ?fs key = Some f"
    and steps: "update_enum E ?es key i (update_texts i f) = Inr f1" "update_zone st ?es key i f1 = Inr f2"
      "update_required ?es key i f2 = Inr f3" "update_constraints E ?es key i f3 = Inr f4"
      "update_roles key i f4 = Inr f5"
    and st': "st' = update_row n (set_fields (withFieldAt (Key f5) f5 ?fs)) st"
    using u row(1) unfolding UpdateField_def by (auto split: option.splits)
  have fin: "f \<in> set ?fs" and k: "Key f = key" using FieldByKey_Some [OF f] by auto
  have keep: "keeps E (working_copies ?es) f f5"
    by (rule update_steps_keep [OF _ _ _ steps [folded k]])
      (use row(2) fin no_empty k in \<open>auto simp: stored_row_def working_copies_def\<close>)
  have k5: "Key f5 = Key f" using keep by (simp add: keeps_def)
  have "payload_ok E (withFieldAt (Key f5) f5 ?fs) (e_Payload e)" if "e \<in> set ?es" for e
    unfolding k5
    by (rule withFieldAt_legal [OF _ fin keep])
      (use row(2,3) that in \<open>auto simp: stored_row_def entries_legal_def working_copies_def\<close>)
  then show ?thesis
    using row_after_update [OF row(1), of "set_fields (withFieldAt (Key f5) f5 ?fs)"]
    by (auto simp: st' entries_legal_def)
qed

text \<open>Adding a field that is not required, or to a type without entries.\<close>

lemma buildField_attrs:
  "buildField E i = Inr f \<Longrightarrow> Required f = in_Required i \<and> Key f = TrimSpace (in_Key i) \<and> Type f = in_Type i"
  by (auto simp: buildField_def Let_def)

lemma resolve_field_attrs: "resolve_field st f = Inr g \<Longrightarrow> attrs g = attrs f"
  by (auto simp: resolve_field_def split: if_splits option.splits)

lemma AddField_legal:
  assumes u: "AddField E q n i st = Inr st'"
    and row: "GetContentTypeByName st n = Inr row" "entries_legal E row"
    and opt: "\<not> in_Required i \<or> row_Entries row = []"
  shows "\<exists>row'. GetContentTypeByName st' n = Inr row' \<and> row_Entries row' = row_Entries row \<and> entries_legal E row'"
proof -
  let ?fs = "ct_Fields (row_Type row)"
  obtain f g where f: "buildField E i = Inr f" and new: "FieldByKey ?fs (Key f) = None"
    and g: "resolve_field st f = Inr g" and st': "st' = update_row n (set_fields (?fs @ [g])) st"
    using u row(1) unfolding AddField_def by auto
  have a: "Key g = Key f" "Required g = in_Required i"
    using resolve_field_attrs [OF g] buildField_attrs [OF f] by auto
  have "payload_ok E (?fs @ [g]) (e_Payload e)" if e: "e \<in> set (row_Entries row)" for e
  proof -
    have ok: "payload_ok E ?fs (e_Payload e)" using row(2) e by (simp add: entries_legal_def)
    have "map_of (e_Payload e) (Key f) = None"
      using ok new by (auto simp: payload_ok.simps FieldByKey_None map_of_eq_None_iff)
    then have "slot_ok E g (e_Payload e)" using opt e by (auto simp: slot_ok_def a present_def)
    with ok show ?thesis by (auto simp: payload_ok_slots)
  qed
  then show ?thesis
    using row_after_update [OF row(1), of "set_fields (?fs @ [g])"] by (auto simp: st' entries_legal_def)
qed

lemma drop_key_lookup: "map_of (drop_key key d) k = (if k = key then None else map_of d k)"
  by (induction d) (auto simp: drop_key_def)

lemma keys_drop_key: "fst ` set (drop_key key d) = fst ` set d - {key}"
  by (auto simp: drop_key_def)

lemma holds_keys: "holds key d \<longleftrightarrow> key \<in> fst ` set d"
  by (auto simp: holds_def map_of_eq_None_iff)

lemma rewrite_working:
  "holds key (e_Payload e) \<Longrightarrow> e_Payload (rewrite_entry key g e) = g (e_Payload e)"
  "\<not> holds key (e_Payload e) \<Longrightarrow> e_Payload (rewrite_entry key g e) = e_Payload e"
  by (auto simp: rewrite_entry_def both_copies_def)

lemma drop_key_absent: "\<not> holds key d \<Longrightarrow> drop_key key d = d"
  by (force simp: drop_key_def holds_keys filter_id_conv)

text \<open>A document without one key is legal for the fields without it.\<close>

lemma dropped_doc_legal:
  assumes "payload_ok E fs d"
  shows "payload_ok E (filter (\<lambda>g. Key g \<noteq> key) fs) (drop_key key d)"
proof -
  have "fst ` set (drop_key key d) \<subseteq> Key ` set (filter (\<lambda>g. Key g \<noteq> key) fs)"
    using assms unfolding keys_drop_key payload_ok.simps by auto
  moreover have "slot_ok E f (drop_key key d)" if "f \<in> set (filter (\<lambda>g. Key g \<noteq> key) fs)" for f
    using assms that by (auto simp: payload_ok_slots slot_ok_def present_def drop_key_lookup)
  ultimately show ?thesis by (simp add: payload_ok_slots)
qed

lemma DeleteField_legal:
  assumes u: "DeleteField w n key force st = Inr st'"
    and row: "GetContentTypeByName st n = Inr row" "entries_legal E row"
  shows "\<exists>row'. GetContentTypeByName st' n = Inr row' \<and> entries_legal E row' \<and>
     (\<forall>e \<in> set (row_Entries row'). \<not> holds key (e_Payload e))"
proof -
  let ?gs = "filter (\<lambda>g. Key g \<noteq> key) (ct_Fields (row_Type row))"
  let ?up = "\<lambda>r. (set_fields ?gs r)\<lparr>row_Entries := map (rewrite_entry key (drop_key key)) (row_Entries r)\<rparr>"
  have st': "st' = update_row n ?up st"
    using u row(1) unfolding DeleteField_def Let_def by auto
  have pl: "e_Payload (rewrite_entry key (drop_key key) e) = drop_key key (e_Payload e)" for e
    by (cases "holds key (e_Payload e)") (simp_all add: rewrite_working drop_key_absent)
  have "entries_legal E (?up row)"
    using row(2) dropped_doc_legal by (fastforce simp: entries_legal_def pl)
  moreover have "\<not> holds key (drop_key key d)" for d by (simp add: holds_def drop_key_lookup)
  ultimately show ?thesis
    using row_after_update [OF row(1), of ?up] by (auto simp: st' pl)
qed

lemma move_key_lookup:
  "map_of d old = Some v \<Longrightarrow> map_of (move_key old new d) k =
     (if k = new then Some v else if k = old then None else map_of d k)"
  by (auto simp: move_key_def map_add_def drop_key_lookup split: option.splits)

lemma keys_move_key:
  "holds old d \<Longrightarrow> fst ` set (move_key old new d) = insert new (fst ` set d - {old, new})"
  by (auto simp: move_key_def holds_def image_Un keys_drop_key split: option.splits)

lemma move_key_absent: "\<not> holds old d \<Longrightarrow> move_key old new d = d"
  by (simp add: move_key_def holds_def)

text \<open>A document whose key moves is legal for the fields with the key renamed.\<close>

definition renamed_key :: "string \<Rightarrow> string \<Rightarrow> field \<Rightarrow> field" where
  "renamed_key old new f = (if Key f = old then set_key new f else f)"

lemma renamed_keys:
  "old \<in> Key ` set fs \<Longrightarrow> Key ` set (map (renamed_key old new) fs) = insert new (Key ` set fs - {old})"
proof -
  assume "old \<in> Key ` set fs"
  moreover have "Key ` set (map (renamed_key old new) fs) = (\<lambda>k. if k = old then new else k) ` Key ` set fs"
    unfolding set_map image_image by (rule image_cong) (simp_all add: renamed_key_def)
  ultimately show ?thesis by auto
qed

lemma renamed_doc_legal:
  assumes ok: "payload_ok E fs d" and old: "old \<in> Key ` set fs" and fresh: "new \<notin> Key ` set fs"
  shows "payload_ok E (map (renamed_key old new) fs) (move_key old new d)"
proof -
  let ?d' = "move_key old new d"
  have nn: "map_of d new = None" and dk: "fst ` set d \<subseteq> Key ` set fs"
    using ok fresh by (auto simp: payload_ok.simps map_of_eq_None_iff)
  have look: "map_of ?d' new = map_of d old" "k \<noteq> old \<Longrightarrow> k \<noteq> new \<Longrightarrow> map_of ?d' k = map_of d k" for k
    using nn by (cases "holds old d"; auto simp: move_key_absent holds_def move_key_lookup)+
  have "fst ` set ?d' \<subseteq> Key ` set (map (renamed_key old new) fs)"
    unfolding renamed_keys [OF old]
    using dk by (cases "holds old d") (auto simp: move_key_absent keys_move_key holds_keys)
  moreover have "slot_ok E h ?d'" if h: "h \<in> set (map (renamed_key old new) fs)" for h
  proof -
    obtain h0 where h0: "h0 \<in> set fs" "h = renamed_key old new h0" using h by auto
    have s: "slot_ok E h0 d" using ok h0(1) by (simp add: payload_ok_slots)
    show ?thesis
    proof (cases "Key h0 = old")
      case True
      have "present ?d' new = present d old" by (simp add: present_def look(1))
      then show ?thesis using s h0(2) True by (cases "present d old") (simp_all add: slot_ok_def renamed_key_def)
    next
      case False
      moreover have "Key h0 \<noteq> new" using fresh h0(1) by (metis imageI)
      ultimately show ?thesis using s h0(2) look(2) by (simp add: slot_ok_def present_def renamed_key_def)
    qed
  qed
  ultimately show ?thesis by (simp add: payload_ok_slots)
qed

lemma withFieldAt_renamed:
  assumes "distinct (map Key fs)" and "f \<in> set fs" "Key f = key"
  shows "withFieldAt key (set_key new f) fs = map (renamed_key key new) fs"
proof -
  have "h = f" if "h \<in> set fs" "Key h = key" for h
    using assms that by (auto simp: distinct_map inj_on_def)
  then show ?thesis by (auto simp: withFieldAt_def renamed_key_def)
qed

lemma RenameField_legal:
  assumes u: "RenameField w n key raw st = Inr st'"
    and row: "GetContentTypeByName st n = Inr row" "distinct (map Key (ct_Fields (row_Type row)))" "entries_legal E row"
  shows "\<exists>row'. GetContentTypeByName st' n = Inr row' \<and> entries_legal E row'"
proof -
  let ?fs = "ct_Fields (row_Type row)" and ?new = "TrimSpace raw"
  obtain f where f: "FieldByKey ?fs key = Some f"
    and cases: "?new = key \<and> st' = st \<or> ?new \<noteq> key \<and> FieldByKey ?fs ?new = None \<and>
      st' = update_row n (\<lambda>r. (set_fields (withFieldAt key (set_key ?new f) ?fs) r)
        \<lparr>row_Entries := map (rewrite_entry key (move_key key ?new)) (row_Entries r)\<rparr>) st"
    using u row(1) unfolding RenameField_def Let_def by (auto split: option.splits if_splits)
  have fin: "f \<in> set ?fs" "Key f = key" using FieldByKey_Some [OF f] by auto
  show ?thesis
  proof (cases "?new = key")
    case True
    with cases row show ?thesis by auto
  next
    case False
    let ?up = "\<lambda>r. (set_fields (map (renamed_key key ?new) ?fs) r)
        \<lparr>row_Entries := map (rewrite_entry key (move_key key ?new)) (row_Entries r)\<rparr>"
    from cases False have fresh: "?new \<notin> Key ` set ?fs" and st': "st' = update_row n ?up st"
      using withFieldAt_renamed [OF row(2) fin] by (auto simp: FieldByKey_None)
    have pl: "e_Payload (rewrite_entry key (move_key key ?new) e) = move_key key ?new (e_Payload e)" for e
      by (cases "holds key (e_Payload e)") (simp_all add: rewrite_working move_key_absent)
    have "key \<in> Key ` set ?fs" using fin by auto
    then have legal: "payload_ok E ?fs d \<Longrightarrow> payload_ok E (map (renamed_key key ?new) ?fs) (move_key key ?new d)" for d
      using renamed_doc_legal fresh by blast
    have "entries_legal E (?up row)" using row(3) by (auto simp: entries_legal_def pl intro: legal)
    then show ?thesis using row_after_update [OF row(1), of ?up] by (auto simp: st')
  qed
qed

section \<open>A concrete store\<close>

text \<open>One content type with one field and one draft entry, on which the verbs are evaluated.\<close>

definition sample_entry :: "doc \<Rightarrow> entry" where
  "sample_entry d = \<lparr>e_Payload = d, e_Published = None, e_Status = StatusDraft, e_Version = 1,
     e_PublishedVersion = 0, e_CreatedBy = None, e_Locale = ''default''\<rparr>"

definition sample_store :: "field list \<Rightarrow> doc \<Rightarrow> store" where
  "sample_store fs d = \<lparr>st_Rows = [\<lparr>row_Type = \<lparr>ct_Name = ''post'', ct_Label = [], ct_Fields = fs,
     ct_ReadRoles = [], ct_WriteRoles = [], ct_OwnOnlyRoles = []\<rparr>, row_Entries = [sample_entry d]\<rparr>],
     st_Components = []\<rparr>"

definition sample_row :: "field list \<Rightarrow> doc \<Rightarrow> type_row" where
  "sample_row fs d = hd (st_Rows (sample_store fs d))"

definition no_update :: update_field_input where
  "no_update = \<lparr>uf_Label = None, uf_Required = None, uf_EnumValues = None, uf_ReadRoles = None,
     uf_WriteRoles = None, uf_Type = None, uf_Multiple = None, uf_RelationEntity = None,
     uf_Component = None, uf_Components = None, uf_Description = None, uf_Unique = None,
     uf_Format = None, uf_Pattern = None, uf_Min = None, uf_Max = None\<rparr>"

definition tags_field :: "bool \<Rightarrow> field" where
  "tags_field required = Field (zero_attrs\<lparr>f_Key := ''tags'', f_Type := FieldTypeString,
     f_Required := required, f_Multiple := True\<rparr>) [] []"

lemmas sample_simps = sample_store_def sample_row_def sample_entry_def no_update_def
  GetContentTypeByName_def row_named_def FieldByKey_def stored_row_def zone_attached_def
  string_field_simps tags_field_def

lemma sample_get [simp]:
  "GetContentTypeByName (sample_store fs d) ''post'' = Inr (sample_row fs d)"
  by (simp add: sample_simps)

lemma sample_row_simps [simp]:
  "ct_Fields (row_Type (sample_row fs d)) = fs" "row_Entries (sample_row fs d) = [sample_entry d]"
  "e_Payload (sample_entry d) = d"
  by (simp_all add: sample_simps)

lemma no_constraints_valid [simp]: "ValidateFieldConstraints E t m no_constraints = None"
  by (simp add: ValidateFieldConstraints_def check_unique_def check_format_def check_pattern_def
      check_range_def no_constraints_def)

lemma sample_stored: "stored_row E st (sample_row [string_field k r] d)"
  by (simp add: stored_row_def string_field_def zero_attrs_def zone_attached_def)

lemma title_legal: "entries_legal E (sample_row [string_field ''title'' r] [(''title'', JStr ''a'')])"
  by (simp add: entries_legal_def payload_ok.simps present_def value_ok.simps scalar_ok_def
      typed_string_def string_satisfies_def in_range_def below_min_def above_max_def
      FieldFormatSlug_def string_field_simps)

lemma present_simps [simp]:
  "present [] k = None"
  "v \<noteq> JNull \<Longrightarrow> present ((k, v) # d) k = Some v"
  "k \<noteq> k' \<Longrightarrow> present ((k', v) # d) k = present d k"
  by (auto simp: present_def split: json.splits)

lemma sample_update_required:
  "d = [(''title'', JStr ''a'')] \<Longrightarrow>
   UpdateField E True w ''post'' ''title'' (no_update\<lparr>uf_Required := Some True\<rparr>) (sample_store [string_field ''title'' False] d)
     = Inr (sample_store [string_field ''title'' True] d)"
  by (simp add: UpdateField_def refuseImmutableFieldProps_def FieldByKey_def update_texts_def
      update_enum_def update_zone_def update_required_def update_constraints_def update_roles_def
      touches_constraints_def no_update_def opt_set_def with_attrs_def string_field_simps
      CountEntriesMissingField_def countEntries_def Let_def withFieldAt_def update_row_def set_fields_def
      sample_store_def sample_entry_def GetContentTypeByName_def row_named_def require_def refuse_if_def
      del: and_then_Inr)

section \<open>Properties\<close>

text \<open>A successful UpdateField keeps every stored document legal.  If the entries of a type are
  legal for its stored fields, then after any PATCH of a field that the verb lets through
  (texts, enum values, zone components, required, constraints, roles) the same entries are
  legal for the changed type, provided that a PATCH setting required meets no stored empty
  list under the key.\<close>

theorem update_field_keeps_entries_legal:
  assumes "UpdateField E mayAmend mayWrite typeName key i st = Inr st'"
    and "GetContentTypeByName st typeName = Inr row" and "stored_row E st row" and "entries_legal E row"
    and "uf_Required i = Some True \<Longrightarrow> \<forall>e \<in> set (row_Entries row). \<not> stored_empty_list key (e_Payload e)"
  shows "\<exists>row'. GetContentTypeByName st' typeName = Inr row' \<and>
           row_Entries row' = row_Entries row \<and> entries_legal E row'"
  using UpdateField_legal assms by blast

theorem update_field_keeps_entries_legal_witness:
  "\<exists>row'. GetContentTypeByName (sample_store [string_field ''title'' True] [(''title'', JStr ''a'')]) ''post'' = Inr row' \<and>
     row_Entries row' = row_Entries (sample_row [string_field ''title'' False] [(''title'', JStr ''a'')]) \<and>
     entries_legal plain_env row'"
  by (rule update_field_keeps_entries_legal [OF sample_update_required [OF refl, of plain_env True] sample_get
        sample_stored title_legal])
    (simp add: stored_empty_list_def)

text \<open>The guard of the required tightening does not count an empty list, which the validator
  refuses on a required field: there is a stored type and entry, legal before, such that
  UpdateField succeeds and the entry is no longer legal.\<close>

theorem required_tightening_over_empty_list:
  "\<exists>st st' row row' i. UpdateField E True True ''post'' ''tags'' i st = Inr st' \<and>
     GetContentTypeByName st ''post'' = Inr row \<and> stored_row E st row \<and> entries_legal E row \<and>
     GetContentTypeByName st' ''post'' = Inr row' \<and> \<not> entries_legal E row'"
proof -
  let ?d = "[(''tags'', JArr [])]" and ?i = "no_update\<lparr>uf_Required := Some True\<rparr>"
  have u: "UpdateField E True True ''post'' ''tags'' ?i (sample_store [tags_field False] ?d)
      = Inr (sample_store [tags_field True] ?d)"
    by (simp add: UpdateField_def refuseImmutableFieldProps_def FieldByKey_def update_texts_def
      update_enum_def update_zone_def update_required_def update_constraints_def update_roles_def
      touches_constraints_def no_update_def opt_set_def with_attrs_def tags_field_def zero_attrs_def
      CountEntriesMissingField_def countEntries_def Let_def withFieldAt_def update_row_def set_fields_def
      sample_store_def sample_entry_def GetContentTypeByName_def row_named_def require_def refuse_if_def
      del: and_then_Inr)
  have s: "stored_row E (sample_store [tags_field False] ?d) (sample_row [tags_field False] ?d)"
    by (simp add: stored_row_def tags_field_def zero_attrs_def zone_attached_def)
  have l: "entries_legal E (sample_row [tags_field False] ?d)"
    by (simp add: entries_legal_def payload_ok.simps value_ok.simps cardinality_ok_def no_repeats_def
        tags_field_def zero_attrs_def)
  have n: "\<not> entries_legal E (sample_row [tags_field True] ?d)"
    by (simp add: entries_legal_def payload_ok.simps value_ok.simps cardinality_ok_def
        tags_field_def zero_attrs_def)
  show ?thesis using u s l n sample_get by blast
qed

text \<open>A field added by AddField leaves every entry of the type legal when it is optional or when
  the type has no entries.\<close>

theorem add_field_keeps_entries_legal:
  assumes "AddField E q typeName i st = Inr st'"
    and "GetContentTypeByName st typeName = Inr row" and "entries_legal E row"
    and "\<not> in_Required i \<or> row_Entries row = []"
  shows "\<exists>row'. GetContentTypeByName st' typeName = Inr row' \<and>
           row_Entries row' = row_Entries row \<and> entries_legal E row'"
  using AddField_legal assms by blast

definition body_input :: "bool \<Rightarrow> field_input" where
  "body_input required = \<lparr>in_Key = ''body'', in_Type = FieldTypeBoolean, in_Label = [], in_Required = required,
     in_Multiple = False, in_EnumValues = [], in_ReadRoles = [], in_WriteRoles = [], in_RelationEntity = [],
     in_Component = [], in_Components = [], in_Description = [], in_Constraints = no_constraints\<rparr>"

definition body_field :: "bool \<Rightarrow> field" where
  "body_field required = Field (zero_attrs\<lparr>f_Key := ''body'', f_Type := FieldTypeBoolean, f_Required := required\<rparr>) [] []"

lemma TrimSpace_ascii: "list_all (\<lambda>c. ascii c \<and> \<not> is_space [c]) s \<Longrightarrow> TrimSpace s = s"
proof -
  assume a: "list_all (\<lambda>c. ascii c \<and> \<not> is_space [c]) s"
  then have "list_all ascii s" by (simp add: list_all_iff)
  then have r: "runes s = map (\<lambda>c. [c]) s" by (rule runes_ascii)
  have keep: "dropWhile is_space (map (\<lambda>c. [c]) t) = map (\<lambda>c. [c]) t" if "set t \<subseteq> set s" for t
    using that a by (cases t) (auto simp: list_all_iff)
  have "concat (map (\<lambda>c. [c]) s) = s" by (induction s) auto
  then show ?thesis using keep [of s] keep [of "rev s"] by (simp add: TrimSpace_def r rev_map)
qed

lemma trim_body: "TrimSpace ''body'' = ''body''"
  by (rule TrimSpace_ascii) (simp add: ascii_def is_space_def space_runes_def)

lemma trim_empty: "TrimSpace [] = []"
  by (rule TrimSpace_ascii) simp

lemma sample_add:
  "AddField E q0 ''post'' (body_input r) (sample_store [string_field ''title'' False] d)
     = Inr (sample_store [string_field ''title'' False, body_field r] d)"
  if "q0 = \<lparr>MaxFieldsPerType = 0, MaxTypesPerTenant = 0\<rparr>"
  using that
  by (simp add: AddField_def buildField_def body_input_def trim_body trim_empty normalizeZoneComponents_def
      normalizeConstraints_def no_constraints_valid [unfolded no_constraints_def] no_constraints_def
      normalizeRoles_def normalizeRoleList_def resolve_field_def body_field_def zero_attrs_def
      string_field_def FieldByKey_def update_row_def set_fields_def ValidFieldKey_def ascii_letter_def
      ident_char_def byte_in_def ValidFieldType_def AllowedFieldTypes_def sample_store_def
      GetContentTypeByName_def row_named_def require_def refuse_if_def Let_def del: and_then_Inr)

theorem add_field_keeps_entries_legal_witness:
  "\<exists>row'. GetContentTypeByName (sample_store [string_field ''title'' False, body_field False] [(''title'', JStr ''a'')]) ''post'' = Inr row' \<and>
     row_Entries row' = row_Entries (sample_row [string_field ''title'' False] [(''title'', JStr ''a'')]) \<and>
     entries_legal plain_env row'"
  by (rule add_field_keeps_entries_legal [OF sample_add [OF refl, of plain_env False] sample_get title_legal])
    (simp add: body_input_def)

text \<open>AddField has no backfill guard: adding a required field to a type that holds a legal entry
  succeeds, and the entry is not legal afterwards.\<close>

theorem add_required_field_over_entries:
  "\<exists>st st' row row' i q. AddField E q ''post'' i st = Inr st' \<and>
     GetContentTypeByName st ''post'' = Inr row \<and> entries_legal E row \<and>
     GetContentTypeByName st' ''post'' = Inr row' \<and> \<not> entries_legal E row'"
proof -
  let ?d = "[(''title'', JStr ''a'')]"
  have n: "\<not> entries_legal E (sample_row [string_field ''title'' False, body_field True] ?d)"
    by (simp add: entries_legal_def payload_ok.simps body_field_def zero_attrs_def)
  show ?thesis
    using sample_add [OF refl, of E True ?d] sample_get title_legal [of E False] n by blast
qed

text \<open>Deleting a field keeps every entry legal for the remaining fields, and no entry's working
  copy holds the key any more.\<close>

theorem delete_field_keeps_entries_legal:
  assumes "DeleteField mayWrite typeName key force st = Inr st'"
    and "GetContentTypeByName st typeName = Inr row" and "entries_legal E row"
  shows "\<exists>row'. GetContentTypeByName st' typeName = Inr row' \<and> entries_legal E row' \<and>
     (\<forall>e \<in> set (row_Entries row'). map_of (e_Payload e) key = None)"
  using DeleteField_legal [OF assms] by (simp add: holds_def)

lemma sample_two_fields_legal:
  "entries_legal E (sample_row [string_field ''title'' False, body_field False] [(''title'', JStr ''a''), (''body'', JBool True)])"
  by (simp add: entries_legal_def payload_ok.simps value_ok.simps scalar_ok_def
      typed_string_def string_satisfies_def in_range_def below_min_def above_max_def
      FieldFormatSlug_def string_field_simps body_field_def zero_attrs_def field_type_defs)

theorem delete_field_keeps_entries_legal_witness:
  "\<exists>st'. DeleteField True ''post'' ''body'' True
       (sample_store [string_field ''title'' False, body_field False] [(''title'', JStr ''a''), (''body'', JBool True)]) = Inr st' \<and>
     (\<exists>row'. GetContentTypeByName st' ''post'' = Inr row' \<and> entries_legal plain_env row' \<and>
       (\<forall>e \<in> set (row_Entries row'). map_of (e_Payload e) ''body'' = None))"
proof -
  let ?fs = "[string_field ''title'' False, body_field False]"
  let ?d = "[(''title'', JStr ''a''), (''body'', JBool True)]"
  have k: "FieldByKey ?fs ''body'' = Some (body_field False)"
    by (simp add: FieldByKey_def string_field_simps body_field_def zero_attrs_def)
  obtain st' where d: "DeleteField True ''post'' ''body'' True (sample_store ?fs ?d) = Inr st'"
    by (simp add: DeleteField_def k Let_def)
  from delete_field_keeps_entries_legal [OF d sample_get sample_two_fields_legal] d show ?thesis by blast
qed

text \<open>Renaming a field carries every value along: the entries stay legal for the renamed field
  list.\<close>

theorem rename_field_keeps_entries_legal:
  assumes "RenameField mayWrite typeName key newKey st = Inr st'"
    and "GetContentTypeByName st typeName = Inr row"
    and "distinct (map Key (ct_Fields (row_Type row)))" and "entries_legal E row"
  shows "\<exists>row'. GetContentTypeByName st' typeName = Inr row' \<and> entries_legal E row'"
  using RenameField_legal [OF assms] .

theorem rename_field_keeps_entries_legal_witness:
  "\<exists>st'. RenameField True ''post'' ''title'' ''body'' (sample_store [string_field ''title'' True] [(''title'', JStr ''a'')]) = Inr st' \<and>
     (\<exists>row'. GetContentTypeByName st' ''post'' = Inr row' \<and> entries_legal plain_env row')"
proof -
  have k: "FieldByKey [string_field ''title'' True] ''title'' = Some (string_field ''title'' True)"
    "FieldByKey [string_field ''title'' True] ''body'' = None"
    by (simp_all add: FieldByKey_def string_field_simps)
  have v: "ValidFieldKey ''body''" by (simp add: ValidFieldKey_def ascii_letter_def ident_char_def byte_in_def)
  obtain st' where d: "RenameField True ''post'' ''title'' ''body''
      (sample_store [string_field ''title'' True] [(''title'', JStr ''a'')]) = Inr st'"
    by (simp add: RenameField_def trim_body Let_def k v)
  have "distinct (map Key (ct_Fields (row_Type (sample_row [string_field ''title'' True] [(''title'', JStr ''a'')]))))" by simp
  from rename_field_keeps_entries_legal [OF d sample_get this title_legal] d show ?thesis by blast
qed

end
