(* ===== verification/Authz.thy ===== *)
theory Authz
  imports Roles
begin

text \<open>
  Authorization (\<open>internal/pkg/authn/subject.go\<close>, \<open>internal/pkg/authz/\<close>): the verified
  subject, the gate every agent credential passes through, and the two authorizers the
  platform can be started with, the Go table (\<open>RBACAuthorizer\<close>) and the embedded Rego
  policy (\<open>OPAAuthorizer\<close> over \<open>policies/authz.rego\<close>).  The contract both keep is the
  locale \<open>authorizer\<close>; each is interpreted in it.

  An identifier of type \<open>uuid.UUID\<close> is represented by its canonical text.  The request
  context is the optional subject it carries.
\<close>

type_synonym uuid = string

definition uuid_Nil :: uuid where
  "uuid_Nil = ''00000000-0000-0000-0000-000000000000''"

text \<open>A Go \<open>error\<close>: one that \<open>errors.As\<close> finds to be an \<open>AppError\<close>, or any other.\<close>

datatype go_error = AppError app_error | PlainError string

definition isEvalError :: "go_error \<Rightarrow> bool" where
  "isEvalError e = (case e of AppError _ \<Rightarrow> False | PlainError _ \<Rightarrow> True)"

definition reasonFromError :: "go_error \<Rightarrow> string" where
  "reasonFromError e = (case e of AppError ae \<Rightarrow> err_code ae | PlainError _ \<Rightarrow> [])"

definition forbidden :: go_error where "forbidden = AppError ErrForbidden"
definition unauthorized :: go_error where "unauthorized = AppError ErrUnauthorized"

lemma denials_differ [simp]: "forbidden \<noteq> unauthorized" "unauthorized \<noteq> forbidden"
  by (simp_all add: forbidden_def unauthorized_def ErrForbidden_def ErrUnauthorized_def New_def)

section \<open>The subject\<close>

record subject =
  UserID :: uuid
  Roles :: "string list"
  TenantID :: string
  TenantRole :: string
  Region :: string
  MFAVerified :: bool
  PublicDelivery :: bool
  PreviewEntryID :: "uuid option"
  ActorKind :: string
  AgentID :: "string option"
  PrincipalID :: "uuid option"
  AllowedTypes :: "string list option"
  CredentialID :: "uuid option"

definition ActorKindAgent :: string where "ActorKindAgent = ''agent''"

definition IsAgent :: "subject \<Rightarrow> bool" where
  "IsAgent s \<longleftrightarrow> ActorKind s = ActorKindAgent"

definition AllowsContentType :: "subject \<Rightarrow> string \<Rightarrow> bool" where
  "AllowsContentType s contentType =
     (if \<not> IsAgent s then True
      else case AllowedTypes s of
             None \<Rightarrow> False
           | Some ts \<Rightarrow> if contentType = [] then False else contentType \<in> set ts)"

definition ResponsibleUserID :: "subject \<Rightarrow> uuid" where
  "ResponsibleUserID s =
     (if IsAgent s then case PrincipalID s of None \<Rightarrow> uuid_Nil | Some p \<Rightarrow> p
      else UserID s)"

definition HasRole :: "subject \<Rightarrow> string \<Rightarrow> bool" where
  "HasRole s role = list_ex (\<lambda>r. r = role) (Roles s)"

lemma HasRole_set [simp]: "HasRole s role \<longleftrightarrow> role \<in> set (Roles s)"
  by (auto simp: HasRole_def list_ex_iff)

section \<open>Requests\<close>

record authz_input =
  Action :: string
  ResourceType :: string
  ResourceID :: string

text \<open>The verbs that get a branch of their own; each is the literal of \<open>authorizer.go\<close>.\<close>

definition content_verbs :: "string list" where
  "content_verbs =
     [''content:list'', ''content:read'', ''content:create'', ''content:update'', ''content:delete'',
      ''content:publish'', ''content:schema:write'', ''content:schema:plan'', ''content:schema:propose'',
      ''content:schema:amend'', ''content:activity:read'', ''content:review:list'']"

definition isContentAction :: "string \<Rightarrow> bool" where
  "isContentAction a \<longleftrightarrow> a \<in> set content_verbs"

definition isIAMAction :: "string \<Rightarrow> bool" where
  "isIAMAction a \<longleftrightarrow> a \<in> set [''iam:role:read'', ''iam:role:assign'', ''iam:role:revoke'']"

definition isPlatformAction :: "string \<Rightarrow> bool" where
  "isPlatformAction a \<longleftrightarrow> a \<in> set [''platform:app:list'', ''platform:app:create'',
     ''platform:app:update'', ''platform:tenant:plan:update'']"

definition isTenantPlaneAction :: "string \<Rightarrow> bool" where
  "isTenantPlaneAction a \<longleftrightarrow> HasPrefix a ''content:'' \<or> HasPrefix a ''tenant:invite:'' \<or>
     HasPrefix a ''tenant:member:'' \<or> HasPrefix a ''agent:''"

definition agent_verbs :: "string list" where
  "agent_verbs = [''content:list'', ''content:read'', ''content:create'', ''content:update'',
     ''content:schema:plan'', ''content:schema:propose'']"

definition refuseUnlistedAgentAction :: "subject \<Rightarrow> string \<Rightarrow> go_error option" where
  "refuseUnlistedAgentAction s action =
     (if \<not> IsAgent s then None
      else if action \<in> set agent_verbs then None
      else Some forbidden)"

section \<open>The Go table\<close>

definition allowContentByTenantRole :: "string \<Rightarrow> string \<Rightarrow> go_error option" where
  "allowContentByTenantRole tenantRole action =
     (if action = ''content:schema:write''
      then if tenantRole = ''owner'' \<or> tenantRole = ''admin'' then None else Some forbidden
      else if tenantRole \<in> set [''owner'', ''admin'', ''editor''] then None
      else if tenantRole = ''viewer''
      then if action = ''content:list'' \<or> action = ''content:read'' then None else Some forbidden
      else Some forbidden)"

definition owner_or_admin :: "subject \<Rightarrow> go_error option" where
  "owner_or_admin s =
     (if TenantID s = [] then Some forbidden
      else if TenantRole s = ''owner'' \<or> TenantRole s = ''admin'' then None
      else Some forbidden)"

definition tenant_plane_decision :: "subject \<Rightarrow> authz_input \<Rightarrow> go_error option" where
  "tenant_plane_decision s i =
     (if isContentAction (Action i)
      then if TenantID s = [] then Some forbidden
           else allowContentByTenantRole (TenantRole s) (Action i)
      else if Action i = ''tenant:invite:create''
      then if TenantID s = [] \<or> ResourceID i \<noteq> TenantID s then Some forbidden
           else if TenantRole s = ''owner'' \<or> TenantRole s = ''admin'' then None
           else Some forbidden
      else if Action i = ''tenant:invite:accept'' then None
      else if Action i \<in> set [''tenant:invite:list'', ''tenant:invite:revoke''] then owner_or_admin s
      else if Action i = ''tenant:member:list''
      then if TenantID s = [] then Some forbidden
           else if TenantRole s \<in> set [''owner'', ''admin'', ''editor'', ''viewer''] then None
           else Some forbidden
      else if Action i \<in> set [''tenant:member:update'', ''tenant:member:remove''] then owner_or_admin s
      else if Action i \<in> set [''agent:credential:issue'', ''agent:credential:list'', ''agent:credential:revoke'']
      then owner_or_admin s
      else Some forbidden)"

definition self_actions :: "string list" where
  "self_actions = [''notification:read'', ''notification:create'', ''notification:mark_read'',
     ''user:read'', ''user:update'', ''user:preferences:update'']"

text \<open>\<open>uuid.Parse\<close> is the parameter; the identifiers the services pass are canonical text.\<close>

definition RBAC_Allow :: "(string \<Rightarrow> uuid option) \<Rightarrow> subject option \<Rightarrow> authz_input \<Rightarrow> go_error option" where
  "RBAC_Allow parse ctx i =
     (case ctx of
        None \<Rightarrow> Some unauthorized
      | Some s \<Rightarrow>
          (case refuseUnlistedAgentAction s (Action i) of
             Some e \<Rightarrow> Some e
           | None \<Rightarrow>
               if isTenantPlaneAction (Action i) then tenant_plane_decision s i
               else if HasRole s ''admin'' then None
               else if isIAMAction (Action i) \<or> isPlatformAction (Action i) then Some forbidden
               else case parse (ResourceID i) of
                      None \<Rightarrow> Some forbidden
                    | Some rid \<Rightarrow>
                        if Action i \<in> set self_actions
                        then if UserID s = rid then None else Some forbidden
                        else Some forbidden))"

section \<open>The Rego policy\<close>

text \<open>
  The document \<open>BuildOPAInput\<close> hands to the policy.  The two fields marked \<open>omitempty\<close>
  are absent, and a reference to them undefined, when the string is empty.
\<close>

record opa_input =
  in_user_id :: string
  in_roles :: "string list"
  in_tenant_role :: "string option"
  in_action :: string
  in_resource_id :: string
  in_tenant_id :: "string option"

definition omitempty :: "string \<Rightarrow> string option" where
  "omitempty s = (if s = [] then None else Some s)"

fun merge_roles_onto :: "string list \<Rightarrow> string list \<Rightarrow> string list" where
  "merge_roles_onto out [] = out"
| "merge_roles_onto out (r # rs) =
     (if r = [] \<or> r \<in> set out then merge_roles_onto out rs else merge_roles_onto (out @ [r]) rs)"

definition mergeRoles :: "string list \<Rightarrow> string list \<Rightarrow> string list" where
  "mergeRoles a b = merge_roles_onto (merge_roles_onto [] a) b"

lemma set_merge_roles_onto: "set (merge_roles_onto out rs) = set out \<union> (set rs - {[]})"
  by (induction out rs rule: merge_roles_onto.induct) auto

lemma set_mergeRoles [simp]: "set (mergeRoles a b) = (set a \<union> set b) - {[]}"
  by (auto simp: mergeRoles_def set_merge_roles_onto)

lemma distinct_merge_roles_onto: "distinct out \<Longrightarrow> distinct (merge_roles_onto out rs)"
  by (induction out rs rule: merge_roles_onto.induct) auto

definition BuildOPAInput :: "subject \<Rightarrow> authz_input \<Rightarrow> string list \<Rightarrow> opa_input" where
  "BuildOPAInput s i extra =
     \<lparr>in_user_id = UserID s, in_roles = mergeRoles (Roles s) extra,
      in_tenant_role = omitempty (TenantRole s), in_action = Action i,
      in_resource_id = ResourceID i, in_tenant_id = omitempty (TenantID s)\<rparr>"

definition rego_is_admin :: "opa_input \<Rightarrow> bool" where
  "rego_is_admin d \<longleftrightarrow> list_ex (\<lambda>r. r = ''admin'') (in_roles d)"

text \<open>\<open>input.context.tenant_id != ""\<close> and \<open>input.subject.tenant_role in R\<close> fail when undefined.\<close>

definition rego_tenant_role :: "string list \<Rightarrow> opa_input \<Rightarrow> bool" where
  "rego_tenant_role roles d \<longleftrightarrow>
     (case in_tenant_id d of None \<Rightarrow> False | Some t \<Rightarrow> t \<noteq> []) \<and>
     (case in_tenant_role d of None \<Rightarrow> False | Some r \<Rightarrow> r \<in> set roles)"

definition rego_action_in :: "string list \<Rightarrow> opa_input \<Rightarrow> bool" where
  "rego_action_in actions d \<longleftrightarrow> in_action d \<in> set actions"

definition content_write_roles :: "string list" where
  "content_write_roles = [''owner'', ''admin'', ''editor'']"

text \<open>The \<open>allow\<close> rules, one entry each, in the order of the policy file.\<close>

definition rego_rules :: "(opa_input \<Rightarrow> bool) list" where
  "rego_rules =
    [\<lambda>d. rego_is_admin d \<and> \<not> isTenantPlaneAction (in_action d),
     \<lambda>d. rego_action_in [''user:read'', ''user:update'', ''user:preferences:update''] d \<and>
         in_user_id d = in_resource_id d,
     \<lambda>d. rego_action_in [''user:delete''] d \<and> rego_is_admin d,
     \<lambda>d. rego_action_in [''iam:role:read'', ''iam:role:assign'', ''iam:role:revoke''] d \<and> rego_is_admin d,
     \<lambda>d. rego_action_in [''user:list''] d \<and> rego_is_admin d,
     \<lambda>d. rego_action_in [''platform:app:list'', ''platform:app:create'', ''platform:app:update'',
         ''platform:tenant:plan:update''] d \<and> rego_is_admin d,
     \<lambda>d. rego_action_in [''notification:read'', ''notification:create'', ''notification:mark_read''] d \<and>
         in_user_id d = in_resource_id d,
     \<lambda>d. rego_action_in [''content:create'', ''content:read'', ''content:update'', ''content:delete'',
         ''content:list''] d \<and> rego_tenant_role content_write_roles d,
     \<lambda>d. rego_action_in [''content:read'', ''content:list''] d \<and> rego_tenant_role [''viewer''] d,
     \<lambda>d. rego_action_in [''content:publish''] d \<and> rego_tenant_role content_write_roles d,
     \<lambda>d. rego_action_in [''content:activity:read''] d \<and> rego_tenant_role content_write_roles d,
     \<lambda>d. rego_action_in [''content:review:list''] d \<and> rego_tenant_role content_write_roles d,
     \<lambda>d. rego_action_in [''content:schema:write''] d \<and> rego_tenant_role [''owner'', ''admin''] d,
     \<lambda>d. rego_action_in [''content:schema:plan''] d \<and> rego_tenant_role content_write_roles d,
     \<lambda>d. rego_action_in [''content:schema:propose''] d \<and> rego_tenant_role content_write_roles d,
     \<lambda>d. rego_action_in [''content:schema:amend''] d \<and> rego_tenant_role content_write_roles d,
     \<lambda>d. rego_action_in [''tenant:invite:create''] d \<and> rego_tenant_role [''owner'', ''admin''] d \<and>
         Some (in_resource_id d) = in_tenant_id d,
     \<lambda>d. rego_action_in [''tenant:invite:accept''] d \<and> in_user_id d \<noteq> [],
     \<lambda>d. rego_action_in [''tenant:invite:list''] d \<and> rego_tenant_role [''owner'', ''admin''] d,
     \<lambda>d. rego_action_in [''tenant:invite:revoke''] d \<and> rego_tenant_role [''owner'', ''admin''] d,
     \<lambda>d. rego_action_in [''tenant:member:list''] d \<and>
         rego_tenant_role [''owner'', ''admin'', ''editor'', ''viewer''] d,
     \<lambda>d. rego_action_in [''tenant:member:update''] d \<and> rego_tenant_role [''owner'', ''admin''] d,
     \<lambda>d. rego_action_in [''tenant:member:remove''] d \<and> rego_tenant_role [''owner'', ''admin''] d,
     \<lambda>d. rego_action_in [''agent:credential:issue''] d \<and> rego_tenant_role [''owner'', ''admin''] d,
     \<lambda>d. rego_action_in [''agent:credential:list''] d \<and> rego_tenant_role [''owner'', ''admin''] d,
     \<lambda>d. rego_action_in [''agent:credential:revoke''] d \<and> rego_tenant_role [''owner'', ''admin''] d]"

definition rego_allow :: "opa_input \<Rightarrow> bool" where
  "rego_allow d = list_ex (\<lambda>rule. rule d) rego_rules"

text \<open>
  \<open>facts\<close> is \<open>RolesForUser\<close>: absent when no loader is configured, and otherwise the roles
  stored for the user or a failure.
\<close>

definition OPA_Allow ::
  "(uuid \<Rightarrow> string + string list) option \<Rightarrow> subject option \<Rightarrow> authz_input \<Rightarrow> go_error option" where
  "OPA_Allow facts ctx i =
     (case ctx of
        None \<Rightarrow> Some unauthorized
      | Some s \<Rightarrow>
          (case refuseUnlistedAgentAction s (Action i) of
             Some e \<Rightarrow> Some e
           | None \<Rightarrow>
               (case (case facts of None \<Rightarrow> Inr [] | Some roles_for \<Rightarrow> roles_for (UserID s)) of
                  Inl msg \<Rightarrow> Some (PlainError msg)
                | Inr extra \<Rightarrow>
                    if rego_allow (BuildOPAInput s i extra) then None else Some forbidden)))"

definition AllowAll_Allow :: "subject option \<Rightarrow> authz_input \<Rightarrow> go_error option" where
  "AllowAll_Allow ctx i = None"


section \<open>Both authorizers decide the same requests\<close>

definition known_actions :: "string list" where
  "known_actions = content_verbs @ self_actions @
     [''user:list'', ''user:delete'', ''iam:role:read'', ''iam:role:assign'', ''iam:role:revoke'',
      ''platform:app:list'', ''platform:app:create'', ''platform:app:update'', ''platform:tenant:plan:update'',
      ''tenant:invite:create'', ''tenant:invite:accept'', ''tenant:invite:list'', ''tenant:invite:revoke'',
      ''tenant:member:list'', ''tenant:member:update'', ''tenant:member:remove'',
      ''agent:credential:issue'', ''agent:credential:list'', ''agent:credential:revoke'']"

lemmas action_tables = content_verbs_def self_actions_def isContentAction_def isIAMAction_def
  isPlatformAction_def isTenantPlaneAction_def HasPrefix_def rego_action_in_def content_write_roles_def

lemma rego_unknown_action:
  "in_action d \<notin> set known_actions \<Longrightarrow>
     rego_allow d \<longleftrightarrow> rego_is_admin d \<and> \<not> isTenantPlaneAction (in_action d)"
  by (simp add: known_actions_def rego_allow_def rego_rules_def content_verbs_def self_actions_def
      rego_action_in_def del: list.set(2)) (simp add: rego_action_in_def)


text \<open>The subject as the policy sees it: the roles of the facts loader are merged in.\<close>

definition enriched :: "subject \<Rightarrow> string list \<Rightarrow> subject" where
  "enriched s extra = s\<lparr>Roles := mergeRoles (Roles s) extra\<rparr>"

lemma enriched_simps [simp]:
  "UserID (enriched s extra) = UserID s" "TenantID (enriched s extra) = TenantID s"
  "TenantRole (enriched s extra) = TenantRole s" "Roles (enriched s extra) = mergeRoles (Roles s) extra"
  "IsAgent (enriched s extra) = IsAgent s"
  by (simp_all add: enriched_def IsAgent_def)

lemma rego_tenant_role_BuildOPAInput [simp]:
  "rego_tenant_role roles (BuildOPAInput s i extra) \<longleftrightarrow>
     TenantID s \<noteq> [] \<and> TenantRole s \<noteq> [] \<and> TenantRole s \<in> set roles"
  by (auto simp: rego_tenant_role_def BuildOPAInput_def omitempty_def)

lemma rego_is_admin_BuildOPAInput [simp]:
  "rego_is_admin (BuildOPAInput s i extra) \<longleftrightarrow> ''admin'' \<in> set (Roles s) \<union> set extra"
  by (auto simp: rego_is_admin_def BuildOPAInput_def list_ex_iff)

lemma BuildOPAInput_simps [simp]:
  "in_action (BuildOPAInput s i extra) = Action i" "in_user_id (BuildOPAInput s i extra) = UserID s"
  "in_resource_id (BuildOPAInput s i extra) = ResourceID i"
  "Some r = in_tenant_id (BuildOPAInput s i extra) \<longleftrightarrow> r = TenantID s \<and> r \<noteq> []"
  by (auto simp: BuildOPAInput_def omitempty_def)

definition canonical_id :: "(string \<Rightarrow> uuid option) \<Rightarrow> subject \<Rightarrow> string \<Rightarrow> bool" where
  "canonical_id parse s rid \<longleftrightarrow>
     UserID s \<noteq> [] \<and> (case parse rid of Some u \<Rightarrow> u = rid | None \<Rightarrow> rid \<noteq> UserID s)"


lemma rego_content:
  "in_action d = ''content:create'' \<Longrightarrow> rego_allow d \<longleftrightarrow> rego_tenant_role content_write_roles d"
  "in_action d = ''content:update'' \<Longrightarrow> rego_allow d \<longleftrightarrow> rego_tenant_role content_write_roles d"
  "in_action d = ''content:delete'' \<Longrightarrow> rego_allow d \<longleftrightarrow> rego_tenant_role content_write_roles d"
  "in_action d = ''content:publish'' \<Longrightarrow> rego_allow d \<longleftrightarrow> rego_tenant_role content_write_roles d"
  "in_action d = ''content:schema:plan'' \<Longrightarrow> rego_allow d \<longleftrightarrow> rego_tenant_role content_write_roles d"
  "in_action d = ''content:schema:propose'' \<Longrightarrow> rego_allow d \<longleftrightarrow> rego_tenant_role content_write_roles d"
  "in_action d = ''content:schema:amend'' \<Longrightarrow> rego_allow d \<longleftrightarrow> rego_tenant_role content_write_roles d"
  "in_action d = ''content:activity:read'' \<Longrightarrow> rego_allow d \<longleftrightarrow> rego_tenant_role content_write_roles d"
  "in_action d = ''content:review:list'' \<Longrightarrow> rego_allow d \<longleftrightarrow> rego_tenant_role content_write_roles d"
  "in_action d = ''content:read'' \<Longrightarrow> rego_allow d \<longleftrightarrow> rego_tenant_role content_write_roles d \<or> rego_tenant_role [''viewer''] d"
  "in_action d = ''content:list'' \<Longrightarrow> rego_allow d \<longleftrightarrow> rego_tenant_role content_write_roles d \<or> rego_tenant_role [''viewer''] d"
  "in_action d = ''content:schema:write'' \<Longrightarrow> rego_allow d \<longleftrightarrow> rego_tenant_role [''owner'', ''admin''] d"
  by (simp_all add: rego_allow_def rego_rules_def rego_action_in_def isTenantPlaneAction_def HasPrefix_def)

lemma rego_tenant:
  "in_action d = ''tenant:invite:create'' \<Longrightarrow> rego_allow d \<longleftrightarrow> rego_tenant_role [''owner'', ''admin''] d \<and> Some (in_resource_id d) = in_tenant_id d"
  "in_action d = ''tenant:invite:accept'' \<Longrightarrow> rego_allow d \<longleftrightarrow> in_user_id d \<noteq> []"
  "in_action d = ''tenant:invite:list'' \<Longrightarrow> rego_allow d \<longleftrightarrow> rego_tenant_role [''owner'', ''admin''] d"
  "in_action d = ''tenant:invite:revoke'' \<Longrightarrow> rego_allow d \<longleftrightarrow> rego_tenant_role [''owner'', ''admin''] d"
  "in_action d = ''tenant:member:update'' \<Longrightarrow> rego_allow d \<longleftrightarrow> rego_tenant_role [''owner'', ''admin''] d"
  "in_action d = ''tenant:member:remove'' \<Longrightarrow> rego_allow d \<longleftrightarrow> rego_tenant_role [''owner'', ''admin''] d"
  "in_action d = ''agent:credential:issue'' \<Longrightarrow> rego_allow d \<longleftrightarrow> rego_tenant_role [''owner'', ''admin''] d"
  "in_action d = ''agent:credential:list'' \<Longrightarrow> rego_allow d \<longleftrightarrow> rego_tenant_role [''owner'', ''admin''] d"
  "in_action d = ''agent:credential:revoke'' \<Longrightarrow> rego_allow d \<longleftrightarrow> rego_tenant_role [''owner'', ''admin''] d"
  "in_action d = ''tenant:member:list'' \<Longrightarrow> rego_allow d \<longleftrightarrow> rego_tenant_role [''owner'', ''admin'', ''editor'', ''viewer''] d"
  by (simp_all add: rego_allow_def rego_rules_def rego_action_in_def isTenantPlaneAction_def HasPrefix_def)

lemma rego_self:
  "in_action d = ''notification:read'' \<Longrightarrow> rego_allow d \<longleftrightarrow> rego_is_admin d \<or> in_user_id d = in_resource_id d"
  "in_action d = ''notification:create'' \<Longrightarrow> rego_allow d \<longleftrightarrow> rego_is_admin d \<or> in_user_id d = in_resource_id d"
  "in_action d = ''notification:mark_read'' \<Longrightarrow> rego_allow d \<longleftrightarrow> rego_is_admin d \<or> in_user_id d = in_resource_id d"
  "in_action d = ''user:read'' \<Longrightarrow> rego_allow d \<longleftrightarrow> rego_is_admin d \<or> in_user_id d = in_resource_id d"
  "in_action d = ''user:update'' \<Longrightarrow> rego_allow d \<longleftrightarrow> rego_is_admin d \<or> in_user_id d = in_resource_id d"
  "in_action d = ''user:preferences:update'' \<Longrightarrow> rego_allow d \<longleftrightarrow> rego_is_admin d \<or> in_user_id d = in_resource_id d"
  by (simp_all add: rego_allow_def rego_rules_def rego_action_in_def isTenantPlaneAction_def HasPrefix_def)

lemma rego_admin:
  "in_action d = ''user:list'' \<Longrightarrow> rego_allow d \<longleftrightarrow> rego_is_admin d"
  "in_action d = ''user:delete'' \<Longrightarrow> rego_allow d \<longleftrightarrow> rego_is_admin d"
  "in_action d = ''iam:role:read'' \<Longrightarrow> rego_allow d \<longleftrightarrow> rego_is_admin d"
  "in_action d = ''iam:role:assign'' \<Longrightarrow> rego_allow d \<longleftrightarrow> rego_is_admin d"
  "in_action d = ''iam:role:revoke'' \<Longrightarrow> rego_allow d \<longleftrightarrow> rego_is_admin d"
  "in_action d = ''platform:app:list'' \<Longrightarrow> rego_allow d \<longleftrightarrow> rego_is_admin d"
  "in_action d = ''platform:app:create'' \<Longrightarrow> rego_allow d \<longleftrightarrow> rego_is_admin d"
  "in_action d = ''platform:app:update'' \<Longrightarrow> rego_allow d \<longleftrightarrow> rego_is_admin d"
  "in_action d = ''platform:tenant:plan:update'' \<Longrightarrow> rego_allow d \<longleftrightarrow> rego_is_admin d"
  by (simp_all add: rego_allow_def rego_rules_def rego_action_in_def isTenantPlaneAction_def HasPrefix_def)


lemma content_role_ok:
  "allowContentByTenantRole r a = None \<longleftrightarrow>
     r \<in> {''owner'', ''admin''} \<or> r = ''editor'' \<and> a \<noteq> ''content:schema:write'' \<or>
     r = ''viewer'' \<and> a \<in> {''content:list'', ''content:read''}"
  by (auto simp: allowContentByTenantRole_def)

lemma tenant_plane_agrees_content:
  assumes "Action i \<in> set content_verbs"
  shows "rego_allow (BuildOPAInput s i extra) \<longleftrightarrow> tenant_plane_decision (enriched s extra) i = None"
proof -
  have d: "tenant_plane_decision (enriched s extra) i = None \<longleftrightarrow>
      TenantID s \<noteq> [] \<and> allowContentByTenantRole (TenantRole s) (Action i) = None"
    using assms by (simp add: tenant_plane_decision_def isContentAction_def)
  show ?thesis using assms unfolding d content_verbs_def content_role_ok
    by (simp only: list.set insert_iff empty_iff) (elim disjE; auto simp: rego_content content_write_roles_def)
qed

lemma known_tenant_plane:
  assumes "isTenantPlaneAction (Action i)" and "Action i \<in> set known_actions"
    and "Action i \<notin> set content_verbs"
  shows "Action i \<in> {''tenant:invite:create'', ''tenant:invite:accept'', ''tenant:invite:list'',
      ''tenant:invite:revoke'', ''tenant:member:list'', ''tenant:member:update'', ''tenant:member:remove'',
      ''agent:credential:issue'', ''agent:credential:list'', ''agent:credential:revoke''}"
  using assms by (auto simp: known_actions_def self_actions_def isTenantPlaneAction_def HasPrefix_def)

lemma tenant_plane_agrees_known:
  assumes "UserID s \<noteq> []" and "Action i \<in> set known_actions" and "Action i \<notin> set content_verbs"
    and "isTenantPlaneAction (Action i)"
  shows "rego_allow (BuildOPAInput s i extra) \<longleftrightarrow> tenant_plane_decision (enriched s extra) i = None"
proof -
  note a = known_tenant_plane [OF assms(4,2,3)]
  show ?thesis using a assms(1)
    by (simp only: insert_iff empty_iff)
      (elim disjE; auto simp: rego_tenant tenant_plane_decision_def isContentAction_def content_verbs_def
         owner_or_admin_def)
qed

lemma tenant_plane_agrees:
  assumes "UserID s \<noteq> []" and "isTenantPlaneAction (Action i)"
  shows "rego_allow (BuildOPAInput s i extra) \<longleftrightarrow> tenant_plane_decision (enriched s extra) i = None"
proof (cases "Action i \<in> set known_actions")
  case False
  then show ?thesis using assms rego_unknown_action [of "BuildOPAInput s i extra"]
    by (simp add: known_actions_def content_verbs_def self_actions_def tenant_plane_decision_def
        isContentAction_def)
next
  case True
  then show ?thesis using assms tenant_plane_agrees_content tenant_plane_agrees_known by blast
qed

lemma plain_plane_agrees:
  assumes "canonical_id parse s (ResourceID i)" and "\<not> isTenantPlaneAction (Action i)"
    and "\<not> IsAgent s"
  shows "rego_allow (BuildOPAInput s i extra) \<longleftrightarrow> RBAC_Allow parse (Some (enriched s extra)) i = None"
proof -
  consider "Action i \<notin> set known_actions" | "Action i \<in> set self_actions"
    | "Action i \<in> set known_actions" "Action i \<notin> set self_actions" by blast
  then show ?thesis
  proof cases
    case 1
    then have "Action i \<notin> set self_actions" by (simp add: known_actions_def)
    with 1 assms show ?thesis
      by (auto simp: rego_unknown_action RBAC_Allow_def refuseUnlistedAgentAction_def split: option.split)
  next
    case 2
    then have "\<not> isIAMAction (Action i) \<and> \<not> isPlatformAction (Action i)"
      by (auto simp: self_actions_def isIAMAction_def isPlatformAction_def)
    moreover have "rego_allow (BuildOPAInput s i extra) \<longleftrightarrow>
        ''admin'' \<in> set (Roles s) \<union> set extra \<or> UserID s = ResourceID i"
      using 2 by (auto simp: self_actions_def rego_self)
    ultimately show ?thesis using 2 assms
      by (auto simp: RBAC_Allow_def refuseUnlistedAgentAction_def canonical_id_def split: option.splits)
  next
    case 3
    then have "rego_allow (BuildOPAInput s i extra) \<longleftrightarrow> ''admin'' \<in> set (Roles s) \<union> set extra"
      using assms(2) by (auto simp: known_actions_def content_verbs_def rego_admin isTenantPlaneAction_def HasPrefix_def)
    with 3 assms show ?thesis
      by (auto simp: RBAC_Allow_def refuseUnlistedAgentAction_def split: option.split)
  qed
qed


lemma tenant_plane_denials: "tenant_plane_decision s i \<in> {None, Some forbidden}"
  by (simp add: tenant_plane_decision_def allowContentByTenantRole_def owner_or_admin_def)

lemma gate_denials: "refuseUnlistedAgentAction s a \<in> {None, Some forbidden}"
  by (simp add: refuseUnlistedAgentAction_def)

lemma RBAC_denials_are_forbidden: "RBAC_Allow parse (Some s) i \<in> {None, Some forbidden}"
  using tenant_plane_denials [of s i] gate_denials [of s "Action i"]
  by (cases "refuseUnlistedAgentAction s (Action i)"; cases "parse (ResourceID i)")
    (simp_all add: RBAC_Allow_def)

lemma content_is_tenant_plane: "isContentAction a \<Longrightarrow> isTenantPlaneAction a"
  by (auto simp: isContentAction_def content_verbs_def isTenantPlaneAction_def HasPrefix_def)

lemma rego_content_role:
  "isContentAction (Action i) \<Longrightarrow>
     rego_allow (BuildOPAInput s i extra) \<longleftrightarrow>
       TenantID s \<noteq> [] \<and> allowContentByTenantRole (TenantRole s) (Action i) = None"
  using tenant_plane_agrees_content [of i s extra]
  by (simp add: isContentAction_def tenant_plane_decision_def)

lemma rego_plane_roles:
  assumes "isTenantPlaneAction (Action i)"
  shows "rego_allow (BuildOPAInput (s\<lparr>Roles := rs\<rparr>) i extra) = rego_allow (BuildOPAInput s i extra)"
proof -
  consider "Action i \<in> set content_verbs" | "Action i \<in> set known_actions" "Action i \<notin> set content_verbs"
    | "Action i \<notin> set known_actions" by blast
  then show ?thesis
  proof cases
    case 1
    then have "isContentAction (Action i)" by (simp add: isContentAction_def)
    then show ?thesis by (simp add: rego_content_role)
  next
    case 2
    from known_tenant_plane [OF assms this] show ?thesis
      by (simp only: insert_iff empty_iff) (elim disjE; simp add: rego_tenant)
  next
    case 3
    then show ?thesis using assms by (simp add: rego_unknown_action)
  qed
qed

text \<open>
  C11: the two authorizers decide every request of an authenticated subject alike.  The
  Rego policy sees the roles the facts loader adds, so it is compared with the Go table
  on the subject carrying the merged roles; the resource identifier is canonical, as
  every caller passes \<open>uuid.String()\<close>.
\<close>

theorem opa_agrees_with_rbac:
  assumes "(case facts of None \<Rightarrow> Inr [] | Some roles_for \<Rightarrow> roles_for (UserID s)) = Inr extra"
    and "canonical_id parse s (ResourceID i)"
  shows "OPA_Allow facts (Some s) i = RBAC_Allow parse (Some (enriched s extra)) i"
proof (cases "refuseUnlistedAgentAction s (Action i)")
  case (Some e)
  then show ?thesis by (simp add: OPA_Allow_def RBAC_Allow_def refuseUnlistedAgentAction_def split: if_splits)
next
  case None
  then have gate: "refuseUnlistedAgentAction (enriched s extra) (Action i) = None"
    by (simp add: refuseUnlistedAgentAction_def split: if_splits)
  have opa: "OPA_Allow facts (Some s) i =
      (if rego_allow (BuildOPAInput s i extra) then None else Some forbidden)"
    by (simp add: OPA_Allow_def None assms(1))
  have denial: "RBAC_Allow parse (Some (enriched s extra)) i \<in> {None, Some forbidden}"
    by (rule RBAC_denials_are_forbidden)
  have "rego_allow (BuildOPAInput s i extra) \<longleftrightarrow> RBAC_Allow parse (Some (enriched s extra)) i = None"
  proof (cases "isTenantPlaneAction (Action i)")
    case True
    then show ?thesis using tenant_plane_agrees [of s i extra] assms(2) gate
      by (simp add: RBAC_Allow_def canonical_id_def)
  next
    case False
    then have "\<not> IsAgent s" using None
      by (auto simp: refuseUnlistedAgentAction_def agent_verbs_def isTenantPlaneAction_def HasPrefix_def
          split: if_splits)
    then show ?thesis using plain_plane_agrees assms(2) False by blast
  qed
  then show ?thesis using denial opa by auto
qed

definition sample_subject :: subject where
  "sample_subject =
     \<lparr>UserID = ''u1'', Roles = [], TenantID = ''t1'', TenantRole = ''editor'', Region = [],
      MFAVerified = False, PublicDelivery = False, PreviewEntryID = None, ActorKind = [],
      AgentID = None, PrincipalID = None, AllowedTypes = None, CredentialID = None\<rparr>"

theorem opa_agrees_with_rbac_witness:
  "OPA_Allow (Some (\<lambda>u. Inr [''admin''])) (Some sample_subject)
       \<lparr>Action = ''user:delete'', ResourceType = ''user'', ResourceID = ''u2''\<rparr> =
     RBAC_Allow Some (Some (enriched sample_subject [''admin'']))
       \<lparr>Action = ''user:delete'', ResourceType = ''user'', ResourceID = ''u2''\<rparr>"
  by (rule opa_agrees_with_rbac) (simp_all add: canonical_id_def sample_subject_def)

section \<open>The contract of an authorizer\<close>

locale authorizer =
  fixes allow :: "subject option \<Rightarrow> authz_input \<Rightarrow> go_error option"
  assumes unauthenticated: "allow None i = Some unauthorized"
    and agent_gate: "IsAgent s \<Longrightarrow> Action i \<notin> set agent_verbs \<Longrightarrow> allow (Some s) i = Some forbidden"
    and content_role: "isContentAction (Action i) \<Longrightarrow> allow (Some s) i = None \<Longrightarrow>
          TenantID s \<noteq> [] \<and> allowContentByTenantRole (TenantRole s) (Action i) = None"
    and same_person: "isContentAction (Action i) \<Longrightarrow> allow (Some s) i = None \<Longrightarrow> UserID s' = UserID s \<Longrightarrow>
          TenantID s' = TenantID s \<Longrightarrow> \<not> IsAgent s' \<Longrightarrow>
          allowContentByTenantRole (TenantRole s') (Action i) = None \<Longrightarrow> allow (Some s') i = None"
    and planes_apart: "isTenantPlaneAction (Action i) \<Longrightarrow> allow (Some (s\<lparr>Roles := rs\<rparr>)) i = allow (Some s) i"
begin

lemma agent_verbs_only: "IsAgent s \<Longrightarrow> allow (Some s) i = None \<Longrightarrow> Action i \<in> set agent_verbs"
  using agent_gate by fastforce

lemma viewer_reads_only:
  assumes "isContentAction (Action i)" and "TenantRole s = ''viewer''" and "allow (Some s) i = None"
  shows "Action i \<in> {''content:list'', ''content:read''}"
  using content_role [OF assms(1,3)] assms(2) by (simp add: content_role_ok)

lemma downgraded_reaches_less:
  assumes "IsAgent a" and "UserID m = UserID a" and "TenantID m = TenantID a" and "\<not> IsAgent m"
    and "CanMintAgentRole (TenantRole m) (TenantRole a)" and "allow (Some a) i = None"
  shows "allow (Some m) i = None"
proof -
  have v: "Action i \<in> set agent_verbs" using agent_verbs_only assms(1,6) by blast
  then have c: "isContentAction (Action i)" "Action i \<noteq> ''content:schema:write''"
    by (auto simp: agent_verbs_def isContentAction_def content_verbs_def)
  moreover have "TenantRole m \<in> {''owner'', ''admin''}"
    using assms(5) by (auto simp: CanMintAgentRole_def mintableAgentRoles_def role_defs split: if_splits)
  ultimately have "allowContentByTenantRole (TenantRole m) (Action i) = None"
    by (auto simp: content_role_ok)
  from same_person [OF c(1) assms(6) assms(2,3,4) this] show ?thesis .
qed

end

lemma RBAC_tenant_plane:
  "isTenantPlaneAction (Action i) \<Longrightarrow> RBAC_Allow parse (Some s) i = None \<longleftrightarrow>
     refuseUnlistedAgentAction s (Action i) = None \<and> tenant_plane_decision s i = None"
  by (cases "refuseUnlistedAgentAction s (Action i)") (simp_all add: RBAC_Allow_def)

lemma content_decision:
  "isContentAction (Action i) \<Longrightarrow> tenant_plane_decision s i = None \<longleftrightarrow>
     TenantID s \<noteq> [] \<and> allowContentByTenantRole (TenantRole s) (Action i) = None"
  by (simp add: tenant_plane_decision_def)

interpretation rbac: authorizer "RBAC_Allow parse" for parse
proof
  fix i :: authz_input
  show "RBAC_Allow parse None i = Some unauthorized" by (simp add: RBAC_Allow_def)
next
  fix i :: authz_input and s :: subject assume "IsAgent s" "Action i \<notin> set agent_verbs"
  then show "RBAC_Allow parse (Some s) i = Some forbidden"
    by (simp add: RBAC_Allow_def refuseUnlistedAgentAction_def)
next
  fix i :: authz_input and s :: subject
  assume "isContentAction (Action i)" "RBAC_Allow parse (Some s) i = None"
  then show "TenantID s \<noteq> [] \<and> allowContentByTenantRole (TenantRole s) (Action i) = None"
    by (simp add: RBAC_tenant_plane content_is_tenant_plane content_decision)
next
  fix i :: authz_input and s s' :: subject
  assume "isContentAction (Action i)" "RBAC_Allow parse (Some s) i = None" "TenantID s' = TenantID s"
    "\<not> IsAgent s'" "allowContentByTenantRole (TenantRole s') (Action i) = None"
  then show "RBAC_Allow parse (Some s') i = None"
    by (simp add: RBAC_tenant_plane content_is_tenant_plane content_decision refuseUnlistedAgentAction_def)
next
  fix i :: authz_input and s :: subject and rs assume t: "isTenantPlaneAction (Action i)"
  have "refuseUnlistedAgentAction (s\<lparr>Roles := rs\<rparr>) a = refuseUnlistedAgentAction s a"
    and "tenant_plane_decision (s\<lparr>Roles := rs\<rparr>) i = tenant_plane_decision s i" for a
    by (simp_all add: refuseUnlistedAgentAction_def IsAgent_def tenant_plane_decision_def owner_or_admin_def)
  with t show "RBAC_Allow parse (Some (s\<lparr>Roles := rs\<rparr>)) i = RBAC_Allow parse (Some s) i"
    by (simp add: RBAC_Allow_def split: option.split)
qed

interpretation opa: authorizer "OPA_Allow facts" for facts
proof
  fix i :: authz_input and s :: subject assume "IsAgent s" "Action i \<notin> set agent_verbs"
  then show "OPA_Allow facts (Some s) i = Some forbidden"
    by (simp add: OPA_Allow_def refuseUnlistedAgentAction_def)
next
  fix i :: authz_input and s :: subject assume c: "isContentAction (Action i)" and a: "OPA_Allow facts (Some s) i = None"
  show "TenantID s \<noteq> [] \<and> allowContentByTenantRole (TenantRole s) (Action i) = None"
    using a rego_content_role [OF c]
    by (auto simp: OPA_Allow_def split: option.splits sum.splits if_splits)
next
  fix i :: authz_input and s s' :: subject assume c: "isContentAction (Action i)" and a: "OPA_Allow facts (Some s) i = None"
    and s': "UserID s' = UserID s" "TenantID s' = TenantID s" "\<not> IsAgent s'"
    and r: "allowContentByTenantRole (TenantRole s') (Action i) = None"
  show "OPA_Allow facts (Some s') i = None"
    using a s' r rego_content_role [OF c]
    by (auto simp: OPA_Allow_def refuseUnlistedAgentAction_def split: option.splits sum.splits if_splits)
next
  fix i :: authz_input and s :: subject and rs assume "isTenantPlaneAction (Action i)"
  then show "OPA_Allow facts (Some (s\<lparr>Roles := rs\<rparr>)) i = OPA_Allow facts (Some s) i"
    by (auto simp: OPA_Allow_def refuseUnlistedAgentAction_def IsAgent_def rego_plane_roles
        split: option.splits sum.splits if_splits)
qed (simp add: OPA_Allow_def)


text \<open>
  C15: a platform role opens no tenant-plane action.  Whatever \<open>Roles\<close> a subject carries,
  the decision on a \<open>content:\<close>, \<open>tenant:invite:\<close>, \<open>tenant:member:\<close> or \<open>agent:\<close> verb is
  the one its tenant claims alone give, under both authorizers.
\<close>

theorem platform_roles_reach_no_tenant_plane:
  assumes "isTenantPlaneAction (Action i)"
  shows "RBAC_Allow parse (Some (s\<lparr>Roles := rs\<rparr>)) i = RBAC_Allow parse (Some s) i \<and>
    OPA_Allow facts (Some (s\<lparr>Roles := rs\<rparr>)) i = OPA_Allow facts (Some s) i"
  using rbac.planes_apart [OF assms] opa.planes_apart [OF assms] by blast

theorem platform_roles_reach_no_tenant_plane_witness:
  "RBAC_Allow Some (Some (sample_subject\<lparr>Roles := [''admin'']\<rparr>))
       \<lparr>Action = ''content:schema:write'', ResourceType = [], ResourceID = ''u1''\<rparr> = Some forbidden"
proof -
  have "RBAC_Allow Some (Some (sample_subject\<lparr>Roles := [''admin'']\<rparr>))
       \<lparr>Action = ''content:schema:write'', ResourceType = [], ResourceID = ''u1''\<rparr> =
     RBAC_Allow Some (Some sample_subject)
       \<lparr>Action = ''content:schema:write'', ResourceType = [], ResourceID = ''u1''\<rparr>"
    by (rule conjunct1 [OF platform_roles_reach_no_tenant_plane]) (simp add: isTenantPlaneAction_def HasPrefix_def)
  then show ?thesis
    by (simp add: RBAC_Allow_def sample_subject_def refuseUnlistedAgentAction_def IsAgent_def
        ActorKindAgent_def isTenantPlaneAction_def HasPrefix_def tenant_plane_decision_def
        isContentAction_def content_verbs_def allowContentByTenantRole_def)
qed

section \<open>Logging of decisions\<close>

text \<open>
  \<open>DecoratedAuthorizer.Allow\<close>: the wrapped authorizer's answer, and the record handed to
  the logger when one is built.  Clock readings, the request id and the policy label are
  left out of the record.
\<close>

record decision =
  dec_input :: "opa_input"
  dec_allowed :: bool
  dec_reason :: string
  dec_err :: "go_error option"

definition DecisionLogOff :: string where "DecisionLogOff = ''off''"
definition DecisionLogDeny :: string where "DecisionLogDeny = ''deny''"
definition DecisionLogAll :: string where "DecisionLogAll = ''all''"

definition ParseDecisionLogPolicy :: "string \<Rightarrow> string option" where
  "ParseDecisionLogPolicy raw =
     (let p = ToLower (TrimSpace raw) in
      if p = [] \<or> p = ''deny'' then Some DecisionLogDeny
      else if p = ''off'' then Some DecisionLogOff
      else if p = ''all'' then Some DecisionLogAll
      else None)"

definition Decorated_Allow ::
  "(subject option \<Rightarrow> authz_input \<Rightarrow> go_error option) \<Rightarrow> string \<Rightarrow> subject option \<Rightarrow> authz_input \<Rightarrow>
     go_error option \<times> decision option" where
  "Decorated_Allow inner policy ctx i =
     (let err = inner ctx i in
      if policy = DecisionLogOff then (err, None)
      else if err = None \<and> policy \<noteq> DecisionLogAll then (None, None)
      else
        (err, Some
          \<lparr>dec_input = (case ctx of
              Some s \<Rightarrow> BuildOPAInput s i []
            | None \<Rightarrow> \<lparr>in_user_id = [], in_roles = [], in_tenant_role = None, in_action = Action i,
                       in_resource_id = ResourceID i, in_tenant_id = None\<rparr>),
           dec_allowed = (err = None),
           dec_reason = (case err of None \<Rightarrow> [] | Some e \<Rightarrow> if isEvalError e then [] else reasonFromError e),
           dec_err = (case err of None \<Rightarrow> None | Some e \<Rightarrow> if isEvalError e then Some e else None)\<rparr>))"

text \<open>
  C25: wrapping an authorizer in the decision log never changes a decision, and under every
  policy but \<open>off\<close> each refusal is logged with the refused action and the code or the
  failure behind it.
\<close>

theorem decision_log_is_transparent_and_complete:
  "fst (Decorated_Allow inner policy ctx i) = inner ctx i \<and>
   (case snd (Decorated_Allow inner policy ctx i) of
      None \<Rightarrow> policy = DecisionLogOff \<or> inner ctx i = None
    | Some d \<Rightarrow> in_action (dec_input d) = Action i \<and> dec_allowed d = (inner ctx i = None) \<and>
        (case inner ctx i of
           None \<Rightarrow> policy = DecisionLogAll \<and> dec_err d = None
         | Some (AppError e) \<Rightarrow> dec_reason d = err_code e \<and> dec_err d = None
         | Some (PlainError m) \<Rightarrow> dec_err d = Some (PlainError m)))"
  by (auto simp: Decorated_Allow_def Let_def isEvalError_def reasonFromError_def
      split: option.split go_error.split)

end
