(* ===== verification/Entry_Permissions.thy ===== *)
theory Entry_Permissions
  imports Authz Payload_Validation
begin

text \<open>
  Who may touch which entries, and which keys of them:
  \<open>service/field_permission.go\<close>, \<open>service/type_permission.go\<close> and the chokepoint every
  content request passes, \<open>authorize\<close> of \<open>service/content_service.go\<close> with the scope of an
  agent credential.  The authorizer is the parameter \<open>allow\<close>; the request context is the
  optional subject it carries.
\<close>

section \<open>Raw documents\<close>

text \<open>
  A \<open>json.RawMessage\<close>: no bytes, text that is not JSON, or the text of a value.
  \<open>json.Unmarshal\<close> into a map succeeds on an object, and on \<open>null\<close>, which leaves the nil
  map; the nil map reads as empty and is written as \<open>null\<close> again.
\<close>

datatype raw_json = NoBytes | BadText | Text json

datatype go_map = NilMap | GoMap doc

fun as_map :: "raw_json \<Rightarrow> go_map option" where
  "as_map (Text (JObj d)) = Some (GoMap d)"
| "as_map (Text JNull) = Some NilMap"
| "as_map _ = None"

fun entries_of :: "go_map \<Rightarrow> doc" where
  "entries_of NilMap = []"
| "entries_of (GoMap d) = d"

fun marshal_map :: "go_map \<Rightarrow> raw_json" where
  "marshal_map NilMap = Text JNull"
| "marshal_map (GoMap d) = Text (JObj d)"

definition keys_of :: "doc \<Rightarrow> string list" where
  "keys_of d = map fst d"

definition without_keys :: "string list \<Rightarrow> doc \<Rightarrow> doc" where
  "without_keys ks d = filter (\<lambda>(k, v). k \<notin> set ks) d"

definition with_keys :: "string list \<Rightarrow> doc \<Rightarrow> doc" where
  "with_keys ks d = filter (\<lambda>(k, v). k \<in> set ks) d"

fun delete_keys :: "string list \<Rightarrow> go_map \<Rightarrow> go_map" where
  "delete_keys ks NilMap = NilMap"
| "delete_keys ks (GoMap d) = GoMap (without_keys ks d)"

lemma without_keys_lookup: "map_of (without_keys ks d) k = (if k \<in> set ks then None else map_of d k)"
  unfolding without_keys_def by (induction d) auto

lemma with_keys_lookup: "map_of (with_keys ks d) k = (if k \<in> set ks then map_of d k else None)"
  unfolding with_keys_def by (induction d) auto

lemma set_without_keys [simp]: "fst ` set (without_keys ks d) = fst ` set d - set ks"
  by (auto simp: without_keys_def image_iff)

lemma set_with_keys [simp]: "fst ` set (with_keys ks d) = fst ` set d \<inter> set ks"
  by (auto simp: with_keys_def image_iff)

section \<open>Fields\<close>

definition err403 :: "string \<Rightarrow> (string \<times> detail) list \<Rightarrow> app_error" where
  "err403 code ds = WithDetails (New code 403) ds"

definition errFieldWriteForbidden :: "string \<Rightarrow> string list \<Rightarrow> app_error" where
  "errFieldWriteForbidden key allowed =
     err403 ''CONTENT_FIELD_WRITE_FORBIDDEN'' [(''field'', DStr key), (''allowed_roles'', DStrs allowed)]"

definition errFieldRequiredNotWritable :: "string \<Rightarrow> string list \<Rightarrow> app_error" where
  "errFieldRequiredNotWritable key allowed =
     err403 ''CONTENT_FIELD_REQUIRED_NOT_WRITABLE'' [(''field'', DStr key), (''allowed_roles'', DStrs allowed)]"

definition errFieldQueryForbidden :: "string \<Rightarrow> string \<Rightarrow> app_error" where
  "errFieldQueryForbidden key clause =
     err403 ''CONTENT_FIELD_QUERY_FORBIDDEN'' [(''field'', DStr key), (''clause'', DStr clause)]"

definition canReadField :: "field \<Rightarrow> subject \<Rightarrow> bool" where
  "canReadField f sub =
     (if ReadRoles f = [] then True
      else if PublicDelivery sub then False
      else ReadableBy f (TenantRole sub))"

definition canWriteField :: "field \<Rightarrow> subject \<Rightarrow> bool" where
  "canWriteField f sub = (if \<not> canReadField f sub then False else WritableBy f (TenantRole sub))"

text \<open>The roles that may really write, which is what a refusal reports; shared by both levels.\<close>

definition effective_roles :: "string list \<Rightarrow> string list \<Rightarrow> string list" where
  "effective_roles readers writers =
     (if readers = [] then writers
      else if writers = [] then readers
      else filter (\<lambda>r. r \<in> set readers) writers)"

definition effectiveWriteRoles :: "field \<Rightarrow> string list" where
  "effectiveWriteRoles f = effective_roles (ReadRoles f) (WriteRoles f)"

definition unreadableKeys :: "field list \<Rightarrow> subject \<Rightarrow> string list" where
  "unreadableKeys fs sub = map Key (filter (\<lambda>f. \<not> canReadField f sub) fs)"

definition stripKeys :: "raw_json \<Rightarrow> string list \<Rightarrow> raw_json" where
  "stripKeys raw keys =
     (if keys = [] \<or> raw = NoBytes then raw
      else case as_map raw of
             None \<Rightarrow> Text (JObj [])
           | Some m \<Rightarrow> marshal_map (delete_keys keys m))"

definition keepKeys :: "raw_json \<Rightarrow> string list \<Rightarrow> raw_json" where
  "keepKeys raw keys =
     (if keys = [] \<or> raw = NoBytes then raw
      else case as_map raw of
             None \<Rightarrow> Text (JObj [])
           | Some m \<Rightarrow> Text (JObj (with_keys keys (entries_of m))))"

definition errPayloadInvalid :: app_error where
  "errPayloadInvalid = New ''CONTENT_PAYLOAD_INVALID'' 400"

definition payloadKeys :: "raw_json \<Rightarrow> app_error + string list" where
  "payloadKeys raw =
     (if raw = NoBytes then Inr []
      else case as_map raw of
             None \<Rightarrow> Inl errPayloadInvalid
           | Some m \<Rightarrow> Inr (sort (keys_of (entries_of m))))"

definition anyRestricted :: "field list \<Rightarrow> bool" where
  "anyRestricted fs = list_ex Restricted fs"

definition refuse_unwritable :: "field list \<Rightarrow> subject \<Rightarrow> string \<Rightarrow> app_error option" where
  "refuse_unwritable fs sub k =
     (case FieldByKey fs k of
        None \<Rightarrow> None
      | Some f \<Rightarrow> if \<not> canWriteField f sub
                  then Some (errFieldWriteForbidden k (effectiveWriteRoles f)) else None)"

definition guardWritableKeys :: "content_type \<Rightarrow> subject \<Rightarrow> raw_json \<Rightarrow> app_error option" where
  "guardWritableKeys ct sub payload =
     (if \<not> anyRestricted (ct_Fields ct) then None
      else case payloadKeys payload of
             Inl e \<Rightarrow> Some e
           | Inr keys \<Rightarrow> first_error (refuse_unwritable (ct_Fields ct) sub) keys)"

definition guardRequiredWritable :: "content_type \<Rightarrow> subject \<Rightarrow> app_error option" where
  "guardRequiredWritable ct sub =
     first_error (\<lambda>f. if Required f \<and> \<not> canWriteField f sub
                      then Some (errFieldRequiredNotWritable (Key f) (effectiveWriteRoles f)) else None)
       (ct_Fields ct)"

section \<open>Collections\<close>

definition errTypeReadForbidden :: "string \<Rightarrow> string list \<Rightarrow> app_error" where
  "errTypeReadForbidden typeName allowed =
     err403 ''CONTENT_TYPE_READ_FORBIDDEN'' [(''type'', DStr typeName), (''allowed_roles'', DStrs allowed)]"

definition errTypeWriteForbidden :: "string \<Rightarrow> string list \<Rightarrow> app_error" where
  "errTypeWriteForbidden typeName allowed =
     err403 ''CONTENT_TYPE_WRITE_FORBIDDEN'' [(''type'', DStr typeName), (''allowed_roles'', DStrs allowed)]"

definition canReadType :: "content_type \<Rightarrow> subject \<Rightarrow> bool" where
  "canReadType ct sub =
     (if ct_ReadRoles ct = [] then True
      else if PublicDelivery sub then False
      else EntriesReadableBy ct (TenantRole sub))"

definition canWriteType :: "content_type \<Rightarrow> subject \<Rightarrow> bool" where
  "canWriteType ct sub = (if \<not> canReadType ct sub then False else EntriesWritableBy ct (TenantRole sub))"

definition effectiveTypeWriteRoles :: "content_type \<Rightarrow> string list" where
  "effectiveTypeWriteRoles ct = effective_roles (ct_ReadRoles ct) (ct_WriteRoles ct)"

definition guardTypeRead :: "content_type \<Rightarrow> subject \<Rightarrow> app_error option" where
  "guardTypeRead ct sub =
     (if canReadType ct sub then None else Some (errTypeReadForbidden (ct_Name ct) (ct_ReadRoles ct)))"

definition guardTypeWrite :: "content_type \<Rightarrow> subject \<Rightarrow> app_error option" where
  "guardTypeWrite ct sub =
     (if canWriteType ct sub then None
      else Some (errTypeWriteForbidden (ct_Name ct) (effectiveTypeWriteRoles ct)))"

text \<open>Which copy of an entry a credential is shown (\<open>service/dto.go\<close>).\<close>

datatype audience = audienceUnset | audienceAdmin | audienceDelivery | audiencePreview

definition audienceFor :: "subject \<Rightarrow> audience" where
  "audienceFor sub =
     (if PublicDelivery sub
      then if PreviewEntryID sub \<noteq> None then audiencePreview else audienceDelivery
      else audienceAdmin)"

definition guardPreviewCollection :: "subject \<Rightarrow> app_error option" where
  "guardPreviewCollection sub =
     (if audienceFor sub \<noteq> audiencePreview then None
      else Some (New ''CONTENT_PREVIEW_SCOPE_EXCEEDED'' 403))"

definition confinedAuthor :: "content_type \<Rightarrow> subject \<Rightarrow> uuid option" where
  "confinedAuthor ct sub =
     (if PublicDelivery sub \<or> \<not> ConfinesToOwn ct (TenantRole sub) then None
      else Some (ResponsibleUserID sub))"

text \<open>\<open>guardOwned\<close> reads one column of the row, its author.\<close>

definition guardOwned :: "content_type \<Rightarrow> subject \<Rightarrow> uuid option \<Rightarrow> app_error option" where
  "guardOwned ct sub createdBy =
     (case confinedAuthor ct sub of
        None \<Rightarrow> None
      | Some author \<Rightarrow>
          (case createdBy of
             Some c \<Rightarrow> if c = author then None else Some ErrNotFound
           | None \<Rightarrow> Some ErrNotFound))"

section \<open>The chokepoint\<close>

definition ErrNoTenant :: app_error where "ErrNoTenant = New ''CONTENT_NO_TENANT'' 403"

definition isReadAction :: "string \<Rightarrow> bool" where
  "isReadAction action \<longleftrightarrow> action \<in> set [''content:list'', ''content:read'']"

definition refuseUnscopedAgentCredential :: "subject \<Rightarrow> app_error option" where
  "refuseUnscopedAgentCredential sub =
     (if \<not> IsAgent sub then None
      else if AllowedTypes sub = None then Some (New ''CONTENT_AGENT_SCOPE_UNSET'' 403)
      else if PrincipalID sub = None then Some (New ''CONTENT_AGENT_PRINCIPAL_MISSING'' 403)
      else None)"

definition refuseContentType :: "string \<Rightarrow> app_error" where
  "refuseContentType contentType =
     WithDetail (New ''CONTENT_AGENT_TYPE_NOT_ALLOWED'' 403) ''content_type'' (DStr contentType)"

definition refuseOutsideAgentScope :: "subject \<Rightarrow> string \<Rightarrow> app_error option" where
  "refuseOutsideAgentScope sub contentType =
     (case refuseUnscopedAgentCredential sub of
        Some e \<Rightarrow> Some e
      | None \<Rightarrow>
          if \<not> IsAgent sub then None
          else if contentType = [] then Some (New ''CONTENT_AGENT_SCOPE_UNTYPED'' 403)
          else if \<not> AllowsContentType sub contentType then Some (refuseContentType contentType)
          else None)"

definition refuseArtifactOutsideAgentScope :: "subject \<Rightarrow> string list \<Rightarrow> app_error option" where
  "refuseArtifactOutsideAgentScope sub type_names =
     (case refuseUnscopedAgentCredential sub of
        Some e \<Rightarrow> Some e
      | None \<Rightarrow>
          if \<not> IsAgent sub then None
          else first_error (\<lambda>n. if \<not> AllowsContentType sub n then Some (refuseContentType n) else None)
                 type_names)"

type_synonym allow = "subject option \<Rightarrow> authz_input \<Rightarrow> go_error option"

definition authorizeAgentScope ::
    "allow \<Rightarrow> (subject \<Rightarrow> app_error option) \<Rightarrow> subject option \<Rightarrow> string \<Rightarrow> string \<Rightarrow> go_error + subject" where
  "authorizeAgentScope allow agentScope ctx action resourceID =
     (case ctx of
        None \<Rightarrow> Inl unauthorized
      | Some sub \<Rightarrow>
          if TenantID sub = [] then Inl (AppError ErrNoTenant)
          else if PublicDelivery sub \<and> \<not> isReadAction action then Inl forbidden
          else case agentScope sub of
                 Some e \<Rightarrow> Inl (AppError e)
               | None \<Rightarrow>
                   (case allow ctx \<lparr>Action = action, ResourceType = ''content'', ResourceID = resourceID\<rparr> of
                      Some e \<Rightarrow> Inl e
                    | None \<Rightarrow> Inr sub))"

definition authorize :: "allow \<Rightarrow> subject option \<Rightarrow> string \<Rightarrow> string \<Rightarrow> string \<Rightarrow> go_error + subject" where
  "authorize allow ctx action resourceID contentType =
     authorizeAgentScope allow (\<lambda>sub. refuseOutsideAgentScope sub contentType) ctx action resourceID"

definition authorizeArtifact ::
    "allow \<Rightarrow> subject option \<Rightarrow> string \<Rightarrow> string \<Rightarrow> string list \<Rightarrow> go_error + subject" where
  "authorizeArtifact allow ctx action resourceID type_names =
     authorizeAgentScope allow (\<lambda>sub. refuseArtifactOutsideAgentScope sub type_names) ctx action resourceID"

section \<open>Who wrote it\<close>

definition ActorKindHuman :: string where "ActorKindHuman = ''human''"

definition actor :: "subject \<Rightarrow> uuid option" where
  "actor sub =
     (let id = ResponsibleUserID sub in
      if PublicDelivery sub \<or> id = uuid_Nil then None else Some id)"

type_synonym provenance = "uuid option \<times> string \<times> string option"

definition provenanceOf :: "subject \<Rightarrow> provenance" where
  "provenanceOf sub =
     (if \<not> IsAgent sub then (actor sub, ActorKindHuman, None)
      else (actor sub, ActorKindAgent, AgentID sub))"

section \<open>Facts\<close>

lemma err403_simps [simp]: "err_code (err403 c ds) = c" "err_status (err403 c ds) = 403"
  by (simp_all add: err403_def)

lemma unrestricted_open: "\<not> Restricted f \<Longrightarrow> canReadField f sub \<and> canWriteField f sub"
  by (simp add: Restricted_def canReadField_def canWriteField_def WritableBy_def roleAllowed_def)

lemma write_needs_read: "canWriteField f sub \<Longrightarrow> canReadField f sub"
  by (simp add: canWriteField_def split: if_splits)

lemma canWriteField_iff: "canWriteField f sub \<longleftrightarrow> canReadField f sub \<and> WritableBy f (TenantRole sub)"
  by (simp add: canWriteField_def)

lemma unreadable_iff: "k \<in> set (unreadableKeys fs sub) \<longleftrightarrow> (\<exists>f \<in> set fs. Key f = k \<and> \<not> canReadField f sub)"
  by (auto simp: unreadableKeys_def)

text \<open>
  Only the tenant role and the kind of credential decide; a refused writer is told exactly
  the roles that would have been let through.
\<close>

definition holding_role :: "string \<Rightarrow> subject \<Rightarrow> subject" where
  "holding_role r sub = sub\<lparr>TenantRole := r, PublicDelivery := False\<rparr>"

lemma effective_roles_exact:
  assumes "readers \<noteq> [] \<or> writers \<noteq> []"
  shows "r \<in> set (effective_roles readers writers) \<longleftrightarrow> roleAllowed readers r \<and> roleAllowed writers r"
  using assms by (auto simp: effective_roles_def roleAllowed_def)

lemma effectiveWriteRoles_exact:
  assumes "\<not> canWriteField f sub"
  shows "r \<in> set (effectiveWriteRoles f) \<longleftrightarrow> canWriteField f (holding_role r sub)"
proof -
  have "Restricted f" using assms unrestricted_open by blast
  then have "r \<in> set (effectiveWriteRoles f) \<longleftrightarrow> roleAllowed (ReadRoles f) r \<and> roleAllowed (WriteRoles f) r"
    by (simp add: effectiveWriteRoles_def effective_roles_exact Restricted_def)
  also have "\<dots> \<longleftrightarrow> canWriteField f (holding_role r sub)"
    by (auto simp: canWriteField_def canReadField_def ReadableBy_def WritableBy_def roleAllowed_def holding_role_def)
  finally show ?thesis .
qed

lemma effectiveTypeWriteRoles_exact:
  assumes "\<not> canWriteType ct sub"
  shows "r \<in> set (effectiveTypeWriteRoles ct) \<longleftrightarrow> canWriteType ct (holding_role r sub)"
proof -
  have "ct_ReadRoles ct \<noteq> [] \<or> ct_WriteRoles ct \<noteq> []"
    using assms by (auto simp: canWriteType_def canReadType_def EntriesWritableBy_def roleAllowed_def)
  then show ?thesis
    by (auto simp: effectiveTypeWriteRoles_def effective_roles_exact canWriteType_def canReadType_def
        EntriesReadableBy_def EntriesWritableBy_def roleAllowed_def holding_role_def)
qed

lemma guardTypeRead_None [simp]: "guardTypeRead ct sub = None \<longleftrightarrow> canReadType ct sub"
  by (simp add: guardTypeRead_def)

lemma guardTypeWrite_None [simp]: "guardTypeWrite ct sub = None \<longleftrightarrow> canWriteType ct sub"
  by (simp add: guardTypeWrite_def)

lemma guardOwned_None:
  "guardOwned ct sub createdBy = None \<longleftrightarrow>
     (confinedAuthor ct sub = None \<or> (\<exists>c. createdBy = Some c \<and> confinedAuthor ct sub = Some c))"
  by (auto simp: guardOwned_def split: option.splits)

lemma refuse_unwritable_None:
  "refuse_unwritable fs sub k = None \<longleftrightarrow> (\<forall>f. FieldByKey fs k = Some f \<longrightarrow> canWriteField f sub)"
  by (auto simp: refuse_unwritable_def split: option.split)

lemma payloadKeys_object: "payloadKeys (Text (JObj d)) = Inr (sort (map fst d))"
  by (simp add: payloadKeys_def keys_of_def)

text \<open>Skipping the gate on an unrestricted type changes no answer.\<close>

lemma gate_shortcut:
  "guardWritableKeys ct sub (Text (JObj d)) = first_error (refuse_unwritable (ct_Fields ct) sub) (sort (map fst d))"
proof (cases "anyRestricted (ct_Fields ct)")
  case True
  then show ?thesis by (simp add: guardWritableKeys_def payloadKeys_object del: first_error_None)
next
  case False
  have "refuse_unwritable (ct_Fields ct) sub k = None" for k
    unfolding refuse_unwritable_None
  proof (intro allI impI)
    fix f assume "FieldByKey (ct_Fields ct) k = Some f"
    then have "\<not> Restricted f" using False FieldByKey_Some by (auto simp: anyRestricted_def list_ex_iff)
    then show "canWriteField f sub" using unrestricted_open by blast
  qed
  then have "first_error (refuse_unwritable (ct_Fields ct) sub) (sort (map fst d)) = None" by simp
  with False show ?thesis by (simp add: guardWritableKeys_def del: first_error_None)
qed

lemma guardWritableKeys_None:
  "guardWritableKeys ct sub (Text (JObj d)) = None \<longleftrightarrow>
     (\<forall>k \<in> fst ` set d. \<forall>f. FieldByKey (ct_Fields ct) k = Some f \<longrightarrow> canWriteField f sub)"
  by (simp add: gate_shortcut refuse_unwritable_None)

lemma guardWritableKeys_Some:
  assumes "guardWritableKeys ct sub (Text (JObj d)) = Some e"
  shows "\<exists>k f. k \<in> fst ` set d \<and> FieldByKey (ct_Fields ct) k = Some f \<and> \<not> canWriteField f sub \<and>
    e = errFieldWriteForbidden k (effectiveWriteRoles f)"
  using first_error_Some [OF assms [unfolded gate_shortcut]]
  by (auto simp: refuse_unwritable_def split: option.splits if_splits)

lemma authorize_Inr:
  "authorizeAgentScope allow scope ctx action rid = Inr sub \<longleftrightarrow>
     ctx = Some sub \<and> TenantID sub \<noteq> [] \<and> (PublicDelivery sub \<longrightarrow> isReadAction action) \<and> scope sub = None \<and>
     allow ctx \<lparr>Action = action, ResourceType = ''content'', ResourceID = rid\<rparr> = None"
  by (auto simp: authorizeAgentScope_def split: option.splits)

lemma scope_None:
  "refuseOutsideAgentScope sub contentType = None \<longleftrightarrow>
     (IsAgent sub \<longrightarrow> (\<exists>ts. AllowedTypes sub = Some ts \<and> contentType \<in> set ts) \<and> contentType \<noteq> [] \<and>
        PrincipalID sub \<noteq> None)"
  by (auto simp: refuseOutsideAgentScope_def refuseUnscopedAgentCredential_def AllowsContentType_def
      split: option.splits)

lemma artifact_scope_None:
  "refuseArtifactOutsideAgentScope sub names = None \<longleftrightarrow>
     (IsAgent sub \<longrightarrow> (\<exists>ts. AllowedTypes sub = Some ts \<and> set names \<subseteq> set ts) \<and> [] \<notin> set names \<and>
        PrincipalID sub \<noteq> None)"
  by (auto simp: refuseArtifactOutsideAgentScope_def refuseUnscopedAgentCredential_def AllowsContentType_def
      split: option.splits if_splits)

lemma scope_responsible:
  "refuseUnscopedAgentCredential sub = None \<Longrightarrow> IsAgent sub \<Longrightarrow> PrincipalID sub = Some p \<Longrightarrow>
     ResponsibleUserID sub = p"
  by (simp add: ResponsibleUserID_def)

section \<open>Properties\<close>

text \<open>
  the field write gate.  A document passes exactly when the caller may write every key of
  it the schema defines, which includes being allowed to read it; a refusal names a key the
  caller sent, and the roles it reports are exactly those that would have been let through.
\<close>

theorem field_write_gate:
  "(guardWritableKeys ct sub (Text (JObj d)) = None \<longleftrightarrow>
      (\<forall>k \<in> fst ` set d. \<forall>f. FieldByKey (ct_Fields ct) k = Some f \<longrightarrow>
         canReadField f sub \<and> WritableBy f (TenantRole sub))) \<and>
   (\<forall>e. guardWritableKeys ct sub (Text (JObj d)) = Some e \<longrightarrow>
      (\<exists>k f allowed. k \<in> fst ` set d \<and> FieldByKey (ct_Fields ct) k = Some f \<and>
         e = errFieldWriteForbidden k allowed \<and>
         (\<forall>r. r \<in> set allowed \<longleftrightarrow> canWriteField f (holding_role r sub))))"
proof (intro conjI allI impI)
  show "guardWritableKeys ct sub (Text (JObj d)) = None \<longleftrightarrow>
      (\<forall>k \<in> fst ` set d. \<forall>f. FieldByKey (ct_Fields ct) k = Some f \<longrightarrow>
         canReadField f sub \<and> WritableBy f (TenantRole sub))"
    unfolding guardWritableKeys_None canWriteField_iff ..
next
  fix e assume "guardWritableKeys ct sub (Text (JObj d)) = Some e"
  from guardWritableKeys_Some [OF this] show "\<exists>k f allowed. k \<in> fst ` set d \<and>
      FieldByKey (ct_Fields ct) k = Some f \<and> e = errFieldWriteForbidden k allowed \<and>
      (\<forall>r. r \<in> set allowed \<longleftrightarrow> canWriteField f (holding_role r sub))"
    using effectiveWriteRoles_exact by metis
qed

definition salary_field :: field where
  "salary_field = Field (zero_attrs\<lparr>f_Key := ''salary'', f_Type := FieldTypeNumber,
     f_ReadRoles := [''owner''], f_WriteRoles := []\<rparr>) [] []"

definition staff_type :: content_type where
  "staff_type = \<lparr>ct_Name = ''staff'', ct_Label = [], ct_Fields = [salary_field], ct_ReadRoles = [],
     ct_WriteRoles = [], ct_OwnOnlyRoles = []\<rparr>"

theorem field_write_gate_witness:
  "guardWritableKeys staff_type sample_subject (Text (JObj [(''salary'', JNum (Fin 0))])) =
     Some (errFieldWriteForbidden ''salary'' [''owner'']) \<and>
   (\<exists>k f allowed. k \<in> {''salary''} \<and> FieldByKey (ct_Fields staff_type) k = Some f \<and>
      errFieldWriteForbidden ''salary'' [''owner''] = errFieldWriteForbidden k allowed \<and>
      (\<forall>r. r \<in> set allowed \<longleftrightarrow> canWriteField f (holding_role r sample_subject)))"
proof
  show r: "guardWritableKeys staff_type sample_subject (Text (JObj [(''salary'', JNum (Fin 0))])) =
     Some (errFieldWriteForbidden ''salary'' [''owner''])"
    by (simp add: gate_shortcut staff_type_def salary_field_def zero_attrs_def refuse_unwritable_def
        FieldByKey_def canWriteField_def canReadField_def ReadableBy_def roleAllowed_def sample_subject_def
        effectiveWriteRoles_def effective_roles_def)
  show "\<exists>k f allowed. k \<in> {''salary''} \<and> FieldByKey (ct_Fields staff_type) k = Some f \<and>
      errFieldWriteForbidden ''salary'' [''owner''] = errFieldWriteForbidden k allowed \<and>
      (\<forall>r. r \<in> set allowed \<longleftrightarrow> canWriteField f (holding_role r sample_subject))"
    using conjunct2 [OF field_write_gate, THEN spec, THEN mp, OF r] by simp
qed

text \<open>
  what passes the chokepoint.  Under either authorizer an authorised content request has a
  subject with a tenant, a delivery credential only reads, and an agent credential only uses
  the verbs opened to agents, names a content type of its whitelist, and has a principal, the
  one its writes are recorded under.
\<close>

theorem authorised_content_requests:
  assumes "allow = RBAC_Allow parse \<or> allow = OPA_Allow facts"
    and "authorize allow ctx action rid contentType = Inr sub"
  shows "ctx = Some sub \<and> TenantID sub \<noteq> [] \<and>
    (PublicDelivery sub \<longrightarrow> action \<in> {''content:list'', ''content:read''}) \<and>
    (IsAgent sub \<longrightarrow> action \<in> set agent_verbs \<and>
       (\<exists>ts p. AllowedTypes sub = Some ts \<and> contentType \<in> set ts \<and> contentType \<noteq> [] \<and>
          PrincipalID sub = Some p \<and>
          (\<not> PublicDelivery sub \<and> p \<noteq> uuid_Nil \<longrightarrow> provenanceOf sub = (Some p, ActorKindAgent, AgentID sub))))"
proof -
  let ?i = "\<lparr>Action = action, ResourceType = ''content'', ResourceID = rid\<rparr>"
  from assms(2) have a: "ctx = Some sub" "TenantID sub \<noteq> []" "PublicDelivery sub \<longrightarrow> isReadAction action"
    "refuseOutsideAgentScope sub contentType = None" "allow (Some sub) ?i = None"
    by (auto simp: authorize_def authorize_Inr)
  have "IsAgent sub \<Longrightarrow> action \<in> set agent_verbs"
    using assms(1) a(5) rbac.agent_verbs_only [of sub parse ?i] opa.agent_verbs_only [of sub facts ?i] by auto
  then show ?thesis using a
    by (auto simp: isReadAction_def scope_None provenanceOf_def actor_def ResponsibleUserID_def Let_def)
qed

definition bot_subject :: subject where
  "bot_subject = sample_subject\<lparr>ActorKind := ActorKindAgent, AgentID := Some ''bot'',
     PrincipalID := Some ''alice'', AllowedTypes := Some [''post'']\<rparr>"

theorem authorised_content_requests_witness:
  "authorize (RBAC_Allow Some) (Some bot_subject) ''content:update'' ''e1'' ''post'' = Inr bot_subject \<and>
   provenanceOf bot_subject = (Some ''alice'', ActorKindAgent, Some ''bot'')"
proof -
  have a: "authorize (RBAC_Allow Some) (Some bot_subject) ''content:update'' ''e1'' ''post'' = Inr bot_subject"
    by (simp add: authorize_def authorize_Inr scope_None bot_subject_def sample_subject_def isReadAction_def
        RBAC_tenant_plane isTenantPlaneAction_def HasPrefix_def refuseUnlistedAgentAction_def agent_verbs_def
        content_decision isContentAction_def content_verbs_def allowContentByTenantRole_def)
  have "IsAgent bot_subject" "PrincipalID bot_subject = Some ''alice''" "\<not> PublicDelivery bot_subject"
    "AgentID bot_subject = Some ''bot''" "''alice'' \<noteq> uuid_Nil"
    by (simp_all add: bot_subject_def sample_subject_def IsAgent_def uuid_Nil_def)
  with authorised_content_requests [OF disjI1 [OF refl] a] a show ?thesis by auto
qed

end
