(* ===== verification/Component_Verbs.thy ===== *)
theory Component_Verbs
  imports Schema_Guards Entry_Permissions
begin

text \<open>
  Reusable components (\<open>service/component.go\<close>, \<open>repository/postgres_components.go\<close>,
  \<open>domain/component.go\<close>, \<open>domain/component_template.go\<close>): a named group of fields that fields
  of a content type take their shape from, by reference or as one of the members of a dynamic
  zone.  The store is that of \<open>Schema_Verbs\<close>; the SQL helpers of migrations 44 and 45 that
  rewrite the items inside a document are functions on documents.
\<close>

section \<open>Components and their referrers\<close>

definition MaxComponentsPerTenant :: nat where "MaxComponentsPerTenant = 200"

definition ReservedComponentName :: "string \<Rightarrow> bool" where
  "ReservedComponentName name \<longleftrightarrow> name = ''templates''"

record component_ref =
  cr_TypeName :: string
  cr_FieldKey :: string
  cr_Multiple :: bool
  cr_Zone :: bool

definition refers_by_id :: "string \<Rightarrow> field \<Rightarrow> bool" where
  "refers_by_id name f \<longleftrightarrow> Type f = FieldTypeComponent \<and> f_ComponentName (attrs f) = name"

definition refers_by_zone :: "string \<Rightarrow> field \<Rightarrow> bool" where
  "refers_by_zone name f \<longleftrightarrow> Type f = FieldTypeDynamicZone \<and> name \<in> set (ZoneComponents f)"

text \<open>
  The two halves of the query.  Its \<open>ORDER BY\<close> is left out: the callers fold over the rows or
  sort the names themselves.
\<close>

definition refs_of_row :: "string \<Rightarrow> type_row \<Rightarrow> component_ref list" where
  "refs_of_row name r =
     (let ref = (\<lambda>z f. \<lparr>cr_TypeName = ct_Name (row_Type r), cr_FieldKey = Key f, cr_Multiple = Multiple f, cr_Zone = z\<rparr>);
          fs = ct_Fields (row_Type r) in
      map (ref False) (filter (refers_by_id name) fs) @ map (ref True) (filter (refers_by_zone name) fs))"

definition ListComponentReferrers :: "store \<Rightarrow> string \<Rightarrow> component_ref list" where
  "ListComponentReferrers st name = concat (map (refs_of_row name) (st_Rows st))"

definition usedBy :: "component_ref list \<Rightarrow> string list" where
  "usedBy refs = sort (remdups (map cr_TypeName refs))"

text \<open>What a load attaches to the referring fields (\<open>loadFieldsByType\<close>, \<open>attachZoneFields\<close>).\<close>

definition fields_of_component :: "store \<Rightarrow> string \<Rightarrow> field list" where
  "fields_of_component st name = (case GetComponentByName st name of None \<Rightarrow> [] | Some c \<Rightarrow> cp_Fields c)"

definition with_components :: "store \<Rightarrow> field \<Rightarrow> field" where
  "with_components st f =
     (if Type f = FieldTypeComponent then Field (attrs f) (fields_of_component st (f_ComponentName (attrs f))) (ZoneFields f)
      else if Type f = FieldTypeDynamicZone
           then Field (attrs f) (ComponentFields f) (map (\<lambda>n. (n, fields_of_component st n)) (ZoneComponents f))
      else f)"

definition reload :: "store \<Rightarrow> store" where
  "reload st = st\<lparr>st_Rows := map (\<lambda>r. set_fields (map (with_components st) (ct_Fields (row_Type r))) r) (st_Rows st)\<rparr>"

definition put_component :: "string \<Rightarrow> component \<Rightarrow> store \<Rightarrow> store" where
  "put_component name c' st = st\<lparr>st_Components := map (\<lambda>c. if cp_Name c = name then c' else c) (st_Components st)\<rparr>"

section \<open>Items inside a document\<close>

text \<open>The values \<open>ScanFieldValues\<close> hands over: of the working copy, and of the snapshot while live.\<close>

definition scanned :: "string \<Rightarrow> entry \<Rightarrow> json option list" where
  "scanned key e =
     [present (e_Payload e) key,
      (if e_Status e = StatusPublished then Option.bind (e_Published e) (\<lambda>d. present d key) else None)]"

definition ref_field :: "component_ref \<Rightarrow> field" where
  "ref_field ref = Field (zero_attrs\<lparr>f_Key := cr_FieldKey ref, f_Type := FieldTypeComponent,
     f_Multiple := cr_Multiple ref\<rparr>) [] []"

definition items_asked :: "string \<Rightarrow> component_ref \<Rightarrow> json \<Rightarrow> doc list" where
  "items_asked name ref v =
     (if cr_Zone ref then filter (\<lambda>item. zoneItemComponent item = name) (zoneItems v)
      else componentItems (ref_field ref) v)"

definition ref_hit :: "string \<Rightarrow> (doc \<Rightarrow> bool) \<Rightarrow> component_ref \<Rightarrow> entry \<Rightarrow> bool" where
  "ref_hit name pred ref e \<longleftrightarrow>
     list_ex (\<lambda>v. case v of None \<Rightarrow> False | Some x \<Rightarrow> list_ex pred (items_asked name ref x)) (scanned (cr_FieldKey ref) e)"

definition stored_entries :: "store \<Rightarrow> string \<Rightarrow> entry list" where
  "stored_entries st typeName = (case GetContentTypeByName st typeName of Inl _ \<Rightarrow> [] | Inr r \<Rightarrow> row_Entries r)"

definition countComponentEntries :: "store \<Rightarrow> string \<Rightarrow> component_ref list \<Rightarrow> (doc \<Rightarrow> bool) \<Rightarrow> nat" where
  "countComponentEntries st name refs pred =
     sum_list (map (\<lambda>ref. countEntries (ref_hit name pred ref) (stored_entries st (cr_TypeName ref))) refs)"

definition itemLacks :: "string \<Rightarrow> doc \<Rightarrow> bool" where
  "itemLacks key item \<longleftrightarrow> present item key = None"

definition itemFails :: "env \<Rightarrow> field \<Rightarrow> doc \<Rightarrow> bool" where
  "itemFails E f item \<longleftrightarrow> (case present item (Key f) of None \<Rightarrow> False | Some v \<Rightarrow> validateValue E f v \<noteq> None)"

text \<open>
  \<open>content_component_rewrite_item\<close>, and \<open>e ->> '__component' = name\<close>, where a boolean has a
  text too.
\<close>

definition rewrite_item :: "string \<Rightarrow> string option \<Rightarrow> doc \<Rightarrow> doc" where
  "rewrite_item old new item =
     (if \<not> holds old item then item
      else case new of None \<Rightarrow> drop_key old item | Some k \<Rightarrow> move_key old k item)"

definition tagged :: "string \<Rightarrow> doc \<Rightarrow> bool" where
  "tagged name item \<longleftrightarrow> Option.bind (map_of item ZoneDiscriminator) enum_text = Some name"

definition on_objects :: "(doc \<Rightarrow> doc) \<Rightarrow> json list \<Rightarrow> json list" where
  "on_objects g xs = map (\<lambda>x. case x of JObj item \<Rightarrow> JObj (g item) | _ \<Rightarrow> x) xs"

definition rewrite_value :: "string \<Rightarrow> component_ref \<Rightarrow> (doc \<Rightarrow> doc) \<Rightarrow> json \<Rightarrow> json" where
  "rewrite_value name ref g v =
     (if cr_Zone ref then
        (case v of JArr xs \<Rightarrow> JArr (on_objects (\<lambda>item. if tagged name item then g item else item) xs) | _ \<Rightarrow> v)
      else (case v of JObj item \<Rightarrow> JObj (g item) | JArr xs \<Rightarrow> JArr (on_objects g xs) | _ \<Rightarrow> v))"

definition on_value :: "string \<Rightarrow> (json \<Rightarrow> json) \<Rightarrow> doc \<Rightarrow> doc" where
  "on_value key h d = map (\<lambda>(k, v). (k, if k = key then h v else v)) d"

definition items_visited :: "string \<Rightarrow> component_ref \<Rightarrow> json \<Rightarrow> doc list" where
  "items_visited name ref v =
     (if cr_Zone ref then filter (tagged name) (zoneItems v)
      else case v of JObj item \<Rightarrow> [item] | JArr xs \<Rightarrow> objects_of xs | _ \<Rightarrow> [])"

text \<open>\<open>content_component_has_subkey\<close> and \<open>content_zone_has_subkey\<close>; \<open>content_zone_has_component\<close>.\<close>

definition has_subkey :: "string \<Rightarrow> component_ref \<Rightarrow> string \<Rightarrow> doc \<Rightarrow> bool" where
  "has_subkey name ref sub d \<longleftrightarrow>
     (case map_of d (cr_FieldKey ref) of None \<Rightarrow> False | Some v \<Rightarrow> list_ex (holds sub) (items_visited name ref v))"

definition zone_holds :: "string \<Rightarrow> string \<Rightarrow> doc \<Rightarrow> bool" where
  "zone_holds name key d \<longleftrightarrow>
     (case map_of d key of None \<Rightarrow> False | Some v \<Rightarrow> list_ex (tagged name) (zoneItems v))"

definition CountEntriesWithComponentSubKey :: "store \<Rightarrow> component_ref \<Rightarrow> string \<Rightarrow> string \<Rightarrow> nat" where
  "CountEntriesWithComponentSubKey st ref name sub =
     countEntries (both_copies (has_subkey name ref sub)) (stored_entries st (cr_TypeName ref))"

text \<open>The statement both rewrites share: every row that matches in a copy that counts.\<close>

definition rewrite_copies :: "(doc \<Rightarrow> bool) \<Rightarrow> (doc \<Rightarrow> doc) \<Rightarrow> entry \<Rightarrow> entry" where
  "rewrite_copies P h e =
     (if \<not> both_copies P e then e
      else e\<lparr>e_Payload := h (e_Payload e), e_Published := map_option h (e_Published e),
             e_Version := (if P (e_Payload e) then Suc (e_Version e) else e_Version e),
             e_PublishedVersion :=
               (if (case e_Published e of Some d \<Rightarrow> P d | None \<Rightarrow> False) then Suc (e_PublishedVersion e)
                else e_PublishedVersion e)\<rparr>)"

definition rewriteComponentItems :: "string \<Rightarrow> string \<Rightarrow> string option \<Rightarrow> component_ref \<Rightarrow> entry \<Rightarrow> entry" where
  "rewriteComponentItems name sub new ref =
     rewrite_copies (has_subkey name ref sub) (on_value (cr_FieldKey ref) (rewrite_value name ref (rewrite_item sub new)))"

definition retag_item :: "string \<Rightarrow> doc \<Rightarrow> doc" where
  "retag_item newName item = on_value ZoneDiscriminator (\<lambda>_. JStr newName) item"

definition rewriteZoneComponent :: "string \<Rightarrow> string \<Rightarrow> component_ref \<Rightarrow> entry \<Rightarrow> entry" where
  "rewriteZoneComponent oldName newName ref =
     rewrite_copies (zone_holds oldName (cr_FieldKey ref))
       (on_value (cr_FieldKey ref) (rewrite_value oldName ref (retag_item newName)))"

definition rewrite_ref :: "(component_ref \<Rightarrow> entry \<Rightarrow> entry) \<Rightarrow> component_ref \<Rightarrow> store \<Rightarrow> store" where
  "rewrite_ref h ref = update_row (cr_TypeName ref) (\<lambda>r. r\<lparr>row_Entries := map (h ref) (row_Entries r)\<rparr>)"

definition rewrite_refs :: "(component_ref \<Rightarrow> entry \<Rightarrow> entry) \<Rightarrow> component_ref list \<Rightarrow> store \<Rightarrow> store" where
  "rewrite_refs h refs st = fold (rewrite_ref h) refs st"

section \<open>The repository\<close>

definition errComponentExists :: "string \<Rightarrow> app_error" where
  "errComponentExists name = err409 ''CONTENT_COMPONENT_EXISTS'' [(''name'', DStr name)]"

definition CreateComponent_repo :: "component \<Rightarrow> store \<Rightarrow> app_error + store" where
  "CreateComponent_repo c st =
     and_then (require (GetComponentByName st (cp_Name c) = None) (errComponentExists (cp_Name c))) (\<lambda>_.
     Inr (st\<lparr>st_Components := st_Components st @ [c]\<rparr>))"

definition touched_component :: "string \<Rightarrow> component \<Rightarrow> store \<Rightarrow> app_error + store" where
  "touched_component name c' st =
     (case GetComponentByName st name of None \<Rightarrow> Inl ErrNotFound | Some _ \<Rightarrow> Inr (reload (put_component name c' st)))"

definition AddComponentField_repo :: "component \<Rightarrow> field \<Rightarrow> store \<Rightarrow> app_error + store" where
  "AddComponentField_repo c f st = touched_component (cp_Name c) (c\<lparr>cp_Fields := cp_Fields c @ [f]\<rparr>) st"

definition UpdateComponentFieldDefinition :: "component \<Rightarrow> field \<Rightarrow> store \<Rightarrow> app_error + store" where
  "UpdateComponentFieldDefinition c f st =
     touched_component (cp_Name c) (c\<lparr>cp_Fields := withFieldAt (Key f) f (cp_Fields c)\<rparr>) st"

definition RenameComponentField_repo ::
    "component \<Rightarrow> component_ref list \<Rightarrow> string \<Rightarrow> string \<Rightarrow> store \<Rightarrow> app_error + store" where
  "RenameComponentField_repo c refs old new st =
     touched_component (cp_Name c)
       (c\<lparr>cp_Fields := map (\<lambda>f. if Key f = old then set_key new f else f) (cp_Fields c)\<rparr>)
       (rewrite_refs (rewriteComponentItems (cp_Name c) old (Some new)) refs st)"

definition DeleteComponentField_repo ::
    "component \<Rightarrow> component_ref list \<Rightarrow> string \<Rightarrow> store \<Rightarrow> app_error + store" where
  "DeleteComponentField_repo c refs key st =
     touched_component (cp_Name c) (c\<lparr>cp_Fields := filter (\<lambda>f. Key f \<noteq> key) (cp_Fields c)\<rparr>)
       (rewrite_refs (rewriteComponentItems (cp_Name c) key None) refs st)"

definition UpdateComponentDefinition :: "component \<Rightarrow> store \<Rightarrow> app_error + store" where
  "UpdateComponentDefinition c st = touched_component (cp_Name c) c st"

text \<open>The name a field refers to its component by follows the component; a zone's list is rewritten.\<close>

definition renamed_reference :: "string \<Rightarrow> string \<Rightarrow> field \<Rightarrow> field" where
  "renamed_reference old new f =
     (if refers_by_id old f then with_attrs (\<lambda>a. a\<lparr>f_ComponentName := new\<rparr>) f
      else if refers_by_zone old f
           then with_attrs (\<lambda>a. a\<lparr>f_ZoneComponents := map (\<lambda>n. if n = old then new else n) (f_ZoneComponents a)\<rparr>) f
      else f)"

definition rename_references :: "string \<Rightarrow> string \<Rightarrow> store \<Rightarrow> store" where
  "rename_references old new st =
     st\<lparr>st_Rows := map (\<lambda>r. set_fields (map (renamed_reference old new) (ct_Fields (row_Type r))) r) (st_Rows st)\<rparr>"

definition RenameComponent_repo :: "component \<Rightarrow> component_ref list \<Rightarrow> string \<Rightarrow> store \<Rightarrow> app_error + store" where
  "RenameComponent_repo c refs new st =
     (let st1 = rename_references (cp_Name c) new
                  (rewrite_refs (rewriteZoneComponent (cp_Name c) new) (filter cr_Zone refs) st) in
      and_then (require (GetComponentByName st1 new = None) (errComponentExists new)) (\<lambda>_.
      touched_component (cp_Name c) (c\<lparr>cp_Name := new\<rparr>) st1))"

text \<open>
  The zones are looked up again in the transaction that deletes; a field that refers by id is
  held by the foreign key.
\<close>

definition foreign_key_error :: app_error where
  "foreign_key_error = New ''delete content_component: foreign key violation'' 500"

definition DeleteComponent_repo :: "component \<Rightarrow> store \<Rightarrow> app_error + store" where
  "DeleteComponent_repo c st =
     (let refs = ListComponentReferrers st (cp_Name c); users = usedBy (filter cr_Zone refs) in
      and_then (require (users = []) (err409 ''CONTENT_COMPONENT_IN_USE'' [(''used_by'', DStrs users)])) (\<lambda>_.
      and_then (require (filter (\<lambda>ref. \<not> cr_Zone ref) refs = []) foreign_key_error) (\<lambda>_.
      and_then (require (GetComponentByName st (cp_Name c) \<noteq> None) ErrNotFound) (\<lambda>_.
      Inr (st\<lparr>st_Components := filter (\<lambda>x. cp_Name x \<noteq> cp_Name c) (st_Components st)\<rparr>)))))"

section \<open>Rendering\<close>

text \<open>Nothing under a component is queryable, so the supported operators are always empty.\<close>

record field_dto =
  fd_Attrs :: field_attrs
  fd_Readable :: bool
  fd_Writable :: bool
  fd_Supported :: "string list"

record component_dto =
  cd_Name :: string
  cd_Label :: string
  cd_Fields :: "field_dto list"
  cd_UsedBy :: "string list"

definition componentFieldToDTO :: "field \<Rightarrow> subject \<Rightarrow> field_dto" where
  "componentFieldToDTO f sub =
     \<lparr>fd_Attrs = attrs f, fd_Readable = canReadField f sub, fd_Writable = canWriteField f sub, fd_Supported = []\<rparr>"

definition toComponentDTO :: "component \<Rightarrow> component_ref list \<Rightarrow> subject \<Rightarrow> component_dto" where
  "toComponentDTO c refs sub =
     \<lparr>cd_Name = cp_Name c, cd_Label = cp_Label c, cd_Fields = map (\<lambda>f. componentFieldToDTO f sub) (cp_Fields c),
      cd_UsedBy = usedBy (if IsAgent sub then filter (\<lambda>ref. AllowsContentType sub (cr_TypeName ref)) refs else refs)\<rparr>"

section \<open>Errors and guards of the service\<close>

definition as_go :: "app_error + 'a \<Rightarrow> go_error + 'a" where
  "as_go = map_sum AppError (\<lambda>x. x)"

definition require_go :: "bool \<Rightarrow> app_error \<Rightarrow> go_error + unit" where
  "require_go b e = require b (AppError e)"

definition validateComponentName :: "string \<Rightarrow> app_error option" where
  "validateComponentName name =
     (if \<not> ValidFieldKey name then Some (err422 ''CONTENT_COMPONENT_NAME_INVALID'' [(''name'', DStr name)])
      else if ReservedComponentName name then Some (err422 ''CONTENT_COMPONENT_NAME_RESERVED'' [(''name'', DStr name)])
      else None)"

definition errComponentNoFields :: "string \<Rightarrow> app_error" where
  "errComponentNoFields name = err422 ''CONTENT_COMPONENT_NO_FIELDS'' [(''component'', DStr name)]"

definition errComponentInUse :: "string \<Rightarrow> string list \<Rightarrow> app_error" where
  "errComponentInUse name types =
     err409 ''CONTENT_COMPONENT_IN_USE'' [(''component'', DStr name), (''used_by'', DStrs types)]"

definition errRequiredBackfill :: "string \<Rightarrow> nat \<Rightarrow> app_error" where
  "errRequiredBackfill key n = err409 ''CONTENT_FIELD_REQUIRED_BACKFILL'' [(''field'', DStr key), (''entries'', DNat n)]"

definition errFieldNotFound :: "string \<Rightarrow> app_error" where
  "errFieldNotFound key = WithDetails (New ''CONTENT_FIELD_NOT_FOUND'' 404) [(''field'', DStr key)]"

definition errComponentSubField :: "string \<Rightarrow> subfield_violation \<Rightarrow> app_error" where
  "errComponentSubField key v =
     err422 (sv_Code v) ((''field'', DStr key) # (if sv_Attribute v = [] then [] else [(''attribute'', DStr (sv_Attribute v))]))"

definition componentNotFound :: "string \<Rightarrow> app_error" where
  "componentNotFound name = WithDetails (New ''CONTENT_COMPONENT_NOT_FOUND'' 404) [(''component'', DStr name)]"

definition errComponentTemplateNotFound :: "string \<Rightarrow> app_error" where
  "errComponentTemplateNotFound name = WithDetails (New ''CONTENT_COMPONENT_TEMPLATE_NOT_FOUND'' 404) [(''template'', DStr name)]"

definition loadComponent :: "string \<Rightarrow> store \<Rightarrow> app_error + component \<times> component_ref list" where
  "loadComponent name st =
     (case GetComponentByName st name of
        None \<Rightarrow> Inl (componentNotFound name)
      | Some c \<Rightarrow> Inr (c, ListComponentReferrers st (cp_Name c)))"

definition buildComponentField :: "env \<Rightarrow> field_input \<Rightarrow> app_error + field" where
  "buildComponentField E i =
     (if in_Type i = FieldTypeComponent then
        Inl (errComponentSubField (TrimSpace (in_Key i)) \<lparr>sv_Code = ''CONTENT_COMPONENT_NESTING_UNSUPPORTED'', sv_Attribute = []\<rparr>)
      else and_then (buildField E i) (\<lambda>f.
        case CheckComponentSubField f of
          Some v \<Rightarrow> Inl (errComponentSubField (Key f) v)
        | None \<Rightarrow> Inr f))"

fun build_component_fields :: "env \<Rightarrow> string list \<Rightarrow> field_input list \<Rightarrow> app_error + field list" where
  "build_component_fields E seen [] = Inr []"
| "build_component_fields E seen (i # rest) =
     and_then (buildComponentField E i) (\<lambda>f.
       if Key f \<in> set seen then Inl (err422 ''CONTENT_FIELD_DUPLICATE'' [(''field'', DStr (Key f))])
       else and_then (build_component_fields E (Key f # seen) rest) (\<lambda>fs. Inr (f # fs)))"

definition refuseComponentOutsideAgentScope :: "subject \<Rightarrow> component_ref list \<Rightarrow> app_error option" where
  "refuseComponentOutsideAgentScope sub refs =
     (if \<not> IsAgent sub then None
      else if list_ex (\<lambda>ref. AllowsContentType sub (cr_TypeName ref)) refs then None
      else Some (New ''CONTENT_AGENT_COMPONENT_NOT_ALLOWED'' 403))"

definition authorizeComponentRead :: "allow \<Rightarrow> subject option \<Rightarrow> string \<Rightarrow> go_error + subject" where
  "authorizeComponentRead allow ctx action =
     and_then (authorizeAgentScope allow refuseUnscopedAgentCredential ctx action ''collection'') (\<lambda>sub.
     and_then (require_go (\<not> PublicDelivery sub) (New ''CONTENT_COMPONENT_ADMIN_ONLY'' 403)) (\<lambda>_. Inr sub))"

section \<open>The verbs\<close>

record component_input =
  ci_Name :: string
  ci_Label :: string
  ci_Fields :: "field_input list"

definition component_draft :: "env \<Rightarrow> component_input \<Rightarrow> store \<Rightarrow> app_error + component" where
  "component_draft E i st =
     (let name = TrimSpace (ci_Name i) in
      and_then (refuse_if (validateComponentName name)) (\<lambda>_.
      and_then (require (ci_Fields i \<noteq> []) (errComponentNoFields name)) (\<lambda>_.
      and_then (require (length (ci_Fields i) \<le> MaxComponentFields) (ErrQuotaExceeded ''component_fields'' MaxComponentFields)) (\<lambda>_.
      and_then (require (length (st_Components st) < MaxComponentsPerTenant)
                  (ErrQuotaExceeded ''components'' MaxComponentsPerTenant)) (\<lambda>_.
      and_then (build_component_fields E [] (ci_Fields i)) (\<lambda>fs.
      Inr \<lparr>cp_Name = name, cp_Label = TrimSpace (ci_Label i), cp_Fields = fs\<rparr>))))))"

definition createComponentAs ::
    "env \<Rightarrow> subject \<Rightarrow> component_input \<Rightarrow> store \<Rightarrow> go_error + component_dto \<times> store" where
  "createComponentAs E sub i st =
     and_then (as_go (component_draft E i st)) (\<lambda>c.
     and_then (as_go (CreateComponent_repo c st)) (\<lambda>st'. Inr (toComponentDTO c [] sub, st')))"

definition CreateComponent ::
    "env \<Rightarrow> allow \<Rightarrow> subject option \<Rightarrow> component_input \<Rightarrow> store \<Rightarrow> go_error + component_dto \<times> store" where
  "CreateComponent E allow ctx i st =
     and_then (authorize allow ctx ''content:create'' ''collection'' []) (\<lambda>sub. createComponentAs E sub i st)"

definition ListComponents :: "allow \<Rightarrow> subject option \<Rightarrow> store \<Rightarrow> go_error + component_dto list" where
  "ListComponents allow ctx st =
     and_then (authorizeComponentRead allow ctx ''content:list'') (\<lambda>sub.
     Inr (List.map_filter (\<lambda>c.
       let refs = ListComponentReferrers st (cp_Name c) in
       if IsAgent sub \<and> refuseComponentOutsideAgentScope sub refs \<noteq> None then None
       else Some (toComponentDTO c refs sub)) (sort_key cp_Name (st_Components st))))"

definition GetComponent :: "allow \<Rightarrow> subject option \<Rightarrow> string \<Rightarrow> store \<Rightarrow> go_error + component_dto" where
  "GetComponent allow ctx name st =
     and_then (authorizeComponentRead allow ctx ''content:read'') (\<lambda>sub.
     and_then (as_go (loadComponent name st)) (\<lambda>(c, refs).
     and_then (refuse_if (map_option AppError (refuseComponentOutsideAgentScope sub refs))) (\<lambda>_.
     Inr (toComponentDTO c refs sub))))"

definition UpdateComponent ::
    "allow \<Rightarrow> subject option \<Rightarrow> string \<Rightarrow> string option \<Rightarrow> store \<Rightarrow> go_error + component_dto \<times> store" where
  "UpdateComponent allow ctx name label st =
     and_then (authorize allow ctx ''content:schema:amend'' ''collection'' []) (\<lambda>sub.
     and_then (as_go (loadComponent name st)) (\<lambda>(c, refs).
     let c' = c\<lparr>cp_Label := (case label of None \<Rightarrow> cp_Label c | Some l \<Rightarrow> TrimSpace l)\<rparr> in
     and_then (as_go (UpdateComponentDefinition c' st)) (\<lambda>st'. Inr (toComponentDTO c' refs sub, st'))))"

definition RenameComponent ::
    "allow \<Rightarrow> subject option \<Rightarrow> string \<Rightarrow> string \<Rightarrow> store \<Rightarrow> go_error + component_dto \<times> store" where
  "RenameComponent allow ctx name rawName st =
     (let newName = TrimSpace rawName in
      and_then (authorize allow ctx ''content:schema:write'' ''collection'' []) (\<lambda>sub.
      and_then (refuse_if (map_option AppError (validateComponentName newName))) (\<lambda>_.
      and_then (as_go (loadComponent name st)) (\<lambda>(c, refs).
      if newName = name then Inr (toComponentDTO c refs sub, st)
      else and_then (as_go (RenameComponent_repo c refs newName st)) (\<lambda>st'.
        Inr (toComponentDTO (c\<lparr>cp_Name := newName\<rparr>) refs sub, st'))))))"

definition DeleteComponent :: "allow \<Rightarrow> subject option \<Rightarrow> string \<Rightarrow> store \<Rightarrow> go_error + store" where
  "DeleteComponent allow ctx name st =
     and_then (authorize allow ctx ''content:schema:write'' ''collection'' []) (\<lambda>sub.
     and_then (as_go (loadComponent name st)) (\<lambda>(c, refs).
     and_then (require_go (refs = []) (errComponentInUse name (usedBy refs))) (\<lambda>_.
     as_go (DeleteComponent_repo c st))))"

definition AddComponentField ::
    "env \<Rightarrow> allow \<Rightarrow> subject option \<Rightarrow> string \<Rightarrow> field_input \<Rightarrow> store \<Rightarrow> go_error + component_dto \<times> store" where
  "AddComponentField E allow ctx name i st =
     and_then (authorize allow ctx ''content:schema:amend'' ''collection'' []) (\<lambda>sub.
     and_then (as_go (loadComponent name st)) (\<lambda>(c, refs).
     and_then (as_go (buildComponentField E i)) (\<lambda>f.
     and_then (require_go (FieldByKey (cp_Fields c) (Key f) = None) (err409 ''CONTENT_FIELD_EXISTS'' [(''field'', DStr (Key f))])) (\<lambda>_.
     and_then (require_go (length (cp_Fields c) < MaxComponentFields) (ErrQuotaExceeded ''component_fields'' MaxComponentFields)) (\<lambda>_.
     let n = countComponentEntries st (cp_Name c) refs (itemLacks (Key f)) in
     and_then (require_go (\<not> (Required f \<and> 0 < n)) (errRequiredBackfill (Key f) n)) (\<lambda>_.
     and_then (as_go (AddComponentField_repo c f st)) (\<lambda>st'.
     Inr (toComponentDTO (c\<lparr>cp_Fields := cp_Fields c @ [f]\<rparr>) refs sub, st'))))))))"

text \<open>
  The attributes a sub-field cannot carry, refused when sent.  The Go code visits them in the
  order of a map iteration; the refusal names one of those that were sent.
\<close>

definition refuseSubFieldAttrs :: "string \<Rightarrow> update_field_input \<Rightarrow> app_error option" where
  "refuseSubFieldAttrs key i =
     first_error (\<lambda>(sent, attr). if sent
         then Some (errComponentSubField key \<lparr>sv_Code = ''CONTENT_COMPONENT_FIELD_ATTRIBUTE_UNSUPPORTED'', sv_Attribute = attr\<rparr>)
         else None)
       [(uf_Unique i \<noteq> None, ''unique''), (uf_ReadRoles i \<noteq> None, ''read_roles''),
        (uf_WriteRoles i \<noteq> None, ''write_roles''), (uf_Components i \<noteq> None, ''components'')]"

definition subfield_enum ::
    "env \<Rightarrow> (field \<Rightarrow> nat) \<Rightarrow> string \<Rightarrow> update_field_input \<Rightarrow> field \<Rightarrow> app_error + field" where
  "subfield_enum E failing key i f =
     (case uf_EnumValues i of None \<Rightarrow> Inr f
      | Some vals \<Rightarrow>
          and_then (require (Type f = FieldTypeEnum)
                      (err422 ''CONTENT_FIELD_ENUM_NOT_APPLICABLE'' [(''field'', DStr key), (''type'', DStr (Type f))])) (\<lambda>_.
          and_then (require (vals \<noteq> []) (err422 ''CONTENT_FIELD_ENUM_EMPTY'' [(''field'', DStr key)])) (\<lambda>_.
          and_then (refuse_if (map_option (\<lambda>dup. err422 ''CONTENT_FIELD_ENUM_DUPLICATE'' [(''field'', DStr key), (''value'', DStr dup)])
                                 (first_duplicate vals))) (\<lambda>_.
          (let removed = missing_from (EnumValues f) vals; probe = with_attrs (\<lambda>a. a\<lparr>f_EnumValues := vals\<rparr>) f in
           and_then (require (removed = [] \<or> failing probe = 0)
             (err409 ''CONTENT_ENUM_VALUE_IN_USE''
                [(''field'', DStr key), (''values'', DStrs removed), (''entries'', DNat (failing probe))])) (\<lambda>_.
           Inr probe))))))"

definition subfield_required ::
    "nat \<Rightarrow> string \<Rightarrow> update_field_input \<Rightarrow> field \<Rightarrow> app_error + field" where
  "subfield_required lacking key i f =
     (case uf_Required i of None \<Rightarrow> Inr f
      | Some r \<Rightarrow>
          and_then (require (\<not> (r \<and> \<not> Required f \<and> 0 < lacking)) (errRequiredBackfill key lacking)) (\<lambda>_.
          Inr (with_attrs (\<lambda>a. a\<lparr>f_Required := r\<rparr>) f)))"

definition subfield_constraints ::
    "env \<Rightarrow> (field \<Rightarrow> nat) \<Rightarrow> string \<Rightarrow> update_field_input \<Rightarrow> field \<Rightarrow> app_error + field" where
  "subfield_constraints E failing key i f =
     (if uf_Format i = None \<and> uf_Pattern i = None \<and> uf_Min i = None \<and> uf_Max i = None then Inr f
      else
        (let nxt = normalizeConstraints ((Constraints f)\<lparr>c_Format := opt_set (uf_Format i) (c_Format (Constraints f)),
                     c_Pattern := opt_set (uf_Pattern i) (c_Pattern (Constraints f)),
                     c_Min := opt_set (uf_Min i) (c_Min (Constraints f)), c_Max := opt_set (uf_Max i) (c_Max (Constraints f))\<rparr>);
             probe = with_attrs (\<lambda>a. a\<lparr>f_Constraints := nxt\<rparr>) f in
         and_then (refuse_if (map_option (errConstraintDefinition key) (ValidateFieldConstraints E (Type f) (Multiple f) nxt))) (\<lambda>_.
         and_then (require (\<not> (Tightens nxt (Constraints f) \<and> 0 < failing probe))
           (err409 ''CONTENT_FIELD_CONSTRAINT_BACKFILL''
              [(''field'', DStr key), (''entries'', DNat (failing probe)), (''constraints'', Describe nxt)])) (\<lambda>_.
         Inr probe))))"

definition UpdateComponentField ::
    "env \<Rightarrow> allow \<Rightarrow> subject option \<Rightarrow> string \<Rightarrow> string \<Rightarrow> update_field_input \<Rightarrow> store \<Rightarrow> go_error + component_dto \<times> store" where
  "UpdateComponentField E allow ctx name key i st =
     and_then (authorize allow ctx ''content:schema:amend'' ''collection'' []) (\<lambda>sub.
     and_then (refuse_if (map_option AppError (refuseImmutableFieldProps key i))) (\<lambda>_.
     and_then (refuse_if (map_option AppError (refuseSubFieldAttrs key i))) (\<lambda>_.
     and_then (as_go (loadComponent name st)) (\<lambda>(c, refs).
     and_then (as_go (case FieldByKey (cp_Fields c) key of None \<Rightarrow> Inl (errFieldNotFound key) | Some f \<Rightarrow> Inr f)) (\<lambda>f.
     let failing = (\<lambda>probe. countComponentEntries st (cp_Name c) refs (itemFails E probe));
         lacking = countComponentEntries st (cp_Name c) refs (itemLacks key) in
     and_then (as_go (subfield_enum E failing key i (update_texts i f))) (\<lambda>f.
     and_then (as_go (subfield_required lacking key i f)) (\<lambda>f.
     and_then (as_go (subfield_constraints E failing key i f)) (\<lambda>f.
     and_then (as_go (UpdateComponentFieldDefinition c f st)) (\<lambda>st'.
     Inr (toComponentDTO (c\<lparr>cp_Fields := withFieldAt key f (cp_Fields c)\<rparr>) refs sub, st'))))))))))"

definition RenameComponentField ::
    "allow \<Rightarrow> subject option \<Rightarrow> string \<Rightarrow> string \<Rightarrow> string \<Rightarrow> store \<Rightarrow> go_error + component_dto \<times> store" where
  "RenameComponentField allow ctx name key rawKey st =
     (let newKey = TrimSpace rawKey in
      and_then (authorize allow ctx ''content:schema:write'' ''collection'' []) (\<lambda>sub.
      and_then (require_go (ValidFieldKey newKey) (err422 ''CONTENT_FIELD_KEY_INVALID'' [(''field'', DStr rawKey)])) (\<lambda>_.
      and_then (as_go (loadComponent name st)) (\<lambda>(c, refs).
      and_then (as_go (case FieldByKey (cp_Fields c) key of None \<Rightarrow> Inl (errFieldNotFound key) | Some f \<Rightarrow> Inr f)) (\<lambda>f.
      if newKey = key then Inr (toComponentDTO c refs sub, st)
      else
        and_then (require_go (FieldByKey (cp_Fields c) newKey = None) (err409 ''CONTENT_FIELD_EXISTS'' [(''field'', DStr newKey)])) (\<lambda>_.
        and_then (as_go (RenameComponentField_repo c refs key newKey st)) (\<lambda>st'.
        Inr (toComponentDTO (c\<lparr>cp_Fields := withFieldAt key (set_key newKey f) (cp_Fields c)\<rparr>) refs sub, st'))))))))"

definition DeleteComponentField ::
    "allow \<Rightarrow> subject option \<Rightarrow> string \<Rightarrow> string \<Rightarrow> bool \<Rightarrow> store \<Rightarrow> go_error + component_dto \<times> store" where
  "DeleteComponentField allow ctx name key force st =
     and_then (authorize allow ctx ''content:schema:write'' ''collection'' []) (\<lambda>sub.
     and_then (as_go (loadComponent name st)) (\<lambda>(c, refs).
     and_then (require_go (FieldByKey (cp_Fields c) key \<noteq> None) (errFieldNotFound key)) (\<lambda>_.
     and_then (require_go (length (cp_Fields c) \<noteq> 1) (errComponentNoFields name)) (\<lambda>_.
     let n = sum_list (map (\<lambda>ref. CountEntriesWithComponentSubKey st ref (cp_Name c) key) refs) in
     and_then (require_go (force \<or> n = 0) (err409 ''CONTENT_FIELD_HAS_DATA'' [(''field'', DStr key), (''entries'', DNat n)])) (\<lambda>_.
     and_then (as_go (DeleteComponentField_repo c refs key st)) (\<lambda>st'.
     Inr (toComponentDTO (c\<lparr>cp_Fields := filter (\<lambda>f. Key f \<noteq> key) (cp_Fields c)\<rparr>) refs sub, st')))))))"

section \<open>Templates\<close>

record component_template =
  tp_Name :: string
  tp_Label :: string
  tp_Description :: string
  tp_Fields :: "field list"

definition seoCanonicalURLPattern :: string where
  "seoCanonicalURLPattern = ''https?://'' @ CHR 0x5C # ''S+''"

definition seo_field :: "string \<Rightarrow> string \<Rightarrow> string \<Rightarrow> string \<Rightarrow> constraints \<Rightarrow> field" where
  "seo_field key type' label' description c =
     Field (zero_attrs\<lparr>f_Key := key, f_Type := type', f_Label := label', f_Description := description, f_Constraints := c\<rparr>) [] []"

definition seoComponentTemplate :: component_template where
  "seoComponentTemplate = \<lparr>tp_Name = ''seo'', tp_Label = ''SEO'',
     tp_Description = ''Search and social metadata a page needs: title, description, share image, canonical URL, index flag.'',
     tp_Fields =
       [seo_field ''meta_title'' FieldTypeString ''Meta Title''
          ''The title search engines and social previews show for this page.'' (no_constraints\<lparr>c_Max := Some (Fin 70)\<rparr>),
        seo_field ''meta_description'' FieldTypeText ''Meta Description''
          ''The one- or two-sentence summary shown under the title in search results.'' (no_constraints\<lparr>c_Max := Some (Fin 160)\<rparr>),
        seo_field ''og_image'' FieldTypeFile ''Share Image''
          ''The image used when this page is shared on social platforms (Open Graph).'' no_constraints,
        seo_field ''canonical_url'' FieldTypeString ''Canonical URL''
          ''The preferred absolute URL for this page; validated as an http(s) address. Leave blank if this page has none.''
          (no_constraints\<lparr>c_Pattern := seoCanonicalURLPattern\<rparr>),
        seo_field ''no_index'' FieldTypeBoolean ''No Index''
          ''When set, tells search engines not to index this page.'' no_constraints]\<rparr>"

definition ComponentTemplates :: "component_template list" where
  "ComponentTemplates = [seoComponentTemplate]"

definition ComponentTemplateByName :: "string \<Rightarrow> component_template option" where
  "ComponentTemplateByName name = find (\<lambda>t. tp_Name t = name) ComponentTemplates"

definition templateFieldInputs :: "field list \<Rightarrow> field_input list" where
  "templateFieldInputs fs = map (\<lambda>f.
     \<lparr>in_Key = Key f, in_Type = Type f, in_Label = f_Label (attrs f), in_Required = Required f, in_Multiple = Multiple f,
      in_EnumValues = EnumValues f, in_ReadRoles = ReadRoles f, in_WriteRoles = WriteRoles f,
      in_RelationEntity = f_RelationEntity (attrs f), in_Component = f_ComponentName (attrs f),
      in_Components = ZoneComponents f, in_Description = f_Description (attrs f), in_Constraints = Constraints f\<rparr>) fs"

definition ListComponentTemplates ::
    "allow \<Rightarrow> subject option \<Rightarrow> go_error + (component_template \<times> field_dto list) list" where
  "ListComponentTemplates allow ctx =
     and_then (authorizeComponentRead allow ctx ''content:list'') (\<lambda>sub.
     Inr (map (\<lambda>t. (t, map (\<lambda>f. componentFieldToDTO f sub) (tp_Fields t))) ComponentTemplates))"

definition InstallComponentTemplate ::
    "env \<Rightarrow> allow \<Rightarrow> subject option \<Rightarrow> string \<Rightarrow> store \<Rightarrow> go_error + component_dto \<times> store" where
  "InstallComponentTemplate E allow ctx name st =
     and_then (authorize allow ctx ''content:create'' ''collection'' []) (\<lambda>sub.
     case ComponentTemplateByName name of
       None \<Rightarrow> Inl (AppError (errComponentTemplateNotFound name))
     | Some t \<Rightarrow> createComponentAs E sub
         \<lparr>ci_Name = tp_Name t, ci_Label = tp_Label t, ci_Fields = templateFieldInputs (tp_Fields t)\<rparr> st)"

end
