(* ===== verification/Component_Safety.thy ===== *)
theory Component_Safety
  imports Component_Verbs
begin

text \<open>
  What the component verbs keep: every entry of every type stays legal when a component it uses
  gains, changes, loses or renames a sub-field, or is renamed itself.  A change of a component
  reaches a document through the items of the fields that refer to it, so the argument runs
  from one item to a value, a document, a row and the store.
\<close>

section \<open>A sound store\<close>

definition attached :: "store \<Rightarrow> field \<Rightarrow> bool" where
  "attached st f \<longleftrightarrow>
     (Type f = FieldTypeComponent \<longrightarrow>
        (\<exists>c. GetComponentByName st (f_ComponentName (attrs f)) = Some c \<and> ComponentFields f = cp_Fields c)) \<and>
     zone_attached st f"

definition component_sound :: "env \<Rightarrow> component \<Rightarrow> bool" where
  "component_sound E c \<longleftrightarrow> distinct (map Key (cp_Fields c)) \<and>
     (\<forall>f \<in> set (cp_Fields c). Type f \<noteq> FieldTypeComponent \<and> Type f \<noteq> FieldTypeDynamicZone \<and> ValidFieldKey (Key f) \<and>
        ValidateFieldConstraints E (Type f) (Multiple f) (Constraints f) = None)"

definition row_sound :: "env \<Rightarrow> store \<Rightarrow> type_row \<Rightarrow> bool" where
  "row_sound E st r \<longleftrightarrow> distinct (map Key (ct_Fields (row_Type r))) \<and>
     (\<forall>f \<in> set (ct_Fields (row_Type r)). attached st f \<and>
        ValidateFieldConstraints E (Type f) (Multiple f) (Constraints f) = None) \<and> entries_legal E r"

definition store_sound :: "env \<Rightarrow> store \<Rightarrow> bool" where
  "store_sound E st \<longleftrightarrow> distinct (map cp_Name (st_Components st)) \<and>
     distinct (map (\<lambda>r. ct_Name (row_Type r)) (st_Rows st)) \<and>
     (\<forall>c \<in> set (st_Components st). component_sound E c) \<and> (\<forall>r \<in> set (st_Rows st). row_sound E st r)"

lemma GetComponent_in: "GetComponentByName st n = Some c \<Longrightarrow> c \<in> set (st_Components st) \<and> cp_Name c = n"
  by (auto simp: GetComponentByName_def find_Some_iff)

lemma component_fields_of: "GetComponentByName st n = Some c \<Longrightarrow> fields_of_component st n = cp_Fields c"
  by (simp add: fields_of_component_def)

lemma attach_attrs [simp]: "attrs (with_components st f) = attrs f"
  by (simp add: with_components_def)

lemma map_of_pairs: "n \<in> set ns \<Longrightarrow> map_of (map (\<lambda>n. (n, g n)) ns) n = Some (g n)"
  by (induction ns) auto

lemma zone_fields_attach:
  "Type f = FieldTypeDynamicZone \<Longrightarrow> n \<in> set (ZoneComponents f) \<Longrightarrow> zone_fields_of (with_components st f) n = fields_of_component st n"
  by (simp add: zone_fields_of_def with_components_def map_of_pairs)

lemma attach_attached:
  assumes "Type f = FieldTypeComponent \<Longrightarrow> GetComponentByName st (f_ComponentName (attrs f)) \<noteq> None"
    and "\<And>n. Type f = FieldTypeDynamicZone \<Longrightarrow> n \<in> set (ZoneComponents f) \<Longrightarrow> GetComponentByName st n \<noteq> None"
  shows "attached st (with_components st f)"
  unfolding attached_def zone_attached_def attach_attrs
proof (intro conjI impI ballI)
  assume t: "Type f = FieldTypeComponent"
  then obtain c where "GetComponentByName st (f_ComponentName (attrs f)) = Some c" using assms(1) by blast
  then show "\<exists>c. GetComponentByName st (f_ComponentName (attrs f)) = Some c \<and> ComponentFields (with_components st f) = cp_Fields c"
    using t by (auto simp: with_components_def component_fields_of)
next
  fix n assume t: "Type f = FieldTypeDynamicZone" "n \<in> set (ZoneComponents f)"
  then obtain c where "GetComponentByName st n = Some c" using assms(2) by blast
  then show "\<exists>c. GetComponentByName st n = Some c \<and> zone_fields_of (with_components st f) n = cp_Fields c"
    using zone_fields_attach [OF t] component_fields_of by auto
qed

section \<open>From items to values\<close>

definition nested :: "field \<Rightarrow> bool" where
  "nested f \<longleftrightarrow> Type f = FieldTypeComponent \<or> Type f = FieldTypeDynamicZone"

definition on_items :: "field \<Rightarrow> (json \<Rightarrow> json) \<Rightarrow> json \<Rightarrow> json" where
  "on_items f h v =
     (if Type f = FieldTypeComponent \<and> \<not> Multiple f then h v
      else case v of JArr xs \<Rightarrow> JArr (map h xs) | _ \<Rightarrow> v)"

definition item_values :: "field \<Rightarrow> json \<Rightarrow> json list" where
  "item_values f v =
     (if Type f = FieldTypeComponent \<and> \<not> Multiple f then [v] else case v of JArr xs \<Rightarrow> xs | _ \<Rightarrow> [])"

lemma nested_value:
  assumes n: "nested f" and a: "Type g = Type f" "Multiple g = Multiple f" "Required g = Required f"
    and v: "value_ok E f v"
    and items: "\<And>x. x \<in> set (item_values f v) \<Longrightarrow> item_ok E f x \<Longrightarrow> item_ok E g (h x)"
  shows "value_ok E g (on_items f h v)"
proof (cases "Type f = FieldTypeComponent \<and> \<not> Multiple f")
  case True
  then show ?thesis using v items a by (simp add: value_ok.simps on_items_def item_values_def)
next
  case False
  then obtain xs where xs: "v = JArr xs" "cardinality_ok f xs" "\<forall>x \<in> set xs. item_ok E f x"
    using v n by (cases v) (auto simp: value_ok.simps nested_def)
  have "cardinality_ok g (map h xs)" using xs(2) a by (simp add: cardinality_ok_def)
  moreover have "\<forall>x \<in> set xs. item_ok E g (h x)"
    using items xs False by (auto simp: item_values_def)
  moreover have "Type g = FieldTypeComponent \<or> Type g = FieldTypeDynamicZone" using n a by (simp add: nested_def)
  ultimately show ?thesis using False a xs(1) by (auto simp: value_ok.simps on_items_def)
qed

lemma plain_attach: "\<not> nested f \<Longrightarrow> with_components st f = f"
  by (simp add: with_components_def nested_def)

text \<open>How one stored item must change: its body stays legal and it keeps its component.\<close>

definition item_body :: "bool \<Rightarrow> doc \<Rightarrow> doc" where
  "item_body z item = (if z then zoneItemBody item else item)"

definition good_item :: "env \<Rightarrow> field list \<Rightarrow> field list \<Rightarrow> (doc \<Rightarrow> doc) \<Rightarrow> bool \<Rightarrow> doc \<Rightarrow> bool" where
  "good_item E fs fs' g z item \<longleftrightarrow>
     (payload_ok E fs (item_body z item) \<longrightarrow> payload_ok E fs' (item_body z (g item))) \<and>
     (z \<longrightarrow> zoneItemComponent (g item) = zoneItemComponent item)"

lemma tagged_legal:
  "zoneItemComponent item \<noteq> [] \<Longrightarrow> tagged name item \<longleftrightarrow> zoneItemComponent item = name"
proof -
  assume "zoneItemComponent item \<noteq> []"
  then have "map_of item ZoneDiscriminator = Some (JStr (zoneItemComponent item))"
    by (intro str_or_empty_nonempty) (simp_all add: zoneItemComponent_def)
  then show ?thesis by (simp add: tagged_def)
qed

definition item_change :: "string \<Rightarrow> bool \<Rightarrow> (doc \<Rightarrow> doc) \<Rightarrow> json \<Rightarrow> json" where
  "item_change name z g x =
     (case x of JObj item \<Rightarrow> JObj (if z \<longrightarrow> tagged name item then g item else item) | _ \<Rightarrow> x)"

lemma rewrite_value_items:
  assumes "value_ok E f v" and "nested f" and "cr_Zone ref \<longleftrightarrow> Type f = FieldTypeDynamicZone"
  shows "rewrite_value name ref g v = on_items f (item_change name (cr_Zone ref) g) v"
proof -
  have objs: "on_objects (\<lambda>item. if z \<longrightarrow> tagged name item then g item else item) xs = map (item_change name z g) xs" for z xs
    by (simp add: on_objects_def item_change_def cong: json.case_cong)
  show ?thesis
  proof (cases "Type f = FieldTypeComponent \<and> \<not> Multiple f")
    case True
    then obtain item where "v = JObj item" using assms(1) by (cases v) (auto simp: value_ok.simps item_ok.simps)
    then show ?thesis using True assms(3) by (simp add: rewrite_value_def on_items_def item_change_def)
  next
    case False
    then obtain xs where xs: "v = JArr xs" using assms(1,2) by (cases v) (auto simp: value_ok.simps nested_def)
    show ?thesis using False xs objs [of "cr_Zone ref" xs] by (auto simp: rewrite_value_def on_items_def)
  qed
qed

text \<open>The items of a value that belong to a component, as the guards look at them.\<close>

definition own_items :: "string \<Rightarrow> field \<Rightarrow> json \<Rightarrow> doc list" where
  "own_items name f v =
     filter (\<lambda>item. Type f = FieldTypeDynamicZone \<longrightarrow> zoneItemComponent item = name) (objects_of (item_values f v))"

lemma in_objects: "item \<in> set (objects_of xs) \<longleftrightarrow> JObj item \<in> set xs"
proof (induction xs)
  case (Cons x xs)
  then show ?case by (cases x) (auto simp: objects_of_def List.map_filter_simps)
qed (simp add: objects_of_def List.map_filter_simps)

lemma in_own_items:
  "item \<in> set (own_items name f v) \<longleftrightarrow> JObj item \<in> set (item_values f v) \<and>
     (Type f = FieldTypeDynamicZone \<longrightarrow> zoneItemComponent item = name)"
  by (auto simp: own_items_def in_objects)

section \<open>One component is exchanged for another\<close>

definition swapped :: "string \<Rightarrow> component \<Rightarrow> component \<Rightarrow> store \<Rightarrow> store \<Rightarrow> bool" where
  "swapped name c c' st st' \<longleftrightarrow> GetComponentByName st name = Some c \<and> GetComponentByName st' name = Some c' \<and>
     (\<forall>n. n \<noteq> name \<longrightarrow> GetComponentByName st' n = GetComponentByName st n)"

definition refers :: "string \<Rightarrow> field \<Rightarrow> bool" where
  "refers name f \<longleftrightarrow> refers_by_id name f \<or> refers_by_zone name f"

definition carried_value :: "string \<Rightarrow> (doc \<Rightarrow> doc) \<Rightarrow> field \<Rightarrow> json \<Rightarrow> json" where
  "carried_value name g f v =
     (if refers name f then on_items f (item_change name (Type f = FieldTypeDynamicZone) g) v else v)"

lemma on_items_id: "(\<And>x. h x = x) \<Longrightarrow> on_items f h v = v"
proof -
  assume "\<And>x. h x = x"
  then have "h = (\<lambda>x. x)" by blast
  then show ?thesis by (simp add: on_items_def split: json.split)
qed

lemma attach_component_fields: "Type f = FieldTypeComponent \<Longrightarrow>
    ComponentFields (with_components st f) = fields_of_component st (f_ComponentName (attrs f))"
  by (simp add: with_components_def)

lemma carried_item:
  assumes sw: "swapped name c c' st st'" and att: "attached st f" and n: "nested f"
    and ok: "item_ok E f (JObj item)"
    and good: "refers name f \<Longrightarrow> (Type f = FieldTypeDynamicZone \<longrightarrow> zoneItemComponent item = name) \<Longrightarrow>
      good_item E (cp_Fields c) (cp_Fields c') g (Type f = FieldTypeDynamicZone) item"
  shows "item_ok E (with_components st' f)
    (if refers name f then item_change name (Type f = FieldTypeDynamicZone) g (JObj item) else JObj item)"
proof (cases "Type f = FieldTypeDynamicZone")
  case False
  then have t: "Type f = FieldTypeComponent" using n by (simp add: nested_def)
  let ?n = "f_ComponentName (attrs f)"
  obtain c0 where c0: "GetComponentByName st ?n = Some c0" "ComponentFields f = cp_Fields c0"
    using att t by (auto simp: attached_def)
  have r: "refers name f \<longleftrightarrow> ?n = name" using t by (auto simp: refers_def refers_by_id_def refers_by_zone_def field_type_defs)
  have body: "payload_ok E (cp_Fields c0) item" using ok False c0 by (simp add: item_ok.simps)
  show ?thesis
  proof (cases "?n = name")
    case True
    then have "c0 = c" using c0 sw by (simp add: swapped_def)
    moreover have "ComponentFields (with_components st' f) = cp_Fields c'"
      using sw True t by (simp add: attach_component_fields fields_of_component_def swapped_def)
    ultimately show ?thesis
      using good body False True r by (simp add: item_ok.simps item_change_def good_item_def item_body_def)
  next
    case other: False
    then have "ComponentFields (with_components st' f) = cp_Fields c0"
      using sw c0 t by (simp add: attach_component_fields fields_of_component_def swapped_def)
    then show ?thesis using other r body False by (simp add: item_ok.simps)
  qed
next
  case z: True
  let ?n = "zoneItemComponent item"
  have n: "?n \<noteq> []" "?n \<in> set (ZoneComponents f)" "payload_ok E (zone_fields_of f ?n) (zoneItemBody item)"
    using ok z by (auto simp: item_ok.simps Let_def ZoneAllows_def)
  obtain c0 where c0: "GetComponentByName st ?n = Some c0" "zone_fields_of f ?n = cp_Fields c0"
    using att z n(2) by (auto simp: attached_def zone_attached_def)
  have fields: "zone_fields_of (with_components st' f) ?n = fields_of_component st' ?n"
    using z n(2) by (rule zone_fields_attach)
  show ?thesis
  proof (cases "?n = name")
    case True
    then have r: "refers name f" using z n(2) by (auto simp: refers_def refers_by_zone_def)
    have "tagged name item" using tagged_legal [OF n(1)] True by simp
    moreover have "c0 = c" "fields_of_component st' ?n = cp_Fields c'"
      using c0 sw True by (simp_all add: swapped_def fields_of_component_def)
    ultimately show ?thesis
      using good [OF r] True z n c0 fields r
      by (simp add: item_ok.simps item_change_def good_item_def item_body_def ZoneAllows_def Let_def)
  next
    case False
    then have "\<not> tagged name item" using tagged_legal [OF n(1)] by simp
    moreover have "fields_of_component st' ?n = cp_Fields c0"
      using c0 sw False by (simp add: swapped_def fields_of_component_def)
    ultimately show ?thesis
      using z n c0 fields by (simp add: item_ok.simps item_change_def ZoneAllows_def Let_def)
  qed
qed

lemma component_value:
  assumes sw: "swapped name c c' st st'" and att: "attached st f" and v: "value_ok E f v"
    and good: "\<And>item. refers name f \<Longrightarrow> item \<in> set (own_items name f v) \<Longrightarrow>
      good_item E (cp_Fields c) (cp_Fields c') g (Type f = FieldTypeDynamicZone) item"
  shows "value_ok E (with_components st' f) (carried_value name g f v)"
proof (cases "nested f")
  case False
  then have "\<not> refers name f" by (auto simp: nested_def refers_def refers_by_id_def refers_by_zone_def)
  with False v show ?thesis by (simp add: plain_attach carried_value_def)
next
  case True
  let ?h = "\<lambda>x. if refers name f then item_change name (Type f = FieldTypeDynamicZone) g x else x"
  have "item_ok E (with_components st' f) (?h x)" if x: "x \<in> set (item_values f v)" "item_ok E f x" for x
  proof -
    obtain item where item: "x = JObj item" using x(2) by (cases x) (auto simp: item_ok.simps)
    show ?thesis unfolding item
      by (rule carried_item [OF sw att True]) (use x good in \<open>auto simp: item in_own_items\<close>)
  qed
  then have "value_ok E (with_components st' f) (on_items f ?h v)"
    by (intro nested_value [OF True _ _ _ v]) auto
  then show ?thesis by (cases "refers name f") (simp_all add: carried_value_def on_items_id)
qed

section \<open>From values to documents\<close>

definition carried :: "env \<Rightarrow> (field \<Rightarrow> json \<Rightarrow> json) \<Rightarrow> field list \<Rightarrow> doc \<Rightarrow> doc \<Rightarrow> bool" where
  "carried E W fs d d' \<longleftrightarrow> fst ` set d' = fst ` set d \<and>
     (\<forall>f \<in> set fs. present d (Key f) = None \<longrightarrow> present d' (Key f) = None) \<and>
     (\<forall>f \<in> set fs. \<forall>v. present d (Key f) = Some v \<longrightarrow> value_ok E f v \<longrightarrow> present d' (Key f) = Some (W f v))"

lemma carried_legal:
  assumes ok: "payload_ok E fs d" and c: "carried E W fs d d'"
    and F: "\<And>f. f \<in> set fs \<Longrightarrow> Key (F f) = Key f \<and> Required (F f) = Required f"
    and W: "\<And>f v. f \<in> set fs \<Longrightarrow> present d (Key f) = Some v \<Longrightarrow> value_ok E f v \<Longrightarrow> value_ok E (F f) (W f v)"
  shows "payload_ok E (map F fs) d'"
  unfolding payload_ok_slots
proof (intro conjI ballI)
  have "Key ` set (map F fs) = Key ` set fs" using F by (force simp: image_iff)
  then show "fst ` set d' \<subseteq> Key ` set (map F fs)" using ok c by (simp add: payload_ok_slots carried_def)
next
  fix g assume "g \<in> set (map F fs)"
  then obtain f where f: "f \<in> set fs" "g = F f" by auto
  have s: "slot_ok E f d" using ok f(1) by (simp add: payload_ok_slots)
  show "slot_ok E g d'"
  proof (cases "present d (Key f)")
    case None
    then show ?thesis using s c f F by (simp add: slot_ok_def carried_def)
  next
    case (Some v)
    then show ?thesis using s c f F W by (simp add: slot_ok_def carried_def)
  qed
qed

lemma carried_refl: "(\<And>f v. f \<in> set fs \<Longrightarrow> value_ok E f v \<Longrightarrow> W f v = v) \<Longrightarrow> carried E W fs d d"
  by (simp add: carried_def)

lemma on_value_keys [simp]: "fst ` set (on_value key h d) = fst ` set d"
  by (force simp: on_value_def image_iff)

lemma on_value_lookup: "map_of (on_value key h d) k = (if k = key then map_option h (map_of d k) else map_of d k)"
  by (induction d) (auto simp: on_value_def)

text \<open>
  A rewrite of the copies of an entry that touches one key and changes nothing in a copy it does
  not count.
\<close>

lemma rewrite_copies_payload:
  assumes "\<not> P (e_Payload e) \<Longrightarrow> map_option h (map_of (e_Payload e) key) = map_of (e_Payload e) key"
  shows "fst ` set (e_Payload (rewrite_copies P (on_value key h) e)) = fst ` set (e_Payload e)"
    and "map_of (e_Payload (rewrite_copies P (on_value key h) e)) k =
      (if k = key then map_option h (map_of (e_Payload e) k) else map_of (e_Payload e) k)"
  using assms by (auto simp: rewrite_copies_def both_copies_def on_value_lookup)

text \<open>A pass over the references of a row, one key each.\<close>

definition quiet :: "(component_ref \<Rightarrow> doc \<Rightarrow> bool) \<Rightarrow> (component_ref \<Rightarrow> json \<Rightarrow> json) \<Rightarrow> bool" where
  "quiet P h \<longleftrightarrow> (\<forall>ref d v. \<not> P ref d \<longrightarrow> map_of d (cr_FieldKey ref) = Some v \<longrightarrow> h ref v = v)"

definition rewrite_pass ::
    "(component_ref \<Rightarrow> doc \<Rightarrow> bool) \<Rightarrow> (component_ref \<Rightarrow> json \<Rightarrow> json) \<Rightarrow> component_ref \<Rightarrow> entry \<Rightarrow> entry" where
  "rewrite_pass P h ref = rewrite_copies (P ref) (on_value (cr_FieldKey ref) (h ref))"

lemma rewrite_pass_payload:
  assumes "quiet P h"
  shows "fst ` set (e_Payload (rewrite_pass P h ref e)) = fst ` set (e_Payload e)"
    and "map_of (e_Payload (rewrite_pass P h ref e)) k =
      (if k = cr_FieldKey ref then map_option (h ref) (map_of (e_Payload e) k) else map_of (e_Payload e) k)"
proof -
  have "map_option (h ref) (map_of (e_Payload e) (cr_FieldKey ref)) = map_of (e_Payload e) (cr_FieldKey ref)"
    if "\<not> P ref (e_Payload e)"
    using that assms by (cases "map_of (e_Payload e) (cr_FieldKey ref)") (auto simp: quiet_def)
  note rewrite_copies_payload [of "P ref" e "h ref" "cr_FieldKey ref", OF this]
  then show "fst ` set (e_Payload (rewrite_pass P h ref e)) = fst ` set (e_Payload e)"
    "map_of (e_Payload (rewrite_pass P h ref e)) k =
      (if k = cr_FieldKey ref then map_option (h ref) (map_of (e_Payload e) k) else map_of (e_Payload e) k)"
    by (simp_all add: rewrite_pass_def)
qed

lemma fold_passes:
  assumes "quiet P h" and "distinct (map cr_FieldKey refs)"
  shows "fst ` set (e_Payload (fold (rewrite_pass P h) refs e)) = fst ` set (e_Payload e) \<and>
    map_of (e_Payload (fold (rewrite_pass P h) refs e)) k =
      (case find (\<lambda>ref. cr_FieldKey ref = k) refs of
         None \<Rightarrow> map_of (e_Payload e) k | Some ref \<Rightarrow> map_option (h ref) (map_of (e_Payload e) k))"
  using assms(2)
proof (induction refs arbitrary: e)
  case (Cons ref refs)
  have none: "find (\<lambda>ref'. cr_FieldKey ref' = cr_FieldKey ref) refs = None"
    using Cons.prems by (auto simp: find_None_iff) (metis imageI)
  show ?case
    using Cons.IH [of "rewrite_pass P h ref e"] Cons.prems none
    by (auto simp: rewrite_pass_payload [OF assms(1)] split: option.split)
qed simp

lemma refs_of_row_keys:
  assumes "distinct (map Key (ct_Fields (row_Type r)))"
  shows "distinct (map cr_FieldKey (refs_of_row name r))"
proof -
  let ?fs = "ct_Fields (row_Type r)"
  have i: "inj_on Key (set ?fs)" "distinct ?fs" using assms by (simp_all add: distinct_map)
  have "map cr_FieldKey (refs_of_row name r) = map Key (filter (refers_by_id name) ?fs @ filter (refers_by_zone name) ?fs)"
    by (simp add: refs_of_row_def Let_def)
  moreover have "distinct (filter (refers_by_id name) ?fs @ filter (refers_by_zone name) ?fs)"
    using i by (auto simp: refers_by_id_def refers_by_zone_def field_type_defs)
  moreover have "inj_on Key (set (filter (refers_by_id name) ?fs @ filter (refers_by_zone name) ?fs))"
    by (rule inj_on_subset [OF i(1)]) auto
  ultimately show ?thesis by (simp only: distinct_map)
qed

lemma find_key:
  "distinct (map cr_FieldKey refs) \<Longrightarrow> ref \<in> set refs \<Longrightarrow> find (\<lambda>x. cr_FieldKey x = cr_FieldKey ref) refs = Some ref"
  by (induction refs) auto

lemma refs_of_row_find:
  assumes d: "distinct (map Key (ct_Fields (row_Type r)))" and f: "f \<in> set (ct_Fields (row_Type r))"
  shows "find (\<lambda>ref. cr_FieldKey ref = Key f) (refs_of_row name r) =
    (if refers name f then Some \<lparr>cr_TypeName = ct_Name (row_Type r), cr_FieldKey = Key f, cr_Multiple = Multiple f,
       cr_Zone = (Type f = FieldTypeDynamicZone)\<rparr> else None)"
proof (cases "refers name f")
  case True
  let ?ref = "\<lparr>cr_TypeName = ct_Name (row_Type r), cr_FieldKey = Key f, cr_Multiple = Multiple f,
       cr_Zone = (Type f = FieldTypeDynamicZone)\<rparr>"
  have "?ref \<in> set (refs_of_row name r)"
    using True f by (auto simp: refs_of_row_def refers_def refers_by_id_def refers_by_zone_def Let_def field_type_defs)
  from find_key [OF refs_of_row_keys [OF d] this] True show ?thesis by simp
next
  case False
  have "g = f" if "g \<in> set (ct_Fields (row_Type r))" "Key g = Key f" for g
    using that d f by (auto simp: distinct_map inj_on_def)
  then have "\<forall>ref \<in> set (refs_of_row name r). cr_FieldKey ref \<noteq> Key f"
    using False by (auto simp: refs_of_row_def refers_def Let_def) metis+
  with False show ?thesis by (auto simp: find_None_iff)
qed

lemma present_lookup: "map_of d' k = map_of d k \<Longrightarrow> present d' k = present d k"
  by (simp add: present_def)

lemma passes_carried:
  assumes q: "quiet P h" and d: "distinct (map Key (ct_Fields (row_Type r)))"
    and h: "\<And>ref f v. f \<in> set (ct_Fields (row_Type r)) \<Longrightarrow> refers name f \<Longrightarrow> value_ok E f v \<Longrightarrow> v \<noteq> JNull \<Longrightarrow>
       cr_Zone ref \<longleftrightarrow> Type f = FieldTypeDynamicZone \<Longrightarrow> cr_FieldKey ref = Key f \<Longrightarrow> h ref v = W f v \<and> W f v \<noteq> JNull"
    and null: "\<And>ref. h ref JNull = JNull" and keep: "\<And>f v. \<not> refers name f \<Longrightarrow> W f v = v"
  shows "carried E W (ct_Fields (row_Type r)) (e_Payload e) (e_Payload (fold (rewrite_pass P h) (refs_of_row name r) e))"
proof -
  let ?d = "e_Payload e" and ?d' = "e_Payload (fold (rewrite_pass P h) (refs_of_row name r) e)"
  note look = fold_passes [OF q refs_of_row_keys [OF d], of name e]
  show ?thesis
    unfolding carried_def
  proof (intro conjI ballI allI impI)
    show "fst ` set ?d' = fst ` set ?d" using look by blast
  next
    fix f assume f: "f \<in> set (ct_Fields (row_Type r))" and n: "present ?d (Key f) = None"
    then show "present ?d' (Key f) = None"
      using look [of "Key f"] refs_of_row_find [OF d f, of name] null
      by (auto simp: present_def split: option.splits json.splits if_splits)
  next
    fix f v assume f: "f \<in> set (ct_Fields (row_Type r))" and v: "present ?d (Key f) = Some v" "value_ok E f v"
    have m: "map_of ?d (Key f) = Some v" "v \<noteq> JNull" using v(1) by (auto simp: present_Some)
    show "present ?d' (Key f) = Some (W f v)"
    proof (cases "refers name f")
      case True
      let ?ref = "\<lparr>cr_TypeName = ct_Name (row_Type r), cr_FieldKey = Key f, cr_Multiple = Multiple f,
        cr_Zone = (Type f = FieldTypeDynamicZone)\<rparr>"
      have "h ?ref v = W f v \<and> W f v \<noteq> JNull" by (rule h [OF f True v(2) m(2)]) simp_all
      then show ?thesis
        using True look [of "Key f"] refs_of_row_find [OF d f, of name] m by (simp add: present_Some)
    next
      case False
      then show ?thesis
        using look [of "Key f"] refs_of_row_find [OF d f, of name] keep m by (simp add: present_Some)
    qed
  qed
qed

section \<open>From documents to the store\<close>

definition with_entries :: "(type_row \<Rightarrow> entry \<Rightarrow> entry) \<Rightarrow> type_row \<Rightarrow> type_row" where
  "with_entries T r = r\<lparr>row_Entries := map (T r) (row_Entries r)\<rparr>"

lemma with_entries_simps [simp]:
  "row_Type (with_entries T r) = row_Type r" "row_Entries (with_entries T r) = map (T r) (row_Entries r)"
  by (simp_all add: with_entries_def)

lemma rewrite_refs_components [simp]: "st_Components (rewrite_refs h refs st) = st_Components st"
  by (induction refs arbitrary: st) (simp_all add: rewrite_refs_def rewrite_ref_def update_row_def)

lemma rewrite_refs_rows:
  "st_Rows (rewrite_refs h refs st) =
     map (with_entries (\<lambda>r. fold h (filter (\<lambda>ref. row_named (cr_TypeName ref) r) refs))) (st_Rows st)"
proof (induction refs arbitrary: st)
  case Nil
  then show ?case by (simp add: rewrite_refs_def with_entries_def map_idI)
next
  case (Cons ref refs)
  have named: "row_named n (r\<lparr>row_Entries := es\<rparr>) = row_named n r" for n es and r :: type_row by (simp add: row_named_def)
  have "rewrite_refs h (ref # refs) st = rewrite_refs h refs (rewrite_ref h ref st)"
    by (simp add: rewrite_refs_def)
  then show ?case
    unfolding Cons.IH
    by (auto simp: Cons.IH rewrite_ref_def update_row_def with_entries_def named)
qed

lemma refs_for_row:
  assumes "distinct (map (\<lambda>r. ct_Name (row_Type r)) (st_Rows st))" and "r \<in> set (st_Rows st)"
  shows "filter (\<lambda>ref. row_named (cr_TypeName ref) r) (ListComponentReferrers st name) = refs_of_row name r"
proof -
  have own: "filter (\<lambda>ref. row_named (cr_TypeName ref) r) (refs_of_row name q) =
      (if ct_Name (row_Type q) = ct_Name (row_Type r) then refs_of_row name q else [])" for q
    by (auto simp: refs_of_row_def Let_def row_named_def filter_empty_conv)
  have "filter (\<lambda>ref. row_named (cr_TypeName ref) r) (concat (map (refs_of_row name) rs)) =
      (if r \<in> set rs then refs_of_row name r else [])"
    if "distinct (map (\<lambda>r. ct_Name (row_Type r)) rs)" "\<forall>q \<in> set rs. ct_Name (row_Type q) = ct_Name (row_Type r) \<longrightarrow> q = r" for rs
    using that by (induction rs) (auto simp: own)
  moreover have "\<forall>q \<in> set (st_Rows st). ct_Name (row_Type q) = ct_Name (row_Type r) \<longrightarrow> q = r"
    using assms by (auto simp: distinct_map inj_on_def)
  ultimately show ?thesis using assms by (simp add: ListComponentReferrers_def)
qed

lemma attach_cong: "st_Components st' = st_Components st \<Longrightarrow> with_components st' = with_components st"
  by (simp add: fun_eq_iff with_components_def fields_of_component_def GetComponentByName_def)

lemma lookup_cong: "st_Components st' = st_Components st \<Longrightarrow> GetComponentByName st' = GetComponentByName st"
  by (simp add: fun_eq_iff GetComponentByName_def)

lemma reload_simps [simp]:
  "st_Components (reload st) = st_Components st"
  "st_Rows (reload st) = map (\<lambda>r. set_fields (map (with_components st) (ct_Fields (row_Type r))) r) (st_Rows st)"
  by (simp_all add: reload_def)

lemma put_component_simps [simp]:
  "st_Components (put_component name c' st) = map (\<lambda>c. if cp_Name c = name then c' else c) (st_Components st)"
  "st_Rows (put_component name c' st) = st_Rows st"
  by (simp_all add: put_component_def)

lemma put_component_lookup:
  assumes "cp_Name c' = name"
  shows "GetComponentByName (put_component name c' st) n =
    (if n = name then map_option (\<lambda>_. c') (GetComponentByName st name) else GetComponentByName st n)"
proof -
  have "find (\<lambda>c. cp_Name c = n) (map (\<lambda>c. if cp_Name c = name then c' else c) cs) =
    (if n = name then map_option (\<lambda>_. c') (find (\<lambda>c. cp_Name c = name) cs) else find (\<lambda>c. cp_Name c = n) cs)" for cs
    using assms by (induction cs) auto
  then show ?thesis by (simp add: GetComponentByName_def)
qed

lemma put_component_names:
  "cp_Name c' = name \<Longrightarrow> map cp_Name (st_Components (put_component name c' st)) = map cp_Name (st_Components st)"
  by simp

text \<open>A store whose rows were carried over field by field and entry by entry.\<close>

lemma rows_sound:
  assumes old: "\<forall>r \<in> set (st_Rows st). row_sound E st r"
    and rows: "st_Rows st' = map (\<lambda>r. set_fields (map F (ct_Fields (row_Type r))) (with_entries T r)) (st_Rows st)"
    and F: "\<And>r f. r \<in> set (st_Rows st) \<Longrightarrow> f \<in> set (ct_Fields (row_Type r)) \<Longrightarrow>
      attached st' (F f) \<and> Key (F f) = Key f \<and> Type (F f) = Type f \<and> Multiple (F f) = Multiple f \<and> Constraints (F f) = Constraints f"
    and T: "\<And>r e. r \<in> set (st_Rows st) \<Longrightarrow> e \<in> set (row_Entries r) \<Longrightarrow>
      payload_ok E (ct_Fields (row_Type r)) (e_Payload e) \<Longrightarrow>
      payload_ok E (map F (ct_Fields (row_Type r))) (e_Payload (T r e))"
  shows "(\<forall>r \<in> set (st_Rows st'). row_sound E st' r) \<and>
    map (\<lambda>r. ct_Name (row_Type r)) (st_Rows st') = map (\<lambda>r. ct_Name (row_Type r)) (st_Rows st)"
proof (intro conjI ballI)
  fix r' assume "r' \<in> set (st_Rows st')"
  then obtain r :: type_row where r: "r \<in> set (st_Rows st)"
    "r' = set_fields (map F (ct_Fields (row_Type r))) (with_entries T r)"
    by (auto simp: rows)
  have s: "row_sound E st r" using old r(1) by blast
  have keys: "map Key (map F (ct_Fields (row_Type r))) = map Key (ct_Fields (row_Type r))"
    using F [OF r(1)] by simp
  show "row_sound E st' r'"
    unfolding row_sound_def r(2) set_fields_simps with_entries_simps keys
  proof (intro conjI ballI)
    show "distinct (map Key (ct_Fields (row_Type r)))" using s by (simp add: row_sound_def)
  next
    fix g assume "g \<in> set (map F (ct_Fields (row_Type r)))"
    then obtain f where f: "f \<in> set (ct_Fields (row_Type r))" "g = F f" by auto
    then show "attached st' g" "ValidateFieldConstraints E (Type g) (Multiple g) (Constraints g) = None"
      using F [OF r(1) f(1)] s by (auto simp: row_sound_def)
  next
    show "entries_legal E (set_fields (map F (ct_Fields (row_Type r))) (with_entries T r))"
      using s T [OF r(1)] by (auto simp: row_sound_def entries_legal_def)
  qed
next
  show "map (\<lambda>r. ct_Name (row_Type r)) (st_Rows st') = map (\<lambda>r. ct_Name (row_Type r)) (st_Rows st)"
    by (simp add: rows)
qed

lemma attached_lookups:
  assumes "attached st f"
  shows "Type f = FieldTypeComponent \<Longrightarrow> GetComponentByName st (f_ComponentName (attrs f)) \<noteq> None"
    and "Type f = FieldTypeDynamicZone \<Longrightarrow> n \<in> set (ZoneComponents f) \<Longrightarrow> GetComponentByName st n \<noteq> None"
  using assms by (auto simp: attached_def zone_attached_def)

text \<open>One component exchanged for another of its name, with the entries carried over.\<close>

lemma touched_sound:
  assumes sound: "store_sound E st" and c: "GetComponentByName st name = Some c"
    and c': "cp_Name c' = name" "component_sound E c'"
    and st1: "st_Components st1 = st_Components st" "st_Rows st1 = map (with_entries T) (st_Rows st)"
    and touched: "touched_component name c' st1 = Inr st'"
    and carry: "\<And>r e. r \<in> set (st_Rows st) \<Longrightarrow> e \<in> set (row_Entries r) \<Longrightarrow>
      carried E (carried_value name g) (ct_Fields (row_Type r)) (e_Payload e) (e_Payload (T r e))"
    and good: "\<And>r e f v item. r \<in> set (st_Rows st) \<Longrightarrow> e \<in> set (row_Entries r) \<Longrightarrow> f \<in> set (ct_Fields (row_Type r)) \<Longrightarrow>
      refers name f \<Longrightarrow> present (e_Payload e) (Key f) = Some v \<Longrightarrow> item \<in> set (own_items name f v) \<Longrightarrow>
      good_item E (cp_Fields c) (cp_Fields c') g (Type f = FieldTypeDynamicZone) item"
  shows "store_sound E st'"
proof -
  have st': "st' = reload (put_component name c' st1)"
    using touched by (auto simp: touched_component_def split: option.splits)
  have look: "GetComponentByName st' n = (if n = name then Some c' else GetComponentByName st n)" for n
    using put_component_lookup [OF c'(1), of st1 n] c lookup_cong [OF st1(1)] lookup_cong [of st' "put_component name c' st1"]
    by (simp add: st')
  have sw: "swapped name c c' st st'" using c by (simp add: swapped_def look)
  have att: "with_components (put_component name c' st1) = with_components st'" by (rule attach_cong) (simp add: st')
  have rows: "st_Rows st' = map (\<lambda>r. set_fields (map (with_components st') (ct_Fields (row_Type r))) (with_entries T r)) (st_Rows st)"
    unfolding att [symmetric] by (simp add: st' st1)
  have old: "\<forall>r \<in> set (st_Rows st). row_sound E st r" using sound by (simp add: store_sound_def)
  have "(\<forall>r \<in> set (st_Rows st'). row_sound E st' r) \<and>
    map (\<lambda>r. ct_Name (row_Type r)) (st_Rows st') = map (\<lambda>r. ct_Name (row_Type r)) (st_Rows st)"
  proof (rule rows_sound [OF old rows])
    fix r f assume r: "r \<in> set (st_Rows st)" and f: "f \<in> set (ct_Fields (row_Type r))"
    have a: "attached st f" using old r f by (auto simp: row_sound_def)
    have "attached st' (with_components st' f)"
      by (rule attach_attached) (use attached_lookups [OF a] in \<open>auto simp: look\<close>)
    then show "attached st' (with_components st' f) \<and> Key (with_components st' f) = Key f \<and> Type (with_components st' f) = Type f \<and>
        Multiple (with_components st' f) = Multiple f \<and> Constraints (with_components st' f) = Constraints f" by simp
  next
    fix r e assume r: "r \<in> set (st_Rows st)" and e: "e \<in> set (row_Entries r)"
      and ok: "payload_ok E (ct_Fields (row_Type r)) (e_Payload e)"
    show "payload_ok E (map (with_components st') (ct_Fields (row_Type r))) (e_Payload (T r e))"
    proof (rule carried_legal [OF ok carry [OF r e]])
      fix f v assume f: "f \<in> set (ct_Fields (row_Type r))" and v: "present (e_Payload e) (Key f) = Some v" "value_ok E f v"
      have a: "attached st f" using old r f by (auto simp: row_sound_def)
      show "value_ok E (with_components st' f) (carried_value name g f v)"
        by (rule component_value [OF sw a v(2)]) (rule good [OF r e f _ v(1)])
    qed simp
  qed
  moreover have "map cp_Name (st_Components st') = map cp_Name (st_Components st)"
    using put_component_names [OF c'(1), of st1] by (simp add: st' st1)
  moreover have "\<forall>x \<in> set (st_Components st'). component_sound E x"
    using sound c'(2) by (auto simp: st' st1 store_sound_def)
  ultimately show ?thesis using sound by (simp add: store_sound_def)
qed

end
