(* ===== verification/Component_Guards.thy ===== *)
theory Component_Guards
  imports Component_Safety
begin

text \<open>
  Each component verb in turn: what its guards or its rewrite of the stored documents make sure
  of, and that a sound store is sound again afterwards.  The last section composes the verbs
  into histories.
\<close>

section \<open>What the counts see\<close>

text \<open>The bodies of the items of one component in the working copies of every referring field.\<close>

definition own_body :: "store \<Rightarrow> string \<Rightarrow> doc \<Rightarrow> bool" where
  "own_body st name b \<longleftrightarrow> (\<exists>r \<in> set (st_Rows st). \<exists>e \<in> set (row_Entries r). \<exists>f \<in> set (ct_Fields (row_Type r)).
     \<exists>v item. refers name f \<and> present (e_Payload e) (Key f) = Some v \<and> item \<in> set (own_items name f v) \<and>
       b = item_body (Type f = FieldTypeDynamicZone) item)"

lemma own_bodyI:
  "r \<in> set (st_Rows st) \<Longrightarrow> e \<in> set (row_Entries r) \<Longrightarrow> f \<in> set (ct_Fields (row_Type r)) \<Longrightarrow> refers name f \<Longrightarrow>
     present (e_Payload e) (Key f) = Some v \<Longrightarrow> item \<in> set (own_items name f v) \<Longrightarrow>
     own_body st name (item_body (Type f = FieldTypeDynamicZone) item)"
  unfolding own_body_def by blast

lemma zone_body: "zoneItemBody item = drop_key ZoneDiscriminator item"
  by (simp add: zoneItemBody_def drop_key_def)

lemma present_item_body: "k \<noteq> ZoneDiscriminator \<Longrightarrow> present (item_body z item) k = present item k"
  by (simp add: item_body_def zone_body present_def drop_key_lookup)

lemma entries_of_row:
  assumes "distinct (map (\<lambda>r. ct_Name (row_Type r)) (st_Rows st))" and "r \<in> set (st_Rows st)"
  shows "stored_entries st (ct_Name (row_Type r)) = row_Entries r"
proof -
  have "find (row_named (ct_Name (row_Type r))) rs = Some r"
    if "distinct (map (\<lambda>r. ct_Name (row_Type r)) rs)" "r \<in> set rs" for rs
    using that by (induction rs) (auto simp: row_named_def)
  then show ?thesis using assms by (simp add: stored_entries_def GetContentTypeByName_def)
qed

lemma counted_items:
  assumes sound: "store_sound E st"
    and zero: "countComponentEntries st name (ListComponentReferrers st name) P = 0"
    and r: "r \<in> set (st_Rows st)" and e: "e \<in> set (row_Entries r)" and f: "f \<in> set (ct_Fields (row_Type r))"
    and ref: "refers name f" and v: "present (e_Payload e) (Key f) = Some v" and item: "item \<in> set (own_items name f v)"
  shows "\<not> P item"
proof -
  let ?ref = "\<lparr>cr_TypeName = ct_Name (row_Type r), cr_FieldKey = Key f, cr_Multiple = Multiple f,
     cr_Zone = (Type f = FieldTypeDynamicZone)\<rparr>"
  have "?ref \<in> set (refs_of_row name r)"
    using ref f by (auto simp: refs_of_row_def refers_def refers_by_id_def refers_by_zone_def Let_def field_type_defs)
  then have "?ref \<in> set (ListComponentReferrers st name)" using r by (auto simp: ListComponentReferrers_def)
  then have "countEntries (ref_hit name P ?ref) (row_Entries r) = 0"
    using zero entries_of_row [of st r] sound r by (auto simp: countComponentEntries_def store_sound_def)
  then have "\<not> ref_hit name P ?ref e" using e by simp
  then have no: "\<not> list_ex P (items_asked name ?ref v)" using v by (simp add: ref_hit_def scanned_def)
  have "item \<in> set (items_asked name ?ref v)"
  proof (cases "Type f = FieldTypeDynamicZone")
    case True
    then show ?thesis using item
      by (cases v) (auto simp: items_asked_def in_own_items item_values_def zoneItems_def in_objects field_type_defs)
  next
    case False
    then have "Type f = FieldTypeComponent" using ref by (auto simp: refers_def refers_by_id_def refers_by_zone_def)
    then show ?thesis using item False
      by (cases v) (auto simp: items_asked_def in_own_items item_values_def componentItems_def ref_field_def zero_attrs_def in_objects split: if_splits)
  qed
  with no show ?thesis by (auto simp: list_ex_iff)
qed

text \<open>A predicate on one key sees the same thing in an item and in its body.\<close>

lemma counted_bodies:
  assumes "store_sound E st" and "countComponentEntries st name (ListComponentReferrers st name) P = 0"
    and "\<And>z item. P (item_body z item) \<longleftrightarrow> P item" and "own_body st name b"
  shows "\<not> P b"
  using assms counted_items [OF assms(1,2)] unfolding own_body_def by blast

section \<open>Changes that leave the documents as they are\<close>

lemma loadComponent_ok:
  "loadComponent name st = Inr (c, refs) \<Longrightarrow>
     GetComponentByName st name = Some c \<and> cp_Name c = name \<and> refs = ListComponentReferrers st name"
  using GetComponent_in [of st name] by (auto simp: loadComponent_def split: option.splits)

lemma in_place_sound:
  assumes sound: "store_sound E st" and c: "GetComponentByName st name = Some c"
    and c': "cp_Name c' = name" "component_sound E c'" and touched: "touched_component name c' st = Inr st'"
    and bodies: "\<And>b. own_body st name b \<Longrightarrow> payload_ok E (cp_Fields c) b \<Longrightarrow> payload_ok E (cp_Fields c') b"
  shows "store_sound E st'"
proof -
  have id: "item_change name z (\<lambda>item. item) x = x" for z x by (cases x) (simp_all add: item_change_def)
  have same: "carried_value name (\<lambda>item. item) f v = v" for f v
    by (simp add: carried_value_def on_items_id id)
  have rows: "st_Rows st = map (with_entries (\<lambda>r e. e)) (st_Rows st)"
    by (simp add: with_entries_def map_idI)
  show ?thesis
    by (rule touched_sound [OF sound c c' refl rows touched, of "\<lambda>item. item"])
      (auto simp: carried_def same good_item_def intro!: bodies intro: own_bodyI)
qed

lemma as_go_Inr [simp]: "as_go x = Inr y \<longleftrightarrow> x = Inr y"
  by (cases x) (simp_all add: as_go_def)

lemma require_go_Inr [simp]: "require_go b e = Inr u \<longleftrightarrow> b"
  by (simp add: require_go_def)

lemma component_of: "store_sound E st \<Longrightarrow> GetComponentByName st name = Some c \<Longrightarrow> component_sound E c"
  using GetComponent_in [of st name c] by (auto simp: store_sound_def)

lemma UpdateComponent_sound:
  assumes "UpdateComponent allow ctx name l st = Inr (dto, st')" and sound: "store_sound E st"
  shows "store_sound E st'"
proof -
  obtain c refs where c: "loadComponent name st = Inr (c, refs)"
    and t: "touched_component (cp_Name c) (c\<lparr>cp_Label := (case l of None \<Rightarrow> cp_Label c | Some l \<Rightarrow> TrimSpace l)\<rparr>) st = Inr st'"
    using assms(1) by (auto simp: UpdateComponent_def UpdateComponentDefinition_def Let_def)
  note l = loadComponent_ok [OF c]
  show ?thesis
    by (rule in_place_sound [OF sound _ _ _ t])
      (use l component_of [OF sound] in \<open>auto simp: component_sound_def\<close>)
qed

lemma buildComponentField_sound:
  assumes "buildComponentField E i = Inr f"
  shows "Type f \<noteq> FieldTypeComponent" "Type f \<noteq> FieldTypeDynamicZone" "ValidFieldKey (Key f)"
    "ValidateFieldConstraints E (Type f) (Multiple f) (Constraints f) = None"
  using assms by (auto simp: buildComponentField_def CheckComponentSubField_None buildField_def Let_def split: if_splits option.splits)

lemma valid_key_no_discriminator: "ValidFieldKey k \<Longrightarrow> k \<noteq> ZoneDiscriminator"
  using discriminator_is_no_key by auto

lemma extended_doc_legal:
  assumes "payload_ok E fs d" and "FieldByKey fs (Key f) = None" and "\<not> Required f"
  shows "payload_ok E (fs @ [f]) d"
proof -
  have "map_of d (Key f) = None"
    using assms(1,2) by (auto simp: payload_ok.simps FieldByKey_None map_of_eq_None_iff)
  then have "slot_ok E f d" using assms(3) by (simp add: slot_ok_def present_def)
  with assms(1) show ?thesis by (auto simp: payload_ok_slots)
qed

lemma AddComponentField_sound:
  assumes "AddComponentField E allow ctx name i st = Inr (dto, st')" and sound: "store_sound E st"
  shows "store_sound E st'"
proof -
  obtain c refs f where c: "loadComponent name st = Inr (c, refs)" and f: "buildComponentField E i = Inr f"
    and new: "FieldByKey (cp_Fields c) (Key f) = None"
    and guard: "Required f \<longrightarrow> countComponentEntries st (cp_Name c) refs (itemLacks (Key f)) = 0"
    and t: "touched_component (cp_Name c) (c\<lparr>cp_Fields := cp_Fields c @ [f]\<rparr>) st = Inr st'"
    using assms(1) by (auto simp: AddComponentField_def AddComponentField_repo_def Let_def)
  note l = loadComponent_ok [OF c] and b = buildComponentField_sound [OF f]
  have cs: "component_sound E c" using component_of [OF sound] l by blast
  have nd: "Key f \<noteq> ZoneDiscriminator" using b(3) by (rule valid_key_no_discriminator)
  show ?thesis
  proof (rule in_place_sound [OF sound _ _ _ t])
    show "GetComponentByName st (cp_Name c) = Some c" "cp_Name (c\<lparr>cp_Fields := cp_Fields c @ [f]\<rparr>) = cp_Name c"
      using l by simp_all
    show "component_sound E (c\<lparr>cp_Fields := cp_Fields c @ [f]\<rparr>)"
      using cs b new by (auto simp: component_sound_def FieldByKey_None)
  next
    fix d assume own: "own_body st (cp_Name c) d" and ok: "payload_ok E (cp_Fields c) d"
    have "\<not> Required f"
    proof
      assume "Required f"
      then have zero: "countComponentEntries st (cp_Name c) (ListComponentReferrers st (cp_Name c)) (itemLacks (Key f)) = 0"
        using guard l by simp
      have "\<not> itemLacks (Key f) d"
        by (rule counted_bodies [OF sound zero _ own]) (simp add: itemLacks_def present_item_body nd)
      moreover have "map_of d (Key f) = None"
        using ok new by (auto simp: payload_ok.simps FieldByKey_None map_of_eq_None_iff)
      ultimately show False by (simp add: itemLacks_def present_def)
    qed
    then show "payload_ok E (cp_Fields (c\<lparr>cp_Fields := cp_Fields c @ [f]\<rparr>)) d"
      using extended_doc_legal [OF ok new] by simp
  qed
qed

section \<open>Updating a sub-field\<close>

lemma not_failing_slot: "\<not> itemFails E g b \<Longrightarrow> slot_ok E f b \<Longrightarrow> Key g = Key f \<Longrightarrow> Required g = Required f \<Longrightarrow> slot_ok E g b"
  by (auto simp: itemFails_def slot_ok_def validator_decides split: option.splits)

lemma subfield_enum_keeps:
  assumes "subfield_enum E failing key i f = Inr g"
    and counted: "\<And>probe. failing probe = 0 \<Longrightarrow> Key probe = Key f \<Longrightarrow> \<not> itemFails E probe b"
  shows "keeps E [b] f g \<and> Constraints g = Constraints f"
proof (cases "uf_EnumValues i")
  case None
  with assms show ?thesis by (simp add: subfield_enum_def)
next
  case (Some vals)
  let ?g = "with_attrs (\<lambda>a. a\<lparr>f_EnumValues := vals\<rparr>) f"
  from assms Some have g: "g = ?g" and guard: "missing_from (EnumValues f) vals = [] \<or> failing ?g = 0"
    by (auto simp: subfield_enum_def Let_def)
  from guard show ?thesis
  proof
    assume "missing_from (EnumValues f) vals = []"
    then show ?thesis unfolding g by (intro conjI relaxed_keeps) (auto simp: field_relaxed_def)
  next
    assume "failing ?g = 0"
    then have "\<not> itemFails E ?g b" by (rule counted) simp
    then show ?thesis using not_failing_slot [of E ?g b f] by (simp add: keeps_def g)
  qed
qed

lemma subfield_required_keeps:
  assumes "subfield_required lacking key i f = Inr g"
    and counted: "lacking = 0 \<Longrightarrow> \<not> itemLacks (Key f) b"
    and no_empty: "uf_Required i = Some True \<Longrightarrow> \<not> Required f \<Longrightarrow> \<not> stored_empty_list (Key f) b"
  shows "keeps E [b] f g \<and> Constraints g = Constraints f"
proof (cases "uf_Required i")
  case None
  with assms show ?thesis by (simp add: subfield_required_def)
next
  case (Some r)
  from assms(1) Some have g: "g = with_attrs (\<lambda>a. a\<lparr>f_Required := r\<rparr>) f" and guard: "\<not> (r \<and> \<not> Required f \<and> 0 < lacking)"
    by (auto simp: subfield_required_def)
  show ?thesis
  proof (cases "r \<longrightarrow> Required f")
    case True
    then show ?thesis unfolding g by (intro conjI relaxed_keeps) (auto simp: field_relaxed_def)
  next
    case False
    with guard counted obtain v where v: "present b (Key f) = Some v" by (auto simp: itemLacks_def)
    moreover have "v \<noteq> JArr []"
      using no_empty False v Some by (auto simp: stored_empty_list_def present_Some)
    ultimately show ?thesis
      using value_ok_required [of E f v r] by (auto simp: keeps_def slot_ok_def g)
  qed
qed

lemma subfield_constraints_keeps:
  assumes u: "subfield_constraints E failing key i f = Inr g"
    and st: "ValidateFieldConstraints E (Type f) (Multiple f) (Constraints f) = None"
    and counted: "\<And>probe. failing probe = 0 \<Longrightarrow> Key probe = Key f \<Longrightarrow> \<not> itemFails E probe b"
  shows "keeps E [b] f g \<and> ValidateFieldConstraints E (Type g) (Multiple g) (Constraints g) = None"
proof (cases "uf_Format i = None \<and> uf_Pattern i = None \<and> uf_Min i = None \<and> uf_Max i = None")
  case True
  with u st show ?thesis by (simp add: subfield_constraints_def)
next
  case False
  then obtain c where g: "g = with_attrs (\<lambda>a. a\<lparr>f_Constraints := c\<rparr>) f"
    and valid: "ValidateFieldConstraints E (Type f) (Multiple f) c = None"
    and guard: "\<not> Tightens c (Constraints f) \<or> failing g = 0"
    using u by (auto simp: subfield_constraints_def Let_def)
  have "keeps E [b] f g"
  proof (cases "Tightens c (Constraints f)")
    case False
    then have "constraints_relaxed E (Constraints f) c"
      using not_tightened_relaxed [of "Constraints f" c E] ValidateFieldConstraints_finite [OF st]
        ValidateFieldConstraints_finite [OF valid]
      by (simp add: Tightens_def without_unique_def)
    then show ?thesis unfolding g by (intro relaxed_keeps) (auto simp: field_relaxed_def)
  next
    case True
    then have "\<not> itemFails E g b" using guard counted [of g] by (simp add: g)
    then show ?thesis using not_failing_slot [of E g b f] by (simp add: keeps_def g)
  qed
  then show ?thesis using valid by (simp add: g)
qed

lemma subfield_enum_same:
  "subfield_enum E failing key i f = Inr g \<Longrightarrow>
     Key g = Key f \<and> Type g = Type f \<and> Multiple g = Multiple f \<and> Constraints g = Constraints f"
  by (auto simp: subfield_enum_def Let_def split: option.splits)

lemma subfield_required_same:
  "subfield_required lacking key i f = Inr g \<Longrightarrow>
     Key g = Key f \<and> Type g = Type f \<and> Multiple g = Multiple f \<and> Constraints g = Constraints f"
  by (auto simp: subfield_required_def split: option.splits)

lemma subfield_constraints_same:
  "subfield_constraints E failing key i f = Inr g \<Longrightarrow>
     Key g = Key f \<and> Type g = Type f \<and> Multiple g = Multiple f \<and>
     (ValidateFieldConstraints E (Type f) (Multiple f) (Constraints f) = None \<longrightarrow>
        ValidateFieldConstraints E (Type g) (Multiple g) (Constraints g) = None)"
  by (auto simp: subfield_constraints_def Let_def split: if_splits)

text \<open>
  A PATCH that sets required meets no stored empty list.  The guard, like that of a type's
  field, takes an empty list for a value.
\<close>

definition no_empty_item_lists :: "store \<Rightarrow> string \<Rightarrow> string \<Rightarrow> update_field_input \<Rightarrow> bool" where
  "no_empty_item_lists st name key i \<longleftrightarrow>
     (uf_Required i = Some True \<longrightarrow> (\<forall>b. own_body st name b \<longrightarrow> \<not> stored_empty_list key b))"

lemma UpdateComponentField_sound:
  assumes "UpdateComponentField E allow ctx name key i st = Inr (dto, st')" and sound: "store_sound E st"
    and no_empty: "no_empty_item_lists st name key i"
  shows "store_sound E st'"
proof -
  obtain c refs where c: "loadComponent name st = Inr (c, refs)"
    using assms(1) by (auto simp: UpdateComponentField_def)
  note l = loadComponent_ok [OF c]
  define failing where "failing = (\<lambda>probe. countComponentEntries st name (ListComponentReferrers st name) (itemFails E probe))"
  define lacking where "lacking = countComponentEntries st name (ListComponentReferrers st name) (itemLacks key)"
  obtain f f1 f2 f3 where f: "FieldByKey (cp_Fields c) key = Some f"
    and s: "subfield_enum E failing key i (update_texts i f) = Inr f1" "subfield_required lacking key i f1 = Inr f2"
      "subfield_constraints E failing key i f2 = Inr f3"
    and t: "touched_component name (c\<lparr>cp_Fields := withFieldAt (Key f3) f3 (cp_Fields c)\<rparr>) st = Inr st'"
    using assms(1) l c
    by (auto simp: UpdateComponentField_def UpdateComponentFieldDefinition_def Let_def failing_def lacking_def split: option.splits)
  have fin: "f \<in> set (cp_Fields c)" "Key f = key" using FieldByKey_Some [OF f] by auto
  have cs: "component_sound E c" using component_of [OF sound] l by blast
  then have sub: "Type f \<noteq> FieldTypeComponent" "Type f \<noteq> FieldTypeDynamicZone" "ValidFieldKey (Key f)"
    "ValidateFieldConstraints E (Type f) (Multiple f) (Constraints f) = None" "distinct (map Key (cp_Fields c))"
    using fin(1) by (auto simp: component_sound_def)
  have nd: "Key f \<noteq> ZoneDiscriminator" using sub(3) by (rule valid_key_no_discriminator)
  have f0: "Key (update_texts i f) = Key f" "Constraints (update_texts i f) = Constraints f"
    by (simp_all add: update_texts_def)
  have steps: "keeps E [b] f f3 \<and> ValidateFieldConstraints E (Type f3) (Multiple f3) (Constraints f3) = None"
    if fails: "\<And>probe. failing probe = 0 \<Longrightarrow> Key probe = Key f \<Longrightarrow> \<not> itemFails E probe b"
      and lacks: "lacking = 0 \<Longrightarrow> \<not> itemLacks (Key f) b"
      and empty: "uf_Required i = Some True \<Longrightarrow> \<not> stored_empty_list (Key f) b" for b
  proof -
    have k0: "keeps E [b] f (update_texts i f)" by (rule update_texts_keeps)
    have k1: "keeps E [b] (update_texts i f) f1" "Constraints f1 = Constraints f"
      using subfield_enum_keeps [OF s(1), of b] fails f0 by auto
    have i1: "Key f1 = Key f" "Type f1 = Type f" "Multiple f1 = Multiple f" using k0 k1 by (auto simp: keeps_def)
    have k2: "keeps E [b] f1 f2" "Constraints f2 = Constraints f"
      using subfield_required_keeps [OF s(2), of b] lacks empty i1 k1 by auto
    have i2: "Key f2 = Key f" "Type f2 = Type f" "Multiple f2 = Multiple f" using k2 i1 by (auto simp: keeps_def)
    have k3: "keeps E [b] f2 f3" "ValidateFieldConstraints E (Type f3) (Multiple f3) (Constraints f3) = None"
      using subfield_constraints_keeps [OF s(3), of b] fails i2 k2 sub(4) by auto
    show ?thesis using k0 k1 k2 k3 by (blast intro: keeps_trans)
  qed
  have same: "Key f3 = Key f" "Type f3 = Type f" "Multiple f3 = Multiple f"
    "ValidateFieldConstraints E (Type f3) (Multiple f3) (Constraints f3) = None"
    using subfield_enum_same [OF s(1)] subfield_required_same [OF s(2)] subfield_constraints_same [OF s(3)] sub(4)
    by (auto simp: update_texts_def)
  let ?c = "c\<lparr>cp_Fields := withFieldAt (Key f3) f3 (cp_Fields c)\<rparr>"
  have keys: "map Key (withFieldAt (Key f3) f3 (cp_Fields c)) = map Key (cp_Fields c)"
    by (simp add: withFieldAt_def)
  show ?thesis
  proof (rule in_place_sound [OF sound _ _ _ t])
    show "GetComponentByName st name = Some c" "cp_Name ?c = name" using l by simp_all
    have "distinct (map Key (withFieldAt (Key f3) f3 (cp_Fields c)))" unfolding keys by (rule sub(5))
    moreover have "\<forall>g \<in> set (withFieldAt (Key f3) f3 (cp_Fields c)). g = f3 \<or> g \<in> set (cp_Fields c)"
      by (auto simp: withFieldAt_def)
    ultimately show "component_sound E ?c" using cs sub same by (auto simp: component_sound_def)
  next
    fix b assume own: "own_body st name b" and ok: "payload_ok E (cp_Fields c) b"
    have "keeps E [b] f f3 \<and> ValidateFieldConstraints E (Type f3) (Multiple f3) (Constraints f3) = None"
    proof (rule steps)
      fix probe assume z: "failing probe = 0" and k: "Key probe = Key f"
      show "\<not> itemFails E probe b"
        by (rule counted_bodies [OF sound z [unfolded failing_def] _ own]) (simp add: itemFails_def present_item_body nd k)
    next
      assume z: "lacking = 0"
      show "\<not> itemLacks (Key f) b"
        unfolding fin(2)
        by (rule counted_bodies [OF sound z [unfolded lacking_def] _ own])
          (use nd fin(2) in \<open>simp add: itemLacks_def present_item_body\<close>)
    next
      assume "uf_Required i = Some True"
      then show "\<not> stored_empty_list (Key f) b" using no_empty own fin(2) by (simp add: no_empty_item_lists_def)
    qed
    then have "payload_ok E (withFieldAt (Key f) f3 (cp_Fields c)) b"
      using withFieldAt_legal [OF sub(5) fin(1) _ _ ok, of "[b]" f3] by simp
    then show "payload_ok E (cp_Fields ?c) b" by (simp add: same)
  qed
qed

section \<open>Renaming and deleting a sub-field\<close>

lemma items_as_pass:
  "rewriteComponentItems name sub new =
     rewrite_pass (\<lambda>ref. has_subkey name ref sub) (\<lambda>ref. rewrite_value name ref (rewrite_item sub new))"
  by (simp add: fun_eq_iff rewriteComponentItems_def rewrite_pass_def)

lemma on_objects_same: "(\<And>item. item \<in> set (objects_of xs) \<Longrightarrow> g item = item) \<Longrightarrow> on_objects g xs = xs"
  by (auto simp: on_objects_def in_objects intro!: map_idI split: json.splits)

lemma rewrite_value_same:
  assumes "\<And>item. item \<in> set (items_visited name ref v) \<Longrightarrow> g item = item"
  shows "rewrite_value name ref g v = v"
  using assms
  by (cases v) (auto simp: rewrite_value_def items_visited_def zoneItems_def intro!: on_objects_same split: if_splits)

lemma items_quiet: "quiet (\<lambda>ref. has_subkey name ref sub) (\<lambda>ref. rewrite_value name ref (rewrite_item sub new))"
  unfolding quiet_def
  by (auto simp: has_subkey_def list_ex_iff rewrite_item_def intro!: rewrite_value_same)

lemma carried_not_null:
  assumes "value_ok E f v" and "nested f"
  shows "on_items f (item_change name z g) v \<noteq> JNull"
  using assms
  by (cases v) (auto simp: on_items_def value_ok.simps item_ok.simps item_change_def nested_def split: if_splits)

lemma items_carried:
  assumes d: "distinct (map Key (ct_Fields (row_Type r)))"
  shows "carried E (carried_value name (rewrite_item sub new)) (ct_Fields (row_Type r)) (e_Payload e)
    (e_Payload (fold (rewriteComponentItems name sub new) (refs_of_row name r) e))"
  unfolding items_as_pass
proof (rule passes_carried [OF items_quiet d, where name = name])
  fix ref :: component_ref and f v assume ref: "refers name f" and v: "value_ok E f v" and z: "cr_Zone ref \<longleftrightarrow> Type f = FieldTypeDynamicZone"
  have n: "nested f" using ref by (auto simp: nested_def refers_def refers_by_id_def refers_by_zone_def)
  show "rewrite_value name ref (rewrite_item sub new) v = carried_value name (rewrite_item sub new) f v \<and>
      carried_value name (rewrite_item sub new) f v \<noteq> JNull"
    using rewrite_value_items [OF v n z, of name "rewrite_item sub new"] carried_not_null [OF v n] ref z
    by (simp add: carried_value_def)
qed (simp_all add: rewrite_value_def carried_value_def)

lemma rewrite_item_forms:
  "rewrite_item old None = drop_key old" "rewrite_item old (Some new) = move_key old new"
  by (auto simp: fun_eq_iff rewrite_item_def drop_key_absent move_key_absent)

lemma drop_drop: "drop_key a (drop_key b d) = drop_key b (drop_key a d)"
  by (simp add: drop_key_def conj_commute cong: filter_cong)

lemma drop_move:
  assumes "k \<noteq> old" and "k \<noteq> new"
  shows "drop_key k (move_key old new d) = move_key old new (drop_key k d)"
proof -
  have "drop_key k (a @ b) = drop_key k a @ drop_key k b" for a b by (simp add: drop_key_def)
  moreover have "drop_key k [(new, v)] = [(new, v)]" for v using assms by (simp add: drop_key_def)
  ultimately show ?thesis
    using assms drop_drop by (simp add: move_key_def drop_key_lookup split: option.split)
qed

lemma item_component_kept:
  assumes "old \<noteq> ZoneDiscriminator" and "new \<noteq> Some ZoneDiscriminator"
  shows "zoneItemComponent (rewrite_item old new item) = zoneItemComponent item"
proof (cases new)
  case None
  then show ?thesis using assms by (simp add: rewrite_item_forms zoneItemComponent_def drop_key_lookup)
next
  case (Some k)
  then show ?thesis
    using assms move_key_lookup [of item old _ k ZoneDiscriminator]
    by (cases "map_of item old") (auto simp: rewrite_item_forms zoneItemComponent_def move_key_absent holds_def)
qed

lemma item_body_kept:
  assumes "old \<noteq> ZoneDiscriminator" and "new \<noteq> Some ZoneDiscriminator"
  shows "item_body z (rewrite_item old new item) = rewrite_item old new (item_body z item)"
  using assms by (cases new) (auto simp: item_body_def zone_body rewrite_item_forms drop_drop drop_move)

lemma rewritten_sound:
  assumes sound: "store_sound E st" and c: "GetComponentByName st name = Some c"
    and c': "cp_Name c' = name" "component_sound E c'"
    and touched: "touched_component name c'
        (rewrite_refs (rewriteComponentItems name sub new) (ListComponentReferrers st name) st) = Inr st'"
    and k: "sub \<noteq> ZoneDiscriminator" "new \<noteq> Some ZoneDiscriminator"
    and body: "\<And>b. payload_ok E (cp_Fields c) b \<Longrightarrow> payload_ok E (cp_Fields c') (rewrite_item sub new b)"
  shows "store_sound E st'"
proof -
  let ?T = "\<lambda>r. fold (rewriteComponentItems name sub new)
    (filter (\<lambda>ref. row_named (cr_TypeName ref) r) (ListComponentReferrers st name))"
  show ?thesis
  proof (rule touched_sound [OF sound c c' rewrite_refs_components rewrite_refs_rows touched])
    fix r e assume r: "r \<in> set (st_Rows st)"
    have refs: "filter (\<lambda>ref. row_named (cr_TypeName ref) r) (ListComponentReferrers st name) = refs_of_row name r"
      using refs_for_row [OF _ r] sound by (simp add: store_sound_def)
    have "distinct (map Key (ct_Fields (row_Type r)))" using sound r by (auto simp: store_sound_def row_sound_def)
    then show "carried E (carried_value name (rewrite_item sub new)) (ct_Fields (row_Type r)) (e_Payload e) (e_Payload (?T r e))"
      unfolding refs by (rule items_carried)
  next
    fix f item
    show "good_item E (cp_Fields c) (cp_Fields c') (rewrite_item sub new) (Type f = FieldTypeDynamicZone) item"
      using body by (simp add: good_item_def item_body_kept [OF k] item_component_kept [OF k])
  qed
qed

lemma sub_key_plain:
  "component_sound E c \<Longrightarrow> FieldByKey (cp_Fields c) key = Some f \<Longrightarrow> key \<noteq> ZoneDiscriminator"
  using FieldByKey_Some [of "cp_Fields c" key f] valid_key_no_discriminator by (auto simp: component_sound_def)

lemma DeleteComponentField_sound:
  assumes "DeleteComponentField allow ctx name key force st = Inr (dto, st')" and sound: "store_sound E st"
  shows "store_sound E st'"
proof -
  obtain c refs f where c: "loadComponent name st = Inr (c, refs)" and f: "FieldByKey (cp_Fields c) key = Some f"
    and t: "touched_component (cp_Name c) (c\<lparr>cp_Fields := filter (\<lambda>f. Key f \<noteq> key) (cp_Fields c)\<rparr>)
       (rewrite_refs (rewriteComponentItems (cp_Name c) key None) refs st) = Inr st'"
    using assms(1) by (auto simp: DeleteComponentField_def DeleteComponentField_repo_def Let_def)
  note l = loadComponent_ok [OF c]
  have cs: "component_sound E c" using component_of [OF sound] l by blast
  let ?c = "c\<lparr>cp_Fields := filter (\<lambda>f. Key f \<noteq> key) (cp_Fields c)\<rparr>"
  have c': "GetComponentByName st (cp_Name c) = Some c" "cp_Name ?c = cp_Name c" using l by auto
  have cs': "component_sound E ?c" using cs by (auto simp: component_sound_def distinct_map_filter)
  have t': "touched_component (cp_Name c) ?c
       (rewrite_refs (rewriteComponentItems (cp_Name c) key None) (ListComponentReferrers st (cp_Name c)) st) = Inr st'"
    using t l by simp
  show ?thesis
    by (rule rewritten_sound [OF sound c'(1) c'(2) cs' t' sub_key_plain [OF cs f]])
      (simp_all add: rewrite_item_forms dropped_doc_legal)
qed

lemma RenameComponentField_sound:
  assumes "RenameComponentField allow ctx name key rawKey st = Inr (dto, st')" and sound: "store_sound E st"
  shows "store_sound E st'"
proof -
  let ?new = "TrimSpace rawKey"
  obtain c refs f where c: "loadComponent name st = Inr (c, refs)" and f: "FieldByKey (cp_Fields c) key = Some f"
    and valid: "ValidFieldKey ?new"
    and cases: "?new = key \<and> st' = st \<or> ?new \<noteq> key \<and> FieldByKey (cp_Fields c) ?new = None \<and>
      touched_component (cp_Name c) (c\<lparr>cp_Fields := map (\<lambda>f. if Key f = key then set_key ?new f else f) (cp_Fields c)\<rparr>)
        (rewrite_refs (rewriteComponentItems (cp_Name c) key (Some ?new)) refs st) = Inr st'"
    using assms(1) by (auto simp: RenameComponentField_def RenameComponentField_repo_def Let_def split: option.splits if_splits)
  note l = loadComponent_ok [OF c]
  have cs: "component_sound E c" using component_of [OF sound] l by blast
  show ?thesis
  proof (cases "?new = key")
    case True
    with cases sound show ?thesis by simp
  next
    case False
    let ?c = "c\<lparr>cp_Fields := map (renamed_key key ?new) (cp_Fields c)\<rparr>"
    have eq: "(\<lambda>f. if Key f = key then set_key ?new f else f) = renamed_key key ?new"
      by (simp add: fun_eq_iff renamed_key_def)
    have fresh: "?new \<notin> Key ` set (cp_Fields c)" and t: "touched_component (cp_Name c) ?c
        (rewrite_refs (rewriteComponentItems (cp_Name c) key (Some ?new)) (ListComponentReferrers st (cp_Name c)) st) = Inr st'"
      using cases False l unfolding eq by (auto simp: FieldByKey_None)
    have old: "key \<in> Key ` set (cp_Fields c)" using FieldByKey_Some [OF f] by auto
    have "inj_on (Key \<circ> renamed_key key ?new) (set (cp_Fields c))"
      using cs fresh by (auto simp: component_sound_def distinct_map inj_on_def renamed_key_def image_iff split: if_splits)
    then have "component_sound E ?c"
      using cs valid by (auto simp: component_sound_def distinct_map renamed_key_def comp_inj_on_iff dest: inj_on_imageI)
    then show ?thesis
      using rewritten_sound [OF sound _ _ _ t sub_key_plain [OF cs f]] valid_key_no_discriminator [OF valid]
        renamed_doc_legal [OF _ old fresh] l by (simp add: rewrite_item_forms)
  qed
qed

section \<open>Renaming a component\<close>

lemma retag_body: "zoneItemBody (retag_item new item) = zoneItemBody item"
  by (induction item) (auto simp: zoneItemBody_def retag_item_def on_value_def)

lemma retag_component: "zoneItemComponent item \<noteq> [] \<Longrightarrow> zoneItemComponent (retag_item new item) = new"
proof -
  assume "zoneItemComponent item \<noteq> []"
  then have "map_of item ZoneDiscriminator = Some (JStr (zoneItemComponent item))"
    by (intro str_or_empty_nonempty) (simp_all add: zoneItemComponent_def)
  then obtain s where "map_of item ZoneDiscriminator = Some (JStr s)" by blast
  then show ?thesis by (simp add: zoneItemComponent_def retag_item_def on_value_lookup)
qed

definition retagged_value :: "string \<Rightarrow> string \<Rightarrow> field \<Rightarrow> json \<Rightarrow> json" where
  "retagged_value old new f v =
     (if refers_by_zone old f then on_items f (item_change old True (retag_item new)) v else v)"

definition retag_holds :: "string \<Rightarrow> component_ref \<Rightarrow> doc \<Rightarrow> bool" where
  "retag_holds old ref d \<longleftrightarrow> cr_Zone ref \<and> zone_holds old (cr_FieldKey ref) d"

definition retag_value :: "string \<Rightarrow> string \<Rightarrow> component_ref \<Rightarrow> json \<Rightarrow> json" where
  "retag_value old new ref v = (if cr_Zone ref then rewrite_value old ref (retag_item new) v else v)"

lemma retag_as_pass:
  "fold (rewriteZoneComponent old new) (filter cr_Zone refs) = fold (rewrite_pass (retag_holds old) (retag_value old new)) refs"
proof -
  have idle: "rewrite_copies (\<lambda>_. False) h e = e" for h e
    by (simp add: rewrite_copies_def both_copies_def split: option.split)
  have "(if cr_Zone ref then rewriteZoneComponent old new ref else id) = rewrite_pass (retag_holds old) (retag_value old new) ref" for ref
    by (auto simp: fun_eq_iff rewriteZoneComponent_def rewrite_pass_def retag_holds_def [abs_def] retag_value_def [abs_def] idle)
  then show ?thesis by (simp add: fold_filter)
qed

lemma retag_quiet: "quiet (retag_holds old) (retag_value old new)"
  unfolding quiet_def
  by (auto simp: retag_holds_def retag_value_def zone_holds_def list_ex_iff items_visited_def intro!: rewrite_value_same)

lemma retag_carried:
  assumes d: "distinct (map Key (ct_Fields (row_Type r)))"
  shows "carried E (retagged_value old new) (ct_Fields (row_Type r)) (e_Payload e)
    (e_Payload (fold (rewriteZoneComponent old new) (filter cr_Zone (refs_of_row old r)) e))"
  unfolding retag_as_pass
proof (rule passes_carried [OF retag_quiet d, where name = old])
  fix ref :: component_ref and f v
  assume ref: "refers old f" and v: "value_ok E f v" "v \<noteq> JNull" and z: "cr_Zone ref \<longleftrightarrow> Type f = FieldTypeDynamicZone"
  have n: "nested f" using ref by (auto simp: nested_def refers_def refers_by_id_def refers_by_zone_def)
  have t: "Type f = FieldTypeDynamicZone \<longleftrightarrow> refers_by_zone old f"
    using ref by (auto simp: refers_def refers_by_id_def refers_by_zone_def field_type_defs)
  show "retag_value old new ref v = retagged_value old new f v \<and> retagged_value old new f v \<noteq> JNull"
    using rewrite_value_items [OF v(1) n z, of old "retag_item new"] carried_not_null [OF v(1) n] z t v(2)
    by (simp add: retag_value_def retagged_value_def)
qed (simp_all add: rewrite_value_def retag_value_def retagged_value_def refers_def)

lemma renamed_reference_attrs:
  "Key (renamed_reference old new f) = Key f" "Type (renamed_reference old new f) = Type f"
  "Multiple (renamed_reference old new f) = Multiple f" "Required (renamed_reference old new f) = Required f"
  "Constraints (renamed_reference old new f) = Constraints f"
  by (simp_all add: renamed_reference_def)

lemma renamed_component_name:
  "Type f = FieldTypeComponent \<Longrightarrow> f_ComponentName (attrs (renamed_reference old new f)) =
     (if f_ComponentName (attrs f) = old then new else f_ComponentName (attrs f))"
  by (simp add: renamed_reference_def refers_by_id_def refers_by_zone_def field_type_defs)

lemma renamed_zone:
  "Type f = FieldTypeDynamicZone \<Longrightarrow> ZoneComponents (renamed_reference old new f) =
     map (\<lambda>n. if n = old then new else n) (ZoneComponents f)"
  by (auto simp: renamed_reference_def refers_by_id_def refers_by_zone_def field_type_defs intro!: map_idI [symmetric])

definition renamed_lookup :: "string \<Rightarrow> string \<Rightarrow> component \<Rightarrow> store \<Rightarrow> store \<Rightarrow> bool" where
  "renamed_lookup old new c st st' \<longleftrightarrow> GetComponentByName st old = Some c \<and> GetComponentByName st new = None \<and>
     GetComponentByName st' new = Some (c\<lparr>cp_Name := new\<rparr>) \<and>
     (\<forall>n. n \<noteq> old \<longrightarrow> n \<noteq> new \<longrightarrow> GetComponentByName st' n = GetComponentByName st n)"

lemma renamed_fields:
  assumes look: "renamed_lookup old new c st st'" and c0: "GetComponentByName st n = Some c0"
  shows "fields_of_component st' (if n = old then new else n) = cp_Fields c0"
proof (cases "n = old")
  case True
  then show ?thesis using look c0 by (simp add: renamed_lookup_def fields_of_component_def)
next
  case False
  moreover have "n \<noteq> new" using look c0 by (auto simp: renamed_lookup_def)
  ultimately show ?thesis using look c0 by (simp add: renamed_lookup_def fields_of_component_def)
qed

lemma renamed_attached:
  assumes look: "renamed_lookup old new c st st'" and a: "attached st f"
  shows "attached st' (with_components st' (renamed_reference old new f))"
proof -
  have some: "GetComponentByName st n \<noteq> None \<Longrightarrow> GetComponentByName st' (if n = old then new else n) \<noteq> None" for n
    using look by (cases "n = new") (auto simp: renamed_lookup_def)
  show ?thesis
  proof (rule attach_attached)
    assume "Type (renamed_reference old new f) = FieldTypeComponent"
    then show "GetComponentByName st' (f_ComponentName (attrs (renamed_reference old new f))) \<noteq> None"
      using some attached_lookups(1) [OF a] by (simp add: renamed_reference_attrs renamed_component_name)
  next
    fix n assume "Type (renamed_reference old new f) = FieldTypeDynamicZone" "n \<in> set (ZoneComponents (renamed_reference old new f))"
    then obtain m where "m \<in> set (ZoneComponents f)" "n = (if m = old then new else m)" "Type f = FieldTypeDynamicZone"
      by (auto simp: renamed_reference_attrs renamed_zone)
    then show "GetComponentByName st' n \<noteq> None" using some attached_lookups(2) [OF a] by blast
  qed
qed

lemma renamed_item:
  assumes look: "renamed_lookup old new c st st'" and a: "attached st f" and n: "nested f" and new: "new \<noteq> []"
    and ok: "item_ok E f (JObj item)"
  shows "item_ok E (with_components st' (renamed_reference old new f))
    (if refers_by_zone old f then item_change old True (retag_item new) (JObj item) else JObj item)"
proof (cases "Type f = FieldTypeDynamicZone")
  case False
  then have t: "Type f = FieldTypeComponent" using n by (simp add: nested_def)
  obtain c0 where c0: "GetComponentByName st (f_ComponentName (attrs f)) = Some c0" "ComponentFields f = cp_Fields c0"
    using a t by (auto simp: attached_def)
  have "ComponentFields (with_components st' (renamed_reference old new f)) = cp_Fields c0"
    using renamed_fields [OF look c0(1)] t
    by (simp add: attach_component_fields renamed_reference_attrs renamed_component_name)
  then show ?thesis
    using ok c0 False by (simp add: item_ok.simps renamed_reference_attrs refers_by_zone_def)
next
  case z: True
  let ?n = "zoneItemComponent item" and ?g = "renamed_reference old new f"
  let ?m = "if ?n = old then new else ?n"
  have i: "?n \<noteq> []" "?n \<in> set (ZoneComponents f)" "payload_ok E (zone_fields_of f ?n) (zoneItemBody item)"
    using ok z by (auto simp: item_ok.simps Let_def ZoneAllows_def)
  obtain c0 where c0: "GetComponentByName st ?n = Some c0" "zone_fields_of f ?n = cp_Fields c0"
    using a z i(2) by (auto simp: attached_def zone_attached_def)
  have zone: "ZoneComponents ?g = map (\<lambda>n. if n = old then new else n) (ZoneComponents f)"
    using z by (rule renamed_zone)
  have m: "?m \<in> set (ZoneComponents ?g)" using i(2) unfolding zone by auto
  have "zone_fields_of (with_components st' ?g) ?m = fields_of_component st' ?m"
    by (rule zone_fields_attach) (use z m in \<open>simp_all add: renamed_reference_attrs\<close>)
  also have "\<dots> = cp_Fields c0" by (rule renamed_fields [OF look c0(1)])
  finally have fields: "zone_fields_of (with_components st' ?g) ?m = cp_Fields c0" .
  show ?thesis
  proof (cases "?n = old")
    case True
    then have "refers_by_zone old f" "tagged old item"
      using z i tagged_legal [OF i(1), of old] by (simp_all add: refers_by_zone_def)
    then show ?thesis
      using z True new i(3) m fields c0
      by (simp add: item_ok.simps item_change_def retag_component [OF i(1)] retag_body ZoneAllows_def renamed_reference_attrs)
  next
    case False
    then have "\<not> tagged old item" using tagged_legal [OF i(1)] by simp
    then show ?thesis
      using z False i m fields c0
      by (simp add: item_ok.simps item_change_def ZoneAllows_def renamed_reference_attrs Let_def)
  qed
qed

lemma renamed_value:
  assumes look: "renamed_lookup old new c st st'" and a: "attached st f" and new: "new \<noteq> []" and v: "value_ok E f v"
  shows "value_ok E (with_components st' (renamed_reference old new f)) (retagged_value old new f v)"
proof (cases "nested f")
  case False
  then have "renamed_reference old new f = f" "\<not> refers_by_zone old f"
    by (auto simp: nested_def renamed_reference_def refers_by_id_def refers_by_zone_def)
  with False v show ?thesis by (simp add: plain_attach retagged_value_def)
next
  case True
  let ?h = "\<lambda>x. if refers_by_zone old f then item_change old True (retag_item new) x else x"
  have "item_ok E (with_components st' (renamed_reference old new f)) (?h x)" if x: "item_ok E f x" for x
  proof -
    obtain item where item: "x = JObj item" using x by (cases x) (auto simp: item_ok.simps)
    show ?thesis using renamed_item [OF look a True new x [unfolded item]] unfolding item by (simp split: if_splits)
  qed
  then have "value_ok E (with_components st' (renamed_reference old new f)) (on_items f ?h v)"
    by (intro nested_value [OF True _ _ _ v]) (auto simp: renamed_reference_attrs)
  then show ?thesis by (cases "refers_by_zone old f") (simp_all add: retagged_value_def on_items_id)
qed

lemma RenameComponent_sound:
  assumes "RenameComponent allow ctx old rawName st = Inr (dto, st')" and sound: "store_sound E st"
  shows "store_sound E st'"
proof -
  let ?new = "TrimSpace rawName"
  obtain c refs where c: "loadComponent old st = Inr (c, refs)" and valid: "ValidFieldKey ?new"
    and cases: "?new = old \<and> st' = st \<or> ?new \<noteq> old \<and> RenameComponent_repo c refs ?new st = Inr st'"
    using assms(1) by (auto simp: RenameComponent_def validateComponentName_def Let_def split: if_splits)
  note l = loadComponent_ok [OF c]
  show ?thesis
  proof (cases "?new = old")
    case True
    with cases sound show ?thesis by simp
  next
    case False
    let ?c = "c\<lparr>cp_Name := ?new\<rparr>"
    let ?st1 = "rename_references old ?new (rewrite_refs (rewriteZoneComponent old ?new) (filter cr_Zone refs) st)"
    let ?T = "\<lambda>r. fold (rewriteZoneComponent old ?new) (filter (\<lambda>ref. row_named (cr_TypeName ref) r) (filter cr_Zone refs))"
    let ?F = "\<lambda>f. with_components st' (renamed_reference old ?new f)"
    have comps1: "st_Components ?st1 = st_Components st" by (simp add: rename_references_def)
    have fresh: "GetComponentByName st ?new = None" and t: "touched_component old ?c ?st1 = Inr st'"
      using cases False l lookup_cong [OF comps1] by (auto simp: RenameComponent_repo_def Let_def)
    have st': "st' = reload (put_component old ?c ?st1)"
      using t by (auto simp: touched_component_def split: option.splits)
    have comps: "st_Components st' = map (\<lambda>x. if cp_Name x = old then ?c else x) (st_Components st)"
      by (simp add: st' rename_references_def)
    have find_renamed: "find (\<lambda>x. cp_Name x = n) (map (\<lambda>x. if cp_Name x = old then ?c else x) cs) =
        (if n = ?new then map_option (\<lambda>_. ?c) (find (\<lambda>x. cp_Name x = old) cs)
         else if n = old then None else find (\<lambda>x. cp_Name x = n) cs)"
      if "find (\<lambda>x. cp_Name x = ?new) cs = None" for cs n
      using that False by (induction cs) (auto split: if_splits)
    have look: "renamed_lookup old ?new c st st'"
      using find_renamed [of "st_Components st"] fresh l False
      by (auto simp: renamed_lookup_def GetComponentByName_def comps)
    have att: "with_components (put_component old ?c ?st1) = with_components st'" by (rule attach_cong) (simp add: st')
    have rows: "st_Rows st' = map (\<lambda>r. set_fields (map ?F (ct_Fields (row_Type r))) (with_entries ?T r)) (st_Rows st)"
      unfolding att [symmetric]
      by (simp add: st' rename_references_def rewrite_refs_rows set_fields_def with_entries_def comp_def)
    have old_rows: "\<forall>r \<in> set (st_Rows st). row_sound E st r" using sound by (simp add: store_sound_def)
    have "(\<forall>r \<in> set (st_Rows st'). row_sound E st' r) \<and>
      map (\<lambda>r. ct_Name (row_Type r)) (st_Rows st') = map (\<lambda>r. ct_Name (row_Type r)) (st_Rows st)"
    proof (rule rows_sound [OF old_rows rows])
      fix r f assume r: "r \<in> set (st_Rows st)" and f: "f \<in> set (ct_Fields (row_Type r))"
      have a: "attached st f" using old_rows r f by (auto simp: row_sound_def)
      from renamed_attached [OF look a]
      show "attached st' (?F f) \<and> Key (?F f) = Key f \<and> Type (?F f) = Type f \<and>
          Multiple (?F f) = Multiple f \<and> Constraints (?F f) = Constraints f" by (simp add: renamed_reference_attrs)
    next
      fix r and e :: entry
      assume r: "r \<in> set (st_Rows st)" and ok: "payload_ok E (ct_Fields (row_Type r)) (e_Payload e)"
      have "filter (\<lambda>ref. row_named (cr_TypeName ref) r) refs = refs_of_row old r"
        using refs_for_row [OF _ r] sound l by (simp add: store_sound_def)
      then have refs: "filter (\<lambda>ref. row_named (cr_TypeName ref) r) (filter cr_Zone refs) = filter cr_Zone (refs_of_row old r)"
        by (metis (no_types, lifting) filter_filter filter_cong)
      have d: "distinct (map Key (ct_Fields (row_Type r)))" using old_rows r by (auto simp: row_sound_def)
      show "payload_ok E (map ?F (ct_Fields (row_Type r))) (e_Payload (?T r e))"
        unfolding refs
      proof (rule carried_legal [OF ok retag_carried [OF d]])
        fix f v assume f: "f \<in> set (ct_Fields (row_Type r))" and v: "value_ok E f v"
        have a: "attached st f" using old_rows r f by (auto simp: row_sound_def)
        have "?new \<noteq> []" using valid by (auto simp: ValidFieldKey_def)
        then show "value_ok E (?F f) (retagged_value old ?new f v)" by (rule renamed_value [OF look a _ v])
      qed (simp add: renamed_reference_attrs)
    qed
    moreover have "distinct (map cp_Name (st_Components st'))"
    proof -
      have "?new \<notin> set (map cp_Name (st_Components st))" "distinct (map cp_Name (st_Components st))"
        using fresh sound by (auto simp: GetComponentByName_def find_None_iff store_sound_def)
      moreover have "map cp_Name (st_Components st') = map (\<lambda>n. if n = old then ?new else n) (map cp_Name (st_Components st))"
        by (simp add: comps)
      moreover have "distinct ns \<Longrightarrow> ?new \<notin> set ns \<Longrightarrow> distinct (map (\<lambda>n. if n = old then ?new else n) ns)" for ns
        by (auto simp: distinct_map inj_on_def)
      ultimately show ?thesis by metis
    qed
    moreover have "\<forall>x \<in> set (st_Components st'). component_sound E x"
      using sound component_of [OF sound, of old c] l by (auto simp: comps store_sound_def component_sound_def)
    ultimately show ?thesis using sound by (simp add: store_sound_def)
  qed
qed

section \<open>Creating and deleting a component\<close>

lemma attached_extended:
  assumes "attached st f" and "\<And>n. GetComponentByName st n \<noteq> None \<Longrightarrow> GetComponentByName st' n = GetComponentByName st n"
  shows "attached st' f"
  using assms attached_lookups [OF assms(1)] unfolding attached_def zone_attached_def by metis

lemma same_rows_sound:
  assumes "store_sound E st" and rows: "st_Rows st' = st_Rows st"
    and look: "\<And>r f. r \<in> set (st_Rows st) \<Longrightarrow> f \<in> set (ct_Fields (row_Type r)) \<Longrightarrow> attached st f \<Longrightarrow> attached st' f"
    and comps: "distinct (map cp_Name (st_Components st'))" "\<forall>c \<in> set (st_Components st'). component_sound E c"
  shows "store_sound E st'"
  using assms by (auto simp: store_sound_def row_sound_def)

lemma build_component_fields_sound:
  "build_component_fields E seen is = Inr fs \<Longrightarrow>
     (\<forall>f \<in> set fs. Type f \<noteq> FieldTypeComponent \<and> Type f \<noteq> FieldTypeDynamicZone \<and> ValidFieldKey (Key f) \<and>
        ValidateFieldConstraints E (Type f) (Multiple f) (Constraints f) = None) \<and>
     distinct (map Key fs) \<and> set seen \<inter> Key ` set fs = {}"
proof (induction E seen "is" arbitrary: fs rule: build_component_fields.induct)
  case (2 E seen i rest)
  then obtain f fs' where f: "buildComponentField E i = Inr f" "Key f \<notin> set seen"
    and fs: "fs = f # fs'" "build_component_fields E (Key f # seen) rest = Inr fs'"
    by (auto split: if_splits)
  from "2.IH" [OF f(2) fs(2)] buildComponentField_sound [OF f(1)] f(2) show ?case by (auto simp: fs)
qed simp

lemma find_snoc: "find P (xs @ [x]) = (case find P xs of Some y \<Rightarrow> Some y | None \<Rightarrow> if P x then Some x else None)"
  by (induction xs) auto

lemma createComponentAs_sound:
  assumes "createComponentAs E sub i st = Inr (dto, st')" and sound: "store_sound E st"
  shows "store_sound E st'"
proof -
  obtain c where c: "component_draft E i st = Inr c" and new: "GetComponentByName st (cp_Name c) = None"
    and st': "st' = st\<lparr>st_Components := st_Components st @ [c]\<rparr>"
    using assms(1) by (auto simp: createComponentAs_def CreateComponent_repo_def)
  have fresh: "cp_Name c \<notin> cp_Name ` set (st_Components st)"
    using new by (auto simp: GetComponentByName_def find_None_iff)
  have "build_component_fields E [] (ci_Fields i) = Inr (cp_Fields c)"
    using c by (auto simp: component_draft_def Let_def)
  then have "component_sound E c" using build_component_fields_sound by (fastforce simp: component_sound_def)
  moreover have "attached st' f" if "attached st f" for f
    by (rule attached_extended [OF that]) (auto simp: st' GetComponentByName_def find_snoc split: option.splits)
  ultimately show ?thesis
    using fresh sound by (intro same_rows_sound [OF sound]) (auto simp: st' store_sound_def)
qed

lemma find_filtered: "n \<noteq> name \<Longrightarrow> find (\<lambda>c. cp_Name c = n) (filter (\<lambda>x. cp_Name x \<noteq> name) cs) = find (\<lambda>c. cp_Name c = n) cs"
  by (induction cs) auto

lemma DeleteComponent_sound:
  assumes "DeleteComponent allow ctx name st = Inr st'" and sound: "store_sound E st"
  shows "store_sound E st'"
proof -
  obtain c refs where c: "loadComponent name st = Inr (c, refs)" and none: "refs = []"
    and st': "st' = st\<lparr>st_Components := filter (\<lambda>x. cp_Name x \<noteq> cp_Name c) (st_Components st)\<rparr>"
    using assms(1) by (auto simp: DeleteComponent_def DeleteComponent_repo_def Let_def)
  note l = loadComponent_ok [OF c]
  have look: "n \<noteq> name \<Longrightarrow> GetComponentByName st' n = GetComponentByName st n" for n
    using l find_filtered [of n name "st_Components st"] by (simp add: GetComponentByName_def st')
  have "attached st' f" if r: "r \<in> set (st_Rows st)" and f: "f \<in> set (ct_Fields (row_Type r))" and a: "attached st f" for r f
  proof -
    have "refs_of_row name r = []" using none l r by (auto simp: ListComponentReferrers_def)
    then have no: "\<not> refers_by_id name f" "\<not> refers_by_zone name f"
      using f by (auto simp: refs_of_row_def Let_def filter_empty_conv)
    then show ?thesis
      using a look unfolding attached_def zone_attached_def refers_by_id_def refers_by_zone_def by metis
  qed
  moreover have "distinct (map cp_Name (st_Components st'))" "\<forall>c \<in> set (st_Components st'). component_sound E c"
    using sound by (auto simp: st' store_sound_def distinct_map_filter)
  ultimately show ?thesis by (intro same_rows_sound [OF sound]) (auto simp: st')
qed

section \<open>Histories of component verbs\<close>

text \<open>One successful call of each verb, by any caller; reads leave the store as it is.\<close>

inductive component_step :: "env \<Rightarrow> store \<Rightarrow> store \<Rightarrow> bool" for E where
  create: "CreateComponent E allow ctx i st = Inr (dto, st') \<Longrightarrow> component_step E st st'"
| install: "InstallComponentTemplate E allow ctx name st = Inr (dto, st') \<Longrightarrow> component_step E st st'"
| update: "UpdateComponent allow ctx name l st = Inr (dto, st') \<Longrightarrow> component_step E st st'"
| rename: "RenameComponent allow ctx name newName st = Inr (dto, st') \<Longrightarrow> component_step E st st'"
| delete: "DeleteComponent allow ctx name st = Inr st' \<Longrightarrow> component_step E st st'"
| add_field: "AddComponentField E allow ctx name i' st = Inr (dto, st') \<Longrightarrow> component_step E st st'"
| update_field: "UpdateComponentField E allow ctx name key u st = Inr (dto, st') \<Longrightarrow>
    no_empty_item_lists st name key u \<Longrightarrow> component_step E st st'"
| rename_field: "RenameComponentField allow ctx name key newKey st = Inr (dto, st') \<Longrightarrow> component_step E st st'"
| delete_field: "DeleteComponentField allow ctx name key force st = Inr (dto, st') \<Longrightarrow> component_step E st st'"

lemma component_step_sound: "component_step E st st' \<Longrightarrow> store_sound E st \<Longrightarrow> store_sound E st'"
proof (induction rule: component_step.induct)
  case (create allow ctx i st dto st')
  then show ?case by (auto simp: CreateComponent_def intro: createComponentAs_sound)
next
  case (install allow ctx name st dto st')
  then show ?case by (auto simp: InstallComponentTemplate_def intro: createComponentAs_sound split: option.splits)
qed (blast intro: UpdateComponent_sound RenameComponent_sound DeleteComponent_sound AddComponentField_sound
  UpdateComponentField_sound RenameComponentField_sound DeleteComponentField_sound)+

end
