(* ===== verification/Type_Renames.thy ===== *)
theory Type_Renames
  imports Component_Guards
begin

text \<open>
  What renaming a content type keeps: the relations that name it follow, in the fields of types
  and of components, and nothing the validator reads of a field changes.
\<close>

section \<open>Fields that point elsewhere\<close>

lemma retarget_attrs [simp]:
  "Key (retarget old new f) = Key f" "Type (retarget old new f) = Type f" "Required (retarget old new f) = Required f"
  "Multiple (retarget old new f) = Multiple f" "EnumValues (retarget old new f) = EnumValues f"
  "Constraints (retarget old new f) = Constraints f" "ZoneComponents (retarget old new f) = ZoneComponents f"
  "f_ComponentName (attrs (retarget old new f)) = f_ComponentName (attrs f)"
  "ComponentFields (retarget old new f) = map (retarget old new) (ComponentFields f)"
  by (cases f; simp)+

lemma retarget_keys [simp]: "map (\<lambda>f. Key f) (map (retarget old new) fs) = map (\<lambda>f. Key f) fs"
  by simp

lemma retarget_zone [simp]:
  "zone_fields_of (retarget old new f) n = map (retarget old new) (zone_fields_of f n)"
proof -
  have "map_of (map (map_prod (\<lambda>n. n) g) zs) n = map_option g (map_of zs n)" for g :: "field list \<Rightarrow> field list" and zs
    by (induction zs) auto
  then show ?thesis by (cases f) (simp add: zone_fields_of_def split: option.split)
qed

lemma retarget_legal:
  "payload_ok E (map (retarget old new) fs) d = payload_ok E fs d"
  "value_ok E (retarget old new f) v = value_ok E f v"
  "item_ok E (retarget old new f) x = item_ok E f x"
proof (induction E fs d and E f v and E f x rule: payload_ok_value_ok_item_ok.induct)
  case (1 E fs d)
  then show ?case
    by (simp add: payload_ok.simps [of E "map (retarget old new) fs"] payload_ok.simps [of E fs] image_image
        cong: option.case_cong)
next
  case (2 E f v)
  have sc: "scalar_ok E (retarget old new f) = scalar_ok E f"
    by (rule ext, rule scalar_ok_cong) simp_all
  have ca: "cardinality_ok (retarget old new f) = cardinality_ok f" by (simp add: fun_eq_iff cardinality_ok_def)
  show ?case
    using 2 by (cases v) (simp_all add: value_ok.simps [of E "retarget old new f"] value_ok.simps [of E f] sc ca)
next
  case (3 E f x)
  have za: "ZoneAllows (retarget old new f) n = ZoneAllows f n" for n by (simp add: ZoneAllows_def)
  show ?case
    using 3 by (cases x) (simp_all add: item_ok.simps [of E "retarget old new f"] item_ok.simps [of E f] za Let_def)
qed

section \<open>The store\<close>

definition retargeted :: "string \<Rightarrow> string \<Rightarrow> store \<Rightarrow> store" where
  "retargeted old new st =
     st\<lparr>st_Rows := map (rename_row old new) (st_Rows st),
        st_Components := map (\<lambda>c. c\<lparr>cp_Fields := map (retarget old new) (cp_Fields c)\<rparr>) (st_Components st)\<rparr>"

lemma retargeted_component:
  "GetComponentByName (retargeted old new st) n =
     map_option (\<lambda>c. c\<lparr>cp_Fields := map (retarget old new) (cp_Fields c)\<rparr>) (GetComponentByName st n)"
proof -
  let ?h = "\<lambda>c. c\<lparr>cp_Fields := map (retarget old new) (cp_Fields c)\<rparr>"
  have "find (\<lambda>c. cp_Name c = n) (map ?h cs) = map_option ?h (find (\<lambda>c. cp_Name c = n) cs)" for cs
    by (induction cs) auto
  then show ?thesis by (simp add: GetComponentByName_def retargeted_def)
qed

lemma retargeted_attached: "attached st f \<Longrightarrow> attached (retargeted old new st) (retarget old new f)"
  by (auto simp: attached_def zone_attached_def retargeted_component)

lemma component_retargeted: "component_sound E c \<Longrightarrow> component_sound E (c\<lparr>cp_Fields := map (retarget old new) (cp_Fields c)\<rparr>)"
  by (auto simp: component_sound_def comp_def)

lemma rename_row_sound:
  assumes "row_sound E st r"
  shows "row_sound E (retargeted old new st) (rename_row old new r)"
  using assms by (auto simp: row_sound_def rename_row_def Let_def entries_legal_def retarget_legal comp_def
      intro: retargeted_attached)

lemma RenameContentType_sound:
  assumes u: "RenameContentType w n raw st = Inr st'" and sound: "store_sound E st"
  shows "store_sound E st'"
proof -
  let ?new = "TrimSpace raw"
  obtain row :: type_row where r: "(if ?new = ct_Name (row_Type row) then Inr st
      else RenameContentType_repo (ct_Name (row_Type row)) ?new st) = Inr st'"
    using u unfolding RenameContentType_def Let_def and_then_Inr by blast
  then have cases: "st' = st \<or> RenameContentType_repo (ct_Name (row_Type row)) ?new st = Inr st'"
    by (simp split: if_splits)
  show ?thesis
  proof (cases "st' = st")
    case True
    with sound show ?thesis by simp
  next
    case False
    let ?old = "ct_Name (row_Type row)"
    from False cases have fresh: "\<not> list_ex (row_named ?new) (st_Rows st)" and st': "st' = retargeted ?old ?new st"
      by (auto simp: RenameContentType_repo_def retargeted_def)
    let ?g = "\<lambda>n. if n = ?old then ?new else n"
    have names: "map (\<lambda>r. ct_Name (row_Type r)) (st_Rows st') = map ?g (map (\<lambda>r. ct_Name (row_Type r)) (st_Rows st))"
      by (simp add: st' retargeted_def rename_row_def Let_def comp_def)
    have "inj_on ?g (set (map (\<lambda>r. ct_Name (row_Type r)) (st_Rows st)))"
      using fresh by (auto simp: inj_on_def list_ex_iff row_named_def)
    with sound have "distinct (map (\<lambda>r. ct_Name (row_Type r)) (st_Rows st'))"
      unfolding names by (subst distinct_map) (simp add: store_sound_def)
    moreover have "\<forall>r \<in> set (st_Rows st'). row_sound E st' r"
      using sound rename_row_sound by (auto simp: st' store_sound_def) (auto simp: retargeted_def intro: rename_row_sound)
    moreover have "distinct (map cp_Name (st_Components st'))" "\<forall>c \<in> set (st_Components st'). component_sound E c"
      using sound component_retargeted by (auto simp: st' retargeted_def store_sound_def comp_def)
    ultimately show ?thesis by (simp add: store_sound_def)
  qed
qed

end
