(* ===== verification/Schema_Histories.thy ===== *)
theory Schema_Histories
  imports Type_Renames
begin

text \<open>
  Histories that mix the verbs of content types with those of components.  A type verb changes
  one row; what it does to the row's fields keeps them attached to their components and their
  constraints well formed, so that the guarantees of \<open>Schema_Guards\<close> for one type and those of
  \<open>Component_Guards\<close> for all types compose.
\<close>

section \<open>One row is changed\<close>

lemma row_in: "GetContentTypeByName st n = Inr row \<Longrightarrow> row \<in> set (st_Rows st) \<and> ct_Name (row_Type row) = n"
  by (auto simp: GetContentTypeByName_def row_named_def find_Some_iff split: option.splits)

lemma row_sound_of: "store_sound E st \<Longrightarrow> GetContentTypeByName st n = Inr row \<Longrightarrow> row_sound E st row"
  using row_in by (auto simp: store_sound_def)

lemma row_sound_stored: "row_sound E st row \<Longrightarrow> stored_row E st row"
  by (simp add: row_sound_def stored_row_def attached_def)

lemma row_sound_cong: "st_Components st' = st_Components st \<Longrightarrow> row_sound E st' = row_sound E st"
  by (simp add: fun_eq_iff row_sound_def attached_def zone_attached_def GetComponentByName_def)

lemma update_row_sound:
  assumes sound: "store_sound E st" and row: "GetContentTypeByName st n = Inr row"
    and new: "row_sound E st (g row)" and name: "\<And>r. ct_Name (row_Type (g r)) = ct_Name (row_Type r)"
  shows "store_sound E (update_row n g st)"
proof -
  let ?st = "update_row n g st"
  have comps: "st_Components ?st = st_Components st" by (simp add: update_row_def)
  have only: "r = row" if "r \<in> set (st_Rows st)" "row_named n r" for r
    using that sound row_in [OF row] by (auto simp: store_sound_def row_named_def distinct_map inj_on_def)
  have "row_sound E st r'" if "r' \<in> set (st_Rows ?st)" for r'
    using that new only sound by (auto simp: update_row_def store_sound_def)
  moreover have "map (\<lambda>r. ct_Name (row_Type r)) (st_Rows ?st) = map (\<lambda>r. ct_Name (row_Type r)) (st_Rows st)"
    by (simp add: update_row_def name)
  ultimately show ?thesis
    using sound unfolding store_sound_def comps row_sound_cong [OF comps] by auto
qed

text \<open>The fields of a row without its entries.\<close>

definition fields_sound :: "env \<Rightarrow> store \<Rightarrow> field list \<Rightarrow> bool" where
  "fields_sound E st fs \<longleftrightarrow> distinct (map Key fs) \<and>
     (\<forall>f \<in> set fs. attached st f \<and> ValidateFieldConstraints E (Type f) (Multiple f) (Constraints f) = None)"

lemma row_sound_parts: "row_sound E st r \<longleftrightarrow> fields_sound E st (ct_Fields (row_Type r)) \<and> entries_legal E r"
  by (auto simp: row_sound_def fields_sound_def)

section \<open>The verbs of content types\<close>

lemma resolve_field_attached: "resolve_field st f = Inr g \<Longrightarrow> attached st g"
proof -
  assume r: "resolve_field st f = Inr g"
  consider (comp) "Type f = FieldTypeComponent" | (zone) "Type f = FieldTypeDynamicZone"
    | (plain) "Type f \<noteq> FieldTypeComponent" "Type f \<noteq> FieldTypeDynamicZone" by blast
  then show ?thesis
  proof cases
    case comp
    then show ?thesis using r by (auto simp: resolve_field_def attached_def zone_attached_def field_type_defs split: option.splits)
  next
    case zone
    then obtain zs where "lookup_components st (Key f) (ZoneComponents f) = Inr zs" "g = Field (attrs f) (ComponentFields f) zs"
      using r by (auto simp: resolve_field_def field_type_defs)
    with zone lookup_components_ok show ?thesis
      by (auto simp: attached_def zone_attached_def zone_fields_of_def field_type_defs) fastforce
  next
    case plain
    then show ?thesis using r by (auto simp: resolve_field_def attached_def zone_attached_def)
  qed
qed

lemma buildField_constraints:
  "buildField E i = Inr f \<Longrightarrow> ValidateFieldConstraints E (Type f) (Multiple f) (Constraints f) = None"
  by (auto simp: buildField_def Let_def)

lemma fields_sound_snoc:
  "fields_sound E st fs \<Longrightarrow> FieldByKey fs (Key g) = None \<Longrightarrow> attached st g \<Longrightarrow>
     ValidateFieldConstraints E (Type g) (Multiple g) (Constraints g) = None \<Longrightarrow> fields_sound E st (fs @ [g])"
  by (auto simp: fields_sound_def FieldByKey_None)

text \<open>AddField has no backfill guard of its own: a required field meets an empty type.\<close>

definition no_required_over_entries :: "store \<Rightarrow> string \<Rightarrow> field_input \<Rightarrow> bool" where
  "no_required_over_entries st n i \<longleftrightarrow> (in_Required i \<longrightarrow> stored_entries st n = [])"

lemma AddField_sound:
  assumes u: "AddField E q n i st = Inr st'" and sound: "store_sound E st" and opt: "no_required_over_entries st n i"
  shows "store_sound E st'"
proof -
  obtain row f g where row: "GetContentTypeByName st n = Inr row" and f: "buildField E i = Inr f"
    and new: "FieldByKey (ct_Fields (row_Type row)) (Key f) = None" and g: "resolve_field st f = Inr g"
    and st': "st' = update_row n (set_fields (ct_Fields (row_Type row) @ [g])) st"
    using u unfolding AddField_def by auto
  let ?row = "set_fields (ct_Fields (row_Type row) @ [g]) row"
  have rs: "row_sound E st row" by (rule row_sound_of [OF sound row])
  have "\<not> in_Required i \<or> row_Entries row = []"
    using opt row by (auto simp: no_required_over_entries_def stored_entries_def)
  then have "entries_legal E ?row"
    using AddField_legal [OF u row] rs row_after_update [OF row, of "set_fields (ct_Fields (row_Type row) @ [g])"]
    by (auto simp: row_sound_parts st')
  moreover have "fields_sound E st (ct_Fields (row_Type row) @ [g])"
    using rs new resolve_field_attrs [OF g] resolve_field_attached [OF g] buildField_constraints [OF f]
    by (intro fields_sound_snoc) (auto simp: row_sound_parts)
  ultimately have "row_sound E st ?row" by (simp add: row_sound_parts)
  then show ?thesis unfolding st' by (rule update_row_sound [OF sound row]) simp
qed

lemma update_steps_attached:
  assumes a: "attached st f" and v: "ValidateFieldConstraints E (Type f) (Multiple f) (Constraints f) = None"
    and s: "update_enum E es key i (update_texts i f) = Inr f1" "update_zone st es key i f1 = Inr f2"
      "update_required es key i f2 = Inr f3" "update_constraints E es key i f3 = Inr f4" "update_roles key i f4 = Inr f5"
  shows "attached st f5 \<and> ValidateFieldConstraints E (Type f5) (Multiple f5) (Constraints f5) = None"
proof -
  have texts: "attached st (with_attrs h g) = attached st g"
    if "\<And>x. f_Type (h x) = f_Type x" "\<And>x. f_ComponentName (h x) = f_ComponentName x" "\<And>x. f_ZoneComponents (h x) = f_ZoneComponents x" for g h
    using that by (simp add: attached_def zone_attached_def)
  have 1: "attached st f1 \<and> Type f1 = Type f \<and> Multiple f1 = Multiple f \<and> Constraints f1 = Constraints f"
    using a s(1) by (auto simp: update_enum_def update_texts_def Let_def texts split: option.splits)
  have 2: "attached st f2 \<and> Type f2 = Type f \<and> Multiple f2 = Multiple f \<and> Constraints f2 = Constraints f"
  proof (cases "uf_Components i")
    case None
    with s(2) 1 show ?thesis by (simp add: update_zone_def)
  next
    case (Some raw)
    then obtain nxt zs where n: "normalizeZoneComponents key (Type f1) raw = Inr nxt"
      and look: "lookup_components st key nxt = Inr zs"
      and g: "f2 = Field ((attrs f1)\<lparr>f_ZoneComponents := nxt\<rparr>) (ComponentFields f1) zs"
      using s(2) by (auto simp: update_zone_def)
    have "zone_attached st f2"
      using lookup_components_ok [OF look] by (fastforce simp: zone_attached_def g zone_fields_of_def)
    then show ?thesis using 1 by (simp add: attached_def g)
  qed
  have 3: "attached st f3 \<and> Type f3 = Type f \<and> Multiple f3 = Multiple f \<and> Constraints f3 = Constraints f"
    using 2 s(3) by (auto simp: update_required_def Let_def texts split: option.splits)
  have 4: "attached st f4 \<and> ValidateFieldConstraints E (Type f4) (Multiple f4) (Constraints f4) = None"
    using 3 s(4) v by (auto simp: update_constraints_def Let_def texts split: if_splits)
  show ?thesis using 4 s(5) by (auto simp: update_roles_def texts)
qed

lemma fields_sound_at:
  assumes "fields_sound E st fs" and "Key g = key" and "attached st g"
    and "ValidateFieldConstraints E (Type g) (Multiple g) (Constraints g) = None"
  shows "fields_sound E st (withFieldAt key g fs)"
proof -
  have "map Key (withFieldAt key g fs) = map Key fs" using assms(2) by (simp add: withFieldAt_def)
  moreover have "\<forall>h \<in> set (withFieldAt key g fs). h = g \<or> h \<in> set fs" by (auto simp: withFieldAt_def)
  ultimately show ?thesis using assms by (auto simp: fields_sound_def)
qed

text \<open>A PATCH of a type's field that sets required meets no stored empty list.\<close>

definition no_empty_lists :: "store \<Rightarrow> string \<Rightarrow> string \<Rightarrow> update_field_input \<Rightarrow> bool" where
  "no_empty_lists st n key i \<longleftrightarrow> (uf_Required i = Some True \<longrightarrow>
     (case GetContentTypeByName st n of
        Inr row \<Rightarrow> \<forall>e \<in> set (row_Entries row). \<not> stored_empty_list key (e_Payload e) | Inl _ \<Rightarrow> True))"

lemma UpdateField_sound:
  assumes u: "UpdateField E a w n key i st = Inr st'" and sound: "store_sound E st" and no: "no_empty_lists st n key i"
  shows "store_sound E st'"
proof -
  obtain row f f1 f2 f3 f4 f5 where row: "GetContentTypeByName st n = Inr row"
    and f: "FieldByKey (ct_Fields (row_Type row)) key = Some f"
    and steps: "update_enum E (row_Entries row) key i (update_texts i f) = Inr f1"
      "update_zone st (row_Entries row) key i f1 = Inr f2" "update_required (row_Entries row) key i f2 = Inr f3"
      "update_constraints E (row_Entries row) key i f3 = Inr f4" "update_roles key i f4 = Inr f5"
    and st': "st' = update_row n (set_fields (withFieldAt (Key f5) f5 (ct_Fields (row_Type row)))) st"
    using u unfolding UpdateField_def by (auto split: option.splits)
  let ?row = "set_fields (withFieldAt (Key f5) f5 (ct_Fields (row_Type row))) row"
  have rs: "row_sound E st row" by (rule row_sound_of [OF sound row])
  have fin: "f \<in> set (ct_Fields (row_Type row))" using FieldByKey_Some [OF f] by blast
  have "entries_legal E ?row"
    using UpdateField_legal [OF u row row_sound_stored [OF rs]] rs no row
      row_after_update [OF row, of "set_fields (withFieldAt (Key f5) f5 (ct_Fields (row_Type row)))"]
    by (auto simp: row_sound_parts st' no_empty_lists_def)
  moreover have "fields_sound E st (withFieldAt (Key f5) f5 (ct_Fields (row_Type row)))"
    using update_steps_attached [OF _ _ steps] rs fin
    by (intro fields_sound_at) (auto simp: row_sound_parts fields_sound_def)
  ultimately have "row_sound E st ?row" by (simp add: row_sound_parts)
  then show ?thesis unfolding st' by (rule update_row_sound [OF sound row]) simp
qed

lemma DeleteField_sound:
  assumes u: "DeleteField w n key force st = Inr st'" and sound: "store_sound E st"
  shows "store_sound E st'"
proof -
  obtain row where row: "GetContentTypeByName st n = Inr row" using u by (auto simp: DeleteField_def)
  let ?gs = "filter (\<lambda>g. Key g \<noteq> key) (ct_Fields (row_Type row))"
  let ?up = "\<lambda>r. (set_fields ?gs r)\<lparr>row_Entries := map (rewrite_entry key (drop_key key)) (row_Entries r)\<rparr>"
  have st': "st' = update_row n ?up st" using u row unfolding DeleteField_def Let_def by auto
  have rs: "row_sound E st row" by (rule row_sound_of [OF sound row])
  have "entries_legal E (?up row)"
    using DeleteField_legal [OF u row] rs row_after_update [OF row, of ?up] by (auto simp: row_sound_parts st')
  moreover have "fields_sound E st ?gs"
    using rs by (auto simp: row_sound_parts fields_sound_def distinct_map_filter)
  ultimately have "row_sound E st (?up row)" by (simp add: row_sound_parts)
  then show ?thesis unfolding st' by (rule update_row_sound [OF sound row]) simp
qed

lemma RenameField_sound:
  assumes u: "RenameField w n key raw st = Inr st'" and sound: "store_sound E st"
  shows "store_sound E st'"
proof -
  let ?new = "TrimSpace raw"
  obtain row f where row: "GetContentTypeByName st n = Inr row" and f: "FieldByKey (ct_Fields (row_Type row)) key = Some f"
    and cases: "?new = key \<and> st' = st \<or> ?new \<noteq> key \<and> FieldByKey (ct_Fields (row_Type row)) ?new = None \<and>
      st' = update_row n (\<lambda>r. (set_fields (withFieldAt key (set_key ?new f) (ct_Fields (row_Type row))) r)
        \<lparr>row_Entries := map (rewrite_entry key (move_key key ?new)) (row_Entries r)\<rparr>) st"
    using u unfolding RenameField_def Let_def by (auto split: option.splits if_splits)
  let ?fs = "ct_Fields (row_Type row)"
  let ?gs = "withFieldAt key (set_key ?new f) ?fs"
  let ?up = "\<lambda>r. (set_fields ?gs r)\<lparr>row_Entries := map (rewrite_entry key (move_key key ?new)) (row_Entries r)\<rparr>"
  have rs: "row_sound E st row" by (rule row_sound_of [OF sound row])
  have fin: "f \<in> set ?fs" "Key f = key" using FieldByKey_Some [OF f] by auto
  have d: "distinct (map Key ?fs)" using rs by (simp add: row_sound_def)
  show ?thesis
  proof (cases "?new = key")
    case True
    with cases sound show ?thesis by simp
  next
    case False
    with cases have fresh: "?new \<notin> Key ` set ?fs" and st': "st' = update_row n ?up st" by (auto simp: FieldByKey_None)
    have "entries_legal E (?up row)"
      using RenameField_legal [OF u row d] rs row_after_update [OF row, of ?up] by (auto simp: row_sound_parts st')
    moreover have "fields_sound E st ?gs"
    proof -
      have "attached st (set_key ?new h) = attached st h" for h
        by (simp add: attached_def zone_attached_def set_key_def zone_fields_of_def)
      moreover have "distinct (map Key ?gs)"
        unfolding withFieldAt_renamed [OF d fin]
        using d fresh by (auto simp: distinct_map inj_on_def renamed_key_def image_iff split: if_splits)
      moreover have "\<forall>h \<in> set ?gs. h = set_key ?new f \<or> h \<in> set ?fs" by (auto simp: withFieldAt_def)
      ultimately show ?thesis using rs fin by (auto simp: row_sound_parts fields_sound_def)
    qed
    ultimately have "row_sound E st (?up row)" by (simp add: row_sound_parts)
    then show ?thesis unfolding st' by (rule update_row_sound [OF sound row]) simp
  qed
qed

lemma UpdateContentType_sound:
  assumes u: "UpdateContentType a w n i st = Inr st'" and sound: "store_sound E st"
  shows "store_sound E st'"
proof -
  obtain row rr wr oo where row: "GetContentTypeByName st n = Inr row"
    and st': "st' = update_row n (\<lambda>r. r\<lparr>row_Type := (row_Type row)\<lparr>ct_Label := TrimSpace (ut_Label i), ct_ReadRoles := rr,
        ct_WriteRoles := wr, ct_OwnOnlyRoles := oo\<rparr>\<rparr>) st"
    using u by (auto simp: UpdateContentType_def Let_def)
  let ?ct = "(row_Type row)\<lparr>ct_Label := TrimSpace (ut_Label i), ct_ReadRoles := rr, ct_WriteRoles := wr, ct_OwnOnlyRoles := oo\<rparr>"
  have named: "update_row n (\<lambda>r. r\<lparr>row_Type := ?ct\<rparr>) st = update_row n (\<lambda>r. if row_named n r then r\<lparr>row_Type := ?ct\<rparr> else r) st"
    by (simp add: update_row_def)
  have rs: "row_sound E st row" by (rule row_sound_of [OF sound row])
  then have "row_sound E st (if row_named n row then row\<lparr>row_Type := ?ct\<rparr> else row)"
    by (simp add: row_sound_parts entries_legal_def)
  then show ?thesis unfolding st' named
    by (rule update_row_sound [OF sound row]) (use row_in [OF row] in \<open>simp add: row_named_def\<close>)
qed

lemma rows_only:
  assumes "store_sound E st" and "st_Components st' = st_Components st"
    and "distinct (map (\<lambda>r. ct_Name (row_Type r)) (st_Rows st'))" and "\<forall>r \<in> set (st_Rows st'). row_sound E st r"
  shows "store_sound E st'"
  using assms unfolding store_sound_def row_sound_cong [OF assms(2)] by simp

lemma DeleteContentType_sound:
  assumes "DeleteContentType w n st = Inr st'" and sound: "store_sound E st"
  shows "store_sound E st'"
proof -
  have st': "st' = st\<lparr>st_Rows := filter (\<lambda>r. \<not> row_named n r) (st_Rows st)\<rparr>"
    using assms(1) by (auto simp: DeleteContentType_def Let_def)
  show ?thesis by (rule rows_only [OF sound]) (use sound in \<open>auto simp: st' store_sound_def distinct_map_filter\<close>)
qed

lemma build_fields_sound:
  "build_fields E seen is = Inr fs \<Longrightarrow>
     (\<forall>f \<in> set fs. ValidateFieldConstraints E (Type f) (Multiple f) (Constraints f) = None) \<and>
     distinct (map Key fs) \<and> set seen \<inter> Key ` set fs = {}"
proof (induction E seen "is" arbitrary: fs rule: build_fields.induct)
  case (2 E seen i rest)
  then obtain f fs' where f: "buildField E i = Inr f" "Key f \<notin> set seen"
    and fs: "fs = f # fs'" "build_fields E (Key f # seen) rest = Inr fs'"
    by (auto split: if_splits)
  from "2.IH" [OF f(2) fs(2)] buildField_constraints [OF f(1)] f(2) show ?case by (auto simp: fs)
qed simp

lemma resolveComponentRefs_sound:
  "resolveComponentRefs st fs = Inr gs \<Longrightarrow> map attrs gs = map attrs fs \<and> (\<forall>g \<in> set gs. attached st g)"
  by (induction fs arbitrary: gs) (auto dest: resolve_field_attrs resolve_field_attached)

lemma CreateContentType_sound:
  assumes "CreateContentType E q i st = Inr st'" and sound: "store_sound E st"
  shows "store_sound E st'"
proof -
  let ?name = "TrimSpace (cti_Name i)"
  obtain fs gs rr wr oo where fs: "build_fields E [] (cti_Fields i) = Inr fs" and gs: "resolveComponentRefs st fs = Inr gs"
    and new: "find (row_named ?name) (st_Rows st) = None"
    and st': "st' = st\<lparr>st_Rows := st_Rows st @
          [\<lparr>row_Type = \<lparr>ct_Name = ?name, ct_Label = TrimSpace (cti_Label i), ct_Fields = gs,
              ct_ReadRoles = rr, ct_WriteRoles = wr, ct_OwnOnlyRoles = oo\<rparr>, row_Entries = []\<rparr>]\<rparr>"
    using assms(1) by (auto simp: CreateContentType_def Let_def)
  have a: "map attrs gs = map attrs fs" "\<forall>g \<in> set gs. attached st g" using resolveComponentRefs_sound [OF gs] by auto
  have "map f_Key (map attrs gs) = map f_Key (map attrs fs)" "attrs ` set gs = attrs ` set fs"
    using a(1) by (simp, metis list.set_map)
  then have keys: "map Key gs = map Key fs" and same: "\<And>g. g \<in> set gs \<Longrightarrow> \<exists>f \<in> set fs. attrs g = attrs f"
    by (simp_all add: comp_def) (metis imageE imageI)
  have "fields_sound E st gs"
    unfolding fields_sound_def keys
  proof (intro conjI ballI)
    show "distinct (map Key fs)" using build_fields_sound [OF fs] by blast
  next
    fix g assume g: "g \<in> set gs"
    show "attached st g" using a(2) g by blast
    from same [OF g] build_fields_sound [OF fs]
    show "ValidateFieldConstraints E (Type g) (Multiple g) (Constraints g) = None" by auto
  qed
  moreover have "?name \<notin> (\<lambda>r. ct_Name (row_Type r)) ` set (st_Rows st)"
    using new by (auto simp: find_None_iff row_named_def)
  ultimately show ?thesis
    by (intro rows_only [OF sound]) (use sound in \<open>auto simp: st' store_sound_def row_sound_parts entries_legal_def\<close>)
qed

section \<open>Histories\<close>

inductive schema_step :: "env \<Rightarrow> store \<Rightarrow> store \<Rightarrow> bool" for E where
  component: "component_step E st st' \<Longrightarrow> schema_step E st st'"
| create_type: "CreateContentType E q i st = Inr st' \<Longrightarrow> schema_step E st st'"
| update_type: "UpdateContentType a w n u st = Inr st' \<Longrightarrow> schema_step E st st'"
| rename_type: "RenameContentType w n raw st = Inr st' \<Longrightarrow> schema_step E st st'"
| delete_type: "DeleteContentType w n st = Inr st' \<Longrightarrow> schema_step E st st'"
| add_type_field: "AddField E q n f st = Inr st' \<Longrightarrow> no_required_over_entries st n f \<Longrightarrow> schema_step E st st'"
| update_type_field: "UpdateField E a w n key v st = Inr st' \<Longrightarrow> no_empty_lists st n key v \<Longrightarrow> schema_step E st st'"
| rename_type_field: "RenameField w n key new st = Inr st' \<Longrightarrow> schema_step E st st'"
| delete_type_field: "DeleteField w n key force st = Inr st' \<Longrightarrow> schema_step E st st'"

lemma schema_step_sound: "schema_step E st st' \<Longrightarrow> store_sound E st \<Longrightarrow> store_sound E st'"
  by (induction rule: schema_step.induct)
    (blast intro: component_step_sound CreateContentType_sound UpdateContentType_sound RenameContentType_sound DeleteContentType_sound
      AddField_sound UpdateField_sound RenameField_sound DeleteField_sound)+

lemma schema_history_sound:
  assumes "(schema_step E)\<^sup>*\<^sup>* st st'" and "store_sound E st"
  shows "store_sound E st'"
  using assms by (induction rule: rtranclp_induct) (auto intro: schema_step_sound)

section \<open>Properties\<close>


text \<open>A type with a component field and an entry that holds an item; the sub-field is renamed.\<close>

definition card_component :: "string \<Rightarrow> component" where
  "card_component k = \<lparr>cp_Name = ''card'', cp_Label = [], cp_Fields = [string_field k True]\<rparr>"

definition card_field :: "string \<Rightarrow> field" where
  "card_field k = Field (zero_attrs\<lparr>f_Key := ''meta'', f_Type := FieldTypeComponent, f_ComponentName := ''card''\<rparr>)
     [string_field k True] []"

definition card_store :: "string \<Rightarrow> store" where
  "card_store k = (sample_store [card_field k] [(''meta'', JObj [(k, JStr ''a'')])])\<lparr>st_Components := [card_component k]\<rparr>"

lemma card_sound: "ValidFieldKey k \<Longrightarrow> store_sound E (card_store k)"
  by (simp add: store_sound_def card_store_def sample_store_def component_sound_def card_component_def row_sound_def
      card_field_def attached_def zone_attached_def GetComponentByName_def entries_legal_def sample_entry_def
      payload_ok.simps value_ok.simps item_ok.simps scalar_ok_def typed_string_def string_satisfies_def in_range_def
      below_min_def above_max_def FieldFormatSlug_def string_field_simps field_type_defs
      no_constraints_valid [unfolded no_constraints_def])

lemma card_loaded:
  "loadComponent ''card'' (card_store k) = Inr (card_component k,
     [\<lparr>cr_TypeName = ''post'', cr_FieldKey = ''meta'', cr_Multiple = False, cr_Zone = False\<rparr>])"
  by (simp add: loadComponent_def card_store_def card_component_def GetComponentByName_def ListComponentReferrers_def
      sample_store_def refs_of_row_def refers_by_id_def refers_by_zone_def card_field_def zero_attrs_def field_type_defs)

definition card_after :: store where
  "card_after = (card_store ''body'')\<lparr>st_Rows :=
     map (with_entries (\<lambda>_ e. e\<lparr>e_Version := 2\<rparr>)) (st_Rows (card_store ''body''))\<rparr>"

lemma card_rewritten:
  "rewriteComponentItems ''card'' ''title'' (Some ''body'')
     \<lparr>cr_TypeName = ''post'', cr_FieldKey = ''meta'', cr_Multiple = False, cr_Zone = False\<rparr>
     (sample_entry [(''meta'', JObj [(''title'', JStr ''a'')])]) =
   (sample_entry [(''meta'', JObj [(''body'', JStr ''a'')])])\<lparr>e_Version := 2\<rparr>"
  by (simp add: rewriteComponentItems_def rewrite_copies_def both_copies_def has_subkey_def items_visited_def holds_def
      sample_entry_def on_value_def rewrite_value_def rewrite_item_def move_key_def drop_key_def)

lemma card_repo:
  "RenameComponentField_repo (card_component ''title'')
     [\<lparr>cr_TypeName = ''post'', cr_FieldKey = ''meta'', cr_Multiple = False, cr_Zone = False\<rparr>] ''title'' ''body''
     (card_store ''title'') = Inr card_after"
  by (simp add: RenameComponentField_repo_def rewrite_refs_def rewrite_ref_def update_row_def card_store_def sample_store_def
      card_rewritten row_named_def touched_component_def GetComponentByName_def card_component_def put_component_def
      reload_def set_fields_def card_after_def with_entries_def with_components_def fields_of_component_def card_field_def
      string_field_def set_key_def zero_attrs_def field_type_defs)

lemma card_renamed:
  "\<exists>dto. RenameComponentField (\<lambda>_ _. None) (Some sample_subject) ''card'' ''title'' ''body'' (card_store ''title'')
     = Inr (dto, card_after)"
proof -
  have a: "authorize (\<lambda>_ _. None) (Some sample_subject) ''content:schema:write'' ''collection'' [] = Inr sample_subject"
    by (simp add: authorize_def authorizeAgentScope_def refuseOutsideAgentScope_def refuseUnscopedAgentCredential_def
        sample_subject_def IsAgent_def ActorKindAgent_def)
  have v: "ValidFieldKey ''body''" by (simp add: ValidFieldKey_def ascii_letter_def ident_char_def byte_in_def)
  have f: "FieldByKey (cp_Fields (card_component ''title'')) ''title'' = Some (string_field ''title'' True)"
    "FieldByKey (cp_Fields (card_component ''title'')) ''body'' = None"
    by (simp_all add: card_component_def FieldByKey_def string_field_simps)
  show ?thesis by (simp add: RenameComponentField_def trim_body a v Let_def as_go_def card_loaded f card_repo)
qed


end
