(* ===== verification/Schema_Plan.thy ===== *)
theory Schema_Plan
  imports Schema_Histories
begin

text \<open>
  Planning and applying an artifact (\<open>service/artifact_apply.go\<close>): the comparison with the live
  schema, each step resolved against the stored entries by the counts of the verb that will run
  it, and the execution of the steps through those verbs in one transaction.  A failed verb
  leaves no store behind, which is the rollback.
\<close>

section \<open>The verbs of content types as a caller runs them\<close>

text \<open>
  \<open>Schema_Verbs\<close> takes the outcomes of the authorizer as arguments; here they are asked for, in
  the order the calls ask.  The quota the calls resolve is an argument.
\<close>

definition CreateContentType_as ::
    "env \<Rightarrow> quota \<Rightarrow> allow \<Rightarrow> subject option \<Rightarrow> create_type_input \<Rightarrow> store \<Rightarrow> go_error + store" where
  "CreateContentType_as E q allow ctx i st =
     and_then (authorize allow ctx ''content:create'' ''collection'' []) (\<lambda>_. as_go (CreateContentType E q i st))"

definition AddField_as ::
    "env \<Rightarrow> quota \<Rightarrow> allow \<Rightarrow> subject option \<Rightarrow> string \<Rightarrow> field_input \<Rightarrow> store \<Rightarrow> go_error + store" where
  "AddField_as E q allow ctx n i st =
     and_then (authorize allow ctx ''content:schema:amend'' n n) (\<lambda>_. as_go (AddField E q n i st))"

definition UpdateContentType_as ::
    "allow \<Rightarrow> subject option \<Rightarrow> string \<Rightarrow> update_type_input \<Rightarrow> store \<Rightarrow> go_error + store" where
  "UpdateContentType_as allow ctx n i st =
     and_then (authorize allow ctx ''content:schema:amend'' n n) (\<lambda>sub.
     and_then (if touchesPermissions i then authorize allow ctx ''content:schema:write'' n n else Inr sub) (\<lambda>_.
     as_go (UpdateContentType True True n i st)))"

definition UpdateField_as ::
    "env \<Rightarrow> allow \<Rightarrow> subject option \<Rightarrow> string \<Rightarrow> string \<Rightarrow> update_field_input \<Rightarrow> store \<Rightarrow> go_error + store" where
  "UpdateField_as E allow ctx n key i st =
     and_then (authorize allow ctx ''content:schema:amend'' n n) (\<lambda>sub.
     and_then (refuse_if (map_option AppError (refuseImmutableFieldProps key i))) (\<lambda>_.
     and_then (if uf_ReadRoles i \<noteq> None \<or> uf_WriteRoles i \<noteq> None
               then authorize allow ctx ''content:schema:write'' n n else Inr sub) (\<lambda>_.
     as_go (UpdateField E True True n key i st))))"

definition DeleteField_as ::
    "allow \<Rightarrow> subject option \<Rightarrow> string \<Rightarrow> string \<Rightarrow> bool \<Rightarrow> store \<Rightarrow> go_error + store" where
  "DeleteField_as allow ctx n key force st =
     and_then (authorize allow ctx ''content:schema:write'' n n) (\<lambda>_. as_go (DeleteField True n key force st))"

definition DeleteContentType_as :: "allow \<Rightarrow> subject option \<Rightarrow> string \<Rightarrow> store \<Rightarrow> go_error + store" where
  "DeleteContentType_as allow ctx n st =
     and_then (authorize allow ctx ''content:schema:write'' n n) (\<lambda>_. as_go (DeleteContentType True n st))"

section \<open>Plans\<close>

record plan_step =
  ps_Change :: change
  ps_Blocked :: bool
  ps_Entries :: nat
  ps_Skipped :: bool

record plan_result =
  pl_Steps :: "plan_step list"
  pl_Applicable :: nat
  pl_Refused :: nat
  pl_Blocked :: nat
  pl_AppliedSteps :: "nat list"

definition canApply :: "plan_result \<Rightarrow> bool" where
  "canApply p \<longleftrightarrow> pl_Refused p = 0 \<and> pl_Blocked p = 0"

definition visibleToAgent :: "subject \<Rightarrow> type_row list \<Rightarrow> type_row list" where
  "visibleToAgent sub rows =
     (if \<not> IsAgent sub then rows else filter (\<lambda>r. AllowsContentType sub (ct_Name (row_Type r))) rows)"

definition componentsReferencedBy :: "subject \<Rightarrow> type_row list \<Rightarrow> component list \<Rightarrow> component list" where
  "componentsReferencedBy sub rows comps =
     (if \<not> IsAgent sub then comps
      else let used = concat (map (\<lambda>r. map (\<lambda>f. f_ComponentName (attrs f))
                        (filter (\<lambda>f. Type f = FieldTypeComponent) (ct_Fields (row_Type r)))) rows) in
           filter (\<lambda>c. cp_Name c \<in> set used) comps)"

definition isDestructive :: "change_op \<Rightarrow> bool" where
  "isDestructive op \<longleftrightarrow> op \<in> {OpDeleteField, OpDeleteType, OpDeleteComponentField, OpDeleteComponent}"

definition allowedFor :: "change \<Rightarrow> field \<Rightarrow> string list" where
  "allowedFor c f = filter (\<lambda>v. v \<notin> set (ch_RemovedValues c)) (EnumValues f)"

definition fieldOf :: "artifact_field list \<Rightarrow> string \<Rightarrow> artifact_field option" where
  "fieldOf fs key = find (\<lambda>f. f_Key f = key) fs"

text \<open>The count that decides a guarded step on a type: zero when the type does not exist yet.\<close>

definition blockingCount :: "env \<Rightarrow> store \<Rightarrow> type_row option \<Rightarrow> change \<Rightarrow> nat" where
  "blockingCount E st ct c =
     (case ct of None \<Rightarrow> 0
      | Some r \<Rightarrow>
        (let es = row_Entries r; fs = ct_Fields (row_Type r); code = ch_Code c in
         if code = ''CONTENT_FIELD_REQUIRED_BACKFILL'' then CountEntriesMissingField es (ch_Field c)
         else if code = ''CONTENT_ENUM_VALUE_IN_USE'' then
           (case FieldByKey fs (ch_Field c) of None \<Rightarrow> 0
            | Some f \<Rightarrow> CountEntriesWithValuesOutside E es f (allowedFor c f))
         else if code = ''CONTENT_FIELD_UNIQUE_DUPLICATES'' then
           (case FieldByKey fs (ch_Field c) of None \<Rightarrow> 0 | Some f \<Rightarrow> length (ListDuplicateFieldValues es f))
         else if code = ''CONTENT_FIELD_CONSTRAINT_BACKFILL'' then
           (case (FieldByKey fs (ch_Field c), ch_Constraints c) of
              (Some f, Some k) \<Rightarrow> countConstraintViolations E es (with_attrs (\<lambda>a. a\<lparr>f_Constraints := k\<rparr>) f)
            | _ \<Rightarrow> 0)
         else if code = ''CONTENT_FIELD_HAS_DATA'' then CountEntriesWithField es (ch_Field c)
         else if code = ''CONTENT_ZONE_COMPONENT_IN_USE'' then
           sum_list (map (CountEntriesWithZoneComponent es (ch_Field c)) (ch_RemovedComponents c))
         else if code = ''CONTENT_ENTRY_AUTHOR_MISSING'' then CountEntriesWithoutAuthor es
         else if code = ''CONTENT_TYPE_HAS_ENTRIES|CONTENT_TYPE_REFERENCED'' then
           (if 0 < CountEntriesForType es then CountEntriesForType es
            else length (ListRelationReferrers st (ct_Name (row_Type r))))
         else 0))"

definition artifactKeepsReference :: "artifact \<Rightarrow> component_ref \<Rightarrow> string \<Rightarrow> bool" where
  "artifactKeepsReference art ref name =
     (case find (\<lambda>t. at_Name t = cr_TypeName ref) (Types art) of
        None \<Rightarrow> False
      | Some t \<Rightarrow>
          (case fieldOf (at_Fields t) (cr_FieldKey ref) of
             None \<Rightarrow> False
           | Some f \<Rightarrow> \<not> cr_Zone ref \<or> name \<in> set (f_ZoneComponents f)))"

definition componentBlockingCount ::
    "env \<Rightarrow> store \<Rightarrow> subject \<Rightarrow> component option \<Rightarrow> change \<Rightarrow> artifact \<Rightarrow> nat" where
  "componentBlockingCount E st sub comp' c art =
     (case comp' of None \<Rightarrow> 0
      | Some k \<Rightarrow>
        (let refs = (let all = ListComponentReferrers st (cp_Name k) in
                     if IsAgent sub then filter (\<lambda>ref. AllowsContentType sub (cr_TypeName ref)) all else all);
             code = ch_Code c in
         if code = ''CONTENT_FIELD_REQUIRED_BACKFILL'' then countComponentEntries st (cp_Name k) refs (itemLacks (ch_Field c))
         else if code = ''CONTENT_ENUM_VALUE_IN_USE'' then
           (case FieldByKey (cp_Fields k) (ch_Field c) of None \<Rightarrow> 0
            | Some f \<Rightarrow> countComponentEntries st (cp_Name k) refs
                          (itemFails E (with_attrs (\<lambda>a. a\<lparr>f_EnumValues := allowedFor c f\<rparr>) f)))
         else if code = ''CONTENT_FIELD_CONSTRAINT_BACKFILL'' then
           (case (FieldByKey (cp_Fields k) (ch_Field c), ch_Constraints c) of
              (Some f, Some con) \<Rightarrow> countComponentEntries st (cp_Name k) refs
                          (itemFails E (with_attrs (\<lambda>a. a\<lparr>f_Constraints := con\<rparr>) f))
            | _ \<Rightarrow> 0)
         else if code = ''CONTENT_FIELD_HAS_DATA'' then
           sum_list (map (\<lambda>ref. CountEntriesWithComponentSubKey st ref (cp_Name k) (ch_Field c)) refs)
         else if code = ''CONTENT_COMPONENT_IN_USE'' then
           length (filter (\<lambda>ref. artifactKeepsReference art ref (cp_Name k)) refs)
         else 0))"

text \<open>What becomes of one change; the counters of the plan are read off the steps.\<close>

definition guard_count :: "env \<Rightarrow> store \<Rightarrow> subject \<Rightarrow> type_row list \<Rightarrow> component list \<Rightarrow> artifact \<Rightarrow> change \<Rightarrow> nat" where
  "guard_count E st sub rows comps art c =
     (if ch_Component c \<noteq> [] then componentBlockingCount E st sub (index_by cp_Name comps (ch_Component c)) c art
      else blockingCount E st (index_by (\<lambda>r. ct_Name (row_Type r)) rows (ch_Type c)) c)"

definition plan_one ::
    "env \<Rightarrow> store \<Rightarrow> subject \<Rightarrow> type_row list \<Rightarrow> component list \<Rightarrow> artifact \<Rightarrow> bool \<Rightarrow> change \<Rightarrow> plan_step" where
  "plan_one E st sub rows comps art prune c =
     (let step = \<lparr>ps_Change = c, ps_Blocked = False, ps_Entries = 0, ps_Skipped = False\<rparr> in
      if ch_Grade c = Refused then step
      else if isDestructive (ch_Op c) \<and> \<not> prune then step\<lparr>ps_Skipped := True\<rparr>
      else if ch_Grade c = Guarded then
        (let n = guard_count E st sub rows comps art c in
         if 0 < n then step\<lparr>ps_Blocked := True, ps_Entries := n\<rparr> else step)
      else step)"

definition applicable_step :: "plan_step \<Rightarrow> bool" where
  "applicable_step s \<longleftrightarrow> ch_Grade (ps_Change s) \<noteq> Refused \<and> \<not> ps_Skipped s \<and> \<not> ps_Blocked s"

definition plan_of :: "plan_step list \<Rightarrow> plan_result" where
  "plan_of steps =
     \<lparr>pl_Steps = steps, pl_Applicable = length (filter applicable_step steps),
      pl_Refused = length (filter (\<lambda>s. ch_Grade (ps_Change s) = Refused) steps),
      pl_Blocked = length (filter ps_Blocked steps), pl_AppliedSteps = []\<rparr>"

definition planScoped :: "env \<Rightarrow> subject \<Rightarrow> artifact \<Rightarrow> bool \<Rightarrow> bool \<Rightarrow> store \<Rightarrow> plan_result" where
  "planScoped E sub art prune narrow st =
     (let rows = (if narrow then visibleToAgent sub (st_Rows st) else st_Rows st);
          comps = (if narrow then componentsReferencedBy sub rows (st_Components st) else st_Components st);
          live = NewSchemaArtifact (map row_Type rows) comps in
      plan_of (map (plan_one E st sub rows comps art prune) (DiffSchemas E live art)))"

definition PlanSchema ::
    "env \<Rightarrow> allow \<Rightarrow> subject option \<Rightarrow> artifact \<Rightarrow> bool \<Rightarrow> store \<Rightarrow> go_error + plan_result" where
  "PlanSchema E allow ctx art prune st =
     and_then (authorizeArtifact allow ctx ''content:schema:plan'' ''collection'' (map at_Name (Types art))) (\<lambda>sub.
     Inr (planScoped E sub art prune True st))"

section \<open>Executing a plan\<close>

definition fieldInput :: "artifact_field \<Rightarrow> field_input" where
  "fieldInput f = \<lparr>in_Key = f_Key f, in_Type = f_Type f, in_Label = f_Label f, in_Required = f_Required f,
     in_Multiple = f_Multiple f, in_EnumValues = f_EnumValues f, in_ReadRoles = f_ReadRoles f,
     in_WriteRoles = f_WriteRoles f, in_RelationEntity = f_RelationEntity f, in_Component = f_ComponentName f,
     in_Components = f_ZoneComponents f, in_Description = f_Description f, in_Constraints = f_Constraints f\<rparr>"

definition createFromArtifact ::
    "env \<Rightarrow> quota \<Rightarrow> allow \<Rightarrow> subject option \<Rightarrow> artifact_type \<Rightarrow> store \<Rightarrow> go_error + store" where
  "createFromArtifact E q allow ctx t =
     CreateContentType_as E q allow ctx
       \<lparr>cti_Name = at_Name t, cti_Label = at_Label t, cti_Fields = map fieldInput (at_Fields t),
        cti_ReadRoles = at_ReadRoles t, cti_WriteRoles = at_WriteRoles t, cti_OwnOnlyRoles = at_OwnOnlyRoles t\<rparr>"

text \<open>Every attribute that can change is sent, as the artifact states it.\<close>

definition field_update :: "artifact_field \<Rightarrow> update_field_input" where
  "field_update f =
     \<lparr>uf_Label = Some (f_Label f), uf_Required = Some (f_Required f),
      uf_EnumValues = (if f_Type f = FieldTypeEnum then Some (f_EnumValues f) else None),
      uf_ReadRoles = Some (f_ReadRoles f), uf_WriteRoles = Some (f_WriteRoles f),
      uf_Type = None, uf_Multiple = None, uf_RelationEntity = None, uf_Component = None,
      uf_Components = (if f_Type f = FieldTypeDynamicZone then Some (f_ZoneComponents f) else None),
      uf_Description = Some (f_Description f), uf_Unique = Some (c_Unique (f_Constraints f)),
      uf_Format = Some (c_Format (f_Constraints f)), uf_Pattern = Some (c_Pattern (f_Constraints f)),
      uf_Min = Some (c_Min (f_Constraints f)), uf_Max = Some (c_Max (f_Constraints f))\<rparr>"

definition subfield_update :: "artifact_field \<Rightarrow> update_field_input" where
  "subfield_update f = (field_update f)\<lparr>uf_ReadRoles := None, uf_WriteRoles := None, uf_Unique := None, uf_Components := None\<rparr>"

definition type_update :: "artifact_type \<Rightarrow> update_type_input" where
  "type_update t = \<lparr>ut_Label = at_Label t, ut_ReadRoles = Some (at_ReadRoles t),
     ut_WriteRoles = Some (at_WriteRoles t), ut_OwnOnlyRoles = Some (at_OwnOnlyRoles t)\<rparr>"

text \<open>A name the artifact does not declare reads as the zero value of the map.\<close>

definition no_type :: artifact_type where
  "no_type = \<lparr>at_Name = [], at_Label = [], at_ReadRoles = [], at_WriteRoles = [], at_OwnOnlyRoles = [], at_Fields = []\<rparr>"

definition no_component :: artifact_component where
  "no_component = \<lparr>ac_Name = [], ac_Label = [], ac_Fields = []\<rparr>"

definition declared_type :: "artifact \<Rightarrow> string \<Rightarrow> artifact_type" where
  "declared_type art n = (case indexTypes art n of None \<Rightarrow> no_type | Some t \<Rightarrow> t)"

definition declared_component :: "artifact \<Rightarrow> string \<Rightarrow> artifact_component" where
  "declared_component art n = (case indexComponents art n of None \<Rightarrow> no_component | Some c \<Rightarrow> c)"

definition executeComponentStep ::
    "env \<Rightarrow> allow \<Rightarrow> subject option \<Rightarrow> artifact_component \<Rightarrow> change \<Rightarrow> store \<Rightarrow> go_error + store" where
  "executeComponentStep E allow ctx c ch st =
     (let written = map_sum (\<lambda>e. e) snd in
      case ch_Op ch of
        OpCreateComponent \<Rightarrow> written (CreateComponent E allow ctx
          \<lparr>ci_Name = ac_Name c, ci_Label = ac_Label c, ci_Fields = map fieldInput (ac_Fields c)\<rparr> st)
      | OpUpdateComponent \<Rightarrow> written (UpdateComponent allow ctx (ac_Name c) (Some (ac_Label c)) st)
      | OpAddComponentField \<Rightarrow>
          (case fieldOf (ac_Fields c) (ch_Field ch) of None \<Rightarrow> Inr st
           | Some f \<Rightarrow> written (AddComponentField E allow ctx (ac_Name c) (fieldInput f) st))
      | OpUpdateComponentField \<Rightarrow>
          (case fieldOf (ac_Fields c) (ch_Field ch) of None \<Rightarrow> Inr st
           | Some f \<Rightarrow> written (UpdateComponentField E allow ctx (ac_Name c) (f_Key f) (subfield_update f) st))
      | OpDeleteComponentField \<Rightarrow> written (DeleteComponentField allow ctx (ch_Component ch) (ch_Field ch) True st)
      | OpDeleteComponent \<Rightarrow> DeleteComponent allow ctx (ch_Component ch) st
      | _ \<Rightarrow> Inr st)"

definition executeTypeStep ::
    "env \<Rightarrow> quota \<Rightarrow> allow \<Rightarrow> subject option \<Rightarrow> artifact_type \<Rightarrow> change \<Rightarrow> store \<Rightarrow> go_error + store" where
  "executeTypeStep E q allow ctx t ch st =
     (case ch_Op ch of
        OpCreateType \<Rightarrow> createFromArtifact E q allow ctx t st
      | OpUpdateType \<Rightarrow> UpdateContentType_as allow ctx (at_Name t) (type_update t) st
      | OpAddField \<Rightarrow>
          (case fieldOf (at_Fields t) (ch_Field ch) of None \<Rightarrow> Inr st
           | Some f \<Rightarrow> AddField_as E q allow ctx (at_Name t) (fieldInput f) st)
      | OpUpdateField \<Rightarrow>
          (case fieldOf (at_Fields t) (ch_Field ch) of None \<Rightarrow> Inr st
           | Some f \<Rightarrow> UpdateField_as E allow ctx (at_Name t) (f_Key f) (field_update f) st)
      | OpDeleteField \<Rightarrow> DeleteField_as allow ctx (ch_Type ch) (ch_Field ch) True st
      | OpDeleteType \<Rightarrow> DeleteContentType_as allow ctx (ch_Type ch) st
      | _ \<Rightarrow> Inr st)"

fun execute ::
    "env \<Rightarrow> quota \<Rightarrow> allow \<Rightarrow> subject option \<Rightarrow> artifact \<Rightarrow> plan_step list \<Rightarrow> store \<Rightarrow> go_error + store" where
  "execute E q allow ctx art [] st = Inr st"
| "execute E q allow ctx art (s # rest) st =
     (let c = ps_Change s in
      if ps_Skipped s then execute E q allow ctx art rest st
      else and_then (if ch_Component c \<noteq> [] then executeComponentStep E allow ctx (declared_component art (ch_Component c)) c st
                     else executeTypeStep E q allow ctx (declared_type art (ch_Type c)) c st) (\<lambda>st'.
        execute E q allow ctx art rest st'))"

text \<open>The steps the refusal carries besides its counts are left out of its details.\<close>

definition errNotApplicable :: "plan_result \<Rightarrow> app_error" where
  "errNotApplicable plan = err409 ''CONTENT_SCHEMA_NOT_APPLICABLE''
     [(''refused'', DNat (pl_Refused plan)), (''blocked'', DNat (pl_Blocked plan))]"

definition ApplySchema ::
    "env \<Rightarrow> quota \<Rightarrow> allow \<Rightarrow> subject option \<Rightarrow> artifact \<Rightarrow> bool \<Rightarrow> store \<Rightarrow> go_error + plan_result \<times> store" where
  "ApplySchema E q allow ctx art prune st =
     and_then (authorize allow ctx ''content:schema:write'' ''collection'' []) (\<lambda>sub.
     let plan = planScoped E sub art prune True st in
     and_then (require_go (canApply plan) (errNotApplicable plan)) (\<lambda>_.
     and_then (execute E q allow ctx art (pl_Steps plan) st) (\<lambda>st'. Inr (plan, st'))))"

end
