(* ===== verification/Schema_Proposals.thy ===== *)
theory Schema_Proposals
  imports Schema_Plan "HOL-Library.Product_Lexorder"
begin

text \<open>
  Schema proposals (\<open>service/schema_proposal.go\<close>, \<open>repository/schema_proposal.go\<close>): an agent or an
  editor files an artifact, a person approves it in whole or by step, and the approval is what
  applies it.  The table stores the two documents as JSON and reads them back; what is stored
  here is the value, which the encoding and decoding of \<open>encoding/json\<close> returns.  Times are
  seconds; the identifier and the creation time the database chooses are arguments.
\<close>

section \<open>The table\<close>

definition ProposalPending :: string where "ProposalPending = ''pending''"
definition ProposalApproved :: string where "ProposalApproved = ''approved''"
definition ProposalRejected :: string where "ProposalRejected = ''rejected''"

record proposal =
  pr_ID :: uuid
  pr_TenantID :: string
  pr_Artifact :: artifact
  pr_Prune :: bool
  pr_Plan :: plan_result
  pr_PlanProposer :: "plan_result option"
  pr_Status :: string
  pr_ProposedBy :: uuid
  pr_ProposedByKind :: string
  pr_ProposedByAgent :: "string option"
  pr_CreatedAt :: nat
  pr_ExpiresAt :: nat
  pr_DecidedAt :: "nat option"
  pr_DecidedBy :: "uuid option"
  pr_AppliedSteps :: "nat list option"

record schema_db =
  sd_Stores :: "string \<Rightarrow> store"
  sd_Proposals :: "proposal list"

definition Expired :: "proposal \<Rightarrow> nat \<Rightarrow> bool" where
  "Expired p now \<longleftrightarrow> pr_Status p = ProposalPending \<and> \<not> now < pr_ExpiresAt p"

definition is_proposal :: "string \<Rightarrow> uuid \<Rightarrow> proposal \<Rightarrow> bool" where
  "is_proposal tenant i p \<longleftrightarrow> pr_TenantID p = tenant \<and> pr_ID p = i"

text \<open>The primary key and the constraint that ties the agent's name to the kind.\<close>

definition CreateSchemaProposal :: "proposal \<Rightarrow> proposal list \<Rightarrow> go_error + proposal \<times> proposal list" where
  "CreateSchemaProposal p ps =
     and_then (require (pr_ID p \<notin> pr_ID ` set ps \<and>
         ((pr_ProposedByKind p = ActorKindAgent) = (pr_ProposedByAgent p \<noteq> None)))
       (PlainError ''create schema proposal'')) (\<lambda>_.
     let row = p\<lparr>pr_Status := ProposalPending, pr_DecidedAt := None, pr_DecidedBy := None, pr_AppliedSteps := None\<rparr> in
     Inr (row, ps @ [row]))"

definition GetSchemaProposal :: "string \<Rightarrow> uuid \<Rightarrow> proposal list \<Rightarrow> go_error + proposal" where
  "GetSchemaProposal tenant i ps =
     (case find (is_proposal tenant i) ps of None \<Rightarrow> Inl (AppError ErrNotFound) | Some p \<Rightarrow> Inr p)"

definition filed_by :: "uuid \<Rightarrow> string \<Rightarrow> string option \<Rightarrow> proposal \<Rightarrow> bool" where
  "filed_by who kind agent p \<longleftrightarrow> pr_ProposedBy p = who \<and> pr_ProposedByKind p = kind \<and> pr_ProposedByAgent p = agent"

definition GetOwnSchemaProposal_repo ::
    "string \<Rightarrow> uuid \<Rightarrow> uuid \<Rightarrow> string \<Rightarrow> string option \<Rightarrow> proposal list \<Rightarrow> go_error + proposal" where
  "GetOwnSchemaProposal_repo tenant i who kind agent ps =
     (case find (\<lambda>p. is_proposal tenant i p \<and> filed_by who kind agent p) ps of
        None \<Rightarrow> Inl (AppError ErrNotFound) | Some p \<Rightarrow> Inr p)"

definition newest_first :: "proposal list \<Rightarrow> proposal list" where
  "newest_first ps = rev (sort_key (\<lambda>p. (pr_CreatedAt p, pr_ID p)) ps)"

definition ListOwnSchemaProposals_repo ::
    "string \<Rightarrow> uuid \<Rightarrow> string \<Rightarrow> string option \<Rightarrow> nat \<Rightarrow> proposal list \<Rightarrow> proposal list" where
  "ListOwnSchemaProposals_repo tenant who kind agent limit ps =
     take limit (newest_first (filter (\<lambda>p. pr_TenantID p = tenant \<and> filed_by who kind agent p) ps))"

definition ListSchemaProposals_repo :: "string \<Rightarrow> nat \<Rightarrow> proposal list \<Rightarrow> proposal list" where
  "ListSchemaProposals_repo tenant limit ps = take limit (newest_first (filter (\<lambda>p. pr_TenantID p = tenant) ps))"

text \<open>The conditional update; \<open>None\<close> is \<open>ErrProposalNotPending\<close>.\<close>

definition decidable :: "string \<Rightarrow> uuid \<Rightarrow> nat \<Rightarrow> proposal \<Rightarrow> bool" where
  "decidable tenant i now p \<longleftrightarrow> is_proposal tenant i p \<and> pr_Status p = ProposalPending \<and> now < pr_ExpiresAt p"

definition decided :: "string \<Rightarrow> uuid \<Rightarrow> nat \<Rightarrow> nat list option \<Rightarrow> proposal \<Rightarrow> proposal" where
  "decided status by now applied p = p\<lparr>pr_Status := status, pr_DecidedAt := Some now, pr_DecidedBy := Some by,
     pr_AppliedSteps := applied\<rparr>"

definition DecideSchemaProposal ::
    "string \<Rightarrow> uuid \<Rightarrow> string \<Rightarrow> uuid \<Rightarrow> nat \<Rightarrow> nat list option \<Rightarrow> proposal list \<Rightarrow> proposal list option" where
  "DecideSchemaProposal tenant i status by now applied ps =
     (if filter (decidable tenant i now) ps = [] then None
      else Some (map (\<lambda>p. if decidable tenant i now p then decided status by now applied p else p) ps))"

section \<open>Refusals and rendering\<close>

definition proposalTTL :: nat where "proposalTTL = 7 * 24 * 3600"
definition proposalListLimit :: nat where "proposalListLimit = 50"
definition ErrProposalStale :: app_error where "ErrProposalStale = New ''CONTENT_SCHEMA_PROPOSAL_STALE'' 409"
definition ErrProposalExpired :: app_error where "ErrProposalExpired = New ''CONTENT_SCHEMA_PROPOSAL_EXPIRED'' 409"
definition ErrProposalDecided :: app_error where "ErrProposalDecided = New ''CONTENT_SCHEMA_PROPOSAL_DECIDED'' 409"
definition ErrProposalStepsEmpty :: app_error where "ErrProposalStepsEmpty = New ''CONTENT_PROPOSAL_STEPS_EMPTY'' 422"
definition ProposalStatusExpired :: string where "ProposalStatusExpired = ''expired''"

definition shown_status :: "proposal \<Rightarrow> nat \<Rightarrow> string" where
  "shown_status p now = (if Expired p now then ProposalStatusExpired else pr_Status p)"

definition applied_partially :: "proposal \<Rightarrow> bool" where
  "applied_partially p \<longleftrightarrow> (case pr_AppliedSteps p of None \<Rightarrow> False
     | Some xs \<Rightarrow> pr_Status p = ProposalApproved \<and> length xs < pl_Applicable (pr_Plan p))"

record proposal_dto =
  pd_ID :: uuid
  pd_Status :: string
  pd_Artifact :: artifact
  pd_Prune :: bool
  pd_Plan :: plan_result
  pd_ProposedBy :: uuid
  pd_ProposedByKind :: string
  pd_ProposedByAgent :: "string option"
  pd_CreatedAt :: nat
  pd_ExpiresAt :: nat
  pd_DecidedAt :: "nat option"
  pd_DecidedBy :: "uuid option"
  pd_AppliedSteps :: "nat list option"
  pd_Partial :: bool

definition proposalDTO :: "proposal \<Rightarrow> nat \<Rightarrow> proposal_dto" where
  "proposalDTO p now =
     \<lparr>pd_ID = pr_ID p, pd_Status = shown_status p now, pd_Artifact = pr_Artifact p, pd_Prune = pr_Prune p,
      pd_Plan = pr_Plan p, pd_ProposedBy = pr_ProposedBy p, pd_ProposedByKind = pr_ProposedByKind p,
      pd_ProposedByAgent = pr_ProposedByAgent p, pd_CreatedAt = pr_CreatedAt p, pd_ExpiresAt = pr_ExpiresAt p,
      pd_DecidedAt = pr_DecidedAt p, pd_DecidedBy = pr_DecidedBy p, pd_AppliedSteps = pr_AppliedSteps p,
      pd_Partial = applied_partially p\<rparr>"

record own_proposal_dto =
  od_ID :: uuid
  od_Status :: string
  od_Artifact :: artifact
  od_Prune :: bool
  od_Plan :: "plan_result option"
  od_PlanRecorded :: bool
  od_CreatedAt :: nat
  od_ExpiresAt :: nat
  od_DecidedAt :: "nat option"
  od_AppliedSteps :: "nat list option"
  od_Partial :: bool

definition ownProposalDTO :: "proposal \<Rightarrow> nat \<Rightarrow> own_proposal_dto" where
  "ownProposalDTO p now =
     \<lparr>od_ID = pr_ID p, od_Status = shown_status p now, od_Artifact = pr_Artifact p, od_Prune = pr_Prune p,
      od_Plan = pr_PlanProposer p, od_PlanRecorded = (pr_PlanProposer p \<noteq> None),
      od_CreatedAt = pr_CreatedAt p, od_ExpiresAt = pr_ExpiresAt p, od_DecidedAt = pr_DecidedAt p,
      od_AppliedSteps = pr_AppliedSteps p, od_Partial = applied_partially p\<rparr>"

section \<open>Filing and reading\<close>

text \<open>What is sent to the approvers once the row is committed.\<close>

record proposal_notice =
  pn_Proposal :: uuid
  pn_Changes :: nat
  pn_Deadline :: nat
  pn_Except :: uuid

definition notifyProposalFiled :: "proposal \<Rightarrow> plan_result \<Rightarrow> proposal_notice" where
  "notifyProposalFiled p plan =
     \<lparr>pn_Proposal = pr_ID p, pn_Changes = pl_Applicable plan + pl_Refused plan + pl_Blocked plan,
      pn_Deadline = pr_ExpiresAt p, pn_Except = pr_ProposedBy p\<rparr>"

definition ProposeSchema ::
    "env \<Rightarrow> allow \<Rightarrow> subject option \<Rightarrow> artifact \<Rightarrow> bool \<Rightarrow> nat \<Rightarrow> nat \<Rightarrow> uuid \<Rightarrow> schema_db \<Rightarrow>
     go_error + proposal_dto \<times> schema_db \<times> proposal_notice" where
  "ProposeSchema E allow ctx art prune now created newID db =
     and_then (authorizeArtifact allow ctx ''content:schema:propose'' ''collection'' (map at_Name (Types art))) (\<lambda>sub.
     let st = sd_Stores db (TenantID sub);
         approverView = planScoped E sub art prune False st;
         proposerView = planScoped E sub art prune True st in
     case provenanceOf sub of (by, kind, agent) \<Rightarrow>
       (case by of
          None \<Rightarrow> Inl forbidden
        | Some who \<Rightarrow>
            and_then (CreateSchemaProposal
              \<lparr>pr_ID = newID, pr_TenantID = TenantID sub, pr_Artifact = art, pr_Prune = prune, pr_Plan = approverView,
               pr_PlanProposer = Some proposerView, pr_Status = ProposalPending, pr_ProposedBy = who,
               pr_ProposedByKind = kind, pr_ProposedByAgent = agent, pr_CreatedAt = created,
               pr_ExpiresAt = now + proposalTTL, pr_DecidedAt = None, pr_DecidedBy = None, pr_AppliedSteps = None\<rparr>
              (sd_Proposals db)) (\<lambda>(rec, ps).
            Inr ((proposalDTO rec now)\<lparr>pd_Plan := proposerView\<rparr>, db\<lparr>sd_Proposals := ps\<rparr>,
                 notifyProposalFiled rec approverView))))"

definition ListSchemaProposals :: "allow \<Rightarrow> subject option \<Rightarrow> nat \<Rightarrow> schema_db \<Rightarrow> go_error + proposal_dto list" where
  "ListSchemaProposals allow ctx now db =
     and_then (authorize allow ctx ''content:schema:write'' ''collection'' []) (\<lambda>sub.
     Inr (map (\<lambda>p. proposalDTO p now) (ListSchemaProposals_repo (TenantID sub) proposalListLimit (sd_Proposals db))))"

definition GetSchemaProposal_service :: "allow \<Rightarrow> subject option \<Rightarrow> uuid \<Rightarrow> nat \<Rightarrow> schema_db \<Rightarrow> go_error + proposal_dto" where
  "GetSchemaProposal_service allow ctx i now db =
     and_then (authorize allow ctx ''content:schema:write'' ''collection'' []) (\<lambda>sub.
     and_then (GetSchemaProposal (TenantID sub) i (sd_Proposals db)) (\<lambda>p. Inr (proposalDTO p now)))"

definition own_filer :: "allow \<Rightarrow> subject option \<Rightarrow> go_error + subject \<times> uuid \<times> string \<times> string option" where
  "own_filer allow ctx =
     and_then (authorizeAgentScope allow (\<lambda>_. None) ctx ''content:schema:propose'' ''collection'') (\<lambda>sub.
     case provenanceOf sub of (by, kind, agent) \<Rightarrow>
       (case by of None \<Rightarrow> Inl forbidden | Some who \<Rightarrow> Inr (sub, who, kind, agent)))"

definition GetOwnSchemaProposal :: "allow \<Rightarrow> subject option \<Rightarrow> uuid \<Rightarrow> nat \<Rightarrow> schema_db \<Rightarrow> go_error + own_proposal_dto" where
  "GetOwnSchemaProposal allow ctx i now db =
     and_then (own_filer allow ctx) (\<lambda>(sub, who, kind, agent).
     and_then (GetOwnSchemaProposal_repo (TenantID sub) i who kind agent (sd_Proposals db)) (\<lambda>p.
     and_then (refuse_if (map_option AppError (refuseArtifactOutsideAgentScope sub (map at_Name (Types (pr_Artifact p)))))) (\<lambda>_.
     Inr (ownProposalDTO p now))))"

definition ListOwnSchemaProposals :: "allow \<Rightarrow> subject option \<Rightarrow> nat \<Rightarrow> schema_db \<Rightarrow> go_error + own_proposal_dto list" where
  "ListOwnSchemaProposals allow ctx now db =
     and_then (authorizeAgentScope allow (\<lambda>_. None) ctx ''content:schema:propose'' ''collection'') (\<lambda>sub.
     and_then (refuse_if (map_option AppError (refuseUnscopedAgentCredential sub))) (\<lambda>_.
     case provenanceOf sub of (by, kind, agent) \<Rightarrow>
       (case by of
          None \<Rightarrow> Inl forbidden
        | Some who \<Rightarrow> Inr (List.map_filter (\<lambda>p.
            if refuseArtifactOutsideAgentScope sub (map at_Name (Types (pr_Artifact p))) \<noteq> None then None
            else Some (ownProposalDTO p now))
            (ListOwnSchemaProposals_repo (TenantID sub) who kind agent proposalListLimit (sd_Proposals db))))))"

section \<open>Deciding\<close>

fun select_steps :: "nat \<Rightarrow> nat list \<Rightarrow> int list \<Rightarrow> int list \<Rightarrow> nat list \<times> int list" where
  "select_steps n selected invalid [] = (selected, invalid)"
| "select_steps n selected invalid (i # rest) =
     (if i < 0 \<or> int n \<le> i \<or> nat i \<in> set selected then select_steps n selected (invalid @ [i]) rest
      else select_steps n (selected @ [nat i]) invalid rest)"

definition int_json :: "int \<Rightarrow> json" where
  "int_json i = JNum (Fin (of_int i))"

definition resolveStepSelection :: "plan_result \<Rightarrow> int list option \<Rightarrow> app_error + nat list option" where
  "resolveStepSelection plan steps =
     (case steps of
        None \<Rightarrow> Inr None
      | Some xs \<Rightarrow>
          if xs = [] then Inl ErrProposalStepsEmpty
          else (case select_steps (length (pl_Steps plan)) [] [] xs of (selected, invalid) \<Rightarrow>
            if invalid \<noteq> []
            then Inl (err422 ''CONTENT_PROPOSAL_STEP_INVALID'' [(''invalid'', DJson (JArr (map int_json invalid)))])
            else Inr (Some selected)))"

definition indices :: "(nat \<Rightarrow> plan_step \<Rightarrow> bool) \<Rightarrow> plan_step list \<Rightarrow> nat list" where
  "indices P steps = map fst (filter (\<lambda>(i, s). P i s) (enumerate 0 steps))"

definition offending :: "plan_step \<Rightarrow> bool" where
  "offending s \<longleftrightarrow> ch_Grade (ps_Change s) = Refused \<or> ps_Blocked s \<or> ps_Skipped s"

text \<open>The plan that is executed and the indices recorded with the decision.\<close>

definition approved_plan :: "plan_result \<Rightarrow> nat list option \<Rightarrow> app_error + plan_result \<times> nat list" where
  "approved_plan plan selected =
     (case selected of
        None \<Rightarrow>
          and_then (require (canApply plan) (errNotApplicable plan)) (\<lambda>_.
          Inr (plan, indices (\<lambda>_ s. \<not> ps_Skipped s) (pl_Steps plan)))
      | Some sel \<Rightarrow>
          (let bad = indices (\<lambda>i s. i \<in> set sel \<and> offending s) (pl_Steps plan);
               applied = indices (\<lambda>i _. i \<in> set sel) (pl_Steps plan) in
           and_then (require (bad = []) (err409 ''CONTENT_SCHEMA_NOT_APPLICABLE'' [(''steps'', DNats bad)])) (\<lambda>_.
           Inr (plan\<lparr>pl_Steps := map (\<lambda>(i, s). if i \<in> set sel then s else s\<lparr>ps_Skipped := True\<rparr>) (enumerate 0 (pl_Steps plan)),
                     pl_Applicable := length applied\<rparr>, applied))))"

definition planMatches :: "plan_result \<Rightarrow> plan_result \<Rightarrow> bool" where
  "planMatches stored rerun \<longleftrightarrow> stored = rerun"

text \<open>
  The transaction up to its last statement: what it read, the schema it would leave, and what
  it will write into the row.  The last statement is the conditional update, which sees the row
  as others left it.
\<close>

record approval =
  ap_Sub :: subject
  ap_Plan :: plan_result
  ap_Applied :: "nat list"
  ap_Store :: store

definition prepare_approval ::
    "env \<Rightarrow> quota \<Rightarrow> allow \<Rightarrow> subject option \<Rightarrow> uuid \<Rightarrow> int list option \<Rightarrow> nat \<Rightarrow> schema_db \<Rightarrow> go_error + approval" where
  "prepare_approval E q allow ctx i steps now db =
     and_then (authorize allow ctx ''content:schema:write'' ''collection'' []) (\<lambda>sub.
     and_then (GetSchemaProposal (TenantID sub) i (sd_Proposals db)) (\<lambda>rec.
     and_then (require_go (pr_Status rec = ProposalPending) ErrProposalDecided) (\<lambda>_.
     and_then (require_go (\<not> Expired rec now) ErrProposalExpired) (\<lambda>_.
     let st = sd_Stores db (TenantID sub);
         plan = planScoped E sub (pr_Artifact rec) (pr_Prune rec) False st in
     and_then (require_go (planMatches (pr_Plan rec) plan) ErrProposalStale) (\<lambda>_.
     and_then (as_go (resolveStepSelection plan steps)) (\<lambda>selected.
     and_then (as_go (approved_plan plan selected)) (\<lambda>(execPlan, applied).
     and_then (execute E q allow ctx (pr_Artifact rec) (pl_Steps execPlan) st) (\<lambda>st'.
     Inr \<lparr>ap_Sub = sub, ap_Plan = execPlan\<lparr>pl_AppliedSteps := applied\<rparr>, ap_Applied = applied, ap_Store = st'\<rparr>))))))))"

text \<open>An approval that ran nothing leaves the column of applied steps NULL: a nil slice is not encoded.\<close>

definition commit_approval :: "uuid \<Rightarrow> nat \<Rightarrow> approval \<Rightarrow> schema_db \<Rightarrow> go_error + plan_result \<times> schema_db" where
  "commit_approval i now a db =
     (let tenant = TenantID (ap_Sub a) in
      case DecideSchemaProposal tenant i ProposalApproved (UserID (ap_Sub a)) now
             (if ap_Applied a = [] then None else Some (ap_Applied a)) (sd_Proposals db) of
        None \<Rightarrow> Inl (AppError ErrProposalDecided)
      | Some ps \<Rightarrow> Inr (ap_Plan a, db\<lparr>sd_Stores := (sd_Stores db)(tenant := ap_Store a), sd_Proposals := ps\<rparr>))"

definition ApproveSchemaProposal ::
    "env \<Rightarrow> quota \<Rightarrow> allow \<Rightarrow> subject option \<Rightarrow> uuid \<Rightarrow> int list option \<Rightarrow> nat \<Rightarrow> schema_db \<Rightarrow>
     go_error + plan_result \<times> schema_db" where
  "ApproveSchemaProposal E q allow ctx i steps now db =
     and_then (prepare_approval E q allow ctx i steps now db) (\<lambda>a. commit_approval i now a db)"

definition RejectSchemaProposal ::
    "allow \<Rightarrow> subject option \<Rightarrow> uuid \<Rightarrow> nat \<Rightarrow> schema_db \<Rightarrow> go_error + schema_db" where
  "RejectSchemaProposal allow ctx i now db =
     and_then (authorize allow ctx ''content:schema:write'' ''collection'' []) (\<lambda>sub.
     and_then (GetSchemaProposal (TenantID sub) i (sd_Proposals db)) (\<lambda>rec.
     and_then (require_go (pr_Status rec = ProposalPending) ErrProposalDecided) (\<lambda>_.
     and_then (require_go (\<not> Expired rec now) ErrProposalExpired) (\<lambda>_.
     case DecideSchemaProposal (TenantID sub) i ProposalRejected (UserID sub) now None (sd_Proposals db) of
       None \<Rightarrow> Inl (AppError ErrProposalDecided)
     | Some ps \<Rightarrow> Inr (db\<lparr>sd_Proposals := ps\<rparr>)))))"

end
