(* ===== verification/Schema_Applied.thy ===== *)
theory Schema_Applied
  imports Schema_Proposals
begin

text \<open>
  What applying a plan keeps: the steps are verbs, so a sound store stays sound as long as the
  inputs the verbs do not guard against cannot arise.  A required field over existing entries
  is what the plan itself blocks; a stored empty list is set aside.
\<close>

section \<open>Stored documents without empty lists\<close>

definition items_in :: "json \<Rightarrow> doc list" where
  "items_in v = (case v of JObj d \<Rightarrow> [d] | JArr xs \<Rightarrow> objects_of xs | _ \<Rightarrow> [])"

definition full_doc :: "doc \<Rightarrow> bool" where
  "full_doc d \<longleftrightarrow> (\<forall>v \<in> snd ` set d. v \<noteq> JArr [] \<and> (\<forall>i \<in> set (items_in v). JArr [] \<notin> snd ` set i))"

definition store_full :: "store \<Rightarrow> bool" where
  "store_full st \<longleftrightarrow> (\<forall>r \<in> set (st_Rows st). \<forall>e \<in> set (row_Entries r). full_doc (e_Payload e))"

lemma full_doc_value: "full_doc d \<Longrightarrow> present d k = Some v \<Longrightarrow> v \<noteq> JArr [] \<and> (\<forall>i \<in> set (items_in v). JArr [] \<notin> snd ` set i)"
proof -
  assume f: "full_doc d" and p: "present d k = Some v"
  have "(k, v) \<in> set d" using p by (auto simp: present_Some dest: map_of_SomeD)
  then have "v \<in> snd ` set d" by force
  with f show ?thesis unfolding full_doc_def by blast
qed

lemma full_no_empty: "full_doc d \<Longrightarrow> \<not> stored_empty_list k d"
  using full_doc_value [of d k "JArr []"] by (auto simp: stored_empty_list_def present_Some)

lemma full_subset: "set d' \<subseteq> set d \<Longrightarrow> full_doc d \<Longrightarrow> full_doc d'"
  unfolding full_doc_def by blast

lemma full_drop: "full_doc d \<Longrightarrow> full_doc (drop_key k d)"
  by (rule full_subset) (auto simp: drop_key_def)

lemma item_values_in: "JObj i \<in> set (item_values f v) \<Longrightarrow> i \<in> set (items_in v)"
  by (cases v) (auto simp: item_values_def items_in_def in_objects split: if_splits)

lemma full_store_items:
  assumes "store_full st" shows "no_empty_item_lists st name key i"
proof -
  have "\<not> stored_empty_list key b" if b: "own_body st name b" for b
  proof -
    obtain e :: entry and f v item where full: "full_doc (e_Payload e)" and v: "present (e_Payload e) (Key f) = Some v"
      and item: "item \<in> set (own_items name f v)" and body: "b = item_body (Type f = FieldTypeDynamicZone) item"
      using b assms unfolding own_body_def store_full_def by blast
    have "item \<in> set (items_in v)" using item by (auto simp: in_own_items intro: item_values_in)
    then have "JArr [] \<notin> snd ` set item" using full_doc_value [OF full v] by blast
    moreover have "set b \<subseteq> set item" by (auto simp: body item_body_def zoneItemBody_def)
    ultimately have "JArr [] \<notin> snd ` set b" by auto
    then show ?thesis by (auto simp: stored_empty_list_def image_iff dest!: map_of_SomeD)
  qed
  then show ?thesis by (simp add: no_empty_item_lists_def)
qed

lemma full_store_lists:
  assumes "store_full st" shows "no_empty_lists st n key i"
  using assms row_in [of st n] full_no_empty
  by (auto simp: no_empty_lists_def store_full_def split: sum.split)

section \<open>Entries only come from entries\<close>

definition derived :: "store \<Rightarrow> store \<Rightarrow> bool" where
  "derived st st' \<longleftrightarrow> (\<forall>r' \<in> set (st_Rows st'). \<forall>e' \<in> set (row_Entries r'). \<exists>r \<in> set (st_Rows st).
     ct_Name (row_Type r) = ct_Name (row_Type r') \<and>
     (\<exists>e \<in> set (row_Entries r). full_doc (e_Payload e) \<longrightarrow> full_doc (e_Payload e')))"

lemma derived_refl [simp]: "derived st st"
  unfolding derived_def by blast

lemma derived_trans: "derived a b \<Longrightarrow> derived b c \<Longrightarrow> derived a c"
  unfolding derived_def by metis

lemma derived_full: "derived st st' \<Longrightarrow> store_full st \<Longrightarrow> store_full st'"
  unfolding derived_def store_full_def by blast

lemma derived_empty:
  assumes d: "derived st st'" and s: "store_sound E st" and e: "stored_entries st n = []"
  shows "stored_entries st' n = []"
proof (rule ccontr)
  assume "stored_entries st' n \<noteq> []"
  then obtain r' e' where r': "r' \<in> set (st_Rows st')" "ct_Name (row_Type r') = n" "e' \<in> set (row_Entries r')"
    using row_in [of st' n] by (fastforce simp: stored_entries_def neq_Nil_conv split: sum.splits)
  then obtain r e where "r \<in> set (st_Rows st)" "ct_Name (row_Type r) = n" "e \<in> set (row_Entries r)"
    using d unfolding derived_def by blast
  then show False using entries_of_row [of st r] s e by (auto simp: store_sound_def)
qed

lemma derived_rows:
  assumes "st_Rows st' = map g (st_Rows st)"
    and "\<And>r. r \<in> set (st_Rows st) \<Longrightarrow> ct_Name (row_Type (g r)) = ct_Name (row_Type r) \<and>
      (\<forall>e' \<in> set (row_Entries (g r)). \<exists>e \<in> set (row_Entries r). full_doc (e_Payload e) \<longrightarrow> full_doc (e_Payload e'))"
  shows "derived st st'"
  using assms unfolding derived_def by fastforce

lemma derived_subset: "set (st_Rows st') \<subseteq> set (st_Rows st) \<Longrightarrow> derived st st'"
  unfolding derived_def by blast

lemma derived_same_rows: "st_Rows st' = st_Rows st \<Longrightarrow> derived st st'"
  by (rule derived_subset) simp

lemma derived_update_row:
  assumes "\<And>r. row_named n r \<Longrightarrow> ct_Name (row_Type (g r)) = n \<and>
      (\<forall>e' \<in> set (row_Entries (g r)). \<exists>e \<in> set (row_Entries r). full_doc (e_Payload e) \<longrightarrow> full_doc (e_Payload e'))"
  shows "derived st (update_row n g st)"
  by (rule derived_rows [of _ "\<lambda>r. if row_named n r then g r else r"])
    (use assms in \<open>auto simp: update_row_def row_named_def\<close>)

lemma AddField_derived: "AddField E q n i st = Inr st' \<Longrightarrow> derived st st'"
  by (auto simp: AddField_def row_named_def intro!: derived_update_row)

lemma UpdateField_derived: "UpdateField E a w n key i st = Inr st' \<Longrightarrow> derived st st'"
  by (auto simp: UpdateField_def row_named_def intro!: derived_update_row)

lemma UpdateContentType_derived: "UpdateContentType a w n i st = Inr st' \<Longrightarrow> derived st st'"
  using row_in [of st n]
  by (auto simp: UpdateContentType_def Let_def row_named_def intro!: derived_update_row)

lemma full_dropped: "full_doc (e_Payload e) \<Longrightarrow> full_doc (e_Payload (rewrite_entry key (drop_key key) e))"
  by (simp add: rewrite_entry_def full_drop)

lemma DeleteField_derived:
  assumes "DeleteField w n key force st = Inr st'" shows "derived st st'"
proof -
  obtain row where row: "GetContentTypeByName st n = Inr row" using assms by (auto simp: DeleteField_def)
  have st': "st' = update_row n (\<lambda>r. (set_fields (filter (\<lambda>g. Key g \<noteq> key) (ct_Fields (row_Type row))) r)
      \<lparr>row_Entries := map (rewrite_entry key (drop_key key)) (row_Entries r)\<rparr>) st"
    using assms row unfolding DeleteField_def Let_def by auto
  show ?thesis unfolding st' by (rule derived_update_row) (auto simp: row_named_def intro: full_dropped)
qed

lemma DeleteContentType_derived: "DeleteContentType w n st = Inr st' \<Longrightarrow> derived st st'"
  by (auto simp: DeleteContentType_def Let_def intro!: derived_subset)

lemma derived_new_row: "st_Rows st' = st_Rows st @ [r] \<Longrightarrow> row_Entries r = [] \<Longrightarrow> derived st st'"
  unfolding derived_def by auto

lemma CreateContentType_derived: "CreateContentType E q i st = Inr st' \<Longrightarrow> derived st st'"
  by (auto simp: CreateContentType_def Let_def intro: derived_new_row)

section \<open>The component verbs\<close>

lemma derived_reload: "derived st st1 \<Longrightarrow> derived st (reload st1)"
  by (rule derived_trans) (auto intro!: derived_rows)

lemma derived_touched: "touched_component name c' st1 = Inr st' \<Longrightarrow> derived st st1 \<Longrightarrow> derived st st'"
  by (auto simp: touched_component_def put_component_def derived_def split: option.splits intro!: derived_reload)

lemma full_on_value:
  assumes full: "full_doc d" and arr: "\<And>v. v \<noteq> JArr [] \<Longrightarrow> h v \<noteq> JArr []"
    and items: "\<And>v i. i \<in> set (items_in (h v)) \<Longrightarrow> \<exists>j \<in> set (items_in v). set i \<subseteq> set j"
  shows "full_doc (on_value key h d)"
  unfolding full_doc_def
proof
  fix w assume "w \<in> snd ` set (on_value key h d)"
  then obtain v where v: "v \<in> snd ` set d" "w = v \<or> w = h v" by (fastforce simp: on_value_def split: if_splits)
  have ok: "v \<noteq> JArr []" "\<And>j. j \<in> set (items_in v) \<Longrightarrow> JArr [] \<notin> snd ` set j"
    using full v(1) by (auto simp: full_doc_def)
  have "JArr [] \<notin> snd ` set i" if i: "i \<in> set (items_in (h v))" for i
  proof -
    obtain j where j: "j \<in> set (items_in v)" "set i \<subseteq> set j" using items [OF i] by blast
    then show ?thesis using ok(2) [OF j(1)] by (meson image_mono subsetD)
  qed
  then show "w \<noteq> JArr [] \<and> (\<forall>i \<in> set (items_in w). JArr [] \<notin> snd ` set i)"
    using v(2) ok arr [OF ok(1)] by auto
qed

lemma shrunk_objects:
  assumes "i \<in> set (objects_of (on_objects g xs))" and "\<And>j. set (g j) \<subseteq> set j"
  shows "\<exists>j \<in> set (objects_of xs). set i \<subseteq> set j"
proof -
  obtain x where x: "x \<in> set xs" "(case x of JObj item \<Rightarrow> JObj (g item) | _ \<Rightarrow> x) = JObj i"
    using assms(1) by (auto simp: in_objects on_objects_def)
  have "\<exists>j. x = JObj j \<and> i = g j" using x(2) by (cases x) auto
  then obtain j where j: "x = JObj j" "i = g j" by blast
  then have "j \<in> set (objects_of xs)" using x(1) by (simp add: in_objects)
  then show ?thesis using assms(2) j by blast
qed

lemma dropped_items:
  assumes i: "i \<in> set (items_in (rewrite_value name ref (rewrite_item key None) v))"
  shows "\<exists>j \<in> set (items_in v). set i \<subseteq> set j"
proof (cases v)
  case (JArr xs)
  let ?g = "\<lambda>j. if cr_Zone ref \<longrightarrow> tagged name j then rewrite_item key None j else j"
  have "i \<in> set (objects_of (on_objects ?g xs))"
    using i by (cases "cr_Zone ref") (simp_all add: JArr rewrite_value_def items_in_def)
  moreover have "set (?g j) \<subseteq> set j" for j by (auto simp: rewrite_item_forms drop_key_def)
  ultimately show ?thesis by (simp add: shrunk_objects JArr items_in_def)
next
  case (JObj item)
  then show ?thesis using i by (auto simp: rewrite_value_def items_in_def rewrite_item_forms drop_key_def split: if_splits)
qed (use i in \<open>auto simp: rewrite_value_def items_in_def split: if_splits\<close>)

lemma full_rewritten:
  assumes "full_doc (e_Payload e)"
  shows "full_doc (e_Payload (rewriteComponentItems name key None ref e))"
proof -
  have "full_doc (on_value (cr_FieldKey ref) (rewrite_value name ref (rewrite_item key None)) (e_Payload e))"
  proof (rule full_on_value [OF assms])
    fix v assume "v \<noteq> JArr []"
    then show "rewrite_value name ref (rewrite_item key None) v \<noteq> JArr []"
      by (cases v) (auto simp: rewrite_value_def on_objects_def)
  qed (rule dropped_items)
  then show ?thesis using assms by (simp add: rewriteComponentItems_def rewrite_copies_def)
qed

lemma full_rewritten_all:
  "full_doc (e_Payload e) \<Longrightarrow> full_doc (e_Payload (fold (rewriteComponentItems name key None) refs e))"
  by (induction refs arbitrary: e) (simp_all add: full_rewritten)

lemma derived_dropped: "derived st (rewrite_refs (rewriteComponentItems name key None) refs st)"
  by (rule derived_rows [OF rewrite_refs_rows]) (auto intro: full_rewritten_all)

lemma DeleteComponentField_derived: "DeleteComponentField allow ctx n key force st = Inr (dto, st') \<Longrightarrow> derived st st'"
  by (auto simp: DeleteComponentField_def DeleteComponentField_repo_def Let_def intro: derived_touched [OF _ derived_dropped])

lemma UpdateComponent_derived: "UpdateComponent allow ctx n l st = Inr (dto, st') \<Longrightarrow> derived st st'"
  by (auto simp: UpdateComponent_def UpdateComponentDefinition_def Let_def intro: derived_touched [OF _ derived_refl])

lemma AddComponentField_derived: "AddComponentField E allow ctx n i st = Inr (dto, st') \<Longrightarrow> derived st st'"
  by (auto simp: AddComponentField_def AddComponentField_repo_def Let_def intro: derived_touched [OF _ derived_refl])

lemma UpdateComponentField_derived: "UpdateComponentField E allow ctx n key i st = Inr (dto, st') \<Longrightarrow> derived st st'"
  by (auto simp: UpdateComponentField_def UpdateComponentFieldDefinition_def Let_def intro: derived_touched [OF _ derived_refl])

lemma CreateComponent_derived: "CreateComponent E allow ctx i st = Inr (dto, st') \<Longrightarrow> derived st st'"
  by (auto simp: CreateComponent_def createComponentAs_def CreateComponent_repo_def intro: derived_same_rows)

lemma DeleteComponent_derived: "DeleteComponent allow ctx n st = Inr st' \<Longrightarrow> derived st st'"
  by (auto simp: DeleteComponent_def DeleteComponent_repo_def Let_def intro: derived_same_rows)

section \<open>Executing steps\<close>

lemma map_sum_Inr: "map_sum f g x = Inr y \<longleftrightarrow> (\<exists>z. x = Inr z \<and> y = g z)"
  by (cases x) auto

lemma component_call_steps:
  "CreateComponent E allow ctx i st = Inr (dto, st') \<Longrightarrow> component_step E st st' \<and> derived st st'"
  "UpdateComponent allow ctx n l st = Inr (dto, st') \<Longrightarrow> component_step E st st' \<and> derived st st'"
  "AddComponentField E allow ctx n f st = Inr (dto, st') \<Longrightarrow> component_step E st st' \<and> derived st st'"
  "UpdateComponentField E allow ctx n key u st = Inr (dto, st') \<Longrightarrow> store_full st \<Longrightarrow> component_step E st st' \<and> derived st st'"
  "DeleteComponentField allow ctx n key force st = Inr (dto, st') \<Longrightarrow> component_step E st st' \<and> derived st st'"
  "DeleteComponent allow ctx n st = Inr st' \<Longrightarrow> component_step E st st' \<and> derived st st'"
  by (blast intro: component_step.intros CreateComponent_derived UpdateComponent_derived full_store_items
    AddComponentField_derived UpdateComponentField_derived DeleteComponentField_derived DeleteComponent_derived)+

lemma component_step_keeps:
  assumes "executeComponentStep E allow ctx c ch st = Inr st'" and "store_full st"
  shows "component_step E st st' \<and> derived st st' \<or> st' = st"
  using assms component_call_steps [where E = E]
  by (cases "ch_Op ch") (auto simp: executeComponentStep_def Let_def map_sum_Inr split: option.splits)

lemma type_call_steps:
  "CreateContentType_as E q allow ctx i st = Inr st' \<Longrightarrow> schema_step E st st' \<and> derived st st'"
  "UpdateContentType_as allow ctx n u st = Inr st' \<Longrightarrow> schema_step E st st' \<and> derived st st'"
  "AddField_as E q allow ctx n f st = Inr st' \<Longrightarrow> no_required_over_entries st n f \<Longrightarrow> schema_step E st st' \<and> derived st st'"
  "UpdateField_as E allow ctx n key v st = Inr st' \<Longrightarrow> store_full st \<Longrightarrow> schema_step E st st' \<and> derived st st'"
  "DeleteField_as allow ctx n key force st = Inr st' \<Longrightarrow> schema_step E st st' \<and> derived st st'"
  "DeleteContentType_as allow ctx n st = Inr st' \<Longrightarrow> schema_step E st st' \<and> derived st st'"
  by (auto simp: CreateContentType_as_def UpdateContentType_as_def AddField_as_def UpdateField_as_def DeleteField_as_def
      DeleteContentType_as_def split: if_splits
      intro: schema_step.intros full_store_lists CreateContentType_derived UpdateContentType_derived AddField_derived
        UpdateField_derived DeleteField_derived DeleteContentType_derived)

text \<open>A step adds no required field to a type that holds entries.\<close>

definition step_clear :: "artifact \<Rightarrow> store \<Rightarrow> plan_step \<Rightarrow> bool" where
  "step_clear art st s \<longleftrightarrow>
     (let c = ps_Change s; t = declared_type art (ch_Type c) in
      ch_Component c = [] \<longrightarrow> ch_Op c = OpAddField \<longrightarrow>
        (\<forall>f. fieldOf (at_Fields t) (ch_Field c) = Some f \<longrightarrow> f_Required f \<longrightarrow> stored_entries st (at_Name t) = []))"

lemma type_step_keeps:
  assumes x: "executeTypeStep E q allow ctx (declared_type art (ch_Type (ps_Change s))) (ps_Change s) st = Inr st'"
    and "store_full st" and "step_clear art st s" and "ch_Component (ps_Change s) = []"
  shows "schema_step E st st' \<and> derived st st' \<or> st' = st"
proof (cases "ch_Op (ps_Change s)")
  case OpAddField
  then show ?thesis
    using assms type_call_steps(3) [where E = E]
    by (auto simp: executeTypeStep_def step_clear_def no_required_over_entries_def fieldInput_def Let_def split: option.splits)
qed (use assms type_call_steps [where E = E] in
  \<open>auto simp: executeTypeStep_def createFromArtifact_def split: option.splits\<close>)

lemma step_clear_derived: "step_clear art st s \<Longrightarrow> derived st st' \<Longrightarrow> store_sound E st \<Longrightarrow> step_clear art st' s"
  using derived_empty [of st st' E] by (auto simp: step_clear_def Let_def)

lemma plan_execution_keeps:
  "execute E q allow ctx art steps st = Inr st' \<Longrightarrow> store_sound E st \<Longrightarrow> store_full st \<Longrightarrow>
     (\<forall>s \<in> set steps. \<not> ps_Skipped s \<longrightarrow> step_clear art st s) \<Longrightarrow>
     (schema_step E)\<^sup>*\<^sup>* st st' \<and> store_sound E st' \<and> store_full st'"
proof (induction steps arbitrary: st)
  case (Cons s steps)
  show ?case
  proof (cases "ps_Skipped s")
    case True
    then show ?thesis using Cons by (simp add: Let_def)
  next
    case False
    let ?c = "ps_Change s"
    obtain st1 where st1: "(if ch_Component ?c \<noteq> [] then executeComponentStep E allow ctx (declared_component art (ch_Component ?c)) ?c st
          else executeTypeStep E q allow ctx (declared_type art (ch_Type ?c)) ?c st) = Inr st1"
      and rest: "execute E q allow ctx art steps st1 = Inr st'"
      using Cons.prems(1) False by (auto simp: Let_def split: if_splits)
    have "schema_step E st st1 \<and> derived st st1 \<or> st1 = st"
    proof (cases "ch_Component ?c = []")
      case True
      then show ?thesis using type_step_keeps [of E q allow ctx art s st st1] st1 Cons.prems False by auto
    next
      case False
      then show ?thesis using component_step_keeps [of E allow ctx _ ?c st st1] st1 Cons.prems(3) schema_step.component by auto
    qed
    then show ?thesis
    proof
      assume step: "schema_step E st st1 \<and> derived st st1"
      then have sound: "store_sound E st1" and full: "store_full st1"
        using schema_step_sound Cons.prems(2,3) derived_full by blast+
      have "\<forall>s \<in> set steps. \<not> ps_Skipped s \<longrightarrow> step_clear art st1 s"
        using Cons.prems(2,4) step step_clear_derived by auto
      from Cons.IH [OF rest sound full this] step show ?thesis by (meson converse_rtranclp_into_rtranclp)
    next
      assume "st1 = st"
      then show ?thesis using Cons.IH [OF rest] Cons.prems by auto
    qed
  qed
qed simp

section \<open>What a plan says of added fields\<close>

lemma field_part_ops:
  "ch \<in> set (immutable_changes t from to) \<Longrightarrow> ch_Op ch = OpUpdateField"
  "ch \<in> set (required_changes t from to) \<Longrightarrow> ch_Op ch = OpUpdateField"
  "ch \<in> set (enum_changes t from to) \<Longrightarrow> ch_Op ch = OpUpdateField"
  "ch \<in> set (zone_changes t from to) \<Longrightarrow> ch_Op ch = OpUpdateField"
  "ch \<in> set (diffConstraints E t from to) \<Longrightarrow> ch_Op ch = OpUpdateField"
  by (auto simp: immutable_changes_def immutable_refusal_def required_changes_def enum_changes_def zone_changes_def
      diffConstraints_def Let_def split: if_splits option.splits)

lemma diffField_op: "ch \<in> set (diffField E t from to) \<Longrightarrow> ch_Op ch = OpUpdateField"
proof (cases "immutable_changes t from to = []")
  case False
  then show "ch \<in> set (diffField E t from to) \<Longrightarrow> ?thesis" by (simp add: diffField_def field_part_ops)
next
  case True
  then show "ch \<in> set (diffField E t from to) \<Longrightarrow> ?thesis"
    by (auto simp: diffField_def text_change_def dest: field_part_ops split: if_splits)
qed

lemma addFieldChange_shape:
  "ch_Op (addFieldChange E t f declared) = OpAddField" "ch_Type (addFieldChange E t f declared) = t"
  "ch_Field (addFieldChange E t f declared) = f_Key f" "ch_Component (addFieldChange E t f declared) = []"
  by (simp_all add: addFieldChange_def Let_def del: first_error.simps split: option.split)

lemma addFieldChange_required:
  "f_Required f \<Longrightarrow> ch_Grade (addFieldChange E t f declared) \<noteq> Refused \<Longrightarrow>
     ch_Grade (addFieldChange E t f declared) = Guarded \<and>
     ch_Code (addFieldChange E t f declared) = ''CONTENT_FIELD_REQUIRED_BACKFILL''"
  unfolding addFieldChange_def Let_def by (auto simp del: first_error.simps split: option.splits prod.splits) simp_all

lemma addComponentFieldChange_op: "ch_Op (addComponentFieldChange E n f) = OpAddComponentField"
  by (simp add: addComponentFieldChange_def subfield_refusal_def split: option.split)

lemma createComponentChanges_op: "ch \<in> set (createComponentChanges E c) \<Longrightarrow> ch_Op ch \<noteq> OpAddField"
  by (auto simp: createComponentChanges_def addComponentFieldChange_op Let_def split: if_splits)

lemma by_previous:
  assumes "ch \<in> set (concat (map (\<lambda>f. case prev f of None \<Rightarrow> [A f] | Some p \<Rightarrow> B f p) fs))"
    and "\<And>f. Q (A f)" and "\<And>f p ch. ch \<in> set (B f p) \<Longrightarrow> Q ch"
  shows "Q ch"
  using assms by (auto split: option.splits)

lemma diffComponent_op:
  assumes "ch \<in> set (diffComponent E from to)"
  shows "ch_Op ch \<notin> {OpAddField, OpCreateComponent}"
proof -
  have subfield: "ch_Op ch \<notin> {OpAddField, OpCreateComponent}"
    if "ch \<in> set (case v of Some v \<Rightarrow> [subfield_refusal OpUpdateComponentField n f v]
        | None \<Rightarrow> map (\<lambda>ch. ch\<lparr>ch_Op := OpUpdateComponentField, ch_Component := n\<rparr>) cs)" for v n f cs ch
    using that by (cases v) (auto simp: subfield_refusal_def)
  show ?thesis
    using assms unfolding diffComponent_def set_append Un_iff
  proof (elim disjE)
    assume "ch \<in> set (concat (map (\<lambda>f. case indexFields (ac_Fields from) (f_Key f) of
        None \<Rightarrow> [addComponentFieldChange E (ac_Name to) f]
      | Some prev \<Rightarrow> (case CheckComponentSubField (subFieldOf f) of
          Some v \<Rightarrow> [subfield_refusal OpUpdateComponentField (ac_Name to) f v]
        | None \<Rightarrow> map (\<lambda>ch. ch\<lparr>ch_Op := OpUpdateComponentField, ch_Component := ac_Name to\<rparr>)
                    (diffField E [] prev f))) (ac_Fields to)))"
    then show ?thesis by (rule by_previous) (auto simp: addComponentFieldChange_op dest: subfield)
  qed (auto simp: List.map_filter_def split: if_splits)
qed

lemma component_changes_op: "ch \<in> set (component_changes E from to) \<Longrightarrow> ch_Op ch \<noteq> OpAddField"
  unfolding component_changes_def
  using diffComponent_op by (auto dest: createComponentChanges_op split: option.splits)

lemma added_field_source:
  assumes "ch \<in> set (DiffSchemas E from to)" and "ch_Op ch = OpAddField" and "ch_Grade ch \<noteq> Refused"
  shows "\<exists>t f p. t \<in> set (Types to) \<and> f \<in> set (at_Fields t) \<and> indexTypes from (at_Name t) = Some p \<and>
    indexFields (at_Fields p) (f_Key f) = None \<and> ch_Type ch = at_Name t \<and> ch_Field ch = f_Key f \<and>
    (f_Required f \<longrightarrow> ch_Grade ch = Guarded \<and> ch_Code ch = ''CONTENT_FIELD_REQUIRED_BACKFILL'')"
proof -
  obtain c adds dels where c: "c \<in> set (component_changes E from to @ type_changes E from to @
      type_deletions from to @ component_deletions from to)" "ch = hint_rename adds dels c"
    using assms(1) by (auto simp: DiffSchemas_def withRenameHints_def)
  have op: "ch_Op c = OpAddField" "ch_Grade c \<noteq> Refused" using assms(2,3) c(2) by simp_all
  then have "c \<in> set (type_changes E from to)"
    using c(1) component_changes_op by (auto simp: type_deletions_def component_deletions_def List.map_filter_def split: if_splits)
  then have "\<exists>t \<in> set (Types to). c \<in> set (case indexTypes from (at_Name t) of
      None \<Rightarrow> type_change OpCreateType (at_Name t) Additive (DFmt ''new content type with %d field(s)'' [DNat (length (at_Fields t))])
              # filter (\<lambda>ch. ch_Grade ch = Refused) (map (\<lambda>f. addFieldChange E (at_Name t) f (\<lambda>n. indexComponents to n \<noteq> None)) (at_Fields t))
    | Some prev \<Rightarrow> diffType E prev t (\<lambda>n. indexComponents to n \<noteq> None))"
    unfolding type_changes_def Let_def set_concat set_map UN_iff bex_simps .
  then obtain t where t: "t \<in> set (Types to)" and ct: "c \<in> set (case indexTypes from (at_Name t) of
      None \<Rightarrow> type_change OpCreateType (at_Name t) Additive (DFmt ''new content type with %d field(s)'' [DNat (length (at_Fields t))])
              # filter (\<lambda>ch. ch_Grade ch = Refused) (map (\<lambda>f. addFieldChange E (at_Name t) f (\<lambda>n. indexComponents to n \<noteq> None)) (at_Fields t))
    | Some prev \<Rightarrow> diffType E prev t (\<lambda>n. indexComponents to n \<noteq> None))"
    by blast
  obtain p where p: "indexTypes from (at_Name t) = Some p" and d: "c \<in> set (diffType E p t (\<lambda>n. indexComponents to n \<noteq> None))"
    using ct op by (cases "indexTypes from (at_Name t)") auto
  then obtain f where "f \<in> set (at_Fields t)" "indexFields (at_Fields p) (f_Key f) = None"
      "c = addFieldChange E (at_Name t) f (\<lambda>n. indexComponents to n \<noteq> None)"
    using op diffField_op
    by (fastforce simp: diffType_def roles_change_def own_only_change_def delete_field_changes_def List.map_filter_def Let_def
        split: if_splits option.splits)
  then show ?thesis using t p c(2) op addFieldChange_required by (fastforce simp: addFieldChange_shape)
qed

lemma added_field_listed:
  assumes "t \<in> set (Types to)" and "f \<in> set (at_Fields t)" and "indexTypes from (at_Name t) = Some p"
    and "indexFields (at_Fields p) (f_Key f) = None" and "f_Required f"
  shows "\<exists>ch \<in> set (DiffSchemas E from to). ch_Op ch = OpAddField \<and> ch_Type ch = at_Name t \<and> ch_Field ch = f_Key f \<and>
    ch_Component ch = [] \<and>
    (ch_Grade ch \<noteq> Refused \<longrightarrow> ch_Grade ch = Guarded \<and> ch_Code ch = ''CONTENT_FIELD_REQUIRED_BACKFILL'')"
proof -
  let ?c = "addFieldChange E (at_Name t) f (\<lambda>n. indexComponents to n \<noteq> None)"
  have "?c \<in> set (diffType E p t (\<lambda>n. indexComponents to n \<noteq> None))"
    using assms(2,4) by (force simp: diffType_def)
  then have "?c \<in> set (type_changes E from to)" using assms(1,3) by (force simp: type_changes_def Let_def)
  then show ?thesis
    using addFieldChange_required [OF assms(5), of E "at_Name t"]
    unfolding DiffSchemas_def withRenameHints_def set_map
    by (intro bexI [OF _ imageI [of ?c]]) (auto simp: addFieldChange_shape)
qed

lemma live_type:
  assumes "indexTypes (NewSchemaArtifact cts comps) n = Some p"
  shows "\<exists>ct \<in> set cts. p = artifact_type_of ct \<and> ct_Name ct = n"
proof -
  have "p \<in> artifact_type_of ` set cts" "at_Name p = n"
    using index_by_SomeD [OF assms [unfolded indexTypes_def]] by (simp_all add: NewSchemaArtifact_def)
  then show ?thesis by (auto simp: artifact_type_of_def)
qed

definition plan_rows :: "subject \<Rightarrow> bool \<Rightarrow> store \<Rightarrow> type_row list" where
  "plan_rows sub narrow st = (if narrow then visibleToAgent sub (st_Rows st) else st_Rows st)"

lemma plan_rows_subset: "set (plan_rows sub narrow st) \<subseteq> set (st_Rows st)"
  by (auto simp: plan_rows_def visibleToAgent_def)

lemma planScoped_steps:
  "\<exists>comps. pl_Steps (planScoped E sub art prune narrow st) =
     map (plan_one E st sub (plan_rows sub narrow st) comps art prune)
       (DiffSchemas E (NewSchemaArtifact (map row_Type (plan_rows sub narrow st)) comps) art)"
  by (auto simp: planScoped_def Let_def plan_rows_def plan_of_def)

text \<open>A field the plan would add is not held by any entry, so a required one is only unblocked over none.\<close>

lemma unblocked_required_field:
  assumes sound: "store_sound E st" and r: "r \<in> set (st_Rows st)" and rows: "set rows \<subseteq> set (st_Rows st)" "r \<in> set rows"
    and no: "indexFields (at_Fields (artifact_type_of (row_Type r))) k = None"
    and c: "ch_Type c = ct_Name (row_Type r)" "ch_Field c = k" "ch_Component c = []" "ch_Op c = OpAddField"
      "ch_Grade c = Guarded" "ch_Code c = ''CONTENT_FIELD_REQUIRED_BACKFILL''"
    and free: "\<not> ps_Blocked (plan_one E st sub rows comps art prune c)"
  shows "row_Entries r = []"
proof -
  obtain r' where r': "index_by (\<lambda>r. ct_Name (row_Type r)) rows (ch_Type c) = Some r'"
    using index_by_ex [OF rows(2), of "\<lambda>r. ct_Name (row_Type r)"] c(1) by auto
  then have "r' \<in> set (st_Rows st)" "ct_Name (row_Type r') = ct_Name (row_Type r)"
    using index_by_SomeD [OF r'] rows(1) c(1) by auto
  then have "r' = r" using sound r by (auto simp: store_sound_def distinct_map inj_on_def)
  then have "CountEntriesMissingField (row_Entries r) k = 0"
    using free r' c by (simp add: plan_one_def guard_count_def blockingCount_def isDestructive_def Let_def split: if_splits)
  then have held: "\<forall>e \<in> set (row_Entries r). present (e_Payload e) k \<noteq> None"
    by (simp add: CountEntriesMissingField_def)
  have "k \<notin> Key ` set (ct_Fields (row_Type r))"
    using no by (auto simp: indexFields_def artifact_type_of_def artifactFieldOf_def)
  then have "present (e_Payload e) k = None" if e: "e \<in> set (row_Entries r)" for e
  proof -
    have "payload_ok E (ct_Fields (row_Type r)) (e_Payload e)"
      using sound r e by (auto simp: store_sound_def row_sound_def entries_legal_def)
    then have "map_of (e_Payload e) k = None"
      using \<open>k \<notin> Key ` set (ct_Fields (row_Type r))\<close> by (auto simp: payload_ok.simps map_of_eq_None_iff)
    then show ?thesis by (simp add: present_def)
  qed
  with held show ?thesis by (cases "row_Entries r") auto
qed

section \<open>Applied plans\<close>

text \<open>
  A clear step comes from an unblocked change.  An artifact may declare a name twice; a whole
  plan is then still safe, since every declaration has a step of its own, while a selection
  could leave the step of the other declaration out.
\<close>

definition declares_once :: "artifact \<Rightarrow> bool" where
  "declares_once art \<longleftrightarrow> distinct (map at_Name (Types art)) \<and> list_all (\<lambda>t. distinct (map f_Key (at_Fields t))) (Types art)"

lemma required_add_unblocked:
  assumes sound: "store_sound E st"
    and p: "indexTypes (NewSchemaArtifact (map row_Type (plan_rows sub narrow st)) comps') n = Some p" "indexFields (at_Fields p) k = None"
    and c: "ch_Type c = n" "ch_Field c = k" "ch_Component c = []" "ch_Op c = OpAddField"
      "ch_Grade c = Guarded" "ch_Code c = ''CONTENT_FIELD_REQUIRED_BACKFILL''"
    and free: "\<not> ps_Blocked (plan_one E st sub (plan_rows sub narrow st) comps art prune c)"
  shows "stored_entries st n = []"
proof -
  obtain r where r: "r \<in> set (plan_rows sub narrow st)" "p = artifact_type_of (row_Type r)" "ct_Name (row_Type r) = n"
    using live_type [OF p(1)] by auto
  have in_st: "r \<in> set (st_Rows st)" using r(1) plan_rows_subset by blast
  have "row_Entries r = []"
    by (rule unblocked_required_field [OF sound in_st plan_rows_subset r(1) _ _ _ c(3,4,5,6) free]) (use p c r in simp_all)
  then show ?thesis using entries_of_row [of st r] sound in_st r(3) by (simp add: store_sound_def)
qed

lemma step_change [simp]: "ps_Change (plan_one E st sub rows comps art prune c) = c"
  by (simp add: plan_one_def Let_def)

lemma plan_step_of:
  assumes "s \<in> set (pl_Steps (planScoped E sub art prune narrow st))"
  obtains comps where "s = plan_one E st sub (plan_rows sub narrow st) comps art prune (ps_Change s)"
    and "ps_Change s \<in> set (DiffSchemas E (NewSchemaArtifact (map row_Type (plan_rows sub narrow st)) comps) art)"
    and "pl_Steps (planScoped E sub art prune narrow st) =
     map (plan_one E st sub (plan_rows sub narrow st) comps art prune)
       (DiffSchemas E (NewSchemaArtifact (map row_Type (plan_rows sub narrow st)) comps) art)"
  using assms planScoped_steps [of E sub art prune narrow st] by auto

text \<open>In a plan without refused or blocked steps every step is clear.\<close>

lemma whole_plan_clear:
  assumes sound: "store_sound E st" and s: "s \<in> set (pl_Steps (planScoped E sub art prune narrow st))"
    and free: "\<forall>s \<in> set (pl_Steps (planScoped E sub art prune narrow st)). ch_Grade (ps_Change s) \<noteq> Refused \<and> \<not> ps_Blocked s"
  shows "step_clear art st s"
proof -
  let ?t = "declared_type art (ch_Type (ps_Change s))"
  obtain comps where steps: "pl_Steps (planScoped E sub art prune narrow st) =
     map (plan_one E st sub (plan_rows sub narrow st) comps art prune)
       (DiffSchemas E (NewSchemaArtifact (map row_Type (plan_rows sub narrow st)) comps) art)"
    and ch: "ps_Change s \<in> set (DiffSchemas E (NewSchemaArtifact (map row_Type (plan_rows sub narrow st)) comps) art)"
    using plan_step_of [OF s] by metis
  have ungraded: "ch_Grade (ps_Change s) \<noteq> Refused" using free s by blast
  have "stored_entries st (at_Name ?t) = []" if op: "ch_Component (ps_Change s) = []" "ch_Op (ps_Change s) = OpAddField"
    and f: "fieldOf (at_Fields ?t) (ch_Field (ps_Change s)) = Some f" "f_Required f" for f
  proof -
    obtain t p and g :: artifact_field where t: "t \<in> set (Types art)" "indexTypes (NewSchemaArtifact (map row_Type (plan_rows sub narrow st)) comps) (at_Name t) = Some p"
        "indexFields (at_Fields p) (f_Key g) = None" "ch_Type (ps_Change s) = at_Name t" "ch_Field (ps_Change s) = f_Key g"
      using added_field_source [OF ch op(2) ungraded] by blast
    obtain t0 where t0: "indexTypes art (at_Name t) = Some t0" "t0 \<in> set (Types art)" "at_Name t0 = at_Name t"
      using index_by_ex [OF t(1), of at_Name] index_by_SomeD [of at_Name "Types art"] unfolding indexTypes_def by blast
    have decl: "?t = t0" by (simp add: declared_type_def t(4) t0)
    have f0: "f \<in> set (at_Fields t0)" "f_Key f = f_Key g" using f(1) unfolding decl t(5) by (auto simp: fieldOf_def find_Some_iff)
    obtain c where c: "c \<in> set (DiffSchemas E (NewSchemaArtifact (map row_Type (plan_rows sub narrow st)) comps) art)"
        "ch_Op c = OpAddField" "ch_Type c = at_Name t0" "ch_Field c = f_Key f" "ch_Component c = []"
        "ch_Grade c \<noteq> Refused \<longrightarrow> ch_Grade c = Guarded \<and> ch_Code c = ''CONTENT_FIELD_REQUIRED_BACKFILL''"
      using added_field_listed [OF t0(2) f0(1) _ _ f(2), of "NewSchemaArtifact (map row_Type (plan_rows sub narrow st)) comps" p E]
        t(2,3) t0(3) f0(2) by auto
    have "ch_Grade c \<noteq> Refused" "\<not> ps_Blocked (plan_one E st sub (plan_rows sub narrow st) comps art prune c)"
      using free c(1) unfolding steps by auto
    then have "stored_entries st (at_Name t) = []"
      by (intro required_add_unblocked [OF sound t(2,3)]) (use c t0 f0 in auto)
    then show ?thesis unfolding decl t0(3) .
  qed
  then show ?thesis by (simp add: step_clear_def Let_def)
qed

text \<open>With every name declared once, an unblocked step is clear by itself.\<close>

lemma single_step_clear:
  assumes sound: "store_sound E st" and s: "s \<in> set (pl_Steps (planScoped E sub art prune narrow st))"
    and free: "ch_Grade (ps_Change s) \<noteq> Refused" "\<not> ps_Blocked s" and once: "declares_once art"
  shows "step_clear art st s"
proof -
  let ?t = "declared_type art (ch_Type (ps_Change s))"
  obtain comps where one: "s = plan_one E st sub (plan_rows sub narrow st) comps art prune (ps_Change s)"
    and ch: "ps_Change s \<in> set (DiffSchemas E (NewSchemaArtifact (map row_Type (plan_rows sub narrow st)) comps) art)"
    using plan_step_of [OF s] by metis
  have "stored_entries st (at_Name ?t) = []" if op: "ch_Component (ps_Change s) = []" "ch_Op (ps_Change s) = OpAddField"
    and f: "fieldOf (at_Fields ?t) (ch_Field (ps_Change s)) = Some f" "f_Required f" for f
  proof -
    obtain t p and g :: artifact_field where t: "t \<in> set (Types art)" "indexTypes (NewSchemaArtifact (map row_Type (plan_rows sub narrow st)) comps) (at_Name t) = Some p"
        "indexFields (at_Fields p) (f_Key g) = None" "ch_Type (ps_Change s) = at_Name t" "ch_Field (ps_Change s) = f_Key g"
      and g: "g \<in> set (at_Fields t)"
        "f_Required g \<Longrightarrow> ch_Grade (ps_Change s) = Guarded \<and> ch_Code (ps_Change s) = ''CONTENT_FIELD_REQUIRED_BACKFILL''"
      using added_field_source [OF ch op(2) free(1)] by blast
    obtain t0 where t0: "indexTypes art (at_Name t) = Some t0" "t0 \<in> set (Types art)" "at_Name t0 = at_Name t"
      using index_by_ex [OF t(1), of at_Name] index_by_SomeD [of at_Name "Types art"] unfolding indexTypes_def by blast
    have "t0 = t" using t0 t(1) once by (auto simp: declares_once_def distinct_map inj_on_def)
    then have decl: "?t = t" by (simp add: declared_type_def t(4) t0)
    have "f \<in> set (at_Fields t)" "f_Key f = f_Key g" using f(1) unfolding decl t(5) by (auto simp: fieldOf_def find_Some_iff)
    then have "f = g" using g(1) t(1) once by (auto simp: declares_once_def distinct_map inj_on_def list_all_iff)
    moreover have "\<not> ps_Blocked (plan_one E st sub (plan_rows sub narrow st) comps art prune (ps_Change s))"
      using free(2) one by metis
    ultimately show ?thesis unfolding decl
      by (intro required_add_unblocked [OF sound t(2,3), of "ps_Change s"]) (use t g op f in auto)
  qed
  then show ?thesis by (simp add: step_clear_def Let_def)
qed

end
