(* ===== verification/Schema_Promises.thy ===== *)
theory Schema_Promises
  imports Schema_Applied
begin

text \<open>
  What applying an artifact and deciding a proposal promise: stored entries stay legal, what
  runs is what was reviewed, and a proposal is decided at most once whatever runs in between.
  Two behaviours are shown that fall short of what the code says of itself.
\<close>

section \<open>A sample\<close>

text \<open>A type with one entry, and an artifact that renames its field's label and restricts who may read it.\<close>

definition post_store :: store where
  "post_store = sample_store [string_field ''title'' True] [(''title'', JStr ''a'')]"

definition titled_field :: field where
  "titled_field = with_attrs (\<lambda>a. a\<lparr>f_Label := ''T'', f_ReadRoles := [''editor'']\<rparr>) (string_field ''title'' True)"

definition titled_store :: store where
  "titled_store = sample_store [titled_field] [(''title'', JStr ''a'')]"

definition titled_art :: artifact where
  "titled_art = NewSchemaArtifact (map row_Type (st_Rows titled_store)) []"

definition titled_steps :: "plan_step list" where
  "titled_steps = map (\<lambda>c. \<lparr>ps_Change = c, ps_Blocked = False, ps_Entries = 0, ps_Skipped = False\<rparr>)
     [text_change ''post'' ''title'' ''label %q -> %q'' (DStr []) (DStr ''T''),
      text_change ''post'' ''title'' ''read_roles %s -> %s'' (describeRoles []) (describeRoles [''editor''])]"

lemmas titled_simps = titled_field_def string_field_simps sample_store_def

lemma titled_arts:
  "titled_art = \<lparr>ArtifactVersion = ArtifactVersion1, Kind = KindContentSchema, Components = [], Types =
     [\<lparr>at_Name = ''post'', at_Label = [], at_ReadRoles = [], at_WriteRoles = [], at_OwnOnlyRoles = [], at_Fields = [attrs titled_field]\<rparr>]\<rparr>"
  "NewSchemaArtifact (map row_Type (st_Rows post_store)) [] =
   \<lparr>ArtifactVersion = ArtifactVersion1, Kind = KindContentSchema, Components = [], Types =
     [\<lparr>at_Name = ''post'', at_Label = [], at_ReadRoles = [], at_WriteRoles = [], at_OwnOnlyRoles = [], at_Fields = [attrs (string_field ''title'' True)]\<rparr>]\<rparr>"
  by (simp_all add: titled_art_def post_store_def NewSchemaArtifact_def titled_store_def sample_store_def artifact_type_of_def artifactFieldOf_def)

lemma titled_changes:
  "DiffSchemas plain_env (NewSchemaArtifact (map row_Type (st_Rows post_store)) []) titled_art = map ps_Change titled_steps"
  unfolding titled_arts
  by (simp add: titled_steps_def DiffSchemas_def withRenameHints_def component_changes_def type_changes_def
      type_deletions_def component_deletions_def indexTypes_def indexFields_def index_by_def List.map_filter_def
      diffType_def diffField_def immutable_changes_def required_changes_def enum_changes_def zone_changes_def sameOrder_def
      roles_change_def own_only_change_def delete_field_changes_def diffConstraints_def no_constraints_valid [unfolded no_constraints_def]
      titled_field_def string_field_simps missing_from_def Equal_def without_unique_def field_type_defs
      hint_rename_def text_change_def field_change_def change0_def is_add_def is_del_def)

lemma titled_plan: "planScoped plain_env sample_subject titled_art False narrow post_store = plan_of titled_steps"
proof -
  have "\<not> IsAgent sample_subject" by (simp add: sample_subject_def IsAgent_def ActorKindAgent_def)
  moreover have "st_Components post_store = []" by (simp add: post_store_def sample_store_def)
  ultimately show ?thesis
    using titled_changes
    by (simp add: planScoped_def visibleToAgent_def componentsReferencedBy_def Let_def plan_one_def titled_steps_def
        text_change_def field_change_def change0_def isDestructive_def)
qed

lemma titled_trims [simp]: "TrimSpace [] = []" "TrimSpace ''T'' = ''T''" "TrimSpace ''editor'' = ''editor''"
  by (rule TrimSpace_ascii, simp add: ascii_def is_space_def space_runes_def)+

lemma titled_roles: "normalizeRoles ''title'' [''editor''] = Inr [''editor'']" "normalizeRoles ''title'' [] = Inr []"
  by (simp_all add: normalizeRoles_def normalizeRoleList_def ValidRole_def RoleEditor_def)

lemma not_tightened: "\<not> Tightens no_constraints no_constraints"
  by (simp add: Tightens_def no_constraints_def raises_min_def lowers_max_def)

lemma titled_update:
  "UpdateField plain_env True True ''post'' ''title'' (field_update (attrs titled_field)) (sample_store [f] [(''title'', JStr ''a'')]) = Inr titled_store"
  if "f = string_field ''title'' True \<or> f = titled_field"
  using that
  by (elim disjE) (simp_all add: UpdateField_def refuseImmutableFieldProps_def FieldByKey_def update_texts_def field_update_def
      update_enum_def update_zone_def update_required_def update_constraints_def update_roles_def next_constraints_def normalizeConstraints_def
      touches_constraints_def opt_set_def with_attrs_def titled_field_def string_field_simps field_type_defs
      CountEntriesMissingField_def countEntries_def Let_def withFieldAt_def update_row_def set_fields_def
      titled_roles titled_store_def not_tightened [unfolded no_constraints_def]
      no_constraints_valid [unfolded no_constraints_def] GetContentTypeByName_def row_named_def
      sample_store_def sample_entry_def require_def refuse_if_def del: and_then_Inr)

lemma sample_allowed [simp]: "authorize (\<lambda>_ _. None) (Some sample_subject) act res n = Inr sample_subject"
  by (simp add: authorize_def authorizeAgentScope_def refuseOutsideAgentScope_def refuseUnscopedAgentCredential_def
      sample_subject_def IsAgent_def ActorKindAgent_def)

lemma titled_declared:
  "declared_type titled_art ''post'' = \<lparr>at_Name = ''post'', at_Label = [], at_ReadRoles = [], at_WriteRoles = [],
     at_OwnOnlyRoles = [], at_Fields = [attrs titled_field]\<rparr>"
  by (simp add: declared_type_def titled_arts indexTypes_def index_by_def)

lemma titled_key: "f_Key (attrs titled_field) = ''title''"
  by (simp add: titled_field_def string_field_simps)

lemma titled_step:
  assumes "f = string_field ''title'' True \<or> f = titled_field" and "s \<in> set titled_steps"
  shows "executeTypeStep plain_env q (\<lambda>_ _. None) (Some sample_subject) (declared_type titled_art (ch_Type (ps_Change s)))
    (ps_Change s) (sample_store [f] [(''title'', JStr ''a'')]) = Inr titled_store \<and> ch_Component (ps_Change s) = [] \<and> \<not> ps_Skipped s"
proof -
  have s: "ch_Type (ps_Change s) = ''post''" "ch_Op (ps_Change s) = OpUpdateField" "ch_Field (ps_Change s) = ''title''"
      "ch_Component (ps_Change s) = []" "\<not> ps_Skipped s"
    using assms(2) by (auto simp: titled_steps_def text_change_def field_change_def change0_def)
  have "refuseImmutableFieldProps ''title'' (field_update (attrs titled_field)) = None"
    by (simp add: refuseImmutableFieldProps_def field_update_def)
  then have "UpdateField_as plain_env (\<lambda>_ _. None) (Some sample_subject) ''post'' ''title'' (field_update (attrs titled_field))
      (sample_store [f] [(''title'', JStr ''a'')]) = Inr titled_store"
    using titled_update [OF assms(1)] by (simp add: UpdateField_as_def as_go_def)
  then show ?thesis using s by (simp add: executeTypeStep_def titled_declared fieldOf_def titled_key)
qed

lemma titled_run: "execute plain_env q (\<lambda>_ _. None) (Some sample_subject) titled_art titled_steps post_store = Inr titled_store"
proof -
  obtain s1 s2 where steps: "titled_steps = [s1, s2]" by (simp add: titled_steps_def)
  have "s1 \<in> set titled_steps" "s2 \<in> set titled_steps" by (simp_all add: steps)
  then show ?thesis
    using titled_step [of "string_field ''title'' True" s1 q] titled_step [of titled_field s2 q]
    by (simp add: steps post_store_def Let_def titled_store_def [symmetric])
qed

lemma titled_applicable: "canApply (plan_of titled_steps)"
  by (simp add: canApply_def plan_of_def titled_steps_def text_change_def field_change_def change0_def)

lemma titled_applied:
  "ApplySchema plain_env q (\<lambda>_ _. None) (Some sample_subject) titled_art False post_store = Inr (plan_of titled_steps, titled_store)"
  using titled_run [of q] titled_applicable
  by (simp add: ApplySchema_def titled_plan Let_def require_go_def require_def) (simp add: plan_of_def)

lemma post_sound: "store_sound plain_env post_store" and post_full: "store_full post_store"
  by (simp_all add: store_sound_def post_store_def sample_store_def row_sound_def attached_def zone_attached_def
      entries_legal_def sample_entry_def payload_ok.simps value_ok.simps scalar_ok_def typed_string_def string_satisfies_def
      in_range_def below_min_def above_max_def FieldFormatSlug_def string_field_simps field_type_defs
      no_constraints_valid [unfolded no_constraints_def] store_full_def full_doc_def items_in_def)

text \<open>A filed proposal of the artifact, and what approving its first step leaves.\<close>

definition filed_proposal :: proposal where
  "filed_proposal = \<lparr>pr_ID = ''p1'', pr_TenantID = ''t1'', pr_Artifact = titled_art, pr_Prune = False,
     pr_Plan = plan_of titled_steps, pr_PlanProposer = None, pr_Status = ProposalPending, pr_ProposedBy = ''u2'',
     pr_ProposedByKind = ActorKindHuman, pr_ProposedByAgent = None, pr_CreatedAt = 1, pr_ExpiresAt = 100,
     pr_DecidedAt = None, pr_DecidedBy = None, pr_AppliedSteps = None\<rparr>"

definition filed_db :: schema_db where
  "filed_db = \<lparr>sd_Stores = (\<lambda>_. post_store), sd_Proposals = [filed_proposal]\<rparr>"

definition label_plan :: plan_result where
  "label_plan = (plan_of titled_steps)\<lparr>pl_Steps := [titled_steps ! 0, (titled_steps ! 1)\<lparr>ps_Skipped := True\<rparr>],
     pl_Applicable := 1, pl_AppliedSteps := [0]\<rparr>"

definition label_approval :: approval where
  "label_approval = \<lparr>ap_Sub = sample_subject, ap_Plan = label_plan, ap_Applied = [0], ap_Store = titled_store\<rparr>"

definition decided_db :: schema_db where
  "decided_db = \<lparr>sd_Stores = (\<lambda>_. post_store)(''t1'' := titled_store),
     sd_Proposals = [decided ProposalApproved ''u1'' 10 (Some [0]) filed_proposal]\<rparr>"

lemma label_selected:
  "approved_plan (plan_of titled_steps) (Some [0]) = Inr (label_plan\<lparr>pl_AppliedSteps := []\<rparr>, [0])"
  by (simp add: approved_plan_def indices_def titled_steps_def plan_of_def label_plan_def require_def offending_def Let_def
      text_change_def field_change_def change0_def)

lemma label_run:
  "execute plain_env q (\<lambda>_ _. None) (Some sample_subject) titled_art (pl_Steps label_plan) post_store = Inr titled_store"
  using titled_step [of "string_field ''title'' True" "titled_steps ! 0" q]
  by (simp add: label_plan_def titled_steps_def post_store_def Let_def)

lemma label_prepared:
  "prepare_approval plain_env q (\<lambda>_ _. None) (Some sample_subject) ''p1'' (Some [0]) 10 filed_db = Inr label_approval"
proof -
  have s: "TenantID sample_subject = ''t1''" "UserID sample_subject = ''u1''" by (simp_all add: sample_subject_def)
  have sel: "resolveStepSelection (plan_of titled_steps) (Some [0]) = Inr (Some [0])"
    by (simp add: resolveStepSelection_def plan_of_def titled_steps_def)
  have p: "GetSchemaProposal ''t1'' ''p1'' [filed_proposal] = Inr filed_proposal"
    by (simp add: GetSchemaProposal_def is_proposal_def filed_proposal_def)
  have f: "pr_Artifact filed_proposal = titled_art" "pr_Prune filed_proposal = False" "pr_Plan filed_proposal = plan_of titled_steps"
      "pr_Status filed_proposal = ProposalPending" "\<not> Expired filed_proposal 10"
    by (simp_all add: filed_proposal_def Expired_def)
  have l: "pl_Steps (label_plan\<lparr>pl_AppliedSteps := []\<rparr>) = pl_Steps label_plan" "label_plan\<lparr>pl_AppliedSteps := [0]\<rparr> = label_plan"
    by (simp_all add: label_plan_def)
  show ?thesis
    using label_run [of q]
    by (simp add: prepare_approval_def filed_db_def s p f titled_plan planMatches_def sel label_selected l
        require_go_def require_def as_go_def Let_def label_approval_def del: and_then_Inr)
qed

lemma label_committed: "commit_approval ''p1'' 10 label_approval filed_db = Inr (label_plan, decided_db)"
  by (simp add: commit_approval_def label_approval_def filed_db_def DecideSchemaProposal_def decidable_def is_proposal_def
      filed_proposal_def sample_subject_def decided_db_def decided_def fun_upd_def Let_def)

lemma label_approved:
  "ApproveSchemaProposal plain_env q (\<lambda>_ _. None) (Some sample_subject) ''p1'' (Some [0]) 10 filed_db = Inr (label_plan, decided_db)"
  by (simp add: ApproveSchemaProposal_def label_prepared label_committed del: and_then_Inr)

section \<open>Applying\<close>

lemma canApply_free:
  "canApply (planScoped E sub art prune narrow st) \<longleftrightarrow>
     (\<forall>s \<in> set (pl_Steps (planScoped E sub art prune narrow st)). ch_Grade (ps_Change s) \<noteq> Refused \<and> \<not> ps_Blocked s)"
  by (auto simp: canApply_def planScoped_def plan_of_def Let_def filter_empty_conv)

lemma sound_validates:
  "store_sound E st \<Longrightarrow> r \<in> set (st_Rows st) \<Longrightarrow> e \<in> set (row_Entries r) \<Longrightarrow>
     validatePayload E (ct_Fields (row_Type r)) (e_Payload e) = None"
  by (auto simp: validator_decides store_sound_def row_sound_def entries_legal_def)




section \<open>Approving\<close>

lemma indices_set: "set (indices P steps) = {i. i < length steps \<and> P i (steps ! i)}"
  by (force simp: indices_def in_set_enumerate_eq)

lemma indices_upt: "indices P steps = filter (\<lambda>i. P i (steps ! i)) [0..<length steps]"
proof -
  have "enumerate 0 steps = map (\<lambda>i. (i, steps ! i)) [0..<length steps]"
    by (rule nth_equalityI) (simp_all add: nth_enumerate_eq)
  then show ?thesis by (simp add: indices_def filter_map comp_def)
qed

lemma select_steps_spec:
  "select_steps n sel bad xs = (sel', bad') \<Longrightarrow>
     \<exists>more. bad' = bad @ more \<and> (more = [] \<longrightarrow> sel' = sel @ map nat xs \<and> (\<forall>i \<in> set xs. 0 \<le> i \<and> i < int n))"
  by (induction n sel bad xs rule: select_steps.induct) (fastforce split: if_splits)+

lemma selected_steps:
  assumes "resolveStepSelection plan (Some xs) = Inr selected"
  shows "xs \<noteq> [] \<and> selected = Some (map nat xs) \<and> (\<forall>i \<in> set xs. 0 \<le> i \<and> i < int (length (pl_Steps plan)))"
proof -
  obtain sel bad where s: "select_steps (length (pl_Steps plan)) [] [] xs = (sel, bad)" by fastforce
  then show ?thesis using assms select_steps_spec [OF s] by (auto simp: resolveStepSelection_def split: if_splits)
qed

lemma selected_indices:
  assumes "\<forall>k \<in> set xs. 0 \<le> k \<and> k < int n"
  shows "int ` set (filter (\<lambda>k. k \<in> nat ` set xs) [0..<n]) = set xs"
proof -
  have "set (filter (\<lambda>k. k \<in> nat ` set xs) [0..<n]) = nat ` set xs" using assms by auto
  moreover have "(\<lambda>k. int (nat k)) ` set xs = (\<lambda>k. k) ` set xs" using assms by (intro image_cong) auto
  ultimately show ?thesis by (simp add: image_image)
qed

lemma approved_whole:
  "approved_plan plan None = Inr (exec, applied) \<longleftrightarrow>
     canApply plan \<and> exec = plan \<and> applied = indices (\<lambda>_ s. \<not> ps_Skipped s) (pl_Steps plan)"
  by (auto simp: approved_plan_def)

lemma approved_selection:
  assumes "approved_plan plan (Some sel) = Inr (exec, applied)"
  shows "length (pl_Steps exec) = length (pl_Steps plan)"
    and "\<And>i. i < length (pl_Steps plan) \<Longrightarrow> pl_Steps exec ! i =
       (if i \<in> set sel then pl_Steps plan ! i else (pl_Steps plan ! i)\<lparr>ps_Skipped := True\<rparr>)"
    and "\<And>i. i < length (pl_Steps plan) \<Longrightarrow> i \<in> set sel \<Longrightarrow> \<not> offending (pl_Steps plan ! i)"
    and "applied = filter (\<lambda>i. i \<in> set sel) [0..<length (pl_Steps plan)]"
proof -
  have e: "indices (\<lambda>i s. i \<in> set sel \<and> offending s) (pl_Steps plan) = []"
    and x: "pl_Steps exec = map (\<lambda>(i, s). if i \<in> set sel then s else s\<lparr>ps_Skipped := True\<rparr>) (enumerate 0 (pl_Steps plan))"
    and a: "applied = indices (\<lambda>i _. i \<in> set sel) (pl_Steps plan)"
    using assms by (auto simp: approved_plan_def Let_def)
  show "length (pl_Steps exec) = length (pl_Steps plan)" by (simp add: x)
  show "applied = filter (\<lambda>i. i \<in> set sel) [0..<length (pl_Steps plan)]" by (simp add: a indices_upt)
  fix i assume i: "i < length (pl_Steps plan)"
  show "pl_Steps exec ! i = (if i \<in> set sel then pl_Steps plan ! i else (pl_Steps plan ! i)\<lparr>ps_Skipped := True\<rparr>)"
    using i by (simp add: x nth_enumerate_eq)
  show "\<not> offending (pl_Steps plan ! i)" if "i \<in> set sel"
    using e i that indices_set [of "\<lambda>i s. i \<in> set sel \<and> offending s" "pl_Steps plan"] by auto
qed

lemma approved_steps:
  assumes ok: "approved_plan plan selected = Inr (exec, applied)"
    and free: "canApply plan \<Longrightarrow> \<forall>s \<in> set (pl_Steps plan). ch_Grade (ps_Change s) \<noteq> Refused \<and> \<not> ps_Blocked s"
  shows "map ps_Change (pl_Steps exec) = map ps_Change (pl_Steps plan)"
    and "applied = filter (\<lambda>i. \<not> ps_Skipped (pl_Steps exec ! i)) [0..<length (pl_Steps exec)]"
    and "\<And>s. s \<in> set (pl_Steps exec) \<Longrightarrow> \<not> ps_Skipped s \<Longrightarrow>
      s \<in> set (pl_Steps plan) \<and> ch_Grade (ps_Change s) \<noteq> Refused \<and> \<not> ps_Blocked s"
proof -
  show "map ps_Change (pl_Steps exec) = map ps_Change (pl_Steps plan)"
    using ok approved_selection(1,2) by (cases selected) (auto simp: approved_whole intro!: nth_equalityI)
  show "applied = filter (\<lambda>i. \<not> ps_Skipped (pl_Steps exec ! i)) [0..<length (pl_Steps exec)]"
  proof (cases selected)
    case None
    then show ?thesis using ok by (simp add: approved_whole indices_upt)
  next
    case (Some sel)
    note sel = approved_selection [OF ok [unfolded Some]]
    show ?thesis unfolding sel(4) sel(1)
      by (rule filter_cong [OF refl]) (use sel(2,3) in \<open>auto simp: offending_def\<close>)
  qed
  show "s \<in> set (pl_Steps plan) \<and> ch_Grade (ps_Change s) \<noteq> Refused \<and> \<not> ps_Blocked s"
    if s: "s \<in> set (pl_Steps exec)" "\<not> ps_Skipped s" for s
  proof (cases selected)
    case None
    then show ?thesis using ok free s by (auto simp: approved_whole)
  next
    case (Some sel)
    note sel = approved_selection [OF ok [unfolded Some]]
    obtain i where i: "i < length (pl_Steps plan)" "pl_Steps exec ! i = s"
      using s(1) unfolding in_set_conv_nth sel(1) by blast
    have "i \<in> set sel"
    proof (rule ccontr)
      assume "i \<notin> set sel"
      then have "s = (pl_Steps plan ! i)\<lparr>ps_Skipped := True\<rparr>" using sel(2) [OF i(1)] unfolding i(2) by simp
      then have "ps_Skipped s" by simp
      with s(2) show False by simp
    qed
    then have "i \<in> set sel" "s = pl_Steps plan ! i" using sel(2) [OF i(1)] i(2) by simp_all
    then show ?thesis using sel(3) [OF i(1)] i(1) by (simp add: offending_def)
  qed
qed

lemma approvalE:
  assumes "ApproveSchemaProposal E q allow ctx i steps now db = Inr (plan, db')"
  obtains sub p selected exec st' ps where
    "authorize allow ctx ''content:schema:write'' ''collection'' [] = Inr sub"
    "GetSchemaProposal (TenantID sub) i (sd_Proposals db) = Inr p" "decidable (TenantID sub) i now p"
    "pr_Plan p = planScoped E sub (pr_Artifact p) (pr_Prune p) False (sd_Stores db (TenantID sub))"
    "resolveStepSelection (pr_Plan p) steps = Inr selected"
    "approved_plan (pr_Plan p) selected = Inr (exec, pl_AppliedSteps plan)" "plan = exec\<lparr>pl_AppliedSteps := pl_AppliedSteps plan\<rparr>"
    "execute E q allow ctx (pr_Artifact p) (pl_Steps exec) (sd_Stores db (TenantID sub)) = Inr st'"
    "DecideSchemaProposal (TenantID sub) i ProposalApproved (UserID sub) now
       (if pl_AppliedSteps plan = [] then None else Some (pl_AppliedSteps plan)) (sd_Proposals db) = Some ps"
    "db' = db\<lparr>sd_Stores := (sd_Stores db)(TenantID sub := st'), sd_Proposals := ps\<rparr>"
proof -
  obtain a where prep: "prepare_approval E q allow ctx i steps now db = Inr a" and com: "commit_approval i now a db = Inr (plan, db')"
    using assms by (auto simp: ApproveSchemaProposal_def)
  obtain sub p selected exec applied st' where p: "authorize allow ctx ''content:schema:write'' ''collection'' [] = Inr sub"
      "GetSchemaProposal (TenantID sub) i (sd_Proposals db) = Inr p" "pr_Status p = ProposalPending" "\<not> Expired p now"
      "pr_Plan p = planScoped E sub (pr_Artifact p) (pr_Prune p) False (sd_Stores db (TenantID sub))"
      "resolveStepSelection (pr_Plan p) steps = Inr selected" "approved_plan (pr_Plan p) selected = Inr (exec, applied)"
      "execute E q allow ctx (pr_Artifact p) (pl_Steps exec) (sd_Stores db (TenantID sub)) = Inr st'"
    and a: "a = \<lparr>ap_Sub = sub, ap_Plan = exec\<lparr>pl_AppliedSteps := applied\<rparr>, ap_Applied = applied, ap_Store = st'\<rparr>"
    using prep by (auto simp: prepare_approval_def Let_def planMatches_def)
  have "decidable (TenantID sub) i now p"
    using p(2-4) by (auto simp: GetSchemaProposal_def decidable_def Expired_def find_Some_iff split: option.splits)
  moreover have "plan = exec\<lparr>pl_AppliedSteps := applied\<rparr>" "pl_AppliedSteps plan = applied"
    using com a by (auto simp: commit_approval_def Let_def split: option.splits)
  moreover obtain ps where "DecideSchemaProposal (TenantID sub) i ProposalApproved (UserID sub) now
       (if applied = [] then None else Some applied) (sd_Proposals db) = Some ps"
     "db' = db\<lparr>sd_Stores := (sd_Stores db)(TenantID sub := st'), sd_Proposals := ps\<rparr>"
    using com a by (cases "applied = []") (auto simp: commit_approval_def Let_def split: option.splits)
  ultimately show thesis
    using that [OF p(1,2)] p(5-8) by metis
qed

text \<open>C26: An approval runs what was reviewed.  When it succeeds, the proposal was pending and not
  expired, the plan made of it now is the plan filed with it, the plan answered has the same
  changes in the same order, the steps reported as applied are exactly those that were not
  skipped, none of them refused or blocked, and, when steps were named, exactly the named ones.
  The schema of the caller's tenant becomes what running them leaves, and that of no other tenant changes.
\<close>

theorem approval_runs_the_reviewed_plan:
  assumes "ApproveSchemaProposal E q allow ctx i steps now db = Inr (plan, db')"
  shows "\<exists>sub p. GetSchemaProposal (TenantID sub) i (sd_Proposals db) = Inr p \<and> decidable (TenantID sub) i now p \<and>
    planScoped E sub (pr_Artifact p) (pr_Prune p) False (sd_Stores db (TenantID sub)) = pr_Plan p \<and>
    map ps_Change (pl_Steps plan) = map ps_Change (pl_Steps (pr_Plan p)) \<and>
    pl_AppliedSteps plan = filter (\<lambda>k. \<not> ps_Skipped (pl_Steps plan ! k)) [0..<length (pl_Steps plan)] \<and>
    (\<forall>s \<in> set (pl_Steps plan). ps_Skipped s \<or> ch_Grade (ps_Change s) \<noteq> Refused \<and> \<not> ps_Blocked s) \<and>
    (case steps of None \<Rightarrow> True | Some xs \<Rightarrow> int ` set (pl_AppliedSteps plan) = set xs) \<and>
    execute E q allow ctx (pr_Artifact p) (pl_Steps plan) (sd_Stores db (TenantID sub)) = Inr (sd_Stores db' (TenantID sub)) \<and>
    (\<forall>t. t \<noteq> TenantID sub \<longrightarrow> sd_Stores db' t = sd_Stores db t)"
proof -
  obtain sub p selected exec st' ps where
    a: "GetSchemaProposal (TenantID sub) i (sd_Proposals db) = Inr p" "decidable (TenantID sub) i now p"
    and again: "pr_Plan p = planScoped E sub (pr_Artifact p) (pr_Prune p) False (sd_Stores db (TenantID sub))"
    and sel: "resolveStepSelection (pr_Plan p) steps = Inr selected"
    and ok: "approved_plan (pr_Plan p) selected = Inr (exec, pl_AppliedSteps plan)"
    and plan: "plan = exec\<lparr>pl_AppliedSteps := pl_AppliedSteps plan\<rparr>"
    and run: "execute E q allow ctx (pr_Artifact p) (pl_Steps exec) (sd_Stores db (TenantID sub)) = Inr st'"
    and db': "db' = db\<lparr>sd_Stores := (sd_Stores db)(TenantID sub := st'), sd_Proposals := ps\<rparr>"
    using assms by (rule approvalE)
  have steps: "pl_Steps plan = pl_Steps exec" by (subst plan) simp
  have free: "canApply (pr_Plan p) \<Longrightarrow> \<forall>s \<in> set (pl_Steps (pr_Plan p)). ch_Grade (ps_Change s) \<noteq> Refused \<and> \<not> ps_Blocked s"
    unfolding again canApply_free .
  note run_steps = approved_steps [OF ok free]
  have same_changes: "map ps_Change (pl_Steps plan) = map ps_Change (pl_Steps (pr_Plan p))"
    using run_steps(1) by (simp only: steps)
  have applied: "pl_AppliedSteps plan = filter (\<lambda>k. \<not> ps_Skipped (pl_Steps plan ! k)) [0..<length (pl_Steps plan)]"
    using run_steps(2) by (simp only: steps)
  have named: "case steps of None \<Rightarrow> True | Some xs \<Rightarrow> int ` set (pl_AppliedSteps plan) = set xs"
  proof (cases steps)
    case (Some xs)
    then have x: "selected = Some (map nat xs)" "\<forall>k \<in> set xs. 0 \<le> k \<and> k < int (length (pl_Steps (pr_Plan p)))"
      using selected_steps [of "pr_Plan p" xs selected] sel by auto
    then have "pl_AppliedSteps plan = filter (\<lambda>k. k \<in> nat ` set xs) [0..<length (pl_Steps (pr_Plan p))]"
      using approved_selection(4) [OF ok [unfolded x(1)]] by simp
    then have "int ` set (pl_AppliedSteps plan) = set xs" by (simp only: selected_indices [OF x(2)])
    then show ?thesis using Some by simp
  qed simp
  have clean: "\<forall>s \<in> set (pl_Steps plan). ps_Skipped s \<or> ch_Grade (ps_Change s) \<noteq> Refused \<and> \<not> ps_Blocked s"
    using run_steps(3) unfolding steps by blast
  have left: "execute E q allow ctx (pr_Artifact p) (pl_Steps plan) (sd_Stores db (TenantID sub)) = Inr (sd_Stores db' (TenantID sub))"
    using run steps by (simp add: db')
  have others: "\<forall>t. t \<noteq> TenantID sub \<longrightarrow> sd_Stores db' t = sd_Stores db t"
    by (simp add: db')
  show ?thesis
    by (rule exI [of _ sub], rule exI [of _ p], intro conjI)
      (fact a again [symmetric] same_changes applied clean named left others)+
qed


theorem approval_runs_the_reviewed_plan_witness:
  "\<exists>(sub :: subject) p. GetSchemaProposal (TenantID sub) ''p1'' (sd_Proposals filed_db) = Inr p \<and> decidable (TenantID sub) ''p1'' 10 p \<and>
     map ps_Change (pl_Steps label_plan) = map ps_Change (pl_Steps (pr_Plan p)) \<and> int ` set (pl_AppliedSteps label_plan) = {0}"
proof -
  obtain sub :: subject and p where "GetSchemaProposal (TenantID sub) ''p1'' (sd_Proposals filed_db) = Inr p" "decidable (TenantID sub) ''p1'' 10 p"
      "map ps_Change (pl_Steps label_plan) = map ps_Change (pl_Steps (pr_Plan p))" "int ` set (pl_AppliedSteps label_plan) = {0}"
    using approval_runs_the_reviewed_plan [OF label_approved [of undefined]] unfolding option.case list.set by (elim exE conjE)
  then show ?thesis by metis
qed

text \<open>Approving keeps stored entries legal as well, in whole or by a selection of steps, as
  long as a selection is made from an artifact that declares no name twice.
\<close>

theorem approved_steps_keep_entries_legal:
  assumes "ApproveSchemaProposal E q allow ctx i steps now db = Inr (plan, db')"
    and "GetSchemaProposal tenant i (sd_Proposals db) = Inr p" and "steps = None \<or> declares_once (pr_Artifact p)"
    and "store_sound E (sd_Stores db tenant)" and "store_full (sd_Stores db tenant)"
  shows "(schema_step E)\<^sup>*\<^sup>* (sd_Stores db tenant) (sd_Stores db' tenant) \<and> store_sound E (sd_Stores db' tenant) \<and>
    (\<forall>r \<in> set (st_Rows (sd_Stores db' tenant)). \<forall>e \<in> set (row_Entries r).
       validatePayload E (ct_Fields (row_Type r)) (e_Payload e) = None)"
proof -
  obtain sub p' selected exec st' ps where
    p': "GetSchemaProposal (TenantID sub) i (sd_Proposals db) = Inr p'"
    and again: "pr_Plan p' = planScoped E sub (pr_Artifact p') (pr_Prune p') False (sd_Stores db (TenantID sub))"
    and sel: "resolveStepSelection (pr_Plan p') steps = Inr selected"
    and ok: "approved_plan (pr_Plan p') selected = Inr (exec, pl_AppliedSteps plan)"
    and run: "execute E q allow ctx (pr_Artifact p') (pl_Steps exec) (sd_Stores db (TenantID sub)) = Inr st'"
    and db': "db' = db\<lparr>sd_Stores := (sd_Stores db)(TenantID sub := st'), sd_Proposals := ps\<rparr>"
    using assms(1) by (rule approvalE)
  show ?thesis
  proof (cases "tenant = TenantID sub")
    case False
    then show ?thesis using assms(4) sound_validates db' by auto
  next
    case True
    then have p: "p' = p" using p' assms(2) by simp
    have free: "canApply (pr_Plan p) \<Longrightarrow> \<forall>s \<in> set (pl_Steps (pr_Plan p)). ch_Grade (ps_Change s) \<noteq> Refused \<and> \<not> ps_Blocked s"
      unfolding again [unfolded p] canApply_free .
    have "step_clear (pr_Artifact p) (sd_Stores db tenant) s" if s: "s \<in> set (pl_Steps exec)" "\<not> ps_Skipped s" for s
    proof (cases steps)
      case None
      then have "exec = pr_Plan p" "canApply (pr_Plan p)"
        using sel ok by (auto simp: resolveStepSelection_def approved_whole p)
      then show ?thesis
        using whole_plan_clear [OF assms(4) s(1) [unfolded \<open>exec = pr_Plan p\<close> again [unfolded p True [symmetric]]]] free again p True by simp
    next
      case (Some xs)
      have "s \<in> set (pl_Steps (pr_Plan p)) \<and> ch_Grade (ps_Change s) \<noteq> Refused \<and> \<not> ps_Blocked s"
        by (rule approved_steps(3) [OF ok [unfolded p] free s])
      moreover have "pl_Steps (pr_Plan p) = pl_Steps (planScoped E sub (pr_Artifact p) (pr_Prune p) False (sd_Stores db tenant))"
        using again p True by simp
      ultimately show ?thesis
        by (intro single_step_clear [OF assms(4)]) (use assms(3) Some in auto)
    qed
    then show ?thesis
      using plan_execution_keeps [OF run [unfolded p True [symmetric]] assms(4,5)] sound_validates db' True by auto
  qed
qed


lemma titled_once: "declares_once titled_art"
  by (simp add: declares_once_def titled_arts)

lemma filed_get: "GetSchemaProposal ''t1'' ''p1'' (sd_Proposals filed_db) = Inr filed_proposal"
  by (simp add: filed_db_def GetSchemaProposal_def is_proposal_def filed_proposal_def)

theorem approved_steps_keep_entries_legal_witness:
  "store_sound plain_env (sd_Stores decided_db ''t1'') \<and> sd_Stores decided_db ''t1'' = titled_store"
proof -
  have a: "pr_Artifact filed_proposal = titled_art" "sd_Stores filed_db ''t1'' = post_store"
    by (simp_all add: filed_proposal_def filed_db_def)
  show ?thesis
    using approved_steps_keep_entries_legal [OF label_approved [of undefined] filed_get] post_sound post_full titled_once
    by (simp add: a) (simp add: decided_db_def)
qed

section \<open>A proposal is decided once\<close>

text \<open>
  What happens to the table: filings, the last statements of approvals and rejections, whatever
  they read before, and schema changes.  An approval prepared at any earlier moment, from any
  state, is among them.
\<close>

inductive proposal_step :: "env \<Rightarrow> schema_db \<Rightarrow> schema_db \<Rightarrow> bool" for E where
  filed: "ProposeSchema E allow ctx art prune now created newID db = Inr (dto, db', notice) \<Longrightarrow> proposal_step E db db'"
| approved: "commit_approval i now a db = Inr (plan, db') \<Longrightarrow> proposal_step E db db'"
| rejected: "DecideSchemaProposal tenant i ProposalRejected who now None (sd_Proposals db) = Some ps \<Longrightarrow>
    proposal_step E db (db\<lparr>sd_Proposals := ps\<rparr>)"
| schema: "proposal_step E db (db\<lparr>sd_Stores := stores\<rparr>)"

definition ids_unique :: "schema_db \<Rightarrow> bool" where
  "ids_unique db \<longleftrightarrow> distinct (map pr_ID (sd_Proposals db))"

lemma decided_ids: "map pr_ID (map (\<lambda>p. if decidable tenant i now p then decided status who now applied p else p) ps) = map pr_ID ps"
  by (induction ps) (auto simp: decided_def)

lemma decide_keeps:
  assumes "DecideSchemaProposal tenant i status who now applied ps = Some ps'"
  shows "map pr_ID ps' = map pr_ID ps" and "p \<in> set ps \<Longrightarrow> pr_Status p \<noteq> ProposalPending \<Longrightarrow> p \<in> set ps'"
proof -
  have ps': "ps' = map (\<lambda>p. if decidable tenant i now p then decided status who now applied p else p) ps"
    using assms by (auto simp: DecideSchemaProposal_def split: if_splits)
  show "map pr_ID ps' = map pr_ID ps" unfolding ps' by (rule decided_ids)
  show "p \<in> set ps \<Longrightarrow> pr_Status p \<noteq> ProposalPending \<Longrightarrow> p \<in> set ps'"
    unfolding ps' by (force simp: decidable_def)
qed

lemma commit_decides:
  assumes "commit_approval i now a db = Inr (plan, db')"
  shows "DecideSchemaProposal (TenantID (ap_Sub a)) i ProposalApproved (UserID (ap_Sub a)) now
      (if ap_Applied a = [] then None else Some (ap_Applied a)) (sd_Proposals db) = Some (sd_Proposals db')"
  using assms by (auto simp: commit_approval_def Let_def split: option.splits)

lemma proposed_row:
  assumes "ProposeSchema E allow ctx art prune now created newID db = Inr (dto, db', notice)"
  obtains row where "sd_Proposals db' = sd_Proposals db @ [row]" and "pr_ID row \<notin> pr_ID ` set (sd_Proposals db)"
proof -
  obtain sub where "authorizeArtifact allow ctx ''content:schema:propose'' ''collection'' (map at_Name (Types art)) = Inr sub"
    using assms unfolding ProposeSchema_def by auto
  moreover obtain who kind agent where "provenanceOf sub = (who, kind, agent)" by (cases "provenanceOf sub")
  ultimately show thesis
    using assms that by (cases who) (auto simp: ProposeSchema_def CreateSchemaProposal_def Let_def)
qed

lemma proposal_step_keeps:
  assumes "proposal_step E db db'" and "ids_unique db"
  shows "ids_unique db' \<and> (\<forall>p \<in> set (sd_Proposals db). pr_Status p \<noteq> ProposalPending \<longrightarrow> p \<in> set (sd_Proposals db'))"
  using assms
proof (cases rule: proposal_step.cases)
  case (filed allow ctx art prune now created newID dto notice)
  then show ?thesis using assms(2) by (elim proposed_row) (auto simp: ids_unique_def)
next
  case (approved i now a plan)
  then show ?thesis using assms(2) decide_keeps [OF commit_decides] by (simp add: ids_unique_def)
next
  case (rejected tenant i who now ps)
  then show ?thesis using assms(2) decide_keeps by (simp add: ids_unique_def)
next
  case (schema stores)
  then show ?thesis using assms(2) by (simp add: ids_unique_def)
qed

lemma proposal_history_keeps:
  assumes "(proposal_step E)\<^sup>*\<^sup>* db db'" and "ids_unique db" and "p \<in> set (sd_Proposals db)" and "pr_Status p \<noteq> ProposalPending"
  shows "ids_unique db' \<and> p \<in> set (sd_Proposals db')"
  using assms by (induction rule: rtranclp_induct) (auto dest: proposal_step_keeps)

lemma decided_stays_decided:
  assumes "p \<in> set (sd_Proposals db)" and "pr_ID p = i" and "pr_Status p \<noteq> ProposalPending" and "ids_unique db"
  shows "DecideSchemaProposal tenant i status who now applied (sd_Proposals db) = None"
proof -
  have "\<not> decidable tenant i now p'" if "p' \<in> set (sd_Proposals db)" for p'
    using assms that by (auto simp: decidable_def is_proposal_def ids_unique_def distinct_map inj_on_def)
  then show ?thesis by (simp add: DecideSchemaProposal_def filter_empty_conv)
qed

lemma decided_row:
  assumes d: "DecideSchemaProposal tenant i status who now applied ps = Some ps'"
  obtains p where "p \<in> set ps" and "decidable tenant i now p" and "decided status who now applied p \<in> set ps'"
proof -
  have ps': "ps' = map (\<lambda>p. if decidable tenant i now p then decided status who now applied p else p) ps"
    using d by (auto simp: DecideSchemaProposal_def split: if_splits)
  from d obtain p where "p \<in> set ps" "decidable tenant i now p"
    by (fastforce simp: DecideSchemaProposal_def filter_empty_conv split: if_splits)
  moreover then have "decided status who now applied p \<in> set ps'" unfolding ps' by force
  ultimately show thesis using that by blast
qed

text \<open>
  The two decisions, as the transaction that commits them: what it makes of the row, and the
  tables it leaves.
\<close>

definition proposal_decision :: "string \<Rightarrow> uuid \<Rightarrow> nat \<Rightarrow> (proposal \<Rightarrow> proposal) \<Rightarrow> schema_db \<Rightarrow> schema_db \<Rightarrow> bool" where
  "proposal_decision tenant i now wr db db' \<longleftrightarrow>
     (\<exists>a plan. commit_approval i now a db = Inr (plan, db') \<and> TenantID (ap_Sub a) = tenant \<and>
        wr = decided ProposalApproved (UserID (ap_Sub a)) now (if ap_Applied a = [] then None else Some (ap_Applied a))) \<or>
     (\<exists>who ps. DecideSchemaProposal tenant i ProposalRejected who now None (sd_Proposals db) = Some ps \<and>
        db' = db\<lparr>sd_Proposals := ps\<rparr> \<and> wr = decided ProposalRejected who now None)"

lemma decision_step: "proposal_decision tenant i now wr db db' \<Longrightarrow> proposal_step E db db'"
  by (auto simp: proposal_decision_def intro: proposal_step.approved proposal_step.rejected)

lemma decision_row:
  assumes "proposal_decision tenant i now wr db db'"
  obtains p where "p \<in> set (sd_Proposals db)" and "decidable tenant i now p" and "wr p \<in> set (sd_Proposals db')"
    and "pr_Status (wr p) \<noteq> ProposalPending" and "pr_ID (wr p) = i"
proof -
  have written: "pr_Status (decided st who now ap p) \<noteq> ProposalPending \<and> pr_ID (decided st who now ap p) = i"
    if "st \<in> {ProposalApproved, ProposalRejected}" "decidable tenant i now p" for st who ap p
    using that by (auto simp: decided_def ProposalApproved_def ProposalRejected_def ProposalPending_def decidable_def is_proposal_def)
  from assms show thesis
    unfolding proposal_decision_def
  proof (elim disjE exE conjE)
    fix a plan
    assume c: "commit_approval i now a db = Inr (plan, db')" and t: "TenantID (ap_Sub a) = tenant"
      and w: "wr = decided ProposalApproved (UserID (ap_Sub a)) now (if ap_Applied a = [] then None else Some (ap_Applied a))"
    from decided_row [OF commit_decides [OF c]] t obtain p where
      "p \<in> set (sd_Proposals db)" "decidable tenant i now p" "wr p \<in> set (sd_Proposals db')" unfolding w by metis
    with written that show thesis unfolding w by blast
  next
    fix who ps
    assume d: "DecideSchemaProposal tenant i ProposalRejected who now None (sd_Proposals db) = Some ps"
      and db': "db' = db\<lparr>sd_Proposals := ps\<rparr>" and w: "wr = decided ProposalRejected who now None"
    from decided_row [OF d] obtain p where
      "p \<in> set (sd_Proposals db)" "decidable tenant i now p" "wr p \<in> set (sd_Proposals db')" unfolding w db' by auto
    with written that show thesis unfolding w by blast
  qed
qed

text \<open>C27: A proposal is decided at most once.  After its first decision, an approval or a rejection,
  has committed, whatever history of filings, decisions and schema changes follows, its row is
  still there as that decision wrote it, and no decision of it commits any more: an approval, however
  early it was prepared, is refused as already decided, and with it the schema changes of its
  transaction; a rejection is refused the same way.
\<close>

theorem a_proposal_is_decided_once:
  assumes "proposal_decision tenant i now wr db db1" and "ids_unique db" and "(proposal_step E)\<^sup>*\<^sup>* db1 db2"
  shows "(\<exists>p. p \<in> set (sd_Proposals db) \<and> decidable tenant i now p \<and> wr p \<in> set (sd_Proposals db2)) \<and>
    commit_approval i later a db2 = Inl (AppError ErrProposalDecided) \<and>
    DecideSchemaProposal tenant' i ProposalRejected who later None (sd_Proposals db2) = None"
proof -
  obtain p where p: "p \<in> set (sd_Proposals db)" "decidable tenant i now p" "wr p \<in> set (sd_Proposals db1)"
    and row: "pr_Status (wr p) \<noteq> ProposalPending" "pr_ID (wr p) = i"
    using decision_row [OF assms(1)] by blast
  have "ids_unique db1" using proposal_step_keeps [OF decision_step [OF assms(1)] assms(2)] by blast
  from proposal_history_keeps [OF assms(3) this p(3) row(1)]
  have db2: "ids_unique db2" "wr p \<in> set (sd_Proposals db2)" by simp_all
  have none: "DecideSchemaProposal tenant i status who now' applied (sd_Proposals db2) = None" for tenant status who now' applied
    by (rule decided_stays_decided [OF db2(2) row(2,1) db2(1)])
  then show ?thesis using p db2(2) by (auto simp: commit_approval_def Let_def)
qed

definition rejected_db :: schema_db where
  "rejected_db = filed_db\<lparr>sd_Proposals :=
     map (decided ProposalRejected ''u2'' 10 None) (sd_Proposals filed_db)\<rparr>"

text \<open>After a rejection an approval prepared before is refused; after an approval both are.\<close>

theorem a_proposal_is_decided_once_witness:
  "commit_approval ''p1'' 10 label_approval filed_db = Inr (label_plan, decided_db) \<and>
   commit_approval ''p1'' 11 label_approval decided_db = Inl (AppError ErrProposalDecided) \<and>
   DecideSchemaProposal ''t1'' ''p1'' ProposalRejected ''u2'' 10 None (sd_Proposals filed_db) = Some (sd_Proposals rejected_db) \<and>
   commit_approval ''p1'' 11 label_approval rejected_db = Inl (AppError ErrProposalDecided)"
proof -
  have u: "ids_unique filed_db" by (simp add: ids_unique_def filed_db_def)
  have r: "DecideSchemaProposal ''t1'' ''p1'' ProposalRejected ''u2'' 10 None (sd_Proposals filed_db) = Some (sd_Proposals rejected_db)"
    by (simp add: DecideSchemaProposal_def rejected_db_def filed_db_def decidable_def is_proposal_def filed_proposal_def
        ProposalPending_def)
  then have "proposal_decision ''t1'' ''p1'' 10 (decided ProposalRejected ''u2'' 10 None) filed_db rejected_db"
    unfolding proposal_decision_def by (auto simp: rejected_db_def)
  note after_rejection = a_proposal_is_decided_once [OF this u rtranclp.rtrancl_refl, of 11 label_approval]
  have "\<exists>wr. proposal_decision (TenantID (ap_Sub label_approval)) ''p1'' 10 wr filed_db decided_db"
    unfolding proposal_decision_def using label_committed by blast
  then obtain wr where "proposal_decision (TenantID (ap_Sub label_approval)) ''p1'' 10 wr filed_db decided_db" ..
  note after_approval = a_proposal_is_decided_once [OF this u rtranclp.rtrancl_refl, of 11 label_approval]
  show ?thesis using label_committed r after_rejection after_approval by blast
qed

section \<open>One approved change of a field carries the others\<close>

lemma execute_unskipped:
  "execute E q allow ctx art steps st = execute E q allow ctx art (filter (\<lambda>s. \<not> ps_Skipped s) steps) st"
proof (induction steps arbitrary: st)
  case (Cons s steps)
  have "execute E q allow ctx art steps = execute E q allow ctx art (filter (\<lambda>s. \<not> ps_Skipped s) steps)"
    by (rule ext) (rule Cons.IH)
  then show ?case by (cases "ps_Skipped s") (simp_all add: Let_def)
qed simp

lemma filter_by_index: "filter P xs = map ((!) xs) (filter (\<lambda>i. P (xs ! i)) [0..<length xs])"
  by (metis (no_types, lifting) filter_cong filter_map comp_apply map_nth)

lemma filter_one_index: "k < n \<Longrightarrow> filter (\<lambda>i. i = k) [0..<n] = [k]"
  by (induction n) (auto simp: less_Suc_eq)

lemma single_selection:
  assumes "approved_plan plan (Some [k]) = Inr (exec, applied)" and "k < length (pl_Steps plan)"
  shows "filter (\<lambda>s. \<not> ps_Skipped s) (pl_Steps exec) = [pl_Steps plan ! k]" and "applied = [k]"
proof -
  note sel = approved_selection [OF assms(1)]
  have "filter (\<lambda>i. \<not> ps_Skipped (pl_Steps exec ! i)) [0..<length (pl_Steps exec)] = filter (\<lambda>i. i = k) [0..<length (pl_Steps plan)]"
    unfolding sel(1) by (rule filter_cong [OF refl]) (use sel(2,3) in \<open>auto simp: offending_def\<close>)
  then show "filter (\<lambda>s. \<not> ps_Skipped s) (pl_Steps exec) = [pl_Steps plan ! k]"
    using sel(2) [OF assms(2)] by (simp add: filter_by_index [of _ "pl_Steps exec"] filter_one_index [OF assms(2)])
  show "applied = [k]" using sel(4) by (simp add: filter_one_index [OF assms(2)])
qed

definition live_field :: "store \<Rightarrow> string \<Rightarrow> string \<Rightarrow> field option" where
  "live_field st n key = (case GetContentTypeByName st n of Inl _ \<Rightarrow> None | Inr row \<Rightarrow> FieldByKey (ct_Fields (row_Type row)) key)"

lemma field_replaced:
  assumes "FieldByKey fs key = Some f" and "Key g = key" shows "FieldByKey (withFieldAt key g fs) key = Some g"
  using assms by (induction fs) (auto simp: FieldByKey_def withFieldAt_def split: if_splits)

text \<open>What an update that sends every attribute leaves: the field of the artifact.\<close>

definition field_carried :: "artifact_field \<Rightarrow> field \<Rightarrow> bool" where
  "field_carried f g \<longleftrightarrow>
     f_Label (attrs g) = TrimSpace (f_Label f) \<and> f_Description (attrs g) = TrimSpace (f_Description f) \<and>
     Required g = f_Required f \<and> Constraints g = normalizeConstraints (f_Constraints f) \<and>
     (f_Type f = FieldTypeEnum \<longrightarrow> EnumValues g = f_EnumValues f) \<and>
     (f_Type f = FieldTypeDynamicZone \<longrightarrow>
        normalizeZoneComponents (f_Key f) (Type g) (f_ZoneComponents f) = Inr (ZoneComponents g)) \<and>
     normalizeRoles (f_Key f) (f_ReadRoles f) = Inr (ReadRoles g) \<and>
     normalizeRoles (f_Key f) (f_WriteRoles f) = Inr (WriteRoles g)"

lemma next_constraints_all: "next_constraints (field_update f) c = normalizeConstraints (f_Constraints f)"
  by (cases "f_Constraints f") (simp add: next_constraints_def field_update_def opt_set_def)

lemma field_update_touches: "touches_constraints (field_update f)"
  by (simp add: touches_constraints_def field_update_def)

lemma update_texts_sent:
  assumes "update_enum E es key (field_update f) (update_texts (field_update f) h) = Inr f1"
  shows "Key f1 = Key h \<and> Type f1 = Type h \<and> f_Label (attrs f1) = TrimSpace (f_Label f) \<and>
    f_Description (attrs f1) = TrimSpace (f_Description f) \<and> (f_Type f = FieldTypeEnum \<longrightarrow> EnumValues f1 = f_EnumValues f)"
  using assms by (auto simp: update_enum_def update_texts_def field_update_def opt_set_def Let_def split: if_splits)

lemma update_zone_sent:
  assumes "update_zone st es key (field_update f) h = Inr f2"
  shows "attrs f2 = (attrs h)\<lparr>f_ZoneComponents := ZoneComponents f2\<rparr> \<and>
    (f_Type f = FieldTypeDynamicZone \<longrightarrow> normalizeZoneComponents key (Type h) (f_ZoneComponents f) = Inr (ZoneComponents f2))"
  using assms by (auto simp: update_zone_def field_update_def split: if_splits)

lemma update_required_sent:
  assumes "update_required es key (field_update f) h = Inr f3"
  shows "attrs f3 = (attrs h)\<lparr>f_Required := f_Required f\<rparr>"
  using assms by (auto simp: update_required_def field_update_def Let_def)

lemma update_constraints_sent:
  assumes "update_constraints E es key (field_update f) h = Inr f4"
  shows "attrs f4 = (attrs h)\<lparr>f_Constraints := normalizeConstraints (f_Constraints f)\<rparr>"
  using assms field_update_touches [of f] by (auto simp: update_constraints_def Let_def next_constraints_all)

lemma update_roles_sent:
  assumes "update_roles key (field_update f) h = Inr f5"
  shows "attrs f5 = (attrs h)\<lparr>f_ReadRoles := ReadRoles f5, f_WriteRoles := WriteRoles f5\<rparr> \<and>
    normalizeRoles key (f_ReadRoles f) = Inr (ReadRoles f5) \<and> normalizeRoles key (f_WriteRoles f) = Inr (WriteRoles f5)"
  using assms by (auto simp: update_roles_def field_update_def)

lemma UpdateField_stored:
  assumes "UpdateField E a w n (f_Key f) (field_update f) st = Inr st'"
  shows "\<exists>g. live_field st' n (f_Key f) = Some g \<and> field_carried f g"
proof -
  let ?key = "f_Key f" and ?i = "field_update f"
  obtain row h f1 f2 f3 f4 f5 where row: "GetContentTypeByName st n = Inr row"
    and f: "FieldByKey (ct_Fields (row_Type row)) ?key = Some h"
    and s: "update_enum E (row_Entries row) ?key ?i (update_texts ?i h) = Inr f1" "update_zone st (row_Entries row) ?key ?i f1 = Inr f2"
      "update_required (row_Entries row) ?key ?i f2 = Inr f3" "update_constraints E (row_Entries row) ?key ?i f3 = Inr f4"
      "update_roles ?key ?i f4 = Inr f5"
    and st': "st' = update_row n (set_fields (withFieldAt (Key f5) f5 (ct_Fields (row_Type row)))) st"
    using assms unfolding UpdateField_def by (auto split: option.splits)
  note 1 = update_texts_sent [OF s(1)] and 2 = update_zone_sent [OF s(2)] and 3 = update_required_sent [OF s(3)]
    and 4 = update_constraints_sent [OF s(4)] and 5 = update_roles_sent [OF s(5)]
  have "Key f5 = Key f4" "Key f4 = Key f3" "Key f3 = Key f2" "Key f2 = Key f1"
    by (subst 5 [THEN conjunct1], simp) (subst 4, simp, subst 3, simp, subst 2 [THEN conjunct1], simp)
  moreover have "Key h = ?key" using FieldByKey_Some [OF f] by simp
  ultimately have k: "Key f5 = ?key" using 1 by simp
  have "live_field st' n ?key = Some f5"
    using row_after_update [OF row, of "set_fields (withFieldAt (Key f5) f5 (ct_Fields (row_Type row)))"] field_replaced [OF f k]
    by (simp add: live_field_def st' k set_fields_def)
  moreover have at: "attrs f5 = (attrs f1)\<lparr>f_ZoneComponents := ZoneComponents f2, f_Required := f_Required f,
      f_Constraints := normalizeConstraints (f_Constraints f), f_ReadRoles := ReadRoles f5, f_WriteRoles := WriteRoles f5\<rparr>"
    using 2 3 4 5 by metis
  have "f_Label (attrs f5) = f_Label (attrs f1)" "f_Description (attrs f5) = f_Description (attrs f1)"
    "Required f5 = f_Required f" "Constraints f5 = normalizeConstraints (f_Constraints f)" "EnumValues f5 = EnumValues f1"
    "Type f5 = Type f1" "ZoneComponents f5 = ZoneComponents f2"
    using arg_cong [OF at, of f_Label] arg_cong [OF at, of f_Description] arg_cong [OF at, of f_Required]
      arg_cong [OF at, of f_Constraints] arg_cong [OF at, of f_EnumValues] arg_cong [OF at, of f_Type]
      arg_cong [OF at, of f_ZoneComponents] by simp_all
  then have "field_carried f f5" using 1 2 5 by (simp add: field_carried_def)
  ultimately show ?thesis by blast
qed

text \<open>
  C28: Approving one change of a field applies all of them.  The executor sends every attribute
  of the artifact's field whichever change of it a step stands for, so an approval of a single
  step, say a new label, sets the description, whether the field is required, its constraints, its
  enum values, the components of a zone and which roles may read and write it as the artifact has
  them, although the steps for those were not selected, and reports only the one step as applied.
\<close>

theorem one_approved_change_applies_the_whole_field:
  assumes "ApproveSchemaProposal E q allow ctx i (Some [int k]) now db = Inr (plan, db')"
    and "GetSchemaProposal tenant i (sd_Proposals db) = Inr p" and "map_option TenantID ctx = Some tenant"
    and "c = ps_Change (pl_Steps (pr_Plan p) ! k)" and "ch_Op c = OpUpdateField" and "ch_Component c = []"
    and "declared_type (pr_Artifact p) (ch_Type c) = t" and "fieldOf (at_Fields t) (ch_Field c) = Some f"
  shows "pl_AppliedSteps plan = [k] \<and>
    (\<exists>g. live_field (sd_Stores db' tenant) (at_Name t) (f_Key f) = Some g \<and> field_carried f g)"
proof -
  obtain sub p' selected exec st' ps where
    sub: "authorize allow ctx ''content:schema:write'' ''collection'' [] = Inr sub"
    and p': "GetSchemaProposal (TenantID sub) i (sd_Proposals db) = Inr p'"
    and sel: "resolveStepSelection (pr_Plan p') (Some [int k]) = Inr selected"
    and ok: "approved_plan (pr_Plan p') selected = Inr (exec, pl_AppliedSteps plan)"
    and run: "execute E q allow ctx (pr_Artifact p') (pl_Steps exec) (sd_Stores db (TenantID sub)) = Inr st'"
    and db': "db' = db\<lparr>sd_Stores := (sd_Stores db)(TenantID sub := st'), sd_Proposals := ps\<rparr>"
    using assms(1) by (rule approvalE)
  have "ctx = Some sub" using sub by (auto simp: authorize_def authorizeAgentScope_def split: option.splits if_splits)
  then have t: "TenantID sub = tenant" using assms(3) by simp
  then have p: "p' = p" using p' assms(2) by simp
  have k: "selected = Some [k]" "k < length (pl_Steps (pr_Plan p))"
    using selected_steps [OF sel] p by auto
  note one = single_selection [OF ok [unfolded p k(1)] k(2)]
  have "\<not> ps_Skipped (pl_Steps (pr_Plan p) ! k)"
    using approved_selection(3) [OF ok [unfolded p k(1)] k(2)] by (simp add: offending_def)
  then have "UpdateField_as E allow ctx (at_Name t) (f_Key f) (field_update f) (sd_Stores db tenant) = Inr st'"
    using run assms(4-8) unfolding execute_unskipped [of _ _ _ _ _ "pl_Steps exec"] p one t
    by (auto simp: Let_def executeTypeStep_def)
  then have "UpdateField E True True (at_Name t) (f_Key f) (field_update f) (sd_Stores db tenant) = Inr st'"
    by (auto simp: UpdateField_as_def)
  from UpdateField_stored [OF this] one(2) show ?thesis by (simp add: db' t)
qed


theorem one_approved_change_applies_the_whole_field_witness:
  "pl_AppliedSteps label_plan = [0] \<and> ch_Detail (ps_Change (titled_steps ! 0)) = DFmt ''label %q -> %q'' [DStr [], DStr ''T''] \<and>
   map_option ReadRoles (live_field (sd_Stores filed_db ''t1'') ''post'' ''title'') = Some [] \<and>
   map_option ReadRoles (live_field (sd_Stores decided_db ''t1'') ''post'' ''title'') = Some [''editor'']"
proof -
  have p: "pr_Artifact filed_proposal = titled_art" "pr_Plan filed_proposal = plan_of titled_steps"
    "pl_Steps (plan_of titled_steps) = titled_steps" by (simp_all add: filed_proposal_def plan_of_def)
  let ?c = "ps_Change (titled_steps ! 0)"
  have c: "ch_Op ?c = OpUpdateField" "ch_Component ?c = []" "ch_Type ?c = ''post''" "ch_Field ?c = ''title''"
    by (simp_all add: titled_steps_def text_change_def field_change_def change0_def)
  have f: "fieldOf (at_Fields (declared_type titled_art ''post'')) ''title'' = Some (attrs titled_field)"
    by (simp add: titled_declared fieldOf_def titled_key)
  have "f_ReadRoles (attrs titled_field) = [''editor'']" by (simp add: titled_field_def)
  then have "map_option ReadRoles (live_field (sd_Stores decided_db ''t1'') ''post'' ''title'') = Some [''editor'']"
    "pl_AppliedSteps label_plan = [0]"
    using one_approved_change_applies_the_whole_field [OF _ filed_get _ _ c(1,2), of plain_env undefined
        "\<lambda>_ _. None" "Some sample_subject" 0 10 label_plan decided_db _ "attrs titled_field"]
      label_approved f
    by (auto simp: p c titled_declared titled_key titled_roles sample_subject_def field_carried_def)
  moreover have "live_field (sd_Stores filed_db ''t1'') ''post'' ''title'' = Some (string_field ''title'' True)"
    by (simp add: live_field_def filed_db_def post_store_def sample_simps)
  ultimately show ?thesis
    by (simp add: titled_steps_def text_change_def field_change_def type_change_def change0_def string_field_simps)
qed

section \<open>An agent's plan and the components of zones\<close>

definition creates_component :: "string \<Rightarrow> plan_step \<Rightarrow> bool" where
  "creates_component n s \<longleftrightarrow> ch_Op (ps_Change s) = OpCreateComponent \<and> ch_Component (ps_Change s) = n"

lemma plan_changes:
  "map ps_Change (pl_Steps (planScoped E sub art prune narrow st)) =
     DiffSchemas E (NewSchemaArtifact (map row_Type (plan_rows sub narrow st))
       (if narrow then componentsReferencedBy sub (plan_rows sub narrow st) (st_Components st) else st_Components st)) art"
proof -
  have "map ps_Change (map (plan_one E st sub rows comps art prune) cs) = cs" for rows comps cs
    by (simp add: comp_def)
  then show ?thesis by (simp only: planScoped_def plan_of_def plan_rows_def Let_def plan_result.simps)
qed

lemma step_of_change:
  "list_ex (creates_component n) (pl_Steps (planScoped E sub art prune narrow st)) \<longleftrightarrow>
     (\<exists>ch \<in> set (map ps_Change (pl_Steps (planScoped E sub art prune narrow st))).
        ch_Op ch = OpCreateComponent \<and> ch_Component ch = n)"
  by (auto simp: list_ex_iff creates_component_def)

lemma indexed_components: "indexComponents (NewSchemaArtifact cts comps) n = None \<longleftrightarrow> n \<notin> cp_Name ` set comps"
  by (auto simp: indexComponents_def NewSchemaArtifact_def artifact_component_of_def image_image)

lemma create_change_listed:
  assumes "c \<in> set (Components to)" and "indexComponents from (ac_Name c) = None"
  shows "\<exists>ch \<in> set (DiffSchemas E from to). ch_Op ch = OpCreateComponent \<and> ch_Component ch = ac_Name c"
proof -
  obtain ch where ch: "ch \<in> set (createComponentChanges E c)" "ch_Op ch = OpCreateComponent" "ch_Component ch = ac_Name c"
    by (rule that [of "hd (createComponentChanges E c)"])
      (simp_all add: createComponentChanges_def Let_def comp_change_def change0_def)
  then have "ch \<in> set (component_changes E from to)" using assms by (force simp: component_changes_def)
  then show ?thesis using ch(2,3) unfolding DiffSchemas_def withRenameHints_def set_map
    by (intro bexI [OF _ imageI [of ch]]) auto
qed

lemma diffField_creates: "ch \<in> set (diffField E t from to) \<Longrightarrow> ch_Op ch \<noteq> OpCreateComponent"
  by (simp add: diffField_op)

lemma diffType_op: "ch \<in> set (diffType E from to declared) \<Longrightarrow> ch_Op ch \<noteq> OpCreateComponent"
  by (auto simp: diffType_def roles_change_def own_only_change_def delete_field_changes_def List.map_filter_def Let_def
      addFieldChange_shape dest: diffField_creates split: if_splits option.splits)

lemma type_changes_op: "ch \<in> set (type_changes E from to) \<Longrightarrow> ch_Op ch \<noteq> OpCreateComponent"
  using diffType_op by (auto simp: type_changes_def Let_def addFieldChange_shape split: option.splits)

lemma create_change_source:
  assumes "ch \<in> set (DiffSchemas E from to)" and "ch_Op ch = OpCreateComponent"
  shows "indexComponents from (ch_Component ch) = None"
proof -
  obtain adds dels c where c: "c \<in> set (component_changes E from to @ type_changes E from to @ type_deletions from to @ component_deletions from to)"
      "ch = hint_rename adds dels c"
    using assms(1) by (auto simp: DiffSchemas_def withRenameHints_def)
  have op: "ch_Op c = OpCreateComponent" using assms(2) c(2) by simp
  then have "c \<in> set (component_changes E from to)"
    using c(1) type_changes_op by (auto simp: type_deletions_def component_deletions_def List.map_filter_def split: if_splits)
  then obtain k where "c \<in> set (case indexComponents from (ac_Name k) of None \<Rightarrow> createComponentChanges E k | Some prev \<Rightarrow> diffComponent E prev k)"
    by (auto simp: component_changes_def)
  then have "indexComponents from (ac_Name k) = None \<and> c \<in> set (createComponentChanges E k)"
    using op diffComponent_op by (auto split: option.splits)
  then show ?thesis using op c(2) by (auto simp: createComponentChanges_def Let_def addComponentFieldChange_op split: if_splits)
qed

text \<open>An agent's plan reports existing components as new when only a dynamic zone embeds them.
  The components an agent may see are collected from the component fields of its types alone,
  so one that is listed in a zone counts as absent, and the plan of any artifact that declares
  it, the live schema itself included, creates it; a full plan of the same artifact does not.
\<close>

theorem zone_components_are_planned_as_new:
  assumes "IsAgent sub" and "c \<in> set (Components art)" and "ac_Name c \<in> cp_Name ` set (st_Components st)"
    and "\<forall>r \<in> set (st_Rows st). \<forall>f \<in> set (ct_Fields (row_Type r)). Type f = FieldTypeComponent \<longrightarrow> f_ComponentName (attrs f) \<noteq> ac_Name c"
  shows "list_ex (creates_component (ac_Name c)) (pl_Steps (planScoped E sub art prune True st)) \<and>
    \<not> list_ex (creates_component (ac_Name c)) (pl_Steps (planScoped E sub art prune False st))"
proof
  have "\<not> ac_Name c \<in> cp_Name ` set (componentsReferencedBy sub (plan_rows sub True st) (st_Components st))"
  proof
    assume "ac_Name c \<in> cp_Name ` set (componentsReferencedBy sub (plan_rows sub True st) (st_Components st))"
    then obtain r f where "r \<in> set (plan_rows sub True st)" "f \<in> set (ct_Fields (row_Type r))" "Type f = FieldTypeComponent"
        "f_ComponentName (attrs f) = ac_Name c"
      using assms(1) by (fastforce simp: componentsReferencedBy_def Let_def)
    moreover have "r \<in> set (st_Rows st)" using calculation(1) plan_rows_subset by blast
    ultimately show False using assms(4) by metis
  qed
  then show "list_ex (creates_component (ac_Name c)) (pl_Steps (planScoped E sub art prune True st))"
    unfolding step_of_change plan_changes
    by (intro create_change_listed [OF assms(2)]) (simp add: indexed_components)
  show "\<not> list_ex (creates_component (ac_Name c)) (pl_Steps (planScoped E sub art prune False st))"
  proof
    assume "list_ex (creates_component (ac_Name c)) (pl_Steps (planScoped E sub art prune False st))"
    then obtain ch where "ch \<in> set (DiffSchemas E (NewSchemaArtifact (map row_Type (plan_rows sub False st)) (st_Components st)) art)"
        "ch_Op ch = OpCreateComponent" "ch_Component ch = ac_Name c"
      unfolding step_of_change plan_changes if_False by blast
    then show False using create_change_source indexed_components assms(3) by metis
  qed
qed

text \<open>A type with one zone field, and the artifact exported from it.\<close>

definition zone_store :: store where
  "zone_store = \<lparr>st_Rows = [\<lparr>row_Type = \<lparr>ct_Name = ''post'', ct_Label = [],
      ct_Fields = [Field (zero_attrs\<lparr>f_Key := ''blocks'', f_Type := FieldTypeDynamicZone, f_ZoneComponents := [''card'']\<rparr>) []
        [(''card'', [string_field ''title'' True])]],
      ct_ReadRoles = [], ct_WriteRoles = [], ct_OwnOnlyRoles = []\<rparr>, row_Entries = []\<rparr>],
     st_Components = [card_component ''title'']\<rparr>"

theorem zone_components_are_planned_as_new_witness:
  "list_ex (creates_component ''card'') (pl_Steps (planScoped plain_env bot_subject
     (NewSchemaArtifact (map row_Type (st_Rows zone_store)) (st_Components zone_store)) False True zone_store))"
proof -
  have "IsAgent bot_subject" by (simp add: bot_subject_def IsAgent_def)
  then show ?thesis
    using zone_components_are_planned_as_new [of bot_subject "artifact_component_of (card_component ''title'')"
        "NewSchemaArtifact (map row_Type (st_Rows zone_store)) (st_Components zone_store)" zone_store plain_env False]
    by (simp add: zone_store_def NewSchemaArtifact_def artifact_component_of_def card_component_def field_type_defs)
qed

end
