(* ===== verification/Entry_Rendering.thy ===== *)
theory Entry_Rendering
  imports Entry_Permissions
begin

text \<open>
  An entry and the document a caller is shown of it: \<open>domain.Entry\<close>
  (\<open>domain/content.go\<close>), the projector \<open>ProjectEntry\<close> and the last gate before the wire,
  \<open>EntryDTO.MarshalJSON\<close> (\<open>service/dto.go\<close>).  The expanded relations a DTO may carry are
  opaque here: their type is a parameter of the record.
\<close>

section \<open>Entries\<close>

text \<open>
  A row of \<open>entries\<close>.  A NULL column is \<open>None\<close>; a timestamp is an instant.  The documents
  are jsonb values in the one form \<open>json.Marshal\<close> writes, \<open>canon\<close>.  The two search texts
  are columns no read of the row carries along.
\<close>

record entry_row =
  en_ID :: uuid
  en_TenantID :: string
  en_ContentTypeID :: uuid
  en_Payload :: json
  en_SearchText :: string
  en_Version :: nat
  en_Status :: string
  en_PublishedPayload :: "json option"
  en_PublishedSearchText :: string
  en_PublishedVersion :: "nat option"
  en_PublishedAt :: "int option"
  en_Locale :: string
  en_TranslationGroupID :: uuid
  en_CreatedBy :: "uuid option"
  en_UpdatedBy :: "uuid option"
  en_PublishedBy :: "uuid option"
  en_CreatedByKind :: string
  en_CreatedByAgent :: "string option"
  en_UpdatedByKind :: "string option"
  en_UpdatedByAgent :: "string option"
  en_CreatedAt :: int
  en_UpdatedAt :: int

primrec canon :: "json \<Rightarrow> json" where
  "canon JNull = JNull"
| "canon (JBool b) = JBool b"
| "canon (JNum f) = JNum f"
| "canon (JStr s) = JStr s"
| "canon (JArr xs) = JArr (map canon xs)"
| "canon (JObj d) = JObj (sort_key fst (map (map_prod (\<lambda>k. k) canon) d))"

definition IsPublished :: "entry_row \<Rightarrow> bool" where
  "IsPublished e \<longleftrightarrow> en_Status e = StatusPublished"

text \<open>\<open>unpublishedChangesExpr\<close>, which every path that returns a row computes.\<close>

definition HasUnpublishedChanges :: "entry_row \<Rightarrow> bool" where
  "HasUnpublishedChanges e \<longleftrightarrow> en_Status e = StatusPublished \<and> en_PublishedPayload e \<noteq> Some (en_Payload e)"

text \<open>\<open>scanEntry\<close> reads a NULL snapshot as no bytes and a NULL version as 0.\<close>

definition PublishedPayload :: "entry_row \<Rightarrow> raw_json" where
  "PublishedPayload e = (case en_PublishedPayload e of None \<Rightarrow> NoBytes | Some v \<Rightarrow> Text v)"

definition PublishedVersion :: "entry_row \<Rightarrow> nat" where
  "PublishedVersion e = (case en_PublishedVersion e of None \<Rightarrow> 0 | Some v \<Rightarrow> v)"

record entry_schedule =
  sc_ID :: uuid
  sc_TenantID :: string
  sc_EntryID :: uuid
  sc_ContentTypeID :: uuid
  sc_Action :: string
  sc_RunAt :: int
  sc_PinnedVersion :: nat
  sc_State :: string
  sc_RequestedBy :: uuid
  sc_CreatedAt :: int
  sc_ExecutedAt :: "int option"
  sc_Error :: string

record review_decision =
  rd_ID :: uuid
  rd_TenantID :: string
  rd_EntryID :: uuid
  rd_Decision :: string
  rd_Reason :: string
  rd_EntryVersion :: nat
  rd_DecidedBy :: uuid
  rd_DecidedAt :: int

section \<open>The document on the wire\<close>

record schedule_summary =
  ss_Action :: string
  ss_RunAt :: int
  ss_PinnedVersion :: nat
  ss_State :: string

record review_decision_dto =
  rdd_ID :: uuid
  rdd_Decision :: string
  rdd_Reason :: string
  rdd_EntryVersion :: nat
  rdd_DecidedBy :: uuid
  rdd_DecidedAt :: int

text \<open>\<open>entryWire\<close>: the exported fields of \<open>EntryDTO\<close>, the ones the encoder sees.\<close>

record 'rel entry_wire =
  w_ID :: uuid
  w_Type :: string
  w_Data :: raw_json
  w_Version :: nat
  w_Status :: string
  w_HasUnpublishedChanges :: bool
  w_Locale :: string
  w_TranslationGroupID :: uuid
  w_PublishedAt :: "int option"
  w_CreatedAt :: int
  w_UpdatedAt :: "int option"
  w_CreatedBy :: "uuid option"
  w_UpdatedBy :: "uuid option"
  w_PublishedBy :: "uuid option"
  w_CreatedByKind :: string
  w_CreatedByAgent :: "string option"
  w_UpdatedByKind :: "string option"
  w_UpdatedByAgent :: "string option"
  w_PublishedData :: raw_json
  w_HasHiddenChanges :: bool
  w_Related :: "'rel option"
  w_Schedule :: "schedule_summary option"
  w_ReviewDecision :: "review_decision_dto option"

record 'rel entry_dto =
  dto_wire :: "'rel entry_wire"
  dto_aud :: audience
  dto_hidden :: "string list"
  dto_project :: "string list"

section \<open>Projection\<close>

definition doc_of :: "raw_json \<Rightarrow> doc option" where
  "doc_of raw = map_option entries_of (as_map raw)"

text \<open>
  The comparison is of raw bytes per key; values read back from a jsonb column are in its
  one form, so equal text is equal value.
\<close>

definition hiddenKeysDiffer :: "raw_json \<Rightarrow> raw_json \<Rightarrow> string list \<Rightarrow> bool" where
  "hiddenKeysDiffer working published hidden =
     (if hidden = [] \<or> published = NoBytes \<or> working = NoBytes then False
      else case (doc_of working, doc_of published) of
             (Some w, Some p) \<Rightarrow> list_ex (\<lambda>k. map_of w k \<noteq> map_of p k) hidden
           | _ \<Rightarrow> True)"

definition shared_literal :: "content_type \<Rightarrow> entry_row \<Rightarrow> subject \<Rightarrow> 'rel entry_dto" where
  "shared_literal ct e sub =
     \<lparr>dto_wire =
        \<lparr>w_ID = en_ID e, w_Type = ct_Name ct, w_Data = Text (en_Payload e), w_Version = en_Version e,
         w_Status = en_Status e, w_HasUnpublishedChanges = False, w_Locale = en_Locale e,
         w_TranslationGroupID = en_TranslationGroupID e, w_PublishedAt = en_PublishedAt e,
         w_CreatedAt = en_CreatedAt e, w_UpdatedAt = Some (en_UpdatedAt e), w_CreatedBy = None,
         w_UpdatedBy = None, w_PublishedBy = None, w_CreatedByKind = [], w_CreatedByAgent = None,
         w_UpdatedByKind = None, w_UpdatedByAgent = None, w_PublishedData = NoBytes,
         w_HasHiddenChanges = False, w_Related = None, w_Schedule = None, w_ReviewDecision = None\<rparr>,
      dto_aud = audienceFor sub, dto_hidden = unreadableKeys (ct_Fields ct) sub, dto_project = []\<rparr>"

definition on_wire :: "('rel entry_wire \<Rightarrow> 'rel entry_wire) \<Rightarrow> 'rel entry_dto \<Rightarrow> 'rel entry_dto" where
  "on_wire g d = d\<lparr>dto_wire := g (dto_wire d)\<rparr>"

definition ProjectEntry :: "content_type \<Rightarrow> entry_row \<Rightarrow> subject \<Rightarrow> 'rel entry_dto" where
  "ProjectEntry ct e sub =
     (let dto = shared_literal ct e sub in
      case audienceFor sub of
        audienceDelivery \<Rightarrow>
          on_wire (\<lambda>w. w\<lparr>w_Data := (if PublishedPayload e = NoBytes then Text (JObj []) else PublishedPayload e),
                        w_Version := PublishedVersion e, w_UpdatedAt := None\<rparr>) dto
      | audiencePreview \<Rightarrow> dto
      | _ \<Rightarrow>
          on_wire (\<lambda>w. w\<lparr>w_HasUnpublishedChanges := HasUnpublishedChanges e,
                        w_CreatedBy := en_CreatedBy e, w_UpdatedBy := en_UpdatedBy e,
                        w_PublishedBy := en_PublishedBy e, w_CreatedByKind := en_CreatedByKind e,
                        w_CreatedByAgent := en_CreatedByAgent e, w_UpdatedByKind := en_UpdatedByKind e,
                        w_UpdatedByAgent := en_UpdatedByAgent e, w_PublishedData := PublishedPayload e,
                        w_HasHiddenChanges :=
                          hiddenKeysDiffer (Text (en_Payload e)) (PublishedPayload e) (dto_hidden dto)\<rparr>) dto)"

definition narrowedTo :: "string list \<Rightarrow> 'rel entry_dto \<Rightarrow> 'rel entry_dto" where
  "narrowedTo keys d = d\<lparr>dto_project := keys\<rparr>"

text \<open>The expansion map; the empty map is \<open>None\<close> here and adds nothing.\<close>

definition withRelated :: "'rel option \<Rightarrow> 'rel entry_dto \<Rightarrow> 'rel entry_dto" where
  "withRelated rel d = (if rel = None then d else on_wire (\<lambda>w. w\<lparr>w_Related := rel\<rparr>) d)"

definition withSchedule :: "entry_schedule option \<Rightarrow> 'rel entry_dto \<Rightarrow> 'rel entry_dto" where
  "withSchedule s d =
     (case s of
        None \<Rightarrow> d
      | Some sc \<Rightarrow>
          if dto_aud d \<noteq> audienceAdmin then d
          else on_wire (\<lambda>w. w\<lparr>w_Schedule := Some \<lparr>ss_Action = sc_Action sc, ss_RunAt = sc_RunAt sc,
                 ss_PinnedVersion = sc_PinnedVersion sc, ss_State = sc_State sc\<rparr>\<rparr>) d)"

definition projectReviewDecision :: "review_decision \<Rightarrow> review_decision_dto" where
  "projectReviewDecision r =
     \<lparr>rdd_ID = rd_ID r, rdd_Decision = rd_Decision r, rdd_Reason = rd_Reason r,
      rdd_EntryVersion = rd_EntryVersion r, rdd_DecidedBy = rd_DecidedBy r, rdd_DecidedAt = rd_DecidedAt r\<rparr>"

definition withReviewDecision :: "review_decision option \<Rightarrow> 'rel entry_dto \<Rightarrow> 'rel entry_dto" where
  "withReviewDecision r d =
     (case r of
        None \<Rightarrow> d
      | Some dec \<Rightarrow>
          if dto_aud d \<noteq> audienceAdmin \<or> rd_EntryVersion dec \<noteq> w_Version (dto_wire d) then d
          else on_wire (\<lambda>w. w\<lparr>w_ReviewDecision := Some (projectReviewDecision dec)\<rparr>) d)"

text \<open>
  \<open>MarshalJSON\<close>: an unset audience is refused, the fields that are not the audience's are
  cleared, and both documents lose the keys outside the projection and the hidden keys.
\<close>

definition clear_admin :: "'rel entry_wire \<Rightarrow> 'rel entry_wire" where
  "clear_admin w = w\<lparr>w_HasUnpublishedChanges := False, w_CreatedBy := None, w_UpdatedBy := None,
     w_PublishedBy := None, w_CreatedByKind := [], w_CreatedByAgent := None, w_UpdatedByKind := None,
     w_UpdatedByAgent := None, w_PublishedData := NoBytes, w_HasHiddenChanges := False,
     w_Schedule := None, w_ReviewDecision := None\<rparr>"

definition mask_with :: "string list \<Rightarrow> string list \<Rightarrow> raw_json \<Rightarrow> raw_json" where
  "mask_with ps hs raw = stripKeys (keepKeys raw ps) hs"

abbreviation masked :: "'rel entry_dto \<Rightarrow> raw_json \<Rightarrow> raw_json" where
  "masked d \<equiv> mask_with (dto_project d) (dto_hidden d)"

definition mask_documents :: "'rel entry_dto \<Rightarrow> 'rel entry_wire \<Rightarrow> 'rel entry_wire" where
  "mask_documents d w = w\<lparr>w_Data := masked d (w_Data w), w_PublishedData := masked d (w_PublishedData w)\<rparr>"

definition MarshalJSON :: "'rel entry_dto \<Rightarrow> go_error + 'rel entry_wire" where
  "MarshalJSON d =
     (let w = dto_wire d in
      case dto_aud d of
        audienceAdmin \<Rightarrow> Inr (mask_documents d w)
      | audienceDelivery \<Rightarrow> Inr (mask_documents d ((clear_admin w)\<lparr>w_UpdatedAt := None\<rparr>))
      | audiencePreview \<Rightarrow> Inr (mask_documents d ((clear_admin w)\<lparr>w_Related := None\<rparr>))
      | audienceUnset \<Rightarrow> Inl (PlainError ''content: entry has no audience''))"

section \<open>What a reader can learn\<close>

text \<open>
  Two documents that differ only under the keys \<open>ks\<close>, and two entries that differ only in
  what their documents hold there.
\<close>

definition agree_outside :: "string list \<Rightarrow> json \<Rightarrow> json \<Rightarrow> bool" where
  "agree_outside ks v w \<longleftrightarrow>
     (case (v, w) of (JObj d, JObj d') \<Rightarrow> without_keys ks d = without_keys ks d' | _ \<Rightarrow> v = w)"

fun snapshots_agree :: "string list \<Rightarrow> json option \<Rightarrow> json option \<Rightarrow> bool" where
  "snapshots_agree ks (Some v) (Some w) = agree_outside ks v w"
| "snapshots_agree ks v w = (v = w)"

definition differ_only_under :: "string list \<Rightarrow> entry_row \<Rightarrow> entry_row \<Rightarrow> bool" where
  "differ_only_under ks e e' \<longleftrightarrow>
     e' = e\<lparr>en_Payload := en_Payload e', en_PublishedPayload := en_PublishedPayload e',
            en_SearchText := en_SearchText e', en_PublishedSearchText := en_PublishedSearchText e'\<rparr> \<and>
     agree_outside ks (en_Payload e) (en_Payload e') \<and>
     snapshots_agree ks (en_PublishedPayload e) (en_PublishedPayload e')"

lemma mask_commutes: "without_keys hs (with_keys ps d) = with_keys ps (without_keys hs d)"
  by (simp add: without_keys_def with_keys_def conj_commute case_prod_beta)

lemma without_no_keys [simp]: "without_keys [] d = d"
  by (simp add: without_keys_def)

lemma agree_outside_nothing [simp]: "agree_outside [] v w \<longleftrightarrow> v = w"
  by (cases v; cases w) (auto simp: agree_outside_def)

lemma mask_with_object:
  "mask_with ps hs (Text (JObj x)) = Text (JObj (without_keys hs (if ps = [] then x else with_keys ps x)))"
  by (simp add: mask_with_def keepKeys_def stripKeys_def)

lemma mask_with_agree:
  assumes "agree_outside hs v w"
  shows "mask_with ps hs (Text v) = mask_with ps hs (Text w)"
proof (cases v; cases w)
  fix x y assume "v = JObj x" "w = JObj y"
  with assms have "without_keys hs x = without_keys hs y" by (simp add: agree_outside_def)
  then show ?thesis by (simp add: \<open>v = JObj x\<close> \<open>w = JObj y\<close> mask_with_object mask_commutes)
qed (use assms in \<open>simp_all add: agree_outside_def\<close>)

lemma mask_with_NoBytes [simp]: "mask_with ps hs NoBytes = NoBytes"
  by (simp add: mask_with_def keepKeys_def stripKeys_def)

lemma mask_with_snapshots:
  assumes "snapshots_agree hs s s'"
  shows "mask_with ps hs (case s of None \<Rightarrow> NoBytes | Some v \<Rightarrow> Text v) =
         mask_with ps hs (case s' of None \<Rightarrow> NoBytes | Some v \<Rightarrow> Text v)"
  using assms mask_with_agree by (cases s; cases s') auto

lemma dto_simps [simp]:
  "dto_hidden (ProjectEntry ct e sub) = unreadableKeys (ct_Fields ct) sub"
  "dto_project (ProjectEntry ct e sub) = []"
  "dto_aud (ProjectEntry ct e sub) = audienceFor sub"
  "dto_hidden (narrowedTo ps d) = dto_hidden d" "dto_aud (narrowedTo ps d) = dto_aud d"
  "dto_project (narrowedTo ps d) = ps" "dto_wire (narrowedTo ps d) = dto_wire d"
  by (simp_all add: ProjectEntry_def shared_literal_def on_wire_def narrowedTo_def Let_def split: audience.split)

lemma audienceFor_cases:
  "audienceFor sub = audienceAdmin \<longleftrightarrow> \<not> PublicDelivery sub"
  "audienceFor sub = audienceDelivery \<longleftrightarrow> PublicDelivery sub \<and> PreviewEntryID sub = None"
  "audienceFor sub = audiencePreview \<longleftrightarrow> PublicDelivery sub \<and> PreviewEntryID sub \<noteq> None"
  "audienceFor sub \<noteq> audienceUnset"
  by (simp_all add: audienceFor_def)

text \<open>The two flags that summarise whole documents for an editor.\<close>

definition without_flags :: "'rel entry_wire \<Rightarrow> 'rel entry_wire" where
  "without_flags w = w\<lparr>w_HasUnpublishedChanges := False, w_HasHiddenChanges := False\<rparr>"

definition render :: "content_type \<Rightarrow> subject \<Rightarrow> string list \<Rightarrow> entry_row \<Rightarrow> go_error + 'rel entry_wire" where
  "render ct sub ps e = MarshalJSON (narrowedTo ps (ProjectEntry ct e sub))"

lemma render_total: "\<exists>w. render ct sub ps e = Inr w"
  using audienceFor_cases(4) [of sub]
  by (cases "audienceFor sub") (simp_all add: render_def MarshalJSON_def Let_def)

lemmas wire_defs = render_def MarshalJSON_def Let_def ProjectEntry_def shared_literal_def on_wire_def
  mask_documents_def clear_admin_def

text \<open>
  The delivery audience reads the snapshot and nothing else of the row's two copies.
\<close>

definition public_part :: "entry_row \<Rightarrow> entry_row" where
  "public_part e = e\<lparr>en_Payload := JNull, en_SearchText := [], en_PublishedSearchText := [], en_Version := 0, en_UpdatedAt := 0, en_CreatedBy := None,
     en_UpdatedBy := None, en_PublishedBy := None, en_CreatedByKind := [], en_CreatedByAgent := None,
     en_UpdatedByKind := None, en_UpdatedByAgent := None\<rparr>"

lemma delivery_reads_public_part:
  assumes "audienceFor sub = audienceDelivery"
  shows "render ct sub ps e = render ct sub ps (public_part e)"
  using assms by (simp add: wire_defs public_part_def PublishedPayload_def PublishedVersion_def)

lemma delivery_snapshot_only:
  assumes "audienceFor sub = audienceDelivery" and "public_part e = public_part e'"
  shows "render ct sub ps e = render ct sub ps e'"
  using delivery_reads_public_part [OF assms(1)] assms(2) by metis

lemma PublishedPayload_NoBytes: "PublishedPayload e = NoBytes \<longleftrightarrow> en_PublishedPayload e = None"
  by (simp add: PublishedPayload_def split: option.split)

lemma snapshots_agree_None: "snapshots_agree ks s s' \<Longrightarrow> s = None \<longleftrightarrow> s' = None"
  by (cases s; cases s') auto

lemma differ_only_under_columns:
  "differ_only_under ks e e' \<Longrightarrow>
     en_ID e' = en_ID e \<and> en_Version e' = en_Version e \<and> en_Status e' = en_Status e \<and>
     en_PublishedVersion e' = en_PublishedVersion e \<and> en_PublishedAt e' = en_PublishedAt e \<and>
     en_Locale e' = en_Locale e \<and> en_TranslationGroupID e' = en_TranslationGroupID e \<and>
     en_CreatedBy e' = en_CreatedBy e \<and> en_UpdatedBy e' = en_UpdatedBy e \<and> en_PublishedBy e' = en_PublishedBy e \<and>
     en_CreatedByKind e' = en_CreatedByKind e \<and> en_CreatedByAgent e' = en_CreatedByAgent e \<and>
     en_UpdatedByKind e' = en_UpdatedByKind e \<and> en_UpdatedByAgent e' = en_UpdatedByAgent e \<and>
     en_CreatedAt e' = en_CreatedAt e \<and> en_UpdatedAt e' = en_UpdatedAt e"
  unfolding differ_only_under_def by (cases e; cases e') simp

section \<open>Properties\<close>

text \<open>
  C17: no reader learns a key hidden from it.  Replace whatever an entry's working copy and
  snapshot hold under the keys the caller may not read: the rendered document stays the
  same, byte for byte for a delivery or preview credential, and up to the two summary flags
  for an editor, under every \<open>?fields=\<close> narrowing.
\<close>

theorem hidden_keys_do_not_interfere:
  assumes "differ_only_under (unreadableKeys (ct_Fields ct) sub) e e'"
  shows "map_sum (\<lambda>err. err) without_flags (render ct sub ps e) =
         map_sum (\<lambda>err. err) without_flags (render ct sub ps e') \<and>
         (PublicDelivery sub \<longrightarrow> render ct sub ps e = render ct sub ps e')"
proof -
  let ?hs = "unreadableKeys (ct_Fields ct) sub"
  note cols = differ_only_under_columns [OF assms]
  have snap: "snapshots_agree ?hs (en_PublishedPayload e) (en_PublishedPayload e')"
    and work: "agree_outside ?hs (en_Payload e) (en_Payload e')"
    using assms by (auto simp: differ_only_under_def)
  have p: "mask_with ps ?hs (PublishedPayload e) = mask_with ps ?hs (PublishedPayload e')"
    using mask_with_snapshots [OF snap] by (simp add: PublishedPayload_def)
  have n: "PublishedPayload e = NoBytes \<longleftrightarrow> PublishedPayload e' = NoBytes"
    using snapshots_agree_None [OF snap] by (simp add: PublishedPayload_NoBytes)
  have w: "mask_with ps ?hs (Text (en_Payload e)) = mask_with ps ?hs (Text (en_Payload e'))"
    by (rule mask_with_agree [OF work])
  show ?thesis using audienceFor_cases [of sub] cols p n w
    by (cases "audienceFor sub")
      (simp_all add: wire_defs narrowedTo_def without_flags_def PublishedVersion_def)
qed

definition staff_entry :: "int \<Rightarrow> entry_row" where
  "staff_entry salary =
     \<lparr>en_ID = ''e1'', en_TenantID = ''t1'', en_ContentTypeID = ''c1'',
      en_Payload = JObj [(''salary'', JNum (Fin (of_int salary))), (''name'', JStr ''Ann'')],
      en_SearchText = [], en_Version = 2, en_Status = StatusPublished,
      en_PublishedPayload = Some (JObj [(''name'', JStr ''Ann'')]), en_PublishedSearchText = [],
      en_PublishedVersion = Some 2, en_PublishedAt = Some 5, en_Locale = ''en'', en_TranslationGroupID = ''g1'',
      en_CreatedBy = Some ''u1'', en_UpdatedBy = Some ''u1'', en_PublishedBy = Some ''u1'',
      en_CreatedByKind = ActorKindHuman, en_CreatedByAgent = None, en_UpdatedByKind = Some ActorKindHuman,
      en_UpdatedByAgent = None, en_CreatedAt = 1, en_UpdatedAt = 5\<rparr>"

theorem hidden_keys_do_not_interfere_witness:
  "map_sum (\<lambda>err. err) without_flags (render staff_type sample_subject [] (staff_entry 10) :: go_error + nat entry_wire) =
   map_sum (\<lambda>err. err) without_flags (render staff_type sample_subject [] (staff_entry 99))"
proof -
  have "differ_only_under (unreadableKeys (ct_Fields staff_type) sample_subject) (staff_entry 10) (staff_entry 99)"
    by (simp add: differ_only_under_def staff_entry_def staff_type_def unreadableKeys_def salary_field_def
        zero_attrs_def canReadField_def ReadableBy_def roleAllowed_def sample_subject_def agree_outside_def
        without_keys_def)
  from hidden_keys_do_not_interfere [OF this] show ?thesis by blast
qed

end
