(* ===== verification/Search_Text.thy ===== *)
theory Search_Text
  imports Entry_Permissions
begin

text \<open>
  The plain text an entry is searched by (\<open>domain/search.go\<close>) and the piece of it a search
  result shows (\<open>SnippetFor\<close> of \<open>service/search.go\<close>).  Strings are bytes; \<open>strings.ToLower\<close>
  on non-ASCII runes is a parameter.
\<close>

section \<open>Extraction\<close>

definition MaxSearchTextBytes :: nat where "MaxSearchTextBytes = 64 * 1024"

definition nonempty_strings :: "json list \<Rightarrow> string list" where
  "nonempty_strings xs = filter (\<lambda>s. s \<noteq> []) (List.map_filter as_str xs)"

definition stringValues :: "json \<Rightarrow> string list" where
  "stringValues v =
     (case v of
        JStr s \<Rightarrow> if s = [] then [] else [s]
      | JArr xs \<Rightarrow> nonempty_strings xs
      | _ \<Rightarrow> [])"

text \<open>The collectors of this file accept either shape, whatever the field's cardinality.\<close>

definition search_componentItems :: "json \<Rightarrow> doc list" where
  "search_componentItems v = (case v of JObj d \<Rightarrow> [d] | JArr xs \<Rightarrow> objects_of xs | _ \<Rightarrow> [])"

fun join_with :: "string \<Rightarrow> string list \<Rightarrow> string" where
  "join_with sep [] = []"
| "join_with sep [s] = s"
| "join_with sep (s # t # ss) = s @ sep @ join_with sep (t # ss)"

definition spanTexts :: "json option \<Rightarrow> string list" where
  "spanTexts v =
     (case Option.bind v as_arr of
        None \<Rightarrow> []
      | Some sps \<Rightarrow> filter (\<lambda>s. s \<noteq> []) (map (\<lambda>sp. str_or_empty (map_of sp ''text'')) (objects_of sps)))"

definition list_item_texts :: "json \<Rightarrow> string list" where
  "list_item_texts item = spanTexts (map_option JArr (as_arr item))"

definition own_text :: "string \<Rightarrow> doc \<Rightarrow> string list" where
  "own_text key block =
     (case str_or_empty (map_of block key) of [] \<Rightarrow> [] | s \<Rightarrow> [s])"

definition block_texts :: "doc \<Rightarrow> string list" where
  "block_texts block =
     (let typ = str_or_empty (map_of block ''type'') in
        if typ \<in> {''paragraph'', ''heading'', ''quote''} then spanTexts (map_of block ''children'')
        else if typ = ''code'' then own_text ''code'' block
        else if typ = ''list'' then
          (case Option.bind (map_of block ''items'') as_arr of
             None \<Rightarrow> [] | Some items \<Rightarrow> concat (map list_item_texts items))
        else if typ = ''image'' then own_text ''alt'' block
        else [])"

definition richTextPlainText :: "json \<Rightarrow> string" where
  "richTextPlainText v =
     (case as_arr v of None \<Rightarrow> [] | Some blocks \<Rightarrow> join_with '' '' (concat (map block_texts (objects_of blocks))))"

lemma component_below: "f \<in> set fs \<Longrightarrow> fields_size (ComponentFields f) < fields_size fs"
  using component_smaller [of f] field_size_member [of f fs] by linarith

lemma zone_below: "f \<in> set fs \<Longrightarrow> fields_size (zone_fields_of f name) < fields_size fs"
  using zone_smaller [of f name] field_size_member [of f fs] by linarith

function textFromFields :: "field list \<Rightarrow> doc \<Rightarrow> string list" where
  "textFromFields fs data =
     concat (map (\<lambda>f.
       case present data (Key f) of
         None \<Rightarrow> []
       | Some v \<Rightarrow>
           if Type f \<in> {FieldTypeString, FieldTypeText} then stringValues v
           else if Type f = FieldTypeRichText then
             (case richTextPlainText v of [] \<Rightarrow> [] | s \<Rightarrow> [s])
           else if Type f = FieldTypeComponent then
             concat (map (textFromFields (ComponentFields f)) (search_componentItems v))
           else if Type f = FieldTypeDynamicZone then
             concat (map (\<lambda>item. textFromFields
                       (zone_fields_of f (str_or_empty (map_of item ZoneDiscriminator))) item) (zoneItems v))
           else []) fs)"
  by pat_completeness auto
termination
proof (relation "measure (\<lambda>(fs, d). fields_size fs)")
  show "wf (measure (\<lambda>(fs, d :: doc). fields_size fs))" by simp
qed (auto intro: component_below zone_below)

declare textFromFields.simps [simp del]

section \<open>Normalisation\<close>

definition horizontal :: "char \<Rightarrow> bool" where
  "horizontal c \<longleftrightarrow> c \<in> {CHR '' '', CHR 0x09, CHR 0x0D, CHR 0x0C, CHR 0x0B}"

text \<open>\<open>[ \t\r\f\v]+\<close> replaced by one space.\<close>

fun collapse_horizontal :: "string \<Rightarrow> string" where
  "collapse_horizontal [] = []"
| "collapse_horizontal (c # cs) =
     (if horizontal c
      then (if cs \<noteq> [] \<and> horizontal (hd cs) then collapse_horizontal cs
            else CHR '' '' # collapse_horizontal cs)
      else c # collapse_horizontal cs)"

definition line_filler :: "char \<Rightarrow> bool" where
  "line_filler c \<longleftrightarrow> c \<in> {CHR '' '', CHR 0x09, CHR 0x0A}"

text \<open>\<open>\n[ \t]*(\n[ \t]*)+\<close> replaced by one newline: the match takes the whole run after a
  newline when that run holds another one.\<close>

function collapse_newlines :: "string \<Rightarrow> string" where
  "collapse_newlines [] = []"
| "collapse_newlines (c # cs) =
     (if c = CHR 0x0A \<and> CHR 0x0A \<in> set (takeWhile line_filler cs)
      then CHR 0x0A # collapse_newlines (dropWhile line_filler cs)
      else c # collapse_newlines cs)"
  by pat_completeness auto
termination
  by (relation "measure length") (auto simp: less_Suc_eq_le length_dropWhile_le)

text \<open>
  \<open>truncateRunesToBytes\<close>: the loop ranges over the runes of the string; a byte that is no
  rune is visited as U+FFFD, whose own encoding has three bytes.
\<close>

definition RuneLen_of :: "string \<Rightarrow> nat" where
  "RuneLen_of r = (if rune_form r = None then 3 else length r)"

fun truncate_from :: "nat \<Rightarrow> nat \<Rightarrow> string list \<Rightarrow> string" where
  "truncate_from n mx [] = []"
| "truncate_from n mx (r # rs) =
     (if mx < n + RuneLen_of r then [] else r @ truncate_from (n + RuneLen_of r) mx rs)"

definition truncateRunesToBytes :: "string \<Rightarrow> nat \<Rightarrow> string" where
  "truncateRunesToBytes s mx = (if length s \<le> mx then s else truncate_from 0 mx (runes s))"

definition normalizeSearchText :: "string \<Rightarrow> string" where
  "normalizeSearchText s =
     truncateRunesToBytes (TrimSpace (collapse_newlines (collapse_horizontal s))) MaxSearchTextBytes"

definition ExtractSearchText :: "field list \<Rightarrow> raw_json \<Rightarrow> string" where
  "ExtractSearchText fs payload =
     (case as_map payload of
        None \<Rightarrow> []
      | Some m \<Rightarrow> normalizeSearchText (join_with [CHR 0x0A] (textFromFields fs (entries_of m))))"

section \<open>Snippets\<close>

definition snippetHalfWidth :: nat where "snippetHalfWidth = 60"
definition snippetFallbackWidth :: nat where "snippetFallbackWidth = 120"

text \<open>\<open>strings.Index\<close>, and the text of a slice of runes: a byte that was no rune comes back as
  U+FFFD.\<close>

fun str_index :: "string \<Rightarrow> string \<Rightarrow> nat option" where
  "str_index [] t = (if t = [] then Some 0 else None)"
| "str_index (c # cs) t = (if HasPrefix (c # cs) t then Some 0 else map_option Suc (str_index cs t))"

definition rune_text :: "string \<Rightarrow> string" where
  "rune_text r = (if rune_form r = None then [char_of (239::nat), char_of (191::nat), char_of (189::nat)] else r)"

definition rune_slice :: "string list \<Rightarrow> nat \<Rightarrow> nat \<Rightarrow> string" where
  "rune_slice rs a b = concat (map rune_text (take (b - a) (drop a rs)))"

definition firstRunes :: "string \<Rightarrow> nat \<Rightarrow> string" where
  "firstRunes s n = (if length (runes s) \<le> n then s else rune_slice (runes s) 0 n)"

text \<open>\<open>None\<close> is the panic of a slice whose bound lies outside the string.\<close>

definition SnippetFor :: "(string \<Rightarrow> string) \<Rightarrow> string \<Rightarrow> string \<Rightarrow> string option" where
  "SnippetFor lower raw_text raw_term =
     (let text = TrimSpace raw_text; term = TrimSpace raw_term in
      if text = [] then Some []
      else if term = [] then Some (firstRunes text snippetFallbackWidth)
      else case str_index (lower text) (lower term) of
             None \<Rightarrow> Some (firstRunes text snippetFallbackWidth)
           | Some byteIdx \<Rightarrow>
               if length text < byteIdx then None
               else
                 let rs = runes text;
                     matchStart = RuneCountInString (take byteIdx text);
                     matchLen = RuneCountInString term;
                     start = matchStart - snippetHalfWidth;
                     stop = min (matchStart + matchLen + snippetHalfWidth) (length rs)
                 in if stop < start then None else Some (rune_slice rs start stop))"

section \<open>Facts\<close>

lemma truncate_from_prefix: "\<exists>rest. concat rs = truncate_from n mx rs @ rest"
proof (induction n mx rs rule: truncate_from.induct)
  case (2 n mx r rs)
  show ?case
  proof (cases "mx < n + RuneLen_of r")
    case False
    with 2 obtain rest where "concat rs = truncate_from (n + RuneLen_of r) mx rs @ rest" by auto
    with False show ?thesis by simp
  qed simp
qed simp

lemma rune_bytes: "r \<in> set (runes s) \<Longrightarrow> length r \<le> RuneLen_of r"
proof (induction s rule: runes_induct)
  case (Cons s)
  have "length (take (rune_width s) s) \<le> RuneLen_of (take (rune_width s) s)"
  proof (cases "rune_form (take (rune_width s) s) = None")
    case True
    have "rune_width s \<le> 3"
    proof (cases "rune_form s")
      case (Some f)
      then have f: "find (\<lambda>f. starts_in f s) utf8_forms = Some f" and w: "rune_width s = length f"
        by (simp_all add: rune_form_def rune_width_def)
      from f have "starts_in f s" "f \<in> set utf8_forms" by (auto dest: find_SomeD)
      moreover have "starts_in g (take (length g) t)" if "starts_in g t" for g t
        using that by (induction g t rule: starts_in.induct) auto
      ultimately have "starts_in f (take (rune_width s) s)" using w by simp
      then have "rune_form (take (rune_width s) s) \<noteq> None"
        using \<open>f \<in> set utf8_forms\<close> by (auto simp: rune_form_def find_None_iff)
      with True show ?thesis by simp
    qed (simp add: rune_width_def)
    with True show ?thesis by (simp add: RuneLen_of_def)
  qed (auto simp: RuneLen_of_def)
  with Cons show ?case by (auto simp: runes_step [OF Cons(1)])
qed simp

lemma truncate_from_length:
  assumes "\<forall>r \<in> set rs. length r \<le> RuneLen_of r" and "n \<le> mx"
  shows "n + length (truncate_from n mx rs) \<le> mx"
  using assms
proof (induction n mx rs rule: truncate_from.induct)
  case (2 n mx r rs)
  then show ?case by (cases "mx < n + RuneLen_of r") fastforce+
qed simp

lemma truncated:
  "length (truncateRunesToBytes s mx) \<le> mx" "\<exists>rest. s = truncateRunesToBytes s mx @ rest"
  using truncate_from_length [of "runes s" 0 mx] rune_bytes [of _ s] truncate_from_prefix [of "runes s" 0 mx]
  by (auto simp: truncateRunesToBytes_def)

end
