(* ===== verification/Entry_Store.thy ===== *)
theory Entry_Store
  imports Entry_Rendering Search_Text "HOL-Library.Product_Lexorder"
begin

text \<open>
  The tables behind entries and the transactions that write them
  (\<open>repository/postgres_repository.go\<close>, \<open>revision_repository.go\<close>,
  \<open>publish_revision_repository.go\<close>, \<open>schedule_repository.go\<close>,
  \<open>review_decision_repository.go\<close>, \<open>entry_idempotency.go\<close>): one function per method, from the
  tables to an error, which rolls back, or to the tables it leaves.  All tenants share the
  tables.  The CHECK constraints and unique indexes a write can hit are part of it.
\<close>

section \<open>Tables\<close>

record type_record =
  tr_ID :: uuid
  tr_TenantID :: string
  tr_Type :: content_type

record entry_revision =
  er_EntryID :: uuid
  er_Version :: nat
  er_TenantID :: string
  er_Payload :: json
  er_AuthorKind :: "string option"
  er_AuthorUserID :: "uuid option"
  er_AuthorAgentID :: "string option"
  er_CreatedAt :: int

record publish_revision =
  pr_ID :: uuid
  pr_TenantID :: string
  pr_EntryID :: uuid
  pr_RevisionNo :: nat
  pr_Payload :: json
  pr_Version :: nat
  pr_PublishedAt :: int
  pr_PublishedBy :: "uuid option"
  pr_Via :: string
  pr_ViaScheduleID :: "uuid option"

record unique_value_row =
  uv_TenantID :: string
  uv_Field :: "uuid \<times> string"
  uv_EntryID :: uuid
  uv_Locale :: string
  uv_Value :: json

record link_row =
  ln_TenantID :: string
  ln_EntryID :: uuid
  ln_FieldPath :: string
  ln_Target :: uuid

record idempotency_row =
  ik_TenantID :: string
  ik_ActorKey :: string
  ik_Key :: string
  ik_Fingerprint :: string
  ik_EntryID :: uuid

record outbox_event =
  ev_EventType :: string
  ev_AggregateID :: uuid
  ev_TenantID :: string
  ev_ContentType :: string
  ev_Locale :: string
  ev_Key :: string

record activity_line =
  al_TenantID :: string
  al_OccurredAt :: int
  al_ActorKind :: string
  al_ActorUserID :: "uuid option"
  al_ActorAgentID :: "string option"
  al_Action :: string
  al_TargetType :: string
  al_TargetEntryID :: "uuid option"
  al_TargetTitle :: string
  al_Outcome :: string
  al_ErrorCode :: string
  al_ChangedKeys :: "string list"
  al_Via :: string
  al_ViaScheduleID :: "uuid option"
  al_Details :: "(string \<times> detail) list"

record media_asset =
  ma_ID :: uuid
  ma_TenantID :: string
  ma_StorageKey :: string
  ma_ContentType :: string
  ma_SizeBytes :: nat
  ma_UploadedAt :: "int option"
  ma_CreatedAt :: int
  ma_Filename :: "string option"
  ma_AltText :: "string option"
  ma_WidthPx :: "nat option"
  ma_HeightPx :: "nat option"

text \<open>What was handed to the notifier: a fan-out to roles but for one member, or one person.\<close>

datatype notice =
    RoleNotice string "string list" uuid string string
  | UserNotice uuid string string string string

text \<open>
  A media link has the empty field path.  The outbox is \<open>None\<close> when no outbox is wired, and so are the notices; a
  field of a type stands for the column \<open>field_id\<close> as its type and key.
\<close>

record entry_db =
  db_Types :: "type_record list"
  db_Entries :: "entry_row list"
  db_Revisions :: "entry_revision list"
  db_Releases :: "publish_revision list"
  db_Schedules :: "entry_schedule list"
  db_Decisions :: "review_decision list"
  db_Assets :: "media_asset list"
  db_Media :: "link_row list"
  db_MediaPublished :: "link_row list"
  db_Relations :: "link_row list"
  db_RelationsPublished :: "link_row list"
  db_Unique :: "unique_value_row list"
  db_Idempotency :: "idempotency_row list"
  db_Outbox :: "outbox_event list option"
  db_Activity :: "activity_line list"
  db_Notices :: "notice list option"

section \<open>Errors\<close>

definition entry_not_found :: go_error where "entry_not_found = AppError ErrNotFound"
definition ErrVersionConflict :: go_error where
  "ErrVersionConflict = AppError (New ''CONTENT_VERSION_CONFLICT'' 409)"
definition ErrTranslationExists :: go_error where
  "ErrTranslationExists = AppError (New ''CONTENT_TRANSLATION_EXISTS'' 409)"
definition ErrSchedulePending :: app_error where
  "ErrSchedulePending = New ''CONTENT_SCHEDULE_EXISTS'' 409"
definition ErrIdempotencyKeyTaken :: go_error where
  "ErrIdempotencyKeyTaken = PlainError ''content: idempotency key was spent concurrently''"
definition ErrIdempotencyFingerprintMismatch :: go_error where
  "ErrIdempotencyFingerprintMismatch = AppError (New ''CONTENT_IDEMPOTENCY_KEY_REUSED'' 409)"

text \<open>A row a CHECK constraint refuses, and a unique index the code does not translate.\<close>

definition constraint_error :: go_error where
  "constraint_error = PlainError ''constraint violation''"

definition errValueTaken :: "string \<Rightarrow> string \<Rightarrow> json \<Rightarrow> uuid \<Rightarrow> go_error" where
  "errValueTaken key locale v holder =
     AppError (WithDetails (New ''CONTENT_FIELD_VALUE_TAKEN'' 409)
       [(''field'', DStr key), (''locale'', DStr locale), (''value'', DJson v), (''entry'', DStr holder)])"

section \<open>Types and rows\<close>

definition TypeByName :: "string \<Rightarrow> string \<Rightarrow> entry_db \<Rightarrow> go_error + type_record" where
  "TypeByName tenant name db =
     (case find (\<lambda>t. tr_TenantID t = tenant \<and> ct_Name (tr_Type t) = name) (db_Types db) of
        None \<Rightarrow> Inl entry_not_found | Some t \<Rightarrow> Inr t)"

definition TypeByID :: "string \<Rightarrow> uuid \<Rightarrow> entry_db \<Rightarrow> go_error + type_record" where
  "TypeByID tenant i db =
     (case find (\<lambda>t. tr_TenantID t = tenant \<and> tr_ID t = i) (db_Types db) of
        None \<Rightarrow> Inl entry_not_found | Some t \<Rightarrow> Inr t)"

definition row_at :: "string \<Rightarrow> uuid \<Rightarrow> uuid \<Rightarrow> entry_row \<Rightarrow> bool" where
  "row_at tenant ct i e \<longleftrightarrow> en_TenantID e = tenant \<and> en_ContentTypeID e = ct \<and> en_ID e = i"

definition find_entry :: "string \<Rightarrow> uuid \<Rightarrow> uuid \<Rightarrow> entry_db \<Rightarrow> entry_row option" where
  "find_entry tenant ct i db = find (row_at tenant ct i) (db_Entries db)"

definition GetEntry_repo :: "string \<Rightarrow> uuid \<Rightarrow> uuid \<Rightarrow> entry_db \<Rightarrow> go_error + entry_row" where
  "GetEntry_repo tenant ct i db =
     (case find_entry tenant ct i db of None \<Rightarrow> Inl entry_not_found | Some e \<Rightarrow> Inr e)"

definition CountEntriesForTenant :: "string \<Rightarrow> entry_db \<Rightarrow> nat" where
  "CountEntriesForTenant tenant db = length (filter (\<lambda>e. en_TenantID e = tenant) (db_Entries db))"

definition agent_columns_ok :: "string option \<Rightarrow> string option \<Rightarrow> uuid option \<Rightarrow> bool" where
  "agent_columns_ok kind agent user \<longleftrightarrow>
     (case kind of
        None \<Rightarrow> agent = None
      | Some k \<Rightarrow> k \<in> set [''human'', ''agent'', ''service''] \<and> (k = ''agent'') = (agent \<noteq> None) \<and>
          (k = ''agent'' \<longrightarrow> user \<noteq> None))"

text \<open>The CHECK constraints of \<open>entries\<close>.\<close>

definition entry_check :: "entry_row \<Rightarrow> bool" where
  "entry_check e \<longleftrightarrow>
     ValidStatus (en_Status e) \<and> ValidLocale (en_Locale e) \<and>
     (en_Status e = StatusPublished) = (en_PublishedAt e \<noteq> None) \<and>
     (en_Status e = StatusPublished \<longrightarrow> en_PublishedPayload e \<noteq> None \<and> en_PublishedVersion e \<noteq> None) \<and>
     (en_PublishedBy e \<noteq> None \<longrightarrow> en_PublishedPayload e \<noteq> None) \<and>
     agent_columns_ok (Some (en_CreatedByKind e)) (en_CreatedByAgent e) (en_CreatedBy e) \<and>
     agent_columns_ok (en_UpdatedByKind e) (en_UpdatedByAgent e) (en_UpdatedBy e)"

definition put_entry :: "entry_row \<Rightarrow> entry_db \<Rightarrow> entry_db" where
  "put_entry e db = db\<lparr>db_Entries := map (\<lambda>r. if en_ID r = en_ID e then e else r) (db_Entries db)\<rparr>"

section \<open>What every write carries along\<close>

definition reservations :: "type_record \<Rightarrow> entry_row \<Rightarrow> unique_value_row list" where
  "reservations t e =
     concat (map (\<lambda>f. if \<not> c_Unique (Constraints f) then []
       else map (\<lambda>v. \<lparr>uv_TenantID = en_TenantID e, uv_Field = (tr_ID t, Key f), uv_EntryID = en_ID e,
                      uv_Locale = en_Locale e, uv_Value = v\<rparr>)
              (remdups (filter (\<lambda>v. v \<noteq> JNull \<and> v \<noteq> JStr []) (List.map_filter (\<lambda>v. v)
                [Option.bind (as_obj (en_Payload e)) (\<lambda>d. map_of d (Key f)),
                 if en_Status e = StatusPublished
                 then Option.bind (Option.bind (en_PublishedPayload e) as_obj) (\<lambda>d. map_of d (Key f))
                 else None])))) (ct_Fields (tr_Type t)))"

definition same_slot :: "unique_value_row \<Rightarrow> unique_value_row \<Rightarrow> bool" where
  "same_slot a b \<longleftrightarrow> uv_Field a = uv_Field b \<and> uv_Locale a = uv_Locale b \<and> uv_Value a = uv_Value b"

definition slot_conflict :: "unique_value_row list \<Rightarrow> unique_value_row \<Rightarrow> unique_value_row option" where
  "slot_conflict ledger r = find (\<lambda>u. same_slot u r \<and> uv_EntryID u \<noteq> uv_EntryID r) ledger"

definition reservations_of :: "entry_row \<Rightarrow> entry_db \<Rightarrow> unique_value_row list" where
  "reservations_of e db =
     (case find (\<lambda>t. tr_ID t = en_ContentTypeID e) (db_Types db) of None \<Rightarrow> [] | Some t \<Rightarrow> reservations t e)"

definition refreshEntryUniqueValues :: "entry_row \<Rightarrow> entry_db \<Rightarrow> go_error + entry_db" where
  "refreshEntryUniqueValues e db =
     (let rows = reservations_of e db in
      case first_error (\<lambda>r. map_option (\<lambda>u. errValueTaken (snd (uv_Field r)) (uv_Locale r) (uv_Value r) (uv_EntryID u))
                          (slot_conflict (db_Unique db) r)) rows of
        Some err \<Rightarrow> Inl err
      | None \<Rightarrow> Inr (db\<lparr>db_Unique := filter (\<lambda>u. uv_EntryID u \<noteq> en_ID e) (db_Unique db) @ rows\<rparr>))"

definition revision_of :: "entry_row \<Rightarrow> entry_revision" where
  "revision_of e =
     \<lparr>er_EntryID = en_ID e, er_Version = en_Version e, er_TenantID = en_TenantID e, er_Payload = en_Payload e,
      er_AuthorKind = en_UpdatedByKind e, er_AuthorUserID = en_UpdatedBy e, er_AuthorAgentID = en_UpdatedByAgent e,
      er_CreatedAt = en_UpdatedAt e\<rparr>"

definition recordEntryRevision :: "entry_row \<Rightarrow> entry_db \<Rightarrow> go_error + entry_db" where
  "recordEntryRevision e db =
     (if list_ex (\<lambda>r. er_EntryID r = en_ID e \<and> er_Version r = en_Version e) (db_Revisions db)
      then Inl constraint_error
      else Inr (db\<lparr>db_Revisions := revision_of e # db_Revisions db\<rparr>))"

record publish_origin =
  po_Via :: string
  po_ScheduleID :: "uuid option"

definition direct_publish :: publish_origin where
  "direct_publish = \<lparr>po_Via = [], po_ScheduleID = None\<rparr>"

definition origin_Valid :: "publish_origin \<Rightarrow> bool" where
  "origin_Valid o' \<longleftrightarrow> po_Via o' \<in> set [[], ''schedule''] \<and> (po_Via o' = ''schedule'') = (po_ScheduleID o' \<noteq> None)"

definition MaxPublishRevisionsPerEntry :: nat where "MaxPublishRevisionsPerEntry = 20"

definition release_numbers :: "uuid \<Rightarrow> entry_db \<Rightarrow> nat list" where
  "release_numbers i db = map pr_RevisionNo (filter (\<lambda>r. pr_EntryID r = i) (db_Releases db))"

definition next_release_no :: "uuid \<Rightarrow> entry_db \<Rightarrow> nat" where
  "next_release_no i db = Suc (fold max (release_numbers i db) 0)"

definition recordPublishRevision :: "uuid \<Rightarrow> publish_origin \<Rightarrow> entry_row \<Rightarrow> entry_db \<Rightarrow> go_error + entry_db" where
  "recordPublishRevision new_id o' e db =
     (if \<not> origin_Valid o' then Inl (PlainError ''record publish revision: invalid origin'')
      else case (en_PublishedPayload e, en_PublishedVersion e) of
        (Some snapshot, Some v) \<Rightarrow>
          (let n = next_release_no (en_ID e) db;
               row = \<lparr>pr_ID = new_id, pr_TenantID = en_TenantID e, pr_EntryID = en_ID e, pr_RevisionNo = n,
                      pr_Payload = snapshot, pr_Version = v, pr_PublishedAt = en_UpdatedAt e,
                      pr_PublishedBy = en_PublishedBy e, pr_Via = po_Via o', pr_ViaScheduleID = po_ScheduleID o'\<rparr>
           in Inr (db\<lparr>db_Releases := filter (\<lambda>r. pr_EntryID r \<noteq> en_ID e \<or> n < pr_RevisionNo r + MaxPublishRevisionsPerEntry)
                        (row # db_Releases db)\<rparr>))
      | _ \<Rightarrow> Inr db)"

text \<open>The outbox ignores an event whose key it already holds.\<close>

definition emitEntryEvent :: "string \<Rightarrow> string \<Rightarrow> uuid \<Rightarrow> uuid \<Rightarrow> string \<Rightarrow> string \<Rightarrow> entry_db \<Rightarrow> go_error + entry_db" where
  "emitEntryEvent event tenant ct i locale key db =
     (case db_Outbox db of
        None \<Rightarrow> Inr db
      | Some evs \<Rightarrow>
          and_then (TypeByID tenant ct db) (\<lambda>t.
            if list_ex (\<lambda>ev. ev_Key ev = key) evs then Inr db
            else Inr (db\<lparr>db_Outbox := Some (evs @ [\<lparr>ev_EventType = event, ev_AggregateID = i, ev_TenantID = tenant,
                   ev_ContentType = ct_Name (tr_Type t), ev_Locale = locale, ev_Key = key\<rparr>])\<rparr>)))"

section \<open>Schedules the working copy leaves behind\<close>

definition ScheduleStatePending :: string where "ScheduleStatePending = ''pending''"
definition ScheduleStateDone :: string where "ScheduleStateDone = ''done''"
definition ScheduleStateStale :: string where "ScheduleStateStale = ''stale''"
definition ScheduleStateCancelled :: string where "ScheduleStateCancelled = ''cancelled''"
definition ScheduleStateSuperseded :: string where "ScheduleStateSuperseded = ''superseded''"
definition ScheduleStateFailed :: string where "ScheduleStateFailed = ''failed''"
definition ScheduleActionPublish :: string where "ScheduleActionPublish = ''publish''"
definition ScheduleActionUnpublish :: string where "ScheduleActionUnpublish = ''unpublish''"

definition AllScheduleStates :: "string list" where
  "AllScheduleStates = [ScheduleStatePending, ScheduleStateDone, ScheduleStateStale, ScheduleStateCancelled,
     ScheduleStateSuperseded, ScheduleStateFailed]"

definition ValidScheduleAction :: "string \<Rightarrow> bool" where
  "ValidScheduleAction a \<longleftrightarrow> a \<in> set [ScheduleActionPublish, ScheduleActionUnpublish]"

definition PinsVersion :: "entry_schedule \<Rightarrow> bool" where
  "PinsVersion s \<longleftrightarrow> sc_Action s = ScheduleActionPublish"

lemmas schedule_consts = ScheduleStatePending_def ScheduleStateDone_def ScheduleStateStale_def
  ScheduleStateCancelled_def ScheduleStateSuperseded_def ScheduleStateFailed_def
  ScheduleActionPublish_def ScheduleActionUnpublish_def

definition pending_of :: "string \<Rightarrow> uuid \<Rightarrow> entry_schedule \<Rightarrow> bool" where
  "pending_of tenant i s \<longleftrightarrow> sc_TenantID s = tenant \<and> sc_EntryID s = i \<and> sc_State s = ScheduleStatePending"

definition staled_by :: "entry_row \<Rightarrow> entry_schedule \<Rightarrow> bool" where
  "staled_by e s \<longleftrightarrow> pending_of (en_TenantID e) (en_ID e) s \<and> sc_Action s = ScheduleActionPublish \<and>
     sc_PinnedVersion s < en_Version e"

definition stale_details :: "entry_row \<Rightarrow> entry_schedule \<Rightarrow> (string \<times> detail) list" where
  "stale_details e s = [(''schedule_id'', DStr (sc_ID s)), (''pinned_version'', DNat (sc_PinnedVersion s)),
     (''entry_version'', DNat (en_Version e))]"

definition type_name_of :: "uuid \<Rightarrow> entry_db \<Rightarrow> string" where
  "type_name_of i db = (case find (\<lambda>t. tr_ID t = i) (db_Types db) of None \<Rightarrow> [] | Some t \<Rightarrow> ct_Name (tr_Type t))"

definition stale_line :: "entry_row \<Rightarrow> entry_db \<Rightarrow> entry_schedule \<Rightarrow> activity_line" where
  "stale_line e db s =
     \<lparr>al_TenantID = en_TenantID e, al_OccurredAt = en_UpdatedAt e,
      al_ActorKind = (case en_UpdatedByKind e of None \<Rightarrow> ActorKindHuman | Some k \<Rightarrow> k),
      al_ActorUserID = en_UpdatedBy e, al_ActorAgentID = en_UpdatedByAgent e,
      al_Action = ''entry.schedule.stale'', al_TargetType = type_name_of (en_ContentTypeID e) db,
      al_TargetEntryID = Some (en_ID e), al_TargetTitle = [], al_Outcome = ''success'', al_ErrorCode = [],
      al_ChangedKeys = [], al_Via = [], al_ViaScheduleID = None, al_Details = stale_details e s\<rparr>"

definition markSchedulesStale :: "entry_row \<Rightarrow> entry_db \<Rightarrow> entry_db" where
  "markSchedulesStale e db =
     db\<lparr>db_Schedules := map (\<lambda>s. if staled_by e s then s\<lparr>sc_State := ScheduleStateStale\<rparr> else s) (db_Schedules db),
        db_Activity := db_Activity db @ map (stale_line e db) (filter (staled_by e) (db_Schedules db))\<rparr>"

definition markSchedulesSuperseded :: "string \<Rightarrow> uuid \<Rightarrow> entry_db \<Rightarrow> entry_db" where
  "markSchedulesSuperseded tenant i db =
     db\<lparr>db_Schedules := map (\<lambda>s. if pending_of tenant i s then s\<lparr>sc_State := ScheduleStateSuperseded\<rparr> else s)
          (db_Schedules db)\<rparr>"

section \<open>Writing an entry\<close>

text \<open>\<open>fmt.Sprintf\<close> of an event's key: its parts joined by colons.\<close>

definition idem_key :: "uuid \<Rightarrow> string list \<Rightarrow> string" where
  "idem_key i parts = join_with '':'' (''content'' # i # parts)"

definition entry_exists :: "string \<Rightarrow> uuid \<Rightarrow> uuid \<Rightarrow> entry_db \<Rightarrow> bool" where
  "entry_exists tenant ct i db \<longleftrightarrow> list_ex (row_at tenant ct i) (db_Entries db)"

definition EntryExists :: "string \<Rightarrow> uuid \<Rightarrow> uuid \<Rightarrow> entry_db \<Rightarrow> bool" where
  "EntryExists = entry_exists"

text \<open>
  The struct after the call, and the row: the statement writes the creator into \<open>updated_by\<close>,
  the struct keeps the \<open>UpdatedBy\<close> it came with.
\<close>

definition created_struct :: "entry_row \<Rightarrow> entry_row" where
  "created_struct e =
     (let kind = (if en_CreatedByKind e = [] then ActorKindHuman else en_CreatedByKind e) in
      e\<lparr>en_Version := (if en_Version e = 0 then 1 else en_Version e),
        en_Status := (if en_Status e = [] then StatusDraft else en_Status e),
        en_CreatedByKind := kind, en_UpdatedByKind := Some kind, en_UpdatedByAgent := en_CreatedByAgent e\<rparr>)"

definition inserted_row :: "entry_row \<Rightarrow> entry_row" where
  "inserted_row e =
     (created_struct e)\<lparr>en_UpdatedBy := en_CreatedBy e,
        en_PublishedPayload := None, en_PublishedVersion := None, en_PublishedBy := None,
        en_PublishedSearchText := []\<rparr>"

definition insert_conflict :: "entry_row \<Rightarrow> entry_row \<Rightarrow> bool" where
  "insert_conflict e r \<longleftrightarrow> en_ID r = en_ID e \<or>
     (en_TenantID r = en_TenantID e \<and> en_TranslationGroupID r = en_TranslationGroupID e \<and> en_Locale r = en_Locale e)"

definition CreateEntry_repo :: "entry_row \<Rightarrow> entry_db \<Rightarrow> go_error + entry_row \<times> entry_db" where
  "CreateEntry_repo e0 db =
     (let e = inserted_row e0 in
      if \<not> entry_check e \<or> \<not> list_ex (\<lambda>t. tr_ID t = en_ContentTypeID e) (db_Types db) then Inl constraint_error
      else if list_ex (insert_conflict e) (db_Entries db) then Inl ErrTranslationExists
      else
        and_then (refreshEntryUniqueValues e (db\<lparr>db_Entries := e # db_Entries db\<rparr>)) (\<lambda>db1.
        and_then (recordEntryRevision e db1) (\<lambda>db2.
        and_then (emitEntryEvent ''content.entry.created'' (en_TenantID e) (en_ContentTypeID e) (en_ID e) (en_Locale e)
                    (idem_key (en_ID e) [''created'']) db2) (\<lambda>db3.
        Inr (created_struct e0, db3)))))"

text \<open>The row an optimistic write finds, or why it finds none.\<close>

definition locked_row :: "entry_row \<Rightarrow> entry_db \<Rightarrow> go_error + entry_row" where
  "locked_row e db =
     (case find (\<lambda>r. row_at (en_TenantID e) (en_ContentTypeID e) (en_ID e) r \<and> en_Version r = en_Version e)
             (db_Entries db) of
        Some r \<Rightarrow> Inr r
      | None \<Rightarrow> Inl (if entry_exists (en_TenantID e) (en_ContentTypeID e) (en_ID e) db
                      then ErrVersionConflict else entry_not_found))"

definition saved_row :: "entry_row \<Rightarrow> entry_row \<Rightarrow> entry_row" where
  "saved_row e r =
     r\<lparr>en_Payload := en_Payload e, en_SearchText := en_SearchText e, en_UpdatedAt := en_UpdatedAt e,
       en_UpdatedBy := en_UpdatedBy e, en_UpdatedByKind := en_UpdatedByKind e,
       en_UpdatedByAgent := en_UpdatedByAgent e, en_Version := en_Version r + 1\<rparr>"

definition UpdateEntry_repo :: "entry_row \<Rightarrow> entry_db \<Rightarrow> go_error + entry_row \<times> entry_db" where
  "UpdateEntry_repo e db =
     and_then (locked_row e db) (\<lambda>r.
       let r' = saved_row e r in
       if \<not> entry_check r' then Inl constraint_error
       else
         and_then (refreshEntryUniqueValues r' (put_entry r' db)) (\<lambda>db1.
         and_then (recordEntryRevision r' db1) (\<lambda>db2.
         let db3 = markSchedulesStale (e\<lparr>en_Version := en_Version r'\<rparr>) db2 in
         and_then (emitEntryEvent ''content.entry.updated'' (en_TenantID e) (en_ContentTypeID e) (en_ID e) (en_Locale e)
                     (idem_key (en_ID e) [''updated'', nat_str (en_Version r')]) db3) (\<lambda>db4.
         Inr (e\<lparr>en_Version := en_Version r'\<rparr>, db4)))))"

definition released_row :: "entry_row \<Rightarrow> string \<Rightarrow> int option \<Rightarrow> entry_row \<Rightarrow> entry_row" where
  "released_row e status publishedAt r =
     (let moved = (status = StatusPublished) in
      r\<lparr>en_Status := status, en_PublishedAt := publishedAt, en_UpdatedAt := en_UpdatedAt e,
        en_UpdatedBy := en_UpdatedBy e, en_UpdatedByKind := en_UpdatedByKind e,
        en_UpdatedByAgent := en_UpdatedByAgent e,
        en_PublishedPayload := (if moved then Some (en_Payload r) else en_PublishedPayload r),
        en_PublishedSearchText := (if moved then en_SearchText r else en_PublishedSearchText r),
        en_PublishedVersion := (if moved then Some (en_Version r + 1) else en_PublishedVersion r),
        en_PublishedBy := (if moved then en_PublishedBy e else en_PublishedBy r),
        en_Version := en_Version r + 1\<rparr>)"

text \<open>The struct the caller gets back.\<close>

definition released_struct :: "entry_row \<Rightarrow> string \<Rightarrow> int option \<Rightarrow> entry_row \<Rightarrow> entry_row" where
  "released_struct e status publishedAt r' =
     e\<lparr>en_Version := en_Version r', en_PublishedVersion := en_PublishedVersion r', en_PublishedBy := en_PublishedBy r',
       en_Status := status, en_PublishedAt := publishedAt,
       en_PublishedPayload := (if status = StatusPublished then Some (en_Payload e) else en_PublishedPayload e)\<rparr>"

definition links_of :: "string \<Rightarrow> uuid \<Rightarrow> link_row list \<Rightarrow> link_row list" where
  "links_of tenant i ls = filter (\<lambda>l. ln_TenantID l = tenant \<and> ln_EntryID l = i) ls"

definition links_not_of :: "string \<Rightarrow> uuid \<Rightarrow> link_row list \<Rightarrow> link_row list" where
  "links_not_of tenant i ls = filter (\<lambda>l. \<not> (ln_TenantID l = tenant \<and> ln_EntryID l = i)) ls"

definition snapshot_links :: "string \<Rightarrow> uuid \<Rightarrow> entry_db \<Rightarrow> entry_db" where
  "snapshot_links tenant i db =
     db\<lparr>db_MediaPublished := links_not_of tenant i (db_MediaPublished db) @ links_of tenant i (db_Media db),
        db_RelationsPublished := links_not_of tenant i (db_RelationsPublished db) @ links_of tenant i (db_Relations db)\<rparr>"

definition SetEntryPublishState_repo ::
    "uuid \<Rightarrow> publish_origin \<Rightarrow> entry_row \<Rightarrow> string \<Rightarrow> int option \<Rightarrow> entry_db \<Rightarrow> go_error + entry_row \<times> entry_db" where
  "SetEntryPublishState_repo new_id o' e status publishedAt db =
     and_then (locked_row e db) (\<lambda>r.
       let r' = released_row e status publishedAt r; moved = (status = StatusPublished) in
       if \<not> entry_check r' then Inl constraint_error
       else
         and_then (refreshEntryUniqueValues r' (put_entry r' db)) (\<lambda>db1.
         let db2 = markSchedulesSuperseded (en_TenantID e) (en_ID e) db1;
             db3 = (if moved then snapshot_links (en_TenantID e) (en_ID e) db2 else db2) in
         and_then (if moved then recordPublishRevision new_id o' r' db3 else Inr db3) (\<lambda>db4.
         and_then (emitEntryEvent (if moved then ''content.entry.published'' else ''content.entry.unpublished'')
                     (en_TenantID e) (en_ContentTypeID e) (en_ID e) (en_Locale e)
                     (idem_key (en_ID e) [status, nat_str (en_Version r')]) db4) (\<lambda>db5.
         Inr (released_struct e status publishedAt r', db5)))))"

text \<open>\<open>ON DELETE CASCADE\<close> from \<open>entries\<close>; the activity log has no foreign key and stays.\<close>

definition drop_entry :: "uuid \<Rightarrow> entry_db \<Rightarrow> entry_db" where
  "drop_entry i db =
     db\<lparr>db_Entries := filter (\<lambda>e. en_ID e \<noteq> i) (db_Entries db),
        db_Revisions := filter (\<lambda>r. er_EntryID r \<noteq> i) (db_Revisions db),
        db_Releases := filter (\<lambda>r. pr_EntryID r \<noteq> i) (db_Releases db),
        db_Schedules := filter (\<lambda>s. sc_EntryID s \<noteq> i) (db_Schedules db),
        db_Decisions := filter (\<lambda>d. rd_EntryID d \<noteq> i) (db_Decisions db),
        db_Media := filter (\<lambda>l. ln_EntryID l \<noteq> i) (db_Media db),
        db_MediaPublished := filter (\<lambda>l. ln_EntryID l \<noteq> i) (db_MediaPublished db),
        db_Relations := filter (\<lambda>l. ln_EntryID l \<noteq> i) (db_Relations db),
        db_RelationsPublished := filter (\<lambda>l. ln_EntryID l \<noteq> i) (db_RelationsPublished db),
        db_Unique := filter (\<lambda>u. uv_EntryID u \<noteq> i) (db_Unique db),
        db_Idempotency := filter (\<lambda>k. ik_EntryID k \<noteq> i) (db_Idempotency db)\<rparr>"

definition DeleteEntry_repo :: "string \<Rightarrow> uuid \<Rightarrow> uuid \<Rightarrow> entry_db \<Rightarrow> go_error + entry_db" where
  "DeleteEntry_repo tenant ct i db =
     (if \<not> entry_exists tenant ct i db then Inl entry_not_found
      else emitEntryEvent ''content.entry.deleted'' tenant ct i [] (idem_key i [''deleted'']) (drop_entry i db))"

section \<open>Links and idempotency keys\<close>

text \<open>The foreign keys of a link: its entry, and for a media link its asset.\<close>

definition row_id_exists :: "uuid \<Rightarrow> entry_db \<Rightarrow> bool" where
  "row_id_exists i db \<longleftrightarrow> list_ex (\<lambda>e. en_ID e = i) (db_Entries db)"

definition asset_id_exists :: "uuid \<Rightarrow> entry_db \<Rightarrow> bool" where
  "asset_id_exists i db \<longleftrightarrow> list_ex (\<lambda>a. ma_ID a = i) (db_Assets db)"

definition media_links :: "string \<Rightarrow> uuid \<Rightarrow> uuid list \<Rightarrow> link_row list" where
  "media_links tenant i assets =
     map (\<lambda>a. \<lparr>ln_TenantID = tenant, ln_EntryID = i, ln_FieldPath = [], ln_Target = a\<rparr>) (remdups assets)"

definition ReplaceEntryMedia :: "string \<Rightarrow> uuid \<Rightarrow> uuid list \<Rightarrow> entry_db \<Rightarrow> go_error + entry_db" where
  "ReplaceEntryMedia tenant i assets db =
     (if assets \<noteq> [] \<and> \<not> (row_id_exists i db \<and> list_all (\<lambda>a. asset_id_exists a db) assets) then Inl constraint_error
      else Inr (db\<lparr>db_Media := links_not_of tenant i (db_Media db) @ media_links tenant i assets\<rparr>))"

type_synonym relation_ref = "string \<times> uuid"

definition relation_links :: "string \<Rightarrow> uuid \<Rightarrow> relation_ref list \<Rightarrow> link_row list" where
  "relation_links tenant i refs =
     map (\<lambda>(p, t). \<lparr>ln_TenantID = tenant, ln_EntryID = i, ln_FieldPath = p, ln_Target = t\<rparr>) (remdups refs)"

definition ReplaceEntryRelations :: "string \<Rightarrow> uuid \<Rightarrow> relation_ref list \<Rightarrow> entry_db \<Rightarrow> go_error + entry_db" where
  "ReplaceEntryRelations tenant i refs db =
     (if refs \<noteq> [] \<and> \<not> row_id_exists i db then Inl constraint_error
      else Inr (db\<lparr>db_Relations := links_not_of tenant i (db_Relations db) @ relation_links tenant i refs\<rparr>))"

definition GetMediaAsset_repo :: "string \<Rightarrow> uuid \<Rightarrow> entry_db \<Rightarrow> media_asset option" where
  "GetMediaAsset_repo tenant i db = find (\<lambda>a. ma_TenantID a = tenant \<and> ma_ID a = i) (db_Assets db)"

definition IsUploaded :: "media_asset \<Rightarrow> bool" where
  "IsUploaded a \<longleftrightarrow> ma_UploadedAt a \<noteq> None"

definition spent_key :: "string \<Rightarrow> string \<Rightarrow> string \<Rightarrow> idempotency_row \<Rightarrow> bool" where
  "spent_key tenant actorKey idemKey r \<longleftrightarrow> ik_TenantID r = tenant \<and> ik_ActorKey r = actorKey \<and> ik_Key r = idemKey"

definition FindEntryIdempotency :: "string \<Rightarrow> string \<Rightarrow> string \<Rightarrow> entry_db \<Rightarrow> idempotency_row option" where
  "FindEntryIdempotency tenant actorKey idemKey db = find (spent_key tenant actorKey idemKey) (db_Idempotency db)"

definition RecordEntryIdempotency :: "idempotency_row \<Rightarrow> entry_db \<Rightarrow> go_error + entry_db" where
  "RecordEntryIdempotency r db =
     (if list_ex (spent_key (ik_TenantID r) (ik_ActorKey r) (ik_Key r)) (db_Idempotency db) then Inl ErrIdempotencyKeyTaken
      else if \<not> row_id_exists (ik_EntryID r) db then Inl constraint_error
      else Inr (db\<lparr>db_Idempotency := r # db_Idempotency db\<rparr>))"

section \<open>Schedules\<close>

text \<open>The CHECK constraints of \<open>content_entry_schedules\<close>.\<close>

definition schedule_check :: "entry_schedule \<Rightarrow> bool" where
  "schedule_check s \<longleftrightarrow>
     ValidScheduleAction (sc_Action s) \<and> sc_State s \<in> set AllScheduleStates \<and> 0 < sc_PinnedVersion s \<and>
     (sc_State s \<in> set [ScheduleStateDone, ScheduleStateFailed]) = (sc_ExecutedAt s \<noteq> None) \<and>
     (sc_State s = ScheduleStateFailed) = (sc_Error s \<noteq> [])"

definition CreateEntrySchedule :: "entry_schedule \<Rightarrow> entry_db \<Rightarrow> go_error + entry_db" where
  "CreateEntrySchedule s db =
     (if \<not> schedule_check s \<or> \<not> row_id_exists (sc_EntryID s) db \<or>
         \<not> list_ex (\<lambda>t. tr_ID t = sc_ContentTypeID s) (db_Types db) then Inl constraint_error
      else if list_ex (\<lambda>r. sc_ID r = sc_ID s \<or>
                (sc_State s = ScheduleStatePending \<and> sc_State r = ScheduleStatePending \<and> sc_EntryID r = sc_EntryID s))
              (db_Schedules db) then Inl (AppError ErrSchedulePending)
      else Inr (db\<lparr>db_Schedules := s # db_Schedules db\<rparr>))"

text \<open>\<open>ORDER BY stamp DESC, id DESC LIMIT 1\<close>.\<close>

definition newest_by :: "('a \<Rightarrow> int \<times> uuid) \<Rightarrow> 'a list \<Rightarrow> 'a option" where
  "newest_by key xs = (case rev (sort_key key xs) of [] \<Rightarrow> None | x # _ \<Rightarrow> Some x)"

definition schedule_age :: "entry_schedule \<Rightarrow> int \<times> uuid" where
  "schedule_age s = (sc_CreatedAt s, sc_ID s)"

definition schedules_of :: "string \<Rightarrow> uuid \<Rightarrow> string list \<Rightarrow> entry_db \<Rightarrow> entry_schedule list" where
  "schedules_of tenant i states db =
     filter (\<lambda>s. sc_TenantID s = tenant \<and> sc_EntryID s = i \<and> sc_State s \<in> set states) (db_Schedules db)"

definition GetPendingEntrySchedule :: "string \<Rightarrow> uuid \<Rightarrow> entry_db \<Rightarrow> entry_schedule option" where
  "GetPendingEntrySchedule tenant i db = find (pending_of tenant i) (db_Schedules db)"

definition GetActionableEntrySchedule :: "string \<Rightarrow> uuid \<Rightarrow> entry_db \<Rightarrow> entry_schedule option" where
  "GetActionableEntrySchedule tenant i db =
     newest_by schedule_age (schedules_of tenant i [ScheduleStatePending, ScheduleStateStale] db)"

definition GetLatestEntrySchedule :: "string \<Rightarrow> uuid \<Rightarrow> entry_db \<Rightarrow> go_error + entry_schedule" where
  "GetLatestEntrySchedule tenant i db =
     (case newest_by schedule_age (filter (\<lambda>s. sc_TenantID s = tenant \<and> sc_EntryID s = i) (db_Schedules db)) of
        None \<Rightarrow> Inl entry_not_found | Some s \<Rightarrow> Inr s)"

definition CancelEntrySchedule :: "string \<Rightarrow> uuid \<Rightarrow> entry_db \<Rightarrow> go_error + entry_schedule \<times> entry_db" where
  "CancelEntrySchedule tenant i db =
     (case GetPendingEntrySchedule tenant i db of
        None \<Rightarrow> Inl entry_not_found
      | Some s \<Rightarrow>
          Inr (s\<lparr>sc_State := ScheduleStateCancelled\<rparr>,
               db\<lparr>db_Schedules := map (\<lambda>r. if pending_of tenant i r then r\<lparr>sc_State := ScheduleStateCancelled\<rparr> else r)
                    (db_Schedules db)\<rparr>))"

definition scheduleBatchDefault :: int where "scheduleBatchDefault = 50"
definition scheduleBatchMax :: int where "scheduleBatchMax = 500"

text \<open>\<open>limit <= 0\<close> means the default, and no request exceeds the maximum.\<close>

definition clamp_limit :: "int \<Rightarrow> int \<Rightarrow> int \<Rightarrow> nat" where
  "clamp_limit dflt mx limit =
     (let l = (if limit \<le> 0 then dflt else limit) in nat (if mx < l then mx else l))"

definition ListDueEntrySchedules :: "int \<Rightarrow> int \<Rightarrow> entry_db \<Rightarrow> entry_schedule list" where
  "ListDueEntrySchedules now limit db =
     take (clamp_limit scheduleBatchDefault scheduleBatchMax limit)
       (sort_key sc_RunAt (filter (\<lambda>s. sc_State s = ScheduleStatePending \<and> sc_RunAt s \<le> now) (db_Schedules db)))"

text \<open>
  \<open>FOR UPDATE SKIP LOCKED\<close>: \<open>held\<close> says whether another transaction holds the lock of the row,
  which is then passed over as if it were not there.
\<close>

definition ClaimDueEntrySchedule :: "bool \<Rightarrow> string \<Rightarrow> uuid \<Rightarrow> int \<Rightarrow> entry_db \<Rightarrow> entry_schedule option" where
  "ClaimDueEntrySchedule held tenant i now db =
     find (\<lambda>s. sc_TenantID s = tenant \<and> sc_ID s = i \<and> sc_State s = ScheduleStatePending \<and> sc_RunAt s \<le> now \<and> \<not> held)
       (db_Schedules db)"

definition FinishEntrySchedule ::
    "string \<Rightarrow> uuid \<Rightarrow> string \<Rightarrow> int option \<Rightarrow> string \<Rightarrow> entry_db \<Rightarrow> go_error + entry_db" where
  "FinishEntrySchedule tenant i state executedAt errMsg db =
     (let hit = (\<lambda>s. sc_TenantID s = tenant \<and> sc_ID s = i \<and> sc_State s = ScheduleStatePending);
          settle = (\<lambda>s. s\<lparr>sc_State := state, sc_ExecutedAt := executedAt, sc_Error := errMsg\<rparr>) in
      if \<not> list_ex hit (db_Schedules db) then Inl entry_not_found
      else if \<not> list_all (\<lambda>s. hit s \<longrightarrow> schedule_check (settle s)) (db_Schedules db) then Inl constraint_error
      else Inr (db\<lparr>db_Schedules := map (\<lambda>s. if hit s then settle s else s) (db_Schedules db)\<rparr>))"

section \<open>Review decisions, revisions and releases\<close>

definition ReviewDecisionChangesRequested :: string where
  "ReviewDecisionChangesRequested = ''changes_requested''"

definition MaxReviewDecisionsPerEntry :: nat where "MaxReviewDecisionsPerEntry = 50"

text \<open>\<open>btrim(reason) <> ''\<close> strips blanks only.\<close>

definition decision_check :: "review_decision \<Rightarrow> bool" where
  "decision_check d \<longleftrightarrow> rd_Decision d = ReviewDecisionChangesRequested \<and>
     \<not> list_all (\<lambda>c. c = CHR '' '') (rd_Reason d) \<and> 0 < rd_EntryVersion d"

definition CreateEntryReviewDecision :: "review_decision \<Rightarrow> entry_db \<Rightarrow> go_error + entry_db" where
  "CreateEntryReviewDecision d db =
     (if \<not> decision_check d \<or> \<not> row_id_exists (rd_EntryID d) db \<or> list_ex (\<lambda>r. rd_ID r = rd_ID d) (db_Decisions db)
      then Inl constraint_error
      else Inr (db\<lparr>db_Decisions := d # db_Decisions db\<rparr>))"

definition decision_age :: "review_decision \<Rightarrow> int \<times> uuid" where
  "decision_age d = (rd_DecidedAt d, rd_ID d)"

definition decisions_of :: "string \<Rightarrow> uuid \<Rightarrow> entry_db \<Rightarrow> review_decision list" where
  "decisions_of tenant i db = filter (\<lambda>d. rd_TenantID d = tenant \<and> rd_EntryID d = i) (db_Decisions db)"

definition GetLatestEntryReviewDecision :: "string \<Rightarrow> uuid \<Rightarrow> entry_db \<Rightarrow> review_decision option" where
  "GetLatestEntryReviewDecision tenant i db = newest_by decision_age (decisions_of tenant i db)"

definition ListEntryReviewDecisions :: "string \<Rightarrow> uuid \<Rightarrow> entry_db \<Rightarrow> review_decision list" where
  "ListEntryReviewDecisions tenant i db =
     take MaxReviewDecisionsPerEntry (rev (sort_key decision_age (decisions_of tenant i db)))"

definition entryRevisionListLimit :: nat where "entryRevisionListLimit = 50"

definition ListEntryRevisions :: "string \<Rightarrow> uuid \<Rightarrow> entry_db \<Rightarrow> entry_revision list" where
  "ListEntryRevisions tenant i db =
     take entryRevisionListLimit (rev (sort_key er_Version
       (filter (\<lambda>r. er_TenantID r = tenant \<and> er_EntryID r = i) (db_Revisions db))))"

definition ListEntryPublishRevisions :: "string \<Rightarrow> uuid \<Rightarrow> entry_db \<Rightarrow> publish_revision list" where
  "ListEntryPublishRevisions tenant i db =
     rev (sort_key pr_RevisionNo (filter (\<lambda>r. pr_TenantID r = tenant \<and> pr_EntryID r = i) (db_Releases db)))"

definition GetEntryPublishRevision :: "string \<Rightarrow> uuid \<Rightarrow> nat \<Rightarrow> entry_db \<Rightarrow> go_error + publish_revision" where
  "GetEntryPublishRevision tenant i n db =
     (case find (\<lambda>r. pr_TenantID r = tenant \<and> pr_EntryID r = i \<and> pr_RevisionNo r = n) (db_Releases db) of
        None \<Rightarrow> Inl entry_not_found | Some r \<Rightarrow> Inr r)"

section \<open>Queries across types\<close>

text \<open>\<open>dataVisibleExpr\<close>: the read list and the confinement of the row's type.\<close>

definition dataVisible :: "string \<Rightarrow> uuid \<Rightarrow> entry_db \<Rightarrow> entry_row \<Rightarrow> bool" where
  "dataVisible role user db e \<longleftrightarrow>
     list_ex (\<lambda>t. tr_ID t = en_ContentTypeID e \<and> tr_TenantID t = en_TenantID e \<and>
         (ct_ReadRoles (tr_Type t) = [] \<or> role \<in> set (ct_ReadRoles (tr_Type t))) \<and>
         (role \<notin> set (ct_OwnOnlyRoles (tr_Type t)) \<or> en_CreatedBy e = Some user)) (db_Types db)"

definition pendingReview :: "entry_row \<Rightarrow> bool" where
  "pendingReview e \<longleftrightarrow> en_Status e \<noteq> StatusPublished \<or> HasUnpublishedChanges e"

text \<open>The latest decision over the entry's id, whatever its tenant column says.\<close>

definition notSentBack :: "entry_db \<Rightarrow> entry_row \<Rightarrow> bool" where
  "notSentBack db e \<longleftrightarrow>
     (case newest_by decision_age (filter (\<lambda>d. rd_EntryID d = en_ID e) (db_Decisions db)) of
        None \<Rightarrow> True | Some d \<Rightarrow> en_Version e \<noteq> rd_EntryVersion d)"

definition queue_key :: "entry_row \<Rightarrow> bool \<times> int \<times> uuid" where
  "queue_key e = (en_UpdatedByKind e = Some ActorKindAgent, en_UpdatedAt e, en_ID e)"

definition ListPendingReview_repo :: "string \<Rightarrow> string \<Rightarrow> uuid \<Rightarrow> int \<Rightarrow> entry_db \<Rightarrow> entry_row list" where
  "ListPendingReview_repo tenant role user limit db =
     take (clamp_limit 50 200 limit) (rev (sort_key queue_key
       (filter (\<lambda>e. en_TenantID e = tenant \<and> pendingReview e \<and> notSentBack db e \<and> dataVisible role user db e)
          (db_Entries db))))"

text \<open>
  \<open>search_text ILIKE '%term%'\<close> for every word of the query: \<open>ilike text word\<close>, the database's
  case-insensitive containment, is a parameter.
\<close>

definition search_hit :: "(string \<Rightarrow> string \<Rightarrow> bool) \<Rightarrow> string list \<Rightarrow> string \<Rightarrow> string \<Rightarrow> entry_row \<Rightarrow> bool" where
  "search_hit ilike terms locale status e \<longleftrightarrow>
     list_all (ilike (en_SearchText e)) terms \<and> (locale = [] \<or> en_Locale e = locale) \<and>
     (status = [] \<or> en_Status e = status)"

definition SearchEntries ::
    "(string \<Rightarrow> string \<Rightarrow> bool) \<Rightarrow> string \<Rightarrow> string \<Rightarrow> uuid \<Rightarrow> string list \<Rightarrow> string \<Rightarrow> string \<Rightarrow> int \<Rightarrow>
     entry_db \<Rightarrow> entry_row list" where
  "SearchEntries ilike tenant role user terms locale status limit db =
     take (clamp_limit 20 50 limit) (rev (sort_key (\<lambda>e. (en_UpdatedAt e, en_ID e))
       (filter (\<lambda>e. en_TenantID e = tenant \<and> dataVisible role user db e \<and> search_hit ilike terms locale status e)
          (db_Entries db))))"

end
