(* ===== verification/Entry_Links.thy ===== *)
theory Entry_Links
  imports Entry_Store
begin

text \<open>
  What a document must satisfy beside its schema, and what it links to:
  \<open>validateAndNormalize\<close> of \<open>service/content_service.go\<close> with \<open>checkRelations\<close> and
  \<open>collectMediaRefs\<close>.  Every relation value names an entry of the related type in the same
  tenant, every media reference an uploaded asset.
\<close>

section \<open>The walk over a document\<close>

text \<open>
  Both collectors walk a document the same way, into component and zone items under prefixed
  keys, and differ in what they do at the other fields.
\<close>

definition value_at :: "doc \<Rightarrow> string \<Rightarrow> json" where
  "value_at d k = (case map_of d k of None \<Rightarrow> JNull | Some v \<Rightarrow> v)"

fun with_item :: "field \<Rightarrow> nat \<Rightarrow> go_error \<Rightarrow> go_error" where
  "with_item f i (AppError e) = AppError (withItem f i e)"
| "with_item f i (PlainError s) = PlainError s"

definition at_item :: "field \<Rightarrow> nat \<Rightarrow> go_error + 'b \<Rightarrow> go_error + 'b" where
  "at_item f i r = map_sum (with_item f i) (\<lambda>x. x) r"

type_synonym 'b leaf = "field \<Rightarrow> doc \<Rightarrow> go_error + 'b list"

function walk_fields :: "'b leaf \<Rightarrow> field list \<Rightarrow> doc \<Rightarrow> go_error + 'b list" where
  "walk_fields leaf fs data =
     collect_all (\<lambda>f.
       if Type f = FieldTypeComponent then
         collect_all (\<lambda>(i, item). at_item f i
             (walk_fields leaf (prefixed_fields (Key f) (ComponentFields f)) (prefixed_doc (Key f) item)))
           (enumerate 0 (componentItems f (value_at data (Key f))))
       else if Type f = FieldTypeDynamicZone then
         collect_all (\<lambda>(i, item). at_item f i
             (walk_fields leaf (prefixed_fields (Key f) (zone_fields_of f (zoneItemComponent item)))
                (prefixed_doc (Key f) (zoneItemBody item))))
           (enumerate 0 (zoneItems (value_at data (Key f))))
       else leaf f data) fs"
  by pat_completeness auto
termination
proof (relation "measure (\<lambda>(leaf, fs, d). fields_size fs)")
  show "wf (measure (\<lambda>(leaf :: 'b leaf, fs, d :: doc). fields_size fs))" by simp
qed (auto intro: component_below zone_below)

declare walk_fields.simps [simp del]

section \<open>Media\<close>

definition errMediaRefInvalid :: "string \<Rightarrow> string \<Rightarrow> app_error" where
  "errMediaRefInvalid key raw =
     err422 ''CONTENT_MEDIA_REF_INVALID'' [(''field'', DStr key), (''value'', DStr raw)]"

definition requireUploadedAsset :: "string \<Rightarrow> entry_db \<Rightarrow> string \<Rightarrow> uuid \<Rightarrow> go_error option" where
  "requireUploadedAsset tenant db key i =
     (let refuse = (\<lambda>code. Some (AppError (err422 code [(''field'', DStr key), (''asset_id'', DStr i)]))) in
      case GetMediaAsset_repo tenant i db of
        None \<Rightarrow> refuse ''CONTENT_MEDIA_NOT_FOUND''
      | Some a \<Rightarrow> if \<not> IsUploaded a then refuse ''CONTENT_MEDIA_NOT_UPLOADED'' else None)"

definition uploaded :: "string \<Rightarrow> entry_db \<Rightarrow> string \<Rightarrow> uuid \<Rightarrow> go_error + uuid list" where
  "uploaded tenant db key i =
     (case requireUploadedAsset tenant db key i of Some e \<Rightarrow> Inl e | None \<Rightarrow> Inr [i])"

definition media_leaf :: "env \<Rightarrow> string \<Rightarrow> entry_db \<Rightarrow> uuid leaf" where
  "media_leaf E tenant db f data =
     (if Type f = FieldTypeFile then
        (let raw = str_or_empty (present data (Key f)) in
         if raw = [] then Inr []
         else case uuid_parse E raw of
                None \<Rightarrow> Inl (AppError (errMediaRefInvalid (Key f) raw))
              | Some i \<Rightarrow> uploaded tenant db (Key f) i)
      else if Type f = FieldTypeRichText then
        (case present data (Key f) of
           None \<Rightarrow> Inr []
         | Some v \<Rightarrow> collect_all (uploaded tenant db (Key f)) (CollectRichTextMediaIDs E v))
      else Inr [])"

definition collectMediaRefs :: "env \<Rightarrow> string \<Rightarrow> entry_db \<Rightarrow> field list \<Rightarrow> doc \<Rightarrow> go_error + uuid list" where
  "collectMediaRefs E tenant db fs data = walk_fields (media_leaf E tenant db) fs data"

section \<open>Relations\<close>

abbreviation RelationEntity :: "field \<Rightarrow> string" where
  "RelationEntity f \<equiv> f_RelationEntity (attrs f)"

definition errRelationInvalid :: "string \<Rightarrow> string \<Rightarrow> app_error" where
  "errRelationInvalid key v = err422 ''CONTENT_RELATION_INVALID'' [(''field'', DStr key), (''value'', DStr v)]"

definition errRelationNotFound :: "string \<Rightarrow> string \<Rightarrow> app_error" where
  "errRelationNotFound key v = err422 ''CONTENT_RELATION_NOT_FOUND'' [(''field'', DStr key), (''value'', DStr v)]"

definition errRelationTypeUnknown :: "string \<Rightarrow> string \<Rightarrow> app_error" where
  "errRelationTypeUnknown key entity =
     err422 ''CONTENT_RELATION_TYPE_UNKNOWN'' [(''field'', DStr key), (''relation_entity'', DStr entity)]"

definition indexedIfMulti :: "field \<Rightarrow> nat \<Rightarrow> app_error \<Rightarrow> app_error" where
  "indexedIfMulti f i e = (if \<not> Multiple f then e else withIndex i e)"

definition relationValues :: "field \<Rightarrow> json \<Rightarrow> go_error + string list" where
  "relationValues f v =
     (if \<not> Multiple f then
        (case as_str v of None \<Rightarrow> Inl (AppError (errFieldTypeMismatch (Key f) (Type f))) | Some s \<Rightarrow> Inr [s])
      else case as_arr v of
             None \<Rightarrow> Inl (AppError (errFieldTypeMismatch (Key f) (Type f)))
           | Some xs \<Rightarrow>
               collect_all (\<lambda>(i, x). case as_str x of
                   None \<Rightarrow> Inl (AppError (withIndex i (errFieldTypeMismatch (Key f) (Type f))))
                 | Some s \<Rightarrow> Inr [s]) (enumerate 0 xs))"

definition parse_relations :: "env \<Rightarrow> field \<Rightarrow> string list \<Rightarrow> go_error + uuid list" where
  "parse_relations E f raws =
     collect_all (\<lambda>(i, raw). case uuid_parse E raw of
         None \<Rightarrow> Inl (AppError (indexedIfMulti f i (errRelationInvalid (Key f) raw)))
       | Some u \<Rightarrow> Inr [u]) (enumerate 0 raws)"

definition existing_relations ::
    "string \<Rightarrow> uuid \<Rightarrow> entry_db \<Rightarrow> field \<Rightarrow> string list \<Rightarrow> uuid list \<Rightarrow> go_error + relation_ref list" where
  "existing_relations tenant ct db f raws ids =
     collect_all (\<lambda>(i, raw, u).
         if EntryExists tenant ct u db then Inr [(Key f, u)]
         else Inl (AppError (indexedIfMulti f i (errRelationNotFound (Key f) raw))))
       (enumerate 0 (zip raws ids))"

definition relation_leaf :: "env \<Rightarrow> string \<Rightarrow> subject \<Rightarrow> entry_db \<Rightarrow> relation_ref leaf" where
  "relation_leaf E tenant sub db f data =
     (if Type f \<noteq> FieldTypeRelation then Inr []
      else case present data (Key f) of
             None \<Rightarrow> Inr []
           | Some v \<Rightarrow>
               and_then (relationValues f v) (\<lambda>raws.
               and_then (parse_relations E f raws) (\<lambda>ids.
               case TypeByName tenant (RelationEntity f) db of
                 Inl _ \<Rightarrow> Inl (AppError (errRelationTypeUnknown (Key f) (RelationEntity f)))
               | Inr t \<Rightarrow>
                   (case guardTypeRead (tr_Type t) sub of
                      Some e \<Rightarrow> Inl (AppError e)
                    | None \<Rightarrow> existing_relations tenant (tr_ID t) db f raws ids))))"

definition checkRelations ::
    "env \<Rightarrow> string \<Rightarrow> subject \<Rightarrow> entry_db \<Rightarrow> field list \<Rightarrow> doc \<Rightarrow> go_error + relation_ref list" where
  "checkRelations E tenant sub db fs data = walk_fields (relation_leaf E tenant sub db) fs data"

section \<open>The gate every stored document passes\<close>

definition decode_payload :: "raw_json \<Rightarrow> go_error + go_map" where
  "decode_payload raw =
     (if raw = NoBytes then Inr (GoMap [])
      else case as_map raw of None \<Rightarrow> Inl (AppError errPayloadInvalid) | Some m \<Rightarrow> Inr m)"

text \<open>\<open>json.Marshal\<close> of the decoded map: the nil map is written \<open>null\<close>.\<close>

fun canonical_map :: "go_map \<Rightarrow> json" where
  "canonical_map NilMap = JNull"
| "canonical_map (GoMap d) = canon (JObj d)"

definition validateAndNormalize ::
    "env \<Rightarrow> string \<Rightarrow> subject \<Rightarrow> content_type \<Rightarrow> raw_json \<Rightarrow> entry_db \<Rightarrow>
     go_error + json \<times> uuid list \<times> relation_ref list" where
  "validateAndNormalize E tenant sub ct raw db =
     and_then (decode_payload raw) (\<lambda>m.
     and_then (refuse_if (map_option AppError (validatePayload E (ct_Fields ct) (entries_of m)))) (\<lambda>_.
     and_then (checkRelations E tenant sub db (ct_Fields ct) (entries_of m)) (\<lambda>rels.
     and_then (collectMediaRefs E tenant db (ct_Fields ct) (entries_of m)) (\<lambda>media.
     Inr (canonical_map m, media, rels)))))"

section \<open>Facts\<close>

text \<open>Whatever holds of every reference a leaf yields holds of every reference of the walk.\<close>

lemma at_item_Inr [simp]: "at_item f i r = Inr ys \<longleftrightarrow> r = Inr ys"
  by (cases r) (auto simp: at_item_def)

lemma collected_item:
  assumes "collect_all (\<lambda>(i, item). at_item f i (g item)) (enumerate 0 xs) = Inr zs" and "y \<in> set zs"
  obtains i item ws where "(i, item) \<in> set (enumerate 0 xs)" "g item = Inr ws" "y \<in> set ws"
proof -
  from collect_all_Inr [OF assms(1)] assms(2) obtain x ws
    where x: "x \<in> set (enumerate 0 xs)" "(case x of (i, item) \<Rightarrow> at_item f i (g item)) = Inr ws" "y \<in> set ws" by blast
  obtain i item where "x = (i, item)" by (cases x)
  with x show thesis using that [of i item ws] by simp
qed

lemma walk_fields_all:
  assumes "\<And>f d ys. leaf f d = Inr ys \<Longrightarrow> \<forall>y \<in> set ys. P y"
  shows "walk_fields leaf fs data = Inr ys \<Longrightarrow> \<forall>y \<in> set ys. P y"
  using assms
proof (induction leaf fs data arbitrary: ys rule: walk_fields.induct)
  case (1 leaf fs data)
  show ?case
  proof
    fix y assume "y \<in> set ys"
    from collect_all_Inr [OF 1(3) [unfolded walk_fields.simps [of leaf fs]]] this
    obtain f zs where f: "f \<in> set fs" and y: "y \<in> set zs"
      and r: "(if Type f = FieldTypeComponent then
         collect_all (\<lambda>(i, item). at_item f i
             (walk_fields leaf (prefixed_fields (Key f) (ComponentFields f)) (prefixed_doc (Key f) item)))
           (enumerate 0 (componentItems f (value_at data (Key f))))
       else if Type f = FieldTypeDynamicZone then
         collect_all (\<lambda>(i, item). at_item f i
             (walk_fields leaf (prefixed_fields (Key f) (zone_fields_of f (zoneItemComponent item)))
                (prefixed_doc (Key f) (zoneItemBody item))))
           (enumerate 0 (zoneItems (value_at data (Key f))))
       else leaf f data) = Inr zs" by blast
    show "P y"
    proof (cases "Type f = FieldTypeComponent")
      case True
      with r have "collect_all (\<lambda>(i, item). at_item f i
             (walk_fields leaf (prefixed_fields (Key f) (ComponentFields f)) (prefixed_doc (Key f) item)))
           (enumerate 0 (componentItems f (value_at data (Key f)))) = Inr zs" by simp
      from collected_item [OF this y] obtain i item ws where
        "(i, item) \<in> set (enumerate 0 (componentItems f (value_at data (Key f))))"
        "walk_fields leaf (prefixed_fields (Key f) (ComponentFields f)) (prefixed_doc (Key f) item) = Inr ws"
        "y \<in> set ws" .
      with 1(1) [OF f True _ refl] 1(4) show ?thesis by blast
    next
      case c: False
      show ?thesis
      proof (cases "Type f = FieldTypeDynamicZone")
        case True
        with r c have "collect_all (\<lambda>(i, item). at_item f i
             (walk_fields leaf (prefixed_fields (Key f) (zone_fields_of f (zoneItemComponent item)))
                (prefixed_doc (Key f) (zoneItemBody item))))
           (enumerate 0 (zoneItems (value_at data (Key f)))) = Inr zs" by simp
        from collected_item [OF this y] obtain i item ws where
          "(i, item) \<in> set (enumerate 0 (zoneItems (value_at data (Key f))))"
          "walk_fields leaf (prefixed_fields (Key f) (zone_fields_of f (zoneItemComponent item)))
             (prefixed_doc (Key f) (zoneItemBody item)) = Inr ws" "y \<in> set ws" .
        with 1(2) [OF f c True _ refl] 1(4) show ?thesis by blast
      next
        case False
        with c r y 1(4) show ?thesis by auto
      qed
    qed
  qed
qed

definition live_asset :: "string \<Rightarrow> entry_db \<Rightarrow> uuid \<Rightarrow> bool" where
  "live_asset tenant db i \<longleftrightarrow> (\<exists>a \<in> set (db_Assets db). ma_TenantID a = tenant \<and> ma_ID a = i \<and> IsUploaded a)"

definition readable_target :: "string \<Rightarrow> subject \<Rightarrow> entry_db \<Rightarrow> uuid \<Rightarrow> bool" where
  "readable_target tenant sub db i \<longleftrightarrow>
     (\<exists>t \<in> set (db_Types db). tr_TenantID t = tenant \<and> canReadType (tr_Type t) sub \<and> EntryExists tenant (tr_ID t) i db)"

lemma uploaded_live: "uploaded tenant db k i = Inr ys \<Longrightarrow> y \<in> set ys \<Longrightarrow> live_asset tenant db y"
  by (auto simp: uploaded_def requireUploadedAsset_def GetMediaAsset_repo_def live_asset_def Let_def
      split: option.splits if_splits dest!: find_SomeD)

lemma media_leaf_live:
  assumes "media_leaf E tenant db f d = Inr ys"
  shows "\<forall>y \<in> set ys. live_asset tenant db y"
proof
  fix y assume y: "y \<in> set ys"
  from assms y consider i where "uploaded tenant db (Key f) i = Inr ys"
    | v where "collect_all (uploaded tenant db (Key f)) (CollectRichTextMediaIDs E v) = Inr ys"
    by (auto simp: media_leaf_def Let_def split: if_splits option.splits)
  then show "live_asset tenant db y"
  proof cases
    case 1
    then show ?thesis using y by (rule uploaded_live)
  next
    case 2
    with collect_all_Inr [OF this] y uploaded_live show ?thesis by metis
  qed
qed

lemma TypeByName_Inr:
  "TypeByName tenant n db = Inr t \<Longrightarrow> t \<in> set (db_Types db) \<and> tr_TenantID t = tenant \<and> ct_Name (tr_Type t) = n"
  by (auto simp: TypeByName_def split: option.splits dest!: find_SomeD)

lemma existing_relations_exist:
  "existing_relations tenant ct db f raws ids = Inr ys \<Longrightarrow> y \<in> set ys \<Longrightarrow> EntryExists tenant ct (snd y) db"
  unfolding existing_relations_def by (fastforce dest!: collect_all_Inr split: if_splits)

lemma relation_leaf_readable:
  assumes "relation_leaf E tenant sub db f d = Inr ys"
  shows "\<forall>y \<in> set ys. readable_target tenant sub db (snd y)"
proof
  fix y assume y: "y \<in> set ys"
  with assms obtain raws ids t where t: "TypeByName tenant (RelationEntity f) db = Inr t"
    "canReadType (tr_Type t) sub" "existing_relations tenant (tr_ID t) db f raws ids = Inr ys"
    by (cases "TypeByName tenant (RelationEntity f) db")
      (auto simp: relation_leaf_def split: if_splits option.splits)
  from TypeByName_Inr [OF t(1)] t(2) existing_relations_exist [OF t(3) y]
  show "readable_target tenant sub db (snd y)" by (auto simp: readable_target_def)
qed

lemma checked_media:
  "collectMediaRefs E tenant db fs d = Inr ys \<Longrightarrow> \<forall>y \<in> set ys. live_asset tenant db y"
  unfolding collectMediaRefs_def by (rule walk_fields_all) (rule media_leaf_live)

lemma checked_relations:
  "checkRelations E tenant sub db fs d = Inr ys \<Longrightarrow> \<forall>y \<in> set ys. readable_target tenant sub db (snd y)"
  unfolding checkRelations_def by (rule walk_fields_all) (rule relation_leaf_readable)

lemma validateAndNormalize_Inr:
  assumes "validateAndNormalize E tenant sub ct raw db = Inr (clean, media, rels)"
  shows "\<exists>m. decode_payload raw = Inr m \<and> clean = canonical_map m \<and> payload_ok E (ct_Fields ct) (entries_of m) \<and>
    (\<forall>i \<in> set media. live_asset tenant db i) \<and> (\<forall>r \<in> set rels. readable_target tenant sub db (snd r))"
  using assms checked_media checked_relations
  by (fastforce simp: validateAndNormalize_def validator_decides)

end
