(* ===== verification/Entry_Activity.thy ===== *)
theory Entry_Activity
  imports Entry_Store
begin

text \<open>
  The activity record: titles and changed keys (\<open>domain/activity.go\<close>), and the recorder a
  service call opens on its first line and closes with whatever it returns
  (\<open>service/activity.go\<close>).
\<close>

section \<open>Titles and changed keys\<close>

definition ActivityTitleMaxRunes :: nat where "ActivityTitleMaxRunes = 120"

definition truncateRunes :: "string \<Rightarrow> nat \<Rightarrow> string" where
  "truncateRunes s mx = (if RuneCountInString s \<le> mx then s else concat (take mx (runes s)))"

text \<open>\<open>json.Unmarshal\<close> into a string takes \<open>null\<close> as the empty string.\<close>

definition title_text :: "doc \<Rightarrow> field \<Rightarrow> string option" where
  "title_text d f =
     (if Multiple f \<or> ReadRoles f \<noteq> [] \<or> Type f \<notin> {FieldTypeString, FieldTypeText} then None
      else case map_of d (Key f) of
             Some (JStr s) \<Rightarrow> if TrimSpace s = [] then None else Some (TrimSpace s)
           | _ \<Rightarrow> None)"

definition TitleFor :: "field list \<Rightarrow> raw_json \<Rightarrow> string" where
  "TitleFor fs payload =
     (case as_map payload of
        None \<Rightarrow> []
      | Some m \<Rightarrow>
          (case List.map_filter (title_text (entries_of m)) fs of
             [] \<Rightarrow> [] | s # _ \<Rightarrow> truncateRunes s ActivityTitleMaxRunes))"

definition decodeObject :: "raw_json \<Rightarrow> doc" where
  "decodeObject raw = (case as_map raw of None \<Rightarrow> [] | Some m \<Rightarrow> entries_of m)"

definition sameJSONValue :: "json \<Rightarrow> json \<Rightarrow> bool" where
  "sameJSONValue a b \<longleftrightarrow> canon a = canon b"

definition same_at :: "doc \<Rightarrow> doc \<Rightarrow> string \<Rightarrow> bool" where
  "same_at a b k =
     (case (map_of a k, map_of b k) of
        (Some v, Some w) \<Rightarrow> sameJSONValue w v
      | (None, None) \<Rightarrow> True
      | _ \<Rightarrow> False)"

definition ChangedKeysBetween :: "raw_json \<Rightarrow> raw_json \<Rightarrow> string list" where
  "ChangedKeysBetween before after =
     (let b = decodeObject before; a = decodeObject after in
      sort (remdups (filter (\<lambda>k. \<not> same_at a b k) (keys_of a @ keys_of b))))"

section \<open>The recorder\<close>

record activity_rec =
  ar_Sub :: subject
  ar_Action :: string
  ar_Write :: bool
  ar_TargetType :: string
  ar_EntryID :: "uuid option"
  ar_Title :: string
  ar_Changed :: "string list"
  ar_Details :: "(string \<times> detail) list"
  ar_At :: int
  ar_Cancelled :: bool

text \<open>A nil recorder is a working no-op.\<close>

definition beginActivity :: "subject option \<Rightarrow> string \<Rightarrow> bool \<Rightarrow> string \<Rightarrow> int \<Rightarrow> activity_rec option" where
  "beginActivity ctx action write typeName stamp =
     (case ctx of
        None \<Rightarrow> None
      | Some sub \<Rightarrow>
          if TenantID sub = [] then None
          else Some \<lparr>ar_Sub = sub, ar_Action = action, ar_Write = write, ar_TargetType = typeName,
                 ar_EntryID = None, ar_Title = [], ar_Changed = [], ar_Details = [], ar_At = stamp,
                 ar_Cancelled = False\<rparr>)"

definition forEntry :: "uuid \<Rightarrow> activity_rec option \<Rightarrow> activity_rec option" where
  "forEntry i = map_option (\<lambda>a. a\<lparr>ar_EntryID := Some i\<rparr>)"

definition describe :: "field list \<Rightarrow> raw_json \<Rightarrow> activity_rec option \<Rightarrow> activity_rec option" where
  "describe fs payload = map_option (\<lambda>a. a\<lparr>ar_Title := TitleFor fs payload\<rparr>)"

definition changedKeys :: "string list \<Rightarrow> activity_rec option \<Rightarrow> activity_rec option" where
  "changedKeys ks = map_option (\<lambda>a. a\<lparr>ar_Changed := ks\<rparr>)"

definition withDetails_rec :: "(string \<times> detail) list \<Rightarrow> activity_rec option \<Rightarrow> activity_rec option" where
  "withDetails_rec ds = map_option (\<lambda>a. a\<lparr>ar_Details := ds\<rparr>)"

definition setAction :: "string \<Rightarrow> activity_rec option \<Rightarrow> activity_rec option" where
  "setAction action = map_option (\<lambda>a. a\<lparr>ar_Action := action\<rparr>)"

definition cancel_rec :: "activity_rec option \<Rightarrow> activity_rec option" where
  "cancel_rec = map_option (\<lambda>a. a\<lparr>ar_Cancelled := True\<rparr>)"

definition ActivityOutcomeSuccess :: string where "ActivityOutcomeSuccess = ''success''"
definition ActivityOutcomeDenied :: string where "ActivityOutcomeDenied = ''denied''"

definition shouldRecord :: "activity_rec \<Rightarrow> bool \<Rightarrow> bool" where
  "shouldRecord a refused =
     (if PublicDelivery (ar_Sub a) then ar_Write a \<and> refused
      else if IsAgent (ar_Sub a) then True
      else ar_Write a \<or> refused)"

definition activityActorOf :: "subject \<Rightarrow> string \<times> uuid option \<times> string option" where
  "activityActorOf sub =
     (if PublicDelivery sub then (''service'', None, None)
      else if IsAgent sub then (ActorKindAgent, actor sub, AgentID sub)
      else (ActorKindHuman, actor sub, None))"

definition line_of :: "activity_rec \<Rightarrow> string \<Rightarrow> string \<Rightarrow> activity_line" where
  "line_of a outcome code =
     (case activityActorOf (ar_Sub a) of (kind, userID, agentID) \<Rightarrow>
        \<lparr>al_TenantID = TenantID (ar_Sub a), al_OccurredAt = ar_At a, al_ActorKind = kind,
         al_ActorUserID = userID, al_ActorAgentID = agentID, al_Action = ar_Action a,
         al_TargetType = ar_TargetType a, al_TargetEntryID = ar_EntryID a,
         al_TargetTitle = (if ar_EntryID a = None then [] else ar_Title a),
         al_Outcome = outcome, al_ErrorCode = code,
         al_ChangedKeys = (if outcome = ActivityOutcomeSuccess then ar_Changed a else []),
         al_Via = [], al_ViaScheduleID = None,
         al_Details = (if outcome = ActivityOutcomeSuccess then ar_Details a else [])\<rparr>)"

text \<open>The CHECK constraints of \<open>content_activity\<close>; a line they refuse is logged and lost.\<close>

definition activity_check :: "activity_line \<Rightarrow> bool" where
  "activity_check l \<longleftrightarrow>
     agent_columns_ok (Some (al_ActorKind l)) (al_ActorAgentID l) (al_ActorUserID l) \<and> al_Action l \<noteq> [] \<and>
     al_Outcome l \<in> set [ActivityOutcomeSuccess, ActivityOutcomeDenied] \<and>
     (al_Outcome l = ActivityOutcomeDenied) = (al_ErrorCode l \<noteq> []) \<and>
     (al_Outcome l = ActivityOutcomeSuccess \<or> al_ChangedKeys l = []) \<and>
     (al_TargetTitle l = [] \<or> al_TargetEntryID l \<noteq> None) \<and>
     al_Via l \<in> set [[], ''schedule''] \<and> (al_Via l = ''schedule'') = (al_ViaScheduleID l \<noteq> None)"

definition RecordActivity :: "activity_line \<Rightarrow> entry_db \<Rightarrow> go_error + entry_db" where
  "RecordActivity l db =
     (if activity_check l then Inr (db\<lparr>db_Activity := db_Activity db @ [l]\<rparr>) else Inl constraint_error)"

definition logged :: "activity_line \<Rightarrow> entry_db \<Rightarrow> entry_db" where
  "logged l db = (case RecordActivity l db of Inl _ \<Rightarrow> db | Inr db' \<Rightarrow> db')"

text \<open>
  A run-time panic unwinds through the deferred \<open>finish\<close> while the error result is still nil,
  so the recorder takes it for a success.
\<close>

definition nil_map_panic :: go_error where
  "nil_map_panic = PlainError ''panic: assignment to entry in nil map''"

definition finish :: "activity_rec option \<Rightarrow> go_error option \<Rightarrow> entry_db \<Rightarrow> entry_db" where
  "finish act err db =
     (case act of
        None \<Rightarrow> db
      | Some a \<Rightarrow>
          if err = None \<or> err = Some nil_map_panic then
            (if ar_Cancelled a \<or> \<not> shouldRecord a False then db
             else logged (line_of a ActivityOutcomeSuccess []) db)
          else case err of
            Some (AppError e) \<Rightarrow>
              if err_status e < 400 \<or> 500 \<le> err_status e \<or> \<not> shouldRecord a True then db
              else logged (line_of a ActivityOutcomeDenied (err_code e)) db
          | _ \<Rightarrow> db)"

text \<open>How a service call ends: the deferred recorder sees its result.\<close>

fun error_of :: "go_error + 'a \<Rightarrow> go_error option" where
  "error_of (Inl e) = Some e"
| "error_of (Inr _) = None"

definition closing :: "activity_rec option \<Rightarrow> (go_error + 'a) \<times> entry_db \<Rightarrow> (go_error + 'a) \<times> entry_db" where
  "closing act r = (case r of (res, db) \<Rightarrow> (res, finish act (error_of res) db))"

section \<open>Facts\<close>

text \<open>The recorder touches nothing but the log, and adds at most one line to it.\<close>

lemma logged_cases: "logged l db = db \<or> logged l db = db\<lparr>db_Activity := db_Activity db @ [l]\<rparr>"
  by (simp add: logged_def RecordActivity_def)

lemma finish_cases:
  "finish act err db = db \<or> (\<exists>l. finish act err db = db\<lparr>db_Activity := db_Activity db @ [l]\<rparr>)"
  unfolding finish_def using logged_cases
  by (auto split: option.split go_error.split)

lemma finish_frame [simp]:
  "db_Types (finish act err db) = db_Types db" "db_Entries (finish act err db) = db_Entries db"
  "db_Revisions (finish act err db) = db_Revisions db" "db_Releases (finish act err db) = db_Releases db"
  "db_Schedules (finish act err db) = db_Schedules db" "db_Decisions (finish act err db) = db_Decisions db"
  "db_Media (finish act err db) = db_Media db" "db_MediaPublished (finish act err db) = db_MediaPublished db"
  "db_Relations (finish act err db) = db_Relations db"
  "db_RelationsPublished (finish act err db) = db_RelationsPublished db"
  "db_Unique (finish act err db) = db_Unique db" "db_Idempotency (finish act err db) = db_Idempotency db"
  "db_Outbox (finish act err db) = db_Outbox db" "db_Assets (finish act err db) = db_Assets db"
  "db_Notices (finish act err db) = db_Notices db"
  using finish_cases [of act err db] by auto

end
