(* ===== verification/Entry_Service.thy ===== *)
theory Entry_Service
  imports Entry_Links Entry_Activity
begin

text \<open>
  The writes of \<open>service/content_service.go\<close>: create (with translations, copies and
  idempotency keys, \<open>service/entry_idempotency.go\<close>), update, publish and unpublish, delete.
  Each call first reads and checks, then writes in a transaction of its own; the two parts
  are separate definitions, so that another call may come between them.
\<close>

section \<open>What a service is built with\<close>

record entry_quota =
  eq_MaxEntriesPerTenant :: int
  eq_MaxEntryBytes :: int

text \<open>
  The library functions and the plan resolver: \<open>wd_compact\<close> is the text of \<open>json.Compact\<close>,
  \<open>wd_len\<close> the length of \<open>json.Marshal\<close>, \<open>wd_sha256\<close> the digest.
\<close>

record world =
  wd_env :: env
  wd_allow :: allow
  wd_quota :: "string \<Rightarrow> go_error + entry_quota"
  wd_len :: "json \<Rightarrow> nat"
  wd_compact :: "json \<Rightarrow> string"
  wd_sha256 :: "string \<Rightarrow> string"

definition app :: "app_error option \<Rightarrow> go_error + unit" where
  "app r = refuse_if (map_option AppError r)"

definition ErrEntryQuota :: "string \<Rightarrow> int \<Rightarrow> go_error" where
  "ErrEntryQuota resource limit =
     AppError (WithDetails (New ''CONTENT_QUOTA_EXCEEDED'' 429)
       [(''resource'', DStr resource), (''limit'', DNat (nat limit))])"

definition guardEntryBytes :: "world \<Rightarrow> entry_quota \<Rightarrow> json \<Rightarrow> go_error + unit" where
  "guardEntryBytes W q payload =
     require (\<not> (0 < eq_MaxEntryBytes q \<and> eq_MaxEntryBytes q < int (wd_len W payload)))
       (ErrEntryQuota ''entry_bytes'' (eq_MaxEntryBytes q))"

definition recordUpdateProvenance :: "subject \<Rightarrow> entry_row \<Rightarrow> entry_row" where
  "recordUpdateProvenance sub e =
     (case provenanceOf sub of (user, kind, agent) \<Rightarrow>
        e\<lparr>en_UpdatedBy := user, en_UpdatedByKind := Some kind, en_UpdatedByAgent := agent\<rparr>)"

section \<open>Merging documents\<close>

definition put_keys :: "doc \<Rightarrow> doc \<Rightarrow> doc" where
  "put_keys over base = sort_key fst (over @ without_keys (keys_of over) base)"

text \<open>Assigning into the nil map, which is what \<open>null\<close> decodes to, panics.\<close>

fun overlay :: "doc \<Rightarrow> go_map \<Rightarrow> go_error + raw_json" where
  "overlay over (GoMap base) = Inr (Text (JObj (put_keys over base)))"
| "overlay over NilMap = (if over = [] then Inr (Text JNull) else Inl nil_map_panic)"

definition errSourcePayload :: go_error where
  "errSourcePayload = AppError (New ''CONTENT_PAYLOAD_INVALID'' 500)"

definition decode_base :: "raw_json \<Rightarrow> go_error \<Rightarrow> go_error + go_map" where
  "decode_base raw err = (if raw = NoBytes then Inr (GoMap [])
     else case as_map raw of None \<Rightarrow> Inl err | Some m \<Rightarrow> Inr m)"

definition mergeShallowJSON :: "raw_json \<Rightarrow> raw_json \<Rightarrow> go_error + raw_json" where
  "mergeShallowJSON base over =
     and_then (decode_base base errSourcePayload) (\<lambda>b.
     and_then (decode_base over (AppError errPayloadInvalid)) (\<lambda>o'. overlay (entries_of o') b))"

definition mergeEntryPayload :: "raw_json \<Rightarrow> raw_json \<Rightarrow> go_error + raw_json" where
  "mergeEntryPayload existing patch =
     and_then (decode_base existing (AppError errPayloadInvalid)) (\<lambda>b.
     case as_map patch of
       None \<Rightarrow> Inl (AppError errPayloadInvalid)
     | Some o' \<Rightarrow> overlay (entries_of o') b)"

section \<open>Idempotency\<close>

definition key_char :: "char \<Rightarrow> bool" where
  "key_char c \<longleftrightarrow> ascii_letter c \<or> is_digit c \<or> c = CHR ''_'' \<or> c = CHR ''-''"

definition NormalizeKey :: "string \<Rightarrow> go_error + string" where
  "NormalizeKey raw =
     (let key = TrimSpace raw in
      if key = [] then Inr []
      else if \<not> (8 \<le> length key \<and> length key \<le> 128 \<and> list_all key_char key)
           then Inl (AppError (New ''INVALID_IDEMPOTENCY_KEY'' 400))
      else Inr key)"

definition idempotencyActorKey :: "subject \<Rightarrow> go_error + string" where
  "idempotencyActorKey sub =
     (if \<not> IsAgent sub then Inr (''human:'' @ UserID sub)
      else case CredentialID sub of
             None \<Rightarrow> Inl (AppError (New ''AGENT_CREDENTIAL_UNIDENTIFIED'' 403))
           | Some c \<Rightarrow> Inr (''agent:'' @ c))"

record create_input =
  ci_Payload :: raw_json
  ci_Locale :: string
  ci_TranslationOf :: "uuid option"
  ci_CopyFromSource :: bool
  ci_IdempotencyKey :: string

definition DefaultLocale :: string where "DefaultLocale = ''default''"

definition effective_locale :: "create_input \<Rightarrow> string" where
  "effective_locale inp = (if ci_Locale inp = [] then DefaultLocale else ci_Locale inp)"

text \<open>\<open>binary.BigEndian.PutUint64\<close> of a length, before each part.\<close>

definition be64 :: "nat \<Rightarrow> string" where
  "be64 n = map (\<lambda>i. char_of (n div 256 ^ (7 - i) mod 256)) [0..<8]"

definition framed :: "string list \<Rightarrow> string" where
  "framed parts = concat (map (\<lambda>p. be64 (length p) @ p) parts)"

definition fingerprint_parts :: "string \<Rightarrow> create_input \<Rightarrow> string \<Rightarrow> string list" where
  "fingerprint_parts typeName inp body =
     [typeName, effective_locale inp, (case ci_TranslationOf inp of None \<Rightarrow> [] | Some i \<Rightarrow> i),
      (if ci_CopyFromSource inp then ''1'' else ''0''), body]"

definition createRequestFingerprint :: "world \<Rightarrow> string \<Rightarrow> create_input \<Rightarrow> go_error + string" where
  "createRequestFingerprint W typeName inp =
     (case ci_Payload inp of
        Text v \<Rightarrow> Inr (wd_sha256 W (framed (fingerprint_parts typeName inp (wd_compact W v))))
      | _ \<Rightarrow> Inl (AppError errPayloadInvalid))"

definition replayCreate ::
    "subject \<Rightarrow> type_record \<Rightarrow> string \<Rightarrow> string \<Rightarrow> string \<Rightarrow> entry_db \<Rightarrow> go_error + entry_row option" where
  "replayCreate sub t actorKey idemKey fingerprint db =
     (case FindEntryIdempotency (TenantID sub) actorKey idemKey db of
        None \<Rightarrow> Inr None
      | Some r \<Rightarrow>
          if ik_Fingerprint r \<noteq> fingerprint then Inl ErrIdempotencyFingerprintMismatch
          else map_sum (\<lambda>e. e) Some (GetEntry_repo (TenantID sub) (tr_ID t) (ik_EntryID r) db))"

section \<open>Create\<close>

record planned =
  pl_Sub :: subject
  pl_Type :: type_record
  pl_Entry :: entry_row
  pl_Media :: "uuid list"
  pl_Relations :: "relation_ref list"
  pl_Idem :: "(string \<times> string \<times> string) option"

definition idem_lookup ::
    "world \<Rightarrow> subject \<Rightarrow> type_record \<Rightarrow> string \<Rightarrow> create_input \<Rightarrow> entry_db \<Rightarrow>
     go_error + ((string \<times> string \<times> string) option \<times> entry_row option)" where
  "idem_lookup W sub t typeName inp db =
     and_then (NormalizeKey (ci_IdempotencyKey inp)) (\<lambda>key.
       if key = [] then Inr (None, None)
       else
         and_then (idempotencyActorKey sub) (\<lambda>who.
         and_then (createRequestFingerprint W typeName inp) (\<lambda>fp.
         and_then (replayCreate sub t who key fp db) (\<lambda>hit. Inr (Some (who, key, fp), hit)))))"

definition guardEntryCount :: "entry_quota \<Rightarrow> string \<Rightarrow> entry_db \<Rightarrow> go_error + unit" where
  "guardEntryCount q tenant db =
     require (\<not> (0 < eq_MaxEntriesPerTenant q \<and> eq_MaxEntriesPerTenant q \<le> int (CountEntriesForTenant tenant db)))
       (ErrEntryQuota ''entries'' (eq_MaxEntriesPerTenant q))"

text \<open>The translation source: its group, and its working copy when the payload starts from it.\<close>

definition translation_source ::
    "subject \<Rightarrow> type_record \<Rightarrow> create_input \<Rightarrow> uuid \<Rightarrow> entry_db \<Rightarrow> go_error + uuid \<times> raw_json" where
  "translation_source sub t inp newGroup db =
     and_then (require (\<not> (ci_CopyFromSource inp \<and> ci_TranslationOf inp = None))
                 (AppError (New ''CONTENT_COPY_FROM_SOURCE_REQUIRES_TRANSLATION_OF'' 400))) (\<lambda>_.
     case ci_TranslationOf inp of
       None \<Rightarrow> Inr (newGroup, ci_Payload inp)
     | Some i \<Rightarrow>
         and_then (GetEntry_repo (TenantID sub) (tr_ID t) i db) (\<lambda>src.
         and_then (app (guardOwned (tr_Type t) sub (en_CreatedBy src))) (\<lambda>_.
         if ci_CopyFromSource inp
         then map_sum (\<lambda>e. e) (Pair (en_TranslationGroupID src)) (mergeShallowJSON (Text (en_Payload src)) (ci_Payload inp))
         else Inr (en_TranslationGroupID src, ci_Payload inp))))"

definition new_entry ::
    "subject \<Rightarrow> type_record \<Rightarrow> uuid \<Rightarrow> string \<Rightarrow> uuid \<Rightarrow> json \<Rightarrow> int \<Rightarrow> entry_row" where
  "new_entry sub t i locale grp clean now =
     (case provenanceOf sub of (user, kind, agent) \<Rightarrow>
        \<lparr>en_ID = i, en_TenantID = TenantID sub, en_ContentTypeID = tr_ID t, en_Payload = clean,
         en_SearchText = ExtractSearchText (ct_Fields (tr_Type t)) (Text clean), en_Version = 1,
         en_Status = StatusDraft, en_PublishedPayload = None, en_PublishedSearchText = [],
         en_PublishedVersion = None, en_PublishedAt = None, en_Locale = locale, en_TranslationGroupID = grp,
         en_CreatedBy = user, en_UpdatedBy = None, en_PublishedBy = None, en_CreatedByKind = kind,
         en_CreatedByAgent = agent, en_UpdatedByKind = None, en_UpdatedByAgent = None,
         en_CreatedAt = now, en_UpdatedAt = now\<rparr>)"

text \<open>\<open>fresh\<close> is the new entry's identifier and the new group's.\<close>

definition plan_create ::
    "world \<Rightarrow> subject \<Rightarrow> type_record \<Rightarrow> create_input \<Rightarrow> (string \<times> string \<times> string) option \<Rightarrow>
     uuid \<times> uuid \<Rightarrow> int \<Rightarrow> entry_db \<Rightarrow> go_error + planned" where
  "plan_create W sub t inp idem fresh now db =
     (let tenant = TenantID sub; ct = tr_Type t in
      and_then (wd_quota W tenant) (\<lambda>q.
      and_then (guardEntryCount q tenant db) (\<lambda>_.
      and_then (app (guardTypeWrite ct sub)) (\<lambda>_.
      and_then (app (guardRequiredWritable ct sub)) (\<lambda>_.
      and_then (translation_source sub t inp (snd fresh) db) (\<lambda>(grp, payload).
      and_then (app (guardWritableKeys ct sub payload)) (\<lambda>_.
      and_then (validateAndNormalize (wd_env W) tenant sub ct payload db) (\<lambda>(clean, media, rels).
      and_then (guardEntryBytes W q clean) (\<lambda>_.
      Inr \<lparr>pl_Sub = sub, pl_Type = t,
           pl_Entry = new_entry sub t (fst fresh) (effective_locale inp) grp clean now,
           pl_Media = media, pl_Relations = rels, pl_Idem = idem\<rparr>)))))))))"

text \<open>The checks: an entry already created with the key, or what to write.\<close>

definition create_checks ::
    "world \<Rightarrow> subject option \<Rightarrow> string \<Rightarrow> create_input \<Rightarrow> uuid \<times> uuid \<Rightarrow> int \<Rightarrow> entry_db \<Rightarrow>
     go_error + ((subject \<times> type_record \<times> entry_row) + planned)" where
  "create_checks W ctx typeName inp fresh now db =
     and_then (require (ValidLocale (effective_locale inp))
                 (AppError (WithDetails (New ''CONTENT_LOCALE_INVALID'' 400) [(''locale'', DStr (ci_Locale inp))]))) (\<lambda>_.
     and_then (authorize (wd_allow W) ctx ''content:create'' typeName typeName) (\<lambda>sub.
     and_then (TypeByName (TenantID sub) typeName db) (\<lambda>t.
     and_then (idem_lookup W sub t typeName inp db) (\<lambda>(idem, hit).
     case hit of
       Some e \<Rightarrow> Inr (Inl (sub, t, e))
     | None \<Rightarrow> map_sum (\<lambda>e. e) Inr (plan_create W sub t inp idem fresh now db)))))"

definition create_tx :: "planned \<Rightarrow> entry_db \<Rightarrow> go_error + entry_row \<times> entry_db" where
  "create_tx p db =
     (let tenant = TenantID (pl_Sub p); i = en_ID (pl_Entry p) in
      and_then (CreateEntry_repo (pl_Entry p) db) (\<lambda>(e, db1).
      and_then (ReplaceEntryMedia tenant i (pl_Media p) db1) (\<lambda>db2.
      and_then (ReplaceEntryRelations tenant i (pl_Relations p) db2) (\<lambda>db3.
      case pl_Idem p of
        None \<Rightarrow> Inr (e, db3)
      | Some (who, key, fp) \<Rightarrow>
          and_then (RecordEntryIdempotency \<lparr>ik_TenantID = tenant, ik_ActorKey = who, ik_Key = key,
                      ik_Fingerprint = fp, ik_EntryID = i\<rparr> db3) (\<lambda>db4. Inr (e, db4))))))"

definition ErrIdempotencyRecordVanished :: go_error where
  "ErrIdempotencyRecordVanished = AppError (New ''CONTENT_IDEMPOTENCY_RECORD_VANISHED'' 409)"

definition create_act :: "planned \<Rightarrow> activity_rec option \<Rightarrow> activity_rec option" where
  "create_act p act =
     (let clean = Text (en_Payload (pl_Entry p)) in
      changedKeys (ChangedKeysBetween NoBytes clean)
        (describe (ct_Fields (tr_Type (pl_Type p))) clean (forEntry (en_ID (pl_Entry p)) act)))"

text \<open>The write; a key spent in the meantime is answered with the entry that spent it.\<close>

definition create_commit ::
    "planned \<Rightarrow> activity_rec option \<Rightarrow> entry_db \<Rightarrow> (go_error + 'rel entry_dto) \<times> entry_db" where
  "create_commit p act0 db =
     (let act = create_act p act0; dto = ProjectEntry (tr_Type (pl_Type p)) in
      case create_tx p db of
        Inr (e, db') \<Rightarrow> closing act (Inr (dto e (pl_Sub p)), db')
      | Inl err \<Rightarrow>
          (case (err = ErrIdempotencyKeyTaken, pl_Idem p) of
             (True, Some (who, key, fp)) \<Rightarrow>
               (case replayCreate (pl_Sub p) (pl_Type p) who key fp db of
                  Inl e' \<Rightarrow> closing act (Inl e', db)
                | Inr None \<Rightarrow> closing act (Inl ErrIdempotencyRecordVanished, db)
                | Inr (Some e) \<Rightarrow> closing (cancel_rec act) (Inr (dto e (pl_Sub p)), db))
           | _ \<Rightarrow> closing act (Inl err, db)))"

definition CreateLocalizedEntry ::
    "world \<Rightarrow> subject option \<Rightarrow> string \<Rightarrow> create_input \<Rightarrow> uuid \<times> uuid \<Rightarrow> int \<Rightarrow> entry_db \<Rightarrow>
     (go_error + 'rel entry_dto) \<times> entry_db" where
  "CreateLocalizedEntry W ctx typeName inp fresh now db =
     (let act = beginActivity ctx ''entry.create'' True typeName now in
      case create_checks W ctx typeName inp fresh now db of
        Inl err \<Rightarrow> closing act (Inl err, db)
      | Inr (Inl (sub, t, e)) \<Rightarrow> closing (cancel_rec act) (Inr (ProjectEntry (tr_Type t) e sub), db)
      | Inr (Inr p) \<Rightarrow> create_commit p act db)"

definition CreateEntry ::
    "world \<Rightarrow> subject option \<Rightarrow> string \<Rightarrow> raw_json \<Rightarrow> uuid \<times> uuid \<Rightarrow> int \<Rightarrow> entry_db \<Rightarrow>
     (go_error + 'rel entry_dto) \<times> entry_db" where
  "CreateEntry W ctx typeName payload fresh now db =
     CreateLocalizedEntry W ctx typeName \<lparr>ci_Payload = payload, ci_Locale = [], ci_TranslationOf = None,
       ci_CopyFromSource = False, ci_IdempotencyKey = []\<rparr> fresh now db"

section \<open>Update\<close>

record saved =
  sv_Sub :: subject
  sv_Type :: type_record
  sv_Base :: raw_json
  sv_Before :: entry_row
  sv_Entry :: entry_row
  sv_Media :: "uuid list"
  sv_Relations :: "relation_ref list"

definition version_matches :: "int \<Rightarrow> entry_row \<Rightarrow> go_error + unit" where
  "version_matches expected e =
     require (\<not> (0 < expected \<and> int (en_Version e) \<noteq> expected)) ErrVersionConflict"

text \<open>The type, the row and the right to write it; shared by update, publish and unpublish.\<close>

definition writable_entry ::
    "world \<Rightarrow> subject option \<Rightarrow> string \<Rightarrow> string \<Rightarrow> uuid \<Rightarrow> entry_db \<Rightarrow> go_error + subject \<times> type_record \<times> entry_row" where
  "writable_entry W ctx action typeName i db =
     and_then (authorize (wd_allow W) ctx action i typeName) (\<lambda>sub.
     and_then (TypeByName (TenantID sub) typeName db) (\<lambda>t.
     and_then (app (guardTypeWrite (tr_Type t) sub)) (\<lambda>_.
     and_then (GetEntry_repo (TenantID sub) (tr_ID t) i db) (\<lambda>e.
     and_then (app (guardOwned (tr_Type t) sub (en_CreatedBy e))) (\<lambda>_.
     Inr (sub, t, e))))))"

definition update_checks ::
    "world \<Rightarrow> subject option \<Rightarrow> string \<Rightarrow> uuid \<Rightarrow> raw_json \<Rightarrow> int \<Rightarrow> int \<Rightarrow> entry_db \<Rightarrow> go_error + saved" where
  "update_checks W ctx typeName i payload expected now db =
     and_then (writable_entry W ctx ''content:update'' typeName i db) (\<lambda>(sub, t, e).
     let ct = tr_Type t; base = Text (pruneUndefined (ct_Fields ct) (en_Payload e)) in
     and_then (version_matches expected e) (\<lambda>_.
     and_then (app (guardWritableKeys ct sub payload)) (\<lambda>_.
     and_then (mergeEntryPayload base payload) (\<lambda>merged.
     and_then (validateAndNormalize (wd_env W) (TenantID sub) sub ct merged db) (\<lambda>(clean, media, rels).
     and_then (wd_quota W (TenantID sub)) (\<lambda>q.
     and_then (guardEntryBytes W q clean) (\<lambda>_.
     Inr \<lparr>sv_Sub = sub, sv_Type = t, sv_Base = base, sv_Before = e,
          sv_Entry = recordUpdateProvenance sub
            (e\<lparr>en_Payload := clean, en_SearchText := ExtractSearchText (ct_Fields ct) (Text clean),
               en_UpdatedAt := now\<rparr>),
          sv_Media = media, sv_Relations = rels\<rparr>)))))))"

definition update_act :: "saved \<Rightarrow> activity_rec option \<Rightarrow> activity_rec option" where
  "update_act s act =
     (let clean = Text (en_Payload (sv_Entry s)) in
      describe (ct_Fields (tr_Type (sv_Type s))) clean (changedKeys (ChangedKeysBetween (sv_Base s) clean) act))"

definition published_pending :: "entry_row \<Rightarrow> bool" where
  "published_pending e \<longleftrightarrow> IsPublished e \<and> HasUnpublishedChanges e"

text \<open>An entry sent back at the version it was at counts as not pending before the save.\<close>

definition wasPending :: "subject \<Rightarrow> entry_row \<Rightarrow> entry_db \<Rightarrow> bool" where
  "wasPending sub e db \<longleftrightarrow> published_pending e \<and>
     (case GetLatestEntryReviewDecision (TenantID sub) (en_ID e) db of
        None \<Rightarrow> True | Some d \<Rightarrow> rd_EntryVersion d \<noteq> en_Version e)"

definition notifyRoles :: "string list" where "notifyRoles = [''owner'', ''admin'']"

definition entry_link :: "uuid \<Rightarrow> string" where "entry_link i = ''/content/entries/'' @ i"

definition notify :: "notice \<Rightarrow> entry_db \<Rightarrow> entry_db" where
  "notify n db = db\<lparr>db_Notices := map_option (\<lambda>ns. ns @ [n]) (db_Notices db)\<rparr>"

definition notifyEntryPendingReview :: "subject \<Rightarrow> entry_row \<Rightarrow> entry_db \<Rightarrow> entry_db" where
  "notifyEntryPendingReview sub e =
     notify (RoleNotice (TenantID sub) notifyRoles (UserID sub) ''entry_pending_review'' (entry_link (en_ID e)))"

text \<open>The row is saved first; its links are replaced afterwards, each in a transaction of its own.\<close>

definition update_links :: "saved \<Rightarrow> entry_db \<Rightarrow> go_error option \<times> entry_db" where
  "update_links s db =
     (let tenant = TenantID (sv_Sub s); i = en_ID (sv_Entry s) in
      case ReplaceEntryMedia tenant i (sv_Media s) db of
        Inl err \<Rightarrow> (Some err, db)
      | Inr db1 \<Rightarrow>
          (case ReplaceEntryRelations tenant i (sv_Relations s) db1 of
             Inl err \<Rightarrow> (Some err, db1) | Inr db2 \<Rightarrow> (None, db2)))"

definition update_commit ::
    "saved \<Rightarrow> activity_rec option \<Rightarrow> entry_db \<Rightarrow> (go_error + 'rel entry_dto) \<times> entry_db" where
  "update_commit s act0 db =
     (let act = update_act s act0; sub = sv_Sub s; was = wasPending sub (sv_Before s) db in
      case UpdateEntry_repo (sv_Entry s) db of
        Inl err \<Rightarrow> closing act (Inl err, db)
      | Inr (e, db1) \<Rightarrow>
          (let db2 = (if \<not> was \<and> published_pending e then notifyEntryPendingReview sub e db1 else db1) in
           case update_links s db2 of
             (Some err, db3) \<Rightarrow> closing act (Inl err, db3)
           | (None, db3) \<Rightarrow> closing act (Inr (ProjectEntry (tr_Type (sv_Type s)) e sub), db3)))"

definition UpdateEntry ::
    "world \<Rightarrow> subject option \<Rightarrow> string \<Rightarrow> uuid \<Rightarrow> raw_json \<Rightarrow> int \<Rightarrow> int \<Rightarrow> entry_db \<Rightarrow>
     (go_error + 'rel entry_dto) \<times> entry_db" where
  "UpdateEntry W ctx typeName i payload expected now db =
     (let act = forEntry i (beginActivity ctx ''entry.update'' True typeName now) in
      case update_checks W ctx typeName i payload expected now db of
        Inl err \<Rightarrow> closing act (Inl err, db)
      | Inr s \<Rightarrow> update_commit s act db)"

section \<open>Publish and unpublish\<close>

definition errStatusInvalid :: "string \<Rightarrow> go_error" where
  "errStatusInvalid status =
     AppError (WithDetails (New ''CONTENT_STATUS_INVALID'' 400)
       [(''status'', DStr status), (''allowed'', DStrs [StatusDraft, StatusPublished])])"

definition status_verb :: "string \<Rightarrow> string" where
  "status_verb status = (if status = StatusPublished then ''content:publish'' else ''content:update'')"

definition status_activity :: "string \<Rightarrow> string" where
  "status_activity status = (if status = StatusPublished then ''entry.publish'' else ''entry.unpublish'')"

definition next_published_at :: "string \<Rightarrow> int \<Rightarrow> entry_row \<Rightarrow> int option" where
  "next_published_at status now e =
     (if status = StatusPublished then (case en_PublishedAt e of None \<Rightarrow> Some now | Some x \<Rightarrow> Some x) else None)"

definition status_checks ::
    "world \<Rightarrow> subject option \<Rightarrow> string \<Rightarrow> uuid \<Rightarrow> string \<Rightarrow> int \<Rightarrow> entry_db \<Rightarrow>
     go_error + subject \<times> type_record \<times> entry_row" where
  "status_checks W ctx typeName i status expected db =
     and_then (writable_entry W ctx (status_verb status) typeName i db) (\<lambda>(sub, t, e).
     and_then (version_matches expected e) (\<lambda>_. Inr (sub, t, e)))"

definition status_noop :: "string \<Rightarrow> entry_row \<Rightarrow> bool" where
  "status_noop status e \<longleftrightarrow> en_Status e = status \<and> \<not> HasUnpublishedChanges e"

definition status_struct :: "subject \<Rightarrow> int \<Rightarrow> entry_row \<Rightarrow> entry_row" where
  "status_struct sub now e = (recordUpdateProvenance sub (e\<lparr>en_UpdatedAt := now\<rparr>))\<lparr>en_PublishedBy := actor sub\<rparr>"

definition status_commit ::
    "subject \<times> type_record \<times> entry_row \<Rightarrow> string \<Rightarrow> uuid \<Rightarrow> int \<Rightarrow> activity_rec option \<Rightarrow> entry_db \<Rightarrow>
     (go_error + 'rel entry_dto) \<times> entry_db" where
  "status_commit read status fresh now act0 db =
     (case read of (sub, t, e) \<Rightarrow>
        let act = describe (ct_Fields (tr_Type t)) (Text (en_Payload e)) act0 in
        if status_noop status e then closing (cancel_rec act) (Inr (ProjectEntry (tr_Type t) e sub), db)
        else case SetEntryPublishState_repo fresh direct_publish (status_struct sub now e) status
                    (next_published_at status now e) db of
               Inl err \<Rightarrow> closing act (Inl err, db)
             | Inr (e', db') \<Rightarrow> closing act (Inr (ProjectEntry (tr_Type t) e' sub), db'))"

definition SetEntryStatus ::
    "world \<Rightarrow> subject option \<Rightarrow> string \<Rightarrow> uuid \<Rightarrow> string \<Rightarrow> int \<Rightarrow> uuid \<Rightarrow> int \<Rightarrow> entry_db \<Rightarrow>
     (go_error + 'rel entry_dto) \<times> entry_db" where
  "SetEntryStatus W ctx typeName i status expected fresh now db =
     (if \<not> ValidStatus status then (Inl (errStatusInvalid status), db)
      else
        let act = forEntry i (beginActivity ctx (status_activity status) True typeName now) in
        case status_checks W ctx typeName i status expected db of
          Inl err \<Rightarrow> closing act (Inl err, db)
        | Inr read \<Rightarrow> status_commit read status fresh now act db)"

section \<open>Delete\<close>

definition delete_reads ::
    "world \<Rightarrow> subject option \<Rightarrow> string \<Rightarrow> uuid \<Rightarrow> entry_db \<Rightarrow> go_error + subject \<times> type_record \<times> entry_row" where
  "delete_reads W ctx typeName i db =
     and_then (authorize (wd_allow W) ctx ''content:delete'' i typeName) (\<lambda>sub.
     and_then (TypeByName (TenantID sub) typeName db) (\<lambda>t.
     and_then (app (guardTypeWrite (tr_Type t) sub)) (\<lambda>_.
     and_then (GetEntry_repo (TenantID sub) (tr_ID t) i db) (\<lambda>e. Inr (sub, t, e)))))"

definition DeleteEntry ::
    "world \<Rightarrow> subject option \<Rightarrow> string \<Rightarrow> uuid \<Rightarrow> int \<Rightarrow> entry_db \<Rightarrow> (go_error + unit) \<times> entry_db" where
  "DeleteEntry W ctx typeName i now db =
     (let act0 = forEntry i (beginActivity ctx ''entry.delete'' True typeName now) in
      case delete_reads W ctx typeName i db of
        Inl err \<Rightarrow> closing act0 (Inl err, db)
      | Inr (sub, t, e) \<Rightarrow>
          (let act = describe (ct_Fields (tr_Type t)) (Text (en_Payload e)) act0 in
           case guardOwned (tr_Type t) sub (en_CreatedBy e) of
             Some err \<Rightarrow> closing act (Inl (AppError err), db)
           | None \<Rightarrow>
               (case DeleteEntry_repo (TenantID sub) (tr_ID t) i db of
                  Inl err \<Rightarrow> closing act (Inl err, db)
                | Inr db' \<Rightarrow> closing act (Inr (), db'))))"

end
