(* ===== verification/Entry_Releases.thy ===== *)
theory Entry_Releases
  imports Entry_Service
begin

text \<open>
  Published revisions, their comparison with the working copy and their restoration
  (\<open>service/publish_revision.go\<close>), and review decisions (\<open>service/review_decision.go\<close>,
  \<open>service/pending_review.go\<close>).
\<close>

section \<open>Who may look at releases\<close>

definition guardRevisionAudience :: "subject \<Rightarrow> go_error option" where
  "guardRevisionAudience sub =
     (if PublicDelivery sub then Some forbidden
      else if IsAgent sub then Some (AppError (New ''CONTENT_REVISION_AGENT_FORBIDDEN'' 403))
      else None)"

definition resolveRevisionEntry ::
    "world \<Rightarrow> subject option \<Rightarrow> string \<Rightarrow> string \<Rightarrow> uuid \<Rightarrow> entry_db \<Rightarrow> go_error + subject \<times> type_record \<times> entry_row" where
  "resolveRevisionEntry W ctx action typeName i db =
     and_then (authorize (wd_allow W) ctx action i typeName) (\<lambda>sub.
     and_then (refuse_if (guardRevisionAudience sub)) (\<lambda>_.
     and_then (TypeByName (TenantID sub) typeName db) (\<lambda>t.
     and_then (app (if action = ''content:update'' then guardTypeWrite (tr_Type t) sub
                    else guardTypeRead (tr_Type t) sub)) (\<lambda>_.
     and_then (GetEntry_repo (TenantID sub) (tr_ID t) i db) (\<lambda>e.
     and_then (app (guardOwned (tr_Type t) sub (en_CreatedBy e))) (\<lambda>_.
     Inr (sub, t, e)))))))"

definition errRevisionNoInvalid :: go_error where
  "errRevisionNoInvalid = AppError (WithDetails (New ''CONTENT_REVISION_NO_INVALID'' 400) [(''revision_no'', DStr [])])"

definition errRevisionNotFound :: go_error where
  "errRevisionNotFound = AppError (New ''CONTENT_REVISION_NOT_FOUND'' 404)"

definition loadRevision :: "string \<Rightarrow> uuid \<Rightarrow> int \<Rightarrow> entry_db \<Rightarrow> go_error + publish_revision" where
  "loadRevision tenant i n db =
     (if n \<le> 0 then Inl errRevisionNoInvalid
      else case GetEntryPublishRevision tenant i (nat n) db of
             Inl _ \<Rightarrow> Inl errRevisionNotFound | Inr r \<Rightarrow> Inr r)"

section \<open>Reading and comparing\<close>

record revision_dto =
  rv_RevisionNo :: nat
  rv_Version :: nat
  rv_PublishedAt :: int
  rv_PublishedBy :: "uuid option"
  rv_Via :: string
  rv_ViaScheduleID :: "uuid option"

definition projectPublishRevision :: "publish_revision \<Rightarrow> revision_dto" where
  "projectPublishRevision r =
     \<lparr>rv_RevisionNo = pr_RevisionNo r, rv_Version = pr_Version r, rv_PublishedAt = pr_PublishedAt r,
      rv_PublishedBy = pr_PublishedBy r, rv_Via = pr_Via r, rv_ViaScheduleID = pr_ViaScheduleID r\<rparr>"

definition droppedKeys :: "json \<Rightarrow> content_type \<Rightarrow> string list" where
  "droppedKeys payload ct =
     (case payloadKeys (Text payload) of
        Inl _ \<Rightarrow> [] | Inr keys \<Rightarrow> filter (\<lambda>k. FieldByKey (ct_Fields ct) k = None) keys)"

definition visibleKeys :: "string list \<Rightarrow> string list \<Rightarrow> string list" where
  "visibleKeys keys hidden = filter (\<lambda>k. k \<notin> set hidden) keys"

record revision_diff =
  df_Revision :: revision_dto
  df_RevisionData :: raw_json
  df_Data :: raw_json
  df_ChangedKeys :: "string list"
  df_HasHiddenChanges :: bool
  df_DroppedKeys :: "string list"

definition reading ::
    "subject option \<Rightarrow> string \<Rightarrow> uuid \<Rightarrow> int \<Rightarrow> go_error + subject \<times> type_record \<times> entry_row \<Rightarrow>
     (subject \<Rightarrow> content_type \<Rightarrow> entry_row \<Rightarrow> go_error + 'a) \<Rightarrow> entry_db \<Rightarrow> (go_error + 'a) \<times> entry_db" where
  "reading ctx typeName i now resolved body db =
     (let act = forEntry i (beginActivity ctx ''entry.read'' False typeName now) in
      case resolved of
        Inl e \<Rightarrow> closing act (Inl e, db)
      | Inr (sub, t, e) \<Rightarrow>
          closing (describe (ct_Fields (tr_Type t)) (Text (en_Payload e)) act) (body sub (tr_Type t) e, db))"

definition ListEntryRevisions_svc ::
    "world \<Rightarrow> subject option \<Rightarrow> string \<Rightarrow> uuid \<Rightarrow> int \<Rightarrow> entry_db \<Rightarrow> (go_error + revision_dto list) \<times> entry_db" where
  "ListEntryRevisions_svc W ctx typeName i now db =
     reading ctx typeName i now (resolveRevisionEntry W ctx ''content:read'' typeName i db)
       (\<lambda>sub ct e. Inr (map projectPublishRevision (ListEntryPublishRevisions (TenantID sub) i db))) db"

definition GetEntryRevision ::
    "world \<Rightarrow> subject option \<Rightarrow> string \<Rightarrow> uuid \<Rightarrow> int \<Rightarrow> int \<Rightarrow> entry_db \<Rightarrow> (go_error + revision_dto \<times> raw_json) \<times> entry_db" where
  "GetEntryRevision W ctx typeName i n now db =
     reading ctx typeName i now (resolveRevisionEntry W ctx ''content:read'' typeName i db)
       (\<lambda>sub ct e. and_then (loadRevision (TenantID sub) i n db) (\<lambda>r.
          Inr (projectPublishRevision r, stripKeys (Text (pr_Payload r)) (unreadableKeys (ct_Fields ct) sub)))) db"

definition diff_of :: "content_type \<Rightarrow> subject \<Rightarrow> entry_row \<Rightarrow> publish_revision \<Rightarrow> revision_diff" where
  "diff_of ct sub e r =
     (let old = Text (pruneUndefined (ct_Fields ct) (pr_Payload r));
          cur = Text (pruneUndefined (ct_Fields ct) (en_Payload e));
          hidden = unreadableKeys (ct_Fields ct) sub in
      \<lparr>df_Revision = projectPublishRevision r, df_RevisionData = stripKeys old hidden,
       df_Data = stripKeys cur hidden, df_ChangedKeys = visibleKeys (ChangedKeysBetween old cur) hidden,
       df_HasHiddenChanges = hiddenKeysDiffer cur old hidden, df_DroppedKeys = droppedKeys (pr_Payload r) ct\<rparr>)"

definition DiffEntryRevision ::
    "world \<Rightarrow> subject option \<Rightarrow> string \<Rightarrow> uuid \<Rightarrow> int \<Rightarrow> int \<Rightarrow> entry_db \<Rightarrow> (go_error + revision_diff) \<times> entry_db" where
  "DiffEntryRevision W ctx typeName i n now db =
     reading ctx typeName i now (resolveRevisionEntry W ctx ''content:read'' typeName i db)
       (\<lambda>sub ct e. and_then (loadRevision (TenantID sub) i n db) (\<lambda>r. Inr (diff_of ct sub e r))) db"

section \<open>Restoring\<close>

definition guardRemovedKeys :: "content_type \<Rightarrow> subject \<Rightarrow> string list \<Rightarrow> raw_json \<Rightarrow> app_error option" where
  "guardRemovedKeys ct sub changed restored =
     (if \<not> anyRestricted (ct_Fields ct) then None
      else case payloadKeys restored of
             Inl e \<Rightarrow> Some e
           | Inr here \<Rightarrow>
               first_error (\<lambda>k. if k \<in> set here then None else refuse_unwritable (ct_Fields ct) sub k) changed)"

record restore_plan =
  rp_Saved :: saved
  rp_Revision :: publish_revision
  rp_Dropped :: "string list"

definition restore_checks ::
    "world \<Rightarrow> subject option \<Rightarrow> string \<Rightarrow> uuid \<Rightarrow> int \<Rightarrow> int \<Rightarrow> int \<Rightarrow> entry_db \<Rightarrow> go_error + restore_plan" where
  "restore_checks W ctx typeName i n expected now db =
     and_then (require (0 < n) errRevisionNoInvalid) (\<lambda>_.
     and_then (resolveRevisionEntry W ctx ''content:update'' typeName i db) (\<lambda>(sub, t, e).
     and_then (version_matches expected e) (\<lambda>_.
     and_then (loadRevision (TenantID sub) i n db) (\<lambda>r.
     let ct = tr_Type t;
         restored = Text (pruneUndefined (ct_Fields ct) (pr_Payload r));
         base = Text (pruneUndefined (ct_Fields ct) (en_Payload e));
         changed = ChangedKeysBetween base restored in
     and_then (app (guardWritableKeys ct sub (keepKeys restored changed))) (\<lambda>_.
     and_then (app (guardRemovedKeys ct sub changed restored)) (\<lambda>_.
     and_then (validateAndNormalize (wd_env W) (TenantID sub) sub ct restored db) (\<lambda>(clean, media, rels).
     and_then (wd_quota W (TenantID sub)) (\<lambda>q.
     and_then (guardEntryBytes W q clean) (\<lambda>_.
     Inr \<lparr>rp_Saved = \<lparr>sv_Sub = sub, sv_Type = t, sv_Base = base, sv_Before = e,
            sv_Entry = recordUpdateProvenance sub
              (e\<lparr>en_Payload := clean, en_SearchText := ExtractSearchText (ct_Fields ct) (Text clean),
                 en_UpdatedAt := now\<rparr>),
            sv_Media = media, sv_Relations = rels\<rparr>,
          rp_Revision = r, rp_Dropped = droppedKeys (pr_Payload r) ct\<rparr>)))))))))"

text \<open>An instant stands for its text.\<close>

definition RestoreDetails :: "publish_revision \<Rightarrow> string list \<Rightarrow> (string \<times> detail) list" where
  "RestoreDetails r dropped =
     [(''revision_no'', DNat (pr_RevisionNo r)), (''published_at'', DNat (nat (pr_PublishedAt r))),
      (''dropped_keys'', DStrs dropped)]"

definition restore_act :: "restore_plan \<Rightarrow> activity_rec option \<Rightarrow> activity_rec option" where
  "restore_act p act = withDetails_rec (RestoreDetails (rp_Revision p) (rp_Dropped p)) (update_act (rp_Saved p) act)"

text \<open>A restoration is saved like an update, without the notice an update may send.\<close>

definition restore_commit ::
    "restore_plan \<Rightarrow> activity_rec option \<Rightarrow> entry_db \<Rightarrow>
     (go_error + 'rel entry_dto \<times> nat \<times> int \<times> string list) \<times> entry_db" where
  "restore_commit p act0 db =
     (let act = restore_act p act0; s = rp_Saved p; r = rp_Revision p in
      case UpdateEntry_repo (sv_Entry s) db of
        Inl err \<Rightarrow> closing act (Inl err, db)
      | Inr (e, db1) \<Rightarrow>
          (case update_links s db1 of
             (Some err, db2) \<Rightarrow> closing act (Inl err, db2)
           | (None, db2) \<Rightarrow>
               closing act (Inr (ProjectEntry (tr_Type (sv_Type s)) e (sv_Sub s), pr_RevisionNo r, pr_PublishedAt r,
                 rp_Dropped p), db2)))"

definition RestoreEntryRevision ::
    "world \<Rightarrow> subject option \<Rightarrow> string \<Rightarrow> uuid \<Rightarrow> int \<Rightarrow> int \<Rightarrow> int \<Rightarrow> entry_db \<Rightarrow>
     (go_error + 'rel entry_dto \<times> nat \<times> int \<times> string list) \<times> entry_db" where
  "RestoreEntryRevision W ctx typeName i n expected now db =
     (let act = forEntry i (beginActivity ctx ''entry.restore'' True typeName now) in
      case restore_checks W ctx typeName i n expected now db of
        Inl err \<Rightarrow> closing act (Inl err, db)
      | Inr p \<Rightarrow> restore_commit p act db)"

section \<open>Review decisions\<close>

definition maxReviewReasonLen :: nat where "maxReviewReasonLen = 2000"

definition errReviewReasonRequired :: go_error where
  "errReviewReasonRequired = AppError (New ''CONTENT_REVIEW_REASON_REQUIRED'' 422)"

definition errReviewReasonTooLong :: "nat \<Rightarrow> go_error" where
  "errReviewReasonTooLong n =
     AppError (err422 ''CONTENT_REVIEW_REASON_TOO_LONG'' [(''length'', DNat n), (''max'', DNat maxReviewReasonLen)])"

definition errEntryNotPending :: go_error where
  "errEntryNotPending = AppError (New ''CONTENT_ENTRY_NOT_PENDING'' 409)"

definition notifyEntryChangesRequested :: "subject \<Rightarrow> entry_row \<Rightarrow> string \<Rightarrow> entry_db \<Rightarrow> entry_db" where
  "notifyEntryChangesRequested sub e reason db =
     (case en_UpdatedBy e of
        None \<Rightarrow> db
      | Some user \<Rightarrow>
          if user = ResponsibleUserID sub then db
          else notify (UserNotice user (TenantID sub) ''entry_changes_requested''
                 (''A reviewer requested changes: '' @ reason) (entry_link (en_ID e))) db)"

text \<open>After the row was read: it must be at the expected version, pending, and not sent back already.\<close>

definition review_guards :: "subject \<Rightarrow> entry_row \<Rightarrow> int \<Rightarrow> entry_db \<Rightarrow> go_error + unit" where
  "review_guards sub e expected db =
     and_then (version_matches expected e) (\<lambda>_.
     and_then (require (pendingReview e) errEntryNotPending) (\<lambda>_.
     case GetLatestEntryReviewDecision (TenantID sub) (en_ID e) db of
       None \<Rightarrow> Inr ()
     | Some d \<Rightarrow> require (rd_EntryVersion d \<noteq> en_Version e) errEntryNotPending))"

definition review_row :: "subject \<Rightarrow> entry_row \<Rightarrow> string \<Rightarrow> uuid \<Rightarrow> int \<Rightarrow> review_decision" where
  "review_row sub e reason fresh now =
     \<lparr>rd_ID = fresh, rd_TenantID = TenantID sub, rd_EntryID = en_ID e, rd_Decision = ReviewDecisionChangesRequested,
      rd_Reason = reason, rd_EntryVersion = en_Version e, rd_DecidedBy = ResponsibleUserID sub, rd_DecidedAt = now\<rparr>"

definition RequestChanges ::
    "world \<Rightarrow> subject option \<Rightarrow> string \<Rightarrow> uuid \<Rightarrow> string \<Rightarrow> int \<Rightarrow> uuid \<Rightarrow> int \<Rightarrow> entry_db \<Rightarrow>
     (go_error + review_decision_dto) \<times> entry_db" where
  "RequestChanges W ctx typeName i raw expected fresh now db =
     (let reason = TrimSpace raw in
      if reason = [] then (Inl errReviewReasonRequired, db)
      else if maxReviewReasonLen < length reason then (Inl (errReviewReasonTooLong (length reason)), db)
      else
        let act0 = forEntry i (beginActivity ctx ''entry.review.changes_requested'' True typeName now) in
        case writable_entry W ctx ''content:publish'' typeName i db of
          Inl err \<Rightarrow> closing act0 (Inl err, db)
        | Inr (sub, t, e) \<Rightarrow>
            (let act = describe (ct_Fields (tr_Type t)) (Text (en_Payload e)) act0;
                 row = review_row sub e reason fresh now in
             case and_then (review_guards sub e expected db) (\<lambda>_. CreateEntryReviewDecision row db) of
               Inl err \<Rightarrow> closing act (Inl err, db)
             | Inr db' \<Rightarrow>
                 closing (withDetails_rec [(''reason'', DStr reason)] act)
                   (Inr (projectReviewDecision row), notifyEntryChangesRequested sub e reason db')))"

definition ListEntryReviewDecisions_svc ::
    "world \<Rightarrow> subject option \<Rightarrow> string \<Rightarrow> uuid \<Rightarrow> entry_db \<Rightarrow> go_error + review_decision_dto list" where
  "ListEntryReviewDecisions_svc W ctx typeName i db =
     and_then (authorize (wd_allow W) ctx ''content:read'' i typeName) (\<lambda>sub.
     and_then (TypeByName (TenantID sub) typeName db) (\<lambda>t.
     and_then (app (guardTypeRead (tr_Type t) sub)) (\<lambda>_.
     and_then (GetEntry_repo (TenantID sub) (tr_ID t) i db) (\<lambda>e.
     and_then (app (guardOwned (tr_Type t) sub (en_CreatedBy e))) (\<lambda>_.
     Inr (map projectReviewDecision (ListEntryReviewDecisions (TenantID sub) i db)))))))"

definition decorateWithReviewDecision :: "subject \<Rightarrow> 'rel entry_dto \<Rightarrow> uuid \<Rightarrow> entry_db \<Rightarrow> 'rel entry_dto" where
  "decorateWithReviewDecision sub dto i db =
     (if PublicDelivery sub then dto
      else withReviewDecision (GetLatestEntryReviewDecision (TenantID sub) i db) dto)"

section \<open>The release queue\<close>

record pending_entry =
  pe_ID :: uuid
  pe_ContentType :: string
  pe_Title :: string
  pe_Status :: string
  pe_HasPublishedSnapshot :: bool
  pe_HasUnpublishedChanges :: bool
  pe_ActorKind :: "string option"
  pe_ActorUserID :: "uuid option"
  pe_ActorAgentID :: "string option"
  pe_UpdatedAt :: int

definition queue_row :: "type_record list \<Rightarrow> entry_row \<Rightarrow> pending_entry" where
  "queue_row types e =
     (let t = find (\<lambda>t. tr_ID t = en_ContentTypeID e) types in
      \<lparr>pe_ID = en_ID e, pe_ContentType = (case t of None \<Rightarrow> [] | Some x \<Rightarrow> ct_Name (tr_Type x)),
       pe_Title = (case t of None \<Rightarrow> [] | Some x \<Rightarrow> TitleFor (ct_Fields (tr_Type x)) (Text (en_Payload e))),
       pe_Status = en_Status e, pe_HasPublishedSnapshot = (en_PublishedPayload e \<noteq> None),
       pe_HasUnpublishedChanges = HasUnpublishedChanges e, pe_ActorKind = en_UpdatedByKind e,
       pe_ActorUserID = en_UpdatedBy e, pe_ActorAgentID = en_UpdatedByAgent e, pe_UpdatedAt = en_UpdatedAt e\<rparr>)"

definition ListPendingReview ::
    "world \<Rightarrow> subject option \<Rightarrow> int \<Rightarrow> entry_db \<Rightarrow> go_error + pending_entry list" where
  "ListPendingReview W ctx limit db =
     and_then (authorize (wd_allow W) ctx ''content:review:list'' ''pending-review'' []) (\<lambda>sub.
     and_then (require (\<not> PublicDelivery sub) forbidden) (\<lambda>_.
     Inr (map (queue_row (filter (\<lambda>t. tr_TenantID t = TenantID sub) (db_Types db)))
            (ListPendingReview_repo (TenantID sub) (TenantRole sub) (ResponsibleUserID sub) limit db))))"

end
