(* ===== verification/Entry_Schedules.thy ===== *)
theory Entry_Schedules
  imports Entry_Releases
begin

text \<open>
  Scheduled releases: filing, cancelling and reading a schedule (\<open>service/schedule.go\<close>) and
  the worker that runs the due ones (\<open>scheduler/worker.go\<close>).  An instant is a number of
  nanoseconds since 1970; the microsecond rounding of the columns is not modelled.
\<close>

section \<open>Timestamps\<close>

text \<open>\<open>time.Parse(time.RFC3339, s)\<close>: days before a date of the Gregorian calendar, then the clock.\<close>

definition days_before_year :: "nat \<Rightarrow> int" where
  "days_before_year y =
     (let p = int y - 1 in 365 * int y + p div 4 - p div 100 + p div 400 + 1)"

definition days_before_month :: "nat \<Rightarrow> nat \<Rightarrow> nat" where
  "days_before_month y m = sum_list (map (\<lambda>k. days_in k y) [1..<m])"

definition epoch_days :: "nat \<Rightarrow> nat \<Rightarrow> nat \<Rightarrow> int" where
  "epoch_days y m d = days_before_year y - days_before_year 1970 + int (days_before_month y m) + int d - 1"

definition fraction_nanos :: "string \<Rightarrow> nat" where
  "fraction_nanos s =
     (if skip_fraction s = s then 0
      else foldl (\<lambda>n c. 10 * n + digit_val c) 0
             (take 9 (takeWhile is_digit (tl s) @ replicate 9 (CHR ''0''))))"

definition zone_seconds :: "string \<Rightarrow> int" where
  "zone_seconds s =
     (case s of
        z # h1 # h2 # c # m1 # m2 # rest \<Rightarrow>
          (if z = CHR ''Z'' then 0
           else (if z = CHR ''-'' then -1 else 1) *
                int (60 * (60 * (digit_val h1 * 10 + digit_val h2) + digit_val m1 * 10 + digit_val m2)))
      | _ \<Rightarrow> 0)"

definition parse_rfc3339 :: "string \<Rightarrow> int option" where
  "parse_rfc3339 s =
     Option.bind (parse_date_prefix s) (\<lambda>((y, m, d), s1).
     Option.bind (skip_char CHR ''T'' s1) (\<lambda>s2.
     Option.bind (getnum False s2) (\<lambda>(hh, s3).
     Option.bind (skip_char CHR '':'' s3) (\<lambda>s4.
     Option.bind (getnum True s4) (\<lambda>(mm, s5).
     Option.bind (skip_char CHR '':'' s5) (\<lambda>s6.
     Option.bind (getnum True s6) (\<lambda>(ss, s7).
       if \<not> (hh < 24 \<and> mm < 60 \<and> ss < 60) then None
       else case parse_zone (skip_fraction s7) of
              Some [] \<Rightarrow>
                Some (1000000000 * (86400 * epoch_days y m d + int (3600 * hh + 60 * mm + ss)
                        - zone_seconds (skip_fraction s7)) + int (fraction_nanos s7))
            | _ \<Rightarrow> None)))))))"

lemma bind_not_None: "Option.bind m f \<noteq> None \<longleftrightarrow> (\<exists>x. m = Some x \<and> f x \<noteq> None)"
  by (cases m) auto

lemma parse_rfc3339_iff: "parse_rfc3339 s \<noteq> None \<longleftrightarrow> valid_datetime s"
proof -
  have is_Some: "(case r of None \<Rightarrow> False | Some rest \<Rightarrow> rest = []) \<longleftrightarrow> r = Some []" for r :: "string option"
    by (cases r) auto
  have leaf: "(case z of None \<Rightarrow> None | Some [] \<Rightarrow> Some v | Some (c # cs) \<Rightarrow> None) \<noteq> None \<longleftrightarrow> z = Some []"
    for z :: "string option" and v :: int
    by (cases z rule: option.exhaust; auto split: list.split)
  have guard: "(if \<not> b then None else v) \<noteq> None \<longleftrightarrow> b \<and> v \<noteq> None"
    "(if b then z else None) = Some rest \<longleftrightarrow> b \<and> z = Some rest"
    for b and v :: "int option" and z :: "string option" and rest by auto
  show ?thesis
    unfolding parse_rfc3339_def valid_datetime_def is_Some
    by (simp only: bind_not_None bind_eq_Some_conv guard leaf split_paired_Ex prod.case)
qed

section \<open>Filing a schedule\<close>

definition ScheduleMaxHorizon :: int where "ScheduleMaxHorizon = 365 * 24 * 3600 * 1000000000"

definition errScheduleActionInvalid :: "string \<Rightarrow> go_error" where
  "errScheduleActionInvalid action =
     AppError (err422 ''CONTENT_SCHEDULE_ACTION_INVALID''
       [(''action'', DStr action), (''allowed'', DStrs [ScheduleActionPublish, ScheduleActionUnpublish])])"

definition errScheduleTimeInvalid :: "string \<Rightarrow> string \<Rightarrow> go_error" where
  "errScheduleTimeInvalid runAt reason =
     AppError (err422 ''CONTENT_SCHEDULE_TIME_INVALID'' [(''run_at'', DStr runAt), (''reason'', DStr reason)])"

definition errScheduleExists :: "entry_schedule \<Rightarrow> go_error" where
  "errScheduleExists s =
     AppError (WithDetails ErrSchedulePending [(''action'', DStr (sc_Action s)), (''run_at'', DNat (nat (sc_RunAt s)))])"

definition errScheduleNotFound :: go_error where
  "errScheduleNotFound = AppError (New ''CONTENT_SCHEDULE_NOT_FOUND'' 404)"

definition errScheduleNoop :: "string \<Rightarrow> go_error" where
  "errScheduleNoop reason = AppError (err422 ''CONTENT_SCHEDULE_NOOP'' [(''reason'', DStr reason)])"

definition parseRunAt :: "int \<Rightarrow> string \<Rightarrow> go_error + int" where
  "parseRunAt now raw =
     (case parse_rfc3339 raw of
        None \<Rightarrow> Inl (errScheduleTimeInvalid raw ''not an RFC3339 timestamp'')
      | Some runAt \<Rightarrow>
          if \<not> now < runAt then Inl (errScheduleTimeInvalid raw ''must be in the future'')
          else if now + ScheduleMaxHorizon < runAt then Inl (errScheduleTimeInvalid raw ''must be within a year'')
          else Inr runAt)"

definition guardScheduleUseful :: "string \<Rightarrow> entry_row \<Rightarrow> go_error + unit" where
  "guardScheduleUseful action e =
     (if action = ScheduleActionPublish
      then require (\<not> (en_Status e = StatusPublished \<and> \<not> HasUnpublishedChanges e))
             (errScheduleNoop ''entry is already published with no unreleased changes'')
      else require (en_Status e = StatusPublished) (errScheduleNoop ''entry is not published''))"

definition pinnedVersionFor :: "string \<Rightarrow> entry_row \<Rightarrow> nat" where
  "pinnedVersionFor action e = (if action = ScheduleActionPublish then en_Version e else PublishedVersion e)"

definition schedule_row :: "subject \<Rightarrow> type_record \<Rightarrow> entry_row \<Rightarrow> string \<Rightarrow> int \<Rightarrow> uuid \<Rightarrow> int \<Rightarrow> entry_schedule" where
  "schedule_row sub t e action runAt fresh now =
     \<lparr>sc_ID = fresh, sc_TenantID = TenantID sub, sc_EntryID = en_ID e, sc_ContentTypeID = tr_ID t,
      sc_Action = action, sc_RunAt = runAt, sc_PinnedVersion = pinnedVersionFor action e,
      sc_State = ScheduleStatePending, sc_RequestedBy = ResponsibleUserID sub, sc_CreatedAt = now,
      sc_ExecutedAt = None, sc_Error = []\<rparr>"

definition schedule_verb :: "string \<Rightarrow> string" where
  "schedule_verb action = (if action = ScheduleActionPublish then ''content:publish'' else ''content:update'')"

definition schedule_reads ::
    "world \<Rightarrow> subject option \<Rightarrow> string \<Rightarrow> uuid \<Rightarrow> string \<Rightarrow> string \<Rightarrow> int \<Rightarrow> entry_db \<Rightarrow>
     go_error + subject \<times> type_record \<times> entry_row \<times> int" where
  "schedule_reads W ctx typeName i action raw now db =
     and_then (authorize (wd_allow W) ctx (schedule_verb action) i typeName) (\<lambda>sub.
     and_then (parseRunAt now raw) (\<lambda>runAt.
     and_then (TypeByName (TenantID sub) typeName db) (\<lambda>t.
     and_then (app (guardTypeWrite (tr_Type t) sub)) (\<lambda>_.
     and_then (GetEntry_repo (TenantID sub) (tr_ID t) i db) (\<lambda>e.
     and_then (app (guardOwned (tr_Type t) sub (en_CreatedBy e))) (\<lambda>_.
     Inr (sub, t, e, runAt)))))))"

definition schedule_guards :: "subject \<Rightarrow> string \<Rightarrow> entry_row \<Rightarrow> entry_db \<Rightarrow> go_error + unit" where
  "schedule_guards sub action e db =
     and_then (guardScheduleUseful action e) (\<lambda>_.
     case GetPendingEntrySchedule (TenantID sub) (en_ID e) db of
       None \<Rightarrow> Inr () | Some s \<Rightarrow> Inl (errScheduleExists s))"

definition ScheduleEntry ::
    "world \<Rightarrow> subject option \<Rightarrow> string \<Rightarrow> uuid \<Rightarrow> string \<Rightarrow> string \<Rightarrow> uuid \<Rightarrow> int \<Rightarrow> entry_db \<Rightarrow>
     (go_error + entry_schedule) \<times> entry_db" where
  "ScheduleEntry W ctx typeName i action raw fresh now db =
     (if \<not> ValidScheduleAction action then (Inl (errScheduleActionInvalid action), db)
      else
        let act0 = forEntry i (beginActivity ctx ''entry.schedule'' True typeName now) in
        case schedule_reads W ctx typeName i action raw now db of
          Inl err \<Rightarrow> closing act0 (Inl err, db)
        | Inr (sub, t, e, runAt) \<Rightarrow>
            (let act = describe (ct_Fields (tr_Type t)) (Text (en_Payload e)) act0;
                 row = schedule_row sub t e action runAt fresh now in
             case and_then (schedule_guards sub action e db) (\<lambda>_. CreateEntrySchedule row db) of
               Inl err \<Rightarrow> closing act (Inl err, db)
             | Inr db' \<Rightarrow> closing act (Inr row, db')))"

definition cancel_guards ::
    "world \<Rightarrow> subject option \<Rightarrow> string \<Rightarrow> uuid \<Rightarrow> subject \<Rightarrow> entry_db \<Rightarrow> go_error + entry_schedule" where
  "cancel_guards W ctx typeName i sub db =
     (case GetPendingEntrySchedule (TenantID sub) i db of
        None \<Rightarrow> Inl errScheduleNotFound
      | Some s \<Rightarrow>
          if sc_Action s = ScheduleActionPublish
          then map_sum (\<lambda>e. e) (\<lambda>_. s) (authorize (wd_allow W) ctx ''content:publish'' i typeName)
          else Inr s)"

definition CancelEntrySchedule_svc ::
    "world \<Rightarrow> subject option \<Rightarrow> string \<Rightarrow> uuid \<Rightarrow> int \<Rightarrow> entry_db \<Rightarrow> (go_error + unit) \<times> entry_db" where
  "CancelEntrySchedule_svc W ctx typeName i now db =
     (let act0 = forEntry i (beginActivity ctx ''entry.schedule.cancel'' True typeName now) in
      case writable_entry W ctx ''content:update'' typeName i db of
        Inl err \<Rightarrow> closing act0 (Inl err, db)
      | Inr (sub, t, e) \<Rightarrow>
          (let act = describe (ct_Fields (tr_Type t)) (Text (en_Payload e)) act0 in
           case cancel_guards W ctx typeName i sub db of
             Inl err \<Rightarrow> closing act (Inl err, db)
           | Inr _ \<Rightarrow>
               (case CancelEntrySchedule (TenantID sub) i db of
                  Inl err \<Rightarrow> closing act (Inl errScheduleNotFound, db)
                | Inr (_, db') \<Rightarrow> closing act (Inr (), db'))))"

text \<open>\<open>projectSchedule\<close> renders the row; the nil requester is rendered as absent.\<close>

definition projectSchedule :: "entry_schedule \<Rightarrow> entry_schedule \<times> uuid option" where
  "projectSchedule s = (s, if sc_RequestedBy s = uuid_Nil then None else Some (sc_RequestedBy s))"

definition schedule_readable ::
    "world \<Rightarrow> subject option \<Rightarrow> string \<Rightarrow> uuid \<Rightarrow> entry_db \<Rightarrow> go_error + subject \<times> type_record \<times> entry_row" where
  "schedule_readable W ctx typeName i db =
     and_then (authorize (wd_allow W) ctx ''content:read'' i typeName) (\<lambda>sub.
     and_then (require (\<not> PublicDelivery sub) forbidden) (\<lambda>_.
     and_then (TypeByName (TenantID sub) typeName db) (\<lambda>t.
     and_then (app (guardTypeRead (tr_Type t) sub)) (\<lambda>_.
     and_then (GetEntry_repo (TenantID sub) (tr_ID t) i db) (\<lambda>e.
     and_then (app (guardOwned (tr_Type t) sub (en_CreatedBy e))) (\<lambda>_. Inr (sub, t, e)))))))"

definition GetEntrySchedule ::
    "world \<Rightarrow> subject option \<Rightarrow> string \<Rightarrow> uuid \<Rightarrow> int \<Rightarrow> entry_db \<Rightarrow>
     (go_error + entry_schedule \<times> uuid option) \<times> entry_db" where
  "GetEntrySchedule W ctx typeName i now db =
     reading ctx typeName i now (schedule_readable W ctx typeName i db)
       (\<lambda>sub ct e. case GetLatestEntrySchedule (TenantID sub) i db of
          Inl _ \<Rightarrow> Inl errScheduleNotFound | Inr s \<Rightarrow> Inr (projectSchedule s)) db"

definition decorateWithSchedule :: "subject \<Rightarrow> 'rel entry_dto \<Rightarrow> uuid \<Rightarrow> entry_db \<Rightarrow> 'rel entry_dto" where
  "decorateWithSchedule sub dto i db =
     (if PublicDelivery sub then dto else withSchedule (GetActionableEntrySchedule (TenantID sub) i db) dto)"

section \<open>The worker\<close>

definition ScheduleTargetStatus :: "string \<Rightarrow> string" where
  "ScheduleTargetStatus action = (if action = ScheduleActionPublish then StatusPublished else StatusDraft)"

definition worker_line ::
    "entry_schedule \<Rightarrow> type_record \<Rightarrow> entry_row \<Rightarrow> int \<Rightarrow> string \<Rightarrow> string \<Rightarrow> uuid option \<Rightarrow>
     (string \<times> detail) list \<Rightarrow> activity_line" where
  "worker_line s t e now action via via_id ds =
     \<lparr>al_TenantID = sc_TenantID s, al_OccurredAt = now, al_ActorKind = ActorKindHuman,
      al_ActorUserID = Some (sc_RequestedBy s), al_ActorAgentID = None, al_Action = action,
      al_TargetType = ct_Name (tr_Type t), al_TargetEntryID = Some (en_ID e),
      al_TargetTitle = TitleFor (ct_Fields (tr_Type t)) (Text (en_Payload e)),
      al_Outcome = ActivityOutcomeSuccess, al_ErrorCode = [], al_ChangedKeys = [],
      al_Via = via, al_ViaScheduleID = via_id, al_Details = ds\<rparr>"

definition run_line :: "entry_schedule \<Rightarrow> type_record \<Rightarrow> entry_row \<Rightarrow> int \<Rightarrow> activity_line" where
  "run_line s t e now =
     worker_line s t e now (if sc_Action s = ScheduleActionUnpublish then ''entry.unpublish'' else ''entry.publish'')
       ''schedule'' (Some (sc_ID s)) []"

definition stale_run_line :: "entry_schedule \<Rightarrow> type_record \<Rightarrow> entry_row \<Rightarrow> int \<Rightarrow> activity_line" where
  "stale_run_line s t e now = worker_line s t e now ''entry.schedule.stale'' [] None (stale_details e s)"

definition worker_notice :: "entry_schedule \<Rightarrow> string \<Rightarrow> string \<Rightarrow> notice" where
  "worker_notice s kind body =
     UserNotice (sc_RequestedBy s) (sc_TenantID s) kind body (entry_link (sc_EntryID s))"

definition successNotice :: "entry_schedule \<Rightarrow> notice" where
  "successNotice s = worker_notice s ''schedule_succeeded''
     (''Your scheduled release ran: the entry was '' @
      (if sc_Action s = ScheduleActionUnpublish then ''unpublished'' else ''published'') @ '' as planned.'')"

definition staleNotice :: "entry_schedule \<Rightarrow> notice" where
  "staleNotice s = worker_notice s ''schedule_stale''
     ''Your scheduled release was skipped: the entry changed after you approved it, so the approval no longer matches what would have gone live.''"

definition worker_struct :: "entry_schedule \<Rightarrow> int \<Rightarrow> entry_row \<Rightarrow> entry_row" where
  "worker_struct s now e =
     e\<lparr>en_UpdatedAt := now, en_UpdatedBy := Some (sc_RequestedBy s), en_UpdatedByKind := Some ActorKindHuman,
       en_UpdatedByAgent := None, en_PublishedBy := Some (sc_RequestedBy s)\<rparr>"

definition schedule_origin :: "entry_schedule \<Rightarrow> publish_origin" where
  "schedule_origin s = \<lparr>po_Via = ''schedule'', po_ScheduleID = Some (sc_ID s)\<rparr>"

text \<open>The transaction of one schedule: an error rolls it back.\<close>

definition run_claimed ::
    "uuid \<Rightarrow> int \<Rightarrow> entry_schedule \<Rightarrow> type_record \<Rightarrow> entry_row \<Rightarrow> entry_db \<Rightarrow> go_error + entry_db \<times> notice option" where
  "run_claimed fresh now s t e db =
     (if PinsVersion s \<and> en_Version e \<noteq> sc_PinnedVersion s then
        and_then (FinishEntrySchedule (sc_TenantID s) (sc_ID s) ScheduleStateStale None [] db) (\<lambda>db1.
        and_then (RecordActivity (stale_run_line s t e now) db1) (\<lambda>db2. Inr (db2, Some (staleNotice s))))
      else
        let status = ScheduleTargetStatus (sc_Action s) in
        and_then (FinishEntrySchedule (sc_TenantID s) (sc_ID s) ScheduleStateDone (Some now) [] db) (\<lambda>db1.
        and_then (SetEntryPublishState_repo fresh (schedule_origin s) (worker_struct s now e) status
                    (next_published_at status now e) db1) (\<lambda>(e', db2).
        and_then (RecordActivity (run_line s t e' now) db2) (\<lambda>db3. Inr (db3, Some (successNotice s))))))"

definition execute_tx :: "bool \<Rightarrow> uuid \<Rightarrow> int \<Rightarrow> entry_schedule \<Rightarrow> entry_db \<Rightarrow> go_error + entry_db \<times> notice option" where
  "execute_tx held fresh now listed db =
     (case ClaimDueEntrySchedule held (sc_TenantID listed) (sc_ID listed) now db of
        None \<Rightarrow> Inr (db, None)
      | Some s \<Rightarrow>
          and_then (TypeByID (sc_TenantID s) (sc_ContentTypeID s) db) (\<lambda>t.
          and_then (GetEntry_repo (sc_TenantID s) (sc_ContentTypeID s) (sc_EntryID s) db) (\<lambda>e.
          run_claimed fresh now s t e db)))"

text \<open>\<open>text\<close> renders an error; the recorded message is cut to 500 bytes.\<close>

definition markFailed :: "(go_error \<Rightarrow> string) \<Rightarrow> int \<Rightarrow> entry_schedule \<Rightarrow> go_error \<Rightarrow> entry_db \<Rightarrow> entry_db" where
  "markFailed text stamp s cause db =
     (let msg = take 500 (text cause) in
      case FinishEntrySchedule (sc_TenantID s) (sc_ID s) ScheduleStateFailed (Some stamp) msg db of
        Inl _ \<Rightarrow> db
      | Inr db' \<Rightarrow> notify (worker_notice s ''schedule_failed'' (''Your scheduled release could not run: '' @ msg)) db')"

text \<open>
  What surrounds a poll, by the id of the schedule it is at: another transaction holds the row's
  lock; the context is found cancelled before the schedule is begun; the database or a
  cancellation aborts its transaction; the mark of a failure is not made, because the context is
  cancelled by then or because its write fails.
\<close>

record surroundings =
  su_Held :: "uuid \<Rightarrow> bool"
  su_Stopped :: "uuid \<Rightarrow> bool"
  su_Aborted :: "uuid \<Rightarrow> go_error option"
  su_Unmarked :: "uuid \<Rightarrow> bool"

definition attempt ::
    "surroundings \<Rightarrow> (uuid \<Rightarrow> uuid) \<Rightarrow> int \<Rightarrow> entry_schedule \<Rightarrow> entry_db \<Rightarrow> go_error + entry_db \<times> notice option" where
  "attempt S fresh now s db =
     (case su_Aborted S (sc_ID s) of
        Some err \<Rightarrow> Inl err
      | None \<Rightarrow> execute_tx (su_Held S (sc_ID s)) (fresh (sc_ID s)) now s db)"

definition run_one ::
    "(go_error \<Rightarrow> string) \<Rightarrow> surroundings \<Rightarrow> (uuid \<Rightarrow> uuid) \<Rightarrow> int \<Rightarrow> entry_schedule \<Rightarrow> entry_db \<Rightarrow> entry_db" where
  "run_one text S fresh now s db =
     (case attempt S fresh now s db of
        Inl err \<Rightarrow> (if su_Unmarked S (sc_ID s) then db else markFailed text now s err db)
      | Inr (db', None) \<Rightarrow> db'
      | Inr (db', Some n) \<Rightarrow> notify n db')"

text \<open>
  One poll: the due schedules are listed once, then run one after the other, until a shutdown is
  noticed between two of them.
\<close>

definition begun :: "surroundings \<Rightarrow> int \<Rightarrow> int \<Rightarrow> entry_db \<Rightarrow> entry_schedule list" where
  "begun S batch now db = takeWhile (\<lambda>s. \<not> su_Stopped S (sc_ID s)) (ListDueEntrySchedules now batch db)"

definition Tick :: "(go_error \<Rightarrow> string) \<Rightarrow> surroundings \<Rightarrow> (uuid \<Rightarrow> uuid) \<Rightarrow> int \<Rightarrow> int \<Rightarrow> entry_db \<Rightarrow> entry_db" where
  "Tick text S fresh batch now db = fold (run_one text S fresh now) (begun S batch now db) db"

end
