(* ===== verification/Entry_Queries.thy ===== *)
theory Entry_Queries
  imports Entry_Schedules
begin

text \<open>
  Lists of entries: the filter, sort and projection grammar (\<open>parseFilter\<close>, \<open>parseSort\<close>,
  \<open>parseProjection\<close> of \<open>service/content_service.go\<close>) and the query behind them
  (\<open>ListEntries\<close>, \<open>buildWhere\<close> of \<open>repository/postgres_repository.go\<close>).  SQL conditions
  are three-valued, and a cast may fail the whole statement.
\<close>

section \<open>Splitting text\<close>

text \<open>\<open>strings.SplitN\<close>, \<open>strings.Split\<close> by one byte, and \<open>strings.Fields\<close>.\<close>

fun SplitN :: "nat \<Rightarrow> char \<Rightarrow> string \<Rightarrow> string list" where
  "SplitN 0 c s = []"
| "SplitN (Suc 0) c s = [s]"
| "SplitN (Suc (Suc n)) c s =
     (case dropWhile (\<lambda>x. x \<noteq> c) s of
        [] \<Rightarrow> [s] | _ # rest \<Rightarrow> takeWhile (\<lambda>x. x \<noteq> c) s # SplitN (Suc n) c rest)"

definition Split :: "char \<Rightarrow> string \<Rightarrow> string list" where
  "Split c s = SplitN (Suc (length s)) c s"

fun words_from :: "string \<Rightarrow> string list \<Rightarrow> string list" where
  "words_from w [] = (if w = [] then [] else [w])"
| "words_from w (r # rs) =
     (if is_space r then (if w = [] then words_from [] rs else w # words_from [] rs) else words_from (w @ r) rs)"

definition Fields_of :: "string \<Rightarrow> string list" where
  "Fields_of s = words_from [] (runes s)"

definition ParseBool :: "string \<Rightarrow> bool option" where
  "ParseBool s =
     (if s \<in> set [''1'', ''t'', ''T'', ''TRUE'', ''true'', ''True''] then Some True
      else if s \<in> set [''0'', ''f'', ''F'', ''FALSE'', ''false'', ''False''] then Some False
      else None)"

section \<open>Operators\<close>

definition OpEq :: string where "OpEq = ''eq''"
definition OpNeq :: string where "OpNeq = ''neq''"
definition OpGt :: string where "OpGt = ''gt''"
definition OpGte :: string where "OpGte = ''gte''"
definition OpLt :: string where "OpLt = ''lt''"
definition OpLte :: string where "OpLte = ''lte''"
definition OpIn :: string where "OpIn = ''in''"
definition OpContains :: string where "OpContains = ''contains''"
definition OpHas :: string where "OpHas = ''has''"
definition OpNhas :: string where "OpNhas = ''nhas''"

lemmas op_defs = OpEq_def OpNeq_def OpGt_def OpGte_def OpLt_def OpLte_def OpIn_def OpContains_def
  OpHas_def OpNhas_def

definition ValidOp :: "string \<Rightarrow> bool" where
  "ValidOp op \<longleftrightarrow>
     op \<in> set [OpEq, OpNeq, OpGt, OpGte, OpLt, OpLte, OpIn, OpContains, OpHas, OpNhas]"

definition OpsForCardinality :: "bool \<Rightarrow> string list" where
  "OpsForCardinality multiple =
     (if multiple then [OpHas, OpNhas] else [OpEq, OpNeq, OpGt, OpGte, OpLt, OpLte, OpIn, OpContains])"

definition OpAllowedFor :: "string \<Rightarrow> bool \<Rightarrow> bool" where
  "OpAllowedFor op multiple \<longleftrightarrow> op \<in> set (OpsForCardinality multiple)"

record field_filter =
  ff_Field :: field
  ff_Op :: string
  ff_Value :: string

record sort_spec =
  so_Field :: field
  so_Desc :: bool

section \<open>The grammar of a request\<close>

definition err400 :: "string \<Rightarrow> (string \<times> detail) list \<Rightarrow> go_error" where
  "err400 code ds = AppError (WithDetails (New code 400) ds)"

definition supportedOps :: "field \<Rightarrow> string list" where
  "supportedOps f =
     (if Type f = FieldTypeRichText \<or> Type f = FieldTypeComponent \<or> Type f = FieldTypeDynamicZone then []
      else OpsForCardinality (Multiple f))"

definition parseFilter :: "content_type \<Rightarrow> subject \<Rightarrow> string \<Rightarrow> go_error + field_filter" where
  "parseFilter ct sub raw =
     (case SplitN 3 CHR '':'' raw of
        [key, op, v] \<Rightarrow>
          (case FieldByKey (ct_Fields ct) key of
             None \<Rightarrow> Inl (err400 ''CONTENT_FILTER_FIELD_UNKNOWN'' [(''field'', DStr key)])
           | Some f \<Rightarrow>
               if \<not> canReadField f sub then Inl (AppError (errFieldQueryForbidden key ''filter''))
               else if \<not> ValidOp op then Inl (err400 ''CONTENT_FILTER_OP_INVALID'' [(''op'', DStr op)])
               else if Type f = FieldTypeRichText \<or> Type f = FieldTypeComponent \<or> Type f = FieldTypeDynamicZone
                    then Inl (err400 ''CONTENT_FILTER_OP_UNSUPPORTED_FOR_FIELD''
                       [(''field'', DStr key), (''op'', DStr op), (''type'', DStr (Type f)), (''supported'', DStrs (supportedOps f))])
               else if \<not> OpAllowedFor op (Multiple f)
                    then Inl (err400 ''CONTENT_FILTER_OP_UNSUPPORTED_FOR_FIELD''
                       [(''field'', DStr key), (''op'', DStr op), (''multiple'', DBool (Multiple f)), (''supported'', DStrs (supportedOps f))])
               else if (op = OpHas \<or> op = OpNhas) \<and> CHR '','' \<in> set v
                    then Inl (err400 ''CONTENT_FILTER_VALUE_INVALID''
                       [(''field'', DStr key), (''op'', DStr op), (''value'', DStr v)])
               else Inr \<lparr>ff_Field = f, ff_Op = op, ff_Value = v\<rparr>)
      | _ \<Rightarrow> Inl (err400 ''CONTENT_FILTER_MALFORMED'' [(''filter'', DStr raw)]))"

text \<open>A nil projection is the empty list: nothing is narrowed.\<close>

definition projection_key :: "content_type \<Rightarrow> subject \<Rightarrow> string \<Rightarrow> go_error + string list" where
  "projection_key ct sub raw =
     (let k = TrimSpace raw in
      if k = [] then Inr []
      else case FieldByKey (ct_Fields ct) k of
             None \<Rightarrow> Inl (err400 ''CONTENT_FIELDS_FIELD_UNKNOWN'' [(''field'', DStr k)])
           | Some f \<Rightarrow>
               if \<not> canReadField f sub then Inl (AppError (errFieldQueryForbidden k ''fields'')) else Inr [k])"

definition parseProjection :: "content_type \<Rightarrow> subject \<Rightarrow> string list \<Rightarrow> go_error + string list" where
  "parseProjection ct sub raw = collect_all (projection_key ct sub) raw"

definition errUnsortable :: "string \<Rightarrow> string \<Rightarrow> go_error" where
  "errUnsortable key reason =
     err400 ''CONTENT_SORT_FIELD_UNSORTABLE'' [(''field'', DStr key), (''reason'', DStr reason)]"

definition sort_direction :: "string list \<Rightarrow> string" where
  "sort_direction parts = (case parts of [_, d] \<Rightarrow> ToLower (TrimSpace d) | _ \<Rightarrow> ''asc'')"

definition parseSort :: "content_type \<Rightarrow> subject \<Rightarrow> string \<Rightarrow> go_error + sort_spec option" where
  "parseSort ct sub raw0 =
     (let raw = TrimSpace raw0; parts = SplitN 2 CHR '':'' raw; key = hd parts; dir = sort_direction parts in
      if raw = [] then Inr None
      else case FieldByKey (ct_Fields ct) key of
             None \<Rightarrow> Inl (err400 ''CONTENT_SORT_FIELD_UNKNOWN'' [(''field'', DStr key)])
           | Some f \<Rightarrow>
               if dir \<noteq> ''asc'' \<and> dir \<noteq> ''desc'' then Inl (err400 ''CONTENT_SORT_DIR_INVALID'' [(''dir'', DStr dir)])
               else if \<not> canReadField f sub then Inl (AppError (errFieldQueryForbidden key ''sort''))
               else if Multiple f then Inl (errUnsortable key ''multi-valued'')
               else if Type f = FieldTypeRichText then Inl (errUnsortable key ''richtext'')
               else if Type f = FieldTypeComponent then Inl (errUnsortable key ''component'')
               else if Type f = FieldTypeDynamicZone then Inl (errUnsortable key ''dynamiczone'')
               else Inr (Some \<lparr>so_Field = f, so_Desc = (dir = ''desc'')\<rparr>))"

section \<open>What the database computes\<close>

text \<open>
  \<open>strconv.ParseFloat\<close>; the text jsonb gives a number or a nested value; the cast of a text
  for a field type (\<open>::numeric\<close>, \<open>::timestamptz\<close>, or none), \<open>None\<close> where it raises an error,
  into the ordered values the database compares; and \<open>text ILIKE pattern\<close>.
\<close>

record 'k sql =
  sq_ParseFloat :: "string \<Rightarrow> f64 option"
  sq_text :: "json \<Rightarrow> string"
  sq_cast :: "string \<Rightarrow> string \<Rightarrow> 'k option"
  sq_ilike :: "string \<Rightarrow> string \<Rightarrow> bool"

datatype truth = SqlTrue | SqlFalse | SqlNull | SqlFails

definition truth_of :: "bool \<Rightarrow> truth" where
  "truth_of b = (if b then SqlTrue else SqlFalse)"

fun sql_not :: "truth \<Rightarrow> truth" where
  "sql_not SqlTrue = SqlFalse"
| "sql_not SqlFalse = SqlTrue"
| "sql_not t = t"

definition query_failed :: go_error where
  "query_failed = PlainError ''entries list''"

text \<open>\<open>doc ->> key\<close>\<close>

definition text_at :: "('k, 'z) sql_scheme \<Rightarrow> json option \<Rightarrow> string \<Rightarrow> string option" where
  "text_at Q col key =
     (case Option.bind (Option.bind col as_obj) (\<lambda>d. map_of d key) of
        None \<Rightarrow> None
      | Some JNull \<Rightarrow> None
      | Some (JStr s) \<Rightarrow> Some s
      | Some (JBool b) \<Rightarrow> Some (if b then ''true'' else ''false'')
      | Some v \<Rightarrow> Some (sq_text Q v))"

text \<open>\<open>a @> b\<close>, like for like at every level below the top.\<close>

fun jsonb_contains :: "json \<Rightarrow> json \<Rightarrow> bool" where
  "jsonb_contains (JObj d) (JObj e) =
     list_all (\<lambda>(k, w). case map_of d k of None \<Rightarrow> False | Some v \<Rightarrow> jsonb_contains v w) e"
| "jsonb_contains (JArr xs) (JArr ys) = list_all (\<lambda>y. list_ex (\<lambda>x. jsonb_contains x y) xs) ys"
| "jsonb_contains v w = (v = w)"

definition contains_doc :: "json option \<Rightarrow> json \<Rightarrow> truth" where
  "contains_doc col e = (case col of None \<Rightarrow> SqlNull | Some v \<Rightarrow> truth_of (jsonb_contains v e))"

section \<open>Conditions\<close>

definition errFilterValue :: "field \<Rightarrow> string \<Rightarrow> go_error" where
  "errFilterValue f raw =
     err400 ''CONTENT_FILTER_VALUE_INVALID'' [(''field'', DStr (Key f)), (''value'', DStr raw)]"

definition typedValue :: "('k, 'z) sql_scheme \<Rightarrow> field \<Rightarrow> string \<Rightarrow> go_error + json" where
  "typedValue Q f raw =
     (if Type f = FieldTypeNumber then
        (case sq_ParseFloat Q raw of None \<Rightarrow> Inl (errFilterValue f raw) | Some n \<Rightarrow> Inr (JNum n))
      else if Type f = FieldTypeBoolean then
        (case ParseBool raw of None \<Rightarrow> Inl (errFilterValue f raw) | Some b \<Rightarrow> Inr (JBool b))
      else Inr (JStr raw))"

text \<open>\<open>json.Marshal\<close> refuses a float that is not finite.\<close>

definition marshal_error :: go_error where
  "marshal_error = PlainError ''json: unsupported value''"

definition marshals :: "json \<Rightarrow> bool" where
  "marshals v \<longleftrightarrow> (case v of JNum n \<Rightarrow> is_finite n | _ \<Rightarrow> True)"

definition containmentDoc :: "('k, 'z) sql_scheme \<Rightarrow> field \<Rightarrow> string \<Rightarrow> go_error + json" where
  "containmentDoc Q f raw =
     and_then (typedValue Q f raw) (\<lambda>v.
     and_then (require (marshals v) marshal_error) (\<lambda>_.
     Inr (JObj [(Key f, if Multiple f then JArr [v] else v)])))"

definition checkOrderedValue :: "('k, 'z) sql_scheme \<Rightarrow> field \<Rightarrow> string \<Rightarrow> go_error + unit" where
  "checkOrderedValue Q f raw =
     (if Type f = FieldTypeNumber then require (sq_ParseFloat Q raw \<noteq> None) (errFilterValue f raw)
      else if Type f = FieldTypeDateTime then require (valid_datetime raw) (errFilterValue f raw)
      else Inr ())"

definition splitCSV :: "string \<Rightarrow> string list" where
  "splitCSV s = filter (\<lambda>p. p \<noteq> []) (map TrimSpace (Split CHR '','' s))"

definition likeEscape :: "string \<Rightarrow> string" where
  "likeEscape s = concat (map (\<lambda>c. if c = CHR 0x5C \<or> c = CHR ''%'' \<or> c = CHR ''_'' then [CHR 0x5C, c] else [c]) s)"

definition sqlCmp :: "string \<Rightarrow> 'k::linorder \<Rightarrow> 'k \<Rightarrow> bool" where
  "sqlCmp op a b =
     (if op = OpGt then b < a else if op = OpGte then b \<le> a
      else if op = OpLt then a < b else if op = OpLte then a \<le> b else a = b)"

text \<open>\<open>orderedExpr\<close> on a row: the text of the key, cast for the field's type.\<close>

datatype 'k cell = Null | Val 'k | BadCast

definition ordered_cell :: "('k, 'z) sql_scheme \<Rightarrow> field \<Rightarrow> json option \<Rightarrow> 'k cell" where
  "ordered_cell Q f col =
     (case text_at Q col (Key f) of
        None \<Rightarrow> Null
      | Some t \<Rightarrow> (case sq_cast Q (Type f) t of None \<Rightarrow> BadCast | Some k \<Rightarrow> Val k))"

definition ordered_literal :: "('k, 'z) sql_scheme \<Rightarrow> field \<Rightarrow> string \<Rightarrow> go_error + 'k" where
  "ordered_literal Q f raw =
     (case sq_cast Q (Type f) raw of None \<Rightarrow> Inl query_failed | Some k \<Rightarrow> Inr k)"

type_synonym condition = "json option \<Rightarrow> truth"

definition compare_cell :: "string \<Rightarrow> 'k::linorder \<Rightarrow> 'k cell \<Rightarrow> truth" where
  "compare_cell op k c =
     (case c of Null \<Rightarrow> SqlNull | BadCast \<Rightarrow> SqlFails | Val v \<Rightarrow> truth_of (sqlCmp op v k))"

definition text_condition :: "(string \<Rightarrow> bool) \<Rightarrow> string option \<Rightarrow> truth" where
  "text_condition P t = (case t of None \<Rightarrow> SqlNull | Some s \<Rightarrow> truth_of (P s))"

definition filter_condition :: "('k::linorder, 'z) sql_scheme \<Rightarrow> field_filter \<Rightarrow> go_error + condition" where
  "filter_condition Q flt =
     (let f = ff_Field flt; op = ff_Op flt; v = ff_Value flt in
      if op = OpEq \<or> op = OpHas then and_then (containmentDoc Q f v) (\<lambda>e. Inr (\<lambda>col. contains_doc col e))
      else if op = OpNeq \<or> op = OpNhas then
        and_then (containmentDoc Q f v) (\<lambda>e. Inr (\<lambda>col. sql_not (contains_doc col e)))
      else if op = OpGt \<or> op = OpGte \<or> op = OpLt \<or> op = OpLte then
        and_then (checkOrderedValue Q f v) (\<lambda>_.
        and_then (ordered_literal Q f v) (\<lambda>k. Inr (\<lambda>col. compare_cell op k (ordered_cell Q f col))))
      else if op = OpIn then
        Inr (\<lambda>col. text_condition (\<lambda>t. t \<in> set (splitCSV v)) (text_at Q col (Key f)))
      else if op = OpContains then
        Inr (\<lambda>col. text_condition (\<lambda>t. sq_ilike Q t (''%'' @ v @ ''%'')) (text_at Q col (Key f)))
      else Inl (err400 ''CONTENT_FILTER_OP_INVALID'' [(''op'', DStr op)]))"

section \<open>The query\<close>

text \<open>A cursor's \<open>SortValue\<close> is \<open>None\<close> for a row without the value; only a sorted list reads it.\<close>

record entry_cursor =
  cu_CreatedAt :: int
  cu_ID :: uuid
  cu_SortValue :: "string option"

record list_filter =
  lf_TenantID :: string
  lf_ContentTypeID :: uuid
  lf_Filters :: "field_filter list"
  lf_Sort :: "sort_spec option"
  lf_Status :: string
  lf_Locale :: string
  lf_TranslationGroupID :: uuid
  lf_CreatedBy :: "uuid option"
  lf_Limit :: int
  lf_Offset :: int
  lf_CursorPaged :: bool
  lf_After :: "entry_cursor option"
  lf_MatchPublished :: bool
  lf_Query :: string

definition predicateColumn :: "list_filter \<Rightarrow> go_error + unit" where
  "predicateColumn f =
     require (\<not> (lf_MatchPublished f \<and> lf_Status f \<noteq> StatusPublished)) query_failed"

definition column :: "bool \<Rightarrow> entry_row \<Rightarrow> json option" where
  "column published e = (if published then en_PublishedPayload e else Some (en_Payload e))"

definition search_column :: "bool \<Rightarrow> entry_row \<Rightarrow> string" where
  "search_column published e = (if published then en_PublishedSearchText e else en_SearchText e)"

type_synonym row_condition = "entry_row \<Rightarrow> truth"

definition column_conditions :: "('k, 'z) sql_scheme \<Rightarrow> list_filter \<Rightarrow> row_condition list" where
  "column_conditions Q f =
     [\<lambda>e. truth_of (en_TenantID e = lf_TenantID f), \<lambda>e. truth_of (en_ContentTypeID e = lf_ContentTypeID f)] @
     (if lf_Status f = [] then [] else [\<lambda>e. truth_of (en_Status e = lf_Status f)]) @
     (if lf_Locale f = [] then [] else [\<lambda>e. truth_of (en_Locale e = lf_Locale f)]) @
     (if lf_TranslationGroupID f = uuid_Nil then []
      else [\<lambda>e. truth_of (en_TranslationGroupID e = lf_TranslationGroupID f)]) @
     (case lf_CreatedBy f of None \<Rightarrow> []
      | Some a \<Rightarrow> [\<lambda>e. case en_CreatedBy e of None \<Rightarrow> SqlNull | Some c \<Rightarrow> truth_of (c = a)]) @
     map (\<lambda>term' e. truth_of (sq_ilike Q (search_column (lf_MatchPublished f) e) (''%'' @ likeEscape term' @ ''%'')))
       (Fields_of (lf_Query f))"

definition buildWhere :: "('k::linorder, 'z) sql_scheme \<Rightarrow> list_filter \<Rightarrow> go_error + row_condition list" where
  "buildWhere Q f =
     and_then (predicateColumn f) (\<lambda>_.
     and_then (collect_all (\<lambda>flt. and_then (filter_condition Q flt)
                 (\<lambda>c. Inr [\<lambda>e. c (column (lf_MatchPublished f) e)])) (lf_Filters f)) (\<lambda>cs.
     Inr (column_conditions Q f @ cs)))"

text \<open>
  The rows a WHERE keeps.  A condition that fails on a row fails the statement; the planner is
  free to try it on more rows than the ones the conditions before it keep.
\<close>

fun rows_where :: "row_condition list \<Rightarrow> entry_row list \<Rightarrow> go_error + entry_row list" where
  "rows_where [] rows = Inr rows"
| "rows_where (c # cs) rows =
     (if list_ex (\<lambda>e. c e = SqlFails) rows then Inl query_failed
      else rows_where cs (filter (\<lambda>e. c e = SqlTrue) rows))"

text \<open>The value a row is sorted by.\<close>

definition sort_cell :: "('k, 'z) sql_scheme \<Rightarrow> bool \<Rightarrow> sort_spec \<Rightarrow> entry_row \<Rightarrow> 'k cell" where
  "sort_cell Q published so e = ordered_cell Q (so_Field so) (column published e)"

fun cell_key :: "'k cell \<Rightarrow> 'k option" where
  "cell_key (Val k) = Some k"
| "cell_key _ = None"

definition further :: "bool \<Rightarrow> 'a::linorder \<Rightarrow> 'a \<Rightarrow> bool" where
  "further desc a b = (if desc then b < a else a < b)"

text \<open>\<open>ORDER BY (k IS NULL), k DIR, id DIR\<close>, which the cursor mode uses.\<close>

fun keyed_before :: "bool \<Rightarrow> 'k::linorder option \<times> uuid \<Rightarrow> 'k option \<times> uuid \<Rightarrow> bool" where
  "keyed_before desc (Some a, i) (Some b, j) = (further desc a b \<or> (a = b \<and> further desc i j))"
| "keyed_before desc (Some a, i) (None, j) = True"
| "keyed_before desc (None, i) (Some b, j) = False"
| "keyed_before desc (None, i) (None, j) = further desc i j"

text \<open>\<open>ORDER BY k DIR, created_at DESC, id DESC\<close>: a null is the greatest value.\<close>

fun null_greatest :: "'k::linorder option \<Rightarrow> 'k option \<Rightarrow> bool" where
  "null_greatest (Some a) (Some b) = (a < b)"
| "null_greatest (Some a) None = True"
| "null_greatest None _ = False"

definition newer :: "entry_row \<Rightarrow> entry_row \<Rightarrow> bool" where
  "newer a b \<longleftrightarrow> (en_CreatedAt b, en_ID b) < (en_CreatedAt a, en_ID a)"

definition ordered_by :: "('k::linorder, 'z) sql_scheme \<Rightarrow> list_filter \<Rightarrow> entry_row \<Rightarrow> entry_row \<Rightarrow> bool" where
  "ordered_by Q f =
     (case lf_Sort f of
        None \<Rightarrow> newer
      | Some so \<Rightarrow>
          let k = (\<lambda>e. cell_key (sort_cell Q (lf_MatchPublished f) so e)) in
          if lf_CursorPaged f then (\<lambda>a b. keyed_before (so_Desc so) (k a, en_ID a) (k b, en_ID b))
          else (\<lambda>a b. (if so_Desc so then null_greatest (k b) (k a) else null_greatest (k a) (k b)) \<or>
                      (k a = k b \<and> newer a b)))"

text \<open>The rows past a cursor.\<close>

definition after_condition ::
    "('k::linorder, 'z) sql_scheme \<Rightarrow> list_filter \<Rightarrow> entry_cursor \<Rightarrow> go_error + (entry_row \<Rightarrow> bool)" where
  "after_condition Q f c =
     (case lf_Sort f of
        None \<Rightarrow> Inr (\<lambda>e. (en_CreatedAt e, en_ID e) < (cu_CreatedAt c, cu_ID c))
      | Some so \<Rightarrow>
          let k = (\<lambda>e. cell_key (sort_cell Q (lf_MatchPublished f) so e)); desc = so_Desc so in
          (case cu_SortValue c of
             None \<Rightarrow> Inr (\<lambda>e. k e = None \<and> further desc (cu_ID c) (en_ID e))
           | Some s \<Rightarrow>
               and_then (ordered_literal Q (so_Field so) s) (\<lambda>v. Inr (\<lambda>e.
                 (case k e of
                    Some x \<Rightarrow> further desc v x \<or> (x = v \<and> further desc (cu_ID c) (en_ID e))
                  | None \<Rightarrow> True)))))"

fun insert_before :: "('a \<Rightarrow> 'a \<Rightarrow> bool) \<Rightarrow> 'a \<Rightarrow> 'a list \<Rightarrow> 'a list" where
  "insert_before before x [] = [x]"
| "insert_before before x (y # ys) = (if before y x then y # insert_before before x ys else x # y # ys)"

definition order_by :: "('a \<Rightarrow> 'a \<Rightarrow> bool) \<Rightarrow> 'a list \<Rightarrow> 'a list" where
  "order_by before xs = foldr (insert_before before) xs []"

definition bad_sort :: "('k, 'z) sql_scheme \<Rightarrow> list_filter \<Rightarrow> entry_row \<Rightarrow> bool" where
  "bad_sort Q f e \<longleftrightarrow>
     (case lf_Sort f of None \<Rightarrow> False | Some so \<Rightarrow> sort_cell Q (lf_MatchPublished f) so e = BadCast)"

definition page_limit :: "int \<Rightarrow> nat" where
  "page_limit n = (if n \<le> 0 \<or> 100 < n then 20 else nat n)"

definition ListEntries_repo ::
    "('k::linorder, 'z) sql_scheme \<Rightarrow> list_filter \<Rightarrow> entry_db \<Rightarrow> go_error + entry_row list \<times> nat" where
  "ListEntries_repo Q f db =
     and_then (buildWhere Q f) (\<lambda>cs.
     and_then (case lf_After f of
                 Some c \<Rightarrow> if lf_CursorPaged f then after_condition Q f c else Inr (\<lambda>_. True)
               | None \<Rightarrow> Inr (\<lambda>_. True)) (\<lambda>past.
     and_then (rows_where cs (db_Entries db)) (\<lambda>rows.
     and_then (require (\<not> list_ex (bad_sort Q f) rows) query_failed) (\<lambda>_.
     let page = order_by (ordered_by Q f) (filter past rows); n = page_limit (lf_Limit f) in
     Inr (if lf_CursorPaged f then (take n page, 0)
          else (take n (drop (nat (lf_Offset f)) page), length rows))))))"

text \<open>\<open>GetEntriesByIDs\<close>: the rows in the order of the table.\<close>

definition GetEntriesByIDs :: "string \<Rightarrow> uuid list \<Rightarrow> bool \<Rightarrow> entry_db \<Rightarrow> entry_row list" where
  "GetEntriesByIDs tenant ids published db =
     (if ids = [] then []
      else filter (\<lambda>e. en_TenantID e = tenant \<and> en_ID e \<in> set ids \<and>
                    (published \<longrightarrow> en_Status e = StatusPublished \<and> en_PublishedPayload e \<noteq> None)) (db_Entries db))"

end
