(* ===== verification/Entry_Populate.thy ===== *)
theory Entry_Populate
  imports Entry_Queries
begin

text \<open>
  Relation populate (\<open>service/populate.go\<close>): a \<open>?populate=\<close> value is a dotted path of relation
  fields, the paths of a request are merged into a forest whose targets are resolved before a
  row is read, and the forest is expanded level by level under a budget shared by all levels.
\<close>

section \<open>Paths\<close>

definition maxPopulateDepth :: nat where "maxPopulateDepth = 3"
definition maxPopulateIDs :: nat where "maxPopulateIDs = 500"

datatype populate_node =
  Node (node_field: field) (node_target: type_record) (node_children: "populate_node list")

definition relationKeys :: "content_type \<Rightarrow> subject \<Rightarrow> string list" where
  "relationKeys ct sub =
     map Key (filter (\<lambda>f. Type f = FieldTypeRelation \<and> canReadField f sub) (ct_Fields ct))"

definition errPopulateTargetMissing :: "string \<Rightarrow> string \<Rightarrow> go_error" where
  "errPopulateTargetMissing seg entity =
     AppError (WithDetails (New ''CONTENT_POPULATE_TARGET_MISSING'' 500)
       [(''field'', DStr seg), (''relation_entity'', DStr entity)])"

text \<open>
  \<open>resolvePopulateSegment\<close> where the segment is new among its siblings.  The cache of target
  types by name is not modelled: all lookups of a request read the same table.
\<close>

definition resolve_new ::
    "subject \<Rightarrow> entry_db \<Rightarrow> content_type \<Rightarrow> string \<Rightarrow> string \<Rightarrow> go_error + field \<times> type_record" where
  "resolve_new sub db ct fullKey seg =
     (case FieldByKey (ct_Fields ct) seg of
        None \<Rightarrow> Inl (err400 ''CONTENT_POPULATE_FIELD_UNKNOWN''
                  [(''field'', DStr seg), (''populate'', DStr fullKey), (''known'', DStrs (relationKeys ct sub))])
      | Some f \<Rightarrow>
          if Type f \<noteq> FieldTypeRelation then
            Inl (err400 ''CONTENT_POPULATE_NOT_RELATION''
                   [(''field'', DStr seg), (''populate'', DStr fullKey), (''type'', DStr (Type f)),
                    (''known'', DStrs (relationKeys ct sub))])
          else if \<not> canReadField f sub then Inl (AppError (errFieldQueryForbidden seg ''populate''))
          else case TypeByName (TenantID sub) (f_RelationEntity (attrs f)) db of
                 Inl _ \<Rightarrow> Inl (errPopulateTargetMissing seg (f_RelationEntity (attrs f)))
               | Inr t \<Rightarrow> and_then (app (guardTypeRead (tr_Type t) sub)) (\<lambda>_. Inr (f, t)))"

definition node_at :: "string \<Rightarrow> populate_node list \<Rightarrow> populate_node option" where
  "node_at seg ns = find (\<lambda>n. Key (node_field n) = seg) ns"

text \<open>The rest of a path, walked into the siblings at the current level.\<close>

fun add_path ::
    "subject \<Rightarrow> entry_db \<Rightarrow> string \<Rightarrow> string list \<Rightarrow> content_type \<Rightarrow> populate_node list \<Rightarrow>
     go_error + populate_node list" where
  "add_path sub db fullKey [] ct ns = Inr ns"
| "add_path sub db fullKey (raw # segs) ct ns =
     (let seg = TrimSpace raw in
      case node_at seg ns of
        Some n \<Rightarrow>
          and_then (add_path sub db fullKey segs (tr_Type (node_target n)) (node_children n)) (\<lambda>cs.
          Inr (map (\<lambda>m. if Key (node_field m) = seg then Node (node_field m) (node_target m) cs else m) ns))
      | None \<Rightarrow>
          and_then (resolve_new sub db ct fullKey seg) (\<lambda>(f, t).
          and_then (add_path sub db fullKey segs (tr_Type t) []) (\<lambda>cs. Inr (ns @ [Node f t cs]))))"

definition errPopulateTooDeep :: "string \<Rightarrow> nat \<Rightarrow> go_error" where
  "errPopulateTooDeep key depth =
     err400 ''CONTENT_POPULATE_TOO_DEEP''
       [(''populate'', DStr key), (''depth'', DNat depth), (''max_depth'', DNat maxPopulateDepth)]"

fun parse_paths ::
    "subject \<Rightarrow> entry_db \<Rightarrow> content_type \<Rightarrow> string list \<Rightarrow> populate_node list \<Rightarrow> go_error + populate_node list" where
  "parse_paths sub db ct [] roots = Inr roots"
| "parse_paths sub db ct (raw # raws) roots =
     (let key = TrimSpace raw; segments = Split CHR ''.'' key in
      if key = [] then parse_paths sub db ct raws roots
      else if maxPopulateDepth < length segments then Inl (errPopulateTooDeep key (length segments))
      else and_then (add_path sub db key segments ct roots) (parse_paths sub db ct raws))"

definition parsePopulate ::
    "subject \<Rightarrow> entry_db \<Rightarrow> content_type \<Rightarrow> string list \<Rightarrow> go_error + populate_node list" where
  "parsePopulate sub db ct raws = parse_paths sub db ct raws []"

definition guardPopulateAudience :: "audience \<Rightarrow> string list \<Rightarrow> app_error option" where
  "guardPopulateAudience aud populate =
     (if populate = [] then None
      else if aud = audiencePreview then Some (err403 ''CONTENT_POPULATE_PREVIEW_UNSUPPORTED'' [(''populate'', DStrs populate)])
      else None)"

section \<open>Relation values\<close>

definition populateSourcePayload :: "audience \<Rightarrow> entry_row \<Rightarrow> raw_json" where
  "populateSourcePayload aud e = (if aud = audienceAdmin then Text (en_Payload e) else PublishedPayload e)"

text \<open>Decoding null into a string leaves it empty; a list decodes only if all its elements do.\<close>

definition decoded_string :: "json \<Rightarrow> string option" where
  "decoded_string v = (case v of JStr s \<Rightarrow> Some s | JNull \<Rightarrow> Some [] | _ \<Rightarrow> None)"

definition relationIDs :: "env \<Rightarrow> json option \<Rightarrow> bool \<Rightarrow> uuid list" where
  "relationIDs E raw multiple =
     (case raw of
        None \<Rightarrow> []
      | Some v \<Rightarrow>
          if \<not> multiple then
            (case Option.bind (decoded_string v) (uuid_parse E) of None \<Rightarrow> [] | Some i \<Rightarrow> [i])
          else case v of
            JArr xs \<Rightarrow>
              if list_all (\<lambda>x. decoded_string x \<noteq> None) xs
              then List.map_filter (\<lambda>x. Option.bind (decoded_string x) (uuid_parse E)) xs else []
          | _ \<Rightarrow> [])"

definition wanted :: "env \<Rightarrow> audience \<Rightarrow> entry_row \<Rightarrow> field \<Rightarrow> uuid list" where
  "wanted E aud e f =
     relationIDs E (map_of (decodeObject (populateSourcePayload aud e)) (Key f)) (Multiple f)"

section \<open>Expansion\<close>

text \<open>
  The value of one populated field: the cardinality of the field and the entries found, each
  with the expansions of its own that were asked for.
\<close>

datatype related_entries =
  RelatedEntries bool "(unit entry_dto \<times> (string \<times> related_entries) list option) list"

type_synonym expansion = "uuid \<Rightarrow> (string \<times> related_entries) list option"

definition errPopulateTooMany :: "nat \<Rightarrow> go_error" where
  "errPopulateTooMany count =
     err400 ''CONTENT_POPULATE_TOO_MANY'' [(''count'', DNat count), (''max'', DNat maxPopulateIDs)]"

text \<open>The budget is the set of ids seen so far, kept without duplicates.\<close>

definition budget_add :: "uuid list \<Rightarrow> uuid list \<Rightarrow> go_error + uuid list" where
  "budget_add ids seen =
     (let s = remdups (ids @ seen) in
      if maxPopulateIDs < length s then Inl (errPopulateTooMany (length s)) else Inr s)"

text \<open>
  The targets of one field that are there, of the declared type, and the caller's to read; and
  those to be expanded further, which leaves out what is already rendered above.
\<close>

definition shown ::
    "subject \<Rightarrow> type_record \<Rightarrow> entry_row list \<Rightarrow> uuid list \<Rightarrow> entry_row list" where
  "shown sub t rows ids =
     filter (\<lambda>r. en_ContentTypeID r = tr_ID t \<and> guardOwned (tr_Type t) sub (en_CreatedBy r) = None)
       (List.map_filter (\<lambda>i. find (\<lambda>r. en_ID r = i) rows) ids)"

fun first_by_id :: "uuid list \<Rightarrow> entry_row list \<Rightarrow> entry_row list" where
  "first_by_id seen [] = []"
| "first_by_id seen (r # rs) =
     (if en_ID r \<in> set seen then first_by_id seen rs else r # first_by_id (en_ID r # seen) rs)"

definition to_expand :: "uuid list \<Rightarrow> populate_node list \<Rightarrow> entry_row list \<Rightarrow> entry_row list" where
  "to_expand path children rows =
     (if children = [] then [] else first_by_id [] (filter (\<lambda>r. en_ID r \<notin> set path) rows))"

text \<open>The nil map for no field or no entry.\<close>

definition by_entry :: "entry_row list \<Rightarrow> (string \<times> (uuid \<Rightarrow> related_entries)) list \<Rightarrow> expansion" where
  "by_entry entries per_field i =
     (if i \<in> en_ID ` set entries then Some (map (\<lambda>(k, g). (k, g i)) per_field) else None)"

definition field_values ::
    "env \<Rightarrow> subject \<Rightarrow> field \<Rightarrow> type_record \<Rightarrow> entry_row list \<Rightarrow> entry_row list \<Rightarrow> expansion \<Rightarrow>
     uuid \<Rightarrow> related_entries" where
  "field_values E sub f t entries rows nested i =
     RelatedEntries (Multiple f)
       (map (\<lambda>r. (ProjectEntry (tr_Type t) r sub, nested (en_ID r)))
         (concat (map (\<lambda>e. shown sub t rows (wanted E (audienceFor sub) e f)) (filter (\<lambda>e. en_ID e = i) entries))))"

fun nodes_size :: "populate_node list \<Rightarrow> nat" where
  "nodes_size [] = 0"
| "nodes_size (Node f t cs # ns) = Suc (Suc (nodes_size cs + nodes_size ns))"

function (sequential)
  populateLevel :: "env \<Rightarrow> subject \<Rightarrow> entry_db \<Rightarrow> populate_node list \<Rightarrow> entry_row list \<Rightarrow> uuid list \<Rightarrow> uuid list \<Rightarrow>
     go_error + expansion \<times> uuid list"
and populate_fields :: "env \<Rightarrow> subject \<Rightarrow> entry_db \<Rightarrow> entry_row list \<Rightarrow> entry_row list \<Rightarrow> uuid list \<Rightarrow>
     populate_node list \<Rightarrow> uuid list \<Rightarrow> go_error + (string \<times> (uuid \<Rightarrow> related_entries)) list \<times> uuid list"
where
  "populateLevel E sub db specs entries ancestors seen =
     (if specs = [] \<or> entries = [] then Inr (\<lambda>_. None, seen)
      else
        let newIDs = remdups (concat (map (\<lambda>e. concat (map (\<lambda>n. wanted E (audienceFor sub) e (node_field n)) specs)) entries));
            rows = GetEntriesByIDs (TenantID sub) newIDs (audienceFor sub = audienceDelivery) db in
        case budget_add newIDs seen of
          Inl err \<Rightarrow> Inl err
        | Inr seen' \<Rightarrow>
            (case populate_fields E sub db entries rows (ancestors @ map en_ID entries) specs seen' of
               Inl err \<Rightarrow> Inl err
             | Inr (per_field, seen'') \<Rightarrow> Inr (by_entry entries per_field, seen'')))"
| "populate_fields E sub db entries rows path [] seen = Inr ([], seen)"
| "populate_fields E sub db entries rows path (Node f t cs # ns) seen =
     (let hits = concat (map (\<lambda>e. shown sub t rows (wanted E (audienceFor sub) e f)) entries) in
      case populateLevel E sub db cs (to_expand path cs hits) path seen of
        Inl err \<Rightarrow> Inl err
      | Inr (nested, seen') \<Rightarrow>
          (case populate_fields E sub db entries rows path ns seen' of
             Inl err \<Rightarrow> Inl err
           | Inr (rest, seen'') \<Rightarrow> Inr ((Key f, field_values E sub f t entries rows nested) # rest, seen'')))"
  by pat_completeness auto
termination
  by (relation "measure (\<lambda>x. case x of Inl (E, sub, db, specs, _) \<Rightarrow> Suc (nodes_size specs)
       | Inr (E, sub, db, entries, rows, path, specs, _) \<Rightarrow> nodes_size specs)") auto

declare populateLevel.simps [simp del] populate_fields.simps(2) [simp del]

definition populateFor ::
    "env \<Rightarrow> subject \<Rightarrow> entry_db \<Rightarrow> populate_node list \<Rightarrow> entry_row list \<Rightarrow> go_error + expansion" where
  "populateFor E sub db specs entries =
     map_sum (\<lambda>err. err) fst (populateLevel E sub db specs entries [] [])"

end
