(* ===== verification/Time_Text.thy ===== *)
theory Time_Text
  imports Entry_Schedules
begin

text \<open>
  \<open>time.Time.UTC().Format(time.RFC3339Nano)\<close> for the years 1 to 9999, and that
  \<open>time.Parse\<close> reads it back: a cursor carries an instant as such a text.
\<close>

section \<open>The calendar\<close>

text \<open>Year and day of the year of a day counted from the first of January of the year 0.\<close>

definition year_of :: "int \<Rightarrow> nat" where
  "year_of d =
     (let y = nat (400 * d div 146097) in
      if days_before_year (Suc y) \<le> d then Suc y else if days_before_year y \<le> d then y else y - 1)"

function month_day :: "nat \<Rightarrow> nat \<Rightarrow> nat \<Rightarrow> nat \<times> nat" where
  "month_day y m d =
     (if 12 \<le> m \<or> d < days_in m y then (m, d + 1) else month_day y (Suc m) (d - days_in m y))"
  by pat_completeness auto
termination by (relation "measure (\<lambda>(y, m, d). 12 - m)") auto

declare month_day.simps [simp del]

lemma days_before_year_bounds:
  assumes "1 \<le> y"
  shows "146097 * int y \<le> 400 * days_before_year y + 400"
    and "400 * days_before_year y \<le> 146097 * int y + 700"
proof -
  obtain a b c where abc: "a = (int y - 1) div 4" "b = (int y - 1) div 100" "c = (int y - 1) div 400" by blast
  have "4 * a \<le> int y - 1" "int y - 1 < 4 * a + 4" "100 * b \<le> int y - 1" "int y - 1 < 100 * b + 100"
    "400 * c \<le> int y - 1" "int y - 1 < 400 * c + 400" by (simp_all add: abc)
  moreover have "days_before_year y = 365 * int y + a - b + c + 1"
    by (simp add: days_before_year_def Let_def abc)
  ultimately show "146097 * int y \<le> 400 * days_before_year y + 400"
    and "400 * days_before_year y \<le> 146097 * int y + 700" by linarith+
qed

lemma div_step:
  assumes "0 < (k::nat)"
  shows "(1 + int p) div int k = int p div int k + (if Suc p mod k = 0 then 1 else 0)"
proof -
  have "(1 + int p) div int k = int (Suc p div k)" by (simp add: zdiv_int)
  then show ?thesis using div_Suc [of p k] by (simp add: zdiv_int)
qed

lemma days_before_year_Suc:
  assumes "1 \<le> y"
  shows "days_before_year (Suc y) = days_before_year y + (if is_leap y then 366 else 365)"
proof -
  obtain p where y: "y = Suc p" using assms by (cases y) auto
  note steps = div_step [of 4 p, simplified] div_step [of 100 p, simplified] div_step [of 400 p, simplified]
  have imp: "Suc p mod 400 = 0 \<Longrightarrow> Suc p mod 100 = 0" "Suc p mod 100 = 0 \<Longrightarrow> Suc p mod 4 = 0"
    using dvd_trans [of 100 400 "Suc p"] dvd_trans [of 4 100 "Suc p"] by (simp_all add: mod_eq_0_iff_dvd)
  have "days_before_year (Suc y) = 365 * (int y + 1) + (1 + int p) div 4 - (1 + int p) div 100 + (1 + int p) div 400 + 1"
    "days_before_year y = 365 * int y + int p div 4 - int p div 100 + int p div 400 + 1"
    by (simp_all add: days_before_year_def Let_def y)
  moreover have "is_leap y \<longleftrightarrow> Suc p mod 4 = 0 \<and> (Suc p mod 100 \<noteq> 0 \<or> Suc p mod 400 = 0)"
    by (simp only: is_leap_def y)
  ultimately show ?thesis using steps imp by (auto split: if_splits)
qed

lemma year_of_bounds:
  assumes "366 \<le> d"
  shows "1 \<le> year_of d" and "days_before_year (year_of d) \<le> d" and "d < days_before_year (Suc (year_of d))"
proof -
  define y where "y = nat (400 * d div 146097)"
  have y: "146097 * int y \<le> 400 * d" "400 * d < 146097 * int y + 146097" "1 \<le> y"
    using assms unfolding y_def by linarith+
  have up: "d < days_before_year (Suc (Suc y))"
    using days_before_year_bounds(1) [of "Suc (Suc y)"] y by simp
  have one: "days_before_year (Suc 0) = 366" by (simp add: days_before_year_def)
  have low: "days_before_year (y - 1) \<le> d" if "\<not> days_before_year y \<le> d" and "y \<noteq> 1"
  proof -
    have "1 \<le> y - 1" using y(3) that(2) by linarith
    moreover have "int (y - 1) = int y - 1" using y(3) by simp
    ultimately show ?thesis using days_before_year_bounds(2) [of "y - 1"] y(1) by simp
  qed
  have eq: "year_of d = (if days_before_year (Suc y) \<le> d then Suc y
              else if days_before_year y \<le> d then y else y - 1)"
    by (simp only: year_of_def Let_def y_def)
  have ne: "y \<noteq> 1" if "\<not> days_before_year y \<le> d" using that one assms by auto
  show "1 \<le> year_of d" using y(3) ne unfolding eq by auto
  show "days_before_year (year_of d) \<le> d" using low ne unfolding eq by auto
  show "d < days_before_year (Suc (year_of d))" using up ne y(3) unfolding eq by auto
qed

lemma days_before_month_Suc: "1 \<le> m \<Longrightarrow> days_before_month y (Suc m) = days_before_month y m + days_in m y"
  by (simp add: days_before_month_def)

lemma year_length: "days_before_month y 13 = (if is_leap y then 366 else 365)"
  by (simp add: days_before_month_def days_in_def upt_rec)

lemma month_day_correct:
  assumes "1 \<le> m" and "m \<le> 12" and "days_before_month y m + d < days_before_month y 13"
    and "month_day y m d = (m', d')"
  shows "1 \<le> m' \<and> m' \<le> 12 \<and> 1 \<le> d' \<and> d' \<le> days_in m' y \<and>
         days_before_month y m' + d' = days_before_month y m + d + 1"
  using assms
proof (induction y m d arbitrary: m' d' rule: month_day.induct)
  case (1 y m d)
  show ?case
  proof (cases "12 \<le> m \<or> d < days_in m y")
    case True
    then have r: "m' = m" "d' = d + 1" using 1(5) by (simp_all add: month_day.simps [of y m d])
    have "d < days_in m y"
      using True 1(2,3,4) days_before_month_Suc [of 12 y] by (cases "m = 12") auto
    then show ?thesis using r 1(2,3) by simp
  next
    case False
    then have "month_day y (Suc m) (d - days_in m y) = (m', d')" using 1(5) by (simp add: month_day.simps [of y m d])
    moreover have "days_before_month y (Suc m) + (d - days_in m y) = days_before_month y m + d"
      using False days_before_month_Suc [OF 1(2)] by simp
    ultimately show ?thesis using 1(1) [OF False] 1(2,3,4) False by simp
  qed
qed

section \<open>Formatting\<close>

text \<open>Numbers of fixed width.\<close>

fun digits :: "nat \<Rightarrow> nat \<Rightarrow> string" where
  "digits 0 n = []"
| "digits (Suc w) n = digits w (n div 10) @ [char_of (48 + n mod 10)]"

text \<open>The fraction without its trailing zeros; nothing when it is zero.\<close>

definition fraction_text :: "nat \<Rightarrow> string" where
  "fraction_text n =
     (let ds = rev (dropWhile (\<lambda>c. c = CHR ''0'') (rev (digits 9 n))) in if ds = [] then [] else CHR ''.'' # ds)"

definition format_rfc3339nano :: "int \<Rightarrow> string" where
  "format_rfc3339nano t =
     (let secs = t div 1000000000; d = secs div 86400 + days_before_year 1970; s = nat (secs mod 86400);
          y = year_of d; (m, day) = month_day y 1 (nat (d - days_before_year y)) in
      digits 4 y @ ''-'' @ digits 2 m @ ''-'' @ digits 2 day @ ''T'' @ digits 2 (s div 3600) @ '':'' @
      digits 2 (s mod 3600 div 60) @ '':'' @ digits 2 (s mod 60) @ fraction_text (nat (t mod 1000000000)) @ ''Z'')"

section \<open>Reading it back\<close>

lemma digit_char:
  assumes "n < 10"
  shows "is_digit (char_of (48 + n))" and "digit_val (char_of (48 + n)) = n"
  using assms by (simp_all add: is_digit_def byte_in_def digit_val_def)

lemma digits_width [simp]: "length (digits w n) = w"
  by (induction w arbitrary: n) simp_all

lemma digits_two:
  assumes "n < 100"
  shows "digits 2 n = [char_of (48 + n div 10), char_of (48 + n mod 10)]"
  using assms by (simp add: numeral_2_eq_2)

lemma getnum_digits:
  assumes "n < 100"
  shows "getnum fixed (digits 2 n @ rest) = Some (n, rest)"
  using assms digit_char [of "n div 10"] digit_char [of "n mod 10"]
  by (simp add: digits_two)

lemma year4_digits:
  assumes "y < 10000"
  shows "year4 (digits 4 y @ rest) = Some (y, rest)"
proof -
  obtain a b c d where abcd: "a = y div 10 div 10 div 10" "b = y div 10 div 10 mod 10" "c = y div 10 mod 10"
    "d = y mod 10" by blast
  have split: "10 * (n div 10) + n mod 10 = n" for n :: nat by simp
  have four: "(4::nat) = Suc (Suc (Suc (Suc 0)))" by simp
  have small: "a < 10" "b < 10" "c < 10" "d < 10" using assms by (simp_all add: abcd)
  then have "a mod 10 = a" by simp
  then have "digits 4 y = [char_of (48 + a), char_of (48 + b), char_of (48 + c), char_of (48 + d)]"
    unfolding abcd by (simp only: four digits.simps append.simps)
  moreover have "a * 1000 + b * 100 + c * 10 + d = y"
    using split [of y] split [of "y div 10"] split [of "y div 10 div 10"] unfolding abcd by linarith
  ultimately show ?thesis using small digit_char by simp
qed

text \<open>The fraction.\<close>

lemma digits_all: "list_all is_digit (digits w n)"
  by (induction w arbitrary: n) (simp_all add: digit_char)

lemma foldl_digits: "foldl (\<lambda>n c. 10 * n + digit_val c) a (digits w n) = a * 10 ^ w + n mod 10 ^ w"
proof (induction w arbitrary: n)
  case (Suc w)
  have "10 * (n div 10 mod 10 ^ w) + n mod 10 = n mod (10 * 10 ^ w)"
    by (simp add: mod_mult2_eq)
  then show ?case using Suc [of "n div 10"] by (simp add: digit_char)
qed simp

lemma trailing_zeros:
  "\<exists>k. xs = rev (dropWhile (\<lambda>c. c = z) (rev xs)) @ replicate k z"
proof (induction xs rule: rev_induct)
  case (snoc x xs)
  then obtain k where k: "xs = rev (dropWhile (\<lambda>c. c = z) (rev xs)) @ replicate k z" by blast
  show ?case
  proof (cases "x = z")
    case True
    then have "xs @ [x] = rev (dropWhile (\<lambda>c. c = z) (rev (xs @ [x]))) @ replicate (Suc k) z"
      by (subst k) (simp add: replicate_append_same)
    then show ?thesis by blast
  qed (auto intro!: exI [of _ 0])
qed simp

lemma zeros_add_nothing: "foldl (\<lambda>n c. 10 * n + digit_val c) 0 (replicate k (CHR ''0'')) = 0"
  by (induction k) (simp_all add: digit_val_def)

lemma fraction_back:
  assumes "n < 1000000000"
  shows "skip_fraction (fraction_text n @ ''Z'') = ''Z''" and "fraction_nanos (fraction_text n @ ''Z'') = n"
proof -
  define ds where "ds = rev (dropWhile (\<lambda>c. c = CHR ''0'') (rev (digits 9 n)))"
  obtain k where k: "digits 9 n = ds @ replicate k (CHR ''0'')"
    using trailing_zeros [of "digits 9 n" "CHR ''0''"] unfolding ds_def by blast
  have val: "foldl (\<lambda>n c. 10 * n + digit_val c) 0 (ds @ replicate k (CHR ''0'')) = n"
    using foldl_digits [of 0 9 n] assms unfolding k by simp
  have len: "length ds + k = 9" using digits_width [of 9 n] unfolding k by simp
  have dig: "list_all is_digit ds" using digits_all [of 9 n] unfolding k by simp
  have shape: "fraction_text n = (if ds = [] then [] else CHR ''.'' # ds)"
    by (simp add: fraction_text_def ds_def Let_def)
  have zd: "\<not> is_digit (CHR ''Z'')" by (simp add: is_digit_def byte_in_def)
  show skip: "skip_fraction (fraction_text n @ ''Z'') = ''Z''"
    using dig zd by (cases ds) (auto simp: shape list_all_iff dropWhile_append3)
  show "fraction_nanos (fraction_text n @ ''Z'') = n"
  proof (cases "ds = []")
    case True
    then have "n = 0" using val zeros_add_nothing by simp
    moreover have "fraction_text n @ ''Z'' = ''Z''" using True shape by simp
    ultimately show ?thesis by (simp add: fraction_nanos_def)
  next
    case False
    have "takeWhile is_digit (ds @ ''Z'') = ds" using dig zd by (simp add: list_all_iff takeWhile_append2)
    moreover have "take 9 (ds @ replicate 9 (CHR ''0'')) = ds @ replicate k (CHR ''0'')"
      using len by (simp add: min_def)
    moreover have "skip_fraction (fraction_text n @ ''Z'') \<noteq> fraction_text n @ ''Z''"
      using skip False by (simp add: shape)
    ultimately show ?thesis using False val by (simp add: fraction_nanos_def shape)
  qed
qed

lemma date_back:
  assumes "366 \<le> d" and "d < days_before_year 10000" and "y = year_of d"
    and "month_day y 1 (nat (d - days_before_year y)) = (m, day)"
  shows "parse_date_prefix (digits 4 y @ ''-'' @ digits 2 m @ ''-'' @ digits 2 day @ rest) = Some ((y, m, day), rest)"
    and "epoch_days y m day = d - days_before_year 1970"
proof -
  have y: "1 \<le> y" "days_before_year y \<le> d" "d < days_before_year (Suc y)"
    using year_of_bounds [OF assms(1)] by (simp_all add: assms(3))
  have "y < 10000"
  proof (rule ccontr)
    assume "\<not> y < 10000"
    then have "10000 \<le> y" by simp
    then have "days_before_year 10000 \<le> days_before_year y"
      by (induction y rule: dec_induct) (use days_before_year_Suc in \<open>auto split: if_splits\<close>)
    then show False using y(2) assms(2) by simp
  qed
  have "days_before_month y 1 = 0" by (simp add: days_before_month_def)
  then have md: "1 \<le> m" "m \<le> 12" "1 \<le> day" "day \<le> days_in m y"
    "days_before_month y m + day = nat (d - days_before_year y) + 1"
    using month_day_correct [OF _ _ _ assms(4)] y days_before_year_Suc [OF y(1)]
    by (auto simp: year_length split: if_splits)
  have "day \<le> 31" using md(4) by (auto simp: days_in_def split: if_splits)
  then show "parse_date_prefix (digits 4 y @ ''-'' @ digits 2 m @ ''-'' @ digits 2 day @ rest) = Some ((y, m, day), rest)"
    using \<open>y < 10000\<close> md by (simp add: parse_date_prefix_def year4_digits getnum_digits)
  show "epoch_days y m day = d - days_before_year 1970"
    using md(5) y(2) by (simp add: epoch_days_def) 
qed

text \<open>The instants of the years 1 to 9999.\<close>

definition text_range :: "int \<Rightarrow> bool" where
  "text_range t \<longleftrightarrow> - 62135596800000000000 \<le> t \<and> t < 253402300800000000000"

lemma format_back:
  assumes "text_range t"
  shows "parse_rfc3339 (format_rfc3339nano t) = Some t"
proof -
  let ?secs = "t div 1000000000"
  define d where "d = ?secs div 86400 + days_before_year 1970"
  define s where "s = nat (?secs mod 86400)"
  define n where "n = nat (t mod 1000000000)"
  obtain m day where md: "month_day (year_of d) 1 (nat (d - days_before_year (year_of d))) = (m, day)"
    by fastforce
  have ends: "days_before_year 1970 = 719528" "days_before_year 10000 = 3652425"
    by (simp_all add: days_before_year_def)
  have d: "366 \<le> d" "d < days_before_year 10000"
    using assms unfolding d_def ends text_range_def by linarith+
  have s: "s < 86400" "int s = ?secs mod 86400" by (simp_all add: s_def nat_less_iff)
  have n: "n < 1000000000" "int n = t mod 1000000000" by (simp_all add: n_def nat_less_iff)
  have hms: "s div 3600 < 24" "s mod 3600 div 60 < 60" "s mod 60 < 60"
    "3600 * (s div 3600) + 60 * (s mod 3600 div 60) + s mod 60 = s"
  proof -
    have "s mod 3600 mod 60 = s mod 60" by (simp add: mod_mod_cancel)
    then have "3600 * (s div 3600) + (60 * (s mod 3600 div 60) + s mod 60) = s"
      using mult_div_mod_eq [of 60 "s mod 3600"] mult_div_mod_eq [of 3600 s] by simp
    then show "3600 * (s div 3600) + 60 * (s mod 3600 div 60) + s mod 60 = s" by linarith
  qed (use s(1) in \<open>simp_all add: less_mult_imp_div_less\<close>)
  note frac = fraction_back [OF n(1)]
  note date = date_back [OF d refl md]
  have t: "1000000000 * (86400 * (d - days_before_year 1970) + int s) + int n = t"
    by (simp add: s n d_def)
  have "format_rfc3339nano t = digits 4 (year_of d) @ ''-'' @ digits 2 m @ ''-'' @ digits 2 day @ ''T'' @
      digits 2 (s div 3600) @ '':'' @ digits 2 (s mod 3600 div 60) @ '':'' @ digits 2 (s mod 60) @
      fraction_text n @ ''Z''"
    using md by (simp add: format_rfc3339nano_def Let_def s_def n_def d_def)
  then show ?thesis
    using hms t frac date by (simp add: parse_rfc3339_def getnum_digits zone_seconds_def)
qed

end
