(* ===== verification/Entry_Reads.thy ===== *)
theory Entry_Reads
  imports Entry_Populate Time_Text
begin

text \<open>
  Reading entries (\<open>service/content_service.go\<close>, \<open>cursor.go\<close>, \<open>search.go\<close>, \<open>locales.go\<close>,
  \<open>delivery_usage.go\<close>): a single entry, a page of a list, the translations of an entry, what
  refers to it, the search across types, the locales in use, and the counter of delivery reads.
\<close>

section \<open>Cursors\<close>

text \<open>
  A cursor is base64 over JSON.  The JSON is kept as the value it decodes to; a text that is
  empty, blank or no base64 has a case of its own.
\<close>

datatype cursor_token = NoCursor | BlankCursor | NotBase64 | Token raw_json

definition ErrCursorInvalid :: app_error where
  "ErrCursorInvalid = New ''CONTENT_CURSOR_INVALID'' 400"

definition sortDir :: "sort_spec option \<Rightarrow> string" where
  "sortDir s = (case s of None \<Rightarrow> [] | Some so \<Rightarrow> if so_Desc so then ''desc'' else ''asc'')"

definition sortValueText :: "('k, 'z) sql_scheme \<Rightarrow> raw_json \<Rightarrow> string \<Rightarrow> string option" where
  "sortValueText Q payload key =
     (case as_map payload of None \<Rightarrow> None | Some m \<Rightarrow> text_at Q (Some (JObj (entries_of m))) key)"

definition encodeCursor :: "('k, 'z) sql_scheme \<Rightarrow> entry_row \<Rightarrow> sort_spec option \<Rightarrow> bool \<Rightarrow> cursor_token" where
  "encodeCursor Q e order matchPublished =
     (case order of
        None \<Rightarrow> Token (Text (JObj [(''t'', JStr (format_rfc3339nano (en_CreatedAt e))), (''i'', JStr (en_ID e))]))
      | Some so \<Rightarrow>
          let payload = (if matchPublished then PublishedPayload e else Text (en_Payload e)) in
          Token (Text (JObj [(''k'', JStr (Key (so_Field so))), (''d'', JStr (sortDir order)),
            (''v'', case sortValueText Q payload (Key (so_Field so)) of None \<Rightarrow> JNull | Some s \<Rightarrow> JStr s),
            (''i'', JStr (en_ID e))])))"

text \<open>A field of \<open>cursorPayload\<close>: absent or null is the zero value, another kind of value an error.\<close>

definition token_string :: "doc \<Rightarrow> string \<Rightarrow> go_error + string" where
  "token_string d k =
     (case map_of d k of
        None \<Rightarrow> Inr []
      | Some v \<Rightarrow> (case decoded_string v of None \<Rightarrow> Inl (AppError ErrCursorInvalid) | Some s \<Rightarrow> Inr s))"

definition token_pointer :: "doc \<Rightarrow> string \<Rightarrow> go_error + string option" where
  "token_pointer d k =
     (case map_of d k of
        None \<Rightarrow> Inr None
      | Some JNull \<Rightarrow> Inr None
      | Some (JStr s) \<Rightarrow> Inr (Some s)
      | Some _ \<Rightarrow> Inl (AppError ErrCursorInvalid))"

definition sortPair :: "string \<Rightarrow> string \<Rightarrow> detail" where
  "sortPair key dir = DJson (if key = [] then JNull else JStr (key @ '':'' @ dir))"

definition errCursorMismatch :: "string \<Rightarrow> string \<Rightarrow> string \<Rightarrow> string \<Rightarrow> go_error" where
  "errCursorMismatch k d wantKey wantDir =
     AppError (WithDetails ErrCursorInvalid
       [(''reason'', DStr ''cursor does not match the requested sort; restart the page-through''),
        (''cursor_sort'', sortPair k d), (''request_sort'', sortPair wantKey wantDir)])"

definition decode_token :: "env \<Rightarrow> doc \<Rightarrow> sort_spec option \<Rightarrow> go_error + entry_cursor option" where
  "decode_token E p order =
     and_then (token_string p ''t'') (\<lambda>t.
     and_then (token_string p ''i'') (\<lambda>i.
     and_then (token_string p ''k'') (\<lambda>k.
     and_then (token_string p ''d'') (\<lambda>d.
     and_then (token_pointer p ''v'') (\<lambda>v.
     case uuid_parse E i of
       None \<Rightarrow> Inl (AppError ErrCursorInvalid)
     | Some uid \<Rightarrow>
         let wantKey = (case order of None \<Rightarrow> [] | Some so \<Rightarrow> Key (so_Field so)); wantDir = sortDir order in
         if k \<noteq> wantKey \<or> d \<noteq> wantDir then Inl (errCursorMismatch k d wantKey wantDir)
         else if order \<noteq> None then Inr (Some \<lparr>cu_CreatedAt = 0, cu_ID = uid, cu_SortValue = v\<rparr>)
         else case parse_rfc3339 t of
                None \<Rightarrow> Inl (AppError ErrCursorInvalid)
              | Some stamp \<Rightarrow> Inr (Some \<lparr>cu_CreatedAt = stamp, cu_ID = uid, cu_SortValue = None\<rparr>))))))"

definition decodeCursor :: "env \<Rightarrow> cursor_token \<Rightarrow> sort_spec option \<Rightarrow> go_error + entry_cursor option" where
  "decodeCursor E tok order =
     (case tok of
        NoCursor \<Rightarrow> Inr None
      | Token raw \<Rightarrow>
          (case as_map raw of
             None \<Rightarrow> Inl (AppError ErrCursorInvalid)
           | Some m \<Rightarrow> decode_token E (entries_of m) order)
      | _ \<Rightarrow> Inl (AppError ErrCursorInvalid))"

section \<open>Counting delivery reads\<close>

type_synonym counts = "string \<Rightarrow> nat"

definition Record_read :: "string \<Rightarrow> counts \<Rightarrow> counts" where
  "Record_read tenant c = (if tenant = [] then c else c(tenant := Suc (c tenant)))"

section \<open>A page of a list\<close>

record list_input =
  li_Filters :: "string list"
  li_Sort :: string
  li_Fields :: "string list"
  li_Populate :: "string list"
  li_Status :: string
  li_Locale :: string
  li_Limit :: int
  li_Offset :: int
  li_Cursor :: cursor_token
  li_Query :: string

type_synonym read_dto = "(string \<times> related_entries) list entry_dto"

record list_result =
  lr_Items :: "read_dto list"
  lr_Limit :: int
  lr_Total :: "nat option"
  lr_Offset :: "int option"
  lr_NextCursor :: cursor_token
  lr_HasMore :: "bool option"

record list_plan =
  lp_Sub :: subject
  lp_Type :: type_record
  lp_Filters :: "field_filter list"
  lp_Sort :: "sort_spec option"
  lp_After :: "entry_cursor option"
  lp_Projection :: "string list"
  lp_Specs :: "populate_node list"

definition paging_ok :: "audience \<Rightarrow> list_input \<Rightarrow> go_error + unit" where
  "paging_ok aud inp =
     (if aud = audienceDelivery then
        require (li_Offset inp = 0)
          (AppError (WithDetails (New ''CONTENT_OFFSET_FORBIDDEN'' 403) [(''offset'', DJson (JNum (Fin (of_int (li_Offset inp)))))]))
      else require (li_Cursor inp = NoCursor \<or> li_Cursor inp = BlankCursor) (err400 ''CONTENT_CURSOR_UNSUPPORTED'' []))"

definition list_plan_of ::
    "world \<Rightarrow> subject option \<Rightarrow> string \<Rightarrow> list_input \<Rightarrow> entry_db \<Rightarrow> go_error + list_plan" where
  "list_plan_of W ctx typeName inp db =
     and_then (authorize (wd_allow W) ctx ''content:list'' ''collection'' typeName) (\<lambda>sub.
     and_then (app (guardPreviewCollection sub)) (\<lambda>_.
     and_then (TypeByName (TenantID sub) typeName db) (\<lambda>t.
     and_then (app (guardTypeRead (tr_Type t) sub)) (\<lambda>_.
     and_then (app (guardPopulateAudience (audienceFor sub) (li_Populate inp))) (\<lambda>_.
     and_then (paging_ok (audienceFor sub) inp) (\<lambda>_.
     and_then (collect_all (\<lambda>raw. map_sum (\<lambda>err. err) (\<lambda>flt. [flt]) (parseFilter (tr_Type t) sub raw))
                (filter (\<lambda>raw. TrimSpace raw \<noteq> []) (li_Filters inp))) (\<lambda>filters.
     and_then (parseSort (tr_Type t) sub (li_Sort inp)) (\<lambda>order.
     and_then (if audienceFor sub = audienceDelivery then decodeCursor (wd_env W) (li_Cursor inp) order else Inr None) (\<lambda>after.
     and_then (parseProjection (tr_Type t) sub (li_Fields inp)) (\<lambda>projection.
     and_then (parsePopulate sub db (tr_Type t) (li_Populate inp)) (\<lambda>specs.
     Inr \<lparr>lp_Sub = sub, lp_Type = t, lp_Filters = filters, lp_Sort = order, lp_After = after,
          lp_Projection = projection, lp_Specs = specs\<rparr>)))))))))))"

definition maxSearchQueryLen :: nat where "maxSearchQueryLen = 200"

definition errLocaleInvalid :: "string \<Rightarrow> go_error" where
  "errLocaleInvalid locale = err400 ''CONTENT_LOCALE_INVALID'' [(''locale'', DStr locale)]"

definition errQueryTooLong :: "nat \<Rightarrow> go_error" where
  "errQueryTooLong n =
     AppError (WithDetails (New ''CONTENT_SEARCH_QUERY_TOO_LONG'' 422)
       [(''limit'', DNat maxSearchQueryLen), (''length'', DNat n)])"

definition list_limit :: "int \<Rightarrow> int" where
  "list_limit n = (if n \<le> 0 \<or> 100 < n then 20 else n)"

definition window_ok :: "audience \<Rightarrow> list_input \<Rightarrow> go_error + unit" where
  "window_ok aud inp =
     and_then (require (li_Status inp = [] \<or> ValidStatus (li_Status inp)) (errStatusInvalid (li_Status inp))) (\<lambda>_.
     and_then (require (li_Locale inp = [] \<or> ValidLocale (li_Locale inp)) (errLocaleInvalid (li_Locale inp))) (\<lambda>_.
     and_then (require (length (li_Query inp) \<le> maxSearchQueryLen) (errQueryTooLong (length (li_Query inp)))) (\<lambda>_.
     require (\<not> (aud = audienceDelivery \<and> li_Status inp \<noteq> [] \<and> li_Status inp \<noteq> StatusPublished))
       (AppError (WithDetails (New ''CONTENT_STATUS_FORBIDDEN'' 403) [(''status'', DStr (li_Status inp))])))))"

definition query_of :: "list_plan \<Rightarrow> list_input \<Rightarrow> list_filter" where
  "query_of p inp =
     (let sub = lp_Sub p; delivery = (audienceFor sub = audienceDelivery); limit = list_limit (li_Limit inp) in
      \<lparr>lf_TenantID = TenantID sub, lf_ContentTypeID = tr_ID (lp_Type p), lf_Filters = lp_Filters p,
       lf_Sort = lp_Sort p, lf_Status = (if delivery then StatusPublished else li_Status inp),
       lf_Locale = li_Locale inp, lf_TranslationGroupID = uuid_Nil,
       lf_CreatedBy = confinedAuthor (tr_Type (lp_Type p)) sub,
       lf_Limit = (if delivery then limit + 1 else limit), lf_Offset = (if delivery then 0 else li_Offset inp),
       lf_CursorPaged = delivery, lf_After = (if delivery then lp_After p else None),
       lf_MatchPublished = delivery, lf_Query = li_Query inp\<rparr>)"

definition read_item ::
    "subject \<Rightarrow> content_type \<Rightarrow> string list \<Rightarrow> expansion \<Rightarrow> entry_db \<Rightarrow> entry_row \<Rightarrow> read_dto" where
  "read_item sub ct projection related db e =
     decorateWithReviewDecision sub (decorateWithSchedule sub
       (withRelated (related (en_ID e)) (narrowedTo projection (ProjectEntry ct e sub))) (en_ID e) db) (en_ID e) db"

definition page_of ::
    "env \<Rightarrow> ('k, 'z) sql_scheme \<Rightarrow> list_plan \<Rightarrow> list_input \<Rightarrow> entry_row list \<Rightarrow> nat \<Rightarrow> entry_db \<Rightarrow> go_error + list_result" where
  "page_of E Q p inp found count db =
     (let sub = lp_Sub p; delivery = (audienceFor sub = audienceDelivery); limit = list_limit (li_Limit inp);
          hasMore = (limit < int (length found));
          rows = (if delivery \<and> hasMore then take (nat limit) found else found) in
      and_then (populateFor E sub db (lp_Specs p) rows) (\<lambda>related.
      let items = map (read_item sub (tr_Type (lp_Type p)) (lp_Projection p) related db) rows in
      Inr (if delivery then
             \<lparr>lr_Items = items, lr_Limit = limit, lr_Total = None, lr_Offset = None,
              lr_NextCursor = (if hasMore \<and> rows \<noteq> [] then encodeCursor Q (last rows) (lp_Sort p) True else NoCursor),
              lr_HasMore = Some hasMore\<rparr>
           else
             \<lparr>lr_Items = items, lr_Limit = limit, lr_Total = Some count, lr_Offset = Some (li_Offset inp),
              lr_NextCursor = NoCursor, lr_HasMore = None\<rparr>)))"

text \<open>A delivery read is counted before its query runs.\<close>

definition count_delivery :: "subject \<Rightarrow> counts \<Rightarrow> counts" where
  "count_delivery sub c = (if audienceFor sub = audienceDelivery then Record_read (TenantID sub) c else c)"

definition list_answer ::
    "world \<Rightarrow> ('k::linorder, 'z) sql_scheme \<Rightarrow> subject option \<Rightarrow> string \<Rightarrow> list_input \<Rightarrow> entry_db \<Rightarrow> counts \<Rightarrow>
     (go_error + list_result) \<times> counts" where
  "list_answer W Q ctx typeName inp db c =
     (case list_plan_of W ctx typeName inp db of
        Inl err \<Rightarrow> (Inl err, c)
      | Inr p \<Rightarrow>
          (case window_ok (audienceFor (lp_Sub p)) inp of
             Inl err \<Rightarrow> (Inl err, c)
           | Inr _ \<Rightarrow>
               (and_then (ListEntries_repo Q (query_of p inp) db) (\<lambda>(found, count).
                  page_of (wd_env W) Q p inp found count db),
                count_delivery (lp_Sub p) c)))"

definition ListEntries ::
    "world \<Rightarrow> ('k::linorder, 'z) sql_scheme \<Rightarrow> subject option \<Rightarrow> string \<Rightarrow> list_input \<Rightarrow> int \<Rightarrow> entry_db \<Rightarrow> counts \<Rightarrow>
     (go_error + list_result) \<times> entry_db \<times> counts" where
  "ListEntries W Q ctx typeName inp now db c =
     (case list_answer W Q ctx typeName inp db c of (res, c') \<Rightarrow>
        (res, finish (beginActivity ctx ''entry.list'' False typeName now) (error_of res) db, c'))"

section \<open>One entry\<close>

definition get_plan ::
    "world \<Rightarrow> subject option \<Rightarrow> string \<Rightarrow> uuid \<Rightarrow> string list \<Rightarrow> entry_db \<Rightarrow>
     go_error + subject \<times> type_record \<times> populate_node list \<times> entry_row" where
  "get_plan W ctx typeName i populate db =
     and_then (authorize (wd_allow W) ctx ''content:read'' i typeName) (\<lambda>sub.
     and_then (app (guardPopulateAudience (audienceFor sub) populate)) (\<lambda>_.
     and_then (TypeByName (TenantID sub) typeName db) (\<lambda>t.
     and_then (app (guardTypeRead (tr_Type t) sub)) (\<lambda>_.
     and_then (parsePopulate sub db (tr_Type t) populate) (\<lambda>specs.
     and_then (GetEntry_repo (TenantID sub) (tr_ID t) i db) (\<lambda>e.
     and_then (app (guardOwned (tr_Type t) sub (en_CreatedBy e))) (\<lambda>_. Inr (sub, t, specs, e))))))))"

text \<open>What a delivery or preview credential must find: an entry on air, or the one it names.\<close>

definition delivery_gate :: "subject \<Rightarrow> entry_row \<Rightarrow> bool" where
  "delivery_gate sub e \<longleftrightarrow> (case PreviewEntryID sub of Some p \<Rightarrow> en_ID e = p | None \<Rightarrow> IsPublished e)"

definition get_item ::
    "env \<Rightarrow> subject \<Rightarrow> type_record \<Rightarrow> populate_node list \<Rightarrow> entry_row \<Rightarrow> entry_db \<Rightarrow> go_error + read_dto" where
  "get_item E sub t specs e db =
     (let dto = ProjectEntry (tr_Type t) e sub in
      if PublicDelivery sub \<and> PreviewEntryID sub \<noteq> None then Inr dto
      else and_then (populateFor E sub db specs [e]) (\<lambda>related.
        let shown' = withRelated (related (en_ID e)) dto in
        Inr (if PublicDelivery sub then shown'
             else decorateWithReviewDecision sub (decorateWithSchedule sub shown' (en_ID e) db) (en_ID e) db)))"

definition get_answer ::
    "world \<Rightarrow> subject option \<Rightarrow> string \<Rightarrow> uuid \<Rightarrow> string list \<Rightarrow> entry_db \<Rightarrow> counts \<Rightarrow> (go_error + read_dto) \<times> counts" where
  "get_answer W ctx typeName i populate db c =
     (case get_plan W ctx typeName i populate db of
        Inl err \<Rightarrow> (Inl err, c)
      | Inr (sub, t, specs, e) \<Rightarrow>
          if PublicDelivery sub \<and> \<not> delivery_gate sub e then (Inl entry_not_found, c)
          else (get_item (wd_env W) sub t specs e db, if PublicDelivery sub then Record_read (TenantID sub) c else c))"

definition GetEntry ::
    "world \<Rightarrow> subject option \<Rightarrow> string \<Rightarrow> uuid \<Rightarrow> string list \<Rightarrow> int \<Rightarrow> entry_db \<Rightarrow> counts \<Rightarrow>
     (go_error + read_dto) \<times> entry_db \<times> counts" where
  "GetEntry W ctx typeName i populate now db c =
     (case get_answer W ctx typeName i populate db c of (res, c') \<Rightarrow>
        (res, finish (forEntry i (beginActivity ctx ''entry.read'' False typeName now)) (error_of res) db, c'))"

section \<open>Translations\<close>

definition group_query :: "subject \<Rightarrow> type_record \<Rightarrow> entry_row \<Rightarrow> list_filter" where
  "group_query sub t src =
     \<lparr>lf_TenantID = TenantID sub, lf_ContentTypeID = tr_ID t, lf_Filters = [], lf_Sort = None,
      lf_Status = (if PublicDelivery sub then StatusPublished else []), lf_Locale = [],
      lf_TranslationGroupID = en_TranslationGroupID src, lf_CreatedBy = confinedAuthor (tr_Type t) sub,
      lf_Limit = 100, lf_Offset = 0, lf_CursorPaged = False, lf_After = None, lf_MatchPublished = False, lf_Query = []\<rparr>"

definition translations_plan ::
    "world \<Rightarrow> subject option \<Rightarrow> string \<Rightarrow> uuid \<Rightarrow> entry_db \<Rightarrow> go_error + subject \<times> type_record \<times> entry_row" where
  "translations_plan W ctx typeName i db =
     and_then (authorize (wd_allow W) ctx ''content:read'' i typeName) (\<lambda>sub.
     and_then (app (guardPreviewCollection sub)) (\<lambda>_.
     and_then (TypeByName (TenantID sub) typeName db) (\<lambda>t.
     and_then (app (guardTypeRead (tr_Type t) sub)) (\<lambda>_.
     and_then (GetEntry_repo (TenantID sub) (tr_ID t) i db) (\<lambda>src.
     and_then (app (guardOwned (tr_Type t) sub (en_CreatedBy src))) (\<lambda>_.
     and_then (require (\<not> (PublicDelivery sub \<and> \<not> IsPublished src)) entry_not_found) (\<lambda>_. Inr (sub, t, src))))))))"

definition ListTranslations ::
    "world \<Rightarrow> ('k::linorder, 'z) sql_scheme \<Rightarrow> subject option \<Rightarrow> string \<Rightarrow> uuid \<Rightarrow> int \<Rightarrow> entry_db \<Rightarrow> counts \<Rightarrow>
     (go_error + read_dto list) \<times> entry_db \<times> counts" where
  "ListTranslations W Q ctx typeName i now db c =
     (let act = forEntry i (beginActivity ctx ''entry.translations'' False typeName now) in
      case translations_plan W ctx typeName i db of
        Inl err \<Rightarrow> (Inl err, finish act (Some err) db, c)
      | Inr (sub, t, src) \<Rightarrow>
          let res = map_sum (\<lambda>err. err) (\<lambda>(rows, n). map (\<lambda>e. ProjectEntry (tr_Type t) e sub) rows)
                      (ListEntries_repo Q (group_query sub t src) db) in
          (res, finish act (error_of res) db, if PublicDelivery sub then Record_read (TenantID sub) c else c))"

section \<open>What refers to an entry\<close>

record referenced_row =
  rr_EntryID :: uuid
  rr_TypeName :: string
  rr_Title :: string
  rr_FieldPath :: string
  rr_Draft :: bool
  rr_Published :: bool

text \<open>
  The links to a target in the two link tables, merged per entry and field.  An entry is joined
  within the tenant, by row level security.
\<close>

definition links_to :: "string \<Rightarrow> uuid \<Rightarrow> link_row list \<Rightarrow> (uuid \<times> string) list" where
  "links_to tenant target ls =
     map (\<lambda>l. (ln_EntryID l, ln_FieldPath l)) (filter (\<lambda>l. ln_TenantID l = tenant \<and> ln_Target l = target) ls)"

definition referring_row ::
    "string \<Rightarrow> (uuid \<times> string) list \<Rightarrow> (uuid \<times> string) list \<Rightarrow> entry_db \<Rightarrow> uuid \<times> string \<Rightarrow> referenced_row option" where
  "referring_row tenant drafts pubs db key =
     Option.bind (find (\<lambda>e. en_ID e = fst key \<and> en_TenantID e = tenant) (db_Entries db)) (\<lambda>e.
     Option.bind (find (\<lambda>t. tr_ID t = en_ContentTypeID e) (db_Types db)) (\<lambda>t.
       let draft = (key \<in> set drafts);
           raw = (if \<not> draft \<and> en_PublishedPayload e \<noteq> None then PublishedPayload e else Text (en_Payload e)) in
       Some \<lparr>rr_EntryID = fst key, rr_TypeName = ct_Name (tr_Type t), rr_Title = TitleFor (ct_Fields (tr_Type t)) raw,
             rr_FieldPath = snd key, rr_Draft = draft, rr_Published = (key \<in> set pubs)\<rparr>))"

text \<open>\<open>COUNT(*) OVER ()\<close> comes with the rows of the page: an empty page reports 0.\<close>

definition referencedByQuery ::
    "string \<Rightarrow> link_row list \<Rightarrow> link_row list \<Rightarrow> uuid \<Rightarrow> int \<Rightarrow> int \<Rightarrow> entry_db \<Rightarrow> referenced_row list \<times> nat" where
  "referencedByQuery tenant draft_links pub_links target limit offset db =
     (let drafts = links_to tenant target draft_links; pubs = links_to tenant target pub_links;
          rows = List.map_filter (referring_row tenant drafts pubs db) (sort (remdups (drafts @ pubs)));
          n = (if limit \<le> 0 \<or> 200 < limit then 50 else nat limit);
          page = take n (drop (nat offset) rows) in
      (page, if page = [] then 0 else length rows))"

definition clampReferencedByPage :: "int \<Rightarrow> int \<Rightarrow> int \<times> int" where
  "clampReferencedByPage limit offset =
     (if limit \<le> 0 \<or> 200 < limit then 50 else limit, if offset < 0 then 0 else offset)"

definition readableReferencedByRows :: "referenced_row list \<Rightarrow> subject \<Rightarrow> entry_db \<Rightarrow> referenced_row list" where
  "readableReferencedByRows rows sub db =
     filter (\<lambda>r. \<not> (IsAgent sub \<and> \<not> AllowsContentType sub (rr_TypeName r)) \<and>
        (case TypeByName (TenantID sub) (rr_TypeName r) db of Inl _ \<Rightarrow> False | Inr t \<Rightarrow> canReadType (tr_Type t) sub)) rows"

definition referenced_plan ::
    "world \<Rightarrow> subject option \<Rightarrow> string \<Rightarrow> uuid \<Rightarrow> entry_db \<Rightarrow> go_error + subject" where
  "referenced_plan W ctx typeName i db =
     and_then (authorize (wd_allow W) ctx ''content:read'' i typeName) (\<lambda>sub.
     and_then (TypeByName (TenantID sub) typeName db) (\<lambda>t.
     and_then (app (guardTypeRead (tr_Type t) sub)) (\<lambda>_.
     and_then (GetEntry_repo (TenantID sub) (tr_ID t) i db) (\<lambda>e.
     and_then (app (guardOwned (tr_Type t) sub (en_CreatedBy e))) (\<lambda>_. Inr sub)))))"

definition EntryReferencedBy ::
    "world \<Rightarrow> subject option \<Rightarrow> string \<Rightarrow> uuid \<Rightarrow> int \<Rightarrow> int \<Rightarrow> entry_db \<Rightarrow> go_error + referenced_row list \<times> nat" where
  "EntryReferencedBy W ctx typeName i limit offset db =
     and_then (referenced_plan W ctx typeName i db) (\<lambda>sub.
     case clampReferencedByPage limit offset of (l, o') \<Rightarrow>
       (case referencedByQuery (TenantID sub) (db_Relations db) (db_RelationsPublished db) i l o' db of
          (rows, n) \<Rightarrow> Inr (readableReferencedByRows rows sub db, n)))"

section \<open>Search and locales\<close>

record search_result =
  sr_ID :: uuid
  sr_ContentType :: string
  sr_Locale :: string
  sr_Status :: string
  sr_UpdatedAt :: int
  sr_Snippet :: string

definition slice_panic :: go_error where
  "slice_panic = PlainError ''panic: slice bounds out of range''"

definition search_row ::
    "(string \<Rightarrow> string) \<Rightarrow> string \<Rightarrow> string \<Rightarrow> entry_db \<Rightarrow> entry_row \<Rightarrow> go_error + search_result list" where
  "search_row lower firstTerm tenant db e =
     (case SnippetFor lower (en_SearchText e) firstTerm of
        None \<Rightarrow> Inl slice_panic
      | Some snippet \<Rightarrow>
          Inr [\<lparr>sr_ID = en_ID e,
                sr_ContentType = (case TypeByID tenant (en_ContentTypeID e) db of Inl _ \<Rightarrow> [] | Inr t \<Rightarrow> ct_Name (tr_Type t)),
                sr_Locale = en_Locale e, sr_Status = en_Status e, sr_UpdatedAt = en_UpdatedAt e, sr_Snippet = snippet\<rparr>])"

definition Search ::
    "world \<Rightarrow> ('k, 'z) sql_scheme \<Rightarrow> (string \<Rightarrow> string) \<Rightarrow> subject option \<Rightarrow> string \<Rightarrow> string \<Rightarrow> string \<Rightarrow> int \<Rightarrow> entry_db \<Rightarrow>
     go_error + search_result list" where
  "Search W Q lower ctx query locale status limit db =
     and_then (authorize (wd_allow W) ctx ''content:list'' ''search'' []) (\<lambda>sub.
     and_then (require (\<not> PublicDelivery sub) forbidden) (\<lambda>_.
     and_then (require (length query \<le> maxSearchQueryLen) (errQueryTooLong (length query))) (\<lambda>_.
     and_then (require (TrimSpace query \<noteq> []) (err400 ''CONTENT_SEARCH_QUERY_REQUIRED'' [])) (\<lambda>_.
     and_then (require (status = [] \<or> ValidStatus status) (errStatusInvalid status)) (\<lambda>_.
     and_then (require (locale = [] \<or> ValidLocale locale) (errLocaleInvalid locale)) (\<lambda>_.
     collect_all (search_row lower (hd (Fields_of query)) (TenantID sub) db)
       (SearchEntries (\<lambda>text word. sq_ilike Q text (''%'' @ likeEscape word @ ''%'')) (TenantID sub) (TenantRole sub)
          (ResponsibleUserID sub) (Fields_of query) locale status limit db)))))))"

definition ListLocales_repo :: "string \<Rightarrow> string \<Rightarrow> uuid \<Rightarrow> uuid option \<Rightarrow> entry_db \<Rightarrow> (string \<times> nat) list" where
  "ListLocales_repo tenant role user ct db =
     (let rows = filter (\<lambda>e. en_TenantID e = tenant \<and> dataVisible role user db e \<and>
                   (case ct of None \<Rightarrow> True | Some i \<Rightarrow> en_ContentTypeID e = i)) (db_Entries db) in
      map (\<lambda>l. (l, length (filter (\<lambda>e. en_Locale e = l) rows))) (sort (remdups (map en_Locale rows))))"

definition ListLocales :: "world \<Rightarrow> subject option \<Rightarrow> string \<Rightarrow> entry_db \<Rightarrow> go_error + (string \<times> nat) list" where
  "ListLocales W ctx typeName db =
     and_then (authorize (wd_allow W) ctx ''content:list'' ''locales'' []) (\<lambda>sub.
     and_then (require (\<not> PublicDelivery sub) forbidden) (\<lambda>_.
     and_then (if typeName = [] then Inr None
               else map_sum (\<lambda>err. err) (\<lambda>t. Some (tr_ID t)) (TypeByName (TenantID sub) typeName db)) (\<lambda>ct.
     Inr (ListLocales_repo (TenantID sub) (TenantRole sub) (ResponsibleUserID sub) ct db))))"

section \<open>The counter and the daily bucket\<close>

type_synonym buckets = "string \<times> int \<Rightarrow> nat"

definition AddDeliveryReads :: "string \<Rightarrow> int \<Rightarrow> nat \<Rightarrow> buckets \<Rightarrow> buckets" where
  "AddDeliveryReads tenant day n b = (if n = 0 then b else b((tenant, day) := b (tenant, day) + n))"

definition DeliveryReadsForDay :: "string \<Rightarrow> int \<Rightarrow> buckets \<Rightarrow> nat" where
  "DeliveryReadsForDay tenant day b = b (tenant, day)"

text \<open>
  A flush of the tenants of the drained map, in the order in which the map is visited; a
  tenant whose write fails is put back.
\<close>

fun flush_tenants ::
    "(string \<Rightarrow> bool) \<Rightarrow> int \<Rightarrow> counts \<Rightarrow> string list \<Rightarrow> counts \<times> buckets \<Rightarrow> counts \<times> buckets" where
  "flush_tenants writes day pending [] s = s"
| "flush_tenants writes day pending (t # ts) (c, b) =
     flush_tenants writes day pending ts
       (if writes t then (c, AddDeliveryReads t day (pending t) b) else (c(t := c t + pending t), b))"

definition drain :: "counts \<Rightarrow> counts \<times> counts" where
  "drain c = (c, \<lambda>_. 0)"

definition Flush :: "(string \<Rightarrow> bool) \<Rightarrow> int \<Rightarrow> string list \<Rightarrow> counts \<times> buckets \<Rightarrow> counts \<times> buckets" where
  "Flush writes day tenants s =
     (case s of (c, b) \<Rightarrow> case drain c of (pending, fresh) \<Rightarrow> flush_tenants writes day pending tenants (fresh, b))"

end
