(* ===== verification/Entry_Pages.thy ===== *)
theory Entry_Pages
  imports Entry_Reads "HOL-Library.Multiset"
begin

text \<open>
  Pages.  The contract \<open>keyset\<close> says what an order must satisfy for paging by the last row
  seen to be complete; both orders of the delivery lists satisfy it, and the window a decoded
  cursor opens is exactly what comes after the row it was made from.
\<close>

section \<open>The contract of an order\<close>

locale keyset =
  fixes before :: "'a \<Rightarrow> 'a \<Rightarrow> bool" and name :: "'a \<Rightarrow> 'b"
  assumes irrefl: "\<not> before a a"
    and trans: "before a b \<Longrightarrow> before b c \<Longrightarrow> before a c"
    and total: "name a \<noteq> name b \<Longrightarrow> before a b \<or> before b a"

lemma mset_insert_before: "mset (insert_before before x xs) = add_mset x (mset xs)"
  by (induction xs) (simp_all add: add_mset_commute)

lemma mset_order_by [simp]: "mset (order_by before xs) = mset xs"
  unfolding order_by_def by (induction xs) (simp_all add: mset_insert_before)

lemma set_order_by [simp]: "set (order_by before xs) = set xs"
  by (rule mset_eq_setD) simp

lemma length_order_by [simp]: "length (order_by before xs) = length xs"
  by (rule mset_eq_length) simp

lemma set_insert_before [simp]: "set (insert_before before x xs) = insert x (set xs)"
  by (induction xs) auto

context keyset begin

lemma insert_sorted:
  assumes "sorted_wrt before xs" and "name x \<notin> name ` set xs"
  shows "sorted_wrt before (insert_before before x xs)"
  using assms
proof (induction xs)
  case (Cons y ys)
  have "before x y" if "\<not> before y x" using that Cons.prems(2) total [of x y] by auto
  then show ?case using Cons trans by auto
qed simp

lemma sorted_order_by: "distinct (map name xs) \<Longrightarrow> sorted_wrt before (order_by before xs)"
proof (induction xs)
  case (Cons x xs)
  have "sorted_wrt before (insert_before before x (order_by before xs))"
    using Cons by (intro insert_sorted) auto
  then show ?case by (simp add: order_by_def)
qed (simp add: order_by_def)

lemma distinct_order_by: "distinct (map name xs) \<Longrightarrow> distinct (map name (order_by before xs))"
  by (metis distinct_map mset_eq_imp_distinct_iff mset_order_by set_order_by)

lemma asym: "before a b \<Longrightarrow> \<not> before b a"
  using irrefl trans by blast

lemma sorted_unique:
  "sorted_wrt before xs \<Longrightarrow> sorted_wrt before ys \<Longrightarrow> set xs = set ys \<Longrightarrow> xs = ys"
proof (induction xs arbitrary: ys)
  case (Cons x xs)
  then obtain y ys' where ys: "ys = y # ys'" by (cases ys) auto
  have "x = y"
  proof (rule ccontr)
    assume "x \<noteq> y"
    then have "x \<in> set ys'" "y \<in> set xs" using Cons.prems(3) ys by auto
    then show False using Cons.prems(1,2) ys asym by auto
  qed
  moreover have "x \<notin> set xs" "y \<notin> set ys'" using Cons.prems(1,2) ys irrefl by auto
  ultimately have "set xs = set ys'" using Cons.prems(3) ys by auto
  then show ?case using Cons ys \<open>x = y\<close> by auto
qed simp

lemma filter_order_by:
  assumes "distinct (map name xs)"
  shows "order_by before (filter P xs) = filter P (order_by before xs)"
proof (rule sorted_unique)
  show "sorted_wrt before (order_by before (filter P xs))"
    using assms by (intro sorted_order_by) (simp add: distinct_map_filter)
  show "sorted_wrt before (filter P (order_by before xs))"
    using sorted_order_by [OF assms] by (rule sorted_wrt_filter)
qed simp

lemma after_in_sorted:
  assumes "sorted_wrt before (xs @ x # ys)"
  shows "filter (before x) (xs @ x # ys) = ys"
proof -
  have "\<forall>a \<in> set xs. \<not> before x a" using assms asym by (auto simp: sorted_wrt_append)
  moreover have "\<forall>a \<in> set ys. before x a" using assms by (auto simp: sorted_wrt_append)
  ultimately show ?thesis using irrefl by (simp add: filter_False)
qed

text \<open>The page after the last row of a page is the next slice of the whole ordered list.\<close>

lemma next_slice:
  assumes "distinct (map name xs)" and "0 < n" and "n \<le> length xs"
  shows "order_by before (filter (before (last (take n (order_by before xs)))) xs) = drop n (order_by before xs)"
proof -
  let ?ys = "order_by before xs"
  have "?ys \<noteq> []"
  proof
    assume "?ys = []"
    then show False using length_order_by [of before xs] assms(2,3) by simp
  qed
  then have "take n ?ys \<noteq> []" using assms(2) by simp
  then obtain b l where bl: "take n ?ys = b @ [l]" by (metis rev_exhaust)
  then have split: "?ys = b @ l # drop n ?ys" using append_take_drop_id [of n ?ys] by simp
  have "sorted_wrt before (b @ l # drop n ?ys)"
    using sorted_order_by [OF assms(1)] split by simp
  from after_in_sorted [OF this] have "filter (before l) ?ys = drop n ?ys" using split by simp
  then show ?thesis by (simp add: filter_order_by [OF assms(1)] bl)
qed

end

section \<open>The two orders\<close>

interpretation by_time: keyset newer en_ID
  by unfold_locales (auto simp: newer_def)

lemma further_laws:
  "\<not> further desc a a" "further desc a b \<Longrightarrow> further desc b c \<Longrightarrow> further desc a c"
  "a \<noteq> b \<Longrightarrow> further desc a b \<or> further desc b a"
  by (auto simp: further_def split: if_splits)

lemma keyed_before_laws:
  "\<not> keyed_before desc p p"
  "keyed_before desc p q \<Longrightarrow> keyed_before desc q r \<Longrightarrow> keyed_before desc p r"
  "snd p \<noteq> snd q \<Longrightarrow> keyed_before desc p q \<or> keyed_before desc q p"
proof -
  obtain a i b j c k where pqr: "p = (a, i)" "q = (b, j)" "r = (c, k)" by (metis surj_pair)
  show "\<not> keyed_before desc p p" unfolding pqr by (cases a) (auto simp: further_laws(1))
  show "keyed_before desc p q \<Longrightarrow> keyed_before desc q r \<Longrightarrow> keyed_before desc p r"
    unfolding pqr by (cases a; cases b; cases c) (auto intro: further_laws(2))
  show "snd p \<noteq> snd q \<Longrightarrow> keyed_before desc p q \<or> keyed_before desc q p"
    using further_laws(3) [of i j desc] further_laws(3) [of "the a" "the b" desc]
    unfolding pqr by (cases a; cases b) auto
qed

lemma keyed_before_iff:
  "keyed_before desc (None, i) q \<longleftrightarrow> fst q = None \<and> further desc i (snd q)"
  "keyed_before desc (Some a, i) q \<longleftrightarrow>
     (case fst q of Some b \<Rightarrow> further desc a b \<or> (a = b \<and> further desc i (snd q)) | None \<Rightarrow> True)"
  by (cases q; cases "fst q"; auto)+

interpretation by_value: keyset "\<lambda>a b. keyed_before desc (k a, en_ID a) (k b, en_ID b)" en_ID
  for desc and k :: "entry_row \<Rightarrow> 'k::linorder option"
  by unfold_locales (use keyed_before_laws in fastforce)+

section \<open>A cursor names its row\<close>

lemma text_at_snapshot: "sortValueText Q (PublishedPayload e) k = text_at Q (en_PublishedPayload e) k"
  unfolding sortValueText_def text_at_def PublishedPayload_def
  by (cases "en_PublishedPayload e"; cases "the (en_PublishedPayload e)") auto

lemma decode_encode_time:
  assumes "uuid_parse E (en_ID e) = Some (en_ID e)" and "text_range (en_CreatedAt e)"
  shows "decodeCursor E (encodeCursor Q e None published) None =
     Inr (Some \<lparr>cu_CreatedAt = en_CreatedAt e, cu_ID = en_ID e, cu_SortValue = None\<rparr>)"
  using assms format_back
  by (simp add: decodeCursor_def encodeCursor_def decode_token_def token_string_def token_pointer_def
      decoded_string_def sortDir_def)

lemma decode_encode_value:
  assumes "uuid_parse E (en_ID e) = Some (en_ID e)"
  shows "decodeCursor E (encodeCursor Q e (Some so) True) (Some so) =
     Inr (Some \<lparr>cu_CreatedAt = 0, cu_ID = en_ID e,
                 cu_SortValue = text_at Q (en_PublishedPayload e) (Key (so_Field so))\<rparr>)"
  using assms
  by (cases "text_at Q (en_PublishedPayload e) (Key (so_Field so))")
    (simp_all add: decodeCursor_def encodeCursor_def decode_token_def token_string_def token_pointer_def
      decoded_string_def sortDir_def text_at_snapshot)

text \<open>The window a row's cursor opens is what comes after the row.\<close>

lemma cursor_window:
  assumes "uuid_parse E (en_ID e) = Some (en_ID e)" and "text_range (en_CreatedAt e)"
    and "lf_CursorPaged f" and "lf_MatchPublished f" and "\<not> bad_sort Q f e"
  obtains c past where "decodeCursor E (encodeCursor Q e (lf_Sort f) True) (lf_Sort f) = Inr (Some c)"
    and "after_condition Q f c = Inr past" and "past = ordered_by Q f e"
proof (cases "lf_Sort f")
  case None
  show thesis
  proof (rule that)
    show "decodeCursor E (encodeCursor Q e (lf_Sort f) True) (lf_Sort f) =
        Inr (Some \<lparr>cu_CreatedAt = en_CreatedAt e, cu_ID = en_ID e, cu_SortValue = None\<rparr>)"
      unfolding None by (rule decode_encode_time [OF assms(1,2)])
    show "after_condition Q f \<lparr>cu_CreatedAt = en_CreatedAt e, cu_ID = en_ID e, cu_SortValue = None\<rparr> = Inr (ordered_by Q f e)"
      by (simp add: after_condition_def ordered_by_def None newer_def fun_eq_iff)
  qed simp
next
  case (Some so)
  let ?v = "text_at Q (en_PublishedPayload e) (Key (so_Field so))"
  let ?c = "\<lparr>cu_CreatedAt = 0, cu_ID = en_ID e, cu_SortValue = ?v\<rparr>"
  have cell: "sort_cell Q True so e \<noteq> BadCast"
    using assms(4,5) by (simp add: bad_sort_def Some)
  have "after_condition Q f ?c = Inr (ordered_by Q f e)"
  proof (cases ?v)
    case None
    then have "cell_key (sort_cell Q True so e) = None" by (simp add: sort_cell_def ordered_cell_def column_def)
    then show ?thesis using None assms(3,4)
      by (simp add: after_condition_def ordered_by_def Some fun_eq_iff Let_def keyed_before_iff)
  next
    case v: (Some t)
    then obtain k where k: "sq_cast Q (Type (so_Field so)) t = Some k"
      using cell by (auto simp: sort_cell_def ordered_cell_def column_def split: option.splits)
    then have "cell_key (sort_cell Q True so e) = Some k" using v by (simp add: sort_cell_def ordered_cell_def column_def)
    then show ?thesis using v k assms(3,4)
      by (auto simp: after_condition_def ordered_by_def Some fun_eq_iff ordered_literal_def Let_def keyed_before_iff
          split: option.split)
  qed
  then show thesis using that decode_encode_value [OF assms(1)] unfolding Some by blast
qed

section \<open>One page\<close>

lemma query_after: "query_of (p\<lparr>lp_After := a\<rparr>) (inp\<lparr>li_Cursor := tok\<rparr>) =
    (query_of p inp)\<lparr>lf_After := (if audienceFor (lp_Sub p) = audienceDelivery then a else None)\<rparr>"
  by (simp add: query_of_def Let_def)

lemma after_irrelevant [simp]:
  "buildWhere Q (f\<lparr>lf_After := a\<rparr>) = buildWhere Q f" "ordered_by Q (f\<lparr>lf_After := a\<rparr>) = ordered_by Q f"
  "bad_sort Q (f\<lparr>lf_After := a\<rparr>) = bad_sort Q f" "after_condition Q (f\<lparr>lf_After := a\<rparr>) = after_condition Q f"
  by (simp_all add: buildWhere_def predicateColumn_def column_conditions_def ordered_by_def bad_sort_def
      after_condition_def fun_eq_iff split: option.split)

lemma plan_after:
  assumes "list_plan_of W ctx tn (inp\<lparr>li_Cursor := NoCursor\<rparr>) db = Inr p" and "audienceFor (lp_Sub p) = audienceDelivery"
    and "decodeCursor (wd_env W) tok (lp_Sort p) = Inr a"
  shows "list_plan_of W ctx tn (inp\<lparr>li_Cursor := tok\<rparr>) db = Inr (p\<lparr>lp_After := a\<rparr>)"
  using assms by (auto simp: list_plan_of_def paging_ok_def)

text \<open>What the query of a plan matches, in order, whatever the window.\<close>

definition matched :: "('k::linorder, 'z) sql_scheme \<Rightarrow> list_filter \<Rightarrow> entry_db \<Rightarrow> go_error + entry_row list" where
  "matched Q f db =
     and_then (buildWhere Q f) (\<lambda>cs.
     and_then (rows_where cs (db_Entries db)) (\<lambda>rows.
     and_then (require (\<not> list_ex (bad_sort Q f) rows) query_failed) (\<lambda>_.
     Inr (order_by (ordered_by Q f) rows))))"

lemma rows_where_sublist:
  "rows_where cs rows = Inr rows' \<Longrightarrow> \<exists>P. rows' = filter P rows"
proof (induction cs arbitrary: rows)
  case Nil
  then have "rows' = filter (\<lambda>_. True) rows" by simp
  then show ?case by blast
next
  case (Cons c cs)
  then have "rows_where cs (filter (\<lambda>e. c e = SqlTrue) rows) = Inr rows'" by (simp split: if_splits)
  from Cons.IH [OF this] obtain P where "rows' = filter P (filter (\<lambda>e. c e = SqlTrue) rows)" by blast
  then have "rows' = filter (\<lambda>e. c e = SqlTrue \<and> P e) rows" by (simp add: filter_filter conj_commute)
  then show ?case by blast
qed

lemma cursor_order:
  assumes "lf_CursorPaged f"
  shows "keyset (ordered_by Q f) en_ID"
proof (cases "lf_Sort f")
  case None
  then show ?thesis using by_time.keyset_axioms by (simp add: ordered_by_def)
next
  case (Some so)
  then have "ordered_by Q f = (\<lambda>a b. keyed_before (so_Desc so)
      (cell_key (sort_cell Q (lf_MatchPublished f) so a), en_ID a) (cell_key (sort_cell Q (lf_MatchPublished f) so b), en_ID b))"
    using assms by (simp add: ordered_by_def Let_def)
  then show ?thesis using by_value.keyset_axioms by simp
qed

lemma after_row:
  assumes "distinct (map en_ID rows)" and "lf_CursorPaged f"
    and "order_by (ordered_by Q f) rows = xs @ e # ys"
  shows "filter (ordered_by Q f e) (order_by (ordered_by Q f) rows) = ys"
proof -
  have "sorted_wrt (ordered_by Q f) (xs @ e # ys)"
    using keyset.sorted_order_by [OF cursor_order [OF assms(2)] assms(1), of Q] unfolding assms(3) .
  then show ?thesis unfolding assms(3) by (rule keyset.after_in_sorted [OF cursor_order [OF assms(2)]])
qed

lemma populate_nothing [simp]: "populateFor E sub db [] entries = Inr (\<lambda>_. None)"
  by (simp add: populateFor_def populateLevel.simps)

text \<open>The rows a delivery page shows, and whether there are more.\<close>

lemma page_found:
  assumes "matched Q f db = Inr ord" and "distinct (map en_ID (db_Entries db))" and "lf_CursorPaged f"
    and "lf_After f = None \<and> rest = ord \<or>
         (\<exists>c e xs. lf_After f = Some c \<and> after_condition Q f c = Inr (ordered_by Q f e) \<and> ord = xs @ e # rest)"
  shows "ListEntries_repo Q f db = Inr (take (page_limit (lf_Limit f)) rest, 0)"
proof -
  from assms(1) obtain cs rows where cs: "buildWhere Q f = Inr cs" "rows_where cs (db_Entries db) = Inr rows"
    "\<not> list_ex (bad_sort Q f) rows" "ord = order_by (ordered_by Q f) rows"
    by (auto simp: matched_def)
  have d: "distinct (map en_ID rows)" using rows_where_sublist [OF cs(2)] assms(2) distinct_map_filter by auto
  from assms(4) show ?thesis
  proof
    assume "lf_After f = None \<and> rest = ord"
    then show ?thesis using cs assms(3) by (simp add: ListEntries_repo_def Let_def require_def)
  next
    assume "\<exists>c e xs. lf_After f = Some c \<and> after_condition Q f c = Inr (ordered_by Q f e) \<and> ord = xs @ e # rest"
    then obtain c e xs where c: "lf_After f = Some c" "after_condition Q f c = Inr (ordered_by Q f e)"
      "ord = xs @ e # rest" by blast
    have "order_by (ordered_by Q f) (filter (ordered_by Q f e) rows) = rest"
      using keyset.filter_order_by [OF cursor_order [OF assms(3)] d] after_row [OF d assms(3)] cs(4) c(3) by metis
    then show ?thesis using cs c assms(3) by (simp add: ListEntries_repo_def Let_def require_def)
  qed
qed

fun page_through ::
    "nat \<Rightarrow> world \<Rightarrow> ('k::linorder, 'z) sql_scheme \<Rightarrow> subject option \<Rightarrow> string \<Rightarrow> list_input \<Rightarrow> entry_db \<Rightarrow> cursor_token \<Rightarrow>
     go_error + read_dto list" where
  "page_through 0 W Q ctx tn inp db tok = Inr []"
| "page_through (Suc n) W Q ctx tn inp db tok =
     and_then (fst (list_answer W Q ctx tn (inp\<lparr>li_Cursor := tok\<rparr>) db (\<lambda>_. 0))) (\<lambda>r.
     if lr_HasMore r = Some True
     then and_then (page_through n W Q ctx tn inp db (lr_NextCursor r)) (\<lambda>more. Inr (lr_Items r @ more))
     else Inr (lr_Items r))"

text \<open>The setting of a page-through: a delivery credential, no expansion, every row readable as a cursor.\<close>

definition pages_of ::
    "world \<Rightarrow> ('k::linorder, 'z) sql_scheme \<Rightarrow> subject option \<Rightarrow> string \<Rightarrow> list_input \<Rightarrow> entry_db \<Rightarrow> list_plan \<Rightarrow>
     entry_row list \<Rightarrow> bool" where
  "pages_of W Q ctx tn inp db p ord \<longleftrightarrow>
     list_plan_of W ctx tn (inp\<lparr>li_Cursor := NoCursor\<rparr>) db = Inr p \<and> audienceFor (lp_Sub p) = audienceDelivery \<and>
     lp_Specs p = [] \<and> window_ok audienceDelivery inp = Inr () \<and>
     distinct (map en_ID (db_Entries db)) \<and> matched Q (query_of p inp) db = Inr ord \<and>
     (\<forall>e \<in> set ord. uuid_parse (wd_env W) (en_ID e) = Some (en_ID e) \<and> text_range (en_CreatedAt e))"

definition resumes_at ::
    "world \<Rightarrow> ('k::linorder, 'z) sql_scheme \<Rightarrow> list_filter \<Rightarrow> sort_spec option \<Rightarrow> cursor_token \<Rightarrow> entry_row list \<Rightarrow>
     entry_row list \<Rightarrow> bool" where
  "resumes_at W Q f order tok ord rest \<longleftrightarrow>
     (tok = NoCursor \<and> rest = ord) \<or>
     (\<exists>c e xs. decodeCursor (wd_env W) tok order = Inr (Some c) \<and>
        after_condition Q f c = Inr (ordered_by Q f e) \<and> ord = xs @ e # rest)"

lemma window_cursor [simp]: "window_ok aud (inp\<lparr>li_Cursor := tok\<rparr>) = window_ok aud inp"
  by (simp add: window_ok_def)

lemma plan_order: "lf_Sort (query_of p inp) = lp_Sort p"
  by (simp add: query_of_def Let_def)

lemma page_answer:
  assumes pg: "pages_of W Q ctx tn inp db p ord" and "resumes_at W Q (query_of p inp) (lp_Sort p) tok ord rest"
    and lim: "list_limit (li_Limit inp) < 100"
  defines "l \<equiv> nat (list_limit (li_Limit inp))"
  shows "\<exists>r. fst (list_answer W Q ctx tn (inp\<lparr>li_Cursor := tok\<rparr>) db c) = Inr r \<and>
     lr_Items r = map (read_item (lp_Sub p) (tr_Type (lp_Type p)) (lp_Projection p) (\<lambda>_. None) db) (take l rest) \<and>
     lr_HasMore r = Some (l < length rest) \<and>
     (l < length rest \<longrightarrow> lr_NextCursor r = encodeCursor Q (last (take l rest)) (lp_Sort p) True)"
proof -
  let ?f = "query_of p inp"
  have aud: "audienceFor (lp_Sub p) = audienceDelivery" and nospec: "lp_Specs p = []" and win: "window_ok audienceDelivery inp = Inr ()"
    and plan0: "list_plan_of W ctx tn (inp\<lparr>li_Cursor := NoCursor\<rparr>) db = Inr p"
    using pg by (simp_all add: pages_of_def)
  have l1: "1 \<le> list_limit (li_Limit inp)" by (simp add: list_limit_def)
  obtain a where a: "decodeCursor (wd_env W) tok (lp_Sort p) = Inr a"
    "a = None \<and> rest = ord \<or> (\<exists>c e xs. a = Some c \<and> after_condition Q ?f c = Inr (ordered_by Q ?f e) \<and> ord = xs @ e # rest)"
    using assms(2) by (auto simp: resumes_at_def decodeCursor_def)
  note plan = plan_after [OF plan0 aud a(1)]
  let ?g = "?f\<lparr>lf_After := a\<rparr>"
  have g: "lf_CursorPaged ?g" "lf_Limit ?g = list_limit (li_Limit inp) + 1"
    using aud by (simp_all add: query_of_def Let_def)
  have "matched Q ?g db = Inr ord" using pg by (simp add: pages_of_def matched_def)
  then have found: "ListEntries_repo Q ?g db = Inr (take (page_limit (lf_Limit ?g)) rest, 0)"
    using pg a(2) g(1) by (intro page_found) (auto simp: pages_of_def)
  have "page_limit (lf_Limit ?g) = Suc l" using lim l1 g(2) by (simp add: page_limit_def l_def nat_add_distrib)
  then have found: "ListEntries_repo Q (query_of (p\<lparr>lp_After := a\<rparr>) (inp\<lparr>li_Cursor := tok\<rparr>)) db = Inr (take (Suc l) rest, 0)"
    using found aud by (simp add: query_after)
  have L: "list_limit (li_Limit inp) = int l" "1 \<le> l" using l1 unfolding l_def by auto
  show ?thesis
  proof (cases "l < length rest")
    case True
    then show ?thesis using plan win aud nospec found L
      by (auto simp: list_answer_def page_of_def Let_def)
  next
    case False
    then show ?thesis using plan win aud nospec found L
      by (auto simp: list_answer_def page_of_def Let_def)
  qed
qed

lemma page_through_rest:
  assumes "pages_of W Q ctx tn inp db p ord" and "resumes_at W Q (query_of p inp) (lp_Sort p) tok ord rest"
    and "length rest < n" and lim: "list_limit (li_Limit inp) < 100"
  shows "page_through n W Q ctx tn inp db tok =
     Inr (map (read_item (lp_Sub p) (tr_Type (lp_Type p)) (lp_Projection p) (\<lambda>_. None) db) rest)"
  using assms(2,3)
proof (induction n arbitrary: tok rest)
  case (Suc n)
  define l where "l = nat (list_limit (li_Limit inp))"
  have l: "1 \<le> l" by (auto simp: l_def list_limit_def)
  let ?f = "query_of p inp"
  obtain r where r: "fst (list_answer W Q ctx tn (inp\<lparr>li_Cursor := tok\<rparr>) db (\<lambda>_. 0)) = Inr r"
    "lr_Items r = map (read_item (lp_Sub p) (tr_Type (lp_Type p)) (lp_Projection p) (\<lambda>_. None) db) (take l rest)"
    "lr_HasMore r = Some (l < length rest)"
    "l < length rest \<longrightarrow> lr_NextCursor r = encodeCursor Q (last (take l rest)) (lp_Sort p) True"
    using page_answer [OF assms(1) Suc.prems(1) lim] unfolding l_def by blast
  show ?case
  proof (cases "l < length rest")
    case False
    then show ?thesis using r by simp
  next
    case True
    then have "take l rest \<noteq> []" using l by auto
    then obtain ys e where e: "take l rest = ys @ [e]" by (metis rev_exhaust)
    obtain zs where ord: "ord = zs @ e # drop l rest"
      using Suc.prems(1) e append_take_drop_id [of l rest] unfolding resumes_at_def
      by (metis append.assoc append_Cons append_Nil)
    have "e \<in> set ord" by (simp add: ord)
    then have e_ok: "uuid_parse (wd_env W) (en_ID e) = Some (en_ID e)" "text_range (en_CreatedAt e)" "\<not> bad_sort Q ?f e"
      using assms(1) by (auto simp: pages_of_def matched_def list_ex_iff)
    have f: "lf_CursorPaged ?f" "lf_MatchPublished ?f" using assms(1) by (simp_all add: pages_of_def query_of_def Let_def)
    obtain c past where c: "decodeCursor (wd_env W) (encodeCursor Q e (lf_Sort ?f) True) (lf_Sort ?f) = Inr (Some c)"
      "after_condition Q ?f c = Inr past" "past = ordered_by Q ?f e"
      by (rule cursor_window [OF e_ok(1,2) f e_ok(3)])
    then have "resumes_at W Q ?f (lp_Sort p) (lr_NextCursor r) ord (drop l rest)"
      using r(4) True e ord unfolding resumes_at_def by (auto simp: plan_order)
    then have "page_through n W Q ctx tn inp db (lr_NextCursor r) =
        Inr (map (read_item (lp_Sub p) (tr_Type (lp_Type p)) (lp_Projection p) (\<lambda>_. None) db) (drop l rest))"
      using Suc.prems(2) l True by (intro Suc.IH) auto
    then show ?thesis using r True by (simp flip: map_append)
  qed
qed simp

end
