(* ===== verification/Entry_Disclosure.thy ===== *)
theory Entry_Disclosure
  imports Entry_Pages
begin

text \<open>
  What a delivery credential can learn: its lists and reads are computed from what has been
  released, whatever they filter, sort, search and expand.
\<close>

section \<open>The released part of the tables\<close>

definition released_part :: "entry_row \<Rightarrow> entry_row" where
  "released_part e = e\<lparr>en_Payload := JNull, en_SearchText := [], en_Version := 0, en_CreatedBy := None, en_UpdatedBy := None,
     en_PublishedBy := None, en_CreatedByKind := [], en_CreatedByAgent := None, en_UpdatedByKind := None,
     en_UpdatedByAgent := None, en_UpdatedAt := 0\<rparr>"

definition released_db :: "entry_db \<Rightarrow> entry_db" where
  "released_db db =
     \<lparr>db_Types = db_Types db, db_Entries = map released_part (filter IsPublished (db_Entries db)),
      db_Revisions = [], db_Releases = [], db_Schedules = [], db_Decisions = [], db_Assets = [], db_Media = [],
      db_MediaPublished = [], db_Relations = [], db_RelationsPublished = [], db_Unique = [], db_Idempotency = [],
      db_Outbox = None, db_Activity = [], db_Notices = None\<rparr>"

lemma released_simps [simp]:
  "en_ID (released_part e) = en_ID e" "en_TenantID (released_part e) = en_TenantID e"
  "en_ContentTypeID (released_part e) = en_ContentTypeID e" "en_Status (released_part e) = en_Status e"
  "en_PublishedPayload (released_part e) = en_PublishedPayload e"
  "en_PublishedSearchText (released_part e) = en_PublishedSearchText e" "en_Locale (released_part e) = en_Locale e"
  "en_TranslationGroupID (released_part e) = en_TranslationGroupID e"
  "en_CreatedAt (released_part e) = en_CreatedAt e" "en_PublishedAt (released_part e) = en_PublishedAt e"
  "en_PublishedVersion (released_part e) = en_PublishedVersion e"
  "IsPublished (released_part e) = IsPublished e" "PublishedPayload (released_part e) = PublishedPayload e"
  "PublishedVersion (released_part e) = PublishedVersion e"
  by (simp_all add: released_part_def IsPublished_def PublishedPayload_def PublishedVersion_def)

lemma released_db_simps [simp]:
  "db_Types (released_db db) = db_Types db"
  "db_Entries (released_db db) = map released_part (filter IsPublished (db_Entries db))"
  by (simp_all add: released_db_def)

lemma released_types [simp]: "TypeByName tenant name (released_db db) = TypeByName tenant name db"
  by (simp add: TypeByName_def)

lemma released_project:
  assumes "audienceFor sub = audienceDelivery"
  shows "ProjectEntry ct (released_part e) sub = ProjectEntry ct e sub"
  using assms by (simp add: ProjectEntry_def shared_literal_def on_wire_def)

lemma delivery_unconfined:
  assumes "audienceFor sub = audienceDelivery"
  shows "confinedAuthor ct sub = None" "guardOwned ct sub a = None" "PublicDelivery sub"
  using assms audienceFor_cases(2) [of sub] by (simp_all add: confinedAuthor_def guardOwned_def)

section \<open>The list query\<close>

lemma rows_where_map:
  assumes "\<forall>c \<in> set cs. \<forall>e. c (g e) = c e"
  shows "rows_where cs (map g rows) = map_sum (\<lambda>err. err) (map g) (rows_where cs rows)"
  using assms
proof (induction cs arbitrary: rows)
  case (Cons c cs)
  then have "filter (\<lambda>e. c e = SqlTrue) (map g rows) = map g (filter (\<lambda>e. c e = SqlTrue) rows)"
    by (simp add: filter_map comp_def)
  then show ?case using Cons by (simp add: list_ex_iff)
qed simp

lemma truth_of_simps [simp]: "truth_of b = SqlTrue \<longleftrightarrow> b" "truth_of b \<noteq> SqlFails"
  by (simp_all add: truth_of_def)

definition delivery_query :: "list_filter \<Rightarrow> bool" where
  "delivery_query f \<longleftrightarrow> lf_MatchPublished f \<and> lf_Status f = StatusPublished \<and> lf_CursorPaged f \<and> lf_CreatedBy f = None"

lemma delivery_conditions:
  assumes "delivery_query f" and "buildWhere Q f = Inr cs"
  obtains cs' where "cs = (\<lambda>e. truth_of (en_TenantID e = lf_TenantID f)) # (\<lambda>e. truth_of (en_ContentTypeID e = lf_ContentTypeID f)) #
      (\<lambda>e. truth_of (en_Status e = lf_Status f)) # cs'"
    and "\<forall>c \<in> set cs'. \<forall>e. c (released_part e) = c e"
proof -
  from assms(2) obtain fs where cs: "cs = column_conditions Q f @ fs"
    and fs: "collect_all (\<lambda>flt. and_then (filter_condition Q flt)
        (\<lambda>c. Inr [\<lambda>e. c (column (lf_MatchPublished f) e)])) (lf_Filters f) = Inr fs"
    by (auto simp: buildWhere_def)
  have fs_inv: "c (released_part e) = c e" if "c \<in> set fs" for c e
    using collect_all_Inr [OF fs] that assms(1) by (fastforce simp: column_def delivery_query_def)
  let ?rest = "(if lf_Locale f = [] then [] else [\<lambda>e. truth_of (en_Locale e = lf_Locale f)]) @
     (if lf_TranslationGroupID f = uuid_Nil then []
      else [\<lambda>e. truth_of (en_TranslationGroupID e = lf_TranslationGroupID f)]) @
     map (\<lambda>term' e. truth_of (sq_ilike Q (search_column (lf_MatchPublished f) e) (''%'' @ likeEscape term' @ ''%'')))
       (Fields_of (lf_Query f)) @ fs"
  show thesis
  proof (rule that)
    show "cs = (\<lambda>e. truth_of (en_TenantID e = lf_TenantID f)) # (\<lambda>e. truth_of (en_ContentTypeID e = lf_ContentTypeID f)) #
        (\<lambda>e. truth_of (en_Status e = lf_Status f)) # ?rest"
      using assms(1) by (simp add: cs column_conditions_def delivery_query_def StatusPublished_def)
    show "\<forall>c \<in> set ?rest. \<forall>e. c (released_part e) = c e"
      using fs_inv assms(1) by (auto simp: search_column_def delivery_query_def)
  qed
qed

lemma rows_where_three:
  "rows_where ((\<lambda>e. truth_of (P e)) # (\<lambda>e. truth_of (Q e)) # (\<lambda>e. truth_of (R e)) # cs) rows =
     rows_where cs (filter R (filter Q (filter P rows)))"
  by (simp add: list_ex_iff)

lemma delivery_rows:
  assumes "delivery_query f" and "buildWhere Q f = Inr cs"
  shows "rows_where cs (db_Entries (released_db db)) = map_sum (\<lambda>err. err) (map released_part) (rows_where cs (db_Entries db))"
proof -
  obtain cs' where cs: "cs = (\<lambda>e. truth_of (en_TenantID e = lf_TenantID f)) #
      (\<lambda>e. truth_of (en_ContentTypeID e = lf_ContentTypeID f)) # (\<lambda>e. truth_of (en_Status e = lf_Status f)) # cs'"
    and inv: "\<forall>c \<in> set cs'. \<forall>e. c (released_part e) = c e"
    using delivery_conditions [OF assms] by blast
  have st: "lf_Status f = StatusPublished" using assms(1) by (simp add: delivery_query_def)
  let ?K = "\<lambda>rows. filter (\<lambda>e. en_Status e = lf_Status f) (filter (\<lambda>e. en_ContentTypeID e = lf_ContentTypeID f)
      (filter (\<lambda>e. en_TenantID e = lf_TenantID f) rows))"
  have "?K (db_Entries (released_db db)) = map released_part (?K (db_Entries db))"
    by (simp add: filter_map comp_def filter_filter st IsPublished_def conj_commute conj_left_commute cong: conj_cong)
  then show ?thesis unfolding cs rows_where_three using rows_where_map [OF inv] by simp
qed

lemma sort_cell_released [simp]: "sort_cell Q True so (released_part e) = sort_cell Q True so e"
  by (simp add: sort_cell_def column_def)

lemma insert_before_map:
  assumes "\<And>a b. before (g a) (g b) = before a b"
  shows "insert_before before (g x) (map g xs) = map g (insert_before before x xs)"
  by (induction xs) (simp_all add: assms)

lemma order_by_map:
  assumes "\<And>a b. before (g a) (g b) = before a b"
  shows "order_by before (map g xs) = map g (order_by before xs)"
  unfolding order_by_def by (induction xs) (simp_all add: insert_before_map [of before g, OF assms])

lemma delivery_order:
  assumes "delivery_query f"
  shows "ordered_by Q f (released_part a) (released_part b) = ordered_by Q f a b"
    and "bad_sort Q f (released_part a) = bad_sort Q f a"
  using assms by (simp_all add: ordered_by_def bad_sort_def newer_def delivery_query_def Let_def split: option.split)

lemma delivery_past:
  assumes "delivery_query f" and "after_condition Q f c = Inr past"
  shows "past (released_part e) = past e"
  using assms
  by (auto simp: after_condition_def delivery_query_def Let_def split: option.splits)

lemma delivery_list_query:
  assumes "delivery_query f"
  shows "ListEntries_repo Q f (released_db db) =
     map_sum (\<lambda>err. err) (\<lambda>(rows, n). (map released_part rows, n)) (ListEntries_repo Q f db)"
proof (cases "buildWhere Q f")
  case (Inr cs)
  let ?window = "case lf_After f of Some c \<Rightarrow> if lf_CursorPaged f then after_condition Q f c else Inr (\<lambda>_. True)
      | None \<Rightarrow> Inr (\<lambda>_. True)"
  note rows = delivery_rows [OF assms Inr, of db]
  have past: "past (released_part e) = past e" if "?window = Inr past" for past e
    using that delivery_past [OF assms] assms by (auto simp: delivery_query_def split: option.splits)
  have cp: "lf_CursorPaged f" using assms by (simp add: delivery_query_def)
  show ?thesis
  proof (cases ?window)
    case w: (Inr past)
    show ?thesis
    proof (cases "rows_where cs (db_Entries db)")
      case r: (Inr xs)
      have "order_by (ordered_by Q f) (filter past (map released_part xs)) =
          map released_part (order_by (ordered_by Q f) (filter past xs))"
        using order_by_map [of "ordered_by Q f" released_part, OF delivery_order(1) [OF assms]] past [OF w]
        by (simp add: filter_map comp_def)
      moreover have "list_ex (bad_sort Q f) (map released_part xs) = list_ex (bad_sort Q f) xs"
        using delivery_order(2) [OF assms, of Q] by (simp add: list_ex_iff)
      ultimately show ?thesis using rows r w Inr cp
        by (simp add: ListEntries_repo_def Let_def take_map require_def del: released_db_simps)
    qed (use rows Inr w in \<open>simp add: ListEntries_repo_def del: released_db_simps\<close>)
  qed (use Inr in \<open>simp add: ListEntries_repo_def\<close>)
qed (simp add: ListEntries_repo_def)

section \<open>Expansion\<close>

lemma released_by_ids:
  "GetEntriesByIDs tenant ids True (released_db db) = map released_part (GetEntriesByIDs tenant ids True db)"
  by (simp add: GetEntriesByIDs_def filter_map comp_def filter_filter IsPublished_def conj_commute conj_left_commute
      cong: conj_cong)

lemma released_wanted:
  assumes "audienceFor sub = audienceDelivery"
  shows "wanted E (audienceFor sub) (released_part e) f = wanted E (audienceFor sub) e f"
  by (simp add: wanted_def populateSourcePayload_def assms)

lemma find_map_released: "find (\<lambda>r. en_ID r = i) (map released_part rows) = map_option released_part (find (\<lambda>r. en_ID r = i) rows)"
  by (induction rows) auto

lemma released_shown:
  assumes "audienceFor sub = audienceDelivery"
  shows "shown sub t (map released_part rows) ids = map released_part (shown sub t rows ids)"
proof -
  have "List.map_filter (\<lambda>i. find (\<lambda>r. en_ID r = i) (map released_part rows)) ids =
      map released_part (List.map_filter (\<lambda>i. find (\<lambda>r. en_ID r = i) rows) ids)"
    by (induction ids) (auto simp: find_map_released List.map_filter_simps split: option.split)
  then show ?thesis by (simp add: shown_def filter_map comp_def delivery_unconfined [OF assms])
qed

lemma first_by_id_map: "first_by_id seen (map released_part rows) = map released_part (first_by_id seen rows)"
  by (induction rows arbitrary: seen) auto

lemma released_to_expand: "to_expand path cs (map released_part rows) = map released_part (to_expand path cs rows)"
  by (simp add: to_expand_def first_by_id_map filter_map comp_def)

lemma released_field_values:
  assumes "audienceFor sub = audienceDelivery"
  shows "field_values E sub f t (map released_part entries) (map released_part rows) nested =
     field_values E sub f t entries rows nested"
proof
  fix i
  show "field_values E sub f t (map released_part entries) (map released_part rows) nested i =
     field_values E sub f t entries rows nested i"
    by (simp add: field_values_def filter_map comp_def released_shown [OF assms] released_wanted [OF assms]
        released_project [OF assms] map_concat)
qed

lemma released_expansion:
  "audienceFor sub = audienceDelivery \<Longrightarrow>
     populateLevel E sub (released_db db) specs (map released_part entries) anc seen =
     populateLevel E sub db specs entries anc seen"
  "audienceFor sub = audienceDelivery \<Longrightarrow>
     populate_fields E sub (released_db db) (map released_part entries) (map released_part rows) path specs seen =
     populate_fields E sub db entries rows path specs seen"
proof (induction E sub db specs entries anc seen and E sub db entries rows path specs seen
    rule: populateLevel_populate_fields.induct)
  case (1 E sub db specs entries anc seen)
  let ?new = "remdups (concat (map (\<lambda>e. concat (map (\<lambda>n. wanted E (audienceFor sub) e (node_field n)) specs)) entries))"
  show ?case
  proof (cases "specs = [] \<or> entries = []")
    case False
    have rows: "GetEntriesByIDs (TenantID sub) ?new (audienceFor sub = audienceDelivery) (released_db db) =
        map released_part (GetEntriesByIDs (TenantID sub) ?new (audienceFor sub = audienceDelivery) db)"
      using released_by_ids 1(2) by simp
    have by_entry: "by_entry (map released_part entries) pf = by_entry entries pf" for pf
      by (simp add: by_entry_def fun_eq_iff image_image)
    show ?thesis
    proof (cases "budget_add ?new seen")
      case (Inr seen')
      from 1(1) [OF False refl refl Inr 1(2)] show ?thesis
        using False Inr rows by (simp add: populateLevel.simps by_entry comp_def Let_def released_wanted [OF 1(2)] split: sum.split)
    qed (use False in \<open>simp add: populateLevel.simps comp_def Let_def released_wanted [OF 1(2)]\<close>)
  qed (auto simp: populateLevel.simps)
next
  case (3 E sub db entries rows path f t cs ns seen)
  let ?hits = "concat (map (\<lambda>e. shown sub t rows (wanted E (audienceFor sub) e f)) entries)"
  have hits: "concat (map (\<lambda>e. shown sub t (map released_part rows) (wanted E (audienceFor sub) e f)) (map released_part entries)) =
      map released_part ?hits"
    by (simp add: map_concat comp_def released_wanted [OF 3(3)] released_shown [OF 3(3)])
  note level = 3(1) [OF refl 3(3)]
  show ?case
  proof (cases "populateLevel E sub db cs (to_expand path cs ?hits) path seen")
    case (Inl err)
    then show ?thesis using level unfolding populate_fields.simps Let_def hits released_to_expand by simp
  next
    case (Inr res)
    obtain nested seen' where res: "res = (nested, seen')" by fastforce
    show ?thesis
      using level 3(2) [OF refl Inr res [symmetric] 3(3)] unfolding populate_fields.simps Let_def hits released_to_expand Inr res
      by (simp add: released_field_values [OF 3(3)] split: sum.split prod.split)
  qed
qed simp_all

lemma released_populate:
  assumes "audienceFor sub = audienceDelivery"
  shows "populateFor E sub (released_db db) specs (map released_part entries) = populateFor E sub db specs entries"
  by (simp add: populateFor_def released_expansion(1) [OF assms])

lemma released_resolve: "resolve_new sub (released_db db) ct key seg = resolve_new sub db ct key seg"
  by (auto simp: resolve_new_def split: option.split)

lemma released_add_path: "add_path sub (released_db db) key segs ct ns = add_path sub db key segs ct ns"
  by (induction sub db key segs ct ns rule: add_path.induct)
    (auto simp: Let_def released_resolve and_then_def split: option.split sum.split)

lemma released_parse: "parse_paths sub (released_db db) ct raws roots = parse_paths sub db ct raws roots"
  by (induction raws arbitrary: roots) (auto simp: Let_def released_add_path and_then_def split: sum.split)

section \<open>The reads\<close>

lemma released_list_plan: "list_plan_of W ctx tn inp (released_db db) = list_plan_of W ctx tn inp db"
  by (simp add: list_plan_of_def parsePopulate_def released_parse)

lemma released_item:
  assumes "audienceFor sub = audienceDelivery"
  shows "read_item sub ct ps related (released_db db) (released_part e) = read_item sub ct ps related db e"
  using delivery_unconfined(3) [OF assms]
  by (simp add: read_item_def decorateWithReviewDecision_def decorateWithSchedule_def released_project [OF assms])

lemma released_cursor: "encodeCursor Q (released_part e) order True = encodeCursor Q e order True"
  by (simp add: encodeCursor_def Let_def split: option.split)

lemma released_page:
  assumes "audienceFor (lp_Sub p) = audienceDelivery"
  shows "page_of E Q p inp (map released_part rows) n (released_db db) = page_of E Q p inp rows n db"
proof -
  define rows' where "rows' = (if list_limit (li_Limit inp) < int (length rows) then take (nat (list_limit (li_Limit inp))) rows else rows)"
  have "(if list_limit (li_Limit inp) < int (length rows)
      then take (nat (list_limit (li_Limit inp))) (map released_part rows) else map released_part rows) = map released_part rows'"
    by (simp add: rows'_def take_map)
  moreover have "list_limit (li_Limit inp) < int (length rows) \<Longrightarrow> take (nat (list_limit (li_Limit inp))) rows = rows'"
    by (simp add: rows'_def)
  ultimately show ?thesis
    using assms unfolding page_of_def Let_def
    by (cases "populateFor E (lp_Sub p) db (lp_Specs p) rows'")
      (auto simp: rows'_def [symmetric] released_populate released_item released_cursor last_map)
qed

lemma authorize_subject: "authorize allow (Some sub) action r ct = Inr s \<Longrightarrow> s = sub"
  by (simp add: authorize_def authorize_Inr)

lemma plan_subject: "list_plan_of W (Some sub) tn inp db = Inr p \<Longrightarrow> lp_Sub p = sub"
  by (auto simp: list_plan_of_def dest: authorize_subject)

lemma released_list:
  assumes "audienceFor sub = audienceDelivery"
  shows "list_answer W Q (Some sub) tn inp (released_db db) c = list_answer W Q (Some sub) tn inp db c"
proof (cases "list_plan_of W (Some sub) tn inp db")
  case (Inr p)
  then have p: "audienceFor (lp_Sub p) = audienceDelivery" using plan_subject assms by blast
  have q: "delivery_query (query_of p inp)"
    using p delivery_unconfined(1) [OF p] by (simp add: delivery_query_def query_of_def Let_def)
  show ?thesis
  proof (cases "ListEntries_repo Q (query_of p inp) db")
    case l: (Inr res)
    obtain rows n where "res = (rows, n)" by fastforce
    then show ?thesis
      using Inr l delivery_list_query [OF q, of Q db]
      by (simp add: list_answer_def released_list_plan released_page [OF p] split: sum.split)
  qed (use Inr in \<open>simp add: list_answer_def released_list_plan delivery_list_query [OF q] split: sum.split\<close>)
qed (simp add: list_answer_def released_list_plan)

lemma find_released:
  assumes "distinct (map en_ID rows)"
  shows "find (row_at tenant ct i) (map released_part (filter IsPublished rows)) =
    (case find (row_at tenant ct i) rows of
       None \<Rightarrow> None | Some e \<Rightarrow> if IsPublished e then Some (released_part e) else None)"
  using assms
proof (induction rows)
  case (Cons e rows)
  have other: "find (row_at tenant ct i) rows = None" if "row_at tenant ct i e"
    using that Cons.prems unfolding find_None_iff row_at_def by (metis distinct.simps(2) image_eqI list.set_map list.simps(9))
  have same: "row_at tenant ct i (released_part e) = row_at tenant ct i e" by (simp add: row_at_def)
  show ?case using Cons other by (auto simp: same)
qed simp

lemma released_entry:
  assumes "distinct (map en_ID (db_Entries db))"
  shows "GetEntry_repo tenant ct i (released_db db) =
    and_then (GetEntry_repo tenant ct i db) (\<lambda>e. if IsPublished e then Inr (released_part e) else Inl entry_not_found)"
  using find_released [OF assms, of tenant ct i]
  by (simp add: GetEntry_repo_def find_entry_def split: option.split)

lemma released_get_item:
  assumes "audienceFor sub = audienceDelivery"
  shows "get_item E sub t specs (released_part e) (released_db db) = get_item E sub t specs e db"
proof -
  have "PublicDelivery sub" "PreviewEntryID sub = None" using assms audienceFor_cases(2) by auto
  then show ?thesis
    using released_populate [OF assms, of E db specs "[e]"] by (simp add: get_item_def released_project [OF assms])
qed

lemma and_then_assoc: "and_then (and_then m f) g = and_then m (\<lambda>x. and_then (f x) g)"
  by (cases m) simp_all

lemma app_None: "app None = Inr ()"
  by (simp add: app_def refuse_if_def)

lemma released_get_plan:
  assumes "audienceFor sub = audienceDelivery" and "distinct (map en_ID (db_Entries db))"
  shows "get_plan W (Some sub) tn i populate (released_db db) =
    and_then (get_plan W (Some sub) tn i populate db) (\<lambda>(s, t, specs, e).
      if IsPublished e then Inr (s, t, specs, released_part e) else Inl entry_not_found)"
proof (cases "authorize (wd_allow W) (Some sub) ''content:read'' i tn")
  case (Inr s)
  then have "s = sub" by (rule authorize_subject)
  then show ?thesis
    using Inr unfolding get_plan_def
    by (simp add: and_then_assoc parsePopulate_def released_parse released_entry [OF assms(2)] delivery_unconfined [OF assms(1)]
        app_None if_distrib [of "\<lambda>m. and_then m f" for f] cong: if_cong)
qed (simp add: get_plan_def)

lemma get_plan_subject: "get_plan W (Some sub) tn i populate db = Inr (s, t, specs, e) \<Longrightarrow> s = sub"
  by (auto simp: get_plan_def dest: authorize_subject)

lemma released_get:
  assumes "audienceFor sub = audienceDelivery" and "distinct (map en_ID (db_Entries db))"
  shows "get_answer W (Some sub) tn i populate (released_db db) c = get_answer W (Some sub) tn i populate db c"
proof -
  have d: "PublicDelivery sub" "PreviewEntryID sub = None" using assms(1) audienceFor_cases(2) by auto
  show ?thesis
  proof (cases "get_plan W (Some sub) tn i populate db")
    case (Inr r)
    obtain s t specs e where r: "r = (s, t, specs, e)" by (cases r) auto
    have "s = sub" using Inr unfolding r by (rule get_plan_subject)
    then show ?thesis using Inr d
      by (simp add: get_answer_def released_get_plan [OF assms] r delivery_gate_def released_get_item [OF assms(1)])
  qed (simp add: get_answer_def released_get_plan [OF assms])
qed

end
