(* ===== verification/Entry_Expansion.thy ===== *)
theory Entry_Expansion
  imports Entry_Disclosure
begin

text \<open>
  What an expansion shows and how large it gets: the bound on depth that the paths carry into
  the forest, the budget of targets, and for every entry shown the row, the type and the
  permissions it was shown under.
\<close>

section \<open>Entries inside an expansion\<close>

inductive dto_at :: "nat \<Rightarrow> unit entry_dto \<Rightarrow> related_entries \<Rightarrow> bool" where
  here: "(d, n) \<in> set items \<Longrightarrow> dto_at (Suc 0) d (RelatedEntries m items)"
| below: "(d', Some xs) \<in> set items \<Longrightarrow> (k, r) \<in> set xs \<Longrightarrow> dto_at l d r \<Longrightarrow>
    dto_at (Suc l) d (RelatedEntries m items)"

inductive_cases dto_at_cases: "dto_at l d (RelatedEntries m items)"

lemma dto_at_iff:
  "dto_at l d (RelatedEntries m items) \<longleftrightarrow>
     (l = Suc 0 \<and> (\<exists>n. (d, n) \<in> set items)) \<or>
     (\<exists>l' d' xs k r. l = Suc l' \<and> (d', Some xs) \<in> set items \<and> (k, r) \<in> set xs \<and> dto_at l' d r)"
  by (auto elim!: dto_at_cases intro: dto_at.intros)

section \<open>The forest of a request\<close>

fun nodes_depth :: "populate_node list \<Rightarrow> nat" where
  "nodes_depth [] = 0"
| "nodes_depth (Node f t cs # ns) = max (Suc (nodes_depth cs)) (nodes_depth ns)"

definition target_ok :: "subject \<Rightarrow> entry_db \<Rightarrow> field \<Rightarrow> type_record \<Rightarrow> bool" where
  "target_ok sub db f t \<longleftrightarrow>
     Type f = FieldTypeRelation \<and> canReadField f sub \<and> t \<in> set (db_Types db) \<and> tr_TenantID t = TenantID sub \<and>
     ct_Name (tr_Type t) = f_RelationEntity (attrs f) \<and> guardTypeRead (tr_Type t) sub = None"

fun nodes_ok :: "subject \<Rightarrow> entry_db \<Rightarrow> populate_node list \<Rightarrow> bool" where
  "nodes_ok sub db [] = True"
| "nodes_ok sub db (Node f t cs # ns) \<longleftrightarrow> target_ok sub db f t \<and> nodes_ok sub db cs \<and> nodes_ok sub db ns"

lemma nodes_depth_bound: "nodes_depth ns \<le> d \<longleftrightarrow> (\<forall>n \<in> set ns. Suc (nodes_depth (node_children n)) \<le> d)"
  by (induction ns rule: nodes_depth.induct) auto

lemma nodes_ok_all:
  "nodes_ok sub db ns \<longleftrightarrow> (\<forall>n \<in> set ns. target_ok sub db (node_field n) (node_target n) \<and> nodes_ok sub db (node_children n))"
  by (induction ns rule: nodes_depth.induct) auto

lemma nodes_append:
  "nodes_depth (ns @ ms) = max (nodes_depth ns) (nodes_depth ms)"
  "nodes_ok sub db (ns @ ms) \<longleftrightarrow> nodes_ok sub db ns \<and> nodes_ok sub db ms"
  by (induction ns rule: nodes_depth.induct) auto

lemma resolve_new_ok: "resolve_new sub db ct key seg = Inr (f, t) \<Longrightarrow> target_ok sub db f t"
  by (auto simp: resolve_new_def target_ok_def TypeByName_def app_def and_then_def refuse_if_def find_Some_iff
      split: option.splits if_splits sum.splits)

lemma node_at_in: "node_at seg ns = Some n \<Longrightarrow> n \<in> set ns \<and> Key (node_field n) = seg"
  by (auto simp: node_at_def find_Some_iff)

lemma add_path_forest:
  "add_path sub db key segs ct ns = Inr ns' \<Longrightarrow> nodes_ok sub db ns \<Longrightarrow>
     nodes_ok sub db ns' \<and> nodes_depth ns' \<le> max (nodes_depth ns) (length segs)"
proof (induction sub db key segs ct ns arbitrary: ns' rule: add_path.induct)
  case (2 sub db key raw segs ct ns)
  let ?seg = "TrimSpace raw"
  show ?case
  proof (cases "node_at ?seg ns")
    case None
    then obtain f t cs where r: "resolve_new sub db ct key ?seg = Inr (f, t)"
      "add_path sub db key segs (tr_Type t) [] = Inr cs" "ns' = ns @ [Node f t cs]"
      using 2(3) by (auto simp: Let_def)
    then have "nodes_ok sub db cs \<and> nodes_depth cs \<le> length segs" using 2(1) [OF refl None] by simp
    then show ?thesis using r(3) 2(4) resolve_new_ok [OF r(1)] by (auto simp: nodes_append)
  next
    case (Some n)
    then obtain cs where c: "add_path sub db key segs (tr_Type (node_target n)) (node_children n) = Inr cs"
      "ns' = map (\<lambda>m. if Key (node_field m) = ?seg then Node (node_field m) (node_target m) cs else m) ns"
      using 2(3) by (auto simp: Let_def)
    have n: "n \<in> set ns" using node_at_in [OF Some] by simp
    then have "nodes_ok sub db cs \<and> nodes_depth cs \<le> max (nodes_depth (node_children n)) (length segs)"
      using 2(2) [OF refl Some c(1)] 2(4) by (auto simp: nodes_ok_all [of sub db ns])
    moreover have "Suc (nodes_depth (node_children n)) \<le> nodes_depth ns"
      using n nodes_depth_bound [of ns "nodes_depth ns"] by auto
    moreover have "\<forall>m \<in> set ns. Suc (nodes_depth (node_children m)) \<le> nodes_depth ns"
      using nodes_depth_bound [of ns "nodes_depth ns"] by auto
    ultimately have "\<forall>m \<in> set ns'. target_ok sub db (node_field m) (node_target m) \<and> nodes_ok sub db (node_children m) \<and>
        Suc (nodes_depth (node_children m)) \<le> max (nodes_depth ns) (Suc (length segs))"
      using 2(4) unfolding c(2) nodes_ok_all [of sub db ns] by (auto simp: le_max_iff_disj)
    then show ?thesis using nodes_depth_bound [of ns'] nodes_ok_all [of sub db ns'] by auto
  qed
qed simp

lemma parse_paths_forest:
  "parse_paths sub db ct raws roots = Inr ns \<Longrightarrow> nodes_ok sub db roots \<Longrightarrow> nodes_depth roots \<le> maxPopulateDepth \<Longrightarrow>
     nodes_ok sub db ns \<and> nodes_depth ns \<le> maxPopulateDepth"
proof (induction raws arbitrary: roots)
  case (Cons raw raws)
  then show ?case using add_path_forest [of sub db] by (fastforce simp: Let_def split: if_splits)
qed simp

section \<open>What is shown\<close>

definition may_show :: "subject \<Rightarrow> entry_db \<Rightarrow> unit entry_dto \<Rightarrow> bool" where
  "may_show sub db d \<longleftrightarrow>
     (\<exists>r t. r \<in> set (db_Entries db) \<and> en_TenantID r = TenantID sub \<and> t \<in> set (db_Types db) \<and>
        tr_TenantID t = TenantID sub \<and> en_ContentTypeID r = tr_ID t \<and> guardTypeRead (tr_Type t) sub = None \<and>
        guardOwned (tr_Type t) sub (en_CreatedBy r) = None \<and>
        (audienceFor sub = audienceDelivery \<longrightarrow> IsPublished r) \<and> d = ProjectEntry (tr_Type t) r sub)"

definition dto_id :: "unit entry_dto \<Rightarrow> uuid" where
  "dto_id d = w_ID (dto_wire d)"

lemma dto_id_project [simp]: "dto_id (ProjectEntry ct e sub) = en_ID e"
  by (simp add: dto_id_def ProjectEntry_def shared_literal_def on_wire_def Let_def split: audience.split)

definition sound_value :: "subject \<Rightarrow> entry_db \<Rightarrow> nat \<Rightarrow> uuid list \<Rightarrow> related_entries \<Rightarrow> bool" where
  "sound_value sub db depth seen r \<longleftrightarrow>
     (\<forall>l d. dto_at l d r \<longrightarrow> l \<le> depth \<and> may_show sub db d \<and> dto_id d \<in> set seen)"

definition sound_rows :: "subject \<Rightarrow> entry_db \<Rightarrow> uuid list \<Rightarrow> entry_row list \<Rightarrow> bool" where
  "sound_rows sub db seen rows \<longleftrightarrow>
     (\<forall>r \<in> set rows. r \<in> set (db_Entries db) \<and> en_TenantID r = TenantID sub \<and> en_ID r \<in> set seen \<and>
        (audienceFor sub = audienceDelivery \<longrightarrow> IsPublished r))"

lemma sound_value_mono:
  "sound_value sub db k seen r \<Longrightarrow> k \<le> k' \<Longrightarrow> set seen \<subseteq> set seen' \<Longrightarrow> sound_value sub db k' seen' r"
  unfolding sound_value_def by (meson order_trans subsetD)

lemma sound_rows_mono: "sound_rows sub db seen rows \<Longrightarrow> set seen \<subseteq> set seen' \<Longrightarrow> sound_rows sub db seen' rows"
  unfolding sound_rows_def by blast

lemma in_map_filter: "y \<in> set (List.map_filter f xs) \<longleftrightarrow> (\<exists>x \<in> set xs. f x = Some y)"
  by (induction xs) (auto simp: List.map_filter_simps split: option.splits)

lemma shown_in: "r \<in> set (shown sub t rows ids) \<Longrightarrow>
    r \<in> set rows \<and> en_ContentTypeID r = tr_ID t \<and> guardOwned (tr_Type t) sub (en_CreatedBy r) = None"
  unfolding shown_def by (auto simp: in_map_filter find_Some_iff)

lemma sound_field:
  assumes "target_ok sub db f t" and "sound_rows sub db seen rows"
    and "\<And>i xs k r. nested i = Some xs \<Longrightarrow> (k, r) \<in> set xs \<Longrightarrow> sound_value sub db depth seen r"
  shows "sound_value sub db (Suc depth) seen (field_values E sub f t entries rows nested i)"
  unfolding sound_value_def
proof (intro allI impI)
  fix l d
  let ?items = "map (\<lambda>r. (ProjectEntry (tr_Type t) r sub, nested (en_ID r)))
      (concat (map (\<lambda>e. shown sub t rows (wanted E (audienceFor sub) e f)) (filter (\<lambda>e. en_ID e = i) entries)))"
  have item: "\<exists>r \<in> set rows. en_ContentTypeID r = tr_ID t \<and> guardOwned (tr_Type t) sub (en_CreatedBy r) = None \<and>
      x = ProjectEntry (tr_Type t) r sub \<and> n = nested (en_ID r)" if "(x, n) \<in> set ?items" for x n
    using that shown_in by fastforce
  assume "dto_at l d (field_values E sub f t entries rows nested i)"
  then show "l \<le> Suc depth \<and> may_show sub db d \<and> dto_id d \<in> set seen"
    unfolding field_values_def
  proof (cases rule: dto_at.cases)
    case (here n)
    then obtain r where "r \<in> set rows" "en_ContentTypeID r = tr_ID t"
      "guardOwned (tr_Type t) sub (en_CreatedBy r) = None" "d = ProjectEntry (tr_Type t) r sub" using item by blast
    then show ?thesis using assms(1,2) here(1) unfolding may_show_def target_ok_def sound_rows_def by auto
  next
    case (below d' xs k r l')
    from item [OF below(2)] obtain r' :: entry_row where "nested (en_ID r') = Some xs" by metis
    then show ?thesis using assms(3) below unfolding sound_value_def by blast
  qed
qed

lemma budget_add_ok:
  "budget_add ids seen = Inr seen' \<Longrightarrow> set seen' = set ids \<union> set seen \<and> length seen' \<le> maxPopulateIDs \<and> distinct seen'"
  by (auto simp: budget_add_def Let_def split: if_splits)

lemma fetched_sound:
  "set ids \<subseteq> set seen \<Longrightarrow> sound_rows sub db seen (GetEntriesByIDs (TenantID sub) ids (audienceFor sub = audienceDelivery) db)"
  by (auto simp: sound_rows_def GetEntriesByIDs_def IsPublished_def)

text \<open>One level, and the fields of a level, by the recursion the code runs.\<close>

lemma expansion_sound:
  "populateLevel E sub db specs entries anc seen = Inr (g, seen') \<Longrightarrow> nodes_ok sub db specs \<Longrightarrow>
     length seen \<le> maxPopulateIDs \<Longrightarrow>
     set seen \<subseteq> set seen' \<and> length seen' \<le> maxPopulateIDs \<and>
     (\<forall>i xs k r. g i = Some xs \<longrightarrow> (k, r) \<in> set xs \<longrightarrow> sound_value sub db (nodes_depth specs) seen' r)"
  "populate_fields E sub db entries rows path specs seen = Inr (pf, seen') \<Longrightarrow> nodes_ok sub db specs \<Longrightarrow>
     length seen \<le> maxPopulateIDs \<Longrightarrow> sound_rows sub db seen rows \<Longrightarrow>
     set seen \<subseteq> set seen' \<and> length seen' \<le> maxPopulateIDs \<and>
     (\<forall>k h i. (k, h) \<in> set pf \<longrightarrow> sound_value sub db (nodes_depth specs) seen' (h i))"
proof (induction E sub db specs entries anc seen and E sub db entries rows path specs seen arbitrary: g seen' and pf seen'
    rule: populateLevel_populate_fields.induct)
  case (1 E sub db specs entries anc seen)
  let ?ids = "remdups (concat (map (\<lambda>e. concat (map (\<lambda>n. wanted E (audienceFor sub) e (node_field n)) specs)) entries))"
  let ?rows = "GetEntriesByIDs (TenantID sub) ?ids (audienceFor sub = audienceDelivery) db"
  show ?case
  proof (cases "specs = [] \<or> entries = []")
    case True
    then show ?thesis using 1(2-4) by (auto simp: populateLevel.simps)
  next
    case False
    then obtain s pf where s: "budget_add ?ids seen = Inr s"
      "populate_fields E sub db entries ?rows (anc @ map en_ID entries) specs s = Inr (pf, seen')" "g = by_entry entries pf"
      using 1(2) by (auto simp: populateLevel.simps Let_def split: sum.splits)
    have b: "set ?ids \<subseteq> set s" "set seen \<subseteq> set s" "length s \<le> maxPopulateIDs" using budget_add_ok [OF s(1)] by auto
    from 1(1) [OF False refl refl s(1,2) 1(3) b(3) fetched_sound [OF b(1)]]
    show ?thesis using b(2) s(3) by (fastforce simp: by_entry_def split: if_splits)
  qed
next
  case (3 E sub db entries rows path f t cs ns seen)
  let ?hits = "concat (map (\<lambda>e. shown sub t rows (wanted E (audienceFor sub) e f)) entries)"
  obtain nested s1 rest where s: "populateLevel E sub db cs (to_expand path cs ?hits) path seen = Inr (nested, s1)"
    "populate_fields E sub db entries rows path ns s1 = Inr (rest, seen')"
    "pf = (Key f, field_values E sub f t entries rows nested) # rest"
    using 3(3) by (auto simp: populate_fields.simps Let_def split: sum.splits prod.splits)
  have ok: "target_ok sub db f t" "nodes_ok sub db cs" "nodes_ok sub db ns" using 3(4) by simp_all
  note level = 3(1) [OF refl s(1) ok(2) 3(5)]
  have rows1: "sound_rows sub db s1 rows" using sound_rows_mono [OF 3(6)] level by blast
  note others = 3(2) [OF refl s(1) refl s(2) ok(3) _ rows1]
  have sub1: "set s1 \<subseteq> set seen'" using others level by blast
  have this_field: "sound_value sub db (Suc (nodes_depth cs)) s1 (field_values E sub f t entries rows nested i)" for i
    using ok(1) rows1 level by (intro sound_field) blast+
  have "sound_value sub db (nodes_depth (Node f t cs # ns)) seen' (h i)" if "(k, h) \<in> set pf" for k h i
  proof -
    from that s(3) consider "h = field_values E sub f t entries rows nested" | "(k, h) \<in> set rest" by auto
    then show ?thesis
    proof cases
      case 1
      then show ?thesis using sound_value_mono [OF this_field _ sub1] by simp
    next
      case 2
      then have "sound_value sub db (nodes_depth ns) seen' (h i)" using others level by blast
      then show ?thesis by (rule sound_value_mono) auto
    qed
  qed
  then show ?case using level others by blast
qed auto

text \<open>What an accepted \<open>populate\<close> parameter can make a read show.\<close>

lemma populate_shows:
  assumes "parsePopulate sub db ct raws = Inr specs" and "populateFor E sub db specs entries = Inr g"
  shows "\<exists>seen. length seen \<le> maxPopulateIDs \<and>
    (\<forall>i xs k r. g i = Some xs \<longrightarrow> (k, r) \<in> set xs \<longrightarrow> sound_value sub db maxPopulateDepth seen r)"
proof -
  from assms(2) obtain seen' where l: "populateLevel E sub db specs entries [] [] = Inr (g, seen')"
    by (cases "populateLevel E sub db specs entries [] []") (auto simp: populateFor_def)
  have f: "nodes_ok sub db specs" "nodes_depth specs \<le> maxPopulateDepth"
    using parse_paths_forest [of sub db ct raws "[]" specs] assms(1) by (simp_all add: parsePopulate_def)
  from expansion_sound(1) [OF l f(1)] have s: "length seen' \<le> maxPopulateIDs"
    "\<And>i xs k r. g i = Some xs \<Longrightarrow> (k, r) \<in> set xs \<Longrightarrow> sound_value sub db (nodes_depth specs) seen' r"
    by auto
  show ?thesis using s(1) sound_value_mono [OF s(2) f(2) subset_refl] by blast
qed

end
