(* ===== verification/Delivery_Usage.thy ===== *)
theory Delivery_Usage
  imports Entry_Reads
begin

text \<open>
  The counter of delivery reads under interleaving (\<open>service/delivery_usage.go\<close>): reads are
  recorded by request goroutines while the flusher drains the counter, writes the drained
  tenants one by one, and puts back the ones whose write failed.
\<close>

section \<open>Steps\<close>

text \<open>The counter, the drained tenants not yet written, and the daily buckets.\<close>

type_synonym usage = "counts \<times> (string \<times> nat) list \<times> buckets"

datatype usage_op = Read string | Drained "string list" | Written int | PutBack

inductive usage_step :: "usage_op \<Rightarrow> usage \<Rightarrow> usage \<Rightarrow> bool" where
  read: "usage_step (Read t) (c, q, b) (Record_read t c, q, b)"
| drained: "distinct ts \<Longrightarrow> set ts = {t. c t \<noteq> 0} \<Longrightarrow> drain c = (pending, fresh) \<Longrightarrow>
    usage_step (Drained ts) (c, [], b) (fresh, map (\<lambda>t. (t, pending t)) ts, b)"
| written: "usage_step (Written day) (c, (t, n) # q, b) (c, q, AddDeliveryReads t day n b)"
| put_back: "usage_step PutBack (c, (t, n) # q, b) (c(t := c t + n), q, b)"

inductive_cases usage_step_cases [elim!]:
  "usage_step (Read t) s s'" "usage_step (Drained ts) s s'" "usage_step (Written day) s s'" "usage_step PutBack s s'"

inductive usage_history :: "usage_op list \<Rightarrow> usage \<Rightarrow> usage \<Rightarrow> bool" where
  start: "usage_history [] s s"
| more: "usage_step x s s' \<Longrightarrow> usage_history xs s' s'' \<Longrightarrow> usage_history (x # xs) s s''"

inductive_cases usage_history_cases: "usage_history [] s s'" "usage_history (x # xs) s s'"

section \<open>A flush is a sequence of steps\<close>

fun flush_ops :: "(string \<Rightarrow> bool) \<Rightarrow> int \<Rightarrow> string list \<Rightarrow> usage_op list" where
  "flush_ops writes day [] = []"
| "flush_ops writes day (t # ts) = (if writes t then Written day else PutBack) # flush_ops writes day ts"

lemma flush_tenants_history:
  "flush_tenants writes day pending ts (c, b) = (c', b') \<Longrightarrow>
     usage_history (flush_ops writes day ts) (c, map (\<lambda>t. (t, pending t)) ts, b) (c', [], b')"
proof (induction writes day pending ts "(c, b)" arbitrary: c b rule: flush_tenants.induct)
  case (2 writes day pending t ts c b)
  show ?case
  proof (cases "writes t")
    case True
    then show ?thesis using 2 by (auto intro: usage_history.more [OF usage_step.written])
  next
    case False
    then show ?thesis using 2 by (auto intro: usage_history.more [OF usage_step.put_back])
  qed
qed (auto intro: usage_history.start)

lemma Flush_history:
  assumes "distinct ts" and "set ts = {t. c t \<noteq> 0}" and "Flush writes day ts (c, b) = (c', b')"
  shows "usage_history (Drained ts # flush_ops writes day ts) (c, [], b) (c', [], b')"
proof -
  obtain pending fresh where d: "drain c = (pending, fresh)" by fastforce
  with assms(3) have "flush_tenants writes day pending ts (fresh, b) = (c', b')" by (simp add: Flush_def)
  from usage_history.more [OF usage_step.drained [OF assms(1,2) d] flush_tenants_history [OF this]] show ?thesis .
qed

section \<open>Every read is somewhere\<close>

definition in_flight :: "string \<Rightarrow> (string \<times> nat) list \<Rightarrow> nat" where
  "in_flight t q = sum_list (map snd (filter (\<lambda>p. fst p = t) q))"

definition in_buckets :: "string \<Rightarrow> int set \<Rightarrow> buckets \<Rightarrow> nat" where
  "in_buckets t days b = (\<Sum>d \<in> days. b (t, d))"

definition reads_of :: "string \<Rightarrow> int set \<Rightarrow> usage \<Rightarrow> nat" where
  "reads_of t days s = (case s of (c, q, b) \<Rightarrow> c t + in_flight t q + in_buckets t days b)"

lemma in_flight_pairs: "distinct ts \<Longrightarrow> in_flight t (map (\<lambda>t. (t, p t)) ts) = (if t \<in> set ts then p t else 0)"
  by (induction ts) (auto simp: in_flight_def)

lemma in_buckets_add:
  assumes "finite days" and "day \<in> days"
  shows "in_buckets t days (AddDeliveryReads u day n b) = in_buckets t days b + (if t = u then n else 0)"
proof -
  have "(\<Sum>d \<in> days. AddDeliveryReads u day n b (t, d)) = (\<Sum>d \<in> days. b (t, d) + (if d = day then (if t = u then n else 0) else 0))"
    by (rule sum.cong) (auto simp: AddDeliveryReads_def)
  then show ?thesis using assms by (simp add: in_buckets_def sum.distrib)
qed

lemma usage_step_reads:
  assumes "usage_step x s s'" and "finite days" and "\<And>d. x = Written d \<Longrightarrow> d \<in> days" and "t \<noteq> []"
  shows "reads_of t days s' = reads_of t days s + (if x = Read t then 1 else 0)"
  using assms
proof cases
  case (read u c q b)
  then show ?thesis using assms(4) by (simp add: reads_of_def Record_read_def)
next
  case (drained ts c pending fresh b)
  then show ?thesis by (auto simp: reads_of_def in_flight_pairs drain_def) (simp_all add: in_flight_def)
next
  case (written day c u n q b)
  then show ?thesis using assms(2,3) by (simp add: reads_of_def in_buckets_add) (simp add: in_flight_def)
next
  case (put_back c u n q b)
  then show ?thesis by (simp add: reads_of_def in_flight_def)
qed

lemma usage_history_reads:
  "usage_history ops s s' \<Longrightarrow> finite days \<Longrightarrow> (\<And>d. Written d \<in> set ops \<Longrightarrow> d \<in> days) \<Longrightarrow> t \<noteq> [] \<Longrightarrow>
     reads_of t days s' = reads_of t days s + count_list ops (Read t)"
proof (induction ops s s' rule: usage_history.induct)
  case (more x s s' xs s'')
  then show ?case using usage_step_reads [OF more(1) more(4), of t] by auto
qed simp

end
