(* ===== verification/Entry_Effects.thy ===== *)
theory Entry_Effects
  imports Entry_Schedules
begin

text \<open>
  What each transaction on the entry tables leaves behind, table by table: the lemmas the
  properties of the life cycle rest on.
\<close>

section \<open>Steps that touch one table\<close>

text \<open>The part of the tables the life cycle is about.\<close>

type_synonym life = "entry_row list \<times> entry_revision list \<times> publish_revision list \<times> entry_schedule list"

definition life_of :: "entry_db \<Rightarrow> life" where
  "life_of db = (db_Entries db, db_Revisions db, db_Releases db, db_Schedules db)"

lemma life_of_simps [simp]:
  "life_of (db\<lparr>db_Unique := u\<rparr>) = life_of db" "life_of (db\<lparr>db_Outbox := o'\<rparr>) = life_of db"
  "life_of (db\<lparr>db_Activity := a\<rparr>) = life_of db" "life_of (db\<lparr>db_Notices := n\<rparr>) = life_of db"
  "life_of (db\<lparr>db_Media := m\<rparr>) = life_of db" "life_of (db\<lparr>db_Relations := rl\<rparr>) = life_of db"
  "life_of (db\<lparr>db_Idempotency := k\<rparr>) = life_of db" "life_of (db\<lparr>db_Decisions := ds\<rparr>) = life_of db"
  "life_of (finish act err db) = life_of db" "life_of (notify n' db) = life_of db"
  by (simp_all add: life_of_def notify_def)

lemma life_parts:
  "life_of db' = life_of db \<Longrightarrow> db_Entries db' = db_Entries db \<and> db_Revisions db' = db_Revisions db \<and>
     db_Releases db' = db_Releases db \<and> db_Schedules db' = db_Schedules db"
  by (simp add: life_of_def)

lemma refresh_effect:
  "refreshEntryUniqueValues e db = Inr db' \<Longrightarrow> \<exists>u. db' = db\<lparr>db_Unique := u\<rparr>"
  by (auto simp: refreshEntryUniqueValues_def Let_def split: option.splits)

lemma outbox_self: "db = db\<lparr>db_Outbox := db_Outbox db\<rparr>"
  by (cases db) simp

lemma emit_effect:
  "emitEntryEvent ev tenant ct i loc k db = Inr db' \<Longrightarrow> \<exists>o'. db' = db\<lparr>db_Outbox := o'\<rparr>"
  by (auto simp: emitEntryEvent_def split: option.splits if_splits) (metis outbox_self)+

lemma record_effect:
  "recordEntryRevision e db = Inr db' \<Longrightarrow> db' = db\<lparr>db_Revisions := revision_of e # db_Revisions db\<rparr>"
  by (auto simp: recordEntryRevision_def split: if_splits)

lemma media_effect: "ReplaceEntryMedia tenant i as db = Inr db' \<Longrightarrow> \<exists>m. db' = db\<lparr>db_Media := m\<rparr>"
  by (auto simp: ReplaceEntryMedia_def split: if_splits)

lemma relations_effect:
  "ReplaceEntryRelations tenant i rs db = Inr db' \<Longrightarrow> \<exists>rl. db' = db\<lparr>db_Relations := rl\<rparr>"
  by (auto simp: ReplaceEntryRelations_def split: if_splits)

lemma idempotency_effect:
  "RecordEntryIdempotency k db = Inr db' \<Longrightarrow> db' = db\<lparr>db_Idempotency := k # db_Idempotency db\<rparr>"
  by (auto simp: RecordEntryIdempotency_def split: if_splits)

lemma activity_effect:
  "RecordActivity l db = Inr db' \<Longrightarrow> db' = db\<lparr>db_Activity := db_Activity db @ [l]\<rparr>"
  by (auto simp: RecordActivity_def split: if_splits)

definition release_row :: "uuid \<Rightarrow> publish_origin \<Rightarrow> entry_row \<Rightarrow> nat \<Rightarrow> json \<Rightarrow> nat \<Rightarrow> publish_revision" where
  "release_row new_id o' e n snapshot v =
     \<lparr>pr_ID = new_id, pr_TenantID = en_TenantID e, pr_EntryID = en_ID e, pr_RevisionNo = n,
      pr_Payload = snapshot, pr_Version = v, pr_PublishedAt = en_UpdatedAt e,
      pr_PublishedBy = en_PublishedBy e, pr_Via = po_Via o', pr_ViaScheduleID = po_ScheduleID o'\<rparr>"

definition kept_release :: "uuid \<Rightarrow> nat \<Rightarrow> publish_revision \<Rightarrow> bool" where
  "kept_release i n r \<longleftrightarrow> pr_EntryID r \<noteq> i \<or> n < pr_RevisionNo r + MaxPublishRevisionsPerEntry"

lemma release_effect:
  assumes "recordPublishRevision new_id o' e db = Inr db'"
    and "en_PublishedPayload e = Some p" and "en_PublishedVersion e = Some v"
  shows "origin_Valid o' \<and> db' = db\<lparr>db_Releases := filter (kept_release (en_ID e) (next_release_no (en_ID e) db))
           (release_row new_id o' e (next_release_no (en_ID e) db) p v # db_Releases db)\<rparr>"
  using assms
  by (auto simp: recordPublishRevision_def release_row_def kept_release_def Let_def split: if_splits cong: filter_cong)

lemma finish_schedule_effect:
  assumes "FinishEntrySchedule tenant i state ex msg db = Inr db'"
  defines "hit \<equiv> \<lambda>s. sc_TenantID s = tenant \<and> sc_ID s = i \<and> sc_State s = ScheduleStatePending"
    and "settle \<equiv> \<lambda>s. s\<lparr>sc_State := state, sc_ExecutedAt := ex, sc_Error := msg\<rparr>"
  shows "db' = db\<lparr>db_Schedules := map (\<lambda>s. if hit s then settle s else s) (db_Schedules db)\<rparr> \<and>
    (\<exists>s \<in> set (db_Schedules db). hit s) \<and> (\<forall>s \<in> set (db_Schedules db). hit s \<longrightarrow> schedule_check (settle s))"
  using assms by (auto simp: FinishEntrySchedule_def Let_def list_ex_iff list_all_iff split: if_splits)

section \<open>The four writes of an entry\<close>

lemma locked_row_Inr:
  "locked_row e db = Inr r \<Longrightarrow> r \<in> set (db_Entries db) \<and> en_ID r = en_ID e \<and> en_Version r = en_Version e \<and>
     en_TenantID r = en_TenantID e \<and> en_ContentTypeID r = en_ContentTypeID e"
  by (auto simp: locked_row_def row_at_def split: option.splits dest!: find_SomeD)

definition put_row :: "entry_row \<Rightarrow> entry_row list \<Rightarrow> entry_row list" where
  "put_row e rows = map (\<lambda>r. if en_ID r = en_ID e then e else r) rows"

lemma saved_row_keys [simp]: "en_ID (saved_row e r) = en_ID r" "en_Version (saved_row e r) = Suc (en_Version r)"
  "en_Payload (saved_row e r) = en_Payload e" "en_Status (saved_row e r) = en_Status r"
  "en_PublishedPayload (saved_row e r) = en_PublishedPayload r" "en_PublishedVersion (saved_row e r) = en_PublishedVersion r"
  "en_TenantID (saved_row e r) = en_TenantID r"
  by (simp_all add: saved_row_def)

lemma released_row_keys [simp]: "en_ID (released_row e st pa r) = en_ID r"
  "en_Version (released_row e st pa r) = Suc (en_Version r)" "en_Payload (released_row e st pa r) = en_Payload r"
  "en_Status (released_row e st pa r) = st" "en_TenantID (released_row e st pa r) = en_TenantID r"
  by (simp_all add: released_row_def Let_def)

definition stale_schedules :: "entry_row \<Rightarrow> entry_schedule list \<Rightarrow> entry_schedule list" where
  "stale_schedules e ss = map (\<lambda>s. if staled_by e s then s\<lparr>sc_State := ScheduleStateStale\<rparr> else s) ss"

definition supersede_schedules :: "string \<Rightarrow> uuid \<Rightarrow> entry_schedule list \<Rightarrow> entry_schedule list" where
  "supersede_schedules tenant i ss =
     map (\<lambda>s. if pending_of tenant i s then s\<lparr>sc_State := ScheduleStateSuperseded\<rparr> else s) ss"

lemma UpdateEntry_effect:
  assumes "UpdateEntry_repo e db = Inr (e', db')"
  shows "\<exists>r. locked_row e db = Inr r \<and> entry_check (saved_row e r) \<and> e' = e\<lparr>en_Version := Suc (en_Version r)\<rparr> \<and>
    life_of db' = (put_row (saved_row e r) (db_Entries db), revision_of (saved_row e r) # db_Revisions db,
      db_Releases db, stale_schedules (e\<lparr>en_Version := Suc (en_Version r)\<rparr>) (db_Schedules db))"
proof -
  from assms obtain r db1 db2 db4 where r: "locked_row e db = Inr r" "entry_check (saved_row e r)"
    "e' = e\<lparr>en_Version := Suc (en_Version r)\<rparr>"
    and w: "refreshEntryUniqueValues (saved_row e r) (put_entry (saved_row e r) db) = Inr db1"
    "recordEntryRevision (saved_row e r) db1 = Inr db2"
    "emitEntryEvent ''content.entry.updated'' (en_TenantID e) (en_ContentTypeID e) (en_ID e) (en_Locale e)
       (idem_key (en_ID e) [''updated'', nat_str (Suc (en_Version r))])
       (markSchedulesStale (e\<lparr>en_Version := Suc (en_Version r)\<rparr>) db2) = Inr db'"
    by (auto simp: UpdateEntry_repo_def Let_def split: if_splits)
  from refresh_effect [OF w(1)] record_effect [OF w(2)] emit_effect [OF w(3)]
  obtain u ob where "db1 = put_entry (saved_row e r) db\<lparr>db_Unique := u\<rparr>"
    "db2 = db1\<lparr>db_Revisions := revision_of (saved_row e r) # db_Revisions db1\<rparr>"
    "db' = markSchedulesStale (e\<lparr>en_Version := Suc (en_Version r)\<rparr>) db2\<lparr>db_Outbox := ob\<rparr>" by blast
  then have "life_of db' = (put_row (saved_row e r) (db_Entries db), revision_of (saved_row e r) # db_Revisions db,
      db_Releases db, stale_schedules (e\<lparr>en_Version := Suc (en_Version r)\<rparr>) (db_Schedules db))"
    by (simp add: life_of_def put_row_def stale_schedules_def put_entry_def markSchedulesStale_def)
  with r show ?thesis by blast
qed

definition releases_after :: "uuid \<Rightarrow> publish_origin \<Rightarrow> entry_row \<Rightarrow> entry_db \<Rightarrow> publish_revision list" where
  "releases_after new_id o' e db =
     (let n = next_release_no (en_ID e) db in
      filter (kept_release (en_ID e) n) (release_row new_id o' e n (en_Payload e) (en_Version e) # db_Releases db))"

lemma SetEntryPublishState_effect:
  assumes "SetEntryPublishState_repo new_id o' e st pa db = Inr (e', db')"
  shows "\<exists>r. locked_row e db = Inr r \<and> entry_check (released_row e st pa r) \<and>
    e' = released_struct e st pa (released_row e st pa r) \<and>
    life_of db' = (put_row (released_row e st pa r) (db_Entries db), db_Revisions db,
      if st = StatusPublished then releases_after new_id o' (released_row e st pa r) db else db_Releases db,
      supersede_schedules (en_TenantID e) (en_ID e) (db_Schedules db))"
proof -
  let ?moved = "st = StatusPublished"
  from assms obtain r db1 db4 where r: "locked_row e db = Inr r" "entry_check (released_row e st pa r)"
    "e' = released_struct e st pa (released_row e st pa r)"
    and w: "refreshEntryUniqueValues (released_row e st pa r) (put_entry (released_row e st pa r) db) = Inr db1"
    and rec: "(let db2 = markSchedulesSuperseded (en_TenantID e) (en_ID e) db1;
             db3 = (if ?moved then snapshot_links (en_TenantID e) (en_ID e) db2 else db2) in
         if ?moved then recordPublishRevision new_id o' (released_row e st pa r) db3 else Inr db3) = Inr db4"
    and emit: "emitEntryEvent (if ?moved then ''content.entry.published'' else ''content.entry.unpublished'')
         (en_TenantID e) (en_ContentTypeID e) (en_ID e) (en_Locale e)
         (idem_key (en_ID e) [st, nat_str (Suc (en_Version r))]) db4 = Inr db'"
    unfolding SetEntryPublishState_repo_def Let_def
    by (simp only: and_then_Inr) (auto split: if_splits)
  from refresh_effect [OF w] emit_effect [OF emit] obtain u ob where
    u: "db1 = put_entry (released_row e st pa r) db\<lparr>db_Unique := u\<rparr>" and ob: "db' = db4\<lparr>db_Outbox := ob\<rparr>" by blast
  let ?row = "released_row e st pa r"
  have "life_of db4 = (put_row ?row (db_Entries db), db_Revisions db,
      if ?moved then releases_after new_id o' ?row db else db_Releases db,
      supersede_schedules (en_TenantID e) (en_ID e) (db_Schedules db))"
  proof (cases ?moved)
    case True
    define db3 where "db3 = snapshot_links (en_TenantID e) (en_ID e) (markSchedulesSuperseded (en_TenantID e) (en_ID e) db1)"
    have "recordPublishRevision new_id o' ?row db3 = Inr db4" using rec True by (simp add: db3_def Let_def)
    moreover have "en_PublishedPayload ?row = Some (en_Payload ?row)" "en_PublishedVersion ?row = Some (en_Version ?row)"
      using True by (simp_all add: released_row_def Let_def)
    ultimately have "db4 = db3\<lparr>db_Releases := filter (kept_release (en_ID ?row) (next_release_no (en_ID ?row) db3))
           (release_row new_id o' ?row (next_release_no (en_ID ?row) db3) (en_Payload ?row) (en_Version ?row) # db_Releases db3)\<rparr>"
      using release_effect by blast
    moreover have "db_Releases db3 = db_Releases db"
      by (simp add: db3_def u snapshot_links_def markSchedulesSuperseded_def put_entry_def)
    ultimately show ?thesis using True
      by (simp add: life_of_def db3_def u snapshot_links_def markSchedulesSuperseded_def put_entry_def put_row_def
          supersede_schedules_def releases_after_def Let_def next_release_no_def release_numbers_def)
  next
    case False
    with rec show ?thesis
      by (auto simp: life_of_def u markSchedulesSuperseded_def put_entry_def put_row_def supersede_schedules_def Let_def)
  qed
  with r ob show ?thesis by auto
qed

lemma CreateEntry_effect:
  assumes "CreateEntry_repo e0 db = Inr (e', db')"
  shows "entry_check (inserted_row e0) \<and> e' = created_struct e0 \<and> en_ID e0 \<notin> en_ID ` set (db_Entries db) \<and>
    life_of db' = (inserted_row e0 # db_Entries db, revision_of (inserted_row e0) # db_Revisions db,
      db_Releases db, db_Schedules db)"
proof -
  from assms obtain db1 db2 where c: "entry_check (inserted_row e0)" "e' = created_struct e0"
    "\<not> list_ex (insert_conflict (inserted_row e0)) (db_Entries db)"
    and w: "refreshEntryUniqueValues (inserted_row e0) (db\<lparr>db_Entries := inserted_row e0 # db_Entries db\<rparr>) = Inr db1"
      "recordEntryRevision (inserted_row e0) db1 = Inr db2"
      "emitEntryEvent ''content.entry.created'' (en_TenantID (inserted_row e0)) (en_ContentTypeID (inserted_row e0))
         (en_ID (inserted_row e0)) (en_Locale (inserted_row e0)) (idem_key (en_ID (inserted_row e0)) [''created'']) db2 = Inr db'"
    by (auto simp: CreateEntry_repo_def Let_def split: if_splits)
  have i: "en_ID (inserted_row e0) = en_ID e0" by (simp add: inserted_row_def created_struct_def Let_def)
  from refresh_effect [OF w(1)] record_effect [OF w(2)] emit_effect [OF w(3)] obtain u ob where
    "db1 = db\<lparr>db_Entries := inserted_row e0 # db_Entries db, db_Unique := u\<rparr>"
    "db2 = db1\<lparr>db_Revisions := revision_of (inserted_row e0) # db_Revisions db1\<rparr>" "db' = db2\<lparr>db_Outbox := ob\<rparr>"
    by auto
  with c i show ?thesis by (auto simp: life_of_def list_ex_iff insert_conflict_def)
qed

lemma DeleteEntry_effect:
  assumes "DeleteEntry_repo tenant ct i db = Inr db'"
  shows "entry_exists tenant ct i db \<and> life_of db' = life_of (drop_entry i db)"
proof -
  from assms have "emitEntryEvent ''content.entry.deleted'' tenant ct i [] (idem_key i [''deleted'']) (drop_entry i db) = Inr db'"
    and "entry_exists tenant ct i db" by (auto simp: DeleteEntry_repo_def split: if_splits)
  with emit_effect show ?thesis by fastforce
qed

section \<open>The service calls\<close>

text \<open>Each call ends in one of its transactions' states, with at most a line added to the log.\<close>

lemma closing_life [simp]: "life_of (snd (closing act r)) = life_of (snd r)"
  by (cases r) (simp add: closing_def)

lemma closing_fst [simp]: "fst (closing act r) = fst r"
  by (cases r) (simp add: closing_def)

lemma update_links_life: "life_of (snd (update_links s db)) = life_of db"
  by (auto simp: update_links_def Let_def split: sum.splits dest!: media_effect relations_effect)

lemma create_tx_life:
  assumes "create_tx p db = Inr (e, db')"
  shows "\<exists>db1. CreateEntry_repo (pl_Entry p) db = Inr (e, db1) \<and> life_of db' = life_of db1"
  using assms
  by (auto simp: create_tx_def Let_def split: option.splits dest!: media_effect relations_effect idempotency_effect)

lemma create_commit_life:
  "life_of (snd (create_commit p act db)) = life_of db \<or>
   (\<exists>e db1. CreateEntry_repo (pl_Entry p) db = Inr (e, db1) \<and> life_of (snd (create_commit p act db)) = life_of db1)"
proof (cases "create_tx p db")
  case (Inl err)
  then show ?thesis
    by (auto simp: create_commit_def Let_def split: option.splits sum.splits bool.splits)
next
  case (Inr r)
  then obtain e db' where r: "create_tx p db = Inr (e, db')" by (cases r) auto
  from create_tx_life [OF this] r show ?thesis by (auto simp: create_commit_def Let_def)
qed

lemma update_commit_life:
  "life_of (snd (update_commit s act db)) = life_of db \<or>
   (\<exists>e db1. UpdateEntry_repo (sv_Entry s) db = Inr (e, db1) \<and> life_of (snd (update_commit s act db)) = life_of db1)"
proof (cases "UpdateEntry_repo (sv_Entry s) db")
  case (Inr r)
  obtain e db1 where r: "r = (e, db1)" by (cases r)
  define db2 where "db2 = (if \<not> wasPending (sv_Sub s) (sv_Before s) db \<and> published_pending e
    then notifyEntryPendingReview (sv_Sub s) e db1 else db1)"
  have d: "life_of db2 = life_of db1" by (simp add: db2_def notifyEntryPendingReview_def)
  have "life_of (snd (update_commit s act db)) = life_of (snd (update_links s db2))"
    using Inr r by (auto simp: update_commit_def Let_def db2_def [symmetric] split: prod.split option.split)
  with d Inr r update_links_life show ?thesis by metis
qed (simp add: update_commit_def Let_def)

lemma restore_commit_life:
  "life_of (snd (restore_commit p act db)) = life_of db \<or>
   (\<exists>e db1. UpdateEntry_repo (sv_Entry (rp_Saved p)) db = Inr (e, db1) \<and>
      life_of (snd (restore_commit p act db)) = life_of db1)"
proof (cases "UpdateEntry_repo (sv_Entry (rp_Saved p)) db")
  case (Inr r)
  obtain e db1 where r: "r = (e, db1)" by (cases r)
  have "life_of (snd (restore_commit p act db)) = life_of (snd (update_links (rp_Saved p) db1))"
    using Inr r by (auto simp: restore_commit_def Let_def split: prod.split option.split)
  with Inr r update_links_life show ?thesis by metis
qed (simp add: restore_commit_def Let_def)

lemma status_commit_life:
  "life_of (snd (status_commit read st fresh now act db)) = life_of db \<or>
   (\<exists>e pa e' db1. SetEntryPublishState_repo fresh direct_publish e st pa db = Inr (e', db1) \<and>
      life_of (snd (status_commit read st fresh now act db)) = life_of db1)"
  by (auto simp: status_commit_def Let_def split: prod.split sum.split)

lemma DeleteEntry_life:
  "life_of (snd (DeleteEntry W ctx tn i now db)) = life_of db \<or>
   (\<exists>tenant ct db1. DeleteEntry_repo tenant ct i db = Inr db1 \<and>
      life_of (snd (DeleteEntry W ctx tn i now db)) = life_of db1)"
  by (auto simp: DeleteEntry_def Let_def split: prod.split sum.split option.split)

lemma RequestChanges_life: "life_of (snd (RequestChanges W ctx tn i raw x fresh now db)) = life_of db"
  by (auto simp: RequestChanges_def Let_def CreateEntryReviewDecision_def notifyEntryChangesRequested_def
      split: prod.split sum.split option.split if_splits)

lemma ScheduleEntry_life:
  "life_of (snd (ScheduleEntry W ctx tn i a raw fresh now db)) = life_of db \<or>
   (\<exists>s db1. CreateEntrySchedule s db = Inr db1 \<and> life_of (snd (ScheduleEntry W ctx tn i a raw fresh now db)) = life_of db1)"
  by (auto simp: ScheduleEntry_def Let_def split: prod.split sum.split)

lemma CancelEntrySchedule_life:
  "life_of (snd (CancelEntrySchedule_svc W ctx tn i now db)) = life_of db \<or>
   (\<exists>tenant s db1. CancelEntrySchedule tenant i db = Inr (s, db1) \<and>
      life_of (snd (CancelEntrySchedule_svc W ctx tn i now db)) = life_of db1)"
  by (auto simp: CancelEntrySchedule_svc_def Let_def split: prod.split sum.split)

end
