(* ===== verification/Entry_Rewrites.thy ===== *)
theory Entry_Rewrites
  imports Entry_Schedules Component_Verbs
begin

text \<open>
  What a change of the schema does to stored entries: the statements of \<open>DeleteField\<close> and
  \<open>RenameField\<close> (\<open>repository/postgres_repository.go\<close>), \<open>rewriteComponentItems\<close> and
  \<open>rewriteZoneComponent\<close> (\<open>repository/postgres_components.go\<close>) over the rows of \<open>entry_db\<close>, the
  links they clear away, and the cascade of \<open>DeleteContentType\<close>.  The verbs that call them, with
  their guards, are those of \<open>Schema_Verbs\<close> and \<open>Component_Verbs\<close>.
\<close>

section \<open>The approximate search text\<close>

text \<open>
  \<open>content_entry_search_text_approx\<close> of migration 47: the strings of the document itself and
  every string under \<open>text\<close>, \<open>alt\<close> or \<open>code\<close> at any depth.  In lax mode \<open>$.**.k\<close> meets a
  member once at its object and once more through the array that holds the object.
\<close>

definition lax_member :: "string \<Rightarrow> json \<Rightarrow> json list" where
  "lax_member k v =
     (let member = (\<lambda>x. case x of JObj d \<Rightarrow> (case map_of d k of None \<Rightarrow> [] | Some y \<Rightarrow> [y]) | _ \<Rightarrow> []) in
      case v of JArr xs \<Rightarrow> concat (map member xs) | _ \<Rightarrow> member v)"

primrec json_nodes :: "json \<Rightarrow> json list" where
  "json_nodes JNull = [JNull]"
| "json_nodes (JBool b) = [JBool b]"
| "json_nodes (JNum f) = [JNum f]"
| "json_nodes (JStr s) = [JStr s]"
| "json_nodes (JArr xs) = JArr xs # concat (map json_nodes xs)"
| "json_nodes (JObj d) = JObj d # concat (map snd (map (map_prod (\<lambda>k. k) json_nodes) d))"

definition search_text_approx :: "json \<Rightarrow> string" where
  "search_text_approx p =
     (let tops = (case p of JObj d \<Rightarrow> map snd d | _ \<Rightarrow> []);
          deep = (\<lambda>k. concat (map (lax_member k) (json_nodes p))) in
      join_with [CHR 0x0A]
        (nonempty_strings (tops @ deep ''text'' @ deep ''alt'' @ deep ''code'')))"

section \<open>One statement over many rows\<close>

record write_actor =
  wa_Kind :: string
  wa_UserID :: "uuid option"
  wa_AgentID :: "string option"

text \<open>
  A bulk statement asks whether a copy of a document is concerned, says what becomes of it, and
  recomputes the search text or not.  The functions of the statements leave a copy that is not
  concerned as it is.
\<close>

record rewrite =
  rw_Has :: "doc \<Rightarrow> bool"
  rw_Change :: "doc \<Rightarrow> doc"
  rw_Retext :: bool

definition copy_has :: "rewrite \<Rightarrow> json \<Rightarrow> bool" where
  "copy_has w p \<longleftrightarrow> (case p of JObj d \<Rightarrow> rw_Has w d | _ \<Rightarrow> False)"

definition snapshot_has :: "rewrite \<Rightarrow> entry_row \<Rightarrow> bool" where
  "snapshot_has w e \<longleftrightarrow> (case en_PublishedPayload e of None \<Rightarrow> False | Some p \<Rightarrow> copy_has w p)"

definition changed_copy :: "rewrite \<Rightarrow> json \<Rightarrow> json" where
  "changed_copy w p =
     (case p of JObj d \<Rightarrow> if rw_Has w d then canon (JObj (rw_Change w d)) else p | _ \<Rightarrow> p)"

definition rewritten_row :: "rewrite \<Rightarrow> write_actor \<Rightarrow> int \<Rightarrow> entry_row \<Rightarrow> entry_row" where
  "rewritten_row w a now e =
     (let work = copy_has w (en_Payload e); shown = snapshot_has w e;
          p = changed_copy w (en_Payload e); snap = map_option (changed_copy w) (en_PublishedPayload e) in
      e\<lparr>en_Payload := p, en_PublishedPayload := snap,
        en_SearchText := (if rw_Retext w \<and> work then search_text_approx p else en_SearchText e),
        en_PublishedSearchText :=
          (case snap of
             Some q \<Rightarrow> if rw_Retext w \<and> shown then search_text_approx q else en_PublishedSearchText e
           | None \<Rightarrow> en_PublishedSearchText e),
        en_Version := (if work then en_Version e + 1 else en_Version e),
        en_PublishedVersion := (if shown then map_option Suc (en_PublishedVersion e) else en_PublishedVersion e),
        en_UpdatedAt := now,
        en_UpdatedBy := (if work then wa_UserID a else en_UpdatedBy e),
        en_UpdatedByKind := (if work then Some (wa_Kind a) else en_UpdatedByKind e),
        en_UpdatedByAgent := (if work then wa_AgentID a else en_UpdatedByAgent e)\<rparr>)"

text \<open>The rows the statement matches: a retained snapshot counts only while the entry is on air.\<close>

definition concerned :: "rewrite \<Rightarrow> string \<Rightarrow> uuid \<Rightarrow> entry_row \<Rightarrow> bool" where
  "concerned w tenant ct e \<longleftrightarrow> en_TenantID e = tenant \<and> en_ContentTypeID e = ct \<and>
     (copy_has w (en_Payload e) \<or> (en_Status e = StatusPublished \<and> snapshot_has w e))"

definition after_rewrite :: "rewrite \<Rightarrow> write_actor \<Rightarrow> string \<Rightarrow> uuid \<Rightarrow> int \<Rightarrow> entry_row \<Rightarrow> entry_row" where
  "after_rewrite w a tenant ct now e = (if concerned w tenant ct e then rewritten_row w a now e else e)"

text \<open>A revision is written for the rows whose working copy changed.\<close>

definition rewrite_revisions ::
    "rewrite \<Rightarrow> write_actor \<Rightarrow> string \<Rightarrow> uuid \<Rightarrow> int \<Rightarrow> entry_row list \<Rightarrow> entry_revision list" where
  "rewrite_revisions w a tenant ct now es =
     map (\<lambda>e. revision_of (rewritten_row w a now e))
       (filter (\<lambda>e. concerned w tenant ct e \<and> copy_has w (en_Payload e)) es)"

definition bulk_rewrite :: "rewrite \<Rightarrow> write_actor \<Rightarrow> string \<Rightarrow> uuid \<Rightarrow> int \<Rightarrow> entry_db \<Rightarrow> go_error + entry_db" where
  "bulk_rewrite w a tenant ct now db =
     (let es = db_Entries db; revs = rewrite_revisions w a tenant ct now es in
      if \<not> list_all (\<lambda>e. concerned w tenant ct e \<longrightarrow> entry_check (rewritten_row w a now e)) es \<or>
         list_ex (\<lambda>r. list_ex (\<lambda>r'. er_EntryID r' = er_EntryID r \<and> er_Version r' = er_Version r) (db_Revisions db)) revs
      then Inl constraint_error
      else Inr (db\<lparr>db_Entries := map (after_rewrite w a tenant ct now) es, db_Revisions := revs @ db_Revisions db\<rparr>))"

section \<open>Links whose place is gone\<close>

text \<open>\<open>linksMedia\<close> and \<open>linksRelations\<close>: a leaf of the given types at the top or inside an item.\<close>

function links_through :: "string list \<Rightarrow> field list \<Rightarrow> bool" where
  "links_through leaves fs =
     list_ex (\<lambda>f.
       if Type f = FieldTypeComponent then links_through leaves (ComponentFields f)
       else if Type f = FieldTypeDynamicZone
            then list_ex (\<lambda>n. links_through leaves (zone_fields_of f n)) (map fst (ZoneFields f))
       else Type f \<in> set leaves) fs"
  by pat_completeness auto
termination
proof (relation "measure (\<lambda>(leaves, fs). fields_size fs)")
  show "wf (measure (\<lambda>(leaves :: string list, fs). fields_size fs))" by simp
qed (auto intro: component_below zone_below)

declare links_through.simps [simp del]

definition linksMedia :: "field \<Rightarrow> bool" where
  "linksMedia f = links_through [FieldTypeFile, FieldTypeRichText] [f]"

definition linksRelations :: "field \<Rightarrow> bool" where
  "linksRelations f = links_through [FieldTypeRelation] [f]"

definition withoutKey :: "field list \<Rightarrow> string \<Rightarrow> field list" where
  "withoutKey fs key = filter (\<lambda>f. Key f \<noteq> key) fs"

text \<open>
  A jsonpath is the function from a document to the values \<open>jsonb_path_query\<close> finds in lax mode:
  \<open>[*]\<close> takes a single value as a list of one, and a filter keeps the items that carry a tag.
\<close>

definition lax_items :: "json \<Rightarrow> json list" where
  "lax_items v = (case v of JArr xs \<Rightarrow> xs | _ \<Rightarrow> [v])"

definition items_under :: "string \<Rightarrow> json \<Rightarrow> json list" where
  "items_under key v = concat (map lax_items (lax_member key v))"

definition with_tag :: "string \<Rightarrow> string \<Rightarrow> json list \<Rightarrow> json list" where
  "with_tag tag name xs = filter (\<lambda>x. JStr name \<in> set (lax_member tag x)) xs"

function mediaPaths :: "field list \<Rightarrow> (json \<Rightarrow> json list) list" where
  "mediaPaths fs =
     concat (map (\<lambda>f.
       if Type f = FieldTypeFile then [lax_member (Key f)]
       else if Type f = FieldTypeRichText then
         [\<lambda>v. concat (map (lax_member ''media_id'') (with_tag ''type'' ''image'' (items_under (Key f) v)))]
       else if Type f = FieldTypeComponent then
         map (\<lambda>p v. concat (map p (items_under (Key f) v))) (mediaPaths (ComponentFields f))
       else if Type f = FieldTypeDynamicZone then
         concat (map (\<lambda>n. map (\<lambda>p v. concat (map p (with_tag ZoneDiscriminator n (items_under (Key f) v))))
                          (mediaPaths (zone_fields_of f n))) (sort (map fst (ZoneFields f))))
       else []) fs)"
  by pat_completeness auto
termination
proof (relation "measure fields_size")
  show "wf (measure fields_size)" by simp
qed (auto intro: component_below zone_below)

declare mediaPaths.simps [simp del]

function relationFieldPaths :: "field list \<Rightarrow> string list" where
  "relationFieldPaths fs =
     concat (map (\<lambda>f.
       if Type f = FieldTypeRelation then [Key f]
       else if Type f = FieldTypeComponent then
         map (\<lambda>k. Key f @ ''.'' @ k) (relationFieldPaths (ComponentFields f))
       else if Type f = FieldTypeDynamicZone then
         concat (map (\<lambda>n. map (\<lambda>k. Key f @ ''.'' @ k) (relationFieldPaths (zone_fields_of f n)))
                  (sort (map fst (ZoneFields f))))
       else []) fs)"
  by pat_completeness auto
termination
proof (relation "measure fields_size")
  show "wf (measure fields_size)" by simp
qed (auto intro: component_below zone_below)

declare relationFieldPaths.simps [simp del]

text \<open>
  A link row goes when none of the surviving paths finds its asset in its entry: \<open>v #>> '{}'\<close> is
  compared with the text of the id, and a missing snapshot has no values.
\<close>

definition lost_media :: "(json \<Rightarrow> json list) list \<Rightarrow> (entry_row \<Rightarrow> json option) \<Rightarrow> link_row \<Rightarrow> entry_row \<Rightarrow> bool" where
  "lost_media paths col l e \<longleftrightarrow> en_ID e = ln_EntryID l \<and>
     \<not> (case col e of None \<Rightarrow> False | Some p \<Rightarrow> list_ex (\<lambda>path. JStr (ln_Target l) \<in> set (path p)) paths)"

definition relinkEntryMedia :: "string \<Rightarrow> uuid \<Rightarrow> field list \<Rightarrow> entry_db \<Rightarrow> entry_db" where
  "relinkEntryMedia tenant ct survivors db =
     (let paths = mediaPaths survivors; rows = filter (\<lambda>e. en_ContentTypeID e = ct) (db_Entries db);
          kept = (\<lambda>col. filter (\<lambda>l. \<not> (ln_TenantID l = tenant \<and> list_ex (lost_media paths col l) rows))) in
      db\<lparr>db_Media := kept (\<lambda>e. Some (en_Payload e)) (db_Media db),
         db_MediaPublished := kept en_PublishedPayload (db_MediaPublished db)\<rparr>)"

definition relinkEntryRelations :: "string \<Rightarrow> uuid \<Rightarrow> field list \<Rightarrow> entry_db \<Rightarrow> entry_db" where
  "relinkEntryRelations tenant ct survivors db =
     (let keep = relationFieldPaths survivors;
          ids = map en_ID (filter (\<lambda>e. en_ContentTypeID e = ct) (db_Entries db));
          kept = filter (\<lambda>l. \<not> (ln_TenantID l = tenant \<and> ln_EntryID l \<in> set ids \<and> ln_FieldPath l \<notin> set keep)) in
      db\<lparr>db_Relations := kept (db_Relations db), db_RelationsPublished := kept (db_RelationsPublished db)\<rparr>)"

section \<open>The verbs of a type\<close>

definition stripped_key :: "string \<Rightarrow> rewrite" where
  "stripped_key key = \<lparr>rw_Has = holds key, rw_Change = drop_key key, rw_Retext = True\<rparr>"

definition moved_key :: "string \<Rightarrow> string \<Rightarrow> rewrite" where
  "moved_key old new = \<lparr>rw_Has = holds old, rw_Change = move_key old new, rw_Retext = False\<rparr>"

definition on_type :: "uuid \<Rightarrow> (field list \<Rightarrow> field list) \<Rightarrow> entry_db \<Rightarrow> entry_db" where
  "on_type ct g db =
     db\<lparr>db_Types := map (\<lambda>t. if tr_ID t = ct then t\<lparr>tr_Type := (tr_Type t)\<lparr>ct_Fields := g (ct_Fields (tr_Type t))\<rparr>\<rparr> else t)
          (db_Types db)\<rparr>"

definition fields_at :: "uuid \<Rightarrow> entry_db \<Rightarrow> field list" where
  "fields_at ct db = (case find (\<lambda>t. tr_ID t = ct) (db_Types db) of None \<Rightarrow> [] | Some t \<Rightarrow> ct_Fields (tr_Type t))"

text \<open>
  \<open>ct\<close> is the type the service read, which names the survivors; the rows of the definition are
  those of the tables.  The reservations of a field belong to its row: they go with it, and they
  keep to it when its key changes.
\<close>

definition DeleteField_rows ::
    "string \<Rightarrow> type_record \<Rightarrow> field \<Rightarrow> write_actor \<Rightarrow> int \<Rightarrow> entry_db \<Rightarrow> go_error + entry_db" where
  "DeleteField_rows tenant t f a now db =
     and_then (bulk_rewrite (stripped_key (Key f)) a tenant (tr_ID t) now db) (\<lambda>db1.
     let survivors = withoutKey (ct_Fields (tr_Type t)) (Key f);
         db2 = (if linksMedia f then relinkEntryMedia tenant (tr_ID t) survivors db1 else db1);
         db3 = (if linksRelations f then relinkEntryRelations tenant (tr_ID t) survivors db2 else db2) in
     and_then (require (list_ex (\<lambda>g. Key g = Key f) (fields_at (tr_ID t) db3)) entry_not_found) (\<lambda>_.
     Inr ((on_type (tr_ID t) (\<lambda>fs. withoutKey fs (Key f)) db3)
            \<lparr>db_Unique := filter (\<lambda>u. uv_Field u \<noteq> (tr_ID t, Key f)) (db_Unique db3)\<rparr>)))"

definition errFieldExists_rows :: "string \<Rightarrow> go_error" where
  "errFieldExists_rows key = AppError (WithDetails (New ''CONTENT_FIELD_EXISTS'' 409) [(''field'', DStr key)])"

definition RenameField_rows ::
    "string \<Rightarrow> uuid \<Rightarrow> string \<Rightarrow> string \<Rightarrow> write_actor \<Rightarrow> int \<Rightarrow> entry_db \<Rightarrow> go_error + entry_db" where
  "RenameField_rows tenant ct old new a now db =
     and_then (bulk_rewrite (moved_key old new) a tenant ct now db) (\<lambda>db1.
     let keys = map (\<lambda>f. Key f) (fields_at ct db1) in
     and_then (require (\<not> (old \<in> set keys \<and> new \<in> set keys \<and> new \<noteq> old)) (errFieldExists_rows new)) (\<lambda>_.
     and_then (require (old \<in> set keys) entry_not_found) (\<lambda>_.
     Inr ((on_type ct (map (\<lambda>f. if Key f = old then set_key new f else f)) db1)
            \<lparr>db_Unique := map (\<lambda>u. if uv_Field u = (ct, old) then u\<lparr>uv_Field := (ct, new)\<rparr> else u) (db_Unique db1)\<rparr>))))"

text \<open>The cascade of the foreign keys; the service has counted the entries before.\<close>

definition DeleteContentType_rows :: "string \<Rightarrow> uuid \<Rightarrow> entry_db \<Rightarrow> go_error + entry_db" where
  "DeleteContentType_rows tenant ct db =
     (if \<not> list_ex (\<lambda>t. tr_TenantID t = tenant \<and> tr_ID t = ct) (db_Types db) then Inl entry_not_found
      else Inr (fold drop_entry (map en_ID (filter (\<lambda>e. en_ContentTypeID e = ct) (db_Entries db)))
             (db\<lparr>db_Types := filter (\<lambda>t. \<not> (tr_TenantID t = tenant \<and> tr_ID t = ct)) (db_Types db)\<rparr>)))"

section \<open>The verbs of a component\<close>

text \<open>
  A referrer is a type, by its id, with the field that refers to the component; the service found
  them before the transaction.  Every referrer has a statement of its own.  The row of the
  component itself, and what its absence answers, are those of \<open>Component_Verbs\<close>.
\<close>

type_synonym referrer = "uuid \<times> component_ref"

definition items_rewrite :: "string \<Rightarrow> string \<Rightarrow> string option \<Rightarrow> component_ref \<Rightarrow> rewrite" where
  "items_rewrite name sub new ref =
     \<lparr>rw_Has = has_subkey name ref sub,
      rw_Change = on_value (cr_FieldKey ref) (rewrite_value name ref (rewrite_item sub new)), rw_Retext = True\<rparr>"

definition zone_retag :: "string \<Rightarrow> string \<Rightarrow> component_ref \<Rightarrow> rewrite" where
  "zone_retag old new ref =
     \<lparr>rw_Has = zone_holds old (cr_FieldKey ref),
      rw_Change = on_value (cr_FieldKey ref) (rewrite_value old ref (retag_item new)), rw_Retext = False\<rparr>"

fun rewrite_all ::
    "(component_ref \<Rightarrow> rewrite) \<Rightarrow> referrer list \<Rightarrow> write_actor \<Rightarrow> string \<Rightarrow> int \<Rightarrow> entry_db \<Rightarrow> go_error + entry_db" where
  "rewrite_all w [] a tenant now db = Inr db"
| "rewrite_all w ((ct, ref) # refs) a tenant now db =
     and_then (bulk_rewrite (w ref) a tenant ct now db) (\<lambda>db1. rewrite_all w refs a tenant now db1)"

text \<open>The definition of a component is resolved in the fields that refer to it.\<close>

definition in_component :: "string \<Rightarrow> (field list \<Rightarrow> field list) \<Rightarrow> field \<Rightarrow> field" where
  "in_component name g f =
     Field (attrs f) (if refers_by_id name f then g (ComponentFields f) else ComponentFields f)
       (map (\<lambda>(n, fs). (n, if n = name then g fs else fs)) (ZoneFields f))"

definition on_component :: "string \<Rightarrow> string \<Rightarrow> (field list \<Rightarrow> field list) \<Rightarrow> entry_db \<Rightarrow> entry_db" where
  "on_component tenant name g db =
     db\<lparr>db_Types := map (\<lambda>t. if tr_TenantID t = tenant
          then t\<lparr>tr_Type := (tr_Type t)\<lparr>ct_Fields := map (in_component name g) (ct_Fields (tr_Type t))\<rparr>\<rparr> else t) (db_Types db)\<rparr>"

definition RenameComponentField_rows ::
    "string \<Rightarrow> string \<Rightarrow> referrer list \<Rightarrow> string \<Rightarrow> string \<Rightarrow> write_actor \<Rightarrow> int \<Rightarrow> entry_db \<Rightarrow> go_error + entry_db" where
  "RenameComponentField_rows tenant name refs old new a now db =
     and_then (rewrite_all (items_rewrite name old (Some new)) refs a tenant now db) (\<lambda>db1.
     Inr (on_component tenant name (map (\<lambda>f. if Key f = old then set_key new f else f)) db1))"

definition relink_types :: "string \<Rightarrow> uuid list \<Rightarrow> entry_db \<Rightarrow> entry_db" where
  "relink_types tenant cts db = fold (\<lambda>ct d. relinkEntryMedia tenant ct (fields_at ct d) d) cts db"

text \<open>\<open>sf\<close> is the sub-field as the component the service read has it, if it has it.\<close>

definition DeleteComponentField_rows ::
    "string \<Rightarrow> string \<Rightarrow> referrer list \<Rightarrow> string \<Rightarrow> field option \<Rightarrow> write_actor \<Rightarrow> int \<Rightarrow> entry_db \<Rightarrow> go_error + entry_db" where
  "DeleteComponentField_rows tenant name refs key sf a now db =
     and_then (rewrite_all (items_rewrite name key None) refs a tenant now db) (\<lambda>db1.
     let db2 = on_component tenant name (\<lambda>fs. withoutKey fs key) db1 in
     Inr (if (case sf of Some f \<Rightarrow> linksMedia f | None \<Rightarrow> False) then relink_types tenant (map fst refs) db2 else db2))"

definition renamed_in_type :: "string \<Rightarrow> string \<Rightarrow> field \<Rightarrow> field" where
  "renamed_in_type old new f =
     (let g = renamed_reference old new f in
      Field (attrs g) (ComponentFields g) (map (\<lambda>(n, fs). (if n = old then new else n, fs)) (ZoneFields g)))"

definition RenameComponent_rows ::
    "string \<Rightarrow> string \<Rightarrow> referrer list \<Rightarrow> string \<Rightarrow> write_actor \<Rightarrow> int \<Rightarrow> entry_db \<Rightarrow> go_error + entry_db" where
  "RenameComponent_rows tenant name refs new a now db =
     and_then (rewrite_all (zone_retag name new) (filter (\<lambda>(ct, ref). cr_Zone ref) refs) a tenant now db) (\<lambda>db1.
     Inr (db1\<lparr>db_Types := map (\<lambda>t. if tr_TenantID t = tenant
          then t\<lparr>tr_Type := (tr_Type t)\<lparr>ct_Fields := map (renamed_in_type name new) (ct_Fields (tr_Type t))\<rparr>\<rparr> else t)
          (db_Types db1)\<rparr>))"

end
