(* ===== verification/Entry_Lifecycle.thy ===== *)
theory Entry_Lifecycle
  imports Entry_Effects Entry_Rewrites
begin

text \<open>
  The invariant of the entry tables, kept by every call whatever the state its checks were
  made in, and the abstract specification of publishing that the transactions refine.
\<close>

section \<open>The invariant\<close>

text \<open>The revision in force at a version: the newest one not above it.\<close>

definition in_force :: "entry_revision list \<Rightarrow> uuid \<Rightarrow> nat \<Rightarrow> json \<Rightarrow> bool" where
  "in_force revs i n p \<longleftrightarrow>
     (\<exists>r \<in> set revs. er_EntryID r = i \<and> er_Version r \<le> n \<and> er_Payload r = p \<and>
        (\<forall>r' \<in> set revs. er_EntryID r' = i \<and> er_Version r' \<le> n \<longrightarrow> er_Version r' \<le> er_Version r))"

definition numbers_of :: "publish_revision list \<Rightarrow> uuid \<Rightarrow> nat list" where
  "numbers_of rels i = map pr_RevisionNo (filter (\<lambda>r. pr_EntryID r = i) rels)"

text \<open>
  The latest release of an entry holds its snapshot for as long as the published version is the
  version released; a rewrite of the schema moves both.  At most twenty releases are kept.
\<close>

definition shown_release :: "entry_row \<Rightarrow> publish_revision \<Rightarrow> bool" where
  "shown_release e r \<longleftrightarrow> pr_Version r \<le> en_Version e \<and>
     (\<exists>v. en_PublishedVersion e = Some v \<and> pr_Version r \<le> v \<and>
        (v = pr_Version r \<longrightarrow> en_PublishedPayload e = Some (pr_Payload r)))"

definition releases_ok :: "publish_revision list \<Rightarrow> entry_row \<Rightarrow> bool" where
  "releases_ok rels e \<longleftrightarrow>
     distinct (numbers_of rels (en_ID e)) \<and> length (numbers_of rels (en_ID e)) \<le> MaxPublishRevisionsPerEntry \<and>
     (en_PublishedPayload e \<noteq> None \<longrightarrow>
        (\<exists>r \<in> set rels. pr_EntryID r = en_ID e \<and> shown_release e r \<and>
           (\<forall>n \<in> set (numbers_of rels (en_ID e)). n \<le> pr_RevisionNo r)))"

definition versions_of :: "entry_revision list \<Rightarrow> uuid \<Rightarrow> nat list" where
  "versions_of revs i = map er_Version (filter (\<lambda>r. er_EntryID r = i) revs)"

definition entry_ok :: "entry_revision list \<Rightarrow> publish_revision list \<Rightarrow> entry_row \<Rightarrow> bool" where
  "entry_ok revs rels e \<longleftrightarrow>
     entry_check e \<and> 0 < en_Version e \<and>
     in_force revs (en_ID e) (en_Version e) (en_Payload e) \<and>
     (\<forall>r \<in> set revs. er_EntryID r = en_ID e \<longrightarrow> er_Version r \<le> en_Version e) \<and>
     distinct (versions_of revs (en_ID e)) \<and> releases_ok rels e"

definition pending_once :: "entry_schedule list \<Rightarrow> bool" where
  "pending_once ss \<longleftrightarrow> sorted_wrt (\<lambda>s s'. sc_ID s \<noteq> sc_ID s' \<and>
     (sc_State s = ScheduleStatePending \<and> sc_State s' = ScheduleStatePending \<longrightarrow> sc_EntryID s \<noteq> sc_EntryID s')) ss"

definition owned_by :: "uuid set \<Rightarrow> entry_revision list \<Rightarrow> publish_revision list \<Rightarrow> entry_schedule list \<Rightarrow> bool" where
  "owned_by ids revs rels ss \<longleftrightarrow>
     er_EntryID ` set revs \<subseteq> ids \<and> pr_EntryID ` set rels \<subseteq> ids \<and> sc_EntryID ` set ss \<subseteq> ids"

fun life_ok :: "life \<Rightarrow> bool" where
  "life_ok (es, revs, rels, ss) \<longleftrightarrow>
     distinct (map en_ID es) \<and> (\<forall>e \<in> set es. entry_ok revs rels e) \<and>
     owned_by (en_ID ` set es) revs rels ss \<and> pending_once ss \<and> (\<forall>s \<in> set ss. schedule_check s)"

definition db_ok :: "entry_db \<Rightarrow> bool" where
  "db_ok db \<longleftrightarrow> life_ok (life_of db)"

section \<open>Every transaction keeps it\<close>

lemma put_row_ids [simp]: "map en_ID (put_row e rows) = map en_ID rows"
  by (auto simp: put_row_def)

lemma put_row_id_set [simp]: "en_ID ` set (put_row e rows) = en_ID ` set rows"
  by (metis put_row_ids image_set)

lemma put_row_member: "x \<in> set (put_row e rows) \<Longrightarrow> x = e \<or> (x \<in> set rows \<and> en_ID x \<noteq> en_ID e)"
  by (auto simp: put_row_def split: if_splits)

lemma in_force_cons_other:
  "er_EntryID r \<noteq> i \<Longrightarrow> in_force (r # revs) i n p \<longleftrightarrow> in_force revs i n p"
  by (auto simp: in_force_def)

lemma in_force_new:
  "er_EntryID r = i \<Longrightarrow> er_Version r = n \<Longrightarrow> er_Payload r = p \<Longrightarrow> in_force (r # revs) i n p"
  by (auto simp: in_force_def)

lemma in_force_later:
  assumes "in_force revs i n p" and "\<forall>r \<in> set revs. er_EntryID r = i \<longrightarrow> er_Version r \<le> n" and "n \<le> m"
  shows "in_force revs i m p"
  using assms unfolding in_force_def by (meson le_trans)

lemma entry_ok_revision_other:
  "er_EntryID r \<noteq> en_ID e \<Longrightarrow> entry_ok (r # revs) rels e \<longleftrightarrow> entry_ok revs rels e"
  by (simp add: entry_ok_def in_force_cons_other versions_of_def)

lemma releases_ok_same:
  assumes "releases_ok rels e" and "en_ID e' = en_ID e" and "en_PublishedPayload e' = en_PublishedPayload e"
    and "en_PublishedVersion e' = en_PublishedVersion e" and "en_Version e \<le> en_Version e'"
  shows "releases_ok rels e'"
  using assms unfolding releases_ok_def shown_release_def by (auto intro: le_trans)

text \<open>Changing the state of schedules keeps their table in order when none becomes pending.\<close>

lemma pending_once_map:
  assumes "pending_once ss"
    and "\<And>s. s \<in> set ss \<Longrightarrow> sc_ID (g s) = sc_ID s \<and> sc_EntryID (g s) = sc_EntryID s \<and>
      (sc_State (g s) = ScheduleStatePending \<longrightarrow> sc_State s = ScheduleStatePending)"
  shows "pending_once (map g ss)"
  using assms unfolding pending_once_def sorted_wrt_map
  by (auto elim!: sorted_wrt_mono_rel [rotated])

lemma schedule_check_simple:
  "schedule_check s \<Longrightarrow> sc_State s = ScheduleStatePending \<Longrightarrow>
     st \<in> {ScheduleStateStale, ScheduleStateSuperseded, ScheduleStateCancelled} \<Longrightarrow> schedule_check (s\<lparr>sc_State := st\<rparr>)"
  by (auto simp: schedule_check_def AllScheduleStates_def schedule_consts)

lemma restated_schedules:
  assumes "pending_once ss" and "\<forall>s \<in> set ss. schedule_check s"
    and "\<And>s. P s \<Longrightarrow> sc_State s = ScheduleStatePending"
    and "st \<in> {ScheduleStateStale, ScheduleStateSuperseded, ScheduleStateCancelled}"
  defines "ss' \<equiv> map (\<lambda>s. if P s then s\<lparr>sc_State := st\<rparr> else s) ss"
  shows "pending_once ss' \<and> (\<forall>s \<in> set ss'. schedule_check s) \<and> sc_EntryID ` set ss' = sc_EntryID ` set ss"
proof (intro conjI)
  show "pending_once ss'" unfolding ss'_def
    using assms(4) by (intro pending_once_map [OF assms(1)]) (auto simp: schedule_consts)
  show "\<forall>s \<in> set ss'. schedule_check s"
    using assms(2-4) by (auto simp: ss'_def intro: schedule_check_simple)
  show "sc_EntryID ` set ss' = sc_EntryID ` set ss"
    unfolding ss'_def set_map image_image by (rule image_cong) auto
qed

lemma stale_schedules_ok:
  "pending_once ss \<Longrightarrow> \<forall>s \<in> set ss. schedule_check s \<Longrightarrow>
   pending_once (stale_schedules e ss) \<and> (\<forall>s \<in> set (stale_schedules e ss). schedule_check s) \<and>
   sc_EntryID ` set (stale_schedules e ss) = sc_EntryID ` set ss"
  unfolding stale_schedules_def by (rule restated_schedules) (auto simp: staled_by_def pending_of_def)

lemma supersede_schedules_ok:
  "pending_once ss \<Longrightarrow> \<forall>s \<in> set ss. schedule_check s \<Longrightarrow>
   pending_once (supersede_schedules tenant i ss) \<and> (\<forall>s \<in> set (supersede_schedules tenant i ss). schedule_check s) \<and>
   sc_EntryID ` set (supersede_schedules tenant i ss) = sc_EntryID ` set ss"
  unfolding supersede_schedules_def by (rule restated_schedules) (auto simp: pending_of_def)


section \<open>The four writes keep it\<close>

lemma in_force_filter:
  "i \<noteq> j \<Longrightarrow> in_force (filter (\<lambda>r. er_EntryID r \<noteq> j) revs) i n p \<longleftrightarrow> in_force revs i n p"
  by (auto simp: in_force_def)

lemma versions_of_filter:
  "i \<noteq> j \<Longrightarrow> versions_of (filter (\<lambda>r. er_EntryID r \<noteq> j) revs) i = versions_of revs i"
  by (induction revs) (auto simp: versions_of_def)

text \<open>What an entry is owed by the tables depends on its own releases only.\<close>

lemma releases_ok_local:
  assumes "filter (\<lambda>r. pr_EntryID r = en_ID e) rels' = filter (\<lambda>r. pr_EntryID r = en_ID e) rels"
  shows "releases_ok rels' e \<longleftrightarrow> releases_ok rels e"
proof -
  have "\<And>P. (\<exists>r \<in> set rels'. pr_EntryID r = en_ID e \<and> P r) \<longleftrightarrow> (\<exists>r \<in> set rels. pr_EntryID r = en_ID e \<and> P r)"
    using arg_cong [OF assms, of set] by (simp add: set_filter) blast
  then show ?thesis unfolding releases_ok_def numbers_of_def assms by simp
qed

lemma life_ok_parts:
  assumes "life_ok (es, revs, rels, ss)"
  shows "distinct (map en_ID es)" "\<And>e. e \<in> set es \<Longrightarrow> entry_ok revs rels e"
    "owned_by (en_ID ` set es) revs rels ss" "pending_once ss" "\<forall>s \<in> set ss. schedule_check s"
  using assms by auto

lemma update_keeps:
  assumes "life_ok (es, revs, rels, ss)" and r: "r \<in> set es" and c: "entry_check (saved_row e r)"
  shows "life_ok (put_row (saved_row e r) es, revision_of (saved_row e r) # revs, rels, stale_schedules x ss)"
proof -
  note ok = life_ok_parts [OF assms(1)]
  let ?r = "saved_row e r"
  have rok: "entry_ok revs rels r" using ok(2) r by blast
  have new: "entry_ok (revision_of ?r # revs) rels ?r"
    unfolding entry_ok_def
  proof (intro conjI)
    show "entry_check ?r" by (rule c)
    show "0 < en_Version ?r" by simp
    show "in_force (revision_of ?r # revs) (en_ID ?r) (en_Version ?r) (en_Payload ?r)"
      by (rule in_force_new) (simp_all add: revision_of_def)
    show "\<forall>x \<in> set (revision_of ?r # revs). er_EntryID x = en_ID ?r \<longrightarrow> er_Version x \<le> en_Version ?r"
      using rok by (auto simp: entry_ok_def revision_of_def)
    show "distinct (versions_of (revision_of ?r # revs) (en_ID ?r))"
      using rok by (auto simp: entry_ok_def revision_of_def versions_of_def)
    show "releases_ok rels ?r"
      by (rule releases_ok_same [of _ r]) (use rok in \<open>auto simp: entry_ok_def\<close>)
  qed
  have other: "entry_ok (revision_of ?r # revs) rels x" if "x \<in> set es" "en_ID x \<noteq> en_ID ?r" for x
    using ok(2) [OF that(1)] that(2) by (subst entry_ok_revision_other) (auto simp: revision_of_def)
  have "er_EntryID (revision_of ?r) \<in> en_ID ` set es" using r by (simp add: revision_of_def)
  with stale_schedules_ok [OF ok(4,5), of x] ok(1,3) new other show ?thesis
    by (auto simp: owned_by_def dest!: put_row_member)
qed

lemma owned_fresh:
  assumes "owned_by ids revs rels ss" and "i \<notin> ids"
  shows "\<forall>r \<in> set revs. er_EntryID r \<noteq> i" "\<forall>r \<in> set rels. pr_EntryID r \<noteq> i"
  using assms unfolding owned_by_def by (metis imageI subset_iff)+

lemma create_keeps:
  assumes "life_ok (es, revs, rels, ss)" and fresh: "en_ID e0 \<notin> en_ID ` set es" and c: "entry_check (inserted_row e0)"
  shows "life_ok (inserted_row e0 # es, revision_of (inserted_row e0) # revs, rels, ss)"
proof -
  note ok = life_ok_parts [OF assms(1)]
  let ?r = "inserted_row e0"
  have i: "en_ID ?r = en_ID e0" "0 < en_Version ?r" "en_PublishedPayload ?r = None"
    by (simp_all add: inserted_row_def created_struct_def Let_def)
  have own: "owned_by (en_ID ` set es) revs rels ss" by (rule ok(3))
  have none: "numbers_of rels (en_ID ?r) = []"
    using owned_fresh(2) [OF own fresh] i by (auto simp: numbers_of_def filter_empty_conv)
  have new: "entry_ok (revision_of ?r # revs) rels ?r"
    unfolding entry_ok_def
  proof (intro conjI)
    show "entry_check ?r" by (rule c)
    show "0 < en_Version ?r" by (rule i)
    show "in_force (revision_of ?r # revs) (en_ID ?r) (en_Version ?r) (en_Payload ?r)"
      by (rule in_force_new) (simp_all add: revision_of_def)
    show "\<forall>x \<in> set (revision_of ?r # revs). er_EntryID x = en_ID ?r \<longrightarrow> er_Version x \<le> en_Version ?r"
      using owned_fresh(1) [OF own fresh] i by (auto simp: revision_of_def)
    show "distinct (versions_of (revision_of ?r # revs) (en_ID ?r))"
      using owned_fresh(1) [OF own fresh] i by (auto simp: revision_of_def versions_of_def)
    show "releases_ok rels ?r" using none i by (simp add: releases_ok_def)
  qed
  have other: "entry_ok (revision_of ?r # revs) rels x" if "x \<in> set es" for x
    using ok(2) [OF that] that fresh i by (subst entry_ok_revision_other) (auto simp: revision_of_def)
  show ?thesis using ok(1,3,4,5) new other fresh i
    by (auto simp: owned_by_def revision_of_def)
qed

lemma drop_keeps:
  assumes "life_ok (life_of db)"
  shows "life_ok (life_of (drop_entry i db))"
proof -
  have l: "life_of db = (db_Entries db, db_Revisions db, db_Releases db, db_Schedules db)" by (rule life_of_def)
  note ok = life_ok_parts [OF assms [unfolded l]]
  have "entry_ok (filter (\<lambda>r. er_EntryID r \<noteq> i) (db_Revisions db)) (filter (\<lambda>r. pr_EntryID r \<noteq> i) (db_Releases db)) e"
    if "e \<in> set (db_Entries db)" "en_ID e \<noteq> i" for e
  proof -
    have "filter (\<lambda>r. pr_EntryID r = en_ID e) (filter (\<lambda>r. pr_EntryID r \<noteq> i) (db_Releases db)) =
        filter (\<lambda>r. pr_EntryID r = en_ID e) (db_Releases db)"
      using that(2) by (auto simp: filter_filter intro: filter_cong)
    from releases_ok_local [OF this] ok(2) [OF that(1)] that(2) show ?thesis
      by (auto simp: entry_ok_def in_force_filter versions_of_filter)
  qed
  moreover have "distinct (map en_ID (filter (\<lambda>e. en_ID e \<noteq> i) (db_Entries db)))"
    using ok(1) by (rule distinct_map_filter)
  moreover have "pending_once (filter (\<lambda>s. sc_EntryID s \<noteq> i) (db_Schedules db))"
    using ok(4) unfolding pending_once_def by (rule sorted_wrt_filter)
  ultimately show ?thesis using ok(3,5)
    by (auto simp: life_of_def drop_entry_def owned_by_def image_iff)
qed


text \<open>A release numbers itself above all others and drops those twenty below it.\<close>

lemma fold_max_bounds:
  "(x::nat) \<in> set xs \<or> x = a \<Longrightarrow> x \<le> fold max xs a"
  using Max_ge [of "set (a # xs)" x] unfolding Max.set_eq_fold by auto

lemma bounded_distinct:
  assumes "distinct ns" and "\<forall>k \<in> set ns. k \<le> (n::nat) \<and> n < k + m"
  shows "length ns \<le> m"
proof -
  have "set ns \<subseteq> {Suc n - m..n}" using assms(2) by auto
  then have "card (set ns) \<le> card {Suc n - m..n}" by (intro card_mono) auto
  then show ?thesis using assms(1) by (simp add: distinct_card)
qed

lemma releases_after_other:
  assumes "en_ID x \<noteq> en_ID e"
  shows "filter (\<lambda>r. pr_EntryID r = en_ID x) (releases_after new_id o' e db) =
     filter (\<lambda>r. pr_EntryID r = en_ID x) (db_Releases db)"
  using assms
  by (auto simp: releases_after_def Let_def filter_filter kept_release_def release_row_def intro!: filter_cong)

lemma kept_numbers:
  "map pr_RevisionNo (filter (\<lambda>r. pr_EntryID r = i) (filter (kept_release i n) rels)) =
     filter (\<lambda>k. n < k + MaxPublishRevisionsPerEntry) (numbers_of rels i)"
  by (induction rels) (auto simp: kept_release_def numbers_of_def)

lemma numbers_after:
  fixes e db defines "n \<equiv> next_release_no (en_ID e) db"
  shows "numbers_of (releases_after new_id o' e db) (en_ID e) =
     n # filter (\<lambda>k. n < k + MaxPublishRevisionsPerEntry) (numbers_of (db_Releases db) (en_ID e))"
proof -
  have "kept_release (en_ID e) n (release_row new_id o' e n (en_Payload e) (en_Version e))"
    by (simp add: kept_release_def release_row_def MaxPublishRevisionsPerEntry_def)
  then show ?thesis
    using kept_numbers [of "en_ID e" n "db_Releases db"]
    by (simp add: numbers_of_def releases_after_def n_def release_row_def Let_def)
qed

lemma next_release_above:
  "k \<in> set (numbers_of (db_Releases db) i) \<Longrightarrow> k < next_release_no i db"
  unfolding next_release_no_def release_numbers_def numbers_of_def by (simp add: fold_max_bounds less_Suc_eq_le)

lemma releases_after_ok:
  assumes "distinct (numbers_of (db_Releases db) (en_ID e))"
    and "en_PublishedPayload e = Some (en_Payload e)" and "en_PublishedVersion e = Some (en_Version e)"
  shows "releases_ok (releases_after new_id o' e db) e"
  unfolding releases_ok_def
proof (intro conjI impI)
  let ?n = "next_release_no (en_ID e) db"
  note num = numbers_after [of new_id o' e db]
  show d: "distinct (numbers_of (releases_after new_id o' e db) (en_ID e))"
    using assms(1) next_release_above [of _ db "en_ID e"] by (fastforce simp: num)
  show "length (numbers_of (releases_after new_id o' e db) (en_ID e)) \<le> MaxPublishRevisionsPerEntry"
  proof (rule bounded_distinct [OF d, of ?n])
    show "\<forall>k \<in> set (numbers_of (releases_after new_id o' e db) (en_ID e)).
        k \<le> ?n \<and> ?n < k + MaxPublishRevisionsPerEntry"
      using next_release_above [of _ db "en_ID e"]
      by (auto simp: num MaxPublishRevisionsPerEntry_def less_imp_le)
  qed
  let ?new = "release_row new_id o' e ?n (en_Payload e) (en_Version e)"
  have "?new \<in> set (releases_after new_id o' e db)"
    by (simp add: releases_after_def Let_def kept_release_def release_row_def MaxPublishRevisionsPerEntry_def)
  moreover have "\<forall>k \<in> set (numbers_of (releases_after new_id o' e db) (en_ID e)). k \<le> pr_RevisionNo ?new"
    using next_release_above [of _ db "en_ID e"] by (auto simp: num release_row_def less_imp_le)
  ultimately show "\<exists>r \<in> set (releases_after new_id o' e db). pr_EntryID r = en_ID e \<and> shown_release e r \<and>
      (\<forall>n \<in> set (numbers_of (releases_after new_id o' e db) (en_ID e)). n \<le> pr_RevisionNo r)"
    using assms(2,3) by (intro bexI [of _ ?new]) (auto simp: release_row_def shown_release_def)
qed

lemma release_keeps:
  fixes db e st pa r
  defines "r' \<equiv> released_row e st pa r"
  assumes "life_ok (life_of db)" and r: "r \<in> set (db_Entries db)" and c: "entry_check r'"
  shows "life_ok (put_row r' (db_Entries db), db_Revisions db,
      if st = StatusPublished then releases_after new_id o' r' db else db_Releases db,
      supersede_schedules tenant i (db_Schedules db))"
proof -
  note ok = life_ok_parts [OF assms(2) [unfolded life_of_def]]
  let ?rels = "if st = StatusPublished then releases_after new_id o' r' db else db_Releases db"
  have keys: "en_ID r' = en_ID r" "en_Version r' = Suc (en_Version r)" "en_Payload r' = en_Payload r"
    by (simp_all add: r'_def)
  have rok: "entry_ok (db_Revisions db) (db_Releases db) r" using ok(2) r by blast
  have rel: "releases_ok ?rels r'"
  proof (cases "st = StatusPublished")
    case True
    have "releases_ok (releases_after new_id o' r' db) r'"
    proof (rule releases_after_ok)
      show "distinct (numbers_of (db_Releases db) (en_ID r'))"
        using rok keys by (simp add: entry_ok_def releases_ok_def)
      show "en_PublishedPayload r' = Some (en_Payload r')" "en_PublishedVersion r' = Some (en_Version r')"
        using True by (simp_all add: r'_def released_row_def Let_def)
    qed
    with True show ?thesis by simp
  next
    case False
    have "releases_ok (db_Releases db) r'"
      by (rule releases_ok_same [of _ r]) (use rok False in \<open>auto simp: entry_ok_def r'_def released_row_def Let_def\<close>)
    with False show ?thesis by simp
  qed
  have new: "entry_ok (db_Revisions db) ?rels r'"
    unfolding entry_ok_def
  proof (intro conjI)
    show "entry_check r'" by (rule c)
    show "0 < en_Version r'" by (simp add: keys)
    have "in_force (db_Revisions db) (en_ID r) (en_Version r') (en_Payload r)"
      by (rule in_force_later [of _ _ "en_Version r"]) (use rok keys in \<open>auto simp: entry_ok_def\<close>)
    then show "in_force (db_Revisions db) (en_ID r') (en_Version r') (en_Payload r')" by (simp only: keys)
    show "\<forall>x \<in> set (db_Revisions db). er_EntryID x = en_ID r' \<longrightarrow> er_Version x \<le> en_Version r'"
      using rok by (auto simp: entry_ok_def keys)
    show "distinct (versions_of (db_Revisions db) (en_ID r'))" using rok by (simp add: entry_ok_def keys)
    show "releases_ok ?rels r'" by (rule rel)
  qed
  have other: "entry_ok (db_Revisions db) ?rels x" if "x \<in> set (db_Entries db)" "en_ID x \<noteq> en_ID r'" for x
  proof -
    have "filter (\<lambda>r. pr_EntryID r = en_ID x) ?rels = filter (\<lambda>r. pr_EntryID r = en_ID x) (db_Releases db)"
      using releases_after_other [OF that(2)] by simp
    from releases_ok_local [OF this] ok(2) [OF that(1)] show ?thesis by (simp add: entry_ok_def)
  qed
  have "pr_EntryID ` set ?rels \<subseteq> insert (en_ID r) (pr_EntryID ` set (db_Releases db))"
    by (auto simp: releases_after_def Let_def release_row_def keys)
  also have "\<dots> \<subseteq> en_ID ` set (db_Entries db)" using r ok(3) by (simp add: owned_by_def)
  finally have "owned_by (en_ID ` set (db_Entries db)) (db_Revisions db) ?rels (db_Schedules db)"
    using ok(3) by (simp only: owned_by_def)
  then have own: "owned_by (en_ID ` set (put_row r' (db_Entries db))) (db_Revisions db) ?rels
      (supersede_schedules tenant i (db_Schedules db))"
    using supersede_schedules_ok [OF ok(4,5), of tenant i] by (simp only: owned_by_def put_row_id_set)
  have all: "\<forall>x \<in> set (put_row r' (db_Entries db)). entry_ok (db_Revisions db) ?rels x"
    using put_row_member new other by blast
  show ?thesis
    unfolding life_ok.simps put_row_ids
    using supersede_schedules_ok [OF ok(4,5), of tenant i] ok(1) own all by (elim conjE, intro conjI) assumption+
qed


section \<open>Schedules\<close>

lemma life_schedules:
  assumes "life_ok (es, revs, rels, ss)" and "pending_once ss'" and "\<forall>s \<in> set ss'. schedule_check s"
    and "sc_EntryID ` set ss' \<subseteq> en_ID ` set es"
  shows "life_ok (es, revs, rels, ss')"
  using assms by (simp add: owned_by_def)

lemma db_ok_life: "db_ok db \<longleftrightarrow> life_ok (db_Entries db, db_Revisions db, db_Releases db, db_Schedules db)"
  by (simp only: db_ok_def life_of_def)

lemma schedule_create_keeps:
  assumes "CreateEntrySchedule s db = Inr db'" and "db_ok db"
  shows "db_ok db'"
proof -
  from assms(1) have c: "schedule_check s" "row_id_exists (sc_EntryID s) db"
    and f: "\<not> list_ex (\<lambda>r. sc_ID r = sc_ID s \<or>
        (sc_State s = ScheduleStatePending \<and> sc_State r = ScheduleStatePending \<and> sc_EntryID r = sc_EntryID s))
      (db_Schedules db)" and d: "db' = db\<lparr>db_Schedules := s # db_Schedules db\<rparr>"
    by (auto simp: CreateEntrySchedule_def split: if_splits)
  note ok = life_ok_parts [OF assms(2) [unfolded db_ok_life]]
  have "pending_once (s # db_Schedules db)"
    using f ok(4) unfolding pending_once_def by (auto simp: list_ex_iff)
  moreover have "sc_EntryID s \<in> en_ID ` set (db_Entries db)"
    using c(2) by (auto simp: row_id_exists_def list_ex_iff intro: rev_image_eqI)
  ultimately show ?thesis
    using life_schedules [OF assms(2) [unfolded db_ok_life], of "s # db_Schedules db"] c(1) ok(3,5)
    by (simp add: db_ok_life d owned_by_def)
qed

lemma schedule_cancel_keeps:
  assumes "CancelEntrySchedule tenant i db = Inr (s, db')" and "db_ok db"
  shows "db_ok db'"
proof -
  let ?ss = "map (\<lambda>r. if pending_of tenant i r then r\<lparr>sc_State := ScheduleStateCancelled\<rparr> else r) (db_Schedules db)"
  note ok = life_ok_parts [OF assms(2) [unfolded db_ok_life]]
  have d: "db' = db\<lparr>db_Schedules := ?ss\<rparr>"
    using assms(1) by (auto simp: CancelEntrySchedule_def split: option.splits)
  have "pending_once ?ss \<and> (\<forall>s \<in> set ?ss. schedule_check s) \<and> sc_EntryID ` set ?ss = sc_EntryID ` set (db_Schedules db)"
    by (rule restated_schedules [OF ok(4,5)]) (auto simp: pending_of_def)
  with life_schedules [OF assms(2) [unfolded db_ok_life], of ?ss] ok(3) show ?thesis
    by (simp add: db_ok_life d owned_by_def)
qed

lemma schedule_finish_keeps:
  assumes "FinishEntrySchedule tenant i state ex msg db = Inr db'" and "db_ok db"
  shows "db_ok db'"
proof -
  define hit where "hit = (\<lambda>s :: entry_schedule. sc_TenantID s = tenant \<and> sc_ID s = i \<and> sc_State s = ScheduleStatePending)"
  define settle where "settle = (\<lambda>s :: entry_schedule. s\<lparr>sc_State := state, sc_ExecutedAt := ex, sc_Error := msg\<rparr>)"
  let ?g = "\<lambda>s. if hit s then settle s else s"
  note ok = life_ok_parts [OF assms(2) [unfolded db_ok_life]]
  from finish_schedule_effect [OF assms(1)]
  have d: "db' = db\<lparr>db_Schedules := map ?g (db_Schedules db)\<rparr>"
    and c: "\<forall>s \<in> set (db_Schedules db). hit s \<longrightarrow> schedule_check (settle s)"
    by (simp_all add: hit_def settle_def)
  have "pending_once (map ?g (db_Schedules db))"
    by (rule pending_once_map [OF ok(4)]) (simp add: settle_def hit_def)
  moreover have "\<forall>s \<in> set (map ?g (db_Schedules db)). schedule_check s" using c ok(5) by auto
  moreover have "sc_EntryID ` set (map ?g (db_Schedules db)) = sc_EntryID ` set (db_Schedules db)"
    unfolding set_map image_image by (rule image_cong) (simp_all add: settle_def)
  ultimately show ?thesis
    using life_schedules [OF assms(2) [unfolded db_ok_life], of "map ?g (db_Schedules db)"] ok(3)
    by (simp add: db_ok_life d owned_by_def)
qed

section \<open>The rewrites of the schema\<close>

lemma rewritten_row_keys [simp]: "en_ID (rewritten_row w a now e) = en_ID e"
  "en_Payload (rewritten_row w a now e) = changed_copy w (en_Payload e)"
  "en_Version (rewritten_row w a now e) = (if copy_has w (en_Payload e) then Suc (en_Version e) else en_Version e)"
  "en_PublishedPayload (rewritten_row w a now e) = map_option (changed_copy w) (en_PublishedPayload e)"
  "en_PublishedVersion (rewritten_row w a now e) =
     (if snapshot_has w e then map_option Suc (en_PublishedVersion e) else en_PublishedVersion e)"
  "en_Status (rewritten_row w a now e) = en_Status e"
  by (simp_all add: rewritten_row_def Let_def)

lemma changed_copy_same: "\<not> copy_has w p \<Longrightarrow> changed_copy w p = p"
  by (cases p) (simp_all add: changed_copy_def copy_has_def)

lemma after_rewrite_id [simp]: "en_ID (after_rewrite w a tenant ct now e) = en_ID e"
  by (simp add: after_rewrite_def)

lemma bulk_effect:
  assumes "bulk_rewrite w a tenant ct now db = Inr db'"
  shows "life_of db' = (map (after_rewrite w a tenant ct now) (db_Entries db),
      rewrite_revisions w a tenant ct now (db_Entries db) @ db_Revisions db, db_Releases db, db_Schedules db) \<and>
    (\<forall>e \<in> set (db_Entries db). concerned w tenant ct e \<longrightarrow> entry_check (rewritten_row w a now e))"
  using assms by (auto simp: bulk_rewrite_def Let_def life_of_def list_all_iff split: if_splits)

text \<open>The revisions of a rewrite are one for each row whose working copy it changes.\<close>

lemma rewrite_revisions_of:
  assumes "distinct (map en_ID es)" and "e \<in> set es"
  shows "filter (\<lambda>r. er_EntryID r = en_ID e) (rewrite_revisions w a tenant ct now es) =
    (if concerned w tenant ct e \<and> copy_has w (en_Payload e) then [revision_of (rewritten_row w a now e)] else [])"
proof -
  let ?P = "\<lambda>e. concerned w tenant ct e \<and> copy_has w (en_Payload e)"
  have one: "filter (\<lambda>x. en_ID x = en_ID e) es = [e]"
    using assms
  proof (induction es)
    case (Cons x xs)
    then show ?case by (cases "x = e") (auto simp: filter_empty_conv image_iff)
  qed simp
  have "filter (\<lambda>r. er_EntryID r = en_ID e) (rewrite_revisions w a tenant ct now es) =
      map (\<lambda>x. revision_of (rewritten_row w a now x)) (filter ?P (filter (\<lambda>x. en_ID x = en_ID e) es))"
    by (simp add: rewrite_revisions_def filter_map comp_def revision_of_def conj_commute)
  then show ?thesis by (simp add: one)
qed

text \<open>What an entry is owed depends on its own revisions only.\<close>

lemma entry_ok_local:
  assumes "filter (\<lambda>r. er_EntryID r = en_ID e) revs' = filter (\<lambda>r. er_EntryID r = en_ID e) revs"
  shows "entry_ok revs' rels e \<longleftrightarrow> entry_ok revs rels e"
proof -
  have s: "{r \<in> set revs'. er_EntryID r = en_ID e} = {r \<in> set revs. er_EntryID r = en_ID e}"
    using arg_cong [OF assms, of set] by (simp add: set_filter)
  have f: "in_force rs i n p \<longleftrightarrow> (\<exists>r \<in> {r \<in> set rs. er_EntryID r = i}. er_Version r \<le> n \<and> er_Payload r = p \<and>
      (\<forall>r' \<in> {r \<in> set rs. er_EntryID r = i}. er_Version r' \<le> n \<longrightarrow> er_Version r' \<le> er_Version r))" for rs i n p
    unfolding in_force_def by auto
  have b: "(\<forall>r \<in> set rs. er_EntryID r = i \<longrightarrow> er_Version r \<le> n) \<longleftrightarrow>
      (\<forall>r \<in> {r \<in> set rs. er_EntryID r = i}. er_Version r \<le> n)" for rs i n
    by auto
  show ?thesis unfolding entry_ok_def f b s versions_of_def assms ..
qed

lemma rewritten_ok:
  assumes e: "entry_ok revs rels e" and c: "entry_check (rewritten_row w a now e)"
  defines "r \<equiv> rewritten_row w a now e"
  shows "entry_ok (if copy_has w (en_Payload e) then revision_of r # revs else revs) rels r"
proof -
  have shown: "shown_release r x" if "shown_release e x" for x
    using that changed_copy_same [of w]
    by (auto simp: shown_release_def r_def snapshot_has_def split: option.splits)
  have rel: "releases_ok rels r"
    using e shown unfolding entry_ok_def releases_ok_def by (auto simp: r_def)
  show ?thesis
  proof (cases "copy_has w (en_Payload e)")
    case True
    have "in_force (revision_of r # revs) (en_ID r) (en_Version r) (en_Payload r)"
      by (rule in_force_new) (simp_all add: revision_of_def)
    with True e c rel show ?thesis
      by (auto simp: entry_ok_def r_def revision_of_def versions_of_def)
  next
    case False
    with e c rel show ?thesis by (simp add: entry_ok_def r_def changed_copy_same)
  qed
qed

lemma rewrite_keeps:
  assumes "life_ok (es, revs, rels, ss)"
    and c: "\<forall>e \<in> set es. concerned w tenant ct e \<longrightarrow> entry_check (rewritten_row w a now e)"
  shows "life_ok (map (after_rewrite w a tenant ct now) es, rewrite_revisions w a tenant ct now es @ revs, rels, ss)"
proof -
  note ok = life_ok_parts [OF assms(1)]
  let ?revs = "rewrite_revisions w a tenant ct now es @ revs"
  have ids: "map en_ID (map (after_rewrite w a tenant ct now) es) = map en_ID es" by simp
  have "er_EntryID ` set (rewrite_revisions w a tenant ct now es) \<subseteq> en_ID ` set es"
    by (auto simp: rewrite_revisions_def revision_of_def)
  then have own: "owned_by (en_ID ` set (map (after_rewrite w a tenant ct now) es)) ?revs rels ss"
    using ok(3) by (simp add: owned_by_def image_image image_Un)
  have "entry_ok ?revs rels (after_rewrite w a tenant ct now e)" if "e \<in> set es" for e
  proof (cases "concerned w tenant ct e")
    case True
    let ?r = "rewritten_row w a now e"
    have "filter (\<lambda>r. er_EntryID r = en_ID ?r) ?revs =
        filter (\<lambda>r. er_EntryID r = en_ID ?r) (if copy_has w (en_Payload e) then revision_of ?r # revs else revs)"
      using True rewrite_revisions_of [OF ok(1) that, of w a tenant ct now] by (auto simp: revision_of_def)
    from entry_ok_local [OF this] rewritten_ok [OF ok(2) [OF that]] c that True show ?thesis
      by (simp add: after_rewrite_def)
  next
    case False
    have "filter (\<lambda>r. er_EntryID r = en_ID e) ?revs = filter (\<lambda>r. er_EntryID r = en_ID e) revs"
      using False rewrite_revisions_of [OF ok(1) that, of w a tenant ct now] by auto
    from entry_ok_local [OF this] ok(2) [OF that] False show ?thesis by (simp add: after_rewrite_def)
  qed
  with ok own show ?thesis by (simp add: comp_def)
qed

section \<open>Every transaction keeps the invariant\<close>

lemma bulk_keeps: "bulk_rewrite w a tenant ct now db = Inr db' \<Longrightarrow> db_ok db \<Longrightarrow> db_ok db'"
  using bulk_effect [of w a tenant ct now db db'] rewrite_keeps unfolding db_ok_def life_of_def [of db] by metis

lemma drop_entry_keeps: "db_ok db \<Longrightarrow> db_ok (drop_entry i db)"
  unfolding db_ok_def by (rule drop_keeps)

lemma drop_entries_keep: "db_ok db \<Longrightarrow> db_ok (fold drop_entry is db)"
  by (induction "is" arbitrary: db) (auto intro: drop_entry_keeps)

lemma delete_type_keeps:
  assumes "DeleteContentType_rows tenant ct db = Inr db'" and "db_ok db"
  shows "db_ok db'"
proof -
  let ?db = "db\<lparr>db_Types := filter (\<lambda>t. \<not> (tr_TenantID t = tenant \<and> tr_ID t = ct)) (db_Types db)\<rparr>"
  from assms(1) obtain js where "db' = fold drop_entry js ?db"
    by (auto simp: DeleteContentType_rows_def split: if_splits)
  moreover have "db_ok ?db" using assms(2) by (simp add: db_ok_def life_of_def)
  ultimately show ?thesis using drop_entries_keep by blast
qed

lemma save_keeps: "UpdateEntry_repo e db = Inr (e', db') \<Longrightarrow> db_ok db \<Longrightarrow> db_ok db'"
  using UpdateEntry_effect [of e db e' db'] update_keeps locked_row_Inr
  unfolding db_ok_def life_of_def [of db] by metis

lemma publish_keeps: "SetEntryPublishState_repo n o' e st pa db = Inr (e', db') \<Longrightarrow> db_ok db \<Longrightarrow> db_ok db'"
  using SetEntryPublishState_effect [of n o' e st pa db e' db'] release_keeps locked_row_Inr
  unfolding db_ok_def by metis

lemma insert_keeps: "CreateEntry_repo e db = Inr (e', db') \<Longrightarrow> db_ok db \<Longrightarrow> db_ok db'"
  using CreateEntry_effect [of e db e' db'] create_keeps unfolding db_ok_def life_of_def [of db] by metis

lemma delete_keeps: "DeleteEntry_repo tenant ct i db = Inr db' \<Longrightarrow> db_ok db \<Longrightarrow> db_ok db'"
  using DeleteEntry_effect [of tenant ct i db db'] drop_keeps [of db i] unfolding db_ok_def by metis

lemma db_ok_same: "life_of db' = life_of db \<Longrightarrow> db_ok db \<Longrightarrow> db_ok db'"
  by (simp add: db_ok_def)

lemma record_activity_keeps: "RecordActivity l db = Inr db' \<Longrightarrow> db_ok db \<Longrightarrow> db_ok db'"
  by (drule activity_effect) (auto intro: db_ok_same)

lemma run_claimed_keeps:
  assumes "run_claimed fresh now s t e db = Inr (db', n)" and "db_ok db"
  shows "db_ok db'"
proof (cases "PinsVersion s \<and> en_Version e \<noteq> sc_PinnedVersion s")
  case True
  with assms(1) obtain db1 where "FinishEntrySchedule (sc_TenantID s) (sc_ID s) ScheduleStateStale None [] db = Inr db1"
    "RecordActivity (stale_run_line s t e now) db1 = Inr db'"
    by (auto simp: run_claimed_def)
  with assms(2) show ?thesis using schedule_finish_keeps record_activity_keeps by blast
next
  case False
  with assms(1) obtain db1 db2 e' where
    "FinishEntrySchedule (sc_TenantID s) (sc_ID s) ScheduleStateDone (Some now) [] db = Inr db1"
    "SetEntryPublishState_repo fresh (schedule_origin s) (worker_struct s now e) (ScheduleTargetStatus (sc_Action s))
       (next_published_at (ScheduleTargetStatus (sc_Action s)) now e) db1 = Inr (e', db2)"
    "RecordActivity (run_line s t e' now) db2 = Inr db'"
    by (auto simp: run_claimed_def Let_def)
  with assms(2) show ?thesis using schedule_finish_keeps publish_keeps record_activity_keeps by blast
qed

lemma execute_keeps: "execute_tx held fresh now s db = Inr (db', n) \<Longrightarrow> db_ok db \<Longrightarrow> db_ok db'"
  by (auto simp: execute_tx_def split: option.splits dest: run_claimed_keeps)

lemma markFailed_keeps: "db_ok db \<Longrightarrow> db_ok (markFailed txt now s err db)"
  by (auto simp: markFailed_def Let_def split: sum.splits intro: db_ok_same schedule_finish_keeps)

end
