(* ===== verification/Entry_Histories.thy ===== *)
theory Entry_Histories
  imports Entry_Lifecycle
begin

text \<open>
  Histories of the entry tables: the transactions as a step relation, in any order and with
  any arguments, so that requests whose checks read an older state are covered; every service
  call as a run of transactions; the invariant over histories; and the abstract specification
  of a document that is edited and released.
\<close>

section \<open>Transactions\<close>

text \<open>
  A rewrite of the schema is taken at the grain of its bulk statements, of any form; the rest of
  such a transaction, and whatever else writes to this database, leaves the four tables of the
  life cycle as they are.
\<close>

inductive tx_step :: "entry_db \<Rightarrow> entry_db \<Rightarrow> bool" where
  created: "create_tx p db = Inr (e, db') \<Longrightarrow> tx_step db db'"
| updated: "UpdateEntry_repo e db = Inr (e', db') \<Longrightarrow> tx_step db db'"
| released: "SetEntryPublishState_repo fresh o' e st pa db = Inr (e', db') \<Longrightarrow> tx_step db db'"
| deleted: "DeleteEntry_repo tenant ct i db = Inr db' \<Longrightarrow> tx_step db db'"
| media_linked: "ReplaceEntryMedia tenant i as db = Inr db' \<Longrightarrow> tx_step db db'"
| relations_linked: "ReplaceEntryRelations tenant i rs db = Inr db' \<Longrightarrow> tx_step db db'"
| decided: "CreateEntryReviewDecision d db = Inr db' \<Longrightarrow> tx_step db db'"
| scheduled: "CreateEntrySchedule s db = Inr db' \<Longrightarrow> tx_step db db'"
| cancelled: "CancelEntrySchedule tenant i db = Inr (s, db') \<Longrightarrow> tx_step db db'"
| executed: "execute_tx held fresh now s db = Inr (db', n) \<Longrightarrow> tx_step db db'"
| failed: "tx_step db (markFailed txt now s err db)"
| logged_line: "RecordActivity l db = Inr db' \<Longrightarrow> tx_step db db'"
| noticed: "tx_step db (notify n db)"
| rewritten: "bulk_rewrite w a tenant ct now db = Inr db' \<Longrightarrow> tx_step db db'"
| type_deleted: "DeleteContentType_rows tenant ct db = Inr db' \<Longrightarrow> tx_step db db'"
| elsewhere: "life_of db' = life_of db \<Longrightarrow> tx_step db db'"

inductive_cases tx_stepE: "tx_step db db'"

abbreviation history :: "entry_db \<Rightarrow> entry_db \<Rightarrow> bool" where
  "history \<equiv> tx_step\<^sup>*\<^sup>*"

text \<open>The tables before the first entry.\<close>

definition no_entries :: "entry_db \<Rightarrow> bool" where
  "no_entries db \<longleftrightarrow> db_Entries db = [] \<and> db_Revisions db = [] \<and> db_Releases db = [] \<and> db_Schedules db = []"

lemma db_ok_start: "no_entries db \<Longrightarrow> db_ok db"
  by (simp add: no_entries_def db_ok_life owned_by_def pending_once_def)

lemma db_ok_step:
  assumes "tx_step db db'" and "db_ok db"
  shows "db_ok db'"
  using assms
proof (cases rule: tx_step.cases)
  case (created p e)
  from create_tx_life [OF this] assms(2) show ?thesis
    by (metis db_ok_same insert_keeps)
next
  case (decided d)
  then have "life_of db' = life_of db" by (auto simp: CreateEntryReviewDecision_def split: if_splits)
  then show ?thesis using assms(2) by (rule db_ok_same)
qed (auto intro: save_keeps publish_keeps delete_keeps schedule_create_keeps schedule_cancel_keeps
    execute_keeps markFailed_keeps record_activity_keeps bulk_keeps delete_type_keeps db_ok_same
    dest!: media_effect relations_effect)

interpretation life: machine no_entries tx_step db_ok
  by unfold_locales (auto intro: db_ok_start db_ok_step)

section \<open>Service calls are runs of transactions\<close>

lemma logged_history: "history db (logged l db)"
  by (cases "RecordActivity l db") (auto simp: logged_def intro: tx_step.logged_line)

lemma finish_history: "history db (finish act err db)"
  unfolding finish_def by (auto intro: logged_history split: option.split go_error.split)

lemma closing_history: "history db db' \<Longrightarrow> history db (snd (closing act (r, db')))"
  using finish_history by (simp add: closing_def) (rule rtranclp_trans)

lemmas history_steps = closing_history r_into_rtranclp tx_step.intros

lemma closed_step: "tx_step db db' \<Longrightarrow> history db (snd (closing act (r, db')))"
  by (rule closing_history) blast

lemma update_links_history: "update_links s db = (err, db') \<Longrightarrow> history db db'"
  by (auto simp: update_links_def Let_def split: sum.splits
      intro: tx_step.media_linked tx_step.relations_linked converse_rtranclp_into_rtranclp)

lemma create_commit_history: "history db (snd (create_commit p act db))"
proof (cases "create_tx p db")
  case (Inl err)
  then show ?thesis
    by (auto simp: create_commit_def Let_def intro: closing_history split: option.splits sum.splits bool.splits)
next
  case (Inr r)
  then obtain e db' where r: "create_tx p db = Inr (e, db')" by (cases r) auto
  have "history db db'" by (rule r_into_rtranclp) (rule tx_step.created [OF r])
  then show ?thesis using r by (auto simp: create_commit_def Let_def intro: closing_history)
qed

lemma saved_history:
  assumes "UpdateEntry_repo e db = Inr (e', db1)" and "update_links s (if b then notify n db1 else db1) = (err, db')"
  shows "history db db'"
proof -
  have "tx_step db db1" by (rule tx_step.updated [OF assms(1)])
  moreover have "history db1 (if b then notify n db1 else db1)" by (auto intro: tx_step.noticed)
  ultimately show ?thesis using update_links_history [OF assms(2)]
    by (meson converse_rtranclp_into_rtranclp rtranclp_trans)
qed

lemma update_commit_history: "history db (snd (update_commit s act db))"
proof (cases "UpdateEntry_repo (sv_Entry s) db")
  case (Inl err)
  then show ?thesis by (auto simp: update_commit_def Let_def intro: closing_history)
next
  case (Inr r)
  obtain e db1 where r: "r = (e, db1)" by (cases r)
  define b where "b \<longleftrightarrow> \<not> wasPending (sv_Sub s) (sv_Before s) db \<and> published_pending e"
  define n where "n = RoleNotice (TenantID (sv_Sub s)) notifyRoles (UserID (sv_Sub s)) ''entry_pending_review'' (entry_link (en_ID e))"
  obtain err db' where l: "update_links s (if b then notify n db1 else db1) = (err, db')"
    by (cases "update_links s (if b then notify n db1 else db1)")
  have "\<exists>x. snd (update_commit s act db) = finish (update_act s act) x db'"
    using Inr r l
    by (cases err) (auto simp: update_commit_def closing_def Let_def b_def n_def notifyEntryPendingReview_def)
  with saved_history [OF Inr [unfolded r] l] show ?thesis by (metis finish_history rtranclp_trans)
qed

lemma restore_commit_history: "history db (snd (restore_commit p act db))"
proof (cases "UpdateEntry_repo (sv_Entry (rp_Saved p)) db")
  case (Inl err)
  then show ?thesis by (auto simp: restore_commit_def Let_def intro: closing_history)
next
  case (Inr r)
  obtain e db1 where r: "r = (e, db1)" by (cases r)
  obtain err db' where l: "update_links (rp_Saved p) db1 = (err, db')" by (cases "update_links (rp_Saved p) db1")
  have "history db db'" using l by (intro saved_history [OF Inr [unfolded r], where b = False]) simp
  with Inr r l show ?thesis
    by (cases err) (auto simp: restore_commit_def Let_def intro: closing_history)
qed

lemma status_commit_history: "history db (snd (status_commit read st fresh now act db))"
  by (auto simp: status_commit_def Let_def intro!: closing_history intro: tx_step.released
      split: prod.split sum.split)


lemma CreateLocalizedEntry_history: "history db (snd (CreateLocalizedEntry W ctx tn inp fresh now db))"
  by (auto simp: CreateLocalizedEntry_def Let_def intro!: closing_history create_commit_history
      split: sum.split prod.split)

lemma UpdateEntry_history: "history db (snd (UpdateEntry W ctx tn i payload x now db))"
  by (auto simp: UpdateEntry_def Let_def intro!: closing_history update_commit_history split: sum.split)

lemma SetEntryStatus_history: "history db (snd (SetEntryStatus W ctx tn i st x fresh now db))"
  by (auto simp: SetEntryStatus_def Let_def intro!: closing_history status_commit_history split: sum.split)

lemma DeleteEntry_history: "history db (snd (DeleteEntry W ctx tn i now db))"
  by (auto simp: DeleteEntry_def Let_def intro!: closing_history intro: tx_step.deleted
      split: sum.split prod.split option.split)

lemma RestoreEntryRevision_history: "history db (snd (RestoreEntryRevision W ctx tn i n x now db))"
  by (auto simp: RestoreEntryRevision_def Let_def intro!: closing_history restore_commit_history split: sum.split)

lemma RequestChanges_history: "history db (snd (RequestChanges W ctx tn i raw x fresh now db))"
proof -
  have step: "history db (notifyEntryChangesRequested sub e reason db')"
    if "CreateEntryReviewDecision d db = Inr db'" for sub e reason d db'
  proof -
    have "tx_step db db'" by (rule tx_step.decided [OF that])
    moreover have "history db' (notifyEntryChangesRequested sub e reason db')"
      by (auto simp: notifyEntryChangesRequested_def intro: tx_step.noticed split: option.split)
    ultimately show ?thesis by (rule converse_rtranclp_into_rtranclp)
  qed
  show ?thesis
    by (auto simp: RequestChanges_def Let_def intro!: closing_history step split: sum.split prod.split)
qed

lemma ScheduleEntry_history: "history db (snd (ScheduleEntry W ctx tn i a raw fresh now db))"
  by (auto simp: ScheduleEntry_def Let_def intro!: closing_history intro: tx_step.scheduled
      split: sum.split prod.split)

lemma CancelEntrySchedule_history: "history db (snd (CancelEntrySchedule_svc W ctx tn i now db))"
  by (auto simp: CancelEntrySchedule_svc_def Let_def intro!: closing_history intro: tx_step.cancelled
      split: sum.split prod.split)

lemma reading_history: "history db (snd (reading ctx tn i now resolved body db))"
  by (auto simp: reading_def Let_def intro!: closing_history split: sum.split prod.split)

lemma run_one_history: "history db (run_one txt S fresh now s db)"
proof (cases "attempt S fresh now s db")
  case (Inl err)
  then show ?thesis by (auto simp: run_one_def intro: tx_step.failed)
next
  case (Inr r)
  obtain db' n where r: "r = (db', n)" by (cases r)
  have "tx_step db db'"
    by (rule tx_step.executed) (use Inr r in \<open>simp add: attempt_def split: option.splits\<close>)
  with Inr r show ?thesis
    by (cases n) (auto simp: run_one_def intro: tx_step.noticed converse_rtranclp_into_rtranclp)
qed

lemma Tick_history: "history db (Tick txt S fresh batch now db)"
proof -
  have "history db (fold (run_one txt S fresh now) ss db)" for ss db
    by (induction ss arbitrary: db) (auto intro: rtranclp_trans [OF run_one_history])
  then show ?thesis by (simp add: Tick_def)
qed

text \<open>The verbs of the schema that rewrite entries.\<close>

lemma rewrite_all_history: "rewrite_all w refs a tenant now db = Inr db' \<Longrightarrow> history db db'"
proof (induction refs arbitrary: db)
  case (Cons r refs)
  obtain ct ref where "r = (ct, ref)" by (cases r)
  with Cons.prems obtain db1 where "bulk_rewrite (w ref) a tenant ct now db = Inr db1"
    "rewrite_all w refs a tenant now db1 = Inr db'" by auto
  then show ?case by (meson Cons.IH converse_rtranclp_into_rtranclp tx_step.rewritten)
qed simp

lemma then_elsewhere: "history db db1 \<Longrightarrow> life_of db' = life_of db1 \<Longrightarrow> history db db'"
  by (meson rtranclp.rtrancl_into_rtrancl tx_step.elsewhere)

lemma elsewhere_simps [simp]:
  "life_of (relinkEntryMedia tenant ct fs db) = life_of db" "life_of (relinkEntryRelations tenant ct fs db) = life_of db"
  "life_of (on_type ct g db) = life_of db" "life_of (on_component tenant name g db) = life_of db"
  "life_of (db\<lparr>db_Types := ts\<rparr>) = life_of db"
  by (simp_all add: life_of_def relinkEntryMedia_def relinkEntryRelations_def on_type_def on_component_def Let_def)

lemma relink_types_elsewhere [simp]: "life_of (relink_types tenant cts db) = life_of db"
  unfolding relink_types_def by (induction cts arbitrary: db) simp_all

lemma bulk_then_elsewhere:
  "bulk_rewrite w a tenant ct now db = Inr db1 \<Longrightarrow> life_of db' = life_of db1 \<Longrightarrow> history db db'"
  by (rule then_elsewhere) (auto intro: tx_step.rewritten)

lemma DeleteField_history: "DeleteField_rows tenant t f a now db = Inr db' \<Longrightarrow> history db db'"
  unfolding DeleteField_rows_def Let_def and_then_Inr
  by (elim exE conjE, erule bulk_then_elsewhere) auto

lemma RenameField_history: "RenameField_rows tenant ct old new a now db = Inr db' \<Longrightarrow> history db db'"
  unfolding RenameField_rows_def Let_def and_then_Inr
  by (elim exE conjE, erule bulk_then_elsewhere) auto

lemma RenameComponentField_history:
  "RenameComponentField_rows tenant name refs old new a now db = Inr db' \<Longrightarrow> history db db'"
  unfolding RenameComponentField_rows_def and_then_Inr
  by (elim exE conjE, drule rewrite_all_history, erule then_elsewhere) auto

lemma DeleteComponentField_history:
  "DeleteComponentField_rows tenant name refs key sf a now db = Inr db' \<Longrightarrow> history db db'"
  unfolding DeleteComponentField_rows_def Let_def and_then_Inr
  by (elim exE conjE, drule rewrite_all_history, erule then_elsewhere) auto

lemma RenameComponent_history: "RenameComponent_rows tenant name refs new a now db = Inr db' \<Longrightarrow> history db db'"
  unfolding RenameComponent_rows_def and_then_Inr
  by (elim exE conjE, drule rewrite_all_history, erule then_elsewhere) auto

lemmas schema_histories = DeleteField_history RenameField_history RenameComponentField_history
  DeleteComponentField_history RenameComponent_history

lemmas service_histories = CreateLocalizedEntry_history UpdateEntry_history SetEntryStatus_history
  DeleteEntry_history RestoreEntryRevision_history RequestChanges_history ScheduleEntry_history
  CancelEntrySchedule_history Tick_history

section \<open>The abstract specification\<close>

text \<open>
  What a reader of the product is promised: a document has a draft, which edits replace; a
  release puts a copy of the draft on air and keeps it; retracting takes it off the air; every
  one of them counts the version up by one.
\<close>

record document =
  version :: nat
  draft :: json
  copy :: "json option"
  on_air :: bool

inductive doc_step :: "document option \<Rightarrow> document option \<Rightarrow> bool" where
  create: "0 < n \<Longrightarrow> doc_step None (Some \<lparr>version = n, draft = p, copy = None, on_air = False\<rparr>)"
| edit: "doc_step (Some d) (Some (d\<lparr>version := Suc (version d), draft := p\<rparr>))"
| release: "doc_step (Some d) (Some \<lparr>version = Suc (version d), draft = draft d, copy = Some (draft d), on_air = True\<rparr>)"
| retract: "doc_step (Some d) (Some (d\<lparr>version := Suc (version d), on_air := False\<rparr>))"
| remove: "doc_step (Some d) None"

inductive_cases doc_step_SomeE: "doc_step (Some d) x"

definition doc_of :: "entry_row \<Rightarrow> document" where
  "doc_of e = \<lparr>version = en_Version e, draft = en_Payload e, copy = en_PublishedPayload e, on_air = IsPublished e\<rparr>"

definition document_at :: "uuid \<Rightarrow> entry_row list \<Rightarrow> document option" where
  "document_at i es = map_option doc_of (find (\<lambda>e. en_ID e = i) es)"

lemma document_at_put_other: "i \<noteq> en_ID e \<Longrightarrow> document_at i (put_row e es) = document_at i es"
  by (induction es) (auto simp: document_at_def put_row_def)

lemma document_at_put:
  "i = en_ID e \<Longrightarrow> i \<in> en_ID ` set es \<Longrightarrow> document_at i (put_row e es) = Some (doc_of e)"
  by (induction es) (auto simp: document_at_def put_row_def)

lemma document_at_row:
  "distinct (map en_ID es) \<Longrightarrow> r \<in> set es \<Longrightarrow> i = en_ID r \<Longrightarrow> document_at i es = Some (doc_of r)"
  by (induction es) (auto simp: document_at_def)

lemma document_at_none: "i \<notin> en_ID ` set es \<Longrightarrow> document_at i es = None"
  by (induction es) (auto simp: document_at_def)

text \<open>The documents of the tables, as far as they are known to be well-formed.\<close>

abbreviation document_in :: "uuid \<Rightarrow> entry_db \<Rightarrow> document option" where
  "document_in i db \<equiv> document_at i (db_Entries db)"

lemma save_refines:
  assumes "UpdateEntry_repo e db = Inr (e', db')" and "db_ok db"
  shows "\<exists>d. document_in (en_ID e) db = Some d \<and> document_in (en_ID e) db' = Some (d\<lparr>version := Suc (version d), draft := en_Payload e\<rparr>) \<and>
    (\<forall>j. j \<noteq> en_ID e \<longrightarrow> document_in j db' = document_in j db)"
proof -
  from UpdateEntry_effect [OF assms(1)] obtain r where r: "locked_row e db = Inr r"
    and es: "db_Entries db' = put_row (saved_row e r) (db_Entries db)" by (auto simp: life_of_def)
  from locked_row_Inr [OF r] have m: "r \<in> set (db_Entries db)" "en_ID e = en_ID r" by simp_all
  from life_ok_parts(1) [OF assms(2) [unfolded db_ok_life]] m
  have "document_in (en_ID e) db = Some (doc_of r)" by (intro document_at_row)
  moreover have "document_in (en_ID e) db' = Some (doc_of (saved_row e r))"
    unfolding es by (rule document_at_put) (use m in auto)
  moreover have "doc_of (saved_row e r) = (doc_of r)\<lparr>version := Suc (version (doc_of r)), draft := en_Payload e\<rparr>"
    by (simp add: doc_of_def IsPublished_def)
  moreover have "document_in j db' = document_in j db" if "j \<noteq> en_ID e" for j
    unfolding es by (rule document_at_put_other) (use m that in simp)
  ultimately show ?thesis by simp
qed

definition released_doc :: "string \<Rightarrow> document \<Rightarrow> document" where
  "released_doc st d = (if st = StatusPublished
     then \<lparr>version = Suc (version d), draft = draft d, copy = Some (draft d), on_air = True\<rparr>
     else d\<lparr>version := Suc (version d), on_air := False\<rparr>)"

lemma publish_refines:
  assumes "SetEntryPublishState_repo fresh o' e st pa db = Inr (e', db')" and "db_ok db"
  shows "\<exists>d. document_in (en_ID e) db = Some d \<and> document_in (en_ID e) db' = Some (released_doc st d) \<and>
    (\<forall>j. j \<noteq> en_ID e \<longrightarrow> document_in j db' = document_in j db)"
proof -
  from SetEntryPublishState_effect [OF assms(1)] obtain r where r: "locked_row e db = Inr r"
    and es: "db_Entries db' = put_row (released_row e st pa r) (db_Entries db)" by (auto simp: life_of_def)
  from locked_row_Inr [OF r] have m: "r \<in> set (db_Entries db)" "en_ID e = en_ID r" by simp_all
  from life_ok_parts(1) [OF assms(2) [unfolded db_ok_life]] m
  have "document_in (en_ID e) db = Some (doc_of r)" by (intro document_at_row)
  moreover have "document_in (en_ID e) db' = Some (doc_of (released_row e st pa r))"
    unfolding es by (rule document_at_put) (use m in auto)
  moreover have "doc_of (released_row e st pa r) = released_doc st (doc_of r)"
    by (simp add: doc_of_def released_doc_def IsPublished_def released_row_def Let_def)
  moreover have "document_in j db' = document_in j db" if "j \<noteq> en_ID e" for j
    unfolding es by (rule document_at_put_other) (use m that in simp)
  ultimately show ?thesis by simp
qed


lemma insert_refines:
  assumes "CreateEntry_repo e0 db = Inr (e', db')"
  shows "document_in (en_ID e0) db = None \<and>
    document_in (en_ID e0) db' = Some \<lparr>version = en_Version (inserted_row e0), draft = en_Payload e0, copy = None, on_air = False\<rparr> \<and>
    0 < en_Version (inserted_row e0) \<and>
    (\<forall>j. j \<noteq> en_ID e0 \<longrightarrow> document_in j db' = document_in j db)"
proof -
  from CreateEntry_effect [OF assms] have c: "entry_check (inserted_row e0)" "en_ID e0 \<notin> en_ID ` set (db_Entries db)"
    and es: "db_Entries db' = inserted_row e0 # db_Entries db" by (auto simp: life_of_def)
  have row: "en_ID (inserted_row e0) = en_ID e0" "en_Payload (inserted_row e0) = en_Payload e0"
    "en_PublishedPayload (inserted_row e0) = None"
    by (simp_all add: inserted_row_def created_struct_def Let_def)
  have "\<not> IsPublished (inserted_row e0)" using c(1) row(3) by (auto simp: entry_check_def IsPublished_def)
  with row have "doc_of (inserted_row e0) = \<lparr>version = en_Version (inserted_row e0), draft = en_Payload e0, copy = None, on_air = False\<rparr>"
    by (simp add: doc_of_def)
  moreover have "document_in (en_ID e0) db = None"
    using c(2) by (rule document_at_none)
  moreover have "0 < en_Version (inserted_row e0)" by (simp add: inserted_row_def created_struct_def Let_def)
  ultimately show ?thesis using row(1) by (simp add: es document_at_def)
qed

lemma delete_refines:
  assumes "DeleteEntry_repo tenant ct i db = Inr db'"
  shows "document_in i db \<noteq> None \<and> document_in i db' = None \<and>
    (\<forall>j. j \<noteq> i \<longrightarrow> document_in j db' = document_in j db)"
proof -
  from DeleteEntry_effect [OF assms] have x: "entry_exists tenant ct i db"
    and es: "db_Entries db' = filter (\<lambda>e. en_ID e \<noteq> i) (db_Entries db)"
    by (auto simp: life_of_def drop_entry_def)
  have other: "find (\<lambda>e. en_ID e = j) (filter (\<lambda>e. en_ID e \<noteq> i) xs) = find (\<lambda>e. en_ID e = j) xs" if "j \<noteq> i" for j xs
    using that by (induction xs) auto
  have "\<forall>j. j \<noteq> i \<longrightarrow> document_in j db' = document_in j db" by (simp add: document_at_def es other)
  moreover have "document_in i db' = None" by (simp add: document_at_def es find_None_iff)
  moreover have "document_in i db \<noteq> None"
    using x by (auto simp: document_at_def find_None_iff entry_exists_def list_ex_iff row_at_def)
  ultimately show ?thesis by blast
qed

text \<open>
  A change of the schema makes the same change to the draft and to the copy, each where it is
  concerned; it counts as an edit when it concerns the draft, and never moves a document on or
  off the air.  Only a bulk statement does this.
\<close>

definition rewritten_doc :: "(json \<Rightarrow> bool) \<Rightarrow> (json \<Rightarrow> json) \<Rightarrow> document \<Rightarrow> document" where
  "rewritten_doc has h d =
     (let change = (\<lambda>p. if has p then h p else p) in
      d\<lparr>version := (if has (draft d) then Suc (version d) else version d), draft := change (draft d),
        copy := map_option change (copy d)\<rparr>)"

definition schema_rewrite :: "uuid \<Rightarrow> entry_db \<Rightarrow> entry_db \<Rightarrow> bool" where
  "schema_rewrite i db db' \<longleftrightarrow>
     (\<exists>w a tenant ct now d. bulk_rewrite w a tenant ct now db = Inr db' \<and> document_in i db = Some d \<and>
        document_in i db' = Some (rewritten_doc (copy_has w) (changed_copy w) d))"

lemma rewrite_refines:
  assumes "bulk_rewrite w a tenant ct now db = Inr db'"
  shows "document_in i db' = document_in i db \<or> schema_rewrite i db db'"
proof -
  let ?g = "after_rewrite w a tenant ct now"
  have found: "find (\<lambda>e. en_ID e = i) (map ?g es) = map_option ?g (find (\<lambda>e. en_ID e = i) es)" for es
    by (induction es) auto
  have es: "db_Entries db' = map ?g (db_Entries db)" using bulk_effect [OF assms] by (simp add: life_of_def)
  show ?thesis
  proof (cases "find (\<lambda>e. en_ID e = i) (db_Entries db)")
  case None
  then show ?thesis by (simp add: document_at_def es found)
next
  case (Some e)
  then have d: "document_in i db = Some (doc_of e)"
    "document_in i db' = Some (doc_of (?g e))" by (simp_all add: document_at_def es found)
  have "doc_of (rewritten_row w a now e) = rewritten_doc (copy_has w) (changed_copy w) (doc_of e)"
    using changed_copy_same [of w]
    by (auto simp: doc_of_def rewritten_doc_def Let_def IsPublished_def intro!: option.map_cong)
  with d assms show ?thesis unfolding schema_rewrite_def after_rewrite_def by (metis (full_types))
  qed
qed

lemma delete_type_documents:
  "document_in i (fold drop_entry is db) = None \<or> document_in i (fold drop_entry is db) = document_in i db"
proof (induction "is" arbitrary: db)
  case (Cons j js)
  have other: "j \<noteq> i \<Longrightarrow> find (\<lambda>e. en_ID e = i) (filter (\<lambda>e. en_ID e \<noteq> j) es) = find (\<lambda>e. en_ID e = i) es" for es
    by (induction es) auto
  have "document_in i (drop_entry j db) = None \<or> document_in i (drop_entry j db) = document_in i db"
    by (cases "j = i") (simp_all add: document_at_def drop_entry_def find_None_iff other)
  with Cons.IH [of "drop_entry j db"] show ?case by auto
qed simp

lemma delete_type_refines:
  assumes "DeleteContentType_rows tenant ct db = Inr db'"
  shows "doc_step\<^sup>=\<^sup>= (document_in i db) (document_in i db')"
proof -
  let ?db = "db\<lparr>db_Types := filter (\<lambda>t. \<not> (tr_TenantID t = tenant \<and> tr_ID t = ct)) (db_Types db)\<rparr>"
  from assms obtain js where "db' = fold drop_entry js ?db"
    by (auto simp: DeleteContentType_rows_def split: if_splits)
  with delete_type_documents [of i js ?db] show ?thesis
    by (cases "document_in i db") (auto intro: doc_step.remove)
qed

lemma released_doc_step: "doc_step (Some d) (Some (released_doc st d))"
  by (simp add: released_doc_def doc_step.release doc_step.retract)

lemma documents_same: "life_of db' = life_of db \<Longrightarrow> document_in i db' = document_in i db"
  by (simp add: life_of_def)

lemma finish_schedule_entries:
  "FinishEntrySchedule tenant i state ex msg db = Inr db' \<Longrightarrow> db_Entries db' = db_Entries db"
  using finish_schedule_effect [of tenant i state ex msg db db'] by simp

lemma execute_refines:
  assumes "execute_tx held fresh now s db = Inr (db', n)" and "db_ok db"
  shows "doc_step\<^sup>=\<^sup>= (document_in i db) (document_in i db')"
proof (cases "ClaimDueEntrySchedule held (sc_TenantID s) (sc_ID s) now db")
  case None
  with assms(1) show ?thesis by (simp add: execute_tx_def)
next
  case (Some c)
  with assms(1) obtain t e where run: "run_claimed fresh now c t e db = Inr (db', n)"
    by (auto simp: execute_tx_def)
  show ?thesis
  proof (cases "PinsVersion c \<and> en_Version e \<noteq> sc_PinnedVersion c")
    case True
    with run obtain db1 where "FinishEntrySchedule (sc_TenantID c) (sc_ID c) ScheduleStateStale None [] db = Inr db1"
      "RecordActivity (stale_run_line c t e now) db1 = Inr db'"
      by (auto simp: run_claimed_def)
    then show ?thesis by (auto dest!: finish_schedule_entries activity_effect)
  next
    case False
    let ?st = "ScheduleTargetStatus (sc_Action c)"
    from False run obtain db1 db2 e' where
      f: "FinishEntrySchedule (sc_TenantID c) (sc_ID c) ScheduleStateDone (Some now) [] db = Inr db1" and
      p: "SetEntryPublishState_repo fresh (schedule_origin c) (worker_struct c now e) ?st
        (next_published_at ?st now e) db1 = Inr (e', db2)" and
      l: "RecordActivity (run_line c t e' now) db2 = Inr db'"
      by (auto simp: run_claimed_def Let_def)
    have "db_ok db1" using f assms(2) by (rule schedule_finish_keeps)
    from publish_refines [OF p this] finish_schedule_entries [OF f] activity_effect [OF l]
    show ?thesis by (cases "i = en_ID (worker_struct c now e)") (auto intro: released_doc_step)
  qed
qed

lemma step_refines:
  assumes "db_ok db" and "tx_step db db'"
  shows "doc_step\<^sup>=\<^sup>= (document_in i db) (document_in i db') \<or> schema_rewrite i db db'"
  using assms(2)
proof (cases rule: tx_step.cases)
  case (created p e)
  from create_tx_life [OF this] obtain db1 where "CreateEntry_repo (pl_Entry p) db = Inr (e, db1)"
    "life_of db' = life_of db1" by blast
  from insert_refines [OF this(1)] documents_same [OF this(2)] show ?thesis
    by (cases "i = en_ID (pl_Entry p)") (auto intro: doc_step.create)
next
  case (updated e e')
  from save_refines [OF this assms(1)] show ?thesis
    by (cases "i = en_ID e") (auto intro: doc_step.edit)
next
  case (released fresh o' e st pa e')
  from publish_refines [OF this assms(1)] show ?thesis
    by (cases "i = en_ID e") (auto intro: released_doc_step)
next
  case (deleted tenant ct j)
  from delete_refines [OF this] show ?thesis
    by (cases "i = j") (auto intro: doc_step.remove)
next
  case (executed fresh now s n)
  from execute_refines [OF this assms(1)] show ?thesis by (rule disjI1)
next
  case (rewritten w a tenant ct now)
  from rewrite_refines [OF this, of i] show ?thesis by auto
next
  case (type_deleted tenant ct)
  from delete_type_refines [OF this] show ?thesis by (rule disjI1)
next
  case elsewhere
  from documents_same [OF this] show ?thesis by simp
next
  case (failed render now s err)
  then have "db_Entries db' = db_Entries db"
    by (auto simp: markFailed_def Let_def notify_def split: sum.splits dest: finish_schedule_entries)
  then show ?thesis by simp
qed (auto dest!: media_effect relations_effect activity_effect
    simp: CreateEntryReviewDecision_def CreateEntrySchedule_def CancelEntrySchedule_def notify_def
    split: if_splits option.splits)


section \<open>While an entry exists\<close>

text \<open>Transactions that leave the entry in place; between them its version counts the changes of its draft.\<close>

definition moved_on :: "document \<Rightarrow> document \<Rightarrow> bool" where
  "moved_on d d' \<longleftrightarrow> version d < version d' \<or> (version d' = version d \<and> draft d' = draft d)"

definition living :: "uuid \<Rightarrow> entry_db \<Rightarrow> entry_db \<Rightarrow> bool" where
  "living i db db' \<longleftrightarrow> tx_step db db' \<and> document_in i db' \<noteq> None"

lemma doc_step_versions: "doc_step\<^sup>=\<^sup>= (Some d) (Some d') \<Longrightarrow> moved_on d d'"
  by (auto simp: moved_on_def elim!: doc_step_SomeE)

lemma schema_rewrite_versions: "schema_rewrite i db db' \<Longrightarrow> document_in i db = Some d \<Longrightarrow> document_in i db' = Some d' \<Longrightarrow> moved_on d d'"
  by (auto simp: schema_rewrite_def moved_on_def rewritten_doc_def Let_def)

lemma moved_on_trans: "moved_on d d' \<Longrightarrow> moved_on d' d'' \<Longrightarrow> moved_on d d''"
  by (auto simp: moved_on_def)

lemma living_grows:
  assumes "(living i)\<^sup>*\<^sup>* db db'" and "db_ok db" and "document_in i db = Some d"
  shows "db_ok db' \<and> (\<exists>d'. document_in i db' = Some d' \<and> moved_on d d')"
  using assms
proof (induction rule: rtranclp_induct)
  case (step db1 db2)
  from step.hyps(2) have t: "tx_step db1 db2" and x: "document_in i db2 \<noteq> None" by (simp_all add: living_def)
  from step obtain d1 where d1: "db_ok db1" "document_in i db1 = Some d1" "moved_on d d1" by blast
  from x obtain d2 where d2: "document_in i db2 = Some d2" by blast
  from step_refines [OF d1(1) t, of i] d1(2) d2 have "moved_on d1 d2"
    using doc_step_versions schema_rewrite_versions by metis
  with d1 d2 db_ok_step [OF t d1(1)] moved_on_trans show ?case by blast
qed (simp add: moved_on_def)

lemma write_needs_version:
  assumes "locked_row e db = Inr r" and "db_ok db"
  shows "\<exists>d. document_in (en_ID e) db = Some d \<and> version d = en_Version e"
  using locked_row_Inr [OF assms(1)] life_ok_parts(1) [OF assms(2) [unfolded db_ok_life]]
    document_at_row [of "db_Entries db" r "en_ID e"] by (auto simp: doc_of_def)

lemma UpdateEntry_locks: "UpdateEntry_repo e db = Inr x \<Longrightarrow> \<exists>r. locked_row e db = Inr r"
  by (auto simp: UpdateEntry_repo_def)

lemma SetEntryPublishState_locks: "SetEntryPublishState_repo fresh o' e st pa db = Inr x \<Longrightarrow> \<exists>r. locked_row e db = Inr r"
  by (auto simp: SetEntryPublishState_repo_def)

lemma write_counts:
  assumes "UpdateEntry_repo e db = Inr (r, db') \<or> SetEntryPublishState_repo fresh o' e st pa db = Inr (r, db')"
    and "db_ok db"
  shows "\<exists>d. document_in (en_ID e) db' = Some d \<and> version d = Suc (en_Version e)"
  using assms(1)
proof
  assume u: "UpdateEntry_repo e db = Inr (r, db')"
  with UpdateEntry_locks obtain y where "locked_row e db = Inr y" by blast
  from write_needs_version [OF this assms(2)] save_refines [OF u assms(2)] show ?thesis by auto
next
  assume p: "SetEntryPublishState_repo fresh o' e st pa db = Inr (r, db')"
  with SetEntryPublishState_locks obtain y where "locked_row e db = Inr y" by blast
  from write_needs_version [OF this assms(2)] publish_refines [OF p assms(2)] show ?thesis
    by (auto simp: released_doc_def)
qed


end
