(* ===== verification/Entry_Runs.thy ===== *)
theory Entry_Runs
  imports Entry_Histories
begin

text \<open>
  What the worker does with schedules: nothing but settling them, each due one within a poll,
  and releasing the document that was current when the schedule was filed.
\<close>

section \<open>Schedules are only settled\<close>

text \<open>A change of a schedule that keeps its identity and, unless it settles it, everything.\<close>

definition settling :: "(entry_schedule \<Rightarrow> entry_schedule) \<Rightarrow> bool" where
  "settling g \<longleftrightarrow> (\<forall>s. sc_ID (g s) = sc_ID s \<and> sc_TenantID (g s) = sc_TenantID s \<and>
     sc_EntryID (g s) = sc_EntryID s \<and> sc_RunAt (g s) = sc_RunAt s \<and>
     (sc_State (g s) = ScheduleStatePending \<longrightarrow> g s = s))"

lemma final_states [simp]:
  "ScheduleStateStale \<noteq> ScheduleStatePending" "ScheduleStateDone \<noteq> ScheduleStatePending"
  "ScheduleStateFailed \<noteq> ScheduleStatePending" "ScheduleStateCancelled \<noteq> ScheduleStatePending"
  "ScheduleStateSuperseded \<noteq> ScheduleStatePending"
  by (simp_all add: schedule_consts)

lemma settling_id: "settling (\<lambda>s. s)"
  by (simp add: settling_def)

lemma settling_comp: "settling g \<Longrightarrow> settling h \<Longrightarrow> settling (h \<circ> g)"
  unfolding settling_def o_def by metis

lemma settling_restate:
  "st \<noteq> ScheduleStatePending \<Longrightarrow> settling (\<lambda>s. if P s then s\<lparr>sc_State := st\<rparr> else s)"
  by (simp add: settling_def)

lemma settling_finish:
  "st \<noteq> ScheduleStatePending \<Longrightarrow>
   settling (\<lambda>s. if P s then s\<lparr>sc_State := st, sc_ExecutedAt := ex, sc_Error := msg\<rparr> else s)"
  by (simp add: settling_def)

definition settled_from :: "entry_schedule list \<Rightarrow> entry_schedule list \<Rightarrow> bool" where
  "settled_from ss ss' \<longleftrightarrow> (\<exists>g. settling g \<and> ss' = map g ss)"

lemma settled_refl [simp, intro]: "settled_from ss ss"
  unfolding settled_from_def using settling_id by (intro exI [of _ "\<lambda>s. s"]) simp

lemma settled_trans: "settled_from ss ss' \<Longrightarrow> settled_from ss' ss'' \<Longrightarrow> settled_from ss ss''"
  unfolding settled_from_def using settling_comp by fastforce

lemma settled_map: "settling g \<Longrightarrow> settled_from ss (map g ss)"
  unfolding settled_from_def by blast

lemma settled_stale: "settled_from ss (stale_schedules e ss)"
  unfolding stale_schedules_def by (intro settled_map settling_restate) simp

lemma settled_supersede: "settled_from ss (supersede_schedules tenant i ss)"
  unfolding supersede_schedules_def by (intro settled_map settling_restate) simp

lemma settled_finish:
  assumes "FinishEntrySchedule tenant i st ex msg db = Inr db'" and "st \<noteq> ScheduleStatePending"
  shows "settled_from (db_Schedules db) (db_Schedules db')"
  using finish_schedule_effect [OF assms(1)] settled_map [OF settling_finish [OF assms(2)]] by simp

lemma settled_cancel: "CancelEntrySchedule tenant i db = Inr (s, db') \<Longrightarrow> settled_from (db_Schedules db) (db_Schedules db')"
  by (auto simp: CancelEntrySchedule_def intro!: settled_map settling_restate split: option.splits)

lemma settled_save: "UpdateEntry_repo e db = Inr (e', db') \<Longrightarrow> settled_from (db_Schedules db) (db_Schedules db')"
  by (drule UpdateEntry_effect) (auto simp: life_of_def settled_stale)

lemma settled_publish:
  "SetEntryPublishState_repo n o' e st pa db = Inr (e', db') \<Longrightarrow> settled_from (db_Schedules db) (db_Schedules db')"
  by (drule SetEntryPublishState_effect) (auto simp: life_of_def settled_supersede)

lemma run_claimed_parts:
  assumes "run_claimed fresh now s t e db = Inr (db', n)"
  shows "\<exists>st ex db1. FinishEntrySchedule (sc_TenantID s) (sc_ID s) st ex [] db = Inr db1 \<and>
    st \<noteq> ScheduleStatePending \<and> settled_from (db_Schedules db1) (db_Schedules db')"
proof (cases "PinsVersion s \<and> en_Version e \<noteq> sc_PinnedVersion s")
  case True
  with assms obtain db1 where "FinishEntrySchedule (sc_TenantID s) (sc_ID s) ScheduleStateStale None [] db = Inr db1"
    "RecordActivity (stale_run_line s t e now) db1 = Inr db'"
    by (auto simp: run_claimed_def)
  moreover from activity_effect [OF this(2)] have "settled_from (db_Schedules db1) (db_Schedules db')" by simp
  ultimately show ?thesis using final_states(1) by blast
next
  case False
  with assms obtain db1 db2 e' where
    "FinishEntrySchedule (sc_TenantID s) (sc_ID s) ScheduleStateDone (Some now) [] db = Inr db1"
    and p: "SetEntryPublishState_repo fresh (schedule_origin s) (worker_struct s now e) (ScheduleTargetStatus (sc_Action s))
       (next_published_at (ScheduleTargetStatus (sc_Action s)) now e) db1 = Inr (e', db2)"
    and l: "RecordActivity (run_line s t e' now) db2 = Inr db'"
    by (auto simp: run_claimed_def Let_def)
  moreover from settled_publish [OF p] activity_effect [OF l]
  have "settled_from (db_Schedules db1) (db_Schedules db')" by simp
  ultimately show ?thesis using final_states(2) by blast
qed

lemma settled_run:
  assumes "run_claimed fresh now s t e db = Inr (db', n)"
  shows "settled_from (db_Schedules db) (db_Schedules db')"
  using run_claimed_parts [OF assms] settled_finish settled_trans by blast

lemma settled_execute: "execute_tx held fresh now s db = Inr (db', n) \<Longrightarrow> settled_from (db_Schedules db) (db_Schedules db')"
  by (auto simp: execute_tx_def split: option.splits dest: settled_run)

lemma settled_failed: "settled_from (db_Schedules db) (db_Schedules (markFailed say now s err db))"
  by (auto simp: markFailed_def Let_def notify_def split: sum.split dest: settled_finish)

lemma settled_run_one: "settled_from (db_Schedules db) (db_Schedules (run_one say S fresh now s db))"
  by (auto simp: run_one_def notify_def settled_failed attempt_def split: sum.split option.splits dest: settled_execute)

section \<open>Every due schedule is settled\<close>

definition pending_ids :: "entry_schedule list \<Rightarrow> uuid set" where
  "pending_ids ss = sc_ID ` {s \<in> set ss. sc_State s = ScheduleStatePending}"

lemma pending_idsI: "s \<in> set ss \<Longrightarrow> sc_State s = ScheduleStatePending \<Longrightarrow> sc_ID s \<in> pending_ids ss"
  by (simp add: pending_ids_def)

lemma settled_pending: "settled_from ss ss' \<Longrightarrow> pending_ids ss' \<subseteq> pending_ids ss"
  unfolding settled_from_def settling_def pending_ids_def by fastforce

text \<open>What a listed schedule is known to be, for as long as it is only settled.\<close>

definition due_row :: "int \<Rightarrow> entry_schedule \<Rightarrow> entry_schedule list \<Rightarrow> bool" where
  "due_row now s ss \<longleftrightarrow> (\<forall>s' \<in> set ss. sc_ID s' = sc_ID s \<longrightarrow> sc_TenantID s' = sc_TenantID s \<and> sc_RunAt s' \<le> now)"

lemma due_row_settled: "settled_from ss ss' \<Longrightarrow> due_row now s ss \<Longrightarrow> due_row now s ss'"
  by (auto simp: settled_from_def settling_def due_row_def)

lemma finish_settles:
  assumes "FinishEntrySchedule tenant i st ex msg db = Inr db'" and "st \<noteq> ScheduleStatePending"
    and "due_row now s (db_Schedules db)" and "sc_TenantID s = tenant" and "sc_ID s = i"
  shows "i \<notin> pending_ids (db_Schedules db')"
proof
  assume "i \<in> pending_ids (db_Schedules db')"
  then obtain x where x: "x \<in> set (db_Schedules db')" "sc_ID x = i" "sc_State x = ScheduleStatePending"
    by (auto simp: pending_ids_def)
  from settled_finish [OF assms(1,2)] due_row_settled assms(3) have "due_row now s (db_Schedules db')" by blast
  with x(1,2) assms(4,5) have "sc_TenantID x = tenant" by (auto simp: due_row_def)
  moreover from finish_schedule_effect [OF assms(1)] x(1) obtain y where "y \<in> set (db_Schedules db)"
    "x = (if sc_TenantID y = tenant \<and> sc_ID y = i \<and> sc_State y = ScheduleStatePending
          then y\<lparr>sc_State := st, sc_ExecutedAt := ex, sc_Error := msg\<rparr> else y)" by auto
  ultimately show False using x(2,3) assms(2) by (simp split: if_splits)
qed

lemma failed_settles:
  assumes "c \<in> set (db_Schedules db)" and "sc_TenantID c = sc_TenantID s" and "sc_ID c = sc_ID s"
    and "sc_State c = ScheduleStatePending" and "due_row now s (db_Schedules db)" and "db_ok db" and "say err \<noteq> []"
  shows "sc_ID s \<notin> pending_ids (db_Schedules (markFailed say now s err db))"
proof -
  let ?m = "take 500 (say err)"
  have ok: "\<forall>s \<in> set (db_Schedules db). schedule_check s" using assms(6) by (simp add: db_ok_life)
  have "FinishEntrySchedule (sc_TenantID s) (sc_ID s) ScheduleStateFailed (Some now) ?m db \<noteq> Inl e" for e
    using assms(1-4,7) ok
    by (auto simp: FinishEntrySchedule_def Let_def list_ex_iff list_all_iff schedule_check_def
        AllScheduleStates_def schedule_consts split: if_splits)
  then obtain db' where f: "FinishEntrySchedule (sc_TenantID s) (sc_ID s) ScheduleStateFailed (Some now) ?m db = Inr db'"
    by (cases "FinishEntrySchedule (sc_TenantID s) (sc_ID s) ScheduleStateFailed (Some now) ?m db") auto
  from finish_settles [OF f _ assms(5)] f show ?thesis
    by (simp add: markFailed_def Let_def notify_def)
qed

lemma ClaimDue_SomeD:
  "ClaimDueEntrySchedule held tenant i now db = Some c \<Longrightarrow> c \<in> set (db_Schedules db) \<and> sc_TenantID c = tenant \<and>
     sc_ID c = i \<and> sc_State c = ScheduleStatePending"
  by (auto simp: ClaimDueEntrySchedule_def dest!: find_SomeD)

lemma run_one_settles:
  assumes "due_row now s (db_Schedules db)" and "db_ok db" and "\<And>err. say err \<noteq> []"
    and "\<not> su_Held S (sc_ID s)" and "\<not> su_Unmarked S (sc_ID s)"
  shows "sc_ID s \<notin> pending_ids (db_Schedules (run_one say S fresh now s db))"
proof (cases "ClaimDueEntrySchedule False (sc_TenantID s) (sc_ID s) now db")
  case None
  then have gone: "sc_ID s \<notin> pending_ids (db_Schedules db)"
    using assms(1) by (auto simp: ClaimDueEntrySchedule_def find_None_iff pending_ids_def due_row_def)
  show ?thesis using gone settled_pending [OF settled_run_one [of db say S fresh now s]] by blast
next
  case (Some c)
  note c = ClaimDue_SomeD [OF Some]
  show ?thesis
  proof (cases "attempt S fresh now s db")
    case (Inl err)
    with c failed_settles [of c db s now say err] assms show ?thesis by (simp add: run_one_def)
  next
    case (Inr r)
    obtain db' n where r: "r = (db', n)" by (cases r)
    from Inr r have "execute_tx False (fresh (sc_ID s)) now s db = Inr (db', n)"
      using assms(4) by (simp add: attempt_def split: option.splits)
    with Some obtain t e where run: "run_claimed (fresh (sc_ID s)) now c t e db = Inr (db', n)"
      by (auto simp: execute_tx_def)
    from run_claimed_parts [OF this] obtain st ex db1 where
      f: "FinishEntrySchedule (sc_TenantID c) (sc_ID c) st ex [] db = Inr db1"
      and st: "st \<noteq> ScheduleStatePending" and rest: "settled_from (db_Schedules db1) (db_Schedules db')" by blast
    from finish_settles [OF f st assms(1)] c settled_pending [OF rest] have "sc_ID s \<notin> pending_ids (db_Schedules db')"
      by auto
    with Inr r show ?thesis by (cases n) (simp_all add: run_one_def notify_def)
  qed
qed


lemma run_one_ok: "db_ok db \<Longrightarrow> db_ok (run_one say S fresh now s db)"
  using run_one_history life.run_inv by blast

lemma runs_settle:
  assumes "\<forall>s \<in> set ss. due_row now s (db_Schedules db)" and "db_ok db" and "\<And>err. say err \<noteq> []"
  shows "settled_from (db_Schedules db) (db_Schedules (fold (run_one say S fresh now) ss db)) \<and>
    (\<forall>s \<in> set ss. \<not> su_Held S (sc_ID s) \<longrightarrow> \<not> su_Unmarked S (sc_ID s) \<longrightarrow>
       sc_ID s \<notin> pending_ids (db_Schedules (fold (run_one say S fresh now) ss db)))"
  using assms
proof (induction ss arbitrary: db)
  case (Cons s ss)
  let ?db1 = "run_one say S fresh now s db"
  have st: "settled_from (db_Schedules db) (db_Schedules ?db1)" by (rule settled_run_one)
  then have due: "\<forall>x \<in> set ss. due_row now x (db_Schedules ?db1)"
    using Cons.prems(1) due_row_settled by auto
  from Cons.IH [OF due run_one_ok [OF Cons.prems(2)] Cons.prems(3)]
  have ih: "settled_from (db_Schedules ?db1) (db_Schedules (fold (run_one say S fresh now) ss ?db1))"
    "\<forall>s \<in> set ss. \<not> su_Held S (sc_ID s) \<longrightarrow> \<not> su_Unmarked S (sc_ID s) \<longrightarrow>
       sc_ID s \<notin> pending_ids (db_Schedules (fold (run_one say S fresh now) ss ?db1))" by simp_all
  have "\<not> su_Held S (sc_ID s) \<Longrightarrow> \<not> su_Unmarked S (sc_ID s) \<Longrightarrow> sc_ID s \<notin> pending_ids (db_Schedules ?db1)"
    using Cons.prems by (intro run_one_settles) auto
  with ih settled_pending [OF ih(1)] settled_trans [OF st ih(1)] show ?case by auto
qed simp

lemma schedule_ids_distinct: "pending_once ss \<Longrightarrow> distinct (map sc_ID ss)"
  by (induction ss) (auto simp: pending_once_def)

lemma listed_is_due:
  assumes "db_ok db" and "s \<in> set (ListDueEntrySchedules now batch db)"
  shows "s \<in> set (db_Schedules db) \<and> due_row now s (db_Schedules db)"
proof -
  have s: "s \<in> set (db_Schedules db)" "sc_RunAt s \<le> now"
    using assms(2) by (auto simp: ListDueEntrySchedules_def dest: in_set_takeD)
  have "inj_on sc_ID (set (db_Schedules db))"
    using assms(1) schedule_ids_distinct by (simp add: db_ok_life distinct_map)
  with s show ?thesis by (auto simp: due_row_def dest: inj_onD)
qed

section \<open>A filed release\<close>

text \<open>The row of a filed schedule, for as long as the table keeps it.\<close>

definition traced :: "entry_schedule \<Rightarrow> entry_schedule list \<Rightarrow> bool" where
  "traced row ss \<longleftrightarrow> (\<exists>s \<in> set ss. sc_ID s = sc_ID row \<and> sc_EntryID s = sc_EntryID row \<and>
     (sc_State s = ScheduleStatePending \<longrightarrow> s = row))"

lemma traced_settled:
  assumes "settled_from ss ss'" and "traced row ss"
  shows "traced row ss'"
proof -
  from assms(1) obtain g where g: "settling g" "ss' = map g ss" unfolding settled_from_def by blast
  from assms(2) obtain s where s: "s \<in> set ss" "sc_ID s = sc_ID row" "sc_EntryID s = sc_EntryID row"
    "sc_State s = ScheduleStatePending \<longrightarrow> s = row" unfolding traced_def by blast
  have "g s \<in> set ss'" using s(1) g(2) by simp
  moreover have "sc_State (g s) = ScheduleStatePending \<longrightarrow> g s = s" using g(1) by (simp add: settling_def)
  ultimately show ?thesis using s g(1) unfolding traced_def settling_def by (intro bexI [of _ "g s"]) auto
qed

lemma traced_after_drops:
  assumes "document_in i (fold drop_entry js db) \<noteq> None" and "traced row (db_Schedules db)" and "sc_EntryID row = i"
  shows "traced row (db_Schedules (fold drop_entry js db))"
  using assms(1,2)
proof (induction js arbitrary: db)
  case (Cons j js)
  have "j \<noteq> i"
  proof
    assume "j = i"
    then have "document_in i (drop_entry j db) = None" by (simp add: document_at_def drop_entry_def find_None_iff)
    with delete_type_documents [of i js "drop_entry j db"] Cons.prems(1) show False by auto
  qed
  then have "traced row (db_Schedules (drop_entry j db))"
    using Cons.prems(2) assms(3) unfolding traced_def drop_entry_def by (simp add: Bex_def) metis
  with Cons show ?case by simp
qed simp

lemma traced_after_type:
  assumes "DeleteContentType_rows tenant ct db = Inr db'" and "document_in i db' \<noteq> None"
    and "traced row (db_Schedules db)" and "sc_EntryID row = i"
  shows "traced row (db_Schedules db')"
proof -
  let ?db = "db\<lparr>db_Types := filter (\<lambda>t. \<not> (tr_TenantID t = tenant \<and> tr_ID t = ct)) (db_Types db)\<rparr>"
  from assms(1) obtain js where "db' = fold drop_entry js ?db"
    by (auto simp: DeleteContentType_rows_def split: if_splits)
  with traced_after_drops [of i js ?db row] assms(2-4) show ?thesis by simp
qed

lemma traced_step:
  assumes "living i db db'" and "traced row (db_Schedules db)" and "sc_EntryID row = i"
  shows "traced row (db_Schedules db')"
proof -
  from assms(1) have "tx_step db db'" and x: "document_in i db' \<noteq> None" by (simp_all add: living_def)
  from \<open>tx_step db db'\<close> show ?thesis
  proof (cases rule: tx_step.cases)
    case (created p e)
    from create_tx_life [OF this] obtain db1 where
      c: "CreateEntry_repo (pl_Entry p) db = Inr (e, db1)" "life_of db' = life_of db1" by (elim exE conjE)
    from CreateEntry_effect [OF c(1)] c(2) have "db_Schedules db' = db_Schedules db" by (simp add: life_of_def)
    then show ?thesis using assms(2) by simp
  next
    case (deleted tenant ct j)
    from delete_refines [OF this] x have "j \<noteq> i" by auto
    moreover have "db_Schedules db' = filter (\<lambda>s. sc_EntryID s \<noteq> j) (db_Schedules db)"
      using DeleteEntry_effect [OF deleted] by (simp add: life_of_def drop_entry_def)
    ultimately show ?thesis using assms(2,3) unfolding traced_def by (simp add: Bex_def) metis
  next
    case (scheduled s)
    then have "db_Schedules db' = s # db_Schedules db" by (auto simp: CreateEntrySchedule_def split: if_splits)
    then show ?thesis using assms(2) by (auto simp: traced_def)
  next
    case (failed say now s err)
    then show ?thesis using settled_failed traced_settled assms(2) by blast
  next
    case (media_linked tenant j as)
    from media_effect [OF this] assms(2) show ?thesis by auto
  next
    case (relations_linked tenant j rs)
    from relations_effect [OF this] assms(2) show ?thesis by auto
  next
    case (decided d)
    then have "db_Schedules db' = db_Schedules db" by (auto simp: CreateEntryReviewDecision_def split: if_splits)
    then show ?thesis using assms(2) by simp
  next
    case (logged_line l)
    from activity_effect [OF this] assms(2) show ?thesis by simp
  next
    case (noticed n)
    then show ?thesis using assms(2) by (simp add: notify_def)
  next
    case (updated e e')
    from traced_settled [OF settled_save [OF this] assms(2)] show ?thesis .
  next
    case (released n o' e st pa e')
    from traced_settled [OF settled_publish [OF this] assms(2)] show ?thesis .
  next
    case (cancelled tenant j s)
    from traced_settled [OF settled_cancel [OF this] assms(2)] show ?thesis .
  next
    case (executed n now s m)
    from traced_settled [OF settled_execute [OF this] assms(2)] show ?thesis .
  next
    case (rewritten w a tenant ct now)
    from bulk_effect [OF this] assms(2) show ?thesis by (simp add: life_of_def)
  next
    case (type_deleted tenant ct)
    from traced_after_type [OF this x assms(2,3)] show ?thesis .
  next
    case elsewhere
    from life_parts [OF this] assms(2) show ?thesis by simp
  qed
qed

lemma traced_history:
  assumes "(living i)\<^sup>*\<^sup>* db db'" and "traced row (db_Schedules db)" and "sc_EntryID row = i"
  shows "traced row (db_Schedules db')"
  using assms by (induction rule: rtranclp_induct) (auto intro: traced_step)


text \<open>What \<open>ScheduleEntry\<close> files: a row pinned to the version of the document it read.\<close>

lemma writable_document:
  assumes "GetEntry_repo tenant ct i db = Inr e" and "db_ok db"
  shows "en_ID e = i \<and> document_in i db = Some (doc_of e)"
proof -
  from assms(1) have "e \<in> set (db_Entries db)" "en_ID e = i"
    by (auto simp: GetEntry_repo_def find_entry_def row_at_def split: option.splits dest!: find_SomeD)
  with life_ok_parts(1) [OF assms(2) [unfolded db_ok_life]] show ?thesis
    using document_at_row by blast
qed

lemma ScheduleEntry_files:
  assumes "ScheduleEntry W ctx tn i ScheduleActionPublish raw fresh now db = (Inr row, db')" and "db_ok db"
  shows "sc_Action row = ScheduleActionPublish \<and> sc_EntryID row = i \<and> traced row (db_Schedules db') \<and>
    (\<exists>d. document_in i db = Some d \<and> document_in i db' = Some d \<and> sc_PinnedVersion row = version d)"
proof -
  from assms(1) obtain sub t e runAt db1 where
    reads: "schedule_reads W ctx tn i ScheduleActionPublish raw now db = Inr (sub, t, e, runAt)"
    and row: "row = schedule_row sub t e ScheduleActionPublish runAt fresh now"
    and ins: "CreateEntrySchedule row db = Inr db1" and fin: "\<exists>act. db' = finish act None db1"
    by (auto simp: ScheduleEntry_def Let_def closing_def split: if_splits sum.splits prod.splits)
  from reads have "GetEntry_repo (TenantID sub) (tr_ID t) i db = Inr e"
    by (auto simp: schedule_reads_def)
  from writable_document [OF this assms(2)] have e: "en_ID e = i" "document_in i db = Some (doc_of e)" by simp_all
  from ins have "db1 = db\<lparr>db_Schedules := row # db_Schedules db\<rparr>"
    by (auto simp: CreateEntrySchedule_def split: if_splits)
  with fin e row show ?thesis
    by (auto simp: traced_def schedule_row_def pinnedVersionFor_def doc_of_def)
qed


end
