(* ===== verification/Entry_Promises.thy ===== *)
theory Entry_Promises
  imports Entry_Runs
begin

text \<open>
  What the entry life cycle promises its users, with concrete tables on which each promise is
  exercised, and where it falls short of what its comments say.
\<close>

section \<open>Concrete tables\<close>

definition demo_type :: type_record where
  "demo_type = \<lparr>tr_ID = ''t1'', tr_TenantID = ''acme'', tr_Type =
     \<lparr>ct_Name = ''post'', ct_Label = [], ct_Fields = [], ct_ReadRoles = [], ct_WriteRoles = [], ct_OwnOnlyRoles = []\<rparr>\<rparr>"

definition demo_row :: entry_row where
  "demo_row = \<lparr>en_ID = ''e1'', en_TenantID = ''acme'', en_ContentTypeID = ''t1'', en_Payload = JObj [],
     en_SearchText = [], en_Version = 1, en_Status = ''draft'', en_PublishedPayload = None,
     en_PublishedSearchText = [], en_PublishedVersion = None, en_PublishedAt = None, en_Locale = ''en'',
     en_TranslationGroupID = ''g1'', en_CreatedBy = Some ''ann'', en_UpdatedBy = Some ''ann'', en_PublishedBy = None,
     en_CreatedByKind = ''human'', en_CreatedByAgent = None, en_UpdatedByKind = Some ''human'',
     en_UpdatedByAgent = None, en_CreatedAt = 10, en_UpdatedAt = 10\<rparr>"

definition empty_db :: entry_db where
  "empty_db = \<lparr>db_Types = [demo_type], db_Entries = [], db_Revisions = [], db_Releases = [], db_Schedules = [],
     db_Decisions = [], db_Assets = [], db_Media = [], db_MediaPublished = [], db_Relations = [],
     db_RelationsPublished = [], db_Unique = [], db_Idempotency = [], db_Outbox = None, db_Activity = [],
     db_Notices = None\<rparr>"

definition demo_db :: entry_db where
  "demo_db = empty_db\<lparr>db_Entries := [demo_row], db_Revisions := [revision_of demo_row]\<rparr>"

definition demo_user :: subject where
  "demo_user = \<lparr>UserID = ''ann'', Roles = [], TenantID = ''acme'', TenantRole = ''owner'', Region = [],
     MFAVerified = False, PublicDelivery = False, PreviewEntryID = None, ActorKind = ''human'', AgentID = None,
     PrincipalID = None, AllowedTypes = None, CredentialID = None\<rparr>"

definition demo_world :: world where
  "demo_world = \<lparr>wd_env = \<lparr>regexp_compile = \<lambda>_. None, uuid_parse = Some, json_text = (\<lambda>_. [])\<rparr>, wd_allow = \<lambda>_ _. None,
     wd_quota = \<lambda>_. Inr \<lparr>eq_MaxEntriesPerTenant = 0, eq_MaxEntryBytes = 0\<rparr>, wd_len = \<lambda>_. 2,
     wd_compact = \<lambda>_. ''{}'', wd_sha256 = \<lambda>s. s\<rparr>"

lemmas demo_defs = demo_type_def demo_row_def empty_db_def demo_db_def

lemma demo_checks [simp]: "ValidStatus ''draft''" "ValidLocale ''en''" "ValidStatus ''published''"
  "ascii_letter CHR ''e''" "ident_char CHR ''n''"
  by code_simp+

lemma demo_check: "entry_check demo_row"
  by (simp add: entry_check_def demo_row_def StatusPublished_def agent_columns_ok_def)

lemma demo_ok: "db_ok demo_db"
proof -
  have "in_force [revision_of demo_row] (en_ID demo_row) (en_Version demo_row) (en_Payload demo_row)"
    by (rule in_force_new) (simp_all add: revision_of_def)
  with demo_check show ?thesis
    by (simp add: db_ok_life demo_db_def empty_db_def owned_by_def pending_once_def entry_ok_def releases_ok_def
        numbers_of_def versions_of_def revision_of_def demo_row_def)
qed

lemma demo_saved: "\<exists>r db'. UpdateEntry_repo demo_row demo_db = Inr (r, db')"
  by (simp add: UpdateEntry_repo_def locked_row_def row_at_def Let_def saved_row_def entry_check_def
      StatusPublished_def agent_columns_ok_def refreshEntryUniqueValues_def put_entry_def reservations_of_def
      reservations_def recordEntryRevision_def emitEntryEvent_def markSchedulesStale_def revision_of_def demo_defs)

text \<open>The tables after the first entry was created.\<close>

lemma demo_inserted: "\<exists>r db'. CreateEntry_repo demo_row empty_db = Inr (r, db')"
  by (simp add: CreateEntry_repo_def inserted_row_def created_struct_def Let_def entry_check_def
      StatusPublished_def agent_columns_ok_def refreshEntryUniqueValues_def reservations_of_def
      reservations_def recordEntryRevision_def emitEntryEvent_def demo_defs)


section \<open>The tables stay sound\<close>

text \<open>
  C5: the entry tables stay sound.  From tables without entries, no history of transactions,
  the bulk rewrites of the schema included, in any order and with any arguments, reaches tables
  in which two entries share an id, a row breaks a constraint, the working copy of an entry is
  not the payload of its newest revision, the snapshot of an entry differs from its newest
  release while its published version is the version released, an entry has more than twenty
  releases or two with one number, an entry has two pending schedules, or a revision, release or
  schedule belongs to no entry.
\<close>

theorem entry_tables_stay_sound:
  assumes "no_entries db0" and "history db0 db"
  shows "db_ok db"
  using life.run_inv [OF assms(2) db_ok_start [OF assms(1)]] .

definition demo_plan :: planned where
  "demo_plan = \<lparr>pl_Sub = demo_user, pl_Type = demo_type, pl_Entry = demo_row, pl_Media = [], pl_Relations = [],
     pl_Idem = None\<rparr>"

lemma demo_created: "\<exists>r db. create_tx demo_plan empty_db = Inr (r, db)"
proof -
  from demo_inserted obtain r db where "CreateEntry_repo demo_row empty_db = Inr (r, db)" by blast
  then show ?thesis
    by (simp add: create_tx_def demo_plan_def Let_def ReplaceEntryMedia_def ReplaceEntryRelations_def)
qed

theorem entry_tables_stay_sound_witness:
  "\<exists>r db. create_tx demo_plan empty_db = Inr (r, db) \<and> db_ok db"
proof -
  from demo_created obtain r db where c: "create_tx demo_plan empty_db = Inr (r, db)" by blast
  have "no_entries empty_db" by (simp add: no_entries_def empty_db_def)
  moreover have "history empty_db db" by (rule r_into_rtranclp) (rule tx_step.created [OF c])
  ultimately show ?thesis using entry_tables_stay_sound [of empty_db db] c by blast
qed

section \<open>The abstract specification\<close>




section \<open>Concurrent writers\<close>

text \<open>
  C6: no update is lost.  Once a save or a change of the publish state made from a version of
  an entry has committed, nothing made from that version commits any more, whatever happened
  in between, as long as the entry exists.
\<close>

theorem no_update_is_lost:
  assumes "db_ok db"
    and "UpdateEntry_repo e1 db = Inr (r1, db1) \<or> SetEntryPublishState_repo fresh1 o1 e1 st1 pa1 db = Inr (r1, db1)"
    and "(living (en_ID e1))\<^sup>*\<^sup>* db1 db2" and "en_ID e2 = en_ID e1" and "en_Version e2 = en_Version e1"
  shows "UpdateEntry_repo e2 db2 \<noteq> Inr x \<and> SetEntryPublishState_repo fresh2 o2 e2 st2 pa2 db2 \<noteq> Inr x"
proof -
  have ok1: "db_ok db1" using assms(1,2) save_keeps publish_keeps by blast
  from write_counts [OF assms(2,1)] obtain d where
    d: "document_in (en_ID e1) db1 = Some d" "version d = Suc (en_Version e1)" by blast
  from living_grows [OF assms(3) ok1 d(1)] d(2) obtain d' where
    d': "db_ok db2" "document_in (en_ID e1) db2 = Some d'" "en_Version e1 < version d'"
    by (auto simp: moved_on_def)
  have "locked_row e2 db2 \<noteq> Inr y" for y
    using write_needs_version [of e2 db2 y] d' assms(4,5) by auto
  then show ?thesis using UpdateEntry_locks SetEntryPublishState_locks by metis
qed

theorem no_update_is_lost_witness:
  "\<exists>r db'. UpdateEntry_repo demo_row demo_db = Inr (r, db') \<and> (\<forall>x. UpdateEntry_repo demo_row db' \<noteq> Inr x)"
proof -
  from demo_saved obtain r db' where u: "UpdateEntry_repo demo_row demo_db = Inr (r, db')" by blast
  with no_update_is_lost [OF demo_ok disjI1 [OF u] rtranclp.rtrancl_refl refl refl] show ?thesis by blast
qed

section \<open>Scheduled releases\<close>


definition demo_schedule :: entry_schedule where
  "demo_schedule = \<lparr>sc_ID = ''s1'', sc_TenantID = ''acme'', sc_EntryID = ''e1'', sc_ContentTypeID = ''t1'',
     sc_Action = ''publish'', sc_RunAt = 5, sc_PinnedVersion = 1, sc_State = ''pending'', sc_RequestedBy = ''ann'',
     sc_CreatedAt = 1, sc_ExecutedAt = None, sc_Error = []\<rparr>"

text \<open>A round in which another transaction holds the row of another schedule.\<close>

definition demo_round :: surroundings where
  "demo_round = \<lparr>su_Held = (\<lambda>i. i = ''s2''), su_Stopped = (\<lambda>_. False), su_Aborted = (\<lambda>_. None),
     su_Unmarked = (\<lambda>_. False)\<rparr>"

lemma demo_scheduled: "CreateEntrySchedule demo_schedule demo_db = Inr (demo_db\<lparr>db_Schedules := [demo_schedule]\<rparr>)"
  by (simp add: CreateEntrySchedule_def schedule_check_def ValidScheduleAction_def AllScheduleStates_def
      schedule_consts row_id_exists_def demo_schedule_def demo_defs)


text \<open>
  C8: a scheduled release puts on air the document it was filed for.  Whatever happens between
  the filing of a release and the moment the worker takes the schedule up, as long as the entry
  exists: the worker's transaction leaves the document as it is, or it publishes exactly the
  draft that was current when the schedule was filed.
\<close>

theorem scheduled_release_is_what_was_filed:
  assumes "db_ok db0" and "ScheduleEntry W ctx tn i ScheduleActionPublish raw f now0 db0 = (Inr row, db1)"
    and "(living i)\<^sup>*\<^sup>* db1 db" and "sc_ID s = sc_ID row" and "execute_tx held fresh now s db = Inr (db', note)"
  shows "\<exists>d. document_in i db0 = Some d \<and>
    (document_in i db' = document_in i db \<or>
     document_in i db' = Some \<lparr>version = Suc (version d), draft = draft d, copy = Some (draft d), on_air = True\<rparr>)"
proof -
  from ScheduleEntry_files [OF assms(2,1)] obtain d where
    row: "sc_Action row = ScheduleActionPublish" "sc_EntryID row = i" "traced row (db_Schedules db1)"
    and d: "document_in i db0 = Some d" "document_in i db1 = Some d" "sc_PinnedVersion row = version d" by blast
  have ok1: "db_ok db1"
    using ScheduleEntry_history [of db0 W ctx tn i ScheduleActionPublish raw f now0] assms(1,2) life.run_inv by fastforce
  from living_grows [OF assms(3) ok1 d(2)] obtain d' where
    ok: "db_ok db" and d': "document_in i db = Some d'" "moved_on d d'" by blast
  have tr: "traced row (db_Schedules db)" by (rule traced_history [OF assms(3) row(3,2)])
  show ?thesis
  proof (cases "ClaimDueEntrySchedule held (sc_TenantID s) (sc_ID s) now db")
    case None
    with assms(5) d(1) show ?thesis by (simp add: execute_tx_def)
  next
    case (Some c)
    from ClaimDue_SomeD [OF this] have c: "c \<in> set (db_Schedules db)" "sc_ID c = sc_ID row"
      "sc_State c = ScheduleStatePending" using assms(4) by simp_all
    have "inj_on sc_ID (set (db_Schedules db))"
      using ok schedule_ids_distinct by (simp add: db_ok_life distinct_map)
    with tr c have c_row: "c = row" unfolding traced_def by (metis inj_onD)
    from assms(5) Some obtain t e where
      e: "GetEntry_repo (sc_TenantID c) (sc_ContentTypeID c) (sc_EntryID c) db = Inr e"
      and run: "run_claimed fresh now c t e db = Inr (db', note)"
      by (auto simp: execute_tx_def)
    from writable_document [OF e ok] c_row row(2) d'(1) have doc: "en_ID e = i" "d' = doc_of e" by simp_all
    show ?thesis
    proof (cases "en_Version e = sc_PinnedVersion c")
      case False
      with run row(1) c_row obtain dbx where
        "FinishEntrySchedule (sc_TenantID c) (sc_ID c) ScheduleStateStale None [] db = Inr dbx"
        "RecordActivity (stale_run_line c t e now) dbx = Inr db'"
        by (auto simp: run_claimed_def PinsVersion_def)
      then have "document_in i db' = document_in i db" by (auto dest!: finish_schedule_entries activity_effect)
      with d(1) show ?thesis by blast
    next
      case True
      with doc d'(2) d(3) c_row have same: "version d' = version d" "draft d' = draft d"
        by (auto simp: doc_of_def moved_on_def)
      from True run c_row row(1) obtain dbx db2 e' where
        f: "FinishEntrySchedule (sc_TenantID c) (sc_ID c) ScheduleStateDone (Some now) [] db = Inr dbx" and
        p: "SetEntryPublishState_repo fresh (schedule_origin c) (worker_struct c now e) StatusPublished
          (next_published_at StatusPublished now e) dbx = Inr (e', db2)" and
        l: "RecordActivity (run_line c t e' now) db2 = Inr db'"
        by (auto simp: run_claimed_def Let_def ScheduleTargetStatus_def)
      have "en_ID (worker_struct c now e) = i" by (simp add: worker_struct_def doc)
      with publish_refines [OF p schedule_finish_keeps [OF f ok]] finish_schedule_entries [OF f]
        activity_effect [OF l] d'(1) same d(1) show ?thesis by (auto simp: released_doc_def)
    qed
  qed
qed


lemma demo_runAt: "parse_rfc3339 ''2024-01-01T00:00:00Z'' = Some 1704067200000000000"
  by code_simp

lemma demo_authorized: "authorize (wd_allow demo_world) (Some demo_user) action rid ct = Inr demo_user"
  by (simp add: authorize_def authorize_Inr scope_None demo_world_def demo_user_def IsAgent_def ActorKindAgent_def)

lemma demo_found:
  "TypeByName ''acme'' ''post'' demo_db = Inr demo_type" "GetEntry_repo ''acme'' ''t1'' ''e1'' demo_db = Inr demo_row"
  by (simp_all add: TypeByName_def GetEntry_repo_def find_entry_def row_at_def demo_defs)

lemma demo_guards: "guardTypeWrite (tr_Type demo_type) demo_user = None" "guardOwned (tr_Type demo_type) demo_user a = None"
  by (simp_all add: guardTypeWrite_def guardOwned_def canWriteType_def canReadType_def EntriesReadableBy_def EntriesWritableBy_def roleAllowed_def
      ConfinesToOwn_def confinedAuthor_def demo_type_def demo_user_def)


definition demo_filing :: "(go_error + entry_schedule) \<times> entry_db" where
  "demo_filing = ScheduleEntry demo_world (Some demo_user) ''post'' ''e1'' ScheduleActionPublish
     ''2024-01-01T00:00:00Z'' ''s1'' 1704060000000000000 demo_db"

definition filed_schedule :: entry_schedule where
  "filed_schedule = schedule_row demo_user demo_type demo_row ScheduleActionPublish 1704067200000000000 ''s1''
     1704060000000000000"

lemma demo_reads:
  "schedule_reads demo_world (Some demo_user) ''post'' ''e1'' ScheduleActionPublish ''2024-01-01T00:00:00Z''
     1704060000000000000 demo_db = Inr (demo_user, demo_type, demo_row, 1704067200000000000)"
  using demo_found demo_guards demo_authorized
  by (simp add: schedule_reads_def parseRunAt_def demo_runAt ScheduleMaxHorizon_def app_def
      demo_user_def [THEN arg_cong, of TenantID] demo_type_def [THEN arg_cong, of tr_ID])

lemma demo_filed: "\<exists>act. demo_filing = (Inr filed_schedule, finish act None (demo_db\<lparr>db_Schedules := [filed_schedule]\<rparr>))"
proof -
  have "schedule_guards demo_user ScheduleActionPublish demo_row demo_db = Inr ()"
    by (simp add: schedule_guards_def guardScheduleUseful_def StatusPublished_def GetPendingEntrySchedule_def demo_defs)
  moreover have "CreateEntrySchedule filed_schedule demo_db = Inr (demo_db\<lparr>db_Schedules := [filed_schedule]\<rparr>)"
    by (simp add: CreateEntrySchedule_def schedule_check_def ValidScheduleAction_def AllScheduleStates_def
        schedule_consts row_id_exists_def filed_schedule_def schedule_row_def pinnedVersionFor_def demo_defs)
  ultimately show ?thesis
    by (simp add: demo_filing_def ScheduleEntry_def ValidScheduleAction_def demo_reads closing_def Let_def
        filed_schedule_def [symmetric]) blast
qed

text \<open>The worker publishes it.\<close>

lemma demo_run:
  assumes "db_Types db = [demo_type]" and "db_Entries db = [demo_row]" and "db_Schedules db = [filed_schedule]"
    and "db_Unique db = []" and "db_Outbox db = None"
  shows "\<exists>db' note. execute_tx False ''r1'' 1704067200000000000 filed_schedule db = Inr (db', note)"
proof -
  let ?now = "1704067200000000000"
  have s: "sc_TenantID filed_schedule = ''acme''" "sc_ID filed_schedule = ''s1''" "sc_EntryID filed_schedule = ''e1''"
    "sc_ContentTypeID filed_schedule = ''t1''" "sc_State filed_schedule = ScheduleStatePending"
    "sc_RunAt filed_schedule = ?now" "sc_Action filed_schedule = ScheduleActionPublish"
    "sc_PinnedVersion filed_schedule = 1" "sc_RequestedBy filed_schedule = ''ann''"
    by (simp_all add: filed_schedule_def schedule_row_def pinnedVersionFor_def ResponsibleUserID_def IsAgent_def
        ActorKindAgent_def demo_user_def demo_defs)
  have "FinishEntrySchedule ''acme'' ''s1'' ScheduleStateDone (Some ?now) [] db =
      Inr (db\<lparr>db_Schedules := [filed_schedule\<lparr>sc_State := ScheduleStateDone, sc_ExecutedAt := Some ?now, sc_Error := []\<rparr>]\<rparr>)"
    using assms s by (simp add: FinishEntrySchedule_def schedule_check_def ValidScheduleAction_def
        AllScheduleStates_def schedule_consts)
  moreover have "\<exists>e' db2. SetEntryPublishState_repo ''r1'' (schedule_origin filed_schedule)
      (worker_struct filed_schedule ?now demo_row) StatusPublished (Some ?now)
      (db\<lparr>db_Schedules := [filed_schedule\<lparr>sc_State := ScheduleStateDone, sc_ExecutedAt := Some ?now, sc_Error := []\<rparr>]\<rparr>)
      = Inr (e', db2)"
    using assms
    by (simp add: SetEntryPublishState_repo_def locked_row_def row_at_def worker_struct_def released_row_def Let_def
        entry_check_def StatusPublished_def agent_columns_ok_def refreshEntryUniqueValues_def put_entry_def
        reservations_of_def reservations_def recordPublishRevision_def origin_Valid_def schedule_origin_def
        markSchedulesSuperseded_def snapshot_links_def emitEntryEvent_def ActorKindHuman_def demo_defs)
  ultimately obtain e' db1 db2 where
    f: "FinishEntrySchedule ''acme'' ''s1'' ScheduleStateDone (Some ?now) [] db = Inr db1" and
    p: "SetEntryPublishState_repo ''r1'' (schedule_origin filed_schedule)
      (worker_struct filed_schedule ?now demo_row) StatusPublished (Some ?now) db1 = Inr (e', db2)" by blast
  have l: "activity_check (run_line filed_schedule demo_type e' ?now)"
    by (simp add: activity_check_def run_line_def worker_line_def agent_columns_ok_def ActorKindHuman_def
        ActivityOutcomeSuccess_def ActivityOutcomeDenied_def)
  have k: "en_TenantID demo_row = ''acme''" "en_ContentTypeID demo_row = ''t1''" "en_ID demo_row = ''e1''"
    "en_Version demo_row = 1" "en_PublishedAt demo_row = None" "tr_TenantID demo_type = ''acme''" "tr_ID demo_type = ''t1''"
    by (simp_all add: demo_defs)
  have "run_claimed ''r1'' ?now filed_schedule demo_type demo_row db =
      Inr (db2\<lparr>db_Activity := db_Activity db2 @ [run_line filed_schedule demo_type e' ?now]\<rparr>, Some (successNotice filed_schedule))"
    using s k f p l
    by (simp add: run_claimed_def ScheduleTargetStatus_def next_published_at_def RecordActivity_def Let_def)
  with assms s k show ?thesis
    by (simp add: execute_tx_def ClaimDueEntrySchedule_def TypeByID_def GetEntry_repo_def find_entry_def row_at_def)
qed

theorem scheduled_release_is_what_was_filed_witness:
  "\<exists>db' note. execute_tx False ''r1'' 1704067200000000000 filed_schedule (snd demo_filing) = Inr (db', note) \<and>
     (document_in ''e1'' db' = document_in ''e1'' (snd demo_filing) \<or>
      document_in ''e1'' db' = Some \<lparr>version = 2, draft = JObj [], copy = Some (JObj []), on_air = True\<rparr>)"
proof -
  from demo_filed obtain act where
    f: "demo_filing = (Inr filed_schedule, finish act None (demo_db\<lparr>db_Schedules := [filed_schedule]\<rparr>))" by blast
  have "\<exists>db' note. execute_tx False ''r1'' 1704067200000000000 filed_schedule (snd demo_filing) = Inr (db', note)"
    by (rule demo_run) (simp_all add: f demo_db_def empty_db_def)
  then obtain db' nt where
    x: "execute_tx False ''r1'' 1704067200000000000 filed_schedule (snd demo_filing) = Inr (db', nt)" by blast
  have d: "document_in ''e1'' demo_db = Some \<lparr>version = 1, draft = JObj [], copy = None, on_air = False\<rparr>"
    by (simp add: document_at_def doc_of_def IsPublished_def StatusPublished_def demo_defs)
  have "demo_filing = (Inr filed_schedule, snd demo_filing)" unfolding f by simp
  from scheduled_release_is_what_was_filed [OF demo_ok this [unfolded demo_filing_def] rtranclp.rtrancl_refl refl x [unfolded demo_filing_def]]
  show ?thesis using x d by (auto simp: demo_filing_def)
qed

end
