(* ===== verification/Entry_Gaps.thy ===== *)
theory Entry_Gaps
  imports Entry_Promises
begin

text \<open>
  The remaining promises of the entry life cycle, and where the code falls short of what its
  comments say.
\<close>

section \<open>Editing and delivery\<close>

lemma saved_row_public: "public_part (saved_row e r) = public_part r"
  by (simp add: public_part_def saved_row_def)

lemma save_renders:
  assumes "UpdateEntry_repo e db = Inr (e', db')" and "db_ok db" and "audienceFor sub = audienceDelivery"
  shows "map (render ct sub ps) (db_Entries db') = map (render ct sub ps) (db_Entries db)"
proof -
  from UpdateEntry_effect [OF assms(1)] obtain r where r: "locked_row e db = Inr r"
    and es: "db_Entries db' = put_row (saved_row e r) (db_Entries db)" by (auto simp: life_of_def)
  have inj: "inj_on en_ID (set (db_Entries db))"
    using assms(2) by (simp add: db_ok_life distinct_map)
  have same: "render ct sub ps (if en_ID x = en_ID r then saved_row e r else x) = render ct sub ps x"
    if "x \<in> set (db_Entries db)" for x
  proof (cases "en_ID x = en_ID r")
    case True
    with that locked_row_Inr [OF r] have "x = r" using inj_onD [OF inj] by blast
    with True show ?thesis using delivery_snapshot_only [OF assms(3) saved_row_public [of e r]] by simp
  qed simp
  have "map (render ct sub ps) (put_row (saved_row e r) (db_Entries db)) =
      map (\<lambda>x. render ct sub ps (if en_ID x = en_ID r then saved_row e r else x)) (db_Entries db)"
    by (simp add: put_row_def)
  also have "\<dots> = map (render ct sub ps) (db_Entries db)" using same by (rule map_cong [OF refl])
  finally show ?thesis by (simp only: es)
qed

lemma UpdateEntry_life:
  "life_of (snd (UpdateEntry W ctx tn i payload expected now db)) = life_of db \<or>
   (\<exists>e e' db1. UpdateEntry_repo e db = Inr (e', db1) \<and>
      life_of (snd (UpdateEntry W ctx tn i payload expected now db)) = life_of db1)"
proof (cases "update_checks W ctx tn i payload expected now db")
  case (Inr s)
  with update_commit_life [of s "forEntry i (beginActivity ctx ''entry.update'' True tn now)" db] show ?thesis
    by (auto simp: UpdateEntry_def)
qed (simp add: UpdateEntry_def)

lemma RestoreEntryRevision_life:
  "life_of (snd (RestoreEntryRevision W ctx tn i n expected now db)) = life_of db \<or>
   (\<exists>e e' db1. UpdateEntry_repo e db = Inr (e', db1) \<and>
      life_of (snd (RestoreEntryRevision W ctx tn i n expected now db)) = life_of db1)"
proof (cases "restore_checks W ctx tn i n expected now db")
  case (Inr p)
  with restore_commit_life [of p "forEntry i (beginActivity ctx ''entry.restore'' True tn now)" db] show ?thesis
    by (auto simp: RestoreEntryRevision_def)
qed (simp add: RestoreEntryRevision_def)

text \<open>
  C9: editing changes nothing a delivery reader is served.  Whatever a save or a restoration
  does, every entry of every type is rendered to a delivery credential as it was before.
\<close>

theorem editing_leaves_delivery_unchanged:
  assumes "db_ok db" and "audienceFor sub = audienceDelivery"
    and "db' = snd (UpdateEntry W ctx tn i payload expected now db :: (go_error + 'rel entry_dto) \<times> entry_db) \<or>
      db' = snd (RestoreEntryRevision W ctx tn i n expected now db :: (go_error + 'rel entry_dto \<times> nat \<times> int \<times> string list) \<times> entry_db)"
  shows "map (render ct sub ps) (db_Entries db') = map (render ct sub ps) (db_Entries db)"
proof -
  have "life_of db' = life_of db \<or> (\<exists>e e' db1. UpdateEntry_repo e db = Inr (e', db1) \<and> life_of db' = life_of db1)"
    using assms(3) UpdateEntry_life RestoreEntryRevision_life by blast
  then show ?thesis using save_renders [OF _ assms(1,2)] life_parts by metis
qed

definition anyone :: subject where
  "anyone = demo_user\<lparr>PublicDelivery := True\<rparr>"

theorem editing_leaves_delivery_unchanged_witness:
  "map (render (tr_Type demo_type) anyone [])
     (db_Entries (snd (UpdateEntry demo_world (Some demo_user) ''post'' ''e1'' (Text (JObj [])) 0 20 demo_db
        :: (go_error + unit entry_dto) \<times> entry_db))) =
   map (render (tr_Type demo_type) anyone [] :: _ \<Rightarrow> _ + unit entry_wire) [demo_row]"
proof -
  have "audienceFor anyone = audienceDelivery" by (simp add: audienceFor_def anyone_def demo_user_def)
  from editing_leaves_delivery_unchanged [OF demo_ok this disjI1 [OF refl]] show ?thesis
    by (simp add: demo_db_def empty_db_def)
qed

section \<open>The fingerprint of a request\<close>

definition from_be :: "string \<Rightarrow> nat" where
  "from_be s = foldl (\<lambda>a c. a * 256 + of_char c) 0 s"

function unframe :: "string \<Rightarrow> string list" where
  "unframe s = (if length s < 8 then []
     else let n = from_be (take 8 s); rest = drop 8 s in take n rest # unframe (drop n rest))"
  by pat_completeness auto
termination by (relation "measure length") auto

declare unframe.simps [simp del]

lemma from_be_snoc: "from_be (xs @ [c]) = from_be xs * 256 + of_char c"
  by (simp add: from_be_def)

definition digit :: "nat \<Rightarrow> nat \<Rightarrow> nat \<Rightarrow> char" where
  "digit n k i = char_of (n div 256 ^ (k - Suc i) mod 256)"

lemma digit_below: "i < k \<Longrightarrow> digit n (Suc k) i = digit (n div 256) k i"
  by (simp add: digit_def div_mult2_eq [symmetric] Suc_diff_Suc flip: power_Suc)

lemma from_be_digits: "from_be (map (digit n k) [0..<k]) = n mod 256 ^ k"
proof (induction k arbitrary: n)
  case (Suc k)
  have m: "map (digit n (Suc k)) [0..<k] = map (digit (n div 256) k) [0..<k]"
    by (rule map_cong) (simp_all add: digit_below)
  have "from_be (map (digit n (Suc k)) [0..<Suc k]) = n div 256 mod 256 ^ k * 256 + of_char (digit n (Suc k) k)"
    unfolding upt_Suc_append [OF le0] map_append m by (simp add: from_be_snoc Suc.IH)
  also have "\<dots> = n mod 256 ^ Suc k"
    using mod_mult2_eq [of n 256 "256 ^ k"] by (simp add: digit_def)
  finally show ?case .
qed (simp add: from_be_def)

lemma be64_digits: "be64 n = map (digit n 8) [0..<8]"
  unfolding be64_def by (rule map_cong) (auto simp: digit_def)

lemma from_be64: "n < 256 ^ 8 \<Longrightarrow> from_be (be64 n) = n"
  using from_be_digits [of n 8] unfolding be64_digits by simp

lemma be64_length [simp]: "length (be64 n) = 8"
  by (simp add: be64_def)

lemma unframe_framed: "\<forall>p \<in> set parts. length p < 256 ^ 8 \<Longrightarrow> unframe (framed parts) = parts"
proof (induction parts)
  case Nil
  show ?case by (simp add: framed_def unframe.simps)
next
  case (Cons p parts)
  have f: "framed (p # parts) = be64 (length p) @ p @ framed parts" by (simp add: framed_def)
  have "unframe (be64 (length p) @ p @ framed parts) = p # unframe (framed parts)"
    using Cons.prems by (subst unframe.simps) (simp add: from_be64)
  with Cons f show ?case by simp
qed




section \<open>The null document\<close>

lemma collect_all_empty: "(\<And>x. x \<in> set xs \<Longrightarrow> f x = Inr []) \<Longrightarrow> collect_all f xs = Inr []"
  by (induction xs) auto

lemma walk_nothing:
  assumes "\<And>f. lf f [] = Inr []"
  shows "walk_fields lf fs [] = Inr []"
  by (subst walk_fields.simps)
    (auto intro!: collect_all_empty simp: assms value_at_def componentItems_def zoneItems_def)

lemma null_is_accepted:
  assumes "\<forall>f \<in> set (ct_Fields ct). \<not> Required f"
  shows "validateAndNormalize E tenant sub ct (Text JNull) db = Inr (JNull, [], [])"
proof -
  have "validatePayload E (ct_Fields ct) [] = None"
    using assms by (simp add: validatePayload.simps check_unknown_keys_def present_def first_error_None)
  moreover have "checkRelations E tenant sub db (ct_Fields ct) [] = Inr []"
    unfolding checkRelations_def by (rule walk_nothing) (simp add: relation_leaf_def present_def)
  moreover have "collectMediaRefs E tenant db (ct_Fields ct) [] = Inr []"
    unfolding collectMediaRefs_def
    by (rule walk_nothing) (simp add: media_leaf_def present_def Let_def)
  ultimately show ?thesis by (simp add: validateAndNormalize_def decode_payload_def)
qed

text \<open>
  a stored null document breaks the next patch.  A type without required fields accepts the
  payload null, which is stored as it is; any patch that sets a key of such an entry then
  panics on the nil map, and the audit log of that call is what it is for a success.
\<close>

theorem null_document_breaks_patches:
  assumes "\<forall>f \<in> set (ct_Fields ct). \<not> Required f"
  shows "validateAndNormalize E tenant sub ct (Text JNull) db = Inr (JNull, [], []) \<and>
    mergeEntryPayload (Text (pruneUndefined (ct_Fields ct) JNull)) (Text (JObj ((k, v) # d))) = Inl nil_map_panic \<and>
    finish act (Some nil_map_panic) db = finish act None db"
  using null_is_accepted [OF assms]
  by (simp add: mergeEntryPayload_def decode_base_def pruneUndefined_def finish_def split: option.split)

theorem null_document_breaks_patches_witness:
  "validateAndNormalize \<lparr>regexp_compile = \<lambda>_. None, uuid_parse = Some, json_text = (\<lambda>_. [])\<rparr> ''acme'' demo_user (tr_Type demo_type)
     (Text JNull) demo_db = Inr (JNull, [], []) \<and>
   mergeEntryPayload (Text (pruneUndefined (ct_Fields (tr_Type demo_type)) JNull)) (Text (JObj [(''a'', JNull)])) = Inl nil_map_panic"
  using null_document_breaks_patches 
      [of "tr_Type demo_type" "\<lparr>regexp_compile = \<lambda>_. None, uuid_parse = Some, json_text = (\<lambda>_. [])\<rparr>" "''acme''" demo_user demo_db]
  by (simp add: demo_type_def)

section \<open>The answer to a create\<close>

lemma plain_create_plan:
  assumes "create_checks W ctx tn \<lparr>ci_Payload = payload, ci_Locale = [], ci_TranslationOf = None,
    ci_CopyFromSource = False, ci_IdempotencyKey = []\<rparr> fresh now db = Inr y"
  shows "\<exists>p i loc grp clean. y = Inr p \<and> pl_Idem p = None \<and> pl_Entry p = new_entry (pl_Sub p) (pl_Type p) i loc grp clean now"
proof -
  have t: "TrimSpace [] = []" by code_simp
  have no_left: "map_sum (\<lambda>e. e) Inr r = Inr y \<longleftrightarrow> (\<exists>p. r = Inr p \<and> y = Inr p)" for r :: "go_error + planned"
    by (cases r) auto
  from assms show ?thesis
    by (auto simp: create_checks_def idem_lookup_def NormalizeKey_def t no_left plan_create_def Let_def
        split: prod.splits) blast
qed

text \<open>
  the answer to a create leaves out the editor the table holds.  When a create answers an
  administrator, the entry it renders has no last editor, though the row it inserted names its
  creator as one, as every later read will.
\<close>

theorem create_answer_omits_the_editor:
  assumes "CreateEntry W ctx tn payload fresh now db = (Inr dto, db')" and "dto_aud dto = audienceAdmin"
  shows "w_UpdatedBy (dto_wire dto) = None \<and>
    (\<exists>r \<in> set (db_Entries db'). en_ID r = w_ID (dto_wire dto) \<and> en_UpdatedBy r = w_CreatedBy (dto_wire dto))"
proof -
  let ?inp = "\<lparr>ci_Payload = payload, ci_Locale = [], ci_TranslationOf = None, ci_CopyFromSource = False,
    ci_IdempotencyKey = []\<rparr>"
  let ?act = "beginActivity ctx ''entry.create'' True tn now"
  from assms(1) obtain y where y: "create_checks W ctx tn ?inp fresh now db = Inr y"
    by (auto simp: CreateEntry_def CreateLocalizedEntry_def Let_def closing_def split: sum.splits)
  from plain_create_plan [OF y] obtain p i loc grp clean where p: "y = Inr p" "pl_Idem p = None"
    "pl_Entry p = new_entry (pl_Sub p) (pl_Type p) i loc grp clean now" by blast
  with assms(1) y have commit: "create_commit p ?act db = (Inr dto, db')"
    by (simp add: CreateEntry_def CreateLocalizedEntry_def)
  then obtain e db1 where tx: "create_tx p db = Inr (e, db1)"
    and dto: "dto = ProjectEntry (tr_Type (pl_Type p)) e (pl_Sub p)" and l: "life_of db' = life_of db1"
    using p(2) by (auto simp: create_commit_def Let_def closing_def split: sum.splits bool.splits)
  from create_tx_life [OF tx] obtain db2 where ins: "CreateEntry_repo (pl_Entry p) db = Inr (e, db2)"
    and l2: "life_of db1 = life_of db2" by blast
  from CreateEntry_effect [OF ins] have e: "e = created_struct (pl_Entry p)"
    and es: "db_Entries db2 = inserted_row (pl_Entry p) # db_Entries db" by (simp_all add: life_of_def)
  have cols: "en_ID (inserted_row x) = en_ID (created_struct x)" "en_UpdatedBy (inserted_row x) = en_CreatedBy (created_struct x)"
    for x by (simp_all add: inserted_row_def created_struct_def Let_def)
  have "en_UpdatedBy e = None"
    by (simp add: e p(3) created_struct_def new_entry_def Let_def split: prod.split)
  moreover have "audienceFor (pl_Sub p) = audienceAdmin"
    using assms(2) by (simp add: dto ProjectEntry_def shared_literal_def on_wire_def Let_def split: audience.splits)
  moreover have "db_Entries db' = inserted_row (pl_Entry p) # db_Entries db"
    using l l2 es by (simp add: life_of_def)
  ultimately show ?thesis
    by (simp add: dto ProjectEntry_def shared_literal_def on_wire_def Let_def cols e)
qed


abbreviation demo_new :: entry_row where
  "demo_new \<equiv> new_entry demo_user demo_type ''e2'' DefaultLocale ''g2'' (JObj []) 10"

lemma demo_quota: "wd_quota demo_world tenant = Inr \<lparr>eq_MaxEntriesPerTenant = 0, eq_MaxEntryBytes = 0\<rparr>"
  by (simp add: demo_world_def)

lemma demo_planned:
  "create_checks demo_world (Some demo_user) ''post'' \<lparr>ci_Payload = Text (JObj []), ci_Locale = [],
     ci_TranslationOf = None, ci_CopyFromSource = False, ci_IdempotencyKey = []\<rparr> (''e2'', ''g2'') 10 empty_db =
   Inr (Inr \<lparr>pl_Sub = demo_user, pl_Type = demo_type, pl_Entry = demo_new, pl_Media = [], pl_Relations = [], pl_Idem = None\<rparr>)"
proof -
  have l: "ValidLocale DefaultLocale" and t: "TrimSpace [] = []" by code_simp+
  have v: "validateAndNormalize E tenant demo_user (tr_Type demo_type) (Text (JObj [])) empty_db = Inr (JObj [], [], [])" for E tenant
    by (simp add: validateAndNormalize_def decode_payload_def validatePayload.simps check_unknown_keys_def
        checkRelations_def collectMediaRefs_def walk_fields.simps demo_type_def)
  have "TypeByName (TenantID demo_user) ''post'' empty_db = Inr demo_type"
    by (simp add: TypeByName_def demo_defs demo_user_def)
  moreover have "guardRequiredWritable (tr_Type demo_type) demo_user = None"
    "guardWritableKeys (tr_Type demo_type) demo_user x = None" for x
    by (simp_all add: guardRequiredWritable_def guardWritableKeys_def anyRestricted_def demo_type_def)
  moreover have "TenantID demo_user = ''acme''" by (simp add: demo_user_def)
  ultimately show ?thesis
    using v l t demo_authorized
    by (simp add: create_checks_def effective_locale_def idem_lookup_def NormalizeKey_def plan_create_def demo_guards(1)
        guardEntryCount_def app_def translation_source_def guardEntryBytes_def Let_def demo_quota
        require_def refuse_if_def del: and_then_Inr)
qed

theorem create_answer_omits_the_editor_witness:
  "\<exists>dto db'. CreateEntry demo_world (Some demo_user) ''post'' (Text (JObj [])) (''e2'', ''g2'') 10 empty_db =
       (Inr (dto :: unit entry_dto), db') \<and> w_UpdatedBy (dto_wire dto) = None"
proof -
  let ?e = "inserted_row demo_new"
  have l: "ValidLocale DefaultLocale" by code_simp
  have "\<exists>r db'. CreateEntry_repo demo_new empty_db = Inr (r, db')"
    using l by (simp add: CreateEntry_repo_def inserted_row_def created_struct_def new_entry_def provenanceOf_def
        actor_def ResponsibleUserID_def IsAgent_def ActorKindAgent_def ActorKindHuman_def demo_user_def Let_def
        entry_check_def StatusPublished_def StatusDraft_def agent_columns_ok_def refreshEntryUniqueValues_def
        reservations_of_def reservations_def recordEntryRevision_def emitEntryEvent_def uuid_Nil_def
        demo_type_def empty_db_def)
  then obtain r db1 where "CreateEntry_repo demo_new empty_db = Inr (r, db1)" by blast
  then have "\<exists>db'. create_tx \<lparr>pl_Sub = demo_user, pl_Type = demo_type, pl_Entry = demo_new, pl_Media = [],
      pl_Relations = [], pl_Idem = None\<rparr> empty_db = Inr (r, db')"
    by (simp add: create_tx_def Let_def ReplaceEntryMedia_def ReplaceEntryRelations_def)
  then obtain db' where c: "CreateEntry demo_world (Some demo_user) ''post'' (Text (JObj [])) (''e2'', ''g2'') 10 empty_db =
       (Inr (ProjectEntry (tr_Type demo_type) r demo_user :: unit entry_dto), db')"
    by (auto simp: CreateEntry_def CreateLocalizedEntry_def demo_planned create_commit_def closing_def Let_def)
  have "dto_aud (ProjectEntry (tr_Type demo_type) r demo_user :: unit entry_dto) = audienceAdmin"
    by (simp add: ProjectEntry_def shared_literal_def on_wire_def audienceFor_def demo_user_def Let_def)
  from create_answer_omits_the_editor [OF c this] c show ?thesis by blast
qed


section \<open>Search and hidden fields\<close>

definition note_field :: field where
  "note_field = Field (zero_attrs\<lparr>f_Key := ''note'', f_Type := FieldTypeText, f_ReadRoles := [''owner'']\<rparr>) [] []"

definition note_type :: type_record where
  "note_type = demo_type\<lparr>tr_Type := (tr_Type demo_type)\<lparr>ct_Fields := [note_field]\<rparr>\<rparr>"

definition note_row :: "string \<Rightarrow> entry_row" where
  "note_row s = demo_row\<lparr>en_Payload := JObj [(''note'', JStr s)],
     en_SearchText := ExtractSearchText (ct_Fields (tr_Type note_type)) (Text (JObj [(''note'', JStr s)]))\<rparr>"

definition note_db :: "string \<Rightarrow> entry_db" where
  "note_db s = demo_db\<lparr>db_Types := [note_type], db_Entries := [note_row s]\<rparr>"

definition note_reader :: subject where
  "note_reader = demo_user\<lparr>TenantRole := ''editor''\<rparr>"

text \<open>
  C0: search answers from text its caller may not read.  A text field is closed to editors;
  still an editor's search finds the entry exactly when the hidden text contains the word
  searched for, so that the text can be read off by searching.
\<close>

theorem search_answers_from_hidden_text:
  "unreadableKeys (ct_Fields (tr_Type note_type)) note_reader = [''note''] \<and>
   en_SearchText (note_row s) = normalizeSearchText s \<and>
   SearchEntries ilike ''acme'' (TenantRole note_reader) ''bob'' [w] [] [] 20 (note_db s) =
     (if ilike (normalizeSearchText s) w then [note_row s] else [])"
proof (intro conjI)
  show "unreadableKeys (ct_Fields (tr_Type note_type)) note_reader = [''note'']"
    by (simp add: unreadableKeys_def note_type_def note_field_def zero_attrs_def canReadField_def ReadableBy_def
        roleAllowed_def note_reader_def demo_user_def)
  have "textFromFields [note_field] [(''note'', JStr s)] = (if s = [] then [] else [s])"
    by (simp add: textFromFields.simps present_def note_field_def zero_attrs_def stringValues_def)
  then show t: "en_SearchText (note_row s) = normalizeSearchText s"
    by (simp add: note_row_def note_type_def ExtractSearchText_def)
  have "dataVisible (TenantRole note_reader) ''bob'' (note_db s) (note_row s)"
    by (simp add: dataVisible_def note_db_def note_type_def note_row_def demo_defs)
  moreover have "en_TenantID (note_row s) = ''acme''" "db_Entries (note_db s) = [note_row s]"
    by (simp_all add: note_row_def note_db_def demo_row_def)
  ultimately show "SearchEntries ilike ''acme'' (TenantRole note_reader) ''bob'' [w] [] [] 20 (note_db s) =
     (if ilike (normalizeSearchText s) w then [note_row s] else [])"
    using t by (simp add: SearchEntries_def search_hit_def clamp_limit_def)
qed

section \<open>Snippets\<close>

text \<open>Twice the letter U+023A, whose lower case U+2C65 is one byte longer, and an a.\<close>

definition stroked :: string where
  "stroked = [CHR 0xC8, CHR 0xBA, CHR 0xC8, CHR 0xBA, CHR ''a'']"

definition stroked_lower :: string where
  "stroked_lower = [CHR 0xE2, CHR 0xB1, CHR 0xA5, CHR 0xE2, CHR 0xB1, CHR 0xA5, CHR ''a'']"

text \<open>
  a search can panic.  The snippet of a hit is cut at an index found in the lower-cased
  text; where lower-casing makes a text longer the index can lie outside the text itself.
\<close>

theorem snippet_index_outside_the_text:
  assumes "lower stroked = stroked_lower" and "lower ''a'' = ''a''"
  shows "SnippetFor lower stroked ''a'' = None"
proof -
  have "TrimSpace stroked = stroked" "TrimSpace ''a'' = ''a''" by code_simp+
  moreover have "str_index stroked_lower ''a'' = Some 6" by code_simp
  ultimately show ?thesis using assms by (simp add: SnippetFor_def Let_def) (simp add: stroked_def)
qed

theorem snippet_index_outside_the_text_witness:
  "SnippetFor (\<lambda>s. if s = stroked then stroked_lower else s) stroked ''a'' = None"
  by (rule snippet_index_outside_the_text) (simp_all add: stroked_def)

section \<open>Links of a release\<close>

lemma save_links:
  "UpdateEntry_repo e db = Inr (e', db') \<Longrightarrow> db_Media db' = db_Media db \<and> db_Relations db' = db_Relations db"
  by (auto simp: UpdateEntry_repo_def Let_def put_entry_def markSchedulesStale_def split: if_splits
      dest!: refresh_effect record_effect emit_effect)

lemma record_release_links:
  "recordPublishRevision n o' e db = Inr db' \<Longrightarrow>
     db_MediaPublished db' = db_MediaPublished db \<and> db_RelationsPublished db' = db_RelationsPublished db"
  by (auto simp: recordPublishRevision_def Let_def split: if_splits option.splits)

lemma links_of_replaced: "links_of t i (links_not_of t i xs @ links_of t i ys) = links_of t i ys"
  by (auto simp: links_of_def links_not_of_def filter_empty_conv)

lemma publish_links:
  assumes "SetEntryPublishState_repo n o' e StatusPublished pa db = Inr (e', db')"
  shows "links_of (en_TenantID e) (en_ID e) (db_MediaPublished db') = links_of (en_TenantID e) (en_ID e) (db_Media db) \<and>
    links_of (en_TenantID e) (en_ID e) (db_RelationsPublished db') = links_of (en_TenantID e) (en_ID e) (db_Relations db)"
  using assms
  by (auto simp: SetEntryPublishState_repo_def Let_def put_entry_def markSchedulesSuperseded_def snapshot_links_def
      links_of_replaced split: if_splits dest!: refresh_effect record_release_links emit_effect)

lemma update_links_published:
  "update_links s db = (err, db') \<Longrightarrow> db_MediaPublished db' = db_MediaPublished db \<and>
     db_RelationsPublished db' = db_RelationsPublished db \<and> db_Entries db' = db_Entries db"
  by (auto simp: update_links_def Let_def split: sum.splits dest!: media_effect relations_effect)

text \<open>
  a release between the two halves of a save snapshots the old links.  A save commits the
  document first and its links in transactions of their own; a release that commits in between
  puts the new document on air with the links of the old one, and the save does not mend them.
\<close>

theorem release_between_save_and_links:
  assumes "db_ok db" and "UpdateEntry_repo e db = Inr (e1, db1)"
    and "SetEntryPublishState_repo n o' x StatusPublished pa db1 = Inr (x1, db2)"
    and "en_ID x = en_ID e" and "en_TenantID x = en_TenantID e"
    and "update_links s db2 = (err, db3)"
  shows "(\<exists>d. document_in (en_ID e) db3 = Some d \<and> on_air d \<and> copy d = Some (en_Payload e)) \<and>
    links_of (en_TenantID e) (en_ID e) (db_MediaPublished db3) = links_of (en_TenantID e) (en_ID e) (db_Media db) \<and>
    links_of (en_TenantID e) (en_ID e) (db_RelationsPublished db3) = links_of (en_TenantID e) (en_ID e) (db_Relations db)"
proof -
  have ok: "db_ok db1" using assms(1,2) save_keeps by blast
  from save_refines [OF assms(2,1)] publish_refines [OF assms(3) ok] assms(4)
  have "\<exists>d. document_in (en_ID e) db2 = Some d \<and> on_air d \<and> copy d = Some (en_Payload e)"
    by (auto simp: released_doc_def)
  with update_links_published [OF assms(6)] publish_links [OF assms(3)] save_links [OF assms(2)] assms(4,5)
  show ?thesis by simp
qed


definition demo_row2 :: entry_row where
  "demo_row2 = demo_row\<lparr>en_Version := 2\<rparr>"

lemma demo_saved_twice:
  "\<exists>r db'. UpdateEntry_repo demo_row demo_db = Inr (r, db') \<and> db_Types db' = [demo_type] \<and>
     db_Entries db' = [demo_row2] \<and> db_Unique db' = [] \<and> db_Outbox db' = None"
  by (simp add: UpdateEntry_repo_def locked_row_def row_at_def Let_def saved_row_def entry_check_def
      StatusPublished_def agent_columns_ok_def refreshEntryUniqueValues_def put_entry_def reservations_of_def
      reservations_def recordEntryRevision_def emitEntryEvent_def markSchedulesStale_def revision_of_def
      demo_row2_def demo_defs)

lemma demo_released:
  assumes "db_Types db = [demo_type]" and "db_Entries db = [demo_row2]" and "db_Unique db = []" and "db_Outbox db = None"
  shows "\<exists>r db'. SetEntryPublishState_repo ''r1'' direct_publish demo_row2 StatusPublished (Some 30) db = Inr (r, db')"
  using assms
  by (simp add: SetEntryPublishState_repo_def locked_row_def row_at_def released_row_def Let_def
      entry_check_def StatusPublished_def agent_columns_ok_def refreshEntryUniqueValues_def put_entry_def
      reservations_of_def reservations_def recordPublishRevision_def origin_Valid_def direct_publish_def
      markSchedulesSuperseded_def snapshot_links_def emitEntryEvent_def demo_row2_def demo_type_def demo_row_def)

theorem release_between_save_and_links_witness:
  "\<exists>r1 db1 r2 db2. UpdateEntry_repo demo_row demo_db = Inr (r1, db1) \<and>
     SetEntryPublishState_repo ''r1'' direct_publish demo_row2 StatusPublished (Some 30) db1 = Inr (r2, db2) \<and>
     (\<forall>s err db3. update_links s db2 \<noteq> (err, db3) \<or>
        links_of ''acme'' ''e1'' (db_MediaPublished db3) = links_of ''acme'' ''e1'' (db_Media demo_db))"
proof -
  from demo_saved_twice obtain r1 db1 where u: "UpdateEntry_repo demo_row demo_db = Inr (r1, db1)"
    and t: "db_Types db1 = [demo_type]" "db_Entries db1 = [demo_row2]" "db_Unique db1 = []" "db_Outbox db1 = None" by blast
  from demo_released [OF t] obtain r2 db2 where
    p: "SetEntryPublishState_repo ''r1'' direct_publish demo_row2 StatusPublished (Some 30) db1 = Inr (r2, db2)" by blast
  have k: "en_ID demo_row2 = en_ID demo_row" "en_TenantID demo_row2 = en_TenantID demo_row"
    "en_ID demo_row = ''e1''" "en_TenantID demo_row = ''acme''"
    by (simp_all add: demo_row2_def demo_row_def)
  from release_between_save_and_links [OF demo_ok u p k(1,2)] u p k(3,4) show ?thesis by auto
qed

section \<open>Restoring what is there\<close>

lemma same_document_unchanged: "ChangedKeysBetween x x = []"
  by (auto simp: ChangedKeysBetween_def Let_def same_at_def sameJSONValue_def filter_empty_conv
      split: option.split)

text \<open>
  a restoration that changes nothing is refused.  The code means to guard the keys a
  restoration would change.  When it would change none, the empty list of keys selects the
  whole document, and a caller who may not write one key of it is refused.
\<close>

theorem unchanged_restore_is_refused:
  assumes "0 < n" and "resolveRevisionEntry W ctx ''content:update'' tn i db = Inr (sub, t, e)"
    and "version_matches expected e = Inr ()" and "loadRevision (TenantID sub) i n db = Inr r"
    and "pruneUndefined (ct_Fields (tr_Type t)) (en_Payload e) = JObj d"
    and "pruneUndefined (ct_Fields (tr_Type t)) (pr_Payload r) = JObj d"
    and "k \<in> fst ` set d" and "FieldByKey (ct_Fields (tr_Type t)) k = Some f" and "\<not> canWriteField f sub"
  shows "ChangedKeysBetween (Text (JObj d)) (Text (JObj d)) = [] \<and>
    (\<exists>k allowed. restore_checks W ctx tn i n expected now db = Inl (AppError (errFieldWriteForbidden k allowed)))"
proof -
  have "refuse_unwritable (ct_Fields (tr_Type t)) sub k \<noteq> None"
    using assms(8,9) by (simp add: refuse_unwritable_def)
  with assms(7) obtain err where g: "guardWritableKeys (tr_Type t) sub (Text (JObj d)) = Some err"
    unfolding gate_shortcut by (cases "first_error (refuse_unwritable (ct_Fields (tr_Type t)) sub) (sort (map fst d))") force+
  from guardWritableKeys_Some [OF g] obtain k' a where err: "err = errFieldWriteForbidden k' a" by blast
  have "restore_checks W ctx tn i n expected now db = Inl (AppError err)"
    using assms(1-6) g
    by (simp add: restore_checks_def Let_def same_document_unchanged keepKeys_def app_def require_def refuse_if_def
        del: and_then_Inr)
  with err same_document_unchanged show ?thesis by blast
qed


definition note_release :: publish_revision where
  "note_release = \<lparr>pr_ID = ''r1'', pr_TenantID = ''acme'', pr_EntryID = ''e1'', pr_RevisionNo = 1,
     pr_Payload = JObj [(''note'', JStr ''x'')], pr_Version = 1, pr_PublishedAt = 5, pr_PublishedBy = None,
     pr_Via = [], pr_ViaScheduleID = None\<rparr>"

definition released_note_db :: entry_db where
  "released_note_db = (note_db ''x'')\<lparr>db_Releases := [note_release]\<rparr>"

lemma note_resolved:
  "resolveRevisionEntry demo_world (Some note_reader) ''content:update'' ''post'' ''e1'' released_note_db =
     Inr (note_reader, note_type, note_row ''x'')"
proof -
  have "authorize (wd_allow demo_world) (Some note_reader) a rid ct = Inr note_reader" for a rid ct
    by (simp add: authorize_def authorize_Inr scope_None demo_world_def note_reader_def demo_user_def IsAgent_def
        ActorKindAgent_def)
  moreover have "guardRevisionAudience note_reader = None"
    by (simp add: guardRevisionAudience_def note_reader_def demo_user_def IsAgent_def ActorKindAgent_def)
  moreover have "TypeByName (TenantID note_reader) ''post'' released_note_db = Inr note_type"
    "GetEntry_repo (TenantID note_reader) (tr_ID note_type) ''e1'' released_note_db = Inr (note_row ''x'')"
    by (simp_all add: TypeByName_def GetEntry_repo_def find_entry_def row_at_def released_note_db_def note_db_def
        note_type_def note_row_def note_reader_def demo_user_def demo_defs)
  moreover have w: "guardTypeWrite (tr_Type note_type) note_reader = None"
    and "guardOwned (tr_Type note_type) note_reader a = None" for a
    by (simp_all add: guardTypeWrite_def guardOwned_def canWriteType_def canReadType_def EntriesReadableBy_def
        EntriesWritableBy_def roleAllowed_def ConfinesToOwn_def confinedAuthor_def note_type_def demo_type_def
        note_reader_def demo_user_def)
  ultimately show ?thesis
    by (simp add: resolveRevisionEntry_def app_def refuse_if_def w del: and_then_Inr)
qed

theorem unchanged_restore_is_refused_witness:
  "\<exists>k allowed. restore_checks demo_world (Some note_reader) ''post'' ''e1'' 1 0 20 released_note_db =
     Inl (AppError (errFieldWriteForbidden k allowed))"
proof -
  let ?d = "[(''note'', JStr ''x'')]"
  have "loadRevision (TenantID note_reader) ''e1'' 1 released_note_db = Inr note_release"
    by (simp add: loadRevision_def GetEntryPublishRevision_def released_note_db_def note_release_def note_reader_def
        demo_user_def require_def)
  moreover have "pruneUndefined (ct_Fields (tr_Type note_type)) (en_Payload (note_row ''x'')) = JObj ?d"
    "pruneUndefined (ct_Fields (tr_Type note_type)) (pr_Payload note_release) = JObj ?d"
    by (simp_all add: pruneUndefined_def note_type_def note_field_def zero_attrs_def note_row_def note_release_def)
  moreover have "FieldByKey (ct_Fields (tr_Type note_type)) ''note'' = Some note_field"
    by (simp add: FieldByKey_def note_type_def note_field_def zero_attrs_def)
  moreover have "\<not> canWriteField note_field note_reader"
    by (simp add: canWriteField_def canReadField_def ReadableBy_def roleAllowed_def note_field_def zero_attrs_def
        note_reader_def demo_user_def)
  moreover have "version_matches 0 (note_row ''x'') = Inr ()" by (simp add: version_matches_def require_def)
  moreover have "''note'' \<in> fst ` set ?d" by simp
  ultimately show ?thesis
    using unchanged_restore_is_refused [OF _ note_resolved, of 1 0 note_release ?d "''note''" note_field 20] by simp
qed

end
