(* ===== verification/Read_Promises.thy ===== *)
theory Read_Promises
  imports Entry_Expansion Delivery_Usage Entry_Gaps
begin

text \<open>
  The properties of the read side: paging reaches every entry, a delivery credential learns
  released content only, expansion stays in its bounds, no counted read is lost, and two places
  where the code falls short of this.
\<close>

section \<open>Following the cursors\<close>


definition web_row :: "uuid \<Rightarrow> entry_row" where
  "web_row i = demo_row\<lparr>en_ID := i, en_Status := ''published'', en_PublishedPayload := Some (JObj [])\<rparr>"

definition web_db :: "uuid list \<Rightarrow> entry_db" where
  "web_db ids = empty_db\<lparr>db_Entries := map web_row ids\<rparr>"

definition web_sql :: "nat sql" where
  "web_sql = \<lparr>sq_ParseFloat = \<lambda>_. None, sq_text = \<lambda>_. [], sq_cast = \<lambda>_ _. None, sq_ilike = \<lambda>_ _. False\<rparr>"

definition web_input :: "int \<Rightarrow> list_input" where
  "web_input n = \<lparr>li_Filters = [], li_Sort = [], li_Fields = [], li_Populate = [], li_Status = [], li_Locale = [],
     li_Limit = n, li_Offset = 0, li_Cursor = NoCursor, li_Query = []\<rparr>"

definition web_plan :: list_plan where
  "web_plan = \<lparr>lp_Sub = anyone, lp_Type = demo_type, lp_Filters = [], lp_Sort = None, lp_After = None,
     lp_Projection = [], lp_Specs = []\<rparr>"

lemma anyone_facts: "audienceFor anyone = audienceDelivery" "TenantID anyone = ''acme''" "PublicDelivery anyone"
  "PreviewEntryID anyone = None" "\<not> IsAgent anyone"
  by (simp_all add: audienceFor_def anyone_def demo_user_def IsAgent_def ActorKindAgent_def)

lemma anyone_authorized:
  "isReadAction action \<Longrightarrow> authorize (wd_allow demo_world) (Some anyone) action rid ct = Inr anyone"
  using anyone_facts by (simp add: authorize_def authorize_Inr scope_None demo_world_def)

lemma anyone_reads: "guardTypeRead (tr_Type demo_type) anyone = None" "guardOwned (tr_Type demo_type) anyone a = None"
  "TypeByName ''acme'' ''post'' (web_db ids) = Inr demo_type"
  using delivery_unconfined(2) [OF anyone_facts(1)] anyone_facts
  by (simp_all add: guardTypeRead_def canReadType_def EntriesReadableBy_def roleAllowed_def TypeByName_def web_db_def demo_defs)

lemma web_planned: "list_plan_of demo_world (Some anyone) ''post'' (web_input n) (web_db ids) = Inr web_plan"
proof -
  have t: "TrimSpace [] = []" by code_simp
  have a: "authorize (wd_allow demo_world) (Some anyone) ''content:list'' rid ct = Inr anyone" for rid ct
    by (rule anyone_authorized) (simp add: isReadAction_def)
  show ?thesis
    using anyone_facts anyone_reads
    by (simp add: list_plan_of_def a web_input_def guardPreviewCollection_def app_None guardPopulateAudience_def guardTypeRead_def
        paging_ok_def require_def parseSort_def t decodeCursor_def parseProjection_def parsePopulate_def web_plan_def
        del: and_then_Inr)
qed

lemma web_rows: "en_TenantID (web_row i) = ''acme''" "en_ContentTypeID (web_row i) = ''t1''" "en_ID (web_row i) = i"
  "en_Status (web_row i) = ''published''" "en_CreatedAt (web_row i) = 10"
  by (simp_all add: web_row_def demo_row_def)

lemma web_matched:
  "matched web_sql (query_of web_plan (web_input n)) (web_db ids) =
     Inr (order_by (ordered_by web_sql (query_of web_plan (web_input n))) (map web_row ids))"
proof -
  have u: "Fields_of [] = []" by code_simp
  let ?f = "query_of web_plan (web_input n)"
  have f: "lf_TenantID ?f = ''acme''" "lf_ContentTypeID ?f = ''t1''" "lf_Status ?f = ''published''" "lf_Locale ?f = []"
    "lf_TranslationGroupID ?f = uuid_Nil" "lf_CreatedBy ?f = None" "lf_Query ?f = []" "lf_Filters ?f = []"
    "lf_Sort ?f = None" "lf_MatchPublished ?f"
    using anyone_facts delivery_unconfined(1) [OF anyone_facts(1)]
    by (simp_all add: query_of_def Let_def web_plan_def web_input_def demo_type_def StatusPublished_def)
  have bad: "\<not> list_ex (bad_sort web_sql ?f) rows" for rows using f by (simp add: bad_sort_def list_ex_iff)
  have keep: "filter (\<lambda>e. en_TenantID e = ''acme'') (map web_row ids) = map web_row ids"
    "filter (\<lambda>e. en_ContentTypeID e = ''t1'') (map web_row ids) = map web_row ids"
    "filter (\<lambda>e. en_Status e = ''published'') (map web_row ids) = map web_row ids"
    by (simp_all add: filter_map comp_def web_rows)
  have "buildWhere web_sql ?f = Inr [\<lambda>e. truth_of (en_TenantID e = ''acme''), \<lambda>e. truth_of (en_ContentTypeID e = ''t1''),
      \<lambda>e. truth_of (en_Status e = ''published'')]"
    using f u by (simp add: buildWhere_def predicateColumn_def column_conditions_def require_def StatusPublished_def)
  moreover have "rows_where [\<lambda>e. truth_of (en_TenantID e = ''acme''), \<lambda>e. truth_of (en_ContentTypeID e = ''t1''),
      \<lambda>e. truth_of (en_Status e = ''published'')] (map web_row ids) = Inr (map web_row ids)"
    unfolding rows_where_three keep by simp
  ultimately show ?thesis using bad by (simp add: matched_def require_def web_db_def)
qed

lemma web_pages:
  assumes "distinct ids"
  shows "pages_of demo_world web_sql (Some anyone) ''post'' (web_input n) (web_db ids) web_plan
     (order_by (ordered_by web_sql (query_of web_plan (web_input n))) (map web_row ids))"
proof -
  have w: "window_ok audienceDelivery (web_input n) = Inr ()"
    by (simp add: window_ok_def web_input_def require_def maxSearchQueryLen_def)
  have "(web_input n)\<lparr>li_Cursor := NoCursor\<rparr> = web_input n" by (simp add: web_input_def)
  moreover have "map en_ID (map web_row ids) = ids" by (induction ids) (simp_all add: web_rows)
  moreover have "text_range 10" by code_simp
  ultimately show ?thesis
    using assms anyone_facts w web_matched [of n ids] web_planned [of n ids]
    by (auto simp: pages_of_def web_plan_def web_db_def web_rows demo_world_def)
qed


section \<open>Delivery sees releases only\<close>

text \<open>
  C21: Two states of the tables that agree on what has been released answer a delivery credential
  alike: its lists, whatever they filter, sort, search and expand, its single reads, and the
  reads counted for it.
\<close>

theorem delivery_reads_only_releases:
  assumes "audienceFor sub = audienceDelivery" and "released_db db = released_db db'"
    and "distinct (map en_ID (db_Entries db))" and "distinct (map en_ID (db_Entries db'))"
  shows "list_answer W Q (Some sub) tn inp db c = list_answer W Q (Some sub) tn inp db' c \<and>
     get_answer W (Some sub) tn i populate db c = get_answer W (Some sub) tn i populate db' c"
  using released_list [OF assms(1), of W Q tn inp db c] released_list [OF assms(1), of W Q tn inp db' c]
    released_get [OF assms(1,3), of W tn i populate c] released_get [OF assms(1,4), of W tn i populate c] assms(2)
  by simp

definition web_draft_db :: entry_db where
  "web_draft_db = (web_db [])\<lparr>db_Entries := [(web_row ''e1'')\<lparr>en_Payload := JObj [(''x'', JNull)], en_Version := 7\<rparr>, demo_row\<lparr>en_ID := ''e9''\<rparr>]\<rparr>"

theorem delivery_reads_only_releases_witness:
  "list_answer demo_world web_sql (Some anyone) ''post'' (web_input 5) web_draft_db (\<lambda>_. 0) =
     list_answer demo_world web_sql (Some anyone) ''post'' (web_input 5) (web_db [''e1'']) (\<lambda>_. 0)"
proof -
  have "released_db web_draft_db = released_db (web_db [''e1''])"
    by (simp add: released_db_def web_draft_db_def web_db_def released_part_def web_row_def demo_defs IsPublished_def
        StatusPublished_def)
  from delivery_reads_only_releases [OF anyone_facts(1) this, of demo_world web_sql "''post''" "web_input 5" "\<lambda>_. 0"]
  show ?thesis by (simp add: web_draft_db_def web_db_def web_rows demo_row_def)
qed

section \<open>Expansion\<close>

text \<open>
  C22: What an accepted \<open>populate\<close> expands is bounded and permitted: at most 500 distinct targets
  and three levels, every one a stored entry of the caller's tenant, of a type the caller may
  read and not confined away, on air if the caller is a delivery credential, and rendered for
  this caller.
\<close>

theorem populate_stays_in_bounds:
  assumes "parsePopulate sub db ct raws = Inr specs" and "populateFor E sub db specs entries = Inr g"
  shows "\<exists>seen. length seen \<le> 500 \<and>
     (\<forall>i xs k r l d. g i = Some xs \<and> (k, r) \<in> set xs \<and> dto_at l d r \<longrightarrow>
        l \<le> 3 \<and> may_show sub db d \<and> dto_id d \<in> set seen)"
  using populate_shows [OF assms] unfolding sound_value_def maxPopulateIDs_def maxPopulateDepth_def by metis

definition link_field :: field where
  "link_field = Field (zero_attrs\<lparr>f_Key := ''next'', f_Type := FieldTypeRelation, f_RelationEntity := ''post''\<rparr>) [] []"

definition link_type :: type_record where
  "link_type = demo_type\<lparr>tr_Type := (tr_Type demo_type)\<lparr>ct_Fields := [link_field]\<rparr>\<rparr>"

definition link_db :: entry_db where
  "link_db = empty_db\<lparr>db_Types := [link_type],
     db_Entries := [demo_row\<lparr>en_Payload := JObj [(''next'', JStr ''e2'')]\<rparr>, demo_row\<lparr>en_ID := ''e2''\<rparr>]\<rparr>"

lemma link_parsed: "parsePopulate demo_user link_db (tr_Type link_type) [''next''] = Inr [Node link_field link_type []]"
proof -
  have t: "TrimSpace ''next'' = ''next''" "Split CHR ''.'' ''next'' = [''next'']" by code_simp+
  have "FieldByKey (ct_Fields (tr_Type link_type)) ''next'' = Some link_field" "canReadField link_field demo_user"
    "TypeByName ''acme'' ''post'' link_db = Inr link_type" "guardTypeRead (tr_Type link_type) demo_user = None"
    by (simp_all add: FieldByKey_def link_type_def link_field_def zero_attrs_def canReadField_def ReadableBy_def
        roleAllowed_def TypeByName_def link_db_def demo_defs demo_user_def guardTypeRead_def canReadType_def EntriesReadableBy_def)
  moreover have "Type link_field = FieldTypeRelation" "RelationEntity link_field = ''post''" "TenantID demo_user = ''acme''"
    by (simp_all add: link_field_def zero_attrs_def demo_user_def)
  ultimately show ?thesis
    by (simp add: parsePopulate_def t maxPopulateDepth_def node_at_def resolve_new_def app_None guardTypeRead_def Let_def)
qed

theorem populate_stays_in_bounds_witness:
  "\<exists>specs g seen. parsePopulate demo_user link_db (tr_Type link_type) [''next''] = Inr specs \<and> specs \<noteq> [] \<and>
     populateFor (wd_env demo_world) demo_user link_db specs (db_Entries link_db) = Inr g \<and> length seen \<le> 500 \<and>
     (\<forall>i xs k r l d. g i = Some xs \<and> (k, r) \<in> set xs \<and> dto_at l d r \<longrightarrow>
        l \<le> 3 \<and> may_show demo_user link_db d \<and> dto_id d \<in> set seen)"
proof -
  have a: "audienceFor demo_user = audienceAdmin" by (simp add: audienceFor_def demo_user_def)
  have "\<exists>g. populateFor (wd_env demo_world) demo_user link_db [Node link_field link_type []] (db_Entries link_db) = Inr g"
    by (simp add: populateFor_def populateLevel.simps populate_fields.simps Let_def a wanted_def populateSourcePayload_def
        relationIDs_def decodeObject_def decoded_string_def link_db_def link_field_def zero_attrs_def demo_defs
        demo_world_def budget_add_def maxPopulateIDs_def)
  then show ?thesis using populate_stays_in_bounds [OF link_parsed] link_parsed by blast
qed

section \<open>Counted reads\<close>

text \<open>
  C23: Whatever requests, drains, writes and put-backs interleave, the reads recorded for a
  tenant are all accounted for: in the counter, among the drained tenants still to be written, or
  in the buckets of the days written to.
\<close>

theorem no_delivery_read_is_lost:
  assumes "usage_history ops (\<lambda>_. 0, [], \<lambda>_. 0) (c, q, b)" and "t \<noteq> []"
  shows "c t + in_flight t q + in_buckets t {d. Written d \<in> set ops} b = count_list ops (Read t)"
proof -
  have "finite {d. Written d \<in> set ops}"
    using finite_vimageI [of "set ops" Written] by (simp add: vimage_def inj_def)
  from usage_history_reads [OF assms(1) this _ assms(2)] show ?thesis
    by (simp add: reads_of_def in_flight_def in_buckets_def)
qed

theorem no_delivery_read_is_lost_witness:
  "\<exists>c q b. usage_history [Read ''acme'', Drained [''acme''], Read ''acme'', PutBack] (\<lambda>_. 0, [], \<lambda>_. 0) (c, q, b) \<and>
     c ''acme'' + in_flight ''acme'' q + in_buckets ''acme'' {} b = 2"
proof -
  let ?c = "Record_read ''acme'' (\<lambda>_. 0)"
  have "usage_step (Drained [''acme'']) (?c, [], \<lambda>_. 0) (\<lambda>_. 0, map (\<lambda>t. (t, ?c t)) [''acme''], \<lambda>_. 0)"
    by (rule usage_step.drained) (auto simp: Record_read_def drain_def)
  then have d: "usage_step (Drained [''acme'']) (?c, [], \<lambda>_. 0) (\<lambda>_. 0, [(''acme'', ?c ''acme'')], \<lambda>_. 0)" by simp
  have "\<exists>c q b. usage_history [Read ''acme'', Drained [''acme''], Read ''acme'', PutBack] (\<lambda>_. 0, [], \<lambda>_. 0) (c, q, b)"
    using usage_history.more [OF usage_step.read usage_history.more [OF d usage_history.more [OF usage_step.read
      usage_history.more [OF usage_step.put_back usage_history.start]]]] by blast
  then obtain c q b where h: "usage_history [Read ''acme'', Drained [''acme''], Read ''acme'', PutBack] (\<lambda>_. 0, [], \<lambda>_. 0) (c, q, b)"
    by blast
  from no_delivery_read_is_lost [OF h, of "''acme''"]
  have "c ''acme'' + in_flight ''acme'' q + in_buckets ''acme'' {} b = 2" by simp
  with h show ?thesis by blast
qed

section \<open>Where the reads fall short\<close>

text \<open>
  At the largest page size the service accepts, a delivery list ends early: the service asks
  for 101 rows, the repository takes that for out of range and returns 20, and the page says
  there is no more.
\<close>

theorem hundred_row_page_ends_early:
  assumes "pages_of W Q ctx tn inp db p ord" and "list_limit (li_Limit inp) = 100" and "20 < length ord"
  shows "\<exists>r. fst (list_answer W Q ctx tn (inp\<lparr>li_Cursor := NoCursor\<rparr>) db c) = Inr r \<and> lr_Limit r = 100 \<and>
     length (lr_Items r) = 20 \<and> lr_HasMore r = Some False \<and> lr_NextCursor r = NoCursor"
proof -
  let ?f = "query_of p inp"
  have pg: "list_plan_of W ctx tn (inp\<lparr>li_Cursor := NoCursor\<rparr>) db = Inr p" "audienceFor (lp_Sub p) = audienceDelivery"
    "lp_Specs p = []" "window_ok audienceDelivery inp = Inr ()" "distinct (map en_ID (db_Entries db))"
    "matched Q ?f db = Inr ord"
    using assms(1) by (auto simp: pages_of_def)
  have "decodeCursor (wd_env W) NoCursor (lp_Sort p) = Inr None" by (simp add: decodeCursor_def)
  note plan = plan_after [OF pg(1,2) this]
  let ?g = "?f\<lparr>lf_After := None\<rparr>"
  have m: "matched Q ?g db = Inr ord" using pg(6) by (simp add: matched_def)
  have "lf_CursorPaged ?g" using pg(2) by (simp add: query_of_def Let_def)
  from page_found [OF m pg(5) this] have "ListEntries_repo Q ?g db = Inr (take (page_limit (lf_Limit ?g)) ord, 0)"
    by simp
  moreover have "page_limit (lf_Limit ?g) = 20" using assms(2) pg(2) by (simp add: query_of_def Let_def page_limit_def)
  ultimately have "ListEntries_repo Q (query_of (p\<lparr>lp_After := None\<rparr>) (inp\<lparr>li_Cursor := NoCursor\<rparr>)) db = Inr (take 20 ord, 0)"
    using pg(2) by (simp add: query_after)
  then show ?thesis using plan pg assms(2,3) by (simp add: list_answer_def page_of_def Let_def)
qed

theorem hundred_row_page_ends_early_witness:
  "\<exists>r. fst (list_answer demo_world web_sql (Some anyone) ''post'' ((web_input 100)\<lparr>li_Cursor := NoCursor\<rparr>)
       (web_db (map (\<lambda>n. replicate n CHR ''e'') [0..<21])) (\<lambda>_. 0)) = Inr r \<and> lr_Limit r = 100 \<and>
     length (lr_Items r) = 20 \<and> lr_HasMore r = Some False \<and> lr_NextCursor r = NoCursor"
proof -
  have "inj_on (\<lambda>n. replicate n CHR ''e'') {0..<21}" by (rule inj_onI) (metis length_replicate)
  then have "distinct (map (\<lambda>n. replicate n CHR ''e'') [0..<21])" by (simp add: distinct_map del: upt_Suc)
  from hundred_row_page_ends_early [OF web_pages [OF this]] show ?thesis
    by (simp add: list_limit_def web_input_def del: upt_Suc)
qed

text \<open>
  C0: A delivery credential that is answered not found for an entry that is not on air is still
  told who refers to it, with the titles of their unpublished drafts: the reverse lookup lacks
  the check of the read, for a preview link too.
\<close>

theorem references_of_an_unpublished_entry_are_shown:
  assumes plan: "get_plan W (Some sub) tn i [] db = Inr (sub, t, specs, e)" and "PublicDelivery sub"
    and gate: "\<not> delivery_gate sub e" and "\<not> IsAgent sub"
    and l: "l \<in> set (db_Relations db)" "ln_TenantID l = TenantID sub" "ln_Target l = i"
    and src: "find (\<lambda>r. en_ID r = ln_EntryID l \<and> en_TenantID r = TenantID sub) (db_Entries db) = Some src"
    and ty: "find (\<lambda>t. tr_ID t = en_ContentTypeID src) (db_Types db) = Some t'"
      "TypeByName (TenantID sub) (ct_Name (tr_Type t')) db = Inr t'" "canReadType (tr_Type t') sub"
    and few: "length (db_Relations db) + length (db_RelationsPublished db) \<le> 50"
  shows "fst (get_answer W (Some sub) tn i [] db c) = Inl entry_not_found \<and>
     (\<exists>rows n. EntryReferencedBy W (Some sub) tn i 0 0 db = Inr (rows, n) \<and>
        (\<exists>r \<in> set rows. rr_EntryID r = ln_EntryID l \<and>
           rr_Title r = TitleFor (ct_Fields (tr_Type t')) (Text (en_Payload src))))"
proof -
  let ?tn = "TenantID sub"
  let ?drafts = "links_to ?tn i (db_Relations db)" and ?pubs = "links_to ?tn i (db_RelationsPublished db)"
  let ?key = "(ln_EntryID l, ln_FieldPath l)"
  let ?row = "\<lparr>rr_EntryID = ln_EntryID l, rr_TypeName = ct_Name (tr_Type t'),
      rr_Title = TitleFor (ct_Fields (tr_Type t')) (Text (en_Payload src)), rr_FieldPath = ln_FieldPath l,
      rr_Draft = True, rr_Published = (?key \<in> set ?pubs)\<rparr>"
  let ?all = "List.map_filter (referring_row ?tn ?drafts ?pubs db) (sort (remdups (?drafts @ ?pubs)))"
  have refused: "fst (get_answer W (Some sub) tn i [] db c) = Inl entry_not_found"
    using plan assms(2) gate by (simp add: get_answer_def)
  have planned: "referenced_plan W (Some sub) tn i db = Inr sub"
    using plan by (auto simp: get_plan_def referenced_plan_def)
  have key: "?key \<in> set ?drafts" using l by (auto simp: links_to_def)
  then have "referring_row ?tn ?drafts ?pubs db ?key = Some ?row" using src ty by (simp add: referring_row_def Let_def)
  then have mem: "?row \<in> set ?all" using key by (auto simp: in_map_filter)
  have "length ?all \<le> length (remdups (?drafts @ ?pubs))"
    unfolding List.map_filter_def using length_filter_le [of _ "sort (remdups (?drafts @ ?pubs))"] by simp
  also have "\<dots> \<le> length (?drafts @ ?pubs)" by (rule length_remdups_leq)
  also have "\<dots> \<le> length (db_Relations db) + length (db_RelationsPublished db)"
    by (simp add: links_to_def add_mono)
  finally have "take 50 ?all = ?all" using few by simp
  then have q: "referencedByQuery ?tn (db_Relations db) (db_RelationsPublished db) i 50 0 db = (?all, length ?all)"
    using mem by (simp add: referencedByQuery_def Let_def)
  have "?row \<in> set (readableReferencedByRows ?all sub db)"
    using mem ty assms(4) by (simp add: readableReferencedByRows_def)
  moreover have "EntryReferencedBy W (Some sub) tn i 0 0 db = Inr (readableReferencedByRows ?all sub db, length ?all)"
    using planned q by (simp add: EntryReferencedBy_def clampReferencedByPage_def)
  moreover have "rr_EntryID ?row = ln_EntryID l" "rr_Title ?row = TitleFor (ct_Fields (tr_Type t')) (Text (en_Payload src))"
    by simp_all
  ultimately show ?thesis using refused by blast
qed

definition linked_db :: entry_db where
  "linked_db = link_db\<lparr>db_Relations := [\<lparr>ln_TenantID = ''acme'', ln_EntryID = ''e1'', ln_FieldPath = ''next'', ln_Target = ''e2''\<rparr>]\<rparr>"

theorem references_of_an_unpublished_entry_are_shown_witness:
  "fst (get_answer demo_world (Some anyone) ''post'' ''e2'' [] linked_db (\<lambda>_. 0)) = Inl entry_not_found \<and>
   (\<exists>rows n. EntryReferencedBy demo_world (Some anyone) ''post'' ''e2'' 0 0 linked_db = Inr (rows, n) \<and>
      (\<exists>r \<in> set rows. rr_EntryID r = ''e1'' \<and>
         rr_Title r = TitleFor [link_field] (Text (JObj [(''next'', JStr ''e2'')]))))"
proof -
  let ?e1 = "demo_row\<lparr>en_Payload := JObj [(''next'', JStr ''e2'')]\<rparr>" and ?e2 = "demo_row\<lparr>en_ID := ''e2''\<rparr>"
  let ?l = "\<lparr>ln_TenantID = ''acme'', ln_EntryID = ''e1'', ln_FieldPath = ''next'', ln_Target = ''e2''\<rparr>"
  have g: "guardTypeRead (tr_Type link_type) anyone = None" "guardOwned (tr_Type link_type) anyone a = None" for a
    using delivery_unconfined(2) [OF anyone_facts(1)] anyone_facts
    by (simp_all add: guardTypeRead_def canReadType_def EntriesReadableBy_def roleAllowed_def link_type_def demo_type_def)
  have t: "TypeByName ''acme'' ''post'' linked_db = Inr link_type" "GetEntry_repo ''acme'' ''t1'' ''e2'' linked_db = Inr ?e2"
    by (simp_all add: TypeByName_def GetEntry_repo_def find_entry_def row_at_def linked_db_def link_db_def link_type_def demo_defs)
  have ty: "tr_ID link_type = ''t1''" "ct_Name (tr_Type link_type) = ''post''" "ct_Fields (tr_Type link_type) = [link_field]"
    by (simp_all add: link_type_def demo_type_def)
  have a: "authorize (wd_allow demo_world) (Some anyone) ''content:read'' rid ct = Inr anyone" for rid ct
    by (rule anyone_authorized) (simp add: isReadAction_def)
  have "get_plan demo_world (Some anyone) ''post'' ''e2'' [] linked_db = Inr (anyone, link_type, [], ?e2)"
    using anyone_facts g t ty
    by (simp add: get_plan_def a guardPopulateAudience_def parsePopulate_def app_None guardTypeRead_def del: and_then_Inr)
  note shown = references_of_an_unpublished_entry_are_shown [OF this anyone_facts(3) _ anyone_facts(5), of ?l ?e1 link_type]
  have "\<not> delivery_gate anyone ?e2" using anyone_facts by (simp add: delivery_gate_def IsPublished_def demo_row_def StatusPublished_def)
  moreover have "db_Relations linked_db = [?l]" "db_RelationsPublished linked_db = []" "db_Types linked_db = [link_type]"
    "db_Entries linked_db = [?e1, ?e2]"
    by (simp_all add: linked_db_def link_db_def demo_defs)
  moreover have "canReadType (tr_Type link_type) anyone" using g(1) by (simp add: guardTypeRead_def split: if_splits)
  ultimately show ?thesis using shown anyone_facts t ty by (simp add: demo_row_def)
qed

end
