(* ===== verification/Rewrite_Gaps.thy ===== *)
theory Rewrite_Gaps
  imports Entry_Promises
begin

text \<open>
  Where the bulk rewrites of the schema break what their comments promise: the version a delivery
  client watches, and the links of a renamed relation field.
\<close>

section \<open>Rewritten rows\<close>

lemma DeleteField_entries:
  assumes "DeleteField_rows tenant t f a now db = Inr db'"
  shows "db_Entries db' = map (after_rewrite (stripped_key (Key f)) a tenant (tr_ID t) now) (db_Entries db)"
proof -
  from assms obtain db1 where b: "bulk_rewrite (stripped_key (Key f)) a tenant (tr_ID t) now db = Inr db1"
    and l: "life_of db' = life_of db1"
    unfolding DeleteField_rows_def Let_def and_then_Inr by auto
  from bulk_effect [OF b] l show ?thesis by (simp add: life_of_def)
qed

lemma RenameField_entries:
  assumes "RenameField_rows tenant ct old new a now db = Inr db'"
  shows "db_Entries db' = map (after_rewrite (moved_key old new) a tenant ct now) (db_Entries db)"
proof -
  from assms obtain db1 where b: "bulk_rewrite (moved_key old new) a tenant ct now db = Inr db1"
    and l: "life_of db' = life_of db1"
    unfolding RenameField_rows_def Let_def and_then_Inr by auto
  from bulk_effect [OF b] l show ?thesis by (simp add: life_of_def)
qed

lemma found_mapped:
  "(\<And>e. en_ID (g e) = en_ID e) \<Longrightarrow>
   find (\<lambda>e. en_ID e = i) (map g es) = map_option g (find (\<lambda>e. en_ID e = i) es)"
  by (induction es) auto

lemma found_put:
  "find (\<lambda>e. en_ID e = i) es = Some e \<Longrightarrow> en_ID r = i \<Longrightarrow> find (\<lambda>e. en_ID e = i) (put_row r es) = Some r"
  by (induction es) (auto simp: put_row_def split: if_splits)

text \<open>A statement that finds the key in the snapshot only: the working copy keeps its version.\<close>

lemma snapshot_stripped:
  fixes e :: entry_row and a now
  assumes "concerned w tenant ct e" and "\<not> copy_has w (en_Payload e)"
    and "en_PublishedPayload e = Some p" and "en_PublishedVersion e = Some v" and "copy_has w p"
  defines "r \<equiv> after_rewrite w a tenant ct now e"
  shows "en_ID r = en_ID e" "en_Version r = en_Version e" "en_Payload r = en_Payload e" "en_Status r = en_Status e"
    "en_PublishedVersion r = Some (Suc v)" "en_PublishedPayload r = Some (changed_copy w p)"
    "en_TenantID r = en_TenantID e" "en_ContentTypeID r = en_ContentTypeID e"
  using assms by (simp_all add: after_rewrite_def snapshot_has_def changed_copy_same)
    (simp_all add: rewritten_row_def Let_def)

section \<open>A published version is used twice\<close>

text \<open>
  C0: the version a delivery client sees can name two documents.  An entry is on air and its
  draft, one edit ahead, has dropped two fields that the snapshot still holds.  Deleting the two
  fields from the type rewrites the snapshot twice and counts its version up twice, beyond the
  version of the draft; the release of the draft then gives the new snapshot that same number.
\<close>

theorem release_repeats_a_published_version:
  assumes "find (\<lambda>e. en_ID e = i) (db_Entries db) = Some e"
    and "en_TenantID e = tenant" and "en_ContentTypeID e = tr_ID t" and "en_Status e = StatusPublished"
    and "en_PublishedVersion e = Some v" and "en_Version e = Suc v" and "en_PublishedPayload e = Some p"
    and "\<not> copy_has (stripped_key (Key f)) (en_Payload e)" and "\<not> copy_has (stripped_key (Key g)) (en_Payload e)"
    and "copy_has (stripped_key (Key f)) p"
    and "copy_has (stripped_key (Key g)) (changed_copy (stripped_key (Key f)) p)"
    and "DeleteField_rows tenant t f a now db = Inr db1"
    and "DeleteField_rows tenant t' g a' now' db1 = Inr db2" and "tr_ID t' = tr_ID t"
    and "SetEntryPublishState_repo fresh o' x StatusPublished pa db2 = Inr (x', db3)" and "en_ID x = i"
    and "distinct (map en_ID (db_Entries db))"
  shows "\<exists>e2 e3. find (\<lambda>e. en_ID e = i) (db_Entries db2) = Some e2 \<and>
      find (\<lambda>e. en_ID e = i) (db_Entries db3) = Some e3 \<and>
      en_PublishedVersion e2 = Some (v + 2) \<and> en_PublishedVersion e3 = Some (v + 2) \<and>
      en_PublishedPayload e2 = Some (changed_copy (stripped_key (Key g)) (changed_copy (stripped_key (Key f)) p)) \<and>
      en_PublishedPayload e3 = Some (en_Payload e)"
proof -
  let ?w = "stripped_key (Key f)" and ?w' = "stripped_key (Key g)"
  define e1 where "e1 = after_rewrite ?w a tenant (tr_ID t) now e"
  define e2 where "e2 = after_rewrite ?w' a' tenant (tr_ID t) now' e1"
  have c: "concerned ?w tenant (tr_ID t) e" using assms(2-4,7,10) by (simp add: concerned_def snapshot_has_def)
  note r1 = snapshot_stripped [OF c assms(8,7,5,10), of a now, folded e1_def]
  have c': "concerned ?w' tenant (tr_ID t) e1"
    using assms(2-4,11) r1 by (simp add: concerned_def snapshot_has_def)
  have "\<not> copy_has ?w' (en_Payload e1)" using assms(9) r1 by simp
  note r2 = snapshot_stripped [OF c' this r1(6,5) assms(11), of a' now', folded e2_def]
  have f2: "find (\<lambda>e. en_ID e = i) (db_Entries db2) = Some e2"
    using assms(1) by (simp add: DeleteField_entries [OF assms(12)] DeleteField_entries [OF assms(13)] assms(14)
        found_mapped e1_def e2_def del: map_map)
  have "map en_ID (db_Entries db2) = map en_ID (db_Entries db)"
    by (simp add: DeleteField_entries [OF assms(12)] DeleteField_entries [OF assms(13)] comp_def)
  with assms(17) have d2: "distinct (map en_ID (db_Entries db2))" by simp
  from SetEntryPublishState_effect [OF assms(15)] obtain r where
    l: "locked_row x db2 = Inr r" and es: "db_Entries db3 = put_row (released_row x StatusPublished pa r) (db_Entries db2)"
    by (auto simp: life_of_def)
  from f2 have m: "e2 \<in> set (db_Entries db2)" "en_ID e2 = i" by (auto dest: find_SomeD)
  from locked_row_Inr [OF l] assms(16) m d2 have r: "r = e2"
    by (metis distinct_map inj_onD)
  have "find (\<lambda>e. en_ID e = i) (db_Entries db3) = Some (released_row x StatusPublished pa r)"
    unfolding es by (rule found_put [OF f2]) (simp add: r m)
  with f2 r r2 r1 assms(6) show ?thesis by (simp add: released_row_def Let_def)
qed

text \<open>On concrete tables.\<close>

definition text_field :: "string \<Rightarrow> field" where
  "text_field k = Field (zero_attrs\<lparr>f_Key := k, f_Type := FieldTypeString\<rparr>) [] []"

definition three_fields :: type_record where
  "three_fields = demo_type\<lparr>tr_Type := (tr_Type demo_type)\<lparr>ct_Fields := [text_field ''a'', text_field ''b'', text_field ''c'']\<rparr>\<rparr>"

definition live_snapshot :: json where
  "live_snapshot = JObj [(''a'', JStr ''x''), (''b'', JStr ''y''), (''c'', JStr ''old'')]"

definition live_entry_row :: entry_row where
  "live_entry_row = demo_row\<lparr>en_Version := 2, en_Status := ''published'', en_PublishedAt := Some 11, en_PublishedVersion := Some 1,
     en_PublishedPayload := Some live_snapshot,
     en_Payload := JObj [(''c'', JStr ''new'')]\<rparr>"

definition live_db :: entry_db where
  "live_db = empty_db\<lparr>db_Types := [three_fields], db_Entries := [live_entry_row]\<rparr>"

definition editor :: write_actor where
  "editor = \<lparr>wa_Kind = ''human'', wa_UserID = Some ''ann'', wa_AgentID = None\<rparr>"

text \<open>Both fields are deleted and the draft is released.\<close>

definition live_run :: "go_error + entry_db \<times> entry_db \<times> entry_row \<times> entry_db" where
  "live_run =
     and_then (DeleteField_rows ''acme'' three_fields (text_field ''a'') editor 20 live_db) (\<lambda>db1.
     and_then (DeleteField_rows ''acme'' three_fields (text_field ''b'') editor 21 db1) (\<lambda>db2.
     and_then (SetEntryPublishState_repo ''r2'' direct_publish live_entry_row StatusPublished (Some 11) db2) (\<lambda>(x, db3).
     Inr (db1, db2, x, db3))))"

lemma live_run_ok: "\<exists>db1 db2 x db3. live_run = Inr (db1, db2, x, db3)"
proof -
  have "(case live_run of Inl _ \<Rightarrow> False | Inr _ \<Rightarrow> True)" by code_simp
  then show ?thesis by (auto split: sum.splits)
qed

theorem release_repeats_a_published_version_witness:
  "\<exists>db2 db3 e2 e3. find (\<lambda>e. en_ID e = ''e1'') (db_Entries db2) = Some e2 \<and>
     find (\<lambda>e. en_ID e = ''e1'') (db_Entries db3) = Some e3 \<and> history live_db db2 \<and> history db2 db3 \<and>
     en_PublishedVersion e2 = Some 3 \<and> en_PublishedVersion e3 = Some 3 \<and>
     en_PublishedPayload e2 = Some (JObj [(''c'', JStr ''old'')]) \<and> en_PublishedPayload e3 = Some (JObj [(''c'', JStr ''new'')])"
proof -
  from live_run_ok obtain db1 db2 x db3 where
    a: "DeleteField_rows ''acme'' three_fields (text_field ''a'') editor 20 live_db = Inr db1" and
    b: "DeleteField_rows ''acme'' three_fields (text_field ''b'') editor 21 db1 = Inr db2" and
    c: "SetEntryPublishState_repo ''r2'' direct_publish live_entry_row StatusPublished (Some 11) db2 = Inr (x, db3)"
    by (auto simp: live_run_def)
  have h: "history live_db db2" using DeleteField_history [OF a] DeleteField_history [OF b] by (rule rtranclp_trans)
  have h': "history db2 db3" using c by (auto intro: tx_step.released)
  have keys: "Key (text_field k) = k" for k by (simp add: text_field_def)
  have row: "find (\<lambda>e. en_ID e = ''e1'') (db_Entries live_db) = Some live_entry_row" "en_TenantID live_entry_row = ''acme''"
    "en_ContentTypeID live_entry_row = tr_ID three_fields" "en_Status live_entry_row = StatusPublished"
    "en_PublishedVersion live_entry_row = Some 1" "en_Version live_entry_row = Suc 1" "en_ID live_entry_row = ''e1''"
    "en_PublishedPayload live_entry_row = Some (live_snapshot)"
    "distinct (map en_ID (db_Entries live_db))" "en_Payload live_entry_row = JObj [(''c'', JStr ''new'')]"
    by (simp_all add: live_db_def live_entry_row_def three_fields_def demo_defs StatusPublished_def)
  have has: "\<not> copy_has (stripped_key ''a'') (JObj [(''c'', JStr ''new'')])"
    "\<not> copy_has (stripped_key ''b'') (JObj [(''c'', JStr ''new'')])" by code_simp+
  have shown: "copy_has (stripped_key ''a'') (live_snapshot)"
    "copy_has (stripped_key ''b'') (changed_copy (stripped_key ''a'') (live_snapshot))"
    by code_simp+
  have left: "changed_copy (stripped_key ''b'') (changed_copy (stripped_key ''a'') live_snapshot) = JObj [(''c'', JStr ''old'')]"
    by code_simp
  from release_repeats_a_published_version [OF row(1-6,8) _ _ _ _ a b refl c row(7,9)] has shown keys row(10) left
  obtain e2 e3 where "find (\<lambda>e. en_ID e = ''e1'') (db_Entries db2) = Some e2"
    "find (\<lambda>e. en_ID e = ''e1'') (db_Entries db3) = Some e3" "en_PublishedVersion e2 = Some 3"
    "en_PublishedVersion e3 = Some 3" "en_PublishedPayload e2 = Some (JObj [(''c'', JStr ''old'')])"
    "en_PublishedPayload e3 = Some (JObj [(''c'', JStr ''new'')])"
    by (auto simp: numeral_eq_Suc)
  with h h' show ?thesis by blast
qed

section \<open>The links of a renamed relation\<close>

text \<open>
  \<open>entry_relations\<close> names the place of a link by the path of its field.  A rename of the field
  leaves those paths as they were, and the clean-up after the deletion of another relation field
  takes them for paths that no longer exist.
\<close>

lemma holds_member: "holds k d \<longleftrightarrow> k \<in> fst ` set d"
  unfolding holds_def by (simp add: map_of_eq_None_iff)

lemma holds_canon: "(\<exists>d'. canon (JObj d) = JObj d' \<and> holds k d') \<longleftrightarrow> holds k d"
  by (auto simp: holds_member image_iff map_prod_def split_beta)

definition object_holds :: "string \<Rightarrow> json \<Rightarrow> bool" where
  "object_holds k p \<longleftrightarrow> (case p of JObj d \<Rightarrow> holds k d | _ \<Rightarrow> False)"

lemma object_holds_canon: "object_holds k (canon (JObj d)) \<longleftrightarrow> holds k d"
  using holds_canon [of d k] by (simp add: object_holds_def)

lemma moved_holds:
  "object_holds old p \<Longrightarrow> object_holds new (changed_copy (moved_key old new) p)"
  by (cases p) (auto simp: object_holds_def changed_copy_def moved_key_def object_holds_canon [unfolded object_holds_def]
      move_key_def holds_member map_of_eq_None_iff simp del: canon.simps split: option.split)

lemma stripped_holds:
  "object_holds k p \<Longrightarrow> k \<noteq> key \<Longrightarrow> object_holds k (changed_copy (stripped_key key) p)"
  by (cases p) (auto simp: object_holds_def changed_copy_def stripped_key_def object_holds_canon [unfolded object_holds_def]
      drop_key_def holds_member image_iff simp del: canon.simps)

theorem renamed_relation_loses_its_links:
  assumes "RenameField_rows tenant (tr_ID t) old new a now db = Inr db1"
    and "DeleteField_rows tenant t f a' now' db1 = Inr db2"
    and "linksRelations f" and "Key f \<noteq> new"
    and "old \<notin> set (relationFieldPaths (withoutKey (ct_Fields (tr_Type t)) (Key f)))"
    and "l \<in> set (db_Relations db)" and "ln_TenantID l = tenant" and "ln_FieldPath l = old"
    and "e \<in> set (db_Entries db)" and "en_ID e = ln_EntryID l" and "en_TenantID e = tenant"
    and "en_ContentTypeID e = tr_ID t" and "object_holds old (en_Payload e)"
  shows "l \<in> set (db_Relations db1)" and "l \<notin> set (db_Relations db2)"
    and "\<exists>e2 \<in> set (db_Entries db2). en_ID e2 = en_ID e \<and> object_holds new (en_Payload e2)"
proof -
  let ?w = "moved_key old new" and ?w' = "stripped_key (Key f)"
  let ?e1 = "after_rewrite ?w a tenant (tr_ID t) now e"
  let ?e2 = "after_rewrite ?w' a' tenant (tr_ID t) now' ?e1"
  have rel: "db_Relations db1 = db_Relations db" using assms(1)
    unfolding RenameField_rows_def bulk_rewrite_def Let_def and_then_Inr
    by (auto simp: on_type_def split: if_splits)
  with assms(6) show "l \<in> set (db_Relations db1)" by simp
  have e1: "?e1 \<in> set (db_Entries db1)" "en_ContentTypeID ?e1 = tr_ID t" "en_ID ?e1 = ln_EntryID l"
    using assms(9,10,12) by (auto simp: RenameField_entries [OF assms(1)] after_rewrite_def rewritten_row_def Let_def)
  have h1: "object_holds new (en_Payload ?e1)"
  proof -
    have "copy_has ?w (en_Payload e)"
      using assms(13) by (cases "en_Payload e") (simp_all add: copy_has_def moved_key_def object_holds_def)
    then have "concerned ?w tenant (tr_ID t) e" using assms(11,12) by (simp add: concerned_def)
    then show ?thesis using moved_holds [OF assms(13)] by (simp add: after_rewrite_def)
  qed
  have h2: "object_holds new (en_Payload ?e2)"
    using h1 stripped_holds [OF h1, of "Key f"] assms(4) by (simp add: after_rewrite_def)
  have "?e2 \<in> set (db_Entries db2)" "en_ID ?e2 = en_ID e"
    using e1 by (auto simp: DeleteField_entries [OF assms(2)])
  with h2 show "\<exists>e2 \<in> set (db_Entries db2). en_ID e2 = en_ID e \<and> object_holds new (en_Payload e2)" by blast
  from assms(2) obtain dbx where x: "bulk_rewrite ?w' a' tenant (tr_ID t) now' db1 = Inr dbx"
    and d2: "db_Relations db2 = db_Relations (relinkEntryRelations tenant (tr_ID t)
       (withoutKey (ct_Fields (tr_Type t)) (Key f))
       (if linksMedia f then relinkEntryMedia tenant (tr_ID t) (withoutKey (ct_Fields (tr_Type t)) (Key f)) dbx else dbx))"
    unfolding DeleteField_rows_def Let_def and_then_Inr using assms(3) by (auto simp: on_type_def)
  have es: "db_Entries dbx = map (after_rewrite ?w' a' tenant (tr_ID t) now') (db_Entries db1)"
    using bulk_effect [OF x] by (simp add: life_of_def)
  have "?e2 \<in> set (db_Entries dbx)" using e1(1) by (simp add: es)
  moreover have "en_ContentTypeID ?e2 = tr_ID t"
    using e1(2) by (simp add: after_rewrite_def [of ?w'] rewritten_row_def Let_def)
  moreover have "en_ID ?e2 = ln_EntryID l" using e1(3) by simp
  ultimately have "ln_EntryID l \<in> en_ID ` set (filter (\<lambda>e. en_ContentTypeID e = tr_ID t) (db_Entries dbx))"
    by (intro image_eqI [of _ _ ?e2]) simp_all
  then show "l \<notin> set (db_Relations db2)"
    using assms(5,7,8) unfolding d2 by (simp add: relinkEntryRelations_def relinkEntryMedia_def Let_def)
qed

end
