(* ===== verification/Media.thy ===== *)
theory Media
  imports Entry_Reads
begin

text \<open>
  Media: the assets of a tenant and their bytes (\<open>service/media.go\<close>, \<open>media_sweep.go\<close>,
  \<open>media_sniff.go\<close>, \<open>domain/media.go\<close>, \<open>domain/media_variant.go\<close>, \<open>pkg/mediapreset\<close> and the media
  statements of \<open>repository/\<close>).  The rows of assets and links are those of \<open>entry_db\<close>; the rows of
  renditions and the bucket are added here.  A bucket maps keys to objects; which of its calls fail,
  and what a signed address looks like, are outside functions.
\<close>

section \<open>Content types\<close>

definition until_char :: "char \<Rightarrow> string \<Rightarrow> string" where
  "until_char c s = takeWhile (\<lambda>x. x \<noteq> c) s"

definition normalizeContentType :: "string \<Rightarrow> string" where
  "normalizeContentType ct = ToLower (TrimSpace (until_char (CHR '';'') ct))"

definition allowedUploadTypes :: "string list" where
  "allowedUploadTypes = [''image/png'', ''image/jpeg'', ''image/gif'', ''image/webp'', ''image/avif'', ''application/pdf'', ''video/mp4'']"

definition uploadTypeAllowed :: "string \<Rightarrow> bool" where
  "uploadTypeAllowed ct \<longleftrightarrow> ct \<in> set allowedUploadTypes"

definition IsImageContentType :: "string \<Rightarrow> bool" where
  "IsImageContentType ct \<longleftrightarrow>
     ToLower (TrimSpace (until_char (CHR '';'') ct)) \<in> set [''image/png'', ''image/jpeg'', ''image/gif'', ''image/webp'', ''image/avif'']"

text \<open>
  What \<open>http.DetectContentType\<close> answers when it answers an image of the whitelist: no signature it
  tries earlier starts like one of these.  Every other answer is \<open>None\<close>.
\<close>

definition image_signatures :: "(string \<times> (nat \<times> nat) list) list" where
  "image_signatures =
     [(''image/gif'', map (\<lambda>n. (n, n)) [71, 73, 70, 56, 55, 97]),
      (''image/gif'', map (\<lambda>n. (n, n)) [71, 73, 70, 56, 57, 97]),
      (''image/webp'', map (\<lambda>n. (n, n)) [82, 73, 70, 70] @ replicate 4 (0, 255) @ map (\<lambda>n. (n, n)) [87, 69, 66, 80, 86, 80]),
      (''image/png'', map (\<lambda>n. (n, n)) [137, 80, 78, 71, 13, 10, 26, 10]),
      (''image/jpeg'', map (\<lambda>n. (n, n)) [255, 216, 255])]"

definition sniffContentType :: "string \<Rightarrow> string option" where
  "sniffContentType head = map_option fst (find (\<lambda>(ct, sig). starts_in sig head) image_signatures)"

definition sniffWindow :: nat where "sniffWindow = 512"

definition readSniffWindow :: "string \<Rightarrow> string" where
  "readSniffWindow body = take sniffWindow body"

definition sniffEnforced :: "string \<Rightarrow> bool" where
  "sniffEnforced declared = (if declared = ''image/avif'' then False else IsImageContentType declared)"

definition bytesMatchDeclared :: "string \<Rightarrow> string \<Rightarrow> bool" where
  "bytesMatchDeclared head declared = (if head = [] then False else sniffContentType head = Some declared)"

section \<open>Presets and renditions\<close>

definition MediaPresetOriginal :: string where "MediaPresetOriginal = ''original''"

definition MediaPresets :: "(string \<times> nat) list" where
  "MediaPresets = [(''thumb'', 320), (''small'', 640), (''medium'', 1024), (''large'', 1920)]"

definition MediaPresetNames :: "string list" where
  "MediaPresetNames = map fst MediaPresets"

definition ValidMediaPreset :: "string \<Rightarrow> bool" where
  "ValidMediaPreset p \<longleftrightarrow> p \<in> set MediaPresetNames"

definition preset_rank :: "string \<Rightarrow> nat" where
  "preset_rank p = length (takeWhile (\<lambda>n. n \<noteq> p) (MediaPresetOriginal # MediaPresetNames))"

datatype variant_state = VariantPending | VariantDone | VariantSkipped | VariantFailed

text \<open>A column that is NULL reads as its zero value, except the key, where NULL matters.\<close>

record media_variant =
  mv_AssetID :: uuid
  mv_TenantID :: string
  mv_Preset :: string
  mv_State :: variant_state
  mv_StorageKey :: "string option"
  mv_ContentType :: string
  mv_SizeBytes :: nat
  mv_WidthPx :: nat
  mv_HeightPx :: nat
  mv_Attempts :: nat
  mv_NextAttemptAt :: "int option"
  mv_Error :: string
  mv_SkipReason :: string
  mv_CreatedAt :: int
  mv_UpdatedAt :: int

section \<open>State\<close>

record object =
  ob_Bytes :: string
  ob_ContentType :: string

record media_db =
  md_DB :: entry_db
  md_Variants :: "media_variant list"
  md_Bucket :: "string \<Rightarrow> object option"

text \<open>
  What the service was built with: the entry service's world, whether a store is wired, the calls of
  the store that fail (by name and key), and its signatures.
\<close>

record media_env =
  me_W :: world
  me_Enabled :: bool
  me_Down :: "string \<Rightarrow> string \<Rightarrow> bool"
  me_SignGet :: "string \<Rightarrow> int \<Rightarrow> go_error + string"
  me_SignPost :: "string \<Rightarrow> int \<Rightarrow> nat \<Rightarrow> string \<Rightarrow> go_error + string \<times> (string \<times> string) list"

definition second :: int where "second = 1000000000"
definition uploadTTL :: int where "uploadTTL = 15 * 60 * second"
definition deliveryTTL :: int where "deliveryTTL = 5 * 60 * second"
definition MaxUploadBytes :: nat where "MaxUploadBytes = 25 * 1024 * 1024"
definition MaxFilenameLen :: nat where "MaxFilenameLen = 255"
definition MaxImageDimension :: int where "MaxImageDimension = 65535"
definition MaxMediaVariantAttempts :: nat where "MaxMediaVariantAttempts = 3"

definition Stat :: "media_env \<Rightarrow> string \<Rightarrow> media_db \<Rightarrow> object option" where
  "Stat M key m = (if me_Down M ''stat'' key then None else md_Bucket m key)"

definition Get_object :: "media_env \<Rightarrow> string \<Rightarrow> media_db \<Rightarrow> object option" where
  "Get_object M key m = (if me_Down M ''get'' key then None else md_Bucket m key)"

text \<open>A deletion reports whether it failed; deleting an absent object succeeds.\<close>

definition Delete_object :: "media_env \<Rightarrow> string \<Rightarrow> media_db \<Rightarrow> media_db \<times> bool" where
  "Delete_object M key m =
     (if me_Down M ''delete'' key then (m, False) else (m\<lparr>md_Bucket := (md_Bucket m)(key := None)\<rparr>, True))"

definition delete_best_effort :: "media_env \<Rightarrow> string \<Rightarrow> media_db \<Rightarrow> media_db" where
  "delete_best_effort M key m = fst (Delete_object M key m)"

section \<open>Errors\<close>

definition ErrMediaNotUploaded :: go_error where "ErrMediaNotUploaded = AppError (New ''CONTENT_MEDIA_NOT_UPLOADED'' 409)"
definition ErrMediaNotImage :: go_error where "ErrMediaNotImage = AppError (New ''CONTENT_MEDIA_NOT_IMAGE'' 422)"
definition ErrMediaPresetUnknown :: go_error where "ErrMediaPresetUnknown = AppError (New ''CONTENT_MEDIA_PRESET_UNKNOWN'' 400)"
definition ErrMediaKindUnknown :: "string \<Rightarrow> go_error" where
  "ErrMediaKindUnknown kind = AppError (WithDetail (New ''CONTENT_MEDIA_KIND_UNKNOWN'' 400) ''kind'' (DStr kind))"
definition ErrMediaDisabled :: go_error where "ErrMediaDisabled = AppError (New ''CONTENT_MEDIA_DISABLED'' 501)"
definition ErrMediaTypeNotAllowed :: go_error where "ErrMediaTypeNotAllowed = AppError (New ''CONTENT_MEDIA_TYPE_NOT_ALLOWED'' 415)"
definition ErrMediaBytesMismatch :: go_error where "ErrMediaBytesMismatch = AppError (New ''CONTENT_MEDIA_BYTES_MISMATCH'' 422)"
definition ErrMediaTooLarge :: go_error where "ErrMediaTooLarge = AppError (New ''CONTENT_MEDIA_TOO_LARGE'' 413)"
definition ErrMediaFilenameInvalid :: "(string \<times> detail) list \<Rightarrow> go_error" where
  "ErrMediaFilenameInvalid details = AppError (WithDetails (New ''CONTENT_MEDIA_FILENAME_INVALID'' 422) details)"
definition ErrMediaAltTextTooLong :: go_error where "ErrMediaAltTextTooLong = AppError (New ''CONTENT_MEDIA_ALT_TEXT_TOO_LONG'' 422)"
definition ErrMediaDimensionsIncomplete :: go_error where
  "ErrMediaDimensionsIncomplete = AppError (New ''CONTENT_MEDIA_DIMENSIONS_INCOMPLETE'' 422)"
definition ErrMediaDimensionOutOfRange :: "string \<Rightarrow> int \<Rightarrow> go_error" where
  "ErrMediaDimensionOutOfRange fld v = AppError (WithDetails (New ''CONTENT_MEDIA_DIMENSION_OUT_OF_RANGE'' 422)
     [(''field'', DStr fld), (''value'', DJson (JNum (Fin (of_int v)))), (''min'', DNat 1), (''max'', DNat (nat MaxImageDimension))])"

text \<open>The refusal names at most twenty of the entries; a row is its entry, type, and the two flags.\<close>

definition errMediaInUse :: "referenced_row list \<Rightarrow> nat \<Rightarrow> go_error" where
  "errMediaInUse rows n =
     AppError (WithDetails (New ''CONTENT_MEDIA_IN_USE'' 409)
       [(''entries'', DFmt [] (map (\<lambda>r. DFmt (rr_EntryID r) [DStr (rr_TypeName r), DBool (rr_Published r), DBool (rr_Draft r)]) rows)),
        (''total'', DNat n)])"

section \<open>The repository\<close>

definition on_db :: "(entry_db \<Rightarrow> entry_db) \<Rightarrow> media_db \<Rightarrow> media_db" where
  "on_db f m = m\<lparr>md_DB := f (md_DB m)\<rparr>"

definition CreateMediaAsset_repo :: "media_asset \<Rightarrow> media_db \<Rightarrow> go_error + media_db" where
  "CreateMediaAsset_repo a m =
     (if asset_id_exists (ma_ID a) (md_DB m) then Inl constraint_error
      else Inr (on_db (\<lambda>db. db\<lparr>db_Assets := db_Assets db @ [a]\<rparr>) m))"

definition owns_asset :: "string \<Rightarrow> uuid \<Rightarrow> media_asset \<Rightarrow> bool" where
  "owns_asset tenant i a \<longleftrightarrow> ma_TenantID a = tenant \<and> ma_ID a = i"

definition update_asset :: "string \<Rightarrow> uuid \<Rightarrow> (media_asset \<Rightarrow> media_asset) \<Rightarrow> media_db \<Rightarrow> media_db" where
  "update_asset tenant i f = on_db (\<lambda>db. db\<lparr>db_Assets := map (\<lambda>a. if owns_asset tenant i a then f a else a) (db_Assets db)\<rparr>)"

definition GetMediaAsset_of :: "string \<Rightarrow> uuid \<Rightarrow> media_db \<Rightarrow> go_error + media_asset" where
  "GetMediaAsset_of tenant i m = (case GetMediaAsset_repo tenant i (md_DB m) of None \<Rightarrow> Inl entry_not_found | Some a \<Rightarrow> Inr a)"

record media_filter =
  mf_Query :: string
  mf_Prefix :: string
  mf_Limit :: int
  mf_Offset :: int
  mf_Orphan :: bool

definition linked_asset :: "string \<Rightarrow> uuid \<Rightarrow> entry_db \<Rightarrow> bool" where
  "linked_asset tenant i db \<longleftrightarrow>
     list_ex (\<lambda>l. ln_TenantID l = tenant \<and> ln_Target l = i) (db_Media db) \<or>
     list_ex (\<lambda>l. ln_TenantID l = tenant \<and> ln_Target l = i) (db_MediaPublished db)"

definition media_match :: "('k, 'z) sql_scheme \<Rightarrow> string \<Rightarrow> media_filter \<Rightarrow> entry_db \<Rightarrow> media_asset \<Rightarrow> bool" where
  "media_match Q tenant f db a \<longleftrightarrow> ma_TenantID a = tenant \<and> (mf_Orphan f \<or> IsUploaded a) \<and>
     (TrimSpace (mf_Query f) \<noteq> [] \<longrightarrow>
        (case ma_Filename a of None \<Rightarrow> False | Some n \<Rightarrow> sq_ilike Q n (''%'' @ likeEscape (TrimSpace (mf_Query f)) @ ''%''))) \<and>
     (mf_Prefix f \<noteq> [] \<longrightarrow> HasPrefix (ma_ContentType a) (mf_Prefix f)) \<and>
     (mf_Orphan f \<longrightarrow> \<not> linked_asset tenant (ma_ID a) db)"

definition newest_assets :: "media_asset list \<Rightarrow> media_asset list" where
  "newest_assets as = rev (sort_key (\<lambda>a. (ma_CreatedAt a, ma_ID a)) as)"

definition clamp_page :: "int \<Rightarrow> nat" where
  "clamp_page limit = (if limit \<le> 0 \<or> 100 < limit then 20 else nat limit)"

definition ListMediaAssets_repo ::
    "('k, 'z) sql_scheme \<Rightarrow> string \<Rightarrow> media_filter \<Rightarrow> media_db \<Rightarrow> media_asset list \<times> nat" where
  "ListMediaAssets_repo Q tenant f m =
     (let all_rows = filter (media_match Q tenant f (md_DB m)) (db_Assets (md_DB m)) in
      (take (clamp_page (mf_Limit f)) (drop (nat (mf_Offset f)) (newest_assets all_rows)), length all_rows))"

record asset_patch =
  pt_SetFilename :: bool
  pt_Filename :: "string option"
  pt_SetAltText :: bool
  pt_AltText :: "string option"
  pt_SetDimensions :: bool
  pt_WidthPx :: "nat option"
  pt_HeightPx :: "nat option"

definition patched :: "asset_patch \<Rightarrow> media_asset \<Rightarrow> media_asset" where
  "patched p a =
     a\<lparr>ma_Filename := (if pt_SetFilename p then pt_Filename p else ma_Filename a),
       ma_AltText := (if pt_SetAltText p then pt_AltText p else ma_AltText a),
       ma_WidthPx := (if pt_SetDimensions p then pt_WidthPx p else ma_WidthPx a),
       ma_HeightPx := (if pt_SetDimensions p then pt_HeightPx p else ma_HeightPx a)\<rparr>"

definition UpdateMediaAssetMetadata :: "string \<Rightarrow> uuid \<Rightarrow> asset_patch \<Rightarrow> media_db \<Rightarrow> go_error + media_db \<times> media_asset" where
  "UpdateMediaAssetMetadata tenant i p m =
     and_then (GetMediaAsset_of tenant i m) (\<lambda>a. Inr (update_asset tenant i (patched p) m, patched p a))"

definition MarkMediaUploaded :: "int \<Rightarrow> string \<Rightarrow> uuid \<Rightarrow> nat \<Rightarrow> string \<Rightarrow> media_db \<Rightarrow> go_error + media_db" where
  "MarkMediaUploaded now tenant i n ct m =
     and_then (GetMediaAsset_of tenant i m) (\<lambda>_.
     Inr (update_asset tenant i (\<lambda>a. a\<lparr>ma_UploadedAt := Some now, ma_SizeBytes := n, ma_ContentType := ct\<rparr>) m))"

text \<open>The delete cascades to the renditions and to both link tables; the keys are those it removed.\<close>

definition variant_keys :: "string \<Rightarrow> uuid \<Rightarrow> media_db \<Rightarrow> string list" where
  "variant_keys tenant i m =
     List.map_filter mv_StorageKey
       (filter (\<lambda>v. mv_TenantID v = tenant \<and> mv_AssetID v = i \<and> mv_Preset v \<noteq> MediaPresetOriginal) (md_Variants m))"

definition drop_asset :: "uuid \<Rightarrow> media_db \<Rightarrow> media_db" where
  "drop_asset i m =
     m\<lparr>md_DB := (md_DB m)\<lparr>db_Assets := filter (\<lambda>a. ma_ID a \<noteq> i) (db_Assets (md_DB m)),
         db_Media := filter (\<lambda>l. ln_Target l \<noteq> i) (db_Media (md_DB m)),
         db_MediaPublished := filter (\<lambda>l. ln_Target l \<noteq> i) (db_MediaPublished (md_DB m))\<rparr>,
       md_Variants := filter (\<lambda>v. mv_AssetID v \<noteq> i) (md_Variants m)\<rparr>"

definition DeleteMediaAsset_repo :: "string \<Rightarrow> uuid \<Rightarrow> media_db \<Rightarrow> go_error + media_db \<times> string list" where
  "DeleteMediaAsset_repo tenant i m =
     and_then (GetMediaAsset_of tenant i m) (\<lambda>_. Inr (drop_asset i m, variant_keys tenant i m))"

definition AssetIsPublished :: "string \<Rightarrow> uuid \<Rightarrow> entry_db \<Rightarrow> bool" where
  "AssetIsPublished tenant i db \<longleftrightarrow>
     list_ex (\<lambda>l. ln_TenantID l = tenant \<and> ln_Target l = i \<and>
       list_ex (\<lambda>e. en_ID e = ln_EntryID l \<and> en_TenantID e = tenant \<and> en_Status e = StatusPublished) (db_Entries db)) (db_MediaPublished db)"

definition reset_variant :: "int \<Rightarrow> string option \<Rightarrow> media_variant \<Rightarrow> media_variant" where
  "reset_variant now key v =
     v\<lparr>mv_State := VariantPending, mv_StorageKey := (case mv_StorageKey v of None \<Rightarrow> key | Some k \<Rightarrow> Some k),
       mv_Attempts := 0, mv_NextAttemptAt := None, mv_Error := [], mv_SkipReason := [], mv_UpdatedAt := now\<rparr>"

definition is_variant :: "uuid \<Rightarrow> string \<Rightarrow> media_variant \<Rightarrow> bool" where
  "is_variant i p v \<longleftrightarrow> mv_AssetID v = i \<and> mv_Preset v = p"

definition enqueue_one :: "int \<Rightarrow> string \<Rightarrow> uuid \<Rightarrow> string \<Rightarrow> string \<Rightarrow> media_variant list \<Rightarrow> media_variant list" where
  "enqueue_one now tenant i key p vs =
     (let k = (if p = MediaPresetOriginal then Some key else None) in
      if list_ex (is_variant i p) vs then map (\<lambda>v. if is_variant i p v then reset_variant now k v else v) vs
      else vs @ [\<lparr>mv_AssetID = i, mv_TenantID = tenant, mv_Preset = p, mv_State = VariantPending, mv_StorageKey = k, mv_ContentType = [],
        mv_SizeBytes = 0, mv_WidthPx = 0, mv_HeightPx = 0, mv_Attempts = 0, mv_NextAttemptAt = None, mv_Error = [], mv_SkipReason = [],
        mv_CreatedAt = now, mv_UpdatedAt = now\<rparr>])"

definition EnqueueMediaVariants_repo :: "int \<Rightarrow> string \<Rightarrow> uuid \<Rightarrow> string \<Rightarrow> media_db \<Rightarrow> go_error + media_db" where
  "EnqueueMediaVariants_repo now tenant i key m =
     (if \<not> asset_id_exists i (md_DB m) then Inl constraint_error
      else Inr (m\<lparr>md_Variants := fold (enqueue_one now tenant i key) (MediaPresetOriginal # MediaPresetNames) (md_Variants m)\<rparr>))"

definition ListMediaVariants :: "string \<Rightarrow> uuid \<Rightarrow> media_db \<Rightarrow> media_variant list" where
  "ListMediaVariants tenant i m =
     sort_key (\<lambda>v. preset_rank (mv_Preset v)) (filter (\<lambda>v. mv_TenantID v = tenant \<and> mv_AssetID v = i) (md_Variants m))"

end
