(* ===== verification/Media_Service.thy ===== *)
theory Media_Service
  imports Media
begin

text \<open>
  The calls of \<open>service/media.go\<close> and \<open>media_sweep.go\<close>.  Completing an upload and deleting an asset are
  each a look and a write, with nothing that holds them together.
\<close>

section \<open>Declared metadata\<close>

text \<open>A field is absent, null or a value.\<close>

record metadata_input =
  mi_Filename :: "string option option"
  mi_AltText :: "string option option"
  mi_WidthPx :: "int option option"
  mi_HeightPx :: "int option option"

definition ValidString :: "string \<Rightarrow> bool" where
  "ValidString s \<longleftrightarrow> list_all (\<lambda>r. rune_form r \<noteq> None) (runes s)"

text \<open>\<open>unicode.IsControl\<close>: U+0000 to U+001F and U+007F to U+009F.\<close>

definition is_control :: "string \<Rightarrow> bool" where
  "is_control r \<longleftrightarrow> starts_in [(0, 31)] r \<or> starts_in [(127, 127)] r \<or> starts_in [(194, 194), (128, 159)] r"

definition validateFilename :: "string \<Rightarrow> go_error option" where
  "validateFilename name =
     (let bad = (\<lambda>why. Some (ErrMediaFilenameInvalid [(''reason'', DStr why)])); n = RuneCountInString name in
      if \<not> ValidString name then bad ''not valid UTF-8''
      else if n = 0 then bad ''must not be empty; send null to clear it''
      else if MaxFilenameLen < n then Some (ErrMediaFilenameInvalid [(''reason'', DStr ''too long''), (''max'', DNat MaxFilenameLen)])
      else if ContainsAny name [CHR ''/'', CHR 0x5C] then bad (''must not contain '' @ [CHR 0x22, CHR ''/'', CHR 0x22] @ '' or '' @ [CHR 0x22, CHR 0x5C, CHR 0x22])
      else if list_ex is_control (runes name) then bad ''must not contain control characters''
      else None)"

definition validateDimension :: "string \<Rightarrow> int \<Rightarrow> go_error option" where
  "validateDimension fld v = (if v < 1 \<or> MaxImageDimension < v then Some (ErrMediaDimensionOutOfRange fld v) else None)"

definition toPatch_dimensions :: "metadata_input \<Rightarrow> asset_patch \<Rightarrow> go_error + asset_patch" where
  "toPatch_dimensions i p =
     (case (mi_WidthPx i, mi_HeightPx i) of
        (None, None) \<Rightarrow> Inr p
      | (Some w, Some h) \<Rightarrow>
          (case (w, h) of
             (None, None) \<Rightarrow> Inr (p\<lparr>pt_SetDimensions := True, pt_WidthPx := None, pt_HeightPx := None\<rparr>)
           | (Some x, Some y) \<Rightarrow>
               and_then (refuse_if (validateDimension ''width_px'' x)) (\<lambda>_.
               and_then (refuse_if (validateDimension ''height_px'' y)) (\<lambda>_.
               Inr (p\<lparr>pt_SetDimensions := True, pt_WidthPx := Some (nat x), pt_HeightPx := Some (nat y)\<rparr>)))
           | _ \<Rightarrow> Inl ErrMediaDimensionsIncomplete)
      | _ \<Rightarrow> Inl ErrMediaDimensionsIncomplete)"

definition no_patch :: asset_patch where
  "no_patch = \<lparr>pt_SetFilename = False, pt_Filename = None, pt_SetAltText = False, pt_AltText = None,
     pt_SetDimensions = False, pt_WidthPx = None, pt_HeightPx = None\<rparr>"

definition toPatch :: "metadata_input \<Rightarrow> go_error + asset_patch" where
  "toPatch i =
     and_then (case mi_Filename i of
         None \<Rightarrow> Inr no_patch
       | Some v \<Rightarrow> and_then (refuse_if (case v of None \<Rightarrow> None | Some n \<Rightarrow> validateFilename n))
           (\<lambda>_. Inr (no_patch\<lparr>pt_SetFilename := True, pt_Filename := v\<rparr>))) (\<lambda>p.
     and_then (case mi_AltText i of
         None \<Rightarrow> Inr p
       | Some v \<Rightarrow> and_then (require (case v of None \<Rightarrow> True | Some t \<Rightarrow> RuneCountInString t \<le> MaxAltTextLen) ErrMediaAltTextTooLong)
           (\<lambda>_. Inr (p\<lparr>pt_SetAltText := True, pt_AltText := v\<rparr>))) (\<lambda>p.
     toPatch_dimensions i p))"

section \<open>What a caller is shown\<close>

record variant_dto =
  vt_Preset :: string
  vt_State :: variant_state
  vt_ContentType :: string
  vt_SizeBytes :: nat
  vt_WidthPx :: nat
  vt_HeightPx :: nat
  vt_SkipReason :: string
  vt_Error :: string
  vt_Attempts :: nat
  vt_NextAttemptAt :: "int option"
  vt_UpdatedAt :: int

definition projectMediaVariant :: "media_variant \<Rightarrow> variant_dto" where
  "projectMediaVariant v =
     \<lparr>vt_Preset = mv_Preset v, vt_State = mv_State v, vt_ContentType = mv_ContentType v, vt_SizeBytes = mv_SizeBytes v,
      vt_WidthPx = mv_WidthPx v, vt_HeightPx = mv_HeightPx v, vt_SkipReason = mv_SkipReason v, vt_Error = mv_Error v,
      vt_Attempts = mv_Attempts v,
      vt_NextAttemptAt = (if mv_State v = VariantPending \<and> 0 < mv_Attempts v
        then Some (case mv_NextAttemptAt v of None \<Rightarrow> mv_CreatedAt v | Some t \<Rightarrow> t) else None),
      vt_UpdatedAt = mv_UpdatedAt v\<rparr>"

record asset_dto =
  mt_ID :: uuid
  mt_ContentType :: string
  mt_SizeBytes :: nat
  mt_Uploaded :: bool
  mt_UploadedAt :: "int option"
  mt_CreatedAt :: int
  mt_Filename :: "string option"
  mt_AltText :: "string option"
  mt_WidthPx :: "nat option"
  mt_HeightPx :: "nat option"
  mt_Variants :: "variant_dto list"
  mt_aud :: audience

definition ProjectMediaAsset :: "media_asset \<Rightarrow> subject \<Rightarrow> media_variant list \<Rightarrow> asset_dto" where
  "ProjectMediaAsset a sub vs =
     (let aud = audienceFor sub;
          dto = \<lparr>mt_ID = ma_ID a, mt_ContentType = ma_ContentType a, mt_SizeBytes = ma_SizeBytes a, mt_Uploaded = IsUploaded a,
            mt_UploadedAt = ma_UploadedAt a, mt_CreatedAt = ma_CreatedAt a, mt_Filename = None, mt_AltText = None, mt_WidthPx = None,
            mt_HeightPx = None, mt_Variants = [], mt_aud = aud\<rparr> in
      if aud = audienceDelivery then dto
      else dto\<lparr>mt_Filename := ma_Filename a, mt_AltText := ma_AltText a, mt_WidthPx := ma_WidthPx a, mt_HeightPx := ma_HeightPx a,
             mt_Variants := map projectMediaVariant vs\<rparr>)"

definition MarshalJSON_media :: "asset_dto \<Rightarrow> go_error + asset_dto" where
  "MarshalJSON_media d =
     (case mt_aud d of
        audienceAdmin \<Rightarrow> Inr d
      | audienceDelivery \<Rightarrow> Inr (d\<lparr>mt_Filename := None, mt_AltText := None, mt_WidthPx := None, mt_HeightPx := None, mt_Variants := []\<rparr>)
      | _ \<Rightarrow> Inl (PlainError ''content: media asset has no audience''))"

definition projectMedia :: "media_asset \<Rightarrow> subject \<Rightarrow> media_db \<Rightarrow> asset_dto" where
  "projectMedia a sub m =
     (if audienceFor sub = audienceDelivery then ProjectMediaAsset a sub []
      else ProjectMediaAsset a sub (ListMediaVariants (ma_TenantID a) (ma_ID a) m))"

section \<open>Uploads\<close>

definition media_authorize :: "media_env \<Rightarrow> subject option \<Rightarrow> string \<Rightarrow> string \<Rightarrow> go_error + subject" where
  "media_authorize M ctx action i = authorize (wd_allow (me_W M)) ctx action i []"

definition storageKey :: "string \<Rightarrow> uuid \<Rightarrow> string \<Rightarrow> string" where
  "storageKey tenant i suffix = tenant @ ''/'' @ i @ ''-'' @ suffix"

record upload_dto =
  up_AssetID :: uuid
  up_URL :: string
  up_Fields :: "(string \<times> string) list"
  up_MaxBytes :: nat
  up_ExpiresAt :: int

text \<open>The reservation is written before the form is signed; the random suffix is an argument.\<close>

definition CreateMediaUpload ::
    "media_env \<Rightarrow> subject option \<Rightarrow> uuid \<Rightarrow> string \<Rightarrow> int \<Rightarrow> string \<Rightarrow> metadata_input \<Rightarrow> media_db \<Rightarrow> media_db \<times> (go_error + upload_dto)" where
  "CreateMediaUpload M ctx newID suffix now declared inp m =
     (let ct = normalizeContentType declared in
      case and_then (media_authorize M ctx ''content:create'' ''media'') (\<lambda>sub.
           and_then (require (me_Enabled M) ErrMediaDisabled) (\<lambda>_.
           and_then (require (uploadTypeAllowed ct) ErrMediaTypeNotAllowed) (\<lambda>_.
           and_then (toPatch inp) (\<lambda>p.
           let key = storageKey (TenantID sub) newID suffix in
           and_then (CreateMediaAsset_repo
             \<lparr>ma_ID = newID, ma_TenantID = TenantID sub, ma_StorageKey = key, ma_ContentType = ct, ma_SizeBytes = 0, ma_UploadedAt = None,
              ma_CreatedAt = now, ma_Filename = pt_Filename p, ma_AltText = pt_AltText p, ma_WidthPx = pt_WidthPx p,
              ma_HeightPx = pt_HeightPx p\<rparr> m) (\<lambda>m. Inr (m, key)))))) of
        Inl e \<Rightarrow> (m, Inl e)
      | Inr (m, key) \<Rightarrow>
          (m, and_then (me_SignPost M key uploadTTL MaxUploadBytes ct) (\<lambda>(url, fs).
             Inr \<lparr>up_AssetID = newID, up_URL = url, up_Fields = fs, up_MaxBytes = MaxUploadBytes, up_ExpiresAt = now + uploadTTL\<rparr>)))"

text \<open>
  What the store takes against a signed form (\<open>PresignPost\<close>): until the form expires, any body of at
  least one byte within the limit, sent under the signed content type, becomes the object.
\<close>

definition form_accepts :: "int \<Rightarrow> upload_dto \<Rightarrow> string \<Rightarrow> bool" where
  "form_accepts now up body \<longleftrightarrow> now < up_ExpiresAt up \<and> 1 \<le> length body \<and> length body \<le> up_MaxBytes up"

definition posted_object :: "string \<Rightarrow> string \<Rightarrow> string \<Rightarrow> media_db \<Rightarrow> media_db" where
  "posted_object key ct body m = m\<lparr>md_Bucket := (md_Bucket m)(key \<mapsto> \<lparr>ob_Bytes = body, ob_ContentType = ct\<rparr>)\<rparr>"

definition post_form :: "int \<Rightarrow> upload_dto \<Rightarrow> media_asset \<Rightarrow> string \<Rightarrow> media_db \<Rightarrow> media_db option" where
  "post_form now up a body m =
     (if form_accepts now up body then Some (posted_object (ma_StorageKey a) (ma_ContentType a) body m) else None)"

datatype completion = Discard media_asset go_error | Confirm media_asset object

definition Complete_reads :: "media_env \<Rightarrow> subject option \<Rightarrow> uuid \<Rightarrow> media_db \<Rightarrow> go_error + subject \<times> completion" where
  "Complete_reads M ctx i m =
     and_then (media_authorize M ctx ''content:update'' i) (\<lambda>sub.
     and_then (require (me_Enabled M) ErrMediaDisabled) (\<lambda>_.
     and_then (GetMediaAsset_of (TenantID sub) i m) (\<lambda>a.
     case Stat M (ma_StorageKey a) m of
       None \<Rightarrow> Inl ErrMediaNotUploaded
     | Some info \<Rightarrow>
         if MaxUploadBytes < length (ob_Bytes info) then Inr (sub, Discard a ErrMediaTooLarge)
         else if \<not> uploadTypeAllowed (normalizeContentType (ob_ContentType info)) then Inr (sub, Discard a ErrMediaTypeNotAllowed)
         else if sniffEnforced (ma_ContentType a) then
           (case Get_object M (ma_StorageKey a) m of
              None \<Rightarrow> Inl ErrMediaNotUploaded
            | Some ob \<Rightarrow>
                if \<not> bytesMatchDeclared (readSniffWindow (ob_Bytes ob)) (ma_ContentType a) then Inr (sub, Discard a ErrMediaBytesMismatch)
                else Inr (sub, Confirm a info))
         else Inr (sub, Confirm a info))))"

definition discardUpload :: "media_env \<Rightarrow> string \<Rightarrow> media_asset \<Rightarrow> media_db \<Rightarrow> media_db" where
  "discardUpload M tenant a m =
     delete_best_effort M (ma_StorageKey a)
       (case DeleteMediaAsset_repo tenant (ma_ID a) m of Inl _ \<Rightarrow> m | Inr (m', keys) \<Rightarrow> m')"

definition Complete_writes ::
    "media_env \<Rightarrow> int \<Rightarrow> uuid \<Rightarrow> subject \<Rightarrow> completion \<Rightarrow> media_db \<Rightarrow> media_db \<times> (go_error + asset_dto)" where
  "Complete_writes M now i sub c m =
     (case c of
        Discard a e \<Rightarrow> (discardUpload M (TenantID sub) a m, Inl e)
      | Confirm a info \<Rightarrow>
          (case and_then (MarkMediaUploaded now (TenantID sub) i (length (ob_Bytes info)) (ob_ContentType info) m) (\<lambda>m.
                if \<not> IsImageContentType (ob_ContentType info) then Inr m
                else EnqueueMediaVariants_repo now (TenantID sub) i (ma_StorageKey a) m) of
             Inl e \<Rightarrow> (m, Inl e)
           | Inr m \<Rightarrow>
               (m, Inr (projectMedia (a\<lparr>ma_SizeBytes := length (ob_Bytes info), ma_ContentType := ob_ContentType info,
                   ma_UploadedAt := Some now\<rparr>) sub m))))"

definition CompleteMediaUpload ::
    "media_env \<Rightarrow> int \<Rightarrow> subject option \<Rightarrow> uuid \<Rightarrow> media_db \<Rightarrow> media_db \<times> (go_error + asset_dto)" where
  "CompleteMediaUpload M now ctx i m =
     (case Complete_reads M ctx i m of Inl e \<Rightarrow> (m, Inl e) | Inr (sub, c) \<Rightarrow> Complete_writes M now i sub c m)"

definition EnqueueMediaVariants ::
    "media_env \<Rightarrow> int \<Rightarrow> subject option \<Rightarrow> uuid \<Rightarrow> media_db \<Rightarrow> go_error + media_db \<times> asset_dto" where
  "EnqueueMediaVariants M now ctx i m =
     and_then (media_authorize M ctx ''content:update'' i) (\<lambda>sub.
     and_then (require (me_Enabled M) ErrMediaDisabled) (\<lambda>_.
     and_then (GetMediaAsset_of (TenantID sub) i m) (\<lambda>a.
     and_then (require (IsUploaded a) ErrMediaNotUploaded) (\<lambda>_.
     and_then (require (IsImageContentType (ma_ContentType a)) ErrMediaNotImage) (\<lambda>_.
     and_then (EnqueueMediaVariants_repo now (TenantID sub) i (ma_StorageKey a) m) (\<lambda>m.
     Inr (m, projectMedia a sub m)))))))"

definition UpdateMediaAsset ::
    "media_env \<Rightarrow> subject option \<Rightarrow> uuid \<Rightarrow> metadata_input \<Rightarrow> media_db \<Rightarrow> go_error + media_db \<times> asset_dto" where
  "UpdateMediaAsset M ctx i inp m =
     and_then (media_authorize M ctx ''content:update'' i) (\<lambda>sub.
     and_then (toPatch inp) (\<lambda>p.
     and_then (UpdateMediaAssetMetadata (TenantID sub) i p m) (\<lambda>(m, a). Inr (m, projectMedia a sub m))))"

section \<open>Reads\<close>

definition media_gate :: "subject \<Rightarrow> uuid \<Rightarrow> media_db \<Rightarrow> go_error + unit" where
  "media_gate sub i m = require (\<not> PublicDelivery sub \<or> AssetIsPublished (TenantID sub) i (md_DB m)) entry_not_found"

definition count_read :: "subject \<Rightarrow> counts \<Rightarrow> counts" where
  "count_read sub c = (if PublicDelivery sub then Record_read (TenantID sub) c else c)"

definition GetMediaAsset ::
    "media_env \<Rightarrow> subject option \<Rightarrow> uuid \<Rightarrow> media_db \<Rightarrow> counts \<Rightarrow> (go_error + asset_dto) \<times> counts" where
  "GetMediaAsset M ctx i m c =
     (case and_then (media_authorize M ctx ''content:read'' i) (\<lambda>sub.
           and_then (GetMediaAsset_of (TenantID sub) i m) (\<lambda>a.
           and_then (require (\<not> PublicDelivery sub \<or> IsUploaded a) entry_not_found) (\<lambda>_.
           and_then (media_gate sub i m) (\<lambda>_. Inr (sub, a))))) of
        Inl e \<Rightarrow> (Inl e, c)
      | Inr (sub, a) \<Rightarrow> (Inr (projectMedia a sub m), count_read sub c))"

definition MediaReferencedBy_repo :: "string \<Rightarrow> uuid \<Rightarrow> int \<Rightarrow> int \<Rightarrow> media_db \<Rightarrow> referenced_row list \<times> nat" where
  "MediaReferencedBy_repo tenant i limit offset m =
     referencedByQuery tenant (db_Media (md_DB m)) (db_MediaPublished (md_DB m)) i limit offset (md_DB m)"

definition MediaReferencedBy ::
    "media_env \<Rightarrow> subject option \<Rightarrow> uuid \<Rightarrow> int \<Rightarrow> int \<Rightarrow> media_db \<Rightarrow> go_error + referenced_row list \<times> nat" where
  "MediaReferencedBy M ctx i limit offset m =
     and_then (media_authorize M ctx ''content:read'' i) (\<lambda>sub.
     and_then (GetMediaAsset_of (TenantID sub) i m) (\<lambda>_.
     case clampReferencedByPage limit offset of (l, o') \<Rightarrow>
       (case MediaReferencedBy_repo (TenantID sub) i l o' m of
          (rows, n) \<Rightarrow> Inr (readableReferencedByRows rows sub (md_DB m), n))))"

record media_list_input =
  mli_Query :: string
  mli_Kind :: string
  mli_Limit :: int
  mli_Offset :: int
  mli_Orphan :: bool

record media_list =
  ml_Items :: "asset_dto list"
  ml_Total :: nat
  ml_Limit :: int
  ml_Offset :: int

definition mediaKindPrefixes :: "(string \<times> string) list" where
  "mediaKindPrefixes = [(''image'', ''image/''), (''video'', ''video/''), (''document'', ''application/'')]"

definition ListMediaAssets ::
    "media_env \<Rightarrow> ('k, 'z) sql_scheme \<Rightarrow> subject option \<Rightarrow> media_list_input \<Rightarrow> media_db \<Rightarrow> go_error + media_list" where
  "ListMediaAssets M Q ctx inp m =
     and_then (media_authorize M ctx ''content:list'' ''media'') (\<lambda>sub.
     and_then (require (\<not> PublicDelivery sub) (AppError (New ''CONTENT_MEDIA_LIST_FORBIDDEN'' 403))) (\<lambda>_.
     and_then (if mli_Kind inp = [] then Inr []
               else case map_of mediaKindPrefixes (mli_Kind inp) of
                 None \<Rightarrow> Inl (ErrMediaKindUnknown (mli_Kind inp)) | Some p \<Rightarrow> Inr p) (\<lambda>prefix.
     let limit = (if mli_Limit inp \<le> 0 \<or> 100 < mli_Limit inp then 20 else mli_Limit inp);
         offset = (if mli_Offset inp < 0 then 0 else mli_Offset inp);
         page = ListMediaAssets_repo Q (TenantID sub) \<lparr>mf_Query = mli_Query inp, mf_Prefix = prefix, mf_Limit = limit,
           mf_Offset = offset, mf_Orphan = mli_Orphan inp\<rparr> m in
     Inr \<lparr>ml_Items = map (\<lambda>a. ProjectMediaAsset a sub []) (fst page), ml_Total = snd page, ml_Limit = limit, ml_Offset = offset\<rparr>)))"

definition usable_variant :: "string \<Rightarrow> media_variant \<Rightarrow> bool" where
  "usable_variant preset v \<longleftrightarrow> mv_Preset v = preset \<and> mv_State v = VariantDone \<and> mv_StorageKey v \<notin> {None, Some []}"

definition key_for :: "string \<Rightarrow> media_asset \<Rightarrow> media_db \<Rightarrow> string" where
  "key_for preset a m =
     (if preset = [] then ma_StorageKey a
      else case find (usable_variant preset) (ListMediaVariants (ma_TenantID a) (ma_ID a) m) of
        None \<Rightarrow> ma_StorageKey a
      | Some v \<Rightarrow> the (mv_StorageKey v))"

definition ResolveMediaURL ::
    "media_env \<Rightarrow> int \<Rightarrow> subject option \<Rightarrow> uuid \<Rightarrow> string \<Rightarrow> media_db \<Rightarrow> counts \<Rightarrow> (go_error + string \<times> int) \<times> counts" where
  "ResolveMediaURL M now ctx i preset m c =
     (case and_then (media_authorize M ctx ''content:read'' i) (\<lambda>sub.
           and_then (require (preset = [] \<or> ValidMediaPreset preset) ErrMediaPresetUnknown) (\<lambda>_.
           and_then (require (me_Enabled M) ErrMediaDisabled) (\<lambda>_.
           and_then (GetMediaAsset_of (TenantID sub) i m) (\<lambda>a.
           and_then (require (IsUploaded a) entry_not_found) (\<lambda>_.
           and_then (media_gate sub i m) (\<lambda>_. Inr (sub, a))))))) of
        Inl e \<Rightarrow> (Inl e, c)
      | Inr (sub, a) \<Rightarrow>
          (and_then (me_SignGet M (key_for preset a m) deliveryTTL) (\<lambda>url. Inr (url, now + deliveryTTL)), count_read sub c))"

section \<open>Deletion\<close>

definition DeleteMedia_checks :: "media_env \<Rightarrow> subject option \<Rightarrow> uuid \<Rightarrow> bool \<Rightarrow> media_db \<Rightarrow> go_error + subject \<times> media_asset" where
  "DeleteMedia_checks M ctx i force m =
     and_then (media_authorize M ctx ''content:delete'' i) (\<lambda>sub.
     and_then (require (me_Enabled M) ErrMediaDisabled) (\<lambda>_.
     and_then (GetMediaAsset_of (TenantID sub) i m) (\<lambda>a.
     and_then (if force then Inr ()
               else case MediaReferencedBy_repo (TenantID sub) i 20 0 m of
                 (rows, n) \<Rightarrow> require (n = 0) (errMediaInUse (readableReferencedByRows rows sub (md_DB m)) n)) (\<lambda>_.
     Inr (sub, a)))))"

definition DeleteMedia_commit :: "media_env \<Rightarrow> subject \<Rightarrow> media_asset \<Rightarrow> media_db \<Rightarrow> media_db \<times> go_error option" where
  "DeleteMedia_commit M sub a m =
     (case DeleteMediaAsset_repo (TenantID sub) (ma_ID a) m of
        Inl e \<Rightarrow> (m, Some e)
      | Inr (m, keys) \<Rightarrow>
          (let m = fold (delete_best_effort M) keys m in
           if \<not> IsUploaded a then (m, None)
           else case Delete_object M (ma_StorageKey a) m of
             (m, done') \<Rightarrow> (m, if done' then None else Some (PlainError ''delete''))))"

definition DeleteMediaAsset :: "media_env \<Rightarrow> subject option \<Rightarrow> uuid \<Rightarrow> bool \<Rightarrow> media_db \<Rightarrow> media_db \<times> go_error option" where
  "DeleteMediaAsset M ctx i force m =
     (case DeleteMedia_checks M ctx i force m of Inl e \<Rightarrow> (m, Some e) | Inr (sub, a) \<Rightarrow> DeleteMedia_commit M sub a m)"

end
