(* ===== verification/Media_Sweep.thy ===== *)
theory Media_Sweep
  imports Media_Service
begin

text \<open>
  The batch deletion of orphans (\<open>service/media_sweep.go\<close>): a list of candidates, read page by page,
  then each of them through the single deletion.
\<close>

definition defaultSweepOlderThan :: int where "defaultSweepOlderThan = 720 * 3600 * second"
definition defaultSweepLimit :: int where "defaultSweepLimit = 100"
definition maxSweepLimit :: int where "maxSweepLimit = 500"

datatype sweep_action = SweepDeleted | SweepSkipped | SweepWouldDelete

record sweep_input =
  si_OlderThan :: int
  si_Limit :: int
  si_DryRun :: bool

record sweep_result =
  sw_Deleted :: nat
  sw_Referenced :: nat
  sw_Fresh :: nat
  sw_Failed :: nat
  sw_Truncated :: bool
  sw_Remaining :: nat
  sw_Items :: "(uuid \<times> sweep_action \<times> string) list"

definition orphan_page :: "int \<Rightarrow> media_filter" where
  "orphan_page offset = \<lparr>mf_Query = [], mf_Prefix = [], mf_Limit = 100, mf_Offset = offset, mf_Orphan = True\<rparr>"

lemma orphan_page_in_range:
  assumes "fst (ListMediaAssets_repo Q tenant (orphan_page (int offset)) m) \<noteq> []"
  shows "offset < length (db_Assets (md_DB m))"
proof -
  have "offset < length (filter (media_match Q tenant (orphan_page (int offset)) (md_DB m)) (db_Assets (md_DB m)))"
    using assms by (simp add: ListMediaAssets_repo_def Let_def orphan_page_def newest_assets_def)
  also have "\<dots> \<le> length (db_Assets (md_DB m))" by (rule length_filter_le)
  finally show ?thesis .
qed

text \<open>The pages are read until there are enough rows, all of them, or none came.\<close>

function sweep_pages ::
    "('k, 'z) sql_scheme \<Rightarrow> string \<Rightarrow> nat \<Rightarrow> media_db \<Rightarrow> media_asset list \<Rightarrow> nat \<Rightarrow> media_asset list \<times> nat" where
  "sweep_pages Q tenant limit m out offset =
     (let page = fst (ListMediaAssets_repo Q tenant (orphan_page (int offset)) m);
          tot = snd (ListMediaAssets_repo Q tenant (orphan_page (int offset)) m);
          out' = out @ page in
      if limit \<le> length out' \<or> tot \<le> length out' \<or> page = [] then (out', tot)
      else sweep_pages Q tenant limit m out' (offset + length page))"
  by pat_completeness auto
termination
  by (relation "measure (\<lambda>(Q, tenant, limit, m, out, offset). length (db_Assets (md_DB m)) - offset)")
    (auto intro!: diff_less_mono2 dest: orphan_page_in_range)

declare sweep_pages.simps [simp del]

definition sweepCandidates :: "('k, 'z) sql_scheme \<Rightarrow> string \<Rightarrow> nat \<Rightarrow> media_db \<Rightarrow> media_asset list \<times> nat" where
  "sweepCandidates Q tenant limit m =
     (case sweep_pages Q tenant limit m [] 0 of (out, tot) \<Rightarrow> (if limit < length out then take limit out else out, tot))"

definition sweepErrorCode :: "go_error \<Rightarrow> string" where
  "sweepErrorCode e = (case e of AppError a \<Rightarrow> err_code a | _ \<Rightarrow> ''INTERNAL'')"

definition sweepReferenced :: "string \<Rightarrow> uuid \<Rightarrow> media_db \<Rightarrow> go_error + bool" where
  "sweepReferenced tenant i m =
     and_then (GetMediaAsset_of tenant i m) (\<lambda>_. Inr (0 < snd (MediaReferencedBy_repo tenant i 1 0 m)))"

definition sw_item :: "uuid \<Rightarrow> sweep_action \<Rightarrow> string \<Rightarrow> sweep_result \<Rightarrow> sweep_result" where
  "sw_item i a why r = r\<lparr>sw_Items := sw_Items r @ [(i, a, why)]\<rparr>"

definition sw_deleted :: "uuid \<Rightarrow> sweep_action \<Rightarrow> sweep_result \<Rightarrow> sweep_result" where
  "sw_deleted i a r = sw_item i a [] (r\<lparr>sw_Deleted := sw_Deleted r + 1\<rparr>)"

definition sw_referenced :: "uuid \<Rightarrow> sweep_result \<Rightarrow> sweep_result" where
  "sw_referenced i r = sw_item i SweepSkipped ''referenced'' (r\<lparr>sw_Referenced := sw_Referenced r + 1\<rparr>)"

definition sw_failed :: "uuid \<Rightarrow> string \<Rightarrow> sweep_result \<Rightarrow> sweep_result" where
  "sw_failed i why r = sw_item i SweepSkipped why (r\<lparr>sw_Failed := sw_Failed r + 1\<rparr>)"

definition sweep_one ::
    "media_env \<Rightarrow> subject option \<Rightarrow> string \<Rightarrow> int \<Rightarrow> bool \<Rightarrow> media_asset \<Rightarrow> media_db \<times> sweep_result \<Rightarrow> media_db \<times> sweep_result" where
  "sweep_one M ctx tenant cutoff dry a st =
     (case st of (m, r) \<Rightarrow>
        if cutoff < ma_CreatedAt a
        then (m, sw_item (ma_ID a) SweepSkipped ''fresh'' (r\<lparr>sw_Fresh := sw_Fresh r + 1\<rparr>))
        else if dry
        then (m, case sweepReferenced tenant (ma_ID a) m of
            Inl e \<Rightarrow> sw_failed (ma_ID a) (sweepErrorCode e) r
          | Inr True \<Rightarrow> sw_referenced (ma_ID a) r
          | Inr False \<Rightarrow> sw_deleted (ma_ID a) SweepWouldDelete r)
        else (case DeleteMediaAsset M ctx (ma_ID a) False m of
            (m, None) \<Rightarrow> (m, sw_deleted (ma_ID a) SweepDeleted r)
          | (m, Some e) \<Rightarrow>
              (m, if sweepErrorCode e = ''CONTENT_MEDIA_IN_USE'' then sw_referenced (ma_ID a) r
                  else sw_failed (ma_ID a) (sweepErrorCode e) r)))"

definition sweep_limit :: "int \<Rightarrow> nat" where
  "sweep_limit n = nat (min maxSweepLimit (if n \<le> 0 then defaultSweepLimit else n))"

definition sweep_cutoff :: "int \<Rightarrow> int \<Rightarrow> int" where
  "sweep_cutoff now olderThan = now - (if olderThan \<le> 0 then defaultSweepOlderThan else olderThan)"

definition SweepOrphans ::
    "media_env \<Rightarrow> ('k, 'z) sql_scheme \<Rightarrow> int \<Rightarrow> subject option \<Rightarrow> sweep_input \<Rightarrow> media_db \<Rightarrow> media_db \<times> (go_error + sweep_result)" where
  "SweepOrphans M Q now ctx inp m =
     (case media_authorize M ctx ''content:delete'' ''media'' of
        Inl e \<Rightarrow> (m, Inl e)
      | Inr sub \<Rightarrow>
          (case sweepCandidates Q (TenantID sub) (sweep_limit (si_Limit inp)) m of
             (candidates, tot) \<Rightarrow>
               (case fold (sweep_one M ctx (TenantID sub) (sweep_cutoff now (si_OlderThan inp)) (si_DryRun inp)) candidates
                   (m, \<lparr>sw_Deleted = 0, sw_Referenced = 0, sw_Fresh = 0, sw_Failed = 0, sw_Truncated = False, sw_Remaining = 0, sw_Items = []\<rparr>) of
                  (m, r) \<Rightarrow>
                    (m, Inr (if length candidates < tot then r\<lparr>sw_Truncated := True, sw_Remaining := tot - length candidates\<rparr> else r)))))"

end
