(* ===== verification/Media_Worker.thy ===== *)
theory Media_Worker
  imports Media_Service
begin

text \<open>
  The worker that makes the renditions of an image (\<open>cms/content/mediatransform\<close>): the reader of one
  EXIF tag, the turning of an image, the size of a rendition, and a tick over the rows that are due.
  The decoders, the encoders and the scaler are outside functions; a panic of theirs is an error.
  The dimensions in the message of a bad header are left out.
\<close>

section \<open>The orientation tag (\<open>exif.go\<close>)\<close>

text \<open>
  Reading a byte past the end would panic: every read returns an option, and \<open>None\<close> as the answer
  of a function is the panic.
\<close>

definition byte_at :: "string \<Rightarrow> nat \<Rightarrow> nat option" where
  "byte_at b i = (if i < length b then Some (of_char (b ! i)) else None)"

definition bytes_at :: "string \<Rightarrow> nat \<Rightarrow> nat \<Rightarrow> nat list option" where
  "bytes_at b i n = (if i + n \<le> length b then Some (map of_char (take n (drop i b))) else None)"

definition be_value :: "nat list \<Rightarrow> nat" where
  "be_value bs = fold (\<lambda>d acc. acc * 256 + d) bs 0"

definition read_uint :: "bool \<Rightarrow> nat \<Rightarrow> string \<Rightarrow> nat \<Rightarrow> nat option" where
  "read_uint big n b i = map_option (\<lambda>bs. be_value (if big then bs else rev bs)) (bytes_at b i n)"

definition slice :: "string \<Rightarrow> nat \<Rightarrow> nat \<Rightarrow> string option" where
  "slice b i j = (if i \<le> j \<and> j \<le> length b then Some (take (j - i) (drop i b)) else None)"

text \<open>The entries of the directory, from \<open>k\<close> of \<open>n\<close>.\<close>

fun exif_entries :: "bool \<Rightarrow> string \<Rightarrow> nat \<Rightarrow> nat \<Rightarrow> nat \<Rightarrow> nat option" where
  "exif_entries big t ifd k 0 = Some 1"
| "exif_entries big t ifd k (Suc left') =
     (let e = ifd + 2 + k * 12 in
      if length t < e + 12 then Some 1
      else Option.bind (read_uint big 2 t e) (\<lambda>tag.
        if tag \<noteq> 0x0112 then exif_entries big t ifd (Suc k) left'
        else Option.bind (read_uint big 2 t (e + 2)) (\<lambda>kind.
          if kind \<noteq> 3 then Some 1
          else Option.bind (read_uint big 2 t (e + 8)) (\<lambda>v. if v < 1 \<or> 8 < v then Some 1 else Some v))))"

definition orientationFromExif :: "string \<Rightarrow> nat option" where
  "orientationFromExif p =
     (if length p < 6 \<or> take 6 p \<noteq> ''Exif'' @ [CHR 0x00, CHR 0x00] then Some 1
      else let t = drop 6 p in
        if length t < 8 then Some 1
        else let order = take 2 t in
          if order \<noteq> ''II'' \<and> order \<noteq> ''MM'' then Some 1
          else let big = (order = ''MM'') in
            Option.bind (read_uint big 2 t 2) (\<lambda>magic.
              if magic \<noteq> 0x2A then Some 1
              else Option.bind (read_uint big 4 t 4) (\<lambda>ifd.
                if ifd < 8 \<or> length t < ifd + 2 then Some 1
                else Option.bind (read_uint big 2 t ifd) (\<lambda>n. exif_entries big t ifd 0 n))))"

function jpeg_segments :: "string \<Rightarrow> nat \<Rightarrow> nat option" where
  "jpeg_segments b i =
     (if \<not> i + 4 \<le> length b then Some 1
      else case (byte_at b i, byte_at b (i + 1), read_uint True 2 b (i + 2)) of
        (Some lead, Some marker, Some segLen) \<Rightarrow>
          if lead \<noteq> 0xFF then Some 1
          else if marker = 0xFF then jpeg_segments b (i + 1)
          else if marker = 0xDA \<or> marker = 0xD9 then Some 1
          else if segLen < 2 \<or> length b < i + 2 + segLen then Some 1
          else if marker = 0xE1 then Option.bind (slice b (i + 4) (i + 2 + segLen)) orientationFromExif
          else jpeg_segments b (i + (2 + segLen))
      | _ \<Rightarrow> None)"
  by pat_completeness auto
termination by (relation "measure (\<lambda>(b, i). length b - i)") auto

declare jpeg_segments.simps [simp del]

definition jpegOrientation :: "string \<Rightarrow> nat option" where
  "jpegOrientation b =
     (if length b < 4 then Some 1
      else case (byte_at b 0, byte_at b 1) of
        (Some x, Some y) \<Rightarrow> if x \<noteq> 0xFF \<or> y \<noteq> 0xD8 then Some 1 else jpeg_segments b 2
      | _ \<Rightarrow> None)"

section \<open>Turning an image (\<open>image.go\<close>)\<close>

text \<open>Pixels row by row; a pixel is the four bytes the loop copies.\<close>

record raster =
  rs_W :: nat
  rs_H :: nat
  rs_Pix :: "nat list"

definition turned_to :: "nat \<Rightarrow> nat \<Rightarrow> nat \<Rightarrow> nat \<Rightarrow> nat \<Rightarrow> nat \<times> nat" where
  "turned_to o' w h x y =
     (if o' = 2 then (w - 1 - x, y)
      else if o' = 3 then (w - 1 - x, h - 1 - y)
      else if o' = 4 then (x, h - 1 - y)
      else if o' = 5 then (y, x)
      else if o' = 6 then (h - 1 - y, x)
      else if o' = 7 then (h - 1 - y, w - 1 - x)
      else (y, w - 1 - x))"

definition pixel_order :: "nat \<Rightarrow> nat \<Rightarrow> (nat \<times> nat) list" where
  "pixel_order w h = concat (map (\<lambda>y. map (\<lambda>x. (x, y)) [0..<w]) [0..<h])"

definition orient :: "raster \<Rightarrow> nat \<Rightarrow> raster" where
  "orient r o' =
     (if o' \<le> 1 \<or> 8 < o' then r
      else let w = rs_W r; h = rs_H r; dw = (if 5 \<le> o' then h else w); dh = (if 5 \<le> o' then w else h) in
        \<lparr>rs_W = dw, rs_H = dh,
         rs_Pix = fold (\<lambda>(x, y) dst. case turned_to o' w h x y of (dx, dy) \<Rightarrow> dst[dy * dw + dx := rs_Pix r ! (y * w + x)])
           (pixel_order w h) (replicate (dw * dh) 0)\<rparr>)"

definition MaxSourcePixels :: nat where "MaxSourcePixels = 50000000"

definition fitWidth :: "nat \<Rightarrow> nat \<Rightarrow> nat \<Rightarrow> nat \<times> nat" where
  "fitWidth w h maxWidth =
     (if w \<le> maxWidth then (w, h)
      else let nh = (h * maxWidth + w div 2) div w in (maxWidth, if nh < 1 then 1 else nh))"

text \<open>What the worker uses of the image libraries; an error is its text.\<close>

record image_lib =
  il_DecodeConfig :: "string \<Rightarrow> string + string \<times> int \<times> int"
  il_Decode :: "string \<Rightarrow> string + raster"
  il_Scale :: "raster \<Rightarrow> nat \<Rightarrow> nat \<Rightarrow> raster"
  il_EncodeJPEG :: "raster \<Rightarrow> string + string"
  il_EncodePNG :: "raster \<Rightarrow> string + string"

definition decodable :: "string \<Rightarrow> bool" where
  "decodable ct \<longleftrightarrow> ct \<in> {''image/jpeg'', ''image/png'', ''image/gif'', ''image/webp''}"

record probe =
  pb_Format :: string
  pb_Width :: nat
  pb_Height :: nat
  pb_Orientation :: nat

datatype probe_result = Probed probe | ProbedTooLarge probe | UnsupportedFormat | BadHeader string

text \<open>The limit is on the pixels of the header, before turning.\<close>

definition probeSource :: "image_lib \<Rightarrow> string \<Rightarrow> string \<Rightarrow> probe_result" where
  "probeSource L data ct =
     (if \<not> decodable ct then UnsupportedFormat
      else case il_DecodeConfig L data of
        Inl e \<Rightarrow> BadHeader (''decode header: '' @ e)
      | Inr (format, w, h) \<Rightarrow>
          if w \<le> 0 \<or> h \<le> 0 then BadHeader ''decode header''
          else let o' = (if format = ''jpeg'' then (case jpegOrientation data of None \<Rightarrow> 0 | Some v \<Rightarrow> v) else 1);
                   p = \<lparr>pb_Format = format, pb_Width = nat (if 5 \<le> o' then h else w), pb_Height = nat (if 5 \<le> o' then w else h),
                        pb_Orientation = o'\<rparr> in
            if int MaxSourcePixels < w * h then ProbedTooLarge p else Probed p)"

record source =
  so_Img :: raster
  so_Format :: string

definition decodeSource :: "image_lib \<Rightarrow> string \<Rightarrow> probe \<Rightarrow> string + source" where
  "decodeSource L data p =
     (case il_Decode L data of
        Inl e \<Rightarrow> Inl (''decode: '' @ e)
      | Inr img \<Rightarrow> Inr \<lparr>so_Img = orient img (pb_Orientation p), so_Format = pb_Format p\<rparr>)"

record rendition =
  rd_Data :: string
  rd_ContentType :: string
  rd_Ext :: string
  rd_Width :: nat
  rd_Height :: nat

definition render_variant :: "image_lib \<Rightarrow> source \<Rightarrow> nat \<Rightarrow> string + rendition" where
  "render_variant L src maxWidth =
     (case fitWidth (rs_W (so_Img src)) (rs_H (so_Img src)) maxWidth of (w, h) \<Rightarrow>
        let dst = il_Scale L (so_Img src) w h in
        if so_Format src = ''jpeg''
        then and_then (case il_EncodeJPEG L dst of Inl e \<Rightarrow> Inl (''encode jpeg: '' @ e) | Inr d \<Rightarrow> Inr d) (\<lambda>d. Inr \<lparr>rd_Data = d, rd_ContentType = ''image/jpeg'', rd_Ext = ''jpg'', rd_Width = w, rd_Height = h\<rparr>)
        else and_then (case il_EncodePNG L dst of Inl e \<Rightarrow> Inl (''encode png: '' @ e) | Inr d \<Rightarrow> Inr d) (\<lambda>d. Inr \<lparr>rd_Data = d, rd_ContentType = ''image/png'', rd_Ext = ''png'', rd_Width = w, rd_Height = h\<rparr>))"

section \<open>The rows (\<open>media_variant_repository.go\<close>)\<close>

definition due_variant :: "int \<Rightarrow> media_variant \<Rightarrow> bool" where
  "due_variant now v \<longleftrightarrow> mv_State v = VariantPending \<and> (case mv_NextAttemptAt v of None \<Rightarrow> True | Some t \<Rightarrow> t \<le> now)"

definition ClaimPendingMediaVariants :: "string \<Rightarrow> uuid \<Rightarrow> int \<Rightarrow> media_db \<Rightarrow> media_variant list" where
  "ClaimPendingMediaVariants tenant i now m = filter (due_variant now) (ListMediaVariants tenant i m)"

definition due_since :: "media_variant list \<Rightarrow> uuid \<times> string \<Rightarrow> int" where
  "due_since vs k = Min (set (map (\<lambda>v. case mv_NextAttemptAt v of None \<Rightarrow> mv_CreatedAt v | Some t \<Rightarrow> t)
     (filter (\<lambda>v. (mv_AssetID v, mv_TenantID v) = k) vs)))"

definition batch_limit :: "int \<Rightarrow> nat" where
  "batch_limit limit = (if limit \<le> 0 then 10 else if 100 < limit then 100 else nat limit)"

definition ListPendingMediaVariantAssets :: "int \<Rightarrow> int \<Rightarrow> media_db \<Rightarrow> (uuid \<times> string) list" where
  "ListPendingMediaVariantAssets now limit m =
     (let vs = filter (due_variant now) (md_Variants m) in
      take (batch_limit limit) (sort_key (due_since vs) (remdups (map (\<lambda>v. (mv_AssetID v, mv_TenantID v)) vs))))"

datatype outcome =
    OutDone string string nat nat nat
  | OutSkipped string
  | OutRetry string int
  | OutFailed string

definition finished :: "int \<Rightarrow> outcome \<Rightarrow> media_variant \<Rightarrow> media_variant" where
  "finished now out v =
     (case out of
        OutDone key ct size' w h \<Rightarrow>
          v\<lparr>mv_State := VariantDone, mv_StorageKey := Some key, mv_ContentType := ct, mv_SizeBytes := size', mv_WidthPx := w,
            mv_HeightPx := h, mv_NextAttemptAt := None, mv_Error := [], mv_SkipReason := [], mv_UpdatedAt := now\<rparr>
      | OutSkipped why \<Rightarrow>
          v\<lparr>mv_State := VariantSkipped, mv_SkipReason := why, mv_NextAttemptAt := None, mv_Error := [], mv_UpdatedAt := now\<rparr>
      | OutRetry msg t \<Rightarrow>
          v\<lparr>mv_State := VariantPending, mv_Attempts := mv_Attempts v + 1, mv_NextAttemptAt := Some t, mv_Error := msg, mv_UpdatedAt := now\<rparr>
      | OutFailed msg \<Rightarrow>
          v\<lparr>mv_State := VariantFailed, mv_Attempts := mv_Attempts v + 1, mv_NextAttemptAt := None, mv_Error := msg, mv_UpdatedAt := now\<rparr>)"

definition is_row :: "string \<Rightarrow> uuid \<Rightarrow> string \<Rightarrow> media_variant \<Rightarrow> bool" where
  "is_row tenant i p v \<longleftrightarrow> mv_TenantID v = tenant \<and> mv_AssetID v = i \<and> mv_Preset v = p"

definition FinishMediaVariant :: "int \<Rightarrow> string \<Rightarrow> uuid \<Rightarrow> string \<Rightarrow> outcome \<Rightarrow> media_db \<Rightarrow> media_db \<times> bool" where
  "FinishMediaVariant now tenant i p out m =
     (m\<lparr>md_Variants := map (\<lambda>v. if is_row tenant i p v then finished now out v else v) (md_Variants m)\<rparr>,
      list_ex (is_row tenant i p) (md_Variants m))"

section \<open>The worker (\<open>worker.go\<close>)\<close>

definition MaxSourceBytes :: nat where "MaxSourceBytes = 25 * 1024 * 1024"
definition DefaultBatchSize :: int where "DefaultBatchSize = 10"
definition maxBatchesPerTick :: nat where "maxBatchesPerTick = 100"

definition backoff :: "int list" where "backoff = [60 * second, 300 * second, 1800 * second]"

definition variantKey :: "string \<Rightarrow> string \<Rightarrow> string \<Rightarrow> string" where
  "variantKey sourceKey preset ext = sourceKey @ ''.'' @ preset @ ''.'' @ ext"

definition Put_object :: "media_env \<Rightarrow> string \<Rightarrow> string \<Rightarrow> string \<Rightarrow> media_db \<Rightarrow> media_db option" where
  "Put_object M key data ct m = (if me_Down M ''put'' key then None else Some (posted_object key ct data m))"

definition fetch :: "media_env \<Rightarrow> string \<Rightarrow> media_db \<Rightarrow> string + object" where
  "fetch M key m =
     (case Get_object M key m of
        None \<Rightarrow> Inl ''get''
      | Some ob \<Rightarrow> if MaxSourceBytes < length (ob_Bytes ob) then Inl ''source exceeds 26214400 bytes'' else Inr ob)"

definition originalOutcome :: "media_asset \<Rightarrow> object \<Rightarrow> nat \<Rightarrow> nat \<Rightarrow> outcome" where
  "originalOutcome a info w h =
     OutDone (ma_StorageKey a) (if ob_ContentType info = [] then ma_ContentType a else ob_ContentType info)
       (if length (ob_Bytes info) = 0 then ma_SizeBytes a else length (ob_Bytes info)) w h"

definition failure :: "media_variant \<Rightarrow> string \<Rightarrow> int \<Rightarrow> bool \<Rightarrow> outcome" where
  "failure r cause now terminal =
     (let msg = take 500 cause in
      if terminal \<or> MaxMediaVariantAttempts \<le> mv_Attempts r + 1 then OutFailed msg
      else OutRetry msg (now + (if mv_Attempts r < length backoff then backoff ! mv_Attempts r else last backoff)))"

definition finish_row :: "media_env \<Rightarrow> int \<Rightarrow> media_asset \<Rightarrow> string \<Rightarrow> outcome \<Rightarrow> media_db \<Rightarrow> media_db" where
  "finish_row M now a p out m =
     (case FinishMediaVariant now (ma_TenantID a) (ma_ID a) p out m of (m, found) \<Rightarrow>
        case out of
          OutDone key _ _ _ _ \<Rightarrow> if \<not> found \<and> p \<noteq> MediaPresetOriginal then delete_best_effort M key m else m
        | _ \<Rightarrow> m)"

definition finish_all :: "media_env \<Rightarrow> int \<Rightarrow> media_asset \<Rightarrow> (media_variant \<Rightarrow> outcome) \<Rightarrow> media_variant list \<Rightarrow> media_db \<Rightarrow> media_db" where
  "finish_all M now a out rows = fold (\<lambda>r. finish_row M now a (mv_Preset r) (out r)) rows"

text \<open>
  The loop over the claimed rows.  \<open>late\<close> says before which row the time of the asset is up; an error
  ends the loop, and what it put into the bucket stays.
\<close>

fun render_rows ::
    "media_env \<Rightarrow> image_lib \<Rightarrow> (string \<Rightarrow> bool) \<Rightarrow> int \<Rightarrow> media_asset \<Rightarrow> object \<Rightarrow> source \<Rightarrow> media_variant list \<Rightarrow> media_db \<Rightarrow>
     media_db \<times> string option" where
  "render_rows M L late now a info src [] m = (m, None)"
| "render_rows M L late now a info src (r # rs) m =
     (if late (mv_Preset r) then (m, Some ''context deadline exceeded'')
      else if mv_Preset r = MediaPresetOriginal
      then render_rows M L late now a info src rs
             (finish_row M now a (mv_Preset r) (originalOutcome a info (rs_W (so_Img src)) (rs_H (so_Img src))) m)
      else case map_of MediaPresets (mv_Preset r) of
        None \<Rightarrow> render_rows M L late now a info src rs m
      | Some maxWidth \<Rightarrow>
          if rs_W (so_Img src) \<le> maxWidth
          then render_rows M L late now a info src rs (finish_row M now a (mv_Preset r) (OutSkipped ''source_smaller'') m)
          else (case render_variant L src maxWidth of
              Inl e \<Rightarrow> (m, Some (''render '' @ ma_StorageKey a @ ''/'' @ mv_Preset r @ '': '' @ e))
            | Inr out \<Rightarrow>
                let key = variantKey (ma_StorageKey a) (mv_Preset r) (rd_Ext out) in
                (case Put_object M key (rd_Data out) (rd_ContentType out) m of
                   None \<Rightarrow> (m, Some (''put '' @ key))
                 | Some m \<Rightarrow>
                     render_rows M L late now a info src rs (finish_row M now a (mv_Preset r)
                       (OutDone key (rd_ContentType out) (length (rd_Data out)) (rd_Width out) (rd_Height out)) m))))"

definition renderAll ::
    "media_env \<Rightarrow> image_lib \<Rightarrow> (string \<Rightarrow> bool) \<Rightarrow> int \<Rightarrow> media_asset \<Rightarrow> media_variant list \<Rightarrow> media_db \<Rightarrow> media_db \<times> string option" where
  "renderAll M L late now a rows m =
     (if \<not> decodable (ma_ContentType a) then (finish_all M now a (\<lambda>_. OutSkipped ''unsupported_format'') rows m, None)
      else case fetch M (ma_StorageKey a) m of
        Inl e \<Rightarrow> (m, Some (''fetch '' @ ma_StorageKey a @ '': '' @ e))
      | Inr info \<Rightarrow>
          (case probeSource L (ob_Bytes info) (ma_ContentType a) of
             UnsupportedFormat \<Rightarrow> (finish_all M now a (\<lambda>_. OutSkipped ''unsupported_format'') rows m, None)
           | ProbedTooLarge p \<Rightarrow>
               (finish_all M now a (\<lambda>r. if mv_Preset r = MediaPresetOriginal then originalOutcome a info (pb_Width p) (pb_Height p)
                  else OutSkipped ''too_large'') rows m, None)
           | BadHeader e \<Rightarrow> (finish_all M now a (\<lambda>r. failure r e now True) rows m, None)
           | Probed p \<Rightarrow>
               (case decodeSource L (ob_Bytes info) p of
                  Inl e \<Rightarrow> (m, Some (''decode '' @ ma_StorageKey a @ '': '' @ e))
                | Inr src \<Rightarrow> render_rows M L late now a info src rows m)))"

text \<open>One asset is one transaction; when it is rolled back, the bucket is not.\<close>

definition process ::
    "media_env \<Rightarrow> image_lib \<Rightarrow> (string \<Rightarrow> bool) \<Rightarrow> int \<Rightarrow> uuid \<times> string \<Rightarrow> media_db \<Rightarrow> media_db \<times> string option" where
  "process M L late now ref m =
     (case ref of (i, tenant) \<Rightarrow>
        let rows = ClaimPendingMediaVariants tenant i now m in
        if rows = [] then (m, None)
        else case GetMediaAsset_repo tenant i (md_DB m) of
          None \<Rightarrow> (m, None)
        | Some a \<Rightarrow>
            (case renderAll M L late now a rows m of
               (m', None) \<Rightarrow> (m', None)
             | (m', Some e) \<Rightarrow> (m\<lparr>md_Bucket := md_Bucket m'\<rparr>, Some e)))"

definition markRetry :: "int \<Rightarrow> uuid \<times> string \<Rightarrow> string \<Rightarrow> media_db \<Rightarrow> media_db" where
  "markRetry now ref cause m =
     (case ref of (i, tenant) \<Rightarrow>
        fold (\<lambda>r m. fst (FinishMediaVariant now tenant i (mv_Preset r) (failure r cause now False) m))
          (ClaimPendingMediaVariants tenant i now m) m)"

text \<open>
  What happens to the references of a batch: the time of the scan, and for each reference the time at
  which a failure is recorded and the rows at which the time is up.
\<close>

record batch_env =
  be_Now :: int
  be_Mark :: "uuid \<Rightarrow> int"
  be_Late :: "uuid \<Rightarrow> string \<Rightarrow> bool"

definition work_one :: "media_env \<Rightarrow> image_lib \<Rightarrow> batch_env \<Rightarrow> uuid \<times> string \<Rightarrow> media_db \<Rightarrow> media_db" where
  "work_one M L B ref m =
     (case process M L (be_Late B (fst ref)) (be_Now B) ref m of
        (m', None) \<Rightarrow> m'
      | (m', Some e) \<Rightarrow> markRetry (be_Mark B (fst ref)) ref e m')"

fun tick_batches :: "media_env \<Rightarrow> image_lib \<Rightarrow> int \<Rightarrow> (nat \<Rightarrow> batch_env) \<Rightarrow> nat \<Rightarrow> nat \<Rightarrow> media_db \<Rightarrow> media_db" where
  "tick_batches M L batch Bs k 0 m = m"
| "tick_batches M L batch Bs k (Suc left') m =
     (let refs = ListPendingMediaVariantAssets (be_Now (Bs k)) batch m; m' = fold (work_one M L (Bs k)) refs m in
      if int (length refs) < batch then m' else tick_batches M L batch Bs (Suc k) left' m')"

definition Tick_media :: "media_env \<Rightarrow> image_lib \<Rightarrow> int \<Rightarrow> (nat \<Rightarrow> batch_env) \<Rightarrow> media_db \<Rightarrow> media_db" where
  "Tick_media M L batch Bs m = tick_batches M L batch Bs 0 maxBatchesPerTick m"

end
