(* ===== verification/Media_Images.thy ===== *)
theory Media_Images
  imports Media_Worker
begin

text \<open>
  What the image code of the worker promises: the reader of the orientation tag never reads past a
  byte it has, an image is turned pixel by pixel onto its target, and a rendition keeps its bound.
\<close>

section \<open>Reads within bounds\<close>

lemma bytes_at_Some: "i + n \<le> length b \<Longrightarrow> \<exists>bs. bytes_at b i n = Some bs"
  by (simp add: bytes_at_def)

lemma read_uint_Some: "i + n \<le> length b \<Longrightarrow> \<exists>v. read_uint big n b i = Some v"
  by (simp add: read_uint_def bytes_at_def)

definition orientation_value :: "nat option \<Rightarrow> bool" where
  "orientation_value r \<longleftrightarrow> (case r of None \<Rightarrow> False | Some v \<Rightarrow> 1 \<le> v \<and> v \<le> 8)"

lemma orientation_value_simps [simp]:
  "\<not> orientation_value None" "orientation_value (Some v) \<longleftrightarrow> 1 \<le> v \<and> v \<le> 8"
  by (simp_all add: orientation_value_def)

lemma orientation_bind:
  assumes "i + n \<le> length b" and "\<And>v. orientation_value (f v)"
  shows "orientation_value (Option.bind (read_uint big n b i) f)"
  using read_uint_Some [OF assms(1), of big] assms(2) by auto

lemma exif_entries_value: "orientation_value (exif_entries big t ifd k n)"
proof (induction n arbitrary: k)
  case 0
  then show ?case by simp
next
  case (Suc n)
  show ?case
    by (simp only: exif_entries.simps(2) Let_def) (auto intro!: orientation_bind Suc.IH)
qed

lemma orientationFromExif_value: "orientation_value (orientationFromExif p)"
  by (simp only: orientationFromExif_def Let_def) (auto intro!: orientation_bind exif_entries_value)

lemma jpeg_segments_value: "orientation_value (jpeg_segments b i)"
proof (induction b i rule: jpeg_segments.induct)
  case (1 b i)
  show ?case
  proof (cases "i + 4 \<le> length b")
    case False
    then show ?thesis by (subst jpeg_segments.simps) simp
  next
    case True
    obtain x where x: "byte_at b i = Some x" using True by (simp add: byte_at_def)
    obtain y where y: "byte_at b (i + 1) = Some y" using True by (simp add: byte_at_def)
    obtain n where n: "read_uint True 2 b (i + 2) = Some n" using True read_uint_Some [of "i + 2" 2 b True] by auto
    have s: "orientation_value (Option.bind (slice b (i + 4) (i + 2 + n)) orientationFromExif)"
      if "\<not> n < 2" "\<not> length b < i + 2 + n"
      using that orientationFromExif_value by (simp add: slice_def)
    show ?thesis
      by (subst jpeg_segments.simps) (use True x y n s 1 in auto)
  qed
qed

text \<open>
  C0: Reading the orientation of a JPEG ends with a value from 1 to 8 for every input: no crafted
  header makes it read a byte the file does not have, where the program would panic.
\<close>

theorem jpeg_orientation_never_panics:
  shows "\<exists>v. jpegOrientation b = Some v \<and> 1 \<le> v \<and> v \<le> 8"
proof -
  have "orientation_value (jpegOrientation b)"
    using jpeg_segments_value [of b 2] by (auto simp: jpegOrientation_def byte_at_def)
  then show ?thesis by (auto simp: orientation_value_def split: option.splits)
qed

section \<open>Turning\<close>

lemma fold_update_length:
  "length (fold (\<lambda>q dst. dst[f q := g q]) qs d) = length d"
  by (induction qs arbitrary: d) simp_all

lemma fold_update_other:
  "i \<notin> f ` set qs \<Longrightarrow> fold (\<lambda>q dst. dst[f q := g q]) qs d ! i = d ! i"
  by (induction qs arbitrary: d) simp_all

lemma fold_update_nth:
  assumes "inj_on f (set qs)" and "q \<in> set qs" and "distinct qs" and "f q < length d"
  shows "fold (\<lambda>q dst. dst[f q := g q]) qs d ! (f q) = g q"
  using assms
proof (induction qs arbitrary: d)
  case Nil
  then show ?case by simp
next
  case (Cons p qs)
  show ?case
  proof (cases "q = p")
    case True
    then have "f q \<notin> f ` set qs" using Cons.prems by auto
    then show ?thesis using True Cons.prems(4) by (simp add: fold_update_other)
  next
    case False
    then show ?thesis using Cons by simp
  qed
qed

lemma pixel_order_set: "(x, y) \<in> set (pixel_order w h) \<longleftrightarrow> x < w \<and> y < h"
  by (auto simp: pixel_order_def image_iff)

lemma pixel_order_distinct: "distinct (pixel_order w h)"
proof (induction h)
  case (Suc h)
  have "pixel_order w (Suc h) = pixel_order w h @ map (\<lambda>x. (x, h)) [0..<w]" by (simp add: pixel_order_def)
  then show ?case using Suc by (auto simp: distinct_map inj_on_def pixel_order_set)
qed (simp add: pixel_order_def)

lemma row_index_inject:
  fixes a b c d n :: nat
  assumes "a * n + b = c * n + d" and "b < n" and "d < n"
  shows "a = c \<and> b = d"
proof -
  have "(a * n + b) div n = a" "(a * n + b) mod n = b" "(c * n + d) div n = c" "(c * n + d) mod n = d"
    using assms(2,3) by (simp_all add: div_mult_self3)
  then show ?thesis using assms(1) by metis
qed

definition turned_width :: "nat \<Rightarrow> nat \<Rightarrow> nat \<Rightarrow> nat" where
  "turned_width o' w h = (if 5 \<le> o' then h else w)"

lemma turned_in_range:
  assumes "x < w" and "y < h" and "turned_to o' w h x y = (dx, dy)" and "2 \<le> o'" and "o' \<le> 8"
  shows "dx < turned_width o' w h \<and> dy < turned_width o' h w"
  using assms by (auto simp: turned_to_def turned_width_def split: if_splits)

lemma turned_inject:
  assumes "x < w" and "y < h" and "x' < w" and "y' < h" and "turned_to o' w h x y = turned_to o' w h x' y'"
  shows "x = x' \<and> y = y'"
  using assms by (auto simp: turned_to_def split: if_splits)

text \<open>The turn that undoes a turn: 6 and 8 undo each other, the others themselves.\<close>

lemma turned_onto:
  assumes "dx < turned_width o' w h" and "dy < turned_width o' h w" and "2 \<le> o'" and "o' \<le> 8"
  shows "\<exists>x y. x < w \<and> y < h \<and> turned_to o' w h x y = (dx, dy)"
proof -
  let ?b = "if o' = 6 then 8 else if o' = 8 then 6 else o'"
  let ?q = "turned_to ?b (turned_width o' w h) (turned_width o' h w) dx dy"
  have "fst ?q < w \<and> snd ?q < h \<and> turned_to o' w h (fst ?q) (snd ?q) = (dx, dy)"
    using assms by (auto simp: turned_to_def turned_width_def split: if_splits)
  then show ?thesis by blast
qed

text \<open>
  C0: An image is turned onto its target: every pixel of the source lands on a pixel within the new
  bounds and is copied there unchanged, no two land on the same one, and no pixel of the target is
  left over; an orientation outside 2 to 8 leaves the image as it is.
\<close>

theorem orient_places_every_pixel_once:
  assumes "2 \<le> o'" and "o' \<le> 8" and "R = orient r o'"
  shows "length (rs_Pix R) = rs_W R * rs_H R \<and>
    (\<forall>x y. x < rs_W r \<and> y < rs_H r \<longrightarrow> (\<exists>dx dy. turned_to o' (rs_W r) (rs_H r) x y = (dx, dy) \<and>
       dx < rs_W R \<and> dy < rs_H R \<and> rs_Pix R ! (dy * rs_W R + dx) = rs_Pix r ! (y * rs_W r + x))) \<and>
    (\<forall>dx dy. dx < rs_W R \<and> dy < rs_H R \<longrightarrow>
       (\<exists>!q. fst q < rs_W r \<and> snd q < rs_H r \<and> turned_to o' (rs_W r) (rs_H r) (fst q) (snd q) = (dx, dy)))"
proof -
  define w h where "w = rs_W r" and "h = rs_H r"
  define f where "f = (\<lambda>q. case turned_to o' w h (fst q) (snd q) of (dx, dy) \<Rightarrow> dy * turned_width o' w h + dx)"
  define g where "g = (\<lambda>q. rs_Pix r ! (snd q * w + fst q))"
  have dims: "rs_W R = turned_width o' w h" "rs_H R = turned_width o' h w"
    using assms by (simp_all add: orient_def Let_def turned_width_def w_def h_def)
  have loop: "(\<lambda>(x, y) dst. case turned_to o' w h x y of (dx, dy) \<Rightarrow> dst[dy * turned_width o' w h + dx := rs_Pix r ! (y * w + x)]) =
      (\<lambda>q dst. dst[f q := g q])"
    by (simp add: fun_eq_iff f_def g_def split_beta)
  have pix: "rs_Pix R = fold (\<lambda>q dst. dst[f q := g q]) (pixel_order w h) (replicate (turned_width o' w h * turned_width o' h w) 0)"
    unfolding loop [symmetric] using assms by (simp add: orient_def Let_def turned_width_def w_def h_def)
  have inj: "inj_on f (set (pixel_order w h))"
  proof (rule inj_onI)
    fix p q assume p: "p \<in> set (pixel_order w h)" and q: "q \<in> set (pixel_order w h)" and same: "f p = f q"
    obtain a b where ab: "turned_to o' w h (fst p) (snd p) = (a, b)" by fastforce
    obtain c d where cd: "turned_to o' w h (fst q) (snd q) = (c, d)" by fastforce
    have pr: "fst p < w" "snd p < h" "fst q < w" "snd q < h" using p q pixel_order_set [of "fst p" "snd p"] pixel_order_set [of "fst q" "snd q"] by simp_all
    have "b = d \<and> a = c"
      using same turned_in_range [OF pr(1,2) ab assms(1,2)] turned_in_range [OF pr(3,4) cd assms(1,2)]
      by (intro row_index_inject [of b "turned_width o' w h" a d c]) (simp_all add: f_def ab cd)
    then show "p = q" using turned_inject [OF pr, of o'] ab cd by (simp add: prod_eq_iff)
  qed
  have place: "\<exists>dx dy. turned_to o' w h x y = (dx, dy) \<and> dx < rs_W R \<and> dy < rs_H R \<and> rs_Pix R ! (dy * rs_W R + dx) = rs_Pix r ! (y * w + x)"
    if "x < w" "y < h" for x y
  proof -
    obtain dx dy where d: "turned_to o' w h x y = (dx, dy)" by fastforce
    have range: "dx < turned_width o' w h" "dy < turned_width o' h w" using turned_in_range [OF that d assms(1,2)] by simp_all
    then have "Suc dy * turned_width o' w h \<le> turned_width o' h w * turned_width o' w h" by (intro mult_le_mono1) simp
    then have "f (x, y) < turned_width o' w h * turned_width o' h w" using range d by (simp add: f_def mult.commute)
    then have "rs_Pix R ! f (x, y) = g (x, y)"
      unfolding pix using that by (intro fold_update_nth [OF inj]) (simp_all add: pixel_order_set pixel_order_distinct)
    then show ?thesis using d range by (simp add: f_def g_def dims)
  qed
  have onto: "\<exists>!q. fst q < w \<and> snd q < h \<and> turned_to o' w h (fst q) (snd q) = (dx, dy)" if "dx < rs_W R" "dy < rs_H R" for dx dy
  proof -
    note range = that [unfolded dims]
    obtain x y where xy: "x < w" "y < h" "turned_to o' w h x y = (dx, dy)"
      using turned_onto [OF range assms(1,2)] by blast
    show ?thesis
    proof (rule ex1I [of _ "(x, y)"])
      fix q assume "fst q < w \<and> snd q < h \<and> turned_to o' w h (fst q) (snd q) = (dx, dy)"
      then show "q = (x, y)" using turned_inject [of "fst q" w "snd q" h x y o'] xy by (simp add: prod_eq_iff)
    qed (use xy in simp)
  qed
  have "length (rs_Pix R) = rs_W R * rs_H R" unfolding pix by (simp add: fold_update_length dims)
  then show ?thesis using place onto unfolding w_def h_def by blast
qed

theorem orient_places_every_pixel_once_witness:
  "rs_Pix (orient \<lparr>rs_W = 3, rs_H = 2, rs_Pix = [1, 2, 3, 4, 5, 6]\<rparr> 6) = [4, 1, 5, 2, 6, 3] \<and>
   length (rs_Pix (orient \<lparr>rs_W = 3, rs_H = 2, rs_Pix = [1, 2, 3, 4, 5, 6]\<rparr> 6)) = 6"
proof -
  have "rs_W (orient \<lparr>rs_W = 3, rs_H = 2, rs_Pix = [1, 2, 3, 4, 5, 6]\<rparr> 6) = 2" "rs_H (orient \<lparr>rs_W = 3, rs_H = 2, rs_Pix = [1, 2, 3, 4, 5, 6]\<rparr> 6) = 3"
    by code_simp+
  then have "length (rs_Pix (orient \<lparr>rs_W = 3, rs_H = 2, rs_Pix = [1, 2, 3, 4, 5, 6]\<rparr> 6)) = 6"
    using orient_places_every_pixel_once [of 6 _ "\<lparr>rs_W = 3, rs_H = 2, rs_Pix = [1, 2, 3, 4, 5, 6]\<rparr>"] by simp
  moreover have "rs_Pix (orient \<lparr>rs_W = 3, rs_H = 2, rs_Pix = [1, 2, 3, 4, 5, 6]\<rparr> 6) = [4, 1, 5, 2, 6, 3]" by code_simp
  ultimately show ?thesis by blast
qed

section \<open>The size of a rendition\<close>

lemma fitWidth_bound: "fst (fitWidth w h maxWidth) \<le> maxWidth"
  by (simp add: fitWidth_def Let_def)

end
