(* ===== verification/Media_Runs.thy ===== *)
theory Media_Runs
  imports Media_Images
begin

text \<open>
  Runs of the media calls at the grain of their looks and writes, with the worker and whatever
  clients and the provider do to the bucket in between; what every run keeps of the rows, and what a
  signed address can therefore be for.
\<close>

section \<open>Keys\<close>

text \<open>The random suffix is hexadecimal, an identifier has no dot and no slash.\<close>

definition plain_id :: "uuid \<Rightarrow> bool" where
  "plain_id i \<longleftrightarrow> CHR ''/'' \<notin> set i \<and> CHR ''.'' \<notin> set i"

definition plain_suffix :: "string \<Rightarrow> bool" where
  "plain_suffix s \<longleftrightarrow> CHR ''/'' \<notin> set s \<and> CHR ''.'' \<notin> set s \<and> CHR ''-'' \<notin> set s"

definition renditions_of :: "string \<Rightarrow> string set" where
  "renditions_of key = {variantKey key p e | p e. p \<in> set MediaPresetNames \<and> e \<in> {''jpg'', ''png''}}"

definition key_family :: "string \<Rightarrow> string set" where
  "key_family key = insert key (renditions_of key)"

text \<open>The identifier inside a key: after the last slash, before the first dot, before the last dash.\<close>

definition after_last :: "char \<Rightarrow> string \<Rightarrow> string" where
  "after_last c s = rev (takeWhile (\<lambda>x. x \<noteq> c) (rev s))"

definition before_last :: "char \<Rightarrow> string \<Rightarrow> string" where
  "before_last c s = rev (tl (dropWhile (\<lambda>x. x \<noteq> c) (rev s)))"

definition id_in_key :: "string \<Rightarrow> uuid" where
  "id_in_key key = before_last (CHR ''-'') (until_char (CHR ''.'') (after_last (CHR ''/'') key))"

lemma after_last_append: "c \<notin> set t \<Longrightarrow> after_last c (s @ c # t) = t"
  unfolding after_last_def by (simp, subst takeWhile_append2) auto

lemma before_last_append: "c \<notin> set t \<Longrightarrow> before_last c (s @ c # t) = s"
  unfolding before_last_def by (simp, subst dropWhile_append2) auto

lemma until_char_append: "c \<notin> set s \<Longrightarrow> until_char c (s @ c # t) = s"
  unfolding until_char_def by (subst takeWhile_append2) auto

lemma until_char_absent: "c \<notin> set s \<Longrightarrow> until_char c s = s"
  by (auto simp: until_char_def takeWhile_eq_all_conv)

lemma id_in_storageKey:
  assumes "plain_id i" and "plain_suffix s"
  shows "id_in_key (storageKey tenant i s) = i"
proof -
  have "after_last (CHR ''/'') (tenant @ CHR ''/'' # (i @ CHR ''-'' # s)) = i @ CHR ''-'' # s"
    using assms by (intro after_last_append) (auto simp: plain_id_def plain_suffix_def)
  moreover have "until_char (CHR ''.'') (i @ CHR ''-'' # s) = i @ CHR ''-'' # s"
    using assms by (intro until_char_absent) (auto simp: plain_id_def plain_suffix_def)
  ultimately show ?thesis
    using assms by (simp add: id_in_key_def storageKey_def before_last_append plain_suffix_def)
qed

lemma id_in_rendition:
  assumes "plain_id i" and "plain_suffix s" and "CHR ''/'' \<notin> set p" and "CHR ''/'' \<notin> set e"
  shows "id_in_key (variantKey (storageKey tenant i s) p e) = i"
proof -
  have "after_last (CHR ''/'') (tenant @ CHR ''/'' # ((i @ CHR ''-'' # s) @ CHR ''.'' # (p @ CHR ''.'' # e))) =
      (i @ CHR ''-'' # s) @ CHR ''.'' # (p @ CHR ''.'' # e)"
    using assms by (intro after_last_append) (auto simp: plain_id_def plain_suffix_def)
  moreover have "until_char (CHR ''.'') ((i @ CHR ''-'' # s) @ CHR ''.'' # (p @ CHR ''.'' # e)) = i @ CHR ''-'' # s"
    using assms by (intro until_char_append) (auto simp: plain_id_def plain_suffix_def)
  ultimately show ?thesis
    using assms by (simp add: id_in_key_def storageKey_def variantKey_def before_last_append plain_suffix_def)
qed

lemma id_in_family:
  assumes "plain_id i" and "plain_suffix s" and "k \<in> key_family (storageKey tenant i s)"
  shows "id_in_key k = i"
proof -
  have "CHR ''/'' \<notin> set p" if "p \<in> set MediaPresetNames" for p
    using that by (auto simp: MediaPresetNames_def MediaPresets_def)
  then show ?thesis
    using assms id_in_storageKey id_in_rendition by (auto simp: key_family_def renditions_of_def)
qed

section \<open>Rows that are sound\<close>

definition asset_ok :: "media_asset \<Rightarrow> bool" where
  "asset_ok a \<longleftrightarrow> (\<exists>s. plain_id (ma_ID a) \<and> plain_suffix s \<and> ma_StorageKey a = storageKey (ma_TenantID a) (ma_ID a) s)"

text \<open>A rendition that is done has a key of its asset's family and keeps the width of its preset.\<close>

definition row_fits :: "media_asset \<Rightarrow> media_variant \<Rightarrow> bool" where
  "row_fits a v \<longleftrightarrow> ma_ID a = mv_AssetID v \<and> ma_TenantID a = mv_TenantID v \<and> IsUploaded a \<and>
     (mv_Preset v = MediaPresetOriginal \<and> mv_StorageKey v = Some (ma_StorageKey a) \<or>
      mv_Preset v \<in> set MediaPresetNames \<and>
        (case mv_StorageKey v of None \<Rightarrow> mv_State v \<noteq> VariantDone | Some k \<Rightarrow> k \<in> renditions_of (ma_StorageKey a)) \<and>
        (mv_State v = VariantDone \<longrightarrow> mv_WidthPx v \<le> the (map_of MediaPresets (mv_Preset v)))) \<and>
     (if mv_State v = VariantFailed then 1 \<le> mv_Attempts v \<and> mv_Attempts v \<le> MaxMediaVariantAttempts
      else mv_Attempts v < MaxMediaVariantAttempts)"

definition row_id :: "media_variant \<Rightarrow> uuid \<times> string" where
  "row_id v = (mv_AssetID v, mv_Preset v)"

definition media_ok :: "media_asset list \<Rightarrow> media_variant list \<Rightarrow> bool" where
  "media_ok as vs \<longleftrightarrow> distinct (map ma_ID as) \<and> (\<forall>a \<in> set as. asset_ok a) \<and>
     distinct (map row_id vs) \<and> (\<forall>v \<in> set vs. \<exists>a \<in> set as. row_fits a v)"

lemma original_is_no_preset: "MediaPresetOriginal \<notin> set MediaPresetNames"
  by (simp add: MediaPresetOriginal_def MediaPresetNames_def MediaPresets_def)

text \<open>Rows are rewritten in place, or go with their asset.\<close>

lemma media_ok_map:
  assumes "media_ok as vs"
    and "\<And>v a. v \<in> set vs \<Longrightarrow> a \<in> set as \<Longrightarrow> row_fits a v \<Longrightarrow> row_fits a (f v) \<and> mv_Preset (f v) = mv_Preset v"
  shows "media_ok as (map f vs)"
proof -
  have "row_id (f v) = row_id v" if "v \<in> set vs" for v
  proof -
    obtain a where "a \<in> set as" "row_fits a v" using assms(1) \<open>v \<in> set vs\<close> unfolding media_ok_def by blast
    with assms(2) [OF that this] show ?thesis by (auto simp: row_id_def row_fits_def)
  qed
  then have "map row_id (map f vs) = map row_id vs" by simp
  then have "distinct (map row_id (map f vs))" using assms(1) unfolding media_ok_def by metis
  then show ?thesis using assms by (auto simp: media_ok_def) blast
qed

lemma media_ok_drop:
  assumes "media_ok as vs"
  shows "media_ok (filter (\<lambda>a. ma_ID a \<noteq> i) as) (filter (\<lambda>v. mv_AssetID v \<noteq> i) vs)"
proof -
  have "\<exists>a \<in> set (filter (\<lambda>a. ma_ID a \<noteq> i) as). row_fits a v" if v: "v \<in> set vs" "mv_AssetID v \<noteq> i" for v
  proof -
    obtain a where "a \<in> set as" "row_fits a v" using assms v(1) unfolding media_ok_def by blast
    then show ?thesis using v(2) by (intro bexI [of _ a]) (auto simp: row_fits_def)
  qed
  then show ?thesis using assms by (simp add: media_ok_def distinct_map_filter)
qed

lemma row_fits_same:
  assumes "row_fits a v" and "ma_ID b = ma_ID a" and "ma_TenantID b = ma_TenantID a" and "ma_StorageKey b = ma_StorageKey a"
    and "IsUploaded a \<Longrightarrow> IsUploaded b"
  shows "row_fits b v"
  using assms(1,5) unfolding row_fits_def assms(2-4) by blast

text \<open>An asset is replaced by one with the same identity and key that is uploaded when it was.\<close>

lemma media_ok_assets:
  assumes "media_ok as vs"
    and "\<And>a. a \<in> set as \<Longrightarrow> ma_ID (f a) = ma_ID a \<and> ma_TenantID (f a) = ma_TenantID a \<and> ma_StorageKey (f a) = ma_StorageKey a \<and>
      (IsUploaded a \<longrightarrow> IsUploaded (f a))"
  shows "media_ok (map f as) vs"
proof -
  have "map ma_ID (map f as) = map ma_ID as" using assms(2) by simp
  then have "distinct (map ma_ID (map f as))" using assms(1) unfolding media_ok_def by metis
  moreover have "row_fits (f a) v" if "a \<in> set as" "row_fits a v" for a v
    using assms(2) [OF that(1)] row_fits_same [OF that(2), of "f a"] by blast
  moreover have "asset_ok (f a)" if "a \<in> set as" for a
    using assms(1) assms(2) [OF that] that unfolding media_ok_def asset_ok_def by metis
  ultimately show ?thesis using assms(1) unfolding media_ok_def set_map bex_simps(7) ball_simps(9) by blast
qed

section \<open>Putting rows on the queue\<close>

lemma media_ok_enqueue_one:
  assumes ok: "media_ok as vs" and a: "a \<in> set as" "ma_ID a = i" "ma_TenantID a = tenant" "ma_StorageKey a = key" "IsUploaded a"
    and p: "p \<in> set (MediaPresetOriginal # MediaPresetNames)"
  shows "media_ok as (enqueue_one now tenant i key p vs)"
proof (cases "list_ex (is_variant i p) vs")
  case True
  let ?k = "if p = MediaPresetOriginal then Some key else None"
  have "media_ok as (map (\<lambda>v. if is_variant i p v then reset_variant now ?k v else v) vs)"
  proof (rule media_ok_map [OF ok])
    fix v b assume v: "v \<in> set vs" and b: "b \<in> set as" and fits: "row_fits b v"
    show "row_fits b (if is_variant i p v then reset_variant now ?k v else v) \<and>
        mv_Preset (if is_variant i p v then reset_variant now ?k v else v) = mv_Preset v"
    proof (cases "is_variant i p v")
      case True
      then show ?thesis
        using fits by (auto simp: row_fits_def reset_variant_def is_variant_def MaxMediaVariantAttempts_def original_is_no_preset
            split: option.splits)
    qed (simp add: fits)
  qed
  then show ?thesis using True by (simp add: enqueue_one_def Let_def)
next
  case False
  then have "(i, p) \<notin> row_id ` set vs" by (auto simp: list_ex_iff is_variant_def row_id_def)
  then show ?thesis
    using False ok a p original_is_no_preset
    by (auto simp: enqueue_one_def Let_def media_ok_def row_id_def row_fits_def MaxMediaVariantAttempts_def)
qed

lemma media_ok_enqueue:
  assumes "media_ok as vs" and "a \<in> set as" "ma_ID a = i" "ma_TenantID a = tenant" "ma_StorageKey a = key" "IsUploaded a"
    and "set ps \<subseteq> set (MediaPresetOriginal # MediaPresetNames)"
  shows "media_ok as (fold (enqueue_one now tenant i key) ps vs)"
  using assms(1,7)
proof (induction ps arbitrary: vs)
  case (Cons p ps)
  then have "media_ok as (enqueue_one now tenant i key p vs)" by (intro media_ok_enqueue_one [OF _ assms(2-6)]) simp_all
  then show ?case using Cons by simp
qed simp

section \<open>The worker's transaction\<close>

text \<open>What may be recorded for a row that is pending.\<close>

definition outcome_fits :: "media_asset \<Rightarrow> media_variant \<Rightarrow> outcome \<Rightarrow> bool" where
  "outcome_fits a v out \<longleftrightarrow>
     (case out of
        OutDone key ct n w h \<Rightarrow>
          (if mv_Preset v = MediaPresetOriginal then key = ma_StorageKey a
           else key \<in> renditions_of (ma_StorageKey a) \<and> w \<le> the (map_of MediaPresets (mv_Preset v)))
      | OutSkipped why \<Rightarrow> True
      | OutRetry msg t \<Rightarrow> mv_Attempts v + 1 < MaxMediaVariantAttempts
      | OutFailed msg \<Rightarrow> True)"

lemma finished_fits:
  assumes "row_fits a v" and "mv_State v = VariantPending" and "outcome_fits a v out"
  shows "row_fits a (finished now out v) \<and> mv_Preset (finished now out v) = mv_Preset v"
  using assms original_is_no_preset
  by (cases out) (auto simp: row_fits_def finished_def outcome_fits_def MaxMediaVariantAttempts_def split: option.splits if_splits)

text \<open>A row is found again by its asset and preset.\<close>

lemma row_unique:
  assumes "media_ok as vs" and "r \<in> set vs" and "v \<in> set vs" and "mv_AssetID v = mv_AssetID r" and "mv_Preset v = mv_Preset r"
  shows "v = r"
proof -
  have "inj_on row_id (set vs)" using assms(1) by (simp add: media_ok_def distinct_map)
  then show ?thesis by (rule inj_onD) (simp_all add: row_id_def assms)
qed

lemma asset_unique:
  assumes "media_ok as vs" and "a \<in> set as" and "b \<in> set as" and "ma_ID a = ma_ID b"
  shows "a = b"
proof -
  have "inj_on ma_ID (set as)" using assms(1) by (simp add: media_ok_def distinct_map)
  then show ?thesis by (rule inj_onD) (simp_all add: assms)
qed

lemma media_ok_finish:
  assumes ok: "media_ok as vs" and r: "r \<in> set vs" "mv_State r = VariantPending" and a: "a \<in> set as" "ma_ID a = mv_AssetID r"
    and out: "outcome_fits a r out" and row: "i = mv_AssetID r" "p = mv_Preset r"
  shows "media_ok as (map (\<lambda>v. if is_row tenant i p v then finished now out v else v) vs)"
proof (rule media_ok_map [OF ok])
  fix v b assume v: "v \<in> set vs" and b: "b \<in> set as" and fits: "row_fits b v"
  show "row_fits b (if is_row tenant i p v then finished now out v else v) \<and>
      mv_Preset (if is_row tenant i p v then finished now out v else v) = mv_Preset v"
  proof (cases "is_row tenant i p v")
    case True
    then have "v = r" using row by (intro row_unique [OF ok r(1) v]) (simp_all add: is_row_def)
    moreover from this have "b = a" using fits a by (intro asset_unique [OF ok b a(1)]) (simp add: row_fits_def)
    ultimately show ?thesis using True finished_fits [of a r out now] fits r(2) out by simp
  qed (simp add: fits)
qed

definition sound :: "media_db \<Rightarrow> bool" where
  "sound m \<longleftrightarrow> media_ok (db_Assets (md_DB m)) (md_Variants m)"

text \<open>The rows a transaction has claimed and not yet finished.\<close>

definition claimed :: "string \<Rightarrow> uuid \<Rightarrow> media_variant list \<Rightarrow> media_db \<Rightarrow> bool" where
  "claimed tenant i rows m \<longleftrightarrow> distinct (map mv_Preset rows) \<and>
     (\<forall>r \<in> set rows. r \<in> set (md_Variants m) \<and> mv_State r = VariantPending \<and> mv_AssetID r = i \<and> mv_TenantID r = tenant)"

lemma claim_claimed:
  assumes "sound m"
  shows "claimed tenant i (ClaimPendingMediaVariants tenant i now m) m"
proof -
  let ?own = "filter (\<lambda>v. mv_TenantID v = tenant \<and> mv_AssetID v = i) (md_Variants m)"
  have "distinct (map row_id ?own)" using assms by (simp add: sound_def media_ok_def distinct_map_filter)
  then have d: "distinct ?own" "inj_on row_id (set ?own)" unfolding distinct_map by blast+
  have "inj_on mv_Preset (set ?own)"
  proof (rule inj_onI)
    fix x y assume "x \<in> set ?own" and "y \<in> set ?own" and "mv_Preset x = mv_Preset y"
    then show "x = y" by (intro inj_onD [OF d(2)]) (simp_all add: row_id_def)
  qed
  then have "distinct (map mv_Preset (sort_key (\<lambda>v. preset_rank (mv_Preset v)) ?own))"
    using d(1) unfolding distinct_map set_sort distinct_sort by blast
  then have "distinct (map mv_Preset (ClaimPendingMediaVariants tenant i now m))"
    unfolding ClaimPendingMediaVariants_def ListMediaVariants_def by (rule distinct_map_filter)
  moreover have "r \<in> set (md_Variants m) \<and> mv_State r = VariantPending \<and> mv_AssetID r = i \<and> mv_TenantID r = tenant"
    if "r \<in> set (ClaimPendingMediaVariants tenant i now m)" for r
    using that by (simp add: ClaimPendingMediaVariants_def ListMediaVariants_def due_variant_def)
  ultimately show ?thesis unfolding claimed_def by blast
qed

lemma finish_keeps:
  assumes "sound m" and "claimed tenant i (r # rs) m" and "a \<in> set (db_Assets (md_DB m))" and "ma_ID a = i"
    and "outcome_fits a r out" and "m' = fst (FinishMediaVariant now tenant i (mv_Preset r) out m)"
  shows "sound m' \<and> claimed tenant i rs m' \<and> md_DB m' = md_DB m \<and> snd (FinishMediaVariant now tenant i (mv_Preset r) out m)"
proof -
  have r: "r \<in> set (md_Variants m)" "mv_State r = VariantPending" "mv_AssetID r = i" "mv_TenantID r = tenant"
    using assms(2) by (simp_all add: claimed_def)
  have m': "m' = m\<lparr>md_Variants := map (\<lambda>v. if is_row tenant i (mv_Preset r) v then finished now out v else v) (md_Variants m)\<rparr>"
    by (simp add: assms(6) FinishMediaVariant_def)
  have "media_ok (db_Assets (md_DB m)) (map (\<lambda>v. if is_row tenant i (mv_Preset r) v then finished now out v else v) (md_Variants m))"
    by (rule media_ok_finish [OF _ r(1,2) assms(3) _ assms(5)]) (use assms(1,4) r(3) in \<open>simp_all add: sound_def\<close>)
  then have "sound m'" by (simp add: sound_def m')
  moreover have "q \<in> set (md_Variants m')" if "q \<in> set rs" for q
  proof -
    have "mv_Preset r \<notin> mv_Preset ` set rs" using assms(2) by (simp add: claimed_def)
    then have "mv_Preset q \<noteq> mv_Preset r" using that by (metis imageI)
    moreover have "q \<in> set (md_Variants m)" using assms(2) that by (simp add: claimed_def)
    ultimately show ?thesis by (force simp: m' is_row_def)
  qed
  ultimately show ?thesis
    using assms(2) r by (auto simp: claimed_def m' FinishMediaVariant_def list_ex_iff is_row_def)
qed

lemma finish_row_keeps:
  assumes "sound m" and "claimed (ma_TenantID a) (ma_ID a) (r # rs) m" and "a \<in> set (db_Assets (md_DB m))" and "outcome_fits a r out"
  shows "sound (finish_row M now a (mv_Preset r) out m) \<and> claimed (ma_TenantID a) (ma_ID a) rs (finish_row M now a (mv_Preset r) out m) \<and>
    md_DB (finish_row M now a (mv_Preset r) out m) = md_DB m"
proof -
  note f = finish_keeps [OF assms(1-3) refl assms(4) refl, of now]
  then have "finish_row M now a (mv_Preset r) out m = fst (FinishMediaVariant now (ma_TenantID a) (ma_ID a) (mv_Preset r) out m)"
    by (cases out) (simp_all add: finish_row_def split_beta)
  with f show ?thesis by simp
qed

lemma finish_all_keeps:
  assumes "sound m" and "claimed (ma_TenantID a) (ma_ID a) rows m" and "a \<in> set (db_Assets (md_DB m))"
    and "\<And>r. r \<in> set rows \<Longrightarrow> outcome_fits a r (out r)"
  shows "sound (finish_all M now a out rows m) \<and> md_DB (finish_all M now a out rows m) = md_DB m"
  using assms
proof (induction rows arbitrary: m)
  case (Cons r rs)
  note f = finish_row_keeps [OF Cons.prems(1-3), of "out r" M now]
  then show ?case using Cons by (simp add: finish_all_def)
qed (simp add: finish_all_def)

lemma original_fits: "mv_Preset r = MediaPresetOriginal \<Longrightarrow> outcome_fits a r (originalOutcome a info w h)"
  by (simp add: outcome_fits_def originalOutcome_def)

lemma failure_fits: "outcome_fits a r (failure r e now terminal)"
  by (auto simp: failure_def outcome_fits_def Let_def)

lemma rendition_fits:
  assumes "render_variant L src maxWidth = Inr out" and "map_of MediaPresets (mv_Preset r) = Some maxWidth" and "mv_Preset r \<noteq> MediaPresetOriginal"
  shows "outcome_fits a r (OutDone (variantKey (ma_StorageKey a) (mv_Preset r) (rd_Ext out)) ct n (rd_Width out) h)"
proof -
  have "rd_Width out \<le> maxWidth" and "rd_Ext out \<in> {''jpg'', ''png''}"
    using assms(1) fitWidth_bound [of "rs_W (so_Img src)" "rs_H (so_Img src)" maxWidth]
    by (auto simp: render_variant_def Let_def split: prod.splits if_splits)
  moreover have "mv_Preset r \<in> set MediaPresetNames"
    using map_of_SomeD [OF assms(2)] by (force simp: MediaPresetNames_def)
  ultimately show ?thesis using assms(2,3) by (auto simp: outcome_fits_def renditions_of_def)
qed

text \<open>An error leaves rows to be rolled back; they are sound either way.\<close>

lemma render_rows_keep:
  assumes "sound m" and "claimed (ma_TenantID a) (ma_ID a) rows m" and "a \<in> set (db_Assets (md_DB m))"
    and "render_rows M L late now a info src rows m = (m', e)"
  shows "sound m' \<and> md_DB m' = md_DB m"
  using assms
proof (induction rows arbitrary: m)
  case (Cons r rs)
  note step = finish_row_keeps [OF Cons.prems(1-3), of _ M now]
  note rest = Cons.IH
  have skip: "claimed (ma_TenantID a) (ma_ID a) rs m" using Cons.prems(2) by (simp add: claimed_def)
  show ?case
  proof (cases "late (mv_Preset r)")
    case True
    then show ?thesis using Cons.prems by simp
  next
    case on_time: False
    show ?thesis
    proof (cases "mv_Preset r = MediaPresetOriginal")
      case True
      note s = step [OF original_fits [OF True]]
      have eq: "render_rows M L late now a info src rs
          (finish_row M now a (mv_Preset r) (originalOutcome a info (rs_W (so_Img src)) (rs_H (so_Img src))) m) = (m', e)"
        using Cons.prems(4) on_time True by simp
      show ?thesis using rest [OF _ _ _ eq] s Cons.prems(3) by simp
    next
      case False
      show ?thesis
      proof (cases "map_of MediaPresets (mv_Preset r)")
        case None
        then show ?thesis using Cons.prems rest [OF Cons.prems(1) skip Cons.prems(3)] on_time False by simp
      next
        case (Some mw)
        show ?thesis
        proof (cases "rs_W (so_Img src) \<le> mw")
          case True
          have "outcome_fits a r (OutSkipped ''source_smaller'')" by (simp add: outcome_fits_def)
          note s = step [OF this]
          have eq: "render_rows M L late now a info src rs (finish_row M now a (mv_Preset r) (OutSkipped ''source_smaller'') m) = (m', e)"
            using Cons.prems(4) on_time False Some True by simp
          show ?thesis using rest [OF _ _ _ eq] s Cons.prems(3) by simp
        next
          case wide: False
          show ?thesis
          proof (cases "render_variant L src mw")
            case (Inl x)
            then show ?thesis using Cons.prems on_time False Some wide by simp
          next
            case (Inr out)
            let ?key = "variantKey (ma_StorageKey a) (mv_Preset r) (rd_Ext out)"
            let ?o = "OutDone ?key (rd_ContentType out) (length (rd_Data out)) (rd_Width out) (rd_Height out)"
            show ?thesis
            proof (cases "Put_object M ?key (rd_Data out) (rd_ContentType out) m")
              case None
              then show ?thesis using Cons.prems on_time False Some wide Inr by (simp add: Let_def)
            next
              case put: (Some n)
              then have n: "md_DB n = md_DB m" "md_Variants n = md_Variants m"
                by (auto simp: Put_object_def posted_object_def split: if_splits)
              have s: "sound (finish_row M now a (mv_Preset r) ?o n) \<and> claimed (ma_TenantID a) (ma_ID a) rs (finish_row M now a (mv_Preset r) ?o n) \<and>
                  md_DB (finish_row M now a (mv_Preset r) ?o n) = md_DB n"
                using Cons.prems(1-3) n by (intro finish_row_keeps rendition_fits [OF Inr Some False]) (simp_all add: sound_def claimed_def)
              have eq: "render_rows M L late now a info src rs (finish_row M now a (mv_Preset r) ?o n) = (m', e)"
                using Cons.prems(4) on_time False Some wide Inr put by (simp add: Let_def)
              show ?thesis using rest [OF _ _ _ eq] s Cons.prems(3) n by simp
            qed
          qed
        qed
      qed
    qed
  qed
qed simp

lemma GetMediaAsset_in: "GetMediaAsset_repo tenant i db = Some a \<Longrightarrow> a \<in> set (db_Assets db) \<and> ma_TenantID a = tenant \<and> ma_ID a = i"
  by (auto simp: GetMediaAsset_repo_def dest: find_SomeD)

lemma skip_fits [simp]: "outcome_fits a r (OutSkipped why)"
  by (simp add: outcome_fits_def)

lemma too_large_fits:
  "outcome_fits a r (if mv_Preset r = MediaPresetOriginal then originalOutcome a info w h else OutSkipped why)"
  by (simp add: original_fits)

lemma renderAll_keeps:
  assumes "sound m" and "claimed (ma_TenantID a) (ma_ID a) rows m" and "a \<in> set (db_Assets (md_DB m))"
    and "renderAll M L late now a rows m = (n, err)"
  shows "sound n \<and> md_DB n = md_DB m"
proof -
  have every: "sound n \<and> md_DB n = md_DB m" if "(finish_all M now a out rows m, None) = (n, err)" "\<And>r. outcome_fits a r (out r)" for out
    using finish_all_keeps [OF assms(1-3), of out M now] that by auto
  have same: "sound n \<and> md_DB n = md_DB m" if "(m, x) = (n, err)" for x
    using that assms(1) by simp
  show ?thesis
  proof (cases "decodable (ma_ContentType a)")
    case False
    then have "(finish_all M now a (\<lambda>_. OutSkipped ''unsupported_format'') rows m, None) = (n, err)" using assms(4) by (simp add: renderAll_def)
    then show ?thesis by (rule every) simp
  next
    case dec: True
    show ?thesis
    proof (cases "fetch M (ma_StorageKey a) m")
      case (Inl x)
      then have "(m, Some (''fetch '' @ ma_StorageKey a @ '': '' @ x)) = (n, err)" using assms(4) dec by (simp add: renderAll_def)
      then show ?thesis by (rule same)
    next
      case info: (Inr info)
      show ?thesis
      proof (cases "probeSource L (ob_Bytes info) (ma_ContentType a)")
        case (Probed p)
        show ?thesis
        proof (cases "decodeSource L (ob_Bytes info) p")
          case (Inl x)
          then have "(m, Some (''decode '' @ ma_StorageKey a @ '': '' @ x)) = (n, err)" using assms(4) dec info Probed by (simp add: renderAll_def)
          then show ?thesis by (rule same)
        next
          case (Inr src)
          then have "render_rows M L late now a info src rows m = (n, err)" using assms(4) dec info Probed by (simp add: renderAll_def)
          then show ?thesis by (rule render_rows_keep [OF assms(1-3)])
        qed
      next
        case (ProbedTooLarge p)
        then have "(finish_all M now a (\<lambda>r. if mv_Preset r = MediaPresetOriginal then originalOutcome a info (pb_Width p) (pb_Height p)
            else OutSkipped ''too_large'') rows m, None) = (n, err)" using assms(4) dec info by (simp add: renderAll_def)
        then show ?thesis by (rule every) (rule too_large_fits)
      next
        case UnsupportedFormat
        then have "(finish_all M now a (\<lambda>_. OutSkipped ''unsupported_format'') rows m, None) = (n, err)"
          using assms(4) dec info by (simp add: renderAll_def)
        then show ?thesis by (rule every) simp
      next
        case (BadHeader x)
        then have "(finish_all M now a (\<lambda>r. failure r x now True) rows m, None) = (n, err)" using assms(4) dec info by (simp add: renderAll_def)
        then show ?thesis by (rule every) (rule failure_fits)
      qed
    qed
  qed
qed

lemma process_keeps:
  assumes "sound m" and "process M L late now ref m = (m', e)"
  shows "sound m' \<and> md_DB m' = md_DB m"
proof -
  obtain i tenant where ref: "ref = (i, tenant)" by fastforce
  define rows where "rows = ClaimPendingMediaVariants tenant i now m"
  show ?thesis
  proof (cases "rows = [] \<or> GetMediaAsset_repo tenant i (md_DB m) = None")
    case True
    then have "m' = m" using assms(2) by (auto simp: process_def ref rows_def Let_def split: option.splits)
    then show ?thesis using assms(1) by simp
  next
    case False
    then obtain a where a: "GetMediaAsset_repo tenant i (md_DB m) = Some a" by auto
    obtain n err where r: "renderAll M L late now a rows m = (n, err)" by fastforce
    note own = GetMediaAsset_in [OF a]
    have c: "claimed (ma_TenantID a) (ma_ID a) rows m" using claim_claimed [OF assms(1), of tenant i now] own by (simp add: rows_def)
    have "sound n \<and> md_DB n = md_DB m" using renderAll_keeps [OF assms(1) c _ r] own by blast
    moreover have "m' = n \<or> m' = m\<lparr>md_Bucket := md_Bucket n\<rparr>"
      using assms(2) r False a by (auto simp: process_def ref rows_def Let_def split: option.splits)
    ultimately show ?thesis using assms(1) by (auto simp: sound_def)
  qed
qed

lemma markRetry_fold_keeps:
  assumes "sound m" and "claimed tenant i rows m"
  shows "sound (fold (\<lambda>r m. fst (FinishMediaVariant now tenant i (mv_Preset r) (failure r cause now False) m)) rows m) \<and>
    md_DB (fold (\<lambda>r m. fst (FinishMediaVariant now tenant i (mv_Preset r) (failure r cause now False) m)) rows m) = md_DB m"
  using assms
proof (induction rows arbitrary: m)
  case (Cons r rs)
  then have r: "r \<in> set (md_Variants m)" "mv_AssetID r = i" by (simp_all add: claimed_def)
  then obtain a where a: "a \<in> set (db_Assets (md_DB m))" "row_fits a r"
    using Cons.prems(1) unfolding sound_def media_ok_def by blast
  then have "ma_ID a = i" using r(2) by (simp add: row_fits_def)
  note f = finish_keeps [OF Cons.prems a(1) this failure_fits refl, of now cause now False]
  then show ?case using Cons.IH [of "fst (FinishMediaVariant now tenant i (mv_Preset r) (failure r cause now False) m)"] by simp
qed simp

lemma markRetry_keeps:
  assumes "sound m"
  shows "sound (markRetry now ref cause m) \<and> md_DB (markRetry now ref cause m) = md_DB m"
  using markRetry_fold_keeps [OF assms claim_claimed [OF assms]] by (simp add: markRetry_def split_beta)

section \<open>Runs\<close>

text \<open>
  The tables and the bucket, the identifiers that were ever drawn, and what calls hold between their
  look and their write.  Clients and the provider change the bucket at will; the rest of the service
  leaves assets and renditions alone.
\<close>

record media_run =
  mr_M :: media_db
  mr_Used :: "uuid set"
  mr_Completing :: "(uuid \<times> subject \<times> completion) list"
  mr_Deleting :: "(subject \<times> media_asset) list"

inductive media_step :: "media_env \<Rightarrow> image_lib \<Rightarrow> media_run \<Rightarrow> media_run \<Rightarrow> bool" for M L where
  reserved: "newID \<notin> mr_Used s \<Longrightarrow> plain_id newID \<Longrightarrow> plain_suffix suffix \<Longrightarrow>
    CreateMediaUpload M ctx newID suffix now ct inp (mr_M s) = (m, ans) \<Longrightarrow>
    media_step M L s (s\<lparr>mr_M := m, mr_Used := insert newID (mr_Used s)\<rparr>)"
| stored: "media_step M L s (s\<lparr>mr_M := (mr_M s)\<lparr>md_Bucket := b\<rparr>\<rparr>)"
| examined: "Complete_reads M ctx i (mr_M s) = Inr (sub, c) \<Longrightarrow>
    media_step M L s (s\<lparr>mr_Completing := (i, sub, c) # mr_Completing s\<rparr>)"
| completed: "(i, sub, c) \<in> set (mr_Completing s) \<Longrightarrow> Complete_writes M now i sub c (mr_M s) = (m, ans) \<Longrightarrow>
    media_step M L s (s\<lparr>mr_M := m\<rparr>)"
| enqueued: "EnqueueMediaVariants M now ctx i (mr_M s) = Inr (m, dto) \<Longrightarrow> media_step M L s (s\<lparr>mr_M := m\<rparr>)"
| described: "UpdateMediaAsset M ctx i inp (mr_M s) = Inr (m, dto) \<Longrightarrow> media_step M L s (s\<lparr>mr_M := m\<rparr>)"
| chosen: "DeleteMedia_checks M ctx i force (mr_M s) = Inr (sub, a) \<Longrightarrow>
    media_step M L s (s\<lparr>mr_Deleting := (sub, a) # mr_Deleting s\<rparr>)"
| deleted: "(sub, a) \<in> set (mr_Deleting s) \<Longrightarrow> DeleteMedia_commit M sub a (mr_M s) = (m, r) \<Longrightarrow> media_step M L s (s\<lparr>mr_M := m\<rparr>)"
| processed: "process M L late now ref (mr_M s) = (m, e) \<Longrightarrow> media_step M L s (s\<lparr>mr_M := m\<rparr>)"
| retried: "media_step M L s (s\<lparr>mr_M := markRetry now ref cause (mr_M s)\<rparr>)"
| elsewhere: "db_Assets db = db_Assets (md_DB (mr_M s)) \<Longrightarrow> media_step M L s (s\<lparr>mr_M := (mr_M s)\<lparr>md_DB := db\<rparr>\<rparr>)"

definition mr_start :: "media_run \<Rightarrow> bool" where
  "mr_start s \<longleftrightarrow> db_Assets (md_DB (mr_M s)) = [] \<and> md_Variants (mr_M s) = [] \<and> mr_Used s = {} \<and> mr_Completing s = [] \<and> mr_Deleting s = []"

definition same_asset :: "media_asset \<Rightarrow> media_asset \<Rightarrow> bool" where
  "same_asset a b \<longleftrightarrow> ma_ID b = ma_ID a \<and> ma_TenantID b = ma_TenantID a \<and> ma_StorageKey b = ma_StorageKey a"

text \<open>A copy names an identifier that was drawn; an asset that still has it is the one copied.\<close>

definition copy_of :: "uuid set \<Rightarrow> media_asset list \<Rightarrow> media_asset \<Rightarrow> bool" where
  "copy_of used as a \<longleftrightarrow> ma_ID a \<in> used \<and> (\<forall>b \<in> set as. ma_ID b = ma_ID a \<longrightarrow> same_asset a b)"

definition held_ok :: "uuid set \<Rightarrow> media_asset list \<Rightarrow> uuid \<times> subject \<times> completion \<Rightarrow> bool" where
  "held_ok used as q \<longleftrightarrow>
     (\<forall>a info. snd (snd q) = Confirm a info \<longrightarrow> ma_ID a = fst q \<and> ma_TenantID a = TenantID (fst (snd q)) \<and> copy_of used as a)"

definition mr_inv :: "media_run \<Rightarrow> bool" where
  "mr_inv s \<longleftrightarrow> sound (mr_M s) \<and> ma_ID ` set (db_Assets (md_DB (mr_M s))) \<subseteq> mr_Used s \<and>
     (\<forall>q \<in> set (mr_Completing s). held_ok (mr_Used s) (db_Assets (md_DB (mr_M s))) q)"

lemma held_ok_mono:
  assumes "held_ok used as q" and "\<And>a. copy_of used as a \<Longrightarrow> copy_of used' as' a"
  shows "held_ok used' as' q"
  using assms unfolding held_ok_def by blast

text \<open>A step that keeps the identity of the assets it keeps, and adds none, keeps what is held.\<close>

definition keeps_assets :: "media_db \<Rightarrow> media_db \<Rightarrow> bool" where
  "keeps_assets m m' \<longleftrightarrow> (\<forall>b \<in> set (db_Assets (md_DB m')). \<exists>a \<in> set (db_Assets (md_DB m)). same_asset a b)"

lemma same_assets [simp]: "same_asset a a" by (simp add: same_asset_def)

lemma keeps_assets_same: "db_Assets (md_DB m') = db_Assets (md_DB m) \<Longrightarrow> keeps_assets m m'"
  unfolding keeps_assets_def by (metis same_assets)

lemma keeps_assets_subset: "set (db_Assets (md_DB m')) \<subseteq> set (db_Assets (md_DB m)) \<Longrightarrow> keeps_assets m m'"
  unfolding keeps_assets_def by (metis same_assets subset_iff)

lemma inv_keeps:
  assumes "mr_inv s" and "sound m" and "keeps_assets (mr_M s) m"
  shows "mr_inv (s\<lparr>mr_M := m\<rparr>)"
proof -
  have "ma_ID ` set (db_Assets (md_DB m)) \<subseteq> mr_Used s"
    using assms(1,3) by (fastforce simp: mr_inv_def keeps_assets_def same_asset_def)
  moreover have "copy_of (mr_Used s) (db_Assets (md_DB m)) a" if "copy_of (mr_Used s) (db_Assets (md_DB (mr_M s))) a" for a
    using that assms(3) by (fastforce simp: copy_of_def keeps_assets_def same_asset_def)
  ultimately show ?thesis using assms(1,2) held_ok_mono by (fastforce simp: mr_inv_def)
qed

section \<open>Every step keeps the rows sound\<close>

lemma sound_bucket [simp]: "sound (m\<lparr>md_Bucket := b\<rparr>) = sound m"
  by (simp add: sound_def)

lemma media_delete_keeps [simp]:
  "md_DB (delete_best_effort M k m) = md_DB m" "md_Variants (delete_best_effort M k m) = md_Variants m"
  "md_DB (fst (Delete_object M k m)) = md_DB m" "md_Variants (fst (Delete_object M k m)) = md_Variants m"
  by (simp_all add: delete_best_effort_def Delete_object_def)

lemma deletes_keep [simp]:
  "md_DB (fold (delete_best_effort M) ks m) = md_DB m" "md_Variants (fold (delete_best_effort M) ks m) = md_Variants m"
  by (induction ks arbitrary: m) simp_all

lemma sound_cong: "md_DB m' = md_DB m \<Longrightarrow> md_Variants m' = md_Variants m \<Longrightarrow> sound m' = sound m"
  by (simp add: sound_def)

lemma asset_drop_keeps: "sound m \<Longrightarrow> sound (drop_asset i m) \<and> keeps_assets m (drop_asset i m)"
  using media_ok_drop [of "db_Assets (md_DB m)" "md_Variants m" i] keeps_assets_subset [of "drop_asset i m" m]
  by (auto simp: sound_def drop_asset_def)

lemma update_asset_keeps:
  assumes "sound m" and "\<And>a. same_asset a (f a) \<and> (IsUploaded a \<longrightarrow> IsUploaded (f a))"
  shows "sound (update_asset tenant i f m) \<and> keeps_assets m (update_asset tenant i f m)"
proof -
  let ?g = "\<lambda>a. if owns_asset tenant i a then f a else a"
  have "media_ok (map ?g (db_Assets (md_DB m))) (md_Variants m)"
    by (rule media_ok_assets) (use assms in \<open>auto simp: sound_def same_asset_def\<close>)
  moreover have "\<exists>a \<in> set (db_Assets (md_DB m)). same_asset a b" if b: "b \<in> ?g ` set (db_Assets (md_DB m))" for b
  proof -
    obtain a where "a \<in> set (db_Assets (md_DB m))" "b = ?g a" using b by blast
    then show ?thesis using assms(2) [of a] by (intro bexI [of _ a]) simp_all
  qed
  ultimately show ?thesis by (simp add: sound_def update_asset_def on_db_def keeps_assets_def)
qed

lemma patched_same: "same_asset a (patched p a) \<and> (IsUploaded a \<longrightarrow> IsUploaded (patched p a))"
  by (simp add: same_asset_def patched_def IsUploaded_def)

lemma GetMediaAsset_of_in:
  "GetMediaAsset_of tenant i m = Inr a \<Longrightarrow> a \<in> set (db_Assets (md_DB m)) \<and> ma_TenantID a = tenant \<and> ma_ID a = i"
  by (auto simp: GetMediaAsset_of_def dest: GetMediaAsset_in split: option.splits)

lemma enqueue_keeps:
  assumes "sound m" and "EnqueueMediaVariants_repo now tenant i key m = Inr m'"
    and "a \<in> set (db_Assets (md_DB m))" "ma_ID a = i" "ma_TenantID a = tenant" "ma_StorageKey a = key" "IsUploaded a"
  shows "sound m' \<and> md_DB m' = md_DB m"
  using media_ok_enqueue [OF _ assms(3-7) subset_refl, of "md_Variants m" now] assms(1,2)
  by (auto simp: EnqueueMediaVariants_repo_def sound_def split: if_splits)

lemma discard_keeps:
  assumes "sound m"
  shows "sound (discardUpload M tenant a m) \<and> keeps_assets m (discardUpload M tenant a m)"
proof (cases "DeleteMediaAsset_repo tenant (ma_ID a) m")
  case (Inl e)
  then have "md_DB (discardUpload M tenant a m) = md_DB m" "md_Variants (discardUpload M tenant a m) = md_Variants m"
    by (simp_all add: discardUpload_def)
  then show ?thesis using assms keeps_assets_same [of "discardUpload M tenant a m" m] by (simp add: sound_def)
next
  case (Inr r)
  then have "fst r = drop_asset (ma_ID a) m" by (auto simp: DeleteMediaAsset_repo_def)
  then have "md_DB (discardUpload M tenant a m) = md_DB (drop_asset (ma_ID a) m)"
      "md_Variants (discardUpload M tenant a m) = md_Variants (drop_asset (ma_ID a) m)"
    using Inr by (simp_all add: discardUpload_def split_beta)
  then show ?thesis using asset_drop_keeps [OF assms, of "ma_ID a"] by (simp add: sound_def keeps_assets_def)
qed

lemma commit_keeps:
  assumes "sound m" and "DeleteMedia_commit M sub a m = (m', r)"
  shows "sound m' \<and> keeps_assets m m'"
proof (cases "DeleteMediaAsset_repo (TenantID sub) (ma_ID a) m")
  case (Inl e)
  then show ?thesis using assms keeps_assets_same [of m m] by (simp add: DeleteMedia_commit_def)
next
  case (Inr q)
  then have "fst q = drop_asset (ma_ID a) m" by (auto simp: DeleteMediaAsset_repo_def)
  then have "md_DB m' = md_DB (drop_asset (ma_ID a) m) \<and> md_Variants m' = md_Variants (drop_asset (ma_ID a) m)"
    using Inr assms(2) media_delete_keeps(3,4) by (auto simp: DeleteMedia_commit_def Let_def split_beta split: if_splits)
  then show ?thesis using asset_drop_keeps [OF assms(1), of "ma_ID a"] by (simp add: sound_def keeps_assets_def)
qed

lemma confirm_keeps:
  assumes "sound m" and "Complete_writes M now i sub (Confirm a info) m = (m', ans)"
    and "ma_ID a = i" and "ma_TenantID a = TenantID sub" and "\<forall>b \<in> set (db_Assets (md_DB m)). ma_ID b = ma_ID a \<longrightarrow> same_asset a b"
  shows "sound m' \<and> keeps_assets m m'"
proof -
  let ?f = "\<lambda>a. a\<lparr>ma_UploadedAt := Some now, ma_SizeBytes := length (ob_Bytes info), ma_ContentType := ob_ContentType info\<rparr>"
  let ?n = "update_asset (TenantID sub) i ?f m"
  have f: "same_asset b (?f b) \<and> (IsUploaded b \<longrightarrow> IsUploaded (?f b))" for b by (simp add: same_asset_def IsUploaded_def)
  note n = update_asset_keeps [OF assms(1), of ?f "TenantID sub" i, OF f]
  consider (same) "m' = m" | (marked) "m' = ?n"
    | (queued) b where "GetMediaAsset_of (TenantID sub) i m = Inr b" "EnqueueMediaVariants_repo now (TenantID sub) i (ma_StorageKey a) ?n = Inr m'"
    using assms(2) by (auto simp: Complete_writes_def MarkMediaUploaded_def split: sum.splits if_splits)
  then show ?thesis
  proof cases
    case same
    then show ?thesis using assms(1) keeps_assets_same [of m m] by simp
  next
    case marked
    then show ?thesis using n by simp
  next
    case queued
    note b = GetMediaAsset_of_in [OF queued(1)]
    have "?f b \<in> set (db_Assets (md_DB ?n))" using b by (force simp: update_asset_def on_db_def owns_asset_def)
    moreover have "ma_StorageKey b = ma_StorageKey a" using assms(3,5) b by (simp add: same_asset_def)
    ultimately have q: "sound m' \<and> md_DB m' = md_DB ?n"
      using b n by (intro enqueue_keeps [OF _ queued(2), of "?f b"]) (simp_all add: IsUploaded_def)
    then show ?thesis using n by (simp add: keeps_assets_def)
  qed
qed

lemma reserve_result:
  assumes "CreateMediaUpload M ctx newID suffix now ct inp m = (m', ans)"
  obtains "m' = m" | a where "m' = on_db (\<lambda>db. db\<lparr>db_Assets := db_Assets db @ [a]\<rparr>) m" "ma_ID a = newID" "\<not> IsUploaded a"
    "ma_StorageKey a = storageKey (ma_TenantID a) newID suffix" "\<not> asset_id_exists newID (md_DB m)"
  using assms
  by (auto simp: CreateMediaUpload_def CreateMediaAsset_repo_def Let_def IsUploaded_def split: sum.splits if_splits)

lemma reserve_keeps:
  assumes "sound m" and "plain_id (ma_ID a)" and "plain_suffix suffix" and "ma_StorageKey a = storageKey (ma_TenantID a) (ma_ID a) suffix"
    and "\<not> asset_id_exists (ma_ID a) (md_DB m)"
  shows "sound (on_db (\<lambda>db. db\<lparr>db_Assets := db_Assets db @ [a]\<rparr>) m)"
proof -
  have "ma_ID a \<notin> ma_ID ` set (db_Assets (md_DB m))" using assms(5) by (auto simp: asset_id_exists_def list_ex_iff)
  moreover have "asset_ok a" using assms(2-4) unfolding asset_ok_def by blast
  ultimately show ?thesis using assms(1) by (auto simp: sound_def on_db_def media_ok_def)
qed

text \<open>The calls that only change what is held.\<close>

lemma Complete_reads_asset:
  assumes "Complete_reads M ctx i m = Inr (sub, Confirm a info)"
  shows "GetMediaAsset_of (TenantID sub) i m = Inr a"
  using assms unfolding Complete_reads_def and_then_Inr
  by (elim exE conjE) (simp split: option.splits if_splits)

lemma examined_inv:
  assumes "mr_inv s" and "Complete_reads M ctx i (mr_M s) = Inr (sub, c)"
  shows "mr_inv (s\<lparr>mr_Completing := (i, sub, c) # mr_Completing s\<rparr>)"
proof (cases c)
  case (Discard a e)
  then show ?thesis using assms(1) by (simp add: mr_inv_def held_ok_def)
next
  case (Confirm a info)
  then have "GetMediaAsset_of (TenantID sub) i (mr_M s) = Inr a"
    using assms(2) Complete_reads_asset by simp
  note a = GetMediaAsset_of_in [OF this]
  have "copy_of (mr_Used s) (db_Assets (md_DB (mr_M s))) a"
    unfolding copy_of_def
  proof (intro conjI ballI impI)
    show "ma_ID a \<in> mr_Used s" using assms(1) a by (auto simp: mr_inv_def)
    fix b assume b: "b \<in> set (db_Assets (md_DB (mr_M s)))" "ma_ID b = ma_ID a"
    have "media_ok (db_Assets (md_DB (mr_M s))) (md_Variants (mr_M s))" using assms(1) by (simp add: mr_inv_def sound_def)
    then have "b = a" using asset_unique b a by blast
    then show "same_asset a b" by simp
  qed
  then have "held_ok (mr_Used s) (db_Assets (md_DB (mr_M s))) (i, sub, c)" using a Confirm by (simp add: held_ok_def)
  then show ?thesis using assms(1) by (simp add: mr_inv_def)
qed

lemma reserved_inv:
  assumes inv: "mr_inv s" and "newID \<notin> mr_Used s" and "plain_id newID" and "plain_suffix suffix"
    and "CreateMediaUpload M ctx newID suffix now ct inp (mr_M s) = (m, ans)"
  shows "mr_inv (s\<lparr>mr_M := m, mr_Used := insert newID (mr_Used s)\<rparr>)"
proof (cases rule: reserve_result [OF assms(5)])
  case 1
  have "copy_of (insert newID (mr_Used s)) as a" if "copy_of (mr_Used s) as a" for as a
    using that by (simp add: copy_of_def)
  then show ?thesis using inv 1 held_ok_mono by (fastforce simp: mr_inv_def)
next
  case (2 a)
  have m: "sound m" using 2 assms(3,4) inv by (auto simp: mr_inv_def intro!: reserve_keeps)
  have "copy_of (insert newID (mr_Used s)) (db_Assets (md_DB m)) b" if "copy_of (mr_Used s) (db_Assets (md_DB (mr_M s))) b" for b
    using that 2(1,2) assms(2) by (auto simp: copy_of_def on_db_def)
  moreover have "ma_ID ` set (db_Assets (md_DB m)) \<subseteq> insert newID (mr_Used s)"
    using inv 2(1,2) by (auto simp: mr_inv_def on_db_def)
  ultimately show ?thesis using inv m held_ok_mono by (fastforce simp: mr_inv_def)
qed

lemma mr_inv_step:
  assumes inv: "mr_inv s" and "media_step M L s t"
  shows "mr_inv t"
proof -
  have ok: "sound (mr_M s)" using inv by (simp add: mr_inv_def)
  note keep = inv_keeps [OF inv]
  show ?thesis
    using assms(2)
  proof cases
    case (reserved newID suffix ctx now ct inp m ans)
    then show ?thesis using reserved_inv [OF inv] by simp
  next
    case (stored b)
    then show ?thesis using keep [of "(mr_M s)\<lparr>md_Bucket := b\<rparr>"] ok keeps_assets_same [of "(mr_M s)\<lparr>md_Bucket := b\<rparr>" "mr_M s"] by simp
  next
    case (examined ctx i sub c)
    then show ?thesis using examined_inv [OF inv] by simp
  next
    case (completed i sub c now m ans)
    show ?thesis
    proof (cases c)
      case (Discard a e)
      then have "m = discardUpload M (TenantID sub) a (mr_M s)" using completed(3) by (simp add: Complete_writes_def)
      then show ?thesis using discard_keeps [OF ok] keep completed(1) by simp
    next
      case (Confirm a info)
      have "ma_ID a = i \<and> ma_TenantID a = TenantID sub \<and> copy_of (mr_Used s) (db_Assets (md_DB (mr_M s))) a"
        using inv completed(2) Confirm by (fastforce simp: mr_inv_def held_ok_def)
      then show ?thesis
        using confirm_keeps [OF ok completed(3) [unfolded Confirm]] keep completed(1) by (simp add: copy_of_def)
    qed
  next
    case (enqueued now ctx i m dto)
    then obtain sub :: subject and a where a: "GetMediaAsset_of (TenantID sub) i (mr_M s) = Inr a" "IsUploaded a"
        "EnqueueMediaVariants_repo now (TenantID sub) i (ma_StorageKey a) (mr_M s) = Inr m"
      by (auto simp: EnqueueMediaVariants_def)
    note b = GetMediaAsset_of_in [OF a(1)]
    have "sound m \<and> md_DB m = md_DB (mr_M s)" using b a(2) by (intro enqueue_keeps [OF ok a(3)]) simp_all
    then show ?thesis using keep [of m] enqueued(1) keeps_assets_same [of m "mr_M s"] by simp
  next
    case (described ctx i inp m dto)
    then obtain tenant p where "m = update_asset tenant i (patched p) (mr_M s)"
      by (auto simp: UpdateMediaAsset_def UpdateMediaAssetMetadata_def)
    then show ?thesis using update_asset_keeps [OF ok, of "patched p" tenant i, OF patched_same] keep described(1) by simp
  next
    case (chosen ctx i force sub a)
    then show ?thesis using inv by (simp add: mr_inv_def)
  next
    case (deleted sub a m r)
    then show ?thesis using commit_keeps [OF ok deleted(3)] keep by simp
  next
    case (processed late now ref m e)
    then show ?thesis using process_keeps [OF ok processed(2)] keep keeps_assets_same [of m "mr_M s"] by simp
  next
    case (retried now ref cause)
    then show ?thesis using markRetry_keeps [OF ok, of now ref cause] keep keeps_assets_same [of _ "mr_M s"] by simp
  next
    case (elsewhere db)
    then show ?thesis using ok keep [of "(mr_M s)\<lparr>md_DB := db\<rparr>"] keeps_assets_same [of "(mr_M s)\<lparr>md_DB := db\<rparr>" "mr_M s"]
      by (simp add: sound_def)
  qed
qed

interpretation mr: machine mr_start "media_step M L" mr_inv for M L
proof unfold_locales
  show "mr_start s \<Longrightarrow> mr_inv s" for s by (simp add: mr_start_def mr_inv_def sound_def media_ok_def)
  show "mr_inv s \<Longrightarrow> media_step M L s t \<Longrightarrow> mr_inv t" for s t by (rule mr_inv_step)
qed

end
