(* ===== verification/Media_Promises.thy ===== *)
theory Media_Promises
  imports Read_Promises Media_Sweep Media_Runs
begin

text \<open>
  What media promises: the rows of renditions and the addresses that are signed, the batch deletion
  of orphans, and where the life of the bytes and the life of the row come apart.
\<close>

section \<open>The candidates of a sweep\<close>

definition is_orphan :: "string \<Rightarrow> entry_db \<Rightarrow> media_asset \<Rightarrow> bool" where
  "is_orphan tenant db a \<longleftrightarrow> ma_TenantID a = tenant \<and> \<not> linked_asset tenant (ma_ID a) db"

definition orphans :: "string \<Rightarrow> entry_db \<Rightarrow> media_asset list" where
  "orphans tenant db = filter (is_orphan tenant db) (db_Assets db)"

lemma orphan_page_list:
  "ListMediaAssets_repo Q tenant (orphan_page (int k)) m =
     (take 100 (drop k (newest_assets (orphans tenant (md_DB m)))), length (orphans tenant (md_DB m)))"
proof -
  have "media_match Q tenant (orphan_page (int k)) (md_DB m) = is_orphan tenant (md_DB m)"
    by (simp add: fun_eq_iff media_match_def orphan_page_def is_orphan_def TrimSpace_def)
  then show ?thesis by (simp add: ListMediaAssets_repo_def orphans_def Let_def clamp_page_def orphan_page_def)
qed

lemma newest_assets_set [simp]: "set (newest_assets as) = set as" "length (newest_assets as) = length as"
  by (simp_all add: newest_assets_def)

lemma newest_assets_distinct [simp]: "distinct (map ma_ID (newest_assets as)) = distinct (map ma_ID as)"
  by (simp add: newest_assets_def distinct_map)

text \<open>The pages are the list of all orphans cut at or after the limit.\<close>

lemma sweep_pages_prefix:
  assumes "rows = newest_assets (orphans tenant (md_DB m))" and "k \<le> length rows"
  shows "\<exists>n. sweep_pages Q tenant limit m (take k rows) k = (take n rows, length rows) \<and> min limit (length rows) \<le> n"
  using assms(2)
proof (induction "length rows - k" arbitrary: k rule: less_induct)
  case less
  let ?out = "take k rows @ take 100 (drop k rows)"
  have out: "?out = take (k + 100) rows" by (simp add: take_add)
  have page: "ListMediaAssets_repo Q tenant (orphan_page (int k)) m = (take 100 (drop k rows), length rows)"
    by (simp add: orphan_page_list assms(1))
  show ?case
  proof (cases "limit \<le> length ?out \<or> length rows \<le> length ?out \<or> take 100 (drop k rows) = []")
    case True
    then have "sweep_pages Q tenant limit m (take k rows) k = (take (k + 100) rows, length rows)"
      by (subst sweep_pages.simps) (simp only: page fst_conv snd_conv Let_def True if_True, simp only: out)
    moreover have "min limit (length rows) \<le> k + 100" using True less.prems by (elim disjE; simp; arith)
    ultimately show ?thesis by blast
  next
    case False
    then have k: "k + 100 \<le> length rows" "length (take 100 (drop k rows)) = 100" by (auto simp: min_def split: if_splits)
    have "sweep_pages Q tenant limit m (take k rows) k = sweep_pages Q tenant limit m (take (k + 100) rows) (k + 100)"
      by (subst sweep_pages.simps) (use False k page out in \<open>simp add: Let_def del: take_append\<close>)
    then show ?thesis using less.hyps [of "k + 100"] k less.prems by simp
  qed
qed

text \<open>So the candidates are the newest of the orphans.\<close>

lemma sweepCandidates_newest:
  "sweepCandidates Q tenant limit m =
     (take limit (newest_assets (orphans tenant (md_DB m))), length (orphans tenant (md_DB m)))"
proof -
  let ?rows = "newest_assets (orphans tenant (md_DB m))"
  obtain n where n: "sweep_pages Q tenant limit m (take 0 ?rows) 0 = (take n ?rows, length ?rows)" "min limit (length ?rows) \<le> n"
    using sweep_pages_prefix [OF refl, of 0 tenant m Q limit] by blast
  have "take limit ?rows = take n ?rows" if "\<not> limit < min (length ?rows) n"
    using that n(2) by (cases "length ?rows \<le> limit") (auto simp: min_def split: if_splits)
  then show ?thesis using n by (auto simp: sweepCandidates_def min_def)
qed

section \<open>What a sweep does\<close>

lemma fold_fresh:
  assumes "list_all (\<lambda>a. cutoff < ma_CreatedAt a) cs"
  shows "\<exists>r'. fold (sweep_one M ctx tenant cutoff dry) cs (m, r) = (m, r') \<and> sw_Deleted r' = sw_Deleted r \<and>
    sw_Fresh r' = sw_Fresh r + length cs"
  using assms
proof (induction cs arbitrary: r)
  case (Cons a cs)
  let ?r = "sw_item (ma_ID a) SweepSkipped ''fresh'' (r\<lparr>sw_Fresh := sw_Fresh r + 1\<rparr>)"
  obtain r' where "fold (sweep_one M ctx tenant cutoff dry) cs (m, ?r) = (m, r')" "sw_Deleted r' = sw_Deleted ?r" "sw_Fresh r' = sw_Fresh ?r + length cs"
    using Cons.IH [of ?r] Cons.prems by auto
  moreover have "sweep_one M ctx tenant cutoff dry a (m, r) = (m, ?r)" using Cons.prems by (simp add: sweep_one_def)
  ultimately show ?case by (simp add: sw_item_def)
qed simp

text \<open>The newest rows are the fresh ones while there are fresh ones.\<close>

lemma sorted_suffix_fresh:
  fixes f :: "'a \<Rightarrow> 'b :: linorder"
  assumes "sorted (map f xs)" and "n \<le> length (filter (\<lambda>x. c < f x) xs)"
  shows "list_all (\<lambda>x. c < f x) (take n (rev xs))"
  using assms
proof (induction xs arbitrary: n rule: rev_induct)
  case (snoc x xs)
  show ?case
  proof (cases "c < f x")
    case True
    then have "list_all (\<lambda>x. c < f x) (take (n - 1) (rev xs))" using snoc by (intro snoc.IH) (auto simp: sorted_append)
    then show ?thesis using True by (cases n) simp_all
  next
    case False
    then have "filter (\<lambda>x. c < f x) (xs @ [x]) = []" using snoc.prems(1) by (auto simp: sorted_append filter_empty_conv)
    then show ?thesis using snoc.prems(2) by simp
  qed
qed simp

lemma newest_are_fresh:
  assumes "n \<le> length (filter (\<lambda>a. cutoff < ma_CreatedAt a) as)"
  shows "list_all (\<lambda>a. cutoff < ma_CreatedAt a) (take n (newest_assets as))"
proof -
  let ?xs = "sort_key (\<lambda>a. (ma_CreatedAt a, ma_ID a)) as"
  have "sorted (map (\<lambda>a. (ma_CreatedAt a, ma_ID a)) ?xs)" by (rule sorted_sort_key)
  then have "sorted (map ma_CreatedAt ?xs)"
    by (simp add: sorted_map) (erule sorted_wrt_mono_rel [rotated], auto simp: less_eq_prod_def)
  moreover have "length (filter (\<lambda>a. cutoff < ma_CreatedAt a) ?xs) = length (filter (\<lambda>a. cutoff < ma_CreatedAt a) as)"
    by (simp add: filter_sort)
  ultimately show ?thesis using sorted_suffix_fresh [of ma_CreatedAt ?xs n cutoff] assms by (simp add: newest_assets_def)
qed

lemma unlinked_no_refs:
  assumes "\<not> linked_asset tenant i (md_DB m)"
  shows "snd (MediaReferencedBy_repo tenant i l k m) = 0"
proof -
  have "links_to tenant i (db_Media (md_DB m)) = []" "links_to tenant i (db_MediaPublished (md_DB m)) = []"
    using assms by (auto simp: linked_asset_def list_ex_iff links_to_def filter_empty_conv map_filter_def)
  then show ?thesis by (simp add: MediaReferencedBy_repo_def referencedByQuery_def Let_def map_filter_def)
qed

lemma deletes_bucket:
  assumes "\<And>k. \<not> me_Down M ''delete'' k"
  shows "md_Bucket (fold (delete_best_effort M) ks m) k = (if k \<in> set ks then None else md_Bucket m k)"
  by (induction ks arbitrary: m) (simp_all add: delete_best_effort_def Delete_object_def assms)

lemma delete_orphan:
  assumes "media_authorize M ctx ''content:delete'' (ma_ID a) = Inr sub" and "me_Enabled M" and "\<And>k. \<not> me_Down M ''delete'' k"
    and "GetMediaAsset_of (TenantID sub) (ma_ID a) m = Inr a" and "\<not> linked_asset (TenantID sub) (ma_ID a) (md_DB m)"
  shows "\<exists>m'. DeleteMediaAsset M ctx (ma_ID a) False m = (m', None) \<and> md_DB m' = md_DB (drop_asset (ma_ID a) m) \<and>
    (\<forall>k. md_Bucket m k = None \<longrightarrow> md_Bucket m' k = None) \<and> (IsUploaded a \<longrightarrow> md_Bucket m' (ma_StorageKey a) = None)"
proof -
  have "DeleteMedia_checks M ctx (ma_ID a) False m = Inr (sub, a)"
    using assms(1,2,4) unlinked_no_refs [OF assms(5)] by (simp add: DeleteMedia_checks_def split_beta)
  moreover have "\<exists>m'. DeleteMedia_commit M sub a m = (m', None) \<and> md_DB m' = md_DB (drop_asset (ma_ID a) m) \<and>
      (\<forall>k. md_Bucket m k = None \<longrightarrow> md_Bucket m' k = None) \<and> (IsUploaded a \<longrightarrow> md_Bucket m' (ma_StorageKey a) = None)"
    by (simp add: DeleteMedia_commit_def DeleteMediaAsset_repo_def assms(3,4) Let_def Delete_object_def
        deletes_bucket [OF assms(3)]) (simp add: drop_asset_def)
  ultimately show ?thesis by (simp add: DeleteMediaAsset_def)
qed

lemma unlinked_after_drop:
  "\<not> linked_asset tenant j (md_DB m) \<Longrightarrow> \<not> linked_asset tenant j (md_DB (drop_asset i m))"
  by (auto simp: linked_asset_def drop_asset_def list_ex_iff)

lemma asset_of_member:
  assumes "a \<in> set (db_Assets (md_DB m))" and "distinct (map ma_ID (db_Assets (md_DB m)))" and "ma_TenantID a = tenant"
  shows "GetMediaAsset_of tenant (ma_ID a) m = Inr a"
proof -
  have "b = a" if "b \<in> set (db_Assets (md_DB m))" "ma_ID b = ma_ID a" for b
    using that assms(1,2) by (auto simp: distinct_map dest: inj_onD)
  then show ?thesis
    using assms(1,3) by (auto simp: GetMediaAsset_of_def GetMediaAsset_repo_def find_None_iff find_Some_iff split: option.splits)
qed

text \<open>One pass over candidates that are orphans of the tenant: the old ones go, nothing fails.\<close>

lemma fold_sweep:
  assumes auth: "\<And>i. media_authorize M ctx ''content:delete'' i = Inr sub" and "me_Enabled M" and "\<And>k. \<not> me_Down M ''delete'' k"
    and "distinct (map ma_ID (db_Assets (md_DB m)))" and "distinct (map ma_ID cs)"
    and "\<forall>a \<in> set cs. a \<in> set (db_Assets (md_DB m)) \<and> is_orphan (TenantID sub) (md_DB m) a"
  shows "\<exists>m' r'. fold (sweep_one M ctx (TenantID sub) cutoff False) cs (m, r) = (m', r') \<and>
    db_Assets (md_DB m') = filter (\<lambda>a. a \<notin> set cs \<or> cutoff < ma_CreatedAt a) (db_Assets (md_DB m)) \<and>
    (\<forall>k. md_Bucket m k = None \<longrightarrow> md_Bucket m' k = None) \<and>
    (\<forall>a \<in> set cs. ma_CreatedAt a \<le> cutoff \<and> IsUploaded a \<longrightarrow> md_Bucket m' (ma_StorageKey a) = None) \<and>
    sw_Deleted r' = sw_Deleted r + length (filter (\<lambda>a. ma_CreatedAt a \<le> cutoff) cs) \<and> sw_Failed r' = sw_Failed r \<and>
    sw_Remaining r' = sw_Remaining r"
  using assms(4-6)
proof (induction cs arbitrary: m r)
  case (Cons a cs)
  show ?case
  proof (cases "cutoff < ma_CreatedAt a")
    case True
    let ?r = "sw_item (ma_ID a) SweepSkipped ''fresh'' (r\<lparr>sw_Fresh := sw_Fresh r + 1\<rparr>)"
    have "sweep_one M ctx (TenantID sub) cutoff False a (m, r) = (m, ?r)" using True by (simp add: sweep_one_def)
    moreover have "(\<lambda>b. b \<notin> set (a # cs) \<or> cutoff < ma_CreatedAt b) = (\<lambda>b. b \<notin> set cs \<or> cutoff < ma_CreatedAt b)"
      using True by auto
    ultimately show ?thesis using Cons.IH [of m ?r] Cons.prems True by (simp add: sw_item_def)
  next
    case False
    have a: "a \<in> set (db_Assets (md_DB m))" "ma_TenantID a = TenantID sub" "\<not> linked_asset (TenantID sub) (ma_ID a) (md_DB m)"
      using bspec [OF Cons.prems(3), of a] by (simp_all add: is_orphan_def)
    obtain n where n: "DeleteMediaAsset M ctx (ma_ID a) False m = (n, None)" "md_DB n = md_DB (drop_asset (ma_ID a) m)"
        "\<forall>k. md_Bucket m k = None \<longrightarrow> md_Bucket n k = None" "IsUploaded a \<Longrightarrow> md_Bucket n (ma_StorageKey a) = None"
      using delete_orphan [OF auth assms(2,3) asset_of_member [OF a(1) Cons.prems(1) a(2)] a(3)] by blast
    have as: "db_Assets (md_DB n) = filter (\<lambda>b. ma_ID b \<noteq> ma_ID a) (db_Assets (md_DB m))" by (simp add: n(2) drop_asset_def)
    have same: "(ma_ID b \<noteq> ma_ID a) = (b \<noteq> a)" if "b \<in> set (db_Assets (md_DB m))" for b
      using that a(1) Cons.prems(1) by (auto simp: distinct_map dest: inj_onD)
    have rest: "b \<in> set (db_Assets (md_DB n)) \<and> is_orphan (TenantID sub) (md_DB n) b" if "b \<in> set cs" for b
    proof -
      have "ma_ID a \<notin> ma_ID ` set cs" using Cons.prems(2) by simp
      then have "ma_ID b \<noteq> ma_ID a" using that by (metis imageI)
      moreover have "b \<in> set (db_Assets (md_DB m))" "is_orphan (TenantID sub) (md_DB m) b" using bspec [OF Cons.prems(3), of b] that by simp_all
      ultimately show ?thesis using unlinked_after_drop [of _ "ma_ID b" m "ma_ID a"] unfolding as by (simp add: is_orphan_def n(2))
    qed
    have "sweep_one M ctx (TenantID sub) cutoff False a (m, r) = (n, sw_deleted (ma_ID a) SweepDeleted r)"
      using False n(1) by (simp add: sweep_one_def)
    moreover obtain m' r' where "fold (sweep_one M ctx (TenantID sub) cutoff False) cs (n, sw_deleted (ma_ID a) SweepDeleted r) = (m', r')"
        "db_Assets (md_DB m') = filter (\<lambda>a. a \<notin> set cs \<or> cutoff < ma_CreatedAt a) (db_Assets (md_DB n))"
        "\<forall>k. md_Bucket n k = None \<longrightarrow> md_Bucket m' k = None"
        "\<forall>a \<in> set cs. ma_CreatedAt a \<le> cutoff \<and> IsUploaded a \<longrightarrow> md_Bucket m' (ma_StorageKey a) = None"
        "sw_Deleted r' = sw_Deleted r + 1 + length (filter (\<lambda>a. ma_CreatedAt a \<le> cutoff) cs)" "sw_Failed r' = sw_Failed r"
        "sw_Remaining r' = sw_Remaining r"
      using Cons.IH [of n "sw_deleted (ma_ID a) SweepDeleted r"] Cons.prems(1,2) rest
      by (auto simp: as distinct_map_filter sw_deleted_def sw_item_def)
    moreover have "filter (\<lambda>b. b \<notin> set cs \<or> cutoff < ma_CreatedAt b) (db_Assets (md_DB n)) =
        filter (\<lambda>b. b \<notin> set (a # cs) \<or> cutoff < ma_CreatedAt b) (db_Assets (md_DB m))"
      using same False by (auto simp: as intro!: filter_cong)
    ultimately show ?thesis using n(3,4) False by auto
  qed
qed auto

section \<open>A concrete service\<close>

definition demo_media :: media_env where
  "demo_media = \<lparr>me_W = demo_world, me_Enabled = True, me_Down = \<lambda>_ _. False, me_SignGet = \<lambda>k t. Inr (''get '' @ k),
     me_SignPost = \<lambda>k t n ct. Inr (''post '' @ k, [])\<rparr>"

lemma demo_media_authorized [simp]: "media_authorize demo_media (Some demo_user) action i = Inr demo_user"
  by (simp add: media_authorize_def demo_media_def demo_authorized)

lemma demo_media_up [simp]: "me_Enabled demo_media" "\<not> me_Down demo_media what k" "TenantID demo_user = ''acme''"
  by (simp_all add: demo_media_def demo_user_def)

definition film :: "uuid \<Rightarrow> int \<Rightarrow> media_asset" where
  "film i t = \<lparr>ma_ID = i, ma_TenantID = ''acme'', ma_StorageKey = ''acme/'' @ i @ ''-s'', ma_ContentType = ''video/mp4'',
     ma_SizeBytes = 4, ma_UploadedAt = Some t, ma_CreatedAt = t, ma_Filename = None, ma_AltText = None, ma_WidthPx = None,
     ma_HeightPx = None\<rparr>"

definition film_store :: "media_asset list \<Rightarrow> media_db" where
  "film_store as = \<lparr>md_DB = demo_db\<lparr>db_Assets := as\<rparr>, md_Variants = [],
     md_Bucket = \<lambda>k. if k \<in> set (map ma_StorageKey as) then Some \<lparr>ob_Bytes = ''mp4'', ob_ContentType = ''video/mp4''\<rparr> else None\<rparr>"

lemma film_fields [simp]:
  "ma_ID (film i t) = i" "ma_TenantID (film i t) = ''acme''" "ma_CreatedAt (film i t) = t" "IsUploaded (film i t)"
  "ma_StorageKey (film i t) = ''acme/'' @ i @ ''-s''" "film i t = film j u \<longleftrightarrow> i = j \<and> t = u"
  by (auto simp: film_def IsUploaded_def)

lemma film_assets [simp]: "db_Assets (md_DB (film_store as)) = as"
  by (simp add: film_store_def)

lemma film_orphan: "is_orphan ''acme'' (md_DB (film_store as)) (film i t)"
  by (simp add: is_orphan_def film_store_def linked_asset_def demo_db_def empty_db_def)

lemma film_orphans: "orphans ''acme'' (md_DB (film_store [film i t, film j u])) = [film i t, film j u]"
  by (simp add: orphans_def film_orphan)

definition sweep_old :: "int \<Rightarrow> sweep_input" where
  "sweep_old n = \<lparr>si_OlderThan = 10, si_Limit = n, si_DryRun = False\<rparr>"

section \<open>Sweeps\<close>

text \<open>
  C0: When the batch limit covers the orphans, a sweep deletes exactly those of the tenant's assets
  that nothing refers to and that are at least as old as asked: every other asset stays, the bytes of
  what was deleted are gone, and nothing is reported as failed or remaining.
\<close>

theorem sweep_deletes_the_old_orphans:
  assumes "\<And>i. media_authorize M ctx ''content:delete'' i = Inr sub" and "me_Enabled M" and "\<And>k. \<not> me_Down M ''delete'' k"
    and "distinct (map ma_ID (db_Assets (md_DB m)))" and "\<not> si_DryRun inp"
    and "length (orphans (TenantID sub) (md_DB m)) \<le> sweep_limit (si_Limit inp)"
    and "old = (\<lambda>a. is_orphan (TenantID sub) (md_DB m) a \<and> ma_CreatedAt a \<le> sweep_cutoff now (si_OlderThan inp))"
  shows "\<exists>m' r. SweepOrphans M Q now ctx inp m = (m', Inr r) \<and>
    db_Assets (md_DB m') = filter (\<lambda>a. \<not> old a) (db_Assets (md_DB m)) \<and>
    (\<forall>a \<in> set (db_Assets (md_DB m)). old a \<and> IsUploaded a \<longrightarrow> md_Bucket m' (ma_StorageKey a) = None) \<and>
    sw_Deleted r = length (filter old (db_Assets (md_DB m))) \<and> sw_Failed r = 0 \<and> sw_Remaining r = 0"
proof -
  let ?os = "orphans (TenantID sub) (md_DB m)" and ?cut = "sweep_cutoff now (si_OlderThan inp)"
  let ?r = "\<lparr>sw_Deleted = 0, sw_Referenced = 0, sw_Fresh = 0, sw_Failed = 0, sw_Truncated = False, sw_Remaining = 0, sw_Items = []\<rparr>"
  have cs: "sweepCandidates Q (TenantID sub) (sweep_limit (si_Limit inp)) m = (newest_assets ?os, length ?os)"
    using assms(6) by (simp add: sweepCandidates_newest)
  have d: "distinct (map ma_ID (newest_assets ?os))" using assms(4) by (simp add: orphans_def distinct_map_filter)
  have mem: "\<forall>a \<in> set (newest_assets ?os). a \<in> set (db_Assets (md_DB m)) \<and> is_orphan (TenantID sub) (md_DB m) a"
    by (simp add: orphans_def)
  from fold_sweep [OF assms(1-4) d mem, of ?cut ?r] obtain m' r' where f: "fold (sweep_one M ctx (TenantID sub) ?cut False) (newest_assets ?os) (m, ?r) = (m', r')"
      "db_Assets (md_DB m') = filter (\<lambda>a. a \<notin> set (newest_assets ?os) \<or> ?cut < ma_CreatedAt a) (db_Assets (md_DB m))"
      "\<forall>a \<in> set (newest_assets ?os). ma_CreatedAt a \<le> ?cut \<and> IsUploaded a \<longrightarrow> md_Bucket m' (ma_StorageKey a) = None"
      "sw_Deleted r' = length (filter (\<lambda>a. ma_CreatedAt a \<le> ?cut) (newest_assets ?os))" "sw_Failed r' = 0" "sw_Remaining r' = 0"
    by (elim exE conjE) (simp only: sweep_result.select_convs add_0)
  have "mset (newest_assets ?os) = mset ?os" by (simp add: newest_assets_def)
  then have "length (filter (\<lambda>a. ma_CreatedAt a \<le> ?cut) (newest_assets ?os)) = length (filter (\<lambda>a. ma_CreatedAt a \<le> ?cut) ?os)"
    by (metis mset_filter size_mset)
  also have "\<dots> = length (filter old (db_Assets (md_DB m)))" by (simp add: orphans_def assms(7) conj_commute)
  finally have n: "sw_Deleted r' = length (filter old (db_Assets (md_DB m)))" using f(4) by simp
  have kept: "filter (\<lambda>a. a \<notin> set (newest_assets ?os) \<or> ?cut < ma_CreatedAt a) (db_Assets (md_DB m)) =
      filter (\<lambda>a. \<not> old a) (db_Assets (md_DB m))"
    by (rule filter_cong) (auto simp: orphans_def assms(7))
  have "SweepOrphans M Q now ctx inp m = (m', Inr r')" using f(1) assms(5) by (simp add: SweepOrphans_def assms(1) cs)
  moreover have "\<forall>a \<in> set (db_Assets (md_DB m)). old a \<and> IsUploaded a \<longrightarrow> md_Bucket m' (ma_StorageKey a) = None"
    using f(3) by (auto simp: orphans_def assms(7))
  ultimately show ?thesis using f(2,5,6) n kept by (intro exI conjI) simp_all
qed

theorem sweep_deletes_the_old_orphans_witness:
  "\<exists>m' r. SweepOrphans demo_media web_sql 100 (Some demo_user) (sweep_old 0) (film_store [film ''m1'' 5, film ''m2'' 95]) = (m', Inr r) \<and>
     db_Assets (md_DB m') = [film ''m2'' 95] \<and> md_Bucket m' ''acme/m1-s'' = None \<and> sw_Deleted r = 1"
proof -
  let ?m = "film_store [film ''m1'' 5, film ''m2'' 95]"
  have os: "orphans ''acme'' (md_DB ?m) = [film ''m1'' 5, film ''m2'' 95]" by (rule film_orphans)
  show ?thesis
    using sweep_deletes_the_old_orphans [of demo_media "Some demo_user" demo_user ?m "sweep_old 0" _ 100 web_sql] film_orphan
    by (auto simp: os sweep_old_def sweep_limit_def sweep_cutoff_def defaultSweepLimit_def maxSweepLimit_def)
qed

text \<open>
  C0: A sweep only looks at the newest orphans.  While there are as many fresh ones as the batch holds,
  a call deletes nothing, whatever the age and the number of the others, and calling again changes
  nothing: the result keeps naming the old ones as remaining.
\<close>

theorem old_orphans_starve_behind_fresh_ones:
  assumes "media_authorize M ctx ''content:delete'' ''media'' = Inr sub"
    and "sweep_limit (si_Limit inp) \<le>
      length (filter (\<lambda>a. sweep_cutoff now (si_OlderThan inp) < ma_CreatedAt a) (orphans (TenantID sub) (md_DB m)))"
  shows "\<exists>r. SweepOrphans M Q now ctx inp m = (m, Inr r) \<and> sw_Deleted r = 0 \<and> sw_Fresh r = sweep_limit (si_Limit inp) \<and>
    (sweep_limit (si_Limit inp) < length (orphans (TenantID sub) (md_DB m)) \<longrightarrow>
       sw_Remaining r = length (orphans (TenantID sub) (md_DB m)) - sweep_limit (si_Limit inp))"
proof -
  let ?os = "orphans (TenantID sub) (md_DB m)" and ?n = "sweep_limit (si_Limit inp)" and ?cut = "sweep_cutoff now (si_OlderThan inp)"
  let ?r = "\<lparr>sw_Deleted = 0, sw_Referenced = 0, sw_Fresh = 0, sw_Failed = 0, sw_Truncated = False, sw_Remaining = 0, sw_Items = []\<rparr>"
  have "?n \<le> length ?os" using assms(2) length_filter_le le_trans by blast
  then have len: "length (take ?n (newest_assets ?os)) = ?n" by simp
  obtain r' where f: "fold (sweep_one M ctx (TenantID sub) ?cut (si_DryRun inp)) (take ?n (newest_assets ?os)) (m, ?r) = (m, r')"
      "sw_Deleted r' = 0" "sw_Fresh r' = ?n"
    using fold_fresh [OF newest_are_fresh [OF assms(2)], of M ctx "TenantID sub" "si_DryRun inp" m ?r] len by auto
  have "SweepOrphans M Q now ctx inp m =
      (m, Inr (if ?n < length ?os then r'\<lparr>sw_Truncated := True, sw_Remaining := length ?os - ?n\<rparr> else r'))"
    using f(1) len by (simp add: SweepOrphans_def assms(1) sweepCandidates_newest)
  then show ?thesis using f(2,3) by auto
qed

theorem old_orphans_starve_behind_fresh_ones_witness:
  "\<exists>r. SweepOrphans demo_media web_sql 100 (Some demo_user) (sweep_old 1) (film_store [film ''m1'' 5, film ''m2'' 95]) =
     (film_store [film ''m1'' 5, film ''m2'' 95], Inr r) \<and> sw_Deleted r = 0 \<and> sw_Remaining r = 1"
proof -
  have os: "orphans ''acme'' (md_DB (film_store [film ''m1'' 5, film ''m2'' 95])) = [film ''m1'' 5, film ''m2'' 95]"
    by (rule film_orphans)
  show ?thesis
    using old_orphans_starve_behind_fresh_ones [of demo_media "Some demo_user" demo_user "sweep_old 1" 100
        "film_store [film ''m1'' 5, film ''m2'' 95]" web_sql]
    by (auto simp: os sweep_old_def sweep_limit_def sweep_cutoff_def defaultSweepLimit_def maxSweepLimit_def)
qed

text \<open>One upload: a GIF is reserved, its bytes land, it is examined and confirmed.\<close>

definition no_metadata :: metadata_input where
  "no_metadata = \<lparr>mi_Filename = None, mi_AltText = None, mi_WidthPx = None, mi_HeightPx = None\<rparr>"

definition gif :: "nat \<Rightarrow> int option \<Rightarrow> media_asset" where
  "gif n up = \<lparr>ma_ID = ''m1'', ma_TenantID = ''acme'', ma_StorageKey = ''acme/m1-s'', ma_ContentType = ''image/gif'',
     ma_SizeBytes = n, ma_UploadedAt = up, ma_CreatedAt = 0, ma_Filename = None, ma_AltText = None, ma_WidthPx = None,
     ma_HeightPx = None\<rparr>"

definition gif_bytes :: object where
  "gif_bytes = \<lparr>ob_Bytes = ''GIF87a'', ob_ContentType = ''image/gif''\<rparr>"

definition gif_store :: "media_asset list \<Rightarrow> bool \<Rightarrow> media_db" where
  "gif_store as landed = \<lparr>md_DB = empty_db\<lparr>db_Assets := as\<rparr>, md_Variants = [],
     md_Bucket = \<lambda>k. if landed \<and> k = ''acme/m1-s'' then Some gif_bytes else None\<rparr>"

definition gif_start :: media_run where
  "gif_start = \<lparr>mr_M = gif_store [] False, mr_Used = {}, mr_Completing = [], mr_Deleting = []\<rparr>"

lemma gif_t1: "normalizeContentType ''image/gif'' = ''image/gif''"
  by code_simp
lemma gif_t2: "uploadTypeAllowed ''image/gif''"
  by code_simp
lemma gif_t3: "IsImageContentType ''image/gif''"
  by code_simp
lemma gif_t4: "sniffEnforced ''image/gif''"
  by code_simp
lemma gif_t5: "bytesMatchDeclared (readSniffWindow ''GIF87a'') ''image/gif''"
  by code_simp
lemma gif_t6: "storageKey ''acme'' ''m1'' ''s'' = ''acme/m1-s''"
  by code_simp
lemmas gif_types = gif_t1 gif_t2 gif_t3 gif_t4 gif_t5 gif_t6

lemma gif_small: "\<not> MaxUploadBytes < 6"
  by (simp add: MaxUploadBytes_def)

definition gif_form :: upload_dto where
  "gif_form = \<lparr>up_AssetID = ''m1'', up_URL = ''post acme/m1-s'', up_Fields = [], up_MaxBytes = MaxUploadBytes, up_ExpiresAt = uploadTTL\<rparr>"

lemma demo_media_signs: "me_SignPost demo_media k t n ct = Inr (''post '' @ k, [])"
  by (simp add: demo_media_def)

lemma gif_reserved:
  "CreateMediaUpload demo_media (Some demo_user) ''m1'' ''s'' 0 ''image/gif'' no_metadata (gif_store [] False) =
     (gif_store [gif 0 None] False, Inr gif_form)"
  by (simp add: CreateMediaUpload_def require_def gif_types no_metadata_def toPatch_def toPatch_dimensions_def no_patch_def
      CreateMediaAsset_repo_def gif_store_def asset_id_exists_def on_db_def gif_def empty_db_def Let_def demo_media_signs gif_form_def)

lemma gif_examined:
  "Complete_reads demo_media (Some demo_user) ''m1'' (gif_store [gif 0 None] True) = Inr (demo_user, Confirm (gif 0 None) gif_bytes)"
proof -
  have "GetMediaAsset_of ''acme'' ''m1'' (gif_store [gif 0 None] True) = Inr (gif 0 None)"
    by (simp add: GetMediaAsset_of_def GetMediaAsset_repo_def gif_store_def gif_def)
  moreover have "md_Bucket (gif_store [gif 0 None] True) ''acme/m1-s'' = Some gif_bytes" by (simp add: gif_store_def)
  moreover have "ma_StorageKey (gif 0 None) = ''acme/m1-s''" "ma_ContentType (gif 0 None) = ''image/gif''"
      "ob_Bytes gif_bytes = ''GIF87a''" "ob_ContentType gif_bytes = ''image/gif''"
    by (simp_all add: gif_def gif_bytes_def)
  ultimately show ?thesis using gif_types gif_small by (simp add: require_def Complete_reads_def Stat_def Get_object_def)
qed

definition gif_done :: media_db where
  "gif_done = (gif_store [gif 6 (Some 1)] True)\<lparr>md_Variants :=
     fold (enqueue_one 1 ''acme'' ''m1'' ''acme/m1-s'') (MediaPresetOriginal # MediaPresetNames) []\<rparr>"

lemma gif_completed:
  "\<exists>ans. Complete_writes demo_media 1 ''m1'' demo_user (Confirm (gif 0 None) gif_bytes) (gif_store [gif 0 None] True) = (gif_done, ans)"
  by (simp add: Complete_writes_def MarkMediaUploaded_def GetMediaAsset_of_def GetMediaAsset_repo_def gif_store_def gif_def gif_bytes_def
      gif_types EnqueueMediaVariants_repo_def update_asset_def on_db_def owns_asset_def asset_id_exists_def gif_done_def)

lemma media_reach:
  "reachable_from mr_start (media_step M L) s \<Longrightarrow> media_step M L s t \<Longrightarrow> reachable_from mr_start (media_step M L) t"
  by (rule step_reachable)

lemma gif_run:
  shows "reachable_from mr_start (media_step demo_media L) (gif_start\<lparr>mr_M := gif_store [gif 0 None] True, mr_Used := {''m1''}\<rparr>)"
    and "reachable_from mr_start (media_step demo_media L) (gif_start\<lparr>mr_M := gif_done, mr_Used := {''m1''},
      mr_Completing := [(''m1'', demo_user, Confirm (gif 0 None) gif_bytes)]\<rparr>)"
proof -
  let ?step = "media_step demo_media L"
  have s0: "reachable_from mr_start ?step gif_start"
    by (rule start_reachable) (simp add: mr_start_def gif_start_def gif_store_def empty_db_def)
  have ans: "CreateMediaUpload demo_media (Some demo_user) ''m1'' ''s'' 0 ''image/gif'' no_metadata (mr_M gif_start) =
      (gif_store [gif 0 None] False, Inr gif_form)"
    using gif_reserved by (simp add: gif_start_def)
  have "?step gif_start (gif_start\<lparr>mr_M := gif_store [gif 0 None] False, mr_Used := insert ''m1'' (mr_Used gif_start)\<rparr>)"
    by (rule media_step.reserved [OF _ _ _ ans]) (simp_all add: gif_start_def plain_id_def plain_suffix_def)
  from media_reach [OF s0 this] have s1: "reachable_from mr_start ?step (gif_start\<lparr>mr_M := gif_store [gif 0 None] False, mr_Used := {''m1''}\<rparr>)"
    by (simp add: gif_start_def)
  have b: "(gif_store [gif 0 None] False)\<lparr>md_Bucket := md_Bucket (gif_store [gif 0 None] True)\<rparr> = gif_store [gif 0 None] True"
    by (simp add: gif_store_def)
  show s2: "reachable_from mr_start ?step (gif_start\<lparr>mr_M := gif_store [gif 0 None] True, mr_Used := {''m1''}\<rparr>)"
    using media_reach [OF s1 media_step.stored [of demo_media L _ "md_Bucket (gif_store [gif 0 None] True)"]] b by (simp add: gif_start_def)
  have s3: "reachable_from mr_start ?step (gif_start\<lparr>mr_M := gif_store [gif 0 None] True, mr_Used := {''m1''},
      mr_Completing := [(''m1'', demo_user, Confirm (gif 0 None) gif_bytes)]\<rparr>)" (is "reachable_from _ _ ?s3")
    using media_reach [OF s2 media_step.examined] gif_examined by (simp add: gif_start_def)
  obtain ans where ans: "Complete_writes demo_media 1 ''m1'' demo_user (Confirm (gif 0 None) gif_bytes) (mr_M ?s3) = (gif_done, ans)"
    using gif_completed by auto
  have "?step ?s3 (?s3\<lparr>mr_M := gif_done\<rparr>)" by (rule media_step.completed [OF _ ans]) simp
  note s4 = media_reach [OF s3 this]
  show "reachable_from mr_start ?step (gif_start\<lparr>mr_M := gif_done, mr_Used := {''m1''},
      mr_Completing := [(''m1'', demo_user, Confirm (gif 0 None) gif_bytes)]\<rparr>)" using s4 by (simp add: gif_start_def)
qed

section \<open>The rows of renditions\<close>

text \<open>
  C0: In every run of the media calls, the worker, the clients and the provider, every rendition row
  belongs to an uploaded asset of its tenant and is the only one of its preset there; its attempts are
  counted and bounded; and one that is done has a key made from its own asset's key and a width within
  its preset's.  Identifiers of assets are never shared.
\<close>

theorem media_rows_stay_sound:
  assumes "reachable_from mr_start (media_step M L) s" and "m = mr_M s"
  shows "distinct (map ma_ID (db_Assets (md_DB m))) \<and> distinct (map (\<lambda>v. (mv_AssetID v, mv_Preset v)) (md_Variants m)) \<and>
    (\<forall>v \<in> set (md_Variants m). \<exists>a \<in> set (db_Assets (md_DB m)).
       ma_ID a = mv_AssetID v \<and> ma_TenantID a = mv_TenantID v \<and> IsUploaded a \<and>
       mv_Preset v \<in> set (MediaPresetOriginal # MediaPresetNames) \<and>
       (if mv_State v = VariantFailed then 1 \<le> mv_Attempts v \<and> mv_Attempts v \<le> MaxMediaVariantAttempts
        else mv_Attempts v < MaxMediaVariantAttempts) \<and>
       (mv_State v = VariantDone \<longrightarrow>
          (if mv_Preset v = MediaPresetOriginal then mv_StorageKey v = Some (ma_StorageKey a)
           else (\<exists>k \<in> renditions_of (ma_StorageKey a). mv_StorageKey v = Some k) \<and>
             mv_WidthPx v \<le> the (map_of MediaPresets (mv_Preset v)))))"
    (is "_ \<and> _ \<and> (\<forall>v \<in> _. \<exists>a \<in> _. ?P a v)")
proof -
  have ok: "media_ok (db_Assets (md_DB m)) (md_Variants m)"
    using mr.reachable_inv [OF assms(1)] by (simp add: mr_inv_def sound_def assms(2))
  have "row_id = (\<lambda>v. (mv_AssetID v, mv_Preset v))" by (simp add: fun_eq_iff row_id_def)
  then have d: "distinct (map ma_ID (db_Assets (md_DB m)))" "distinct (map (\<lambda>v. (mv_AssetID v, mv_Preset v)) (md_Variants m))"
    using ok by (simp_all add: media_ok_def)
  show ?thesis
  proof (intro conjI d ballI)
    fix v assume v: "v \<in> set (md_Variants m)"
    then obtain a where a: "a \<in> set (db_Assets (md_DB m))" and fits: "row_fits a v" using ok unfolding media_ok_def by blast
    show "\<exists>a \<in> set (db_Assets (md_DB m)). ?P a v"
      by (rule bexI [OF _ a]) (use fits original_is_no_preset in \<open>auto simp: row_fits_def split: option.splits\<close>)
  qed
qed

theorem media_rows_stay_sound_witness:
  "\<exists>v a. v \<in> set (md_Variants gif_done) \<and> mv_Preset v = ''thumb'' \<and> a \<in> set (db_Assets (md_DB gif_done)) \<and>
     ma_ID a = mv_AssetID v \<and> IsUploaded a \<and> mv_Attempts v < MaxMediaVariantAttempts"
proof -
  have "list_ex (\<lambda>v. mv_Preset v = ''thumb'' \<and> mv_State v = VariantPending) (md_Variants gif_done)" by code_simp
  then obtain v where v: "v \<in> set (md_Variants gif_done)" "mv_Preset v = ''thumb''" "mv_State v = VariantPending"
    by (auto simp: list_ex_iff)
  show ?thesis
    using media_rows_stay_sound [OF gif_run(2) refl] v by fastforce
qed

section \<open>Addresses\<close>

lemma key_for_family:
  assumes ok: "media_ok (db_Assets (md_DB m)) (md_Variants m)" and a: "a \<in> set (db_Assets (md_DB m))"
  shows "key_for preset a m \<in> key_family (ma_StorageKey a)"
proof (cases "find (usable_variant preset) (ListMediaVariants (ma_TenantID a) (ma_ID a) m)")
  case None
  then show ?thesis by (simp add: key_for_def key_family_def)
next
  case (Some v)
  then have v: "usable_variant preset v" "v \<in> set (ListMediaVariants (ma_TenantID a) (ma_ID a) m)"
    by (auto simp: find_Some_iff)
  then have row: "v \<in> set (md_Variants m)" "mv_AssetID v = ma_ID a" by (simp_all add: ListMediaVariants_def)
  then obtain b where b: "b \<in> set (db_Assets (md_DB m))" "row_fits b v" using ok unfolding media_ok_def by blast
  then have "ma_ID b = ma_ID a" using row by (simp add: row_fits_def)
  then have "b = a" by (rule asset_unique [OF ok b(1) a])
  then show ?thesis
    using b(2) v(1) Some by (auto simp: key_for_def key_family_def row_fits_def usable_variant_def split: option.splits)
qed

lemma families_apart:
  assumes "media_ok as vs" and "a \<in> set as" and "b \<in> set as" and "k \<in> key_family (ma_StorageKey a)" and "ma_ID b \<noteq> ma_ID a"
  shows "k \<notin> key_family (ma_StorageKey b)"
proof
  assume k: "k \<in> key_family (ma_StorageKey b)"
  have "asset_ok a" "asset_ok b" using assms(1-3) by (simp_all add: media_ok_def)
  then have "id_in_key k = ma_ID a" "id_in_key k = ma_ID b"
    using assms(4) k by (auto simp: asset_ok_def dest: id_in_family)
  then show False using assms(5) by simp
qed

text \<open>
  C0: In every run, an address signed for an anonymous reader is for an uploaded asset of the reader's
  tenant that a published entry shows; what is signed is a key of that asset, of no other asset; it is
  good for the delivery time and the read is counted.
\<close>

theorem media_urls_are_gated:
  assumes "reachable_from mr_start (media_step M L) s" and "m = mr_M s" and "PublicDelivery sub"
    and "ResolveMediaURL M now (Some sub) i preset m c = (Inr (url, expiry), c')"
  shows "\<exists>a k. a \<in> set (db_Assets (md_DB m)) \<and> ma_ID a = i \<and> ma_TenantID a = TenantID sub \<and> IsUploaded a \<and>
    AssetIsPublished (TenantID sub) i (md_DB m) \<and> k \<in> key_family (ma_StorageKey a) \<and>
    (\<forall>b \<in> set (db_Assets (md_DB m)). ma_ID b \<noteq> i \<longrightarrow> k \<notin> key_family (ma_StorageKey b)) \<and>
    me_SignGet M k deliveryTTL = Inr url \<and> expiry = now + deliveryTTL \<and> c' = Record_read (TenantID sub) c"
proof -
  have ok: "media_ok (db_Assets (md_DB m)) (md_Variants m)"
    using mr.reachable_inv [OF assms(1)] by (simp add: mr_inv_def sound_def assms(2))
  from assms(4) obtain sub' :: subject and a where a: "media_authorize M (Some sub) ''content:read'' i = Inr sub'"
      "GetMediaAsset_of (TenantID sub') i m = Inr a" "IsUploaded a" "media_gate sub' i m = Inr ()"
      "me_SignGet M (key_for preset a m) deliveryTTL = Inr url" "expiry = now + deliveryTTL" "c' = count_read sub' c"
    by (auto simp: ResolveMediaURL_def split: sum.splits)
  have "sub' = sub" using a(1) authorize_subject by (simp add: media_authorize_def)
  note own = GetMediaAsset_of_in [OF a(2)]
  have "AssetIsPublished (TenantID sub) i (md_DB m)" "c' = Record_read (TenantID sub) c"
    using a(4,7) assms(3) \<open>sub' = sub\<close> by (simp_all add: media_gate_def count_read_def)
  moreover have "k \<notin> key_family (ma_StorageKey b)" if "k = key_for preset a m" "b \<in> set (db_Assets (md_DB m))" "ma_ID b \<noteq> i" for k b
    using families_apart [OF ok _ that(2)] key_for_family [OF ok] own that by blast
  ultimately show ?thesis
    using a(3,5,6) own \<open>sub' = sub\<close> key_for_family [OF ok, of a preset] by (intro exI [of _ a] exI [of _ "key_for preset a m"]) blast
qed


definition gif_shown :: entry_db where
  "gif_shown = (md_DB gif_done)\<lparr>db_Entries := [web_row ''e1''],
     db_MediaPublished := [\<lparr>ln_TenantID = ''acme'', ln_EntryID = ''e1'', ln_FieldPath = ''cover'', ln_Target = ''m1''\<rparr>]\<rparr>"

lemma gif_shown_run:
  "reachable_from mr_start (media_step demo_media L) (gif_start\<lparr>mr_M := gif_done\<lparr>md_DB := gif_shown\<rparr>, mr_Used := {''m1''},
     mr_Completing := [(''m1'', demo_user, Confirm (gif 0 None) gif_bytes)]\<rparr>)"
  using media_reach [OF gif_run(2) media_step.elsewhere [of gif_shown]] by (simp add: gif_shown_def gif_start_def)

theorem media_urls_are_gated_witness:
  "\<exists>url expiry c'. ResolveMediaURL demo_media 9 (Some anyone) ''m1'' ''thumb'' (gif_done\<lparr>md_DB := gif_shown\<rparr>) (\<lambda>_. 0) = (Inr (url, expiry), c') \<and>
     AssetIsPublished ''acme'' ''m1'' gif_shown \<and> c' ''acme'' = 1"
proof -
  let ?m = "gif_done\<lparr>md_DB := gif_shown\<rparr>"
  have "media_authorize demo_media (Some anyone) ''content:read'' ''m1'' = Inr anyone"
    using anyone_authorized by (simp add: media_authorize_def demo_media_def isReadAction_def)
  moreover have "GetMediaAsset_of ''acme'' ''m1'' ?m = Inr (gif 6 (Some 1))"
    by (simp add: GetMediaAsset_of_def GetMediaAsset_repo_def gif_shown_def gif_done_def gif_store_def gif_def)
  moreover have "AssetIsPublished ''acme'' ''m1'' gif_shown"
    by (simp add: AssetIsPublished_def gif_shown_def web_row_def demo_row_def StatusPublished_def)
  moreover have "ValidMediaPreset ''thumb''" by code_simp
  moreover have "\<exists>url. me_SignGet demo_media k deliveryTTL = Inr url" for k by (simp add: demo_media_def)
  ultimately obtain url where u: "ResolveMediaURL demo_media 9 (Some anyone) ''m1'' ''thumb'' ?m (\<lambda>_. 0) =
      (Inr (url, 9 + deliveryTTL), count_read anyone (\<lambda>_. 0))"
    using anyone_facts by (auto simp: ResolveMediaURL_def media_gate_def require_def gif_def IsUploaded_def)
  then show ?thesis
    using media_urls_are_gated [OF gif_shown_run [of undefined] refl, of anyone 9 "''m1''" "''thumb''" "\<lambda>_. 0" url] anyone_facts
    by (auto simp: Record_read_def)
qed

section \<open>Bytes and rows\<close>

text \<open>
  C0: Deleting a reservation whose bytes have landed leaves them in the bucket: the call succeeds, the
  row is gone, the bucket is as it was, and no asset that is left has a key that reaches them.
\<close>

theorem reservation_deleted_without_its_bytes:
  assumes "reachable_from mr_start (media_step M L) s" and "m = mr_M s"
    and "media_authorize M ctx ''content:delete'' i = Inr sub" and "GetMediaAsset_of (TenantID sub) i m = Inr a" and "\<not> IsUploaded a"
    and "DeleteMediaAsset M ctx i force m = (m', None)"
  shows "GetMediaAsset_of (TenantID sub) i m' = Inl entry_not_found \<and> md_Bucket m' = md_Bucket m \<and>
    (\<forall>b \<in> set (db_Assets (md_DB m')). ma_StorageKey a \<notin> key_family (ma_StorageKey b))"
proof -
  have ok: "media_ok (db_Assets (md_DB m)) (md_Variants m)"
    using mr.reachable_inv [OF assms(1)] by (simp add: mr_inv_def sound_def assms(2))
  note own = GetMediaAsset_of_in [OF assms(4)]
  have "mv_AssetID v \<noteq> i" if row: "v \<in> set (md_Variants m)" for v
  proof
    assume v: "mv_AssetID v = i"
    obtain b where b: "b \<in> set (db_Assets (md_DB m))" "row_fits b v" using ok row unfolding media_ok_def by blast
    have "ma_ID b = mv_AssetID v" "IsUploaded b" using b(2) unfolding row_fits_def by blast+
    then have "b = a" using own v asset_unique [OF ok b(1), of a] by metis
    then show False using \<open>IsUploaded b\<close> assms(5) by metis
  qed
  then have keys: "variant_keys (TenantID sub) i m = []" by (auto simp: variant_keys_def map_filter_def filter_empty_conv)
  from assms(6) obtain q where q: "DeleteMedia_checks M ctx i force m = Inr q" "DeleteMedia_commit M (fst q) (snd q) m = (m', None)"
    by (auto simp: DeleteMediaAsset_def split: sum.splits)
  have "q = (sub, a)"
    using q(1) assms(3,4) unfolding DeleteMedia_checks_def and_then_Inr by (elim exE conjE) (simp only: sum.inject)
  then have m': "m' = drop_asset i m"
    using q(2) keys own assms(4,5) by (simp add: DeleteMedia_commit_def DeleteMediaAsset_repo_def Let_def)
  have as: "db_Assets (md_DB m') = filter (\<lambda>b. ma_ID b \<noteq> i) (db_Assets (md_DB m))" by (simp add: m' drop_asset_def)
  have "ma_StorageKey a \<notin> key_family (ma_StorageKey b)" if "b \<in> set (db_Assets (md_DB m'))" for b
    using that families_apart [OF ok, of a b "ma_StorageKey a"] own by (simp add: as key_family_def)
  moreover have "find (\<lambda>b. ma_TenantID b = TenantID sub \<and> ma_ID b = i) (db_Assets (md_DB m')) = None"
    by (simp add: as find_None_iff)
  ultimately show ?thesis by (simp add: GetMediaAsset_of_def GetMediaAsset_repo_def m' drop_asset_def)
qed

theorem reservation_deleted_without_its_bytes_witness:
  "\<exists>m'. DeleteMediaAsset demo_media (Some demo_user) ''m1'' False (gif_store [gif 0 None] True) = (m', None) \<and>
     md_Bucket m' ''acme/m1-s'' = Some gif_bytes \<and> GetMediaAsset_of ''acme'' ''m1'' m' = Inl entry_not_found"
proof -
  let ?m = "gif_store [gif 0 None] True"
  have a: "GetMediaAsset_of ''acme'' ''m1'' ?m = Inr (gif 0 None)" "ma_ID (gif 0 None) = ''m1''" "\<not> IsUploaded (gif 0 None)"
    by (simp_all add: GetMediaAsset_of_def GetMediaAsset_repo_def gif_store_def gif_def IsUploaded_def)
  have "snd (MediaReferencedBy_repo ''acme'' ''m1'' 20 0 ?m) = 0"
    by (rule unlinked_no_refs) (simp add: linked_asset_def gif_store_def empty_db_def)
  then obtain m' where d: "DeleteMediaAsset demo_media (Some demo_user) ''m1'' False ?m = (m', None)"
    using a by (auto simp: DeleteMediaAsset_def DeleteMedia_checks_def DeleteMedia_commit_def DeleteMediaAsset_repo_def Let_def
        require_def split_beta)
  then show ?thesis
    using reservation_deleted_without_its_bytes [OF gif_run(1) refl, of "Some demo_user" "''m1''" demo_user "gif 0 None" False m'] a
    by (auto simp: gif_store_def)
qed

text \<open>
  C0: The signed form outlives the look at the bytes.  Until it expires its holder replaces the object
  of an asset that is confirmed and in use by bytes that are not what was declared: the address resolves
  as before and now serves them, an unforced deletion is still refused because the asset is in use, but
  completing the upload once more finds the mismatch and deletes the asset under the entries that show it.
\<close>

theorem upload_form_outlives_the_check:
  assumes "\<And>action. media_authorize M ctx action i = Inr sub" and "me_Enabled M" and "\<And>what k. \<not> me_Down M what k"
    and "GetMediaAsset_of (TenantID sub) i m = Inr a" and "sniffEnforced (ma_ContentType a)"
    and "distinct (map ma_ID (db_Assets (md_DB m)))"
    and "up_MaxBytes up = MaxUploadBytes" and "post_form now up a body m = Some m'"
    and "\<not> bytesMatchDeclared (readSniffWindow body) (ma_ContentType a)"
    and "0 < snd (MediaReferencedBy_repo (TenantID sub) i 20 0 m)"
  shows "ResolveMediaURL M t ctx i preset m' c = ResolveMediaURL M t ctx i preset m c \<and>
    map_option ob_Bytes (Get_object M (ma_StorageKey a) m') = Some body \<and>
    (\<exists>e. DeleteMediaAsset M ctx i False m' = (m', Some e) \<and> sweepErrorCode e = ''CONTENT_MEDIA_IN_USE'') \<and>
    (\<exists>m''. CompleteMediaUpload M t ctx i m' = (m'', Inl ErrMediaBytesMismatch) \<and>
       GetMediaAsset_of (TenantID sub) i m'' = Inl entry_not_found)"
proof -
  note own = GetMediaAsset_of_in [OF assms(4)]
  have m': "m' = posted_object (ma_StorageKey a) (ma_ContentType a) body m" and len: "length body \<le> MaxUploadBytes"
    using assms(7,8) by (auto simp: post_form_def form_accepts_def split: if_splits)
  have db: "md_DB m' = md_DB m" "md_Variants m' = md_Variants m" by (simp_all add: m' posted_object_def)
  have bucket: "md_Bucket m' (ma_StorageKey a) = Some \<lparr>ob_Bytes = body, ob_ContentType = ma_ContentType a\<rparr>"
    by (simp add: m' posted_object_def)
  have a: "GetMediaAsset_of (TenantID sub) i m' = Inr a" using assms(4) by (simp add: GetMediaAsset_of_def db)
  have refs: "MediaReferencedBy_repo (TenantID sub) i 20 0 m' = MediaReferencedBy_repo (TenantID sub) i 20 0 m"
    by (simp add: MediaReferencedBy_repo_def db)
  have "key_for preset b m' = key_for preset b m" for b by (simp add: key_for_def ListMediaVariants_def db)
  then have "ResolveMediaURL M t ctx i preset m' c = ResolveMediaURL M t ctx i preset m c"
    by (simp add: ResolveMediaURL_def GetMediaAsset_of_def media_gate_def db cong del: sum.case_cong_weak)
  moreover have "\<exists>e. DeleteMedia_checks M ctx i False m' = Inl e \<and> sweepErrorCode e = ''CONTENT_MEDIA_IN_USE''"
    using assms(1,2,10) a by (simp add: DeleteMedia_checks_def require_def refs split_beta errMediaInUse_def sweepErrorCode_def)
  then have "\<exists>e. DeleteMediaAsset M ctx i False m' = (m', Some e) \<and> sweepErrorCode e = ''CONTENT_MEDIA_IN_USE''"
    by (auto simp: DeleteMediaAsset_def)
  moreover have "uploadTypeAllowed (normalizeContentType (ma_ContentType a))"
    using assms(5) by (auto simp: sniffEnforced_def IsImageContentType_def uploadTypeAllowed_def normalizeContentType_def
        allowedUploadTypes_def split: if_splits)
  then have "Complete_reads M ctx i m' = Inr (sub, Discard a ErrMediaBytesMismatch)"
    using assms(1,2,3,5,9) a bucket len by (simp add: Complete_reads_def Stat_def Get_object_def require_def)
  then have c: "CompleteMediaUpload M t ctx i m' = (discardUpload M (TenantID sub) a m', Inl ErrMediaBytesMismatch)"
    by (simp add: CompleteMediaUpload_def Complete_writes_def)
  have "db_Assets (md_DB (discardUpload M (TenantID sub) a m')) = filter (\<lambda>b. ma_ID b \<noteq> i) (db_Assets (md_DB m))"
    using a own by (simp add: discardUpload_def DeleteMediaAsset_repo_def drop_asset_def db)
  then have "GetMediaAsset_of (TenantID sub) i (discardUpload M (TenantID sub) a m') = Inl entry_not_found"
    by (simp add: GetMediaAsset_of_def GetMediaAsset_repo_def find_None_iff split: option.splits)
  moreover have "map_option ob_Bytes (Get_object M (ma_StorageKey a) m') = Some body"
    using bucket assms(3) by (simp add: Get_object_def)
  ultimately show ?thesis using c by blast
qed

text \<open>The form of the upload above, used again with a page of markup while a published entry shows the image.\<close>

theorem upload_form_outlives_the_check_witness:
  "\<exists>m' m''. CreateMediaUpload demo_media (Some demo_user) ''m1'' ''s'' 0 ''image/gif'' no_metadata (gif_store [] False) =
       (gif_store [gif 0 None] False, Inr gif_form) \<and>
     post_form 2 gif_form (gif 6 (Some 1)) ''<html>'' (gif_done\<lparr>md_DB := gif_shown\<rparr>) = Some m' \<and>
     map_option ob_Bytes (Get_object demo_media ''acme/m1-s'' m') = Some ''<html>'' \<and>
     CompleteMediaUpload demo_media 3 (Some demo_user) ''m1'' m' = (m'', Inl ErrMediaBytesMismatch) \<and>
     GetMediaAsset_of ''acme'' ''m1'' m'' = Inl entry_not_found"
proof -
  let ?m = "gif_done\<lparr>md_DB := gif_shown\<rparr>"
  have a: "GetMediaAsset_of ''acme'' ''m1'' ?m = Inr (gif 6 (Some 1))" "ma_StorageKey (gif 6 (Some 1)) = ''acme/m1-s''"
      "ma_ContentType (gif 6 (Some 1)) = ''image/gif''" "distinct (map ma_ID (db_Assets (md_DB ?m)))"
    by (simp_all add: GetMediaAsset_of_def GetMediaAsset_repo_def gif_shown_def gif_done_def gif_store_def gif_def)
  have "form_accepts 2 gif_form ''<html>''"
    by (simp add: form_accepts_def gif_form_def uploadTTL_def second_def MaxUploadBytes_def)
  then obtain m' where p: "post_form 2 gif_form (gif 6 (Some 1)) ''<html>'' ?m = Some m'" by (simp add: post_form_def)
  have r: "0 < snd (MediaReferencedBy_repo ''acme'' ''m1'' 20 0 ?m)"
    by (simp add: MediaReferencedBy_repo_def referencedByQuery_def links_to_def referring_row_def Let_def gif_shown_def gif_done_def
        gif_store_def web_row_def demo_row_def demo_type_def empty_db_def map_filter_def)
  have b: "\<not> bytesMatchDeclared (readSniffWindow ''<html>'') ''image/gif''" by code_simp
  have u: "up_MaxBytes gif_form = MaxUploadBytes" by (simp add: gif_form_def)
  show ?thesis
    using upload_form_outlives_the_check [of demo_media "Some demo_user" "''m1''" demo_user ?m "gif 6 (Some 1)" gif_form 2 "''<html>''" m' 3 "[]" "\<lambda>_. 0"]
      a b r u p gif_reserved gif_types by auto
qed

end
