(* ===== verification/Outbox.thy ===== *)
theory Outbox
  imports Entry_Store
begin

text \<open>
  The outbox of integration events (\<open>pkg/outbox\<close>): rows enqueued in the transaction of a write,
  claimed by polling workers, delivered to the user-state service or to the webhooks of a
  tenant, and marked done, retried or dead.  What the network answers and whether a mark
  reaches the database are functions; times are seconds.
\<close>

section \<open>Events\<close>

definition EventUserCreated :: string where "EventUserCreated = ''user.created''"
definition EventUserUpdated :: string where "EventUserUpdated = ''user.updated''"
definition EventUserDeleted :: string where "EventUserDeleted = ''user.deleted''"

definition IsContentEvent :: "string \<Rightarrow> bool" where
  "IsContentEvent eventType \<longleftrightarrow> HasPrefix eventType ''content.''"

text \<open>
  \<open>json.Unmarshal\<close> into a struct: a missing key and a null leave the zero value, another kind of
  value is an error.  Keys are the ones the producers write.
\<close>

definition unmarshal_fields :: "json \<Rightarrow> go_error + doc" where
  "unmarshal_fields v = (case v of JObj d \<Rightarrow> Inr d | JNull \<Rightarrow> Inr [] | _ \<Rightarrow> Inl (PlainError ''cannot unmarshal''))"

definition string_field_of :: "doc \<Rightarrow> string \<Rightarrow> go_error + string" where
  "string_field_of d k = (case map_of d k of None \<Rightarrow> Inr [] | Some JNull \<Rightarrow> Inr [] | Some (JStr s) \<Rightarrow> Inr s
     | Some _ \<Rightarrow> Inl (PlainError ''cannot unmarshal''))"

definition int_field_of :: "doc \<Rightarrow> string \<Rightarrow> go_error + int" where
  "int_field_of d k = (case map_of d k of None \<Rightarrow> Inr 0 | Some JNull \<Rightarrow> Inr 0
     | Some (JNum (Fin q)) \<Rightarrow> (if q = of_int \<lfloor>q\<rfloor> \<and> -(2^63) \<le> \<lfloor>q\<rfloor> \<and> \<lfloor>q\<rfloor> < 2^63 then Inr \<lfloor>q\<rfloor> else Inl (PlainError ''cannot unmarshal''))
     | Some _ \<Rightarrow> Inl (PlainError ''cannot unmarshal''))"

record user_payload =
  up_UserID :: string
  up_Status :: string
  up_StatusVersion :: int
  up_Username :: string

definition ParseUserPayload :: "json \<Rightarrow> go_error + user_payload" where
  "ParseUserPayload raw =
     and_then (unmarshal_fields raw) (\<lambda>d.
     and_then (string_field_of d ''user_id'') (\<lambda>i.
     and_then (string_field_of d ''status'') (\<lambda>s.
     and_then (int_field_of d ''status_version'') (\<lambda>v.
     and_then (string_field_of d ''username'') (\<lambda>u.
     Inr \<lparr>up_UserID = i, up_Status = s, up_StatusVersion = v, up_Username = u\<rparr>)))))"

text \<open>\<open>omitempty\<close> leaves an empty string out.\<close>

definition omit_empty :: "string \<Rightarrow> string \<Rightarrow> doc" where
  "omit_empty k s = (if s = [] then [] else [(k, JStr s)])"

definition MarshalPayload :: "user_payload \<Rightarrow> json" where
  "MarshalPayload p = JObj ([(''user_id'', JStr (up_UserID p)), (''status'', JStr (up_Status p)),
     (''status_version'', JNum (Fin (of_int (up_StatusVersion p))))] @ omit_empty ''username'' (up_Username p))"

record content_payload =
  cp_TenantID :: string
  cp_EntryID :: string
  cp_ContentType :: string
  cp_Locale :: string

definition ParseContentPayload :: "json \<Rightarrow> go_error + content_payload" where
  "ParseContentPayload raw =
     and_then (unmarshal_fields raw) (\<lambda>d.
     and_then (string_field_of d ''tenant_id'') (\<lambda>t.
     and_then (string_field_of d ''entry_id'') (\<lambda>i.
     and_then (string_field_of d ''content_type'') (\<lambda>c.
     and_then (string_field_of d ''locale'') (\<lambda>l.
     and_then (require (t \<noteq> []) (PlainError ''outbox: content payload names no tenant'')) (\<lambda>_.
     Inr \<lparr>cp_TenantID = t, cp_EntryID = i, cp_ContentType = c, cp_Locale = l\<rparr>))))))"

text \<open>The payload \<open>emitEntryEvent\<close> marshals for an event of \<open>Entry_Store\<close>.\<close>

definition content_event_payload :: "outbox_event \<Rightarrow> json" where
  "content_event_payload ev = JObj ([(''tenant_id'', JStr (ev_TenantID ev)), (''entry_id'', JStr (ev_AggregateID ev)),
     (''content_type'', JStr (ev_ContentType ev))] @ omit_empty ''locale'' (ev_Locale ev))"

section \<open>The table\<close>

datatype outbox_status = OxPending | OxProcessing | OxDone | OxFailed

record outbox_row =
  ox_ID :: uuid
  ox_AggregateID :: uuid
  ox_EventType :: string
  ox_Payload :: json
  ox_Status :: outbox_status
  ox_RetryCount :: nat
  ox_IdempotencyKey :: string
  ox_LastError :: "go_error option"
  ox_CreatedAt :: nat
  ox_ClaimedAt :: "nat option"
  ox_ProcessedAt :: "nat option"

text \<open>\<open>ON CONFLICT (idempotency_key) DO NOTHING\<close>; the identifier and the time are the database's.\<close>

definition EnqueueTx ::
    "uuid \<Rightarrow> nat \<Rightarrow> uuid \<Rightarrow> string \<Rightarrow> json \<Rightarrow> string \<Rightarrow> outbox_row list \<Rightarrow> outbox_row list" where
  "EnqueueTx newID now aggregate eventType payload key rows =
     (if list_ex (\<lambda>r. ox_IdempotencyKey r = key) rows then rows
      else rows @ [\<lparr>ox_ID = newID, ox_AggregateID = aggregate, ox_EventType = eventType, ox_Payload = payload,
                    ox_Status = OxPending, ox_RetryCount = 0, ox_IdempotencyKey = key, ox_LastError = None,
                    ox_CreatedAt = now, ox_ClaimedAt = None, ox_ProcessedAt = None\<rparr>])"

definition update_ox :: "uuid \<Rightarrow> (outbox_row \<Rightarrow> outbox_row) \<Rightarrow> outbox_row list \<Rightarrow> outbox_row list" where
  "update_ox i f rows = map (\<lambda>r. if ox_ID r = i then f r else r) rows"

definition oldest_pending :: "nat \<Rightarrow> outbox_row list \<Rightarrow> outbox_row list" where
  "oldest_pending limit rows = take limit (sort_key ox_CreatedAt (filter (\<lambda>r. ox_Status r = OxPending) rows))"

definition claimed_row :: "nat \<Rightarrow> outbox_row \<Rightarrow> outbox_row" where
  "claimed_row now r = r\<lparr>ox_Status := OxProcessing, ox_ClaimedAt := Some now\<rparr>"

text \<open>\<open>RETURNING\<close> promises no order: \<open>ret\<close> is the order the database answers in.\<close>

definition ClaimPending ::
    "(outbox_row list \<Rightarrow> outbox_row list) \<Rightarrow> nat \<Rightarrow> nat \<Rightarrow> outbox_row list \<Rightarrow> outbox_row list \<times> outbox_row list" where
  "ClaimPending ret limit now rows =
     (let picked = ox_ID ` set (oldest_pending limit rows) in
      (ret (map (claimed_row now) (filter (\<lambda>r. ox_ID r \<in> picked) rows)),
       map (\<lambda>r. if ox_ID r \<in> picked then claimed_row now r else r) rows))"

definition MarkDone :: "uuid \<Rightarrow> nat \<Rightarrow> outbox_row list \<Rightarrow> outbox_row list" where
  "MarkDone i now rows =
     update_ox i (\<lambda>r. r\<lparr>ox_Status := OxDone, ox_ProcessedAt := Some now, ox_LastError := None\<rparr>) rows"

definition failed_row :: "go_error \<Rightarrow> nat \<Rightarrow> outbox_row \<Rightarrow> outbox_row" where
  "failed_row e maxRetries r = r\<lparr>ox_RetryCount := ox_RetryCount r + 1, ox_LastError := Some e,
     ox_Status := (if maxRetries \<le> ox_RetryCount r + 1 then OxFailed else OxPending)\<rparr>"

text \<open>A row that is gone answers \<open>pgx.ErrNoRows\<close>.\<close>

definition MarkFailedWithRetry ::
    "uuid \<Rightarrow> go_error \<Rightarrow> nat \<Rightarrow> outbox_row list \<Rightarrow> go_error + bool \<times> outbox_row list" where
  "MarkFailedWithRetry i e maxRetries rows =
     (case find (\<lambda>r. ox_ID r = i) rows of
        None \<Rightarrow> Inl (PlainError ''no rows in result set'')
      | Some r \<Rightarrow> Inr (ox_Status (failed_row e maxRetries r) = OxFailed, update_ox i (failed_row e maxRetries) rows))"

definition stale :: "nat \<Rightarrow> nat \<Rightarrow> outbox_row \<Rightarrow> bool" where
  "stale olderThan now r \<longleftrightarrow> ox_Status r = OxProcessing \<and>
     (case ox_ClaimedAt r of None \<Rightarrow> False | Some t \<Rightarrow> t + olderThan < now)"

definition ReclaimStale :: "nat \<Rightarrow> nat \<Rightarrow> outbox_row list \<Rightarrow> nat \<times> outbox_row list" where
  "ReclaimStale olderThan now rows =
     (length (filter (stale olderThan now) rows),
      map (\<lambda>r. if stale olderThan now r
                then r\<lparr>ox_Status := OxPending, ox_ClaimedAt := None, ox_LastError := Some (PlainError ''reclaimed: stale processing'')\<rparr>
                else r) rows)"

record pending_stats =
  ps_Pending :: nat
  ps_LagSeconds :: nat
  ps_Processing :: nat
  ps_ProcessingLagSeconds :: nat

definition lag :: "nat \<Rightarrow> nat list \<Rightarrow> nat" where
  "lag now ts = (if ts = [] then 0 else now - Min (set ts))"

definition PendingStats :: "nat \<Rightarrow> outbox_row list \<Rightarrow> pending_stats" where
  "PendingStats now rows =
     (let p = filter (\<lambda>r. ox_Status r = OxPending) rows; q = filter (\<lambda>r. ox_Status r = OxProcessing) rows in
      \<lparr>ps_Pending = length p, ps_LagSeconds = lag now (map ox_CreatedAt p), ps_Processing = length q,
       ps_ProcessingLagSeconds = lag now (concat (map (\<lambda>r. case ox_ClaimedAt r of None \<Rightarrow> [] | Some t \<Rightarrow> [t]) q))\<rparr>)"

definition CountPending :: "nat \<Rightarrow> outbox_row list \<Rightarrow> nat" where
  "CountPending now rows = ps_Pending (PendingStats now rows)"

section \<open>Downstreams\<close>

record upsert_request =
  ur_UserID :: uuid
  ur_Status :: string
  ur_StatusVersion :: int
  ur_IdempotencyKey :: string
  ur_EventType :: string

record webhook_endpoint =
  we_ID :: uuid
  we_URL :: string
  we_Secret :: string

record http_request =
  hr_Method :: string
  hr_URL :: string
  hr_Headers :: "(string \<times> string) list"
  hr_Body :: json

text \<open>
  What the outside answers: the HTTP client (a transport error or a status code; redirects are
  not followed), the directory of webhooks, the signature of a body, and whether a mark reaches
  the database.
\<close>

record outside =
  os_Do :: "http_request \<Rightarrow> go_error + nat"
  os_Endpoints :: "string \<Rightarrow> go_error + webhook_endpoint list"
  os_Sign :: "string \<Rightarrow> json \<Rightarrow> string"
  os_Marks :: "uuid \<Rightarrow> bool"

definition accepted :: "string \<Rightarrow> go_error + nat \<Rightarrow> go_error option" where
  "accepted text answer = (case answer of Inl e \<Rightarrow> Some e
     | Inr code \<Rightarrow> if 200 \<le> code \<and> code \<le> 299 then None else Some (PlainError text))"

definition UpsertUserState :: "outside \<Rightarrow> string \<Rightarrow> upsert_request \<Rightarrow> go_error option" where
  "UpsertUserState net base req = accepted ''mcp: upsert status'' (os_Do net
     \<lparr>hr_Method = ''PUT'', hr_URL = base @ ''/v1/users/state'',
      hr_Headers = [(''Content-Type'', ''application/json''), (''Idempotency-Key'', ur_IdempotencyKey req)],
      hr_Body = JObj [(''user_id'', JStr (ur_UserID req)), (''status'', JStr (ur_Status req)),
        (''status_version'', JNum (Fin (of_int (ur_StatusVersion req)))), (''event_type'', JStr (ur_EventType req)),
        (''idempotency_key'', JStr (ur_IdempotencyKey req))]\<rparr>)"

definition webhook_request :: "outside \<Rightarrow> webhook_endpoint \<Rightarrow> string \<Rightarrow> uuid \<Rightarrow> json \<Rightarrow> http_request" where
  "webhook_request net ep eventType deliveryID body =
     \<lparr>hr_Method = ''POST'', hr_URL = we_URL ep,
      hr_Headers = [(''Content-Type'', ''application/json''), (''X-Webhook-Event'', eventType),
        (''X-Webhook-Delivery'', deliveryID), (''X-Webhook-Signature'', ''sha256='' @ os_Sign net (we_Secret ep) body)],
      hr_Body = body\<rparr>"

definition Send_webhook :: "outside \<Rightarrow> webhook_endpoint \<Rightarrow> string \<Rightarrow> uuid \<Rightarrow> json \<Rightarrow> go_error option" where
  "Send_webhook net ep eventType deliveryID body =
     accepted ''receiver answered'' (os_Do net (webhook_request net ep eventType deliveryID body))"

section \<open>The worker\<close>

record worker =
  wk_Limit :: nat
  wk_MaxRetries :: nat
  wk_StaleThreshold :: nat
  wk_BaseURL :: string
  wk_Webhooks :: bool
  wk_Notify :: bool

definition NewWorker :: "string \<Rightarrow> int \<Rightarrow> int \<Rightarrow> int \<Rightarrow> worker" where
  "NewWorker base batchSize maxRetries staleThreshold =
     \<lparr>wk_Limit = (if batchSize \<le> 0 then 10 else nat batchSize), wk_MaxRetries = (if maxRetries \<le> 0 then 5 else nat maxRetries),
      wk_StaleThreshold = (if staleThreshold \<le> 0 then 60 else nat staleThreshold), wk_BaseURL = base,
      wk_Webhooks = False, wk_Notify = False\<rparr>"

text \<open>A webhook that fails ends the fan-out; the ones before it have the event already.\<close>

definition deliverContent :: "worker \<Rightarrow> outside \<Rightarrow> outbox_row \<Rightarrow> go_error option" where
  "deliverContent w net row =
     (if \<not> wk_Webhooks w then Some (PlainError ''outbox: no webhook delivery is wired'')
      else case ParseContentPayload (ox_Payload row) of
        Inl e \<Rightarrow> Some e
      | Inr p \<Rightarrow>
          (case os_Endpoints net (cp_TenantID p) of
             Inl e \<Rightarrow> Some e
           | Inr eps \<Rightarrow> first_error (\<lambda>ep. Send_webhook net ep (ox_EventType row) (ox_ID row) (ox_Payload row)) eps))"

definition deliver :: "env \<Rightarrow> worker \<Rightarrow> outside \<Rightarrow> outbox_row \<Rightarrow> go_error option" where
  "deliver E w net row =
     (if ox_EventType row \<in> {EventUserCreated, EventUserUpdated, EventUserDeleted} then
        (case ParseUserPayload (ox_Payload row) of
           Inl e \<Rightarrow> Some e
         | Inr p \<Rightarrow>
             (case uuid_parse E (up_UserID p) of
                None \<Rightarrow> Some (PlainError ''invalid UUID'')
              | Some uid \<Rightarrow> UpsertUserState net (wk_BaseURL w)
                  \<lparr>ur_UserID = uid, ur_Status = up_Status p, ur_StatusVersion = up_StatusVersion p,
                   ur_IdempotencyKey = ox_IdempotencyKey row, ur_EventType = ox_EventType row\<rparr>))
      else if IsContentEvent (ox_EventType row) then deliverContent w net row
      else Some (PlainError ''outbox: no delivery handler for event type''))"

record dead_notice =
  dn_TenantID :: string
  dn_EventType :: string

definition notifyDeadLetter :: "worker \<Rightarrow> outbox_row \<Rightarrow> dead_notice list" where
  "notifyDeadLetter w row =
     (if \<not> wk_Notify w \<or> \<not> IsContentEvent (ox_EventType row) then []
      else case ParseContentPayload (ox_Payload row) of
        Inl _ \<Rightarrow> []
      | Inr p \<Rightarrow> [\<lparr>dn_TenantID = cp_TenantID p, dn_EventType = ox_EventType row\<rparr>])"

text \<open>
  The table, the counters and the notices sent.  \<open>ob_Outcomes\<close> is not in the program: it records
  what became of each delivery, for the theorems to speak of.
\<close>

record outbox =
  ob_Rows :: "outbox_row list"
  ob_Delivered :: nat
  ob_Retried :: nat
  ob_Failed :: nat
  ob_Dead :: nat
  ob_Notices :: "dead_notice list"
  ob_Outcomes :: "(uuid \<times> bool) list"

definition settle_failed :: "worker \<Rightarrow> outside \<Rightarrow> outbox_row \<Rightarrow> go_error \<Rightarrow> outbox \<Rightarrow> outbox" where
  "settle_failed w net row e ob =
     (let marked = (if os_Marks net (ox_ID row) then MarkFailedWithRetry (ox_ID row) e (wk_MaxRetries w) (ob_Rows ob)
                    else Inl (PlainError ''mark retry''));
          ob = ob\<lparr>ob_Failed := ob_Failed ob + 1, ob_Outcomes := ob_Outcomes ob @ [(ox_ID row, False)]\<rparr> in
      case marked of
        Inl _ \<Rightarrow> ob\<lparr>ob_Retried := ob_Retried ob + 1\<rparr>
      | Inr (dead, rows) \<Rightarrow>
          if dead then ob\<lparr>ob_Rows := rows, ob_Dead := ob_Dead ob + 1, ob_Notices := ob_Notices ob @ notifyDeadLetter w row\<rparr>
          else ob\<lparr>ob_Rows := rows, ob_Retried := ob_Retried ob + 1\<rparr>)"

definition settle_row :: "env \<Rightarrow> worker \<Rightarrow> outside \<Rightarrow> nat \<Rightarrow> outbox_row \<Rightarrow> outbox \<Rightarrow> outbox" where
  "settle_row E w net now row ob =
     (case deliver E w net row of
        Some e \<Rightarrow> settle_failed w net row e ob
      | None \<Rightarrow>
          (let ob = ob\<lparr>ob_Outcomes := ob_Outcomes ob @ [(ox_ID row, True)]\<rparr> in
           if os_Marks net (ox_ID row)
           then ob\<lparr>ob_Rows := MarkDone (ox_ID row) now (ob_Rows ob), ob_Delivered := ob_Delivered ob + 1\<rparr>
           else ob))"

definition processBatch ::
    "env \<Rightarrow> worker \<Rightarrow> outside \<Rightarrow> (outbox_row list \<Rightarrow> outbox_row list) \<Rightarrow> nat \<Rightarrow> outbox \<Rightarrow> outbox" where
  "processBatch E w net ret now ob =
     (case ClaimPending ret (wk_Limit w) now (ob_Rows ob) of
        (claimed, rows) \<Rightarrow> fold (settle_row E w net now) claimed (ob\<lparr>ob_Rows := rows\<rparr>))"

definition tick :: "env \<Rightarrow> worker \<Rightarrow> outside \<Rightarrow> (outbox_row list \<Rightarrow> outbox_row list) \<Rightarrow> nat \<Rightarrow> outbox \<Rightarrow> outbox \<times> pending_stats" where
  "tick E w net ret now ob =
     (let ob = processBatch E w net ret now (ob\<lparr>ob_Rows := snd (ReclaimStale (wk_StaleThreshold w) now (ob_Rows ob))\<rparr>) in
      (ob, PendingStats now (ob_Rows ob)))"

end
