(* ===== verification/Outbox_Runs.thy ===== *)
theory Outbox_Runs
  imports Outbox "HOL-Library.Multiset"
begin

text \<open>
  Runs of the outbox workers: any number of them over one table, at the grain of their
  statements, and the ticks of one worker.  An event is never lost, is done only after a
  delivery and dead only after as many failures as are allowed; one worker alone settles
  everything; and what a worker that was too slow writes last overrides the others.
\<close>

section \<open>Many workers\<close>

text \<open>The shared state, and the rows workers hold between claiming and marking.\<close>

record outbox_run =
  ou_Box :: outbox
  ou_Held :: "outbox_row list"

definition with_rows :: "outbox_row list \<Rightarrow> outbox_run \<Rightarrow> outbox_run" where
  "with_rows rows s = s\<lparr>ou_Box := (ou_Box s)\<lparr>ob_Rows := rows\<rparr>\<rparr>"

lemma with_rows_simps [simp]:
  "ob_Rows (ou_Box (with_rows rows s)) = rows" "ob_Outcomes (ou_Box (with_rows rows s)) = ob_Outcomes (ou_Box s)"
  "ou_Held (with_rows rows s) = ou_Held s"
  by (simp_all add: with_rows_def)

inductive outbox_step :: "env \<Rightarrow> worker \<Rightarrow> outbox_run \<Rightarrow> outbox_run \<Rightarrow> bool" for E w where
  enqueued: "newID \<notin> ox_ID ` set (ob_Rows (ou_Box s)) \<Longrightarrow>
    outbox_step E w s (with_rows (EnqueueTx newID now aggregate eventType payload key (ob_Rows (ou_Box s))) s)"
| claimed: "ClaimPending ret (wk_Limit w) now (ob_Rows (ou_Box s)) = (got, rows) \<Longrightarrow>
    outbox_step E w s ((with_rows rows s)\<lparr>ou_Held := ou_Held s @ got\<rparr>)"
| settled: "row \<in> set (ou_Held s) \<Longrightarrow>
    outbox_step E w s \<lparr>ou_Box = settle_row E w net now row (ou_Box s), ou_Held = remove1 row (ou_Held s)\<rparr>"
| crashed: "outbox_step E w s (s\<lparr>ou_Held := []\<rparr>)"
| reclaimed: "outbox_step E w s (with_rows (snd (ReclaimStale (wk_StaleThreshold w) now (ob_Rows (ou_Box s)))) s)"

definition ob_start :: "worker \<Rightarrow> outbox_run \<Rightarrow> bool" where
  "ob_start w s \<longleftrightarrow> 0 < wk_MaxRetries w \<and> ob_Rows (ou_Box s) = [] \<and> ob_Outcomes (ou_Box s) = [] \<and> ou_Held s = []"

definition open_row :: "outbox_row \<Rightarrow> bool" where
  "open_row r \<longleftrightarrow> ox_Status r = OxPending \<or> ox_Status r = OxProcessing"

definition row_tried :: "worker \<Rightarrow> (uuid \<times> bool) list \<Rightarrow> outbox_row \<Rightarrow> bool" where
  "row_tried w tried r \<longleftrightarrow> (ox_Status r = OxDone \<longrightarrow> (ox_ID r, True) \<in> set tried) \<and>
     ox_RetryCount r \<le> count_list tried (ox_ID r, False) \<and> (ox_Status r = OxFailed \<longrightarrow> wk_MaxRetries w \<le> ox_RetryCount r) \<and>
     (open_row r \<longrightarrow> ox_RetryCount r < wk_MaxRetries w)"

definition ob_inv :: "worker \<Rightarrow> outbox_run \<Rightarrow> bool" where
  "ob_inv w s \<longleftrightarrow> 0 < wk_MaxRetries w \<and> distinct (map ox_ID (ob_Rows (ou_Box s))) \<and>
     distinct (map ox_IdempotencyKey (ob_Rows (ou_Box s))) \<and>
     (\<forall>r \<in> set (ob_Rows (ou_Box s)). row_tried w (ob_Outcomes (ou_Box s)) r)"

lemma count_list_snoc: "count_list (xs @ [y]) x = count_list xs x + (if y = x then 1 else 0)"
  by (simp add: count_list_append)

lemma row_tried_more: "row_tried w tried r \<Longrightarrow> row_tried w (tried @ [x]) r"
  by (auto simp: row_tried_def count_list_snoc)

text \<open>A change of rows that keeps identity and key.\<close>

lemma mapped_inv:
  assumes inv: "ob_inv w s" and rows: "ob_Rows (ou_Box s') = map f (ob_Rows (ou_Box s))"
    and same: "\<And>r. ox_ID (f r) = ox_ID r \<and> ox_IdempotencyKey (f r) = ox_IdempotencyKey r"
    and tried: "\<And>r. r \<in> set (ob_Rows (ou_Box s)) \<Longrightarrow> row_tried w (ob_Outcomes (ou_Box s)) r \<Longrightarrow>
      row_tried w (ob_Outcomes (ou_Box s')) (f r)"
  shows "ob_inv w s'"
  using inv tried unfolding ob_inv_def rows by (auto simp: comp_def same)

lemma settle_rows:
  "ob_Rows (settle_row E w net now row ob) =
     (if os_Marks net (ox_ID row) then update_ox (ox_ID row) (case deliver E w net row of
        None \<Rightarrow> (\<lambda>r. r\<lparr>ox_Status := OxDone, ox_ProcessedAt := Some now, ox_LastError := None\<rparr>)
      | Some e \<Rightarrow> failed_row e (wk_MaxRetries w)) (ob_Rows ob) else ob_Rows ob)"
proof -
  have absent: "find (\<lambda>r. ox_ID r = i) rows = None \<Longrightarrow> update_ox i f rows = rows" for i f rows
    by (auto simp: find_None_iff update_ox_def intro: map_idI)
  show ?thesis
    by (auto simp: settle_row_def settle_failed_def MarkDone_def MarkFailedWithRetry_def Let_def absent split: option.split)
qed

lemma settle_outcomes:
  "ob_Outcomes (settle_row E w net now row ob) = ob_Outcomes ob @ [(ox_ID row, deliver E w net row = None)]"
  by (auto simp: settle_row_def settle_failed_def Let_def split: option.split sum.split prod.split)

lemma failed_tried:
  assumes "row_tried w tried r" and "0 < wk_MaxRetries w"
  shows "row_tried w (tried @ [(ox_ID r, False)]) (failed_row e (wk_MaxRetries w) r)"
  using assms by (auto simp: row_tried_def failed_row_def count_list_snoc open_row_def)

lemma done_tried:
  "row_tried w tried r \<Longrightarrow> row_tried w (tried @ [(ox_ID r, True)]) (r\<lparr>ox_Status := OxDone, ox_ProcessedAt := t, ox_LastError := l\<rparr>)"
  by (auto simp: row_tried_def count_list_snoc open_row_def)

lemma settled_inv:
  assumes inv: "ob_inv w s"
  shows "ob_inv w \<lparr>ou_Box = settle_row E w net now row (ou_Box s), ou_Held = h\<rparr>"
proof (cases "os_Marks net (ox_ID row)")
  case False
  show ?thesis
    by (rule mapped_inv [OF inv, of _ "\<lambda>r. r"]) (simp_all add: settle_rows settle_outcomes False row_tried_more)
next
  case True
  let ?f = "\<lambda>r. if ox_ID r = ox_ID row then (case deliver E w net row of
        None \<Rightarrow> (\<lambda>r. r\<lparr>ox_Status := OxDone, ox_ProcessedAt := Some now, ox_LastError := None\<rparr>)
      | Some e \<Rightarrow> failed_row e (wk_MaxRetries w)) r else r"
  have pos: "0 < wk_MaxRetries w" using inv by (simp add: ob_inv_def)
  show ?thesis
  proof (rule mapped_inv [OF inv, of _ ?f])
    show "ob_Rows (ou_Box \<lparr>ou_Box = settle_row E w net now row (ou_Box s), ou_Held = h\<rparr>) = map ?f (ob_Rows (ou_Box s))"
      by (simp add: settle_rows True update_ox_def)
    show "ox_ID (?f r) = ox_ID r \<and> ox_IdempotencyKey (?f r) = ox_IdempotencyKey r" for r
      by (simp add: failed_row_def split: option.split)
    fix r assume t: "row_tried w (ob_Outcomes (ou_Box s)) r"
    show "row_tried w (ob_Outcomes (ou_Box \<lparr>ou_Box = settle_row E w net now row (ou_Box s), ou_Held = h\<rparr>)) (?f r)"
      using t failed_tried [OF t pos] done_tried [OF t] row_tried_more [OF t]
      by (auto simp: settle_outcomes split: option.split)
  qed
qed

lemma claimed_inv:
  assumes inv: "ob_inv w s" and c: "ClaimPending ret n now (ob_Rows (ou_Box s)) = (got, rows)"
  shows "ob_inv w ((with_rows rows s)\<lparr>ou_Held := h\<rparr>)"
proof -
  let ?picked = "ox_ID ` set (oldest_pending n (ob_Rows (ou_Box s)))"
  have rows: "rows = map (\<lambda>r. if ox_ID r \<in> ?picked then claimed_row now r else r) (ob_Rows (ou_Box s))"
    using c by (simp add: ClaimPending_def Let_def)
  have pending: "ox_Status r = OxPending" if r: "r \<in> set (ob_Rows (ou_Box s))" "ox_ID r \<in> ?picked" for r
  proof -
    obtain r' where r': "r' \<in> set (oldest_pending n (ob_Rows (ou_Box s)))" "ox_ID r' = ox_ID r" using r(2) by auto
    then have "r' \<in> set (ob_Rows (ou_Box s))" "ox_Status r' = OxPending"
      by (auto simp: oldest_pending_def dest: in_set_takeD)
    moreover have "r' = r" using calculation(1) r(1) r'(2) inv by (auto simp: ob_inv_def distinct_map inj_on_def)
    ultimately show ?thesis by simp
  qed
  show ?thesis
    by (rule mapped_inv [OF inv, of _ "\<lambda>r. if ox_ID r \<in> ?picked then claimed_row now r else r"])
      (use pending in \<open>auto simp: rows claimed_row_def row_tried_def open_row_def\<close>)
qed

lemma reclaimed_inv:
  assumes inv: "ob_inv w s"
  shows "ob_inv w (with_rows (snd (ReclaimStale t now (ob_Rows (ou_Box s)))) s)"
  by (rule mapped_inv [OF inv, of _ "\<lambda>r. if stale t now r
      then r\<lparr>ox_Status := OxPending, ox_ClaimedAt := None, ox_LastError := Some (PlainError ''reclaimed: stale processing'')\<rparr> else r"])
    (auto simp: ReclaimStale_def row_tried_def open_row_def stale_def)

lemma enqueued_inv:
  assumes inv: "ob_inv w s" and new: "newID \<notin> ox_ID ` set (ob_Rows (ou_Box s))"
  shows "ob_inv w (with_rows (EnqueueTx newID now aggregate eventType payload key (ob_Rows (ou_Box s))) s)"
  using inv new by (auto simp: ob_inv_def EnqueueTx_def row_tried_def open_row_def list_ex_iff)

interpretation ob: machine "ob_start w" "outbox_step E w" "ob_inv w" for E w
proof
  show "ob_start w s \<Longrightarrow> ob_inv w s" for s by (simp add: ob_start_def ob_inv_def)
  show "ob_inv w t" if "ob_inv w s" "outbox_step E w s t" for s t
    using that(2,1)
    by cases (simp_all add: enqueued_inv claimed_inv settled_inv reclaimed_inv, simp add: ob_inv_def)
qed

definition same_event :: "outbox_row \<Rightarrow> outbox_row \<Rightarrow> bool" where
  "same_event r r' \<longleftrightarrow> ox_ID r' = ox_ID r \<and> ox_IdempotencyKey r' = ox_IdempotencyKey r \<and>
     ox_EventType r' = ox_EventType r \<and> ox_Payload r' = ox_Payload r"

lemma same_event_refl [simp]: "same_event r r" by (simp add: same_event_def)

lemma same_event_trans: "same_event a b \<Longrightarrow> same_event b c \<Longrightarrow> same_event a c"
  by (simp add: same_event_def)

lemma step_keeps_events:
  assumes "outbox_step E w s t" and r: "r \<in> set (ob_Rows (ou_Box s))"
  shows "\<exists>r' \<in> set (ob_Rows (ou_Box t)). same_event r r'"
proof -
  have kept: "\<exists>r' \<in> set (map f (ob_Rows (ou_Box s))). same_event r r'" if "\<And>r. same_event r (f r)" for f
    using r that by auto
  from assms(1) show ?thesis
  proof cases
    case (claimed ret now got rows)
    have "rows = map (\<lambda>r. if ox_ID r \<in> ox_ID ` set (oldest_pending (wk_Limit w) (ob_Rows (ou_Box s))) then claimed_row now r else r) (ob_Rows (ou_Box s))"
      using claimed(2) by (simp add: ClaimPending_def Let_def)
    then show ?thesis using kept [of "\<lambda>r. if ox_ID r \<in> ox_ID ` set (oldest_pending (wk_Limit w) (ob_Rows (ou_Box s))) then claimed_row now r else r"]
      by (simp add: claimed(1) same_event_def claimed_row_def)
  next
    case (settled row net now)
    show ?thesis unfolding settled(1) outbox_run.simps settle_rows update_ox_def
    proof (split if_split, intro conjI impI)
      show "\<exists>r' \<in> set (map (\<lambda>r. if ox_ID r = ox_ID row then (case deliver E w net row of
              None \<Rightarrow> (\<lambda>r. r\<lparr>ox_Status := OxDone, ox_ProcessedAt := Some now, ox_LastError := None\<rparr>)
            | Some e \<Rightarrow> failed_row e (wk_MaxRetries w)) r else r) (ob_Rows (ou_Box s))). same_event r r'"
        by (rule kept) (simp add: same_event_def failed_row_def split: option.split)
    qed (use r in \<open>auto intro: bexI [of _ r]\<close>)
  next
    case (reclaimed now)
    show ?thesis unfolding reclaimed(1) with_rows_simps ReclaimStale_def snd_conv by (rule kept) (simp add: same_event_def)
  next
    case (enqueued newID now aggregate eventType payload key)
    have "r \<in> set (ob_Rows (ou_Box t))" using r by (simp add: enqueued(1) EnqueueTx_def)
    then show ?thesis using same_event_refl by blast
  qed (use r same_event_refl in \<open>force simp: EnqueueTx_def\<close>)
qed

lemma run_keeps_events:
  assumes "(outbox_step E w)\<^sup>*\<^sup>* s t" and "r \<in> set (ob_Rows (ou_Box s))"
  shows "\<exists>r' \<in> set (ob_Rows (ou_Box t)). same_event r r'"
  using assms
proof (induction rule: rtranclp_induct)
  case (step y z)
  then obtain r1 where "r1 \<in> set (ob_Rows (ou_Box y))" "same_event r r1" by blast
  then show ?case using step_keeps_events [OF step.hyps(2)] same_event_trans by blast
qed (use same_event_refl in blast)

section \<open>One worker\<close>

text \<open>The work that is left: the attempts a row still has.\<close>

definition attempts_left :: "nat \<Rightarrow> outbox_row \<Rightarrow> nat" where
  "attempts_left m r = (if open_row r then m - ox_RetryCount r else 0)"

definition work_left :: "nat \<Rightarrow> outbox_row list \<Rightarrow> nat" where
  "work_left m rows = sum_list (map (attempts_left m) rows)"

primrec ticks :: "env \<Rightarrow> worker \<Rightarrow> (nat \<Rightarrow> outside) \<Rightarrow> (outbox_row list \<Rightarrow> outbox_row list) \<Rightarrow> (nat \<Rightarrow> nat) \<Rightarrow> nat \<Rightarrow> outbox \<Rightarrow> outbox" where
  "ticks E w nets ret clock 0 ob = ob"
| "ticks E w nets ret clock (Suc n) ob = fst (tick E w (nets n) ret (clock n) (ticks E w nets ret clock n ob))"

definition settled_form :: "env \<Rightarrow> worker \<Rightarrow> outside \<Rightarrow> nat \<Rightarrow> outbox_row \<Rightarrow> outbox_row \<Rightarrow> outbox_row" where
  "settled_form E w net now c = (case deliver E w net c of
        None \<Rightarrow> (\<lambda>r. r\<lparr>ox_Status := OxDone, ox_ProcessedAt := Some now, ox_LastError := None\<rparr>)
      | Some e \<Rightarrow> failed_row e (wk_MaxRetries w))"

definition quiet :: "worker \<Rightarrow> outbox_row list \<Rightarrow> bool" where
  "quiet w rows \<longleftrightarrow> distinct (map ox_ID rows) \<and> (\<forall>r \<in> set rows. open_row r \<longrightarrow> ox_RetryCount r < wk_MaxRetries w)"

lemma sum_list_single:
  assumes "distinct (map k xs)" and "x \<in> set xs" and "h x + (d::nat) \<le> h' x" and "\<And>y. y \<in> set xs \<Longrightarrow> k y \<noteq> k x \<Longrightarrow> h y = h' y"
  shows "sum_list (map h xs) + d \<le> sum_list (map h' xs)"
  using assms
proof (induction xs)
  case (Cons y ys)
  show ?case
  proof (cases "y = x")
    case True
    then have "map h ys = map h' ys" using Cons.prems by (auto simp: image_iff)
    then have "sum_list (map h ys) = sum_list (map h' ys)" by (rule arg_cong)
    then show ?thesis using Cons.prems(3) True by simp
  next
    case False
    then have "x \<in> set ys" "k y \<noteq> k x" using Cons.prems by auto
    then have "sum_list (map h ys) + d \<le> sum_list (map h' ys)" using Cons by simp
    then show ?thesis using Cons.prems(4) [of y] \<open>k y \<noteq> k x\<close> by simp
  qed
qed simp

lemma settle_one:
  fixes E w net now
  assumes q: "quiet w rows" and r: "r \<in> set rows" "ox_ID r = ox_ID c" "ox_Status r = OxProcessing"
  defines "rows' \<equiv> update_ox (ox_ID c) (settled_form E w net now c) rows"
  shows "quiet w rows'" and "work_left (wk_MaxRetries w) rows' + 1 \<le> work_left (wk_MaxRetries w) rows"
    and "\<And>r'. r' \<in> set rows' \<Longrightarrow> ox_Status r' = OxProcessing \<Longrightarrow> r' \<in> set rows \<and> ox_ID r' \<noteq> ox_ID c"
    and "\<And>r'. r' \<in> set rows \<Longrightarrow> ox_ID r' \<noteq> ox_ID c \<Longrightarrow> r' \<in> set rows'"
proof -
  let ?f = "settled_form E w net now c"
  have id: "ox_ID (?f r) = ox_ID r" for r by (simp add: settled_form_def failed_row_def split: option.split)
  have left: "ox_RetryCount r < wk_MaxRetries w" using q r by (auto simp: quiet_def open_row_def)
  have not_processing: "ox_Status (?f r) \<noteq> OxProcessing" for r by (simp add: settled_form_def failed_row_def split: option.split)
  have open_left: "open_row (?f r) \<Longrightarrow> ox_RetryCount (?f r) < wk_MaxRetries w" for r
    by (auto simp: settled_form_def failed_row_def open_row_def split: option.splits if_splits)
  have only: "r' = r" if "r' \<in> set rows" "ox_ID r' = ox_ID c" for r'
    using that q r by (auto simp: quiet_def distinct_map inj_on_def)
  show "quiet w rows'"
    using q open_left unfolding quiet_def rows'_def update_ox_def by (auto simp: comp_def id if_distrib [of ox_ID] cong: if_cong)
  have "attempts_left (wk_MaxRetries w) (?f r) + 1 \<le> attempts_left (wk_MaxRetries w) r"
    using left r(3) by (auto simp: attempts_left_def open_row_def settled_form_def failed_row_def split: option.split)
  then show "work_left (wk_MaxRetries w) rows' + 1 \<le> work_left (wk_MaxRetries w) rows"
    using q r unfolding work_left_def rows'_def update_ox_def map_map comp_def
    by (intro sum_list_single [of ox_ID rows r]) (auto simp: quiet_def)
  show "r' \<in> set rows \<and> ox_ID r' \<noteq> ox_ID c" if "r' \<in> set rows'" "ox_Status r' = OxProcessing" for r'
    using that not_processing by (auto simp: rows'_def update_ox_def split: if_splits)
  show "r' \<in> set rows'" if "r' \<in> set rows" "ox_ID r' \<noteq> ox_ID c" for r'
    using that by (force simp: rows'_def update_ox_def)
qed

lemma settle_all:
  assumes "quiet w rows" and "distinct (map ox_ID cs)"
    and "\<forall>c \<in> set cs. \<exists>r \<in> set rows. ox_ID r = ox_ID c \<and> ox_Status r = OxProcessing"
    and "\<forall>r \<in> set rows. ox_Status r = OxProcessing \<longrightarrow> ox_ID r \<in> ox_ID ` set cs"
  shows "let rows' = fold (\<lambda>c. update_ox (ox_ID c) (settled_form E w net now c)) cs rows in
    quiet w rows' \<and> work_left (wk_MaxRetries w) rows' + length cs \<le> work_left (wk_MaxRetries w) rows \<and>
    (\<forall>r \<in> set rows'. ox_Status r \<noteq> OxProcessing)"
  using assms
proof (induction cs arbitrary: rows)
  case Nil
  then show ?case by simp
next
  case (Cons c cs)
  obtain r where r: "r \<in> set rows" "ox_ID r = ox_ID c" "ox_Status r = OxProcessing" using Cons.prems(3) by auto
  let ?rows = "update_ox (ox_ID c) (settled_form E w net now c) rows"
  note one = settle_one [OF Cons.prems(1) r, where E = E and net = net and now = now]
  have held: "\<forall>d \<in> set cs. \<exists>r \<in> set ?rows. ox_ID r = ox_ID d \<and> ox_Status r = OxProcessing"
  proof
    fix d assume d: "d \<in> set cs"
    then obtain r' where r': "r' \<in> set rows" "ox_ID r' = ox_ID d" "ox_Status r' = OxProcessing" using Cons.prems(3) by auto
    have "ox_ID r' \<noteq> ox_ID c" using d r'(2) Cons.prems(2) by force
    then show "\<exists>r \<in> set ?rows. ox_ID r = ox_ID d \<and> ox_Status r = OxProcessing" using one(4) r' by blast
  qed
  have only: "\<forall>r \<in> set ?rows. ox_Status r = OxProcessing \<longrightarrow> ox_ID r \<in> ox_ID ` set cs"
    using one(3) Cons.prems(4) by (metis image_insert insertE list.simps(15))
  have "distinct (map ox_ID cs)" using Cons.prems(2) by simp
  then show ?case using Cons.IH [OF one(1) _ held only] one(2) by (auto simp: Let_def)
qed

definition any_order :: "('a list \<Rightarrow> 'a list) \<Rightarrow> bool" where
  "any_order ret \<longleftrightarrow> (\<forall>xs. mset (ret xs) = mset xs)"

lemma any_orderD: "any_order ret \<Longrightarrow> set (ret xs) = set xs \<and> length (ret xs) = length xs \<and> (distinct (map f (ret xs)) = distinct (map f xs))"
proof -
  assume "any_order ret"
  then have m: "mset (ret xs) = mset xs" by (simp add: any_order_def)
  then have "mset (map f (ret xs)) = mset (map f xs)" by simp
  then show ?thesis using m mset_eq_setD mset_eq_length mset_eq_imp_distinct_iff by metis
qed

lemma oldest_nonempty:
  assumes "0 < n" and "r \<in> set rows" and "ox_Status r = OxPending" shows "oldest_pending n rows \<noteq> []"
proof -
  have "sort_key ox_CreatedAt (filter (\<lambda>r. ox_Status r = OxPending) rows) \<noteq> []"
    using assms(2,3) by (metis (mono_tags, lifting) filter_empty_conv set_empty2 set_sort)
  then show ?thesis using assms(1) by (simp add: oldest_pending_def)
qed

lemma oldest_in: "r \<in> set (oldest_pending n rows) \<Longrightarrow> r \<in> set rows \<and> ox_Status r = OxPending"
  by (auto simp: oldest_pending_def dest: in_set_takeD)

lemma claim_batch:
  assumes q: "quiet w rows" and none: "\<forall>r \<in> set rows. ox_Status r \<noteq> OxProcessing" and ret: "any_order ret"
    and c: "ClaimPending ret n now rows = (cs, rows')"
  shows "quiet w rows'" and "distinct (map ox_ID cs)" and "work_left m rows' = work_left m rows"
    and "\<forall>c \<in> set cs. \<exists>r \<in> set rows'. ox_ID r = ox_ID c \<and> ox_Status r = OxProcessing"
    and "\<forall>r \<in> set rows'. ox_Status r = OxProcessing \<longrightarrow> ox_ID r \<in> ox_ID ` set cs"
    and "0 < n \<Longrightarrow> r \<in> set rows \<Longrightarrow> ox_Status r = OxPending \<Longrightarrow> cs \<noteq> []"
proof -
  define picked where "picked = ox_ID ` set (oldest_pending n rows)"
  let ?got = "map (claimed_row now) (filter (\<lambda>r. ox_ID r \<in> picked) rows)"
  have rows': "rows' = map (\<lambda>r. if ox_ID r \<in> picked then claimed_row now r else r) rows" and cs: "cs = ret ?got"
    using c by (simp_all add: ClaimPending_def Let_def picked_def)
  have set_cs: "set cs = set ?got" and len: "length cs = length ?got" using any_orderD [OF ret, where xs = ?got] unfolding cs by blast+
  have d: "distinct (map ox_ID rows)" using q by (simp add: quiet_def)
  have pending: "ox_Status r = OxPending" if held: "r \<in> set rows" "ox_ID r \<in> picked" for r
  proof -
    obtain r' where r': "r' \<in> set (oldest_pending n rows)" "ox_ID r' = ox_ID r" using held(2) by (auto simp: picked_def)
    then have "r' = r" using held(1) d oldest_in [OF r'(1)] by (auto simp: distinct_map inj_on_def)
    then show ?thesis using oldest_in [OF r'(1)] by simp
  qed
  have id: "ox_ID (claimed_row now r) = ox_ID r" for r by (simp add: claimed_row_def)
  have ids: "map ox_ID rows' = map ox_ID rows" by (simp add: rows' id)
  show "quiet w rows'" unfolding quiet_def ids
    using q pending by (auto simp: rows' quiet_def claimed_row_def open_row_def)
  have "map ox_ID ?got = map ox_ID (filter (\<lambda>r. ox_ID r \<in> picked) rows)" by (simp add: id comp_def)
  then have "distinct (map ox_ID ?got)" by (simp only: distinct_map_filter [OF d])
  then show "distinct (map ox_ID cs)" using any_orderD [OF ret, where f = ox_ID and xs = ?got] unfolding cs by blast
  show "work_left m rows' = work_left m rows"
    unfolding work_left_def rows' map_map comp_def
    by (rule arg_cong [of _ _ sum_list], rule map_cong [OF refl]) (use pending in \<open>auto simp: attempts_left_def claimed_row_def open_row_def\<close>)
  show "\<forall>c \<in> set cs. \<exists>r \<in> set rows'. ox_ID r = ox_ID c \<and> ox_Status r = OxProcessing"
    unfolding set_cs by (force simp: rows' claimed_row_def)
  show "\<forall>r \<in> set rows'. ox_Status r = OxProcessing \<longrightarrow> ox_ID r \<in> ox_ID ` set cs"
    unfolding set_cs using none by (force simp: rows' claimed_row_def)
  show "cs \<noteq> []" if n: "0 < n" "r \<in> set rows" "ox_Status r = OxPending"
  proof -
    obtain r' where "r' \<in> set (oldest_pending n rows)" using oldest_nonempty [OF n] by (cases "oldest_pending n rows") auto
    then have "r' \<in> set (filter (\<lambda>r. ox_ID r \<in> picked) rows)" using oldest_in by (auto simp: picked_def)
    then have "?got \<noteq> []" by (metis empty_iff list.map_disc_iff list.set(1))
    then show ?thesis using len by auto
  qed
qed

lemma batch_rows:
  assumes "\<And>i. os_Marks net i"
  shows "ob_Rows (fold (settle_row E w net now) cs ob) =
    fold (\<lambda>c. update_ox (ox_ID c) (settled_form E w net now c)) cs (ob_Rows ob)"
  by (induction cs arbitrary: ob) (simp_all add: settle_rows assms settled_form_def)

lemma tick_works:
  fixes E now
  assumes q: "quiet w (ob_Rows ob)" and none: "\<forall>r \<in> set (ob_Rows ob). ox_Status r \<noteq> OxProcessing"
    and ret: "any_order ret" and marks: "\<And>i. os_Marks net i" and limit: "0 < wk_Limit w"
  defines "rows' \<equiv> ob_Rows (fst (tick E w net ret now ob))"
  shows "quiet w rows' \<and> (\<forall>r \<in> set rows'. ox_Status r \<noteq> OxProcessing) \<and>
    (work_left (wk_MaxRetries w) rows' < work_left (wk_MaxRetries w) (ob_Rows ob) \<or> rows' = ob_Rows ob \<and> (\<forall>r \<in> set (ob_Rows ob). \<not> open_row r))"
proof -
  have "snd (ReclaimStale t now (ob_Rows ob)) = ob_Rows ob" for t
    using none by (auto simp: ReclaimStale_def stale_def intro!: map_idI)
  then have same: "ob\<lparr>ob_Rows := snd (ReclaimStale (wk_StaleThreshold w) now (ob_Rows ob))\<rparr> = ob" by simp
  obtain cs rows1 where c: "ClaimPending ret (wk_Limit w) now (ob_Rows ob) = (cs, rows1)" by fastforce
  note claim = claim_batch [OF q none ret c]
  have rows': "rows' = fold (\<lambda>c. update_ox (ox_ID c) (settled_form E w net now c)) cs rows1"
    by (simp add: rows'_def tick_def same processBatch_def c batch_rows [OF marks] Let_def)
  have all: "quiet w rows'" "work_left (wk_MaxRetries w) rows' + length cs \<le> work_left (wk_MaxRetries w) (ob_Rows ob)"
      "\<forall>r \<in> set rows'. ox_Status r \<noteq> OxProcessing"
    using settle_all [OF claim(1,2,4,5), of E net now] claim(3) unfolding rows' Let_def by auto
  show ?thesis
  proof (cases "\<exists>r \<in> set (ob_Rows ob). ox_Status r = OxPending")
    case True
    then have "cs \<noteq> []" using claim(6) limit by blast
    then show ?thesis using all by (cases cs) auto
  next
    case False
    then have nobody: "\<forall>r \<in> set (ob_Rows ob). \<not> open_row r" using none by (auto simp: open_row_def)
    then have "oldest_pending (wk_Limit w) (ob_Rows ob) = []" using False oldest_in
      by (metis list.set_intros(1) neq_Nil_conv)
    then have "cs = []" "rows1 = ob_Rows ob" using c any_orderD [OF ret, where xs = "[]" and f = id] by (auto simp: ClaimPending_def Let_def)
    then show ?thesis using all nobody rows' by simp
  qed
qed

lemma ticks_work:
  assumes "quiet w (ob_Rows ob)" and "\<forall>r \<in> set (ob_Rows ob). ox_Status r \<noteq> OxProcessing"
    and "any_order ret" and "\<And>n i. os_Marks (nets n) i" and "0 < wk_Limit w"
  shows "let rows' = ob_Rows (ticks E w nets ret clock n ob) in
    quiet w rows' \<and> (\<forall>r \<in> set rows'. ox_Status r \<noteq> OxProcessing) \<and>
    (work_left (wk_MaxRetries w) rows' + n \<le> work_left (wk_MaxRetries w) (ob_Rows ob) \<or> (\<forall>r \<in> set rows'. \<not> open_row r))"
proof (induction n)
  case 0
  then show ?case using assms by simp
next
  case (Suc n)
  let ?ob = "ticks E w nets ret clock n ob"
  have q: "quiet w (ob_Rows ?ob)" "\<forall>r \<in> set (ob_Rows ?ob). ox_Status r \<noteq> OxProcessing"
    using Suc by (simp_all add: Let_def)
  note tick = tick_works [OF q assms(3,4,5), of E n "clock n"]
  show ?case
  proof (cases "\<forall>r \<in> set (ob_Rows ?ob). \<not> open_row r")
    case True
    then have "work_left (wk_MaxRetries w) (ob_Rows ?ob) = 0"
      by (auto simp: work_left_def attempts_left_def sum_list_eq_0_iff)
    then show ?thesis using tick True by (auto simp: Let_def)
  next
    case False
    then show ?thesis using tick Suc by (auto simp: Let_def)
  qed
qed

section \<open>A sample\<close>

text \<open>A content event of a tenant, as the entry transactions emit it.\<close>

definition sample_event :: outbox_event where
  "sample_event = \<lparr>ev_EventType = ''content.entry.created'', ev_AggregateID = ''e1'', ev_TenantID = ''t1'',
     ev_ContentType = ''post'', ev_Locale = [], ev_Key = ''k1''\<rparr>"

definition enqueue_sample :: "outbox_run \<Rightarrow> outbox_run" where
  "enqueue_sample s = with_rows (EnqueueTx ''r1'' 0 (ev_AggregateID sample_event) (ev_EventType sample_event)
     (content_event_payload sample_event) (ev_Key sample_event) (ob_Rows (ou_Box s))) s"

definition empty_outbox :: outbox where
  "empty_outbox = \<lparr>ob_Rows = [], ob_Delivered = 0, ob_Retried = 0, ob_Failed = 0, ob_Dead = 0, ob_Notices = [], ob_Outcomes = []\<rparr>"

definition empty_run :: outbox_run where "empty_run = \<lparr>ou_Box = empty_outbox, ou_Held = []\<rparr>"

definition answering :: "webhook_endpoint list \<Rightarrow> nat \<Rightarrow> outside" where
  "answering eps code = \<lparr>os_Do = (\<lambda>_. Inr code), os_Endpoints = (\<lambda>_. Inr eps), os_Sign = (\<lambda>_ _. []), os_Marks = (\<lambda>_. True)\<rparr>"

definition an_endpoint :: webhook_endpoint where
  "an_endpoint = \<lparr>we_ID = ''w1'', we_URL = ''https'', we_Secret = ''s''\<rparr>"

definition sample_ox :: outbox_row where
  "sample_ox = hd (EnqueueTx ''r1'' 0 (ev_AggregateID sample_event) (ev_EventType sample_event)
     (content_event_payload sample_event) (ev_Key sample_event) [])"

lemma sample_delivery:
  assumes "ox_EventType c = ''content.entry.created''" and "ox_Payload c = content_event_payload sample_event" and "wk_Webhooks w"
  shows "deliver E w (answering eps code) c =
    first_error (\<lambda>_. if 200 \<le> code \<and> code \<le> 299 then None else Some (PlainError ''receiver answered'')) eps"
proof -
  have "ParseContentPayload (content_event_payload sample_event) =
      Inr \<lparr>cp_TenantID = ''t1'', cp_EntryID = ''e1'', cp_ContentType = ''post'', cp_Locale = []\<rparr>"
    by (simp add: ParseContentPayload_def content_event_payload_def sample_event_def unmarshal_fields_def string_field_of_def
        omit_empty_def require_def del: and_then_Inr)
  moreover have "IsContentEvent ''content.entry.created''" by (simp add: IsContentEvent_def HasPrefix_def)
  ultimately show ?thesis
    using assms by (simp add: deliver_def deliverContent_def EventUserCreated_def EventUserUpdated_def EventUserDeleted_def
      answering_def Send_webhook_def accepted_def)
qed

section \<open>Properties\<close>

text \<open>C29: However many workers interleave, crash, or reclaim each other's rows, an event is never
  lost, is only done once it has been delivered, and is only dead once as many deliveries of it
  have failed as the worker is given: every row of a reachable table is still there in every
  later one, as the same event, and its status is backed by what was tried.
\<close>

theorem settled_events_were_tried:
  assumes "reachable_from (ob_start w) (outbox_step E w) s" and "(outbox_step E w)\<^sup>*\<^sup>* s t" and "r \<in> set (ob_Rows (ou_Box s))"
  shows "\<exists>r' \<in> set (ob_Rows (ou_Box t)). same_event r r' \<and>
    (ox_Status r' = OxDone \<longrightarrow> (ox_ID r, True) \<in> set (ob_Outcomes (ou_Box t))) \<and>
    (ox_Status r' = OxFailed \<longrightarrow> wk_MaxRetries w \<le> count_list (ob_Outcomes (ou_Box t)) (ox_ID r, False))"
proof -
  have inv: "ob_inv w t" using ob.run_inv [OF assms(2) ob.reachable_inv [OF assms(1)]] .
  obtain r' where r': "r' \<in> set (ob_Rows (ou_Box t))" "same_event r r'" using run_keeps_events [OF assms(2,3)] by blast
  then have "row_tried w (ob_Outcomes (ou_Box t)) r'" using inv by (simp add: ob_inv_def)
  then show ?thesis using r' by (auto simp: row_tried_def same_event_def)
qed

definition three_tries :: worker where
  "three_tries = (NewWorker [] 10 3 60)\<lparr>wk_Webhooks := True, wk_Notify := True\<rparr>"

lemma three_tries_simps:
  "wk_Limit three_tries = 10" "wk_MaxRetries three_tries = 3" "wk_Webhooks three_tries"
  by (simp_all add: three_tries_def NewWorker_def)

lemma sample_ox_simps:
  "ox_EventType sample_ox = ''content.entry.created''" "ox_Payload sample_ox = content_event_payload sample_event"
  "ox_Status sample_ox = OxPending" "ox_ID sample_ox = ''r1''" "ox_RetryCount sample_ox = 0"
  by (simp_all add: sample_ox_def EnqueueTx_def sample_event_def)

theorem settled_events_were_tried_witness:
  "ob_Rows (ou_Box (enqueue_sample empty_run)) = [sample_ox] \<and>
   (\<exists>r' \<in> set (ob_Rows (settle_row plain_env three_tries (answering [] 200) 5 (claimed_row 4 sample_ox)
        (empty_outbox\<lparr>ob_Rows := [claimed_row 4 sample_ox]\<rparr>))).
      same_event sample_ox r' \<and> ox_Status r' = OxDone \<and> ox_ID r' = ''r1'')"
proof -
  let ?s = "enqueue_sample empty_run" and ?c = "claimed_row 4 sample_ox"
  let ?mid = "\<lparr>ou_Box = empty_outbox\<lparr>ob_Rows := [?c]\<rparr>, ou_Held = [?c]\<rparr>"
  let ?t = "\<lparr>ou_Box = settle_row plain_env three_tries (answering [] 200) 5 ?c (empty_outbox\<lparr>ob_Rows := [?c]\<rparr>), ou_Held = []\<rparr>"
  have s: "?s = \<lparr>ou_Box = empty_outbox\<lparr>ob_Rows := [sample_ox]\<rparr>, ou_Held = []\<rparr>"
    by (simp add: enqueue_sample_def empty_run_def with_rows_def empty_outbox_def sample_ox_def EnqueueTx_def)
  have "outbox_step plain_env three_tries empty_run ?s"
    unfolding enqueue_sample_def by (rule outbox_step.enqueued) (simp add: empty_run_def empty_outbox_def)
  moreover have "ob_start three_tries empty_run"
    by (simp add: ob_start_def empty_run_def empty_outbox_def three_tries_simps)
  ultimately have reach: "reachable_from (ob_start three_tries) (outbox_step plain_env three_tries) ?s"
    by (meson reachable_from.intros)
  have "outbox_step plain_env three_tries ?s ?mid"
    using outbox_step.claimed [of "\<lambda>xs. xs" three_tries 4 ?s] unfolding s
    by (simp add: with_rows_def ClaimPending_def oldest_pending_def three_tries_simps sample_ox_simps)
  moreover have "outbox_step plain_env three_tries ?mid ?t"
    using outbox_step.settled [of ?c ?mid plain_env three_tries "answering [] 200" 5] by simp
  ultimately have run: "(outbox_step plain_env three_tries)\<^sup>*\<^sup>* ?s ?t" by (meson converse_rtranclp_into_rtranclp rtranclp.rtrancl_refl)
  have "deliver plain_env three_tries (answering [] 200) ?c = None"
    using sample_delivery [of ?c three_tries plain_env "[]" 200] by (simp add: claimed_row_def sample_ox_simps three_tries_simps)
  then have rows: "ob_Rows (ou_Box ?t) = [?c\<lparr>ox_Status := OxDone, ox_ProcessedAt := Some 5, ox_LastError := None\<rparr>]"
    by (simp add: settle_rows update_ox_def claimed_row_def answering_def)
  have "sample_ox \<in> set (ob_Rows (ou_Box ?s))" by (simp add: s)
  from settled_events_were_tried [OF reach run this] rows show ?thesis
    by (simp add: s same_event_def claimed_row_def sample_ox_simps)
qed



text \<open>A row claimed by a worker at time 0, reclaimed as stale, and claimed again.\<close>

definition first_claim :: outbox_row where "first_claim = claimed_row 0 sample_ox"

definition given_back :: outbox_row where
  "given_back = sample_ox\<lparr>ox_LastError := Some (PlainError ''reclaimed: stale processing'')\<rparr>"

definition second_claim :: "nat \<Rightarrow> outbox_row" where "second_claim late = claimed_row late given_back"

definition run_of :: "outbox_row list \<Rightarrow> outbox_row list \<Rightarrow> outbox_run" where
  "run_of rows held = \<lparr>ou_Box = empty_outbox\<lparr>ob_Rows := rows\<rparr>, ou_Held = held\<rparr>"

lemma claims_of_sample:
  "ox_EventType first_claim = ''content.entry.created''" "ox_Payload first_claim = content_event_payload sample_event"
  "ox_EventType (second_claim t) = ''content.entry.created''" "ox_Payload (second_claim t) = content_event_payload sample_event"
  "ox_ID first_claim = ox_ID (second_claim t)" "ox_RetryCount (second_claim t) = 0" "second_claim (Suc t) \<noteq> first_claim"
  by (auto simp: first_claim_def second_claim_def given_back_def claimed_row_def sample_ox_def EnqueueTx_def sample_event_def
      dest: arg_cong [of _ _ ox_ClaimedAt])

lemma claim_alone:
  "0 < wk_Limit w \<Longrightarrow> ox_Status r = OxPending \<Longrightarrow>
   outbox_step E w (run_of [r] held) (run_of [claimed_row now r] (held @ [claimed_row now r]))"
  using outbox_step.claimed [of "\<lambda>xs. xs" w now "run_of [r] held" "[claimed_row now r]" "[claimed_row now r]" E]
  by (simp add: run_of_def with_rows_def ClaimPending_def oldest_pending_def)

lemma two_workers_hold_one_event:
  assumes "0 < wk_Limit w" and "0 < wk_MaxRetries w"
  defines "late \<equiv> Suc (wk_StaleThreshold w)"
  shows "reachable_from (ob_start w) (outbox_step E w) (run_of [second_claim late] [first_claim, second_claim late])"
proof -
  have ev: "ox_Status sample_ox = OxPending" "ox_ClaimedAt sample_ox = None"
    by (simp_all add: sample_ox_def EnqueueTx_def sample_event_def)
  have s1: "outbox_step E w (run_of [] []) (run_of [sample_ox] [])"
    using outbox_step.enqueued [of "''r1''" "run_of [] []" E w 0 "ev_AggregateID sample_event"
        "ev_EventType sample_event" "content_event_payload sample_event" "ev_Key sample_event"]
    by (simp add: run_of_def with_rows_def empty_outbox_def sample_ox_def EnqueueTx_def)
  have s2: "outbox_step E w (run_of [sample_ox] []) (run_of [first_claim] [first_claim])"
    using claim_alone [OF assms(1) ev(1), of E "[]" 0] by (simp add: first_claim_def)
  have "snd (ReclaimStale (wk_StaleThreshold w) late [first_claim]) = [given_back]"
    using ev by (simp add: ReclaimStale_def stale_def first_claim_def claimed_row_def given_back_def late_def)
  then have s3: "outbox_step E w (run_of [first_claim] [first_claim]) (run_of [given_back] [first_claim])"
    using outbox_step.reclaimed [of E w "run_of [first_claim] [first_claim]" late] by (simp add: run_of_def with_rows_def)
  have s4: "outbox_step E w (run_of [given_back] [first_claim]) (run_of [second_claim late] [first_claim, second_claim late])"
    using claim_alone [OF assms(1), of given_back E "[first_claim]" late] ev by (simp add: second_claim_def given_back_def)
  have "ob_start w (run_of [] [])" using assms(2) by (simp add: ob_start_def run_of_def empty_outbox_def)
  then show ?thesis using s1 s2 s3 s4 by (meson reachable_from.intros)
qed

text \<open>
  C0: A worker that was too slow revives an event that is done.  Marking looks at the identifier
  alone, so when a row is reclaimed while its first worker is still delivering, and a second
  worker delivers it and marks it done, the failure the first one reports last makes the row
  pending again, or dead with a notice to the owners, although the event was delivered.
\<close>

theorem late_failure_revives_a_done_event:
  assumes "0 < wk_Limit w" and "0 < wk_MaxRetries w" and "wk_Webhooks w"
  shows "\<exists>s t r r'. reachable_from (ob_start w) (outbox_step E w) s \<and> outbox_step E w s t \<and>
    r \<in> set (ob_Rows (ou_Box s)) \<and> ox_Status r = OxDone \<and> (ox_ID r, True) \<in> set (ob_Outcomes (ou_Box s)) \<and>
    r' \<in> set (ob_Rows (ou_Box t)) \<and> same_event r r' \<and>
    ox_Status r' = (if wk_MaxRetries w \<le> 1 then OxFailed else OxPending)"
proof -
  let ?late = "Suc (wk_StaleThreshold w)"
  let ?c = "second_claim ?late" and ?fails = "answering [an_endpoint] 500"
  define both where "both = run_of [?c] [first_claim, ?c]"
  define did where "did = settle_row E w (answering [] 200) ?late ?c (ou_Box both)"
  define fin where "fin = settle_row E w ?fails ?late first_claim did"
  define finished where "finished = ?c\<lparr>ox_Status := OxDone, ox_ProcessedAt := Some ?late, ox_LastError := None\<rparr>"
  define revived where "revived = failed_row (PlainError ''receiver answered'') (wk_MaxRetries w) finished"
  have s5: "outbox_step E w both \<lparr>ou_Box = did, ou_Held = [first_claim]\<rparr>"
    using outbox_step.settled [of ?c both E w "answering [] 200" ?late] claims_of_sample(7) [of "wk_StaleThreshold w"]
    by (simp add: did_def both_def run_of_def)
  have s6: "outbox_step E w \<lparr>ou_Box = did, ou_Held = [first_claim]\<rparr> \<lparr>ou_Box = fin, ou_Held = []\<rparr>"
    using outbox_step.settled [of first_claim "\<lparr>ou_Box = did, ou_Held = [first_claim]\<rparr>" E w ?fails ?late] by (simp add: fin_def)
  have reach: "reachable_from (ob_start w) (outbox_step E w) \<lparr>ou_Box = did, ou_Held = [first_claim]\<rparr>"
    using two_workers_hold_one_event [OF assms(1,2), of E] s5 unfolding both_def by (rule reachable_from.intros)
  have m: "os_Marks (answering eps code) i" for eps code i by (simp add: answering_def)
  have ok: "deliver E w (answering [] 200) ?c = None"
    using sample_delivery [OF _ _ assms(3), of ?c E "[]" 200] claims_of_sample by simp
  have bad: "deliver E w ?fails first_claim = Some (PlainError ''receiver answered'')"
    using sample_delivery [OF _ _ assms(3), of first_claim E "[an_endpoint]" 500] claims_of_sample by simp
  have rows: "ob_Rows did = [finished]"
    by (simp add: did_def settle_rows m ok update_ox_def both_def run_of_def finished_def)
  have rows': "ob_Rows fin = [revived]"
    using claims_of_sample(5) [of ?late] by (simp add: fin_def settle_rows m bad rows update_ox_def revived_def finished_def)
  have out: "(ox_ID finished, True) \<in> set (ob_Outcomes did)" by (simp add: did_def settle_outcomes ok finished_def)
  have "same_event finished revived" "ox_Status revived = (if wk_MaxRetries w \<le> 1 then OxFailed else OxPending)"
    using claims_of_sample(6) [of ?late] by (auto simp: same_event_def revived_def failed_row_def finished_def)
  moreover have "ox_Status finished = OxDone" by (simp add: finished_def)
  ultimately show ?thesis
    by (intro exI [of _ "\<lparr>ou_Box = did, ou_Held = [first_claim]\<rparr>"] exI [of _ "\<lparr>ou_Box = fin, ou_Held = []\<rparr>"]
        exI [of _ finished] exI [of _ revived]) (simp add: reach s6 rows rows' out)
qed

theorem late_failure_revives_a_done_event_witness:
  "\<exists>s t r r'. reachable_from (ob_start three_tries) (outbox_step plain_env three_tries) s \<and> outbox_step plain_env three_tries s t \<and>
     r \<in> set (ob_Rows (ou_Box s)) \<and> ox_Status r = OxDone \<and> r' \<in> set (ob_Rows (ou_Box t)) \<and> same_event r r' \<and> ox_Status r' = OxPending"
proof -
  have pos: "0 < wk_Limit three_tries" "0 < wk_MaxRetries three_tries" by (simp_all add: three_tries_simps)
  have "(if wk_MaxRetries three_tries \<le> 1 then OxFailed else OxPending) = OxPending" by (simp add: three_tries_simps)
  with late_failure_revives_a_done_event [OF pos three_tries_simps(3), of plain_env] show ?thesis
    by (elim exE conjE) (intro exI conjI, assumption+, simp)
qed

end
