(* ===== verification/Rate_Limits.thy ===== *)
theory Rate_Limits
  imports Authz "HOL-Library.AList"
begin

text \<open>
  The in-process rate limiter and the middleware that applies it to agents (\<open>pkg/ratelimit\<close>):
  fixed windows per key, with a sweep of expired windows once the map is large.  Times are the
  readings of a monotonic clock, in any unit.
\<close>

section \<open>The limiter\<close>

record window_state =
  wi_Count :: nat
  wi_ResetAt :: nat

record limiter =
  li_Max :: nat
  li_Window :: nat
  li_Seen :: "(string \<times> window_state) list"

text \<open>A minute when the window is not positive; no limit when the maximum is not.\<close>

definition NewIPLimiter :: "nat \<Rightarrow> int \<Rightarrow> int \<Rightarrow> limiter" where
  "NewIPLimiter minute most window =
     (if most \<le> 0 then \<lparr>li_Max = 0, li_Window = 0, li_Seen = []\<rparr>
      else \<lparr>li_Max = nat most, li_Window = (if window \<le> 0 then minute else nat window), li_Seen = []\<rparr>)"

definition sweepThreshold :: nat where "sweepThreshold = 1024"

definition expired_window :: "nat \<Rightarrow> window_state \<Rightarrow> bool" where
  "expired_window now v \<longleftrightarrow> wi_ResetAt v < now"

definition sweep :: "nat \<Rightarrow> (string \<times> window_state) list \<Rightarrow> (string \<times> window_state) list" where
  "sweep now seen = filter (\<lambda>(k, v). \<not> expired_window now v) seen"

definition Allow :: "nat \<Rightarrow> string \<Rightarrow> limiter \<Rightarrow> bool \<times> limiter" where
  "Allow now key l =
     (if li_Max l = 0 \<or> key = [] then (True, l)
      else
        (let st = map_of (li_Seen l) key;
             seen = (if st = None \<and> sweepThreshold \<le> length (li_Seen l) then sweep now (li_Seen l) else li_Seen l) in
         case st of
           Some v \<Rightarrow>
             (if expired_window now v then (True, l\<lparr>li_Seen := AList.update key \<lparr>wi_Count = 1, wi_ResetAt = now + li_Window l\<rparr> seen\<rparr>)
              else if li_Max l \<le> wi_Count v then (False, l)
              else (True, l\<lparr>li_Seen := AList.update key (v\<lparr>wi_Count := wi_Count v + 1\<rparr>) seen\<rparr>))
         | None \<Rightarrow> (True, l\<lparr>li_Seen := AList.update key \<lparr>wi_Count = 1, wi_ResetAt = now + li_Window l\<rparr> seen\<rparr>)))"

fun allowed_calls :: "limiter \<Rightarrow> (nat \<times> string) list \<Rightarrow> bool list" where
  "allowed_calls l [] = []"
| "allowed_calls l ((now, key) # calls) = (case Allow now key l of (ok, l') \<Rightarrow> ok # allowed_calls l' calls)"

section \<open>The agent middleware\<close>

definition ErrAgentRateLimited :: app_error where "ErrAgentRateLimited = New ''AGENT_RATE_LIMITED'' 429"

definition agentKey :: "subject \<Rightarrow> string" where
  "agentKey sub =
     (let named = (case AgentID sub of None \<Rightarrow> [] | Some n \<Rightarrow> n);
          name = (if named = [] then (case CredentialID sub of None \<Rightarrow> [] | Some c \<Rightarrow> ''jti:'' @ c) else named) in
      if name = [] then ''agent:unidentified'' else ''agent:'' @ TenantID sub @ '':'' @ name)"

text \<open>Whether the next handler runs; a refusal answers \<open>ErrAgentRateLimited\<close>.  No limiter is \<open>None\<close>.\<close>

definition AgentMiddleware :: "nat \<Rightarrow> subject option \<Rightarrow> limiter option \<Rightarrow> app_error option \<times> limiter option" where
  "AgentMiddleware now ctx l =
     (case ctx of
        None \<Rightarrow> (None, l)
      | Some sub \<Rightarrow>
          if \<not> IsAgent sub then (None, l)
          else case l of
            None \<Rightarrow> (None, None)
          | Some l \<Rightarrow> (case Allow now (agentKey sub) l of (ok, l') \<Rightarrow> (if ok then None else Some ErrAgentRateLimited, Some l')))"

section \<open>One key on its own\<close>

text \<open>The reference: a window per key and no sweep.\<close>

fun admit :: "nat \<Rightarrow> nat \<Rightarrow> nat \<Rightarrow> window_state option \<Rightarrow> bool \<times> window_state option" where
  "admit m w now None = (True, Some \<lparr>wi_Count = 1, wi_ResetAt = now + w\<rparr>)"
| "admit m w now (Some v) =
     (if expired_window now v then (True, Some \<lparr>wi_Count = 1, wi_ResetAt = now + w\<rparr>)
      else if m \<le> wi_Count v then (False, Some v)
      else (True, Some (v\<lparr>wi_Count := wi_Count v + 1\<rparr>)))"

fun admitted :: "nat \<Rightarrow> nat \<Rightarrow> window_state option \<Rightarrow> nat list \<Rightarrow> bool list" where
  "admitted m w st [] = []"
| "admitted m w st (now # ts) = (case admit m w now st of (ok, st') \<Rightarrow> ok # admitted m w st' ts)"

definition yes :: "bool list \<Rightarrow> nat" where
  "yes bs = length (filter id bs)"

lemma yes_simps [simp]: "yes [] = 0" "yes (b # bs) = (if b then 1 else 0) + yes bs"
  by (simp_all add: yes_def)

lemma open_window_bound:
  "\<forall>t \<in> set ts. t \<le> wi_ResetAt v \<Longrightarrow> wi_Count v \<le> m \<Longrightarrow> yes (admitted m w (Some v) ts) + wi_Count v \<le> m"
proof (induction ts arbitrary: v)
  case (Cons t ts)
  have live: "\<not> expired_window t v" using Cons.prems(1) by (simp add: expired_window_def)
  show ?case
  proof (cases "m \<le> wi_Count v")
    case True
    then show ?thesis using Cons.IH [of v] Cons.prems live by simp
  next
    case False
    then show ?thesis using Cons.IH [of "v\<lparr>wi_Count := wi_Count v + 1\<rparr>"] Cons.prems live by simp
  qed
qed simp

lemma fresh_window_bound:
  assumes "sorted (t # ts)" and "\<forall>x \<in> set ts. x \<le> t + w" and "0 < m"
  shows "yes (admitted m w None (t # ts)) \<le> m"
  using open_window_bound [of ts "\<lparr>wi_Count = 1, wi_ResetAt = t + w\<rparr>" m w] assms by simp

lemma two_windows_bound:
  assumes "sorted ts" and "\<forall>x \<in> set ts. a \<le> x \<and> x \<le> a + w" and "0 < m" and "wi_Count v \<le> m"
  shows "yes (admitted m w (Some v) ts) \<le> m - wi_Count v + m"
  using assms(1,2,4)
proof (induction ts arbitrary: v)
  case (Cons t ts)
  have later: "\<forall>x \<in> set ts. x \<le> t + w" using Cons.prems by force
  consider "expired_window t v" | "\<not> expired_window t v" "m \<le> wi_Count v" | "\<not> expired_window t v" "wi_Count v < m" by force
  then show ?case
  proof cases
    case 1
    then have "admitted m w (Some v) (t # ts) = admitted m w None (t # ts)" by simp
    then show ?thesis using fresh_window_bound [OF Cons.prems(1) later assms(3)] by simp
  next
    case 2
    then show ?thesis using Cons.IH [of v] Cons.prems by simp
  next
    case 3
    then show ?thesis using Cons.IH [of "v\<lparr>wi_Count := wi_Count v + 1\<rparr>"] Cons.prems by simp
  qed
qed simp

lemma interval_bound:
  assumes "sorted ts" and "\<forall>x \<in> set ts. a \<le> x \<and> x \<le> a + w" and "0 < m"
    and "\<And>v. st = Some v \<Longrightarrow> 0 < wi_Count v \<and> wi_Count v \<le> m"
  shows "yes (admitted m w st ts) < 2 * m"
proof (cases st)
  case (Some v)
  have c: "0 < wi_Count v" "wi_Count v \<le> m" using assms(4) [OF Some] by simp_all
  have "yes (admitted m w (Some v) ts) \<le> m - wi_Count v + m"
    by (rule two_windows_bound [OF assms(1-3) c(2)])
  also have "\<dots> < 2 * m" using c by arith
  finally show ?thesis by (simp add: Some)
next
  case None
  show ?thesis
  proof (cases ts)
    case (Cons t ts')
    then have "\<forall>x \<in> set ts'. x \<le> t + w" using assms(2) by force
    then show ?thesis using fresh_window_bound [of t ts' w m] assms(1,3) Cons None by simp
  qed (simp add: assms(3))
qed

lemma admitted_append:
  "admitted m w st (ts @ us) =
     admitted m w st ts @ admitted m w (fold (\<lambda>t st. snd (admit m w t st)) ts st) us"
  by (induction ts arbitrary: st) (simp_all split: prod.splits)

lemma fold_admit_count:
  "(\<And>v. st = Some v \<Longrightarrow> 0 < wi_Count v \<and> wi_Count v \<le> m) \<Longrightarrow> 0 < m \<Longrightarrow>
   fold (\<lambda>t st. snd (admit m w t st)) ts st = Some v \<Longrightarrow> 0 < wi_Count v \<and> wi_Count v \<le> m"
proof (induction ts arbitrary: st)
  case (Cons t ts)
  have "0 < wi_Count u \<and> wi_Count u \<le> m" if "snd (admit m w t st) = Some u" for u
    using that Cons.prems(1,2) by (cases st) (auto split: if_splits)
  then show ?case using Cons.IH [of "snd (admit m w t st)"] Cons.prems(2,3) by simp
qed simp

lemma length_admitted [simp]: "length (admitted m w st ts) = length ts"
  by (induction ts arbitrary: st) (simp_all split: prod.splits)

section \<open>The sweep is invisible\<close>

text \<open>What the map holds of a key: its window, or nothing once the window has expired.\<close>

definition holds_windows :: "nat \<Rightarrow> limiter \<Rightarrow> (string \<Rightarrow> window_state option) \<Rightarrow> bool" where
  "holds_windows now l win \<longleftrightarrow>
     distinct (map fst (li_Seen l)) \<and>
     (\<forall>k. map_of (li_Seen l) k = win k \<or>
          map_of (li_Seen l) k = None \<and> (\<exists>v. win k = Some v \<and> expired_window now v))"

lemma holds_windows_later: "holds_windows now l win \<Longrightarrow> now \<le> now' \<Longrightarrow> holds_windows now' l win"
  by (fastforce simp: holds_windows_def expired_window_def)

lemma sweep_map_of:
  "distinct (map fst seen) \<Longrightarrow>
   map_of (sweep now seen) k = (case map_of seen k of None \<Rightarrow> None | Some v \<Rightarrow> if expired_window now v then None else Some v)"
proof (induction seen)
  case (Cons p seen)
  have "map_of seen (fst p) = None" using Cons.prems by (simp add: map_of_eq_None_iff)
  then show ?case using Cons by (cases p) (auto simp: sweep_def)
qed (simp add: sweep_def)

lemma sweep_distinct: "distinct (map fst seen) \<Longrightarrow> distinct (map fst (sweep now seen))"
  by (simp add: sweep_def distinct_map_filter)

lemma sweep_holds_windows:
  assumes "holds_windows now l win"
  shows "holds_windows now (l\<lparr>li_Seen := sweep now (li_Seen l)\<rparr>) win"
proof -
  have d: "distinct (map fst (li_Seen l))" using assms by (simp add: holds_windows_def)
  have "map_of (sweep now (li_Seen l)) k = win k \<or>
        map_of (sweep now (li_Seen l)) k = None \<and> (\<exists>v. win k = Some v \<and> expired_window now v)" for k
  proof (cases "map_of (li_Seen l) k")
    case None
    then show ?thesis using assms by (simp add: sweep_map_of [OF d] holds_windows_def) (metis None)
  next
    case (Some v)
    then have "win k = Some v" using assms by (simp add: holds_windows_def) (metis Some option.distinct(1))
    then show ?thesis using Some by (simp add: sweep_map_of [OF d])
  qed
  then show ?thesis using d by (simp add: holds_windows_def sweep_distinct)
qed

lemma update_holds_windows:
  "holds_windows now l win \<Longrightarrow> holds_windows now (l\<lparr>li_Seen := AList.update key v (li_Seen l)\<rparr>) (win(key \<mapsto> v))"
  by (auto simp: holds_windows_def distinct_update update_conv')

lemma Allow_admit:
  assumes hold: "holds_windows now l win" and m: "0 < li_Max l" and key: "key \<noteq> []"
  defines "r \<equiv> admit (li_Max l) (li_Window l) now (win key)"
  shows "fst (Allow now key l) = fst r"
    and "holds_windows now (snd (Allow now key l)) (win(key := snd r))"
    and "li_Max (snd (Allow now key l)) = li_Max l" and "li_Window (snd (Allow now key l)) = li_Window l"
proof -
  define seen where "seen = (if map_of (li_Seen l) key = None \<and> sweepThreshold \<le> length (li_Seen l)
    then sweep now (li_Seen l) else li_Seen l)"
  have swept: "holds_windows now (l\<lparr>li_Seen := seen\<rparr>) win"
    using hold sweep_holds_windows [OF hold] by (simp add: seen_def)
  have upd: "holds_windows now (l\<lparr>li_Seen := AList.update key v seen\<rparr>) (win(key \<mapsto> v))" for v
    using update_holds_windows [OF swept, of key v] by simp
  have fresh: "r = (True, Some \<lparr>wi_Count = 1, wi_ResetAt = now + li_Window l\<rparr>)" if "map_of (li_Seen l) key = None"
    using hold that by (cases "win key") (auto simp: holds_windows_def r_def dest: spec [of _ key])
  have known: "win key = Some v" if "map_of (li_Seen l) key = Some v" for v
    using hold that by (auto simp: holds_windows_def dest: spec [of _ key])
  have same: "win(key := Some v) = win" if "win key = Some v" for v using that by auto
  have "fst (Allow now key l) = fst r \<and> holds_windows now (snd (Allow now key l)) (win(key := snd r)) \<and>
        li_Max (snd (Allow now key l)) = li_Max l \<and> li_Window (snd (Allow now key l)) = li_Window l"
  proof (cases "map_of (li_Seen l) key")
    case None
    then show ?thesis using m key upd fresh [OF None] by (simp add: Allow_def Let_def seen_def)
  next
    case (Some v)
    have "seen = li_Seen l" using Some by (simp add: seen_def)
    then show ?thesis using m key upd known [OF Some] Some hold same
      by (simp add: Allow_def r_def Let_def)
  qed
  then show "fst (Allow now key l) = fst r"
    and "holds_windows now (snd (Allow now key l)) (win(key := snd r))"
    and "li_Max (snd (Allow now key l)) = li_Max l" and "li_Window (snd (Allow now key l)) = li_Window l" by auto
qed

definition times_of :: "string \<Rightarrow> (nat \<times> string) list \<Rightarrow> nat list" where
  "times_of k calls = map fst (filter (\<lambda>c. snd c = k) calls)"

definition answers_to :: "string \<Rightarrow> (nat \<times> string) list \<Rightarrow> bool list \<Rightarrow> bool list" where
  "answers_to k calls oks = map snd (filter (\<lambda>(c, ok). snd c = k) (zip calls oks))"

lemma times_of_simps [simp]:
  "times_of k [] = []" "times_of k (c # cs) = (if snd c = k then fst c # times_of k cs else times_of k cs)"
  by (simp_all add: times_of_def)

lemma answers_to_simps [simp]:
  "answers_to k [] oks = []"
  "answers_to k (c # cs) (b # bs) = (if snd c = k then b # answers_to k cs bs else answers_to k cs bs)"
  by (simp_all add: answers_to_def)

lemma allowed_calls_admitted:
  assumes "sorted (map fst calls)" and "\<forall>t \<in> fst ` set calls. now \<le> t"
    and "holds_windows now l win" and "0 < li_Max l" and "k \<noteq> []"
  shows "answers_to k calls (allowed_calls l calls) = admitted (li_Max l) (li_Window l) (win k) (times_of k calls)"
  using assms(1-4)
proof (induction calls arbitrary: now l win)
  case (Cons c calls)
  obtain t key where c: "c = (t, key)" by (cases c)
  obtain ok l' where r: "Allow t key l = (ok, l')" by (cases "Allow t key l")
  have hold: "holds_windows t l win" using holds_windows_later [OF Cons.prems(3)] Cons.prems(2) c by simp
  have rest: "sorted (map fst calls)" "\<forall>t' \<in> fst ` set calls. t \<le> t'" using Cons.prems(1) c by auto
  show ?case
  proof (cases "key = []")
    case True
    then have "l' = l" using r by (simp add: Allow_def)
    then show ?thesis using Cons.IH [OF rest hold Cons.prems(4)] True assms(5) c r by simp
  next
    case False
    define a where "a = admit (li_Max l) (li_Window l) t (win key)"
    have one: "ok = fst a" "holds_windows t l' (win(key := snd a))" "li_Max l' = li_Max l" "li_Window l' = li_Window l"
      using Allow_admit [OF hold Cons.prems(4) False] r by (simp_all add: a_def)
    have "0 < li_Max l'" using one Cons.prems(4) by simp
    from Cons.IH [OF rest one(2) this]
    have "answers_to k calls (allowed_calls l' calls) =
          admitted (li_Max l) (li_Window l) (if k = key then snd a else win k) (times_of k calls)"
      using one by simp
    then show ?thesis using c r one(1) by (simp add: a_def split: prod.splits)
  qed
qed simp

section \<open>Requests through the middleware\<close>

fun serves :: "limiter \<Rightarrow> (nat \<times> subject option) list \<Rightarrow> bool list" where
  "serves l [] = []"
| "serves l ((now, ctx) # reqs) =
     (case AgentMiddleware now ctx (Some l) of
        (refusal, Some l') \<Rightarrow> (refusal = None) # serves l' reqs
      | (refusal, None) \<Rightarrow> (refusal = None) # serves l reqs)"

definition from_key :: "string \<Rightarrow> nat \<times> subject option \<Rightarrow> bool" where
  "from_key k r \<longleftrightarrow> (case snd r of None \<Rightarrow> False | Some s \<Rightarrow> IsAgent s \<and> agentKey s = k)"

text \<open>The agent of a tenant, whatever credential it uses.\<close>

definition from_agent :: "string \<Rightarrow> string \<Rightarrow> nat \<times> subject option \<Rightarrow> bool" where
  "from_agent tenant name r \<longleftrightarrow>
     (case snd r of None \<Rightarrow> False | Some s \<Rightarrow> IsAgent s \<and> TenantID s = tenant \<and> AgentID s = Some name)"

text \<open>What the bearer middleware guarantees of agent subjects.\<close>

definition named_agent :: "nat \<times> subject option \<Rightarrow> bool" where
  "named_agent r \<longleftrightarrow>
     (case snd r of
        None \<Rightarrow> True
      | Some s \<Rightarrow> \<not> IsAgent s \<or> CHR '':'' \<notin> set (TenantID s) \<and> (case AgentID s of None \<Rightarrow> False | Some n \<Rightarrow> n \<noteq> []))"

definition agent_key :: "string \<Rightarrow> string \<Rightarrow> string" where
  "agent_key tenant name = ''agent:'' @ tenant @ '':'' @ name"

definition picked :: "('a \<Rightarrow> bool) \<Rightarrow> 'a list \<Rightarrow> bool list \<Rightarrow> bool list" where
  "picked P rs oks = map snd (filter (\<lambda>(r, ok). P r) (zip rs oks))"

lemma picked_simps [simp]:
  "picked P [] oks = []" "picked P (r # rs) (b # bs) = (if P r then b # picked P rs bs else picked P rs bs)"
  by (simp_all add: picked_def)

lemma agentKey_not_empty [simp]: "agentKey s \<noteq> []"
  by (simp add: agentKey_def Let_def)

lemma from_key_agent:
  assumes "named_agent r" and "CHR '':'' \<notin> set tenant"
  shows "from_key (agent_key tenant name) r \<longleftrightarrow> from_agent tenant name r"
  using assms by (auto simp: from_key_def from_agent_def named_agent_def agentKey_def agent_key_def
      before_colon split: option.splits)

lemma from_agent_key: "name \<noteq> [] \<Longrightarrow> from_agent tenant name r \<Longrightarrow> from_key (agent_key tenant name) r"
  by (auto simp: from_key_def from_agent_def agentKey_def agent_key_def split: option.splits)

definition agent_calls :: "(nat \<times> subject option) list \<Rightarrow> (nat \<times> string) list" where
  "agent_calls reqs =
     List.map_filter (\<lambda>(t, ctx). case ctx of None \<Rightarrow> None | Some s \<Rightarrow> if IsAgent s then Some (t, agentKey s) else None) reqs"

lemma agent_calls_simps [simp]:
  "agent_calls [] = []"
  "agent_calls ((t, None) # rs) = agent_calls rs"
  "agent_calls ((t, Some s) # rs) = (if IsAgent s then (t, agentKey s) # agent_calls rs else agent_calls rs)"
  by (simp_all add: agent_calls_def List.map_filter_simps)

lemma serves_simps [simp]:
  "serves l ((t, None) # rs) = True # serves l rs"
  "serves l ((t, Some s) # rs) =
     (if IsAgent s then (case Allow t (agentKey s) l of (ok, l') \<Rightarrow> ok # serves l' rs) else True # serves l rs)"
  by (auto simp: AgentMiddleware_def split: prod.splits)

declare serves.simps(2) [simp del]

lemma picked_answers:
  "picked (from_key k) reqs (serves l reqs) = answers_to k (agent_calls reqs) (allowed_calls l (agent_calls reqs))"
proof (induction reqs arbitrary: l)
  case (Cons r rs)
  obtain t ctx where r: "r = (t, ctx)" by (cases r)
  show ?case
  proof (cases ctx)
    case None
    then show ?thesis using Cons r by (simp add: from_key_def)
  next
    case (Some s)
    then show ?thesis using Cons r by (auto simp: from_key_def split: prod.splits)
  qed
qed simp

lemma agent_calls_sorted: "sorted (map fst reqs) \<Longrightarrow> sorted (map fst (agent_calls reqs))"
proof (induction reqs)
  case (Cons r rs)
  have sub: "fst ` set (agent_calls rs) \<subseteq> fst ` set rs"
    by (force simp: agent_calls_def List.map_filter_def split: option.splits if_splits)
  obtain t ctx where r: "r = (t, ctx)" by (cases r)
  show ?case using Cons r sub by (cases ctx) fastforce+
qed simp

lemma times_of_agent_calls: "times_of k (agent_calls reqs) = map fst (filter (from_key k) reqs)"
proof (induction reqs)
  case (Cons r rs)
  obtain t ctx where r: "r = (t, ctx)" by (cases r)
  show ?case using Cons r by (cases ctx) (auto simp: from_key_def)
qed simp

lemma picked_admitted:
  assumes "sorted (map fst reqs)" and "0 < most" and "k \<noteq> []"
  shows "picked (from_key k) reqs (serves (NewIPLimiter minute most window) reqs) =
         admitted (nat most) (li_Window (NewIPLimiter minute most window)) None (map fst (filter (from_key k) reqs))"
proof -
  have "holds_windows 0 (NewIPLimiter minute most window) (\<lambda>k. None)"
    using assms(2) by (simp add: holds_windows_def NewIPLimiter_def)
  from allowed_calls_admitted [OF agent_calls_sorted [OF assms(1)] _ this _ assms(3)]
  show ?thesis using assms(2) by (simp add: picked_answers times_of_agent_calls NewIPLimiter_def)
qed

section \<open>Windows of time\<close>

definition served_within :: "nat \<Rightarrow> nat \<Rightarrow> (nat \<times> bool) list \<Rightarrow> nat" where
  "served_within a b rs = length (filter (\<lambda>(t, ok). ok \<and> a \<le> t \<and> t \<le> b) rs)"

lemma served_within_append: "served_within a b (xs @ ys) = served_within a b xs + served_within a b ys"
  by (simp add: served_within_def)

lemma served_within_outside:
  "\<forall>t \<in> set ts. t < a \<or> b < t \<Longrightarrow> length bs = length ts \<Longrightarrow> served_within a b (zip ts bs) = 0"
  by (fastforce simp: served_within_def filter_empty_conv dest: set_zip_leftD)

lemma served_within_inside:
  "\<forall>t \<in> set ts. a \<le> t \<and> t \<le> b \<Longrightarrow> length bs = length ts \<Longrightarrow> served_within a b (zip ts bs) = yes bs"
proof (induction ts arbitrary: bs)
  case (Cons t ts)
  then show ?case by (cases bs) (auto simp: served_within_def)
qed (simp add: served_within_def)

lemma sorted_window:
  fixes ts :: "nat list"
  assumes "sorted ts"
  obtains xs ys zs where "ts = xs @ ys @ zs" "\<forall>t \<in> set xs. t < a" "\<forall>t \<in> set ys. a \<le> t \<and> t \<le> b" "\<forall>t \<in> set zs. t < a \<or> b < t"
    "sorted ys"
proof -
  define xs where "xs = takeWhile (\<lambda>t. t < a) ts"
  define us where "us = dropWhile (\<lambda>t. t < a) ts"
  define ys where "ys = takeWhile (\<lambda>t. t \<le> b) us"
  define zs where "zs = dropWhile (\<lambda>t. t \<le> b) us"
  have ts: "ts = xs @ us" and us: "us = ys @ zs" by (simp_all add: xs_def us_def ys_def zs_def)
  have sus: "sorted us" using assms ts by (simp add: sorted_append)
  have low: "\<forall>t \<in> set us. a \<le> t"
  proof (cases us)
    case (Cons u us')
    have "\<not> u < a" using Cons hd_dropWhile [of "\<lambda>t. t < a" ts] by (simp add: us_def)
    then show ?thesis using sus Cons by force
  qed simp
  have high: "\<forall>t \<in> set zs. b < t"
  proof (cases zs)
    case (Cons z zs')
    have "\<not> z \<le> b" using Cons hd_dropWhile [of "\<lambda>t. t \<le> b" us] by (simp add: zs_def)
    moreover have "sorted zs" using sus us by (simp add: sorted_append)
    ultimately show ?thesis using Cons by force
  qed simp
  show ?thesis
  proof (rule that [of xs ys zs])
    show "ts = xs @ ys @ zs" using ts us by simp
    show "\<forall>t \<in> set xs. t < a" by (auto simp: xs_def dest: set_takeWhileD)
    show "\<forall>t \<in> set ys. a \<le> t \<and> t \<le> b" using low by (auto simp: ys_def dest: set_takeWhileD)
    show "\<forall>t \<in> set zs. t < a \<or> b < t" using high by blast
    show "sorted ys" using sus us by (simp add: sorted_append)
  qed
qed

lemma admitted_window:
  assumes "sorted ts" and "0 < m"
  shows "served_within a (a + w) (zip ts (admitted m w None ts)) < 2 * m"
proof -
  obtain xs ys zs where ts: "ts = xs @ ys @ zs" and xs: "\<forall>t \<in> set xs. t < a"
    and ys: "\<forall>t \<in> set ys. a \<le> t \<and> t \<le> a + w" and zs: "\<forall>t \<in> set zs. t < a \<or> a + w < t" and "sorted ys"
    by (rule sorted_window [OF assms(1), of a "a + w"])
  define st where "st = fold (\<lambda>t st. snd (admit m w t st)) xs None"
  have "0 < wi_Count v \<and> wi_Count v \<le> m" if "st = Some v" for v
    using fold_admit_count [of None m w xs v] that assms(2) by (simp add: st_def)
  then have "yes (admitted m w st ys) < 2 * m" using interval_bound [OF \<open>sorted ys\<close> ys assms(2)] by simp
  then show ?thesis
    using xs zs by (simp add: ts admitted_append st_def served_within_append served_within_inside [OF ys] served_within_outside)
qed

lemma served_within_sub:
  assumes "\<And>r. P r \<Longrightarrow> Q r"
  shows "served_within a b (zip (map f (filter P rs)) (picked P rs oks)) \<le> served_within a b (zip (map f (filter Q rs)) (picked Q rs oks))"
proof (induction rs arbitrary: oks)
  case (Cons r rs)
  show ?case
  proof (cases oks)
    case Nil
    then show ?thesis by (simp add: picked_def)
  next
    case (Cons b bs)
    then show ?thesis using Cons.IH [of bs] assms [of r] \<open>oks = b # bs\<close>
      by (auto simp: served_within_def split: if_splits)
  qed
qed simp

section \<open>What an agent gets\<close>

text \<open>
  C32: What other callers do changes nothing in what an agent gets: over any sequence of requests in
  the order of their times, the answers to the requests of one agent of one tenant, whichever
  credentials it uses, are those it would get if no one else called.  Same names in other tenants,
  people, and the sweep of the window table leave them alone.
\<close>

theorem other_callers_never_throttle_an_agent:
  assumes "sorted (map fst reqs)" and "list_all named_agent reqs" and "CHR '':'' \<notin> set tenant" and "name \<noteq> []"
  shows "picked (from_agent tenant name) reqs (serves (NewIPLimiter minute most window) reqs) =
         serves (NewIPLimiter minute most window) (filter (from_agent tenant name) reqs)"
proof (cases "0 < most")
  case False
  then have l: "li_Max (NewIPLimiter minute most window) = 0" by (simp add: NewIPLimiter_def)
  have "picked P rs (serves l rs) = serves l (filter P rs)" if "li_Max l = 0" for P :: "nat \<times> subject option \<Rightarrow> bool" and rs l
    using that
  proof (induction rs)
    case (Cons r rs)
    then show ?case by (cases r; cases "snd r") (auto simp: Allow_def)
  qed simp
  then show ?thesis using l by blast
next
  case True
  let ?l = "NewIPLimiter minute most window" and ?k = "agent_key tenant name"
  let ?mine = "filter (from_agent tenant name) reqs"
  have same: "from_key ?k r = from_agent tenant name r" if "r \<in> set reqs" for r
    using from_key_agent assms(2,3) that by (simp add: list_all_iff)
  have picks: "picked (from_key ?k) rs oks = picked (from_agent tenant name) rs oks" if "set rs \<subseteq> set reqs" for rs oks
    using that same by (auto simp: picked_def dest: set_zip_leftD intro!: map_cong filter_cong)
  have mine: "filter (from_key ?k) reqs = ?mine" using same by (auto intro: filter_cong)
  have all: "picked P rs oks = oks" if "\<forall>r \<in> set rs. P r" "length oks = length rs"
    for P :: "nat \<times> subject option \<Rightarrow> bool" and rs oks
  proof -
    have "filter (\<lambda>(r, ok). P r) (zip rs oks) = zip rs oks"
      using that(1) by (intro filter_True) (auto dest: set_zip_leftD)
    then show ?thesis using that(2) by (simp add: picked_def)
  qed
  have len: "length (serves l rs) = length rs" for l rs
    by (induction l rs rule: serves.induct) (auto simp: serves.simps(2) split: prod.splits option.splits)
  have sorted: "sorted (map fst ?mine)" using assms(1) by (rule sorted_filter)
  have "picked (from_agent tenant name) reqs (serves ?l reqs) = picked (from_key ?k) reqs (serves ?l reqs)"
    using picks by simp
  also have "\<dots> = admitted (nat most) (li_Window ?l) None (map fst ?mine)"
    using picked_admitted [OF assms(1) True, of ?k] mine by (simp add: agent_key_def)
  also have "\<dots> = picked (from_key ?k) ?mine (serves ?l ?mine)"
    using picked_admitted [OF sorted True, of ?k] mine by (simp add: agent_key_def flip: mine)
  also have "\<dots> = serves ?l ?mine"
    using same by (intro all) (auto simp: len)
  finally show ?thesis .
qed

text \<open>
  C33: Whatever else is going on, and however often its credentials are rotated, an agent is served
  fewer times than twice its budget in any interval as long as the window.
\<close>

theorem agent_budget_over_any_interval:
  assumes "sorted (map fst reqs)" and "0 < most" and "name \<noteq> []"
  shows "served_within a (a + li_Window (NewIPLimiter minute most window))
           (zip (map fst (filter (from_agent tenant name) reqs))
              (picked (from_agent tenant name) reqs (serves (NewIPLimiter minute most window) reqs)))
         < 2 * nat most"
proof -
  let ?k = "agent_key tenant name" and ?l = "NewIPLimiter minute most window"
  have "sorted (map fst (filter (from_key ?k) reqs))" using assms(1) by (rule sorted_filter)
  from admitted_window [OF this, of "nat most" a "li_Window ?l"]
  have key: "served_within a (a + li_Window ?l)
      (zip (map fst (filter (from_key ?k) reqs)) (picked (from_key ?k) reqs (serves ?l reqs))) < 2 * nat most"
    using picked_admitted [OF assms(1,2), of ?k] assms(2) by (simp add: agent_key_def)
  show ?thesis
    by (rule order.strict_trans1 [OF served_within_sub key]) (rule from_agent_key [OF assms(3)])
qed

section \<open>The promises at concrete requests\<close>

definition demo_agent :: "string \<Rightarrow> string \<Rightarrow> subject" where
  "demo_agent tenant cred =
     \<lparr>UserID = uuid_Nil, Roles = [], TenantID = tenant, TenantRole = ''editor'', Region = [], MFAVerified = False,
      PublicDelivery = False, PreviewEntryID = None, ActorKind = ActorKindAgent, AgentID = Some ''import'',
      PrincipalID = Some ''ann'', AllowedTypes = None, CredentialID = Some cred\<rparr>"

definition demo_person :: subject where
  "demo_person = (demo_agent ''acme'' []) \<lparr>ActorKind := [], AgentID := None, CredentialID := None\<rparr>"

text \<open>Two calls a minute; the agent of acme rotates its credential, that of globex has the same name.\<close>

definition demo_requests :: "(nat \<times> subject option) list" where
  "demo_requests =
     [(0, Some (demo_agent ''acme'' ''c1'')), (1, Some (demo_agent ''globex'' ''c7'')), (1, Some demo_person), (2, None),
      (60, Some (demo_agent ''acme'' ''c2'')), (60, Some (demo_agent ''acme'' ''c2'')),
      (61, Some (demo_agent ''acme'' ''c2'')), (62, Some (demo_agent ''acme'' ''c1'')), (63, Some demo_person)]"

lemma other_callers_never_throttle_an_agent_witness:
  "list_all named_agent demo_requests \<and>
   picked (from_agent ''acme'' ''import'') demo_requests (serves (NewIPLimiter 60 2 0) demo_requests)
     = serves (NewIPLimiter 60 2 0) (filter (from_agent ''acme'' ''import'') demo_requests) \<and>
   picked (from_agent ''acme'' ''import'') demo_requests (serves (NewIPLimiter 60 2 0) demo_requests)
     = [True, True, False, True, True]"
proof -
  have named: "list_all named_agent demo_requests" by code_simp
  have "sorted (map fst demo_requests)" by code_simp
  moreover have "CHR '':'' \<notin> set ''acme''" "''import'' \<noteq> []" by simp_all
  moreover have "picked (from_agent ''acme'' ''import'') demo_requests (serves (NewIPLimiter 60 2 0) demo_requests)
     = [True, True, False, True, True]" by code_simp
  ultimately show ?thesis using named other_callers_never_throttle_an_agent by blast
qed

lemma agent_budget_over_any_interval_witness:
  "served_within 60 (60 + li_Window (NewIPLimiter 60 2 0))
     (zip (map fst (filter (from_agent ''acme'' ''import'') demo_requests))
        (picked (from_agent ''acme'' ''import'') demo_requests (serves (NewIPLimiter 60 2 0) demo_requests))) < 2 * nat 2 \<and>
   served_within 60 120
     (zip (map fst (filter (from_agent ''acme'' ''import'') demo_requests))
        (picked (from_agent ''acme'' ''import'') demo_requests (serves (NewIPLimiter 60 2 0) demo_requests))) = 3"
proof -
  have "sorted (map fst demo_requests)" by code_simp
  moreover have "''import'' \<noteq> []" "0 < (2::int)" by simp_all
  moreover have "served_within 60 120
     (zip (map fst (filter (from_agent ''acme'' ''import'') demo_requests))
        (picked (from_agent ''acme'' ''import'') demo_requests (serves (NewIPLimiter 60 2 0) demo_requests))) = 3" by code_simp
  ultimately show ?thesis using agent_budget_over_any_interval by blast
qed

end
