(* ===== verification/Migrations.thy ===== *)
theory Migrations
  imports Go_Text "HOL-Library.Sublist"
begin

text \<open>
  The migration runner (\<open>platform/migrate\<close>): migrations discovered on disk, the ledger in the
  database, the boot gate \<open>Verify\<close> and the verbs \<open>Up\<close> and \<open>Adopt\<close>.  The contents of the database
  and what a script does to them are parameters; a script leaves the ledger alone.  Reads and
  writes reach the database, so that only what the code itself refuses is an error.
\<close>

section \<open>Migrations on disk\<close>

record migration =
  mg_Version :: nat
  mg_Name :: string
  mg_Path :: string
  mg_SQL :: string
  mg_Checksum :: string

definition base_name :: "string \<Rightarrow> string" where
  "base_name p = rev (takeWhile (\<lambda>c. c \<noteq> CHR ''/'') (rev p))"

text \<open>The version and the name in \<open>000012_tenants_memberships.up.sql\<close>; the dot of the expression is no newline.\<close>

definition filename_match :: "string \<Rightarrow> (nat \<times> string) option" where
  "filename_match b =
     (let digits = take 6 b; rest = drop 7 b; name = take (length rest - 7) rest in
      if length digits = 6 \<and> list_all is_digit digits \<and> take 1 (drop 6 b) = ''_'' \<and> name \<noteq> [] \<and>
         drop (length rest - 7) rest = ''.up.sql'' \<and> CHR 0x0A \<notin> set name
      then Some (fold (\<lambda>c v. v * 10 + digit_val c) digits 0, name)
      else None)"

datatype migrate_error =
    ErrUnadopted nat
  | ErrUninitialised nat
  | ErrBehind "nat list"
  | ErrChecksumMismatch "nat list"
  | ErrNothingToAdopt
  | ErrDuplicateVersion nat string string
  | ErrNoMigrations
  | ErrNothingAtOrBelow int nat
  | ErrScript nat string
  | ErrRecorded nat
  | IndexPanic

text \<open>The walk over the files, which come in lexical order; \<open>sha\<close> is SHA-256 in hex.\<close>

primrec discover_walk ::
    "(string \<Rightarrow> string) \<Rightarrow> (string \<times> string) list \<Rightarrow> (nat \<times> string) list \<Rightarrow> migrate_error + migration list" where
  "discover_walk sha [] seen = Inr []"
| "discover_walk sha (f # fs) seen =
     (case filename_match (base_name (fst f)) of
        None \<Rightarrow> discover_walk sha fs seen
      | Some (version, name) \<Rightarrow>
          (case map_of seen version of
             Some prev \<Rightarrow> Inl (ErrDuplicateVersion version prev (fst f))
           | None \<Rightarrow> and_then (discover_walk sha fs ((version, fst f) # seen)) (\<lambda>ms.
               Inr (\<lparr>mg_Version = version, mg_Name = name, mg_Path = fst f, mg_SQL = snd f, mg_Checksum = sha (snd f)\<rparr> # ms))))"

definition Discover :: "(string \<Rightarrow> string) \<Rightarrow> (string \<times> string) list \<Rightarrow> migrate_error + migration list" where
  "Discover sha files =
     and_then (discover_walk sha files []) (\<lambda>ms.
       if ms = [] then Inl ErrNoMigrations else Inr (sort_key mg_Version ms))"

section \<open>The ledger\<close>

record applied_row =
  ap_Version :: nat
  ap_Name :: string
  ap_Checksum :: string
  ap_AppliedAt :: nat

record 'c database =
  dbs_Ledger :: "applied_row list option"
  dbs_Contents :: 'c

text \<open>What PostgreSQL does with a script, and how many tables there are besides the ledger.\<close>

record 'c postgres =
  pg_Exec :: "string \<Rightarrow> 'c \<Rightarrow> string + 'c"
  pg_Tables :: "'c \<Rightarrow> nat"

record migrate_state =
  ms_HasLedger :: bool
  ms_Empty :: bool
  ms_Applied :: "(nat \<times> applied_row) list"
  ms_Missing :: "nat list"
  ms_Mismatched :: "nat list"
  ms_Unknown :: "nat list"

definition Inspect :: "'c postgres \<Rightarrow> 'c database \<Rightarrow> migration list \<Rightarrow> migrate_state" where
  "Inspect pg db ms =
     (let applied = (case dbs_Ledger db of None \<Rightarrow> [] | Some rows \<Rightarrow> map (\<lambda>a. (ap_Version a, a)) rows);
          missing = filter (\<lambda>m. map_of applied (mg_Version m) = None) ms;
          mismatched = filter (\<lambda>m. case map_of applied (mg_Version m) of None \<Rightarrow> False | Some a \<Rightarrow> ap_Checksum a \<noteq> mg_Checksum m) ms;
          unknown = filter (\<lambda>v. v \<notin> mg_Version ` set ms) (remdups (map fst applied)) in
      \<lparr>ms_HasLedger = (dbs_Ledger db \<noteq> None), ms_Empty = (pg_Tables pg (dbs_Contents db) = 0), ms_Applied = applied,
       ms_Missing = sort (map mg_Version missing), ms_Mismatched = sort (map mg_Version mismatched),
       ms_Unknown = sort unknown\<rparr>)"

text \<open>The greatest version; indexing an empty list would panic.\<close>

definition unadopted :: "migration list \<Rightarrow> migrate_error" where
  "unadopted ms = (if ms = [] then IndexPanic else ErrUnadopted (mg_Version (last ms)))"

definition Verify :: "'c postgres \<Rightarrow> 'c database \<Rightarrow> migration list \<Rightarrow> migrate_error option" where
  "Verify pg db ms =
     (let st = Inspect pg db ms in
      if \<not> ms_HasLedger st \<and> ms_Empty st then Some (ErrUninitialised (length ms))
      else if \<not> ms_HasLedger st then Some (unadopted ms)
      else if ms_Missing st \<noteq> [] then Some (ErrBehind (ms_Missing st))
      else if ms_Mismatched st \<noteq> [] then Some (ErrChecksumMismatch (ms_Mismatched st))
      else None)"

text \<open>\<open>CREATE TABLE IF NOT EXISTS\<close>.\<close>

definition createLedger :: "'c database \<Rightarrow> 'c database" where
  "createLedger db = (case dbs_Ledger db of None \<Rightarrow> db\<lparr>dbs_Ledger := Some []\<rparr> | Some _ \<Rightarrow> db)"

definition ledger_row :: "nat \<Rightarrow> migration \<Rightarrow> applied_row" where
  "ledger_row now m = \<lparr>ap_Version = mg_Version m, ap_Name = mg_Name m, ap_Checksum = mg_Checksum m, ap_AppliedAt = now\<rparr>"

text \<open>
  One transaction: the script, then the row, whose version is the primary key.  An error of either
  rolls both back.
\<close>

definition applyOne :: "'c postgres \<Rightarrow> nat \<Rightarrow> migration \<Rightarrow> 'c database \<Rightarrow> migrate_error + 'c database" where
  "applyOne pg now m db =
     (case pg_Exec pg (mg_SQL m) (dbs_Contents db) of
        Inl e \<Rightarrow> Inl (ErrScript (mg_Version m) e)
      | Inr c \<Rightarrow>
          (case dbs_Ledger db of
             None \<Rightarrow> Inl (ErrRecorded (mg_Version m))
           | Some rows \<Rightarrow>
               if mg_Version m \<in> ap_Version ` set rows then Inl (ErrRecorded (mg_Version m))
               else Inr (db\<lparr>dbs_Contents := c, dbs_Ledger := Some (rows @ [ledger_row now m])\<rparr>)))"

text \<open>What \<open>Up\<close> checks before it writes: what is to be applied.\<close>

definition to_apply :: "migrate_state \<Rightarrow> migration list \<Rightarrow> migration list" where
  "to_apply st ms = filter (\<lambda>m. map_of (ms_Applied st) (mg_Version m) = None) ms"

primrec apply_all ::
    "'c postgres \<Rightarrow> (nat \<Rightarrow> nat) \<Rightarrow> migration list \<Rightarrow> 'c database \<Rightarrow> nat list \<times> migrate_error option \<times> 'c database" where
  "apply_all pg clock [] db = ([], None, db)"
| "apply_all pg clock (m # ms) db =
     (case applyOne pg (clock (mg_Version m)) m db of
        Inl e \<Rightarrow> ([], Some e, db)
      | Inr db' \<Rightarrow> (case apply_all pg clock ms db' of (vs, r) \<Rightarrow> (mg_Version m # vs, r)))"

text \<open>The versions applied, the error, and the database it leaves; \<open>clock\<close> is the time of each transaction.\<close>

definition Up ::
    "'c postgres \<Rightarrow> (nat \<Rightarrow> nat) \<Rightarrow> migration list \<Rightarrow> 'c database \<Rightarrow> nat list \<times> migrate_error option \<times> 'c database" where
  "Up pg clock ms db =
     (let st = Inspect pg db ms in
      if \<not> ms_Empty st \<and> ms_Applied st = [] then ([], Some (unadopted ms), db)
      else (let db = createLedger db in
        if ms_Mismatched st \<noteq> [] then ([], Some (ErrChecksumMismatch (ms_Mismatched st)), db)
        else apply_all pg clock (to_apply st ms) db))"

definition adopt_row :: "nat \<Rightarrow> migration \<Rightarrow> applied_row list \<Rightarrow> applied_row list" where
  "adopt_row now m rows = (if mg_Version m \<in> ap_Version ` set rows then rows else rows @ [ledger_row now m])"

definition Adopt ::
    "'c postgres \<Rightarrow> nat \<Rightarrow> migration list \<Rightarrow> int \<Rightarrow> 'c database \<Rightarrow> migrate_error option \<times> 'c database" where
  "Adopt pg now ms to db =
     (let db = createLedger db; st = Inspect pg db ms; claim = filter (\<lambda>m. int (mg_Version m) \<le> to) ms in
      if ms_Empty st \<and> ms_Applied st = [] then (Some ErrNothingToAdopt, db)
      else if claim = [] then (Some (if ms = [] then IndexPanic else ErrNothingAtOrBelow to (mg_Version (hd ms))), db)
      else (None, db\<lparr>dbs_Ledger := Some (fold (adopt_row now) claim (case dbs_Ledger db of None \<Rightarrow> [] | Some rows \<Rightarrow> rows))\<rparr>))"

end
