(* ===== verification/Migration_Runs.thy ===== *)
theory Migration_Runs
  imports Migrations "HOL-Library.Multiset"
begin

text \<open>
  What the runner promises: the files it accepts are strictly ordered, \<open>Up\<close> applies exactly what
  is missing, in order, and the boot gate accepts the result; and any number of racing \<open>Up\<close> and
  \<open>Adopt\<close> calls, at the grain of their transactions, run each script once.
\<close>

section \<open>Discovery\<close>

lemma discover_walk_versions:
  "discover_walk sha fs seen = Inr ms \<Longrightarrow>
   distinct (map mg_Version ms) \<and> (\<forall>m \<in> set ms. mg_Version m \<notin> fst ` set seen)"
proof (induction fs arbitrary: seen ms)
  case (Cons f fs)
  show ?case
  proof (cases "filename_match (base_name (fst f))")
    case None
    then show ?thesis using Cons by simp
  next
    case (Some p)
    obtain version name where p: "p = (version, name)" by (cases p)
    obtain ms' where ms': "map_of seen version = None" "discover_walk sha fs ((version, fst f) # seen) = Inr ms'"
      and ms: "ms = \<lparr>mg_Version = version, mg_Name = name, mg_Path = fst f, mg_SQL = snd f, mg_Checksum = sha (snd f)\<rparr> # ms'"
      using Cons.prems Some p by (auto split: option.splits simp: and_then_Inr)
    from Cons.IH [OF ms'(2)] show ?thesis using ms'(1) by (auto simp: ms map_of_eq_None_iff)
  qed
qed simp

lemma Discover_ordered:
  assumes "Discover sha files = Inr ms"
  shows "sorted_wrt (<) (map mg_Version ms)" and "ms \<noteq> []"
proof -
  obtain us where us: "discover_walk sha files [] = Inr us" "us \<noteq> []" "ms = sort_key mg_Version us"
    using assms by (auto simp: Discover_def and_then_Inr split: if_splits)
  have "mset (map mg_Version ms) = mset (map mg_Version us)" by (simp add: us(3))
  then have "distinct (map mg_Version ms)" using discover_walk_versions [OF us(1)] mset_eq_imp_distinct_iff by blast
  then show "sorted_wrt (<) (map mg_Version ms)" using us by (simp add: strict_sorted_iff)
  show "ms \<noteq> []" using us by (metis length_0_conv length_sort)
qed

section \<open>One call\<close>

definition ledger_of :: "'c database \<Rightarrow> applied_row list" where
  "ledger_of db = (case dbs_Ledger db of None \<Rightarrow> [] | Some rows \<Rightarrow> rows)"

definition recorded :: "'c database \<Rightarrow> nat list" where
  "recorded db = map ap_Version (ledger_of db)"

primrec run_scripts :: "'c postgres \<Rightarrow> migration list \<Rightarrow> 'c \<Rightarrow> 'c option" where
  "run_scripts pg [] c = Some c"
| "run_scripts pg (m # ms) c = (case pg_Exec pg (mg_SQL m) c of Inl e \<Rightarrow> None | Inr c' \<Rightarrow> run_scripts pg ms c')"

lemma run_scripts_append:
  "run_scripts pg (xs @ ys) c = (case run_scripts pg xs c of None \<Rightarrow> None | Some c' \<Rightarrow> run_scripts pg ys c')"
  by (induction xs arbitrary: c) (simp_all split: sum.splits)

lemma applied_recorded:
  "map_of (ms_Applied (Inspect pg db ms)) v = None \<longleftrightarrow> v \<notin> set (recorded db)"
  "ms_Applied (Inspect pg db ms) = [] \<longleftrightarrow> recorded db = []"
  by (cases "dbs_Ledger db"; simp add: Inspect_def Let_def recorded_def ledger_of_def map_of_eq_None_iff image_image)+

lemma to_apply_recorded: "to_apply (Inspect pg db ms) ms = filter (\<lambda>m. mg_Version m \<notin> set (recorded db)) ms"
  by (simp add: to_apply_def applied_recorded)

lemma ms_Missing_to_apply:
  "sorted_wrt (<) (map mg_Version ms) \<Longrightarrow> ms_Missing (Inspect pg db ms) = map mg_Version (to_apply (Inspect pg db ms) ms)"
proof -
  assume "sorted_wrt (<) (map mg_Version ms)"
  then have "sorted (map mg_Version (to_apply (Inspect pg db ms) ms))"
    by (simp add: to_apply_def strict_sorted_iff sorted_filter)
  then show ?thesis by (simp add: Inspect_def Let_def to_apply_def sorted_sort_id)
qed

lemma createLedger_simps [simp]:
  "dbs_Contents (createLedger db) = dbs_Contents db" "recorded (createLedger db) = recorded db"
  "ledger_of (createLedger db) = ledger_of db" "dbs_Ledger (createLedger db) = Some (ledger_of db)"
  by (auto simp: createLedger_def recorded_def ledger_of_def split: option.splits)

lemma applyOne_Inr:
  "applyOne pg now m db = Inr db' \<longleftrightarrow>
     (\<exists>c. pg_Exec pg (mg_SQL m) (dbs_Contents db) = Inr c \<and> dbs_Ledger db \<noteq> None \<and> mg_Version m \<notin> set (recorded db) \<and>
          db' = db\<lparr>dbs_Contents := c, dbs_Ledger := Some (ledger_of db @ [ledger_row now m])\<rparr>)"
  by (auto simp: applyOne_def recorded_def ledger_of_def split: sum.splits option.splits)

lemma recorded_snoc [simp]:
  "recorded (db\<lparr>dbs_Contents := c, dbs_Ledger := Some (rows @ [ledger_row now m])\<rparr>) = map ap_Version rows @ [mg_Version m]"
  by (simp add: recorded_def ledger_of_def ledger_row_def)

lemma apply_all_effect:
  assumes "apply_all pg clock ms db = (vs, err, db')" and "dbs_Ledger db \<noteq> None"
  shows "\<exists>ran rest rows. ms = ran @ rest \<and> vs = map mg_Version ran \<and>
           run_scripts pg ran (dbs_Contents db) = Some (dbs_Contents db') \<and>
           dbs_Ledger db' = Some (ledger_of db @ rows) \<and> map ap_Version rows = vs \<and>
           map ap_Checksum rows = map mg_Checksum ran \<and> (err = None \<longleftrightarrow> rest = [])"
  using assms
proof (induction ms arbitrary: vs db)
  case Nil
  then show ?case by (auto simp: ledger_of_def)
next
  case (Cons m ms)
  show ?case
  proof (cases "applyOne pg (clock (mg_Version m)) m db")
    case (Inl e)
    then show ?thesis using Cons.prems by (auto simp: ledger_of_def intro!: exI [of _ "[]"])
  next
    case (Inr db1)
    obtain us where us: "apply_all pg clock ms db1 = (us, err, db')" "vs = mg_Version m # us"
      using Cons.prems(1) Inr by (auto split: prod.splits)
    obtain c where c: "pg_Exec pg (mg_SQL m) (dbs_Contents db) = Inr c"
      and db1: "db1 = db\<lparr>dbs_Contents := c, dbs_Ledger := Some (ledger_of db @ [ledger_row (clock (mg_Version m)) m])\<rparr>"
      using Inr by (auto simp: applyOne_Inr)
    obtain ran rest rows where ran: "ms = ran @ rest" "us = map mg_Version ran"
        "run_scripts pg ran (dbs_Contents db1) = Some (dbs_Contents db')" "dbs_Ledger db' = Some (ledger_of db1 @ rows)"
        "map ap_Version rows = us" "map ap_Checksum rows = map mg_Checksum ran" "err = None \<longleftrightarrow> rest = []"
      using Cons.IH [OF us(1)] db1 by auto
    then show ?thesis using c us(2)
      by (intro exI [of _ "m # ran"] exI [of _ rest] exI [of _ "ledger_row (clock (mg_Version m)) m # rows"])
        (simp add: db1 ledger_of_def ledger_row_def)
  qed
qed

lemma Verify_accepts:
  "Verify pg db ms = None \<longleftrightarrow>
     dbs_Ledger db \<noteq> None \<and>
     (\<forall>m \<in> set ms. \<exists>a. map_of (map (\<lambda>a. (ap_Version a, a)) (ledger_of db)) (mg_Version m) = Some a \<and> ap_Checksum a = mg_Checksum m)"
proof -
  have e: "sort xs = [] \<longleftrightarrow> xs = []" for xs :: "nat list" by (metis length_0_conv length_sort)
  show ?thesis
    by (auto simp: Verify_def Inspect_def Let_def ledger_of_def e filter_empty_conv split: option.splits if_splits)
qed

lemma filter_by_version:
  assumes "distinct (map mg_Version ms)" and "filter P ms = did @ rest"
  shows "filter (\<lambda>m. mg_Version m \<in> mg_Version ` set did) ms = did"
proof -
  have inj: "inj_on mg_Version (set ms)" using assms(1) by (simp add: distinct_map)
  have sub: "set did \<subseteq> set ms" "\<forall>m \<in> set did. P m" using arg_cong [OF assms(2), of set] by auto
  have "distinct (did @ rest)" using assms by (metis distinct_filter distinct_map)
  have "filter (\<lambda>m. mg_Version m \<in> mg_Version ` set did) ms = filter (\<lambda>m. P m \<and> m \<in> set did) ms"
    using inj sub by (auto intro!: filter_cong dest: inj_onD)
  also have "\<dots> = filter (\<lambda>m. m \<in> set did) (filter P ms)" by (simp add: conj_commute)
  also have "\<dots> = did" using \<open>distinct (did @ rest)\<close> by (auto simp: assms(2) filter_empty_conv)
  finally show ?thesis .
qed

lemma rows_of_versions:
  assumes "map ap_Version rows = map mg_Version did" and "map ap_Checksum rows = map mg_Checksum did"
    and "distinct (map mg_Version did)" and "m \<in> set did"
  shows "\<exists>a. map_of (map (\<lambda>a. (ap_Version a, a)) rows) (mg_Version m) = Some a \<and> ap_Checksum a = mg_Checksum m"
  using assms
proof (induction did arbitrary: rows)
  case (Cons d did)
  obtain a rows' where "rows = a # rows'" using Cons.prems(1) by (cases rows) auto
  moreover have "mg_Version m \<noteq> mg_Version d" if "m \<noteq> d" using Cons.prems(3,4) that by (metis distinct.simps(2) image_eqI list.set_map list.simps(9) set_ConsD)
  ultimately show ?case using Cons by (cases "m = d") auto
qed simp

lemma verified_after:
  assumes "distinct (map mg_Version ms)" and "ms_Mismatched (Inspect pg db ms) = []"
    and "to_apply (Inspect pg db ms) ms = did" and "dbs_Ledger db' = Some (ledger_of db @ rows)"
    and "map ap_Version rows = map mg_Version did" and "map ap_Checksum rows = map mg_Checksum did"
  shows "Verify pg db' ms = None"
proof -
  have e: "sort xs = [] \<longleftrightarrow> xs = []" for xs :: "nat list" by (metis length_0_conv length_sort)
  define look where "look rows = map_of (map (\<lambda>a. (ap_Version a, a)) rows)" for rows :: "applied_row list"
  have old: "ap_Checksum a = mg_Checksum m" if "m \<in> set ms" "look (ledger_of db) (mg_Version m) = Some a" for m a
    using assms(2) that
    by (cases "dbs_Ledger db") (auto simp: Inspect_def Let_def e filter_empty_conv ledger_of_def look_def)
  have none: "look (ledger_of db) v = None \<longleftrightarrow> v \<notin> set (recorded db)" for v
    by (simp add: look_def map_of_eq_None_iff recorded_def image_image)
  have dd: "distinct (map mg_Version did)" using assms(1,3) by (auto simp: to_apply_def distinct_map_filter)
  have both: "look (ledger_of db @ rows) v = look rows v"
    if "v \<notin> set (recorded db)" for v using that none [of v] by (simp add: look_def map_add_def)
  have both': "look (ledger_of db @ rows) v = look (ledger_of db) v" if known: "v \<in> set (recorded db)" for v
  proof -
    obtain a where "look (ledger_of db) v = Some a" using none [of v] known by (cases "look (ledger_of db) v") simp_all
    then show ?thesis by (simp add: look_def)
  qed
  have "\<exists>a. look (ledger_of db @ rows) (mg_Version m) = Some a \<and> ap_Checksum a = mg_Checksum m" if m: "m \<in> set ms" for m
  proof (cases "mg_Version m \<in> set (recorded db)")
    case True
    then obtain a where a: "look (ledger_of db) (mg_Version m) = Some a" using none [of "mg_Version m"] by auto
    then show ?thesis using old [OF m a] both' [OF True] by simp
  next
    case False
    then have "m \<in> set did" using m assms(3) by (auto simp: to_apply_recorded)
    from rows_of_versions [OF assms(5,6) dd this] show ?thesis using both [OF False] by (auto simp: look_def)
  qed
  then show ?thesis using assms(4) by (simp add: Verify_accepts look_def ledger_of_def)
qed

text \<open>
  C34: \<open>Up\<close> applies exactly what is missing, oldest first.  Whatever happens, the versions it
  reports are an initial part of what the ledger lacks, they are what it added to the ledger, and
  the contents are those after exactly their scripts in order; when it reports no error nothing
  is missing any more, and the boot gate lets servers start.
\<close>

theorem up_applies_what_is_missing:
  assumes "Discover sha files = Inr ms" and "distinct (recorded db)" and "Up pg clock ms db = (vs, err, db')"
  shows "prefix vs (ms_Missing (Inspect pg db ms)) \<and> recorded db' = recorded db @ vs \<and>
    run_scripts pg (filter (\<lambda>m. mg_Version m \<in> set vs) ms) (dbs_Contents db) = Some (dbs_Contents db') \<and>
    (err = None \<longrightarrow> vs = ms_Missing (Inspect pg db ms) \<and> Verify pg db' ms = None)"
proof -
  note ord = Discover_ordered [OF assms(1)]
  consider (refused) e where "vs = []" "err = Some e" "db' = db \<or> db' = createLedger db"
    | (went) "ms_Mismatched (Inspect pg db ms) = []" "apply_all pg clock (to_apply (Inspect pg db ms) ms) (createLedger db) = (vs, err, db')"
    using assms(3) by (auto simp: Up_def Let_def split: if_splits)
  then show ?thesis
  proof cases
    case refused
    then show ?thesis by auto
  next
    case went
    obtain did rest rows where d: "to_apply (Inspect pg db ms) ms = did @ rest" "vs = map mg_Version did"
        "run_scripts pg did (dbs_Contents db) = Some (dbs_Contents db')" "dbs_Ledger db' = Some (ledger_of db @ rows)"
        "map ap_Version rows = vs" "map ap_Checksum rows = map mg_Checksum did" "err = None \<longleftrightarrow> rest = []"
      using apply_all_effect [OF went(2)] by auto
    have missing: "ms_Missing (Inspect pg db ms) = vs @ map mg_Version rest"
      using ms_Missing_to_apply [OF ord(1), of pg db] d by simp
    have dist: "distinct (map mg_Version ms)" using ord(1) strict_sorted_iff by blast
    have scripts: "filter (\<lambda>m. mg_Version m \<in> set vs) ms = did"
      using filter_by_version [OF dist d(1) [unfolded to_apply_def]] d(2) by simp
    have "Verify pg db' ms = None" if "err = None"
    proof -
      have "rest = []" using that d(7) by simp
      then show ?thesis using verified_after [OF dist went(1) _ d(4)] d(1,2,5,6) by simp
    qed
    then show ?thesis using missing scripts d by (simp add: recorded_def ledger_of_def)
  qed
qed

text \<open>A database whose contents are the names of its tables; a script creates the table it names.\<close>

definition demo_pg :: "string list postgres" where
  "demo_pg = \<lparr>pg_Exec = \<lambda>sql ts. if sql \<in> set ts then Inl ''relation already exists'' else Inr (ts @ [sql]), pg_Tables = length\<rparr>"

definition demo_files :: "(string \<times> string) list" where
  "demo_files = [(''b/000002_posts.up.sql'', ''posts''), (''b/000002_posts.down.sql'', []),
     (''a/000001_users.up.sql'', ''users''), (''a/000003_tags.up.sql'', ''tags'')]"

definition demo_migration :: "nat \<Rightarrow> string \<Rightarrow> string \<Rightarrow> migration" where
  "demo_migration v d t = \<lparr>mg_Version = v, mg_Name = t, mg_Path = d @ ''/00000'' @ [char_of (48 + v)] @ ''_'' @ t @ ''.up.sql'', mg_SQL = t,
     mg_Checksum = t\<rparr>"

definition demo_migrations :: "migration list" where
  "demo_migrations = [demo_migration 1 ''a'' ''users'', demo_migration 2 ''b'' ''posts'', demo_migration 3 ''a'' ''tags'']"

lemma demo_discovered: "Discover (\<lambda>body. body) demo_files = Inr demo_migrations"
  by code_simp

definition demo_database :: "string list database" where
  "demo_database = \<lparr>dbs_Ledger = Some [ledger_row 0 (demo_migration 1 ''a'' ''users'')], dbs_Contents = [''users'']\<rparr>"

theorem up_applies_what_is_missing_witness:
  "Up demo_pg (\<lambda>v. v) demo_migrations demo_database = ([2, 3], None, snd (snd (Up demo_pg (\<lambda>v. v) demo_migrations demo_database))) \<and>
   Verify demo_pg (snd (snd (Up demo_pg (\<lambda>v. v) demo_migrations demo_database))) demo_migrations = None"
proof -
  have up: "Up demo_pg (\<lambda>v. v) demo_migrations demo_database = ([2, 3], None, snd (snd (Up demo_pg (\<lambda>v. v) demo_migrations demo_database)))"
    by code_simp
  have "distinct (recorded demo_database)" by code_simp
  from up_applies_what_is_missing [OF demo_discovered this up] up show ?thesis by blast
qed

text \<open>
  The boot gate names a verb that refuses.  On a database with tables and no ledger, an
  \<open>Adopt\<close> below the first migration fails but leaves an empty ledger; the gate, which asked for
  an adoption before, now says that the database is behind and that \<open>migrate up\<close> is to be run,
  and \<open>Up\<close> refuses because the database is not adopted.
\<close>

theorem gate_names_a_verb_that_refuses:
  assumes "Discover sha files = Inr ms" and "dbs_Ledger db = None" and "0 < pg_Tables pg (dbs_Contents db)"
    and "to < int (mg_Version (hd ms))"
  shows "Verify pg db ms = Some (ErrUnadopted (mg_Version (last ms))) \<and>
    (case Adopt pg now ms to db of
       (err, db') \<Rightarrow> err \<noteq> None \<and> Verify pg db' ms = Some (ErrBehind (map mg_Version ms)) \<and>
         Up pg clock ms db' = ([], Some (ErrUnadopted (mg_Version (last ms))), db'))"
proof -
  note ord = Discover_ordered [OF assms(1)]
  obtain m us where ms: "ms = m # us" using ord(2) by (cases ms) auto
  have none: "filter (\<lambda>m. int (mg_Version m) \<le> to) ms = []"
    using ord(1) assms(4) by (auto simp: ms filter_empty_conv)
  have s: "sort (map mg_Version ms) = map mg_Version ms" using ord(1) by (simp add: strict_sorted_iff sorted_sort_id)
  let ?db = "db\<lparr>dbs_Ledger := Some []\<rparr>"
  have cl: "createLedger db = ?db" using assms(2) by (simp add: createLedger_def)
  have adopt: "Adopt pg now ms to db = (Some (ErrNothingAtOrBelow to (mg_Version (hd ms))), ?db)"
    using assms(3) none ms by (simp add: Adopt_def Let_def cl Inspect_def)
  have missing: "ms_Missing (Inspect pg ?db ms) = map mg_Version ms" by (simp add: Inspect_def s)
  have "Verify pg ?db ms = Some (ErrBehind (map mg_Version ms))"
    using missing ms by (simp add: Verify_def Let_def) (simp add: Inspect_def)
  moreover have "Up pg clock ms ?db = ([], Some (ErrUnadopted (mg_Version (last ms))), ?db)"
    using assms(3) ms by (simp add: Up_def Inspect_def unadopted_def)
  moreover have "Verify pg db ms = Some (ErrUnadopted (mg_Version (last ms)))"
    using assms(2,3) ms by (simp add: Verify_def Inspect_def unadopted_def)
  ultimately show ?thesis by (simp add: adopt)
qed

theorem gate_names_a_verb_that_refuses_witness:
  "case Adopt demo_pg 0 demo_migrations 0 \<lparr>dbs_Ledger = None, dbs_Contents = [''users'']\<rparr> of
     (err, db') \<Rightarrow> err \<noteq> None \<and> Verify demo_pg db' demo_migrations = Some (ErrBehind [1, 2, 3]) \<and>
       Up demo_pg (\<lambda>v. v) demo_migrations db' = ([], Some (ErrUnadopted 3), db')"
proof -
  have "map mg_Version demo_migrations = [1, 2, 3]" "mg_Version (last demo_migrations) = 3" "0 < int (mg_Version (hd demo_migrations))"
    by (simp_all add: demo_migrations_def demo_migration_def)
  then show ?thesis
    using gate_names_a_verb_that_refuses [OF demo_discovered, where db = "\<lparr>dbs_Ledger = None, dbs_Contents = [''users'']\<rparr>"
        and pg = demo_pg and to = 0 and now = 0 and clock = "\<lambda>v. v"]
    by (simp add: demo_pg_def)
qed

section \<open>Racing calls\<close>

text \<open>
  The database, the \<open>Up\<close> calls that have looked at it and not yet created the ledger, those that
  are applying, and two records for the theorems: what ran, in order, and what was adopted.
\<close>

record 'c migrate_run =
  mu_DB :: "'c database"
  mu_Opening :: "migration list list"
  mu_Calls :: "migration list list"
  mu_Log :: "migration list"
  mu_Claimed :: "nat set"

inductive migrate_step :: "'c postgres \<Rightarrow> migration list \<Rightarrow> 'c migrate_run \<Rightarrow> 'c migrate_run \<Rightarrow> bool" for pg ms where
  inspected: "ms_Empty (Inspect pg (mu_DB s) ms) \<or> ms_Applied (Inspect pg (mu_DB s) ms) \<noteq> [] \<Longrightarrow>
    migrate_step pg ms s (s\<lparr>mu_Opening := to_apply (Inspect pg (mu_DB s) ms) ms # mu_Opening s\<rparr>)"
| opened: "todo \<in> set (mu_Opening s) \<Longrightarrow>
    migrate_step pg ms s (s\<lparr>mu_DB := createLedger (mu_DB s), mu_Opening := remove1 todo (mu_Opening s), mu_Calls := todo # mu_Calls s\<rparr>)"
| applied: "(m # todo) \<in> set (mu_Calls s) \<Longrightarrow> applyOne pg now m (mu_DB s) = Inr db \<Longrightarrow>
    migrate_step pg ms s (s\<lparr>mu_DB := db, mu_Calls := todo # remove1 (m # todo) (mu_Calls s), mu_Log := mu_Log s @ [m]\<rparr>)"
| ended: "todo \<in> set (mu_Calls s) \<Longrightarrow> migrate_step pg ms s (s\<lparr>mu_Calls := remove1 todo (mu_Calls s)\<rparr>)"
| adopted: "Adopt pg now ms to (mu_DB s) = (err, db) \<Longrightarrow>
    migrate_step pg ms s (s\<lparr>mu_DB := db, mu_Claimed := mu_Claimed s \<union> (set (recorded db) - set (recorded (mu_DB s)))\<rparr>)"

definition mu_start :: "'c database \<Rightarrow> 'c migrate_run \<Rightarrow> bool" where
  "mu_start db s \<longleftrightarrow> s = \<lparr>mu_DB = db, mu_Opening = [], mu_Calls = [], mu_Log = [], mu_Claimed = {}\<rparr>"

text \<open>A version is settled once every migration below it is recorded.\<close>

definition below_recorded :: "migration list \<Rightarrow> 'c database \<Rightarrow> nat \<Rightarrow> bool" where
  "below_recorded ms db v \<longleftrightarrow> (\<forall>x \<in> set ms. mg_Version x < v \<longrightarrow> mg_Version x \<in> set (recorded db))"

definition rest_of :: "migration list \<Rightarrow> 'c database \<Rightarrow> migration list \<Rightarrow> bool" where
  "rest_of ms db todo \<longleftrightarrow> sorted_wrt (<) (map mg_Version todo) \<and> set todo \<subseteq> set ms \<and>
     (\<forall>x \<in> set ms. mg_Version x \<in> set (recorded db) \<or> x \<in> set todo)"

definition mu_inv :: "'c postgres \<Rightarrow> migration list \<Rightarrow> 'c database \<Rightarrow> 'c migrate_run \<Rightarrow> bool" where
  "mu_inv pg ms db s \<longleftrightarrow>
     distinct (recorded (mu_DB s)) \<and>
     set (recorded (mu_DB s)) = set (recorded db) \<union> mu_Claimed s \<union> mg_Version ` set (mu_Log s) \<and>
     set (recorded db) \<inter> mg_Version ` set (mu_Log s) = {} \<and>
     mu_Claimed s \<inter> mg_Version ` set (mu_Log s) = {} \<and>
     sorted_wrt (<) (map mg_Version (mu_Log s)) \<and>
     run_scripts pg (mu_Log s) (dbs_Contents db) = Some (dbs_Contents (mu_DB s)) \<and>
     (\<forall>todo \<in> set (mu_Opening s) \<union> set (mu_Calls s). rest_of ms (mu_DB s) todo) \<and>
     (\<forall>m \<in> set (mu_Log s). below_recorded ms (mu_DB s) (mg_Version m))"

lemma later_ledger:
  assumes "set (recorded db) \<subseteq> set (recorded db')"
  shows "rest_of ms db todo \<Longrightarrow> rest_of ms db' todo" and "below_recorded ms db v \<Longrightarrow> below_recorded ms db' v"
  using assms by (auto simp: rest_of_def below_recorded_def)

lemma adopt_rows_effect:
  "set (map ap_Version rows) \<subseteq> set (map ap_Version (fold (adopt_row now) ms rows)) \<and>
   (distinct (map ap_Version rows) \<longrightarrow> distinct (map ap_Version (fold (adopt_row now) ms rows)))"
proof (induction ms arbitrary: rows)
  case (Cons m ms)
  from Cons [of "adopt_row now m rows"] show ?case by (auto simp: adopt_row_def ledger_row_def split: if_splits)
qed simp

lemma Adopt_effect:
  assumes "Adopt pg now ms to db = (err, db')"
  shows "dbs_Contents db' = dbs_Contents db" and "set (recorded db) \<subseteq> set (recorded db')"
    and "distinct (recorded db) \<Longrightarrow> distinct (recorded db')"
proof -
  consider "db' = createLedger db"
    | cl where "db' = (createLedger db)\<lparr>dbs_Ledger := Some (fold (adopt_row now) cl (ledger_of db))\<rparr>"
    using assms by (auto simp: Adopt_def Let_def split: if_splits)
  then have "dbs_Contents db' = dbs_Contents db \<and> set (recorded db) \<subseteq> set (recorded db') \<and>
      (distinct (recorded db) \<longrightarrow> distinct (recorded db'))"
  proof cases
    case 2
    then show ?thesis using adopt_rows_effect [of "ledger_of db" now cl] by (simp add: recorded_def ledger_of_def)
  qed simp
  then show "dbs_Contents db' = dbs_Contents db" and "set (recorded db) \<subseteq> set (recorded db')"
    and "distinct (recorded db) \<Longrightarrow> distinct (recorded db')" by auto
qed

lemma applied_keeps:
  assumes inv: "mu_inv pg ms db0 s" and call: "(m # todo) \<in> set (mu_Calls s)" and ok: "applyOne pg now m (mu_DB s) = Inr db"
  shows "mu_inv pg ms db0 (s\<lparr>mu_DB := db, mu_Calls := todo # remove1 (m # todo) (mu_Calls s), mu_Log := mu_Log s @ [m]\<rparr>)"
proof -
  obtain c where c: "pg_Exec pg (mg_SQL m) (dbs_Contents (mu_DB s)) = Inr c" "mg_Version m \<notin> set (recorded (mu_DB s))"
    and db: "db = (mu_DB s)\<lparr>dbs_Contents := c, dbs_Ledger := Some (ledger_of (mu_DB s) @ [ledger_row now m])\<rparr>"
    using ok by (auto simp: applyOne_Inr)
  have rec: "recorded db = recorded (mu_DB s) @ [mg_Version m]" by (simp add: db) (simp add: recorded_def)
  then have mono: "set (recorded (mu_DB s)) \<subseteq> set (recorded db)" by auto
  have rest: "rest_of ms (mu_DB s) (m # todo)" using inv call by (auto simp: mu_inv_def)
  have below: "below_recorded ms (mu_DB s) (mg_Version m)"
    using rest by (fastforce simp: rest_of_def below_recorded_def)
  have todo: "rest_of ms db todo" using rest rec by (auto simp: rest_of_def)
  have newest: "mg_Version l < mg_Version m" if l: "l \<in> set (mu_Log s)" for l
  proof -
    have "below_recorded ms (mu_DB s) (mg_Version l)" "mg_Version l \<in> set (recorded (mu_DB s))"
      using inv l by (auto simp: mu_inv_def)
    moreover have "m \<in> set ms" using rest by (simp add: rest_of_def)
    ultimately show ?thesis using c(2) by (force simp: below_recorded_def not_less_iff_gr_or_eq)
  qed
  have run: "run_scripts pg (mu_Log s @ [m]) (dbs_Contents db0) = Some c" "dbs_Contents db = c"
    using inv c(1) by (simp_all add: mu_inv_def run_scripts_append db)
  have calls: "\<forall>t \<in> set (mu_Opening s) \<union> set (todo # remove1 (m # todo) (mu_Calls s)). rest_of ms db t"
    using inv todo later_ledger(1) [OF mono] by (auto simp: mu_inv_def dest: subsetD [OF set_remove1_subset])
  have settled: "\<forall>l \<in> set (mu_Log s @ [m]). below_recorded ms db (mg_Version l)"
    using inv below later_ledger(2) [OF mono] by (auto simp: mu_inv_def)
  show ?thesis
    using inv c(2) newest run calls settled by (auto simp: mu_inv_def rec sorted_wrt_append)
qed

interpretation mu: machine "mu_start db" "migrate_step pg ms" "\<lambda>s. (distinct (recorded db) \<and> sorted_wrt (<) (map mg_Version ms)) \<longrightarrow> mu_inv pg ms db s"
  for db pg ms
proof
  show "distinct (recorded db) \<and> sorted_wrt (<) (map mg_Version ms) \<longrightarrow> mu_inv pg ms db s" if "mu_start db s" for s
    using that by (simp add: mu_start_def mu_inv_def)
  show "distinct (recorded db) \<and> sorted_wrt (<) (map mg_Version ms) \<longrightarrow> mu_inv pg ms db t"
    if before: "distinct (recorded db) \<and> sorted_wrt (<) (map mg_Version ms) \<longrightarrow> mu_inv pg ms db s" and step: "migrate_step pg ms s t" for s t
  proof
    assume start: "distinct (recorded db) \<and> sorted_wrt (<) (map mg_Version ms)"
    then have inv: "mu_inv pg ms db s" using before by blast
    from step show "mu_inv pg ms db t"
    proof cases
      case inspected
      have "rest_of ms (mu_DB s) (to_apply (Inspect pg (mu_DB s) ms) ms)"
        using start by (auto simp: rest_of_def to_apply_recorded strict_sorted_iff sorted_filter distinct_map_filter)
      then show ?thesis using inv inspected by (auto simp: mu_inv_def)
    next
      case (opened todo)
      have same: "rest_of ms (createLedger (mu_DB s)) = rest_of ms (mu_DB s)"
          "below_recorded ms (createLedger (mu_DB s)) = below_recorded ms (mu_DB s)"
        by (simp_all add: fun_eq_iff rest_of_def below_recorded_def)
      show ?thesis using inv opened by (auto simp: mu_inv_def same dest: subsetD [OF set_remove1_subset])
    next
      case (applied m todo now db')
      then show ?thesis using applied_keeps [OF inv] by blast
    next
      case ended
      then show ?thesis using inv by (auto simp: mu_inv_def dest: subsetD [OF set_remove1_subset])
    next
      case (adopted now to err db')
      note eff = Adopt_effect [OF adopted(2)]
      show ?thesis
        using inv eff later_ledger [OF eff(2)] adopted(1) by (auto simp: mu_inv_def)
    qed
  qed
qed

text \<open>
  C35: However many \<open>Up\<close> and \<open>Adopt\<close> calls of one release race on a database, and whichever of them
  fail, no script runs twice, none that was recorded before or adopted runs, the scripts run in
  ascending order, the contents are what they leave in that order, and the ledger records exactly
  what was recorded, adopted or run.
\<close>

theorem racing_ups_run_each_script_once:
  assumes "Discover sha files = Inr ms" and "distinct (recorded db)"
    and "reachable_from (mu_start db) (migrate_step pg ms) s"
  shows "sorted_wrt (<) (map mg_Version (mu_Log s)) \<and>
    run_scripts pg (mu_Log s) (dbs_Contents db) = Some (dbs_Contents (mu_DB s)) \<and>
    distinct (recorded (mu_DB s)) \<and>
    set (recorded (mu_DB s)) = set (recorded db) \<union> mu_Claimed s \<union> mg_Version ` set (mu_Log s) \<and>
    (set (recorded db) \<union> mu_Claimed s) \<inter> mg_Version ` set (mu_Log s) = {}"
proof -
  have "mu_inv pg ms db s"
    using mu.reachable_inv [OF assms(3)] assms(2) Discover_ordered(1) [OF assms(1)] by blast
  then show ?thesis unfolding mu_inv_def by blast
qed

text \<open>Two calls look at the demo database; one applies 2, the other fails on it, the first goes on.\<close>

lemma demo_race:
  defines "m2 \<equiv> demo_migration 2 ''b'' ''posts''" and "m3 \<equiv> demo_migration 3 ''a'' ''tags''"
  shows "\<exists>s. reachable_from (mu_start demo_database) (migrate_step demo_pg demo_migrations) s \<and> mu_Log s = [m2, m3] \<and> mu_Claimed s = {}"
proof -
  let ?step = "migrate_step demo_pg demo_migrations"
  define at where "at rows ts queue calls ran =
    \<lparr>mu_DB = \<lparr>dbs_Ledger = Some rows, dbs_Contents = ts\<rparr>, mu_Opening = queue, mu_Calls = calls, mu_Log = ran, mu_Claimed = {}\<rparr>"
    for rows :: "applied_row list" and ts :: "string list" and queue calls ran
  define l1 where "l1 = ledger_row 0 (demo_migration 1 ''a'' ''users'')"
  note simps = at_def l1_def m2_def m3_def demo_pg_def demo_migrations_def demo_migration_def ledger_row_def
  have todo: "to_apply (Inspect demo_pg \<lparr>dbs_Ledger = Some [l1], dbs_Contents = [''users'']\<rparr> demo_migrations) demo_migrations = [m2, m3]"
    by (simp add: simps to_apply_recorded recorded_def ledger_of_def)
  have look: "?step (at [l1] [''users''] queue [] []) (at [l1] [''users''] ([m2, m3] # queue) [] [])" for queue
    using migrate_step.inspected [of demo_pg "at [l1] [''users''] queue [] []" demo_migrations] todo
    by (simp add: at_def applied_recorded recorded_def ledger_of_def)
  have open_step: "?step (at [l1] [''users''] ([m2, m3] # queue) calls []) (at [l1] [''users''] queue ([m2, m3] # calls) [])" for queue calls
    using migrate_step.opened [of "[m2, m3]" "at [l1] [''users''] ([m2, m3] # queue) calls []" demo_pg demo_migrations]
    by (simp add: at_def createLedger_def)
  have a1: "?step (at [l1] [''users''] [] [[m2, m3], [m2, m3]] []) (at [l1, ledger_row 1 m2] [''users'', ''posts''] [] [[m3], [m2, m3]] [m2])"
    using migrate_step.applied [of m2 "[m3]" "at [l1] [''users''] [] [[m2, m3], [m2, m3]] []" demo_pg 1 _ demo_migrations]
    by (simp add: simps applyOne_def)
  have e1: "?step (at [l1, ledger_row 1 m2] [''users'', ''posts''] [] [[m3], [m2, m3]] [m2]) (at [l1, ledger_row 1 m2] [''users'', ''posts''] [] [[m3]] [m2])"
    using migrate_step.ended [of "[m2, m3]" "at [l1, ledger_row 1 m2] [''users'', ''posts''] [] [[m3], [m2, m3]] [m2]" demo_pg demo_migrations]
    by (simp add: simps)
  have a2: "?step (at [l1, ledger_row 1 m2] [''users'', ''posts''] [] [[m3]] [m2])
      (at [l1, ledger_row 1 m2, ledger_row 2 m3] [''users'', ''posts'', ''tags''] [] [[]] [m2, m3])"
    using migrate_step.applied [of m3 "[]" "at [l1, ledger_row 1 m2] [''users'', ''posts''] [] [[m3]] [m2]" demo_pg 2 _ demo_migrations]
    by (simp add: simps applyOne_def)
  have "mu_start demo_database (at [l1] [''users''] [] [] [])" by (simp add: mu_start_def at_def demo_database_def l1_def)
  then have "reachable_from (mu_start demo_database) ?step (at [l1, ledger_row 1 m2, ledger_row 2 m3] [''users'', ''posts'', ''tags''] [] [[]] [m2, m3])"
    using look look open_step open_step a1 e1 a2 by (meson reachable_from.intros)
  then show ?thesis by (intro exI conjI) (assumption, simp_all add: at_def)
qed

theorem racing_ups_run_each_script_once_witness:
  "\<exists>s :: string list migrate_run. map mg_Version (mu_Log s) = [2, 3] \<and> set (recorded (mu_DB s)) = {1, 2, 3} \<and>
     run_scripts demo_pg (mu_Log s) [''users''] = Some (dbs_Contents (mu_DB s)) \<and> distinct (recorded (mu_DB s))"
proof -
  obtain s :: "string list migrate_run" where s: "reachable_from (mu_start demo_database) (migrate_step demo_pg demo_migrations) s"
      "map mg_Version (mu_Log s) = [2, 3]" "mu_Claimed s = {}" "mg_Version ` set (mu_Log s) = {2, 3}"
    using demo_race by (auto simp: demo_migration_def)
  have d: "distinct (recorded demo_database)" "set (recorded demo_database) = {1}" by code_simp+
  from racing_ups_run_each_script_once [OF demo_discovered d(1) s(1)] show ?thesis
    using s d(2) by (intro exI [of _ s]) (auto simp: demo_database_def)
qed

end
