(* ===== verification/Credentials.thy ===== *)
theory Credentials
  imports Authz
begin

text \<open>
  Bearer credentials: the signer (\<open>internal/auth/jwt/token.go\<close>), the two middlewares that
  turn a request into a subject (\<open>internal/pkg/authn\<close>), and the revocable agent
  credentials (\<open>internal/auth/service/agent_credential_service.go\<close> over
  \<open>internal/auth/repository/agent_credential_repository.go\<close>).

  The JWT library and \<open>uuid.Parse\<close> are the outside functions.  \<open>jwt_laws\<close> is what the
  code relies on: a signed token verifies under its own key and algorithm until it
  expires, and under nothing else.  Times are whole seconds.
\<close>

section \<open>Claims and the signer\<close>

record claims =
  c_Roles :: "string list"
  c_TenantID :: string
  c_TenantRole :: string
  c_Region :: string
  c_MFA :: bool
  c_Delivery :: bool
  c_PreviewEntry :: string
  c_Kind :: string
  c_AgentID :: string
  c_Principal :: string
  c_AllowedTypes :: "string list option"
  c_ID :: string
  c_Subject :: string
  c_IssuedAt :: int
  c_ExpiresAt :: int

definition no_claims :: claims where
  "no_claims = \<lparr>c_Roles = [], c_TenantID = [], c_TenantRole = [], c_Region = [], c_MFA = False,
     c_Delivery = False, c_PreviewEntry = [], c_Kind = [], c_AgentID = [], c_Principal = [],
     c_AllowedTypes = None, c_ID = [], c_Subject = [], c_IssuedAt = 0, c_ExpiresAt = 0\<rparr>"

record signer =
  secret :: string
  deliverySecret :: string
  ttl :: int
  agentTTL :: int

definition NewSigner :: "string \<Rightarrow> int \<Rightarrow> signer" where
  "NewSigner key t = \<lparr>secret = key, deliverySecret = [], ttl = t, agentTTL = 0\<rparr>"

definition WithAgentTTL :: "signer \<Rightarrow> int \<Rightarrow> signer" where
  "WithAgentTTL S t = S\<lparr>agentTTL := t\<rparr>"

definition agentLifetime :: "signer \<Rightarrow> int" where
  "agentLifetime S = (if 0 < agentTTL S then agentTTL S else ttl S)"

definition WithDeliveryKey :: "signer \<Rightarrow> string \<Rightarrow> signer" where
  "WithDeliveryKey S key = S\<lparr>deliverySecret := key\<rparr>"

definition deliveryEnabled :: "signer \<Rightarrow> bool" where
  "deliveryEnabled S \<longleftrightarrow> deliverySecret S \<noteq> []"

text \<open>
  The library: \<open>SignedString\<close> and \<open>ParseWithClaims\<close>, the latter handed the key function of
  the algorithm it finds in the token.
\<close>

record jwt_lib =
  jwt_sign :: "string \<Rightarrow> string \<Rightarrow> claims \<Rightarrow> string option"
  jwt_parse :: "(string \<Rightarrow> string option) \<Rightarrow> int \<Rightarrow> string \<Rightarrow> (claims \<times> bool) option"

text \<open>A claim set survives the JSON round trip unless its whitelist is empty but present.\<close>

definition wire_ok :: "claims \<Rightarrow> bool" where
  "wire_ok c \<longleftrightarrow> c_AllowedTypes c \<noteq> Some []"

definition jwt_laws :: "jwt_lib \<Rightarrow> bool" where
  "jwt_laws L \<longleftrightarrow>
     (\<forall>alg key c t. jwt_sign L alg key c = Some t \<longrightarrow> wire_ok c \<longrightarrow>
        TrimSpace t = t \<and>
        (\<forall>keyfunc now. jwt_parse L keyfunc now t =
           (if keyfunc alg = Some key \<and> now < c_ExpiresAt c then Some (c, True) else None)))"

datatype jwt_error =
    ErrDeliveryDisabled | ErrNotMintable | ErrAgentScopeUnset | ErrAgentCredentialUnset
  | ErrRoleNotMintable | SignFailed string

definition signed :: "jwt_lib \<Rightarrow> string \<Rightarrow> claims \<Rightarrow> string \<Rightarrow> jwt_error + (string \<times> int)" where
  "signed L key c what =
     (case jwt_sign L ''HS256'' key c of
        None \<Rightarrow> Inl (SignFailed what)
      | Some t \<Rightarrow> Inr (t, c_ExpiresAt c))"

definition IssueAccessToken ::
  "jwt_lib \<Rightarrow> signer \<Rightarrow> int \<Rightarrow> uuid \<Rightarrow> string list \<Rightarrow> string \<Rightarrow> string \<Rightarrow> string \<Rightarrow> bool \<Rightarrow>
     jwt_error + (string \<times> int)" where
  "IssueAccessToken L S now userID roles tenantID tenantRole region mfa =
     signed L (secret S)
       (no_claims\<lparr>c_Roles := roles, c_TenantID := tenantID, c_TenantRole := tenantRole,
          c_Region := region, c_MFA := mfa, c_Subject := userID, c_IssuedAt := now,
          c_ExpiresAt := now + ttl S\<rparr>) ''jwt: sign''"

definition IssueDeliveryToken ::
  "jwt_lib \<Rightarrow> signer \<Rightarrow> int \<Rightarrow> uuid \<Rightarrow> string \<Rightarrow> jwt_error + (string \<times> int)" where
  "IssueDeliveryToken L S now serviceID tenantSlug =
     (if \<not> deliveryEnabled S then Inl ErrDeliveryDisabled
      else signed L (deliverySecret S)
        (no_claims\<lparr>c_TenantID := tenantSlug, c_TenantRole := ''viewer'', c_Delivery := True,
           c_Subject := serviceID, c_IssuedAt := now, c_ExpiresAt := now + ttl S\<rparr>) ''jwt: sign delivery'')"

definition agent_claims ::
  "signer \<Rightarrow> int \<Rightarrow> claims \<Rightarrow> uuid \<Rightarrow> uuid \<Rightarrow> string \<Rightarrow> string \<Rightarrow> string list \<Rightarrow> claims" where
  "agent_claims S now minter person credentialID agentID tenantRole allowedTypes =
     no_claims\<lparr>c_TenantID := c_TenantID minter, c_TenantRole := tenantRole, c_Region := c_Region minter,
       c_Kind := ''agent'', c_AgentID := agentID, c_Principal := person,
       c_AllowedTypes := Some allowedTypes, c_ID := credentialID, c_Subject := person,
       c_IssuedAt := now, c_ExpiresAt := now + agentLifetime S\<rparr>"

definition IssueAgentToken ::
  "(string \<Rightarrow> uuid option) \<Rightarrow> jwt_lib \<Rightarrow> signer \<Rightarrow> int \<Rightarrow> claims option \<Rightarrow> uuid \<Rightarrow> string \<Rightarrow> string \<Rightarrow>
     string list \<Rightarrow> jwt_error + (string \<times> int)" where
  "IssueAgentToken parse L S now minter credentialID agentID tenantRole allowedTypes =
     (case minter of
        None \<Rightarrow> Inl ErrNotMintable
      | Some m \<Rightarrow>
          if c_TenantID m = [] \<or> c_Delivery m \<or> c_PreviewEntry m \<noteq> [] \<or> c_Kind m \<noteq> []
          then Inl ErrNotMintable
          else case parse (c_Subject m) of
                 None \<Rightarrow> Inl ErrNotMintable
               | Some person \<Rightarrow>
                   if agentID = [] then Inl ErrNotMintable
                   else if credentialID = uuid_Nil then Inl ErrAgentCredentialUnset
                   else if allowedTypes = [] then Inl ErrAgentScopeUnset
                   else if \<not> CanMintAgentRole (c_TenantRole m) tenantRole then Inl ErrRoleNotMintable
                   else signed L (secret S)
                     (agent_claims S now m person credentialID agentID tenantRole allowedTypes)
                     ''jwt: sign agent'')"

definition PreviewTokenTTL :: int where "PreviewTokenTTL = 1800"

definition IssuePreviewToken ::
  "jwt_lib \<Rightarrow> signer \<Rightarrow> int \<Rightarrow> uuid \<Rightarrow> string \<Rightarrow> uuid \<Rightarrow> jwt_error + (string \<times> int)" where
  "IssuePreviewToken L S now issuerID tenantSlug entryID =
     (if \<not> deliveryEnabled S then Inl ErrDeliveryDisabled
      else signed L (deliverySecret S)
        (no_claims\<lparr>c_TenantID := tenantSlug, c_TenantRole := ''viewer'', c_Delivery := True,
           c_PreviewEntry := entryID, c_Subject := issuerID, c_IssuedAt := now,
           c_ExpiresAt := now + PreviewTokenTTL\<rparr>) ''jwt: sign preview'')"

definition parseWith :: "jwt_lib \<Rightarrow> int \<Rightarrow> string \<Rightarrow> string \<Rightarrow> claims option" where
  "parseWith L now raw key =
     (case jwt_parse L (\<lambda>alg. if alg \<noteq> ''HS256'' then None else Some key) now raw of
        None \<Rightarrow> None
      | Some (c, valid) \<Rightarrow> if valid then Some c else None)"

definition validateAgentClaims :: "(string \<Rightarrow> uuid option) \<Rightarrow> claims \<Rightarrow> bool" where
  "validateAgentClaims parse c =
     (if c_Kind c = [] \<or> c_Kind c = ''human'' then True
      else if c_Kind c \<noteq> ''agent'' then False
      else c_AgentID c \<noteq> [] \<and> parse (c_Principal c) \<noteq> None \<and>
           (case c_AllowedTypes c of None \<Rightarrow> False | Some ts \<Rightarrow> ts \<noteq> []) \<and> parse (c_ID c) \<noteq> None)"

definition ParseAccessToken ::
  "(string \<Rightarrow> uuid option) \<Rightarrow> jwt_lib \<Rightarrow> signer \<Rightarrow> int \<Rightarrow> string \<Rightarrow> claims option" where
  "ParseAccessToken parse L S now raw =
     (case parseWith L now raw (secret S) of
        Some c \<Rightarrow>
          if c_Delivery c then None
          else if c_PreviewEntry c \<noteq> [] then None
          else if \<not> validateAgentClaims parse c then None
          else Some c
      | None \<Rightarrow>
          if \<not> deliveryEnabled S then None
          else case parseWith L now raw (deliverySecret S) of
                 None \<Rightarrow> None
               | Some c \<Rightarrow>
                   if \<not> c_Delivery c then None
                   else if c_Kind c \<noteq> [] then None
                   else Some c)"

section \<open>From a request to a subject\<close>

definition subject_of_claims :: "(string \<Rightarrow> uuid option) \<Rightarrow> claims \<Rightarrow> subject option" where
  "subject_of_claims parse c =
     (case parse (c_Subject c) of
        None \<Rightarrow> None
      | Some userID \<Rightarrow>
          if c_PreviewEntry c \<noteq> [] \<and> parse (c_PreviewEntry c) = None then None
          else if c_Kind c = ''agent'' \<and> (parse (c_Principal c) = None \<or> parse (c_ID c) = None) then None
          else Some
            \<lparr>UserID = userID, Roles = c_Roles c, TenantID = c_TenantID c, TenantRole = c_TenantRole c,
             Region = c_Region c, MFAVerified = c_MFA c, PublicDelivery = c_Delivery c,
             PreviewEntryID = (if c_PreviewEntry c \<noteq> [] then parse (c_PreviewEntry c) else None),
             ActorKind = c_Kind c,
             AgentID = (if c_Kind c = ''agent'' then Some (c_AgentID c) else None),
             PrincipalID = (if c_Kind c = ''agent'' then parse (c_Principal c) else None),
             AllowedTypes = c_AllowedTypes c,
             CredentialID = (if c_Kind c = ''agent'' then parse (c_ID c) else None)\<rparr>)"

definition subjectFromBearer ::
  "(string \<Rightarrow> uuid option) \<Rightarrow> jwt_lib \<Rightarrow> signer \<Rightarrow> int \<Rightarrow> string \<Rightarrow> subject option" where
  "subjectFromBearer parse L S now authorization =
     (if \<not> HasPrefix authorization ''Bearer '' then None
      else case ParseAccessToken parse L S now (TrimSpace (drop 7 authorization)) of
             None \<Rightarrow> None
           | Some c \<Rightarrow> subject_of_claims parse c)"

text \<open>\<open>checker\<close> is \<open>IsActive\<close>: absent when none is wired, a failure, or the answer.\<close>

definition agentCredentialUsable :: "(uuid \<Rightarrow> bool option) option \<Rightarrow> subject \<Rightarrow> bool" where
  "agentCredentialUsable checker sub =
     (case checker of
        None \<Rightarrow> False
      | Some isActive \<Rightarrow>
          (case CredentialID sub of
             None \<Rightarrow> False
           | Some i \<Rightarrow> (case isActive i of None \<Rightarrow> False | Some active \<Rightarrow> active)))"

fun split_comma :: "string \<Rightarrow> string \<Rightarrow> string list" where
  "split_comma cur [] = [cur]"
| "split_comma cur (c # cs) = (if c = CHR '','' then cur # split_comma [] cs else split_comma (cur @ [c]) cs)"

definition parseRoles :: "string \<Rightarrow> string list" where
  "parseRoles raw =
     (if raw = [] then [] else filter (\<lambda>p. p \<noteq> []) (map TrimSpace (split_comma [] raw)))"

text \<open>The development middleware: the subject a request's own headers name.\<close>

definition Middleware :: "(string \<Rightarrow> uuid option) \<Rightarrow> (string \<Rightarrow> string) \<Rightarrow> subject option" where
  "Middleware parse header =
     (let rawID = TrimSpace (header ''X-User-Id'') in
      if rawID = [] then None
      else case parse rawID of
             None \<Rightarrow> None
           | Some userID \<Rightarrow> Some
               \<lparr>UserID = userID, Roles = parseRoles (header ''X-User-Roles''),
                TenantID = TrimSpace (header ''X-Tenant-Id''),
                TenantRole = TrimSpace (header ''X-Tenant-Role''),
                Region = TrimSpace (header ''X-User-Region''),
                MFAVerified = (ToLower (header ''X-Mfa-Verified'') = ''true''),
                PublicDelivery = False, PreviewEntryID = None, ActorKind = [], AgentID = None,
                PrincipalID = None, AllowedTypes = None, CredentialID = None\<rparr>)"

definition JWTMiddleware ::
  "(string \<Rightarrow> uuid option) \<Rightarrow> jwt_lib \<Rightarrow> signer \<Rightarrow> int \<Rightarrow> bool \<Rightarrow> (uuid \<Rightarrow> bool option) option \<Rightarrow>
     (string \<Rightarrow> string) \<Rightarrow> subject option" where
  "JWTMiddleware parse L S now allowDevHeaders agentCredentials header =
     (case subjectFromBearer parse L S now (header ''Authorization'') of
        Some sub \<Rightarrow>
          if IsAgent sub \<and> \<not> agentCredentialUsable agentCredentials sub then None else Some sub
      | None \<Rightarrow> if allowDevHeaders then Middleware parse header else None)"


section \<open>The revocation records\<close>

record agent_credential =
  cr_ID :: uuid
  cr_TenantID :: string
  cr_AgentID :: string
  cr_PrincipalID :: uuid
  cr_TenantRole :: string
  cr_AllowedTypes :: "string list"
  cr_ExpiresAt :: int
  cr_RevokedAt :: "int option"
  cr_RevokedBy :: "uuid option"
  cr_CreatedAt :: int

type_synonym credential_table = "agent_credential list"

text \<open>
  The table with its primary key and its check constraint: an insert that repeats an id or
  carries no content type fails.
\<close>

definition Insert_credential :: "agent_credential \<Rightarrow> credential_table \<Rightarrow> go_error + credential_table" where
  "Insert_credential cred tab =
     (if cr_ID cred \<in> cr_ID ` set tab \<or> cr_AllowedTypes cred = []
      then Inl (PlainError ''agent_credentials constraint'')
      else Inr (cred # tab))"

definition ListByTenant :: "string \<Rightarrow> credential_table \<Rightarrow> agent_credential list" where
  "ListByTenant tenantID tab =
     sort_key (\<lambda>c. - cr_CreatedAt c) (filter (\<lambda>c. cr_TenantID c = tenantID) tab)"

definition coalesce :: "'a option \<Rightarrow> 'a \<Rightarrow> 'a option" where
  "coalesce a b = (case a of Some x \<Rightarrow> Some x | None \<Rightarrow> Some b)"

definition revoke_row :: "int \<Rightarrow> uuid \<Rightarrow> agent_credential \<Rightarrow> agent_credential" where
  "revoke_row now by c =
     c\<lparr>cr_RevokedAt := coalesce (cr_RevokedAt c) now, cr_RevokedBy := coalesce (cr_RevokedBy c) by\<rparr>"

definition Revoke_credential ::
  "int \<Rightarrow> string \<Rightarrow> uuid \<Rightarrow> uuid \<Rightarrow> credential_table \<Rightarrow> credential_table option" where
  "Revoke_credential now tenantID i revokedBy tab =
     (if list_ex (\<lambda>c. cr_ID c = i \<and> cr_TenantID c = tenantID) tab
      then Some (map (\<lambda>c. if cr_ID c = i \<and> cr_TenantID c = tenantID then revoke_row now revokedBy c else c) tab)
      else None)"

definition IsActive :: "int \<Rightarrow> credential_table \<Rightarrow> uuid \<Rightarrow> bool" where
  "IsActive now tab i =
     (case find (\<lambda>c. cr_ID c = i) tab of
        None \<Rightarrow> False
      | Some c \<Rightarrow> cr_RevokedAt c = None \<and> now < cr_ExpiresAt c)"

section \<open>The credential service\<close>

record issue_input =
  ii_AgentID :: string
  ii_TenantRole :: string
  ii_AllowedTypes :: "string list"

definition bad_request :: go_error where
  "bad_request = AppError (New ''VALIDATION_FAILED'' 400)"

text \<open>
  \<open>Issue\<close>, given the authorizer and the fresh identifier \<open>uuid.New\<close> drew.  The result is
  the stored row's table and the issued token with its identifier.
\<close>

definition Issue ::
  "(subject option \<Rightarrow> authz_input \<Rightarrow> go_error option) \<Rightarrow> (string \<Rightarrow> uuid option) \<Rightarrow> jwt_lib \<Rightarrow> signer \<Rightarrow>
     int \<Rightarrow> subject option \<Rightarrow> string \<Rightarrow> issue_input \<Rightarrow> uuid \<Rightarrow> credential_table \<Rightarrow>
     go_error + (credential_table \<times> uuid \<times> string)" where
  "Issue allow parse L S now ctx bearer inp fresh tab =
     (case ctx of
        None \<Rightarrow> Inl unauthorized
      | Some sub \<Rightarrow>
          and_then (refuse_if (allow ctx
            \<lparr>Action = ''agent:credential:issue'', ResourceType = ''agent_credential'', ResourceID = []\<rparr>)) (\<lambda>_.
          and_then (require (ii_AgentID inp \<noteq> []) bad_request) (\<lambda>_.
          and_then (require (ii_TenantRole inp \<noteq> []) bad_request) (\<lambda>_.
          and_then (require (ii_AllowedTypes inp \<noteq> []) bad_request) (\<lambda>_.
          and_then (require (bearer \<noteq> []) bad_request) (\<lambda>_.
          case ParseAccessToken parse L S now bearer of
            None \<Rightarrow> Inl unauthorized
          | Some minter \<Rightarrow>
              and_then (require (CanMintAgentRole (c_TenantRole minter) (ii_TenantRole inp))
                          (AppError (New ''FORBIDDEN'' 403))) (\<lambda>_.
              case IssueAgentToken parse L S now (Some minter) fresh (ii_AgentID inp) (ii_TenantRole inp)
                     (ii_AllowedTypes inp) of
                Inl e \<Rightarrow>
                  (if e \<in> set [ErrNotMintable, ErrAgentScopeUnset, ErrRoleNotMintable]
                   then Inl forbidden else Inl (PlainError ''jwt''))
              | Inr (token, expiresAt) \<Rightarrow>
                  and_then (Insert_credential
                    \<lparr>cr_ID = fresh, cr_TenantID = c_TenantID minter, cr_AgentID = ii_AgentID inp,
                     cr_PrincipalID = UserID sub, cr_TenantRole = ii_TenantRole inp,
                     cr_AllowedTypes = ii_AllowedTypes inp, cr_ExpiresAt = expiresAt,
                     cr_RevokedAt = None, cr_RevokedBy = None, cr_CreatedAt = now\<rparr> tab) (\<lambda>tab'.
                  Inr (tab', fresh, token)))))))))"

text \<open>\<open>List\<close>: each row of the subject's tenant with its computed \<open>Active\<close> flag.\<close>

definition List_credentials ::
  "(subject option \<Rightarrow> authz_input \<Rightarrow> go_error option) \<Rightarrow> int \<Rightarrow> subject option \<Rightarrow> credential_table \<Rightarrow>
     go_error + (agent_credential \<times> bool) list" where
  "List_credentials allow now ctx tab =
     (case ctx of
        None \<Rightarrow> Inl unauthorized
      | Some sub \<Rightarrow>
          and_then (refuse_if (allow ctx
            \<lparr>Action = ''agent:credential:list'', ResourceType = ''agent_credential'', ResourceID = []\<rparr>)) (\<lambda>_.
          Inr (map (\<lambda>c. (c, cr_RevokedAt c = None \<and> now < cr_ExpiresAt c))
                 (ListByTenant (TenantID sub) tab))))"

definition Revoke ::
  "(subject option \<Rightarrow> authz_input \<Rightarrow> go_error option) \<Rightarrow> int \<Rightarrow> subject option \<Rightarrow> uuid \<Rightarrow>
     credential_table \<Rightarrow> go_error + credential_table" where
  "Revoke allow now ctx i tab =
     (case ctx of
        None \<Rightarrow> Inl unauthorized
      | Some sub \<Rightarrow>
          and_then (refuse_if (allow ctx
            \<lparr>Action = ''agent:credential:revoke'', ResourceType = ''agent_credential'', ResourceID = i\<rparr>)) (\<lambda>_.
          case Revoke_credential now (TenantID sub) i (UserID sub) tab of
            None \<Rightarrow> Inl (AppError ErrNotFound)
          | Some tab' \<Rightarrow> Inr tab'))"

text \<open>The table as time passes: a step is one successful call.\<close>

inductive credential_step ::
  "(subject option \<Rightarrow> authz_input \<Rightarrow> go_error option) \<Rightarrow> (string \<Rightarrow> uuid option) \<Rightarrow> jwt_lib \<Rightarrow> signer \<Rightarrow>
     credential_table \<Rightarrow> credential_table \<Rightarrow> bool"
  for allow parse L S where
  issue_step: "Issue allow parse L S now ctx bearer inp fresh tab = Inr (tab', i, token) \<Longrightarrow>
     credential_step allow parse L S tab tab'"
| revoke_step: "Revoke allow now ctx i tab = Inr tab' \<Longrightarrow> credential_step allow parse L S tab tab'"

inductive_cases credential_stepE: "credential_step allow parse L S tab tab'"


section \<open>What a verified token says\<close>

lemma parseWith_signed:
  assumes "jwt_laws L" and "jwt_sign L ''HS256'' key c = Some t" and "wire_ok c"
  shows "parseWith L now t key' = (if key = key' \<and> now < c_ExpiresAt c then Some c else None)"
    and "TrimSpace t = t"
  using assms unfolding jwt_laws_def parseWith_def by fastforce+

lemma ParseAccessToken_cases:
  assumes "ParseAccessToken parse L S now raw = Some c"
  shows "c_Delivery c \<and> c_Kind c = [] \<and> deliveryEnabled S \<or>
    \<not> c_Delivery c \<and> c_PreviewEntry c = [] \<and> validateAgentClaims parse c"
  using assms by (auto simp: ParseAccessToken_def split: option.splits if_splits)

lemma IssueAgentToken_ok:
  assumes "IssueAgentToken parse L S now (Some m) cid aid role types = Inr (t, e)"
  obtains person where "parse (c_Subject m) = Some person"
    and "jwt_sign L ''HS256'' (secret S) (agent_claims S now m person cid aid role types) = Some t"
    and "c_TenantID m \<noteq> []" "\<not> c_Delivery m" "c_PreviewEntry m = []" "c_Kind m = []" "aid \<noteq> []"
    and "cid \<noteq> uuid_Nil" "types \<noteq> []" "CanMintAgentRole (c_TenantRole m) role"
    and "e = now + agentLifetime S"
  using assms by (auto simp: IssueAgentToken_def signed_def agent_claims_def split: option.splits if_splits)

lemma agent_claims_wire: "types \<noteq> [] \<Longrightarrow> wire_ok (agent_claims S now m person cid aid role types)"
  by (simp add: wire_ok_def agent_claims_def)

text \<open>\<open>uuid.Parse\<close> reads back the canonical text it returned.\<close>

definition canonical_parser :: "(string \<Rightarrow> uuid option) \<Rightarrow> bool" where
  "canonical_parser parse \<longleftrightarrow> (\<forall>s u. parse s = Some u \<longrightarrow> parse u = Some u)"

text \<open>The subject an issued agent token yields, whenever it yields one.\<close>

lemma agent_token_subject:
  assumes laws: "jwt_laws L"
    and issued: "IssueAgentToken parse L S now (Some m) cid aid role types = Inr (t, e)"
    and canon: "canonical_parser parse" and cid: "parse cid = Some cid"
  shows "subjectFromBearer parse L S now' (''Bearer '' @ t) =
    (if now' < e
     then Some \<lparr>UserID = the (parse (c_Subject m)), Roles = [], TenantID = c_TenantID m, TenantRole = role,
       Region = c_Region m, MFAVerified = False, PublicDelivery = False, PreviewEntryID = None,
       ActorKind = ''agent'', AgentID = Some aid, PrincipalID = parse (c_Subject m),
       AllowedTypes = Some types, CredentialID = Some cid\<rparr>
     else None)"
proof -
  from issued obtain person where p: "parse (c_Subject m) = Some person"
    and sig: "jwt_sign L ''HS256'' (secret S) (agent_claims S now m person cid aid role types) = Some t"
    and g: "aid \<noteq> []" "types \<noteq> []" and e: "e = now + agentLifetime S"
    by (rule IssueAgentToken_ok)
  let ?c = "agent_claims S now m person cid aid role types"
  have pw: "parseWith L now' t k = (if secret S = k \<and> now' < e then Some ?c else None)" for k
    using parseWith_signed(1) [OF laws sig agent_claims_wire [OF g(2)]] e by (simp add: agent_claims_def)
  have trim: "TrimSpace t = t" by (rule parseWith_signed(2) [OF laws sig agent_claims_wire [OF g(2)]])
  have pp: "parse person = Some person" using canon p by (auto simp: canonical_parser_def)
  have ok: "validateAgentClaims parse ?c"
    using g pp cid by (simp add: validateAgentClaims_def agent_claims_def no_claims_def)
  have "ParseAccessToken parse L S now' t = (if now' < e then Some ?c else None)"
    using ok by (auto simp: ParseAccessToken_def pw) (auto simp: agent_claims_def no_claims_def)
  then show ?thesis
    by (simp add: subjectFromBearer_def HasPrefix_def trim subject_of_claims_def p)
      (simp add: agent_claims_def no_claims_def pp cid)
qed

text \<open>
  C10: an agent credential reaches nothing its minter could not.  Whatever a request
  authenticated by a minted token is permitted, the person who minted it is permitted
  too, under either authorizer; and the token acts in the minter's tenant, with the
  requested content types and no platform role.
\<close>

theorem agent_reaches_no_more_than_its_minter:
  assumes "jwt_laws L" and "canonical_parser parse" and "parse cid = Some cid"
    and "IssueAgentToken parse L S now (Some m) cid aid role types = Inr (t, e)"
    and "subject_of_claims parse m = Some minter"
    and "subjectFromBearer parse L S now' (''Bearer '' @ t) = Some agent"
  shows "IsAgent agent \<and> TenantID agent = TenantID minter \<and> Roles agent = [] \<and>
    ResponsibleUserID agent = UserID minter \<and> AllowedTypes agent = Some types \<and>
    (RBAC_Allow parse (Some agent) i = None \<longrightarrow> RBAC_Allow parse (Some minter) i = None) \<and>
    (OPA_Allow facts (Some agent) i = None \<longrightarrow> OPA_Allow facts (Some minter) i = None)"
proof -
  from assms(4) obtain person where p: "parse (c_Subject m) = Some person" and k: "c_Kind m = []"
    and r: "CanMintAgentRole (c_TenantRole m) role" by (rule IssueAgentToken_ok)
  have agent: "agent = \<lparr>UserID = person, Roles = [], TenantID = c_TenantID m, TenantRole = role,
       Region = c_Region m, MFAVerified = False, PublicDelivery = False, PreviewEntryID = None,
       ActorKind = ''agent'', AgentID = Some aid, PrincipalID = Some person,
       AllowedTypes = Some types, CredentialID = Some cid\<rparr>"
    using assms(6) p unfolding agent_token_subject [OF assms(1,4,2,3)] by (simp split: if_splits)
  have minter: "UserID minter = person" "TenantID minter = c_TenantID m"
    "TenantRole minter = c_TenantRole m" "ActorKind minter = []"
    using assms(5) p k by (auto simp: subject_of_claims_def split: if_splits)
  have a: "IsAgent agent" "UserID minter = UserID agent" "TenantID minter = TenantID agent"
    "\<not> IsAgent minter" "CanMintAgentRole (TenantRole minter) (TenantRole agent)" "Roles agent = []"
    "ResponsibleUserID agent = UserID minter" "AllowedTypes agent = Some types"
    using minter r by (simp_all add: agent IsAgent_def ActorKindAgent_def ResponsibleUserID_def)
  show ?thesis
    using rbac.downgraded_reaches_less [OF a(1-5), of parse i]
      opa.downgraded_reaches_less [OF a(1-5), of facts i] a by auto
qed


definition sample_signer :: signer where
  "sample_signer = WithAgentTTL (WithDeliveryKey (NewSigner ''k'' 900) ''d'') 2592000"

definition sample_minter :: claims where
  "sample_minter = no_claims\<lparr>c_TenantID := ''t1'', c_TenantRole := ''owner'', c_Subject := ''u1'',
     c_ExpiresAt := 900\<rparr>"

text \<open>A library that signs one claim set and accepts what it signed, beside one earlier token.\<close>

definition sample_jwt :: "string \<Rightarrow> claims \<Rightarrow> jwt_lib" where
  "sample_jwt key c =
     \<lparr>jwt_sign = (\<lambda>alg k c'. if alg = ''HS256'' \<and> k = key \<and> c' = c then Some ''t'' else None),
      jwt_parse = (\<lambda>keyfunc now t. if t = ''m'' then Some (sample_minter, True)
                      else if t = ''t'' \<and> keyfunc ''HS256'' = Some key \<and> now < c_ExpiresAt c
                      then Some (c, True) else None)\<rparr>"

definition sample_agent :: claims where
  "sample_agent = agent_claims sample_signer 0 sample_minter ''u1'' ''c1'' ''bot'' ''editor'' [''posts'']"

lemma sample_jwt_laws: "jwt_laws (sample_jwt key c)"
proof -
  have "TrimSpace ''t'' = ''t''" by code_simp
  then show ?thesis by (auto simp: jwt_laws_def sample_jwt_def)
qed

lemma sample_issue:
  "IssueAgentToken Some (sample_jwt ''k'' sample_agent) sample_signer 0 (Some sample_minter)
     ''c1'' ''bot'' ''editor'' [''posts''] = Inr (''t'', 2592000)"
  by (simp add: IssueAgentToken_def signed_def sample_jwt_def sample_agent_def sample_minter_def
      sample_signer_def NewSigner_def WithDeliveryKey_def WithAgentTTL_def agentLifetime_def
      uuid_Nil_def CanMintAgentRole_def mintableAgentRoles_def role_defs agent_claims_def no_claims_def)

lemma sample_canonical: "canonical_parser Some"
  by (simp add: canonical_parser_def)

theorem agent_reaches_no_more_than_its_minter_witness:
  "\<exists>agent minter. subjectFromBearer Some (sample_jwt ''k'' sample_agent) sample_signer 1 ''Bearer t'' = Some agent \<and>
     subject_of_claims Some sample_minter = Some minter \<and>
     RBAC_Allow Some (Some agent) \<lparr>Action = ''content:update'', ResourceType = [], ResourceID = []\<rparr> = None \<and>
     RBAC_Allow Some (Some minter) \<lparr>Action = ''content:update'', ResourceType = [], ResourceID = []\<rparr> = None"
proof -
  let ?L = "sample_jwt ''k'' sample_agent"
  let ?i = "\<lparr>Action = ''content:update'', ResourceType = [], ResourceID = []\<rparr>"
  let ?agent = "\<lparr>UserID = ''u1'', Roles = [], TenantID = ''t1'', TenantRole = ''editor'', Region = [],
     MFAVerified = False, PublicDelivery = False, PreviewEntryID = None, ActorKind = ''agent'',
     AgentID = Some ''bot'', PrincipalID = Some ''u1'', AllowedTypes = Some [''posts''], CredentialID = Some ''c1''\<rparr>"
  let ?minter = "\<lparr>UserID = ''u1'', Roles = [], TenantID = ''t1'', TenantRole = ''owner'', Region = [],
     MFAVerified = False, PublicDelivery = False, PreviewEntryID = None, ActorKind = [], AgentID = None,
     PrincipalID = None, AllowedTypes = None, CredentialID = None\<rparr>"
  have a: "subjectFromBearer Some ?L sample_signer 1 (''Bearer '' @ ''t'') = Some ?agent"
    unfolding agent_token_subject [OF sample_jwt_laws sample_issue sample_canonical refl]
    by (simp add: sample_minter_def no_claims_def)
  have m: "subject_of_claims Some sample_minter = Some ?minter"
    by (simp add: subject_of_claims_def sample_minter_def no_claims_def)
  have r: "RBAC_Allow Some (Some ?agent) ?i = None"
    by (simp add: RBAC_Allow_def refuseUnlistedAgentAction_def agent_verbs_def isTenantPlaneAction_def
        HasPrefix_def tenant_plane_decision_def isContentAction_def content_verbs_def allowContentByTenantRole_def)
  show ?thesis
    using agent_reaches_no_more_than_its_minter [OF sample_jwt_laws sample_canonical refl sample_issue m a,
        of ?i] a m r by auto
qed

text \<open>
  the narrow credentials stay apart.  A subject read from a bearer token that carries
  a preview entry is a public-delivery subject; a public-delivery subject is never an
  agent; and an agent subject names its agent, its principal, its revocation record and a
  non-empty list of content types.
\<close>

theorem bearer_subjects_are_narrow:
  assumes "subjectFromBearer parse L S now header = Some sub"
  shows "(PreviewEntryID sub \<noteq> None \<longrightarrow> PublicDelivery sub) \<and> (PublicDelivery sub \<longrightarrow> \<not> IsAgent sub) \<and>
    (IsAgent sub \<longrightarrow> PreviewEntryID sub = None \<and> AgentID sub \<notin> {None, Some []} \<and> PrincipalID sub \<noteq> None \<and>
       CredentialID sub \<noteq> None \<and> AllowedTypes sub \<notin> {None, Some []})"
proof -
  from assms obtain c where p: "ParseAccessToken parse L S now (TrimSpace (drop 7 header)) = Some c"
    and sub: "subject_of_claims parse c = Some sub"
    by (auto simp: subjectFromBearer_def split: if_splits option.splits)
  have d: "PublicDelivery sub = c_Delivery c" "ActorKind sub = c_Kind c" "AllowedTypes sub = c_AllowedTypes c"
    "PreviewEntryID sub \<noteq> None \<longrightarrow> c_PreviewEntry c \<noteq> []"
    "c_Kind c = ''agent'' \<longrightarrow> AgentID sub = Some (c_AgentID c) \<and> PrincipalID sub \<noteq> None \<and> CredentialID sub \<noteq> None"
    using sub by (auto simp: subject_of_claims_def split: option.splits if_splits)
  from ParseAccessToken_cases [OF p] show ?thesis
  proof
    assume "c_Delivery c \<and> c_Kind c = [] \<and> deliveryEnabled S"
    then show ?thesis using d by (simp add: IsAgent_def ActorKindAgent_def)
  next
    assume m: "\<not> c_Delivery c \<and> c_PreviewEntry c = [] \<and> validateAgentClaims parse c"
    then have "c_Kind c = ''agent'' \<longrightarrow> c_AgentID c \<noteq> [] \<and> c_AllowedTypes c \<notin> {None, Some []}"
      by (auto simp: validateAgentClaims_def split: option.splits)
    with m d show ?thesis by (simp add: IsAgent_def ActorKindAgent_def)
  qed
qed

theorem bearer_subjects_are_narrow_witness:
  "\<exists>sub. subjectFromBearer Some (sample_jwt ''k'' sample_agent) sample_signer 1 (''Bearer '' @ ''t'') = Some sub \<and>
     IsAgent sub \<and> \<not> PublicDelivery sub \<and> AllowedTypes sub = Some [''posts'']"
proof -
  obtain sub where a: "subjectFromBearer Some (sample_jwt ''k'' sample_agent) sample_signer 1 (''Bearer '' @ ''t'') = Some sub"
      "IsAgent sub" "AllowedTypes sub = Some [''posts'']"
    unfolding agent_token_subject [OF sample_jwt_laws sample_issue sample_canonical refl]
    by (simp add: IsAgent_def ActorKindAgent_def)
  show ?thesis using bearer_subjects_are_narrow [OF a(1)] a by blast
qed

section \<open>Revocation\<close>

definition revoked_in :: "uuid \<Rightarrow> credential_table \<Rightarrow> bool" where
  "revoked_in i tab \<longleftrightarrow> distinct (map cr_ID tab) \<and> (\<exists>c \<in> set tab. cr_ID c = i \<and> cr_RevokedAt c \<noteq> None)"

lemma revoke_row_simps [simp]:
  "cr_ID (revoke_row now by c) = cr_ID c" "\<exists>t. cr_RevokedAt (revoke_row now by c) = Some t"
  "cr_TenantID (revoke_row now by c) = cr_TenantID c"
  by (simp_all add: revoke_row_def coalesce_def split: option.split)

lemma IsActive_distinct:
  assumes "distinct (map cr_ID tab)" and "c \<in> set tab"
  shows "IsActive now tab (cr_ID c) \<longleftrightarrow> cr_RevokedAt c = None \<and> now < cr_ExpiresAt c"
proof -
  have "find (\<lambda>d. cr_ID d = cr_ID c) tab = Some c"
    using assms by (induction tab) auto
  then show ?thesis by (simp add: IsActive_def)
qed

lemma revoked_not_active: "revoked_in i tab \<Longrightarrow> \<not> IsActive now tab i"
  using IsActive_distinct by (fastforce simp: revoked_in_def)

lemma Insert_credential_ok [simp]:
  "Insert_credential c tab = Inr tab' \<longleftrightarrow>
     cr_ID c \<notin> cr_ID ` set tab \<and> cr_AllowedTypes c \<noteq> [] \<and> tab' = c # tab"
  by (auto simp: Insert_credential_def)

lemma Issue_ok:
  assumes "Issue allow parse L S now ctx bearer inp fresh tab = Inr (tab', i, token)"
  obtains sub m row e where "ctx = Some sub" and "ParseAccessToken parse L S now bearer = Some m"
    and "IssueAgentToken parse L S now (Some m) fresh (ii_AgentID inp) (ii_TenantRole inp) (ii_AllowedTypes inp) = Inr (token, e)"
    and "row = \<lparr>cr_ID = fresh, cr_TenantID = c_TenantID m, cr_AgentID = ii_AgentID inp,
        cr_PrincipalID = UserID sub, cr_TenantRole = ii_TenantRole inp,
        cr_AllowedTypes = ii_AllowedTypes inp, cr_ExpiresAt = e,
        cr_RevokedAt = None, cr_RevokedBy = None, cr_CreatedAt = now\<rparr>"
    and "fresh \<notin> cr_ID ` set tab" and "tab' = row # tab" and "i = fresh"
    and "allow ctx \<lparr>Action = ''agent:credential:issue'', ResourceType = ''agent_credential'', ResourceID = []\<rparr> = None"
proof -
  from assms obtain sub where ctx: "ctx = Some sub" by (cases ctx) (simp_all add: Issue_def)
  obtain m where m: "ParseAccessToken parse L S now bearer = Some m"
    using assms by (cases "ParseAccessToken parse L S now bearer") (simp_all add: Issue_def ctx)
  let ?I = "IssueAgentToken parse L S now (Some m) fresh (ii_AgentID inp) (ii_TenantRole inp) (ii_AllowedTypes inp)"
  obtain t e where t: "?I = Inr (t, e)"
    using assms by (cases ?I) (auto simp: Issue_def ctx m split: if_splits)
  from assms have r: "t = token" "i = fresh" "fresh \<notin> cr_ID ` set tab"
    "allow ctx \<lparr>Action = ''agent:credential:issue'', ResourceType = ''agent_credential'', ResourceID = []\<rparr> = None"
    and tab: "tab' = \<lparr>cr_ID = fresh, cr_TenantID = c_TenantID m, cr_AgentID = ii_AgentID inp,
        cr_PrincipalID = UserID sub, cr_TenantRole = ii_TenantRole inp,
        cr_AllowedTypes = ii_AllowedTypes inp, cr_ExpiresAt = e,
        cr_RevokedAt = None, cr_RevokedBy = None, cr_CreatedAt = now\<rparr> # tab"
    by (auto simp: Issue_def ctx m t)
  show thesis using that [OF ctx m t [unfolded r(1)] refl r(3) tab r(2,4)] .
qed

lemma Revoke_ok:
  assumes "Revoke allow now ctx i tab = Inr tab'"
  obtains sub where "ctx = Some sub" and "\<exists>c \<in> set tab. cr_ID c = i \<and> cr_TenantID c = TenantID sub"
    and "tab' = map (\<lambda>c. if cr_ID c = i \<and> cr_TenantID c = TenantID sub then revoke_row now (UserID sub) c else c) tab"
    and "allow ctx \<lparr>Action = ''agent:credential:revoke'', ResourceType = ''agent_credential'', ResourceID = i\<rparr> = None"
  using assms unfolding Revoke_def Revoke_credential_def
  by (auto simp: list_ex_iff split: option.splits if_splits)

lemma revoked_in_step:
  assumes "revoked_in i tab" and "credential_step allow parse L S tab tab'"
  shows "revoked_in i tab'"
  using assms(2)
proof (rule credential_stepE)
  fix now ctx bearer inp fresh j token
  assume "Issue allow parse L S now ctx bearer inp fresh tab = Inr (tab', j, token)"
  then show ?thesis by (rule Issue_ok) (use assms(1) in \<open>auto simp: revoked_in_def\<close>)
next
  fix now ctx j
  assume "Revoke allow now ctx j tab = Inr tab'"
  then show ?thesis
  proof (rule Revoke_ok)
    fix sub
    let ?f = "\<lambda>c. if cr_ID c = j \<and> cr_TenantID c = TenantID sub then revoke_row now (UserID sub) c else c"
    assume t: "tab' = map ?f tab"
    have "map cr_ID tab' = map cr_ID tab" by (simp add: t)
    moreover obtain c where c: "c \<in> set tab" "cr_ID c = i" "cr_RevokedAt c \<noteq> None"
      using assms(1) by (auto simp: revoked_in_def)
    then have "?f c \<in> set tab'" "cr_ID (?f c) = i" "cr_RevokedAt (?f c) \<noteq> None" by (simp_all add: t)
    then have "\<exists>c \<in> set tab'. cr_ID c = i \<and> cr_RevokedAt c \<noteq> None" by blast
    ultimately show ?thesis using assms(1) by (simp add: revoked_in_def)
  qed
qed

interpretation revoked: machine "revoked_in i" "credential_step allow parse L S" "revoked_in i"
  for i allow parse L S
  by unfold_locales (auto intro: revoked_in_step)


lemma Revoke_revokes:
  assumes "distinct (map cr_ID tab)" and "Revoke allow now ctx i tab = Inr tab'"
  shows "revoked_in i tab'"
  using assms(2)
proof (rule Revoke_ok)
  fix sub
  let ?f = "\<lambda>c. if cr_ID c = i \<and> cr_TenantID c = TenantID sub then revoke_row now (UserID sub) c else c"
  assume t: "tab' = map ?f tab" and "\<exists>c \<in> set tab. cr_ID c = i \<and> cr_TenantID c = TenantID sub"
  then obtain c where "c \<in> set tab" "cr_ID c = i" "cr_TenantID c = TenantID sub" by blast
  then have "?f c \<in> set tab'" "cr_ID (?f c) = i" "cr_RevokedAt (?f c) \<noteq> None" by (simp_all add: t)
  then have "\<exists>c \<in> set tab'. cr_ID c = i \<and> cr_RevokedAt c \<noteq> None" by blast
  moreover have "map cr_ID tab' = map cr_ID tab" by (simp add: t)
  ultimately show ?thesis using assms(1) by (simp add: revoked_in_def)
qed

text \<open>
  C13: revocation is final.  Once \<open>Revoke\<close> has succeeded for a credential, no later
  sequence of issued and revoked credentials makes it active again, so at every later
  time the middleware gives a request carrying it no subject.
\<close>

theorem revoked_credential_never_authenticates:
  assumes "distinct (map cr_ID tab)" and "Revoke allow now ctx i tab = Inr tab'"
    and "(credential_step allow parse L S)\<^sup>*\<^sup>* tab' tab''"
    and "subjectFromBearer parse L S' later (header ''Authorization'') = Some agent"
    and "IsAgent agent" and "CredentialID agent = Some i"
  shows "JWTMiddleware parse L S' later dev (Some (\<lambda>j. Some (IsActive later tab'' j))) header = None"
proof -
  have "revoked_in i tab''"
    using revoked.run_inv [OF assms(3)] Revoke_revokes [OF assms(1,2)] by blast
  then show ?thesis using assms(4-6)
    by (simp add: JWTMiddleware_def agentCredentialUsable_def revoked_not_active)
qed

definition sample_row :: agent_credential where
  "sample_row = \<lparr>cr_ID = ''c1'', cr_TenantID = ''t1'', cr_AgentID = ''bot'', cr_PrincipalID = ''u1'',
     cr_TenantRole = ''editor'', cr_AllowedTypes = [''posts''], cr_ExpiresAt = 2592000,
     cr_RevokedAt = None, cr_RevokedBy = None, cr_CreatedAt = 0\<rparr>"

definition sample_owner :: subject where
  "sample_owner = sample_subject\<lparr>TenantRole := ''owner''\<rparr>"

lemma sample_revoke:
  "Revoke (RBAC_Allow Some) 5 (Some sample_owner) ''c1'' [sample_row] = Inr [revoke_row 5 ''u1'' sample_row]"
  by (simp add: Revoke_def Revoke_credential_def sample_row_def sample_owner_def sample_subject_def
      RBAC_Allow_def refuseUnlistedAgentAction_def IsAgent_def ActorKindAgent_def isTenantPlaneAction_def
      HasPrefix_def tenant_plane_decision_def isContentAction_def content_verbs_def owner_or_admin_def
      refuse_if_def)

theorem revoked_credential_never_authenticates_witness:
  "JWTMiddleware Some (sample_jwt ''k'' sample_agent) sample_signer 6 False
     (Some (\<lambda>j. Some (IsActive 6 [revoke_row 5 ''u1'' sample_row] j)))
     ((\<lambda>_. [])(''Authorization'' := ''Bearer '' @ ''t'')) = None"
proof -
  let ?h = "(\<lambda>_. [])(''Authorization'' := ''Bearer '' @ ''t'')"
  obtain agent where a: "subjectFromBearer Some (sample_jwt ''k'' sample_agent) sample_signer 6 (?h ''Authorization'') = Some agent"
      "IsAgent agent" "CredentialID agent = Some ''c1''"
    unfolding fun_upd_same agent_token_subject [OF sample_jwt_laws sample_issue sample_canonical refl]
    by (simp add: IsAgent_def ActorKindAgent_def)
  show ?thesis
    by (rule revoked_credential_never_authenticates [where header = ?h and tab = "[sample_row]",
          OF _ sample_revoke rtranclp.rtrancl_refl [of "credential_step (RBAC_Allow Some) Some
           (sample_jwt ''k'' sample_agent) sample_signer"] a]) simp
qed

text \<open>
  \<open>Issue\<close> answers with a token that authenticates.  Until it expires, a request
  carrying it is served as an agent of the row just stored: the row's tenant, role,
  content types and identifier, and the revocation record is active.
\<close>

theorem issued_credential_authenticates:
  assumes "jwt_laws L" and "canonical_parser parse" and "parse fresh = Some fresh"
    and "Issue allow parse L S now ctx bearer inp fresh tab = Inr (tab', i, token)"
    and "header ''Authorization'' = ''Bearer '' @ token" and "later < now + agentLifetime S"
  shows "\<exists>agent row. JWTMiddleware parse L S later dev (Some (\<lambda>j. Some (IsActive later tab' j))) header = Some agent \<and>
    tab' = row # tab \<and> IsAgent agent \<and> CredentialID agent = Some (cr_ID row) \<and> TenantID agent = cr_TenantID row \<and>
    TenantRole agent = cr_TenantRole row \<and> AgentID agent = Some (cr_AgentID row) \<and>
    AllowedTypes agent = Some (cr_AllowedTypes row)"
  using assms(4)
proof (rule Issue_ok)
  fix sub m row e
  assume m: "IssueAgentToken parse L S now (Some m) fresh (ii_AgentID inp) (ii_TenantRole inp) (ii_AllowedTypes inp) = Inr (token, e)"
    and row: "row = \<lparr>cr_ID = fresh, cr_TenantID = c_TenantID m, cr_AgentID = ii_AgentID inp,
        cr_PrincipalID = UserID sub, cr_TenantRole = ii_TenantRole inp,
        cr_AllowedTypes = ii_AllowedTypes inp, cr_ExpiresAt = e,
        cr_RevokedAt = None, cr_RevokedBy = None, cr_CreatedAt = now\<rparr>"
    and tab: "tab' = row # tab"
  from m have e: "e = now + agentLifetime S" by (rule IssueAgentToken_ok)
  have act: "IsActive later tab' fresh"
    using assms(6) by (simp add: IsActive_def tab row e)
  show ?thesis
    unfolding JWTMiddleware_def assms(5) agent_token_subject [OF assms(1) m assms(2,3)]
    using assms(6) act by (simp add: e tab row IsAgent_def ActorKindAgent_def agentCredentialUsable_def)
qed

lemma sample_parse: "ParseAccessToken Some (sample_jwt key c) sample_signer now ''m'' = Some sample_minter"
  by (simp add: ParseAccessToken_def parseWith_def sample_jwt_def)
    (simp add: sample_minter_def no_claims_def validateAgentClaims_def)

lemma sample_Issue:
  "Issue (RBAC_Allow Some) Some (sample_jwt ''k'' sample_agent) sample_signer 0 (Some sample_owner) ''m''
     \<lparr>ii_AgentID = ''bot'', ii_TenantRole = ''editor'', ii_AllowedTypes = [''posts'']\<rparr> ''c1'' []
   = Inr ([sample_row], ''c1'', ''t'')"
proof -
  have a: "RBAC_Allow Some (Some sample_owner)
      \<lparr>Action = ''agent:credential:issue'', ResourceType = ''agent_credential'', ResourceID = []\<rparr> = None"
    by (simp add: sample_owner_def sample_subject_def RBAC_Allow_def refuseUnlistedAgentAction_def
        IsAgent_def ActorKindAgent_def isTenantPlaneAction_def HasPrefix_def tenant_plane_decision_def
        isContentAction_def content_verbs_def owner_or_admin_def)
  have m: "c_TenantRole sample_minter = ''owner''" "c_TenantID sample_minter = ''t1''"
    "UserID sample_owner = ''u1''"
    by (simp_all add: sample_minter_def no_claims_def sample_owner_def sample_subject_def)
  show ?thesis
    by (simp add: Issue_def a sample_parse sample_issue CanMintAgentRole_def mintableAgentRoles_def role_defs m)
      (simp add: sample_row_def)
qed

theorem issued_credential_authenticates_witness:
  "\<exists>agent. JWTMiddleware Some (sample_jwt ''k'' sample_agent) sample_signer 100 False
     (Some (\<lambda>j. Some (IsActive 100 [sample_row] j))) ((\<lambda>_. [])(''Authorization'' := ''Bearer '' @ ''t'')) = Some agent \<and>
     CredentialID agent = Some ''c1''"
proof -
  let ?h = "(\<lambda>_. [])(''Authorization'' := ''Bearer '' @ ''t'')"
  have "100 < 0 + agentLifetime sample_signer"
    by (simp add: agentLifetime_def sample_signer_def WithAgentTTL_def)
  from issued_credential_authenticates [OF sample_jwt_laws sample_canonical refl sample_Issue _ this, where header = ?h]
  show ?thesis by (auto simp: sample_row_def simp del: append.simps)
qed

end
