(* ===== verification/Tenants.thy ===== *)
theory Tenants
  imports Credentials "HOL-Library.Product_Lexorder"
begin

text \<open>
  Tenants, memberships and invites: \<open>internal/tenant/service/tenant_service.go\<close> over
  \<open>internal/tenant/repository/postgres_repository.go\<close>, with the account deletion of
  \<open>internal/user/service/user_service.go\<close>.  The state is the set of tables the queries
  touch; each repository transaction, which the row locks serialise, is one function.
  Hashing (\<open>sha256\<close>, the blind index), the field encryption, the e-mail lookup and the
  struct validator are outside functions, carried in \<open>tenv\<close>.
\<close>

section \<open>Tables\<close>

record tenant =
  t_ID :: uuid
  t_Slug :: string
  t_Name :: string
  t_Plan :: string

record membership =
  m_User :: uuid
  m_Tenant :: uuid
  m_Role :: string
  m_CreatedAt :: int

record invite =
  iv_ID :: uuid
  iv_TenantID :: uuid
  iv_EmailLookupHash :: string
  iv_EmailEncrypted :: "string \<times> string"
  iv_Role :: string
  iv_TokenHash :: string
  iv_InvitedBy :: uuid
  iv_CreatedAt :: int
  iv_ExpiresAt :: int
  iv_AcceptedAt :: "int option"
  iv_AcceptedBy :: "uuid option"
  iv_RevokedAt :: "int option"
  iv_RevokedBy :: "uuid option"

record account =
  u_ID :: uuid
  u_EmailHash :: string
  u_Deleted :: bool

record refresh_token =
  rt_User :: uuid
  rt_Tenant :: string
  rt_RevokedAt :: "int option"

record plan =
  p_Name :: string
  p_MaxTypes :: int
  p_MaxEntries :: int
  p_MaxFieldsPerType :: int
  p_MaxEntryBytes :: int
  p_SoftThresholdPct :: int

record tdb =
  tenants :: "tenant list"
  memberships :: "membership list"
  invites :: "invite list"
  accounts :: "account list"
  refresh_tokens :: "refresh_token list"
  plans :: "plan list"
  agent_credentials :: credential_table

record tenv =
  te_allow :: "subject option \<Rightarrow> authz_input \<Rightarrow> go_error option"
  te_hash :: "string \<Rightarrow> string"
  te_index :: "string \<Rightarrow> go_error + string"
  te_encrypt :: "string \<Rightarrow> go_error + (string \<times> string)"
  te_decrypt :: "string \<times> string \<Rightarrow> go_error + string"
  te_email :: "uuid \<Rightarrow> go_error + string"
  te_validEmail :: "string \<Rightarrow> bool"

section \<open>Errors\<close>

definition ErrInviteNotFound :: go_error where "ErrInviteNotFound = AppError (New ''INVITE_NOT_FOUND'' 404)"
definition ErrInviteExpired :: go_error where "ErrInviteExpired = AppError (New ''INVITE_EXPIRED'' 410)"
definition ErrInviteUsed :: go_error where "ErrInviteUsed = AppError (New ''INVITE_USED'' 410)"
definition ErrInviteEmailMismatch :: go_error where
  "ErrInviteEmailMismatch = AppError (New ''INVITE_EMAIL_MISMATCH'' 403)"
definition ErrAlreadyMember :: go_error where "ErrAlreadyMember = AppError (New ''TENANT_ALREADY_MEMBER'' 409)"
definition ErrPlanUnknown :: go_error where "ErrPlanUnknown = AppError (New ''PLAN_UNKNOWN'' 422)"
definition ErrInviteInviterRevoked :: go_error where
  "ErrInviteInviterRevoked = AppError (New ''INVITE_INVITER_REVOKED'' 410)"
definition ErrInviteRevoked :: go_error where "ErrInviteRevoked = AppError (New ''INVITE_REVOKED'' 410)"
definition ErrLastOwner :: go_error where "ErrLastOwner = AppError (New ''TENANT_LAST_OWNER'' 409)"
definition ErrSelfRoleChange :: go_error where "ErrSelfRoleChange = AppError (New ''TENANT_SELF_ROLE_CHANGE'' 409)"
definition ErrSelfRemove :: go_error where "ErrSelfRemove = AppError (New ''TENANT_SELF_REMOVE'' 409)"
definition ErrCannotAssignOwner :: go_error where
  "ErrCannotAssignOwner = AppError (New ''TENANT_CANNOT_ASSIGN_OWNER'' 403)"
definition ErrRoleInvalid :: go_error where "ErrRoleInvalid = AppError (New ''TENANT_ROLE_INVALID'' 422)"
definition ErrInviteRoleInvalid :: go_error where "ErrInviteRoleInvalid = AppError (New ''INVITE_ROLE_INVALID'' 422)"
definition errNoActiveTenant :: go_error where "errNoActiveTenant = AppError (New ''TENANT_NO_ACTIVE'' 403)"
definition not_found :: go_error where "not_found = AppError ErrNotFound"

section \<open>The repository\<close>

definition TenantBySlug :: "string \<Rightarrow> tdb \<Rightarrow> go_error + tenant" where
  "TenantBySlug slug db =
     (case find (\<lambda>t. t_Slug t = slug) (tenants db) of None \<Rightarrow> Inl not_found | Some t \<Rightarrow> Inr t)"

definition member_row :: "uuid \<Rightarrow> uuid \<Rightarrow> tdb \<Rightarrow> membership option" where
  "member_row tenantID userID db =
     find (\<lambda>m. m_User m = userID \<and> m_Tenant m = tenantID) (memberships db)"

text \<open>The join on the tenant's slug, which is unique.\<close>

definition MembershipRole :: "uuid \<Rightarrow> string \<Rightarrow> tdb \<Rightarrow> go_error + string" where
  "MembershipRole userID slug db =
     (case find (\<lambda>t. t_Slug t = slug) (tenants db) of
        None \<Rightarrow> Inl not_found
      | Some t \<Rightarrow>
          (case member_row (t_ID t) userID db of None \<Rightarrow> Inl not_found | Some m \<Rightarrow> Inr (m_Role m)))"

definition MembershipsForUser :: "uuid \<Rightarrow> tdb \<Rightarrow> (tenant \<times> membership) list" where
  "MembershipsForUser userID db =
     sort_key (\<lambda>(t, m). (m_CreatedAt m, t_Slug t))
       [(t, m). m \<leftarrow> memberships db, m_User m = userID, t \<leftarrow> tenants db, t_ID t = m_Tenant m]"

definition slugAttempts :: nat where "slugAttempts = 5"

text \<open>
  \<open>ProvisionOwnerTx\<close>: the slugs and tenant identifiers each attempt draws are given.  An
  attempt whose slug is taken is rolled back to its savepoint and retried.
\<close>

fun provision_attempts :: "nat \<Rightarrow> int \<Rightarrow> uuid \<Rightarrow> (string \<times> uuid) list \<Rightarrow> tdb \<Rightarrow> go_error + (tdb \<times> string)" where
  "provision_attempts 0 now userID draws db = Inl (PlainError ''provision tenant: slug collision persisted'')"
| "provision_attempts (Suc k) now userID [] db = Inl (PlainError ''generate tenant slug'')"
| "provision_attempts (Suc k) now userID ((slug, tid) # draws) db =
     (if slug \<in> t_Slug ` set (tenants db) \<or> tid \<in> t_ID ` set (tenants db)
      then provision_attempts k now userID draws db
      else Inr (db\<lparr>tenants := \<lparr>t_ID = tid, t_Slug = slug, t_Name = [], t_Plan = ''free''\<rparr> # tenants db,
                   memberships := \<lparr>m_User = userID, m_Tenant = tid, m_Role = RoleOwner, m_CreatedAt = now\<rparr>
                     # memberships db\<rparr>, slug))"

definition ProvisionOwnerTx :: "int \<Rightarrow> uuid \<Rightarrow> (string \<times> uuid) list \<Rightarrow> tdb \<Rightarrow> go_error + (tdb \<times> string)" where
  "ProvisionOwnerTx = provision_attempts slugAttempts"

text \<open>The table's own checks: unique token hash and identifier, an invitable role.\<close>

definition CreateInvite_repo :: "invite \<Rightarrow> tdb \<Rightarrow> go_error + tdb" where
  "CreateInvite_repo iv db =
     (if iv_TokenHash iv \<in> iv_TokenHash ` set (invites db) \<or> iv_ID iv \<in> iv_ID ` set (invites db) \<or>
         \<not> InvitableRole (iv_Role iv)
      then Inl (PlainError ''create invite'')
      else Inr (db\<lparr>invites := iv # invites db\<rparr>))"

definition update_invite :: "uuid \<Rightarrow> (invite \<Rightarrow> invite) \<Rightarrow> tdb \<Rightarrow> tdb" where
  "update_invite i f db = db\<lparr>invites := map (\<lambda>iv. if iv_ID iv = i then f iv else iv) (invites db)\<rparr>"

definition inviter_ok :: "invite \<Rightarrow> tdb \<Rightarrow> bool" where
  "inviter_ok iv db =
     list_ex (\<lambda>m. m_User m = iv_InvitedBy iv \<and> m_Tenant m = iv_TenantID iv \<and>
                 (m_Role m = RoleOwner \<or> m_Role m = RoleAdmin)) (memberships db)"

text \<open>The lookup joins the invite, its tenant and the accepting account in one query.\<close>

definition AcceptInvite_repo :: "int \<Rightarrow> string \<Rightarrow> uuid \<Rightarrow> tdb \<Rightarrow> go_error + (tdb \<times> tenant \<times> string)" where
  "AcceptInvite_repo now tokenHash userID db =
     (case find (\<lambda>iv. iv_TokenHash iv = tokenHash) (invites db) of
        None \<Rightarrow> Inl ErrInviteNotFound
      | Some iv \<Rightarrow>
        (case find (\<lambda>t. t_ID t = iv_TenantID iv) (tenants db) of
           None \<Rightarrow> Inl ErrInviteNotFound
         | Some t \<Rightarrow>
           (case find (\<lambda>u. u_ID u = userID \<and> \<not> u_Deleted u) (accounts db) of
              None \<Rightarrow> Inl ErrInviteNotFound
            | Some u \<Rightarrow>
                if iv_AcceptedAt iv \<noteq> None then Inl ErrInviteUsed
                else if iv_RevokedAt iv \<noteq> None then Inl ErrInviteRevoked
                else if iv_ExpiresAt iv < now then Inl ErrInviteExpired
                else if \<not> inviter_ok iv db then Inl ErrInviteInviterRevoked
                else if iv_EmailLookupHash iv \<noteq> u_EmailHash u then Inl ErrInviteEmailMismatch
                else if member_row (iv_TenantID iv) userID db \<noteq> None then Inl ErrAlreadyMember
                else Inr (update_invite (iv_ID iv)
                       (\<lambda>i. i\<lparr>iv_AcceptedAt := Some now, iv_AcceptedBy := Some userID\<rparr>)
                       (db\<lparr>memberships := \<lparr>m_User = userID, m_Tenant = iv_TenantID iv,
                            m_Role = iv_Role iv, m_CreatedAt = now\<rparr> # memberships db\<rparr>),
                     t, iv_Role iv))))"

definition lockOwnersOrdered :: "uuid \<Rightarrow> tdb \<Rightarrow> nat" where
  "lockOwnersOrdered tenantID db =
     length (filter (\<lambda>m. m_Tenant m = tenantID \<and> m_Role m = RoleOwner) (memberships db))"

text \<open>
  The two owner-protecting transactions.  The owner rows are counted first, under the row
  locks; the update fails on the table's role check when the role is not one of the four.
\<close>

definition UpdateMemberRole_repo :: "uuid \<Rightarrow> uuid \<Rightarrow> string \<Rightarrow> tdb \<Rightarrow> go_error + (tdb \<times> membership)" where
  "UpdateMemberRole_repo tenantID targetUserID newRole db =
     (let ownerCount = lockOwnersOrdered tenantID db in
      case member_row tenantID targetUserID db of
        None \<Rightarrow> Inl not_found
      | Some m \<Rightarrow>
          if m_Role m = RoleOwner \<and> newRole \<noteq> RoleOwner \<and> ownerCount \<le> 1 then Inl ErrLastOwner
          else if \<not> ValidRole newRole then Inl (PlainError ''update member role: update'')
          else Inr (db\<lparr>memberships := map (\<lambda>m. if m_User m = targetUserID \<and> m_Tenant m = tenantID
                                              then m\<lparr>m_Role := newRole\<rparr> else m) (memberships db)\<rparr>,
                    m\<lparr>m_Role := newRole\<rparr>))"

definition RemoveMember_repo :: "uuid \<Rightarrow> uuid \<Rightarrow> tdb \<Rightarrow> go_error + tdb" where
  "RemoveMember_repo tenantID targetUserID db =
     (let ownerCount = lockOwnersOrdered tenantID db in
      case member_row tenantID targetUserID db of
        None \<Rightarrow> Inl not_found
      | Some m \<Rightarrow>
          if m_Role m = RoleOwner \<and> ownerCount \<le> 1 then Inl ErrLastOwner
          else Inr (db\<lparr>memberships := filter (\<lambda>m. \<not> (m_User m = targetUserID \<and> m_Tenant m = tenantID))
                        (memberships db)\<rparr>))"

definition memberListCap :: nat where "memberListCap = 200"

definition Members :: "uuid \<Rightarrow> tdb \<Rightarrow> membership list" where
  "Members tenantID db =
     take memberListCap (sort_key (\<lambda>m. (m_CreatedAt m, m_User m))
       (filter (\<lambda>m. m_Tenant m = tenantID) (memberships db)))"

definition ListInvites_repo :: "uuid \<Rightarrow> tdb \<Rightarrow> invite list" where
  "ListInvites_repo tenantID db =
     take memberListCap (sort_key (\<lambda>i. - iv_CreatedAt i)
       (filter (\<lambda>i. iv_TenantID i = tenantID \<and> iv_AcceptedAt i = None \<and> iv_RevokedAt i = None)
         (invites db)))"

definition RevokeInvite_repo :: "int \<Rightarrow> uuid \<Rightarrow> uuid \<Rightarrow> uuid \<Rightarrow> tdb \<Rightarrow> go_error + tdb" where
  "RevokeInvite_repo now tenantID inviteID revokedBy db =
     (case find (\<lambda>i. iv_ID i = inviteID \<and> iv_TenantID i = tenantID) (invites db) of
        None \<Rightarrow> Inl ErrInviteNotFound
      | Some iv \<Rightarrow>
          if iv_AcceptedAt iv \<noteq> None then Inl ErrInviteUsed
          else if iv_RevokedAt iv \<noteq> None then Inr db
          else Inr (update_invite inviteID
                 (\<lambda>i. i\<lparr>iv_RevokedAt := Some now, iv_RevokedBy := Some revokedBy\<rparr>) db))"

definition DefaultPlanName :: string where "DefaultPlanName = ''free''"

definition planByName :: "string \<Rightarrow> tdb \<Rightarrow> go_error + plan" where
  "planByName name db =
     (case find (\<lambda>p. p_Name p = name) (plans db) of None \<Rightarrow> Inl (PlainError ''plan'') | Some p \<Rightarrow> Inr p)"

definition PlanForTenant :: "string \<Rightarrow> tdb \<Rightarrow> go_error + plan" where
  "PlanForTenant slug db =
     (case find (\<lambda>t. t_Slug t = slug) (tenants db) of
        None \<Rightarrow> planByName DefaultPlanName db
      | Some t \<Rightarrow>
          (case find (\<lambda>p. p_Name p = t_Plan t) (plans db) of
             None \<Rightarrow> planByName DefaultPlanName db
           | Some p \<Rightarrow> Inr p))"

definition SetTenantPlan :: "string \<Rightarrow> string \<Rightarrow> tdb \<Rightarrow> go_error + tdb" where
  "SetTenantPlan slug name db =
     (if name \<notin> p_Name ` set (plans db) then Inl ErrPlanUnknown
      else if slug \<notin> t_Slug ` set (tenants db) then Inl not_found
      else Inr (db\<lparr>tenants := map (\<lambda>t. if t_Slug t = slug then t\<lparr>t_Plan := name\<rparr> else t) (tenants db)\<rparr>))"

definition RevokeAllForUserInTenant :: "int \<Rightarrow> uuid \<Rightarrow> string \<Rightarrow> tdb \<Rightarrow> tdb" where
  "RevokeAllForUserInTenant now userID slug db =
     db\<lparr>refresh_tokens := map (\<lambda>r. if rt_User r = userID \<and> rt_Tenant r = slug \<and> rt_RevokedAt r = None
                                    then r\<lparr>rt_RevokedAt := Some now\<rparr> else r) (refresh_tokens db)\<rparr>"


section \<open>The service\<close>

text \<open>A call returns the tables it leaves behind and its answer: a failing call may have written.\<close>

type_synonym 'a tcall = "tdb \<times> (go_error + 'a)"

definition inviteTTL :: int where "inviteTTL = 7 * 24 * 3600"

definition on_tenant :: "string \<Rightarrow> string \<Rightarrow> authz_input" where
  "on_tenant action tid = \<lparr>Action = action, ResourceType = ''tenant'', ResourceID = tid\<rparr>"

definition activeTenant :: "subject option \<Rightarrow> go_error + subject" where
  "activeTenant ctx =
     (case ctx of
        None \<Rightarrow> Inl unauthorized
      | Some sub \<Rightarrow> if TenantID sub = [] then Inl errNoActiveTenant else Inr sub)"

definition requireLiveOwnerOrAdmin :: "subject \<Rightarrow> tdb \<Rightarrow> go_error + string" where
  "requireLiveOwnerOrAdmin sub db =
     (case MembershipRole (UserID sub) (TenantID sub) db of
        Inl e \<Rightarrow> (if e = not_found then Inl forbidden else Inl e)
      | Inr liveRole \<Rightarrow>
          if liveRole \<noteq> RoleOwner \<and> liveRole \<noteq> RoleAdmin then Inl forbidden else Inr liveRole)"

text \<open>The checks every tenant operation opens with: an active tenant, then the authorizer.\<close>

definition tenant_gate :: "tenv \<Rightarrow> string \<Rightarrow> subject option \<Rightarrow> go_error + subject" where
  "tenant_gate T action ctx =
     and_then (activeTenant ctx) (\<lambda>sub.
     and_then (refuse_if (te_allow T ctx (on_tenant action (TenantID sub)))) (\<lambda>_. Inr sub))"

definition CreateInvite ::
  "tenv \<Rightarrow> int \<Rightarrow> subject option \<Rightarrow> string \<Rightarrow> string \<Rightarrow> uuid \<Rightarrow> string \<Rightarrow> tdb \<Rightarrow> go_error + (tdb \<times> invite)" where
  "CreateInvite T now ctx email role fresh rawToken db =
     and_then (tenant_gate T ''tenant:invite:create'' ctx) (\<lambda>sub.
     and_then (requireLiveOwnerOrAdmin sub db) (\<lambda>_.
     and_then (require (email \<noteq> [] \<and> te_validEmail T email \<and> role \<noteq> []) bad_request) (\<lambda>_.
     and_then (require (InvitableRole role) ErrInviteRoleInvalid) (\<lambda>_.
     let normal = TrimSpace (ToLower email) in
     and_then (te_index T normal) (\<lambda>emailHash.
     and_then (te_encrypt T normal) (\<lambda>emailEnc.
     and_then (TenantBySlug (TenantID sub) db) (\<lambda>t.
     let iv = \<lparr>iv_ID = fresh, iv_TenantID = t_ID t, iv_EmailLookupHash = emailHash,
                iv_EmailEncrypted = emailEnc, iv_Role = role, iv_TokenHash = te_hash T rawToken,
                iv_InvitedBy = UserID sub, iv_CreatedAt = now, iv_ExpiresAt = now + inviteTTL,
                iv_AcceptedAt = None, iv_AcceptedBy = None, iv_RevokedAt = None, iv_RevokedBy = None\<rparr> in
     and_then (CreateInvite_repo iv db) (\<lambda>db'. Inr (db', iv)))))))))"

definition AcceptInvite ::
  "tenv \<Rightarrow> int \<Rightarrow> subject option \<Rightarrow> string \<Rightarrow> tdb \<Rightarrow> go_error + (tdb \<times> tenant \<times> string)" where
  "AcceptInvite T now ctx token db =
     (case ctx of
        None \<Rightarrow> Inl unauthorized
      | Some sub \<Rightarrow>
          and_then (refuse_if (te_allow T ctx (on_tenant ''tenant:invite:accept'' ''invite''))) (\<lambda>_.
          and_then (require (token \<noteq> []) bad_request) (\<lambda>_.
          AcceptInvite_repo now (te_hash T token) (UserID sub) db)))"

fun with_emails :: "tenv \<Rightarrow> membership list \<Rightarrow> go_error + (membership \<times> string) list" where
  "with_emails T [] = Inr []"
| "with_emails T (m # ms) =
     and_then (te_email T (m_User m)) (\<lambda>email.
     and_then (with_emails T ms) (\<lambda>rest. Inr ((m, email) # rest)))"

definition ListMembers :: "tenv \<Rightarrow> subject option \<Rightarrow> tdb \<Rightarrow> go_error + (membership \<times> string) list" where
  "ListMembers T ctx db =
     and_then (tenant_gate T ''tenant:member:list'' ctx) (\<lambda>sub.
     and_then (TenantBySlug (TenantID sub) db) (\<lambda>t.
     with_emails T (Members (t_ID t) db)))"

text \<open>
  \<open>UpdateMemberRole\<close> up to the repository call, which returns the tenant to write to, and
  then as a whole.  The checks and the write are separate database calls.
\<close>

definition UpdateMemberRole_checks ::
  "tenv \<Rightarrow> subject option \<Rightarrow> uuid \<Rightarrow> string \<Rightarrow> tdb \<Rightarrow> go_error + uuid" where
  "UpdateMemberRole_checks T ctx targetUserID role db =
     and_then (tenant_gate T ''tenant:member:update'' ctx) (\<lambda>sub.
     and_then (requireLiveOwnerOrAdmin sub db) (\<lambda>liveRole.
     and_then (require (role \<noteq> []) bad_request) (\<lambda>_.
     and_then (require (ValidRole role) ErrRoleInvalid) (\<lambda>_.
     and_then (require (targetUserID \<noteq> UserID sub) ErrSelfRoleChange) (\<lambda>_.
     and_then
       (if liveRole = RoleAdmin
        then and_then (MembershipRole targetUserID (TenantID sub) db) (\<lambda>current.
               require (\<not> (role = RoleOwner \<or> current = RoleOwner)) ErrCannotAssignOwner)
        else Inr ()) (\<lambda>_.
     and_then (TenantBySlug (TenantID sub) db) (\<lambda>t. Inr (t_ID t))))))))"

definition UpdateMemberRole ::
  "tenv \<Rightarrow> subject option \<Rightarrow> uuid \<Rightarrow> string \<Rightarrow> tdb \<Rightarrow> (membership \<times> string) tcall" where
  "UpdateMemberRole T ctx targetUserID role db =
     (case UpdateMemberRole_checks T ctx targetUserID role db of
        Inl e \<Rightarrow> (db, Inl e)
      | Inr tid \<Rightarrow>
          (case UpdateMemberRole_repo tid targetUserID role db of
             Inl e \<Rightarrow> (db, Inl e)
           | Inr (db', m) \<Rightarrow>
               (case te_email T (m_User m) of
                  Inl e \<Rightarrow> (db', Inl e)
                | Inr email \<Rightarrow> (db', Inr (m, email)))))"

definition RemoveMember_checks :: "tenv \<Rightarrow> subject option \<Rightarrow> uuid \<Rightarrow> tdb \<Rightarrow> go_error + (uuid \<times> string)" where
  "RemoveMember_checks T ctx targetUserID db =
     and_then (tenant_gate T ''tenant:member:remove'' ctx) (\<lambda>sub.
     and_then (requireLiveOwnerOrAdmin sub db) (\<lambda>liveRole.
     and_then (require (targetUserID \<noteq> UserID sub) ErrSelfRemove) (\<lambda>_.
     and_then
       (if liveRole = RoleAdmin
        then and_then (MembershipRole targetUserID (TenantID sub) db) (\<lambda>current.
               require (current \<noteq> RoleOwner) ErrCannotAssignOwner)
        else Inr ()) (\<lambda>_.
     and_then (TenantBySlug (TenantID sub) db) (\<lambda>t. Inr (t_ID t, TenantID sub))))))"

text \<open>The refresh tokens are revoked after the removal; whether that call succeeds is ignored.\<close>

definition RemoveMember ::
  "tenv \<Rightarrow> int \<Rightarrow> bool \<Rightarrow> subject option \<Rightarrow> uuid \<Rightarrow> tdb \<Rightarrow> unit tcall" where
  "RemoveMember T now revoke_ok ctx targetUserID db =
     (case RemoveMember_checks T ctx targetUserID db of
        Inl e \<Rightarrow> (db, Inl e)
      | Inr (tid, slug) \<Rightarrow>
          (case RemoveMember_repo tid targetUserID db of
             Inl e \<Rightarrow> (db, Inl e)
           | Inr db' \<Rightarrow>
               (if revoke_ok then RevokeAllForUserInTenant now targetUserID slug db' else db', Inr ())))"

definition invite_status :: "int \<Rightarrow> invite \<Rightarrow> string" where
  "invite_status now iv = (if iv_ExpiresAt iv < now then ''expired'' else ''pending'')"

fun with_status :: "tenv \<Rightarrow> int \<Rightarrow> invite list \<Rightarrow> go_error + (invite \<times> string \<times> string) list" where
  "with_status T now [] = Inr []"
| "with_status T now (i # is) =
     and_then (te_decrypt T (iv_EmailEncrypted i)) (\<lambda>email.
     and_then (with_status T now is) (\<lambda>rest. Inr ((i, email, invite_status now i) # rest)))"

definition ListInvites ::
  "tenv \<Rightarrow> int \<Rightarrow> subject option \<Rightarrow> tdb \<Rightarrow> go_error + (invite \<times> string \<times> string) list" where
  "ListInvites T now ctx db =
     and_then (tenant_gate T ''tenant:invite:list'' ctx) (\<lambda>sub.
     and_then (TenantBySlug (TenantID sub) db) (\<lambda>t.
     with_status T now (ListInvites_repo (t_ID t) db)))"

definition RevokeInvite :: "tenv \<Rightarrow> int \<Rightarrow> subject option \<Rightarrow> uuid \<Rightarrow> tdb \<Rightarrow> go_error + tdb" where
  "RevokeInvite T now ctx inviteID db =
     and_then (tenant_gate T ''tenant:invite:revoke'' ctx) (\<lambda>sub.
     and_then (requireLiveOwnerOrAdmin sub db) (\<lambda>_.
     and_then (TenantBySlug (TenantID sub) db) (\<lambda>t.
     RevokeInvite_repo now (t_ID t) inviteID (UserID sub) db)))"

text \<open>
  Deleting an account (\<open>userService.Delete\<close>): a soft delete, which marks the row and
  revokes the refresh tokens.  The outbox event it publishes is left out.
\<close>

definition RevokeAllForUser :: "int \<Rightarrow> uuid \<Rightarrow> tdb \<Rightarrow> tdb" where
  "RevokeAllForUser now userID db =
     db\<lparr>refresh_tokens := map (\<lambda>r. if rt_User r = userID \<and> rt_RevokedAt r = None
                                    then r\<lparr>rt_RevokedAt := Some now\<rparr> else r) (refresh_tokens db)\<rparr>"

definition SoftDelete :: "int \<Rightarrow> uuid \<Rightarrow> tdb \<Rightarrow> go_error + tdb" where
  "SoftDelete now i db =
     (if list_ex (\<lambda>u. u_ID u = i \<and> \<not> u_Deleted u) (accounts db)
      then Inr (RevokeAllForUser now i
             (db\<lparr>accounts := map (\<lambda>u. if u_ID u = i then u\<lparr>u_Deleted := True\<rparr> else u) (accounts db)\<rparr>))
      else Inl not_found)"

definition Delete_account :: "tenv \<Rightarrow> int \<Rightarrow> subject option \<Rightarrow> uuid \<Rightarrow> tdb \<Rightarrow> go_error + tdb" where
  "Delete_account T now ctx i db =
     and_then (refuse_if (te_allow T ctx \<lparr>Action = ''user:delete'', ResourceType = ''user'', ResourceID = i\<rparr>)) (\<lambda>_.
     case find (\<lambda>u. u_ID u = i) (accounts db) of
       None \<Rightarrow> Inl not_found
     | Some u \<Rightarrow> if u_Deleted u then Inl not_found else SoftDelete now i db)"

text \<open>The tables over time: one step is one call, whether it succeeds or not.\<close>

inductive tenant_step :: "tenv \<Rightarrow> tdb \<Rightarrow> tdb \<Rightarrow> bool" for T where
  provision: "ProvisionOwnerTx now userID draws db = Inr (db', slug) \<Longrightarrow> tenant_step T db db'"
| invited: "CreateInvite T now ctx email role fresh tok db = Inr (db', iv) \<Longrightarrow> tenant_step T db db'"
| accepted: "AcceptInvite T now ctx tok db = Inr (db', t, role) \<Longrightarrow> tenant_step T db db'"
| role_changed: "UpdateMemberRole T ctx target role db = (db', r) \<Longrightarrow> tenant_step T db db'"
| removed: "RemoveMember T now revoke_ok ctx target db = (db', r) \<Longrightarrow> tenant_step T db db'"
| invite_revoked: "RevokeInvite T now ctx i db = Inr db' \<Longrightarrow> tenant_step T db db'"
| plan_set: "SetTenantPlan slug name db = Inr db' \<Longrightarrow> tenant_step T db db'"
| account_deleted: "Delete_account T now ctx i db = Inr db' \<Longrightarrow> tenant_step T db db'"

inductive_cases tenant_stepE: "tenant_step T db db'"

section \<open>A tenant keeps an owner\<close>

definition owner_count :: "uuid \<Rightarrow> tdb \<Rightarrow> nat" where
  "owner_count tid db = lockOwnersOrdered tid db"

definition one_row_each :: "tdb \<Rightarrow> bool" where
  "one_row_each db \<longleftrightarrow> distinct (map (\<lambda>m. (m_User m, m_Tenant m)) (memberships db))"

lemma member_row_SomeD:
  "member_row tid u db = Some m \<Longrightarrow> m \<in> set (memberships db) \<and> m_User m = u \<and> m_Tenant m = tid"
  by (auto simp: member_row_def find_Some_iff)

lemma member_row_None:
  "member_row tid u db = None \<longleftrightarrow> (u, tid) \<notin> (\<lambda>m. (m_User m, m_Tenant m)) ` set (memberships db)"
  by (auto simp: member_row_def find_None_iff)

definition owned :: "uuid \<Rightarrow> tdb \<Rightarrow> bool" where
  "owned tid db \<longleftrightarrow> one_row_each db \<and> 1 \<le> owner_count tid db"

lemma owned_cong:
  "memberships db' = memberships db \<Longrightarrow> owned tid db' = owned tid db"
  by (simp add: owned_def one_row_each_def owner_count_def lockOwnersOrdered_def)

lemma owned_new_member:
  assumes "owned tid db" and "member_row (m_Tenant m) (m_User m) db = None"
    and "memberships db' = m # memberships db"
  shows "owned tid db'"
  using assms by (auto simp: owned_def one_row_each_def owner_count_def lockOwnersOrdered_def member_row_None)

lemma UpdateMemberRole_repo_owned:
  assumes "owned tid db" and "UpdateMemberRole_repo t u role db = Inr (db', m')"
  shows "owned tid db'"
proof -
  let ?key = "\<lambda>m. (m_User m, m_Tenant m)"
  let ?P = "\<lambda>m. m_Tenant m = tid \<and> m_Role m = RoleOwner"
  let ?f = "\<lambda>m. m\<lparr>m_Role := role\<rparr>"
  from assms(2) obtain m where m: "member_row t u db = Some m"
    and guard: "\<not> (m_Role m = RoleOwner \<and> role \<noteq> RoleOwner \<and> lockOwnersOrdered t db \<le> 1)"
    and db': "memberships db' = map (\<lambda>m. if m_User m = u \<and> m_Tenant m = t then ?f m else m) (memberships db)"
    by (auto simp: UpdateMemberRole_repo_def Let_def split: option.splits if_splits)
  have row: "m \<in> set (memberships db)" "m_User m = u" "m_Tenant m = t"
    using member_row_SomeD [OF m] by auto
  have d: "distinct (map ?key (memberships db))" using assms(1) by (simp add: owned_def one_row_each_def)
  have eq: "memberships db' = map (\<lambda>y. if ?key y = ?key m then ?f y else y) (memberships db)"
    unfolding db' row by auto
  have "map ?key (memberships db') = map ?key (memberships db)" by (simp add: db')
  moreover have "1 \<le> length (filter ?P (memberships db'))"
    unfolding eq filter_update_key [OF d row(1)]
    using assms(1) guard row by (auto simp: owned_def owner_count_def lockOwnersOrdered_def)
  ultimately show ?thesis using d by (simp add: owned_def one_row_each_def owner_count_def lockOwnersOrdered_def)
qed

lemma RemoveMember_repo_owned:
  assumes "owned tid db" and "RemoveMember_repo t u db = Inr db'"
  shows "owned tid db'"
proof -
  let ?key = "\<lambda>m. (m_User m, m_Tenant m)"
  let ?P = "\<lambda>m. m_Tenant m = tid \<and> m_Role m = RoleOwner"
  from assms(2) obtain m where m: "member_row t u db = Some m"
    and guard: "\<not> (m_Role m = RoleOwner \<and> lockOwnersOrdered t db \<le> 1)"
    and db': "memberships db' = filter (\<lambda>m. \<not> (m_User m = u \<and> m_Tenant m = t)) (memberships db)"
    by (auto simp: RemoveMember_repo_def Let_def split: option.splits if_splits)
  have row: "m \<in> set (memberships db)" "m_User m = u" "m_Tenant m = t"
    using member_row_SomeD [OF m] by auto
  have d: "distinct (map ?key (memberships db))" using assms(1) by (simp add: owned_def one_row_each_def)
  have eq: "memberships db' = filter (\<lambda>y. ?key y \<noteq> ?key m) (memberships db)"
    unfolding db' row by simp
  have "1 \<le> length (filter ?P (memberships db'))"
    unfolding eq filter_drop_key [OF d row(1)]
    using assms(1) guard row by (auto simp: owned_def owner_count_def lockOwnersOrdered_def)
  moreover have "distinct (map ?key (memberships db'))" using d by (simp add: db' distinct_map_filter)
  ultimately show ?thesis by (simp add: owned_def one_row_each_def owner_count_def lockOwnersOrdered_def)
qed

text \<open>Every membership names a tenant the table holds, as its foreign key demands.\<close>

lemma provision_owned:
  assumes "provision_attempts k now u draws db = Inr (db', slug)"
    and "\<forall>m \<in> set (memberships db). m_Tenant m \<in> t_ID ` set (tenants db)" and "owned tid db"
  shows "owned tid db'"
  using assms
proof (induction k now u draws db rule: provision_attempts.induct)
  case (3 k now u slug' tid' draws db)
  then show ?case
    by (auto split: if_splits simp: member_row_None intro!: owned_new_member [of tid db])
qed simp_all

definition anchored :: "tdb \<Rightarrow> bool" where
  "anchored db \<longleftrightarrow> (\<forall>m \<in> set (memberships db). m_Tenant m \<in> t_ID ` set (tenants db))"

lemma AcceptInvite_repo_ok:
  assumes "AcceptInvite_repo now h u db = Inr (db', t, role)"
  obtains iv where "find (\<lambda>iv. iv_TokenHash iv = h) (invites db) = Some iv"
    and "find (\<lambda>t. t_ID t = iv_TenantID iv) (tenants db) = Some t"
    and "iv_AcceptedAt iv = None" "iv_RevokedAt iv = None" "now \<le> iv_ExpiresAt iv" "inviter_ok iv db"
    and "\<exists>a \<in> set (accounts db). u_ID a = u \<and> \<not> u_Deleted a \<and> u_EmailHash a = iv_EmailLookupHash iv"
    and "member_row (iv_TenantID iv) u db = None" and "role = iv_Role iv"
    and "db' = update_invite (iv_ID iv) (\<lambda>i. i\<lparr>iv_AcceptedAt := Some now, iv_AcceptedBy := Some u\<rparr>)
       (db\<lparr>memberships := \<lparr>m_User = u, m_Tenant = iv_TenantID iv, m_Role = iv_Role iv, m_CreatedAt = now\<rparr>
          # memberships db\<rparr>)"
proof -
  from assms obtain iv where iv: "find (\<lambda>iv. iv_TokenHash iv = h) (invites db) = Some iv"
    by (auto simp: AcceptInvite_repo_def split: option.splits)
  from assms obtain t' where t: "find (\<lambda>t. t_ID t = iv_TenantID iv) (tenants db) = Some t'"
    by (auto simp: AcceptInvite_repo_def iv split: option.splits)
  from assms obtain a where a: "find (\<lambda>a. u_ID a = u \<and> \<not> u_Deleted a) (accounts db) = Some a"
    by (auto simp: AcceptInvite_repo_def iv t split: option.splits)
  then have acc: "a \<in> set (accounts db)" "u_ID a = u" "\<not> u_Deleted a" by (auto simp: find_Some_iff)
  from assms have r: "iv_AcceptedAt iv = None" "iv_RevokedAt iv = None" "\<not> iv_ExpiresAt iv < now"
    "inviter_ok iv db" "iv_EmailLookupHash iv = u_EmailHash a" "member_row (iv_TenantID iv) u db = None"
    "t' = t" "iv_Role iv = role"
    and db': "update_invite (iv_ID iv) (\<lambda>i. i\<lparr>iv_AcceptedAt := Some now, iv_AcceptedBy := Some u\<rparr>)
       (db\<lparr>memberships := \<lparr>m_User = u, m_Tenant = iv_TenantID iv, m_Role = iv_Role iv, m_CreatedAt = now\<rparr>
          # memberships db\<rparr>) = db'"
    by (auto simp: AcceptInvite_repo_def iv t a split: if_splits)
  show thesis using r acc db' [symmetric]
    by (intro that [OF iv t [unfolded r(7)] r(1,2) _ r(4) _ r(6)]) auto
qed

lemma update_invite_simps [simp]:
  "memberships (update_invite i f db) = memberships db" "tenants (update_invite i f db) = tenants db"
  "accounts (update_invite i f db) = accounts db"
  "invites (update_invite i f db) = map (\<lambda>iv. if iv_ID iv = i then f iv else iv) (invites db)"
  by (simp_all add: update_invite_def)


definition tenant_inv :: "uuid \<Rightarrow> tdb \<Rightarrow> bool" where
  "tenant_inv tid db \<longleftrightarrow> anchored db \<and> owned tid db"

lemma tenant_inv_cong:
  "memberships db' = memberships db \<Longrightarrow> t_ID ` set (tenants db') = t_ID ` set (tenants db) \<Longrightarrow>
     tenant_inv tid db' = tenant_inv tid db"
  using owned_cong [of db' db tid] by (simp add: tenant_inv_def anchored_def)

lemma provision_anchored:
  "provision_attempts k now u draws db = Inr (db', slug) \<Longrightarrow> anchored db \<Longrightarrow> anchored db'"
  by (induction k now u draws db rule: provision_attempts.induct) (auto simp: anchored_def split: if_splits)

lemma UpdateMemberRole_repo_members:
  "UpdateMemberRole_repo t u role db = Inr (db', m) \<Longrightarrow>
     map m_Tenant (memberships db') = map m_Tenant (memberships db) \<and> tenants db' = tenants db"
  by (auto simp: UpdateMemberRole_repo_def Let_def split: option.splits if_splits)

lemma RemoveMember_repo_members:
  "RemoveMember_repo t u db = Inr db' \<Longrightarrow>
     set (memberships db') \<subseteq> set (memberships db) \<and> tenants db' = tenants db"
  by (auto simp: RemoveMember_repo_def Let_def split: option.splits if_splits)

lemma repo_anchored:
  assumes "anchored db"
  shows "UpdateMemberRole_repo t u role db = Inr (db', m) \<Longrightarrow> anchored db'"
    and "RemoveMember_repo t u db = Inr db' \<Longrightarrow> anchored db'"
proof -
  have a: "anchored d \<longleftrightarrow> set (map m_Tenant (memberships d)) \<subseteq> t_ID ` set (tenants d)" for d
    by (auto simp: anchored_def)
  show "UpdateMemberRole_repo t u role db = Inr (db', m) \<Longrightarrow> anchored db'"
    using assms UpdateMemberRole_repo_members unfolding a by metis
  show "RemoveMember_repo t u db = Inr db' \<Longrightarrow> anchored db'"
    using assms RemoveMember_repo_members by (fastforce simp: anchored_def)
qed

lemma UpdateMemberRole_cases:
  assumes "UpdateMemberRole T ctx target role db = (db', r)"
  shows "db' = db \<or> (\<exists>t m. UpdateMemberRole_checks T ctx target role db = Inr t \<and>
           UpdateMemberRole_repo t target role db = Inr (db', m))"
  using assms by (auto simp: UpdateMemberRole_def split: sum.splits prod.splits)

lemma RemoveMember_cases:
  assumes "RemoveMember T now ok ctx target db = (db', r)"
  shows "db' = db \<or> (\<exists>t db1. RemoveMember_repo t target db = Inr db1 \<and>
           memberships db' = memberships db1 \<and> tenants db' = tenants db1)"
proof (cases "RemoveMember_checks T ctx target db")
  case (Inl e)
  then show ?thesis using assms by (simp add: RemoveMember_def)
next
  case (Inr c)
  obtain t slug where c: "c = (t, slug)" by (cases c)
  show ?thesis
  proof (cases "RemoveMember_repo t target db")
    case (Inl e)
    then show ?thesis using assms by (simp add: RemoveMember_def Inr c)
  next
    case (Inr db1)
    then have "db' = (if ok then RevokeAllForUserInTenant now target slug db1 else db1)"
      using assms \<open>RemoveMember_checks T ctx target db = Inr c\<close> by (simp add: RemoveMember_def c)
    then have "memberships db' = memberships db1 \<and> tenants db' = tenants db1"
      by (simp add: RevokeAllForUserInTenant_def)
    then show ?thesis using Inr by blast
  qed
qed

lemma RevokeInvite_repo_members:
  "RevokeInvite_repo now t i by db = Inr db' \<Longrightarrow> memberships db' = memberships db \<and> tenants db' = tenants db"
  by (cases "find (\<lambda>iv. iv_ID iv = i \<and> iv_TenantID iv = t) (invites db)")
    (auto simp: RevokeInvite_repo_def split: if_splits)

lemma unrelated_steps:
  "CreateInvite T now ctx email role fresh tok db = Inr (db', iv) \<Longrightarrow>
     memberships db' = memberships db \<and> tenants db' = tenants db"
  "RevokeInvite T now ctx i db = Inr db' \<Longrightarrow> memberships db' = memberships db \<and> tenants db' = tenants db"
  "SetTenantPlan slug name db = Inr db' \<Longrightarrow>
     memberships db' = memberships db \<and> t_ID ` set (tenants db') = t_ID ` set (tenants db)"
  "Delete_account T now ctx i db = Inr db' \<Longrightarrow> memberships db' = memberships db \<and> tenants db' = tenants db"
proof -
  show "memberships db' = memberships db \<and> tenants db' = tenants db"
    if "CreateInvite T now ctx email role fresh tok db = Inr (db', iv)"
    using that by (auto simp: CreateInvite_def CreateInvite_repo_def Let_def split: if_splits)
  show "memberships db' = memberships db \<and> tenants db' = tenants db" if "RevokeInvite T now ctx i db = Inr db'"
    using that RevokeInvite_repo_members by (auto simp: RevokeInvite_def)
  show "memberships db' = memberships db \<and> t_ID ` set (tenants db') = t_ID ` set (tenants db)"
    if "SetTenantPlan slug name db = Inr db'"
  proof -
    have db': "db' = db\<lparr>tenants := map (\<lambda>t. if t_Slug t = slug then t\<lparr>t_Plan := name\<rparr> else t) (tenants db)\<rparr>"
      using that by (simp add: SetTenantPlan_def split: if_splits)
    then have "map t_ID (tenants db') = map t_ID (tenants db)" by simp
    then have "t_ID ` set (tenants db') = t_ID ` set (tenants db)" by (metis list.set_map)
    then show ?thesis by (auto simp: db')
  qed
  show "memberships db' = memberships db \<and> tenants db' = tenants db"
    if "Delete_account T now ctx i db = Inr db'"
    using that by (auto simp: Delete_account_def SoftDelete_def RevokeAllForUser_def split: option.splits if_splits)
qed

lemma AcceptInvite_step: "AcceptInvite T now ctx tok db = Inr r \<Longrightarrow>
    \<exists>sub. ctx = Some sub \<and> AcceptInvite_repo now (te_hash T tok) (UserID sub) db = Inr r \<and>
      te_allow T ctx (on_tenant ''tenant:invite:accept'' ''invite'') = None"
  by (auto simp: AcceptInvite_def split: option.splits)

lemma tenant_inv_step:
  assumes inv: "tenant_inv tid db" and "tenant_step T db db'"
  shows "tenant_inv tid db'"
  using assms(2)
proof cases
  case (provision now userID draws slug)
  then show ?thesis using inv provision_anchored provision_owned
    by (auto simp: tenant_inv_def ProvisionOwnerTx_def anchored_def)
next
  case (invited now ctx email role fresh tok iv)
  then show ?thesis using inv unrelated_steps(1) tenant_inv_cong by metis
next
  case (accepted now ctx tok t role)
  from AcceptInvite_step [OF this]
  obtain sub :: subject where "AcceptInvite_repo now (te_hash T tok) (UserID sub) db = Inr (db', t, role)"
    by blast
  then show ?thesis
  proof (rule AcceptInvite_repo_ok)
    fix iv
    let ?m = "\<lparr>m_User = UserID sub, m_Tenant = iv_TenantID iv, m_Role = iv_Role iv, m_CreatedAt = now\<rparr>"
    let ?db1 = "db\<lparr>memberships := ?m # memberships db\<rparr>"
    assume t: "find (\<lambda>t. t_ID t = iv_TenantID iv) (tenants db) = Some t"
      and n: "member_row (iv_TenantID iv) (UserID sub) db = None"
      and db': "db' = update_invite (iv_ID iv) (\<lambda>i. i\<lparr>iv_AcceptedAt := Some now, iv_AcceptedBy := Some (UserID sub)\<rparr>) ?db1"
    have mem: "memberships db' = ?m # memberships db" and ten: "tenants db' = tenants db"
      by (simp_all add: db')
    have "owned tid db" using inv by (simp add: tenant_inv_def)
    then have "owned tid db'" by (rule owned_new_member [OF _ _ mem]) (simp add: n)
    moreover have "iv_TenantID iv \<in> t_ID ` set (tenants db)" using find_SomeD [OF t] by force
    ultimately show ?thesis using inv by (simp add: tenant_inv_def anchored_def mem ten)
  qed
next
  case (role_changed ctx target role r)
  from UpdateMemberRole_cases [OF this] show ?thesis
  proof (elim disjE exE conjE)
    fix t m assume "UpdateMemberRole_repo t target role db = Inr (db', m)"
    then show ?thesis using inv UpdateMemberRole_repo_owned repo_anchored(1) unfolding tenant_inv_def by metis
  qed (use inv in simp)
next
  case (removed now revoke_ok ctx target r)
  from RemoveMember_cases [OF this] show ?thesis
  proof (elim disjE exE conjE)
    fix t db1 assume m: "RemoveMember_repo t target db = Inr db1" "memberships db' = memberships db1"
      "tenants db' = tenants db1"
    have "tenant_inv tid db1"
      using inv RemoveMember_repo_owned [OF _ m(1)] repo_anchored(2) [OF _ m(1)] by (simp add: tenant_inv_def)
    then show ?thesis using m(2,3) tenant_inv_cong [of db' db1] by simp
  qed (use inv in simp)
next
  case (invite_revoked now ctx i)
  then show ?thesis using inv unrelated_steps(2) tenant_inv_cong by metis
next
  case (plan_set slug name)
  then show ?thesis using inv unrelated_steps(3) tenant_inv_cong by metis
next
  case (account_deleted now ctx i)
  then show ?thesis using inv unrelated_steps(4) tenant_inv_cong by metis
qed

interpretation tenancy: machine "tenant_inv tid" "tenant_step T" "tenant_inv tid" for tid T
  by unfold_locales (auto intro: tenant_inv_step)

text \<open>
  C12: a tenant never loses its last owner.  From tables in which a tenant has an owner, no
  sequence of provisioning, invites, acceptances, role changes, removals, plan changes and
  account deletions, in any order and by any callers, reaches tables in which it has none.
\<close>

theorem tenant_keeps_an_owner:
  assumes "anchored db" and "one_row_each db"
    and "\<exists>m \<in> set (memberships db). m_Tenant m = tid \<and> m_Role m = RoleOwner"
    and "(tenant_step T)\<^sup>*\<^sup>* db db'"
  shows "one_row_each db' \<and> (\<exists>m \<in> set (memberships db'). m_Tenant m = tid \<and> m_Role m = RoleOwner)"
proof -
  have iff: "1 \<le> owner_count tid d \<longleftrightarrow> (\<exists>m \<in> set (memberships d). m_Tenant m = tid \<and> m_Role m = RoleOwner)" for d
    by (auto simp: owner_count_def lockOwnersOrdered_def Suc_le_eq filter_empty_conv)
  have "tenant_inv tid db" using assms(1-3) iff by (simp add: tenant_inv_def owned_def)
  then have "tenant_inv tid db'" by (rule tenancy.run_inv [OF assms(4)])
  then show ?thesis using iff by (simp add: tenant_inv_def owned_def)
qed


definition sample_tenv :: tenv where
  "sample_tenv = \<lparr>te_allow = RBAC_Allow Some, te_hash = (\<lambda>s. s), te_index = Inr, te_encrypt = (\<lambda>s. Inr (s, [])),
     te_decrypt = (\<lambda>(s, _). Inr s), te_email = Inr, te_validEmail = (\<lambda>_. True)\<rparr>"

definition sample_members :: "membership list" where
  "sample_members =
     [\<lparr>m_User = ''u1'', m_Tenant = ''T'', m_Role = ''owner'', m_CreatedAt = 0\<rparr>,
      \<lparr>m_User = ''u2'', m_Tenant = ''T'', m_Role = ''admin'', m_CreatedAt = 1\<rparr>,
      \<lparr>m_User = ''u3'', m_Tenant = ''T'', m_Role = ''editor'', m_CreatedAt = 2\<rparr>]"

definition sample_db :: tdb where
  "sample_db =
     \<lparr>tenants = [\<lparr>t_ID = ''T'', t_Slug = ''t1'', t_Name = [], t_Plan = ''free''\<rparr>],
      memberships = sample_members, invites = [],
      accounts = [\<lparr>u_ID = ''u1'', u_EmailHash = ''e1'', u_Deleted = False\<rparr>],
      refresh_tokens = [], plans = [], agent_credentials = [sample_row]\<rparr>"

definition acting_as :: "uuid \<Rightarrow> string \<Rightarrow> subject" where
  "acting_as u role = sample_subject\<lparr>UserID := u, TenantRole := role\<rparr>"

lemmas sample_rbac = RBAC_Allow_def refuseUnlistedAgentAction_def IsAgent_def ActorKindAgent_def
  isTenantPlaneAction_def HasPrefix_def tenant_plane_decision_def isContentAction_def content_verbs_def
  owner_or_admin_def

lemmas sample_tenancy = sample_tenv_def sample_members_def sample_db_def acting_as_def sample_subject_def
  tenant_gate_def activeTenant_def on_tenant_def requireLiveOwnerOrAdmin_def MembershipRole_def
  member_row_def TenantBySlug_def role_defs ValidRole_def refuse_if_def require_def

lemma sample_gate:
  "role = ''owner'' \<or> role = ''admin'' \<Longrightarrow>
     tenant_gate sample_tenv ''tenant:member:update'' (Some (acting_as u role)) = Inr (acting_as u role)"
  by (auto simp: sample_rbac sample_tenv_def tenant_gate_def activeTenant_def on_tenant_def acting_as_def
      sample_subject_def refuse_if_def)

lemma sample_acting [simp]:
  "UserID (acting_as u role) = u" "TenantID (acting_as u role) = ''t1''" "TenantRole (acting_as u role) = role"
  by (simp_all add: acting_as_def sample_subject_def)

lemma sample_checks:
  "UpdateMemberRole_checks sample_tenv (Some (acting_as ''u2'' ''admin'')) ''u3'' ''viewer'' sample_db = Inr ''T''"
  "UpdateMemberRole_checks sample_tenv (Some (acting_as ''u1'' ''owner'')) ''u3'' ''owner'' sample_db = Inr ''T''"
  by (simp_all add: UpdateMemberRole_checks_def sample_gate requireLiveOwnerOrAdmin_def MembershipRole_def
      member_row_def TenantBySlug_def sample_db_def sample_members_def role_defs ValidRole_def require_def
      del: and_then_Inr)

definition promoted_db :: tdb where
  "promoted_db = sample_db\<lparr>memberships :=
     [\<lparr>m_User = ''u1'', m_Tenant = ''T'', m_Role = ''owner'', m_CreatedAt = 0\<rparr>,
      \<lparr>m_User = ''u2'', m_Tenant = ''T'', m_Role = ''admin'', m_CreatedAt = 1\<rparr>,
      \<lparr>m_User = ''u3'', m_Tenant = ''T'', m_Role = ''owner'', m_CreatedAt = 2\<rparr>]\<rparr>"

lemma sample_promotion:
  "UpdateMemberRole sample_tenv (Some (acting_as ''u1'' ''owner'')) ''u3'' ''owner'' sample_db =
     (promoted_db, Inr (\<lparr>m_User = ''u3'', m_Tenant = ''T'', m_Role = ''owner'', m_CreatedAt = 2\<rparr>, ''u3''))"
  by (simp add: UpdateMemberRole_def sample_checks)
    (simp add: UpdateMemberRole_repo_def Let_def member_row_def sample_db_def sample_members_def
      ValidRole_def role_defs promoted_db_def sample_tenv_def)

theorem tenant_keeps_an_owner_witness:
  "\<exists>m \<in> set (memberships promoted_db). m_Tenant m = ''T'' \<and> m_Role m = RoleOwner"
proof -
  have a: "anchored sample_db" "one_row_each sample_db"
    by (simp_all add: anchored_def one_row_each_def sample_db_def sample_members_def)
  have o: "\<exists>m \<in> set (memberships sample_db). m_Tenant m = ''T'' \<and> m_Role m = RoleOwner"
    by (simp add: sample_db_def sample_members_def role_defs)
  have "(tenant_step sample_tenv)\<^sup>*\<^sup>* sample_db promoted_db"
    by (rule r_into_rtranclp [of "tenant_step sample_tenv", OF tenant_step.role_changed [OF sample_promotion]])
  from tenant_keeps_an_owner [OF a o this] show ?thesis by blast
qed

text \<open>
  the admin check of a role change is not part of the write.  An admin's request to make
  an editor a viewer passes its checks; an owner then promotes that editor to owner; the
  admin's write, which no longer looks at the caller, demotes the new owner.
\<close>

theorem admin_check_is_not_atomic_with_the_write:
  "\<exists>T admin owner target db db1 db2 r m tid.
     MembershipRole (UserID admin) (TenantID admin) db = Inr RoleAdmin \<and>
     UpdateMemberRole_checks T (Some admin) target ''viewer'' db = Inr tid \<and>
     UpdateMemberRole T (Some owner) target ''owner'' db = (db1, Inr r) \<and>
     MembershipRole target (TenantID admin) db1 = Inr RoleOwner \<and>
     UpdateMemberRole_repo tid target ''viewer'' db1 = Inr (db2, m) \<and>
     MembershipRole target (TenantID admin) db2 = Inr RoleViewer"
proof -
  have "\<exists>db2 m. UpdateMemberRole_repo ''T'' ''u3'' ''viewer'' promoted_db = Inr (db2, m) \<and>
      MembershipRole ''u3'' ''t1'' db2 = Inr RoleViewer"
    by (simp add: UpdateMemberRole_repo_def Let_def member_row_def promoted_db_def sample_db_def
        lockOwnersOrdered_def ValidRole_def role_defs MembershipRole_def)
  moreover have "MembershipRole ''u2'' ''t1'' sample_db = Inr RoleAdmin"
    "MembershipRole ''u3'' ''t1'' promoted_db = Inr RoleOwner"
    by (simp_all add: MembershipRole_def member_row_def promoted_db_def sample_db_def sample_members_def role_defs)
  ultimately show ?thesis using sample_checks(1) sample_promotion sample_acting by metis
qed

text \<open>
  deleting an account leaves its agent credentials active.  The deletion marks the row
  and revokes refresh tokens, but no row leaves the table, so the cascade that is meant to
  stop the person's agents never runs.
\<close>

theorem deleted_account_leaves_agents_active:
  "\<exists>T now ctx db db' cred. Delete_account T now ctx (cr_PrincipalID cred) db = Inr db' \<and>
     cred \<in> set (agent_credentials db') \<and> IsActive (now + 1000) (agent_credentials db') (cr_ID cred)"
proof -
  have "Delete_account sample_tenv 10 (Some (sample_subject\<lparr>Roles := [''admin'']\<rparr>)) (cr_PrincipalID sample_row) sample_db =
      Inr (sample_db\<lparr>accounts := [\<lparr>u_ID = ''u1'', u_EmailHash = ''e1'', u_Deleted = True\<rparr>]\<rparr>)"
    by (simp add: Delete_account_def SoftDelete_def RevokeAllForUser_def sample_db_def sample_tenv_def
        sample_row_def sample_subject_def sample_rbac refuse_if_def)
  moreover have "IsActive (10 + 1000) [sample_row] (cr_ID sample_row)"
    by (simp add: IsActive_def sample_row_def)
  ultimately show ?thesis by (intro exI conjI) (assumption, simp_all add: sample_db_def)
qed


section \<open>Who may move the owner role\<close>

definition owners_of :: "uuid \<Rightarrow> tdb \<Rightarrow> uuid set" where
  "owners_of tid db = m_User ` {m \<in> set (memberships db). m_Tenant m = tid \<and> m_Role m = RoleOwner}"

lemma MembershipRole_row:
  assumes "MembershipRole u slug db = Inr role" and "TenantBySlug slug db = Inr t"
  obtains m where "member_row (t_ID t) u db = Some m" and "m_Role m = role"
  using assms by (auto simp: MembershipRole_def TenantBySlug_def split: option.splits)

lemma one_row: "one_row_each db \<Longrightarrow> m \<in> set (memberships db) \<Longrightarrow> m' \<in> set (memberships db) \<Longrightarrow>
    m_User m = m_User m' \<Longrightarrow> m_Tenant m = m_Tenant m' \<Longrightarrow> m = m'"
  by (auto simp: one_row_each_def distinct_map inj_on_def)

lemma UpdateMemberRole_repo_other_owners:
  assumes "one_row_each db" and "UpdateMemberRole_repo t u role db = Inr (db', m')" and "role \<noteq> RoleOwner"
    and "member_row t u db = Some m" and "m_Role m \<noteq> RoleOwner"
  shows "owners_of tid db' = owners_of tid db"
proof -
  have m: "m \<in> set (memberships db)" "m_User m = u" "m_Tenant m = t" using member_row_SomeD [OF assms(4)] by auto
  have db': "memberships db' = map (\<lambda>m. if m_User m = u \<and> m_Tenant m = t then m\<lparr>m_Role := role\<rparr> else m) (memberships db)"
    using assms(2,4,5) by (auto simp: UpdateMemberRole_repo_def split: if_splits)
  have no: "\<not> (m_User r = u \<and> m_Tenant r = t)" if "r \<in> set (memberships db)" "m_Role r = RoleOwner" for r
    using one_row [OF assms(1) that(1) m(1)] m that(2) assms(5) by auto
  have "{r \<in> set (memberships db'). m_Tenant r = tid \<and> m_Role r = RoleOwner} =
      {r \<in> set (memberships db). m_Tenant r = tid \<and> m_Role r = RoleOwner}"
    using no assms(3) by (auto simp: db' image_iff)
  then show ?thesis by (simp add: owners_of_def)
qed

lemma RemoveMember_repo_other_owners:
  assumes "one_row_each db" and "RemoveMember_repo t u db = Inr db'"
    and "member_row t u db = Some m" and "m_Role m \<noteq> RoleOwner"
  shows "owners_of tid db' = owners_of tid db"
proof -
  have m: "m \<in> set (memberships db)" "m_User m = u" "m_Tenant m = t" using member_row_SomeD [OF assms(3)] by auto
  have db': "memberships db' = filter (\<lambda>m. \<not> (m_User m = u \<and> m_Tenant m = t)) (memberships db)"
    using assms(2,3,4) by (auto simp: RemoveMember_repo_def split: if_splits)
  have no: "\<not> (m_User r = u \<and> m_Tenant r = t)" if "r \<in> set (memberships db)" "m_Role r = RoleOwner" for r
    using one_row [OF assms(1) that(1) m(1)] m that(2) assms(4) by auto
  show ?thesis using no by (auto simp: owners_of_def db')
qed

lemma admin_checks:
  assumes "MembershipRole (UserID sub) (TenantID sub) db = Inr RoleAdmin"
  shows "UpdateMemberRole_checks T (Some sub) u role db = Inr tid \<Longrightarrow> role \<noteq> RoleOwner \<and>
      (\<exists>m. member_row tid u db = Some m \<and> m_Role m \<noteq> RoleOwner)"
    and "RemoveMember_checks T (Some sub) u db = Inr (tid, slug) \<Longrightarrow>
      \<exists>m. member_row tid u db = Some m \<and> m_Role m \<noteq> RoleOwner"
proof -
  have gate: "tenant_gate T a (Some sub) = Inr sub' \<Longrightarrow> sub' = sub" for a sub'
    by (auto simp: tenant_gate_def activeTenant_def split: if_splits)
  have live: "requireLiveOwnerOrAdmin sub db = Inr RoleAdmin"
    using assms by (simp add: requireLiveOwnerOrAdmin_def)
  show "role \<noteq> RoleOwner \<and> (\<exists>m. member_row tid u db = Some m \<and> m_Role m \<noteq> RoleOwner)"
    if "UpdateMemberRole_checks T (Some sub) u role db = Inr tid"
    using that live by (auto simp: UpdateMemberRole_checks_def dest!: gate elim!: MembershipRole_row)
  show "\<exists>m. member_row tid u db = Some m \<and> m_Role m \<noteq> RoleOwner"
    if "RemoveMember_checks T (Some sub) u db = Inr (tid, slug)"
    using that live by (auto simp: RemoveMember_checks_def dest!: gate elim!: MembershipRole_row)
qed

text \<open>
  run on its own, no call by an admin moves the owner role.  Whatever member an admin
  names and whatever role they ask for, a role change or a removal leaves the owners of
  every tenant as they were.
\<close>

theorem admin_moves_no_owner:
  assumes "one_row_each db" and "MembershipRole (UserID sub) (TenantID sub) db = Inr RoleAdmin"
  shows "owners_of tid (fst (UpdateMemberRole T (Some sub) u role db)) = owners_of tid db \<and>
    owners_of tid (fst (RemoveMember T now ok (Some sub) u db)) = owners_of tid db"
proof
  show "owners_of tid (fst (UpdateMemberRole T (Some sub) u role db)) = owners_of tid db"
  proof (cases "UpdateMemberRole T (Some sub) u role db")
    case (Pair db' r)
    from UpdateMemberRole_cases [OF this] show ?thesis
      using admin_checks(1) [OF assms(2)] UpdateMemberRole_repo_other_owners [OF assms(1)] Pair by fastforce
  qed
  show "owners_of tid (fst (RemoveMember T now ok (Some sub) u db)) = owners_of tid db"
  proof (cases "RemoveMember_checks T (Some sub) u db")
    case (Inr c)
    obtain t slug where c: "c = (t, slug)" by (cases c)
    from admin_checks(2) [OF assms(2) Inr [unfolded c]]
    obtain m where m: "member_row t u db = Some m" "m_Role m \<noteq> RoleOwner" by blast
    show ?thesis
    proof (cases "RemoveMember_repo t u db")
      case (Inr db1)
      have "owners_of tid db1 = owners_of tid db" by (rule RemoveMember_repo_other_owners [OF assms(1) Inr m])
      then show ?thesis
        using Inr \<open>RemoveMember_checks T (Some sub) u db = Inr c\<close>
        by (simp add: RemoveMember_def c RevokeAllForUserInTenant_def owners_of_def)
    qed (simp add: RemoveMember_def Inr c)
  qed (simp add: RemoveMember_def)
qed

theorem admin_moves_no_owner_witness:
  "owners_of ''T'' (fst (UpdateMemberRole sample_tenv (Some (acting_as ''u2'' ''admin'')) ''u3'' ''viewer'' sample_db))
     = {''u1''}"
proof -
  have a: "one_row_each sample_db"
    by (simp add: one_row_each_def sample_db_def sample_members_def)
  have b: "MembershipRole (UserID (acting_as ''u2'' ''admin'')) (TenantID (acting_as ''u2'' ''admin'')) sample_db = Inr RoleAdmin"
    by (simp add: MembershipRole_def member_row_def sample_db_def sample_members_def role_defs)
  have "owners_of ''T'' sample_db = {''u1''}"
    by (force simp: owners_of_def sample_db_def sample_members_def role_defs)
  with conjunct1 [OF admin_moves_no_owner [OF a b]] show ?thesis by simp
qed

section \<open>The life of an invite\<close>

text \<open>
  accepting an invite grants what the invite says and nothing else.  A successful
  acceptance was of an outstanding, unexpired invite, addressed to the accepting live
  account and issued by someone who still is an owner or admin of the tenant; it adds one
  membership, in that tenant and with the invited role, to a person who had none there.
\<close>

theorem accepted_invite_grants_its_role:
  assumes "AcceptInvite T now ctx tok db = Inr (db', t, role)"
  shows "\<exists>sub iv. ctx = Some sub \<and> iv \<in> set (invites db) \<and> iv_TokenHash iv = te_hash T tok \<and>
    iv_AcceptedAt iv = None \<and> iv_RevokedAt iv = None \<and> now \<le> iv_ExpiresAt iv \<and>
    (\<exists>m \<in> set (memberships db). m_User m = iv_InvitedBy iv \<and> m_Tenant m = iv_TenantID iv \<and>
       m_Role m \<in> {RoleOwner, RoleAdmin}) \<and>
    (\<exists>a \<in> set (accounts db). u_ID a = UserID sub \<and> \<not> u_Deleted a \<and> u_EmailHash a = iv_EmailLookupHash iv) \<and>
    (\<forall>m \<in> set (memberships db). m_User m = UserID sub \<longrightarrow> m_Tenant m \<noteq> iv_TenantID iv) \<and>
    role = iv_Role iv \<and> t_ID t = iv_TenantID iv \<and>
    memberships db' = \<lparr>m_User = UserID sub, m_Tenant = t_ID t, m_Role = role, m_CreatedAt = now\<rparr> # memberships db"
proof -
  from AcceptInvite_step [OF assms] obtain sub :: subject where sub: "ctx = Some sub"
    and repo: "AcceptInvite_repo now (te_hash T tok) (UserID sub) db = Inr (db', t, role)" by blast
  from repo show ?thesis
  proof (rule AcceptInvite_repo_ok)
    fix iv
    assume a: "find (\<lambda>iv. iv_TokenHash iv = te_hash T tok) (invites db) = Some iv"
      "find (\<lambda>t. t_ID t = iv_TenantID iv) (tenants db) = Some t"
      "iv_AcceptedAt iv = None" "iv_RevokedAt iv = None" "now \<le> iv_ExpiresAt iv" "inviter_ok iv db"
      "\<exists>a \<in> set (accounts db). u_ID a = UserID sub \<and> \<not> u_Deleted a \<and> u_EmailHash a = iv_EmailLookupHash iv"
      "member_row (iv_TenantID iv) (UserID sub) db = None" "role = iv_Role iv"
      and db': "db' = update_invite (iv_ID iv) (\<lambda>i. i\<lparr>iv_AcceptedAt := Some now, iv_AcceptedBy := Some (UserID sub)\<rparr>)
         (db\<lparr>memberships := \<lparr>m_User = UserID sub, m_Tenant = iv_TenantID iv, m_Role = iv_Role iv, m_CreatedAt = now\<rparr>
            # memberships db\<rparr>)"
    have t: "t_ID t = iv_TenantID iv" using find_SomeD [OF a(2)] by simp
    show ?thesis
    proof (intro exI conjI)
      show "iv \<in> set (invites db)" "iv_TokenHash iv = te_hash T tok" using find_SomeD [OF a(1)] by simp_all
      show "\<exists>m \<in> set (memberships db). m_User m = iv_InvitedBy iv \<and> m_Tenant m = iv_TenantID iv \<and>
          m_Role m \<in> {RoleOwner, RoleAdmin}" using a(6) by (auto simp: inviter_ok_def list_ex_iff)
      show "\<forall>m \<in> set (memberships db). m_User m = UserID sub \<longrightarrow> m_Tenant m \<noteq> iv_TenantID iv"
        using a(8) by (force simp: member_row_None image_iff)
    qed (use a sub t db' in simp_all)
  qed
qed

definition settled_in :: "string \<Rightarrow> tdb \<Rightarrow> bool" where
  "settled_in h db \<longleftrightarrow> distinct (map iv_ID (invites db)) \<and> distinct (map iv_TokenHash (invites db)) \<and>
     (\<exists>iv \<in> set (invites db). iv_TokenHash iv = h \<and> (iv_AcceptedAt iv \<noteq> None \<or> iv_RevokedAt iv \<noteq> None))"

lemma settled_in_cong: "invites db' = invites db \<Longrightarrow> settled_in h db' = settled_in h db"
  by (simp add: settled_in_def)

lemma settled_in_update:
  assumes "settled_in h db" and "invites db' = map (\<lambda>iv. if iv_ID iv = i then f iv else iv) (invites db)"
    and "\<And>iv. iv_ID (f iv) = iv_ID iv \<and> iv_TokenHash (f iv) = iv_TokenHash iv \<and>
       (iv_AcceptedAt (f iv) \<noteq> None \<or> iv_RevokedAt (f iv) \<noteq> None)"
  shows "settled_in h db'"
proof -
  let ?g = "\<lambda>iv. if iv_ID iv = i then f iv else iv"
  have "map iv_ID (invites db') = map iv_ID (invites db)"
    and "map iv_TokenHash (invites db') = map iv_TokenHash (invites db)"
    using assms(3) by (auto simp: assms(2))
  moreover obtain iv where iv: "iv \<in> set (invites db)" "iv_TokenHash iv = h"
      "iv_AcceptedAt iv \<noteq> None \<or> iv_RevokedAt iv \<noteq> None"
    using assms(1) by (auto simp: settled_in_def)
  then have "?g iv \<in> set (invites db')" "iv_TokenHash (?g iv) = h"
    "iv_AcceptedAt (?g iv) \<noteq> None \<or> iv_RevokedAt (?g iv) \<noteq> None"
    using assms(3) by (auto simp: assms(2))
  then have "\<exists>v \<in> set (invites db'). iv_TokenHash v = h \<and> (iv_AcceptedAt v \<noteq> None \<or> iv_RevokedAt v \<noteq> None)"
    by blast
  ultimately show ?thesis using assms(1) by (simp add: settled_in_def)
qed

lemma find_distinct:
  assumes "distinct (map key xs)" and "x \<in> set xs"
  shows "find (\<lambda>y. key y = key x) xs = Some x"
  using assms by (induction xs) auto

lemma settled_never_accepts:
  assumes "settled_in h db"
  shows "AcceptInvite_repo now h u db \<noteq> Inr r"
proof
  obtain db' t role where r: "r = (db', t, role)" by (cases r)
  assume "AcceptInvite_repo now h u db = Inr r"
  then have a: "AcceptInvite_repo now h u db = Inr (db', t, role)" by (simp add: r)
  obtain v where v: "v \<in> set (invites db)" "iv_TokenHash v = h" "iv_AcceptedAt v \<noteq> None \<or> iv_RevokedAt v \<noteq> None"
    and d: "distinct (map iv_TokenHash (invites db))" using assms by (auto simp: settled_in_def)
  from a show False
    by (rule AcceptInvite_repo_ok) (use find_distinct [OF d v(1)] v in auto)
qed


lemma invites_kept:
  "provision_attempts k now u draws db = Inr (db', slug) \<Longrightarrow> invites db' = invites db"
  "UpdateMemberRole T ctx u role db = (db', r) \<Longrightarrow> invites db' = invites db"
  "RemoveMember T now ok ctx u db = (db', r2) \<Longrightarrow> invites db' = invites db"
  "SetTenantPlan slug name db = Inr db' \<Longrightarrow> invites db' = invites db"
  "Delete_account T now ctx i db = Inr db' \<Longrightarrow> invites db' = invites db"
proof -
  show "provision_attempts k now u draws db = Inr (db', slug) \<Longrightarrow> invites db' = invites db"
    by (induction k now u draws db rule: provision_attempts.induct) (auto split: if_splits)
  have rep: "UpdateMemberRole_repo t u role db = Inr (db1, m) \<Longrightarrow> invites db1 = invites db" for t db1 m
    by (auto simp: UpdateMemberRole_repo_def Let_def split: option.splits if_splits)
  show "UpdateMemberRole T ctx u role db = (db', r) \<Longrightarrow> invites db' = invites db"
    using UpdateMemberRole_cases rep by metis
  show "invites db' = invites db" if a: "RemoveMember T now ok ctx u db = (db', r2)"
  proof (cases "RemoveMember_checks T ctx u db")
    case (Inr c)
    then show ?thesis using a
      by (cases c; cases "RemoveMember_repo (fst c) u db")
        (auto simp: RemoveMember_def RemoveMember_repo_def RevokeAllForUserInTenant_def Let_def
          split: option.splits if_splits)
  qed (use a in \<open>simp add: RemoveMember_def\<close>)
  show "SetTenantPlan slug name db = Inr db' \<Longrightarrow> invites db' = invites db"
    by (auto simp: SetTenantPlan_def split: if_splits)
  show "Delete_account T now ctx i db = Inr db' \<Longrightarrow> invites db' = invites db"
    by (auto simp: Delete_account_def SoftDelete_def RevokeAllForUser_def split: option.splits if_splits)
qed

lemma settled_in_step:
  assumes inv: "settled_in h db" and "tenant_step T db db'"
  shows "settled_in h db'"
  using assms(2)
proof cases
  case (provision now userID draws slug)
  then show ?thesis using inv invites_kept(1) settled_in_cong unfolding ProvisionOwnerTx_def by metis
next
  case (invited now ctx email role fresh tok iv)
  then obtain v where "CreateInvite_repo v db = Inr db'" by (auto simp: CreateInvite_def Let_def)
  then have "invites db' = v # invites db" "iv_TokenHash v \<notin> iv_TokenHash ` set (invites db)"
    "iv_ID v \<notin> iv_ID ` set (invites db)"
    by (auto simp: CreateInvite_repo_def split: if_splits)
  then show ?thesis using inv by (auto simp: settled_in_def)
next
  case (accepted now ctx tok t role)
  from AcceptInvite_step [OF this] obtain sub :: subject
    where "AcceptInvite_repo now (te_hash T tok) (UserID sub) db = Inr (db', t, role)" by blast
  then show ?thesis
  proof (rule AcceptInvite_repo_ok)
    fix iv
    assume db': "db' = update_invite (iv_ID iv) (\<lambda>i. i\<lparr>iv_AcceptedAt := Some now, iv_AcceptedBy := Some (UserID sub)\<rparr>)
         (db\<lparr>memberships := \<lparr>m_User = UserID sub, m_Tenant = iv_TenantID iv, m_Role = iv_Role iv, m_CreatedAt = now\<rparr>
            # memberships db\<rparr>)"
    show ?thesis
      by (rule settled_in_update [OF inv, where i = "iv_ID iv"
            and f = "\<lambda>i. i\<lparr>iv_AcceptedAt := Some now, iv_AcceptedBy := Some (UserID sub)\<rparr>"])
        (simp_all add: db')
  qed
next
  case (role_changed ctx target role r)
  then show ?thesis using inv invites_kept(2) settled_in_cong by metis
next
  case (removed now revoke_ok ctx target r)
  then show ?thesis using inv invites_kept(3) settled_in_cong by metis
next
  case (invite_revoked now ctx i)
  then obtain t b where "RevokeInvite_repo now t i b db = Inr db'" by (auto simp: RevokeInvite_def)
  then have "db' = db \<or> db' = update_invite i (\<lambda>i. i\<lparr>iv_RevokedAt := Some now, iv_RevokedBy := Some b\<rparr>) db"
    by (cases "find (\<lambda>iv. iv_ID iv = i \<and> iv_TenantID iv = t) (invites db)")
      (auto simp: RevokeInvite_repo_def split: if_splits)
  then show ?thesis
  proof
    assume db': "db' = update_invite i (\<lambda>i. i\<lparr>iv_RevokedAt := Some now, iv_RevokedBy := Some b\<rparr>) db"
    show ?thesis
      by (rule settled_in_update [OF inv, where i = i
            and f = "\<lambda>i. i\<lparr>iv_RevokedAt := Some now, iv_RevokedBy := Some b\<rparr>"]) (simp_all add: db')
  qed (use inv in simp)
next
  case (plan_set slug name)
  then show ?thesis using inv invites_kept(4) settled_in_cong by metis
next
  case (account_deleted now ctx i)
  then show ?thesis using inv invites_kept(5) settled_in_cong by metis
qed

interpretation settled: machine "settled_in h" "tenant_step T" "settled_in h" for h T
  by unfold_locales (auto intro: settled_in_step)

text \<open>
  C16: an invite is used at most once.  Once an invite has been accepted or revoked, no later
  history of the tables makes a call with its token succeed, for anyone, at any time.
\<close>

theorem settled_invite_is_never_accepted:
  assumes "distinct (map iv_ID (invites db))" and "distinct (map iv_TokenHash (invites db))"
    and "iv \<in> set (invites db)" and "iv_AcceptedAt iv \<noteq> None \<or> iv_RevokedAt iv \<noteq> None"
    and "(tenant_step T)\<^sup>*\<^sup>* db db'" and "te_hash T tok = iv_TokenHash iv"
  shows "AcceptInvite T now ctx tok db' \<noteq> Inr r"
proof
  assume a: "AcceptInvite T now ctx tok db' = Inr r"
  have "settled_in (iv_TokenHash iv) db" using assms(1-4) by (auto simp: settled_in_def)
  then have "settled_in (te_hash T tok) db'" using settled.run_inv [OF assms(5)] assms(6) by simp
  then show False using AcceptInvite_step [OF a] settled_never_accepts by blast
qed

definition sample_invite :: invite where
  "sample_invite = \<lparr>iv_ID = ''i1'', iv_TenantID = ''T'', iv_EmailLookupHash = ''e1'', iv_EmailEncrypted = ([], []),
     iv_Role = ''editor'', iv_TokenHash = ''tok'', iv_InvitedBy = ''u2'', iv_CreatedAt = 0, iv_ExpiresAt = 100,
     iv_AcceptedAt = None, iv_AcceptedBy = None, iv_RevokedAt = None, iv_RevokedBy = None\<rparr>"

definition invited_db :: tdb where
  "invited_db = sample_db\<lparr>invites := [sample_invite],
     accounts := [\<lparr>u_ID = ''u4'', u_EmailHash = ''e1'', u_Deleted = False\<rparr>]\<rparr>"

lemma sample_accept_allowed:
  "te_allow sample_tenv (Some (acting_as ''u4'' [])) (on_tenant ''tenant:invite:accept'' ''invite'') = None"
  by (simp add: sample_tenv_def on_tenant_def sample_rbac acting_as_def sample_subject_def)

lemma sample_accept:
  "\<exists>db' t. AcceptInvite sample_tenv 50 (Some (acting_as ''u4'' [])) ''tok'' invited_db = Inr (db', t, ''editor'')"
  by (simp add: AcceptInvite_def sample_accept_allowed del: and_then_Inr)
    (simp add: require_def refuse_if_def AcceptInvite_repo_def invited_db_def sample_invite_def sample_db_def
      sample_tenv_def sample_members_def inviter_ok_def member_row_def role_defs)

theorem accepted_invite_grants_its_role_witness:
  "\<exists>db' t. AcceptInvite sample_tenv 50 (Some (acting_as ''u4'' [])) ''tok'' invited_db = Inr (db', t, ''editor'') \<and>
     \<lparr>m_User = ''u4'', m_Tenant = t_ID t, m_Role = ''editor'', m_CreatedAt = 50\<rparr> \<in> set (memberships db')"
proof -
  obtain db' t where a: "AcceptInvite sample_tenv 50 (Some (acting_as ''u4'' [])) ''tok'' invited_db = Inr (db', t, ''editor'')"
    using sample_accept by blast
  from accepted_invite_grants_its_role [OF a] a show ?thesis by auto
qed

theorem settled_invite_is_never_accepted_witness:
  "\<exists>db. iv_RevokedAt (hd (invites db)) = Some 10 \<and>
     (\<forall>r. AcceptInvite sample_tenv 50 (Some (acting_as ''u4'' [])) ''tok'' db \<noteq> Inr r)"
proof -
  let ?iv = "sample_invite\<lparr>iv_RevokedAt := Some 10, iv_RevokedBy := Some ''u1''\<rparr>"
  let ?db = "invited_db\<lparr>invites := [?iv]\<rparr>"
  have a: "distinct (map iv_ID (invites ?db))" "distinct (map iv_TokenHash (invites ?db))" "?iv \<in> set (invites ?db)"
    "iv_AcceptedAt ?iv \<noteq> None \<or> iv_RevokedAt ?iv \<noteq> None" "te_hash sample_tenv ''tok'' = iv_TokenHash ?iv"
    by (simp_all add: sample_tenv_def sample_invite_def)
  have "\<forall>r. AcceptInvite sample_tenv 50 (Some (acting_as ''u4'' [])) ''tok'' ?db \<noteq> Inr r"
    using settled_invite_is_never_accepted [OF a(1-4) rtranclp.rtrancl_refl a(5)] by blast
  then show ?thesis by (intro exI [of _ ?db]) simp
qed

end
