(* ===== verification/Accounts.thy ===== *)
theory Accounts
  imports Tenants Outbox Entry_Service
begin

text \<open>
  Accounts: the user module (\<open>user/domain\<close>, \<open>user/service\<close>, \<open>user/repository\<close>), its
  registration keys (\<open>pkg/idempotency\<close>) and its events.  The state is the set of tables the module
  and the auth module share; a call is given as the statements and transactions it consists of, so
  that calls can interleave.  Encryption, the blind index, hashing, the e-mail validator and the
  size of a JSON text are outside functions.
\<close>

section \<open>Users\<close>

datatype user_status = StatusActive | StatusSuspended | StatusDeleted

definition status_text :: "user_status \<Rightarrow> string" where
  "status_text s = (case s of StatusActive \<Rightarrow> ''active'' | StatusSuspended \<Rightarrow> ''suspended'' | StatusDeleted \<Rightarrow> ''deleted'')"

record user =
  us_ID :: uuid
  us_Username :: string
  us_Email :: string
  us_DisplayName :: string
  us_Phone :: string
  us_Preferences :: doc
  us_Status :: user_status
  us_StatusVersion :: nat
  us_UsernameHash :: string
  us_EmailHash :: string
  us_CreatedAt :: nat
  us_UpdatedAt :: nat
  us_DeletedAt :: "nat option"

definition IsActive_user :: "user \<Rightarrow> bool" where
  "IsActive_user u \<longleftrightarrow> us_Status u = StatusActive \<and> us_DeletedAt u = None"

text \<open>The row: e-mail, display name and phone are a ciphertext with its nonce.\<close>

record user_row =
  uw_ID :: uuid
  uw_Username :: string
  uw_UsernameHash :: string
  uw_EmailHash :: string
  uw_Email :: "string \<times> string"
  uw_DisplayName :: "(string \<times> string) option"
  uw_Phone :: "(string \<times> string) option"
  uw_Preferences :: doc
  uw_Status :: user_status
  uw_StatusVersion :: nat
  uw_CreatedAt :: nat
  uw_UpdatedAt :: nat
  uw_DeletedAt :: "nat option"

record credential =
  cd_User :: uuid
  cd_PasswordHash :: string
  cd_LastLogin :: "nat option"

record session_row =
  sn_User :: uuid
  sn_TokenHash :: string
  sn_ExpiresAt :: nat
  sn_RevokedAt :: "nat option"
  sn_Tenant :: "string option"

text \<open>
  The tables; \<open>ad_Tenancy\<close> holds those of the tenants, with an abstract view of accounts and
  sessions that \<open>tables_of\<close> replaces by the rows kept here.  A platform role is the user, the name
  and the expiry.
\<close>

record account_db =
  ad_Users :: "user_row list"
  ad_Credentials :: "credential list"
  ad_Sessions :: "session_row list"
  ad_Keys :: "(string \<times> uuid) list"
  ad_Events :: "outbox_row list"
  ad_Roles :: "(uuid \<times> string \<times> nat option) list"
  ad_Tenancy :: tdb

definition account_of :: "user_row \<Rightarrow> account" where
  "account_of r = \<lparr>u_ID = uw_ID r, u_EmailHash = uw_EmailHash r, u_Deleted = (uw_Status r = StatusDeleted)\<rparr>"

definition refresh_of :: "session_row \<Rightarrow> refresh_token" where
  "refresh_of r = \<lparr>rt_User = sn_User r, rt_Tenant = (case sn_Tenant r of None \<Rightarrow> [] | Some t \<Rightarrow> t),
     rt_RevokedAt = map_option int (sn_RevokedAt r)\<rparr>"

definition tables_of :: "account_db \<Rightarrow> tdb" where
  "tables_of db = (ad_Tenancy db)\<lparr>accounts := map account_of (ad_Users db), refresh_tokens := map refresh_of (ad_Sessions db)\<rparr>"

record uenv =
  ue_T :: tenv
  ue_HashPassword :: "string \<Rightarrow> go_error + string"
  ue_JsonSize :: "doc \<Rightarrow> nat"

section \<open>Errors and normal forms\<close>

definition ErrEmailTaken :: go_error where "ErrEmailTaken = AppError (New ''USER_EMAIL_TAKEN'' 409)"
definition ErrUsernameTaken :: go_error where "ErrUsernameTaken = AppError (New ''USER_USERNAME_TAKEN'' 409)"
definition ErrInvalidUsername :: go_error where "ErrInvalidUsername = AppError (New ''USER_INVALID_USERNAME'' 400)"
definition ErrInvalidEmail :: go_error where "ErrInvalidEmail = AppError (New ''USER_INVALID_EMAIL'' 400)"
definition ErrInvalidPreferences :: go_error where
  "ErrInvalidPreferences = AppError (New ''USER_INVALID_PREFERENCES'' 400)"
definition ErrSuspended :: go_error where "ErrSuspended = AppError (New ''USER_SUSPENDED'' 403)"
definition validation_failed :: go_error where "validation_failed = AppError (New ''VALIDATION_FAILED'' 400)"

definition normalizeEmail :: "string \<Rightarrow> go_error + string" where
  "normalizeEmail email = (let n = TrimSpace (ToLower email) in if n = [] then Inl ErrInvalidEmail else Inr n)"

definition username_char :: "char \<Rightarrow> bool" where
  "username_char c \<longleftrightarrow> byte_in 97 122 c \<or> is_digit c \<or> c = CHR ''_''"

definition normalizeUsername :: "string \<Rightarrow> go_error + string" where
  "normalizeUsername username =
     (let n = TrimSpace (ToLower username) in
      if length n < 3 \<or> 64 < length n then Inl ErrInvalidUsername
      else if \<not> list_all username_char n then Inl ErrInvalidUsername
      else Inr n)"

definition maxPreferencesBytes :: nat where "maxPreferencesBytes = 16 * 1024"

definition preference_ok :: "string \<Rightarrow> json \<Rightarrow> bool" where
  "preference_ok key val =
     (if key = ''theme'' then (case val of JStr s \<Rightarrow> s \<in> {''light'', ''dark'', ''system''} | _ \<Rightarrow> False)
      else if key = ''locale'' \<or> key = ''timezone'' then (case val of JStr s \<Rightarrow> s \<noteq> [] | _ \<Rightarrow> False)
      else if key = ''notifications'' then (case val of JObj _ \<Rightarrow> True | _ \<Rightarrow> False)
      else False)"

definition validatePreferences :: "uenv \<Rightarrow> doc option \<Rightarrow> go_error option" where
  "validatePreferences U prefs =
     (case prefs of
        None \<Rightarrow> None
      | Some p \<Rightarrow>
          if maxPreferencesBytes < ue_JsonSize U p then Some ErrInvalidPreferences
          else if list_all (\<lambda>(k, v). preference_ok k v) p then None
          else Some ErrInvalidPreferences)"

section \<open>The repository\<close>

definition encrypt_opt :: "uenv \<Rightarrow> string \<Rightarrow> go_error + (string \<times> string) option" where
  "encrypt_opt U s = (if s = [] then Inr None else and_then (te_encrypt (ue_T U) s) (\<lambda>c. Inr (Some c)))"

definition decrypt_opt :: "uenv \<Rightarrow> (string \<times> string) option \<Rightarrow> go_error + string" where
  "decrypt_opt U c = (case c of None \<Rightarrow> Inr [] | Some x \<Rightarrow> te_decrypt (ue_T U) x)"

definition domainToRow :: "uenv \<Rightarrow> user \<Rightarrow> go_error + user_row" where
  "domainToRow U u =
     and_then (te_encrypt (ue_T U) (us_Email u)) (\<lambda>email.
     and_then (encrypt_opt U (us_DisplayName u)) (\<lambda>display.
     and_then (encrypt_opt U (us_Phone u)) (\<lambda>phone.
     Inr \<lparr>uw_ID = us_ID u, uw_Username = us_Username u, uw_UsernameHash = us_UsernameHash u, uw_EmailHash = us_EmailHash u,
          uw_Email = email, uw_DisplayName = display, uw_Phone = phone, uw_Preferences = us_Preferences u,
          uw_Status = us_Status u, uw_StatusVersion = us_StatusVersion u, uw_CreatedAt = us_CreatedAt u,
          uw_UpdatedAt = us_UpdatedAt u, uw_DeletedAt = us_DeletedAt u\<rparr>)))"

definition rowToDomain :: "uenv \<Rightarrow> user_row \<Rightarrow> go_error + user" where
  "rowToDomain U r =
     and_then (te_decrypt (ue_T U) (uw_Email r)) (\<lambda>email.
     and_then (decrypt_opt U (uw_DisplayName r)) (\<lambda>display.
     and_then (decrypt_opt U (uw_Phone r)) (\<lambda>phone.
     Inr \<lparr>us_ID = uw_ID r, us_Username = uw_Username r, us_Email = email, us_DisplayName = display, us_Phone = phone,
          us_Preferences = uw_Preferences r, us_Status = uw_Status r, us_StatusVersion = uw_StatusVersion r,
          us_UsernameHash = uw_UsernameHash r, us_EmailHash = uw_EmailHash r, us_CreatedAt = uw_CreatedAt r,
          us_UpdatedAt = uw_UpdatedAt r, us_DeletedAt = uw_DeletedAt r\<rparr>)))"

definition one_user :: "uenv \<Rightarrow> (user_row \<Rightarrow> bool) \<Rightarrow> account_db \<Rightarrow> go_error + user" where
  "one_user U P db = (case find P (ad_Users db) of None \<Rightarrow> Inl not_found | Some r \<Rightarrow> rowToDomain U r)"

definition ByID_user :: "uenv \<Rightarrow> uuid \<Rightarrow> account_db \<Rightarrow> go_error + user" where
  "ByID_user U i = one_user U (\<lambda>r. uw_ID r = i)"

definition ByEmailHash :: "uenv \<Rightarrow> string \<Rightarrow> account_db \<Rightarrow> go_error + user" where
  "ByEmailHash U h = one_user U (\<lambda>r. uw_EmailHash r = h)"

definition ByUsernameHash :: "uenv \<Rightarrow> string \<Rightarrow> account_db \<Rightarrow> go_error + user" where
  "ByUsernameHash U h = one_user U (\<lambda>r. uw_UsernameHash r = h)"

definition update_user :: "uuid \<Rightarrow> (user_row \<Rightarrow> user_row) \<Rightarrow> account_db \<Rightarrow> account_db" where
  "update_user i f db = db\<lparr>ad_Users := map (\<lambda>r. if uw_ID r = i then f r else r) (ad_Users db)\<rparr>"

text \<open>The insert with its unique indexes, in the order in which they were created.\<close>

definition CreateUser :: "user_row \<Rightarrow> account_db \<Rightarrow> go_error + account_db" where
  "CreateUser r db =
     (if uw_ID r \<in> uw_ID ` set (ad_Users db) then Inl ErrEmailTaken
      else if uw_UsernameHash r \<in> uw_UsernameHash ` set (ad_Users db) then Inl ErrUsernameTaken
      else if uw_EmailHash r \<in> uw_EmailHash ` set (ad_Users db) then Inl ErrEmailTaken
      else Inr (db\<lparr>ad_Users := ad_Users db @ [r]\<rparr>))"

definition InsertCredentialsTx :: "uuid \<Rightarrow> string \<Rightarrow> account_db \<Rightarrow> go_error + account_db" where
  "InsertCredentialsTx i ph db =
     (if i \<in> cd_User ` set (ad_Credentials db) then Inl (PlainError ''credentials_pkey'')
      else Inr (db\<lparr>ad_Credentials := ad_Credentials db @ [\<lparr>cd_User = i, cd_PasswordHash = ph, cd_LastLogin = None\<rparr>]\<rparr>))"

text \<open>The key table; its violation is the one \<open>IsUniqueViolation\<close> recognises.\<close>

definition key_violation :: go_error where "key_violation = PlainError ''registration_idempotency_pkey''"

definition UserIDByKey :: "string \<Rightarrow> account_db \<Rightarrow> uuid option" where
  "UserIDByKey key db = map_of (ad_Keys db) key"

definition RecordTx :: "string \<Rightarrow> uuid \<Rightarrow> account_db \<Rightarrow> go_error + account_db" where
  "RecordTx key i db = (if key \<in> fst ` set (ad_Keys db) then Inl key_violation else Inr (db\<lparr>ad_Keys := ad_Keys db @ [(key, i)]\<rparr>))"

definition IdempotencyKey_event :: "uuid \<Rightarrow> nat \<Rightarrow> string" where
  "IdempotencyKey_event i version = i @ '':'' @ nat_str version"

definition enqueueUserEvent :: "uuid \<Rightarrow> nat \<Rightarrow> user \<Rightarrow> string \<Rightarrow> nat \<Rightarrow> account_db \<Rightarrow> account_db" where
  "enqueueUserEvent newID now u eventType version db =
     db\<lparr>ad_Events := EnqueueTx newID now (us_ID u) eventType
       (MarshalPayload \<lparr>up_UserID = us_ID u, up_Status = status_text (us_Status u), up_StatusVersion = int version, up_Username = us_Username u\<rparr>)
       (IdempotencyKey_event (us_ID u) version) (ad_Events db)\<rparr>"

text \<open>What a transaction draws: the identifier of an outbox row, the clock, and the slugs of a tenant.\<close>

record draws =
  dw_Event :: uuid
  dw_Now :: nat
  dw_Slugs :: "(string \<times> uuid) list"

definition Create_user :: "uenv \<Rightarrow> draws \<Rightarrow> user \<Rightarrow> string \<Rightarrow> string \<Rightarrow> account_db \<Rightarrow> go_error + account_db" where
  "Create_user U w u passwordHash key db =
     (let u = (if us_StatusVersion u = 0 then u\<lparr>us_StatusVersion := 1\<rparr> else u) in
      and_then (domainToRow U u) (\<lambda>row.
      and_then (CreateUser row db) (\<lambda>db.
      and_then (if passwordHash \<noteq> [] then InsertCredentialsTx (us_ID u) passwordHash db else Inr db) (\<lambda>db.
      and_then (ProvisionOwnerTx (int (dw_Now w)) (us_ID u) (dw_Slugs w) (ad_Tenancy db)) (\<lambda>(tenancy, slug).
      let db = enqueueUserEvent (dw_Event w) (dw_Now w) u EventUserCreated (us_StatusVersion u) (db\<lparr>ad_Tenancy := tenancy\<rparr>) in
      if key \<noteq> [] then RecordTx key (us_ID u) db else Inr db)))))"

text \<open>
  The update writes the columns of the copy it is given, status and deletion time included; the
  trigger stamps the row.
\<close>

definition written_over :: "nat \<Rightarrow> user_row \<Rightarrow> user_row \<Rightarrow> user_row" where
  "written_over now n r =
     r\<lparr>uw_Username := uw_Username n, uw_UsernameHash := uw_UsernameHash n, uw_EmailHash := uw_EmailHash n, uw_Email := uw_Email n,
       uw_DisplayName := uw_DisplayName n, uw_Phone := uw_Phone n, uw_Preferences := uw_Preferences n, uw_Status := uw_Status n,
       uw_DeletedAt := uw_DeletedAt n, uw_UpdatedAt := now\<rparr>"

definition Update_user :: "uenv \<Rightarrow> nat \<Rightarrow> user \<Rightarrow> account_db \<Rightarrow> go_error + account_db" where
  "Update_user U now u db =
     and_then (domainToRow U u) (\<lambda>n. Inr (update_user (us_ID u) (written_over now n) db))"

definition live_row :: "uuid \<Rightarrow> account_db \<Rightarrow> bool" where
  "live_row i db \<longleftrightarrow> list_ex (\<lambda>r. uw_ID r = i \<and> uw_Status r \<noteq> StatusDeleted) (ad_Users db)"

definition merge_doc :: "doc \<Rightarrow> doc \<Rightarrow> doc" where
  "merge_doc old new = filter (\<lambda>(k, v). k \<notin> fst ` set new) old @ new"

definition UpdatePreferences_repo :: "nat \<Rightarrow> uuid \<Rightarrow> doc \<Rightarrow> bool \<Rightarrow> account_db \<Rightarrow> go_error + account_db" where
  "UpdatePreferences_repo now i prefs merge db =
     (if \<not> live_row i db then Inl not_found
      else Inr (update_user i (\<lambda>r. r\<lparr>uw_Preferences := (if merge then merge_doc (uw_Preferences r) prefs else prefs), uw_UpdatedAt := now\<rparr>) db))"

definition SoftDeleteUser :: "nat \<Rightarrow> uuid \<Rightarrow> account_db \<Rightarrow> go_error + account_db" where
  "SoftDeleteUser now i db =
     (if \<not> live_row i db then Inl not_found
      else Inr (update_user i (\<lambda>r. r\<lparr>uw_Status := StatusDeleted, uw_DeletedAt := Some now, uw_UpdatedAt := now\<rparr>) db))"

definition RevokeAllForUser_sessions :: "nat \<Rightarrow> uuid \<Rightarrow> account_db \<Rightarrow> account_db" where
  "RevokeAllForUser_sessions now i db =
     db\<lparr>ad_Sessions := map (\<lambda>s. if sn_User s = i \<and> sn_RevokedAt s = None then s\<lparr>sn_RevokedAt := Some now\<rparr> else s) (ad_Sessions db)\<rparr>"

text \<open>One transaction: the next version, and the event that carries it.\<close>

definition publishUserEvent :: "draws \<Rightarrow> user \<Rightarrow> string \<Rightarrow> account_db \<Rightarrow> go_error + account_db" where
  "publishUserEvent w u eventType db =
     (case find (\<lambda>r. uw_ID r = us_ID u) (ad_Users db) of
        None \<Rightarrow> Inl not_found
      | Some r \<Rightarrow>
          (let version = uw_StatusVersion r + 1;
               db = update_user (us_ID u) (\<lambda>r. r\<lparr>uw_StatusVersion := uw_StatusVersion r + 1, uw_UpdatedAt := dw_Now w\<rparr>) db in
           Inr (enqueueUserEvent (dw_Event w) (dw_Now w) (u\<lparr>us_StatusVersion := version\<rparr>) eventType version db)))"

text \<open>Each statement is its own transaction, so an error leaves what came before.\<close>

definition SoftDelete_user :: "uenv \<Rightarrow> draws \<Rightarrow> uuid \<Rightarrow> account_db \<Rightarrow> account_db \<times> go_error option" where
  "SoftDelete_user U w i db =
     (case ByID_user U i db of
        Inl e \<Rightarrow> (db, Some e)
      | Inr u \<Rightarrow>
          (case SoftDeleteUser (dw_Now w) i db of
             Inl e \<Rightarrow> (db, Some e)
           | Inr db \<Rightarrow>
               (let db = RevokeAllForUser_sessions (dw_Now w) i db in
                case publishUserEvent w (u\<lparr>us_Status := StatusDeleted, us_DeletedAt := Some (dw_Now w)\<rparr>) EventUserDeleted db of
                  Inl e \<Rightarrow> (db, Some e)
                | Inr db \<Rightarrow> (db, None))))"

section \<open>The service\<close>

record user_dto =
  ud_ID :: uuid
  ud_Username :: string
  ud_Email :: string
  ud_DisplayName :: string
  ud_Phone :: string
  ud_Preferences :: doc
  ud_Status :: user_status
  ud_CreatedAt :: nat
  ud_UpdatedAt :: nat

definition toDTO :: "user \<Rightarrow> bool \<Rightarrow> user_dto" where
  "toDTO u exposePII =
     \<lparr>ud_ID = us_ID u, ud_Username = us_Username u, ud_Email = (if exposePII then us_Email u else []),
      ud_DisplayName = (if exposePII then us_DisplayName u else []), ud_Phone = (if exposePII then us_Phone u else []),
      ud_Preferences = us_Preferences u, ud_Status = us_Status u, ud_CreatedAt = us_CreatedAt u, ud_UpdatedAt = us_UpdatedAt u\<rparr>"

record register_input =
  ri_Username :: string
  ri_Email :: string
  ri_Password :: string
  ri_IdempotencyKey :: string
  ri_DisplayName :: string
  ri_Phone :: string
  ri_Preferences :: "doc option"

definition runes_within :: "nat \<Rightarrow> nat \<Rightarrow> string \<Rightarrow> bool" where
  "runes_within lo hi s \<longleftrightarrow> lo \<le> RuneCountInString s \<and> RuneCountInString s \<le> hi"

text \<open>The tags of the struct, counted in runes as the validator does; an address is judged outside.\<close>

definition valid_register :: "uenv \<Rightarrow> register_input \<Rightarrow> bool" where
  "valid_register U i \<longleftrightarrow> runes_within 3 64 (ri_Username i) \<and>
     ri_Email i \<noteq> [] \<and> te_validEmail (ue_T U) (ri_Email i) \<and> runes_within 0 254 (ri_Email i) \<and>
     runes_within 8 128 (ri_Password i) \<and> runes_within 0 128 (ri_DisplayName i) \<and> runes_within 0 32 (ri_Phone i)"

definition taken_by :: "go_error + user \<Rightarrow> go_error \<Rightarrow> go_error option" where
  "taken_by found taken = (case found of
      Inl e \<Rightarrow> if e = not_found then None else Some e
    | Inr u \<Rightarrow> if us_Status u \<noteq> StatusDeleted then Some taken else None)"

definition assertUnique :: "uenv \<Rightarrow> string \<Rightarrow> string \<Rightarrow> account_db \<Rightarrow> go_error option" where
  "assertUnique U emailHash usernameHash db =
     (case taken_by (ByEmailHash U emailHash db) ErrEmailTaken of
        Some e \<Rightarrow> Some e
      | None \<Rightarrow> taken_by (ByUsernameHash U usernameHash db) ErrUsernameTaken)"

text \<open>
  \<open>Register\<close> in two parts: what it decides from what it reads, and the transaction with the look at
  the key that follows a violation.
\<close>

datatype register_decision = Replay user_dto | Insert user string string

definition Register_checks :: "uenv \<Rightarrow> uuid \<Rightarrow> nat \<Rightarrow> register_input \<Rightarrow> account_db \<Rightarrow> go_error + register_decision" where
  "Register_checks U newID now i db =
     and_then (require (valid_register U i) validation_failed) (\<lambda>_.
     and_then (NormalizeKey (ri_IdempotencyKey i)) (\<lambda>key.
     case (if key = [] then None else UserIDByKey key db) of
       Some uid \<Rightarrow> and_then (ByID_user U uid db) (\<lambda>u. Inr (Replay (toDTO u True)))
     | None \<Rightarrow>
         and_then (normalizeUsername (ri_Username i)) (\<lambda>username.
         and_then (normalizeEmail (ri_Email i)) (\<lambda>email.
         and_then (refuse_if (validatePreferences U (ri_Preferences i))) (\<lambda>_.
         and_then (te_index (ue_T U) username) (\<lambda>usernameHash.
         and_then (te_index (ue_T U) email) (\<lambda>emailHash.
         and_then (refuse_if (assertUnique U emailHash usernameHash db)) (\<lambda>_.
         and_then (ue_HashPassword U (ri_Password i)) (\<lambda>passwordHash.
         Inr (Insert \<lparr>us_ID = newID, us_Username = username, us_Email = email, us_DisplayName = ri_DisplayName i,
             us_Phone = ri_Phone i, us_Preferences = (case ri_Preferences i of None \<Rightarrow> [] | Some p \<Rightarrow> p),
             us_Status = StatusActive, us_StatusVersion = 1, us_UsernameHash = usernameHash, us_EmailHash = emailHash,
             us_CreatedAt = now, us_UpdatedAt = now, us_DeletedAt = None\<rparr> passwordHash key))))))))))"

definition Register_commit :: "uenv \<Rightarrow> draws \<Rightarrow> register_decision \<Rightarrow> account_db \<Rightarrow> account_db \<times> (go_error + user_dto \<times> bool)" where
  "Register_commit U w d db =
     (case d of
        Replay dto \<Rightarrow> (db, Inr (dto, True))
      | Insert u passwordHash key \<Rightarrow>
          (case Create_user U w u passwordHash key db of
             Inr db' \<Rightarrow> (db', Inr (toDTO u True, False))
           | Inl e \<Rightarrow>
               (case (if key \<noteq> [] \<and> e = key_violation then UserIDByKey key db else None) of
                  Some uid \<Rightarrow> (db, and_then (ByID_user U uid db) (\<lambda>u. Inr (toDTO u True, True)))
                | None \<Rightarrow> (db, Inl e))))"

definition Register :: "uenv \<Rightarrow> draws \<Rightarrow> uuid \<Rightarrow> register_input \<Rightarrow> account_db \<Rightarrow> account_db \<times> (go_error + user_dto \<times> bool)" where
  "Register U w newID i db =
     (case Register_checks U newID (dw_Now w) i db of Inl e \<Rightarrow> (db, Inl e) | Inr d \<Rightarrow> Register_commit U w d db)"

definition on_user :: "string \<Rightarrow> uuid \<Rightarrow> authz_input" where
  "on_user action i = \<lparr>Action = action, ResourceType = ''user'', ResourceID = i\<rparr>"

definition gone :: "user \<Rightarrow> bool" where
  "gone u \<longleftrightarrow> us_Status u = StatusDeleted \<or> us_DeletedAt u \<noteq> None"

definition ByID_svc :: "uenv \<Rightarrow> subject option \<Rightarrow> uuid \<Rightarrow> account_db \<Rightarrow> go_error + user_dto" where
  "ByID_svc U ctx i db =
     and_then (refuse_if (te_allow (ue_T U) ctx (on_user ''user:read'' i))) (\<lambda>_.
     and_then (ByID_user U i db) (\<lambda>u. if gone u then Inl not_found else Inr (toDTO u True)))"

definition CurrentUser :: "uenv \<Rightarrow> subject option \<Rightarrow> account_db \<Rightarrow> go_error + user_dto" where
  "CurrentUser U ctx db = (case ctx of None \<Rightarrow> Inl unauthorized | Some sub \<Rightarrow> ByID_svc U ctx (UserID sub) db)"

definition guardMutable :: "user \<Rightarrow> go_error option" where
  "guardMutable u = (if gone u then Some not_found else if us_Status u = StatusSuspended then Some ErrSuspended else None)"

record profile_input =
  pi_DisplayName :: "string option"
  pi_Phone :: "string option"

definition valid_profile :: "profile_input \<Rightarrow> bool" where
  "valid_profile i \<longleftrightarrow>
     (case pi_DisplayName i of None \<Rightarrow> True | Some s \<Rightarrow> runes_within 0 128 s) \<and>
     (case pi_Phone i of None \<Rightarrow> True | Some s \<Rightarrow> runes_within 0 32 s)"

text \<open>\<open>UpdateProfile\<close> reads and decides, then writes the copy, publishes, and reads again.\<close>

definition UpdateProfile_reads :: "uenv \<Rightarrow> subject option \<Rightarrow> uuid \<Rightarrow> profile_input \<Rightarrow> account_db \<Rightarrow> go_error + user" where
  "UpdateProfile_reads U ctx i inp db =
     and_then (require (valid_profile inp) validation_failed) (\<lambda>_.
     and_then (refuse_if (te_allow (ue_T U) ctx (on_user ''user:update'' i))) (\<lambda>_.
     and_then (ByID_user U i db) (\<lambda>u.
     and_then (refuse_if (guardMutable u)) (\<lambda>_.
     Inr (u\<lparr>us_DisplayName := (case pi_DisplayName inp of None \<Rightarrow> us_DisplayName u | Some s \<Rightarrow> s),
            us_Phone := (case pi_Phone inp of None \<Rightarrow> us_Phone u | Some s \<Rightarrow> s)\<rparr>)))))"

definition UpdateProfile_writes :: "uenv \<Rightarrow> draws \<Rightarrow> user \<Rightarrow> account_db \<Rightarrow> account_db \<times> (go_error + user_dto)" where
  "UpdateProfile_writes U w u db =
     (case Update_user U (dw_Now w) u db of
        Inl e \<Rightarrow> (db, Inl e)
      | Inr db \<Rightarrow>
          (case publishUserEvent w u EventUserUpdated db of
             Inl e \<Rightarrow> (db, Inl e)
           | Inr db \<Rightarrow> (db, and_then (ByID_user U (us_ID u) db) (\<lambda>u. Inr (toDTO u True)))))"

definition UpdateProfile ::
    "uenv \<Rightarrow> draws \<Rightarrow> subject option \<Rightarrow> uuid \<Rightarrow> profile_input \<Rightarrow> account_db \<Rightarrow> account_db \<times> (go_error + user_dto)" where
  "UpdateProfile U w ctx i inp db =
     (case UpdateProfile_reads U ctx i inp db of Inl e \<Rightarrow> (db, Inl e) | Inr u \<Rightarrow> UpdateProfile_writes U w u db)"

text \<open>The preferences are required by the tag of the struct.\<close>

definition UpdatePreferences_reads :: "uenv \<Rightarrow> subject option \<Rightarrow> uuid \<Rightarrow> doc option \<Rightarrow> account_db \<Rightarrow> go_error + user \<times> doc" where
  "UpdatePreferences_reads U ctx i prefs db =
     (case prefs of
        None \<Rightarrow> Inl validation_failed
      | Some p \<Rightarrow>
          and_then (refuse_if (te_allow (ue_T U) ctx (on_user ''user:preferences:update'' i))) (\<lambda>_.
          and_then (ByID_user U i db) (\<lambda>u.
          and_then (refuse_if (guardMutable u)) (\<lambda>_.
          and_then (refuse_if (validatePreferences U prefs)) (\<lambda>_. Inr (u, p))))))"

definition UpdatePreferences_publishes :: "uenv \<Rightarrow> draws \<Rightarrow> user \<Rightarrow> account_db \<Rightarrow> account_db \<times> (go_error + user_dto)" where
  "UpdatePreferences_publishes U w u db =
     (case publishUserEvent w u EventUserUpdated db of
        Inl e \<Rightarrow> (db, Inl e)
      | Inr db \<Rightarrow> (db, and_then (ByID_user U (us_ID u) db) (\<lambda>u. Inr (toDTO u True))))"

definition UpdatePreferences ::
    "uenv \<Rightarrow> draws \<Rightarrow> subject option \<Rightarrow> uuid \<Rightarrow> doc option \<Rightarrow> bool \<Rightarrow> account_db \<Rightarrow> account_db \<times> (go_error + user_dto)" where
  "UpdatePreferences U w ctx i prefs merge db =
     (case UpdatePreferences_reads U ctx i prefs db of
        Inl e \<Rightarrow> (db, Inl e)
      | Inr (u, p) \<Rightarrow>
          (case UpdatePreferences_repo (dw_Now w) i p merge db of
             Inl e \<Rightarrow> (db, Inl e)
           | Inr db \<Rightarrow> UpdatePreferences_publishes U w u db))"

definition Delete_user :: "uenv \<Rightarrow> draws \<Rightarrow> subject option \<Rightarrow> uuid \<Rightarrow> account_db \<Rightarrow> account_db \<times> go_error option" where
  "Delete_user U w ctx i db =
     (case and_then (refuse_if (te_allow (ue_T U) ctx (on_user ''user:delete'' i))) (\<lambda>_. ByID_user U i db) of
        Inl e \<Rightarrow> (db, Some e)
      | Inr u \<Rightarrow> if us_Status u = StatusDeleted then (db, Some not_found) else SoftDelete_user U w i db)"

section \<open>Listing\<close>

definition ClampLimit :: "int \<Rightarrow> nat" where
  "ClampLimit n = (if n \<le> 0 then 20 else if 100 < n then 100 else nat n)"

definition normalizeListStatus :: "string \<Rightarrow> go_error + string" where
  "normalizeListStatus raw =
     (let s = TrimSpace (ToLower raw) in
      if s = [] then Inr ''active''
      else if s \<in> {''active'', ''suspended'', ''deleted'', ''all''} then Inr s
      else Inl (AppError (New ''INVALID_STATUS_FILTER'' 400)))"

definition status_matches :: "string \<Rightarrow> user_row \<Rightarrow> bool" where
  "status_matches flt r \<longleftrightarrow>
     (if flt = ''all'' then uw_Status r \<noteq> StatusDeleted \<and> uw_DeletedAt r = None
      else if flt = ''deleted'' then uw_Status r = StatusDeleted
      else status_text (uw_Status r) = flt \<and> uw_DeletedAt r = None)"

text \<open>\<open>ORDER BY created_at DESC, id DESC\<close>; a cursor is the pair it stops at, as the JSON under its base64.\<close>

definition listed_before :: "user_row \<Rightarrow> user_row \<Rightarrow> bool" where
  "listed_before a b \<longleftrightarrow> (uw_CreatedAt b, uw_ID b) < (uw_CreatedAt a, uw_ID a)"

definition ListPage :: "string \<Rightarrow> (nat \<times> uuid) option \<Rightarrow> nat \<Rightarrow> account_db \<Rightarrow> user_row list" where
  "ListPage flt cursor limit db =
     take limit (rev (sort_key (\<lambda>r. (uw_CreatedAt r, uw_ID r))
       (filter (\<lambda>r. status_matches flt r \<and> (case cursor of None \<Rightarrow> True | Some c \<Rightarrow> (uw_CreatedAt r, uw_ID r) < c)) (ad_Users db))))"

record user_page =
  upg_Items :: "user_dto list"
  upg_Limit :: nat
  upg_HasMore :: bool
  upg_NextCursor :: "(nat \<times> uuid) option"

primrec domain_rows :: "uenv \<Rightarrow> user_row list \<Rightarrow> go_error + user list" where
  "domain_rows U [] = Inr []"
| "domain_rows U (r # rs) = and_then (rowToDomain U r) (\<lambda>u. and_then (domain_rows U rs) (\<lambda>us. Inr (u # us)))"

definition List_users ::
    "uenv \<Rightarrow> subject option \<Rightarrow> int \<Rightarrow> (nat \<times> uuid) option \<Rightarrow> string \<Rightarrow> account_db \<Rightarrow> go_error + user_page" where
  "List_users U ctx wanted cursor status db =
     and_then (refuse_if (te_allow (ue_T U) ctx \<lparr>Action = ''user:list'', ResourceType = ''users'', ResourceID = ''collection''\<rparr>)) (\<lambda>_.
     and_then (normalizeListStatus status) (\<lambda>flt.
     let limit = ClampLimit wanted in
     and_then (domain_rows U (ListPage flt cursor (limit + 1) db)) (\<lambda>users.
     let hasMore = limit < length users; shown = take limit users in
     Inr \<lparr>upg_Items = map (\<lambda>u. toDTO u True) shown, upg_Limit = limit, upg_HasMore = hasMore,
          upg_NextCursor = (if hasMore \<and> shown \<noteq> [] then Some (us_CreatedAt (last shown), us_ID (last shown)) else None)\<rparr>)))"

end
