(* ===== verification/Sessions.thy ===== *)
theory Sessions
  imports Accounts
begin

text \<open>
  Sessions: \<open>auth/service/auth_service.go\<close> over \<open>auth/repository/credential_repository.go\<close>, and the
  platform roles of \<open>internal/iam\<close>.  A call is given with its audit records; the statements of a
  refresh are separate, because nothing holds them together.  The password check, SHA-256 and the
  signer's library are outside functions; the token drawn is an argument.
\<close>

section \<open>The repository\<close>

definition UserIDByEmailLookup :: "string \<Rightarrow> account_db \<Rightarrow> uuid option" where
  "UserIDByEmailLookup h db =
     map_option uw_ID (find (\<lambda>r. uw_EmailHash r = h \<and> uw_Status r \<noteq> StatusDeleted) (ad_Users db))"

definition GetPasswordHash :: "uuid \<Rightarrow> account_db \<Rightarrow> string option" where
  "GetPasswordHash i db = map_option cd_PasswordHash (find (\<lambda>c. cd_User c = i) (ad_Credentials db))"

definition UpdateLastLogin :: "nat \<Rightarrow> uuid \<Rightarrow> account_db \<Rightarrow> account_db" where
  "UpdateLastLogin now i db =
     db\<lparr>ad_Credentials := map (\<lambda>c. if cd_User c = i then c\<lparr>cd_LastLogin := Some now\<rparr> else c) (ad_Credentials db)\<rparr>"

definition StoreRefreshToken :: "uuid \<Rightarrow> string \<Rightarrow> nat \<Rightarrow> string \<Rightarrow> account_db \<Rightarrow> account_db" where
  "StoreRefreshToken i h expiresAt slug db =
     db\<lparr>ad_Sessions := ad_Sessions db @ [\<lparr>sn_User = i, sn_TokenHash = h, sn_ExpiresAt = expiresAt, sn_RevokedAt = None,
       sn_Tenant = (if slug = [] then None else Some slug)\<rparr>]\<rparr>"

definition RevokeRefreshToken :: "nat \<Rightarrow> string \<Rightarrow> account_db \<Rightarrow> account_db" where
  "RevokeRefreshToken now h db =
     db\<lparr>ad_Sessions := map (\<lambda>s. if sn_TokenHash s = h \<and> sn_RevokedAt s = None then s\<lparr>sn_RevokedAt := Some now\<rparr> else s) (ad_Sessions db)\<rparr>"

definition RevokeAllForUserInTenant_sessions :: "nat \<Rightarrow> uuid \<Rightarrow> string \<Rightarrow> account_db \<Rightarrow> account_db" where
  "RevokeAllForUserInTenant_sessions now i slug db =
     db\<lparr>ad_Sessions := map (\<lambda>s. if sn_User s = i \<and> sn_Tenant s = Some slug \<and> sn_RevokedAt s = None
       then s\<lparr>sn_RevokedAt := Some now\<rparr> else s) (ad_Sessions db)\<rparr>"

definition live_session :: "nat \<Rightarrow> string \<Rightarrow> session_row \<Rightarrow> bool" where
  "live_session now h s \<longleftrightarrow> sn_TokenHash s = h \<and> sn_RevokedAt s = None \<and> now < sn_ExpiresAt s"

definition FindValidRefresh :: "nat \<Rightarrow> string \<Rightarrow> account_db \<Rightarrow> (uuid \<times> string) option" where
  "FindValidRefresh now h db =
     map_option (\<lambda>s. (sn_User s, case sn_Tenant s of None \<Rightarrow> [] | Some t \<Rightarrow> t)) (find (live_session now h) (ad_Sessions db))"

definition UserStatusByID :: "uuid \<Rightarrow> account_db \<Rightarrow> user_status option" where
  "UserStatusByID i db = map_option uw_Status (find (\<lambda>r. uw_ID r = i) (ad_Users db))"

definition RolesForUser :: "nat \<Rightarrow> uuid \<Rightarrow> account_db \<Rightarrow> string list" where
  "RolesForUser now i db =
     map (\<lambda>(u, n, e). n) (filter (\<lambda>(u, n, e). u = i \<and> (case e of None \<Rightarrow> True | Some t \<Rightarrow> now < t)) (ad_Roles db))"

section \<open>Platform roles\<close>

text \<open>The roles that exist are a list of names; a row of \<open>user_roles\<close> names one.\<close>

definition AssignRole :: "uuid \<Rightarrow> string \<Rightarrow> account_db \<Rightarrow> account_db" where
  "AssignRole i name db =
     (if list_ex (\<lambda>(u, n, e). u = i \<and> n = name) (ad_Roles db) then db else db\<lparr>ad_Roles := ad_Roles db @ [(i, name, None)]\<rparr>)"

definition RevokeRole :: "uuid \<Rightarrow> string \<Rightarrow> account_db \<Rightarrow> account_db" where
  "RevokeRole i name db = db\<lparr>ad_Roles := filter (\<lambda>(u, n, e). \<not> (u = i \<and> n = name)) (ad_Roles db)\<rparr>"

definition ListRolesForUser :: "uenv \<Rightarrow> subject option \<Rightarrow> nat \<Rightarrow> uuid \<Rightarrow> account_db \<Rightarrow> go_error + string list" where
  "ListRolesForUser U ctx now i db =
     and_then (refuse_if (te_allow (ue_T U) ctx (on_user ''iam:role:read'' i))) (\<lambda>_. Inr (RolesForUser now i db))"

definition AssignRoleByName :: "uenv \<Rightarrow> string list \<Rightarrow> subject option \<Rightarrow> uuid \<Rightarrow> string \<Rightarrow> account_db \<Rightarrow> go_error + account_db" where
  "AssignRoleByName U roles ctx i name db =
     and_then (refuse_if (te_allow (ue_T U) ctx (on_user ''iam:role:assign'' i))) (\<lambda>_.
     and_then (require (name \<in> set roles) not_found) (\<lambda>_. Inr (AssignRole i name db)))"

definition RevokeRoleByName :: "uenv \<Rightarrow> string list \<Rightarrow> subject option \<Rightarrow> uuid \<Rightarrow> string \<Rightarrow> account_db \<Rightarrow> go_error + account_db" where
  "RevokeRoleByName U roles ctx i name db =
     and_then (refuse_if (te_allow (ue_T U) ctx (on_user ''iam:role:revoke'' i))) (\<lambda>_.
     and_then (require (name \<in> set roles) not_found) (\<lambda>_. Inr (RevokeRole i name db)))"

section \<open>The service\<close>

definition ErrInvalidCredentials :: go_error where "ErrInvalidCredentials = AppError (New ''AUTH_INVALID_CREDENTIALS'' 401)"
definition ErrInvalidToken :: go_error where "ErrInvalidToken = AppError (New ''AUTH_INVALID_TOKEN'' 401)"
definition ErrRefreshRevoked :: go_error where "ErrRefreshRevoked = AppError (New ''AUTH_REFRESH_REVOKED'' 401)"
definition ErrMembershipRevoked :: go_error where
  "ErrMembershipRevoked = AppError (New ''AUTH_TENANT_MEMBERSHIP_REVOKED'' 401)"
definition ErrNotTenantMember :: go_error where "ErrNotTenantMember = AppError (New ''AUTH_NOT_TENANT_MEMBER'' 403)"
definition no_rows :: go_error where "no_rows = PlainError ''no rows in result set''"

datatype auth_event = EventLogin | EventRefresh | EventLogout | EventTenantSwitch

record auth_audit =
  aa_Event :: auth_event
  aa_Success :: bool
  aa_User :: "uuid option"
  aa_Code :: string

definition failed_audit :: "auth_event \<Rightarrow> uuid option \<Rightarrow> string \<Rightarrow> auth_audit" where
  "failed_audit ev u code = \<lparr>aa_Event = ev, aa_Success = False, aa_User = u, aa_Code = code\<rparr>"

definition ok_audit :: "auth_event \<Rightarrow> uuid option \<Rightarrow> auth_audit" where
  "ok_audit ev u = \<lparr>aa_Event = ev, aa_Success = True, aa_User = u, aa_Code = []\<rparr>"

record auth_env =
  ae_U :: uenv
  ae_Verify :: "string \<Rightarrow> string \<Rightarrow> bool"
  ae_JWT :: jwt_lib
  ae_Signer :: signer
  ae_RefreshTTL :: nat

text \<open>What a call draws: the clock and 32 random bytes in hex.\<close>

record session_draws =
  sd_Now :: nat
  sd_Refresh :: string

record tenant_option =
  to_Slug :: string
  to_Name :: string
  to_Role :: string

record token_response =
  tr_AccessToken :: string
  tr_RefreshToken :: string
  tr_ExpiresIn :: int
  tr_UserID :: uuid
  tr_TenantID :: string
  tr_AvailableTenants :: "tenant_option list"

definition hashRefreshToken :: "auth_env \<Rightarrow> string \<Rightarrow> string" where
  "hashRefreshToken A raw = te_hash (ue_T (ae_U A)) raw"

text \<open>The role the membership gives; an empty slug has none.\<close>

definition role_in :: "uuid \<Rightarrow> string \<Rightarrow> account_db \<Rightarrow> go_error + string" where
  "role_in i slug db =
     (if slug = [] then Inr []
      else case MembershipRole i slug (tables_of db) of
        Inl e \<Rightarrow> Inl (if e = not_found then ErrMembershipRevoked else e)
      | Inr role \<Rightarrow> if ValidRole role then Inr role else Inl (PlainError ''auth: membership role outside allowed set''))"

definition issueTokens :: "auth_env \<Rightarrow> session_draws \<Rightarrow> uuid \<Rightarrow> string \<Rightarrow> account_db \<Rightarrow> account_db \<times> (go_error + token_response)" where
  "issueTokens A d i slug db =
     (case UserStatusByID i db of
        None \<Rightarrow> (db, Inl no_rows)
      | Some status \<Rightarrow>
          if status \<noteq> StatusActive then (db, Inl ErrSuspended)
          else case role_in i slug db of
            Inl e \<Rightarrow> (db, Inl e)
          | Inr role \<Rightarrow>
              (case IssueAccessToken (ae_JWT A) (ae_Signer A) (int (sd_Now d)) i (RolesForUser (sd_Now d) i db) slug role [] False of
                 Inl _ \<Rightarrow> (db, Inl (PlainError ''jwt: sign''))
               | Inr (access, till) \<Rightarrow>
                   (StoreRefreshToken i (hashRefreshToken A (sd_Refresh d)) (sd_Now d + ae_RefreshTTL A) slug db,
                    Inr \<lparr>tr_AccessToken = access, tr_RefreshToken = sd_Refresh d, tr_ExpiresIn = till - int (sd_Now d), tr_UserID = i,
                         tr_TenantID = slug, tr_AvailableTenants = []\<rparr>)))"

definition audit_code :: "go_error \<Rightarrow> string" where
  "audit_code e = (if e = ErrSuspended then ''USER_SUSPENDED''
     else if e = ErrMembershipRevoked then ''AUTH_TENANT_MEMBERSHIP_REVOKED'' else ''INTERNAL_ERROR'')"

definition memberships_of :: "uuid \<Rightarrow> account_db \<Rightarrow> (tenant \<times> membership) list" where
  "memberships_of i db = MembershipsForUser i (tables_of db)"

definition default_slug :: "(tenant \<times> membership) list \<Rightarrow> string" where
  "default_slug ms = (case ms of [] \<Rightarrow> [] | (t, m) # _ \<Rightarrow> t_Slug t)"

definition tenant_options :: "(tenant \<times> membership) list \<Rightarrow> tenant_option list" where
  "tenant_options ms = (if 1 < length ms then map (\<lambda>(t, m). \<lparr>to_Slug = t_Slug t, to_Name = t_Name t, to_Role = m_Role m\<rparr>) ms else [])"

type_synonym auth_answer = "account_db \<times> auth_audit list \<times> (go_error + token_response)"

definition NormalizeEmail :: "string \<Rightarrow> string" where
  "NormalizeEmail email = TrimSpace (ToLower email)"

definition valid_login :: "auth_env \<Rightarrow> string \<Rightarrow> string \<Rightarrow> bool" where
  "valid_login A email password \<longleftrightarrow> email \<noteq> [] \<and> te_validEmail (ue_T (ae_U A)) email \<and> 8 \<le> RuneCountInString password"

definition Login :: "auth_env \<Rightarrow> session_draws \<Rightarrow> string \<Rightarrow> string \<Rightarrow> account_db \<Rightarrow> auth_answer" where
  "Login A d email password db =
     (let bad = failed_audit EventLogin None ''AUTH_INVALID_CREDENTIALS'' in
      if \<not> valid_login A email password then (db, [], Inl validation_failed)
      else case te_index (ue_T (ae_U A)) (NormalizeEmail email) of
        Inl e \<Rightarrow> (db, [], Inl e)
      | Inr h \<Rightarrow>
          (case UserIDByEmailLookup h db of
             None \<Rightarrow> (db, [bad], Inl ErrInvalidCredentials)
           | Some i \<Rightarrow>
               (case GetPasswordHash i db of
                  None \<Rightarrow> (db, [bad], Inl ErrInvalidCredentials)
                | Some stored \<Rightarrow>
                    if \<not> ae_Verify A stored password then (db, [bad], Inl ErrInvalidCredentials)
                    else
                      (let db = UpdateLastLogin (sd_Now d) i db; ms = memberships_of i db in
                       case issueTokens A d i (default_slug ms) db of
                         (db, Inl e) \<Rightarrow>
                           (db, [failed_audit EventLogin (Some i) (if e = ErrSuspended then ''USER_SUSPENDED'' else ''INTERNAL_ERROR'')], Inl e)
                       | (db, Inr tr) \<Rightarrow>
                           (db, [ok_audit EventLogin (Some i)], Inr (tr\<lparr>tr_AvailableTenants := tenant_options ms\<rparr>))))))"

text \<open>
  A refresh reads the row, decides the tenant, revokes the row whatever that does, and issues:
  the two halves are what another call can come between.
\<close>

definition Refresh_reads :: "auth_env \<Rightarrow> nat \<Rightarrow> string \<Rightarrow> account_db \<Rightarrow> auth_audit list \<times> (go_error + uuid \<times> string)" where
  "Refresh_reads A now tok db =
     (if tok = [] then ([failed_audit EventRefresh None ''AUTH_INVALID_TOKEN''], Inl ErrInvalidToken)
      else case FindValidRefresh now (hashRefreshToken A tok) db of
        None \<Rightarrow> ([failed_audit EventRefresh None ''AUTH_REFRESH_REVOKED''], Inl ErrRefreshRevoked)
      | Some (i, slug) \<Rightarrow> ([], Inr (i, if slug = [] then default_slug (memberships_of i db) else slug)))"

definition Refresh_writes :: "auth_env \<Rightarrow> session_draws \<Rightarrow> string \<Rightarrow> uuid \<times> string \<Rightarrow> account_db \<Rightarrow> auth_answer" where
  "Refresh_writes A d tok who db =
     (case who of (i, slug) \<Rightarrow>
        (case issueTokens A d i slug (RevokeRefreshToken (sd_Now d) (hashRefreshToken A tok) db) of
           (db, Inl e) \<Rightarrow> (db, [failed_audit EventRefresh (Some i) (audit_code e)], Inl e)
         | (db, Inr tr) \<Rightarrow> (db, [ok_audit EventRefresh (Some i)], Inr tr)))"

definition Refresh :: "auth_env \<Rightarrow> session_draws \<Rightarrow> string \<Rightarrow> account_db \<Rightarrow> auth_answer" where
  "Refresh A d tok db =
     (case Refresh_reads A (sd_Now d) tok db of
        (trail, Inl e) \<Rightarrow> (db, trail, Inl e)
      | (trail, Inr who) \<Rightarrow> Refresh_writes A d tok who db)"

definition SwitchTenant :: "auth_env \<Rightarrow> session_draws \<Rightarrow> uuid \<Rightarrow> string \<Rightarrow> account_db \<Rightarrow> auth_answer" where
  "SwitchTenant A d i slug db =
     (if slug = [] then (db, [], Inl validation_failed)
      else case issueTokens A d i slug db of
        (db, Inl e) \<Rightarrow>
          (let err = (if e = ErrMembershipRevoked then ErrNotTenantMember else e);
               code = (if e = ErrMembershipRevoked then ''AUTH_NOT_TENANT_MEMBER'' else audit_code e) in
           (db, [failed_audit EventTenantSwitch (Some i) code], Inl err))
      | (db, Inr tr) \<Rightarrow> (db, [ok_audit EventTenantSwitch (Some i)], Inr tr))"

definition Logout :: "auth_env \<Rightarrow> nat \<Rightarrow> string \<Rightarrow> account_db \<Rightarrow> account_db \<times> auth_audit list" where
  "Logout A now tok db =
     (if tok = [] then (db, [])
      else (RevokeRefreshToken now (hashRefreshToken A tok) db, [ok_audit EventLogout None]))"

end
