(* ===== verification/Account_Runs.thy ===== *)
theory Account_Runs
  imports Sessions
begin

text \<open>
  What accounts and sessions promise: runs of the user module at the grain of its statements, the
  numbering of its events, what a copy read too early writes back, and the account view the
  tenants' tables rest on.
\<close>

section \<open>Names of events\<close>

lemma nat_str_small: "n < 10 \<Longrightarrow> nat_str n = [char_of (48 + n)]"
  by (simp add: nat_str.simps)

lemma nat_str_big: "\<not> n < 10 \<Longrightarrow> nat_str n = nat_str (n div 10) @ [char_of (48 + n mod 10)]"
  by (subst nat_str.simps) simp

lemma nat_str_nonempty: "nat_str n \<noteq> []"
  by (cases "n < 10") (simp_all add: nat_str_small nat_str_big)

lemma nat_str_inject: "nat_str m = nat_str n \<longleftrightarrow> m = n"
proof -
  have digit: "(char_of (48 + a) :: char) = char_of (48 + b) \<Longrightarrow> a < 10 \<Longrightarrow> b < 10 \<Longrightarrow> a = b" for a b :: nat
    by (drule arg_cong [of _ _ "of_char :: char \<Rightarrow> nat"]) simp
  have mixed: "nat_str a \<noteq> nat_str b" if "a < 10" "\<not> b < 10" for a b
    using nat_str_nonempty [of "b div 10"] unfolding nat_str_small [OF that(1)] nat_str_big [OF that(2)] by simp
  have "nat_str m = nat_str n \<Longrightarrow> m = n"
  proof (induction m arbitrary: n rule: nat_str.induct)
    case (1 m)
    consider "m < 10" "n < 10" | "\<not> m < 10" "\<not> n < 10" using mixed 1(2) by metis
    then show ?case
    proof cases
      case 1
      have "(char_of (48 + m) :: char) = char_of (48 + n)"
        using \<open>nat_str m = nat_str n\<close> unfolding nat_str_small [OF 1(1)] nat_str_small [OF 1(2)] by simp
      then show ?thesis using 1 by (rule digit)
    next
      case 2
      have "nat_str (m div 10) = nat_str (n div 10)" "(char_of (48 + m mod 10) :: char) = char_of (48 + n mod 10)"
        using \<open>nat_str m = nat_str n\<close> unfolding nat_str_big [OF 2(1)] nat_str_big [OF 2(2)] by simp_all
      then have "m div 10 = n div 10" "m mod 10 = n mod 10" using 1(1) [OF 2(1)] digit [of "m mod 10" "n mod 10"] by simp_all
      then show ?thesis by (metis div_mult_mod_eq)
    qed
  qed
  then show ?thesis by blast
qed

lemma event_key_inject:
  "CHR '':'' \<notin> set i \<Longrightarrow> CHR '':'' \<notin> set j \<Longrightarrow> IdempotencyKey_event i v = IdempotencyKey_event j w \<longleftrightarrow> i = j \<and> v = w"
  by (simp add: IdempotencyKey_event_def before_colon nat_str_inject)

section \<open>Runs\<close>

text \<open>
  The tables and the copies calls hold between reading and writing.  A copy is written back with
  another display name and phone; everything the auth module and the tenants do leaves users and
  events alone.
\<close>

record account_run =
  ar_DB :: account_db
  ar_Held :: "user list"

inductive account_step :: "uenv \<Rightarrow> account_run \<Rightarrow> account_run \<Rightarrow> bool" for U where
  registered: "Register_checks U newID now inp db0 = Inr (Insert u ph key) \<Longrightarrow> CHR '':'' \<notin> set newID \<Longrightarrow>
    Register_commit U w (Insert u ph key) (ar_DB s) = (db, ans) \<Longrightarrow> account_step U s (s\<lparr>ar_DB := db\<rparr>)"
| read: "ByID_user U i (ar_DB s) = Inr u \<Longrightarrow> account_step U s (s\<lparr>ar_Held := u # ar_Held s\<rparr>)"
| profile_written: "u \<in> set (ar_Held s) \<Longrightarrow>
    Update_user U now (u\<lparr>us_DisplayName := name, us_Phone := phone\<rparr>) (ar_DB s) = Inr db \<Longrightarrow> account_step U s (s\<lparr>ar_DB := db\<rparr>)"
| preferences_written: "UpdatePreferences_repo now i prefs merge (ar_DB s) = Inr db \<Longrightarrow> account_step U s (s\<lparr>ar_DB := db\<rparr>)"
| deleted: "SoftDeleteUser now i (ar_DB s) = Inr db \<Longrightarrow> account_step U s (s\<lparr>ar_DB := db\<rparr>)"
| published: "publishUserEvent w u ev (ar_DB s) = Inr db \<Longrightarrow> account_step U s (s\<lparr>ar_DB := db\<rparr>)"
| elsewhere: "ad_Users db = ad_Users (ar_DB s) \<Longrightarrow> ad_Events db = ad_Events (ar_DB s) \<Longrightarrow> account_step U s (s\<lparr>ar_DB := db\<rparr>)"

definition ar_start :: "account_run \<Rightarrow> bool" where
  "ar_start s \<longleftrightarrow> ad_Users (ar_DB s) = [] \<and> ad_Events (ar_DB s) = [] \<and> ar_Held s = []"

text \<open>An event of a user with a version.\<close>

definition carries :: "uuid \<Rightarrow> nat \<Rightarrow> outbox_row \<Rightarrow> bool" where
  "carries i v e \<longleftrightarrow> ox_AggregateID e = i \<and> ox_IdempotencyKey e = IdempotencyKey_event i v \<and>
     (\<exists>st name. ox_Payload e = MarshalPayload \<lparr>up_UserID = i, up_Status = st, up_StatusVersion = int v, up_Username = name\<rparr>)"

definition same_person :: "user \<Rightarrow> user_row \<Rightarrow> bool" where
  "same_person u r \<longleftrightarrow> uw_ID r = us_ID u \<and> uw_Username r = us_Username u \<and> uw_UsernameHash r = us_UsernameHash u \<and> uw_EmailHash r = us_EmailHash u"

definition users_ok :: "user_row list \<Rightarrow> bool" where
  "users_ok rs \<longleftrightarrow> distinct (map uw_ID rs) \<and> distinct (map uw_EmailHash rs) \<and> distinct (map uw_UsernameHash rs) \<and>
     (\<forall>r \<in> set rs. CHR '':'' \<notin> set (uw_ID r))"

definition events_ok :: "user_row list \<Rightarrow> outbox_row list \<Rightarrow> bool" where
  "events_ok rs es \<longleftrightarrow> (\<forall>e \<in> set es. \<exists>r \<in> set rs. \<exists>v. v \<le> uw_StatusVersion r \<and> carries (uw_ID r) v e)"

definition ar_inv :: "account_run \<Rightarrow> bool" where
  "ar_inv s \<longleftrightarrow> users_ok (ad_Users (ar_DB s)) \<and> events_ok (ad_Users (ar_DB s)) (ad_Events (ar_DB s)) \<and>
     (\<forall>u \<in> set (ar_Held s). \<exists>r \<in> set (ad_Users (ar_DB s)). same_person u r)"

lemma users_same: "users_ok rs \<Longrightarrow> q \<in> set rs \<Longrightarrow> r \<in> set rs \<Longrightarrow> uw_ID q = uw_ID r \<Longrightarrow> q = r"
  unfolding users_ok_def by (metis distinct_map inj_onD)

text \<open>A change of rows that keeps who they are and lowers no version.\<close>

definition keeps_person :: "(user_row \<Rightarrow> user_row) \<Rightarrow> user_row \<Rightarrow> bool" where
  "keeps_person f r \<longleftrightarrow> uw_ID (f r) = uw_ID r \<and> uw_Username (f r) = uw_Username r \<and> uw_EmailHash (f r) = uw_EmailHash r \<and>
     uw_UsernameHash (f r) = uw_UsernameHash r \<and> uw_StatusVersion r \<le> uw_StatusVersion (f r)"

lemma map_keeps_users_ok: "users_ok rs \<Longrightarrow> \<forall>r \<in> set rs. keeps_person f r \<Longrightarrow> users_ok (map f rs)"
proof -
  assume ok: "users_ok rs" and k: "\<forall>r \<in> set rs. keeps_person f r"
  have same: "map uw_ID (map f rs) = map uw_ID rs" "map uw_EmailHash (map f rs) = map uw_EmailHash rs"
      "map uw_UsernameHash (map f rs) = map uw_UsernameHash rs" using k by (auto simp: keeps_person_def)
  have "\<forall>r \<in> set (map f rs). CHR '':'' \<notin> set (uw_ID r)" using ok k by (simp add: users_ok_def keeps_person_def)
  then show ?thesis using ok unfolding users_ok_def same by blast
qed

lemma map_keeps_events_ok: "events_ok rs es \<Longrightarrow> \<forall>r \<in> set rs. keeps_person f r \<Longrightarrow> events_ok (map f rs) es"
  unfolding events_ok_def keeps_person_def by (metis (no_types, lifting) image_eqI list.set_map order_trans)

lemma map_keeps_held:
  "\<exists>r \<in> set rs. same_person u r \<Longrightarrow> \<forall>r \<in> set rs. keeps_person f r \<Longrightarrow> \<exists>r \<in> set (map f rs). same_person u r"
  by (fastforce simp: same_person_def keeps_person_def)

lemma update_user_keeps:
  assumes "ar_inv s" and "\<And>r. r \<in> set (ad_Users (ar_DB s)) \<Longrightarrow> uw_ID r = i \<Longrightarrow> keeps_person f r"
    and "ad_Users db = ad_Users (update_user i f (ar_DB s))" and "ad_Events db = ad_Events (ar_DB s)"
  shows "ar_inv (s\<lparr>ar_DB := db\<rparr>)"
proof -
  let ?f = "\<lambda>r. if uw_ID r = i then f r else r"
  have k: "\<forall>r \<in> set (ad_Users (ar_DB s)). keeps_person ?f r" using assms(2) by (simp add: keeps_person_def)
  have u: "ad_Users db = map ?f (ad_Users (ar_DB s))" using assms(3) by (simp add: update_user_def)
  show ?thesis
    using assms(1,4) map_keeps_users_ok [OF _ k] map_keeps_events_ok [OF _ k] map_keeps_held [OF _ k]
    by (simp add: ar_inv_def u del: set_map)
qed

lemma domainToRow_person: "domainToRow U u = Inr r \<Longrightarrow>
   same_person u r \<and> uw_StatusVersion r = us_StatusVersion u \<and> uw_Status r = us_Status u \<and> uw_DeletedAt r = us_DeletedAt u"
  by (auto simp: domainToRow_def and_then_Inr same_person_def)

lemma rowToDomain_person: "rowToDomain U r = Inr u \<Longrightarrow>
   same_person u r \<and> us_Status u = uw_Status r \<and> us_DeletedAt u = uw_DeletedAt r \<and> us_StatusVersion u = uw_StatusVersion r"
  by (auto simp: rowToDomain_def and_then_Inr same_person_def)

lemma ByID_user_row:
  "ByID_user U i db = Inr u \<Longrightarrow> \<exists>r \<in> set (ad_Users db). uw_ID r = i \<and> same_person u r \<and> us_Status u = uw_Status r \<and> us_DeletedAt u = uw_DeletedAt r"
  by (auto simp: ByID_user_def one_user_def find_Some_iff dest!: rowToDomain_person split: option.splits)

lemma Register_checks_user:
  "Register_checks U newID now inp db0 = Inr (Insert u ph key) \<Longrightarrow>
   us_ID u = newID \<and> us_StatusVersion u = 1 \<and> us_Status u = StatusActive \<and> us_DeletedAt u = None"
  by (auto simp: Register_checks_def and_then_Inr split: option.splits if_splits)

lemma CreateUser_Inr:
  "CreateUser r db = Inr db' \<longleftrightarrow> db' = db\<lparr>ad_Users := ad_Users db @ [r]\<rparr> \<and> uw_ID r \<notin> uw_ID ` set (ad_Users db) \<and>
     uw_UsernameHash r \<notin> uw_UsernameHash ` set (ad_Users db) \<and> uw_EmailHash r \<notin> uw_EmailHash ` set (ad_Users db)"
  by (auto simp: CreateUser_def)

definition user_event :: "draws \<Rightarrow> user \<Rightarrow> string \<Rightarrow> nat \<Rightarrow> outbox_row list \<Rightarrow> outbox_row list" where
  "user_event w u ev v es = ad_Events (enqueueUserEvent (dw_Event w) (dw_Now w) u ev v
     \<lparr>ad_Users = [], ad_Credentials = [], ad_Sessions = [], ad_Keys = [], ad_Events = es, ad_Roles = [], ad_Tenancy = undefined\<rparr>)"

lemma enqueueUserEvent_simps [simp]:
  "ad_Users (enqueueUserEvent x now u ev v db) = ad_Users db" "ad_Keys (enqueueUserEvent x now u ev v db) = ad_Keys db"
  "ad_Events (enqueueUserEvent (dw_Event w) (dw_Now w) u ev v db) = user_event w u ev v (ad_Events db)"
  by (simp_all add: enqueueUserEvent_def user_event_def)

lemma user_event_cases:
  "user_event w u ev v es = es \<and> IdempotencyKey_event (us_ID u) v \<in> ox_IdempotencyKey ` set es \<or>
   (\<exists>e. user_event w u ev v es = es @ [e] \<and> carries (us_ID u) v e \<and> ox_EventType e = ev \<and> ox_Status e = OxPending \<and>
        ox_Payload e = MarshalPayload \<lparr>up_UserID = us_ID u, up_Status = status_text (us_Status u), up_StatusVersion = int v, up_Username = us_Username u\<rparr>)"
proof (cases "list_ex (\<lambda>r. ox_IdempotencyKey r = IdempotencyKey_event (us_ID u) v) es")
  case True
  then show ?thesis by (force simp: user_event_def enqueueUserEvent_def EnqueueTx_def list_ex_iff)
next
  case False
  then show ?thesis by (auto simp: user_event_def enqueueUserEvent_def EnqueueTx_def carries_def)
qed

lemma user_event_ok:
  assumes "events_ok rs es" and "r \<in> set rs" and "uw_ID r = us_ID u" and "v \<le> uw_StatusVersion r"
  shows "events_ok rs (user_event w u ev v es)"
proof -
  consider "user_event w u ev v es = es" | e where "user_event w u ev v es = es @ [e]" "carries (us_ID u) v e"
    using user_event_cases [of w u ev v es] by blast
  then show ?thesis
  proof cases
    case (2 e)
    then have "carries (uw_ID r) v e" using assms(3) by simp
    then show ?thesis using 2(1) assms(1,2,4) by (auto simp: events_ok_def)
  qed (use assms(1) in simp)
qed

lemma Create_user_Inr:
  assumes "Create_user U w u ph key db = Inr db'" and "us_StatusVersion u = 1"
  shows "\<exists>row. same_person u row \<and> uw_StatusVersion row = 1 \<and> ad_Users db' = ad_Users db @ [row] \<and>
    uw_ID row \<notin> uw_ID ` set (ad_Users db) \<and> uw_UsernameHash row \<notin> uw_UsernameHash ` set (ad_Users db) \<and>
    uw_EmailHash row \<notin> uw_EmailHash ` set (ad_Users db) \<and>
    ad_Events db' = user_event w u EventUserCreated 1 (ad_Events db) \<and>
    ad_Keys db' = (if key = [] then ad_Keys db else ad_Keys db @ [(key, us_ID u)])"
proof -
  obtain row db1 db2 tn slug where d: "domainToRow U u = Inr row" "CreateUser row db = Inr db1"
      "(if ph \<noteq> [] then InsertCredentialsTx (us_ID u) ph db1 else Inr db1) = Inr db2"
      "(let db = enqueueUserEvent (dw_Event w) (dw_Now w) u EventUserCreated 1 (db2\<lparr>ad_Tenancy := tn\<rparr>) in
        if key \<noteq> [] then RecordTx key (us_ID u) db else Inr db) = Inr db'"
    using assms by (auto simp: Create_user_def and_then_Inr)
  have "ad_Users db2 = ad_Users db1 \<and> ad_Events db2 = ad_Events db1 \<and> ad_Keys db2 = ad_Keys db1"
    using d(3) by (auto simp: InsertCredentialsTx_def split: if_splits)
  moreover have "ad_Users db' = ad_Users db2 \<and> ad_Events db' = user_event w u EventUserCreated 1 (ad_Events db2) \<and>
      ad_Keys db' = (if key = [] then ad_Keys db2 else ad_Keys db2 @ [(key, us_ID u)])"
    using d(4) by (auto simp: Let_def RecordTx_def split: if_splits)
  ultimately show ?thesis using d(2) domainToRow_person [OF d(1)] assms(2)
    by (intro exI [of _ row]) (simp add: CreateUser_Inr)
qed

lemma created_keeps:
  assumes inv: "ar_inv s" and new: "Create_user U w u ph key (ar_DB s) = Inr db" and one: "us_StatusVersion u = 1"
    and name: "CHR '':'' \<notin> set (us_ID u)"
  shows "ar_inv (s\<lparr>ar_DB := db\<rparr>)"
proof -
  obtain row where row: "same_person u row" "uw_StatusVersion row = 1" "ad_Users db = ad_Users (ar_DB s) @ [row]"
      "uw_ID row \<notin> uw_ID ` set (ad_Users (ar_DB s))" "uw_UsernameHash row \<notin> uw_UsernameHash ` set (ad_Users (ar_DB s))"
      "uw_EmailHash row \<notin> uw_EmailHash ` set (ad_Users (ar_DB s))"
      "ad_Events db = user_event w u EventUserCreated 1 (ad_Events (ar_DB s))"
    using Create_user_Inr [OF new one] by blast
  have "events_ok (ad_Users db) (ad_Events (ar_DB s))" using inv row(3) by (fastforce simp: ar_inv_def events_ok_def)
  then have ev: "events_ok (ad_Users db) (ad_Events db)"
    unfolding row(7) by (rule user_event_ok [of _ _ row]) (use row(1-3) in \<open>simp_all add: same_person_def\<close>)
  have us: "users_ok (ad_Users db)"
    using inv row(1,3-6) name by (simp add: ar_inv_def users_ok_def same_person_def)
  show ?thesis using inv row(3) ev us by (auto simp: ar_inv_def)
qed

lemma published_effect:
  assumes "publishUserEvent w u ev db = Inr db'"
  shows "\<exists>r. find (\<lambda>r. uw_ID r = us_ID u) (ad_Users db) = Some r \<and>
    ad_Users db' = ad_Users (update_user (us_ID u) (\<lambda>r. r\<lparr>uw_StatusVersion := uw_StatusVersion r + 1, uw_UpdatedAt := dw_Now w\<rparr>) db) \<and>
    ad_Events db' = user_event w (u\<lparr>us_StatusVersion := uw_StatusVersion r + 1\<rparr>) ev (uw_StatusVersion r + 1) (ad_Events db)"
  using assms by (auto simp: publishUserEvent_def Let_def update_user_def split: option.splits)

lemma published_keeps:
  assumes inv: "ar_inv s" and pub: "publishUserEvent w u ev (ar_DB s) = Inr db"
  shows "ar_inv (s\<lparr>ar_DB := db\<rparr>)"
proof -
  let ?f = "\<lambda>r. r\<lparr>uw_StatusVersion := uw_StatusVersion r + 1, uw_UpdatedAt := dw_Now w\<rparr>"
  obtain r where r: "find (\<lambda>r. uw_ID r = us_ID u) (ad_Users (ar_DB s)) = Some r"
      "ad_Users db = ad_Users (update_user (us_ID u) ?f (ar_DB s))"
      "ad_Events db = user_event w (u\<lparr>us_StatusVersion := uw_StatusVersion r + 1\<rparr>) ev (uw_StatusVersion r + 1) (ad_Events (ar_DB s))"
    using published_effect [OF pub] by blast
  let ?mid = "update_user (us_ID u) ?f (ar_DB s)"
  have mid: "ar_inv (s\<lparr>ar_DB := ?mid\<rparr>)"
    by (rule update_user_keeps [OF inv, of "us_ID u" ?f]) (simp_all add: keeps_person_def update_user_def)
  have "?f r \<in> set (ad_Users db)" "uw_ID (?f r) = us_ID u" using r(1,2) by (auto simp: find_Some_iff update_user_def)
  then have "events_ok (ad_Users db) (ad_Events db)"
    unfolding r(3) using mid r(2) by (intro user_event_ok [of _ _ "?f r"]) (simp_all add: ar_inv_def update_user_def)
  then show ?thesis using mid r(2) by (simp add: ar_inv_def)
qed

interpretation ar: machine ar_start "account_step U" ar_inv for U
proof
  show "ar_inv s" if "ar_start s" for s using that by (simp add: ar_start_def ar_inv_def users_ok_def events_ok_def)
  show "ar_inv t" if inv: "ar_inv s" and step: "account_step U s t" for s t
    using step
  proof cases
    case (registered newID now inp db0 u ph key w db ans)
    note u = Register_checks_user [OF registered(2)]
    consider "db = ar_DB s" | "Create_user U w u ph key (ar_DB s) = Inr db"
      using registered(4) by (auto simp: Register_commit_def split: sum.splits option.splits if_splits)
    then show ?thesis
    proof cases
      case 2
      then show ?thesis using created_keeps [OF inv 2] u registered(1,3) by simp
    qed (use inv registered(1) in simp)
  next
    case (read i u)
    then show ?thesis using inv ByID_user_row [OF read(2)] by (auto simp: ar_inv_def)
  next
    case (profile_written u now phone name db)
    let ?u = "u\<lparr>us_DisplayName := name, us_Phone := phone\<rparr>"
    obtain n where n: "domainToRow U ?u = Inr n" "db = update_user (us_ID u) (written_over now n) (ar_DB s)"
      using profile_written(3) unfolding Update_user_def and_then_Inr by auto
    obtain r0 where r0: "r0 \<in> set (ad_Users (ar_DB s))" "same_person u r0" using inv profile_written(2) by (auto simp: ar_inv_def)
    have "keeps_person (written_over now n) r" if "r \<in> set (ad_Users (ar_DB s))" "uw_ID r = us_ID u" for r
    proof -
      have "r = r0" using users_same [of "ad_Users (ar_DB s)" r r0] inv r0 that by (auto simp: ar_inv_def same_person_def)
      then show ?thesis using r0(2) domainToRow_person [OF n(1)] by (simp add: keeps_person_def written_over_def same_person_def)
    qed
    from update_user_keeps [OF inv this, of "us_ID u" db] show ?thesis using n(2) profile_written(1) by (simp add: update_user_def)
  next
    case (preferences_written now i prefs merge db)
    then show ?thesis using inv
      by (auto simp: UpdatePreferences_repo_def keeps_person_def update_user_def split: if_splits
          intro!: update_user_keeps [of s i "\<lambda>r. r\<lparr>uw_Preferences := (if merge then merge_doc (uw_Preferences r) prefs else prefs), uw_UpdatedAt := now\<rparr>"])
  next
    case (deleted now i db)
    then show ?thesis using inv
      by (auto simp: SoftDeleteUser_def keeps_person_def update_user_def split: if_splits
          intro!: update_user_keeps [of s i "\<lambda>r. r\<lparr>uw_Status := StatusDeleted, uw_DeletedAt := Some now, uw_UpdatedAt := now\<rparr>"])
  next
    case (published w u ev db)
    then show ?thesis using published_keeps [OF inv published(2)] by simp
  next
    case (elsewhere db)
    then show ?thesis using inv by (simp add: ar_inv_def)
  qed
qed

lemma published_appends:
  assumes inv: "ar_inv s" and pub: "publishUserEvent w u ev (ar_DB s) = Inr db"
  shows "\<exists>e v. ad_Events db = ad_Events (ar_DB s) @ [e] \<and> carries (us_ID u) v e \<and> ox_EventType e = ev \<and> ox_Status e = OxPending \<and>
    ox_Payload e = MarshalPayload \<lparr>up_UserID = us_ID u, up_Status = status_text (us_Status u), up_StatusVersion = int v, up_Username = us_Username u\<rparr> \<and>
    (\<forall>e' v'. e' \<in> set (ad_Events (ar_DB s)) \<longrightarrow> carries (us_ID u) v' e' \<longrightarrow> v' < v)"
proof -
  obtain r where r: "find (\<lambda>r. uw_ID r = us_ID u) (ad_Users (ar_DB s)) = Some r"
      "ad_Events db = user_event w (u\<lparr>us_StatusVersion := uw_StatusVersion r + 1\<rparr>) ev (uw_StatusVersion r + 1) (ad_Events (ar_DB s))"
    using published_effect [OF pub] by blast
  then have mem: "r \<in> set (ad_Users (ar_DB s))" "uw_ID r = us_ID u" by (auto simp: find_Some_iff)
  have older: "v' \<le> uw_StatusVersion r"
    if "e' \<in> set (ad_Events (ar_DB s))" "ox_IdempotencyKey e' = IdempotencyKey_event (us_ID u) v'" for e' v'
  proof -
    obtain q x where q: "q \<in> set (ad_Users (ar_DB s))" "x \<le> uw_StatusVersion q" "carries (uw_ID q) x e'"
      using inv \<open>e' \<in> _\<close> by (auto simp: ar_inv_def events_ok_def)
    have plain: "CHR '':'' \<notin> set (uw_ID q)" "CHR '':'' \<notin> set (us_ID u)"
      using inv q(1) mem by (auto simp: ar_inv_def users_ok_def)
    have "IdempotencyKey_event (uw_ID q) x = IdempotencyKey_event (us_ID u) v'" using q(3) that(2) by (simp add: carries_def)
    then have same: "uw_ID q = us_ID u" "x = v'" using event_key_inject [OF plain] by simp_all
    have "q = r" using users_same [of "ad_Users (ar_DB s)" q r] inv q(1) mem same(1) by (simp add: ar_inv_def)
    then show ?thesis using q(2) same(2) by simp
  qed
  have "IdempotencyKey_event (us_ID u) (uw_StatusVersion r + 1) \<notin> ox_IdempotencyKey ` set (ad_Events (ar_DB s))"
  proof
    assume "IdempotencyKey_event (us_ID u) (uw_StatusVersion r + 1) \<in> ox_IdempotencyKey ` set (ad_Events (ar_DB s))"
    then obtain e' where "e' \<in> set (ad_Events (ar_DB s))" "ox_IdempotencyKey e' = IdempotencyKey_event (us_ID u) (uw_StatusVersion r + 1)"
      by auto
    from older [OF this] show False by simp
  qed
  then obtain e where "ad_Events db = ad_Events (ar_DB s) @ [e]" "carries (us_ID u) (uw_StatusVersion r + 1) e"
      "ox_EventType e = ev" "ox_Status e = OxPending"
      "ox_Payload e = MarshalPayload \<lparr>up_UserID = us_ID u, up_Status = status_text (us_Status u),
         up_StatusVersion = int (uw_StatusVersion r + 1), up_Username = us_Username u\<rparr>"
    using user_event_cases [of w "u\<lparr>us_StatusVersion := uw_StatusVersion r + 1\<rparr>" ev "uw_StatusVersion r + 1" "ad_Events (ar_DB s)"] r(2) by auto
  then show ?thesis using older by (intro exI [of _ e] exI [of _ "uw_StatusVersion r + 1"]) (auto simp: carries_def less_Suc_eq_le)
qed

text \<open>
  C37: No event of a user is lost to its idempotency key, and the versions downstream orders them by
  only grow: however registrations, updates and deletions interleave, publishing appends one pending
  event to the outbox, with the next version of its user, above that of every event the user has.
\<close>

theorem every_user_event_is_kept:
  assumes "reachable_from ar_start (account_step U) s" and "publishUserEvent w u ev (ar_DB s) = Inr db"
  shows "\<exists>e v. ad_Events db = ad_Events (ar_DB s) @ [e] \<and> carries (us_ID u) v e \<and> ox_EventType e = ev \<and> ox_Status e = OxPending \<and>
    (\<forall>e' v'. e' \<in> set (ad_Events (ar_DB s)) \<longrightarrow> carries (us_ID u) v' e' \<longrightarrow> v' < v)"
  using published_appends [OF ar.reachable_inv [OF assms(1)] assms(2)] by blast

section \<open>A copy read too early\<close>

lemma update_user_row: "r \<in> set (ad_Users db) \<Longrightarrow> uw_ID r = i \<Longrightarrow> f r \<in> set (ad_Users (update_user i f db))"
  by (auto simp: update_user_def)

lemma find_user: "users_ok rs \<Longrightarrow> r \<in> set rs \<Longrightarrow> find (\<lambda>x. uw_ID x = uw_ID r) rs = Some r"
proof (cases "find (\<lambda>x. uw_ID x = uw_ID r) rs")
  case (Some q)
  then have "q \<in> set rs" "uw_ID q = uw_ID r" using find_SomeD [OF Some] by simp_all
  moreover assume "users_ok rs" "r \<in> set rs"
  ultimately show ?thesis using users_same [of rs q r] Some by simp
qed (auto simp: find_None_iff)

lemma find_live_email:
  assumes "users_ok rs" and "r \<in> set rs" and "uw_Status r \<noteq> StatusDeleted"
  shows "find (\<lambda>x. uw_EmailHash x = uw_EmailHash r \<and> uw_Status x \<noteq> StatusDeleted) rs = Some r"
proof (cases "find (\<lambda>x. uw_EmailHash x = uw_EmailHash r \<and> uw_Status x \<noteq> StatusDeleted) rs")
  case (Some q)
  then have "q \<in> set rs" "uw_EmailHash q = uw_EmailHash r" using find_SomeD [OF Some] by simp_all
  moreover have "inj_on uw_EmailHash (set rs)" using assms(1) by (simp add: users_ok_def distinct_map)
  ultimately have "q = r" using assms(2) by (simp add: inj_on_def)
  then show ?thesis using Some by simp
qed (use assms in \<open>auto simp: find_None_iff\<close>)

lemma Delete_user_steps:
  assumes "Delete_user U w ctx i db = (db', None)"
  obtains u d1 where "SoftDeleteUser (dw_Now w) i db = Inr d1"
    "publishUserEvent w u EventUserDeleted (RevokeAllForUser_sessions (dw_Now w) i d1) = Inr db'"
    "us_ID u = i" "us_Status u = StatusDeleted"
proof -
  obtain u where u: "ByID_user U i db = Inr u" "SoftDelete_user U w i db = (db', None)"
    using assms by (auto simp: Delete_user_def and_then_def split: sum.splits if_splits)
  then obtain d1 where "SoftDeleteUser (dw_Now w) i db = Inr d1"
      "publishUserEvent w (u\<lparr>us_Status := StatusDeleted, us_DeletedAt := Some (dw_Now w)\<rparr>) EventUserDeleted
         (RevokeAllForUser_sessions (dw_Now w) i d1) = Inr db'"
    by (auto simp: SoftDelete_user_def Let_def split: sum.splits)
  moreover have "us_ID u = i" using ByID_user_row [OF u(1)] by (auto simp: same_person_def)
  ultimately show ?thesis using that [of d1 "u\<lparr>us_Status := StatusDeleted, us_DeletedAt := Some (dw_Now w)\<rparr>"] by simp
qed

lemma published_row:
  assumes "publishUserEvent w u ev db = Inr db'" and "r \<in> set (ad_Users db)" and "uw_ID r = us_ID u"
  shows "\<exists>r' \<in> set (ad_Users db'). uw_ID r' = uw_ID r \<and> uw_Status r' = uw_Status r \<and> uw_EmailHash r' = uw_EmailHash r"
proof -
  let ?f = "\<lambda>r. r\<lparr>uw_StatusVersion := uw_StatusVersion r + 1, uw_UpdatedAt := dw_Now w\<rparr>"
  have "ad_Users db' = ad_Users (update_user (us_ID u) ?f db)" using published_effect [OF assms(1)] by blast
  then have "?f r \<in> set (ad_Users db')" using update_user_row [OF assms(2,3), of ?f] by simp
  then show ?thesis by (rule bexI [rotated]) simp
qed

lemma UpdateProfile_reads_copy:
  assumes "UpdateProfile_reads U ctx i inp db = Inr u"
  obtains u0 where "ByID_user U i db = Inr u0" "us_Status u0 = StatusActive" "us_DeletedAt u0 = None"
    "u = u0\<lparr>us_DisplayName := us_DisplayName u, us_Phone := us_Phone u\<rparr>"
proof -
  obtain u0 where u0: "ByID_user U i db = Inr u0" "guardMutable u0 = None"
      "u = u0\<lparr>us_DisplayName := (case pi_DisplayName inp of None \<Rightarrow> us_DisplayName u0 | Some s \<Rightarrow> s),
              us_Phone := (case pi_Phone inp of None \<Rightarrow> us_Phone u0 | Some s \<Rightarrow> s)\<rparr>"
    using assms unfolding UpdateProfile_reads_def by (auto simp: and_then_Inr refuse_if_def split: option.splits)
  have "us_Status u0 = StatusActive" "us_DeletedAt u0 = None"
    using u0(2) by (auto simp: guardMutable_def gone_def split: if_splits) (metis user_status.exhaust)
  then show ?thesis using that [OF u0(1)] u0(3) by simp
qed

lemma deletion_steps:
  assumes "reachable_from ar_start (account_step U) s" and "Delete_user U w ctx i (ar_DB s) = (db1, None)"
    and "r \<in> set (ad_Users (ar_DB s))" and "uw_ID r = i"
  shows "reachable_from ar_start (account_step U) (s\<lparr>ar_DB := db1\<rparr>)"
    and "\<exists>e v. ad_Events db1 = ad_Events (ar_DB s) @ [e] \<and> carries i v e \<and> ox_EventType e = EventUserDeleted"
    and "\<exists>r' \<in> set (ad_Users db1). uw_ID r' = i \<and> uw_Status r' = StatusDeleted"
proof -
  let ?now = "dw_Now w"
  obtain ud d1 where d: "SoftDeleteUser ?now i (ar_DB s) = Inr d1"
      "publishUserEvent w ud EventUserDeleted (RevokeAllForUser_sessions ?now i d1) = Inr db1" "us_ID ud = i"
    by (rule Delete_user_steps [OF assms(2)])
  let ?d2 = "RevokeAllForUser_sessions ?now i d1"
  have s1: "reachable_from ar_start (account_step U) (s\<lparr>ar_DB := d1\<rparr>)"
    by (rule step_reachable [OF assms(1) account_step.deleted [OF d(1)]])
  have same: "ad_Users ?d2 = ad_Users d1" "ad_Events ?d2 = ad_Events d1" by (simp_all add: RevokeAllForUser_sessions_def)
  have s2: "reachable_from ar_start (account_step U) (s\<lparr>ar_DB := ?d2\<rparr>)"
    using step_reachable [OF s1 account_step.elsewhere [of ?d2 "s\<lparr>ar_DB := d1\<rparr>" U]] same by simp
  have p: "publishUserEvent w ud EventUserDeleted (ar_DB (s\<lparr>ar_DB := ?d2\<rparr>)) = Inr db1" using d(2) by simp
  from step_reachable [OF s2 account_step.published [OF p]]
  show "reachable_from ar_start (account_step U) (s\<lparr>ar_DB := db1\<rparr>)" by simp
  have d1: "d1 = update_user i (\<lambda>r. r\<lparr>uw_Status := StatusDeleted, uw_DeletedAt := Some ?now, uw_UpdatedAt := ?now\<rparr>) (ar_DB s)"
    using d(1) by (auto simp: SoftDeleteUser_def split: if_splits)
  then have ev: "ad_Events ?d2 = ad_Events (ar_DB s)" unfolding same(2) by (simp add: update_user_def)
  show "\<exists>e v. ad_Events db1 = ad_Events (ar_DB s) @ [e] \<and> carries i v e \<and> ox_EventType e = EventUserDeleted"
    using published_appends [OF ar.reachable_inv [OF s2] p] ev d(3) by auto
  let ?r1 = "r\<lparr>uw_Status := StatusDeleted, uw_DeletedAt := Some ?now, uw_UpdatedAt := ?now\<rparr>"
  have r1: "?r1 \<in> set (ad_Users ?d2)"
    using update_user_row [OF assms(3,4), of "\<lambda>r. r\<lparr>uw_Status := StatusDeleted, uw_DeletedAt := Some ?now, uw_UpdatedAt := ?now\<rparr>"]
    unfolding same(1) unfolding d1 by simp
  have "uw_ID ?r1 = us_ID ud" using assms(4) d(3) by simp
  from published_row [OF d(2) r1 this] show "\<exists>r' \<in> set (ad_Users db1). uw_ID r' = i \<and> uw_Status r' = StatusDeleted"
    using assms(4) by auto
qed

text \<open>What a held copy writes back over a row, whatever became of the row.\<close>

lemma written_back:
  assumes "reachable_from ar_start (account_step U) s" and "u0 \<in> set (ar_Held s)"
    and active: "us_Status u0 = StatusActive" "us_DeletedAt u0 = None"
    and copy: "u = u0\<lparr>us_DisplayName := us_DisplayName u, us_Phone := us_Phone u\<rparr>"
    and r: "r \<in> set (ad_Users (ar_DB s))" "uw_ID r = us_ID u0"
    and writes: "UpdateProfile_writes U w u (ar_DB s) = (db, Inr dto)"
  shows "UserStatusByID (us_ID u0) db = Some StatusActive \<and> UserIDByEmailLookup (us_EmailHash u) db = Some (us_ID u0) \<and>
    (\<exists>e v name. ad_Events db = ad_Events (ar_DB s) @ [e] \<and> carries (us_ID u0) v e \<and>
       ox_Payload e = MarshalPayload \<lparr>up_UserID = us_ID u0, up_Status = ''active'', up_StatusVersion = int v, up_Username = name\<rparr> \<and>
       (\<forall>e' v'. e' \<in> set (ad_Events (ar_DB s)) \<longrightarrow> carries (us_ID u0) v' e' \<longrightarrow> v' < v))"
proof -
  have u: "us_ID u = us_ID u0" "us_Status u = StatusActive" "us_DeletedAt u = None"
    using active arg_cong [OF copy, of us_ID] arg_cong [OF copy, of us_Status] arg_cong [OF copy, of us_DeletedAt] by simp_all
  obtain n d where n: "domainToRow U u = Inr n" "d = update_user (us_ID u0) (written_over (dw_Now w) n) (ar_DB s)"
      and pub: "publishUserEvent w u EventUserUpdated d = Inr db"
    using writes u by (auto simp: UpdateProfile_writes_def Update_user_def and_then_def split: sum.splits)
  have "Update_user U (dw_Now w) u (ar_DB s) = Inr d" using n u by (simp add: Update_user_def)
  then have "Update_user U (dw_Now w) (u0\<lparr>us_DisplayName := us_DisplayName u, us_Phone := us_Phone u\<rparr>) (ar_DB s) = Inr d"
    unfolding copy [symmetric] .
  from step_reachable [OF assms(1) account_step.profile_written [OF assms(2) this]]
  have inv: "ar_inv (s\<lparr>ar_DB := d\<rparr>)" by (rule ar.reachable_inv)
  have pub': "publishUserEvent w u EventUserUpdated (ar_DB (s\<lparr>ar_DB := d\<rparr>)) = Inr db" using pub by simp
  have ok: "users_ok (ad_Users db)" using published_keeps [OF inv pub'] by (simp add: ar_inv_def)
  have ev: "ad_Events d = ad_Events (ar_DB s)" by (simp add: n(2) update_user_def)
  have new: "written_over (dw_Now w) n r \<in> set (ad_Users d)" unfolding n(2) by (rule update_user_row [OF r])
  have w: "uw_ID (written_over (dw_Now w) n r) = us_ID u" "uw_Status (written_over (dw_Now w) n r) = StatusActive"
      "uw_EmailHash (written_over (dw_Now w) n r) = us_EmailHash u"
    using domainToRow_person [OF n(1)] u r(2) by (simp_all add: written_over_def same_person_def)
  obtain q where q: "q \<in> set (ad_Users db)" "uw_ID q = us_ID u0" "uw_Status q = StatusActive" "uw_EmailHash q = us_EmailHash u"
    using published_row [OF pub new w(1)] w u(1) by auto
  have "UserStatusByID (us_ID u0) db = Some StatusActive" using find_user [OF ok q(1)] q by (simp add: UserStatusByID_def)
  moreover have "UserIDByEmailLookup (us_EmailHash u) db = Some (us_ID u0)"
    using find_live_email [OF ok q(1)] q by (simp add: UserIDByEmailLookup_def)
  ultimately show ?thesis using published_appends [OF inv pub'] u ev by (auto simp: status_text_def)
qed

text \<open>
  C0: A profile update that read the account before its deletion revives it.  The update writes
  every column of its copy, status and deletion time included: after a deletion that was complete,
  the account is active again, a login finds it by its e-mail, and the last event downstream is told,
  above the deletion's, says active.
\<close>

theorem profile_update_revives_a_deleted_account:
  assumes "reachable_from ar_start (account_step U) s"
    and "UpdateProfile_reads U ctx i inp (ar_DB s) = Inr u"
    and "Delete_user U w1 ctx' i (ar_DB s) = (db1, None)"
    and "UpdateProfile_writes U w2 u db1 = (db2, Inr dto)"
  shows "UserStatusByID i db1 = Some StatusDeleted \<and> UserStatusByID i db2 = Some StatusActive \<and>
    UserIDByEmailLookup (us_EmailHash u) db2 = Some i \<and>
    (\<exists>e1 e2 v1 v2 name. ad_Events db2 = ad_Events (ar_DB s) @ [e1, e2] \<and>
       carries i v1 e1 \<and> ox_EventType e1 = EventUserDeleted \<and> carries i v2 e2 \<and> v1 < v2 \<and>
       ox_Payload e2 = MarshalPayload \<lparr>up_UserID = i, up_Status = ''active'', up_StatusVersion = int v2, up_Username = name\<rparr>)"
proof -
  obtain u0 where u0: "ByID_user U i (ar_DB s) = Inr u0" "us_Status u0 = StatusActive" "us_DeletedAt u0 = None"
      "u = u0\<lparr>us_DisplayName := us_DisplayName u, us_Phone := us_Phone u\<rparr>"
    by (rule UpdateProfile_reads_copy [OF assms(2)])
  obtain r where r: "r \<in> set (ad_Users (ar_DB s))" "uw_ID r = i" "same_person u0 r" using ByID_user_row [OF u0(1)] by blast
  have ids: "us_ID u0 = i" using r(2,3) by (simp add: same_person_def)
  let ?s = "s\<lparr>ar_Held := u0 # ar_Held s\<rparr>"
  have s0: "reachable_from ar_start (account_step U) ?s" by (rule step_reachable [OF assms(1) account_step.read [OF u0(1)]])
  have del: "Delete_user U w1 ctx' i (ar_DB ?s) = (db1, None)" using assms(3) by simp
  have s1: "reachable_from ar_start (account_step U) (?s\<lparr>ar_DB := db1\<rparr>)"
    by (rule deletion_steps(1) [OF s0 del]) (use r in simp_all)
  obtain e1 v1 where e1: "ad_Events db1 = ad_Events (ar_DB s) @ [e1]" "carries i v1 e1" "ox_EventType e1 = EventUserDeleted"
    using deletion_steps(2) [OF assms(1,3) r(1,2)] by blast
  obtain r1 where r1: "r1 \<in> set (ad_Users db1)" "uw_ID r1 = i" "uw_Status r1 = StatusDeleted"
    using deletion_steps(3) [OF assms(1,3) r(1,2)] by blast
  have "users_ok (ad_Users db1)" using ar.reachable_inv [OF s1] by (simp add: ar_inv_def)
  then have "UserStatusByID i db1 = Some StatusDeleted" using find_user [OF _ r1(1)] r1 by (simp add: UserStatusByID_def)
  moreover have writes: "UpdateProfile_writes U w2 u (ar_DB (?s\<lparr>ar_DB := db1\<rparr>)) = (db2, Inr dto)" using assms(4) by simp
  moreover obtain e2 v2 name where "UserStatusByID i db2 = Some StatusActive" "UserIDByEmailLookup (us_EmailHash u) db2 = Some i"
      "ad_Events db2 = ad_Events db1 @ [e2]" "carries i v2 e2"
      "ox_Payload e2 = MarshalPayload \<lparr>up_UserID = i, up_Status = ''active'', up_StatusVersion = int v2, up_Username = name\<rparr>"
      "\<forall>e' v'. e' \<in> set (ad_Events db1) \<longrightarrow> carries i v' e' \<longrightarrow> v' < v2"
    using written_back [OF s1 _ u0(2-4) _ _ writes, of r1] r1 ids by auto
  ultimately show ?thesis using e1 by (intro conjI exI [of _ e1] exI [of _ e2] exI [of _ v1] exI [of _ v2] exI [of _ name]) simp_all
qed

section \<open>The promises at a concrete account\<close>

definition open_uenv :: uenv where
  "open_uenv = \<lparr>ue_T = \<lparr>te_allow = \<lambda>_ _. None, te_hash = \<lambda>s. s, te_index = Inr, te_encrypt = \<lambda>s. Inr (s, []),
     te_decrypt = \<lambda>(s, _). Inr s, te_email = Inr, te_validEmail = \<lambda>_. True\<rparr>, ue_HashPassword = Inr, ue_JsonSize = \<lambda>_. 0\<rparr>"

definition no_accounts :: account_db where
  "no_accounts = \<lparr>ad_Users = [], ad_Credentials = [], ad_Sessions = [], ad_Keys = [], ad_Events = [], ad_Roles = [],
     ad_Tenancy = \<lparr>tenants = [], memberships = [], invites = [], accounts = [], refresh_tokens = [], plans = [], agent_credentials = []\<rparr>\<rparr>"

definition draw_at :: "nat \<Rightarrow> draws" where
  "draw_at n = \<lparr>dw_Event = ''e'' @ nat_str n, dw_Now = n, dw_Slugs = [(''t1'', ''T1'')]\<rparr>"

definition ann_input :: register_input where
  "ann_input = \<lparr>ri_Username = ''Ann'', ri_Email = ''A@b'', ri_Password = ''password1'', ri_IdempotencyKey = ''key-12345'',
     ri_DisplayName = [], ri_Phone = [], ri_Preferences = None\<rparr>"

definition ann :: user where
  "ann = \<lparr>us_ID = ''u1'', us_Username = ''ann'', us_Email = ''a@b'', us_DisplayName = [], us_Phone = [], us_Preferences = [],
     us_Status = StatusActive, us_StatusVersion = 1, us_UsernameHash = ''ann'', us_EmailHash = ''a@b'',
     us_CreatedAt = 0, us_UpdatedAt = 0, us_DeletedAt = None\<rparr>"

definition ann_db :: account_db where
  "ann_db = fst (Register_commit open_uenv (draw_at 0) (Insert ann ''password1'' ''key-12345'') no_accounts)"

lemma ann_name: "normalizeUsername ''Ann'' = Inr ''ann''" by code_simp
lemma ann_key: "NormalizeKey ''key-12345'' = Inr ''key-12345''" by code_simp
lemma ann_email: "normalizeEmail ''A@b'' = Inr ''a@b''" by code_simp
lemma ann_valid: "valid_register open_uenv ann_input" by code_simp

lemmas ann_forms = ann_name ann_key ann_email ann_valid

lemma ann_checks_of:
  assumes "ad_Users db = []" and "ad_Keys db = []"
  shows "Register_checks open_uenv i 0 ann_input db = Inr (Insert (ann\<lparr>us_ID := i\<rparr>) ''password1'' ''key-12345'')"
  using ann_forms assms
  by (simp add: Register_checks_def require_def ann_input_def UserIDByKey_def validatePreferences_def refuse_if_def open_uenv_def
      assertUnique_def taken_by_def ByEmailHash_def ByUsernameHash_def one_user_def ann_def)

lemma ann_checks: "Register_checks open_uenv ''u1'' 0 ann_input no_accounts = Inr (Insert ann ''password1'' ''key-12345'')"
  using ann_checks_of [of no_accounts "''u1''"] by (simp add: no_accounts_def ann_def)

lemma ann_reachable: "reachable_from ar_start (account_step open_uenv) \<lparr>ar_DB = ann_db, ar_Held = []\<rparr>"
proof -
  let ?s = "\<lparr>ar_DB = no_accounts, ar_Held = []\<rparr>"
  have start: "ar_start ?s" by (simp add: ar_start_def no_accounts_def)
  have commit: "Register_commit open_uenv (draw_at 0) (Insert ann ''password1'' ''key-12345'') (ar_DB ?s) =
      (ann_db, snd (Register_commit open_uenv (draw_at 0) (Insert ann ''password1'' ''key-12345'') no_accounts))"
    by (simp add: ann_db_def)
  from account_step.registered [OF ann_checks _ commit] have "account_step open_uenv ?s \<lparr>ar_DB = ann_db, ar_Held = []\<rparr>" by simp
  then show ?thesis using start_reachable [of ar_start ?s] start step_reachable by metis
qed

theorem every_user_event_is_kept_witness:
  "case publishUserEvent (draw_at 5) ann EventUserUpdated ann_db of
     Inl _ \<Rightarrow> False
   | Inr db \<Rightarrow> map ox_IdempotencyKey (ad_Events db) = [''u1:1'', ''u1:2''] \<and>
       (\<exists>e. ad_Events db = ad_Events ann_db @ [e] \<and> ox_EventType e = EventUserUpdated \<and> ox_Status e = OxPending)"
proof (cases "publishUserEvent (draw_at 5) ann EventUserUpdated ann_db")
  case (Inl e)
  have "case publishUserEvent (draw_at 5) ann EventUserUpdated ann_db of Inl _ \<Rightarrow> False | Inr _ \<Rightarrow> True" by code_simp
  then show ?thesis using Inl by simp
next
  case (Inr db)
  have "(case publishUserEvent (draw_at 5) ann EventUserUpdated ann_db of Inl _ \<Rightarrow> False
      | Inr db \<Rightarrow> map ox_IdempotencyKey (ad_Events db) = [''u1:1'', ''u1:2''])" by code_simp
  moreover have "publishUserEvent (draw_at 5) ann EventUserUpdated (ar_DB \<lparr>ar_DB = ann_db, ar_Held = []\<rparr>) = Inr db" using Inr by simp
  from every_user_event_is_kept [OF ann_reachable this]
  have "\<exists>e. ad_Events db = ad_Events ann_db @ [e] \<and> ox_EventType e = EventUserUpdated \<and> ox_Status e = OxPending" by auto
  ultimately show ?thesis using Inr by simp
qed

definition ann_renamed :: profile_input where "ann_renamed = \<lparr>pi_DisplayName = Some ''Ann B'', pi_Phone = None\<rparr>"

theorem profile_update_revives_a_deleted_account_witness:
  "\<exists>u db1 db2. UpdateProfile_reads open_uenv None ''u1'' ann_renamed ann_db = Inr u \<and>
     Delete_user open_uenv (draw_at 5) None ''u1'' ann_db = (db1, None) \<and> fst (UpdateProfile_writes open_uenv (draw_at 6) u db1) = db2 \<and>
     UserStatusByID ''u1'' db1 = Some StatusDeleted \<and> UserStatusByID ''u1'' db2 = Some StatusActive"
proof -
  let ?db = "ar_DB \<lparr>ar_DB = ann_db, ar_Held = []\<rparr>"
  define db1 where "db1 = fst (Delete_user open_uenv (draw_at 5) None ''u1'' ann_db)"
  have ok: "case UpdateProfile_reads open_uenv None ''u1'' ann_renamed ann_db of Inl _ \<Rightarrow> False
      | Inr u \<Rightarrow> \<not> isl (snd (UpdateProfile_writes open_uenv (draw_at 6) u (fst (Delete_user open_uenv (draw_at 5) None ''u1'' ann_db))))"
    by code_simp
  then obtain u where reads: "UpdateProfile_reads open_uenv None ''u1'' ann_renamed ?db = Inr u"
    by (cases "UpdateProfile_reads open_uenv None ''u1'' ann_renamed ann_db") auto
  then have "\<not> isl (snd (UpdateProfile_writes open_uenv (draw_at 6) u db1))" using ok by (simp add: db1_def)
  then obtain db2 dto where writes: "UpdateProfile_writes open_uenv (draw_at 6) u db1 = (db2, Inr dto)"
    by (cases "UpdateProfile_writes open_uenv (draw_at 6) u db1") (auto elim: sum.exhaust_sel simp: isl_def, metis sum.exhaust)
  have "snd (Delete_user open_uenv (draw_at 5) None ''u1'' ann_db) = None" by code_simp
  then have del: "Delete_user open_uenv (draw_at 5) None ''u1'' ?db = (db1, None)" by (simp add: db1_def prod_eq_iff)
  show ?thesis
    using profile_update_revives_a_deleted_account [OF ann_reachable reads del writes] reads del writes by auto
qed

end
