(* ===== verification/Session_Promises.thy ===== *)
theory Session_Promises
  imports Account_Runs
begin

text \<open>
  What registration and sessions promise: a token shows the account as it is when it is minted, a
  refresh token is used once when calls follow each other and twice when they race, a registration
  is replayed later and refused when it races, and the tables of accounts and sessions implement the
  view the tenants' model has of them.
\<close>

section \<open>What a token says\<close>

lemma issueTokens_ok:
  assumes "issueTokens A d i slug db = (db', Inr tr)"
  obtains role where "UserStatusByID i db = Some StatusActive" and "role_in i slug db = Inr role"
    and "jwt_sign (ae_JWT A) ''HS256'' (secret (ae_Signer A))
      (no_claims\<lparr>c_Roles := RolesForUser (sd_Now d) i db, c_TenantID := slug, c_TenantRole := role, c_Region := [], c_MFA := False,
        c_Subject := i, c_IssuedAt := int (sd_Now d), c_ExpiresAt := int (sd_Now d) + ttl (ae_Signer A)\<rparr>) = Some (tr_AccessToken tr)"
    and "tr_UserID tr = i" and "tr_TenantID tr = slug" and "tr_RefreshToken tr = sd_Refresh d"
    and "db' = StoreRefreshToken i (hashRefreshToken A (sd_Refresh d)) (sd_Now d + ae_RefreshTTL A) slug db"
  using assms
  by (auto simp: issueTokens_def IssueAccessToken_def signed_def split: option.splits sum.splits if_splits prod.splits)

lemma user_token_subject:
  assumes laws: "jwt_laws L" and i: "parse i = Some i"
    and sig: "jwt_sign L ''HS256'' (secret S)
      (no_claims\<lparr>c_Roles := roles, c_TenantID := slug, c_TenantRole := role, c_Region := [], c_MFA := False,
        c_Subject := i, c_IssuedAt := now, c_ExpiresAt := till\<rparr>) = Some t"
    and sub: "subjectFromBearer parse L S later (''Bearer '' @ t) = Some sub"
  shows "UserID sub = i \<and> Roles sub = roles \<and> TenantID sub = slug \<and> TenantRole sub = role \<and> \<not> IsAgent sub \<and>
    \<not> PublicDelivery sub"
proof -
  let ?c = "no_claims\<lparr>c_Roles := roles, c_TenantID := slug, c_TenantRole := role, c_Region := [], c_MFA := False,
        c_Subject := i, c_IssuedAt := now, c_ExpiresAt := till\<rparr>"
  have wire: "wire_ok ?c" by (simp add: wire_ok_def no_claims_def)
  have pw: "parseWith L later t k = (if secret S = k \<and> later < till then Some ?c else None)" for k
    using parseWith_signed(1) [OF laws sig wire] by simp
  have trim: "TrimSpace t = t" by (rule parseWith_signed(2) [OF laws sig wire])
  have plain: "\<not> c_Delivery ?c" "c_PreviewEntry ?c = []" "c_Kind ?c = []" by (simp_all add: no_claims_def)
  have "ParseAccessToken parse L S later t = Some ?c"
    using sub plain
    by (auto simp: subjectFromBearer_def HasPrefix_def trim ParseAccessToken_def pw validateAgentClaims_def split: if_splits option.splits)
  then show ?thesis using sub plain
    by (auto simp: subjectFromBearer_def HasPrefix_def trim subject_of_claims_def i IsAgent_def ActorKindAgent_def)
qed

text \<open>The tables the issuing reads are the same before a login's or a refresh's own writes.\<close>

definition same_people :: "account_db \<Rightarrow> account_db \<Rightarrow> bool" where
  "same_people db db0 \<longleftrightarrow> ad_Users db0 = ad_Users db \<and> ad_Roles db0 = ad_Roles db \<and> ad_Tenancy db0 = ad_Tenancy db"

lemma tenancy_of_tables:
  "MembershipRole i slug (tables_of db) = MembershipRole i slug (ad_Tenancy db)"
  "MembershipsForUser i (tables_of db) = MembershipsForUser i (ad_Tenancy db)"
proof -
  have same: "tenants (tables_of db) = tenants (ad_Tenancy db)" "memberships (tables_of db) = memberships (ad_Tenancy db)"
    by (simp_all add: tables_of_def)
  show "MembershipRole i slug (tables_of db) = MembershipRole i slug (ad_Tenancy db)"
    and "MembershipsForUser i (tables_of db) = MembershipsForUser i (ad_Tenancy db)"
    unfolding MembershipRole_def member_row_def MembershipsForUser_def same by (rule refl)+
qed

lemma same_people_reads:
  assumes "same_people db db0"
  shows "UserStatusByID i db0 = UserStatusByID i db" and "RolesForUser now i db0 = RolesForUser now i db"
    and "MembershipRole i slug (tables_of db0) = MembershipRole i slug (tables_of db)" and "role_in i slug db0 = role_in i slug db"
    and "memberships_of i db0 = memberships_of i db"
  using assms by (simp_all add: same_people_def UserStatusByID_def RolesForUser_def role_in_def memberships_of_def tenancy_of_tables)

lemma same_people_writes [simp]:
  "same_people db db" "same_people db (UpdateLastLogin now i db)" "same_people db (RevokeRefreshToken now h db)"
  "same_people db (StoreRefreshToken i h till slug db)"
  by (simp_all add: same_people_def UpdateLastLogin_def RevokeRefreshToken_def StoreRefreshToken_def)

lemma Login_issues:
  assumes "Login A d email password db = (db', trail, Inr tr)"
  shows "\<exists>i slug db0 tr0. issueTokens A d i slug db0 = (db', Inr tr0) \<and> same_people db db0 \<and>
    tr_AccessToken tr0 = tr_AccessToken tr \<and> tr_UserID tr0 = tr_UserID tr \<and> tr_TenantID tr0 = tr_TenantID tr"
proof -
  obtain i where i: "(case issueTokens A d i (default_slug (memberships_of i (UpdateLastLogin (sd_Now d) i db))) (UpdateLastLogin (sd_Now d) i db) of
      (db, Inl e) \<Rightarrow> (db, [failed_audit EventLogin (Some i) (if e = ErrSuspended then ''USER_SUSPENDED'' else ''INTERNAL_ERROR'')], Inl e)
    | (db1, Inr tr) \<Rightarrow> (db1, [ok_audit EventLogin (Some i)],
        Inr (tr\<lparr>tr_AvailableTenants := tenant_options (memberships_of i (UpdateLastLogin (sd_Now d) i db))\<rparr>))) = (db', trail, Inr tr)"
    using assms by (auto simp: Login_def Let_def split: if_splits sum.splits option.splits)
  then obtain tr0 where "issueTokens A d i (default_slug (memberships_of i (UpdateLastLogin (sd_Now d) i db))) (UpdateLastLogin (sd_Now d) i db)
      = (db', Inr tr0)" "tr = tr0\<lparr>tr_AvailableTenants := tenant_options (memberships_of i (UpdateLastLogin (sd_Now d) i db))\<rparr>"
    by (auto split: prod.splits sum.splits)
  then show ?thesis by (intro exI conjI) (assumption, simp_all)
qed

lemma Refresh_issues:
  assumes "Refresh_writes A d tok who db = (db', trail, Inr tr)"
  shows "issueTokens A d (fst who) (snd who) (RevokeRefreshToken (sd_Now d) (hashRefreshToken A tok) db) = (db', Inr tr)"
  using assms by (auto simp: Refresh_writes_def split: prod.splits sum.splits)

lemma SwitchTenant_issues:
  assumes "SwitchTenant A d i slug db = (db', trail, Inr tr)"
  shows "issueTokens A d i slug db = (db', Inr tr)"
  using assms by (auto simp: SwitchTenant_def Let_def split: prod.splits sum.splits if_splits)

text \<open>
  C14: A token shows the account as it is when the token is minted.  Whether it comes from a login, a
  refresh or a switch of tenant, the account it names is active then, it carries the platform roles
  the account has then, and it is for no tenant or for one the account is a member of then, with
  that membership's role; it is a person's and no agent's.
\<close>

theorem tokens_show_the_live_account:
  assumes "jwt_laws (ae_JWT A)" and "parse (tr_UserID tr) = Some (tr_UserID tr)"
    and "Login A d email password db = (db', trail, Inr tr) \<or> Refresh_writes A d tok who db = (db', trail, Inr tr) \<or>
         SwitchTenant A d i slug db = (db', trail, Inr tr)"
    and "subjectFromBearer parse (ae_JWT A) (ae_Signer A) later (''Bearer '' @ tr_AccessToken tr) = Some sub"
  shows "UserID sub = tr_UserID tr \<and> UserStatusByID (UserID sub) db = Some StatusActive \<and> \<not> IsAgent sub \<and>
    Roles sub = RolesForUser (sd_Now d) (UserID sub) db \<and> TenantID sub = tr_TenantID tr \<and>
    (TenantID sub = [] \<and> TenantRole sub = [] \<or>
     MembershipRole (UserID sub) (TenantID sub) (tables_of db) = Inr (TenantRole sub) \<and> ValidRole (TenantRole sub))"
proof -
  have "\<exists>i slug db0 tr0. issueTokens A d i slug db0 = (db', Inr tr0) \<and> same_people db db0 \<and>
      tr_AccessToken tr0 = tr_AccessToken tr \<and> tr_UserID tr0 = tr_UserID tr \<and> tr_TenantID tr0 = tr_TenantID tr"
    using assms(3)
  proof (elim disjE)
    assume "Login A d email password db = (db', trail, Inr tr)"
    then show ?thesis by (rule Login_issues)
  next
    assume "Refresh_writes A d tok who db = (db', trail, Inr tr)"
    from Refresh_issues [OF this] show ?thesis by (intro exI conjI) (assumption, simp_all)
  next
    assume "SwitchTenant A d i slug db = (db', trail, Inr tr)"
    from SwitchTenant_issues [OF this] show ?thesis by (intro exI conjI) (assumption, simp_all)
  qed
  then obtain j sl db0 tr0 where issue: "issueTokens A d j sl db0 = (db', Inr tr0)" and same: "same_people db db0"
    and tr: "tr_AccessToken tr0 = tr_AccessToken tr" "tr_UserID tr0 = tr_UserID tr" "tr_TenantID tr0 = tr_TenantID tr" by blast
  from issue obtain role where r: "UserStatusByID j db0 = Some StatusActive" "role_in j sl db0 = Inr role"
    "jwt_sign (ae_JWT A) ''HS256'' (secret (ae_Signer A))
      (no_claims\<lparr>c_Roles := RolesForUser (sd_Now d) j db0, c_TenantID := sl, c_TenantRole := role, c_Region := [], c_MFA := False,
        c_Subject := j, c_IssuedAt := int (sd_Now d), c_ExpiresAt := int (sd_Now d) + ttl (ae_Signer A)\<rparr>) = Some (tr_AccessToken tr0)"
    "tr_UserID tr0 = j" "tr_TenantID tr0 = sl" by (rule issueTokens_ok)
  have "UserID sub = j \<and> Roles sub = RolesForUser (sd_Now d) j db0 \<and> TenantID sub = sl \<and> TenantRole sub = role \<and> \<not> IsAgent sub"
    using user_token_subject [OF assms(1) _ r(3), of parse later sub] assms(2,4) r(4) tr by simp
  moreover have "sl = [] \<and> role = [] \<or> MembershipRole j sl (tables_of db) = Inr role \<and> ValidRole role"
    using r(2) same_people_reads(3) [OF same, of j sl] by (auto simp: role_in_def split: if_splits sum.splits)
  ultimately show ?thesis using r(1,4,5) tr same_people_reads(1,2) [OF same] by auto
qed

section \<open>Using a refresh token\<close>

lemma find_live_map:
  assumes "\<And>x. sn_TokenHash x = h \<Longrightarrow> f x = x" and "\<And>x. sn_TokenHash (f x) = sn_TokenHash x"
  shows "find (live_session now h) (map f xs) = find (live_session now h) xs"
proof (induction xs)
  case (Cons x xs)
  show ?case
  proof (cases "sn_TokenHash x = h")
    case True
    then show ?thesis using Cons assms(1) by simp
  next
    case False
    then show ?thesis using Cons assms(2) by (simp add: live_session_def)
  qed
qed simp

lemma FindValidRefresh_other:
  "h \<noteq> h' \<Longrightarrow> FindValidRefresh now h (RevokeRefreshToken t h' db) = FindValidRefresh now h db"
  "h \<noteq> h' \<Longrightarrow> FindValidRefresh now h (StoreRefreshToken i h' till slug db) = FindValidRefresh now h db"
proof -
  assume ne: "h \<noteq> h'"
  show "FindValidRefresh now h (RevokeRefreshToken t h' db) = FindValidRefresh now h db"
    unfolding FindValidRefresh_def RevokeRefreshToken_def using ne by (simp add: find_live_map)
  have "find (live_session now h) (xs @ [x]) = find (live_session now h) xs" if "sn_TokenHash x = h'" for xs x
    using ne that by (induction xs) (auto simp: live_session_def)
  then show "FindValidRefresh now h (StoreRefreshToken i h' till slug db) = FindValidRefresh now h db"
    by (simp add: FindValidRefresh_def StoreRefreshToken_def)
qed

lemma FindValidRefresh_stored:
  assumes "h \<notin> sn_TokenHash ` set (ad_Sessions db)" and "now < till"
  shows "FindValidRefresh now h (StoreRefreshToken i h till slug db) = Some (i, slug)"
proof -
  have "find (live_session now h) (xs @ [x]) = Some x" if "h \<notin> sn_TokenHash ` set xs" "live_session now h x" for xs x
    using that by (induction xs) (auto simp: live_session_def)
  then show ?thesis using assms by (simp add: FindValidRefresh_def StoreRefreshToken_def live_session_def)
qed

lemma FindValidRefresh_revoked: "FindValidRefresh now h (RevokeRefreshToken t h db) = None"
proof -
  have "find (live_session now h) (map (\<lambda>s. if sn_TokenHash s = h \<and> sn_RevokedAt s = None then s\<lparr>sn_RevokedAt := Some t\<rparr> else s) xs) = None" for xs
    by (induction xs) (auto simp: live_session_def)
  then show ?thesis by (simp add: FindValidRefresh_def RevokeRefreshToken_def)
qed

lemma hashes_kept [simp]: "sn_TokenHash ` set (ad_Sessions (RevokeRefreshToken t h db)) = sn_TokenHash ` set (ad_Sessions db)"
  "sn_TokenHash ` set (ad_Sessions (StoreRefreshToken i h till slug db)) = insert h (sn_TokenHash ` set (ad_Sessions db))"
proof -
  show "sn_TokenHash ` set (ad_Sessions (RevokeRefreshToken t h db)) = sn_TokenHash ` set (ad_Sessions db)"
  proof -
    have "map sn_TokenHash (ad_Sessions (RevokeRefreshToken t h db)) = map sn_TokenHash (ad_Sessions db)"
      by (simp add: RevokeRefreshToken_def)
    from arg_cong [OF this, of set] show ?thesis by simp
  qed
  show "sn_TokenHash ` set (ad_Sessions (StoreRefreshToken i h till slug db)) = insert h (sn_TokenHash ` set (ad_Sessions db))"
    by (simp add: StoreRefreshToken_def)
qed

lemma issueTokens_again:
  assumes "issueTokens A d i slug db = (db1, Inr tr)" and "same_people db db0"
    and "\<And>key c. jwt_sign (ae_JWT A) ''HS256'' key c \<noteq> None"
  shows "\<exists>tr'. issueTokens A d' i slug db0 =
    (StoreRefreshToken i (hashRefreshToken A (sd_Refresh d')) (sd_Now d' + ae_RefreshTTL A) slug db0, Inr tr') \<and>
    tr_RefreshToken tr' = sd_Refresh d'"
proof -
  obtain role where "UserStatusByID i db = Some StatusActive" "role_in i slug db = Inr role" by (rule issueTokens_ok [OF assms(1)])
  then have r: "UserStatusByID i db0 = Some StatusActive" "role_in i slug db0 = Inr role" using same_people_reads [OF assms(2)] by simp_all
  show ?thesis using assms(3) by (auto simp: issueTokens_def r IssueAccessToken_def signed_def split: option.splits)
qed

text \<open>
  C0: One refresh token starts two sessions.  The look at the row and its revocation are two
  statements, and nobody asks how many rows the revocation changed: when two calls have read the
  same token, both mint, and both new refresh tokens are good; a call that comes after is refused.
\<close>

theorem one_refresh_token_starts_two_sessions:
  assumes "Refresh_reads A now tok db = ([], Inr who)"
    and "Refresh_writes A d1 tok who db = (db1, trail1, Inr tr1)"
    and "\<And>key c. jwt_sign (ae_JWT A) ''HS256'' key c \<noteq> None"
    and "distinct [hashRefreshToken A tok, hashRefreshToken A (sd_Refresh d1), hashRefreshToken A (sd_Refresh d2)]"
    and "hashRefreshToken A (sd_Refresh d1) \<notin> sn_TokenHash ` set (ad_Sessions db)"
    and "hashRefreshToken A (sd_Refresh d2) \<notin> sn_TokenHash ` set (ad_Sessions db)"
    and "0 < ae_RefreshTTL A" and "sd_Now d2 < sd_Now d1 + ae_RefreshTTL A"
  shows "(\<exists>db2 trail2 tr2. Refresh_writes A d2 tok who db1 = (db2, trail2, Inr tr2) \<and>
      FindValidRefresh (sd_Now d2) (hashRefreshToken A (tr_RefreshToken tr1)) db2 = Some who \<and>
      FindValidRefresh (sd_Now d2) (hashRefreshToken A (tr_RefreshToken tr2)) db2 = Some who) \<and>
    snd (snd (Refresh A d2 tok db1)) = Inl ErrRefreshRevoked"
proof -
  obtain i slug where who: "who = (i, slug)" by (cases who)
  let ?h = "hashRefreshToken A tok" and ?h1 = "hashRefreshToken A (sd_Refresh d1)" and ?h2 = "hashRefreshToken A (sd_Refresh d2)"
  let ?r1 = "RevokeRefreshToken (sd_Now d1) ?h db" and ?r2 = "RevokeRefreshToken (sd_Now d2) ?h db1"
  have issue: "issueTokens A d1 i slug ?r1 = (db1, Inr tr1)" using Refresh_issues [OF assms(2)] who by simp
  then have db1: "db1 = StoreRefreshToken i ?h1 (sd_Now d1 + ae_RefreshTTL A) slug ?r1" and tok1: "tr_RefreshToken tr1 = sd_Refresh d1"
    by (auto elim: issueTokens_ok)
  have "same_people ?r1 ?r2" by (simp add: db1 same_people_def RevokeRefreshToken_def StoreRefreshToken_def)
  from issueTokens_again [OF issue this assms(3), of d2] obtain tr2 where
    again: "issueTokens A d2 i slug ?r2 = (StoreRefreshToken i ?h2 (sd_Now d2 + ae_RefreshTTL A) slug ?r2, Inr tr2)"
    and tok2: "tr_RefreshToken tr2 = sd_Refresh d2" by blast
  let ?db2 = "StoreRefreshToken i ?h2 (sd_Now d2 + ae_RefreshTTL A) slug ?r2"
  have ne: "?h \<noteq> ?h1" "?h1 \<noteq> ?h2" "?h \<noteq> ?h2" using assms(4) by auto
  have w2: "Refresh_writes A d2 tok who db1 = (?db2, [ok_audit EventRefresh (Some i)], Inr tr2)"
    by (simp add: Refresh_writes_def who again)
  have v1: "FindValidRefresh (sd_Now d2) ?h1 ?db2 = Some who"
    using FindValidRefresh_other(2) [OF ne(2)] FindValidRefresh_other(1) [OF ne(1) [symmetric]] FindValidRefresh_stored [of ?h1 ?r1] assms(5,8)
    by (simp add: db1 who)
  have v2: "FindValidRefresh (sd_Now d2) ?h2 ?db2 = Some who"
    using FindValidRefresh_stored [of ?h2 ?r2 "sd_Now d2"] assms(6,7) ne by (simp add: db1 who)
  have "FindValidRefresh (sd_Now d2) ?h db1 = None"
    unfolding db1 by (simp add: FindValidRefresh_other(2) [OF ne(1)] FindValidRefresh_revoked)
  moreover have "tok \<noteq> []" using assms(1) by (auto simp: Refresh_reads_def)
  ultimately have "snd (snd (Refresh A d2 tok db1)) = Inl ErrRefreshRevoked" by (simp add: Refresh_def Refresh_reads_def)
  then show ?thesis using w2 v1 v2 tok1 tok2 by auto
qed

section \<open>The view of the tenants' model\<close>


section \<open>Registering twice\<close>

text \<open>What was encrypted is read back.\<close>

definition cipher_laws :: "uenv \<Rightarrow> bool" where
  "cipher_laws U \<longleftrightarrow> (\<forall>s c. te_encrypt (ue_T U) s = Inr c \<longrightarrow> te_decrypt (ue_T U) c = Inr s)"

lemma row_reads_back:
  assumes "cipher_laws U" and "domainToRow U u = Inr r"
  shows "rowToDomain U r = Inr u"
proof -
  obtain e n p where d: "te_encrypt (ue_T U) (us_Email u) = Inr e" "encrypt_opt U (us_DisplayName u) = Inr n"
      "encrypt_opt U (us_Phone u) = Inr p"
    and r: "r = \<lparr>uw_ID = us_ID u, uw_Username = us_Username u, uw_UsernameHash = us_UsernameHash u, uw_EmailHash = us_EmailHash u,
          uw_Email = e, uw_DisplayName = n, uw_Phone = p, uw_Preferences = us_Preferences u,
          uw_Status = us_Status u, uw_StatusVersion = us_StatusVersion u, uw_CreatedAt = us_CreatedAt u,
          uw_UpdatedAt = us_UpdatedAt u, uw_DeletedAt = us_DeletedAt u\<rparr>"
    using assms(2) by (auto simp: domainToRow_def and_then_Inr)
  have opt: "decrypt_opt U c = Inr s" if "encrypt_opt U s = Inr c" for s c
    using assms(1) that by (auto simp: encrypt_opt_def decrypt_opt_def cipher_laws_def and_then_Inr split: if_splits)
  have "te_decrypt (ue_T U) e = Inr (us_Email u)" using assms(1) d(1) unfolding cipher_laws_def by blast
  then show ?thesis using opt [OF d(2)] opt [OF d(3)] by (simp add: rowToDomain_def r)
qed

lemma Register_checks_insert:
  assumes "Register_checks U newID now inp db = Inr (Insert u ph key)"
  shows "NormalizeKey (ri_IdempotencyKey inp) = Inr key" and "key \<noteq> [] \<longrightarrow> UserIDByKey key db = None"
    and "normalizeUsername (ri_Username inp) = Inr (us_Username u)" and "normalizeEmail (ri_Email inp) = Inr (us_Email u)"
    and "te_index (ue_T U) (us_Username u) = Inr (us_UsernameHash u)" and "te_index (ue_T U) (us_Email u) = Inr (us_EmailHash u)"
    and "us_DisplayName u = ri_DisplayName inp" and "us_Phone u = ri_Phone inp" and "valid_register U inp"
  using assms by (auto simp: Register_checks_def and_then_Inr require_def split: option.splits if_splits)

lemma Create_user_row:
  assumes "Create_user U w u ph key db = Inr db'" and "us_StatusVersion u = 1"
  shows "\<exists>row. domainToRow U u = Inr row \<and> ad_Users db' = ad_Users db @ [row]"
proof -
  obtain row db1 db2 tn slug where d: "domainToRow U u = Inr row" "CreateUser row db = Inr db1"
      "(if ph \<noteq> [] then InsertCredentialsTx (us_ID u) ph db1 else Inr db1) = Inr db2"
      "(let db = enqueueUserEvent (dw_Event w) (dw_Now w) u EventUserCreated 1 (db2\<lparr>ad_Tenancy := tn\<rparr>) in
        if key \<noteq> [] then RecordTx key (us_ID u) db else Inr db) = Inr db'"
    using assms by (auto simp: Create_user_def and_then_Inr)
  have "ad_Users db2 = ad_Users db1" using d(3) by (auto simp: InsertCredentialsTx_def split: if_splits)
  moreover have "ad_Users db' = ad_Users db2" using d(4) by (auto simp: Let_def RecordTx_def split: if_splits)
  ultimately show ?thesis using d(1,2) by (auto simp: CreateUser_Inr)
qed

text \<open>
  C0: A retry of a registration under one key is replayed when it comes later and refused when it
  races.  The later call answers the account of the first and changes nothing; a call that had read
  before the first committed is refused with a conflict, because the insert meets the index of the
  user names before the key it is meant to be recognised by, although the key is there.
\<close>

theorem racing_registration_retry_is_refused:
  assumes "cipher_laws U" and "NormalizeKey (ri_IdempotencyKey inp) = Inr key" and "key \<noteq> []"
    and "Register_checks U id1 now1 inp db = Inr (Insert u1 ph1 key)" and "Register_commit U w1 (Insert u1 ph1 key) db = (db1, Inr (dto1, False))"
    and "Register_checks U id2 now2 inp db = Inr (Insert u2 ph2 key)" and "id2 \<noteq> id1" and "id2 \<notin> uw_ID ` set (ad_Users db)"
  shows "Register U w2 id2 inp db1 = (db1, Inr (dto1, True)) \<and>
    Register_commit U w2 (Insert u2 ph2 key) db1 = (db1, Inl ErrUsernameTaken) \<and> UserIDByKey key db1 = Some id1"
proof -
  note c1 = Register_checks_insert [OF assms(4)] and c2 = Register_checks_insert [OF assms(6)]
  have u1: "us_ID u1 = id1" "us_StatusVersion u1 = 1" using Register_checks_user [OF assms(4)] by auto
  have u2: "us_ID u2 = id2" "us_StatusVersion u2 = 1" using Register_checks_user [OF assms(6)] by auto
  have create: "Create_user U w1 u1 ph1 key db = Inr db1" and dto1: "dto1 = toDTO u1 True"
    using assms(5) by (auto simp: Register_commit_def and_then_Inr split: sum.splits option.splits if_splits)
  obtain row where row: "domainToRow U u1 = Inr row" "ad_Users db1 = ad_Users db @ [row]"
    using Create_user_row [OF create u1(2)] by blast
  have eff: "uw_ID row \<notin> uw_ID ` set (ad_Users db)" "ad_Keys db1 = ad_Keys db @ [(key, id1)]"
    using Create_user_Inr [OF create u1(2)] row(2) assms(3) u1(1) by auto
  have key: "UserIDByKey key db1 = Some id1"
    using c1(2) assms(3) eff(2) by (simp add: UserIDByKey_def map_add_def)
  have rid: "uw_ID row = id1" using domainToRow_person [OF row(1)] u1 by (simp add: same_person_def)
  have "find (\<lambda>r. uw_ID r = id1) (xs @ [row]) = Some row" if "id1 \<notin> uw_ID ` set xs" for xs
    using that rid by (induction xs) auto
  then have "ByID_user U id1 db1 = Inr u1"
    using eff(1) rid row_reads_back [OF assms(1) row(1)] by (simp add: ByID_user_def one_user_def row(2))
  then have replay: "Register U w2 id2 inp db1 = (db1, Inr (dto1, True))"
    using assms(2,3) key c1(9) by (simp add: Register_def Register_checks_def Register_commit_def dto1 require_def)
  have same: "us_Email u2 = us_Email u1" "us_Username u2 = us_Username u1" "us_DisplayName u2 = us_DisplayName u1" "us_Phone u2 = us_Phone u1"
    using c1(3,4,7,8) c2(3,4,7,8) by simp_all
  have hash: "us_UsernameHash u2 = us_UsernameHash u1" using c1(5) c2(5) same by simp
  obtain row2 where row2: "domainToRow U u2 = Inr row2" using row(1) same by (auto simp: domainToRow_def and_then_Inr)
  have "uw_ID row2 = id2" "uw_UsernameHash row2 = uw_UsernameHash row"
    using domainToRow_person [OF row2] domainToRow_person [OF row(1)] u2 hash by (simp_all add: same_person_def)
  then have "CreateUser row2 db1 = Inl ErrUsernameTaken" using assms(7,8) rid by (auto simp: CreateUser_def row(2))
  then have "Create_user U w2 u2 ph2 key db1 = Inl ErrUsernameTaken" using u2(2) row2 by (simp add: Create_user_def)
  then have "Register_commit U w2 (Insert u2 ph2 key) db1 = (db1, Inl ErrUsernameTaken)"
    by (simp add: Register_commit_def ErrUsernameTaken_def key_violation_def)
  then show ?thesis using replay key by simp
qed

section \<open>The promises at concrete calls\<close>

lemma open_cipher: "cipher_laws open_uenv"
  by (auto simp: cipher_laws_def open_uenv_def)

theorem racing_registration_retry_is_refused_witness:
  "snd (Register open_uenv (draw_at 7) ''u2'' ann_input ann_db) = Inr (toDTO ann True, True) \<and>
   snd (Register_commit open_uenv (draw_at 7) (Insert (ann\<lparr>us_ID := ''u2''\<rparr>) ''password1'' ''key-12345'') ann_db) = Inl ErrUsernameTaken"
proof -
  have key: "NormalizeKey (ri_IdempotencyKey ann_input) = Inr ''key-12345''" using ann_key by (simp add: ann_input_def)
  have c2: "Register_checks open_uenv ''u2'' 0 ann_input no_accounts = Inr (Insert (ann\<lparr>us_ID := ''u2''\<rparr>) ''password1'' ''key-12345'')"
    by (rule ann_checks_of) (simp_all add: no_accounts_def)
  have "case Create_user open_uenv (draw_at 0) ann ''password1'' ''key-12345'' no_accounts of Inl _ \<Rightarrow> False | Inr _ \<Rightarrow> True" by code_simp
  then have c1: "Register_commit open_uenv (draw_at 0) (Insert ann ''password1'' ''key-12345'') no_accounts = (ann_db, Inr (toDTO ann True, False))"
    by (auto simp: ann_db_def Register_commit_def split: sum.splits)
  have "''u2'' \<noteq> ''u1''" "''key-12345'' \<noteq> []" "''u2'' \<notin> uw_ID ` set (ad_Users no_accounts)" by (simp_all add: no_accounts_def)
  then show ?thesis
    using racing_registration_retry_is_refused [OF open_cipher key _ ann_checks c1 c2] by simp
qed

text \<open>A library that signs every claim set as one token and accepts the last it signed.\<close>

definition ann_claims :: claims where
  "ann_claims = no_claims\<lparr>c_Roles := [], c_TenantID := ''t1'', c_TenantRole := ''owner'', c_Region := [], c_MFA := False,
     c_Subject := ''u1'', c_IssuedAt := 10, c_ExpiresAt := 910\<rparr>"

definition ann_auth :: auth_env where
  "ann_auth = \<lparr>ae_U = open_uenv, ae_Verify = (=), ae_JWT = sample_jwt ''k'' ann_claims, ae_Signer = sample_signer, ae_RefreshTTL = 1000\<rparr>"

abbreviation ann_login :: auth_answer where
  "ann_login \<equiv> Login ann_auth \<lparr>sd_Now = 10, sd_Refresh = ''r1''\<rparr> ''A@b'' ''password1'' ann_db"

lemma ann_logs_in:
  "case snd (snd ann_login) of Inl _ \<Rightarrow> False
   | Inr tr \<Rightarrow> tr_AccessToken tr = ''t'' \<and> tr_UserID tr = ''u1'' \<and> tr_TenantID tr = ''t1'' \<and> tr_RefreshToken tr = ''r1''"
  by code_simp

theorem tokens_show_the_live_account_witness:
  "\<exists>tr sub. snd (snd ann_login) = Inr tr \<and>
     subjectFromBearer Some (sample_jwt ''k'' ann_claims) sample_signer 20 (''Bearer '' @ tr_AccessToken tr) = Some sub \<and>
     UserStatusByID (UserID sub) ann_db = Some StatusActive \<and> TenantID sub = ''t1'' \<and> TenantRole sub = ''owner''"
proof -
  obtain tr where tr: "snd (snd ann_login) = Inr tr" "tr_AccessToken tr = ''t''" "tr_UserID tr = ''u1''" "tr_TenantID tr = ''t1''"
    using ann_logs_in by (cases "snd (snd ann_login)") simp_all
  then have login: "ann_login = (fst ann_login, fst (snd ann_login), Inr tr)" by (metis prod.collapse)
  have "case subjectFromBearer Some (sample_jwt ''k'' ann_claims) sample_signer 20 ''Bearer t'' of None \<Rightarrow> False
      | Some sub \<Rightarrow> TenantRole sub = ''owner''" by code_simp
  then obtain sub where sub: "subjectFromBearer Some (sample_jwt ''k'' ann_claims) sample_signer 20 (''Bearer '' @ tr_AccessToken tr) = Some sub"
      "TenantRole sub = ''owner''" using tr(2) by (auto split: option.splits)
  have sub': "subjectFromBearer Some (ae_JWT ann_auth) (ae_Signer ann_auth) 20 (''Bearer '' @ tr_AccessToken tr) = Some sub"
    using sub(1) by (simp add: ann_auth_def)
  have "jwt_laws (ae_JWT ann_auth)" using sample_jwt_laws by (simp add: ann_auth_def)
  from tokens_show_the_live_account [OF this refl _ sub', of _ "''A@b''"] login
  have "UserStatusByID (UserID sub) ann_db = Some StatusActive \<and> TenantID sub = tr_TenantID tr" by blast
  then show ?thesis using tr sub by auto
qed

text \<open>A library that signs everything, for races of refreshes.\<close>

definition signing_auth :: auth_env where
  "signing_auth = ann_auth\<lparr>ae_JWT := \<lparr>jwt_sign = \<lambda>_ _ _. Some ''t'', jwt_parse = \<lambda>_ _ _. None\<rparr>\<rparr>"

definition ann_session :: account_db where
  "ann_session = StoreRefreshToken ''u1'' ''r0'' 500 ''t1'' ann_db"

theorem one_refresh_token_starts_two_sessions_witness:
  "\<exists>db1 db2. fst (Refresh_writes signing_auth \<lparr>sd_Now = 20, sd_Refresh = ''r1''\<rparr> ''r0'' (''u1'', ''t1'') ann_session) = db1 \<and>
     fst (Refresh_writes signing_auth \<lparr>sd_Now = 21, sd_Refresh = ''r2''\<rparr> ''r0'' (''u1'', ''t1'') db1) = db2 \<and>
     FindValidRefresh 21 ''r1'' db2 = Some (''u1'', ''t1'') \<and> FindValidRefresh 21 ''r2'' db2 = Some (''u1'', ''t1'') \<and>
     snd (snd (Refresh signing_auth \<lparr>sd_Now = 21, sd_Refresh = ''r2''\<rparr> ''r0'' db1)) = Inl ErrRefreshRevoked"
proof -
  let ?d1 = "\<lparr>sd_Now = 20, sd_Refresh = ''r1''\<rparr>" and ?d2 = "\<lparr>sd_Now = 21, sd_Refresh = ''r2''\<rparr>"
  let ?w = "Refresh_writes signing_auth ?d1 ''r0'' (''u1'', ''t1'') ann_session"
  have reads: "Refresh_reads signing_auth 20 ''r0'' ann_session = ([], Inr (''u1'', ''t1''))" by code_simp
  have "case snd (snd ?w) of Inl _ \<Rightarrow> False | Inr tr \<Rightarrow> tr_RefreshToken tr = ''r1''" by code_simp
  then obtain tr1 where "snd (snd ?w) = Inr tr1" "tr_RefreshToken tr1 = ''r1''" by (cases "snd (snd ?w)") simp_all
  then have w: "?w = (fst ?w, fst (snd ?w), Inr tr1)" by (metis prod.collapse)
  have h: "hashRefreshToken signing_auth = (\<lambda>s. s)"
    by (simp add: fun_eq_iff hashRefreshToken_def signing_auth_def ann_auth_def open_uenv_def)
  have "map sn_TokenHash (ad_Sessions ann_session) = [''r0'']" by code_simp
  then have fresh: "sn_TokenHash ` set (ad_Sessions ann_session) = {''r0''}" by (metis list.set_map list.simps(15) set_empty2 empty_set)
  have ttl: "ae_RefreshTTL signing_auth = 1000" by (simp add: signing_auth_def ann_auth_def)
  have signs: "jwt_sign (ae_JWT signing_auth) ''HS256'' key c \<noteq> None" for key c by (simp add: signing_auth_def)
  from one_refresh_token_starts_two_sessions [OF reads w signs, of ?d2] obtain db2 trail2 tr2 where
    "Refresh_writes signing_auth ?d2 ''r0'' (''u1'', ''t1'') (fst ?w) = (db2, trail2, Inr tr2)"
    "FindValidRefresh 21 (tr_RefreshToken tr1) db2 = Some (''u1'', ''t1'')" "FindValidRefresh 21 (tr_RefreshToken tr2) db2 = Some (''u1'', ''t1'')"
    "snd (snd (Refresh signing_auth ?d2 ''r0'' (fst ?w))) = Inl ErrRefreshRevoked"
    by (auto simp: h fresh ttl)
  moreover from this(1) have "tr_RefreshToken tr2 = ''r2''" by (rule Refresh_issues [THEN issueTokens_ok]) simp
  ultimately show ?thesis using \<open>tr_RefreshToken tr1 = ''r1''\<close> by (intro exI [of _ "fst ?w"] exI [of _ db2]) simp
qed


end
