(* ===== verification/Spec2Isabelle.thy ===== *)
theory Spec2Isabelle
  imports Schema_Promises Read_Promises Rewrite_Gaps Media_Promises Outbox_Runs Rate_Limits Migration_Runs Session_Promises
begin

text \<open>
  A verification library of SaaSForge (\<open>github.com/williamlabdev/saas-forge\<close>), a
  multi-tenant platform written in Go whose core is a headless content management system:
  tenants define content types at run time, people and software agents write entries of
  them, and every request is decided by one of two interchangeable authorizers.

  \<^bold>\<open>The program and the theories.\<close>  Paths are under \<open>src/internal/\<close>.

  \<^item> \<open>SF_Prelude\<close>: error results and early returns, the loop shapes the code repeats, tables
    with a key, and the contract \<open>machine\<close> of a component with state.
  \<^item> \<open>Go_Text\<close>: what the code uses of Go's \<open>strings\<close>, \<open>unicode/utf8\<close> and \<open>time\<close>: strings are
    bytes, runes are decoded from UTF-8, dates and timestamps are recognised.
  \<^item> \<open>Json_Value\<close>: JSON documents (\<open>map[string]any\<close> is an association list in the order
    \<open>range\<close> visits it), float64 with exact finite values, and \<open>AppError\<close> (\<open>pkg/errors\<close>).
  \<^item> \<open>Roles\<close>: the role tables of \<open>tenant/domain/tenant.go\<close> and the normalisation of role
    lists in \<open>cms/content/service/type_permission.go\<close>.
  \<^item> \<open>Field_Model\<close>, \<open>Field_Constraints\<close>, \<open>Rich_Text\<close>: \<open>cms/content/domain\<close>, the field and
    type records, value constraints with the test for a tightening, and rich text blocks.
  \<^item> \<open>Payload_Validation\<close>: \<open>cms/content/service/validate.go\<close>; \<open>payload_ok\<close> is the
    specification of a legal document, the validator decides it.
  \<^item> \<open>Schema_Artifact\<close> and \<open>Schema_Safety\<close>: \<open>artifact.go\<close>, \<open>artifact_component.go\<close> and
    \<open>artifact_diff.go\<close> in \<open>cms/content/domain\<close>; what an additive comparison promises.
  \<^item> \<open>Schema_Verbs\<close> and \<open>Schema_Guards\<close>: the verbs of \<open>service/schema_mutation.go\<close> and
    \<open>service/content_service.go\<close> over a store of types and entries, the counting queries of
    \<open>repository/postgres_repository.go\<close> they are guarded by, and what they keep legal.
  \<^item> \<open>Component_Verbs\<close>, \<open>Component_Safety\<close>, \<open>Component_Guards\<close>: reusable components
    (\<open>service/component.go\<close>, \<open>repository/postgres_components.go\<close>, the SQL functions of migrations
    44 and 45), how a change of a component reaches the items inside documents, and what each
    verb's guard or rewrite keeps legal; \<open>Schema_Histories\<close> composes all schema verbs.
  \<^item> \<open>Schema_Plan\<close>, \<open>Schema_Proposals\<close>: what applying an artifact would do, its execution through
    the verbs, and the proposals an approval applies (\<open>artifact_apply.go\<close>, \<open>schema_proposal.go\<close>);
    \<open>Schema_Applied\<close> shows that a plan leaves the verbs no unguarded input, \<open>Schema_Promises\<close> states
    the properties.
  \<^item> \<open>Authz\<close>: \<open>pkg/authn/subject.go\<close> and \<open>pkg/authz\<close>, with the Rego policy rule by rule;
    the contract \<open>authorizer\<close> is interpreted by both authorizers.
  \<^item> \<open>Credentials\<close>: \<open>auth/jwt/token.go\<close>, the middlewares of \<open>pkg/authn\<close>, and the revocable
    agent credentials of \<open>auth/service\<close> and \<open>auth/repository\<close>.
  \<^item> \<open>Tenants\<close>: \<open>tenant/service\<close> over \<open>tenant/repository\<close>, with an abstract view of accounts
    and sessions.
  \<^item> \<open>Accounts\<close>, \<open>Account_Runs\<close>: the user module (\<open>user/service\<close>, \<open>user/repository\<close>) over its tables,
    at the grain of statements and transactions, with its events; runs of it as an inductive
    relation.
  \<^item> \<open>Sessions\<close>, \<open>Session_Promises\<close>: login, refresh, switch of tenant and platform roles
    (\<open>auth/service/auth_service.go\<close>, \<open>iam\<close>); tokens against the live account, racing calls, and
    how the tables implement the view of \<open>Tenants\<close>.

  The entries themselves, in \<open>cms/content\<close>, are modelled in this order.

  \<^item> \<open>Entry_Permissions\<close>: field and collection permissions, confinement to own entries and the
    chokepoint \<open>authorize\<close> (\<open>service/field_permission.go\<close>, \<open>type_permission.go\<close>).
  \<^item> \<open>Entry_Rendering\<close>, \<open>Search_Text\<close>: the row of an entry, its projection for an audience with
    the last masking (\<open>service/dto.go\<close>), the text extracted for search and its snippets.
  \<^item> \<open>Entry_Store\<close>, \<open>Entry_Links\<close>: the tables of entries, revisions, releases, schedules,
    decisions, links and reserved values as the record \<open>entry_db\<close>, one function per transaction
    of \<open>repository/\<close>; the walk that collects the references of a document.
  \<^item> \<open>Entry_Activity\<close>, \<open>Entry_Service\<close>, \<open>Entry_Releases\<close>, \<open>Entry_Schedules\<close>: the audit line of a
    call, then the calls of \<open>service/content_service.go\<close>, \<open>publish_revision.go\<close>,
    \<open>review_decision.go\<close>, \<open>pending_review.go\<close>, \<open>schedule.go\<close> and the worker of \<open>scheduler/\<close>.
  \<^item> \<open>Entry_Effects\<close>, \<open>Entry_Lifecycle\<close>, \<open>Entry_Histories\<close>, \<open>Entry_Runs\<close>: what every transaction
    preserves, the abstract life cycle of one document, histories of transactions as an
    inductive relation, and runs of the worker; \<open>Entry_Promises\<close> and \<open>Entry_Gaps\<close> state the
    properties of the write side on them.
  \<^item> \<open>Time_Text\<close>, \<open>Entry_Queries\<close>, \<open>Entry_Populate\<close>, \<open>Entry_Reads\<close>: timestamps as text, the
    filters, sorts and projections of a list and the query they become, relation expansion, and
    the reads of \<open>content_service.go\<close>, \<open>cursor.go\<close>, \<open>search.go\<close> and \<open>locales.go\<close>.
  \<^item> \<open>Entry_Pages\<close>, \<open>Entry_Disclosure\<close>, \<open>Entry_Expansion\<close>, \<open>Delivery_Usage\<close>: paging by cursor over
    the contract \<open>keyset\<close> of an order, what a delivery credential can learn, the bounds of an
    expansion, and the read counter under interleaving (\<open>delivery_usage.go\<close>);
    \<open>Read_Promises\<close> states the properties of the read side.

  Three more services are modelled on their own.

  \<^item> \<open>Outbox\<close>, \<open>Outbox_Runs\<close>: the integration events a write leaves in its transaction, their
    claims, deliveries and marks (\<open>pkg/outbox\<close>, \<open>pkg/mcp/http_client.go\<close>), and runs of several
    workers as an inductive relation.
  \<^item> \<open>Rate_Limits\<close>: \<open>pkg/ratelimit\<close>, the fixed-window limiter and the budget of an agent, against
    a limiter for a single key.
  \<^item> \<open>Migrations\<close>, \<open>Migration_Runs\<close>: \<open>platform/migrate\<close>, the ledger of migrations, the boot gate,
    and racing calls as an inductive relation over their transactions.

  \<^bold>\<open>How state is represented.\<close>  A service over tables is a function from the tables to an
  error or to the tables it leaves; where a failing call may have written, it returns both.
  A repository transaction is one function: the row locks serialise it.  Where a service
  checks outside the transaction that writes, the two parts are separate definitions and
  the interleaving is stated.  The clock, fresh identifiers and random tokens are arguments.

  \<^bold>\<open>Outside functions.\<close>  \<open>uuid.Parse\<close>, the regular expression engine, the JWT library, hashing,
  encryption, the struct validator and the authorizer a service was built with are arguments
  of the definitions; what a theorem needs of them is a named hypothesis (\<open>jwt_laws\<close>,
  \<open>canonical_parser\<close>, \<open>canonical_id\<close>).  What PostgreSQL computes on texts (casts to numbers and
  times, \<open>ILIKE\<close>, the text of a JSON value) and \<open>strconv.ParseFloat\<close> are the record \<open>sql\<close>.  A cursor
  is the JSON under its base64.

  \<^bold>\<open>What the lemmas show.\<close>  The validators decide stated specifications, with located errors;
  schema changes the code lets through keep stored documents legal, and so do comparisons
  that report only additive changes; an applied plan is a history of guarded verbs, and a proposal
  is decided once, as reviewed; the Go table and the Rego policy agree; an agent reaches
  no more than its minter and nothing once revoked; a tenant keeps an owner, and an invite is
  used at most once.  A save or release never overwrites one it has not seen; every transaction
  keeps the tables sound and refines the life cycle of each document; a schedule that is due is
  settled, and releases what was filed.  Following cursors ends and reaches every match once; a
  delivery credential learns released content only; an expansion stays in its bounds; no counted
  read is lost.  An event is never lost and settled by any one worker; an agent's budget is its own;
  migrations run once and in order; a token shows the account as it is when it is minted.
  Several theorems record where the code does otherwise than it says.

  \<^bold>\<open>Termination.\<close>  The validators recurse on the document, bounded by the nesting of the field
  list (component sub-fields carry none); the rune decoder consumes at least one byte; the
  slug retry of tenant provisioning is bounded by \<open>slugAttempts\<close>; an expansion recurses on the
  forest of its paths.  The one use of fuel is the client that follows cursors (\<open>page_through\<close>):
  any fuel above the number of matching entries returns them all.

  \<^bold>\<open>Not modelled.\<close>  HTTP handlers, configuration and wiring; notifications and the platform console; media, webhooks and the listing of the audit log; generated
  code; SQL beyond what each query selects and changes.
\<close>

end
